(* ===== verification/Prelude.thy ===== *)
theory Prelude
  imports Main "HOL-Library.AList" "HOL-Library.Char_ord" "HOL-Library.List_Lexorder" "HOL-Library.Word"
begin

text \<open>
  What every other theory of the development shares: the program's error values
  (Go's \<open>error\<close> interface as one datatype, with \<open>errors.Is\<close>), the
  validation maps of internal/apperr, a state-and-error monad for code that
  changes saved or live state, the pre/postcondition rules to reason about it, and
  a few facts on lists the components have in common.

  A Go \<open>string\<close> is a \<open>char list\<close> of bytes, a Go \<open>map[string]string\<close> of field
  messages is an association list updated by key, a \<open>time.Time\<close> is the number of
  nanoseconds since 1970 as an \<open>int\<close>.
\<close>

section \<open>Named collections\<close>

named_theorems prog_rules \<open>pre/postcondition rules of the state-and-error monad\<close>
named_theorems prog_defs \<open>definitions that unfold a program of the monad\<close>

section \<open>Errors\<close>

datatype Kind = Invalid | NotFound | Conflict | Unavailable | Upstream

type_synonym fields = "(string \<times> string) list"

text \<open>
  One constructor per sentinel or error type the packages declare. \<open>Errorf msg e\<close> is
  \<open>fmt.Errorf("msg: %w", e)\<close>, \<open>Errorf2 msg a b\<close> the same with two errors, \<open>SqliteError code msg\<close> what the
  SQLite driver returns, \<open>NewError msg\<close> an \<open>errors.New\<close> of no named variable (or the failure of a library
  call), \<open>AppError\<close> the struct \<open>apperr.Error\<close>, \<open>HttpError\<close> the struct \<open>httpx.Error\<close>, \<open>Join\<close> the result
  of \<open>errors.Join\<close>.
\<close>

datatype err =
    ErrNotFound
  | ErrDuplicate
  | DuplicateError string
  | ErrSubnetFull
  | ErrInvalidKey
  | ErrSplitTunnel
  | ErrOffline
  | DockerNotFound
  | DockerUnavailable
  | ErrNotDeployed
  | BootError string "string list"
  | SqliteError int string
  | NewError string
  | Errorf string err
  | Errorf2 string err err
  | AppError Kind string string fields "err option"
  | HttpError int string string fields
  | Join "err list"

text \<open>\<open>errors.Is\<close>: the error itself, its \<open>Is\<close> method, or anything it wraps.\<close>

fun errors_Is :: "err \<Rightarrow> err \<Rightarrow> bool" where
  "errors_Is (DuplicateError c) t = (t = ErrDuplicate \<or> t = DuplicateError c)"
| "errors_Is (Errorf m e) t = (t = Errorf m e \<or> errors_Is e t)"
| "errors_Is (Errorf2 m a b) t = (t = Errorf2 m a b \<or> errors_Is a t \<or> errors_Is b t)"
| "errors_Is (AppError k c m fs None) t = (t = AppError k c m fs None)"
| "errors_Is (AppError k c m fs (Some e)) t = (t = AppError k c m fs (Some e) \<or> errors_Is e t)"
| "errors_Is (Join es) t = (t = Join es \<or> (\<exists>e \<in> set es. errors_Is e t))"
| "errors_Is e t = (e = t)"

text \<open>\<open>errors.Join\<close>: nil when every error is nil, else the ones that are not.\<close>

definition errors_Join :: "err option list \<Rightarrow> err option" where
  "errors_Join es = (case List.map_filter id es of [] \<Rightarrow> None | es' \<Rightarrow> Some (Join es'))"

text \<open>\<open>maps.Copy(dst, src)\<close>: later values win.\<close>

definition maps_Copy :: "fields \<Rightarrow> fields \<Rightarrow> fields" where
  "maps_Copy dst src = fold (\<lambda>(k, v). AList.update k v) src dst"

definition apperr_New :: "Kind \<Rightarrow> string \<Rightarrow> string \<Rightarrow> err" where
  "apperr_New kind code message = AppError kind code message [] None"

definition apperr_Fields :: "fields list \<Rightarrow> err option" where
  "apperr_Fields fs =
     (let all = fold (\<lambda>f a. maps_Copy a f) fs []
      in if all = [] then None
         else Some (AppError Invalid ''validation_failed'' ''some fields are invalid'' all None))"

definition apperr_Field :: "string \<Rightarrow> string \<Rightarrow> err" where
  "apperr_Field name message =
     AppError Invalid ''validation_failed'' ''some fields are invalid'' [(name, message)] None"

lemma update_not_Nil [simp]: "AList.update k v xs \<noteq> []"
  by (cases xs) auto

lemma maps_Copy_Nil [simp]: "maps_Copy a [] = a"
  by (simp add: maps_Copy_def)

lemma maps_Copy_eq_Nil [simp]: "maps_Copy a b = [] \<longleftrightarrow> a = [] \<and> b = []"
proof (induction b arbitrary: a)
  case Nil
  then show ?case by simp
next
  case (Cons x b)
  then show ?case by (cases x) (simp add: maps_Copy_def)
qed

lemma map_of_maps_Copy:
  "map_of (maps_Copy a b) k = (case map_of (rev b) k of None \<Rightarrow> map_of a k | Some v \<Rightarrow> Some v)"
proof (induction b arbitrary: a)
  case Nil
  then show ?case by simp
next
  case (Cons x b)
  then show ?case
    by (cases x) (auto simp: maps_Copy_def update_conv' map_add_def split: option.splits)
qed

lemma apperr_Fields_None: "apperr_Fields fs = None \<longleftrightarrow> (\<forall>f \<in> set fs. f = [])"
proof -
  have "fold (\<lambda>f a. maps_Copy a f) fs a = [] \<longleftrightarrow> a = [] \<and> (\<forall>f \<in> set fs. f = [])" for a
    by (induction fs arbitrary: a) auto
  then show ?thesis by (simp add: apperr_Fields_def Let_def)
qed

text \<open>\<open>apperr.Field\<close> is \<open>apperr.Fields\<close> of the one-entry map.\<close>

lemma apperr_Field_eq: "apperr_Fields [[(name, message)]] = Some (apperr_Field name message)"
  by (simp add: apperr_Fields_def apperr_Field_def maps_Copy_def)

lemma errors_Join_None: "errors_Join es = None \<longleftrightarrow> (\<forall>e \<in> set es. e = None)"
proof -
  have "List.map_filter id es = [] \<longleftrightarrow> (\<forall>e \<in> set es. e = None)"
    by (induction es) (auto simp: List.map_filter_simps split: option.splits)
  then show ?thesis
    by (cases "List.map_filter id es") (simp_all add: errors_Join_def)
qed

section \<open>A state-and-error monad\<close>

text \<open>
  A Go function that changes state and returns \<open>(T, error)\<close> is a \<open>prog\<close>: it takes the state and
  returns the error or the value together with the state it leaves, also when it fails.
\<close>

type_synonym ('s, 'a) prog = "'s \<Rightarrow> (err + 'a) \<times> 's"

definition ret :: "'a \<Rightarrow> ('s, 'a) prog" where
  "ret x = (\<lambda>s. (Inr x, s))"

definition throw :: "err \<Rightarrow> ('s, 'a) prog" where
  "throw e = (\<lambda>s. (Inl e, s))"

definition bnd :: "('s, 'a) prog \<Rightarrow> ('a \<Rightarrow> ('s, 'b) prog) \<Rightarrow> ('s, 'b) prog" where
  "bnd m f = (\<lambda>s. case m s of (Inl e, s') \<Rightarrow> (Inl e, s') | (Inr x, s') \<Rightarrow> f x s')"

definition thn :: "('s, 'a) prog \<Rightarrow> ('s, 'b) prog \<Rightarrow> ('s, 'b) prog" where
  "thn m n = bnd m (\<lambda>_. n)"

text \<open>\<open>attempt\<close> hands the error to the code that follows, for \<open>if err != nil\<close> that does not return.\<close>

definition attempt :: "('s, 'a) prog \<Rightarrow> ('s, err + 'a) prog" where
  "attempt m = (\<lambda>s. case m s of (r, s') \<Rightarrow> (Inr r, s'))"

definition liftE :: "err + 'a \<Rightarrow> ('s, 'a) prog" where
  "liftE r = (\<lambda>s. (r, s))"

definition gets :: "('s \<Rightarrow> 'a) \<Rightarrow> ('s, 'a) prog" where
  "gets f = (\<lambda>s. (Inr (f s), s))"

definition modify :: "('s \<Rightarrow> 's) \<Rightarrow> ('s, unit) prog" where
  "modify f = (\<lambda>s. (Inr (), f s))"

definition failOn :: "err option \<Rightarrow> ('s, unit) prog" where
  "failOn e = (case e of None \<Rightarrow> ret () | Some e \<Rightarrow> throw e)"

primrec forEach :: "'a list \<Rightarrow> ('a \<Rightarrow> ('s, unit) prog) \<Rightarrow> ('s, unit) prog" where
  "forEach [] f = ret ()"
| "forEach (x # xs) f = thn (f x) (forEach xs f)"

text \<open>\<open>mapErr h m\<close> is \<open>if err != nil { return h(err) }\<close> after \<open>m\<close>.\<close>

definition mapErr :: "(err \<Rightarrow> err) \<Rightarrow> ('s, 'a) prog \<Rightarrow> ('s, 'a) prog" where
  "mapErr h m = (\<lambda>s. case m s of (Inl e, s') \<Rightarrow> (Inl (h e), s') | (Inr x, s') \<Rightarrow> (Inr x, s'))"

lemmas prog_unfold =
  ret_def throw_def bnd_def thn_def attempt_def liftE_def gets_def modify_def failOn_def mapErr_def

lemma ret_run [simp]: "ret x s = (Inr x, s)" by (simp add: ret_def)
lemma throw_run [simp]: "throw e s = (Inl e, s)" by (simp add: throw_def)
lemma gets_run [simp]: "gets f s = (Inr (f s), s)" by (simp add: gets_def)
lemma modify_run [simp]: "modify f s = (Inr (), f s)" by (simp add: modify_def)
lemma liftE_run [simp]: "liftE r s = (r, s)" by (simp add: liftE_def)

lemma failOn_simps [simp]: "failOn None = ret ()" "failOn (Some e) = throw e"
  by (simp_all add: failOn_def)

lemma bnd_ret [simp]: "bnd (ret x) f = f x"
  by (rule ext) (simp add: bnd_def)

lemma bnd_ret_right [simp]: "bnd m ret = m"
  by (rule ext) (auto simp: bnd_def split: prod.splits sum.splits)

lemma bnd_assoc: "bnd (bnd m f) g = bnd m (\<lambda>x. bnd (f x) g)"
  by (rule ext) (auto simp: bnd_def split: prod.splits sum.splits)

lemma bnd_throw [simp]: "bnd (throw e) f = throw e"
  by (rule ext) (simp add: bnd_def throw_def)

lemma bnd_run_Inr: "m s = (Inr x, s') \<Longrightarrow> bnd m f s = f x s'"
  by (simp add: bnd_def)

lemma bnd_run_Inl: "m s = (Inl e, s') \<Longrightarrow> bnd m f s = (Inl e, s')"
  by (simp add: bnd_def)

lemma bnd_InrE:
  assumes "bnd m f s = (Inr y, t)"
  obtains x s' where "m s = (Inr x, s')" and "f x s' = (Inr y, t)"
  using assms by (auto simp: bnd_def split: prod.splits sum.splits)

lemma thn_InrE:
  assumes "thn m n s = (Inr y, t)"
  obtains x s' where "m s = (Inr x, s')" and "n s' = (Inr y, t)"
  using assms by (auto simp: thn_def elim: bnd_InrE)

section \<open>Pre/postconditions\<close>

text \<open>
  \<open>triple P m Q E\<close>: from a state with \<open>P\<close>, a return of \<open>x\<close> leaves \<open>Q x\<close> and an error \<open>e\<close> leaves
  \<open>E e\<close>. \<open>keeps I m\<close> is the case that matters most: \<open>I\<close> survives \<open>m\<close> whether or not it fails.
\<close>

definition triple :: "('s \<Rightarrow> bool) \<Rightarrow> ('s, 'a) prog \<Rightarrow> ('a \<Rightarrow> 's \<Rightarrow> bool) \<Rightarrow> (err \<Rightarrow> 's \<Rightarrow> bool) \<Rightarrow> bool" where
  "triple P m Q E \<longleftrightarrow>
     (\<forall>s. P s \<longrightarrow> (case m s of (Inl e, s') \<Rightarrow> E e s' | (Inr x, s') \<Rightarrow> Q x s'))"

definition keeps :: "('s \<Rightarrow> bool) \<Rightarrow> ('s, 'a) prog \<Rightarrow> bool" where
  "keeps I m \<longleftrightarrow> (\<forall>s. I s \<longrightarrow> I (snd (m s)))"

lemma keepsI: "(\<And>s. I s \<Longrightarrow> I (snd (m s))) \<Longrightarrow> keeps I m"
  by (simp add: keeps_def)

lemma keepsD: "keeps I m \<Longrightarrow> I s \<Longrightarrow> I (snd (m s))"
  by (simp add: keeps_def)

lemma keeps_run: "keeps I m \<Longrightarrow> I s \<Longrightarrow> m s = (r, s') \<Longrightarrow> I s'"
  by (metis keepsD snd_conv)

lemma keeps_triple: "keeps I m \<longleftrightarrow> triple I m (\<lambda>_. I) (\<lambda>_. I)"
proof -
  have "(case r of (Inl e, s') \<Rightarrow> I s' | (Inr x, s') \<Rightarrow> I s') = I (snd r)" for r :: "(err + 'b) \<times> 'a"
    by (auto split: prod.splits sum.splits)
  then show ?thesis by (simp add: keeps_def triple_def)
qed

lemma triple_bnd:
  assumes "triple P m R E" and "\<And>x. triple (R x) (f x) Q E"
  shows "triple P (bnd m f) Q E"
  using assms unfolding triple_def bnd_def
  by (fastforce split: prod.splits sum.splits)

lemma triple_weaken:
  "triple P' m Q' E' \<Longrightarrow> (\<And>s. P s \<Longrightarrow> P' s) \<Longrightarrow> (\<And>x s. Q' x s \<Longrightarrow> Q x s) \<Longrightarrow> (\<And>e s. E' e s \<Longrightarrow> E e s)
   \<Longrightarrow> triple P m Q E"
  unfolding triple_def by (fastforce split: prod.splits sum.splits)

lemma tripleD_Inr: "triple P m Q E \<Longrightarrow> P s \<Longrightarrow> m s = (Inr x, s') \<Longrightarrow> Q x s'"
  by (fastforce simp: triple_def)

lemma tripleD_Inl: "triple P m Q E \<Longrightarrow> P s \<Longrightarrow> m s = (Inl e, s') \<Longrightarrow> E e s'"
  by (fastforce simp: triple_def)

lemma keeps_ret [prog_rules, intro]: "keeps I (ret x)" by (simp add: keeps_def)
lemma keeps_throw [prog_rules, intro]: "keeps I (throw e)" by (simp add: keeps_def)
lemma keeps_gets [prog_rules, intro]: "keeps I (gets f)" by (simp add: keeps_def)
lemma keeps_liftE [prog_rules, intro]: "keeps I (liftE r)" by (simp add: keeps_def)

lemma keeps_modify: "(\<And>s. I s \<Longrightarrow> I (f s)) \<Longrightarrow> keeps I (modify f)"
  by (simp add: keeps_def)

lemma keeps_bnd [prog_rules, intro]: "keeps I m \<Longrightarrow> (\<And>x. keeps I (f x)) \<Longrightarrow> keeps I (bnd m f)"
  unfolding keeps_def bnd_def by (fastforce split: prod.splits sum.splits)

lemma keeps_thn [prog_rules, intro]: "keeps I m \<Longrightarrow> keeps I n \<Longrightarrow> keeps I (thn m n)"
  unfolding thn_def by (rule keeps_bnd)

lemma keeps_attempt [prog_rules, intro]: "keeps I m \<Longrightarrow> keeps I (attempt m)"
  unfolding keeps_def attempt_def by (fastforce split: prod.splits)

lemma keeps_mapErr [prog_rules, intro]: "keeps I m \<Longrightarrow> keeps I (mapErr h m)"
  unfolding keeps_def mapErr_def by (fastforce split: prod.splits sum.splits)

lemma keeps_failOn [prog_rules, intro]: "keeps I (failOn e)"
  by (cases e) (auto intro: keeps_ret keeps_throw)

lemma keeps_forEach [prog_rules, intro]: "(\<And>x. x \<in> set xs \<Longrightarrow> keeps I (f x)) \<Longrightarrow> keeps I (forEach xs f)"
  by (induction xs) (auto intro: keeps_ret keeps_thn)

lemma keeps_if [prog_rules, intro]: "(b \<Longrightarrow> keeps I m) \<Longrightarrow> (\<not> b \<Longrightarrow> keeps I n) \<Longrightarrow> keeps I (if b then m else n)"
  by simp

lemma keeps_case_option [prog_rules, intro]:
  "(x = None \<Longrightarrow> keeps I m) \<Longrightarrow> (\<And>y. x = Some y \<Longrightarrow> keeps I (n y)) \<Longrightarrow>
   keeps I (case x of None \<Rightarrow> m | Some y \<Rightarrow> n y)"
  by (cases x) auto

lemma keeps_case_sum [prog_rules, intro]:
  "(\<And>e. x = Inl e \<Longrightarrow> keeps I (m e)) \<Longrightarrow> (\<And>y. x = Inr y \<Longrightarrow> keeps I (n y)) \<Longrightarrow>
   keeps I (case x of Inl e \<Rightarrow> m e | Inr y \<Rightarrow> n y)"
  by (cases x) auto

lemma keeps_case_prod [prog_rules, intro]:
  "(\<And>a b. x = (a, b) \<Longrightarrow> keeps I (m a b)) \<Longrightarrow> keeps I (case x of (a, b) \<Rightarrow> m a b)"
  by (cases x) auto

lemma keeps_Let [prog_rules, intro]: "(\<And>x. x = v \<Longrightarrow> keeps I (m x)) \<Longrightarrow> keeps I (let x = v in m x)"
  by simp

lemma keeps_conj: "keeps I m \<Longrightarrow> keeps J m \<Longrightarrow> keeps (\<lambda>s. I s \<and> J s) m"
  by (auto simp: keeps_def)

section \<open>Machine integers\<close>

text \<open>Go's \<open>int64\<close> sums wrap: the exact sum read back as a signed 64-bit word.\<close>

definition wrap64 :: "int \<Rightarrow> int" where
  "wrap64 x = sint (word_of_int x :: 64 word)"

definition int64_range :: "int \<Rightarrow> bool" where
  "int64_range x \<longleftrightarrow> - (2 ^ 63) \<le> x \<and> x < 2 ^ 63"

lemma wrap64_id: "int64_range x \<Longrightarrow> wrap64 x = x"
  by (simp add: wrap64_def int64_range_def sint_sbintrunc' signed_take_bit_int_eq_self)

lemma wrap64_range: "int64_range (wrap64 x)"
  using sint_range_size[of "word_of_int x :: 64 word"]
  by (simp add: wrap64_def int64_range_def word_size)

text \<open>Go's integer division truncates towards zero.\<close>

definition quot :: "int \<Rightarrow> int \<Rightarrow> int" where
  "quot a b = sgn a * sgn b * (\<bar>a\<bar> div \<bar>b\<bar>)"

lemma quot_nonneg [simp]: "0 \<le> a \<Longrightarrow> 0 < b \<Longrightarrow> quot a b = a div b"
  by (cases "a = 0") (auto simp: quot_def)

text \<open>\<open>t.Unix()\<close> of an instant in nanoseconds: the floor.\<close>

type_synonym gotime = int

abbreviation second :: int where "second \<equiv> 1000000000"

definition unix :: "gotime \<Rightarrow> int" where
  "unix t = t div second"

definition time_Unix :: "int \<Rightarrow> gotime" where
  "time_Unix s = s * second"

lemma unix_time_Unix [simp]: "unix (time_Unix s) = s"
  by (simp add: unix_def time_Unix_def)

lemma unix_mono: "a \<le> b \<Longrightarrow> unix a \<le> unix b"
  by (simp add: unix_def zdiv_mono1)

section \<open>Lists\<close>

lemma distinct_map_filter: "distinct (map f xs) \<Longrightarrow> distinct (map f (filter P xs))"
  by (induction xs) auto

lemma sorted_map_filter: "sorted (map f xs) \<Longrightarrow> sorted (map f (filter P xs))"
  by (rule sorted_filter)

lemma distinct_map_inj_on: "distinct (map f xs) \<Longrightarrow> x \<in> set xs \<Longrightarrow> y \<in> set xs \<Longrightarrow> f x = f y \<Longrightarrow> x = y"
  by (meson distinct_map inj_onD)

end
