(* ===== verification/Strings.thy ===== *)
theory Strings
  imports Prelude
begin

text \<open>
  The part of Go's standard library on text the program uses: strings as byte lists, the
  UTF-8 decoder behind \<open>range\<close> loops, \<open>strings.TrimSpace\<close>, \<open>strings.Map\<close>, \<open>strings.Split\<close>,
  \<open>strings.Join\<close>, \<open>strings.Cut\<close>, \<open>bytes.Index\<close>, \<open>strconv.Itoa\<close> and \<open>strconv.ParseInt\<close>, with the
  round trips the wg and store components rest on.
\<close>

section \<open>Bytes and runes\<close>

abbreviation byte :: "char \<Rightarrow> nat" where "byte c \<equiv> of_char c"

lemma byte_less [simp]: "byte c < 256"
proof -
  have "byte c \<in> {0..<256}" using range_nat_of_char by (metis rangeI)
  then show ?thesis by simp
qed

definition cont_byte :: "char \<Rightarrow> bool" where
  "cont_byte c \<longleftrightarrow> 128 \<le> byte c \<and> byte c \<le> 191"

text \<open>
  \<open>utf8.DecodeRune\<close>: the rune and its width. A byte that starts no valid encoding is
  U+FFFD of width 1. The second byte's range depends on the first, which shuts out overlong
  encodings, surrogates and values above U+10FFFF.
\<close>

definition second_ok :: "nat \<Rightarrow> char \<Rightarrow> bool" where
  "second_ok b c \<longleftrightarrow>
     (let n = byte c in
      if b = 224 then 160 \<le> n \<and> n \<le> 191
      else if b = 237 then 128 \<le> n \<and> n \<le> 159
      else if b = 240 then 144 \<le> n \<and> n \<le> 191
      else if b = 244 then 128 \<le> n \<and> n \<le> 143
      else 128 \<le> n \<and> n \<le> 191)"

definition RuneError :: nat where "RuneError = 65533"

fun DecodeRune :: "string \<Rightarrow> nat \<times> nat" where
  "DecodeRune [] = (RuneError, 0)"
| "DecodeRune (a # rest) =
     (let b = byte a in
      if b < 128 then (b, 1)
      else if 194 \<le> b \<and> b \<le> 223 then
        (case rest of c # _ \<Rightarrow>
           if second_ok b c then ((b mod 32) * 64 + byte c mod 64, 2) else (RuneError, 1)
         | _ \<Rightarrow> (RuneError, 1))
      else if 224 \<le> b \<and> b \<le> 239 then
        (case rest of c # d # _ \<Rightarrow>
           if second_ok b c \<and> cont_byte d
           then ((b mod 16) * 4096 + (byte c mod 64) * 64 + byte d mod 64, 3) else (RuneError, 1)
         | _ \<Rightarrow> (RuneError, 1))
      else if 240 \<le> b \<and> b \<le> 244 then
        (case rest of c # d # e # _ \<Rightarrow>
           if second_ok b c \<and> cont_byte d \<and> cont_byte e
           then ((b mod 8) * 262144 + (byte c mod 64) * 4096 + (byte d mod 64) * 64 + byte e mod 64, 4)
           else (RuneError, 1)
         | _ \<Rightarrow> (RuneError, 1))
      else (RuneError, 1))"

lemma DecodeRune_width: "0 < snd (DecodeRune (a # s))"
  by (auto simp: Let_def split: list.splits)

lemma DecodeRune_ascii: "byte a < 128 \<Longrightarrow> DecodeRune (a # s) = (byte a, 1)"
  by (simp add: Let_def)

declare DecodeRune.simps(2) [simp del]

lemma mod_block: "m * q \<le> x \<Longrightarrow> x < m * q + m \<Longrightarrow> x mod m = x - m * (q::nat)"
  by (metis add_diff_inverse_nat less_diff_conv2 mod_less mod_mult_self2 mult.commute not_less add.commute)

lemma lead_bits:
  "194 \<le> x \<Longrightarrow> x \<le> 223 \<Longrightarrow> 2 \<le> x mod (32::nat)"
  "160 \<le> x \<Longrightarrow> x \<le> 191 \<Longrightarrow> 32 \<le> x mod (64::nat)"
  "144 \<le> x \<Longrightarrow> x \<le> 191 \<Longrightarrow> 16 \<le> x mod (64::nat)"
  "225 \<le> x \<Longrightarrow> x \<le> 239 \<Longrightarrow> 1 \<le> x mod (16::nat)"
  "241 \<le> x \<Longrightarrow> x \<le> 244 \<Longrightarrow> 1 \<le> x mod (8::nat)"
  using mod_block[of 32 6 x] mod_block[of 64 2 x] mod_block[of 16 14 x] mod_block[of 8 30 x] by auto

text \<open>A byte above 127 never decodes to an ASCII rune.\<close>

lemma DecodeRune_high:
  assumes a: "128 \<le> byte a"
  shows "128 \<le> fst (DecodeRune (a # s))"
proof -
  have two: "128 \<le> x mod 32 * 64 + y" if "194 \<le> x" "x \<le> 223" for x y :: nat
    using lead_bits(1)[OF that] by linarith
  have thr: "128 \<le> x mod 16 * 4096 + y mod 64 * 64 + z" if "224 \<le> x" "x \<le> 239" "x = 224 \<longrightarrow> 160 \<le> y" "y \<le> 191" for x y z :: nat
  proof (cases "x = 224")
    case True
    then show ?thesis using lead_bits(2)[of y] that by simp
  next
    case False
    then show ?thesis using lead_bits(4)[of x] that by linarith
  qed
  have fou: "128 \<le> x mod 8 * 262144 + y mod 64 * 4096 + z + z'" if "240 \<le> x" "x \<le> 244" "x = 240 \<longrightarrow> 144 \<le> y" "y \<le> 191" for x y z z' :: nat
  proof (cases "x = 240")
    case True
    then show ?thesis using lead_bits(3)[of y] that by simp
  next
    case False
    then show ?thesis using lead_bits(5)[of x] that by linarith
  qed
  have sec: "second_ok b c \<Longrightarrow> byte c \<le> 191 \<and> (b = 224 \<longrightarrow> 160 \<le> byte c) \<and> (b = 240 \<longrightarrow> 144 \<le> byte c)" for b c
    by (auto simp: second_ok_def Let_def split: if_splits)
  have re: "128 \<le> RuneError" by (simp add: RuneError_def)
  let ?b = "byte a"
  consider "194 \<le> ?b \<and> ?b \<le> 223" | "224 \<le> ?b \<and> ?b \<le> 239" | "240 \<le> ?b \<and> ?b \<le> 244"
    | "?b < 194 \<or> 245 \<le> ?b" by linarith
  then show ?thesis
  proof cases
    case 1
    then show ?thesis using a re by (cases s) (auto simp: DecodeRune.simps(2) Let_def intro!: two)
  next
    case 2
    show ?thesis
    proof (cases "\<exists>c d r. s = c # d # r \<and> second_ok ?b c \<and> cont_byte d")
      case True
      then obtain c d r where s: "s = c # d # r" "second_ok ?b c" "cont_byte d" by blast
      show ?thesis using 2 s sec[OF s(2)] by (simp add: DecodeRune.simps(2) Let_def thr)
    next
      case False
      then show ?thesis using 2 re by (auto simp: DecodeRune.simps(2) Let_def split: list.split)
    qed
  next
    case 3
    show ?thesis
    proof (cases "\<exists>c d e r. s = c # d # e # r \<and> second_ok ?b c \<and> cont_byte d \<and> cont_byte e")
      case True
      then obtain c d e r where s: "s = c # d # e # r" "second_ok ?b c" "cont_byte d" "cont_byte e" by blast
      show ?thesis using 3 s sec[OF s(2)] by (simp add: DecodeRune.simps(2) Let_def fou)
    next
      case False
      then show ?thesis using 3 re by (auto simp: DecodeRune.simps(2) Let_def split: list.split)
    qed
  next
    case 4
    then have "DecodeRune (a # s) = (RuneError, 1)" using a by (auto simp: DecodeRune.simps(2) Let_def)
    then show ?thesis using re by simp
  qed
qed

text \<open>A string cut into its runes, each with the bytes it came from.\<close>

function runes_of :: "string \<Rightarrow> (nat \<times> string) list" where
  "runes_of [] = []"
| "runes_of (a # s) =
     (let (r, w) = DecodeRune (a # s) in (r, take w (a # s)) # runes_of (drop w (a # s)))"
  by pat_completeness auto
termination
proof (relation "measure length")
  fix a s x r w
  assume "x = DecodeRune (a # s)" "(r, w) = x"
  then have "0 < w" using DecodeRune_width[of a s] by (metis snd_conv)
  then show "(drop w (a # s), a # s) \<in> measure length" by simp
qed simp

declare runes_of.simps(2) [simp del]

lemma runes_of_Cons:
  "runes_of (a # s) =
     (fst (DecodeRune (a # s)), take (snd (DecodeRune (a # s))) (a # s)) #
     runes_of (drop (snd (DecodeRune (a # s))) (a # s))"
  by (simp add: runes_of.simps(2) split_beta Let_def)

lemma runes_of_ascii: "byte a < 128 \<Longrightarrow> runes_of (a # s) = (byte a, [a]) # runes_of s"
  by (simp only: runes_of_Cons DecodeRune_ascii) simp

text \<open>Nothing is lost in the cut.\<close>

lemma concat_runes_of: "concat (map snd (runes_of s)) = s"
proof (induction s rule: runes_of.induct)
  case 1
  then show ?case by simp
next
  case (2 a s)
  then show ?case
  proof -
    obtain r w where rw: "DecodeRune (a # s) = (r, w)" by (cases "DecodeRune (a # s)")
    have "concat (map snd (runes_of (drop w (a # s)))) = drop w (a # s)"
      using 2 rw by simp
    then show ?thesis by (simp add: runes_of_Cons rw)
  qed
qed

definition runes :: "string \<Rightarrow> nat list" where
  "runes s = map fst (runes_of s)"

definition RuneCountInString :: "string \<Rightarrow> nat" where
  "RuneCountInString s = length (runes_of s)"

text \<open>\<open>utf8.AppendRune\<close>: surrogates and values out of range are written as U+FFFD.\<close>

definition EncodeRune :: "nat \<Rightarrow> string" where
  "EncodeRune r =
     (let r = (if r > 1114111 \<or> (55296 \<le> r \<and> r \<le> 57343) then RuneError else r) in
      if r < 128 then [char_of r]
      else if r < 2048 then [char_of (192 + r div 64), char_of (128 + r mod 64)]
      else if r < 65536 then
        [char_of (224 + r div 4096), char_of (128 + r div 64 mod 64), char_of (128 + r mod 64)]
      else
        [char_of (240 + r div 262144), char_of (128 + r div 4096 mod 64),
         char_of (128 + r div 64 mod 64), char_of (128 + r mod 64)])"

text \<open>
  \<open>strings.Map\<close> with a mapping that drops no rune: every rune is decoded, mapped and written
  again, so an invalid byte comes out as the three bytes of U+FFFD.
\<close>

definition strings_Map :: "(nat \<Rightarrow> nat) \<Rightarrow> string \<Rightarrow> string" where
  "strings_Map f s = concat (map (\<lambda>r. EncodeRune (f r)) (runes s))"

text \<open>\<open>unicode.IsControl\<close> and \<open>unicode.IsSpace\<close>.\<close>

definition IsControl :: "nat \<Rightarrow> bool" where
  "IsControl r \<longleftrightarrow> r < 32 \<or> (127 \<le> r \<and> r < 160)"

definition IsSpace :: "nat \<Rightarrow> bool" where
  "IsSpace r \<longleftrightarrow> (9 \<le> r \<and> r \<le> 13) \<or> r = 32 \<or> r = 133 \<or> r = 160 \<or> r = 5760 \<or>
     (8192 \<le> r \<and> r \<le> 8202) \<or> r = 8232 \<or> r = 8233 \<or> r = 8239 \<or> r = 8287 \<or> r = 12288"

text \<open>
  \<open>strings.TrimSpace\<close>. Cutting from the front and from the back see the same runes: an encoding
  starts with a byte that continues no other, so both find it at the same place.
\<close>

definition TrimSpace :: "string \<Rightarrow> string" where
  "TrimSpace s =
     (let sp = (\<lambda>(r, _). IsSpace r)
      in concat (map snd (rev (dropWhile sp (rev (dropWhile sp (runes_of s)))))))"

text \<open>\<open>strings.IndexFunc(s, f) \<ge> 0\<close>: some rune of the string satisfies \<open>f\<close>.\<close>

definition contains_rune :: "(nat \<Rightarrow> bool) \<Rightarrow> string \<Rightarrow> bool" where
  "contains_rune f s = list_ex f (runes s)"

lemma byte_char_of [simp]: "n < 256 \<Longrightarrow> byte (char_of n) = n"
  by simp

lemma EncodeRune_ascii: "r < 128 \<Longrightarrow> EncodeRune r = [char_of r]"
  by (simp add: EncodeRune_def)

lemma EncodeRune_high: "128 \<le> r \<Longrightarrow> c \<in> set (EncodeRune r) \<Longrightarrow> 128 \<le> byte c"
  by (auto simp: EncodeRune_def RuneError_def Let_def take_bit_eq_mod split: if_splits)

text \<open>A byte below 128 in the output of \<open>strings.Map\<close> is a rune the mapping returned.\<close>

lemma strings_Map_ascii:
  assumes "c \<in> set (strings_Map f s)" and "byte c < 128"
  shows "\<exists>r \<in> set (runes s). f r = byte c"
proof -
  from assms(1) obtain r where r: "r \<in> set (runes s)" and c: "c \<in> set (EncodeRune (f r))"
    by (auto simp: strings_Map_def)
  have "f r < 128" using EncodeRune_high[OF _ c] assms(2) by linarith
  with c have "f r = byte c" by (auto simp: EncodeRune_ascii)
  with r show ?thesis by blast
qed

lemma runes_ascii: "list_all (\<lambda>c. byte c < 128) s \<Longrightarrow> runes s = map byte s"
proof (induction s)
  case Nil
  then show ?case by (simp add: runes_def)
next
  case (Cons a s)
  then show ?case by (simp add: runes_def runes_of_ascii)
qed

section \<open>Splitting and joining\<close>

text \<open>\<open>strings.Split(s, sep)\<close> for a separator of one byte.\<close>

fun Split :: "char \<Rightarrow> string \<Rightarrow> string list" where
  "Split sep [] = [[]]"
| "Split sep (c # s) =
     (if c = sep then [] # Split sep s
      else (case Split sep s of [] \<Rightarrow> [[c]] | p # ps \<Rightarrow> (c # p) # ps))"

fun strings_Join :: "string \<Rightarrow> string list \<Rightarrow> string" where
  "strings_Join sep [] = []"
| "strings_Join sep [p] = p"
| "strings_Join sep (p # q # ps) = p @ sep @ strings_Join sep (q # ps)"

text \<open>\<open>strings.Cut\<close> at a separator of one byte: before, after, found.\<close>

definition Cut :: "char \<Rightarrow> string \<Rightarrow> string \<times> string \<times> bool" where
  "Cut sep s = (if sep \<in> set s then (takeWhile (\<lambda>c. c \<noteq> sep) s, tl (dropWhile (\<lambda>c. c \<noteq> sep) s), True)
                else (s, [], False))"

lemma Split_not_Nil [simp]: "Split sep s \<noteq> []"
  by (induction s) (auto split: list.splits)

lemma Split_no_sep: "sep \<notin> set s \<Longrightarrow> Split sep s = [s]"
  by (induction s) auto

lemma Split_append_sep: "sep \<notin> set p \<Longrightarrow> Split sep (p @ sep # s) = p # Split sep s"
  by (induction p) auto

lemma Split_append: "Split sep (a @ sep # s) = Split sep a @ Split sep s"
  by (induction a) (auto split: list.splits simp: Cons_eq_append_conv)

lemma Split_parts: "p \<in> set (Split sep s) \<Longrightarrow> sep \<notin> set p"
  by (induction s arbitrary: p) (force split: if_splits list.splits)+

lemma Split_Join:
  "ps \<noteq> [] \<Longrightarrow> \<forall>p \<in> set ps. sep \<notin> set p \<Longrightarrow> Split sep (strings_Join [sep] ps) = ps"
  by (induction "[sep]" ps rule: strings_Join.induct) (auto simp: Split_no_sep Split_append_sep)

lemma Join_Split: "strings_Join [sep] (Split sep s) = s"
proof (induction s)
  case (Cons c s)
  then show ?case by (cases "Split sep s"; cases "tl (Split sep s)") auto
qed simp

lemma strings_Join_eq_Nil: "\<forall>p \<in> set ps. p \<noteq> [] \<Longrightarrow> strings_Join sep ps = [] \<longleftrightarrow> ps = []"
  by (cases ps; cases "tl ps") auto

lemma strings_Join_chars: "c \<in> set (strings_Join sep ps) \<Longrightarrow> c \<in> set sep \<or> (\<exists>p \<in> set ps. c \<in> set p)"
  by (induction sep ps rule: strings_Join.induct) auto

text \<open>\<open>bytes.Index\<close>: where a text first occurs in another.\<close>

fun Index :: "string \<Rightarrow> string \<Rightarrow> nat option" where
  "Index [] pat = (if pat = [] then Some 0 else None)"
| "Index (c # s) pat = (if take (length pat) (c # s) = pat then Some 0 else map_option Suc (Index s pat))"

lemma Index_Some: "Index s pat = Some i \<Longrightarrow> i \<le> length s \<and> take (length pat) (drop i s) = pat"
  by (induction s arbitrary: i) (auto split: if_splits)

lemma Index_append: "\<exists>i. Index (a @ pat @ b) pat = Some i \<and> i \<le> length a"
  by (induction a) (cases pat; auto split: if_splits; cases b; auto)+

section \<open>Numbers in decimal\<close>

definition is_digit :: "char \<Rightarrow> bool" where
  "is_digit c \<longleftrightarrow> 48 \<le> byte c \<and> byte c \<le> 57"

fun dec :: "nat \<Rightarrow> string" where
  "dec n = (if n < 10 then [char_of (48 + n)] else dec (n div 10) @ [char_of (48 + n mod 10)])"

declare dec.simps [simp del]

definition Itoa :: "int \<Rightarrow> string" where
  "Itoa i = (if i < 0 then CHR ''-'' # dec (nat (- i)) else dec (nat i))"

definition undec :: "string \<Rightarrow> nat" where
  "undec s = foldl (\<lambda>n c. 10 * n + (byte c - 48)) 0 s"

text \<open>\<open>strconv.ParseInt(s, 10, 64)\<close>: an optional sign, at least one digit, a value in range.\<close>

definition ParseInt :: "string \<Rightarrow> int option" where
  "ParseInt s =
     (let (neg, ds) = (case s of [] \<Rightarrow> (False, [])
          | c # cs \<Rightarrow> if c = CHR ''-'' then (True, cs) else if c = CHR ''+'' then (False, cs) else (False, s))
      in if ds = [] \<or> \<not> list_all is_digit ds then None
         else let v = (if neg then - int (undec ds) else int (undec ds))
              in if int64_range v then Some v else None)"

lemma undec_snoc: "undec (s @ [c]) = 10 * undec s + (byte c - 48)"
  by (simp add: undec_def)

lemma undec_dec [simp]: "undec (dec n) = n"
proof (induction n rule: dec.induct)
  case (1 n)
  show ?case
  proof (cases "n < 10")
    case True
    then show ?thesis by (subst dec.simps) (simp add: undec_def)
  next
    case False
    with 1 show ?thesis by (subst dec.simps) (simp add: undec_snoc)
  qed
qed

lemma dec_digits: "list_all is_digit (dec n)"
proof (induction n rule: dec.induct)
  case (1 n)
  then show ?case
    by (subst dec.simps) (auto simp: is_digit_def[of "char_of _"])
qed

lemma dec_not_Nil [simp]: "dec n \<noteq> []"
  by (subst dec.simps) simp

lemma dec_inj: "dec m = dec n \<Longrightarrow> m = n"
  by (metis undec_dec)

lemma digit_neq:
  "is_digit c \<Longrightarrow> c \<noteq> CHR ''-''" "is_digit c \<Longrightarrow> c \<noteq> CHR ''+''" "is_digit c \<Longrightarrow> c \<noteq> CHR ''.''"
  "is_digit c \<Longrightarrow> c \<noteq> CHR '',''" "is_digit c \<Longrightarrow> c \<noteq> CHR ''/''" "is_digit c \<Longrightarrow> c \<noteq> CHR '':''"
  "is_digit c \<Longrightarrow> c \<noteq> CHR 0x0A" "is_digit c \<Longrightarrow> c \<noteq> CHR ''%''"
  by (auto simp: is_digit_def)

lemma dec_chars: "c \<in> set (dec n) \<Longrightarrow> is_digit c"
  using dec_digits[of n] by (simp add: list_all_iff)

lemma dec_length: "n < 10 ^ k \<Longrightarrow> 0 < k \<Longrightarrow> length (dec n) \<le> k"
proof (induction n arbitrary: k rule: dec.induct)
  case (1 n)
  show ?case
  proof (cases "n < 10")
    case True
    with "1.prems" show ?thesis by (subst dec.simps) simp
  next
    case False
    with "1.prems" have "k \<noteq> 1" by (cases "k = 1") auto
    with "1.prems" obtain j where k: "k = Suc j" "0 < j" by (cases k) auto
    with False "1.prems" have "length (dec (n div 10)) \<le> j"
      by (intro "1.IH") (auto simp: less_mult_imp_div_less mult.commute)
    with False k show ?thesis by (subst dec.simps) simp
  qed
qed

lemma dec_no_leading_zero: "0 < n \<Longrightarrow> hd (dec n) \<noteq> CHR ''0''"
proof (induction n rule: dec.induct)
  case (1 n)
  show ?case
  proof (cases "n < 10")
    case True
    then have "byte (char_of (48 + n) :: char) \<noteq> byte (CHR ''0'')" using "1.prems" by simp
    then have "char_of (48 + n) \<noteq> CHR ''0''" by metis
    with True show ?thesis by (subst dec.simps) simp
  next
    case False
    with 1 show ?thesis by (subst dec.simps) simp
  qed
qed

theorem ParseInt_Itoa: "int64_range i \<Longrightarrow> ParseInt (Itoa i) = Some i"
proof -
  assume i: "int64_range i"
  obtain d ds where d: "dec (nat \<bar>i\<bar>) = d # ds" by (metis dec_not_Nil list.exhaust)
  have "is_digit d" using dec_digits[of "nat \<bar>i\<bar>"] d by simp
  then have nd: "d \<noteq> CHR ''-''" "d \<noteq> CHR ''+''" by (auto simp: digit_neq)
  show ?thesis
  proof (cases "i < 0")
    case True
    then show ?thesis using i dec_digits[of "nat (- i)"] by (simp add: ParseInt_def Itoa_def)
  next
    case False
    with d have "dec (nat i) = d # ds" by simp
    then show ?thesis using False i nd dec_digits[of "nat i"] undec_dec[of "nat i"]
      by (simp add: ParseInt_def Itoa_def)
  qed
qed

lemma Itoa_chars: "c \<in> set (Itoa i) \<Longrightarrow> is_digit c \<or> c = CHR ''-''"
  by (auto simp: Itoa_def dest: dec_chars split: if_splits)

lemma Itoa_not_Nil [simp]: "Itoa i \<noteq> []"
  by (simp add: Itoa_def)

lemma Itoa_inj: "Itoa i = Itoa j \<longleftrightarrow> i = j"
proof
  assume eq: "Itoa i = Itoa j"
  have hd: "0 \<le> i \<Longrightarrow> hd (Itoa i) \<noteq> CHR ''-''" for i
    using dec_digits[of "nat i"] by (cases "dec (nat i)") (auto simp: Itoa_def digit_neq)
  have neg: "i < 0 \<longleftrightarrow> j < 0"
    using eq hd[of i] hd[of j] by (cases "i < 0"; cases "j < 0") (auto simp: Itoa_def dest: arg_cong[where f = hd])
  show "i = j"
    using eq neg by (auto simp: Itoa_def dest!: dec_inj split: if_splits)
qed simp

end
