(* ===== verification/WgKey.thy ===== *)
theory WgKey
  imports Strings
begin

text \<open>
  internal/wg/key.go: WireGuard keys as 32 bytes, clamped like \<open>wg genkey\<close>, and their base64 text.
  The random bytes a key is made of and the X25519 base-point multiplication are arguments: the
  first is the machine's entropy, the second curve arithmetic of \<open>crypto/ecdh\<close>.
\<close>

unbundle bit_operations_syntax

type_synonym bytes = "8 word list"
type_synonym Key = bytes

definition wf_key :: "Key \<Rightarrow> bool" where
  "wf_key k \<longleftrightarrow> length k = 32"

definition ZeroKey :: Key where "ZeroKey = replicate 32 0"

definition GeneratePrivateKey :: "bytes \<Rightarrow> Key" where
  "GeneratePrivateKey rnd =
     (let k = rnd[0 := (rnd ! 0) AND 248] in k[31 := ((k ! 31) AND 127) OR 64])"

definition GeneratePresharedKey :: "bytes \<Rightarrow> Key" where
  "GeneratePresharedKey rnd = rnd"

definition PublicKey :: "(Key \<Rightarrow> Key) \<Rightarrow> Key \<Rightarrow> Key" where
  "PublicKey x25519 k = x25519 k"

definition IsZero :: "Key \<Rightarrow> bool" where
  "IsZero k \<longleftrightarrow> k = ZeroKey"

section \<open>Base64\<close>

definition b64char :: "nat \<Rightarrow> char" where
  "b64char n =
     (if n < 26 then char_of (65 + n) else if n < 52 then char_of (71 + n)
      else if n < 62 then char_of (n - 4) else if n = 62 then CHR ''+'' else CHR ''/'')"

definition b64val :: "char \<Rightarrow> nat option" where
  "b64val c =
     (let b = byte c in
      if 65 \<le> b \<and> b \<le> 90 then Some (b - 65)
      else if 97 \<le> b \<and> b \<le> 122 then Some (b - 71)
      else if 48 \<le> b \<and> b \<le> 57 then Some (b + 4)
      else if b = 43 then Some 62 else if b = 47 then Some 63 else None)"

fun EncodeToString :: "bytes \<Rightarrow> string" where
  "EncodeToString [] = []"
| "EncodeToString [a] =
     [b64char (unat a div 4), b64char (unat a mod 4 * 16), CHR ''='', CHR ''='']"
| "EncodeToString [a, b] =
     [b64char (unat a div 4), b64char (unat a mod 4 * 16 + unat b div 16),
      b64char (unat b mod 16 * 4), CHR ''='']"
| "EncodeToString (a # b # c # rest) =
     b64char (unat a div 4) # b64char (unat a mod 4 * 16 + unat b div 16) #
     b64char (unat b mod 16 * 4 + unat c div 64) # b64char (unat c mod 64) # EncodeToString rest"

text \<open>
  \<open>base64.StdEncoding.DecodeString\<close>: line breaks are skipped, quanta of four, padding only at the
  end. The encoding is not strict, so the unused bits of a padded quantum are ignored.
\<close>

fun decode_quanta :: "string \<Rightarrow> bytes option" where
  "decode_quanta [] = Some []"
| "decode_quanta (w # x # y # z # rest) =
     (case (b64val w, b64val x) of
        (Some p, Some q) \<Rightarrow>
          let a = word_of_nat (p * 4 + q div 16) in
          if y = CHR ''='' then (if z = CHR ''='' \<and> rest = [] then Some [a] else None)
          else (case b64val y of None \<Rightarrow> None | Some r \<Rightarrow>
            let b = word_of_nat (q mod 16 * 16 + r div 4) in
            if z = CHR ''='' then (if rest = [] then Some [a, b] else None)
            else (case b64val z of None \<Rightarrow> None | Some t \<Rightarrow>
              map_option (\<lambda>bs. a # b # word_of_nat (r mod 4 * 64 + t) # bs) (decode_quanta rest)))
      | _ \<Rightarrow> None)"
| "decode_quanta _ = None"

definition DecodeString :: "string \<Rightarrow> bytes option" where
  "DecodeString s = decode_quanta (filter (\<lambda>c. byte c \<noteq> 10 \<and> byte c \<noteq> 13) s)"

definition key_String :: "Key \<Rightarrow> string" where
  "key_String k = EncodeToString k"

definition ParseKey :: "string \<Rightarrow> err + Key" where
  "ParseKey s =
     (case DecodeString s of
        None \<Rightarrow> Inl ErrInvalidKey
      | Some raw \<Rightarrow> if length raw \<noteq> 32 then Inl ErrInvalidKey else Inr raw)"

definition key_MarshalText :: "Key \<Rightarrow> string" where
  "key_MarshalText k = key_String k"

text \<open>The receiver keeps its value when the text does not parse.\<close>

definition key_UnmarshalText :: "string \<Rightarrow> Key \<Rightarrow> err option \<times> Key" where
  "key_UnmarshalText t k = (case ParseKey t of Inl e \<Rightarrow> (Some e, k) | Inr k' \<Rightarrow> (None, k'))"

section \<open>Round trip\<close>

lemma b64val_b64char [simp]: "n < 64 \<Longrightarrow> b64val (b64char n) = Some n"
  by (auto simp: b64char_def b64val_def Let_def)

lemma b64char_range: "n < 64 \<Longrightarrow> byte (b64char n) \<in> {43, 47} \<union> {48..57} \<union> {65..90} \<union> {97..122}"
  by (auto simp: b64char_def)

lemma b64char_neq_pad [simp]: "n < 64 \<Longrightarrow> b64char n \<noteq> CHR ''=''"
  using b64char_range[of n] by auto

lemma b64char_range': "n < 64 \<Longrightarrow> byte (b64char n) \<in> {43, 47, 61} \<union> {48..57} \<union> {65..90} \<union> {97..122}"
  using b64char_range[of n] by auto

lemma byte_unat [simp]: "unat (a :: 8 word) < 256"
proof -
  have "unat a < 2 ^ LENGTH(8)" by (rule unsigned_less)
  then show ?thesis by simp
qed

lemma byte_div [simp]: "unat (a :: 8 word) div 4 < 64" "unat (a :: 8 word) div 16 < 16" "unat (a :: 8 word) div 64 < 4"
  using byte_unat[of a] by (simp_all add: less_mult_imp_div_less)

lemma byte_glue1: "word_of_nat (unat a div 4 * 4 + (unat a mod 4 * 16 + k) div 16) = (a :: 8 word)" if "k < 16"
proof -
  have "(unat a mod 4 * 16 + k) div 16 = unat a mod 4" using that by simp
  then show ?thesis by simp
qed

lemma byte_glue2:
  assumes "k < 4"
  shows "word_of_nat ((j * 16 + unat b div 16) mod 16 * 16 + (unat b mod 16 * 4 + k) div 4) = (b :: 8 word)"
proof -
  have "(unat b mod 16 * 4 + k) div 4 = unat b mod 16" using assms by simp
  moreover have "(j * 16 + unat b div 16) mod 16 = unat b div 16" by simp
  ultimately show ?thesis by simp
qed

lemma byte_glue3: "word_of_nat ((j * 4 + unat c div 64) mod 4 * 64 + unat c mod 64) = (c :: 8 word)"
proof -
  have "(j * 4 + unat c div 64) mod 4 = unat c div 64" by simp
  then show ?thesis by simp
qed

lemma sextet_bounds [simp]:
  "unat (a :: 8 word) mod 4 * 16 + unat (b :: 8 word) div 16 < 64"
  "unat b mod 16 * 4 + unat (c :: 8 word) div 64 < 64"
  "unat a mod 4 * 16 < 64" "unat b mod 16 * 4 < 64"
  using mod_less_divisor[of 4 "unat a"] mod_less_divisor[of 16 "unat b"] byte_div(2)[of b] byte_div(3)[of c]
  by linarith+

lemma decode_quanta_Encode: "decode_quanta (EncodeToString bs) = Some bs"
proof (induction bs rule: EncodeToString.induct)
  case (2 a)
  then show ?case using byte_glue1[of 0 a] by (simp add: Let_def)
next
  case (3 a b)
  then show ?case using byte_glue1[of "unat b div 16" a] byte_glue2[of 0 "unat a mod 4" b] by (simp add: Let_def)
next
  case (4 a b c rest)
  then show ?case
    using byte_glue1[of "unat b div 16" a] byte_glue2[of "unat c div 64" "unat a mod 4" b]
      byte_glue3[of "unat b mod 16" c]
    by (simp add: Let_def)
qed simp

lemma Encode_chars:
  "\<forall>c \<in> set (EncodeToString bs). byte c \<in> {43, 47, 61} \<union> {48..57} \<union> {65..90} \<union> {97..122}"
  by (induction bs rule: EncodeToString.induct)
    (simp_all only: EncodeToString.simps list.set ball_simps ball_Un b64char_range' byte_div sextet_bounds
      less_trans[OF mod_less_divisor] simp_thms, simp_all add: b64char_range'[simplified])

lemma DecodeString_Encode [simp]: "DecodeString (EncodeToString bs) = Some bs"
proof -
  have "filter (\<lambda>c. byte c \<noteq> 10 \<and> byte c \<noteq> 13) (EncodeToString bs) = EncodeToString bs"
    using Encode_chars[of bs] by (intro filter_True) fastforce
  then show ?thesis by (simp add: DecodeString_def decode_quanta_Encode)
qed

lemma ParseKey_String: "wf_key k \<Longrightarrow> ParseKey (key_String k) = Inr k"
  by (simp add: ParseKey_def key_String_def wf_key_def)

lemma ParseKey_wf: "ParseKey s = Inr k \<Longrightarrow> wf_key k"
  by (auto simp: ParseKey_def wf_key_def split: option.splits if_splits)

lemma key_String_inj: "key_String k = key_String k' \<longleftrightarrow> k = k'"
  by (metis DecodeString_Encode key_String_def option.inject)

lemma key_String_Nil: "wf_key k \<Longrightarrow> key_String k \<noteq> []"
  by (auto simp: wf_key_def key_String_def elim: EncodeToString.elims)

lemma wf_ZeroKey [simp]: "wf_key ZeroKey"
  by (simp add: wf_key_def ZeroKey_def)

section \<open>Clamping\<close>

text \<open>The clamped key has the three low bits of byte 0 clear, bit 7 of byte 31 clear and bit 6 set.\<close>

lemma GeneratePrivateKey_clamped:
  assumes "length rnd = 32"
  defines "k \<equiv> GeneratePrivateKey rnd"
  shows "wf_key k" and "(k ! 0) AND 7 = 0" and "(k ! 31) AND 192 = 64" and "\<not> IsZero k"
proof -
  have k0: "k ! 0 = (rnd ! 0) AND 248" and k31: "k ! 31 = ((rnd ! 31) AND 127) OR 64"
    using assms(1) by (simp_all add: k_def GeneratePrivateKey_def Let_def)
  show "wf_key k" using assms(1) by (simp add: k_def GeneratePrivateKey_def wf_key_def Let_def)
  show "(k ! 0) AND 7 = 0"
    by (simp add: k0 and.assoc)
  have "(((rnd ! 31) AND 127) OR 64) AND 192 = (64 :: 8 word)"
    by (simp add: bit.conj_disj_distrib2 bit.conj_disj_distrib and.assoc)
  then show k64: "(k ! 31) AND 192 = 64" by (simp add: k31)
  show "\<not> IsZero k"
  proof
    assume "IsZero k"
    then have "k ! 31 = 0" by (simp add: IsZero_def ZeroKey_def)
    with k64 show False by simp
  qed
qed

end
