(* ===== verification/Netip.thy ===== *)
theory Netip
  imports Strings
begin

text \<open>
  The part of Go's \<open>net/netip\<close> the program uses: IPv4 and IPv6 addresses and prefixes as values,
  \<open>Masked\<close>, \<open>Contains\<close>, \<open>Overlaps\<close>, and their text forms with the parsers. An IPv4 address is its
  big-endian 32-bit word. The round trips of IPv4 addresses and prefixes through their text
  are what the store's text columns rest on.
\<close>

datatype Addr = NoAddr | V4 "32 word" | V6 "128 word" string

datatype Prefix = Prefix (prefix_Addr: Addr) (prefix_Bits: int)

abbreviation NoPrefix :: Prefix where "NoPrefix \<equiv> Prefix NoAddr (- 1)"

fun Is4 :: "Addr \<Rightarrow> bool" where
  "Is4 (V4 w) = True"
| "Is4 a = False"

fun addr_IsValid :: "Addr \<Rightarrow> bool" where
  "addr_IsValid NoAddr = False"
| "addr_IsValid a = True"

fun BitLen :: "Addr \<Rightarrow> int" where
  "BitLen NoAddr = 0"
| "BitLen (V4 w) = 32"
| "BitLen (V6 w z) = 128"

fun withoutZone :: "Addr \<Rightarrow> Addr" where
  "withoutZone (V6 w z) = V6 w []"
| "withoutZone a = a"

fun hasZone :: "Addr \<Rightarrow> bool" where
  "hasZone (V6 w z) = (z \<noteq> [])"
| "hasZone a = False"

definition IsValid :: "Prefix \<Rightarrow> bool" where
  "IsValid p \<longleftrightarrow> 0 \<le> prefix_Bits p"

definition PrefixFrom :: "Addr \<Rightarrow> int \<Rightarrow> Prefix" where
  "PrefixFrom ip bits =
     Prefix (withoutZone ip) (if addr_IsValid ip \<and> 0 \<le> bits \<and> bits \<le> BitLen ip then bits else - 1)"

text \<open>\<open>ip.Prefix(b)\<close>: the address with everything after the first \<open>b\<close> bits cleared.\<close>

definition keep_bits :: "nat \<Rightarrow> 'a::len word \<Rightarrow> 'a word" where
  "keep_bits b w = push_bit (LENGTH('a) - b) (drop_bit (LENGTH('a) - b) w)"

fun addr_Prefix :: "Addr \<Rightarrow> int \<Rightarrow> Prefix" where
  "addr_Prefix NoAddr b = NoPrefix"
| "addr_Prefix (V4 w) b = (if b < 0 \<or> b > 32 then NoPrefix else Prefix (V4 (keep_bits (nat b) w)) b)"
| "addr_Prefix (V6 w z) b = (if b < 0 \<or> b > 128 then NoPrefix else Prefix (V6 (keep_bits (nat b) w) []) b)"

definition Masked :: "Prefix \<Rightarrow> Prefix" where
  "Masked p = addr_Prefix (prefix_Addr p) (prefix_Bits p)"

definition prefix_Contains :: "Prefix \<Rightarrow> Addr \<Rightarrow> bool" where
  "prefix_Contains p ip =
     (if \<not> IsValid p \<or> hasZone ip then False
      else (case (prefix_Addr p, ip) of
          (V4 n, V4 a) \<Rightarrow> drop_bit (32 - nat (prefix_Bits p)) (xor a n) = 0
        | (V6 n _, V6 a _) \<Rightarrow> drop_bit (128 - nat (prefix_Bits p)) (xor a n) = 0
        | _ \<Rightarrow> False))"

definition Overlaps :: "Prefix \<Rightarrow> Prefix \<Rightarrow> bool" where
  "Overlaps p q =
     (if \<not> IsValid p \<or> \<not> IsValid q then False
      else if p = q then True
      else if Is4 (prefix_Addr p) \<noteq> Is4 (prefix_Addr q) then False
      else let b = min (prefix_Bits p) (prefix_Bits q)
           in if b = 0 then True
              else IsValid (addr_Prefix (prefix_Addr p) b) \<and> IsValid (addr_Prefix (prefix_Addr q) b) \<and>
                   prefix_Addr (addr_Prefix (prefix_Addr p) b) = prefix_Addr (addr_Prefix (prefix_Addr q) b))"

section \<open>Text forms\<close>

definition octet :: "32 word \<Rightarrow> nat \<Rightarrow> nat" where
  "octet w i = unat w div 256 ^ (3 - i) mod 256"

definition string4 :: "32 word \<Rightarrow> string" where
  "string4 w = strings_Join ''.'' [dec (octet w 0), dec (octet w 1), dec (octet w 2), dec (octet w 3)]"

definition hextet :: "128 word \<Rightarrow> nat \<Rightarrow> nat" where
  "hextet w i = unat w div 65536 ^ (7 - i) mod 65536"

definition hex_digit :: "nat \<Rightarrow> char" where
  "hex_digit n = (if n < 10 then char_of (48 + n) else char_of (87 + n))"

fun hex :: "nat \<Rightarrow> string" where
  "hex n = (if n < 16 then [hex_digit n] else hex (n div 16) @ [hex_digit (n mod 16)])"

declare hex.simps [simp del]

text \<open>The first longest run of at least two zero groups, as (start, length).\<close>

definition zero_run :: "nat list \<Rightarrow> nat \<times> nat" where
  "zero_run gs =
     fold (\<lambda>i (st, len). let l = length (takeWhile (\<lambda>g. g = 0) (drop i gs))
                         in if 2 \<le> l \<and> len < l then (i, l) else (st, len))
          [0..<length gs] (length gs, 0)"

definition groups_string :: "nat list \<Rightarrow> string" where
  "groups_string gs = strings_Join '':'' (map hex gs)"

definition string6 :: "128 word \<Rightarrow> string" where
  "string6 w =
     (let gs = map (hextet w) [0..<8]; (st, len) = zero_run gs
      in if len = 0 then groups_string gs
         else groups_string (take st gs) @ ''::'' @ groups_string (drop (st + len) gs))"

definition Is4In6 :: "128 word \<Rightarrow> bool" where
  "Is4In6 w \<longleftrightarrow> map (hextet w) [0..<6] = [0, 0, 0, 0, 0, 65535]"

fun addr_String :: "Addr \<Rightarrow> string" where
  "addr_String NoAddr = ''invalid IP''"
| "addr_String (V4 w) = string4 w"
| "addr_String (V6 w z) =
     (if Is4In6 w then ''::ffff:'' @ string4 (ucast w) else string6 w) @
     (if z = [] then [] else ''%'' @ z)"

definition prefix_String :: "Prefix \<Rightarrow> string" where
  "prefix_String p =
     (if \<not> IsValid p then ''invalid Prefix''
      else addr_String (prefix_Addr p) @ ''/'' @ Itoa (prefix_Bits p))"

section \<open>Parsers\<close>

text \<open>One decimal octet: digits only, no leading zero, at most 255.\<close>

definition parse_octet :: "string \<Rightarrow> nat option" where
  "parse_octet s =
     (if s = [] \<or> \<not> list_all is_digit s \<or> (1 < length s \<and> hd s = CHR ''0'') \<or> 255 < undec s
      then None else Some (undec s))"

definition word4 :: "nat \<Rightarrow> nat \<Rightarrow> nat \<Rightarrow> nat \<Rightarrow> 32 word" where
  "word4 a b c d = word_of_nat (a * 16777216 + b * 65536 + c * 256 + d)"

definition parseIPv4 :: "string \<Rightarrow> (32 word) option" where
  "parseIPv4 s =
     (case Split (CHR ''.'') s of
        [a, b, c, d] \<Rightarrow>
          (case (parse_octet a, parse_octet b, parse_octet c, parse_octet d) of
             (Some a, Some b, Some c, Some d) \<Rightarrow> Some (word4 a b c d)
           | _ \<Rightarrow> None)
      | _ \<Rightarrow> None)"

definition hex_value :: "char \<Rightarrow> nat option" where
  "hex_value c =
     (let b = byte c in
      if 48 \<le> b \<and> b \<le> 57 then Some (b - 48)
      else if 97 \<le> b \<and> b \<le> 102 then Some (b - 87)
      else if 65 \<le> b \<and> b \<le> 70 then Some (b - 55) else None)"

definition unhex :: "string \<Rightarrow> nat" where
  "unhex s = foldl (\<lambda>n c. 16 * n + the (hex_value c)) 0 s"

text \<open>
  The loop of \<open>parseIPv6\<close>: at most \<open>n\<close> more groups fit; \<open>gs\<close> are the groups read, \<open>el\<close> where an
  ellipsis stood. The result is what was read when the text ended where it may.
\<close>

fun parse_groups :: "nat \<Rightarrow> nat list \<Rightarrow> nat option \<Rightarrow> string \<Rightarrow> (nat list \<times> nat option) option" where
  "parse_groups 0 gs el s = (if s = [] then Some (gs, el) else None)"
| "parse_groups (Suc n) gs el s =
     (let h = takeWhile (\<lambda>c. hex_value c \<noteq> None) s; s' = dropWhile (\<lambda>c. hex_value c \<noteq> None) s in
      if h = [] \<or> 4 < length h then None
      else case s' of
        [] \<Rightarrow> Some (gs @ [unhex h], el)
      | c # rest \<Rightarrow>
          if c = CHR ''.'' then
            (if el = None \<and> length gs \<noteq> 6 \<or> n = 0 then None
             else case parseIPv4 s of None \<Rightarrow> None
                  | Some w \<Rightarrow> Some (gs @ [unat w div 65536, unat w mod 65536], el))
          else if c \<noteq> CHR '':'' \<or> rest = [] then None
          else if hd rest = CHR '':'' then
            (if el \<noteq> None then None
             else if tl rest = [] then Some (gs @ [unhex h], Some (Suc (length gs)))
             else parse_groups n (gs @ [unhex h]) (Some (Suc (length gs))) (tl rest))
          else parse_groups n (gs @ [unhex h]) el rest)"

definition word6 :: "nat list \<Rightarrow> 128 word" where
  "word6 gs = word_of_nat (foldl (\<lambda>n g. n * 65536 + g) 0 gs)"

text \<open>An ellipsis stands for at least one group of zeros; without one all eight must be there.\<close>

definition expand_groups :: "nat list \<Rightarrow> nat option \<Rightarrow> nat list option" where
  "expand_groups gs el =
     (case el of
        None \<Rightarrow> if length gs = 8 then Some gs else None
      | Some e \<Rightarrow> if length gs < 8
                  then Some (take e gs @ replicate (8 - length gs) 0 @ drop e gs) else None)"

definition parseIPv6 :: "string \<Rightarrow> Addr option" where
  "parseIPv6 t =
     (let (s, zone, found) = Cut (CHR ''%'') t in
      if found \<and> zone = [] then None
      else if s = ''::'' then Some (V6 0 zone)
      else case (if take 2 s = ''::'' then parse_groups 8 [] (Some 0) (drop 2 s) else parse_groups 8 [] None s) of
             None \<Rightarrow> None
           | Some (gs, el) \<Rightarrow> map_option (\<lambda>gs. V6 (word6 gs) zone) (expand_groups gs el))"

text \<open>The first of \<open>.\<close>, \<open>:\<close> and \<open>%\<close> decides which kind of address the text is.\<close>

definition ParseAddr :: "string \<Rightarrow> err + Addr" where
  "ParseAddr s =
     (case dropWhile (\<lambda>c. c \<noteq> CHR ''.'' \<and> c \<noteq> CHR '':'' \<and> c \<noteq> CHR ''%'') s of
        [] \<Rightarrow> Inl (NewError ''ParseAddr: unable to parse IP'')
      | c # _ \<Rightarrow>
          if c = CHR ''.'' then
            (case parseIPv4 s of None \<Rightarrow> Inl (NewError ''ParseAddr: invalid IPv4'') | Some w \<Rightarrow> Inr (V4 w))
          else if c = CHR '':'' then
            (case parseIPv6 s of None \<Rightarrow> Inl (NewError ''ParseAddr: invalid IPv6'') | Some a \<Rightarrow> Inr a)
          else Inl (NewError ''ParseAddr: missing IPv6 address''))"

text \<open>The prefix length after the last slash: no sign, no leading zero.\<close>

definition parse_bits :: "string \<Rightarrow> int option" where
  "parse_bits b =
     (if 1 < length b \<and> \<not> (49 \<le> byte (hd b) \<and> byte (hd b) \<le> 57) then None else ParseInt b)"

definition ParsePrefix :: "string \<Rightarrow> err + Prefix" where
  "ParsePrefix s =
     (if CHR ''/'' \<notin> set s then Inl (NewError ''ParsePrefix: no slash'')
      else let b = rev (takeWhile (\<lambda>c. c \<noteq> CHR ''/'') (rev s));
               a = rev (tl (dropWhile (\<lambda>c. c \<noteq> CHR ''/'') (rev s)))
           in case ParseAddr a of Inl e \<Rightarrow> Inl e
            | Inr ip \<Rightarrow>
                if hasZone ip then Inl (NewError ''ParsePrefix: IPv6 zones cannot be present in a prefix'')
                else (case parse_bits b of None \<Rightarrow> Inl (NewError ''ParsePrefix: bad bits after slash'')
                  | Some n \<Rightarrow> if n < 0 \<or> n > BitLen ip then Inl (NewError ''ParsePrefix: prefix length out of range'')
                             else Inr (PrefixFrom ip n)))"

section \<open>Facts\<close>

lemma octet_less [simp]: "octet w i < 256"
  by (simp add: octet_def)

lemma split256: "(n::nat) = n div 256 * 256 + n mod 256"
  by simp

lemma octets_sum:
  "(n::nat) div 16777216 * 16777216 + n div 65536 mod 256 * 65536 + n div 256 mod 256 * 256 + n mod 256 = n"
proof -
  have "n div 256 div 256 = n div 65536" "n div 65536 div 256 = n div 16777216"
    by (simp_all add: div_mult2_eq[symmetric])
  then show ?thesis
    using split256[of n] split256[of "n div 256"] split256[of "n div 65536"] by linarith
qed

lemma word4_octets: "word4 (octet w 0) (octet w 1) (octet w 2) (octet w 3) = w"
proof -
  have "unat w < 2 ^ LENGTH(32)" by (rule unsigned_less)
  then have b: "unat w < 4294967296" by simp
  have "octet w 0 * 16777216 + octet w 1 * 65536 + octet w 2 * 256 + octet w 3 = unat w"
    using b octets_sum[of "unat w"] by (simp add: octet_def)
  then show ?thesis by (simp add: word4_def)
qed

lemma parse_octet_dec: "n < 256 \<Longrightarrow> parse_octet (dec n) = Some n"
proof -
  assume n: "n < 256"
  have "1 < length (dec n) \<Longrightarrow> hd (dec n) \<noteq> CHR ''0''"
    using dec_no_leading_zero[of n] by (cases "n = 0") (auto simp: dec.simps[of 0])
  then show ?thesis using n dec_digits[of n] by (auto simp: parse_octet_def)
qed

lemma dec_no_dot: "c \<in> {CHR ''.'', CHR '':'', CHR ''%'', CHR ''/'', CHR '','', CHR 0x0A} \<Longrightarrow> c \<notin> set (dec n)"
  by (auto dest!: dec_chars simp: is_digit_def)

lemma string4_chars: "c \<in> set (string4 w) \<Longrightarrow> is_digit c \<or> c = CHR ''.''"
  by (auto simp: string4_def dest: dec_chars)

lemma string4_not_Nil [simp]: "string4 w \<noteq> []"
  by (simp add: string4_def)

theorem parseIPv4_string4 [simp]: "parseIPv4 (string4 w) = Some w"
proof -
  have "Split (CHR ''.'') (string4 w) = [dec (octet w 0), dec (octet w 1), dec (octet w 2), dec (octet w 3)]"
    unfolding string4_def using dec_no_dot by (intro Split_Join) auto
  then show ?thesis using word4_octets[of w] by (simp add: parseIPv4_def parse_octet_dec)
qed

lemma string4_first_sep:
  "\<exists>r. dropWhile (\<lambda>c. c \<noteq> CHR ''.'' \<and> c \<noteq> CHR '':'' \<and> c \<noteq> CHR ''%'') (string4 w) = CHR ''.'' # r"
proof -
  have "\<forall>c \<in> set (dec n). c \<noteq> CHR ''.'' \<and> c \<noteq> CHR '':'' \<and> c \<noteq> CHR ''%''" for n
    using dec_no_dot by auto
  then show ?thesis by (simp add: string4_def dropWhile_append3 dropWhile_append)
qed

theorem ParseAddr_String4 [simp]: "ParseAddr (addr_String (V4 w)) = Inr (V4 w)"
  using string4_first_sep[of w] by (auto simp: ParseAddr_def)

lemma parse_bits_Itoa:
  assumes "0 \<le> n" and "n \<le> 128"
  shows "parse_bits (Itoa n) = Some n"
proof -
  have pi: "ParseInt (Itoa n) = Some n" using assms by (intro ParseInt_Itoa) (auto simp: int64_range_def)
  have "49 \<le> byte (hd (Itoa n)) \<and> byte (hd (Itoa n)) \<le> 57" if l: "1 < length (Itoa n)"
  proof -
    have pos: "0 < nat n" using l assms by (cases "n = 0") (auto simp: Itoa_def dec.simps[of 0])
    have d: "is_digit (hd (dec (nat n)))"
      using dec_digits[of "nat n"] by (cases "dec (nat n)") auto
    have "byte (hd (dec (nat n))) \<noteq> 48"
    proof
      assume "byte (hd (dec (nat n))) = 48"
      then have "byte (hd (dec (nat n))) = byte (CHR ''0'')" by simp
      then have "hd (dec (nat n)) = CHR ''0''" by (simp only: of_char_eq_iff)
      then show False using dec_no_leading_zero[OF pos] by simp
    qed
    then show ?thesis using d assms by (auto simp: is_digit_def Itoa_def)
  qed
  then show ?thesis using pi by (auto simp: parse_bits_def)
qed

theorem ParsePrefix_String4:
  assumes "0 \<le> b" and "b \<le> 32"
  shows "ParsePrefix (prefix_String (Prefix (V4 w) b)) = Inr (Prefix (V4 w) b)"
proof -
  have ni: "CHR ''/'' \<notin> set (Itoa b)" by (auto dest!: Itoa_chars simp: digit_neq is_digit_def)
  let ?s = "addr_String (V4 w) @ ''/'' @ Itoa b"
  have tw: "takeWhile (\<lambda>c. c \<noteq> CHR ''/'') (rev ?s) = rev (Itoa b)"
    using ni by (auto simp: takeWhile_append takeWhile_eq_all_conv)
  have dw: "dropWhile (\<lambda>c. c \<noteq> CHR ''/'') (rev ?s) = CHR ''/'' # rev (addr_String (V4 w))"
    using ni by (auto simp: dropWhile_append dropWhile_eq_Nil_conv)
  show ?thesis
    using assms tw dw
    by (simp add: ParsePrefix_def prefix_String_def IsValid_def parse_bits_Itoa PrefixFrom_def
        del: addr_String.simps)
qed

lemma string4_inj: "string4 a = string4 b \<longleftrightarrow> a = b"
  by (metis parseIPv4_string4 option.inject)

lemma addr_String_V4_inj [simp]: "addr_String (V4 a) = addr_String (V4 b) \<longleftrightarrow> a = b"
  by (simp add: string4_inj)

lemma keep_bits_idem [simp]: "keep_bits b (keep_bits b w) = keep_bits b w"
  by (rule bit_word_eqI) (auto simp: keep_bits_def bit_simps)

lemma Masked_idem: "Masked (Masked p) = Masked p"
  by (cases p; cases "prefix_Addr p") (auto simp: Masked_def)

lemma prefix_Bits_Masked: "IsValid (Masked p) \<Longrightarrow> prefix_Bits (Masked p) = prefix_Bits p"
  by (cases p; cases "prefix_Addr p") (auto simp: Masked_def IsValid_def split: if_splits)

lemma unat_keep_bits:
  fixes w :: "'a::len word"
  shows "unat (keep_bits b w) = unat w div 2 ^ (LENGTH('a) - b) * 2 ^ (LENGTH('a) - b)"
proof -
  let ?k = "LENGTH('a) - b"
  have le: "unat w div 2 ^ ?k * 2 ^ ?k \<le> unat w" by (simp add: div_times_less_eq_dividend)
  have lt: "unat w < 2 ^ LENGTH('a)" by (rule unsigned_less)
  have dd: "unat (drop_bit ?k w) = unat w div 2 ^ ?k"
    by (simp only: unsigned_drop_bit_eq) (simp add: drop_bit_eq_div take_bit_eq_mod)
  have "unat (keep_bits b w) = take_bit LENGTH('a) (push_bit ?k (unat (drop_bit ?k w)))"
    by (simp add: keep_bits_def unsigned_push_bit_eq)
  also have "\<dots> = (unat w div 2 ^ ?k * 2 ^ ?k) mod 2 ^ LENGTH('a)"
    by (simp only: dd take_bit_eq_mod push_bit_eq_mult)
  also have "\<dots> = unat w div 2 ^ ?k * 2 ^ ?k" by (rule mod_less[OF le_less_trans[OF le lt]])
  finally show ?thesis .
qed

end
