(* ===== verification/WgModel.thy ===== *)
theory WgModel
  imports WgKey Netip
begin

text \<open>
  internal/wg/model.go and internal/wg/limits.go: servers (\<open>Instance\<close>) and devices (\<open>Peer\<close>) as
  records, their defaults, and what keeps a device off the tunnel.
\<close>

section \<open>Servers and devices\<close>

definition DefaultListenPort :: int where "DefaultListenPort = 51820"
definition DefaultKeepalive :: int where "DefaultKeepalive = 25"
definition DefaultMTU :: int where "DefaultMTU = 1420"

definition ip4 :: "nat \<Rightarrow> nat \<Rightarrow> nat \<Rightarrow> nat \<Rightarrow> Addr" where
  "ip4 a b c d = V4 (word4 a b c d)"

definition DefaultAddress :: Prefix where "DefaultAddress = PrefixFrom (ip4 10 8 0 1) 24"
definition DefaultDNS :: "Addr list" where "DefaultDNS = [ip4 1 1 1 1, ip4 1 0 0 1]"

record Instance =
  in_ID :: int
  in_NodeID :: int
  in_Name :: string
  in_Address :: Prefix
  in_ListenPort :: int
  in_PrivateKey :: Key
  in_PublicKey :: Key
  in_Endpoint :: string
  in_DNS :: "Addr list"
  in_DNSOnServer :: bool
  in_MTU :: int
  in_PersistentKeepalive :: int
  in_ClientAllowedIPs :: "Prefix list"
  in_Country :: string
  in_City :: string
  in_CreatedAt :: gotime
  in_UpdatedAt :: gotime

record Peer =
  p_ID :: int
  p_InstanceID :: int
  p_Name :: string
  p_Address :: Addr
  p_PrivateKey :: Key
  p_PublicKey :: Key
  p_PresharedKey :: Key
  p_Enabled :: bool
  p_ExternalID :: string
  p_Metadata :: string
  p_DataLimit :: int
  p_LimitPeriod :: string
  p_UsageResetAt :: "gotime option"
  p_ExpiresAt :: "gotime option"
  p_SpeedLimit :: int
  p_ShareToken :: string
  p_ShareExpiresAt :: "gotime option"
  p_LastHandshake :: "gotime option"
  p_CreatedAt :: gotime
  p_UpdatedAt :: gotime

definition PeriodMonthly :: string where "PeriodMonthly = ''monthly''"
definition PeriodTotal :: string where "PeriodTotal = ''total''"

definition NewInstance :: "(Key \<Rightarrow> Key) \<Rightarrow> bytes \<Rightarrow> string \<Rightarrow> string \<Rightarrow> Instance" where
  "NewInstance x25519 rnd name endpoint =
     (let priv = GeneratePrivateKey rnd in
      \<lparr>in_ID = 0, in_NodeID = 0, in_Name = name, in_Address = DefaultAddress,
       in_ListenPort = DefaultListenPort, in_PrivateKey = priv, in_PublicKey = PublicKey x25519 priv,
       in_Endpoint = endpoint, in_DNS = DefaultDNS, in_DNSOnServer = False, in_MTU = 0,
       in_PersistentKeepalive = DefaultKeepalive,
       in_ClientAllowedIPs = [PrefixFrom (ip4 0 0 0 0) 0, PrefixFrom (V6 0 []) 0],
       in_Country = [], in_City = [], in_CreatedAt = 0, in_UpdatedAt = 0\<rparr>)"

text \<open>A fresh device; \<open>NewPeer\<close> has its keys made here, \<open>NewClientPeer\<close> by the client.\<close>

definition blank_peer :: "int \<Rightarrow> string \<Rightarrow> Peer" where
  "blank_peer instanceID name =
     \<lparr>p_ID = 0, p_InstanceID = instanceID, p_Name = name, p_Address = NoAddr, p_PrivateKey = ZeroKey,
      p_PublicKey = ZeroKey, p_PresharedKey = ZeroKey, p_Enabled = True, p_ExternalID = [], p_Metadata = [],
      p_DataLimit = 0, p_LimitPeriod = PeriodMonthly, p_UsageResetAt = None, p_ExpiresAt = None,
      p_SpeedLimit = 0, p_ShareToken = [], p_ShareExpiresAt = None, p_LastHandshake = None,
      p_CreatedAt = 0, p_UpdatedAt = 0\<rparr>"

definition NewPeer :: "(Key \<Rightarrow> Key) \<Rightarrow> bytes \<Rightarrow> bytes \<Rightarrow> int \<Rightarrow> string \<Rightarrow> Peer" where
  "NewPeer x25519 rnd rnd' instanceID name =
     (let priv = GeneratePrivateKey rnd in
      (blank_peer instanceID name)\<lparr>p_PrivateKey := priv, p_PublicKey := PublicKey x25519 priv,
        p_PresharedKey := GeneratePresharedKey rnd'\<rparr>)"

definition NewClientPeer :: "bytes \<Rightarrow> int \<Rightarrow> string \<Rightarrow> Key \<Rightarrow> Peer" where
  "NewClientPeer rnd' instanceID name public =
     (blank_peer instanceID name)\<lparr>p_PublicKey := public, p_PresharedKey := GeneratePresharedKey rnd'\<rparr>"

definition KeyOnClient :: "Peer \<Rightarrow> bool" where
  "KeyOnClient p = IsZero (p_PrivateKey p)"

definition Subnet :: "Instance \<Rightarrow> Prefix" where
  "Subnet i = Masked (in_Address i)"

section \<open>Data limits and expiry\<close>

record Traffic =
  RxBytes :: int
  TxBytes :: int

definition no_traffic :: Traffic where "no_traffic = \<lparr>RxBytes = 0, TxBytes = 0\<rparr>"

definition Total :: "Traffic \<Rightarrow> int" where
  "Total t = wrap64 (RxBytes t + TxBytes t)"

definition period_Valid :: "string \<Rightarrow> bool" where
  "period_Valid lp \<longleftrightarrow> lp = PeriodMonthly \<or> lp = PeriodTotal"

definition OrDefault :: "string \<Rightarrow> string" where
  "OrDefault lp = (if lp = [] then PeriodMonthly else lp)"

text \<open>Go's empty \<open>Block\<close> is \<open>Unblocked\<close>.\<close>

datatype Block = Unblocked | BlockExpired | BlockLimit

definition Blocked :: "Peer \<Rightarrow> Traffic \<Rightarrow> gotime \<Rightarrow> Block" where
  "Blocked p used now =
     (if \<not> p_Enabled p then Unblocked
      else if (case p_ExpiresAt p of None \<Rightarrow> False | Some e \<Rightarrow> \<not> now < e) then BlockExpired
      else if 0 < p_DataLimit p \<and> p_DataLimit p \<le> Total used then BlockLimit
      else Unblocked)"

definition StatusActive :: string where "StatusActive = ''active''"
definition StatusDisabled :: string where "StatusDisabled = ''disabled''"
definition StatusExpired :: string where "StatusExpired = ''expired''"
definition StatusLimitReached :: string where "StatusLimitReached = ''limit_reached''"

lemmas status_defs = StatusActive_def StatusDisabled_def StatusExpired_def StatusLimitReached_def

definition status_Valid :: "string \<Rightarrow> bool" where
  "status_Valid s \<longleftrightarrow> s \<in> {StatusActive, StatusDisabled, StatusExpired, StatusLimitReached}"

definition peer_Status :: "Peer \<Rightarrow> Traffic \<Rightarrow> gotime \<Rightarrow> string" where
  "peer_Status p used now =
     (if \<not> p_Enabled p then StatusDisabled
      else case Blocked p used now of
        BlockExpired \<Rightarrow> StatusExpired
      | BlockLimit \<Rightarrow> StatusLimitReached
      | Unblocked \<Rightarrow> StatusActive)"

lemma peer_Status_Valid: "status_Valid (peer_Status p used now)"
  by (simp add: status_Valid_def peer_Status_def split: Block.split)

lemma peer_Status_active_iff:
  "peer_Status p used now = StatusActive \<longleftrightarrow> p_Enabled p \<and> Blocked p used now = Unblocked"
  by (auto simp: peer_Status_def status_defs split: Block.splits)

text \<open>A device never comes back on its own: more time and more traffic keep it blocked.\<close>

lemma Blocked_mono:
  assumes "Blocked p used now \<noteq> Unblocked" and "now \<le> now'" and "Total used \<le> Total used'"
  shows "Blocked p used' now' \<noteq> Unblocked"
  using assms by (auto simp: Blocked_def split: option.splits if_splits)

lemma Blocked_expired_iff:
  "Blocked p used now = BlockExpired \<longleftrightarrow> p_Enabled p \<and> (\<exists>e. p_ExpiresAt p = Some e \<and> e \<le> now)"
  by (auto simp: Blocked_def split: option.splits)

lemma Total_exact: "int64_range (RxBytes t + TxBytes t) \<Longrightarrow> Total t = RxBytes t + TxBytes t"
  by (simp add: Total_def wrap64_id)

lemma NewPeer_key: "length rnd = 32 \<Longrightarrow> \<not> KeyOnClient (NewPeer x25519 rnd rnd' i n)"
  using GeneratePrivateKey_clamped(4)[of rnd] by (simp add: KeyOnClient_def NewPeer_def Let_def blank_peer_def)

lemma NewClientPeer_key: "KeyOnClient (NewClientPeer rnd' i n k)"
  by (simp add: KeyOnClient_def NewClientPeer_def IsZero_def blank_peer_def)

end
