(* ===== verification/WgAddress.thy ===== *)
theory WgAddress
  imports WgModel
begin

text \<open>
  internal/wg/address.go: which addresses of a subnet devices can have and how the next one is
  found. A subnet is a \<open>Prefix\<close>; its host addresses are all but the network and the broadcast
  address. The lemmas give the exact range, that the search returns the least free host address,
  that it fails only when none is free, and how many devices fit.
\<close>

definition hostRange :: "Prefix \<Rightarrow> (32 word \<times> 32 word) option" where
  "hostRange subnet =
     (if \<not> IsValid subnet \<or> \<not> Is4 (prefix_Addr subnet) \<or> prefix_Bits subnet > 30 then None
      else case prefix_Addr (Masked subnet) of
        V4 network \<Rightarrow>
          let size = push_bit (nat (32 - prefix_Bits subnet)) 1
          in Some (network + 1, network + size - 2)
      | _ \<Rightarrow> None)"

definition isHostAddress :: "Prefix \<Rightarrow> bool" where
  "isHostAddress p =
     (case hostRange p of
        None \<Rightarrow> False
      | Some (first, lst) \<Rightarrow> (case prefix_Addr p of V4 n \<Rightarrow> n \<ge> first \<and> n \<le> lst | _ \<Rightarrow> False))"

definition addrFrom :: "nat \<Rightarrow> Addr" where
  "addrFrom n = V4 (word_of_nat n)"

text \<open>
  The loop \<open>for n := first; n <= lst; n++\<close>. The counter is kept as a natural number: by
  \<open>hostRange_bounds\<close> below, \<open>lst\<close> is at most \<open>2 ^ 32 - 2\<close>, so the \<open>uint32\<close> of the code never wraps.
\<close>

function findFree :: "Addr list \<Rightarrow> nat \<Rightarrow> nat \<Rightarrow> Addr option" where
  "findFree taken n lst =
     (if n \<le> lst then (if addrFrom n \<notin> set taken then Some (addrFrom n) else findFree taken (Suc n) lst)
      else None)"
  by pat_completeness auto
termination
  by (relation "measure (\<lambda>(_, n, lst). Suc lst - n)") auto

declare findFree.simps [simp del]

definition NextAddress :: "Prefix \<Rightarrow> Addr list \<Rightarrow> err + Addr" where
  "NextAddress subnet used =
     (case hostRange subnet of
        None \<Rightarrow> Inl ErrSubnetFull
      | Some (first, lst) \<Rightarrow>
          (case findFree used (unat first) (unat lst) of
             None \<Rightarrow> Inl ErrSubnetFull
           | Some a \<Rightarrow> Inr a))"

definition Capacity :: "int \<Rightarrow> int" where
  "Capacity bits = 2 ^ nat (32 - bits) - 3"

section \<open>The range\<close>

definition net_base :: "32 word \<Rightarrow> nat \<Rightarrow> nat" where
  "net_base w b = unat w div 2 ^ (32 - b) * 2 ^ (32 - b)"

definition net_size :: "int \<Rightarrow> nat" where
  "net_size b = 2 ^ (32 - nat b)"

lemma net_base_fits:
  assumes "b \<le> 32"
  shows "net_base w b + 2 ^ (32 - b) \<le> 2 ^ 32"
proof -
  let ?s = "(2::nat) ^ (32 - b)"
  have two: "(2::nat) ^ 32 = 2 ^ b * ?s" using assms by (simp add: power_add[symmetric])
  have "unat w < 2 ^ LENGTH(32)" by (rule unsigned_less)
  then have "unat w < 2 ^ b * ?s" using two by simp
  then have "unat w div ?s < 2 ^ b" by (simp add: less_mult_imp_div_less)
  then have "Suc (unat w div ?s) * ?s \<le> 2 ^ b * ?s" by (intro mult_le_mono1) simp
  then show ?thesis using two by (simp add: net_base_def)
qed

lemma unat32: "n < 2 ^ 32 \<Longrightarrow> unat (word_of_nat n :: 32 word) = n"
  by (simp add: unat_of_nat take_bit_eq_mod)

lemma nat_sub32: "0 \<le> b \<Longrightarrow> nat (32 - b) = 32 - nat b"
  by (simp add: nat_diff_distrib)

lemma unat_add_lit:
  fixes w :: "32 word"
  assumes "unat w + unat v < 2 ^ 32"
  shows "unat (w + v) = unat w + unat v"
  using assms by (simp add: unat_word_ariths)

lemma hostRange_None:
  "hostRange (Prefix a b) = None \<longleftrightarrow> \<not> (\<exists>w. a = V4 w \<and> 0 \<le> b \<and> b \<le> 30)"
  by (cases a) (auto simp: hostRange_def IsValid_def Masked_def Let_def split: Addr.splits)

lemma hostRange_bounds:
  assumes "hostRange (Prefix (V4 w) b) = Some (first, lst)"
  defines "base \<equiv> net_base w (nat b)" and "sz \<equiv> net_size b"
  shows "0 \<le> b" and "b \<le> 30" and "unat first = base + 1" and "unat lst = base + sz - 2"
    and "4 \<le> sz" and "base + sz \<le> 2 ^ 32"
proof -
  show b: "0 \<le> b" "b \<le> 30"
    using assms(1) by (auto simp: hostRange_def IsValid_def split: if_splits)
  let ?b = "nat b"
  have nb: "nat (32 - b) = 32 - ?b" and b30: "?b \<le> 30" using b by auto
  let ?net = "keep_bits ?b w"
  have fl: "first = ?net + 1" "lst = ?net + push_bit (nat (32 - b)) 1 - 2"
    using assms(1) b by (auto simp: hostRange_def IsValid_def Masked_def Let_def)
  have base: "unat ?net = base"
    unfolding base_def net_base_def by (simp add: unat_keep_bits)
  have "(2::nat) ^ 2 \<le> 2 ^ (32 - ?b)" using b30 by (intro power_increasing) auto
  then show size4: "4 \<le> sz" by (simp add: sz_def net_size_def)
  show fits: "base + sz \<le> 2 ^ 32"
    using net_base_fits[of ?b w] b30 by (simp add: base_def sz_def net_size_def)
  have one: "unat (1 :: 32 word) = 1" by simp
  show "unat first = base + 1"
    using unat_add_lit[of ?net 1] base fits size4 by (simp add: fl)
  have "unat lst = base + (sz - 2)"
  proof -
    have eq: "lst = word_of_nat (base + (sz - 2))"
    proof -
      have "push_bit (nat (32 - b)) (1 :: 32 word) = word_of_nat sz"
        by (simp add: sz_def net_size_def nb push_bit_eq_mult)
      moreover have "?net = word_of_nat base" by (simp add: base[symmetric])
      moreover have "(2 :: 32 word) = word_of_nat 2" by simp
      moreover have "2 \<le> sz" using size4 by simp
      ultimately show ?thesis
        by (simp only: fl of_nat_add of_nat_diff diff_conv_add_uminus add.assoc)
    qed
    have "base + (sz - 2) < 2 ^ 32" using fits size4 by simp
    then show ?thesis by (simp add: eq unat32 del: of_nat_add)
  qed
  then show "unat lst = base + sz - 2" using size4 by simp
qed

section \<open>The search\<close>

lemma findFree_Some:
  "findFree taken n lst = Some a \<Longrightarrow>
   \<exists>m. n \<le> m \<and> m \<le> lst \<and> a = addrFrom m \<and> a \<notin> set taken \<and> (\<forall>j. n \<le> j \<and> j < m \<longrightarrow> addrFrom j \<in> set taken)"
proof (induction taken n lst rule: findFree.induct)
  case (1 taken n lst)
  show ?case
  proof (cases "n \<le> lst \<and> addrFrom n \<in> set taken")
    case True
    then have "findFree taken (Suc n) lst = Some a"
      using "1.prems" by (simp add: findFree.simps[of taken n])
    with True "1.IH" obtain m where m: "Suc n \<le> m" "m \<le> lst" "a = addrFrom m" "a \<notin> set taken"
      "\<forall>j. Suc n \<le> j \<and> j < m \<longrightarrow> addrFrom j \<in> set taken" by blast
    then have "\<forall>j. n \<le> j \<and> j < m \<longrightarrow> addrFrom j \<in> set taken"
      using True by (metis le_neq_implies_less less_eq_Suc_le)
    with m show ?thesis by (intro exI[of _ m]) auto
  next
    case False
    then show ?thesis using "1.prems" by (auto simp: findFree.simps[of taken n] split: if_splits)
  qed
qed

lemma findFree_None: "findFree taken n lst = None \<longleftrightarrow> (\<forall>m. n \<le> m \<and> m \<le> lst \<longrightarrow> addrFrom m \<in> set taken)"
proof (induction taken n lst rule: findFree.induct)
  case (1 taken n lst)
  have split: "(n \<le> m \<and> m \<le> lst) \<longleftrightarrow> (n \<le> lst \<and> m = n) \<or> (Suc n \<le> m \<and> m \<le> lst)" for m by auto
  show ?case
    using "1.IH" by (subst findFree.simps) (auto simp: split not_le)
qed

section \<open>What the code promises\<close>

text \<open>The host addresses of a subnet, in terms of the code's own checks.\<close>

definition host_of :: "Prefix \<Rightarrow> Addr \<Rightarrow> bool" where
  "host_of subnet a \<longleftrightarrow> prefix_Contains subnet a \<and> isHostAddress (Prefix a (prefix_Bits subnet))"

lemma div_eq_range:
  assumes "0 < (k::nat)"
  shows "a div k = b div k \<longleftrightarrow> b div k * k \<le> a \<and> a < b div k * k + k"
proof
  assume "a div k = b div k"
  then show "b div k * k \<le> a \<and> a < b div k * k + k"
    using assms div_times_less_eq_dividend[of a k] dividend_less_div_times[of k a] by simp
next
  assume "b div k * k \<le> a \<and> a < b div k * k + k"
  then have "a = b div k * k + (a - b div k * k)" "a - b div k * k < k" by auto
  then show "a div k = b div k" using assms
    by (metis div_mult_self3 div_less add.right_neutral nat_neq_iff)
qed

lemma xor_zero_iff: "xor x y = 0 \<longleftrightarrow> x = (y :: 32 word)"
proof
  assume xy: "xor x y = 0"
  have "x = xor x (xor y y)" by simp
  also have "\<dots> = xor (xor x y) y" by (simp only: xor.assoc)
  finally show "x = y" by (simp add: xy)
qed simp

lemma unat_drop_bit32: "unat (drop_bit k (x :: 32 word)) = unat x div 2 ^ k"
proof -
  have "unat x < 2 ^ LENGTH(32)" by (rule unsigned_less)
  then show ?thesis by (simp only: unsigned_drop_bit_eq) (simp add: drop_bit_eq_div take_bit_eq_mod)
qed

lemma Contains_V4:
  assumes "0 \<le> b" and "b \<le> 32"
  shows "prefix_Contains (Prefix (V4 w) b) (V4 a) \<longleftrightarrow>
     net_base w (nat b) \<le> unat a \<and> unat a < net_base w (nat b) + net_size b"
proof -
  let ?k = "32 - nat b"
  have dd: "unat (drop_bit ?k x) = unat x div 2 ^ ?k" for x :: "32 word"
    by (rule unat_drop_bit32)
  have "drop_bit ?k (xor a w) = 0 \<longleftrightarrow> drop_bit ?k a = drop_bit ?k w"
    by (simp only: drop_bit_xor xor_zero_iff)
  also have "\<dots> \<longleftrightarrow> unat a div 2 ^ ?k = unat w div 2 ^ ?k"
    by (metis dd word_unat_eq_iff)
  also have "\<dots> \<longleftrightarrow> net_base w (nat b) \<le> unat a \<and> unat a < net_base w (nat b) + 2 ^ ?k"
    unfolding net_base_def by (rule div_eq_range) simp
  finally show ?thesis using assms by (simp add: prefix_Contains_def IsValid_def net_size_def)
qed

lemma host_of_V4:
  assumes "0 \<le> b" and "b \<le> 30"
  shows "host_of (Prefix (V4 w) b) (V4 a) \<longleftrightarrow>
     net_base w (nat b) < unat a \<and> unat a + 1 < net_base w (nat b) + net_size b"
proof -
  let ?sz = "net_size b"
  obtain f l where fl: "hostRange (Prefix (V4 a) b) = Some (f, l)"
    using assms hostRange_None[of "V4 a" b] by (cases "hostRange (Prefix (V4 a) b)") auto
  have ishost: "isHostAddress (Prefix (V4 a) b) \<longleftrightarrow> net_base a (nat b) < unat a \<and> unat a + 1 < net_base a (nat b) + ?sz"
    using hostRange_bounds[OF fl] fl by (auto simp: isHostAddress_def word_le_nat_alt)
  have same: "net_base a (nat b) = net_base w (nat b)"
    if "net_base w (nat b) \<le> unat a" "unat a < net_base w (nat b) + ?sz"
    using that div_eq_range[of ?sz "unat a" "unat w"] by (simp add: net_base_def net_size_def)
  show ?thesis
    using assms same by (auto simp: host_of_def Contains_V4 ishost)
qed

lemma host_of_other: "host_of (Prefix (V4 w) b) x \<Longrightarrow> \<exists>a. x = V4 a"
  by (cases x) (auto simp: host_of_def prefix_Contains_def split: if_splits)

lemma addrFrom_unat [simp]: "addrFrom (unat n) = V4 n"
  by (simp add: addrFrom_def)

lemma host_range_iff:
  assumes hr: "hostRange (Prefix (V4 w) b) = Some (f, l)"
  shows "host_of (Prefix (V4 w) b) (V4 a) \<longleftrightarrow> unat f \<le> unat a \<and> unat a \<le> unat l"
proof -
  note hb = hostRange_bounds[OF hr]
  then show ?thesis by (auto simp: host_of_V4)
qed

lemma NextAddress_Inr:
  assumes na: "NextAddress (Prefix x b) used = Inr r"
  obtains w n where "x = V4 w" and "r = V4 n" and "host_of (Prefix x b) r" and "r \<notin> set used"
    and "\<And>m. host_of (Prefix x b) (V4 m) \<Longrightarrow> V4 m \<notin> set used \<Longrightarrow> n \<le> m"
proof -
  obtain f l where hr: "hostRange (Prefix x b) = Some (f, l)"
    and ff: "findFree used (unat f) (unat l) = Some r"
    using na by (auto simp: NextAddress_def split: option.splits)
  obtain w where x: "x = V4 w" using hr hostRange_None[of x b] by auto
  obtain m where m: "unat f \<le> m" "m \<le> unat l" "r = addrFrom m" "r \<notin> set used"
    "\<forall>j. unat f \<le> j \<and> j < m \<longrightarrow> addrFrom j \<in> set used"
    using findFree_Some[OF ff] by blast
  have "unat l < 2 ^ LENGTH(32)" by (rule unsigned_less)
  then have "m < 2 ^ LENGTH(32)" using m(2) by (rule le_less_trans[rotated])
  then have um: "unat (word_of_nat m :: 32 word) = m" by (simp add: unat32)
  show thesis
  proof
    show "x = V4 w" by (rule x)
    show "r = V4 (word_of_nat m)" using m(3) by (simp add: addrFrom_def)
    show "host_of (Prefix x b) r" using m um hr by (simp add: addrFrom_def x host_range_iff)
    show "r \<notin> set used" by (rule m(4))
    fix k show "word_of_nat m \<le> k" if "host_of (Prefix x b) (V4 k)" "V4 k \<notin> set used"
      using that m(5) hr addrFrom_unat[of k] by (auto simp: x host_range_iff word_le_nat_alt um not_le[symmetric])
  qed
qed

lemma NextAddress_Inl_iff:
  "NextAddress (Prefix (V4 w) b) used = Inl e \<longleftrightarrow>
     e = ErrSubnetFull \<and> ((0 \<le> b \<and> b \<le> 30) \<longrightarrow> (\<forall>a. host_of (Prefix (V4 w) b) a \<longrightarrow> a \<in> set used))"
proof (cases "hostRange (Prefix (V4 w) b)")
  case None
  then have "\<not> (0 \<le> b \<and> b \<le> 30)" using hostRange_None[of "V4 w" b] by auto
  then show ?thesis using None by (auto simp: NextAddress_def)
next
  case (Some fl)
  obtain f l where fl: "fl = (f, l)" by (cases fl)
  note hr = Some[unfolded fl]
  have b: "0 \<le> b" "b \<le> 30" using hostRange_bounds[OF hr] by auto
  have "findFree used (unat f) (unat l) = None \<longleftrightarrow> (\<forall>a. host_of (Prefix (V4 w) b) (V4 a) \<longrightarrow> V4 a \<in> set used)"
  proof -
    have "unat l < 2 ^ LENGTH(32)" by (rule unsigned_less)
    then have l32: "m \<le> unat l \<Longrightarrow> unat (word_of_nat m :: 32 word) = m" for m
      by (simp add: unat32)
    show ?thesis
      unfolding findFree_None host_range_iff[OF hr]
    proof (intro iffI allI impI)
      fix a :: "32 word" assume "\<forall>m. unat f \<le> m \<and> m \<le> unat l \<longrightarrow> addrFrom m \<in> set used" and "unat f \<le> unat a \<and> unat a \<le> unat l"
      then show "V4 a \<in> set used" using addrFrom_unat[of a] by metis
    next
      fix m assume all: "\<forall>a. unat f \<le> unat a \<and> unat a \<le> unat l \<longrightarrow> V4 a \<in> set used" and "unat f \<le> m \<and> m \<le> unat l"
      then show "addrFrom m \<in> set used" using l32[of m] by (simp add: addrFrom_def)
    qed
  qed
  then show ?thesis
    using b host_of_other[of w b] hr by (auto simp: NextAddress_def split: option.splits)
qed

lemma card_hosts:
  assumes "0 \<le> b" and "b \<le> 30"
  shows "finite {a. host_of (Prefix (V4 w) b) a}" and "card {a. host_of (Prefix (V4 w) b) a} = net_size b - 2"
proof -
  let ?sz = "net_size b" and ?base = "net_base w (nat b)"
  let ?I = "{?base + 1 ..< ?base + ?sz - 1}"
  have fits: "?base + ?sz \<le> 2 ^ 32" using net_base_fits[of "nat b" w] assms by (simp add: net_size_def)
  have un: "i \<in> ?I \<Longrightarrow> unat (word_of_nat i :: 32 word) = i" for i
    using fits by (intro unat32) (auto simp del: One_nat_def)
  have eq: "{a. host_of (Prefix (V4 w) b) a} = addrFrom ` ?I"
  proof (intro set_eqI iffI)
    fix x assume "x \<in> {a. host_of (Prefix (V4 w) b) a}"
    then obtain a where "x = V4 a" "host_of (Prefix (V4 w) b) (V4 a)" using host_of_other by blast
    then show "x \<in> addrFrom ` ?I"
      using assms host_of_V4[of b w a] by (intro image_eqI[of _ _ "unat a"]) auto
  next
    fix x assume "x \<in> addrFrom ` ?I"
    then show "x \<in> {a. host_of (Prefix (V4 w) b) a}"
      using assms un by (auto simp: addrFrom_def host_of_V4)
  qed
  have inj: "inj_on addrFrom ?I"
  proof (rule inj_onI)
    fix i j assume ij: "i \<in> ?I" "j \<in> ?I" and "addrFrom i = addrFrom j"
    then have "unat (word_of_nat i :: 32 word) = unat (word_of_nat j :: 32 word)" by (simp add: addrFrom_def)
    then show "i = j" using un[OF ij(1)] un[OF ij(2)] by simp
  qed
  show "finite {a. host_of (Prefix (V4 w) b) a}" unfolding eq by simp
  show "card {a. host_of (Prefix (V4 w) b) a} = ?sz - 2"
    unfolding eq using card_image[OF inj] by simp
qed

text \<open>A subnet with room for one more device always yields an address.\<close>

lemma NextAddress_has_room:
  assumes "0 \<le> b" and "b \<le> 30" and "int (length used) < Capacity b"
  shows "\<exists>a. NextAddress (Prefix (V4 w) b) (used @ [server]) = Inr a"
proof (rule ccontr)
  assume "\<not> ?thesis"
  then obtain e where "NextAddress (Prefix (V4 w) b) (used @ [server]) = Inl e"
    by (cases "NextAddress (Prefix (V4 w) b) (used @ [server])") auto
  then have sub: "{a. host_of (Prefix (V4 w) b) a} \<subseteq> set (used @ [server])"
    using assms(1,2) NextAddress_Inl_iff[of w b "used @ [server]" e] by auto
  have "card {a. host_of (Prefix (V4 w) b) a} \<le> length (used @ [server])"
    using card_mono[OF _ sub] card_length[of "used @ [server]"] by simp
  then have le: "net_size b - 2 \<le> length used + 1" using card_hosts[OF assms(1,2), of w] by simp
  have "nat (32 - b) = 32 - nat b" using assms(1) by (simp add: nat_sub32)
  then have "int (length used) + 3 < int (net_size b)" using assms(3) by (simp add: Capacity_def net_size_def)
  then show False using le by linarith
qed

text \<open>Clearing the host bits of a subnet first changes nothing: a server's own prefix serves as well.\<close>

lemma Masked_V4: "0 \<le> b \<Longrightarrow> b \<le> 32 \<Longrightarrow> Masked (Prefix (V4 w) b) = Prefix (V4 (keep_bits (nat b) w)) b"
  by (simp add: Masked_def)

lemma hostRange_Masked: "0 \<le> b \<Longrightarrow> b \<le> 30 \<Longrightarrow> hostRange (Masked (Prefix (V4 w) b)) = hostRange (Prefix (V4 w) b)"
  by (simp add: hostRange_def Masked_V4 IsValid_def)

lemma NextAddress_Masked:
  "0 \<le> b \<Longrightarrow> b \<le> 30 \<Longrightarrow> NextAddress (Masked (Prefix (V4 w) b)) used = NextAddress (Prefix (V4 w) b) used"
  by (simp add: NextAddress_def hostRange_Masked)

end
