(* ===== verification/WgValidate.thy ===== *)
theory WgValidate
  imports WgAddress
begin

text \<open>
  internal/wg/validate.go: what a server and a device must look like before they are saved.
  \<open>Validate\<close> returns the map from a field to its complaint; the lemmas say exactly when it is
  empty and what a value that passed can be relied on for.
\<close>

section \<open>JSON\<close>

text \<open>
  \<open>json.Valid\<close>, as a recursive descent over the bytes. Each function returns what follows the
  value it read. A nesting of values needs at least one byte per level, so the length of the
  text is enough fuel.
\<close>

definition json_space :: "char \<Rightarrow> bool" where
  "json_space c \<longleftrightarrow> byte c \<in> {32, 9, 10, 13}"

abbreviation skip_ws :: "string \<Rightarrow> string" where
  "skip_ws s \<equiv> dropWhile json_space s"

definition is_hex :: "char \<Rightarrow> bool" where
  "is_hex c \<longleftrightarrow> hex_value c \<noteq> None"

fun json_string :: "string \<Rightarrow> string option" where
  "json_string [] = None"
| "json_string (c # s) =
     (if c = CHR 0x22 then Some s
      else if byte c < 32 then None
      else if c = CHR 0x5C then
        (case s of [] \<Rightarrow> None
         | e # s' \<Rightarrow>
           if e \<in> set [CHR 0x22, CHR 0x5C, CHR ''/'', CHR ''b'', CHR ''f'', CHR ''n'', CHR ''r'', CHR ''t''] then json_string s'
           else if e = CHR ''u'' then
             (case s' of h1 # h2 # h3 # h4 # s'' \<Rightarrow>
                if list_all is_hex [h1, h2, h3, h4] then json_string s'' else None
              | _ \<Rightarrow> None)
           else None)
      else json_string s)"

definition json_digits :: "string \<Rightarrow> string option" where
  "json_digits s = (if s \<noteq> [] \<and> is_digit (hd s) then Some (dropWhile is_digit s) else None)"

definition json_int :: "string \<Rightarrow> string option" where
  "json_int s = (case s of c # r \<Rightarrow> if c = CHR ''0'' then Some r else json_digits s | [] \<Rightarrow> None)"

definition json_frac :: "string \<Rightarrow> string option" where
  "json_frac s = (case s of c # r \<Rightarrow> if c = CHR ''.'' then json_digits r else Some s | [] \<Rightarrow> Some s)"

definition json_exp :: "string \<Rightarrow> string option" where
  "json_exp s =
     (case s of c # r \<Rightarrow>
        if c = CHR ''e'' \<or> c = CHR ''E'' then
          json_digits (case r of d # r' \<Rightarrow> if d = CHR ''+'' \<or> d = CHR ''-'' then r' else r | [] \<Rightarrow> r)
        else Some s
      | [] \<Rightarrow> Some s)"

definition json_number :: "string \<Rightarrow> string option" where
  "json_number s =
     Option.bind (Option.bind (json_int (case s of c # r \<Rightarrow> if c = CHR ''-'' then r else s | [] \<Rightarrow> s)) json_frac) json_exp"

definition json_lit :: "string \<Rightarrow> string \<Rightarrow> string option" where
  "json_lit l s = (if take (length l) s = l then Some (drop (length l) s) else None)"

text \<open>\<open>json_value\<close> reads a value, \<open>json_elems\<close> the rest of an array, \<open>json_members\<close> of an object.\<close>

fun json_value :: "nat \<Rightarrow> string \<Rightarrow> string option"
  and json_elems :: "nat \<Rightarrow> string \<Rightarrow> string option"
  and json_members :: "nat \<Rightarrow> string \<Rightarrow> string option" where
  "json_value 0 s = None"
| "json_value (Suc n) s =
     (case skip_ws s of
        [] \<Rightarrow> None
      | c # r \<Rightarrow>
          if c = CHR 0x22 then json_string r
          else if c = CHR ''{'' then
            (case skip_ws r of d # r' \<Rightarrow> if d = CHR ''}'' then Some r' else json_members n r | [] \<Rightarrow> None)
          else if c = CHR ''['' then
            (case skip_ws r of d # r' \<Rightarrow> if d = CHR '']'' then Some r' else json_elems n r | [] \<Rightarrow> None)
          else if c = CHR ''t'' then json_lit ''rue'' r
          else if c = CHR ''f'' then json_lit ''alse'' r
          else if c = CHR ''n'' then json_lit ''ull'' r
          else json_number (c # r))"
| "json_elems 0 s = None"
| "json_elems (Suc n) s =
     (case json_value n s of None \<Rightarrow> None | Some r \<Rightarrow>
        (case skip_ws r of
           c # r' \<Rightarrow> if c = CHR '','' then json_elems n r' else if c = CHR '']'' then Some r' else None
         | [] \<Rightarrow> None))"
| "json_members 0 s = None"
| "json_members (Suc n) s =
     (case skip_ws s of
        [] \<Rightarrow> None
      | c # r \<Rightarrow>
          if c \<noteq> CHR 0x22 then None
          else (case json_string r of None \<Rightarrow> None | Some r1 \<Rightarrow>
            (case skip_ws r1 of
               [] \<Rightarrow> None
             | d # r2 \<Rightarrow>
                 if d \<noteq> CHR '':'' then None
                 else (case json_value n r2 of None \<Rightarrow> None | Some r3 \<Rightarrow>
                   (case skip_ws r3 of
                      e # r4 \<Rightarrow> if e = CHR '','' then json_members n r4
                                else if e = CHR ''}'' then Some r4 else None
                    | [] \<Rightarrow> None)))))"

definition json_Valid :: "string \<Rightarrow> bool" where
  "json_Valid s = (case json_value (2 * length s + 2) s of None \<Rightarrow> False | Some r \<Rightarrow> skip_ws r = [])"

section \<open>Names, hosts and countries\<close>

definition maxNameLength :: nat where "maxNameLength = 64"
definition MinSubnetBits :: int where "MinSubnetBits = 16"
definition maxSubnetBits :: int where "maxSubnetBits = 30"
definition minMTU :: int where "minMTU = 1280"
definition maxMTU :: int where "maxMTU = 1500"
definition maxCityLength :: nat where "maxCityLength = 64"
definition maxExternalIDLength :: nat where "maxExternalIDLength = 255"
definition maxMetadataBytes :: nat where "maxMetadataBytes = 4096"
definition MaxSpeedLimit :: int where "MaxSpeedLimit = 10000000"

lemmas wg_bounds = maxNameLength_def MinSubnetBits_def maxSubnetBits_def minMTU_def maxMTU_def
  maxCityLength_def maxExternalIDLength_def maxMetadataBytes_def MaxSpeedLimit_def

definition checkName :: "string \<Rightarrow> string" where
  "checkName name =
     (if TrimSpace name = [] then ''name is required''
      else if maxNameLength < RuneCountInString name then ''name must be at most 64 characters''
      else if contains_rune IsControl name then ''name must not contain control characters''
      else [])"

definition validCountry :: "string \<Rightarrow> bool" where
  "validCountry c \<longleftrightarrow>
     (case c of [a, b] \<Rightarrow> 65 \<le> byte a \<and> byte a \<le> 90 \<and> 65 \<le> byte b \<and> byte b \<le> 90 | _ \<Rightarrow> False)"

definition label_rune :: "nat \<Rightarrow> bool" where
  "label_rune r \<longleftrightarrow> (97 \<le> r \<and> r \<le> 122) \<or> (65 \<le> r \<and> r \<le> 90) \<or> (48 \<le> r \<and> r \<le> 57) \<or> r = 45"

definition validLabel :: "string \<Rightarrow> bool" where
  "validLabel label \<longleftrightarrow>
     \<not> (label = [] \<or> 63 < length label \<or> hd label = CHR ''-'' \<or> last label = CHR ''-'') \<and>
     list_all label_rune (runes label)"

definition ValidHost :: "string \<Rightarrow> bool" where
  "ValidHost host \<longleftrightarrow>
     (case ParseAddr host of
        Inr _ \<Rightarrow> True
      | Inl _ \<Rightarrow> \<not> (host = [] \<or> 253 < length host) \<and> list_all validLabel (Split (CHR ''.'') host))"

section \<open>Servers and devices\<close>

definition set_field :: "bool \<Rightarrow> string \<Rightarrow> string \<Rightarrow> fields \<Rightarrow> fields" where
  "set_field b k m f = (if b then AList.update k m f else f)"

lemma set_field_Nil [simp]: "set_field b k m f = [] \<longleftrightarrow> \<not> b \<and> f = []"
  by (simp add: set_field_def)

definition check_address :: "Prefix \<Rightarrow> string" where
  "check_address a =
     (if \<not> IsValid a then ''address is required''
      else if \<not> Is4 (prefix_Addr a) then ''address must be an IPv4 address with a prefix, e.g. 10.8.0.1/24''
      else if prefix_Bits a < MinSubnetBits \<or> prefix_Bits a > maxSubnetBits then ''subnet must be between /16 and /30''
      else if \<not> isHostAddress a then ''address must be a host inside the subnet, not its network or broadcast address''
      else [])"

definition check_endpoint :: "string \<Rightarrow> string" where
  "check_endpoint e =
     (if e = [] then ''endpoint is required''
      else if \<not> ValidHost e then ''endpoint must be a hostname or IP address, without a port''
      else [])"

definition check_city :: "string \<Rightarrow> string" where
  "check_city c =
     (if maxCityLength < RuneCountInString c then ''city must be at most 64 characters''
      else if contains_rune IsControl c then ''city must not contain control characters''
      else [])"

definition instance_Validate :: "Instance \<Rightarrow> fields" where
  "instance_Validate i =
    (let f = [];
         f = set_field (checkName (in_Name i) \<noteq> []) ''name'' (checkName (in_Name i)) f;
         f = set_field (check_address (in_Address i) \<noteq> []) ''address'' (check_address (in_Address i)) f;
         f = set_field (in_ListenPort i < 1 \<or> in_ListenPort i > 65535) ''listen_port''
               ''listen port must be between 1 and 65535'' f;
         f = set_field (check_endpoint (in_Endpoint i) \<noteq> []) ''endpoint'' (check_endpoint (in_Endpoint i)) f;
         f = set_field (\<not> list_all addr_IsValid (in_DNS i)) ''dns'' ''dns contains an invalid address'' f;
         f = (if in_DNSOnServer i then
                if in_DNS i = [] then
                  set_field True ''dns'' ''the resolver on the server needs at least one DNS server to forward to'' f
                else set_field (IsValid (in_Address i) \<and>
                       \<not> list_ex (\<lambda>p. prefix_Contains p (prefix_Addr (in_Address i))) (in_ClientAllowedIPs i))
                       ''client_allowed_ips''
                       (''client allowed IPs must include the server's address, '' @
                        addr_String (prefix_Addr (in_Address i)) @ '', so clients reach its DNS'') f
              else f);
         f = set_field (in_MTU i \<noteq> 0 \<and> (in_MTU i < minMTU \<or> in_MTU i > maxMTU)) ''mtu''
               ''mtu must be between 1280 and 1500, or 0 for the default'' f;
         f = set_field (in_PersistentKeepalive i < 0 \<or> in_PersistentKeepalive i > 65535) ''persistent_keepalive''
               ''persistent keepalive must be between 0 and 65535 seconds'' f;
         f = set_field (in_ClientAllowedIPs i = []) ''client_allowed_ips''
               ''at least one allowed IP range is required'' f;
         f = set_field (\<not> list_all IsValid (in_ClientAllowedIPs i)) ''client_allowed_ips''
               ''client allowed IPs contains an invalid range'' f;
         f = set_field (in_Country i \<noteq> [] \<and> \<not> validCountry (in_Country i)) ''country''
               ''country must be a two-letter ISO 3166 code such as DE'' f;
         f = set_field (check_city (in_City i) \<noteq> []) ''city'' (check_city (in_City i)) f
     in f)"

definition check_external_id :: "string \<Rightarrow> string" where
  "check_external_id e =
     (if maxExternalIDLength < length e then ''external_id must be at most 255 bytes''
      else if contains_rune IsControl e then ''external_id must not contain control characters''
      else [])"

definition check_metadata :: "string \<Rightarrow> string" where
  "check_metadata m =
     (if m = [] then []
      else if maxMetadataBytes < length m then ''metadata must be at most 4 KB''
      else if \<not> json_Valid m \<or> take 1 (TrimSpace m) \<noteq> ''{'' then ''metadata must be a JSON object''
      else [])"

definition peer_Validate :: "Peer \<Rightarrow> fields" where
  "peer_Validate p =
    (let f = [];
         f = set_field (checkName (p_Name p) \<noteq> []) ''name'' (checkName (p_Name p)) f;
         f = set_field (p_DataLimit p < 0) ''data_limit'' ''data limit must be 0 (no limit) or more'' f;
         f = set_field (p_SpeedLimit p < 0 \<or> p_SpeedLimit p > MaxSpeedLimit) ''speed_limit''
               ''speed limit must be between 0 (no limit) and 10000000 kbit/s'' f;
         f = set_field (p_LimitPeriod p \<noteq> [] \<and> \<not> period_Valid (p_LimitPeriod p)) ''limit_period''
               ''limit_period must be monthly or total'' f;
         f = set_field (check_external_id (p_ExternalID p) \<noteq> []) ''external_id'' (check_external_id (p_ExternalID p)) f;
         f = set_field (check_metadata (p_Metadata p) \<noteq> []) ''metadata'' (check_metadata (p_Metadata p)) f
     in f)"

section \<open>What a value that passed is good for\<close>

definition valid_name :: "string \<Rightarrow> bool" where
  "valid_name n \<longleftrightarrow> TrimSpace n \<noteq> [] \<and> RuneCountInString n \<le> 64 \<and> \<not> contains_rune IsControl n"

lemma checkName_Nil: "checkName n = [] \<longleftrightarrow> valid_name n"
  by (simp add: checkName_def valid_name_def maxNameLength_def not_less)

definition valid_instance :: "Instance \<Rightarrow> bool" where
  "valid_instance i \<longleftrightarrow>
     valid_name (in_Name i) \<and>
     (\<exists>w b. in_Address i = Prefix (V4 w) b \<and> 16 \<le> b \<and> b \<le> 30 \<and> host_of (in_Address i) (V4 w)) \<and>
     1 \<le> in_ListenPort i \<and> in_ListenPort i \<le> 65535 \<and>
     in_Endpoint i \<noteq> [] \<and> ValidHost (in_Endpoint i) \<and>
     (\<forall>a \<in> set (in_DNS i). addr_IsValid a) \<and>
     (in_DNSOnServer i \<longrightarrow> in_DNS i \<noteq> [] \<and>
        (\<exists>p \<in> set (in_ClientAllowedIPs i). prefix_Contains p (prefix_Addr (in_Address i)))) \<and>
     (in_MTU i = 0 \<or> 1280 \<le> in_MTU i \<and> in_MTU i \<le> 1500) \<and>
     0 \<le> in_PersistentKeepalive i \<and> in_PersistentKeepalive i \<le> 65535 \<and>
     in_ClientAllowedIPs i \<noteq> [] \<and> (\<forall>p \<in> set (in_ClientAllowedIPs i). IsValid p) \<and>
     (in_Country i = [] \<or> validCountry (in_Country i)) \<and>
     RuneCountInString (in_City i) \<le> 64 \<and> \<not> contains_rune IsControl (in_City i)"

lemma Contains_self: "0 \<le> b \<Longrightarrow> b \<le> 32 \<Longrightarrow> prefix_Contains (Prefix (V4 w) b) (V4 w)"
  by (simp add: prefix_Contains_def IsValid_def)

lemma check_address_Nil:
  "check_address a = [] \<longleftrightarrow> (\<exists>w b. a = Prefix (V4 w) b \<and> 16 \<le> b \<and> b \<le> 30 \<and> host_of a (V4 w))"
proof (cases a)
  case (Prefix x b)
  then show ?thesis
    by (cases x) (auto simp: check_address_def IsValid_def MinSubnetBits_def maxSubnetBits_def
        host_of_def Contains_self)
qed

text \<open>A server passes exactly when every field is in its range.\<close>

lemma instance_Validate_Nil: "instance_Validate i = [] \<longleftrightarrow> valid_instance i"
proof -
  have ce: "check_endpoint e = [] \<longleftrightarrow> e \<noteq> [] \<and> ValidHost e" for e by (simp add: check_endpoint_def)
  have cc: "check_city c = [] \<longleftrightarrow> RuneCountInString c \<le> 64 \<and> \<not> contains_rune IsControl c" for c
    by (simp add: check_city_def maxCityLength_def not_less)
  have addr_valid: "check_address a = [] \<Longrightarrow> IsValid a" for a
    by (simp add: check_address_def split: if_splits)
  show ?thesis
    unfolding instance_Validate_def valid_instance_def Let_def check_address_Nil[symmetric] checkName_Nil[symmetric]
    by (auto simp: ce cc minMTU_def maxMTU_def list_all_iff list_ex_iff addr_valid)
qed

definition valid_peer :: "Peer \<Rightarrow> bool" where
  "valid_peer p \<longleftrightarrow>
     valid_name (p_Name p) \<and> 0 \<le> p_DataLimit p \<and> 0 \<le> p_SpeedLimit p \<and> p_SpeedLimit p \<le> 10000000 \<and>
     (p_LimitPeriod p = [] \<or> p_LimitPeriod p = PeriodMonthly \<or> p_LimitPeriod p = PeriodTotal) \<and>
     length (p_ExternalID p) \<le> 255 \<and> \<not> contains_rune IsControl (p_ExternalID p) \<and>
     (p_Metadata p = [] \<or> length (p_Metadata p) \<le> 4096 \<and> json_Valid (p_Metadata p) \<and>
        take 1 (TrimSpace (p_Metadata p)) = ''{'')"

lemma peer_Validate_Nil: "peer_Validate p = [] \<longleftrightarrow> valid_peer p"
  unfolding peer_Validate_def valid_peer_def Let_def checkName_Nil[symmetric]
  by (auto simp: check_external_id_def check_metadata_def wg_bounds period_Valid_def not_less)

text \<open>A host name without a colon, percent sign or dot trouble is plain ASCII letters, digits, dots and dashes.\<close>

lemma label_bytes:
  assumes "list_all label_rune (runes s)"
  shows "list_all (\<lambda>c. label_rune (byte c)) s"
  using assms
proof (induction s rule: runes_of.induct)
  case 1
  then show ?case by simp
next
  case (2 a s)
  obtain r w where rw: "DecodeRune (a # s) = (r, w)" by (cases "DecodeRune (a # s)")
  have head: "label_rune r" and tl: "list_all label_rune (runes (drop w (a # s)))"
    using "2.prems" by (simp_all add: runes_def runes_of_Cons rw)
  have "byte a < 128"
  proof (rule ccontr)
    assume "\<not> byte a < 128"
    then have "128 \<le> r" using DecodeRune_high[of a s] rw by simp
    then show False using head by (simp add: label_rune_def)
  qed
  then have "r = byte a" "w = 1" using rw by (simp_all add: DecodeRune_ascii)
  then show ?case using head tl "2.IH"[of "(r, w)" r w] rw by simp
qed

end
