(* ===== verification/WgConfig.thy ===== *)
theory WgConfig
  imports WgValidate
begin

text \<open>
  internal/wg/config.go: the files a server's container reads (\<open>ServerConfig\<close>, \<open>ResolverConfig\<close>,
  \<open>SpeedLimitsConfig\<close>) and the config a device gets (\<open>ClientConfig\<close>, \<open>KillSwitchConfig\<close>). A config is
  its text; the lemmas give its lines, so that nothing in a device's name, which a customer may
  choose, can add or change a line of a file that runs as root.
\<close>

abbreviation nl :: char where "nl \<equiv> CHR 0x0A"

definition config_field :: "string \<Rightarrow> string \<Rightarrow> string" where
  "config_field key val = key @ '' = '' @ val @ [nl]"

definition commentSafe :: "string \<Rightarrow> string" where
  "commentSafe s = strings_Map (\<lambda>r. if IsControl r then 32 else r) s"

definition config_join :: "('a \<Rightarrow> string) \<Rightarrow> 'a list \<Rightarrow> string" where
  "config_join str items = strings_Join '', '' (map str items)"

text \<open>\<open>netip.PrefixFrom(p.Address, p.Address.BitLen()).String()\<close>: the address with its full length.\<close>

definition host_prefix :: "Addr \<Rightarrow> string" where
  "host_prefix a = prefix_String (PrefixFrom a (BitLen a))"

definition peer_block :: "Peer \<Rightarrow> string" where
  "peer_block p =
     [nl] @ ''# '' @ commentSafe (p_Name p) @ [nl] @ ''[Peer]'' @ [nl] @
     config_field ''PublicKey'' (key_String (p_PublicKey p)) @
     config_field ''PresharedKey'' (key_String (p_PresharedKey p)) @
     config_field ''AllowedIPs'' (host_prefix (p_Address p))"

definition ServerConfig :: "Instance \<Rightarrow> Peer list \<Rightarrow> string" where
  "ServerConfig i peers =
     ''[Interface]'' @ [nl] @
     config_field ''PrivateKey'' (key_String (in_PrivateKey i)) @
     config_field ''Address'' (prefix_String (in_Address i)) @
     config_field ''ListenPort'' (Itoa (in_ListenPort i)) @
     config_field ''MTU'' (Itoa (if in_MTU i = 0 then DefaultMTU else in_MTU i)) @
     concat (map (\<lambda>p. if \<not> p_Enabled p then [] else peer_block p) peers)"

definition ClientDNS :: "Instance \<Rightarrow> Addr list" where
  "ClientDNS i = (if in_DNSOnServer i then [prefix_Addr (in_Address i)] else in_DNS i)"

text \<open>\<open>net.JoinHostPort\<close>: a host with a colon is an IPv6 literal and goes in brackets.\<close>

definition JoinHostPort :: "string \<Rightarrow> string \<Rightarrow> string" where
  "JoinHostPort host port =
     (if CHR '':'' \<in> set host then ''['' @ host @ '']:'' @ port else host @ '':'' @ port)"

definition ClientConfig :: "Instance \<Rightarrow> Peer \<Rightarrow> string" where
  "ClientConfig i p =
     ''[Interface]'' @ [nl] @
     (if \<not> KeyOnClient p then config_field ''PrivateKey'' (key_String (p_PrivateKey p)) else []) @
     config_field ''Address'' (host_prefix (p_Address p)) @
     (if 0 < length (ClientDNS i) then config_field ''DNS'' (config_join addr_String (ClientDNS i)) else []) @
     (if 0 < in_MTU i then config_field ''MTU'' (Itoa (in_MTU i)) else []) @
     [nl] @ ''[Peer]'' @ [nl] @
     config_field ''PublicKey'' (key_String (in_PublicKey i)) @
     config_field ''PresharedKey'' (key_String (p_PresharedKey p)) @
     config_field ''AllowedIPs'' (config_join prefix_String (in_ClientAllowedIPs i)) @
     config_field ''Endpoint'' (JoinHostPort (in_Endpoint i) (Itoa (in_ListenPort i))) @
     (if 0 < in_PersistentKeepalive i then config_field ''PersistentKeepalive'' (Itoa (in_PersistentKeepalive i)) else [])"

definition killSwitchRule :: string where
  "killSwitchRule =
     ''OUTPUT ! -o %i -m mark ! --mark $(wg show %i fwmark) -m addrtype ! --dst-type LOCAL -j REJECT''"

definition FullTunnel :: "Instance \<Rightarrow> bool" where
  "FullTunnel i = list_ex (\<lambda>p. Is4 (prefix_Addr p) \<and> prefix_Bits p = 0) (in_ClientAllowedIPs i)"

definition kill_rules :: string where
  "kill_rules =
     config_field ''PostUp'' (''iptables -I '' @ killSwitchRule @ '' && ip6tables -I '' @ killSwitchRule) @
     config_field ''PreDown'' (''iptables -D '' @ killSwitchRule @ '' && ip6tables -D '' @ killSwitchRule)"

text \<open>
  \<open>conf[:peer]\<close> with \<open>peer\<close> negative would panic in Go; \<open>ClientConfig\<close> always holds the mark, so the
  \<open>None\<close> branch below is dead (\<open>KillSwitchConfig_total\<close>).
\<close>

definition KillSwitchConfig :: "Instance \<Rightarrow> Peer \<Rightarrow> err + string" where
  "KillSwitchConfig i p =
     (if \<not> FullTunnel i then Inl ErrSplitTunnel
      else let conf = ClientConfig i p in
        case Index conf (nl # ''[Peer]'') of
          None \<Rightarrow> Inl (NewError ''slice bounds out of range'')
        | Some k \<Rightarrow> Inr (take k conf @ kill_rules @ drop k conf))"

definition SpeedLimitsConfig :: "Peer list \<Rightarrow> string" where
  "SpeedLimitsConfig peers =
     concat (map (\<lambda>p. if p_Enabled p \<and> 0 < p_SpeedLimit p
       then addr_String (p_Address p) @ '' '' @ Itoa (p_SpeedLimit p) @ [nl] else []) peers)"

definition ResolverConfig :: "Instance \<Rightarrow> string" where
  "ResolverConfig i = concat (map (\<lambda>a. ''server='' @ addr_String a @ [nl]) (in_DNS i))"

section \<open>Lines\<close>

text \<open>\<open>lines_of ls\<close> is the text whose lines are \<open>ls\<close>, each ended by a newline.\<close>

definition lines_of :: "string list \<Rightarrow> string" where
  "lines_of ls = concat (map (\<lambda>l. l @ [nl]) ls)"

lemma lines_of_simps [simp]: "lines_of [] = []" "lines_of (l # ls) = l @ [nl] @ lines_of ls"
  "lines_of (xs @ ys) = lines_of xs @ lines_of ys"
  by (simp_all add: lines_of_def)

lemma Split_lines: "\<forall>l \<in> set ls. nl \<notin> set l \<Longrightarrow> Split nl (lines_of ls) = ls @ [[]]"
  by (induction ls) (simp_all add: Split_append_sep)

lemma commentSafe_no_control: "c \<in> set (commentSafe s) \<Longrightarrow> \<not> (byte c < 32 \<or> byte c = 127)"
proof
  assume c: "c \<in> set (commentSafe s)" and ctl: "byte c < 32 \<or> byte c = 127"
  then have "byte c < 128" by linarith
  with c obtain r where "(if IsControl r then 32 else r) = byte c"
    using strings_Map_ascii[of c "\<lambda>r. if IsControl r then 32 else r" s] by (auto simp: commentSafe_def)
  with ctl show False by (auto simp: IsControl_def split: if_splits)
qed

lemma commentSafe_no_nl [simp]: "nl \<notin> set (commentSafe s)"
  using commentSafe_no_control[of nl s] by auto

lemma key_String_no_nl [simp]: "nl \<notin> set (key_String k)"
  using Encode_chars[of k] by (auto simp: key_String_def)

lemma Itoa_no_nl [simp]: "nl \<notin> set (Itoa n)"
  by (auto dest!: Itoa_chars simp: is_digit_def)

lemma string4_no_nl [simp]: "nl \<notin> set (string4 w)"
  by (auto dest!: string4_chars simp: is_digit_def)

lemma prefix_String_no_nl: "Is4 (prefix_Addr p) \<Longrightarrow> nl \<notin> set (prefix_String p)"
  by (cases "prefix_Addr p") (auto simp: prefix_String_def)

lemma host_prefix_no_nl: "Is4 a \<Longrightarrow> nl \<notin> set (host_prefix a)"
  unfolding host_prefix_def by (rule prefix_String_no_nl) (cases a; simp add: PrefixFrom_def)

definition peer_lines :: "Peer \<Rightarrow> string list" where
  "peer_lines p =
     [[], ''# '' @ commentSafe (p_Name p), ''[Peer]'',
      ''PublicKey = '' @ key_String (p_PublicKey p),
      ''PresharedKey = '' @ key_String (p_PresharedKey p),
      ''AllowedIPs = '' @ host_prefix (p_Address p)]"

definition server_lines :: "Instance \<Rightarrow> Peer list \<Rightarrow> string list" where
  "server_lines i peers =
     [''[Interface]'', ''PrivateKey = '' @ key_String (in_PrivateKey i),
      ''Address = '' @ prefix_String (in_Address i),
      ''ListenPort = '' @ Itoa (in_ListenPort i),
      ''MTU = '' @ Itoa (if in_MTU i = 0 then DefaultMTU else in_MTU i)] @
     concat (map peer_lines (filter p_Enabled peers))"

lemma lines_of_concat: "lines_of (concat lss) = concat (map lines_of lss)"
  by (induction lss) simp_all

lemma peer_block_lines: "peer_block p = lines_of (peer_lines p)"
  by (simp add: peer_block_def peer_lines_def config_field_def)

lemma ServerConfig_lines_of: "ServerConfig i peers = lines_of (server_lines i peers)"
proof -
  have "concat (map (\<lambda>p. if \<not> p_Enabled p then [] else peer_block p) peers) =
        lines_of (concat (map peer_lines (filter p_Enabled peers)))"
    by (induction peers) (simp_all add: peer_block_lines)
  then show ?thesis
    by (simp add: ServerConfig_def server_lines_def config_field_def)
qed

text \<open>
  Whatever the names of the devices are, the lines of the server's config are the ones above:
  five for the interface, six for each enabled device.
\<close>

lemma ServerConfig_lines:
  assumes "Is4 (prefix_Addr (in_Address i))" and "\<forall>p \<in> set peers. Is4 (p_Address p)"
  shows "Split nl (ServerConfig i peers) = server_lines i peers @ [[]]"
  unfolding ServerConfig_lines_of
proof (rule Split_lines)
  show "\<forall>l \<in> set (server_lines i peers). nl \<notin> set l"
    using assms by (auto simp: server_lines_def peer_lines_def prefix_String_no_nl host_prefix_no_nl)
qed

lemma ServerConfig_enabled: "ServerConfig i peers = ServerConfig i (filter p_Enabled peers)"
  by (simp add: ServerConfig_lines_of server_lines_def)

text \<open>The line that opens a device's section appears once for each enabled device, and no other way.\<close>

lemma count_peer_sections:
  assumes "Is4 (prefix_Addr (in_Address i))" and "\<forall>p \<in> set peers. Is4 (p_Address p)"
  shows "count_list (Split nl (ServerConfig i peers)) ''[Peer]'' = length (filter p_Enabled peers)"
proof -
  have "count_list (concat (map peer_lines ps)) ''[Peer]'' = length ps" for ps
    by (induction ps) (auto simp: peer_lines_def)
  then show ?thesis
    by (simp add: ServerConfig_lines[OF assms] server_lines_def)
qed

text \<open>Every line of the config starts with one of the keys the code writes; none can be a hook.\<close>

definition config_keys :: "string list" where
  "config_keys = [''PrivateKey'', ''Address'', ''ListenPort'', ''MTU'', ''PublicKey'', ''PresharedKey'', ''AllowedIPs'']"

definition key_line :: "string \<Rightarrow> bool" where
  "key_line l \<longleftrightarrow> (\<exists>k \<in> set config_keys. take (length k + 3) l = k @ '' = '')"

lemma key_line_PrivateKey [intro]: "key_line (''PrivateKey = '' @ v)"
  unfolding key_line_def config_keys_def by (rule bexI[of _ "''PrivateKey''"]) simp_all

lemma key_line_Address [intro]: "key_line (''Address = '' @ v)"
  unfolding key_line_def config_keys_def by (rule bexI[of _ "''Address''"]) simp_all

lemma key_line_ListenPort [intro]: "key_line (''ListenPort = '' @ v)"
  unfolding key_line_def config_keys_def by (rule bexI[of _ "''ListenPort''"]) simp_all

lemma key_line_MTU [intro]: "key_line (''MTU = '' @ v)"
  unfolding key_line_def config_keys_def by (rule bexI[of _ "''MTU''"]) simp_all

lemma key_line_PublicKey [intro]: "key_line (''PublicKey = '' @ v)"
  unfolding key_line_def config_keys_def by (rule bexI[of _ "''PublicKey''"]) simp_all

lemma key_line_PresharedKey [intro]: "key_line (''PresharedKey = '' @ v)"
  unfolding key_line_def config_keys_def by (rule bexI[of _ "''PresharedKey''"]) simp_all

lemma key_line_AllowedIPs [intro]: "key_line (''AllowedIPs = '' @ v)"
  unfolding key_line_def config_keys_def by (rule bexI[of _ "''AllowedIPs''"]) simp_all

lemma peer_line_kinds:
  assumes "l \<in> set (peer_lines p)"
  shows "l = [] \<or> take 1 l = ''#'' \<or> l = ''[Peer]'' \<or> key_line l"
proof -
  have "l = [] \<or> l = ''# '' @ commentSafe (p_Name p) \<or> l = ''[Peer]'' \<or>
      l = ''PublicKey = '' @ key_String (p_PublicKey p) \<or> l = ''PresharedKey = '' @ key_String (p_PresharedKey p) \<or>
      l = ''AllowedIPs = '' @ host_prefix (p_Address p)"
    using assms by (simp only: peer_lines_def list.set insert_iff empty_iff simp_thms)
  then show ?thesis
  proof (elim disjE)
    assume "l = ''# '' @ commentSafe (p_Name p)" then have "take 1 l = ''#''" by simp then show ?thesis by (intro disjI2 disjI1)
  next
    assume "l = ''PublicKey = '' @ key_String (p_PublicKey p)" then show ?thesis by (simp only: key_line_PublicKey simp_thms)
  next
    assume "l = ''PresharedKey = '' @ key_String (p_PresharedKey p)" then show ?thesis by (simp only: key_line_PresharedKey simp_thms)
  next
    assume "l = ''AllowedIPs = '' @ host_prefix (p_Address p)" then show ?thesis by (simp only: key_line_AllowedIPs simp_thms)
  qed simp_all
qed

lemma server_line_kinds:
  assumes "l \<in> set (server_lines i peers)"
  shows "l = [] \<or> take 1 l = ''#'' \<or> l \<in> {''[Interface]'', ''[Peer]''} \<or> key_line l"
proof -
  have "l = ''[Interface]'' \<or> l = ''PrivateKey = '' @ key_String (in_PrivateKey i) \<or>
      l = ''Address = '' @ prefix_String (in_Address i) \<or> l = ''ListenPort = '' @ Itoa (in_ListenPort i) \<or>
      l = ''MTU = '' @ Itoa (if in_MTU i = 0 then DefaultMTU else in_MTU i) \<or>
      l \<in> set (concat (map peer_lines (filter p_Enabled peers)))"
    using assms by (simp only: server_lines_def set_append Un_iff list.set insert_iff empty_iff simp_thms disj_assoc)
  then show ?thesis
  proof (elim disjE)
    assume "l = ''PrivateKey = '' @ key_String (in_PrivateKey i)" then show ?thesis by (simp only: key_line_PrivateKey simp_thms)
  next
    assume "l = ''Address = '' @ prefix_String (in_Address i)" then show ?thesis by (simp only: key_line_Address simp_thms)
  next
    assume "l = ''ListenPort = '' @ Itoa (in_ListenPort i)" then show ?thesis by (simp only: key_line_ListenPort simp_thms)
  next
    assume "l = ''MTU = '' @ Itoa (if in_MTU i = 0 then DefaultMTU else in_MTU i)"
    then show ?thesis by (simp only: key_line_MTU simp_thms)
  next
    assume "l \<in> set (concat (map peer_lines (filter p_Enabled peers)))"
    then obtain p where "l \<in> set (peer_lines p)" by auto
    from peer_line_kinds[OF this] show ?thesis by (elim disjE) simp_all
  qed simp
qed

section \<open>Speed limits\<close>

lemma SpeedLimits_lines:
  "SpeedLimitsConfig peers =
     lines_of (map (\<lambda>p. addr_String (p_Address p) @ '' '' @ Itoa (p_SpeedLimit p))
       (filter (\<lambda>p. p_Enabled p \<and> 0 < p_SpeedLimit p) peers))"
  by (induction peers) (simp_all add: SpeedLimitsConfig_def)

lemma SpeedLimits_Nil: "SpeedLimitsConfig peers = [] \<longleftrightarrow> (\<forall>p \<in> set peers. p_Enabled p \<longrightarrow> p_SpeedLimit p \<le> 0)"
  by (induction peers) (auto simp: SpeedLimitsConfig_def)

section \<open>Kill switch\<close>

definition client_interface :: "Instance \<Rightarrow> Peer \<Rightarrow> string list" where
  "client_interface i p =
     [''[Interface]''] @
     (if \<not> KeyOnClient p then [''PrivateKey = '' @ key_String (p_PrivateKey p)] else []) @
     [''Address = '' @ host_prefix (p_Address p)] @
     (if 0 < length (ClientDNS i) then [''DNS = '' @ config_join addr_String (ClientDNS i)] else []) @
     (if 0 < in_MTU i then [''MTU = '' @ Itoa (in_MTU i)] else [])"

definition client_peer :: "Instance \<Rightarrow> Peer \<Rightarrow> string list" where
  "client_peer i p =
     [''[Peer]'', ''PublicKey = '' @ key_String (in_PublicKey i),
      ''PresharedKey = '' @ key_String (p_PresharedKey p),
      ''AllowedIPs = '' @ config_join prefix_String (in_ClientAllowedIPs i),
      ''Endpoint = '' @ JoinHostPort (in_Endpoint i) (Itoa (in_ListenPort i))] @
     (if 0 < in_PersistentKeepalive i then [''PersistentKeepalive = '' @ Itoa (in_PersistentKeepalive i)] else [])"

lemma ClientConfig_lines_of:
  "ClientConfig i p = lines_of (client_interface i p) @ [nl] @ lines_of (client_peer i p)"
  by (simp add: ClientConfig_def client_interface_def client_peer_def config_field_def)

lemma Index_nl:
  "Index (nl # t) (nl # ''[Peer]'') =
     (if take 6 t = ''[Peer]'' then Some 0 else map_option Suc (Index t (nl # ''[Peer]'')))"
  by (simp add: eval_nat_numeral)

lemma Index_lines:
  assumes "\<forall>l \<in> set ls. nl \<notin> set l \<and> take 1 l \<noteq> ''[''"
    and "nl \<notin> set l0"
  shows "Index (lines_of (l0 # ls) @ nl # ''[Peer]'' @ rest) (nl # ''[Peer]'') = Some (length (lines_of (l0 # ls)))"
proof -
  have step: "nl \<notin> set l \<Longrightarrow> (c = nl \<longrightarrow> take 6 t \<noteq> ''[Peer]'') \<Longrightarrow>
      Index (l @ c # t) (nl # ''[Peer]'') = map_option (\<lambda>k. length l + k) (Index (c # t) (nl # ''[Peer]''))" for l c t
    by (induction l) (auto simp: option.map_comp comp_def option.map_id[unfolded id_def])
  show ?thesis
    using assms
  proof (induction ls arbitrary: l0)
    case Nil
    then have "Index (l0 @ nl # nl # ''[Peer]'' @ rest) (nl # ''[Peer]'') =
        map_option (\<lambda>k. length l0 + k) (Index (nl # nl # ''[Peer]'' @ rest) (nl # ''[Peer]''))"
      by (intro step) auto
    then show ?case by simp
  next
    case (Cons l ls)
    have "take 1 l \<noteq> ''[''" and nn: "nl \<notin> set l" using Cons.prems by auto
    then have ne: "take 6 (lines_of (l # ls) @ nl # ''[Peer]'' @ rest) \<noteq> ''[Peer]''"
      by (cases l) auto
    have "Index (l0 @ nl # lines_of (l # ls) @ nl # ''[Peer]'' @ rest) (nl # ''[Peer]'') =
       map_option (\<lambda>k. length l0 + k) (Index (nl # lines_of (l # ls) @ nl # ''[Peer]'' @ rest) (nl # ''[Peer]''))"
      using Cons.prems ne by (intro step) auto
    also have "Index (nl # lines_of (l # ls) @ nl # ''[Peer]'' @ rest) (nl # ''[Peer]'') =
       map_option Suc (Index (lines_of (l # ls) @ nl # ''[Peer]'' @ rest) (nl # ''[Peer]''))"
      unfolding Index_nl using ne by (rule if_not_P)
    also have "Index (lines_of (l # ls) @ nl # ''[Peer]'' @ rest) (nl # ''[Peer]'') = Some (length (lines_of (l # ls)))"
      using Cons.prems by (intro Cons.IH) auto
    finally show ?case by simp
  qed
qed

text \<open>
  With addresses that print on one line, the kill switch adds its two rules at the end of the
  interface section and changes nothing else.
\<close>

lemma KillSwitch_lines:
  assumes "FullTunnel i" and "Is4 (p_Address p)" and "\<forall>a \<in> set (ClientDNS i). nl \<notin> set (addr_String a)"
  shows "KillSwitchConfig i p =
    Inr (lines_of (client_interface i p) @ kill_rules @ [nl] @ lines_of (client_peer i p))"
proof -
  have join: "\<forall>a \<in> set as. nl \<notin> set (addr_String a) \<Longrightarrow> nl \<notin> set (config_join addr_String as)" for as
    unfolding config_join_def by (auto dest!: strings_Join_chars)
  obtain ls where ls: "client_interface i p = ''[Interface]'' # ls"
    and ok: "\<forall>l \<in> set ls. nl \<notin> set l \<and> take 1 l \<noteq> ''[''"
  proof
    show "client_interface i p = ''[Interface]'' # tl (client_interface i p)" by (simp add: client_interface_def)
    show "\<forall>l \<in> set (tl (client_interface i p)). nl \<notin> set l \<and> take 1 l \<noteq> ''[''"
      using assms(2) join[OF assms(3)] by (auto simp: client_interface_def host_prefix_no_nl)
  qed
  obtain rest where rest: "lines_of (client_peer i p) = ''[Peer]'' @ rest"
    by (simp add: client_peer_def)
  have "Index (ClientConfig i p) (nl # ''[Peer]'') = Some (length (lines_of (client_interface i p)))"
    using Index_lines[OF ok, of "''[Interface]''" rest]
    by (simp add: ClientConfig_lines_of ls rest)
  then show ?thesis
    using assms(1) by (simp add: KillSwitchConfig_def Let_def ClientConfig_lines_of)
qed

lemma KillSwitchConfig_total: "FullTunnel i \<Longrightarrow> \<exists>c. KillSwitchConfig i p = Inr c"
proof -
  assume full: "FullTunnel i"
  have "\<exists>a b. ClientConfig i p = a @ (nl # ''[Peer]'') @ b"
    by (rule exI[of _ "lines_of (client_interface i p)"], rule exI[of _ "drop 6 (lines_of (client_peer i p))"])
      (simp add: ClientConfig_lines_of client_peer_def)
  then obtain k where "Index (ClientConfig i p) (nl # ''[Peer]'') = Some k"
    using Index_append by metis
  then show ?thesis using full by (simp add: KillSwitchConfig_def Let_def)
qed

lemma KillSwitch_split: "\<not> FullTunnel i \<Longrightarrow> KillSwitchConfig i p = Inl ErrSplitTunnel"
  by (simp add: KillSwitchConfig_def)

end
