(* ===== verification/StoreDb.thy ===== *)
theory StoreDb
  imports WgConfig
begin

text \<open>
  The SQLite database internal/store owns, as the tables of internal/store/migrations and the
  statements the package runs on them: rows in insertion order, AUTOINCREMENT counters, unique
  indexes (names fold ASCII case, as COLLATE NOCASE does), foreign keys with ON DELETE CASCADE, and
  transactions on the one connection the pool has.

  Every statement can fail for a reason outside the program (a full disk, a cancelled context). The
  faults to come are part of the state: each statement consumes one entry of \<open>t_faults\<close> and fails
  where it is True; an exhausted list means no more faults. So a theorem about all states is a
  theorem about every pattern of failures. SQLite's integers are exact here: sums past 2 ^ 63 bytes
  are out of scope.
\<close>

section \<open>Tables\<close>

record instance_row =
  ir_id :: int
  ir_node_id :: int
  ir_name :: string
  ir_address :: string
  ir_listen_port :: int
  ir_private_key :: string
  ir_public_key :: string
  ir_endpoint :: string
  ir_dns :: string
  ir_dns_on_server :: bool
  ir_mtu :: int
  ir_persistent_keepalive :: int
  ir_client_allowed_ips :: string
  ir_country :: string
  ir_city :: string
  ir_created_at :: int
  ir_updated_at :: int

record peer_row =
  pr_id :: int
  pr_instance_id :: int
  pr_name :: string
  pr_address :: string
  pr_private_key :: string
  pr_public_key :: string
  pr_preshared_key :: string
  pr_enabled :: bool
  pr_data_limit :: int
  pr_limit_period :: string
  pr_usage_reset_at :: "int option"
  pr_usage_reset_day :: string
  pr_usage_reset_rx :: int
  pr_usage_reset_tx :: int
  pr_expires_at :: "int option"
  pr_last_handshake :: "int option"
  pr_external_id :: string
  pr_metadata :: string
  pr_speed_limit :: int
  pr_share_token :: "string option"
  pr_share_expires_at :: "int option"
  pr_created_at :: int
  pr_updated_at :: int

text \<open>\<open>wg_peer_counters\<close>: WireGuard's counters of a device as last read.\<close>

record counter_row =
  cr_peer_id :: int
  cr_rx_bytes :: int
  cr_tx_bytes :: int

text \<open>\<open>wg_peer_usage\<close>: what a device used on a local calendar day.\<close>

record usage_row =
  ur_peer_id :: int
  ur_day :: string
  ur_rx_bytes :: int
  ur_tx_bytes :: int

record user_row =
  us_id :: int
  us_name :: string
  us_email :: string
  us_password_hash :: string
  us_totp_secret :: string
  us_totp_last_step :: int
  us_created_at :: int
  us_updated_at :: int

record session_row =
  se_token_hash :: string
  se_user_id :: int
  se_user_agent :: string
  se_created_at :: int
  se_expires_at :: int

record node_row =
  nr_id :: int
  nr_name :: string
  nr_host :: string
  nr_port :: int
  nr_username :: string
  nr_host_key :: string
  nr_last_seen_at :: "int option"
  nr_created_at :: int
  nr_updated_at :: int

record db =
  t_instances :: "instance_row list"
  t_instance_seq :: int
  t_peers :: "peer_row list"
  t_peer_seq :: int
  t_counters :: "counter_row list"
  t_usage :: "usage_row list"
  t_users :: "user_row list"
  t_user_seq :: int
  t_sessions :: "session_row list"
  t_settings :: "(string \<times> string) list"
  t_nodes :: "node_row list"
  t_node_seq :: int
  t_faults :: "bool list"

type_synonym ('z, 'a) sql = "('z db_scheme, 'a) prog"

section \<open>Statements\<close>

definition db_fault :: err where "db_fault = NewError ''database failure''"

text \<open>One statement: a fault if one is due, else the effect.\<close>

definition stmt :: "('z db_scheme \<Rightarrow> (err + 'a) \<times> 'z db_scheme) \<Rightarrow> ('z, 'a) sql" where
  "stmt f s =
     (case t_faults s of
        [] \<Rightarrow> f s
      | b # bs \<Rightarrow> (let s' = s\<lparr>t_faults := bs\<rparr> in if b then (Inl db_fault, s') else f s'))"

definition query :: "('z db_scheme \<Rightarrow> 'a) \<Rightarrow> ('z, 'a) sql" where
  "query f = stmt (\<lambda>s. (Inr (f s), s))"

text \<open>\<open>BeginTx\<close>, the body, \<open>Commit\<close>; the deferred \<open>Rollback\<close> undoes every table on an error.\<close>

definition rollback :: "'z db_scheme \<Rightarrow> 'z db_scheme \<Rightarrow> 'z db_scheme" where
  "rollback s s' = s\<lparr>t_faults := t_faults s'\<rparr>"

definition transact :: "string \<Rightarrow> string \<Rightarrow> ('z, 'a) sql \<Rightarrow> ('z, 'a) sql" where
  "transact begins commits m = (\<lambda>s.
     case query (\<lambda>_. ()) s of
       (Inl e, s') \<Rightarrow> (Inl (Errorf begins e), s')
     | (Inr _, s1) \<Rightarrow>
       (case m s1 of
          (Inl e, s2) \<Rightarrow> (Inl e, rollback s1 s2)
        | (Inr x, s2) \<Rightarrow>
          (case query (\<lambda>_. ()) s2 of
             (Inl e, s3) \<Rightarrow> (Inl (Errorf commits e), rollback s1 s3)
           | (Inr _, s3) \<Rightarrow> (Inr x, s3))))"

definition transaction :: "string \<Rightarrow> ('z, 'a) sql \<Rightarrow> ('z, 'a) sql" where
  "transaction op m = transact (''begin '' @ op) (''commit '' @ op) m"

section \<open>Unique indexes\<close>

text \<open>COLLATE NOCASE folds the 26 ASCII letters only.\<close>

definition nocase :: "string \<Rightarrow> string" where
  "nocase s = map (\<lambda>c. if 65 \<le> byte c \<and> byte c \<le> 90 then char_of (byte c + 32) else c) s"

text \<open>
  The driver's error for a violated index: the columns of the index, each after its table, and the
  extended result code. When a row breaks several indexes the model reports the first below.
\<close>

definition unique_error :: "string \<Rightarrow> string list \<Rightarrow> err" where
  "unique_error table cols =
     SqliteError 2067 (''constraint failed: UNIQUE constraint failed: '' @
       strings_Join '', '' (map (\<lambda>c. table @ ''.'' @ c) cols) @ '' (2067)'')"

definition foreign_key_error :: err where
  "foreign_key_error = SqliteError 787 ''constraint failed: FOREIGN KEY constraint failed (787)''"

definition sqliteConstraintUnique :: int where "sqliteConstraintUnique = 2067"

text \<open>\<open>errors.As(err, &sqliteErr)\<close> finds the driver's error under any wrapping.\<close>

fun as_sqlite :: "err \<Rightarrow> (int \<times> string) option" where
  "as_sqlite (SqliteError c m) = Some (c, m)"
| "as_sqlite (Errorf m e) = as_sqlite e"
| "as_sqlite (AppError k c m fs (Some e)) = as_sqlite e"
| "as_sqlite _ = None"

definition isUniqueViolation :: "err \<Rightarrow> bool" where
  "isUniqueViolation e = (case as_sqlite e of None \<Rightarrow> False | Some (c, _) \<Rightarrow> c = sqliteConstraintUnique)"

fun err_Error :: "err \<Rightarrow> string" where
  "err_Error (SqliteError c m) = m"
| "err_Error (Errorf m e) = m @ '': '' @ err_Error e"
| "err_Error (Errorf2 m a b) = m @ '': '' @ err_Error a @ '': '' @ err_Error b"
| "err_Error (NewError m) = m"
| "err_Error (AppError k c m fs e) = c @ '': '' @ m"
| "err_Error (HttpError k c m fs) = c @ '': '' @ m"
| "err_Error (DuplicateError c) = ''store: duplicate '' @ c"
| "err_Error (BootError r l) = r"
| "err_Error (Join es) = strings_Join [CHR 0x0A] (map err_Error es)"
| "err_Error ErrNotFound = ''store: not found''"
| "err_Error ErrDuplicate = ''store: already exists''"
| "err_Error ErrSubnetFull = ''wg: no free addresses left in the subnet''"
| "err_Error ErrInvalidKey = ''wg: key must be 32 bytes encoded as base64''"
| "err_Error ErrSplitTunnel = ''the server's clients send only some traffic through the tunnel''"
| "err_Error ErrOffline = ''node is offline''"
| "err_Error DockerNotFound = ''not found''"
| "err_Error DockerUnavailable = ''daemon is unreachable''"
| "err_Error ErrNotDeployed = ''instance has no container''"

text \<open>\<open>strings.Cut\<close> at a text: before, after, found.\<close>

definition CutStr :: "string \<Rightarrow> string \<Rightarrow> string \<times> string \<times> bool" where
  "CutStr s sep = (case Index s sep of
     None \<Rightarrow> (s, [], False)
   | Some i \<Rightarrow> (take i s, drop (i + length sep) s, True))"

definition asDuplicate :: "err \<Rightarrow> err option" where
  "asDuplicate e =
     (if \<not> isUniqueViolation e then None
      else let (_, cols, ok) = CutStr (err_Error e) ''UNIQUE constraint failed: '' in
        if \<not> ok then Some (DuplicateError [])
        else let (cols, _, _) = CutStr cols '' ('';
                 lst = TrimSpace (rev (takeWhile (\<lambda>c. c \<noteq> CHR '','') (rev cols)));
                 (_, col, _) = Cut (CHR ''.'') lst
             in Some (DuplicateError col))"

definition store_writeError :: "string \<Rightarrow> err \<Rightarrow> err" where
  "store_writeError op e = (case asDuplicate e of Some dup \<Rightarrow> dup | None \<Rightarrow> Errorf op e)"

definition expectOneRow :: "nat \<Rightarrow> ('s, unit) prog" where
  "expectOneRow n = (if n = 0 then throw ErrNotFound else ret ())"

section \<open>The statements on servers and devices\<close>

definition instance_clash :: "instance_row list \<Rightarrow> instance_row \<Rightarrow> err option" where
  "instance_clash others r =
     (if list_ex (\<lambda>q. nocase (ir_name q) = nocase (ir_name r)) others
      then Some (unique_error ''wg_instances'' [''name''])
      else if list_ex (\<lambda>q. ir_node_id q = ir_node_id r \<and> ir_listen_port q = ir_listen_port r) others
      then Some (unique_error ''wg_instances'' [''node_id'', ''listen_port''])
      else None)"

definition peer_clash :: "peer_row list \<Rightarrow> peer_row \<Rightarrow> err option" where
  "peer_clash others r =
     (if list_ex (\<lambda>q. pr_instance_id q = pr_instance_id r \<and> nocase (pr_name q) = nocase (pr_name r)) others
      then Some (unique_error ''wg_peers'' [''instance_id'', ''name''])
      else if list_ex (\<lambda>q. pr_instance_id q = pr_instance_id r \<and> pr_address q = pr_address r) others
      then Some (unique_error ''wg_peers'' [''instance_id'', ''address''])
      else if list_ex (\<lambda>q. pr_public_key q = pr_public_key r) others
      then Some (unique_error ''wg_peers'' [''public_key''])
      else if pr_share_token r \<noteq> None \<and> list_ex (\<lambda>q. pr_share_token q = pr_share_token r) others
      then Some (unique_error ''wg_peers'' [''share_token''])
      else None)"

definition instance_by_id :: "int \<Rightarrow> 'z db_scheme \<Rightarrow> instance_row option" where
  "instance_by_id k s = find (\<lambda>r. ir_id r = k) (t_instances s)"

definition peer_by_id :: "int \<Rightarrow> 'z db_scheme \<Rightarrow> peer_row option" where
  "peer_by_id k s = find (\<lambda>r. pr_id r = k) (t_peers s)"

text \<open>INSERT INTO \<open>wg_instances\<close>: the row gets the next k, which is returned.\<close>

definition insert_instance :: "instance_row \<Rightarrow> ('z, int) sql" where
  "insert_instance r = stmt (\<lambda>s.
     let r = r\<lparr>ir_id := t_instance_seq s + 1\<rparr> in
     case instance_clash (t_instances s) r of
       Some e \<Rightarrow> (Inl e, s)
     | None \<Rightarrow> (Inr (ir_id r), s\<lparr>t_instances := t_instances s @ [r], t_instance_seq := ir_id r\<rparr>))"

definition insert_peer :: "peer_row \<Rightarrow> ('z, int) sql" where
  "insert_peer r = stmt (\<lambda>s.
     let r = r\<lparr>pr_id := t_peer_seq s + 1\<rparr> in
     case peer_clash (t_peers s) r of
       Some e \<Rightarrow> (Inl e, s)
     | None \<Rightarrow>
       if instance_by_id (pr_instance_id r) s = None then (Inl foreign_key_error, s)
       else (Inr (pr_id r), s\<lparr>t_peers := t_peers s @ [r], t_peer_seq := pr_id r\<rparr>))"

text \<open>UPDATE \<dots> WHERE id = ?: the number of rows changed.\<close>

definition update_instance :: "int \<Rightarrow> (instance_row \<Rightarrow> instance_row) \<Rightarrow> ('z, nat) sql" where
  "update_instance k f = stmt (\<lambda>s.
     case instance_by_id k s of
       None \<Rightarrow> (Inr 0, s)
     | Some r \<Rightarrow>
       (case instance_clash (filter (\<lambda>q. ir_id q \<noteq> k) (t_instances s)) (f r) of
          Some e \<Rightarrow> (Inl e, s)
        | None \<Rightarrow> (Inr 1, s\<lparr>t_instances := map (\<lambda>q. if ir_id q = k then f q else q) (t_instances s)\<rparr>)))"

definition update_peer :: "int \<Rightarrow> (peer_row \<Rightarrow> peer_row) \<Rightarrow> ('z, nat) sql" where
  "update_peer k f = stmt (\<lambda>s.
     case peer_by_id k s of
       None \<Rightarrow> (Inr 0, s)
     | Some r \<Rightarrow>
       (case peer_clash (filter (\<lambda>q. pr_id q \<noteq> k) (t_peers s)) (f r) of
          Some e \<Rightarrow> (Inl e, s)
        | None \<Rightarrow>
          if instance_by_id (pr_instance_id (f r)) s = None then (Inl foreign_key_error, s)
          else (Inr 1, s\<lparr>t_peers := map (\<lambda>q. if pr_id q = k then f q else q) (t_peers s)\<rparr>)))"

text \<open>DELETE with the cascades: a server's devices go with it, a device's counters and usage with the device.\<close>

definition drop_peers :: "(peer_row \<Rightarrow> bool) \<Rightarrow> 'z db_scheme \<Rightarrow> 'z db_scheme" where
  "drop_peers P s =
     (let gone = set (map pr_id (filter P (t_peers s))) in
      s\<lparr>t_peers := filter (\<lambda>r. \<not> P r) (t_peers s),
        t_counters := filter (\<lambda>c. cr_peer_id c \<notin> gone) (t_counters s),
        t_usage := filter (\<lambda>u. ur_peer_id u \<notin> gone) (t_usage s)\<rparr>)"

definition delete_peer :: "int \<Rightarrow> ('z, nat) sql" where
  "delete_peer k = stmt (\<lambda>s.
     if peer_by_id k s = None then (Inr 0, s) else (Inr 1, drop_peers (\<lambda>r. pr_id r = k) s))"

definition delete_instance :: "int \<Rightarrow> ('z, nat) sql" where
  "delete_instance k = stmt (\<lambda>s.
     if instance_by_id k s = None then (Inr 0, s)
     else (Inr 1, (drop_peers (\<lambda>r. pr_instance_id r = k) s)
       \<lparr>t_instances := filter (\<lambda>r. ir_id r \<noteq> k) (t_instances s)\<rparr>))"

section \<open>Facts about statements\<close>

lemma Index_unique_prefix:
  "CutStr (''constraint failed: UNIQUE constraint failed: '' @ x) ''UNIQUE constraint failed: '' = (''constraint failed: '', x, True)"
proof -
  have "Index (''constraint failed: UNIQUE constraint failed: '' @ x) ''UNIQUE constraint failed: '' = Some 19"
    by (simp add: eval_nat_numeral)
  then show ?thesis unfolding CutStr_def by (simp add: eval_nat_numeral)
qed

lemma asDuplicate_unique:
  assumes "strings_Join '', '' (map (\<lambda>c. table @ ''.'' @ c) cols) = cs"
    and "CutStr (cs @ '' (2067)'') '' ('' = (cs, x, y)"
    and "TrimSpace (rev (takeWhile (\<lambda>c. c \<noteq> CHR '','') (rev cs))) = l"
    and "Cut (CHR ''.'') l = (t, col, z)"
  shows "asDuplicate (unique_error table cols) = Some (DuplicateError col)"
proof -
  have "isUniqueViolation (unique_error table cols)"
    by (simp add: unique_error_def isUniqueViolation_def sqliteConstraintUnique_def)
  moreover have "err_Error (unique_error table cols) = ''constraint failed: UNIQUE constraint failed: '' @ (cs @ '' (2067)'')"
    by (simp only: unique_error_def err_Error.simps assms(1) append_assoc)
  ultimately show ?thesis
    by (simp only: asDuplicate_def Let_def Index_unique_prefix case_prod_conv assms(2-4)) simp
qed

text \<open>Which index a driver error names is what \<open>asDuplicate\<close> reads back from its text.\<close>

lemma asDuplicate_columns:
  "asDuplicate (unique_error ''wg_instances'' [''name'']) = Some (DuplicateError ''name'')"
  "asDuplicate (unique_error ''wg_instances'' [''node_id'', ''listen_port'']) = Some (DuplicateError ''listen_port'')"
  "asDuplicate (unique_error ''wg_peers'' [''instance_id'', ''name'']) = Some (DuplicateError ''name'')"
  "asDuplicate (unique_error ''wg_peers'' [''instance_id'', ''address'']) = Some (DuplicateError ''address'')"
  "asDuplicate (unique_error ''wg_peers'' [''public_key'']) = Some (DuplicateError ''public_key'')"
  "asDuplicate (unique_error ''wg_peers'' [''share_token'']) = Some (DuplicateError ''share_token'')"
  by (rule asDuplicate_unique, simp, simp add: CutStr_def eval_nat_numeral,
      simp add: TrimSpace_def runes_of_ascii IsSpace_def, simp add: Cut_def)+

lemma asDuplicate_other: "asDuplicate foreign_key_error = None" "asDuplicate db_fault = None"
  by (simp_all add: asDuplicate_def isUniqueViolation_def foreign_key_error_def db_fault_def sqliteConstraintUnique_def)

lemma stmt_no_faults [simp]: "t_faults s = [] \<Longrightarrow> stmt f s = f s"
  by (simp add: stmt_def)

lemma query_no_faults [simp]: "t_faults s = [] \<Longrightarrow> query f s = (Inr (f s), s)"
  by (simp add: query_def)

lemma keeps_stmt:
  assumes "\<And>s bs. I s \<Longrightarrow> I (s\<lparr>t_faults := bs\<rparr>)" and "\<And>s. I s \<Longrightarrow> I (snd (f s))"
  shows "keeps I (stmt f)"
  using assms by (auto simp: keeps_def stmt_def Let_def split: list.splits)

lemma keeps_query: "(\<And>s bs. I s \<Longrightarrow> I (s\<lparr>t_faults := bs\<rparr>)) \<Longrightarrow> keeps I (query f)"
  unfolding query_def by (rule keeps_stmt) auto

lemma faults_id: "t_faults s = [] \<Longrightarrow> s\<lparr>t_faults := []\<rparr> = s"
  by (cases s) simp

lemma query_cases:
  obtains (fault) bs where "query f s = (Inl db_fault, s\<lparr>t_faults := bs\<rparr>)"
        | (ok) bs where "query f s = (Inr (f (s\<lparr>t_faults := bs\<rparr>)), s\<lparr>t_faults := bs\<rparr>)"
proof (cases "t_faults s")
  case Nil
  then have "query f s = (Inr (f (s\<lparr>t_faults := []\<rparr>)), s\<lparr>t_faults := []\<rparr>)" by (simp add: faults_id)
  then show ?thesis by (rule ok)
next
  case (Cons b bs)
  then show ?thesis
    using fault[of bs] ok[of bs] by (cases b) (auto simp: query_def stmt_def Let_def)
qed

lemma stmt_cases:
  obtains (fault) bs where "stmt f s = (Inl db_fault, s\<lparr>t_faults := bs\<rparr>)"
        | (run) bs where "stmt f s = f (s\<lparr>t_faults := bs\<rparr>)"
proof (cases "t_faults s")
  case Nil
  then have "stmt f s = f (s\<lparr>t_faults := []\<rparr>)" by (simp add: faults_id)
  then show ?thesis by (rule run)
next
  case (Cons b bs)
  then show ?thesis
    using fault[of bs] run[of bs] by (cases b) (auto simp: stmt_def Let_def)
qed

text \<open>A transaction that fails leaves every table as it was.\<close>

definition same_tables :: "'z db_scheme \<Rightarrow> 'z db_scheme \<Rightarrow> bool" where
  "same_tables s s' \<longleftrightarrow> (\<exists>bs. s' = s\<lparr>t_faults := bs\<rparr>)"

lemma same_tablesI [intro]: "same_tables s (s\<lparr>t_faults := bs\<rparr>)"
  by (auto simp: same_tables_def)

lemma same_tables_refl [simp]: "same_tables s s"
  by (auto simp: same_tables_def intro: exI[of _ "t_faults s"])

lemma same_tables_trans: "same_tables s t \<Longrightarrow> same_tables t u \<Longrightarrow> same_tables s u"
  by (auto simp: same_tables_def)

lemma transact_atomic: "transact b c m s = (Inl e, s') \<Longrightarrow> same_tables s s'"
  by (cases rule: query_cases[of "\<lambda>_. ()" s])
    (auto simp: transact_def rollback_def split: prod.splits sum.splits)

lemma keeps_transact:
  assumes faults: "\<And>s bs. I s \<Longrightarrow> I (s\<lparr>t_faults := bs\<rparr>)" and m: "keeps I m"
  shows "keeps I (transact b c m)"
proof (rule keepsI)
  fix s assume s: "I s"
  show "I (snd (transact b c m s))"
  proof (cases rule: query_cases[of "\<lambda>_. ()" s])
    case (fault bs)
    then show ?thesis using s faults by (simp add: transact_def)
  next
    case (ok bs)
    let ?s1 = "s\<lparr>t_faults := bs\<rparr>"
    have s1: "I ?s1" using s by (rule faults)
    obtain r s2 where m1: "m ?s1 = (r, s2)" by (cases "m ?s1")
    have s2: "I s2" using keeps_run[OF m s1 m1] .
    show ?thesis
    proof (cases r)
      case (Inl e)
      then show ?thesis using ok m1 faults[OF s1] by (simp add: transact_def rollback_def)
    next
      case (Inr x)
      then show ?thesis
        using ok m1 s1 s2 faults[OF s] faults[OF s2]
        by (cases rule: query_cases[of "\<lambda>_. ()" s2]) (simp_all add: transact_def rollback_def)
    qed
  qed
qed

text \<open>A transaction that succeeds ran its body, from the tables it started with.\<close>

lemma transact_Inr:
  assumes "transact b c m s = (Inr x, s')"
  obtains s1 s2 where "same_tables s s1" and "m s1 = (Inr x, s2)" and "same_tables s2 s'"
proof (cases rule: query_cases[of "\<lambda>_. ()" s])
  case (fault bs)
  with assms show ?thesis by (simp add: transact_def)
next
  case (ok bs)
  with assms obtain s2 where m: "m (s\<lparr>t_faults := bs\<rparr>) = (Inr x, s2)"
    by (auto simp: transact_def split: prod.splits sum.splits)
  have "same_tables s2 s'"
    using assms ok m by (cases rule: query_cases[of "\<lambda>_. ()" s2]) (auto simp: transact_def)
  with m show ?thesis by (intro that[OF same_tablesI])
qed

lemma transact_no_faults:
  "t_faults s = [] \<Longrightarrow> m s = (Inr x, s') \<Longrightarrow> t_faults s' = [] \<Longrightarrow> transact b c m s = (Inr x, s')"
  by (simp add: transact_def)

lemmas transaction_atomic = transact_atomic[of "''begin '' @ op" "''commit '' @ op" for op, folded transaction_def]
lemmas keeps_transaction = keeps_transact[of _ _ "''begin '' @ op" "''commit '' @ op" for op, folded transaction_def]
lemmas transaction_Inr = transact_Inr[of "''begin '' @ op" "''commit '' @ op" for op, folded transaction_def]
lemmas transaction_no_faults = transact_no_faults[of _ _ _ _ "''begin '' @ op" "''commit '' @ op" for op, folded transaction_def]

section \<open>What a successful program did\<close>

text \<open>
  \<open>does m f\<close>: whenever \<open>m\<close> returns, the tables are those \<open>f\<close> computes from the ones it started with,
  whatever statements could have failed on the way.
\<close>

definition does :: "('z, 'a) sql \<Rightarrow> ('z db_scheme \<Rightarrow> 'z db_scheme) \<Rightarrow> bool" where
  "does m f \<longleftrightarrow> (\<forall>s x s'. m s = (Inr x, s') \<longrightarrow> same_tables (f s) s') \<and>
     (\<forall>s bs. f (s\<lparr>t_faults := bs\<rparr>) = (f s)\<lparr>t_faults := bs\<rparr>)"

lemma doesD: "does m f \<Longrightarrow> m s = (Inr x, s') \<Longrightarrow> same_tables (f s) s'"
  by (auto simp: does_def)

lemma does_same: "does m f \<Longrightarrow> same_tables s t \<Longrightarrow> same_tables (f s) (f t)"
  by (auto simp: does_def same_tables_def)

lemma does_ret: "does (ret x) (\<lambda>s. s)"
  by (simp add: does_def)

lemma does_stmt:
  assumes "\<And>s x s'. g s = (Inr x, s') \<Longrightarrow> s' = f s" and "\<And>s bs. f (s\<lparr>t_faults := bs\<rparr>) = (f s)\<lparr>t_faults := bs\<rparr>"
  shows "does (stmt g) f"
  unfolding does_def
proof (intro conjI allI impI)
  fix s x s' assume run: "stmt g s = (Inr x, s')"
  show "same_tables (f s) s'"
  proof (cases rule: stmt_cases[of g s])
    case (fault bs)
    then show ?thesis using run by simp
  next
    case (run bs)
    with \<open>stmt g s = (Inr x, s')\<close> have "s' = f (s\<lparr>t_faults := bs\<rparr>)" using assms(1) by simp
    then show ?thesis using assms(2) by auto
  qed
qed (rule assms(2))

lemma does_thn: "does m f \<Longrightarrow> does n g \<Longrightarrow> does (thn m n) (\<lambda>s. g (f s))"
proof -
  assume m: "does m f" and n: "does n g"
  have "same_tables (g (f s)) s'" if run: "thn m n s = (Inr x, s')" for s x s'
  proof -
    obtain y t where t: "m s = (Inr y, t)" "n t = (Inr x, s')" using run by (rule thn_InrE)
    have "same_tables (g (f s)) (g t)" using does_same[OF n doesD[OF m t(1)]] .
    then show ?thesis using doesD[OF n t(2)] same_tables_trans by blast
  qed
  moreover have "g (f (s\<lparr>t_faults := bs\<rparr>)) = (g (f s))\<lparr>t_faults := bs\<rparr>" for s bs
    using m n by (simp add: does_def)
  ultimately show ?thesis by (simp add: does_def)
qed

lemma does_mapErr: "does m f \<Longrightarrow> does (mapErr h m) f"
  unfolding does_def mapErr_def by (auto split: prod.splits sum.splits)

lemma does_if: "(b \<Longrightarrow> does m f) \<Longrightarrow> (\<not> b \<Longrightarrow> does n g) \<Longrightarrow> does (if b then m else n) (if b then f else g)"
  by simp

lemma does_forEach: "(\<And>x. x \<in> set xs \<Longrightarrow> does (m x) (f x)) \<Longrightarrow> does (forEach xs m) (fold f xs)"
proof (induction xs)
  case Nil
  then show ?case by (simp add: does_def)
next
  case (Cons x xs)
  then show ?case using does_thn[of "m x" "f x" "forEach xs m" "fold f xs"] by (simp add: comp_def)
qed

end
