(* ===== verification/StoreWireguard.thy ===== *)
theory StoreWireguard
  imports StoreDb
begin

text \<open>
  internal/store/wireguard.go: saving and loading servers and devices. Rows keep addresses and keys
  as text, so loading one parses it and can find it corrupt. \<open>CreatePeer\<close> and \<open>MovePeer\<close> allocate an
  address and write the row in one transaction.
\<close>

section \<open>Rows and values\<close>

definition left_of :: "err + 'a \<Rightarrow> err option" where
  "left_of r = (case r of Inl e \<Rightarrow> Some e | Inr _ \<Rightarrow> None)"

definition right_of :: "'a \<Rightarrow> err + 'a \<Rightarrow> 'a" where
  "right_of d r = (case r of Inl _ \<Rightarrow> d | Inr x \<Rightarrow> x)"

definition privateKeyText :: "Peer \<Rightarrow> string" where
  "privateKeyText p = (if KeyOnClient p then [] else key_String (p_PrivateKey p))"

definition nullTime :: "gotime option \<Rightarrow> int option" where
  "nullTime t = map_option unix t"

definition timeOf :: "int option \<Rightarrow> gotime option" where
  "timeOf v = map_option time_Unix v"

definition joinList :: "('a \<Rightarrow> string) \<Rightarrow> 'a list \<Rightarrow> string" where
  "joinList str items = strings_Join '','' (map str items)"

fun parse_all :: "(string \<Rightarrow> err + 'a) \<Rightarrow> string list \<Rightarrow> err + 'a list" where
  "parse_all parse [] = Inr []"
| "parse_all parse (s # ss) =
     (case parse s of Inl e \<Rightarrow> Inl e | Inr v \<Rightarrow>
       (case parse_all parse ss of Inl e \<Rightarrow> Inl e | Inr vs \<Rightarrow> Inr (v # vs)))"

definition parseList :: "(string \<Rightarrow> err + 'a) \<Rightarrow> string \<Rightarrow> err + 'a list" where
  "parseList parse s = (if s = [] then Inr [] else parse_all parse (Split (CHR '','') s))"

definition scanInstance :: "instance_row \<Rightarrow> err + Instance" where
  "scanInstance r =
     (let address = ParsePrefix (ir_address r); priv = ParseKey (ir_private_key r);
          pub = ParseKey (ir_public_key r); dns = parseList ParseAddr (ir_dns r);
          allowed = parseList ParsePrefix (ir_client_allowed_ips r)
      in case errors_Join [left_of address, left_of priv, left_of pub, left_of dns, left_of allowed] of
           Some e \<Rightarrow> Inl (Errorf (''instance '' @ Itoa (ir_id r) @ '' has corrupt data'') e)
         | None \<Rightarrow> Inr
             \<lparr>in_ID = ir_id r, in_NodeID = ir_node_id r, in_Name = ir_name r, in_Address = right_of NoPrefix address,
              in_ListenPort = ir_listen_port r, in_PrivateKey = right_of ZeroKey priv,
              in_PublicKey = right_of ZeroKey pub, in_Endpoint = ir_endpoint r, in_DNS = right_of [] dns,
              in_DNSOnServer = ir_dns_on_server r, in_MTU = ir_mtu r,
              in_PersistentKeepalive = ir_persistent_keepalive r,
              in_ClientAllowedIPs = right_of [] allowed, in_Country = ir_country r, in_City = ir_city r,
              in_CreatedAt = time_Unix (ir_created_at r), in_UpdatedAt = time_Unix (ir_updated_at r)\<rparr>)"

definition scanPeer :: "peer_row \<Rightarrow> err + Peer" where
  "scanPeer r =
     (let address = ParseAddr (pr_address r);
          priv = (if pr_private_key r \<noteq> [] then ParseKey (pr_private_key r) else Inr ZeroKey);
          pub = ParseKey (pr_public_key r); psk = ParseKey (pr_preshared_key r)
      in case errors_Join [left_of address, left_of priv, left_of pub, left_of psk] of
           Some e \<Rightarrow> Inl (Errorf (''peer '' @ Itoa (pr_id r) @ '' has corrupt data'') e)
         | None \<Rightarrow> Inr
             \<lparr>p_ID = pr_id r, p_InstanceID = pr_instance_id r, p_Name = pr_name r,
              p_Address = right_of NoAddr address, p_PrivateKey = right_of ZeroKey priv,
              p_PublicKey = right_of ZeroKey pub, p_PresharedKey = right_of ZeroKey psk,
              p_Enabled = pr_enabled r, p_ExternalID = pr_external_id r, p_Metadata = pr_metadata r,
              p_DataLimit = pr_data_limit r, p_LimitPeriod = pr_limit_period r,
              p_UsageResetAt = timeOf (pr_usage_reset_at r), p_ExpiresAt = timeOf (pr_expires_at r),
              p_SpeedLimit = pr_speed_limit r,
              p_ShareToken = (case pr_share_token r of None \<Rightarrow> [] | Some t \<Rightarrow> t),
              p_ShareExpiresAt = timeOf (pr_share_expires_at r),
              p_LastHandshake = timeOf (pr_last_handshake r),
              p_CreatedAt = time_Unix (pr_created_at r), p_UpdatedAt = time_Unix (pr_updated_at r)\<rparr>)"

section \<open>Servers\<close>

definition instance_row_of :: "gotime \<Rightarrow> Instance \<Rightarrow> instance_row" where
  "instance_row_of now i =
     \<lparr>ir_id = 0, ir_node_id = in_NodeID i, ir_name = in_Name i, ir_address = prefix_String (in_Address i),
      ir_listen_port = in_ListenPort i, ir_private_key = key_String (in_PrivateKey i),
      ir_public_key = key_String (in_PublicKey i), ir_endpoint = in_Endpoint i,
      ir_dns = joinList addr_String (in_DNS i), ir_dns_on_server = in_DNSOnServer i, ir_mtu = in_MTU i,
      ir_persistent_keepalive = in_PersistentKeepalive i,
      ir_client_allowed_ips = joinList prefix_String (in_ClientAllowedIPs i), ir_country = in_Country i,
      ir_city = in_City i, ir_created_at = unix now, ir_updated_at = unix now\<rparr>"

definition CreateInstance :: "gotime \<Rightarrow> Instance \<Rightarrow> ('z, Instance) sql" where
  "CreateInstance now i =
     bnd (mapErr (store_writeError ''create instance'') (insert_instance (instance_row_of now i))) (\<lambda>k.
     ret (i\<lparr>in_ID := k, in_CreatedAt := time_Unix (unix now), in_UpdatedAt := time_Unix (unix now)\<rparr>))"

fun scan_all :: "('r \<Rightarrow> err + 'a) \<Rightarrow> 'r list \<Rightarrow> err + 'a list" where
  "scan_all scan [] = Inr []"
| "scan_all scan (r # rs) =
     (case scan r of Inl e \<Rightarrow> Inl e | Inr v \<Rightarrow>
       (case scan_all scan rs of Inl e \<Rightarrow> Inl e | Inr vs \<Rightarrow> Inr (v # vs)))"

definition Instances :: "('z, Instance list) sql" where
  "Instances =
     bnd (mapErr (Errorf ''list instances'') (query (\<lambda>s. sort_key ir_id (t_instances s)))) (\<lambda>rows.
     liftE (scan_all scanInstance rows))"

definition InstanceByID :: "int \<Rightarrow> ('z, Instance) sql" where
  "InstanceByID k =
     bnd (mapErr (Errorf ''scan instance'') (query (instance_by_id k))) (\<lambda>row.
     case row of None \<Rightarrow> throw ErrNotFound | Some r \<Rightarrow> liftE (scanInstance r))"

definition UpdateInstance :: "gotime \<Rightarrow> Instance \<Rightarrow> ('z, Instance) sql" where
  "UpdateInstance now i =
     bnd (mapErr (store_writeError ''update instance'') (update_instance (in_ID i) (\<lambda>r. r\<lparr>ir_name := in_Name i,
       ir_listen_port := in_ListenPort i, ir_endpoint := in_Endpoint i, ir_dns := joinList addr_String (in_DNS i),
       ir_dns_on_server := in_DNSOnServer i, ir_mtu := in_MTU i,
       ir_persistent_keepalive := in_PersistentKeepalive i,
       ir_client_allowed_ips := joinList prefix_String (in_ClientAllowedIPs i), ir_country := in_Country i,
       ir_city := in_City i, ir_updated_at := unix now\<rparr>))) (\<lambda>n.
     thn (expectOneRow n) (InstanceByID (in_ID i)))"

definition DeleteInstance :: "int \<Rightarrow> ('z, unit) sql" where
  "DeleteInstance k = bnd (mapErr (Errorf ''delete instance'') (delete_instance k)) expectOneRow"

section \<open>Devices\<close>

definition peerAddresses :: "int \<Rightarrow> ('z, Addr list) sql" where
  "peerAddresses k =
     bnd (mapErr (Errorf ''list peer addresses'')
       (query (\<lambda>s. map pr_address (filter (\<lambda>r. pr_instance_id r = k) (t_peers s))))) (\<lambda>raws.
     liftE (parse_all (\<lambda>raw. case ParseAddr raw of
         Inl e \<Rightarrow> Inl (Errorf (''peer address '' @ raw @ '' is corrupt'') e) | Inr a \<Rightarrow> Inr a) raws))"

text \<open>What \<open>CreatePeer\<close> and \<open>MovePeer\<close> share: the next free address of a server.\<close>

definition allocate :: "int \<Rightarrow> ('z, Addr) sql" where
  "allocate k =
     bnd (mapErr (Errorf ''load instance address'') (query (\<lambda>s. map_option ir_address (instance_by_id k s)))) (\<lambda>raw.
     case raw of
       None \<Rightarrow> throw ErrNotFound
     | Some raw \<Rightarrow>
       (case ParsePrefix raw of
          Inl e \<Rightarrow> throw (Errorf (''instance '' @ Itoa k @ '' has a corrupt address'') e)
        | Inr server \<Rightarrow>
            bnd (peerAddresses k) (\<lambda>used.
            liftE (NextAddress (Masked server) (used @ [prefix_Addr server])))))"

definition peer_row_of :: "gotime \<Rightarrow> Peer \<Rightarrow> Addr \<Rightarrow> peer_row" where
  "peer_row_of now p a =
     \<lparr>pr_id = 0, pr_instance_id = p_InstanceID p, pr_name = p_Name p, pr_address = addr_String a,
      pr_private_key = privateKeyText p, pr_public_key = key_String (p_PublicKey p),
      pr_preshared_key = key_String (p_PresharedKey p), pr_enabled = p_Enabled p,
      pr_data_limit = p_DataLimit p, pr_limit_period = OrDefault (p_LimitPeriod p),
      pr_usage_reset_at = None, pr_usage_reset_day = [], pr_usage_reset_rx = 0, pr_usage_reset_tx = 0,
      pr_expires_at = nullTime (p_ExpiresAt p), pr_last_handshake = None,
      pr_external_id = p_ExternalID p, pr_metadata = p_Metadata p, pr_speed_limit = p_SpeedLimit p,
      pr_share_token = None, pr_share_expires_at = None,
      pr_created_at = unix now, pr_updated_at = unix now\<rparr>"

definition CreatePeer :: "gotime \<Rightarrow> Peer \<Rightarrow> ('z, Peer) sql" where
  "CreatePeer now p =
     bnd (transaction ''create peer''
       (bnd (allocate (p_InstanceID p)) (\<lambda>a.
        bnd (mapErr (store_writeError ''create peer'') (insert_peer (peer_row_of now p a))) (\<lambda>k.
        ret (p\<lparr>p_ID := k, p_Address := a\<rparr>))))) (\<lambda>p.
     ret (p\<lparr>p_LimitPeriod := OrDefault (p_LimitPeriod p), p_CreatedAt := time_Unix (unix now),
            p_UpdatedAt := time_Unix (unix now)\<rparr>))"

text \<open>\<open>setCounters\<close> of traffic.go: insert, or overwrite on a conflict.\<close>

definition put_counter :: "int \<Rightarrow> int \<Rightarrow> int \<Rightarrow> counter_row list \<Rightarrow> counter_row list" where
  "put_counter k rx tx cs =
     (if list_ex (\<lambda>c. cr_peer_id c = k) cs
      then map (\<lambda>c. if cr_peer_id c = k then c\<lparr>cr_rx_bytes := rx, cr_tx_bytes := tx\<rparr> else c) cs
      else cs @ [\<lparr>cr_peer_id = k, cr_rx_bytes = rx, cr_tx_bytes = tx\<rparr>])"

definition setCounters :: "int \<Rightarrow> int \<Rightarrow> int \<Rightarrow> ('z, unit) sql" where
  "setCounters k rx tx = mapErr (Errorf ''save peer counters'') (stmt (\<lambda>s.
     if peer_by_id k s = None then (Inl foreign_key_error, s)
     else (Inr (), s\<lparr>t_counters := put_counter k rx tx (t_counters s)\<rparr>)))"

definition PeerByID :: "int \<Rightarrow> ('z, Peer) sql" where
  "PeerByID k =
     bnd (mapErr (Errorf ''scan peer'') (query (peer_by_id k))) (\<lambda>row.
     case row of None \<Rightarrow> throw ErrNotFound | Some r \<Rightarrow> liftE (scanPeer r))"

text \<open>What a move writes to the row, and the transaction of the move; then the device is loaded again.\<close>

definition moved_row :: "gotime \<Rightarrow> int \<Rightarrow> Addr \<Rightarrow> peer_row \<Rightarrow> peer_row" where
  "moved_row now k a r =
     r\<lparr>pr_instance_id := k, pr_address := addr_String a, pr_last_handshake := None, pr_updated_at := unix now\<rparr>"

definition move_tx :: "gotime \<Rightarrow> int \<Rightarrow> int \<Rightarrow> ('z, unit) sql" where
  "move_tx now k instanceID =
     transaction ''move peer''
       (bnd (allocate instanceID) (\<lambda>a.
        bnd (mapErr (store_writeError ''move peer'') (update_peer k (moved_row now instanceID a))) (\<lambda>n.
        thn (expectOneRow n) (setCounters k 0 0))))"

definition MovePeer :: "gotime \<Rightarrow> int \<Rightarrow> int \<Rightarrow> ('z, Peer) sql" where
  "MovePeer now k instanceID = thn (move_tx now k instanceID) (PeerByID k)"

definition Peers :: "int \<Rightarrow> ('z, Peer list) sql" where
  "Peers k =
     bnd (mapErr (Errorf ''list peers'')
       (query (\<lambda>s. sort_key pr_id (filter (\<lambda>r. pr_instance_id r = k) (t_peers s))))) (\<lambda>rows.
     liftE (scan_all scanPeer rows))"

text \<open>GROUP BY: servers without devices are absent; the caller reads a missing entry as 0.\<close>

definition PeerCounts :: "('z, (int \<times> nat) list) sql" where
  "PeerCounts = mapErr (Errorf ''count peers'') (query (\<lambda>s.
     map (\<lambda>k. (k, length (filter (\<lambda>r. pr_instance_id r = k) (t_peers s))))
       (remdups (map pr_instance_id (t_peers s)))))"

definition UpdatePeer :: "gotime \<Rightarrow> Peer \<Rightarrow> ('z, Peer) sql" where
  "UpdatePeer now p =
     bnd (mapErr (store_writeError ''update peer'') (update_peer (p_ID p) (\<lambda>r. r\<lparr>pr_name := p_Name p,
       pr_enabled := p_Enabled p, pr_data_limit := p_DataLimit p,
       pr_limit_period := OrDefault (p_LimitPeriod p), pr_expires_at := nullTime (p_ExpiresAt p),
       pr_external_id := p_ExternalID p, pr_metadata := p_Metadata p,
       pr_speed_limit := p_SpeedLimit p, pr_updated_at := unix now\<rparr>))) (\<lambda>n.
     thn (expectOneRow n) (PeerByID (p_ID p)))"

definition SetPeerShare :: "int \<Rightarrow> string \<Rightarrow> gotime option \<Rightarrow> ('z, Peer) sql" where
  "SetPeerShare k token expires =
     bnd (mapErr (Errorf ''set peer share'') (update_peer k (\<lambda>r. r\<lparr>
       pr_share_token := (if token \<noteq> [] then Some token else None),
       pr_share_expires_at := nullTime expires\<rparr>))) (\<lambda>n.
     thn (expectOneRow n) (PeerByID k))"

definition PeerByShareToken :: "string \<Rightarrow> ('z, Peer) sql" where
  "PeerByShareToken token =
     (if token = [] then throw ErrNotFound
      else bnd (mapErr (Errorf ''scan peer'') (query (\<lambda>s. find (\<lambda>r. pr_share_token r = Some token) (t_peers s)))) (\<lambda>row.
        case row of None \<Rightarrow> throw ErrNotFound | Some r \<Rightarrow> liftE (scanPeer r)))"

definition DeletePeer :: "int \<Rightarrow> ('z, unit) sql" where
  "DeletePeer k = bnd (mapErr (Errorf ''delete peer'') (delete_peer k)) expectOneRow"

section \<open>The invariant of the tables\<close>

text \<open>
  What every operation keeps, whatever fails: ids are unique and were handed out by the counter, no
  two rows break a unique index, references lead to rows, a server's address is a host of an IPv4
  subnet, and a device's address is a host of its server's subnet other than the server's own.
\<close>

definition instances_apart :: "instance_row \<Rightarrow> instance_row \<Rightarrow> bool" where
  "instances_apart q r \<longleftrightarrow> nocase (ir_name q) \<noteq> nocase (ir_name r) \<and>
     \<not> (ir_node_id q = ir_node_id r \<and> ir_listen_port q = ir_listen_port r)"

definition peers_apart :: "peer_row \<Rightarrow> peer_row \<Rightarrow> bool" where
  "peers_apart q r \<longleftrightarrow>
     (pr_instance_id q = pr_instance_id r \<longrightarrow>
        nocase (pr_name q) \<noteq> nocase (pr_name r) \<and> pr_address q \<noteq> pr_address r) \<and>
     pr_public_key q \<noteq> pr_public_key r \<and>
     (pr_share_token r \<noteq> None \<longrightarrow> pr_share_token q \<noteq> pr_share_token r)"

definition instance_row_ok :: "instance_row \<Rightarrow> bool" where
  "instance_row_ok r \<longleftrightarrow> (\<exists>w b. ir_address r = prefix_String (Prefix (V4 w) b) \<and> 0 \<le> b \<and> b \<le> 30 \<and>
     host_of (Prefix (V4 w) b) (V4 w))"

definition peer_in_subnet :: "instance_row \<Rightarrow> peer_row \<Rightarrow> bool" where
  "peer_in_subnet i r \<longleftrightarrow>
     (\<forall>w b. ir_address i = prefix_String (Prefix (V4 w) b) \<and> 0 \<le> b \<and> b \<le> 30 \<longrightarrow>
       (\<exists>n. pr_address r = addr_String (V4 n) \<and> host_of (Prefix (V4 w) b) (V4 n) \<and> n \<noteq> w))"

definition peer_row_ok :: "'z db_scheme \<Rightarrow> peer_row \<Rightarrow> bool" where
  "peer_row_ok s r \<longleftrightarrow>
     (\<exists>i. instance_by_id (pr_instance_id r) s = Some i \<and> peer_in_subnet i r) \<and>
     pr_limit_period r \<in> {PeriodMonthly, PeriodTotal}"

definition instances_inv :: "'z db_scheme \<Rightarrow> bool" where
  "instances_inv s \<longleftrightarrow>
     distinct (map ir_id (t_instances s)) \<and>
     (\<forall>r \<in> set (t_instances s). ir_id r \<le> t_instance_seq s \<and> instance_row_ok r) \<and>
     (\<forall>q \<in> set (t_instances s). \<forall>r \<in> set (t_instances s). ir_id q \<noteq> ir_id r \<longrightarrow> instances_apart q r)"

definition peers_inv :: "'z db_scheme \<Rightarrow> bool" where
  "peers_inv s \<longleftrightarrow>
     distinct (map pr_id (t_peers s)) \<and>
     (\<forall>r \<in> set (t_peers s). pr_id r \<le> t_peer_seq s \<and> peer_row_ok s r) \<and>
     (\<forall>q \<in> set (t_peers s). \<forall>r \<in> set (t_peers s). pr_id q \<noteq> pr_id r \<longrightarrow> peers_apart q r)"

definition usage_inv :: "'z db_scheme \<Rightarrow> bool" where
  "usage_inv s \<longleftrightarrow>
     distinct (map cr_peer_id (t_counters s)) \<and>
     distinct (map (\<lambda>u. (ur_peer_id u, ur_day u)) (t_usage s)) \<and>
     cr_peer_id ` set (t_counters s) \<subseteq> pr_id ` set (t_peers s) \<and>
     ur_peer_id ` set (t_usage s) \<subseteq> pr_id ` set (t_peers s)"

definition db_inv :: "'z db_scheme \<Rightarrow> bool" where
  "db_inv s \<longleftrightarrow> instances_inv s \<and> peers_inv s \<and> usage_inv s"

definition empty_db :: db where
  "empty_db = \<lparr>t_instances = [], t_instance_seq = 0, t_peers = [], t_peer_seq = 0, t_counters = [], t_usage = [],
     t_users = [], t_user_seq = 0, t_sessions = [], t_settings = [], t_nodes = [], t_node_seq = 0, t_faults = []\<rparr>"

lemma db_inv_empty: "db_inv empty_db"
  by (simp add: db_inv_def instances_inv_def peers_inv_def usage_inv_def empty_db_def)

end
