(* ===== verification/StoreInv.thy ===== *)
theory StoreInv
  imports StoreWireguard
begin

text \<open>
  The invariant of the tables is kept by every statement and so by every operation of
  StoreWireguard, whether it succeeds or a fault stops it: first the pure facts on tables, then the
  operations. The last section reads the operations' results off.
\<close>

section \<open>Fields a statement does not touch\<close>

lemma by_id_faults [simp]:
  "instance_by_id k (s\<lparr>t_faults := bs\<rparr>) = instance_by_id k s"
  "peer_by_id k (s\<lparr>t_faults := bs\<rparr>) = peer_by_id k s"
  "instance_by_id k (s\<lparr>t_peers := ps\<rparr>) = instance_by_id k s"
  "instance_by_id k (s\<lparr>t_peer_seq := n\<rparr>) = instance_by_id k s"
  "instance_by_id k (s\<lparr>t_counters := cs\<rparr>) = instance_by_id k s"
  "instance_by_id k (s\<lparr>t_usage := us\<rparr>) = instance_by_id k s"
  "peer_by_id k (s\<lparr>t_counters := cs\<rparr>) = peer_by_id k s"
  "peer_by_id k (s\<lparr>t_usage := us\<rparr>) = peer_by_id k s"
  by (simp_all add: instance_by_id_def peer_by_id_def)

lemma peer_row_ok_frame [simp]:
  "peer_row_ok (s\<lparr>t_faults := bs\<rparr>) = peer_row_ok s"
  "peer_row_ok (s\<lparr>t_peers := ps\<rparr>) = peer_row_ok s"
  "peer_row_ok (s\<lparr>t_peer_seq := n\<rparr>) = peer_row_ok s"
  "peer_row_ok (s\<lparr>t_counters := cs\<rparr>) = peer_row_ok s"
  "peer_row_ok (s\<lparr>t_usage := us\<rparr>) = peer_row_ok s"
  by (simp_all add: peer_row_ok_def fun_eq_iff)

lemma db_inv_faults [simp]: "db_inv (s\<lparr>t_faults := bs\<rparr>) = db_inv s"
  by (simp add: db_inv_def instances_inv_def peers_inv_def usage_inv_def)

lemma same_tables_db_inv: "same_tables s s' \<Longrightarrow> db_inv s' = db_inv s"
  by (auto simp: same_tables_def)

lemma keeps_db_inv_query [prog_rules, intro]: "keeps db_inv (query f)"
  by (rule keeps_query) simp

lemma keeps_db_inv_transaction: "keeps db_inv m \<Longrightarrow> keeps db_inv (transaction op m)"
  by (rule keeps_transaction) simp_all

section \<open>Lookups\<close>

lemma instance_by_id_Some: "instance_by_id k s = Some r \<Longrightarrow> r \<in> set (t_instances s) \<and> ir_id r = k"
  by (auto simp: instance_by_id_def find_Some_iff)

lemma peer_by_id_Some: "peer_by_id k s = Some r \<Longrightarrow> r \<in> set (t_peers s) \<and> pr_id r = k"
  by (auto simp: peer_by_id_def find_Some_iff)

lemma instance_by_id_None: "instance_by_id k s = None \<longleftrightarrow> (\<forall>r \<in> set (t_instances s). ir_id r \<noteq> k)"
  by (auto simp: instance_by_id_def find_None_iff)

lemma peer_by_id_None: "peer_by_id k s = None \<longleftrightarrow> (\<forall>r \<in> set (t_peers s). pr_id r \<noteq> k)"
  by (auto simp: peer_by_id_def find_None_iff)

lemma find_unique: "distinct (map f xs) \<Longrightarrow> x \<in> set xs \<Longrightarrow> find (\<lambda>y. f y = f x) xs = Some x"
  by (induction xs) auto

lemma peer_by_id_member: "peers_inv s \<Longrightarrow> r \<in> set (t_peers s) \<Longrightarrow> peer_by_id (pr_id r) s = Some r"
  unfolding peer_by_id_def peers_inv_def by (rule find_unique) auto

lemma instance_by_id_member: "instances_inv s \<Longrightarrow> r \<in> set (t_instances s) \<Longrightarrow> instance_by_id (ir_id r) s = Some r"
  unfolding instance_by_id_def instances_inv_def by (rule find_unique) auto

lemma instance_clash_None: "instance_clash others r = None \<longleftrightarrow> (\<forall>q \<in> set others. instances_apart q r)"
  by (auto simp: instance_clash_def instances_apart_def list_ex_iff)

lemma peer_clash_None: "peer_clash others r = None \<longleftrightarrow> (\<forall>q \<in> set others. peers_apart q r)"
  by (auto simp: peer_clash_def peers_apart_def list_ex_iff)

lemma instances_apart_sym: "instances_apart q r \<Longrightarrow> instances_apart r q"
  by (auto simp: instances_apart_def)

lemma peers_apart_sym: "peers_apart q r \<Longrightarrow> peers_apart r q"
  by (auto simp: peers_apart_def)

section \<open>Adding, changing and dropping rows\<close>

lemma find_append_Some: "find P xs = Some x \<Longrightarrow> find P (xs @ ys) = Some x"
  by (induction xs) (auto split: if_splits)

lemma find_filter_Some: "find P xs = Some x \<Longrightarrow> (\<And>y. P y \<Longrightarrow> Q y) \<Longrightarrow> find P (filter Q xs) = Some x"
  by (induction xs) (auto split: if_splits)

lemma find_map_same: "(\<And>x. P (g x) = P x) \<Longrightarrow> find P (map g xs) = map_option g (find P xs)"
  by (induction xs) auto

lemma distinct_same_ids: "(\<And>x. f (g x) = f x) \<Longrightarrow> distinct (map f (map g xs)) = distinct (map f xs)"
  by (simp add: comp_def)

lemma ball_map: "(\<And>x. x \<in> set xs \<Longrightarrow> P (g x)) \<Longrightarrow> \<forall>y \<in> set (map g xs). P y"
  by simp

lemma apart_map:
  assumes "\<And>x. f (g x) = f x" and "\<And>x y. x \<in> set xs \<Longrightarrow> y \<in> set xs \<Longrightarrow> f x \<noteq> f y \<Longrightarrow> R (g x) (g y)"
  shows "\<forall>q \<in> set (map g xs). \<forall>r \<in> set (map g xs). f q \<noteq> f r \<longrightarrow> R q r"
  using assms by auto

lemma inv_add_instance:
  assumes inv: "db_inv s" and ok: "instance_row_ok r" and nid: "ir_id r = t_instance_seq s + 1"
    and apart: "instance_clash (t_instances s) r = None"
  shows "db_inv (s\<lparr>t_instances := t_instances s @ [r], t_instance_seq := ir_id r\<rparr>)" (is "db_inv ?t")
proof -
  have ids: "q \<in> set (t_instances s) \<Longrightarrow> ir_id q \<le> t_instance_seq s" for q
    using inv by (simp add: db_inv_def instances_inv_def)
  have fresh: "q \<in> set (t_instances s) \<Longrightarrow> ir_id q \<noteq> ir_id r" for q using ids nid by force
  have keep: "instance_by_id k s = Some i \<Longrightarrow> instance_by_id k ?t = Some i" for k i
    by (simp add: instance_by_id_def find_append_Some)
  have "instances_inv ?t"
    using inv ok nid ids fresh apart
    by (auto simp: db_inv_def instances_inv_def instance_clash_None intro: instances_apart_sym)
      (force dest: ids)+
  moreover have "peers_inv ?t"
    using inv keep by (auto simp: db_inv_def peers_inv_def peer_row_ok_def)
  ultimately show ?thesis using inv by (simp add: db_inv_def usage_inv_def)
qed

lemma inv_add_peer:
  assumes inv: "db_inv s" and ok: "peer_row_ok s r" and nid: "pr_id r = t_peer_seq s + 1"
    and apart: "peer_clash (t_peers s) r = None"
  shows "db_inv (s\<lparr>t_peers := t_peers s @ [r], t_peer_seq := pr_id r\<rparr>)"
proof -
  have ids: "q \<in> set (t_peers s) \<Longrightarrow> pr_id q \<le> t_peer_seq s" for q
    using inv by (simp add: db_inv_def peers_inv_def)
  have fresh: "pr_id r \<notin> pr_id ` set (t_peers s)" using ids nid by force
  have "peers_inv (s\<lparr>t_peers := t_peers s @ [r], t_peer_seq := pr_id r\<rparr>)"
    using inv ok nid ids fresh apart
    by (auto simp: db_inv_def peers_inv_def peer_clash_None intro: peers_apart_sym) (force dest: ids)
  then show ?thesis using inv by (auto simp: db_inv_def usage_inv_def instances_inv_def)
qed

lemma inv_update_peer:
  assumes inv: "db_inv s" and r: "peer_by_id k s = Some r" and fid: "\<And>q. pr_id (f q) = pr_id q"
    and ok: "peer_row_ok s (f r)" and apart: "peer_clash (filter (\<lambda>q. pr_id q \<noteq> k) (t_peers s)) (f r) = None"
  shows "db_inv (s\<lparr>t_peers := map (\<lambda>q. if pr_id q = k then f q else q) (t_peers s)\<rparr>)"
proof -
  let ?g = "\<lambda>q. if pr_id q = k then f q else q"
  have gid: "pr_id (?g q) = pr_id q" for q by (simp add: fid)
  have ids: "map pr_id (map ?g (t_peers s)) = map pr_id (t_peers s)" by (simp add: comp_def gid)
  have one: "q \<in> set (t_peers s) \<Longrightarrow> pr_id q = k \<Longrightarrow> q = r" for q
    using peer_by_id_member[of s q] inv r by (auto simp: db_inv_def)
  have sets: "pr_id ` set (map ?g (t_peers s)) = pr_id ` set (t_peers s)"
    by (metis ids list.set_map)
  have row: "peer_row_ok s (?g q) \<and> pr_id (?g q) \<le> t_peer_seq s" if "q \<in> set (t_peers s)" for q
    using that one[OF that] ok inv gid[of q] by (auto simp: db_inv_def peers_inv_def)
  have ap: "peers_apart (?g q) (?g q')" if "q \<in> set (t_peers s)" "q' \<in> set (t_peers s)" "pr_id q \<noteq> pr_id q'" for q q'
    using that one apart inv
    by (auto simp: peer_clash_None db_inv_def peers_inv_def intro: peers_apart_sym)
  have "peers_inv (s\<lparr>t_peers := map ?g (t_peers s)\<rparr>)"
    unfolding peers_inv_def
  proof (intro conjI)
    show "distinct (map pr_id (t_peers (s\<lparr>t_peers := map ?g (t_peers s)\<rparr>)))"
      using inv by (simp add: distinct_same_ids[where f = pr_id and g = ?g, OF gid] db_inv_def peers_inv_def del: map_map)
    show "\<forall>r \<in> set (t_peers (s\<lparr>t_peers := map ?g (t_peers s)\<rparr>)).
        pr_id r \<le> t_peer_seq (s\<lparr>t_peers := map ?g (t_peers s)\<rparr>) \<and> peer_row_ok (s\<lparr>t_peers := map ?g (t_peers s)\<rparr>) r"
      using ball_map[of "t_peers s" "\<lambda>r. pr_id r \<le> t_peer_seq s \<and> peer_row_ok s r" ?g] row
      by (simp del: set_map)
    show "\<forall>q \<in> set (t_peers (s\<lparr>t_peers := map ?g (t_peers s)\<rparr>)).
        \<forall>r \<in> set (t_peers (s\<lparr>t_peers := map ?g (t_peers s)\<rparr>)). pr_id q \<noteq> pr_id r \<longrightarrow> peers_apart q r"
      using apart_map[of pr_id ?g "t_peers s" peers_apart] gid ap by (simp del: set_map)
  qed
  then show ?thesis using inv sets by (simp add: db_inv_def usage_inv_def instances_inv_def del: set_map)
qed

lemma inv_drop_peers:
  assumes inv: "db_inv s" shows "db_inv (drop_peers P s)"
proof -
  have "instances_inv (drop_peers P s)"
    using inv by (simp add: db_inv_def instances_inv_def drop_peers_def Let_def)
  moreover have "peers_inv (drop_peers P s)"
    using inv by (auto simp: db_inv_def peers_inv_def drop_peers_def Let_def distinct_map_filter)
  moreover have "usage_inv (drop_peers P s)"
    using inv by (auto simp: db_inv_def usage_inv_def drop_peers_def Let_def distinct_map_filter) blast+
  ultimately show ?thesis by (simp add: db_inv_def)
qed

lemma inv_delete_instance:
  assumes inv: "db_inv s"
  shows "db_inv ((drop_peers (\<lambda>r. pr_instance_id r = k) s)\<lparr>t_instances := filter (\<lambda>r. ir_id r \<noteq> k) (t_instances s)\<rparr>)"
    (is "db_inv ?t")
proof -
  let ?d = "drop_peers (\<lambda>r. pr_instance_id r = k) s"
  have d: "db_inv ?d" using inv by (rule inv_drop_peers)
  have same: "t_instances ?d = t_instances s" "t_instance_seq ?d = t_instance_seq s"
    by (simp_all add: drop_peers_def Let_def)
  have keep: "j \<noteq> k \<Longrightarrow> instance_by_id j ?d = Some i \<Longrightarrow> instance_by_id j ?t = Some i" for j i
    using same by (auto simp: instance_by_id_def intro: find_filter_Some)
  have "instances_inv ?t"
    using d same by (auto simp: db_inv_def instances_inv_def distinct_map_filter)
  moreover have "peers_inv ?t"
  proof -
    have "\<forall>r \<in> set (t_peers ?d). pr_instance_id r \<noteq> k" by (simp add: drop_peers_def Let_def)
    then have "\<forall>r \<in> set (t_peers ?d). peer_row_ok ?d r \<longrightarrow> peer_row_ok ?t r"
      using keep by (auto simp: peer_row_ok_def)
    then show ?thesis using d by (auto simp: db_inv_def peers_inv_def)
  qed
  ultimately show ?thesis using d by (simp add: db_inv_def usage_inv_def)
qed

lemma inv_update_instance:
  assumes inv: "db_inv s" and r: "instance_by_id k s = Some r" and fid: "\<And>q. ir_id (f q) = ir_id q"
    and addr: "\<And>q. ir_address (f q) = ir_address q"
    and apart: "instance_clash (filter (\<lambda>q. ir_id q \<noteq> k) (t_instances s)) (f r) = None"
  shows "db_inv (s\<lparr>t_instances := map (\<lambda>q. if ir_id q = k then f q else q) (t_instances s)\<rparr>)" (is "db_inv ?t")
proof -
  let ?g = "\<lambda>q. if ir_id q = k then f q else q"
  have gid: "ir_id (?g q) = ir_id q" and gad: "ir_address (?g q) = ir_address q" for q by (simp_all add: fid addr)
  have ids: "map ir_id (map ?g (t_instances s)) = map ir_id (t_instances s)" by (simp add: comp_def gid)
  have one: "q \<in> set (t_instances s) \<Longrightarrow> ir_id q = k \<Longrightarrow> q = r" for q
    using instance_by_id_member[of s q] inv r by (auto simp: db_inv_def)
  have ok: "instance_row_ok (?g q) = instance_row_ok q" for q unfolding instance_row_ok_def gad ..
  have row: "ir_id (?g q) \<le> t_instance_seq s \<and> instance_row_ok (?g q)" if "q \<in> set (t_instances s)" for q
    unfolding ok gid using that inv by (simp add: db_inv_def instances_inv_def)
  have ap: "instances_apart (?g q) (?g q')" if "q \<in> set (t_instances s)" "q' \<in> set (t_instances s)" "ir_id q \<noteq> ir_id q'" for q q'
    using that one apart inv
    by (auto simp: instance_clash_None db_inv_def instances_inv_def intro: instances_apart_sym)
  have "instances_inv ?t"
    unfolding instances_inv_def
  proof (intro conjI)
    show "distinct (map ir_id (t_instances ?t))"
      using inv by (simp add: distinct_same_ids[where f = ir_id and g = ?g, OF gid] db_inv_def instances_inv_def del: map_map)
    show "\<forall>r \<in> set (t_instances ?t). ir_id r \<le> t_instance_seq ?t \<and> instance_row_ok r"
      using ball_map[of "t_instances s" "\<lambda>r. ir_id r \<le> t_instance_seq s \<and> instance_row_ok r" ?g] row
      by (simp del: set_map)
    show "\<forall>q \<in> set (t_instances ?t). \<forall>r \<in> set (t_instances ?t). ir_id q \<noteq> ir_id r \<longrightarrow> instances_apart q r"
      using apart_map[of ir_id ?g "t_instances s" instances_apart] gid ap by (simp del: set_map)
  qed
  moreover have look: "instance_by_id j ?t = map_option ?g (instance_by_id j s)" for j
    using find_map_same[of "\<lambda>r. ir_id r = j" ?g "t_instances s"] gid by (simp add: instance_by_id_def)
  have sub: "peer_in_subnet (?g i) p = peer_in_subnet i p" for i p unfolding peer_in_subnet_def gad ..
  have "peer_row_ok ?t p" if ok: "peer_row_ok s p" for p
  proof -
    obtain i where "instance_by_id (pr_instance_id p) s = Some i" and "peer_in_subnet (?g i) p"
      using ok unfolding peer_row_ok_def sub by blast
    moreover from this look have "instance_by_id (pr_instance_id p) ?t = Some (?g i)" by simp
    ultimately show ?thesis using ok unfolding peer_row_ok_def by blast
  qed
  then have "peers_inv ?t" using inv by (auto simp: db_inv_def peers_inv_def)
  ultimately show ?thesis using inv by (simp add: db_inv_def usage_inv_def)
qed

end
