(* ===== verification/StoreOps.thy ===== *)
theory StoreOps
  imports StoreInv
begin

text \<open>
  What the operations of internal/store/wireguard.go do to the tables: each keeps the invariant
  whatever fails, what each returns, and what it leaves alone.
\<close>

section \<open>Text columns\<close>

text \<open>
  What \<open>joinList\<close> and \<open>parseList\<close> need of the values a column holds: their text parses back, is not
  empty and has no comma. Lists of such values then survive the column.
\<close>

locale text_column =
  fixes str :: "'a \<Rightarrow> string" and parse :: "string \<Rightarrow> err + 'a" and storable :: "'a \<Rightarrow> bool"
  assumes parse_str: "storable x \<Longrightarrow> parse (str x) = Inr x"
    and str_not_Nil: "storable x \<Longrightarrow> str x \<noteq> []"
    and no_comma: "storable x \<Longrightarrow> CHR '','' \<notin> set (str x)"
begin

lemma parse_all_str: "\<forall>x \<in> set xs. storable x \<Longrightarrow> parse_all parse (map str xs) = Inr xs"
  by (induction xs) (simp_all add: parse_str)

lemma joinList_Nil: "\<forall>x \<in> set xs. storable x \<Longrightarrow> joinList str xs = [] \<longleftrightarrow> xs = []"
  unfolding joinList_def by (cases xs rule: remdups_adj.cases) (auto simp: str_not_Nil)

lemma parseList_joinList: "\<forall>x \<in> set xs. storable x \<Longrightarrow> parseList parse (joinList str xs) = Inr xs"
proof (cases "xs = []")
  case True
  then show ?thesis by (simp add: joinList_def parseList_def)
next
  case False
  assume ok: "\<forall>x \<in> set xs. storable x"
  have "Split (CHR '','') (joinList str xs) = map str xs"
    unfolding joinList_def using False ok no_comma by (intro Split_Join) auto
  then show ?thesis using False ok by (simp add: parseList_def joinList_Nil parse_all_str)
qed

end

interpretation addr_column: text_column addr_String ParseAddr Is4
proof (unfold_locales)
  fix x :: Addr assume "Is4 x"
  then obtain w where x: "x = V4 w" by (cases x) auto
  show "ParseAddr (addr_String x) = Inr x" by (simp add: x del: addr_String.simps)
  show "addr_String x \<noteq> []" by (simp add: x)
  show "CHR '','' \<notin> set (addr_String x)" by (auto simp: x is_digit_def dest!: string4_chars)
qed

definition prefix4 :: "Prefix \<Rightarrow> bool" where
  "prefix4 p \<longleftrightarrow> Is4 (prefix_Addr p) \<and> 0 \<le> prefix_Bits p \<and> prefix_Bits p \<le> 32"

interpretation prefix_column: text_column prefix_String ParsePrefix prefix4
proof (unfold_locales)
  fix p :: Prefix assume p: "prefix4 p"
  obtain w b where x: "p = Prefix (V4 w) b" "0 \<le> b" "b \<le> 32"
    using p by (cases p; cases "prefix_Addr p") (auto simp: prefix4_def)
  show "ParsePrefix (prefix_String p) = Inr p" unfolding x(1) using x(2,3) by (rule ParsePrefix_String4)
  show "prefix_String p \<noteq> []" using x by (simp add: prefix_String_def IsValid_def)
  show "CHR '','' \<notin> set (prefix_String p)"
    using x by (auto simp: prefix_String_def IsValid_def is_digit_def dest!: string4_chars Itoa_chars)
qed

section \<open>Statements keep the invariant\<close>

lemma keeps_insert_instance:
  assumes ok: "instance_row_ok r"
  shows "keeps db_inv (insert_instance r)"
  unfolding insert_instance_def
proof (rule keeps_stmt)
  fix s :: "'a db_scheme" assume inv: "db_inv s"
  let ?r = "r\<lparr>ir_id := t_instance_seq s + 1\<rparr>"
  have "instance_row_ok ?r" using ok by (simp add: instance_row_ok_def)
  then show "db_inv (snd (let r = ?r in case instance_clash (t_instances s) r of Some e \<Rightarrow> (Inl e, s)
      | None \<Rightarrow> (Inr (ir_id r), s\<lparr>t_instances := t_instances s @ [r], t_instance_seq := ir_id r\<rparr>)))"
    using inv inv_add_instance[OF inv, of ?r] by (simp add: Let_def split: option.splits)
qed simp

lemma keeps_update_instance:
  assumes "\<And>q. ir_id (f q) = ir_id q" and "\<And>q. ir_address (f q) = ir_address q"
  shows "keeps db_inv (update_instance k f)"
  unfolding update_instance_def
  by (rule keeps_stmt) (auto split: option.splits intro: inv_update_instance assms)

lemma keeps_delete_instance: "keeps db_inv (delete_instance k)"
  unfolding delete_instance_def by (rule keeps_stmt) (auto intro: inv_delete_instance)

lemma keeps_delete_peer: "keeps db_inv (delete_peer k)"
  unfolding delete_peer_def by (rule keeps_stmt) (auto intro: inv_drop_peers)

text \<open>An update that leaves the columns of the indexes and references alone, the token apart.\<close>

lemma keeps_update_peer:
  assumes "\<And>q. pr_id (f q) = pr_id q" and "\<And>(s :: 'z db_scheme) q. peer_row_ok s q \<Longrightarrow> peer_row_ok s (f q)"
  shows "keeps db_inv (update_peer k f :: ('z, nat) sql)"
  unfolding update_peer_def
proof (rule keeps_stmt)
  fix s :: "'z db_scheme" assume inv: "db_inv s"
  have "peer_row_ok s (f r)" if "peer_by_id k s = Some r" for r
    using assms(2) peer_by_id_Some[OF that] inv by (simp add: db_inv_def peers_inv_def)
  then show "db_inv (snd (case peer_by_id k s of None \<Rightarrow> (Inr (0 :: nat), s)
     | Some r \<Rightarrow> (case peer_clash (filter (\<lambda>q. pr_id q \<noteq> k) (t_peers s)) (f r) of Some e \<Rightarrow> (Inl e, s)
        | None \<Rightarrow> if instance_by_id (pr_instance_id (f r)) s = None then (Inl foreign_key_error, s)
          else (Inr 1, s\<lparr>t_peers := map (\<lambda>q. if pr_id q = k then f q else q) (t_peers s)\<rparr>))))"
    using inv assms(1) by (auto split: option.splits intro: inv_update_peer)
qed simp

lemma put_counter_ids:
  "map cr_peer_id (put_counter k rx tx cs) = map cr_peer_id cs @ (if k \<in> cr_peer_id ` set cs then [] else [k])"
proof -
  have "(\<lambda>c. cr_peer_id (if cr_peer_id c = k then c\<lparr>cr_rx_bytes := rx, cr_tx_bytes := tx\<rparr> else c)) = cr_peer_id" by auto
  then show ?thesis by (auto simp: put_counter_def list_ex_iff comp_def)
qed

lemma inv_put_counter:
  assumes inv: "db_inv s" and k: "peer_by_id k s \<noteq> None"
  shows "db_inv (s\<lparr>t_counters := put_counter k rx tx (t_counters s)\<rparr>)"
proof -
  have k: "k \<in> pr_id ` set (t_peers s)" using k peer_by_id_Some[of k s] by force
  have "cr_peer_id ` set (put_counter k rx tx (t_counters s)) = set (map cr_peer_id (put_counter k rx tx (t_counters s)))"
    by simp
  then show ?thesis
    using inv k unfolding put_counter_ids
    by (auto simp: db_inv_def usage_inv_def instances_inv_def peers_inv_def put_counter_ids)
qed

lemma keeps_setCounters [prog_rules, intro]: "keeps db_inv (setCounters k rx tx)"
  unfolding setCounters_def by (rule keeps_mapErr, rule keeps_stmt) (auto intro: inv_put_counter)

section \<open>Allocation\<close>

lemma parse_all_Inr: "parse_all p ss = Inr vs \<Longrightarrow> s \<in> set ss \<Longrightarrow> \<exists>v \<in> set vs. p s = Inr v"
  by (induction ss arbitrary: vs) (auto split: sum.splits)

lemma parse_all_map: "(\<And>x. x \<in> set xs \<Longrightarrow> p (g x) = Inr (h x)) \<Longrightarrow> parse_all p (map g xs) = Inr (map h xs)"
  by (induction xs) auto

lemma peerAddresses_Inr:
  assumes "peerAddresses k s = (Inr used, s')"
  shows "same_tables s s'"
    and "r \<in> set (t_peers s) \<Longrightarrow> pr_instance_id r = k \<Longrightarrow> pr_address r = addr_String (V4 n) \<Longrightarrow> V4 n \<in> set used"
proof -
  let ?f = "\<lambda>s :: 'a db_scheme. map pr_address (filter (\<lambda>r. pr_instance_id r = k) (t_peers s))"
  show "same_tables s s'"
    using assms by (cases rule: query_cases[of ?f s]) (auto simp: peerAddresses_def bnd_def mapErr_def)
  show "V4 n \<in> set used" if "r \<in> set (t_peers s)" "pr_instance_id r = k" "pr_address r = addr_String (V4 n)"
  proof -
    let ?p = "\<lambda>raw. case ParseAddr raw of Inl e \<Rightarrow> Inl (Errorf (''peer address '' @ raw @ '' is corrupt'') e) | Inr a \<Rightarrow> Inr a"
    have "parse_all ?p (?f s) = Inr used"
      using assms by (cases rule: query_cases[of ?f s]) (auto simp: peerAddresses_def bnd_def mapErr_def)
    moreover have "addr_String (V4 n) \<in> set (?f s)"
      using that(1,2) unfolding that(3)[symmetric] by auto
    ultimately obtain v where "v \<in> set used" "?p (addr_String (V4 n)) = Inr v" by (blast dest: parse_all_Inr)
    then show ?thesis by (simp del: addr_String.simps)
  qed
qed

text \<open>
  A successful allocation: the least host address of the server's subnet that no device of the
  server has and that is not the server's own.
\<close>

lemma allocate_Inr:
  assumes al: "allocate k s = (Inr a, s')" and inv: "db_inv s"
  obtains i w b n where "same_tables s s'" and "instance_by_id k s = Some i"
    and "ir_address i = prefix_String (Prefix (V4 w) b)" and "0 \<le> b" and "b \<le> 30"
    and "a = V4 n" and "host_of (Prefix (V4 w) b) (V4 n)" and "n \<noteq> w"
    and "\<forall>r \<in> set (t_peers s). pr_instance_id r = k \<longrightarrow> pr_address r \<noteq> addr_String (V4 n)"
proof (cases rule: query_cases[of "\<lambda>s. map_option ir_address (instance_by_id k s)" s])
  case (fault bs)
  with al show ?thesis by (simp add: allocate_def bnd_def mapErr_def)
next
  case (ok bs)
  let ?s1 = "s\<lparr>t_faults := bs\<rparr>"
  obtain i where i: "instance_by_id k s = Some i"
    using al ok by (cases "instance_by_id k s") (auto simp: allocate_def bnd_def mapErr_def)
  then have "instance_row_ok i"
    using instance_by_id_Some[OF i] inv by (simp add: db_inv_def instances_inv_def)
  then obtain w b where w: "ir_address i = prefix_String (Prefix (V4 w) b)" "0 \<le> b" "b \<le> 30"
    by (auto simp: instance_row_ok_def)
  have rest: "bnd (peerAddresses k) (\<lambda>used. liftE (NextAddress (Prefix (V4 w) b) (used @ [V4 w]))) ?s1 = (Inr a, s')"
    using al ok i w ParsePrefix_String4[of b w]
    by (simp add: allocate_def bnd_def mapErr_def NextAddress_Masked split: sum.splits prod.splits)
  then obtain used where used: "peerAddresses k ?s1 = (Inr used, s')"
    and na: "NextAddress (Prefix (V4 w) b) (used @ [V4 w]) = Inr a"
    by (auto elim!: bnd_InrE)
  obtain n where n: "a = V4 n" "host_of (Prefix (V4 w) b) (V4 n)" "a \<notin> set (used @ [V4 w])"
    using NextAddress_Inr[OF na] by metis
  have "same_tables s s'" using peerAddresses_Inr(1)[OF used] same_tablesI same_tables_trans by blast
  moreover have "\<forall>r \<in> set (t_peers s). pr_instance_id r = k \<longrightarrow> pr_address r \<noteq> addr_String (V4 n)"
    using peerAddresses_Inr(2)[OF used, of _ n] n by (auto simp del: addr_String.simps)
  ultimately show ?thesis using that i w n by auto
qed

lemma keeps_allocate [prog_rules, intro]: "keeps db_inv (allocate k)"
  unfolding allocate_def peerAddresses_def by (intro prog_rules)

section \<open>The operations keep the invariant\<close>

lemma instance_row_of_ok: "valid_instance i \<Longrightarrow> instance_row_ok (instance_row_of now i)"
proof -
  assume "valid_instance i"
  then obtain w b where "in_Address i = Prefix (V4 w) b" "16 \<le> b" "b \<le> 30" "host_of (in_Address i) (V4 w)"
    unfolding valid_instance_def by blast
  then show ?thesis
    unfolding instance_row_ok_def instance_row_of_def
    by (intro exI[of _ w] exI[of _ b]) (simp del: addr_String.simps)
qed

lemma keeps_CreateInstance: "valid_instance i \<Longrightarrow> keeps db_inv (CreateInstance now i)"
  unfolding CreateInstance_def by (intro prog_rules keeps_insert_instance instance_row_of_ok)

lemma keeps_InstanceByID [prog_rules, intro]: "keeps db_inv (InstanceByID k)"
  unfolding InstanceByID_def by (intro prog_rules)

lemma keeps_PeerByID [prog_rules, intro]: "keeps db_inv (PeerByID k)"
  unfolding PeerByID_def by (intro prog_rules)

lemma keeps_expectOneRow [prog_rules, intro]: "keeps I (expectOneRow n)"
  unfolding expectOneRow_def by (intro prog_rules)

lemma keeps_UpdateInstance: "keeps db_inv (UpdateInstance now i)"
  unfolding UpdateInstance_def by (intro prog_rules keeps_update_instance) simp_all

lemma keeps_DeleteInstance: "keeps db_inv (DeleteInstance k)"
  unfolding DeleteInstance_def by (intro prog_rules keeps_delete_instance)

lemma keeps_DeletePeer: "keeps db_inv (DeletePeer k)"
  unfolding DeletePeer_def by (intro prog_rules keeps_delete_peer)

lemma keeps_UpdatePeer: "period_Valid (p_LimitPeriod p) \<or> p_LimitPeriod p = [] \<Longrightarrow> keeps db_inv (UpdatePeer now p)"
  unfolding UpdatePeer_def
  by (intro prog_rules keeps_update_peer)
    (auto simp: peer_row_ok_def peer_in_subnet_def period_Valid_def OrDefault_def)

lemma keeps_SetPeerShare: "keeps db_inv (SetPeerShare k token expires)"
  unfolding SetPeerShare_def
  by (intro prog_rules keeps_update_peer) (auto simp: peer_row_ok_def peer_in_subnet_def)

section \<open>Creating and moving devices\<close>

lemma same_tables_fields:
  assumes "same_tables s s'"
  shows "t_instances s' = t_instances s" "t_peers s' = t_peers s" "t_peer_seq s' = t_peer_seq s"
    "t_counters s' = t_counters s" "t_usage s' = t_usage s" "peer_by_id k s' = peer_by_id k s"
    "instance_by_id k s' = instance_by_id k s" "peer_row_ok s' = peer_row_ok s" "db_inv s' = db_inv s"
  using assms by (auto simp: same_tables_def)

lemma insert_peer_Inr:
  assumes "insert_peer r s = (Inr k, s')"
  obtains s1 where "same_tables s s1" and "k = t_peer_seq s + 1" and "peer_clash (t_peers s) (r\<lparr>pr_id := k\<rparr>) = None"
    and "s' = s1\<lparr>t_peers := t_peers s @ [r\<lparr>pr_id := k\<rparr>], t_peer_seq := k\<rparr>"
  using assms unfolding insert_peer_def
  by (cases rule: stmt_cases[of "\<lambda>s. let r = r\<lparr>pr_id := t_peer_seq s + 1\<rparr> in case peer_clash (t_peers s) r of
       Some e \<Rightarrow> (Inl e, s) | None \<Rightarrow> if instance_by_id (pr_instance_id r) s = None then (Inl foreign_key_error, s)
       else (Inr (pr_id r), s\<lparr>t_peers := t_peers s @ [r], t_peer_seq := pr_id r\<rparr>)" s])
    (auto simp: Let_def split: option.splits if_splits)

lemma update_peer_Inr:
  assumes "update_peer k f s = (Inr c, s')" and "c \<noteq> 0"
  obtains s1 r where "same_tables s s1" and "peer_by_id k s = Some r"
    and "peer_clash (filter (\<lambda>q. pr_id q \<noteq> k) (t_peers s)) (f r) = None" and "c = 1"
    and "s' = s1\<lparr>t_peers := map (\<lambda>q. if pr_id q = k then f q else q) (t_peers s)\<rparr>"
  using assms unfolding update_peer_def
  by (cases rule: stmt_cases[of "\<lambda>s. case peer_by_id k s of None \<Rightarrow> (Inr (0 :: nat), s)
     | Some r \<Rightarrow> (case peer_clash (filter (\<lambda>q. pr_id q \<noteq> k) (t_peers s)) (f r) of Some e \<Rightarrow> (Inl e, s)
        | None \<Rightarrow> if instance_by_id (pr_instance_id (f r)) s = None then (Inl foreign_key_error, s)
          else (Inr 1, s\<lparr>t_peers := map (\<lambda>q. if pr_id q = k then f q else q) (t_peers s)\<rparr>))" s])
    (auto split: option.splits if_splits)

lemma mapErr_InrE: "mapErr h m s = (Inr x, s') \<Longrightarrow> m s = (Inr x, s')"
  by (auto simp: mapErr_def split: prod.splits sum.splits)

text \<open>The device allocated an address: the row is in order wherever it differs from the server's other rows.\<close>

lemma allocated_row_ok:
  assumes "instance_by_id k s = Some i" and "ir_address i = prefix_String (Prefix (V4 w) b)" and "0 \<le> b" and "b \<le> 30"
    and "host_of (Prefix (V4 w) b) (V4 n)" and "n \<noteq> w"
    and "pr_instance_id r = k" and "pr_address r = addr_String (V4 n)" and "pr_limit_period r \<in> {PeriodMonthly, PeriodTotal}"
  shows "peer_row_ok s r"
proof -
  have uniq: "w' = w \<and> b' = b" if "prefix_String (Prefix (V4 w) b) = prefix_String (Prefix (V4 w') b')" "0 \<le> b'" "b' \<le> 30" for w' b'
  proof -
    have "ParsePrefix (prefix_String (Prefix (V4 w) b)) = Inr (Prefix (V4 w) b)"
      using assms(3,4) by (intro ParsePrefix_String4) auto
    moreover have "ParsePrefix (prefix_String (Prefix (V4 w') b')) = Inr (Prefix (V4 w') b')"
      using that by (intro ParsePrefix_String4) auto
    ultimately show ?thesis unfolding that(1) by simp
  qed
  have "peer_in_subnet i r"
    unfolding peer_in_subnet_def
  proof (intro allI impI)
    fix w' b' assume "ir_address i = prefix_String (Prefix (V4 w') b') \<and> 0 \<le> b' \<and> b' \<le> 30"
    then have "w' = w \<and> b' = b" using uniq assms(2) by metis
    then show "\<exists>n. pr_address r = addr_String (V4 n) \<and> host_of (Prefix (V4 w') b') (V4 n) \<and> n \<noteq> w'"
      using assms(5,6,8) by blast
  qed
  then show ?thesis using assms(1,7,9) unfolding peer_row_ok_def by blast
qed

lemma CreatePeer_Inr:
  assumes run: "CreatePeer now p s = (Inr p', s')" and inv: "db_inv s" and per: "p_LimitPeriod p \<in> {[], PeriodMonthly, PeriodTotal}"
  obtains s1 i w b n where "same_tables s s1" and "instance_by_id (p_InstanceID p) s = Some i"
    and "ir_address i = prefix_String (Prefix (V4 w) b)" and "0 \<le> b" and "b \<le> 30" and "n \<noteq> w"
    and "host_of (Prefix (V4 w) b) (V4 n)"
    and "s' = s1\<lparr>t_peers := t_peers s @ [(peer_row_of now p (V4 n))\<lparr>pr_id := t_peer_seq s + 1\<rparr>], t_peer_seq := t_peer_seq s + 1\<rparr>"
    and "p' = p\<lparr>p_ID := t_peer_seq s + 1, p_Address := V4 n, p_LimitPeriod := OrDefault (p_LimitPeriod p),
           p_CreatedAt := time_Unix (unix now), p_UpdatedAt := time_Unix (unix now)\<rparr>"
    and "db_inv s'"
proof -
  from run obtain q where tx: "transaction ''create peer''
       (bnd (allocate (p_InstanceID p)) (\<lambda>a.
        bnd (mapErr (store_writeError ''create peer'') (insert_peer (peer_row_of now p a))) (\<lambda>k.
        ret (p\<lparr>p_ID := k, p_Address := a\<rparr>)))) s = (Inr q, s')"
    and p': "p' = q\<lparr>p_LimitPeriod := OrDefault (p_LimitPeriod q), p_CreatedAt := time_Unix (unix now), p_UpdatedAt := time_Unix (unix now)\<rparr>"
    unfolding CreatePeer_def by (auto elim!: bnd_InrE)
  from tx obtain a k t t1 t2 where t: "same_tables s t" and al: "allocate (p_InstanceID p) t = (Inr a, t1)"
    and ins: "insert_peer (peer_row_of now p a) t1 = (Inr k, t2)" and q: "q = p\<lparr>p_ID := k, p_Address := a\<rparr>"
    and s': "same_tables t2 s'"
    by (auto elim!: transaction_Inr bnd_InrE dest!: mapErr_InrE)
  have invt: "db_inv t" using inv t by (simp add: same_tables_fields)
  obtain i w b n where a: "same_tables t t1" "instance_by_id (p_InstanceID p) t = Some i"
      "ir_address i = prefix_String (Prefix (V4 w) b)" "0 \<le> b" "b \<le> 30" "a = V4 n" "host_of (Prefix (V4 w) b) (V4 n)" "n \<noteq> w"
    by (rule allocate_Inr[OF al invt])
  obtain u where u: "same_tables t1 u" "k = t_peer_seq t1 + 1" "peer_clash (t_peers t1) ((peer_row_of now p a)\<lparr>pr_id := k\<rparr>) = None"
      "t2 = u\<lparr>t_peers := t_peers t1 @ [(peer_row_of now p a)\<lparr>pr_id := k\<rparr>], t_peer_seq := k\<rparr>"
    by (rule insert_peer_Inr[OF ins])
  let ?row = "(peer_row_of now p a)\<lparr>pr_id := k\<rparr>"
  have su: "same_tables s u" using t a(1) u(1) same_tables_trans by blast
  have f: "t_peers t1 = t_peers s" "t_peer_seq t1 = t_peer_seq s" "instance_by_id (p_InstanceID p) s = Some i"
    using t a(1,2) by (simp_all add: same_tables_fields)
  have "peer_row_ok u ?row"
    using a f(3) su per
    by (intro allocated_row_ok[of "p_InstanceID p" u i w b n])
      (auto simp: same_tables_fields peer_row_of_def OrDefault_def simp del: addr_String.simps)
  then have inv2: "db_inv t2"
    using inv_add_peer[of u ?row] su inv u f by (simp add: same_tables_fields)
  obtain bs where bs: "s' = t2\<lparr>t_faults := bs\<rparr>" using s' by (auto simp: same_tables_def)
  have k: "k = t_peer_seq s + 1" using u(2) f(2) by simp
  show ?thesis
  proof (rule that[of "u\<lparr>t_faults := bs\<rparr>" i w b n])
    show "same_tables s (u\<lparr>t_faults := bs\<rparr>)" using su same_tablesI same_tables_trans by blast
    show "s' = (u\<lparr>t_faults := bs\<rparr>)\<lparr>t_peers := t_peers s @ [(peer_row_of now p (V4 n))\<lparr>pr_id := t_peer_seq s + 1\<rparr>], t_peer_seq := t_peer_seq s + 1\<rparr>"
      using bs u(4) f a(6) k by simp
    show "db_inv s'" using inv2 s' by (simp add: same_tables_fields)
  qed (use a f p' q k in simp_all)
qed

lemma CreatePeer_Inl: "CreatePeer now p s = (Inl e, s') \<Longrightarrow> same_tables s s'"
  unfolding CreatePeer_def by (auto simp: bnd_def split: prod.splits sum.splits dest: transaction_atomic)

lemma keeps_CreatePeer: "p_LimitPeriod p \<in> {[], PeriodMonthly, PeriodTotal} \<Longrightarrow> keeps db_inv (CreatePeer now p)"
proof (rule keepsI)
  fix s :: "'a db_scheme" assume per: "p_LimitPeriod p \<in> {[], PeriodMonthly, PeriodTotal}" and inv: "db_inv s"
  obtain r s' where run: "CreatePeer now p s = (r, s')" by (cases "CreatePeer now p s")
  show "db_inv (snd (CreatePeer now p s))"
  proof (cases r)
    case (Inl e)
    then show ?thesis using CreatePeer_Inl[of now p s e s'] run inv by (simp add: same_tables_fields)
  next
    case (Inr q)
    then have "CreatePeer now p s = (Inr q, s')" using run by simp
    from CreatePeer_Inr[OF this inv per] have "db_inv s'" by metis
    then show ?thesis using run by simp
  qed
qed

lemma setCounters_Inr:
  assumes "setCounters k rx tx s = (Inr u, s')"
  obtains s1 where "same_tables s s1" and "peer_by_id k s \<noteq> None"
    and "s' = s1\<lparr>t_counters := put_counter k rx tx (t_counters s)\<rparr>"
  using assms unfolding setCounters_def
  by (cases rule: stmt_cases[of "\<lambda>s. if peer_by_id k s = None then (Inl foreign_key_error, s)
     else (Inr (), s\<lparr>t_counters := put_counter k rx tx (t_counters s)\<rparr>)" s])
    (auto simp: mapErr_def split: if_splits)

lemma expectOneRow_Inr: "expectOneRow n s = (Inr u, s') \<longleftrightarrow> n \<noteq> 0 \<and> s' = s"
  by (auto simp: expectOneRow_def)

lemma move_tx_Inr:
  assumes run: "move_tx now k m s = (Inr u, s')" and inv: "db_inv s"
  obtains s1 i w b n where "same_tables s s1" and "instance_by_id m s = Some i"
    and "ir_address i = prefix_String (Prefix (V4 w) b)" and "0 \<le> b" and "b \<le> 30" and "n \<noteq> w"
    and "host_of (Prefix (V4 w) b) (V4 n)" and "peer_by_id k s \<noteq> None"
    and "s' = s1\<lparr>t_peers := map (\<lambda>q. if pr_id q = k then moved_row now m (V4 n) q else q) (t_peers s),
           t_counters := put_counter k 0 0 (t_counters s)\<rparr>"
    and "db_inv s'"
proof -
  from run obtain a c t t1 t2 t3 where t: "same_tables s t" and al: "allocate m t = (Inr a, t1)"
    and up: "update_peer k (moved_row now m a) t1 = (Inr c, t2)" and c: "c \<noteq> 0"
    and sc: "setCounters k 0 0 t2 = (Inr u, t3)" and s': "same_tables t3 s'"
    unfolding move_tx_def
    by (auto elim!: transaction_Inr bnd_InrE thn_InrE dest!: mapErr_InrE simp: expectOneRow_Inr)
  have invt: "db_inv t" using inv t by (simp add: same_tables_fields)
  obtain i w b n where a: "same_tables t t1" "instance_by_id m t = Some i"
      "ir_address i = prefix_String (Prefix (V4 w) b)" "0 \<le> b" "b \<le> 30" "a = V4 n" "host_of (Prefix (V4 w) b) (V4 n)" "n \<noteq> w"
    by (rule allocate_Inr[OF al invt])
  let ?f = "moved_row now m a"
  let ?ps = "map (\<lambda>q. if pr_id q = k then ?f q else q) (t_peers s)"
  obtain v r where v: "same_tables t1 v" "peer_by_id k t1 = Some r" "t2 = v\<lparr>t_peers := ?ps\<rparr>"
      "peer_clash (filter (\<lambda>q. pr_id q \<noteq> k) (t_peers t1)) (?f r) = None"
    by (rule update_peer_Inr[OF up c]) (use t a(1) in \<open>auto simp: same_tables_fields\<close>)
  obtain z where z: "same_tables t2 z" "t3 = z\<lparr>t_counters := put_counter k 0 0 (t_counters t2)\<rparr>" "peer_by_id k t2 \<noteq> None"
    by (rule setCounters_Inr[OF sc])
  have sv: "same_tables s v" using t a(1) v(1) same_tables_trans by blast
  have f: "instance_by_id m s = Some i" "peer_by_id k s = Some r" "t_peers t1 = t_peers s"
    using t a(1,2) v(2) by (simp_all add: same_tables_fields)
  have "pr_limit_period r \<in> {PeriodMonthly, PeriodTotal}"
    using peer_by_id_Some[OF f(2)] inv by (auto simp: db_inv_def peers_inv_def peer_row_ok_def)
  then have "peer_row_ok v (?f r)"
    using a f sv by (intro allocated_row_ok[of m v i w b n]) (auto simp: same_tables_fields moved_row_def simp del: addr_String.simps)
  then have "db_inv t2"
    unfolding v(3) using v(4) f sv inv
    by (subst same_tables_fields(2)[OF sv, symmetric])
      (intro inv_update_peer[of v k r ?f], simp_all add: same_tables_fields moved_row_def)
  then have inv3: "db_inv t3"
    using z inv_put_counter[of z k 0 0] by (simp add: same_tables_fields)
  obtain bs bz where bs: "s' = t3\<lparr>t_faults := bs\<rparr>" "z = t2\<lparr>t_faults := bz\<rparr>"
    using s' z(1) by (auto simp: same_tables_def)
  show ?thesis
  proof (rule that[of "v\<lparr>t_faults := bs\<rparr>" i w b n])
    show "same_tables s (v\<lparr>t_faults := bs\<rparr>)" using sv same_tablesI same_tables_trans by blast
    show "s' = (v\<lparr>t_faults := bs\<rparr>)\<lparr>t_peers := map (\<lambda>q. if pr_id q = k then moved_row now m (V4 n) q else q) (t_peers s),
           t_counters := put_counter k 0 0 (t_counters s)\<rparr>"
      using bs z(2) v(3) a(6) sv by (simp add: same_tables_fields)
    show "db_inv s'" using inv3 s' by (simp add: same_tables_fields)
  qed (use a f in simp_all)
qed

lemma move_tx_Inl: "move_tx now k m s = (Inl e, s') \<Longrightarrow> same_tables s s'"
  unfolding move_tx_def by (rule transaction_atomic)

lemma keeps_MovePeer: "keeps db_inv (MovePeer now k m)"
proof -
  have "keeps db_inv (move_tx now k m :: ('a, unit) sql)"
  proof (rule keepsI)
    fix s :: "'a db_scheme" assume inv: "db_inv s"
    obtain r s' where run: "move_tx now k m s = (r, s')" by (cases "move_tx now k m s")
    show "db_inv (snd (move_tx now k m s))"
    proof (cases r)
      case (Inl e)
      then show ?thesis using move_tx_Inl[of now k m s e s'] run inv by (simp add: same_tables_fields)
    next
      case (Inr q)
      then have "move_tx now k m s = (Inr q, s')" using run by simp
      from move_tx_Inr[OF this inv] have "db_inv s'" by metis
      then show ?thesis using run by simp
    qed
  qed
  then show ?thesis unfolding MovePeer_def by (intro prog_rules)
qed

section \<open>Loading what was saved\<close>

definition as_saved :: "gotime \<Rightarrow> Peer \<Rightarrow> Peer" where
  "as_saved now p = p\<lparr>p_LimitPeriod := OrDefault (p_LimitPeriod p), p_UsageResetAt := None,
     p_ExpiresAt := map_option (\<lambda>t. time_Unix (unix t)) (p_ExpiresAt p), p_ShareToken := [], p_ShareExpiresAt := None,
     p_LastHandshake := None, p_CreatedAt := time_Unix (unix now), p_UpdatedAt := time_Unix (unix now)\<rparr>"

lemma scanPeer_row_of:
  assumes "wf_key (p_PrivateKey p)" and "wf_key (p_PublicKey p)" and "wf_key (p_PresharedKey p)"
  shows "scanPeer ((peer_row_of now p (V4 n))\<lparr>pr_id := k\<rparr>) = Inr (as_saved now (p\<lparr>p_ID := k, p_Address := V4 n\<rparr>))"
proof -
  have priv: "(if privateKeyText p \<noteq> [] then ParseKey (privateKeyText p) else Inr ZeroKey) = Inr (p_PrivateKey p)"
    using assms(1) by (auto simp: privateKeyText_def KeyOnClient_def IsZero_def ParseKey_String key_String_Nil)
  have "option.map_option time_Unix (nullTime t) = map_option (\<lambda>t. time_Unix (unix t)) t" for t
    by (simp add: nullTime_def option.map_comp comp_def)
  moreover have "List.map_filter id [None, None, None, None] = ([] :: err list)" by (simp add: List.map_filter_simps)
  moreover have "timeOf None = None" by (simp add: timeOf_def)
  ultimately show ?thesis
    using priv assms(2,3)
    by (cases "privateKeyText p = []")
      (simp_all add: scanPeer_def peer_row_of_def Let_def ParseKey_String left_of_def right_of_def errors_Join_def
        as_saved_def timeOf_def del: addr_String.simps)
qed

lemma PeerByID_row:
  assumes "t_faults s = []" and "peer_by_id k s = Some r"
  shows "PeerByID k s = (scanPeer r, s)"
  using assms by (simp add: PeerByID_def bnd_def mapErr_def)

lemma peer_by_id_append:
  assumes "db_inv s"
  shows "peer_by_id (t_peer_seq s + 1) (t\<lparr>t_peers := t_peers s @ [r\<lparr>pr_id := t_peer_seq s + 1\<rparr>], t_peer_seq := q\<rparr>)
    = Some (r\<lparr>pr_id := t_peer_seq s + 1\<rparr>)"
proof -
  have "find (\<lambda>r. pr_id r = t_peer_seq s + 1) (t_peers s) = None"
    using assms by (force simp: find_None_iff db_inv_def peers_inv_def)
  moreover have "find P (xs @ [x]) = (if find P xs = None then (if P x then Some x else None) else find P xs)" for P and x :: peer_row and xs
    by (induction xs) auto
  ultimately show ?thesis by (simp add: peer_by_id_def)
qed

text \<open>A server whose addresses are IPv4 loads back as it was saved.\<close>

lemma scanInstance_row_of:
  assumes "prefix4 (in_Address i)" and "wf_key (in_PrivateKey i)" and "wf_key (in_PublicKey i)"
    and "\<forall>a \<in> set (in_DNS i). Is4 a" and "\<forall>p \<in> set (in_ClientAllowedIPs i). prefix4 p"
  shows "scanInstance ((instance_row_of now i)\<lparr>ir_id := k\<rparr>) =
    Inr (i\<lparr>in_ID := k, in_CreatedAt := time_Unix (unix now), in_UpdatedAt := time_Unix (unix now)\<rparr>)"
  using assms addr_column.parseList_joinList[of "in_DNS i"] prefix_column.parseList_joinList[of "in_ClientAllowedIPs i"]
  by (simp add: scanInstance_def instance_row_of_def Let_def ParseKey_String prefix_column.parse_str
      left_of_def right_of_def errors_Join_def List.map_filter_simps)

section \<open>When a device can be created\<close>

text \<open>Without faults, a free address, an unused name and an unused key are enough.\<close>

lemma peerAddresses_run:
  assumes "t_faults s = []" and "db_inv s"
  obtains used where "peerAddresses k s = (Inr used, s)" and "length used = length (filter (\<lambda>r. pr_instance_id r = k) (t_peers s))"
proof -
  let ?rs = "filter (\<lambda>r. pr_instance_id r = k) (t_peers s)"
  let ?p = "\<lambda>raw. case ParseAddr raw of Inl e \<Rightarrow> Inl (Errorf (''peer address '' @ raw @ '' is corrupt'') e) | Inr a \<Rightarrow> Inr a"
  have ok: "\<exists>n. pr_address r = addr_String (V4 n)" if r: "r \<in> set ?rs" for r
  proof -
    have "peer_row_ok s r" using r assms(2) by (simp add: db_inv_def peers_inv_def)
    then obtain i where i: "instance_by_id (pr_instance_id r) s = Some i" "peer_in_subnet i r" unfolding peer_row_ok_def by blast
    then have "instance_row_ok i" using instance_by_id_Some[OF i(1)] assms(2) by (simp add: db_inv_def instances_inv_def)
    then show ?thesis using i(2) unfolding instance_row_ok_def peer_in_subnet_def by blast
  qed
  have "?p (pr_address r) = Inr (right_of NoAddr (ParseAddr (pr_address r)))" if "r \<in> set ?rs" for r
    using ok[OF that] by (auto simp: right_of_def simp del: addr_String.simps)
  then have "parse_all ?p (map pr_address ?rs) = Inr (map (\<lambda>r. right_of NoAddr (ParseAddr (pr_address r))) ?rs)"
    by (rule parse_all_map)
  then have "peerAddresses k s = (Inr (map (\<lambda>r. right_of NoAddr (ParseAddr (pr_address r))) ?rs), s)"
    using assms(1) by (simp add: peerAddresses_def bnd_def mapErr_def)
  then show ?thesis by (rule that) simp
qed

lemma allocate_run:
  assumes nf: "t_faults s = []" and inv: "db_inv s" and i: "instance_by_id k s = Some i"
    and net: "ir_address i = prefix_String (Prefix (V4 w) b)" "0 \<le> b" "b \<le> 30"
    and room: "int (length (filter (\<lambda>r. pr_instance_id r = k) (t_peers s))) < Capacity b"
  obtains a where "allocate k s = (Inr a, s)"
proof -
  obtain used where used: "peerAddresses k s = (Inr used, s)" "int (length used) < Capacity b"
    using peerAddresses_run[OF nf inv] room by metis
  obtain a where a: "NextAddress (Prefix (V4 w) b) (used @ [V4 w]) = Inr a"
    using NextAddress_has_room[OF net(2,3) used(2)] by blast
  have "ParsePrefix (prefix_String (Prefix (V4 w) b)) = Inr (Prefix (V4 w) b)"
    using net by (intro ParsePrefix_String4) auto
  then have "allocate k s = (Inr a, s)"
    using nf i net used(1) a by (simp add: allocate_def bnd_def mapErr_def NextAddress_Masked)
  then show ?thesis by (rule that)
qed

lemma CreatePeer_run:
  assumes nf: "t_faults s = []" and inv: "db_inv s" and i: "instance_by_id (p_InstanceID p) s = Some i"
    and net: "ir_address i = prefix_String (Prefix (V4 w) b)" "0 \<le> b" "b \<le> 30"
    and room: "int (length (filter (\<lambda>r. pr_instance_id r = p_InstanceID p) (t_peers s))) < Capacity b"
    and name: "\<forall>r \<in> set (t_peers s). pr_instance_id r = p_InstanceID p \<longrightarrow> nocase (pr_name r) \<noteq> nocase (p_Name p)"
    and key: "\<forall>r \<in> set (t_peers s). pr_public_key r \<noteq> key_String (p_PublicKey p)"
  obtains q s' where "CreatePeer now p s = (Inr q, s')" and "t_faults s' = []"
proof -
  obtain a where a: "allocate (p_InstanceID p) s = (Inr a, s)" using allocate_run[OF nf inv i net room] .
  from a inv have free: "\<forall>r \<in> set (t_peers s). pr_instance_id r = p_InstanceID p \<longrightarrow> pr_address r \<noteq> addr_String a"
    by (rule allocate_Inr) auto
  let ?row = "(peer_row_of now p a)\<lparr>pr_id := t_peer_seq s + 1\<rparr>"
  have "peer_clash (t_peers s) ?row = None"
    using name key free unfolding peer_clash_None peers_apart_def by (auto simp: peer_row_of_def)
  then have ins: "insert_peer (peer_row_of now p a) s = (Inr (t_peer_seq s + 1), s\<lparr>t_peers := t_peers s @ [?row], t_peer_seq := t_peer_seq s + 1\<rparr>)"
    using nf i by (simp add: insert_peer_def Let_def peer_row_of_def)
  show ?thesis
    using nf ins a by (intro that[of _ "s\<lparr>t_peers := t_peers s @ [?row], t_peer_seq := t_peer_seq s + 1\<rparr>"])
      (simp_all add: CreatePeer_def transaction_def transact_def bnd_def mapErr_def)
qed

end
