(* ===== verification/WgStats.thy ===== *)
theory WgStats
  imports WgModel
begin

text \<open>
  internal/wg/stats.go: reading the output of \<open>wg show wg0 dump\<close>. The first line is the interface,
  each other line a device in eight tab-separated fields. The main lemma is the round trip: the
  dump of a list of devices parses to their statistics.
\<close>

abbreviation tab :: char where "tab \<equiv> CHR 0x09"

record PeerStats =
  st_Endpoint :: string
  st_LatestHandshake :: "gotime option"
  st_RxBytes :: int
  st_TxBytes :: int
  st_Online :: bool

text \<open>The map from keys to statistics, as an association list; a later line of the same key wins.\<close>

type_synonym stats_map = "(Key \<times> PeerStats) list"

definition parse_stats :: "string list \<Rightarrow> string \<Rightarrow> err + PeerStats" where
  "parse_stats f line =
     (case (ParseInt (f ! 4), ParseInt (f ! 5), ParseInt (f ! 6)) of
        (Some handshake, Some rx, Some tx) \<Rightarrow>
          Inr \<lparr>st_Endpoint = (if f ! 2 \<noteq> ''(none)'' then f ! 2 else []),
               st_LatestHandshake = (if 0 < handshake then Some (time_Unix handshake) else None),
               st_RxBytes = rx, st_TxBytes = tx, st_Online = False\<rparr>
      | _ \<Rightarrow> Inl (NewError (''wg dump: bad counters in '' @ line)))"

fun parse_peers :: "string list \<Rightarrow> stats_map \<Rightarrow> err + stats_map" where
  "parse_peers [] stats = Inr stats"
| "parse_peers (line # rest) stats =
     (let f = Split tab line in
      if length f \<noteq> 8 then Inl (NewError (''wg dump: want 8 fields per peer, got '' @ Itoa (int (length f)) @ '' in '' @ line))
      else case ParseKey (f ! 0) of
          Inl e \<Rightarrow> Inl (Errorf ''wg dump: peer key'' e)
        | Inr key \<Rightarrow>
            (case parse_stats f line of Inl e \<Rightarrow> Inl e | Inr s \<Rightarrow> parse_peers rest (AList.update key s stats)))"

definition ParseDump :: "string \<Rightarrow> err + stats_map" where
  "ParseDump out =
     (let lines = Split (CHR 0x0A) (TrimSpace out) in
      if length lines \<le> 1 then Inr [] else parse_peers (tl lines) [])"

section \<open>The dump wg writes\<close>

text \<open>One device of a dump, as wg(8) documents the line.\<close>

record dump_peer =
  d_key :: Key
  d_psk :: string
  d_endpoint :: string
  d_allowed :: string
  d_handshake :: int
  d_rx :: int
  d_tx :: int
  d_keepalive :: string

definition dump_line :: "dump_peer \<Rightarrow> string" where
  "dump_line d = strings_Join [tab]
     [key_String (d_key d), d_psk d, (if d_endpoint d = [] then ''(none)'' else d_endpoint d), d_allowed d,
      Itoa (d_handshake d), Itoa (d_rx d), Itoa (d_tx d), d_keepalive d]"

definition dump_stats :: "dump_peer \<Rightarrow> PeerStats" where
  "dump_stats d = \<lparr>st_Endpoint = d_endpoint d,
     st_LatestHandshake = (if 0 < d_handshake d then Some (time_Unix (d_handshake d)) else None),
     st_RxBytes = d_rx d, st_TxBytes = d_tx d, st_Online = False\<rparr>"

definition plain_text :: "string \<Rightarrow> bool" where
  "plain_text s \<longleftrightarrow> s \<noteq> [] \<and> list_all (\<lambda>c. 32 < byte c \<and> byte c < 127) s"

definition wf_dump :: "dump_peer \<Rightarrow> bool" where
  "wf_dump d \<longleftrightarrow> wf_key (d_key d) \<and> plain_text (d_psk d) \<and> plain_text (d_allowed d) \<and> plain_text (d_keepalive d) \<and>
     (d_endpoint d = [] \<or> plain_text (d_endpoint d) \<and> d_endpoint d \<noteq> ''(none)'') \<and>
     int64_range (d_handshake d) \<and> int64_range (d_rx d) \<and> int64_range (d_tx d)"

section \<open>Trimming ASCII text\<close>

lemma runes_of_ascii_all: "list_all (\<lambda>c. byte c < 128) s \<Longrightarrow> runes_of s = map (\<lambda>c. (byte c, [c])) s"
  by (induction s) (simp_all add: runes_of_ascii)

lemma TrimSpace_ascii:
  assumes "list_all (\<lambda>c. byte c < 128) s"
  shows "TrimSpace s = rev (dropWhile (\<lambda>c. IsSpace (byte c)) (rev (dropWhile (\<lambda>c. IsSpace (byte c)) s)))"
proof -
  have dw: "dropWhile (\<lambda>(r, _). IsSpace r) (map (\<lambda>c. (byte c, [c])) s) =
      map (\<lambda>c. (byte c, [c])) (dropWhile (\<lambda>c. IsSpace (byte c)) s)" for s :: string
    by (simp add: dropWhile_map comp_def)
  have cm: "concat (map snd (map (\<lambda>c. (byte c, [c])) s)) = s" for s :: string
    by (induction s) simp_all
  show ?thesis
    unfolding TrimSpace_def Let_def runes_of_ascii_all[OF assms] dw rev_map dw cm ..
qed

lemma TrimSpace_newline:
  assumes "list_all (\<lambda>c. byte c < 128) s" and "s \<noteq> []" and "\<not> IsSpace (byte (hd s))" and "\<not> IsSpace (byte (last s))"
  shows "TrimSpace (s @ [CHR 0x0A]) = s"
proof -
  have asc: "list_all (\<lambda>c. byte c < 128) (s @ [CHR 0x0A])" using assms(1) by simp
  obtain a t where s: "s = a # t" using assms(2) by (cases s) auto
  have "dropWhile (\<lambda>c. IsSpace (byte c)) (s @ [CHR 0x0A]) = s @ [CHR 0x0A]" using assms(3) s by simp
  moreover have "dropWhile (\<lambda>c. IsSpace (byte c)) (rev (s @ [CHR 0x0A])) = rev s"
    using assms(2,4) by (cases s rule: rev_cases) (auto simp: IsSpace_def)
  ultimately show ?thesis by (simp add: TrimSpace_ascii[OF asc] del: rev_append)
qed

section \<open>Round trip\<close>

lemma plain_text_Itoa: "plain_text (Itoa n)"
  by (auto simp: plain_text_def list_all_iff is_digit_def dest!: Itoa_chars)

lemma plain_text_key: "wf_key k \<Longrightarrow> plain_text (key_String k)"
  using Encode_chars[of k] key_String_Nil[of k] by (auto simp: plain_text_def list_all_iff key_String_def)

lemma plain_text_none: "plain_text ''(none)''"
  by (simp add: plain_text_def)

definition dump_fields :: "dump_peer \<Rightarrow> string list" where
  "dump_fields d = [key_String (d_key d), d_psk d, (if d_endpoint d = [] then ''(none)'' else d_endpoint d), d_allowed d,
      Itoa (d_handshake d), Itoa (d_rx d), Itoa (d_tx d), d_keepalive d]"

lemma dump_fields_plain: "wf_dump d \<Longrightarrow> f \<in> set (dump_fields d) \<Longrightarrow> plain_text f"
  by (auto simp: dump_fields_def wf_dump_def plain_text_Itoa plain_text_key plain_text_none split: if_splits)

lemma plain_no_tab: "plain_text s \<Longrightarrow> tab \<notin> set s" and plain_no_nl: "plain_text s \<Longrightarrow> CHR 0x0A \<notin> set s"
  by (auto simp: plain_text_def list_all_iff)

lemma Split_dump_line:
  assumes "wf_dump d"
  shows "Split tab (dump_line d) = dump_fields d"
  unfolding dump_line_def dump_fields_def[symmetric]
proof (rule Split_Join)
  show "dump_fields d \<noteq> []" by (simp add: dump_fields_def)
  show "\<forall>p \<in> set (dump_fields d). tab \<notin> set p" using dump_fields_plain[OF assms] plain_no_tab by blast
qed

lemma dump_line_chars: "wf_dump d \<Longrightarrow> c \<in> set (dump_line d) \<Longrightarrow> c = tab \<or> 32 < byte c \<and> byte c < 127"
  unfolding dump_line_def dump_fields_def[symmetric]
  using dump_fields_plain[of d] by (auto simp: plain_text_def list_all_iff dest!: strings_Join_chars)

lemma dump_line_no_nl: "wf_dump d \<Longrightarrow> CHR 0x0A \<notin> set (dump_line d)"
  using dump_line_chars[of d "CHR 0x0A"] by auto

lemma parse_dump_line:
  assumes "wf_dump d"
  shows "parse_peers (dump_line d # rest) stats = parse_peers rest (AList.update (d_key d) (dump_stats d) stats)"
proof -
  have "d_endpoint d \<noteq> ''(none)''" using assms by (auto simp: wf_dump_def)
  then have "parse_stats (dump_fields d) (dump_line d) = Inr (dump_stats d)"
    using assms by (simp add: parse_stats_def dump_fields_def dump_stats_def wf_dump_def ParseInt_Itoa)
  moreover have "ParseKey (dump_fields d ! 0) = Inr (d_key d)"
    using assms by (simp add: dump_fields_def wf_dump_def ParseKey_String)
  moreover have "length (dump_fields d) = 8" by (simp add: dump_fields_def)
  ultimately show ?thesis using Split_dump_line[OF assms] by (simp add: Let_def)
qed

lemma parse_dump_lines:
  "\<forall>d \<in> set ds. wf_dump d \<Longrightarrow>
   parse_peers (map dump_line ds) stats = Inr (fold (\<lambda>d. AList.update (d_key d) (dump_stats d)) ds stats)"
  by (induction ds arbitrary: stats) (simp_all add: parse_dump_line del: parse_peers.simps(2))

lemma Join_last_not_Nil: "ps \<noteq> [] \<Longrightarrow> last ps \<noteq> [] \<Longrightarrow> strings_Join sep ps \<noteq> []"
  by (induction sep ps rule: strings_Join.induct) auto

lemma last_Join: "ps \<noteq> [] \<Longrightarrow> last ps \<noteq> [] \<Longrightarrow> last (strings_Join sep ps) = last (last ps)"
proof (induction sep ps rule: strings_Join.induct)
  case (3 sep p q ps)
  then show ?case using Join_last_not_Nil[of "q # ps" sep] by (simp add: last_append)
qed simp_all

lemma plain_last: "plain_text s \<Longrightarrow> \<not> IsSpace (byte (last s))"
proof -
  assume p: "plain_text s"
  then have "last s \<in> set s" by (simp add: plain_text_def)
  with p have "32 < byte (last s) \<and> byte (last s) < 127" by (simp add: plain_text_def list_all_iff)
  then show ?thesis by (simp add: IsSpace_def)
qed

definition dump_text :: "string \<Rightarrow> dump_peer list \<Rightarrow> string" where
  "dump_text iface ds = strings_Join [CHR 0x0A] (iface # map dump_line ds) @ [CHR 0x0A]"

text \<open>
  The dump of an interface line and at least one device parses to the statistics of the devices;
  the interface line may be any text without a line break that starts with a visible character.
\<close>

lemma ParseDump_dump:
  assumes iface: "iface \<noteq> []" "list_all (\<lambda>c. byte c < 128 \<and> c \<noteq> CHR 0x0A) iface" "\<not> IsSpace (byte (hd iface))"
    and ds: "ds \<noteq> []" "\<forall>d \<in> set ds. wf_dump d"
  shows "ParseDump (dump_text iface ds) = Inr (fold (\<lambda>d. AList.update (d_key d) (dump_stats d)) ds [])"
proof -
  let ?ls = "iface # map dump_line ds"
  let ?t = "strings_Join [CHR 0x0A] ?ls"
  have nnl: "\<forall>l \<in> set ?ls. CHR 0x0A \<notin> set l"
    using iface(2) ds(2) dump_line_no_nl by (auto simp: list_all_iff)
  have ascii: "list_all (\<lambda>c. byte c < 128) ?t"
    unfolding list_all_iff
  proof
    fix c assume "c \<in> set ?t"
    then consider "c = CHR 0x0A" | "c \<in> set iface" | d where "d \<in> set ds" "c \<in> set (dump_line d)"
      by (fastforce dest: strings_Join_chars)
    then show "byte c < 128"
      by cases (use iface(2) ds(2) dump_line_chars in \<open>fastforce simp: list_all_iff\<close>)+
  qed
  have lastl: "last ?ls = dump_line (last ds)" using ds(1) by (simp add: last_map)
  have wl: "wf_dump (last ds)" using ds by simp
  have kp: "plain_text (d_keepalive (last ds))" using wl by (simp add: wf_dump_def)
  have ll: "dump_line (last ds) \<noteq> []" "last (dump_line (last ds)) = last (d_keepalive (last ds))"
    using kp unfolding dump_line_def
    by (simp_all add: Join_last_not_Nil last_Join plain_text_def del: strings_Join.simps)
  have hd: "hd ?t = hd iface" using iface(1) ds(1) by (cases ds) simp_all
  have "TrimSpace (dump_text iface ds) = ?t"
    unfolding dump_text_def
  proof (rule TrimSpace_newline[OF ascii])
    show "?t \<noteq> []" using lastl ll(1) by (intro Join_last_not_Nil) simp_all
    show "\<not> IsSpace (byte (hd ?t))" using hd iface(3) by simp
    have "last ?t = last (d_keepalive (last ds))" using lastl ll by (subst last_Join) simp_all
    then show "\<not> IsSpace (byte (last ?t))" using plain_last[OF kp] by simp
  qed
  moreover have "Split (CHR 0x0A) ?t = ?ls" by (rule Split_Join[OF _ nnl]) simp
  ultimately show ?thesis using ds by (simp add: ParseDump_def Let_def parse_dump_lines)
qed

text \<open>An empty or one-line output, as of an interface without devices, has no statistics.\<close>

lemma ParseDump_no_peers: "CHR 0x0A \<notin> set (TrimSpace out) \<Longrightarrow> ParseDump out = Inr []"
  by (simp add: ParseDump_def Split_no_sep)

lemma parse_peers_bad_width:
  "length (Split tab l) \<noteq> 8 \<Longrightarrow> \<exists>m. parse_peers (l # ls) stats = Inl (NewError m)"
  by (simp add: Let_def)

end
