(* ===== verification/StoreTraffic.thy ===== *)
theory StoreTraffic
  imports StoreOps WgStats
begin

text \<open>
  internal/store/traffic.go: what devices use. Readings of WireGuard's counters become usage per
  device and local calendar day; the usage since a limit's period began, less what was used before a
  reset on that first day, counts toward the limit.

  The time zone is a parameter: \<open>off u\<close> is the offset in seconds from UTC at the Unix time \<open>u\<close>, what
  Go's \<open>Location.lookup\<close> returns.
\<close>

section \<open>Days and months\<close>

text \<open>The proleptic Gregorian calendar of package time: days since 1970 and dates.\<close>

definition days_of :: "int \<Rightarrow> int \<Rightarrow> int \<Rightarrow> int" where
  "days_of y m d =
     (let m0 = m - 1; y = y + m0 div 12; m = m0 mod 12 + 1;
          y' = (if m \<le> 2 then y - 1 else y); era = y' div 400; yoe = y' mod 400;
          doy = (153 * (if m > 2 then m - 3 else m + 9) + 2) div 5 + d - 1;
          doe = yoe * 365 + yoe div 4 - yoe div 100 + doy
      in era * 146097 + doe - 719468)"

definition civil :: "int \<Rightarrow> int \<times> int \<times> int" where
  "civil z =
     (let z = z + 719468; era = z div 146097; doe = z mod 146097;
          yoe = (doe - doe div 1460 + doe div 36524 - doe div 146096) div 365;
          y = yoe + era * 400; doy = doe - (365 * yoe + yoe div 4 - yoe div 100);
          mp = (5 * doy + 2) div 153; d = doy - (153 * mp + 2) div 5 + 1;
          m = (if mp < 10 then mp + 3 else mp - 9)
      in (if m \<le> 2 then y + 1 else y, m, d))"

definition pad :: "nat \<Rightarrow> string \<Rightarrow> string" where
  "pad n s = replicate (n - length s) (CHR ''0'') @ s"

text \<open>The layout \<open>time.DateOnly\<close>; a year before 0 gets a sign.\<close>

definition DateOnly :: "int \<times> int \<times> int \<Rightarrow> string" where
  "DateOnly ymd =
     (case ymd of (y, m, d) \<Rightarrow>
       (if y < 0 then ''-'' else []) @ pad 4 (Itoa \<bar>y\<bar>) @ ''-'' @ pad 2 (Itoa m) @ ''-'' @ pad 2 (Itoa d))"

definition local_secs :: "(int \<Rightarrow> int) \<Rightarrow> gotime \<Rightarrow> int" where
  "local_secs off t = unix t + off (unix t)"

definition local_date :: "(int \<Rightarrow> int) \<Rightarrow> gotime \<Rightarrow> int \<times> int \<times> int" where
  "local_date off t = civil (local_secs off t div 86400)"

text \<open>
  \<open>time.Date\<close> in a zone: the offset at the local time read as UTC gives a first guess at the instant,
  the offset there the result. \<open>secs\<close> is the clock.
\<close>

definition time_Date :: "(int \<Rightarrow> int) \<Rightarrow> int \<Rightarrow> int \<Rightarrow> int \<Rightarrow> int \<Rightarrow> gotime" where
  "time_Date off y m d secs =
     (let u = days_of y m d * 86400 + secs; o1 = off u
      in time_Unix (if o1 \<noteq> 0 then u - off (u - o1) else u))"

definition AddDate :: "(int \<Rightarrow> int) \<Rightarrow> gotime \<Rightarrow> int \<Rightarrow> int \<Rightarrow> int \<Rightarrow> gotime" where
  "AddDate off t years months days =
     (case local_date off t of (y, m, d) \<Rightarrow>
       time_Date off (y + years) (m + months) (d + days) (local_secs off t mod 86400))"

definition dayKey :: "(int \<Rightarrow> int) \<Rightarrow> gotime \<Rightarrow> string" where
  "dayKey off t = DateOnly (local_date off t)"

definition MonthStart :: "(int \<Rightarrow> int) \<Rightarrow> gotime \<Rightarrow> gotime" where
  "MonthStart off t = (case local_date off t of (y, m, _) \<Rightarrow> time_Date off y m 1 0)"

section \<open>Recording a reading\<close>

definition growth :: "int \<Rightarrow> int \<Rightarrow> PeerStats \<Rightarrow> Traffic" where
  "growth rx tx st =
     (if st_RxBytes st < rx \<or> st_TxBytes st < tx then \<lparr>RxBytes = st_RxBytes st, TxBytes = st_TxBytes st\<rparr>
      else \<lparr>RxBytes = st_RxBytes st - rx, TxBytes = st_TxBytes st - tx\<rparr>)"

text \<open>\<open>counterRow\<close>: a device of the server with its counters, when it has any, and its last handshake.\<close>

record counterRow =
  c_peerID :: int
  c_key :: string
  c_counters :: "(int \<times> int) option"
  c_shaken :: "int option"

definition counters_of :: "int \<Rightarrow> 'z db_scheme \<Rightarrow> (int \<times> int) option" where
  "counters_of k s = map_option (\<lambda>c. (cr_rx_bytes c, cr_tx_bytes c)) (find (\<lambda>c. cr_peer_id c = k) (t_counters s))"

definition counter_rows :: "int \<Rightarrow> 'z db_scheme \<Rightarrow> counterRow list" where
  "counter_rows k s =
     map (\<lambda>r. \<lparr>c_peerID = pr_id r, c_key = pr_public_key r, c_counters = counters_of (pr_id r) s,
               c_shaken = pr_last_handshake r\<rparr>)
       (filter (\<lambda>r. pr_instance_id r = k) (t_peers s))"

text \<open>The upsert on \<open>wg_peer_usage\<close>, and the update of the last handshake, which no index covers.\<close>

definition put_usage :: "int \<Rightarrow> string \<Rightarrow> Traffic \<Rightarrow> usage_row list \<Rightarrow> usage_row list" where
  "put_usage k day used us =
     (if list_ex (\<lambda>u. ur_peer_id u = k \<and> ur_day u = day) us
      then map (\<lambda>u. if ur_peer_id u = k \<and> ur_day u = day
             then u\<lparr>ur_rx_bytes := ur_rx_bytes u + RxBytes used, ur_tx_bytes := ur_tx_bytes u + TxBytes used\<rparr> else u) us
      else us @ [\<lparr>ur_peer_id = k, ur_day = day, ur_rx_bytes = RxBytes used, ur_tx_bytes = TxBytes used\<rparr>])"

definition addUsage :: "int \<Rightarrow> string \<Rightarrow> Traffic \<Rightarrow> ('z, unit) sql" where
  "addUsage k day used = mapErr (Errorf ''add peer usage'') (stmt (\<lambda>s.
     if peer_by_id k s = None then (Inl foreign_key_error, s)
     else (Inr (), s\<lparr>t_usage := put_usage k day used (t_usage s)\<rparr>)))"

definition map_peer :: "int \<Rightarrow> (peer_row \<Rightarrow> peer_row) \<Rightarrow> 'z db_scheme \<Rightarrow> 'z db_scheme" where
  "map_peer k f s = s\<lparr>t_peers := map (\<lambda>r. if pr_id r = k then f r else r) (t_peers s)\<rparr>"

definition saveHandshake :: "int \<Rightarrow> gotime \<Rightarrow> ('z, unit) sql" where
  "saveHandshake k hs = mapErr (Errorf ''save last handshake'') (stmt (\<lambda>s.
     (Inr (), map_peer k (\<lambda>r. r\<lparr>pr_last_handshake := Some (unix hs)\<rparr>) s)))"

definition newer :: "gotime option \<Rightarrow> int option \<Rightarrow> bool" where
  "newer hs shaken = (case hs of None \<Rightarrow> False | Some t \<Rightarrow> (case shaken of None \<Rightarrow> True | Some u \<Rightarrow> unix t > u))"

definition recordPeer :: "counterRow \<Rightarrow> (string \<Rightarrow> PeerStats option) \<Rightarrow> string \<Rightarrow> ('z, unit) sql" where
  "recordPeer r live day =
     (case live (c_key r) of
        None \<Rightarrow>
          (case c_counters r of
             Some (rx, tx) \<Rightarrow> if rx \<noteq> 0 \<or> tx \<noteq> 0 then setCounters (c_peerID r) 0 0 else ret ()
           | None \<Rightarrow> ret ())
      | Some st \<Rightarrow>
          thn (case c_counters r of
                 Some (rx, tx) \<Rightarrow> if Total (growth rx tx st) > 0 then addUsage (c_peerID r) day (growth rx tx st) else ret ()
               | None \<Rightarrow> ret ())
         (thn (if c_counters r \<noteq> Some (st_RxBytes st, st_TxBytes st)
               then setCounters (c_peerID r) (st_RxBytes st) (st_TxBytes st) else ret ())
              (if newer (st_LatestHandshake st) (c_shaken r)
               then saveHandshake (c_peerID r) (the (st_LatestHandshake st)) else ret ())))"

definition live_map :: "stats_map \<Rightarrow> string \<Rightarrow> PeerStats option" where
  "live_map stats = map_of (map (\<lambda>(k, st). (key_String k, st)) stats)"

definition RecordTraffic :: "(int \<Rightarrow> int) \<Rightarrow> int \<Rightarrow> stats_map \<Rightarrow> gotime \<Rightarrow> ('z, unit) sql" where
  "RecordTraffic off instanceID stats now =
     transaction ''record traffic''
       (bnd (mapErr (Errorf ''load peer counters'') (query (counter_rows instanceID))) (\<lambda>peers.
        forEach peers (\<lambda>r. recordPeer r (live_map stats) (dayKey off now))))"

section \<open>What counts\<close>

definition traffic_sum :: "usage_row list \<Rightarrow> Traffic" where
  "traffic_sum us = \<lparr>RxBytes = sum_list (map ur_rx_bytes us), TxBytes = sum_list (map ur_tx_bytes us)\<rparr>"

text \<open>Go's string order and SQLite's are the byte order of the texts.\<close>

definition day_le :: "string \<Rightarrow> string \<Rightarrow> bool" where
  "day_le a b \<longleftrightarrow> (a, b) \<in> lexord {(c, d). byte c < byte d} \<or> a = b"

definition usage_from :: "int \<Rightarrow> string \<Rightarrow> 'z db_scheme \<Rightarrow> usage_row list" where
  "usage_from k day s = filter (\<lambda>u. ur_peer_id u = k \<and> day_le day (ur_day u)) (t_usage s)"

definition MonthUsage :: "(int \<Rightarrow> int) \<Rightarrow> int \<Rightarrow> gotime \<Rightarrow> ('z, (int \<times> Traffic) list) sql" where
  "MonthUsage off instanceID now = mapErr (Errorf ''month usage'') (query (\<lambda>s.
     let month = dayKey off (MonthStart off now) in
     map (\<lambda>k. (k, traffic_sum (usage_from k month s)))
       (remdups (map ur_peer_id (filter (\<lambda>u. day_le month (ur_day u) \<and>
         (case peer_by_id (ur_peer_id u) s of None \<Rightarrow> False | Some r \<Rightarrow> pr_instance_id r = instanceID)) (t_usage s))))))"

definition day_max :: "string \<Rightarrow> string \<Rightarrow> string" where
  "day_max a b = (if day_le b a then a else b)"

definition limitStart :: "string \<Rightarrow> peer_row \<Rightarrow> string" where
  "limitStart month r =
     (if pr_limit_period r = PeriodTotal then pr_usage_reset_day r else day_max month (pr_usage_reset_day r))"

text \<open>The SQL filter \<open>limitUsed\<close>: one number, both directions together.\<close>

definition limitUsed :: "string \<Rightarrow> peer_row \<Rightarrow> 'z db_scheme \<Rightarrow> int" where
  "limitUsed month r s =
     (let start = limitStart month r; sum = traffic_sum (usage_from (pr_id r) start s)
      in max 0 (RxBytes sum + TxBytes sum - (if pr_usage_reset_day r = start then pr_usage_reset_rx r + pr_usage_reset_tx r else 0)))"

definition limit_traffic :: "string \<Rightarrow> peer_row \<Rightarrow> 'z db_scheme \<Rightarrow> Traffic" where
  "limit_traffic month r s =
     (let start = limitStart month r; sum = traffic_sum (usage_from (pr_id r) start s); same = pr_usage_reset_day r = start
      in \<lparr>RxBytes = max 0 (RxBytes sum - (if same then pr_usage_reset_rx r else 0)),
          TxBytes = max 0 (TxBytes sum - (if same then pr_usage_reset_tx r else 0))\<rparr>)"

definition limitUsage :: "(int \<Rightarrow> int) \<Rightarrow> (peer_row \<Rightarrow> bool) \<Rightarrow> gotime \<Rightarrow> ('z, (int \<times> Traffic) list) sql" where
  "limitUsage off P now = mapErr (Errorf ''limit usage'') (query (\<lambda>s.
     let month = dayKey off (MonthStart off now) in
     filter (\<lambda>(_, t). Total t > 0) (map (\<lambda>r. (pr_id r, limit_traffic month r s)) (filter P (t_peers s)))))"

definition LimitUsage :: "(int \<Rightarrow> int) \<Rightarrow> int \<Rightarrow> gotime \<Rightarrow> ('z, (int \<times> Traffic) list) sql" where
  "LimitUsage off instanceID now = limitUsage off (\<lambda>r. pr_instance_id r = instanceID) now"

definition PeersLimitUsage :: "(int \<Rightarrow> int) \<Rightarrow> int list \<Rightarrow> gotime \<Rightarrow> ('z, (int \<times> Traffic) list) sql" where
  "PeersLimitUsage off ids now = (if ids = [] then ret [] else limitUsage off (\<lambda>r. pr_id r \<in> set ids) now)"

text \<open>A lookup in the map the two return: a missing device used nothing.\<close>

definition usage_of :: "(int \<times> Traffic) list \<Rightarrow> int \<Rightarrow> Traffic" where
  "usage_of m k = (case map_of m k of None \<Rightarrow> no_traffic | Some t \<Rightarrow> t)"

definition usage_on :: "int \<Rightarrow> string \<Rightarrow> 'z db_scheme \<Rightarrow> Traffic" where
  "usage_on k day s = (case find (\<lambda>u. ur_peer_id u = k \<and> ur_day u = day) (t_usage s) of
     None \<Rightarrow> no_traffic | Some u \<Rightarrow> \<lparr>RxBytes = ur_rx_bytes u, TxBytes = ur_tx_bytes u\<rparr>)"

definition ResetPeerUsage :: "(int \<Rightarrow> int) \<Rightarrow> int \<Rightarrow> gotime \<Rightarrow> ('z, Peer) sql" where
  "ResetPeerUsage off k now =
     bnd (mapErr (Errorf ''reset peer usage'') (stmt (\<lambda>s.
       let day = dayKey off now; used = usage_on k day s in
       (Inr (length (filter (\<lambda>r. pr_id r = k) (t_peers s))), map_peer k (\<lambda>r. r\<lparr>pr_usage_reset_at := Some (unix now),
          pr_usage_reset_day := day, pr_usage_reset_rx := RxBytes used, pr_usage_reset_tx := TxBytes used,
          pr_updated_at := unix now\<rparr>) s)))) (\<lambda>n.
     thn (expectOneRow n) (PeerByID k))"

section \<open>The charts\<close>

record UsagePoint =
  up_Start :: string
  up_Traffic :: Traffic

definition traffic_add :: "Traffic \<Rightarrow> Traffic \<Rightarrow> Traffic" where
  "traffic_add a b = \<lparr>RxBytes = RxBytes a + RxBytes b, TxBytes = TxBytes a + TxBytes b\<rparr>"

text \<open>\<open>day[:len("2006-01")] + "-01"\<close>.\<close>

definition month_key :: "string \<Rightarrow> string" where
  "month_key day = take 7 day @ ''-01''"

definition PeerUsage :: "(int \<Rightarrow> int) \<Rightarrow> int \<Rightarrow> gotime \<Rightarrow> nat \<Rightarrow> nat \<Rightarrow> ('z, UsagePoint list \<times> UsagePoint list) sql" where
  "PeerUsage off k now days months =
     (let today = (case local_date off now of (y, m, d) \<Rightarrow> time_Date off y m d 0);
          firstDay = AddDate off today 0 0 (- (int days - 1));
          firstMonth = AddDate off (MonthStart off now) 0 (- (int months - 1)) 0;
          from = (if firstMonth < firstDay then firstMonth else firstDay)
      in bnd (mapErr (Errorf ''peer usage'') (query (usage_from k (dayKey off from)))) (\<lambda>rows.
         let byDay = (\<lambda>key. case find (\<lambda>u. ur_day u = key) (rev rows) of None \<Rightarrow> no_traffic
                        | Some u \<Rightarrow> \<lparr>RxBytes = ur_rx_bytes u, TxBytes = ur_tx_bytes u\<rparr>);
             byMonth = (\<lambda>key. traffic_sum (filter (\<lambda>u. month_key (ur_day u) = key) rows))
         in ret (map (\<lambda>i. let key = dayKey off (AddDate off firstDay 0 0 (int i)) in \<lparr>up_Start = key, up_Traffic = byDay key\<rparr>) [0..<days],
                 map (\<lambda>i. let key = dayKey off (AddDate off firstMonth 0 (int i) 0) in \<lparr>up_Start = key, up_Traffic = byMonth key\<rparr>) [0..<months])))"

end
