(* ===== verification/StoreAccounts.thy ===== *)
theory StoreAccounts
  imports StoreOps
begin

text \<open>
  internal/store/users.go, sessions.go and settings.go: the admin's account, the sessions of browsers
  and the key-value settings. Tokens and passwords arrive hashed. \<open>now\<close> is the clock the code reads.
\<close>

section \<open>Users\<close>

record User =
  u_ID :: int
  u_Name :: string
  u_Email :: string
  u_PasswordHash :: string
  u_TOTPSecret :: string
  u_TOTPLastStep :: int
  u_CreatedAt :: gotime
  u_UpdatedAt :: gotime

text \<open>
  \<open>strings.ToLower\<close>; \<open>lower\<close> is \<open>unicode.ToLower\<close> on runes past ASCII, a table of the Unicode data.
\<close>

definition rune_lower :: "(nat \<Rightarrow> nat) \<Rightarrow> nat \<Rightarrow> nat" where
  "rune_lower lower r = (if r < 128 then (if 65 \<le> r \<and> r \<le> 90 then r + 32 else r) else lower r)"

definition ToLower :: "(nat \<Rightarrow> nat) \<Rightarrow> string \<Rightarrow> string" where
  "ToLower lower s = strings_Map (rune_lower lower) s"

definition NormalizeEmail :: "(nat \<Rightarrow> nat) \<Rightarrow> string \<Rightarrow> string" where
  "NormalizeEmail lower email = ToLower lower (TrimSpace email)"

definition CountUsers :: "('z, nat) sql" where
  "CountUsers = mapErr (Errorf ''count users'') (query (\<lambda>s. length (t_users s)))"

definition user_row_of :: "gotime \<Rightarrow> string \<Rightarrow> string \<Rightarrow> string \<Rightarrow> user_row" where
  "user_row_of now name email hash =
     \<lparr>us_id = 0, us_name = name, us_email = email, us_password_hash = hash, us_totp_secret = [],
      us_totp_last_step = 0, us_created_at = unix now, us_updated_at = unix now\<rparr>"

definition add_user :: "user_row \<Rightarrow> 'z db_scheme \<Rightarrow> (err + int) \<times> 'z db_scheme" where
  "add_user r s =
     (if list_ex (\<lambda>q. us_email q = us_email r) (t_users s) then (Inl (unique_error ''users'' [''email'']), s)
      else let k = t_user_seq s + 1 in
        (Inr k, s\<lparr>t_users := t_users s @ [r\<lparr>us_id := k\<rparr>], t_user_seq := k\<rparr>))"

definition userFromInsert :: "int \<Rightarrow> string \<Rightarrow> string \<Rightarrow> string \<Rightarrow> gotime \<Rightarrow> User" where
  "userFromInsert k name email hash now =
     \<lparr>u_ID = k, u_Name = name, u_Email = email, u_PasswordHash = hash, u_TOTPSecret = [], u_TOTPLastStep = 0,
      u_CreatedAt = time_Unix (unix now), u_UpdatedAt = time_Unix (unix now)\<rparr>"

definition user_error :: "string \<Rightarrow> err \<Rightarrow> err" where
  "user_error op e = (if isUniqueViolation e then ErrDuplicate else Errorf op e)"

definition CreateUser :: "(nat \<Rightarrow> nat) \<Rightarrow> gotime \<Rightarrow> string \<Rightarrow> string \<Rightarrow> string \<Rightarrow> ('z, User) sql" where
  "CreateUser lower now name email hash =
     (let email = NormalizeEmail lower email in
      bnd (mapErr (user_error ''create user'') (stmt (add_user (user_row_of now name email hash)))) (\<lambda>k.
      ret (userFromInsert k name email hash now)))"

text \<open>One INSERT \<dots> SELECT: no row when there is a user already.\<close>

definition add_first_user :: "user_row \<Rightarrow> 'z db_scheme \<Rightarrow> (err + int option) \<times> 'z db_scheme" where
  "add_first_user r s =
     (if t_users s \<noteq> [] then (Inr None, s)
      else case add_user r s of (Inl e, s') \<Rightarrow> (Inl e, s') | (Inr k, s') \<Rightarrow> (Inr (Some k), s'))"

definition CreateFirstUser :: "(nat \<Rightarrow> nat) \<Rightarrow> gotime \<Rightarrow> string \<Rightarrow> string \<Rightarrow> string \<Rightarrow> ('z, User) sql" where
  "CreateFirstUser lower now name email hash =
     (let email = NormalizeEmail lower email in
      bnd (mapErr (user_error ''create first user'') (stmt (add_first_user (user_row_of now name email hash)))) (\<lambda>k.
      case k of None \<Rightarrow> throw ErrDuplicate | Some k \<Rightarrow> ret (userFromInsert k name email hash now)))"

definition scanUser :: "user_row option \<Rightarrow> err + User" where
  "scanUser row = (case row of None \<Rightarrow> Inl ErrNotFound | Some r \<Rightarrow> Inr
     \<lparr>u_ID = us_id r, u_Name = us_name r, u_Email = us_email r, u_PasswordHash = us_password_hash r,
      u_TOTPSecret = us_totp_secret r, u_TOTPLastStep = us_totp_last_step r,
      u_CreatedAt = time_Unix (us_created_at r), u_UpdatedAt = time_Unix (us_updated_at r)\<rparr>)"

definition UserByEmail :: "(nat \<Rightarrow> nat) \<Rightarrow> string \<Rightarrow> ('z, User) sql" where
  "UserByEmail lower email =
     bnd (mapErr (Errorf ''scan user'') (query (\<lambda>s. find (\<lambda>r. us_email r = NormalizeEmail lower email) (t_users s)))) (\<lambda>row.
     liftE (scanUser row))"

definition user_by_id :: "int \<Rightarrow> 'z db_scheme \<Rightarrow> user_row option" where
  "user_by_id k s = find (\<lambda>r. us_id r = k) (t_users s)"

definition UserByID :: "int \<Rightarrow> ('z, User) sql" where
  "UserByID k = bnd (mapErr (Errorf ''scan user'') (query (user_by_id k))) (\<lambda>row. liftE (scanUser row))"

text \<open>An UPDATE of columns no index covers: the rows a condition picks, and how many there were.\<close>

definition map_users :: "(user_row \<Rightarrow> bool) \<Rightarrow> (user_row \<Rightarrow> user_row) \<Rightarrow> ('z, nat) sql" where
  "map_users P f = stmt (\<lambda>s.
     (Inr (length (filter P (t_users s))), s\<lparr>t_users := map (\<lambda>r. if P r then f r else r) (t_users s)\<rparr>))"

definition updateUser :: "string \<Rightarrow> int \<Rightarrow> (user_row \<Rightarrow> user_row) \<Rightarrow> ('z, unit) sql" where
  "updateUser what k f =
     bnd (mapErr (Errorf what) (map_users (\<lambda>r. us_id r = k) f)) (\<lambda>n.
     if n = 0 then throw ErrNotFound else ret ())"

definition UpdateUserPassword :: "gotime \<Rightarrow> int \<Rightarrow> string \<Rightarrow> ('z, unit) sql" where
  "UpdateUserPassword now k hash =
     updateUser ''update password'' k (\<lambda>r. r\<lparr>us_password_hash := hash, us_updated_at := unix now\<rparr>)"

definition EnableTOTP :: "gotime \<Rightarrow> int \<Rightarrow> string \<Rightarrow> int \<Rightarrow> ('z, unit) sql" where
  "EnableTOTP now k secret usedStep =
     updateUser ''enable totp'' k (\<lambda>r. r\<lparr>us_totp_secret := secret, us_totp_last_step := usedStep, us_updated_at := unix now\<rparr>)"

definition DisableTOTP :: "gotime \<Rightarrow> int \<Rightarrow> ('z, unit) sql" where
  "DisableTOTP now k =
     updateUser ''disable totp'' k (\<lambda>r. r\<lparr>us_totp_secret := [], us_totp_last_step := 0, us_updated_at := unix now\<rparr>)"

definition ClaimTOTPStep :: "int \<Rightarrow> int \<Rightarrow> ('z, bool) sql" where
  "ClaimTOTPStep k step =
     bnd (mapErr (Errorf ''claim totp step'')
       (map_users (\<lambda>r. us_id r = k \<and> us_totp_last_step r < step) (\<lambda>r. r\<lparr>us_totp_last_step := step\<rparr>))) (\<lambda>n.
     ret (n = 1))"

section \<open>Sessions\<close>

record Session =
  s_TokenHash :: string
  s_UserID :: int
  s_UserAgent :: string
  s_CreatedAt :: gotime
  s_ExpiresAt :: gotime

text \<open>The driver's error for a primary key that exists.\<close>

definition primary_key_error :: "string \<Rightarrow> string \<Rightarrow> err" where
  "primary_key_error table col =
     SqliteError 1555 (''constraint failed: UNIQUE constraint failed: '' @ table @ ''.'' @ col @ '' (1555)'')"

definition session_row_of :: "gotime \<Rightarrow> string \<Rightarrow> int \<Rightarrow> string \<Rightarrow> gotime \<Rightarrow> session_row" where
  "session_row_of now token k agent expires =
     \<lparr>se_token_hash = token, se_user_id = k, se_user_agent = agent, se_created_at = unix now, se_expires_at = unix expires\<rparr>"

definition CreateSession :: "gotime \<Rightarrow> string \<Rightarrow> int \<Rightarrow> string \<Rightarrow> gotime \<Rightarrow> ('z, unit) sql" where
  "CreateSession now token k agent expires = mapErr (Errorf ''create session'') (stmt (\<lambda>s.
     if list_ex (\<lambda>r. se_token_hash r = token) (t_sessions s) then (Inl (primary_key_error ''sessions'' ''token_hash''), s)
     else if user_by_id k s = None then (Inl foreign_key_error, s)
     else (Inr (), s\<lparr>t_sessions := t_sessions s @ [session_row_of now token k agent expires]\<rparr>)))"

definition UserBySessionToken :: "gotime \<Rightarrow> string \<Rightarrow> ('z, User) sql" where
  "UserBySessionToken now token =
     bnd (mapErr (Errorf ''scan user'') (query (\<lambda>s.
       case find (\<lambda>r. se_token_hash r = token \<and> se_expires_at r > unix now) (t_sessions s) of
         None \<Rightarrow> None | Some r \<Rightarrow> user_by_id (se_user_id r) s))) (\<lambda>row.
     liftE (scanUser row))"

definition drop_sessions :: "(session_row \<Rightarrow> bool) \<Rightarrow> ('z, nat) sql" where
  "drop_sessions P = stmt (\<lambda>s.
     (Inr (length (filter P (t_sessions s))), s\<lparr>t_sessions := filter (\<lambda>r. \<not> P r) (t_sessions s)\<rparr>))"

definition DeleteSession :: "string \<Rightarrow> ('z, unit) sql" where
  "DeleteSession token = thn (mapErr (Errorf ''delete session'') (drop_sessions (\<lambda>r. se_token_hash r = token))) (ret ())"

definition DeleteUserSessions :: "int \<Rightarrow> ('z, unit) sql" where
  "DeleteUserSessions k = thn (mapErr (Errorf ''delete user sessions'') (drop_sessions (\<lambda>r. se_user_id r = k))) (ret ())"

definition DeleteExpiredSessions :: "gotime \<Rightarrow> ('z, nat) sql" where
  "DeleteExpiredSessions now = mapErr (Errorf ''delete expired sessions'') (drop_sessions (\<lambda>r. se_expires_at r \<le> unix now))"

definition SessionByTokenHash :: "string \<Rightarrow> ('z, Session) sql" where
  "SessionByTokenHash token =
     bnd (mapErr (Errorf ''scan session'') (query (\<lambda>s. find (\<lambda>r. se_token_hash r = token) (t_sessions s)))) (\<lambda>row.
     case row of None \<Rightarrow> throw ErrNotFound | Some r \<Rightarrow> ret
       \<lparr>s_TokenHash = se_token_hash r, s_UserID = se_user_id r, s_UserAgent = se_user_agent r,
        s_CreatedAt = time_Unix (se_created_at r), s_ExpiresAt = time_Unix (se_expires_at r)\<rparr>)"

section \<open>Settings\<close>

definition get_settings :: "('z, (string \<times> string) list) sql" where
  "get_settings = mapErr (Errorf ''list settings'') (query t_settings)"

text \<open>One upsert per entry of the Go map, in the order the runtime picks.\<close>

definition SaveSettings :: "(string \<times> string) list \<Rightarrow> ('z, unit) sql" where
  "SaveSettings values = transact ''save settings'' ''save settings'' (forEach values (\<lambda>(k, v).
     mapErr (Errorf (''save setting '' @ k)) (stmt (\<lambda>s. (Inr (), s\<lparr>t_settings := AList.update k v (t_settings s)\<rparr>)))))"

section \<open>Facts\<close>

text \<open>Several calls one after the other, each whatever became of the ones before.\<close>

primrec run_all :: "('s, 'a) prog list \<Rightarrow> 's \<Rightarrow> (err + 'a) list \<times> 's" where
  "run_all [] s = ([], s)"
| "run_all (m # ms) s = (case m s of (r, s1) \<Rightarrow> (case run_all ms s1 of (rs, s2) \<Rightarrow> (r # rs, s2)))"

definition accounts_inv :: "'z db_scheme \<Rightarrow> bool" where
  "accounts_inv s \<longleftrightarrow>
     distinct (map us_id (t_users s)) \<and> (\<forall>r \<in> set (t_users s). us_id r \<le> t_user_seq s) \<and>
     distinct (map us_email (t_users s)) \<and> distinct (map se_token_hash (t_sessions s)) \<and>
     se_user_id ` set (t_sessions s) \<subseteq> us_id ` set (t_users s) \<and> distinct (map fst (t_settings s))"

lemma accounts_inv_faults [simp]: "accounts_inv (s\<lparr>t_faults := bs\<rparr>) = accounts_inv s"
  by (simp add: accounts_inv_def)

lemma accounts_inv_empty: "accounts_inv empty_db"
  by (simp add: accounts_inv_def empty_db_def)

lemma keeps_accounts_query [prog_rules, intro]: "keeps accounts_inv (query f)"
  by (rule keeps_query) simp

lemma keeps_accounts_stmt: "(\<And>s. accounts_inv s \<Longrightarrow> accounts_inv (snd (f s))) \<Longrightarrow> keeps accounts_inv (stmt f)"
  by (rule keeps_stmt) simp_all

lemma user_by_id_None: "user_by_id k s = None \<longleftrightarrow> (\<forall>r \<in> set (t_users s). us_id r \<noteq> k)"
  by (simp add: user_by_id_def find_None_iff) blast

lemma inv_add_user:
  assumes "accounts_inv s"
  shows "accounts_inv (snd (add_user r s))"
proof (cases "list_ex (\<lambda>q. us_email q = us_email r) (t_users s)")
  case True
  then show ?thesis using assms by (simp add: add_user_def)
next
  case False
  have "us_id q \<noteq> t_user_seq s + 1" if "q \<in> set (t_users s)" for q
    using assms that by (force simp: accounts_inv_def)
  moreover have "us_email r \<noteq> us_email q" if "q \<in> set (t_users s)" for q using False that by (auto simp: list_ex_iff)
  ultimately show ?thesis
    using assms False unfolding accounts_inv_def add_user_def by (auto simp: Let_def image_iff)
qed

lemma keeps_add_user: "keeps accounts_inv (stmt (add_user r))"
  by (rule keeps_accounts_stmt) (rule inv_add_user)

lemma keeps_CreateUser: "keeps accounts_inv (CreateUser lower now name email hash)"
  unfolding CreateUser_def Let_def by (intro keeps_bnd keeps_mapErr keeps_add_user keeps_ret)

lemma keeps_CreateFirstUser: "keeps accounts_inv (CreateFirstUser lower now name email hash)"
proof -
  have "accounts_inv (snd (add_first_user r s))" if "accounts_inv s" for r and s :: "'b db_scheme"
    using that inv_add_user[OF that, of r] by (auto simp: add_first_user_def split: prod.splits sum.splits)
  then show ?thesis
    unfolding CreateFirstUser_def Let_def
    by (intro keeps_bnd keeps_mapErr keeps_case_option keeps_ret keeps_throw keeps_accounts_stmt)
qed

lemma keeps_map_users:
  assumes "\<And>r. us_id (f r) = us_id r" and "\<And>r. us_email (f r) = us_email r"
  shows "keeps accounts_inv (map_users P f)"
  unfolding map_users_def
proof (rule keeps_accounts_stmt)
  fix s :: "'b db_scheme" assume s: "accounts_inv s"
  let ?us = "map (\<lambda>r. if P r then f r else r) (t_users s)"
  have same: "map us_id ?us = map us_id (t_users s)" "map us_email ?us = map us_email (t_users s)"
    using assms by simp_all
  then have "us_id ` set ?us = us_id ` set (t_users s)" by (metis image_set)
  moreover have "\<forall>r \<in> set ?us. us_id r \<le> t_user_seq s" using s assms by (auto simp: accounts_inv_def)
  ultimately show "accounts_inv (snd (Inr (length (filter P (t_users s))), s\<lparr>t_users := ?us\<rparr>))"
    using s same unfolding accounts_inv_def by (simp del: map_map set_map)
qed

lemma keeps_updateUser:
  "(\<And>r. us_id (f r) = us_id r) \<Longrightarrow> (\<And>r. us_email (f r) = us_email r) \<Longrightarrow> keeps accounts_inv (updateUser what k f)"
  unfolding updateUser_def by (intro keeps_bnd keeps_mapErr keeps_map_users keeps_if keeps_throw keeps_ret)

lemma keeps_totp:
  "keeps accounts_inv (UpdateUserPassword now k hash)" "keeps accounts_inv (EnableTOTP now k secret usedStep)"
  "keeps accounts_inv (DisableTOTP now k)" "keeps accounts_inv (ClaimTOTPStep k step)"
  unfolding UpdateUserPassword_def EnableTOTP_def DisableTOTP_def ClaimTOTPStep_def
  by (intro keeps_updateUser keeps_bnd keeps_mapErr keeps_map_users keeps_ret; simp)+

lemma keeps_CreateSession: "keeps accounts_inv (CreateSession now token k agent expires)"
  unfolding CreateSession_def
  by (intro keeps_mapErr keeps_accounts_stmt)
    (auto simp: accounts_inv_def session_row_of_def list_ex_iff user_by_id_None)

lemma keeps_drop_sessions: "keeps accounts_inv (drop_sessions P)"
  unfolding drop_sessions_def
  by (intro keeps_accounts_stmt) (auto simp: accounts_inv_def distinct_map_filter)

lemma keeps_delete_sessions:
  "keeps accounts_inv (DeleteSession token)" "keeps accounts_inv (DeleteUserSessions k)" "keeps accounts_inv (DeleteExpiredSessions now)"
  unfolding DeleteSession_def DeleteUserSessions_def DeleteExpiredSessions_def
  by (intro keeps_thn keeps_mapErr keeps_drop_sessions keeps_ret)+

lemma inv_save_setting: "accounts_inv s \<Longrightarrow> accounts_inv (s\<lparr>t_settings := AList.update k v (t_settings s)\<rparr>)"
  by (simp add: accounts_inv_def distinct_update)

lemma keeps_SaveSettings: "keeps accounts_inv (SaveSettings values)"
  unfolding SaveSettings_def
  by (intro keeps_transact keeps_forEach keeps_case_prod keeps_mapErr keeps_accounts_stmt) (simp_all add: inv_save_setting)

subsection \<open>Used steps\<close>

definition last_step :: "int \<Rightarrow> 'z db_scheme \<Rightarrow> int option" where
  "last_step k s = map_option us_totp_last_step (user_by_id k s)"

lemma last_step_faults [simp]: "last_step k (s\<lparr>t_faults := bs\<rparr>) = last_step k s"
  by (simp add: last_step_def user_by_id_def)

lemma filter_unique_key:
  assumes "distinct (map f xs)"
  shows "filter (\<lambda>x. f x = k \<and> P x) xs = (case find (\<lambda>x. f x = k) xs of None \<Rightarrow> [] | Some x \<Rightarrow> if P x then [x] else [])"
  using assms
proof (induction xs)
  case Nil
  then show ?case by simp
next
  case (Cons x xs)
  show ?case
  proof (cases "f x = k")
    case True
    then have "\<forall>y \<in> set xs. f y \<noteq> k" using Cons.prems by (auto simp: image_iff)
    then have "filter (\<lambda>x. f x = k \<and> P x) xs = []" by (simp add: filter_empty_conv)
    with True show ?thesis by simp
  qed (use Cons in simp)
qed

lemma find_map_cond:
  assumes "\<And>r. g (h r) = g r"
  shows "find (\<lambda>r. g r = j) (map (\<lambda>r. if g r = k \<and> P r then h r else r) xs) =
    map_option (\<lambda>r. if j = k \<and> P r then h r else r) (find (\<lambda>r. g r = j) xs)"
  by (induction xs) (use assms in auto)

definition claim_users :: "int \<Rightarrow> int \<Rightarrow> user_row list \<Rightarrow> user_row list" where
  "claim_users k step us = map (\<lambda>r. if us_id r = k \<and> us_totp_last_step r < step then r\<lparr>us_totp_last_step := step\<rparr> else r) us"

lemma claim_users_find:
  "find (\<lambda>r. us_id r = j) (claim_users k step us) =
   map_option (\<lambda>r. if j = k \<and> us_totp_last_step r < step then r\<lparr>us_totp_last_step := step\<rparr> else r) (find (\<lambda>r. us_id r = j) us)"
  unfolding claim_users_def by (rule find_map_cond) simp

lemma claim_users_ids: "map us_id (claim_users k step us) = map us_id us"
  by (simp add: claim_users_def)

definition claim_stmt :: "int \<Rightarrow> int \<Rightarrow> 'z db_scheme \<Rightarrow> (err + nat) \<times> 'z db_scheme" where
  "claim_stmt k step s = (Inr (length (filter (\<lambda>r. us_id r = k \<and> us_totp_last_step r < step) (t_users s))),
      s\<lparr>t_users := claim_users k step (t_users s)\<rparr>)"

lemma ClaimTOTPStep_stmt:
  "ClaimTOTPStep k step = bnd (mapErr (Errorf ''claim totp step'') (stmt (claim_stmt k step))) (\<lambda>n. ret (n = 1))"
  by (simp add: ClaimTOTPStep_def map_users_def claim_users_def claim_stmt_def[abs_def])

lemma ClaimTOTPStep_cases:
  assumes "ClaimTOTPStep k step s = (r, s')"
  obtains (fault) e bs where "r = Inl e" "s' = s\<lparr>t_faults := bs\<rparr>"
    | (ok) bs where "r = Inr (length (filter (\<lambda>r. us_id r = k \<and> us_totp_last_step r < step) (t_users s)) = 1)"
        "s' = s\<lparr>t_faults := bs, t_users := claim_users k step (t_users s)\<rparr>"
proof (cases rule: stmt_cases[of "claim_stmt k step" s])
  case (fault bs)
  then show ?thesis using assms that(1) by (auto simp: ClaimTOTPStep_stmt bnd_def mapErr_def)
next
  case (run bs)
  then show ?thesis using assms that(2) by (auto simp: ClaimTOTPStep_stmt bnd_def mapErr_def claim_stmt_def)
qed

lemma ClaimTOTPStep_steps:
  assumes "distinct (map us_id (t_users s))" and "ClaimTOTPStep k step s = (r, s')"
  shows "if r = Inr True then (\<exists>l. last_step k s = Some l \<and> l < step) \<and> last_step k s' = Some step \<and> (\<forall>j. j \<noteq> k \<longrightarrow> last_step j s' = last_step j s)
    else (\<forall>j. last_step j s' = last_step j s)"
  using assms(2)
proof (cases rule: ClaimTOTPStep_cases)
  case (fault e bs)
  then show ?thesis by simp
next
  case (ok bs)
  show ?thesis
    unfolding ok filter_unique_key[OF assms(1)] last_step_faults
    by (cases "user_by_id k s")
      (auto simp: last_step_def user_by_id_def claim_users_find option.map_comp comp_def if_distrib[of us_totp_last_step]
        cong: if_cong option.map_cong split: if_splits intro!: option.map_cong)
qed

text \<open>The steps granted to a user in a run of claims, in order.\<close>

definition granted :: "int \<Rightarrow> (int \<times> int) list \<Rightarrow> (err + bool) list \<Rightarrow> int list" where
  "granted k cs rs = map (snd \<circ> fst) (filter (\<lambda>((j, _), r). j = k \<and> r = Inr True) (zip cs rs))"

lemma ClaimTOTPStep_ids: "map us_id (t_users (snd (ClaimTOTPStep k step s))) = map us_id (t_users s)"
proof -
  obtain r s' where m: "ClaimTOTPStep k step s = (r, s')" by (cases "ClaimTOTPStep k step s")
  then show ?thesis by (cases rule: ClaimTOTPStep_cases) (simp_all add: m claim_users_ids)
qed

lemma claims_increase:
  assumes "distinct (map us_id (t_users s))" and "run_all (map (\<lambda>(k, st). ClaimTOTPStep k st) cs) s = (rs, s')"
  shows "sorted_wrt (<) (granted k cs rs) \<and> (\<forall>st \<in> set (granted k cs rs). \<forall>l. last_step k s = Some l \<longrightarrow> l < st)"
  using assms
proof (induction cs arbitrary: s rs)
  case Nil
  then show ?case by (simp add: granted_def)
next
  case (Cons c cs)
  obtain j st where c: "c = (j, st)" by (cases c)
  obtain r s1 where m: "ClaimTOTPStep j st s = (r, s1)" by (cases "ClaimTOTPStep j st s")
  obtain rs' where rs: "run_all (map (\<lambda>(k, st). ClaimTOTPStep k st) cs) s1 = (rs', s')" "rs = r # rs'"
    using Cons.prems(2) m c by (auto split: prod.splits)
  have ids: "distinct (map us_id (t_users s1))" using ClaimTOTPStep_ids[of j st s] m Cons.prems(1) by simp
  have IH: "sorted_wrt (<) (granted k cs rs')" "\<forall>st \<in> set (granted k cs rs'). \<forall>l. last_step k s1 = Some l \<longrightarrow> l < st"
    using Cons.IH[OF ids rs(1)] by auto
  have g: "granted k (c # cs) rs = (if j = k \<and> r = Inr True then [st] else []) @ granted k cs rs'"
    using c rs(2) by (simp add: granted_def)
  show ?case
    using ClaimTOTPStep_steps[OF Cons.prems(1) m] IH unfolding g by (force split: if_splits)
qed

subsection \<open>The first user\<close>

lemma CreateFirstUser_result:
  assumes "CreateFirstUser lower now name email hash s = (r, s')"
  shows "(t_users s \<noteq> [] \<longrightarrow> isl r \<and> t_users s' = t_users s) \<and> (\<not> isl r \<longrightarrow> t_users s' \<noteq> [])"
  by (cases rule: stmt_cases[of "add_first_user (user_row_of now name (NormalizeEmail lower email) hash)" s])
    (use assms in \<open>auto simp: CreateFirstUser_def Let_def bnd_def mapErr_def add_first_user_def add_user_def throw_def split: if_splits\<close>)

lemma first_users_none:
  assumes "run_all (map (\<lambda>(now, n, e, h). CreateFirstUser lower now n e h) cs) s = (rs, s')" and "t_users s \<noteq> []"
  shows "filter (\<lambda>r. \<not> isl r) rs = []"
  using assms
proof (induction cs arbitrary: s rs)
  case Nil
  then show ?case by simp
next
  case (Cons c cs)
  obtain now n e h where c: "c = (now, n, e, h)" by (cases c)
  obtain r s1 where m: "CreateFirstUser lower now n e h s = (r, s1)" by (cases "CreateFirstUser lower now n e h s")
  then have "isl r" "t_users s1 \<noteq> []" using CreateFirstUser_result[OF m] Cons.prems(2) by auto
  then show ?case using Cons.IH[of s1] Cons.prems(1) m c by (auto split: prod.splits)
qed

lemma first_users_once:
  assumes "run_all (map (\<lambda>(now, n, e, h). CreateFirstUser lower now n e h) cs) s = (rs, s')"
  shows "length (filter (\<lambda>r. \<not> isl r) rs) \<le> 1"
  using assms
proof (induction cs arbitrary: s rs)
  case Nil
  then show ?case by simp
next
  case (Cons c cs)
  obtain now n e h where c: "c = (now, n, e, h)" by (cases c)
  obtain r s1 where m: "CreateFirstUser lower now n e h s = (r, s1)" by (cases "CreateFirstUser lower now n e h s")
  obtain rs' where rs: "run_all (map (\<lambda>(now, n, e, h). CreateFirstUser lower now n e h) cs) s1 = (rs', s')" "rs = r # rs'"
    using Cons.prems m c by (auto split: prod.splits)
  show ?case
    using CreateFirstUser_result[OF m] Cons.IH[OF rs(1)] first_users_none[OF rs(1)] rs(2) by (cases "isl r") auto
qed

subsection \<open>A new session\<close>

lemma find_append_new: "\<forall>x \<in> set xs. \<not> P x \<Longrightarrow> find P (xs @ [y]) = (if P y then Some y else None)"
  by (induction xs) auto

lemma CreateSession_Inr:
  assumes "CreateSession now token k agent expires s = (Inr u, s')"
  obtains bs where "s' = s\<lparr>t_faults := bs, t_sessions := t_sessions s @ [session_row_of now token k agent expires]\<rparr>"
    and "\<forall>r \<in> set (t_sessions s). se_token_hash r \<noteq> token" and "user_by_id k s \<noteq> None"
proof -
  let ?g = "\<lambda>s. if list_ex (\<lambda>r. se_token_hash r = token) (t_sessions s) then (Inl (primary_key_error ''sessions'' ''token_hash''), s)
     else if user_by_id k s = None then (Inl foreign_key_error, s)
     else (Inr (), s\<lparr>t_sessions := t_sessions s @ [session_row_of now token k agent expires]\<rparr>)"
  have run: "CreateSession now token k agent expires s = mapErr (Errorf ''create session'') (stmt ?g) s"
    by (simp add: CreateSession_def)
  show ?thesis
    by (cases rule: stmt_cases[of ?g s])
      (use assms run that in \<open>auto simp: mapErr_def list_ex_iff user_by_id_def split: if_splits\<close>)
qed

end
