(* ===== verification/StorePanel.thy ===== *)
theory StorePanel
  imports StoreAccounts
begin

text \<open>
  The tables beside servers, devices and accounts: API keys with the replies kept for retried
  requests, the activity log, webhooks and their deliveries. They extend the record of StoreDb, so
  the operations there run on this database too. Rows are in insertion order.
\<close>

record api_key_row =
  ak_id :: int
  ak_name :: string
  ak_prefix :: string
  ak_token_hash :: string
  ak_scopes :: string
  ak_expires_at :: "int option"
  ak_last_used_at :: "int option"
  ak_last_used_ip :: string
  ak_created_at :: int

text \<open>\<open>api_idempotency\<close>: status 0 marks a request that is still running.\<close>

record idem_row =
  ik_api_key_id :: int
  ik_key :: string
  ik_request_hash :: string
  ik_status :: int
  ik_content_type :: string
  ik_body :: string
  ik_created_at :: int

record event_row =
  ev_id :: int
  ev_created_at :: int
  ev_kind :: string
  ev_instance_id :: "int option"
  ev_instance_name :: string
  ev_peer_id :: "int option"
  ev_peer_name :: string
  ev_node_name :: string
  ev_ip :: string
  ev_country :: string
  ev_detail :: string
  ev_actor :: string

record webhook_row =
  wr_id :: int
  wr_url :: string
  wr_secret :: string
  wr_events :: string
  wr_description :: string
  wr_enabled :: bool
  wr_created_by :: string
  wr_created_at :: int
  wr_updated_at :: int

record delivery_row =
  dr_id :: int
  dr_webhook_id :: int
  dr_event_id :: int
  dr_kind :: string
  dr_payload :: string
  dr_state :: string
  dr_attempts :: nat
  dr_next_attempt_at :: "int option"
  dr_last_attempt_at :: "int option"
  dr_response_status :: int
  dr_error :: string
  dr_duration_ms :: int
  dr_created_at :: int

record panel = db +
  t_api_keys :: "api_key_row list"
  t_api_key_seq :: int
  t_idem :: "idem_row list"
  t_events :: "event_row list"
  t_event_seq :: int
  t_webhooks :: "webhook_row list"
  t_webhook_seq :: int
  t_deliveries :: "delivery_row list"
  t_delivery_seq :: int

type_synonym ('z, 'a) psql = "('z panel_scheme, 'a) prog"

definition empty_panel :: panel where
  "empty_panel = db.extend empty_db \<lparr>t_api_keys = [], t_api_key_seq = 0, t_idem = [], t_events = [], t_event_seq = 0,
     t_webhooks = [], t_webhook_seq = 0, t_deliveries = [], t_delivery_seq = 0\<rparr>"

lemma empty_panel_faults [simp]: "t_faults empty_panel = []"
  by (simp add: empty_panel_def db.defs empty_db_def)

text \<open>A condition on the tables alone survives the start of a transaction and its rollback.\<close>

lemma rollback_same: "same_tables s s' \<Longrightarrow> same_tables s (rollback s s')"
  by (auto simp: rollback_def same_tables_def)

lemma same_tables_eq: "same_tables s s' \<longleftrightarrow> s' = s\<lparr>t_faults := t_faults s'\<rparr>"
  by (auto simp: same_tables_def)

end
