(* ===== verification/TrafficFacts.thy ===== *)
theory TrafficFacts
  imports StoreTraffic
begin

text \<open>
  What recording a reading does to a device's counters and usage: first the upserts, then one
  device, then all devices of a server. \<open>usage_where\<close> is the usage of a device on the days a
  predicate picks, so the charts, the limits and the month are cases of it.
\<close>

section \<open>Sums\<close>

definition usage_where :: "int \<Rightarrow> (string \<Rightarrow> bool) \<Rightarrow> 'z db_scheme \<Rightarrow> Traffic" where
  "usage_where k Q s = traffic_sum (filter (\<lambda>u. ur_peer_id u = k \<and> Q (ur_day u)) (t_usage s))"

lemma traffic_add_simps [simp]:
  "RxBytes (traffic_add a b) = RxBytes a + RxBytes b" "TxBytes (traffic_add a b) = TxBytes a + TxBytes b"
  "RxBytes no_traffic = 0" "TxBytes no_traffic = 0"
  by (simp_all add: traffic_add_def no_traffic_def)

lemma traffic_eqI: "RxBytes a = RxBytes b \<Longrightarrow> TxBytes a = TxBytes b \<Longrightarrow> a = (b :: Traffic)"
  by (cases a; cases b) simp

lemma traffic_add_0 [simp]: "traffic_add a no_traffic = a" "traffic_add no_traffic a = a"
  by (rule traffic_eqI; simp)+

lemma traffic_add_assoc: "traffic_add (traffic_add a b) c = traffic_add a (traffic_add b c)"
  by (rule traffic_eqI) simp_all

lemma traffic_sum_simps [simp]:
  "traffic_sum [] = no_traffic"
  "traffic_sum (u # us) = traffic_add \<lparr>RxBytes = ur_rx_bytes u, TxBytes = ur_tx_bytes u\<rparr> (traffic_sum us)"
  "traffic_sum (us @ vs) = traffic_add (traffic_sum us) (traffic_sum vs)"
  by (rule traffic_eqI; simp add: traffic_sum_def no_traffic_def)+

lemma traffic_sum_add_one:
  assumes "distinct (map f us)" and "x \<in> f ` set us" and "\<And>u. f (g u) = f u"
    and "\<And>u. f u = x \<Longrightarrow> ur_rx_bytes (g u) = ur_rx_bytes u + RxBytes t \<and> ur_tx_bytes (g u) = ur_tx_bytes u + TxBytes t"
    and "\<And>u. f u \<noteq> x \<Longrightarrow> g u = u" and "\<And>u. P (g u) = P u" and "\<And>u. f u = x \<Longrightarrow> P u = b"
  shows "traffic_sum (filter P (map g us)) = (if b then traffic_add (traffic_sum (filter P us)) t else traffic_sum (filter P us))"
  using assms(1,2)
proof (induction us)
  case Nil
  then show ?case by simp
next
  case (Cons u us)
  show ?case
  proof (cases "f u = x")
    case True
    then have "x \<notin> f ` set us" using Cons.prems(1) by auto
    then have "map g us = us" by (metis (no_types, lifting) assms(5) image_eqI map_idI)
    then show ?thesis using True assms(4)[OF True] assms(6)[of u] assms(7)[OF True]
      by (auto intro!: traffic_eqI)
  next
    case False
    then have "x \<in> f ` set us" using Cons.prems(2) by auto
    with Cons.IH Cons.prems(1) have "traffic_sum (filter P (map g us)) =
        (if b then traffic_add (traffic_sum (filter P us)) t else traffic_sum (filter P us))" by simp
    then show ?thesis using assms(5)[OF False] assms(6)[of u] by (auto simp: traffic_add_assoc)
  qed
qed

lemma traffic_sum_put_usage:
  assumes "distinct (map (\<lambda>u. (ur_peer_id u, ur_day u)) us)"
  shows "traffic_sum (filter (\<lambda>u. ur_peer_id u = j \<and> Q (ur_day u)) (put_usage k day t us)) =
    (if j = k \<and> Q day then traffic_add (traffic_sum (filter (\<lambda>u. ur_peer_id u = j \<and> Q (ur_day u)) us)) t
     else traffic_sum (filter (\<lambda>u. ur_peer_id u = j \<and> Q (ur_day u)) us))"
proof (cases "list_ex (\<lambda>u. ur_peer_id u = k \<and> ur_day u = day) us")
  case True
  let ?f = "\<lambda>u. (ur_peer_id u, ur_day u)"
  let ?g = "\<lambda>u. if ur_peer_id u = k \<and> ur_day u = day
    then u\<lparr>ur_rx_bytes := ur_rx_bytes u + RxBytes t, ur_tx_bytes := ur_tx_bytes u + TxBytes t\<rparr> else u"
  have "(k, day) \<in> ?f ` set us" using True by (force simp: list_ex_iff)
  have "traffic_sum (filter (\<lambda>u. ur_peer_id u = j \<and> Q (ur_day u)) (map ?g us)) =
    (if j = k \<and> Q day then traffic_add (traffic_sum (filter (\<lambda>u. ur_peer_id u = j \<and> Q (ur_day u)) us)) t
     else traffic_sum (filter (\<lambda>u. ur_peer_id u = j \<and> Q (ur_day u)) us))"
    by (rule traffic_sum_add_one[OF assms \<open>(k, day) \<in> ?f ` set us\<close>]) auto
  then show ?thesis using True by (simp add: put_usage_def)
next
  case False
  then show ?thesis by (auto simp: put_usage_def intro!: traffic_eqI)
qed

lemma put_usage_ids:
  "map (\<lambda>u. (ur_peer_id u, ur_day u)) (put_usage k day t us) =
   map (\<lambda>u. (ur_peer_id u, ur_day u)) us @ (if (k, day) \<in> (\<lambda>u. (ur_peer_id u, ur_day u)) ` set us then [] else [(k, day)])"
proof -
  have "(\<lambda>u. (ur_peer_id u, ur_day u)) ((\<lambda>u. if ur_peer_id u = k \<and> ur_day u = day
      then u\<lparr>ur_rx_bytes := a u, ur_tx_bytes := b u\<rparr> else u) v) = (ur_peer_id v, ur_day v)" for a b v by simp
  then show ?thesis by (auto simp: put_usage_def list_ex_iff comp_def)
qed

section \<open>Counters\<close>

lemma counters_put: "(case find (\<lambda>c. cr_peer_id c = j) (put_counter k rx tx cs) of None \<Rightarrow> None | Some c \<Rightarrow> Some (cr_rx_bytes c, cr_tx_bytes c)) =
    (if j = k then Some (rx, tx) else case find (\<lambda>c. cr_peer_id c = j) cs of None \<Rightarrow> None | Some c \<Rightarrow> Some (cr_rx_bytes c, cr_tx_bytes c))"
proof -
  let ?g = "\<lambda>c. if cr_peer_id c = k then c\<lparr>cr_rx_bytes := rx, cr_tx_bytes := tx\<rparr> else c"
  have f: "find (\<lambda>c. cr_peer_id c = j) (map ?g cs) = map_option ?g (find (\<lambda>c. cr_peer_id c = j) cs)"
    by (rule find_map_same) simp
  have a: "find P (xs @ [x]) = (case find P xs of None \<Rightarrow> if P x then Some x else None | Some y \<Rightarrow> Some y)" for P and x :: counter_row and xs
    by (induction xs) auto
  show ?thesis
  proof (cases "list_ex (\<lambda>c. cr_peer_id c = k) cs")
    case True
    show ?thesis
    proof (cases "find (\<lambda>c. cr_peer_id c = j) cs")
      case None
      then have "j \<noteq> k" using True by (auto simp: find_None_iff list_ex_iff)
      then show ?thesis using True f None by (simp add: put_counter_def)
    next
      case (Some c)
      then have "cr_peer_id c = j" by (auto simp: find_Some_iff)
      then show ?thesis using True f Some by (simp add: put_counter_def)
    qed
  next
    case False
    then have "find (\<lambda>c. cr_peer_id c = k) cs = None" by (auto simp: find_None_iff list_ex_iff)
    then show ?thesis using False by (auto simp: put_counter_def a split: option.splits)
  qed
qed

lemma counters_of_put:
  "counters_of j (s\<lparr>t_counters := put_counter k rx tx (t_counters s)\<rparr>) = (if j = k then Some (rx, tx) else counters_of j s)"
  using counters_put[of j k rx tx "t_counters s"] by (simp add: counters_of_def map_option_case)

section \<open>One device\<close>

text \<open>What a reading adds to the usage of a device, and the counters it leaves.\<close>

definition recorded :: "(int \<times> int) option \<Rightarrow> PeerStats option \<Rightarrow> Traffic" where
  "recorded cur live = (case (cur, live) of (Some (rx, tx), Some st) \<Rightarrow> growth rx tx st | _ \<Rightarrow> no_traffic)"

definition next_counters :: "(int \<times> int) option \<Rightarrow> PeerStats option \<Rightarrow> (int \<times> int) option" where
  "next_counters cur live = (case live of
     None \<Rightarrow> map_option (\<lambda>_. (0, 0)) cur | Some st \<Rightarrow> Some (st_RxBytes st, st_TxBytes st))"

text \<open>Counters as WireGuard reports them: not negative, and their sum within 63 bits.\<close>

definition sane_stats :: "PeerStats \<Rightarrow> bool" where
  "sane_stats st \<longleftrightarrow> 0 \<le> st_RxBytes st \<and> 0 \<le> st_TxBytes st \<and> st_RxBytes st + st_TxBytes st < 2 ^ 63"

definition sane_counters :: "(int \<times> int) option \<Rightarrow> bool" where
  "sane_counters c = (case c of None \<Rightarrow> True | Some (rx, tx) \<Rightarrow> 0 \<le> rx \<and> 0 \<le> tx)"

lemma growth_nonneg:
  assumes "sane_stats st" and "0 \<le> rx" and "0 \<le> tx"
  shows "0 \<le> RxBytes (growth rx tx st)" "0 \<le> TxBytes (growth rx tx st)"
    "Total (growth rx tx st) = RxBytes (growth rx tx st) + TxBytes (growth rx tx st)"
proof -
  show n: "0 \<le> RxBytes (growth rx tx st)" "0 \<le> TxBytes (growth rx tx st)"
    using assms by (auto simp: growth_def sane_stats_def)
  have "RxBytes (growth rx tx st) + TxBytes (growth rx tx st) < 2 ^ 63"
    using assms by (auto simp: growth_def sane_stats_def)
  then show "Total (growth rx tx st) = RxBytes (growth rx tx st) + TxBytes (growth rx tx st)"
    using n by (simp add: Total_def wrap64_id int64_range_def)
qed

definition set_counter :: "int \<Rightarrow> int \<Rightarrow> int \<Rightarrow> 'z db_scheme \<Rightarrow> 'z db_scheme" where
  "set_counter k rx tx s = s\<lparr>t_counters := put_counter k rx tx (t_counters s)\<rparr>"

definition set_usage :: "int \<Rightarrow> string \<Rightarrow> Traffic \<Rightarrow> 'z db_scheme \<Rightarrow> 'z db_scheme" where
  "set_usage k day t s = s\<lparr>t_usage := put_usage k day t (t_usage s)\<rparr>"

lemma does_setCounters: "does (setCounters k rx tx) (set_counter k rx tx)"
  unfolding setCounters_def set_counter_def
  by (rule does_mapErr, rule does_stmt) (auto split: if_splits)

lemma does_addUsage: "does (addUsage k day t) (set_usage k day t)"
  unfolding addUsage_def set_usage_def
  by (rule does_mapErr, rule does_stmt) (auto split: if_splits)

lemma does_saveHandshake: "does (saveHandshake k t) (map_peer k (\<lambda>r. r\<lparr>pr_last_handshake := Some (unix t)\<rparr>))"
  unfolding saveHandshake_def by (rule does_mapErr, rule does_stmt) (auto simp: map_peer_def)

definition use_effect :: "counterRow \<Rightarrow> PeerStats \<Rightarrow> string \<Rightarrow> 'z db_scheme \<Rightarrow> 'z db_scheme" where
  "use_effect r st day = (case c_counters r of
     Some (rx, tx) \<Rightarrow> if Total (growth rx tx st) > 0 then set_usage (c_peerID r) day (growth rx tx st) else (\<lambda>s. s)
   | None \<Rightarrow> (\<lambda>s. s))"

definition count_effect :: "counterRow \<Rightarrow> PeerStats \<Rightarrow> 'z db_scheme \<Rightarrow> 'z db_scheme" where
  "count_effect r st = (if c_counters r \<noteq> Some (st_RxBytes st, st_TxBytes st)
     then set_counter (c_peerID r) (st_RxBytes st) (st_TxBytes st) else (\<lambda>s. s))"

definition shake_effect :: "counterRow \<Rightarrow> PeerStats \<Rightarrow> 'z db_scheme \<Rightarrow> 'z db_scheme" where
  "shake_effect r st = (if newer (st_LatestHandshake st) (c_shaken r)
     then map_peer (c_peerID r) (\<lambda>p. p\<lparr>pr_last_handshake := Some (unix (the (st_LatestHandshake st)))\<rparr>) else (\<lambda>s. s))"

definition record_effect :: "counterRow \<Rightarrow> (string \<Rightarrow> PeerStats option) \<Rightarrow> string \<Rightarrow> 'z db_scheme \<Rightarrow> 'z db_scheme" where
  "record_effect r live day = (case live (c_key r) of
     None \<Rightarrow> (case c_counters r of
        Some (rx, tx) \<Rightarrow> if rx \<noteq> 0 \<or> tx \<noteq> 0 then set_counter (c_peerID r) 0 0 else (\<lambda>s. s)
      | None \<Rightarrow> (\<lambda>s. s))
   | Some st \<Rightarrow> (\<lambda>s. shake_effect r st (count_effect r st (use_effect r st day s))))"

lemma does_recordPeer: "does (recordPeer r live day) (record_effect r live day)"
proof (cases "live (c_key r)")
  case None
  then show ?thesis
    by (cases "c_counters r") (auto simp: recordPeer_def record_effect_def intro: does_setCounters does_ret)
next
  case (Some st)
  have u: "does (case c_counters r of Some (rx, tx) \<Rightarrow> if Total (growth rx tx st) > 0 then addUsage (c_peerID r) day (growth rx tx st) else ret ()
      | None \<Rightarrow> ret ()) (use_effect r st day)"
    by (cases "c_counters r") (auto simp: use_effect_def intro: does_addUsage does_ret)
  have c: "does (if c_counters r \<noteq> Some (st_RxBytes st, st_TxBytes st)
      then setCounters (c_peerID r) (st_RxBytes st) (st_TxBytes st) else ret ()) (count_effect r st)"
    unfolding count_effect_def by (intro does_if does_setCounters does_ret)
  have h: "does (if newer (st_LatestHandshake st) (c_shaken r)
      then saveHandshake (c_peerID r) (the (st_LatestHandshake st)) else ret ()) (shake_effect r st)"
    unfolding shake_effect_def by (intro does_if does_saveHandshake does_ret)
  show ?thesis
    using does_thn[OF u does_thn[OF c h]] Some by (simp add: recordPeer_def record_effect_def)
qed

text \<open>What the effect leaves: the counters and usage of the device itself, and nothing of the others.\<close>

definition same_but_handshake :: "'z db_scheme \<Rightarrow> 'z db_scheme \<Rightarrow> bool" where
  "same_but_handshake s s' \<longleftrightarrow>
     map (\<lambda>r. r\<lparr>pr_last_handshake := None\<rparr>) (t_peers s') = map (\<lambda>r. r\<lparr>pr_last_handshake := None\<rparr>) (t_peers s) \<and>
     t_instances s' = t_instances s \<and> t_users s' = t_users s \<and> t_sessions s' = t_sessions s \<and>
     t_settings s' = t_settings s \<and> t_nodes s' = t_nodes s \<and> t_node_seq s' = t_node_seq s"

lemma counters_of_frame [simp]:
  "counters_of j (set_usage k day t s) = counters_of j s" "counters_of j (map_peer k f s) = counters_of j s"
  "counters_of j (set_counter k rx tx s) = (if j = k then Some (rx, tx) else counters_of j s)"
  subgoal by (simp add: counters_of_def set_usage_def)
  subgoal by (simp add: counters_of_def map_peer_def)
  subgoal by (simp only: set_counter_def counters_of_put)
  done

lemma effect_counters:
  "counters_of j (use_effect r st day s) = counters_of j s"
  "counters_of j (shake_effect r st s) = counters_of j s"
  "c_counters r = counters_of (c_peerID r) s \<Longrightarrow> counters_of j (count_effect r st s) =
     (if j = c_peerID r then Some (st_RxBytes st, st_TxBytes st) else counters_of j s)"
  by (simp_all add: use_effect_def shake_effect_def count_effect_def split: option.split prod.split)

lemma record_effect_counters:
  assumes "c_counters r = counters_of (c_peerID r) s"
  shows "counters_of j (record_effect r live day s) =
    (if j = c_peerID r then next_counters (counters_of j s) (live (c_key r)) else counters_of j s)"
proof (cases "live (c_key r)")
  case None
  then show ?thesis
    using assms by (cases "counters_of (c_peerID r) s") (auto simp: record_effect_def next_counters_def)
next
  case (Some st)
  then show ?thesis
    using assms effect_counters(3)[of r "use_effect r st day s" j st]
    by (simp add: record_effect_def next_counters_def effect_counters(1,2))
qed

definition usage_keys :: "'z db_scheme \<Rightarrow> (int \<times> string) list" where
  "usage_keys s = map (\<lambda>u. (ur_peer_id u, ur_day u)) (t_usage s)"

lemma usage_where_frame [simp]:
  "usage_where j Q (set_counter k rx tx s) = usage_where j Q s" "usage_where j Q (map_peer k f s) = usage_where j Q s"
  "usage_keys (set_counter k rx tx s) = usage_keys s" "usage_keys (map_peer k f s) = usage_keys s"
  by (simp_all add: usage_where_def set_counter_def map_peer_def usage_keys_def)

lemma usage_where_set_usage:
  "distinct (usage_keys s) \<Longrightarrow> usage_where j Q (set_usage k day t s) =
     (if j = k \<and> Q day then traffic_add (usage_where j Q s) t else usage_where j Q s)"
  unfolding usage_keys_def by (simp add: usage_where_def set_usage_def traffic_sum_put_usage)

lemma distinct_set_usage: "distinct (usage_keys s) \<Longrightarrow> distinct (usage_keys (set_usage k day t s))"
  by (simp add: usage_keys_def set_usage_def put_usage_ids)

lemma growth_zero:
  assumes "sane_stats st" and "0 \<le> rx" and "0 \<le> tx" and "\<not> Total (growth rx tx st) > 0"
  shows "growth rx tx st = no_traffic"
  using growth_nonneg[OF assms(1-3)] assms(4) by (intro traffic_eqI) auto

lemma record_effect_usage:
  assumes keys: "distinct (usage_keys s)" and sane: "sane_counters (c_counters r)" "\<And>st. live (c_key r) = Some st \<Longrightarrow> sane_stats st"
  shows "usage_where j Q (record_effect r live day s) =
      (if j = c_peerID r \<and> Q day then traffic_add (usage_where j Q s) (recorded (c_counters r) (live (c_key r)))
       else usage_where j Q s)" (is ?use)
    and "distinct (usage_keys (record_effect r live day s))" (is ?keys)
proof -
  have "?use \<and> ?keys"
  proof (cases "live (c_key r)")
    case None
    then show ?thesis using keys by (cases "c_counters r") (auto simp: record_effect_def recorded_def)
  next
    case (Some st)
    have se: "usage_where j Q (shake_effect r st t) = usage_where j Q t" "usage_keys (shake_effect r st t) = usage_keys t"
      "usage_where j Q (count_effect r st t) = usage_where j Q t" "usage_keys (count_effect r st t) = usage_keys t" for t :: "'a db_scheme"
      by (simp_all add: shake_effect_def count_effect_def)
    show ?thesis
    proof (cases "c_counters r")
      case None
      then show ?thesis using Some keys by (simp add: record_effect_def recorded_def se use_effect_def)
    next
      case (Some c)
      then obtain rx tx where c: "c_counters r = Some (rx, tx)" by (cases c) auto
      then have "0 \<le> rx" "0 \<le> tx" using sane(1) by (simp_all add: sane_counters_def)
      then have zero: "\<not> Total (growth rx tx st) > 0 \<Longrightarrow> growth rx tx st = no_traffic"
        using growth_zero sane(2)[OF \<open>live (c_key r) = Some st\<close>] by blast
      show ?thesis
        using zero \<open>live (c_key r) = Some st\<close> c keys
        by (cases "Total (growth rx tx st) > 0")
          (simp_all add: record_effect_def recorded_def se use_effect_def usage_where_set_usage distinct_set_usage)
    qed
  qed
  then show ?use ?keys by blast+
qed

lemma record_effect_same: "same_but_handshake s (record_effect r live day s)"
proof -
  have tr: "same_but_handshake s t \<Longrightarrow> same_but_handshake t u \<Longrightarrow> same_but_handshake s u" for s t u :: "'a db_scheme"
    by (simp add: same_but_handshake_def)
  have m: "same_but_handshake s (map_peer k (\<lambda>r. r\<lparr>pr_last_handshake := v\<rparr>) s)"
      "same_but_handshake s (set_counter k rx tx s)" "same_but_handshake s (set_usage k day t s)" "same_but_handshake s s"
    for k v rx tx t and s :: "'a db_scheme"
    by (simp_all add: same_but_handshake_def map_peer_def set_counter_def set_usage_def)
  have e: "same_but_handshake s (shake_effect r st s)" "same_but_handshake s (count_effect r st s)" "same_but_handshake s (use_effect r st day s)"
    for st and s :: "'a db_scheme"
    by (simp_all add: shake_effect_def count_effect_def use_effect_def m split: option.split)
  show ?thesis
  proof (cases "live (c_key r)")
    case None
    then show ?thesis using m(2,4) by (cases "c_counters r") (auto simp: record_effect_def)
  next
    case (Some st)
    then show ?thesis using tr[OF e(3) tr[OF e(2) e(1)]] by (simp add: record_effect_def)
  qed
qed

section \<open>A reading of a server\<close>

lemma same_but_handshake_refl [simp]: "same_but_handshake s s"
  by (simp add: same_but_handshake_def)

lemma same_but_handshake_trans: "same_but_handshake s t \<Longrightarrow> same_but_handshake t u \<Longrightarrow> same_but_handshake s u"
  by (simp add: same_but_handshake_def)

lemma fold_record:
  fixes day :: string
  assumes "distinct (map c_peerID rs)" and "\<forall>r \<in> set rs. c_counters r = counters_of (c_peerID r) s"
    and "\<forall>r \<in> set rs. sane_counters (c_counters r) \<and> (\<forall>st. live (c_key r) = Some st \<longrightarrow> sane_stats st)"
    and "distinct (usage_keys s)"
  defines "t \<equiv> fold (\<lambda>r. record_effect r live day) rs s"
  shows "counters_of j t = (case find (\<lambda>r. c_peerID r = j) rs of None \<Rightarrow> counters_of j s
      | Some r \<Rightarrow> next_counters (counters_of j s) (live (c_key r)))"
    and "usage_where j Q t = (case find (\<lambda>r. c_peerID r = j) rs of None \<Rightarrow> usage_where j Q s
      | Some r \<Rightarrow> if Q day then traffic_add (usage_where j Q s) (recorded (counters_of j s) (live (c_key r))) else usage_where j Q s)"
    and "same_but_handshake s t"
  using assms(1-4) unfolding t_def
proof (induction rs arbitrary: s)
  case Nil
  {
    case 1
    then show ?case by simp
  next
    case 2
    then show ?case by simp
  next
    case 3
    then show ?case by simp
  }
next
  case (Cons r rs)
  let ?s = "\<lambda>s. record_effect r live day s"
  have hyps: "distinct (map c_peerID rs)" "\<forall>q \<in> set rs. c_counters q = counters_of (c_peerID q) (?s s)"
      "\<forall>q \<in> set rs. sane_counters (c_counters q) \<and> (\<forall>st. live (c_key q) = Some st \<longrightarrow> sane_stats st)" "distinct (usage_keys (?s s))"
    if "distinct (map c_peerID (r # rs))" "\<forall>r \<in> set (r # rs). c_counters r = counters_of (c_peerID r) s"
      "\<forall>r \<in> set (r # rs). sane_counters (c_counters r) \<and> (\<forall>st. live (c_key r) = Some st \<longrightarrow> sane_stats st)"
      "distinct (usage_keys s)" for s
    using that record_effect_counters[of r s _ live day] record_effect_usage(2)[of s r live day]
    by (auto simp: image_iff)
  have other: "find (\<lambda>q. c_peerID q = c_peerID r) rs = None" if "distinct (map c_peerID (r # rs))"
    using that by (auto simp: find_None_iff image_iff)
  {
    case 1
    then show ?case
      using Cons.IH(1)[OF hyps[OF 1]] other[OF 1(1)] record_effect_counters[of r s j live day]
      by (auto split: option.split)
  next
    case 2
    then show ?case
      using Cons.IH(2)[OF hyps[OF 2]] other[OF 2(1)] record_effect_counters[of r s j live day]
        record_effect_usage(1)[of s r live j Q day] by (auto split: option.split)
  next
    case 3
    then show ?case
      using Cons.IH(3)[OF hyps[OF 3]] record_effect_same[of s r live day] same_but_handshake_trans by auto
  }
qed

lemma RecordTraffic_Inr:
  assumes "RecordTraffic off k stats now s = (Inr u, s')"
  shows "same_tables (fold (\<lambda>r. record_effect r (live_map stats) (dayKey off now)) (counter_rows k s) s) s'"
proof -
  let ?step = "\<lambda>r. recordPeer r (live_map stats) (dayKey off now)"
  let ?eff = "\<lambda>r. record_effect r (live_map stats) (dayKey off now)"
  obtain s1 s2 t rows where s1: "same_tables s s1" and q: "query (counter_rows k) s1 = (Inr rows, t)"
    and run: "forEach rows ?step t = (Inr u, s2)" and s2: "same_tables s2 s'"
    using assms unfolding RecordTraffic_def
    by (auto elim!: transaction_Inr bnd_InrE dest!: mapErr_InrE)
  have t: "same_tables s1 t" "rows = counter_rows k s1"
    using q by (cases rule: query_cases[of "counter_rows k" s1]; auto simp: counter_rows_def counters_of_def)+
  have rows: "rows = counter_rows k s"
    using t(2) s1 by (auto simp: same_tables_def counter_rows_def counters_of_def)
  have d: "does (forEach rows ?step) (fold ?eff rows)" by (rule does_forEach) (rule does_recordPeer)
  have "same_tables s t" using s1 t(1) same_tables_trans by blast
  then have "same_tables (fold ?eff rows s) (fold ?eff rows t)" by (rule does_same[OF d])
  then show ?thesis using doesD[OF d run] s2 same_tables_trans unfolding rows by blast
qed

lemma counter_rows_facts:
  assumes "db_inv s"
  shows "distinct (map c_peerID (counter_rows k s))"
    and "r \<in> set (t_peers s) \<Longrightarrow> find (\<lambda>c. c_peerID c = pr_id r) (counter_rows k s) =
      (if pr_instance_id r = k then Some \<lparr>c_peerID = pr_id r, c_key = pr_public_key r,
         c_counters = counters_of (pr_id r) s, c_shaken = pr_last_handshake r\<rparr> else None)"
proof -
  have d: "distinct (map pr_id (t_peers s))" using assms by (simp add: db_inv_def peers_inv_def)
  show "distinct (map c_peerID (counter_rows k s))"
    using d by (simp add: counter_rows_def comp_def distinct_map_filter)
  assume r: "r \<in> set (t_peers s)"
  let ?c = "\<lambda>r. \<lparr>c_peerID = pr_id r, c_key = pr_public_key r, c_counters = counters_of (pr_id r) s, c_shaken = pr_last_handshake r\<rparr>"
  show "find (\<lambda>c. c_peerID c = pr_id r) (counter_rows k s) = (if pr_instance_id r = k then Some (?c r) else None)"
  proof (cases "pr_instance_id r = k")
    case True
    have "find (\<lambda>c. c_peerID c = c_peerID (?c r)) (counter_rows k s) = Some (?c r)"
      using r True \<open>distinct (map c_peerID (counter_rows k s))\<close>
      by (intro find_unique[of c_peerID]) (auto simp: counter_rows_def)
    then show ?thesis using True by simp
  next
    case False
    then show ?thesis
      using r distinct_map_inj_on[OF d] by (auto simp: find_None_iff counter_rows_def)
  qed
qed

text \<open>The state of one device a reading works on, and what a successful reading does to it.\<close>

definition readings_sane :: "'z db_scheme \<Rightarrow> stats_map \<Rightarrow> bool" where
  "readings_sane s stats \<longleftrightarrow> (\<forall>r \<in> set (t_peers s). sane_counters (counters_of (pr_id r) s)) \<and>
     (\<forall>(k, st) \<in> set stats. sane_stats st)"

lemma live_map_sane: "\<forall>(k, st) \<in> set stats. sane_stats st \<Longrightarrow> live_map stats key = Some st \<Longrightarrow> sane_stats st"
  unfolding live_map_def by (drule map_of_SomeD) auto

lemma RecordTraffic_device:
  assumes run: "RecordTraffic off k stats now s = (Inr u, s')" and inv: "db_inv s" and sane: "readings_sane s stats"
    and r: "r \<in> set (t_peers s)"
  defines "cur \<equiv> counters_of (pr_id r) s" and "live \<equiv> live_map stats (pr_public_key r)"
  shows "counters_of (pr_id r) s' = (if pr_instance_id r = k then next_counters cur live else cur)"
    and "usage_where (pr_id r) Q s' = (if pr_instance_id r = k \<and> Q (dayKey off now)
      then traffic_add (usage_where (pr_id r) Q s) (recorded cur live) else usage_where (pr_id r) Q s)"
    and "same_but_handshake s s'"
proof -
  let ?t = "fold (\<lambda>r. record_effect r (live_map stats) (dayKey off now)) (counter_rows k s) s"
  have same: "same_tables ?t s'" by (rule RecordTraffic_Inr[OF run])
  have h: "\<forall>c \<in> set (counter_rows k s). c_counters c = counters_of (c_peerID c) s"
    "\<forall>c \<in> set (counter_rows k s). sane_counters (c_counters c) \<and> (\<forall>st. live_map stats (c_key c) = Some st \<longrightarrow> sane_stats st)"
    "distinct (usage_keys s)"
    using sane inv live_map_sane[of stats]
    by (auto simp: counter_rows_def readings_sane_def usage_keys_def db_inv_def usage_inv_def)
  note f = fold_record[OF counter_rows_facts(1)[OF inv] h]
  show "counters_of (pr_id r) s' = (if pr_instance_id r = k then next_counters cur live else cur)"
    using same f(1)[of "pr_id r" "dayKey off now"] counter_rows_facts(2)[OF inv r, of k]
    by (auto simp: same_tables_def counters_of_def cur_def live_def)
  show "usage_where (pr_id r) Q s' = (if pr_instance_id r = k \<and> Q (dayKey off now)
      then traffic_add (usage_where (pr_id r) Q s) (recorded cur live) else usage_where (pr_id r) Q s)"
    using same f(2)[of "pr_id r" Q "dayKey off now"] counter_rows_facts(2)[OF inv r, of k]
    by (auto simp: same_tables_def usage_where_def cur_def live_def)
  show "same_but_handshake s s'"
    using same f(3)[of "dayKey off now"] by (auto simp: same_tables_def same_but_handshake_def)
qed

section \<open>The invariant, and what resets rely on\<close>

lemma inv_put_usage:
  assumes inv: "db_inv s" and k: "peer_by_id k s \<noteq> None"
  shows "db_inv (s\<lparr>t_usage := put_usage k day t (t_usage s)\<rparr>)"
proof -
  let ?f = "\<lambda>u. (ur_peer_id u, ur_day u)"
  have k: "k \<in> pr_id ` set (t_peers s)" using k peer_by_id_Some[of k s] by force
  have "ur_peer_id ` set (put_usage k day t (t_usage s)) = fst ` set (map ?f (put_usage k day t (t_usage s)))"
    by (simp add: image_image)
  also have "\<dots> \<subseteq> insert k (ur_peer_id ` set (t_usage s))" unfolding put_usage_ids by auto
  finally have "ur_peer_id ` set (put_usage k day t (t_usage s)) \<subseteq> pr_id ` set (t_peers s)"
    using k inv by (simp add: db_inv_def usage_inv_def) (meson insert_subset order_trans)
  moreover have "distinct (map ?f (put_usage k day t (t_usage s)))"
    using inv unfolding put_usage_ids by (auto simp: db_inv_def usage_inv_def)
  ultimately show ?thesis using inv by (simp add: db_inv_def usage_inv_def instances_inv_def peers_inv_def)
qed

lemma keeps_addUsage [prog_rules, intro]: "keeps db_inv (addUsage k day t)"
  unfolding addUsage_def by (rule keeps_mapErr, rule keeps_stmt) (auto intro: inv_put_usage)

text \<open>A change of a device that touches no index, reference or limit period.\<close>

lemma inv_map_peer:
  assumes inv: "db_inv s" and f: "\<And>r. pr_id (f r) = pr_id r" "\<And>r q. peers_apart (f r) q = peers_apart r q"
    "\<And>r q. peers_apart q (f r) = peers_apart q r" "\<And>r. peer_row_ok s (f r) = peer_row_ok s r"
  shows "db_inv (map_peer k f s)"
proof -
  let ?g = "\<lambda>r. if pr_id r = k then f r else r"
  have g: "pr_id (?g r) = pr_id r" "peers_apart (?g r) (?g q) = peers_apart r q" "peer_row_ok s (?g r) = peer_row_ok s r" for r q
    using f by simp_all
  have ids: "pr_id ` set (map ?g (t_peers s)) = pr_id ` set (t_peers s)"
    using map_map[of pr_id ?g "t_peers s"] g(1) by (simp only: set_map image_image)
  have row: "pr_id (?g r) \<le> t_peer_seq s \<and> peer_row_ok s (?g r)" if "r \<in> set (t_peers s)" for r
    unfolding g using that inv by (simp add: db_inv_def peers_inv_def)
  have ap: "peers_apart (?g r) (?g q)" if "r \<in> set (t_peers s)" "q \<in> set (t_peers s)" "pr_id r \<noteq> pr_id q" for r q
    unfolding g using that inv by (simp add: db_inv_def peers_inv_def)
  have "peers_inv (map_peer k f s)"
    unfolding peers_inv_def
  proof (intro conjI)
    show "distinct (map pr_id (t_peers (map_peer k f s)))"
      using inv by (simp add: map_peer_def distinct_same_ids[where f = pr_id and g = ?g, OF g(1)] db_inv_def peers_inv_def del: map_map)
    show "\<forall>r \<in> set (t_peers (map_peer k f s)). pr_id r \<le> t_peer_seq (map_peer k f s) \<and> peer_row_ok (map_peer k f s) r"
      using ball_map[of "t_peers s" "\<lambda>r. pr_id r \<le> t_peer_seq s \<and> peer_row_ok s r" ?g] row
      by (simp add: map_peer_def del: set_map)
    show "\<forall>q \<in> set (t_peers (map_peer k f s)). \<forall>r \<in> set (t_peers (map_peer k f s)). pr_id q \<noteq> pr_id r \<longrightarrow> peers_apart q r"
      using apart_map[of pr_id ?g "t_peers s" peers_apart] g(1) ap by (simp add: map_peer_def del: set_map)
  qed
  then show ?thesis
    using inv ids by (simp add: db_inv_def usage_inv_def instances_inv_def map_peer_def del: set_map)
qed

lemma keeps_saveHandshake [prog_rules, intro]: "keeps db_inv (saveHandshake k t)"
  unfolding saveHandshake_def
  by (rule keeps_mapErr, rule keeps_stmt)
    (auto intro!: inv_map_peer simp: peers_apart_def peer_row_ok_def peer_in_subnet_def)

lemma keeps_recordPeer [prog_rules, intro]: "keeps db_inv (recordPeer r live day)"
  unfolding recordPeer_def by (intro prog_rules keeps_setCounters)

lemma keeps_RecordTraffic: "keeps db_inv (RecordTraffic off k stats now)"
  unfolding RecordTraffic_def by (intro keeps_db_inv_transaction prog_rules)

lemma keeps_ResetPeerUsage: "keeps db_inv (ResetPeerUsage off k now)"
  unfolding ResetPeerUsage_def Let_def
  by (intro keeps_bnd keeps_mapErr keeps_stmt keeps_thn keeps_PeerByID keeps_expectOneRow)
    (auto intro!: inv_map_peer simp: peers_apart_def peer_row_ok_def peer_in_subnet_def)

lemma usage_on_where:
  assumes "distinct (usage_keys s)"
  shows "usage_on k day s = usage_where k (\<lambda>d. d = day) s"
proof -
  have "traffic_sum (filter (\<lambda>u. ur_peer_id u = k \<and> ur_day u = day) us) =
      (case find (\<lambda>u. ur_peer_id u = k \<and> ur_day u = day) us of None \<Rightarrow> no_traffic
       | Some u \<Rightarrow> \<lparr>RxBytes = ur_rx_bytes u, TxBytes = ur_tx_bytes u\<rparr>)"
    if "distinct (map (\<lambda>u. (ur_peer_id u, ur_day u)) us)" for us
    using that
  proof (induction us)
    case (Cons u us)
    have "filter (\<lambda>u. ur_peer_id u = k \<and> ur_day u = day) us = []" if "ur_peer_id u = k" "ur_day u = day"
      using Cons.prems that by (auto simp: filter_empty_conv image_iff)
    then show ?case using Cons by auto
  qed simp
  then show ?thesis using assms by (simp add: usage_on_def usage_where_def usage_keys_def)
qed

end
