(* ===== verification/TrafficSpec.thy ===== *)
theory TrafficSpec
  imports TrafficFacts
begin

text \<open>
  What usage promises. \<open>device\<close> is the abstract view of one device: the counters last read and the
  usage so far; a run of \<open>RecordTraffic\<close> is a fold of \<open>device_step\<close> over the readings of the device.
  A machine that also knows the true traffic, with restarts of the interface the panel does not see,
  then bounds the usage by the truth. The last part is what counts after a reset.
\<close>

section \<open>Refinement: a device is a fold over its readings\<close>

type_synonym device = "(int \<times> int) option \<times> Traffic"

definition device_step :: "PeerStats option \<Rightarrow> device \<Rightarrow> device" where
  "device_step live d = (next_counters (fst d) live, traffic_add (snd d) (recorded (fst d) live))"

text \<open>A device in the tables, its usage counted on the days \<open>Q\<close> picks.\<close>

definition device_of :: "(string \<Rightarrow> bool) \<Rightarrow> int \<Rightarrow> 'z db_scheme \<Rightarrow> device" where
  "device_of Q k s = (counters_of k s, usage_where k Q s)"

text \<open>What a sequence of readings says of one device.\<close>

definition lives :: "string \<Rightarrow> (stats_map \<times> gotime) list \<Rightarrow> PeerStats option list" where
  "lives key readings = map (\<lambda>(stats, _). live_map stats key) readings"

lemma lives_simps [simp]: "lives key [] = []" "lives key ((stats, t) # rs) = live_map stats key # lives key rs"
  by (simp_all add: lives_def)

definition RecordAll :: "(int \<Rightarrow> int) \<Rightarrow> int \<Rightarrow> (stats_map \<times> gotime) list \<Rightarrow> ('z, unit) sql" where
  "RecordAll off k readings = forEach readings (\<lambda>(stats, now). RecordTraffic off k stats now)"

lemma same_but_handshake_member:
  assumes "same_but_handshake s s'" and "r \<in> set (t_peers s)"
  obtains r' where "r' \<in> set (t_peers s')" and "pr_id r' = pr_id r" and "pr_instance_id r' = pr_instance_id r"
    and "pr_public_key r' = pr_public_key r"
proof -
  let ?f = "\<lambda>r. r\<lparr>pr_last_handshake := None\<rparr>"
  have "?f r \<in> set (map ?f (t_peers s'))"
    using assms unfolding same_but_handshake_def by (metis image_eqI list.set_map)
  then obtain r' where "r' \<in> set (t_peers s')" "?f r = ?f r'" by auto
  then show ?thesis using that[of r'] by (metis (no_types, lifting) peer_row.select_convs peer_row.surjective peer_row.update_convs(16))
qed

lemma sane_next: "sane_counters cur \<Longrightarrow> (\<And>st. live = Some st \<Longrightarrow> sane_stats st) \<Longrightarrow> sane_counters (next_counters cur live)"
  by (auto simp: next_counters_def sane_counters_def sane_stats_def split: option.splits)

lemma same_but_handshake_sym: "same_but_handshake s t \<Longrightarrow> same_but_handshake t s"
  by (simp add: same_but_handshake_def)

lemma readings_sane_step:
  assumes run: "RecordTraffic off k stats now s = (Inr u, s')" and inv: "db_inv s" and sane: "readings_sane s stats"
    and stats': "\<forall>(k, st) \<in> set stats'. sane_stats st"
  shows "readings_sane s' stats'"
  unfolding readings_sane_def
proof (rule conjI[OF _ stats'], rule ballI)
  fix r' assume r': "r' \<in> set (t_peers s')"
  show "sane_counters (counters_of (pr_id r') s')"
  proof (cases "t_peers s = []")
    case True
    have "same_but_handshake s s'"
      using RecordTraffic_Inr[OF run] True by (auto simp: counter_rows_def same_tables_def same_but_handshake_def)
    then show ?thesis using r' True by (simp add: same_but_handshake_def)
  next
    case False
    then obtain q where "q \<in> set (t_peers s)" by (cases "t_peers s") auto
    from RecordTraffic_device(3)[OF run inv sane this] have same: "same_but_handshake s' s" by (rule same_but_handshake_sym)
    obtain r where r: "r \<in> set (t_peers s)" "pr_id r = pr_id r'"
      using same_but_handshake_member[OF same r'] by metis
    have "sane_counters (counters_of (pr_id r) s)" using sane r(1) by (simp add: readings_sane_def)
    moreover have "live_map stats (pr_public_key r) = Some st \<Longrightarrow> sane_stats st" for st
      using live_map_sane[of stats] sane by (simp add: readings_sane_def)
    ultimately show ?thesis
      using RecordTraffic_device(1)[OF run inv sane r(1)] r(2) sane_next by auto
  qed
qed

lemma RecordTraffic_device_of:
  assumes "RecordTraffic off k stats now s = (Inr u, s')" and "db_inv s" and "readings_sane s stats"
    and "r \<in> set (t_peers s)" and "pr_instance_id r = k" and "Q (dayKey off now)"
  shows "device_of Q (pr_id r) s' = device_step (live_map stats (pr_public_key r)) (device_of Q (pr_id r) s)"
  using RecordTraffic_device(1,2)[OF assms(1-4)] assms(5,6) by (simp add: device_of_def device_step_def)

lemma RecordAll_device_of:
  assumes "RecordAll off k readings s = (Inr u, s')" and "db_inv s"
    and "\<forall>(stats, now) \<in> set readings. readings_sane s stats \<and> Q (dayKey off now)"
    and "r \<in> set (t_peers s)" and "pr_instance_id r = k"
  shows "device_of Q (pr_id r) s' =
      fold device_step (lives (pr_public_key r) readings) (device_of Q (pr_id r) s) \<and>
    db_inv s' \<and> same_but_handshake s s'"
  using assms
proof (induction readings arbitrary: s r)
  case Nil
  then show ?case by (simp add: RecordAll_def)
next
  case (Cons x readings)
  obtain stats now where x: "x = (stats, now)" by (cases x)
  obtain t v where t: "RecordTraffic off k stats now s = (Inr v, t)" and rest: "RecordAll off k readings t = (Inr u, s')"
    using Cons.prems(1) by (auto simp: RecordAll_def x elim!: thn_InrE)
  have sane: "readings_sane s stats" and q: "Q (dayKey off now)" using Cons.prems(3) x by simp_all
  have inv: "db_inv t" using keeps_run[OF keeps_RecordTraffic Cons.prems(2) t] .
  have sane': "\<forall>(stats, now) \<in> set readings. readings_sane t stats \<and> Q (dayKey off now)"
    using Cons.prems(3) readings_sane_step[OF t Cons.prems(2) sane] by (auto simp: readings_sane_def)
  obtain r' where r': "r' \<in> set (t_peers t)" "pr_id r' = pr_id r" "pr_instance_id r' = k" "pr_public_key r' = pr_public_key r"
    using same_but_handshake_member[OF RecordTraffic_device(3)[OF t Cons.prems(2) sane Cons.prems(4)] Cons.prems(4)]
      Cons.prems(5) by metis
  show ?case
    using Cons.IH[OF rest inv sane' r'(1,3)] r'(2,4) RecordTraffic_device_of[OF t Cons.prems(2) sane Cons.prems(4,5), of Q, OF q]
      same_but_handshake_trans[OF RecordTraffic_device(3)[OF t Cons.prems(2) sane Cons.prems(4)]]
    by (simp add: x)
qed

text \<open>While the counters only grow, the usage added is the last reading less the first.\<close>

definition reading :: "int \<times> int \<Rightarrow> PeerStats" where
  "reading c = \<lparr>st_Endpoint = [], st_LatestHandshake = None, st_RxBytes = fst c, st_TxBytes = snd c, st_Online = False\<rparr>"

lemma device_telescope:
  assumes "sorted (map st_RxBytes (st0 # sts))" and "sorted (map st_TxBytes (st0 # sts))"
  defines "l \<equiv> last (st0 # sts)"
  shows "fold device_step (map Some sts) (Some (st_RxBytes st0, st_TxBytes st0), used) =
    (Some (st_RxBytes l, st_TxBytes l),
     traffic_add used \<lparr>RxBytes = st_RxBytes l - st_RxBytes st0, TxBytes = st_TxBytes l - st_TxBytes st0\<rparr>)"
  using assms(1,2) unfolding l_def
proof (induction sts arbitrary: st0 used)
  case Nil
  then show ?case by (auto intro: traffic_eqI)
next
  case (Cons st sts)
  have "device_step (Some st) (Some (st_RxBytes st0, st_TxBytes st0), used) =
      (Some (st_RxBytes st, st_TxBytes st),
       traffic_add used \<lparr>RxBytes = st_RxBytes st - st_RxBytes st0, TxBytes = st_TxBytes st - st_TxBytes st0\<rparr>)"
    using Cons.prems by (auto simp: device_step_def next_counters_def recorded_def growth_def)
  then show ?case using Cons.IH[of st] Cons.prems by (auto intro: traffic_eqI)
qed

section \<open>Usage never exceeds the traffic\<close>

text \<open>
  The world around one device: traffic moves its counters, a restart of the interface zeroes them
  unseen, taking the device off the interface zeroes them, and the panel reads now and then: the
  counters, or that the device is not there.
\<close>

datatype world_event = Flow nat nat | Restart | Read | ReadOff

record world =
  w_counters :: "int \<times> int"
  w_true :: Traffic
  w_device :: device

inductive world_step :: "world \<Rightarrow> world_event \<Rightarrow> world \<Rightarrow> bool" where
  flow: "world_step w (Flow a b) (w\<lparr>w_counters := (fst (w_counters w) + int a, snd (w_counters w) + int b),
     w_true := traffic_add (w_true w) \<lparr>RxBytes = int a, TxBytes = int b\<rparr>\<rparr>)"
| restart: "world_step w Restart (w\<lparr>w_counters := (0, 0)\<rparr>)"
| read: "world_step w Read (w\<lparr>w_device := device_step (Some (reading (w_counters w))) (w_device w)\<rparr>)"
| readOff: "world_step w ReadOff (w\<lparr>w_counters := (0, 0), w_device := device_step None (w_device w)\<rparr>)"

inductive world_run :: "world \<Rightarrow> world_event list \<Rightarrow> world \<Rightarrow> bool" where
  nil: "world_run w [] w"
| cons: "world_step w e w' \<Longrightarrow> world_run w' es w'' \<Longrightarrow> world_run w (e # es) w''"

inductive_cases world_stepE: "world_step w e w'"
inductive_cases world_runE: "world_run w es w'"

inductive_simps world_step_simps [simp]:
  "world_step w (Flow a b) w'" "world_step w Restart w'" "world_step w Read w'" "world_step w ReadOff w'"

text \<open>Traffic a b of the truth not counted yet, from above: what flowed since the last reading.\<close>

definition world_inv :: "world \<Rightarrow> bool" where
  "world_inv w \<longleftrightarrow> (case w_counters w of (crx, ctx) \<Rightarrow> 0 \<le> crx \<and> 0 \<le> ctx \<and>
     (case fst (w_device w) of
        None \<Rightarrow> RxBytes (snd (w_device w)) \<le> RxBytes (w_true w) \<and> TxBytes (snd (w_device w)) \<le> TxBytes (w_true w)
      | Some (rx, tx) \<Rightarrow> 0 \<le> rx \<and> 0 \<le> tx \<and> (\<exists>a b. 0 \<le> a \<and> 0 \<le> b \<and>
          RxBytes (snd (w_device w)) + a \<le> RxBytes (w_true w) \<and> TxBytes (snd (w_device w)) + b \<le> TxBytes (w_true w) \<and>
          (crx = rx + a \<and> ctx = tx + b \<or> crx \<le> a \<and> ctx \<le> b))))"

lemma world_inv_bound: "world_inv w \<Longrightarrow> RxBytes (snd (w_device w)) \<le> RxBytes (w_true w) \<and> TxBytes (snd (w_device w)) \<le> TxBytes (w_true w)"
  by (auto simp: world_inv_def split: prod.splits option.splits)

lemma world_inv_flow:
  assumes "world_inv w"
  shows "world_inv (w\<lparr>w_counters := (fst (w_counters w) + int a, snd (w_counters w) + int b),
     w_true := traffic_add (w_true w) \<lparr>RxBytes = int a, TxBytes = int b\<rparr>\<rparr>)"
proof (cases "fst (w_device w)")
  case None
  then show ?thesis using assms by (auto simp: world_inv_def split: prod.splits)
next
  case (Some c)
  obtain rx tx where c: "c = (rx, tx)" by (cases c)
  obtain crx ctx where cc: "w_counters w = (crx, ctx)" by (cases "w_counters w")
  obtain x y where xy: "0 \<le> x" "0 \<le> y" "RxBytes (snd (w_device w)) + x \<le> RxBytes (w_true w)"
      "TxBytes (snd (w_device w)) + y \<le> TxBytes (w_true w)" "crx = rx + x \<and> ctx = tx + y \<or> crx \<le> x \<and> ctx \<le> y"
    using assms Some c cc by (auto simp: world_inv_def)
  have "\<exists>x' y'. 0 \<le> x' \<and> 0 \<le> y' \<and>
      RxBytes (snd (w_device w)) + x' \<le> RxBytes (w_true w) + int a \<and> TxBytes (snd (w_device w)) + y' \<le> TxBytes (w_true w) + int b \<and>
      (crx + int a = rx + x' \<and> ctx + int b = tx + y' \<or> crx + int a \<le> x' \<and> ctx + int b \<le> y')"
    using xy by (intro exI[of _ "x + int a"] exI[of _ "y + int b"]) auto
  then show ?thesis using assms Some c cc by (auto simp: world_inv_def)
qed

lemma world_inv_step: "world_step w e w' \<Longrightarrow> world_inv w \<Longrightarrow> world_inv w'"
proof (induction rule: world_step.induct)
  case (flow w a b)
  then show ?case by (rule world_inv_flow)
next
  case (restart w)
  obtain crx ctx where cc: "w_counters w = (crx, ctx)" by (cases "w_counters w")
  show ?case
  proof (cases "fst (w_device w)")
    case None
    then show ?thesis using restart cc by (simp add: world_inv_def)
  next
    case (Some c)
    obtain rx tx where c: "c = (rx, tx)" by (cases c)
    obtain x y where "0 \<le> x" "0 \<le> y" "RxBytes (snd (w_device w)) + x \<le> RxBytes (w_true w)"
        "TxBytes (snd (w_device w)) + y \<le> TxBytes (w_true w)" "0 \<le> rx" "0 \<le> tx"
      using restart Some c cc by (auto simp: world_inv_def)
    then show ?thesis using Some c by (simp add: world_inv_def) blast
  qed
next
  case (read w)
  obtain crx ctx where cc: "w_counters w = (crx, ctx)" by (cases "w_counters w")
  let ?d = "device_step (Some (reading (w_counters w))) (w_device w)"
  have pos: "0 \<le> crx" "0 \<le> ctx" using read cc by (simp_all add: world_inv_def)
  have "RxBytes (snd ?d) \<le> RxBytes (w_true w) \<and> TxBytes (snd ?d) \<le> TxBytes (w_true w)"
  proof (cases "fst (w_device w)")
    case None
    then show ?thesis using world_inv_bound[OF read] by (simp add: device_step_def recorded_def)
  next
    case (Some c)
    obtain rx tx where c: "c = (rx, tx)" by (cases c)
    obtain x y where "0 \<le> x" "0 \<le> y" "RxBytes (snd (w_device w)) + x \<le> RxBytes (w_true w)"
        "TxBytes (snd (w_device w)) + y \<le> TxBytes (w_true w)" "crx = rx + x \<and> ctx = tx + y \<or> crx \<le> x \<and> ctx \<le> y"
        "0 \<le> rx" "0 \<le> tx"
      using read Some c cc by (auto simp: world_inv_def)
    then show ?thesis using Some c cc by (simp add: device_step_def recorded_def reading_def growth_def) linarith
  qed
  moreover have "fst ?d = Some (crx, ctx)" by (simp add: device_step_def next_counters_def reading_def cc)
  ultimately have "\<exists>a b. 0 \<le> a \<and> 0 \<le> b \<and> RxBytes (snd ?d) + a \<le> RxBytes (w_true w) \<and> TxBytes (snd ?d) + b \<le> TxBytes (w_true w) \<and>
      (crx = crx + a \<and> ctx = ctx + b \<or> crx \<le> a \<and> ctx \<le> b)"
    by (intro exI[of _ "0 :: int"]) simp
  with pos \<open>fst ?d = Some (crx, ctx)\<close> show ?case by (simp add: world_inv_def cc)
next
  case (readOff w)
  have "snd (device_step None (w_device w)) = snd (w_device w)" by (simp add: device_step_def recorded_def split: option.split)
  moreover have "fst (device_step None (w_device w)) = map_option (\<lambda>_. (0, 0)) (fst (w_device w))"
    by (simp add: device_step_def next_counters_def)
  ultimately show ?case
    using world_inv_bound[OF readOff] by (cases "fst (w_device w)") (auto simp: world_inv_def intro!: exI[of _ "0 :: int"])
qed

lemma world_inv_run: "world_run w es w' \<Longrightarrow> world_inv w \<Longrightarrow> world_inv w'"
  by (induction rule: world_run.induct) (auto intro: world_inv_step)

section \<open>What counts after a reset\<close>

lemma device_fold_shift:
  "fold device_step ls (c, traffic_add u v) = (let d = fold device_step ls (c, v) in (fst d, traffic_add u (snd d)))"
proof (induction ls arbitrary: c v)
  case Nil
  then show ?case by simp
next
  case (Cons l ls)
  have "device_step l (c, traffic_add u v) = (next_counters c l, traffic_add u (traffic_add v (recorded c l)))"
    by (simp add: device_step_def traffic_add_assoc)
  moreover have "device_step l (c, v) = (next_counters c l, traffic_add v (recorded c l))" by (simp add: device_step_def)
  ultimately show ?case using Cons by (simp add: Let_def)
qed

lemma device_fold_nonneg:
  assumes "sane_counters c" and "\<forall>l \<in> set ls. \<forall>st. l = Some st \<longrightarrow> sane_stats st" and "0 \<le> RxBytes u" and "0 \<le> TxBytes u"
  shows "0 \<le> RxBytes (snd (fold device_step ls (c, u))) \<and> 0 \<le> TxBytes (snd (fold device_step ls (c, u)))"
  using assms
proof (induction ls arbitrary: c u)
  case Nil
  then show ?case by simp
next
  case (Cons l ls)
  have "sane_counters (next_counters c l)" using Cons.prems(1,2) by (intro sane_next) auto
  moreover have "0 \<le> RxBytes (recorded c l) \<and> 0 \<le> TxBytes (recorded c l)"
    using Cons.prems(1,2) growth_nonneg(1,2)
    by (auto simp: recorded_def sane_counters_def split: option.splits)
  ultimately show ?case using Cons by (simp add: device_step_def)
qed

text \<open>What \<open>ResetPeerUsage\<close> writes, and that it writes nothing else.\<close>

definition reset_row :: "(int \<Rightarrow> int) \<Rightarrow> gotime \<Rightarrow> Traffic \<Rightarrow> peer_row \<Rightarrow> peer_row" where
  "reset_row off now used r = r\<lparr>pr_usage_reset_at := Some (unix now), pr_usage_reset_day := dayKey off now,
     pr_usage_reset_rx := RxBytes used, pr_usage_reset_tx := TxBytes used, pr_updated_at := unix now\<rparr>"

lemma ResetPeerUsage_Inr:
  assumes "ResetPeerUsage off k now s = (Inr p, s')"
  shows "same_tables (map_peer k (reset_row off now (usage_on k (dayKey off now) s)) s) s'"
proof -
  let ?f = "\<lambda>s :: 'a db_scheme. (Inr (length (filter (\<lambda>r. pr_id r = k) (t_peers s))) :: err + nat,
    map_peer k (reset_row off now (usage_on k (dayKey off now) s)) s)"
  obtain n t where t: "stmt ?f s = (Inr n, t)" and rest: "thn (expectOneRow n) (PeerByID k) t = (Inr p, s')"
    using assms unfolding ResetPeerUsage_def Let_def reset_row_def[symmetric]
    by (auto elim!: bnd_InrE dest!: mapErr_InrE)
  have "same_tables (map_peer k (reset_row off now (usage_on k (dayKey off now) s)) s) t"
    by (rule doesD[OF does_stmt t]) (auto simp: map_peer_def usage_on_def)
  moreover have "same_tables t s'"
    using rest by (cases rule: query_cases[of "peer_by_id k" t])
      (auto simp: PeerByID_def bnd_def mapErr_def expectOneRow_def thn_def split: if_splits option.splits)
  ultimately show ?thesis by (rule same_tables_trans)
qed

lemma day_le_refl [simp]: "day_le d d"
  by (simp add: day_le_def)

lemma traffic_sum_usage_from: "traffic_sum (usage_from k day s) = usage_where k (day_le day) s"
  by (simp add: usage_from_def usage_where_def)

text \<open>The columns a reading leaves alone.\<close>

lemma same_but_handshake_columns:
  assumes "same_but_handshake s s'" and "r' \<in> set (t_peers s')" and "distinct (map pr_id (t_peers s))"
    and "r \<in> set (t_peers s)" and "pr_id r' = pr_id r"
  shows "r'\<lparr>pr_last_handshake := None\<rparr> = r\<lparr>pr_last_handshake := None\<rparr>"
proof -
  let ?f = "\<lambda>r. r\<lparr>pr_last_handshake := None\<rparr>"
  have "?f r' \<in> set (map ?f (t_peers s))" using assms(1,2) unfolding same_but_handshake_def by (metis image_eqI list.set_map)
  then obtain q where q: "q \<in> set (t_peers s)" "?f r' = ?f q" by auto
  then have "pr_id (?f r') = pr_id (?f q)" by simp
  then have "pr_id q = pr_id r" using assms(5) by simp
  then show ?thesis using q distinct_map_inj_on[OF assms(3) q(1) assms(4)] by simp
qed

lemma limit_since_reset:
  assumes inv: "db_inv s" and r: "r \<in> set (t_peers s)" "pr_instance_id r = m"
    and reset: "ResetPeerUsage off (pr_id r) now s = (Inr p, s1)"
    and run: "RecordAll off m readings s1 = (Inr u, s2)"
    and sane: "\<forall>(stats, t) \<in> set readings. readings_sane s1 stats \<and> day_le (dayKey off now) (dayKey off t)"
    and none_later: "\<forall>u \<in> set (t_usage s). ur_peer_id u = pr_id r \<and> day_le (dayKey off now) (ur_day u) \<longrightarrow> ur_day u = dayKey off now"
    and r2: "r2 \<in> set (t_peers s2)" "pr_id r2 = pr_id r" and start: "limitStart month r2 = dayKey off now"
    and cur: "sane_counters (counters_of (pr_id r) s)"
  shows "limit_traffic month r2 s2 =
    snd (fold device_step (lives (pr_public_key r) readings) (counters_of (pr_id r) s, no_traffic))"
proof -
  let ?day = "dayKey off now" and ?k = "pr_id r"
  let ?U = "usage_on ?k ?day s" and ?c = "counters_of ?k s"
  let ?r1 = "reset_row off now ?U r"
  let ?ls = "lives (pr_public_key r) readings"
  have same1: "same_tables (map_peer ?k (reset_row off now ?U) s) s1" by (rule ResetPeerUsage_Inr[OF reset])
  have keys: "distinct (usage_keys s)" using inv by (simp add: db_inv_def usage_inv_def usage_keys_def)
  have "filter (\<lambda>u. ur_peer_id u = ?k \<and> day_le ?day (ur_day u)) (t_usage s) = filter (\<lambda>u. ur_peer_id u = ?k \<and> ur_day u = ?day) (t_usage s)"
    using none_later by (intro filter_cong) auto
  then have "usage_where ?k (day_le ?day) s = ?U" by (simp add: usage_on_where[OF keys] usage_where_def)
  then have d1: "device_of (day_le ?day) ?k s1 = (?c, ?U)"
    using same1 by (auto simp: device_of_def same_tables_def usage_where_def counters_of_def map_peer_def)
  have inv1: "db_inv s1" using keeps_run[OF keeps_ResetPeerUsage inv reset] .
  have r1: "?r1 \<in> set (t_peers s1)" "pr_id ?r1 = ?k" "pr_instance_id ?r1 = m" "pr_public_key ?r1 = pr_public_key r"
    using same1 r by (auto simp: same_tables_def map_peer_def reset_row_def)
  have all: "device_of (day_le ?day) ?k s2 = fold device_step ?ls (?c, ?U)" and hs: "same_but_handshake s1 s2"
    using RecordAll_device_of[OF run inv1 sane r1(1,3)] d1 r1(2,4) by simp_all
  have "r2\<lparr>pr_last_handshake := None\<rparr> = ?r1\<lparr>pr_last_handshake := None\<rparr>"
    using same_but_handshake_columns[OF hs r2(1) _ r1(1)] inv1 r2(2) r1(2) by (simp add: db_inv_def peers_inv_def)
  then have "pr_usage_reset_day (r2\<lparr>pr_last_handshake := None\<rparr>) = ?day" "pr_usage_reset_rx (r2\<lparr>pr_last_handshake := None\<rparr>) = RxBytes ?U"
      "pr_usage_reset_tx (r2\<lparr>pr_last_handshake := None\<rparr>) = TxBytes ?U"
    by (simp_all add: reset_row_def)
  then have cols: "pr_usage_reset_day r2 = ?day" "pr_usage_reset_rx r2 = RxBytes ?U" "pr_usage_reset_tx r2 = TxBytes ?U"
    by simp_all
  let ?n = "snd (fold device_step ?ls (?c, no_traffic))"
  have sum: "traffic_sum (usage_from (pr_id r2) ?day s2) = traffic_add ?U ?n"
    using all device_fold_shift[of ?ls ?c ?U no_traffic] r2(2)
    by (simp add: traffic_sum_usage_from device_of_def Let_def prod_eq_iff)
  have "\<forall>l \<in> set ?ls. \<forall>st. l = Some st \<longrightarrow> sane_stats st"
    using sane live_map_sane by (fastforce simp: readings_sane_def lives_def)
  then have "0 \<le> RxBytes ?n \<and> 0 \<le> TxBytes ?n" using device_fold_nonneg[OF cur] by simp
  then have "limit_traffic month r2 s2 = ?n"
    using sum cols start by (intro traffic_eqI) (simp_all add: limit_traffic_def Let_def)
  then show ?thesis .
qed

text \<open>
  The SQL filter and the Go value agree on a device whose usage on its reset day has not shrunk
  since: then neither direction is cut off at zero on its own.
\<close>

definition reset_ok :: "'z db_scheme \<Rightarrow> peer_row \<Rightarrow> bool" where
  "reset_ok s r \<longleftrightarrow> pr_usage_reset_rx r \<le> RxBytes (usage_where (pr_id r) (day_le (pr_usage_reset_day r)) s) \<and>
     pr_usage_reset_tx r \<le> TxBytes (usage_where (pr_id r) (day_le (pr_usage_reset_day r)) s) \<and>
     (\<forall>Q. 0 \<le> RxBytes (usage_where (pr_id r) Q s) \<and> 0 \<le> TxBytes (usage_where (pr_id r) Q s))"

lemma limitUsed_limit_traffic:
  assumes "reset_ok s r"
  shows "limitUsed month r s = RxBytes (limit_traffic month r s) + TxBytes (limit_traffic month r s)"
  using assms by (auto simp: limitUsed_def limit_traffic_def Let_def traffic_sum_usage_from reset_ok_def)

end
