(* ===== verification/StoreDevices.thy ===== *)
theory StoreDevices
  imports TrafficSpec
begin

text \<open>
  internal/store/devices.go: devices across servers, with the status filter in SQL. The facts at the
  end say that the filter is \<open>wg.Peer.Status\<close> on what counts toward the limit.
\<close>

record DeviceFilter =
  df_InstanceID :: int
  df_ExternalID :: string
  df_Status :: string
  df_After :: int
  df_Limit :: int

text \<open>SQLite's \<open>LIMIT\<close>: a negative one is none.\<close>

definition sql_limit :: "int \<Rightarrow> 'a list \<Rightarrow> 'a list" where
  "sql_limit n xs = (if n < 0 then xs else take (nat n) xs)"

text \<open>The SQL conditions, on the row: first those on columns, then \<open>live\<close> and the status.\<close>

definition row_live :: "int \<Rightarrow> peer_row \<Rightarrow> bool" where
  "row_live at r \<longleftrightarrow> pr_enabled r \<and> (case pr_expires_at r of None \<Rightarrow> True | Some e \<Rightarrow> e > at)"

definition row_status :: "string \<Rightarrow> string \<Rightarrow> int \<Rightarrow> 'z db_scheme \<Rightarrow> peer_row \<Rightarrow> bool" where
  "row_status st month at s r =
     (if st = StatusDisabled then \<not> pr_enabled r
      else if st = StatusExpired then pr_enabled r \<and> (case pr_expires_at r of None \<Rightarrow> False | Some e \<Rightarrow> e \<le> at)
      else if st = StatusLimitReached then row_live at r \<and> pr_data_limit r > 0 \<and> limitUsed month r s \<ge> pr_data_limit r
      else if st = StatusActive then row_live at r \<and> (pr_data_limit r = 0 \<or> limitUsed month r s < pr_data_limit r)
      else True)"

definition row_columns :: "DeviceFilter \<Rightarrow> peer_row \<Rightarrow> bool" where
  "row_columns f r \<longleftrightarrow> pr_id r > df_After f \<and> (df_InstanceID f > 0 \<longrightarrow> pr_instance_id r = df_InstanceID f) \<and>
     (df_ExternalID f \<noteq> [] \<longrightarrow> pr_external_id r = df_ExternalID f)"

definition Devices :: "(int \<Rightarrow> int) \<Rightarrow> DeviceFilter \<Rightarrow> gotime \<Rightarrow> ('z, Peer list) sql" where
  "Devices off f now =
     (let month = dayKey off (MonthStart off now); at = unix now
      in bnd (mapErr (Errorf ''list devices'') (query (\<lambda>s. sql_limit (df_Limit f) (sort_key pr_id
           (filter (\<lambda>r. row_columns f r \<and> row_status (df_Status f) month at s r) (t_peers s)))))) (\<lambda>rows.
         liftE (scan_all scanPeer rows)))"

definition PeersMonthUsage :: "(int \<Rightarrow> int) \<Rightarrow> int list \<Rightarrow> gotime \<Rightarrow> ('z, (int \<times> Traffic) list) sql" where
  "PeersMonthUsage off ids now =
     (if ids = [] then ret []
      else mapErr (Errorf ''month usage'') (query (\<lambda>s. let month = dayKey off (MonthStart off now) in
        map (\<lambda>k. (k, traffic_sum (usage_from k month s)))
          (remdups (map ur_peer_id (filter (\<lambda>u. day_le month (ur_day u) \<and> ur_peer_id u \<in> set ids) (t_usage s)))))))"

section \<open>The filter is the status\<close>

lemma time_Unix_le: "time_Unix e \<le> now \<longleftrightarrow> e \<le> unix now"
proof -
  have "e \<le> now div second" if "e * second \<le> now"
    using zdiv_mono1[OF that, of second] by simp
  moreover have "now div second * second \<le> now" using div_mult_mod_eq[of now second] pos_mod_sign[of second now] by linarith
  then have "e * second \<le> now" if "e \<le> now div second"
    using that mult_right_mono[of e "now div second" second] by simp
  ultimately have "e * second \<le> now \<longleftrightarrow> e \<le> now div second" by blast
  then show ?thesis by (simp add: time_Unix_def unix_def)
qed

lemma scanPeer_columns:
  assumes "scanPeer r = Inr p"
  shows "p_ID p = pr_id r" "p_Enabled p = pr_enabled r" "p_DataLimit p = pr_data_limit r"
    "p_ExpiresAt p = map_option time_Unix (pr_expires_at r)" "p_InstanceID p = pr_instance_id r"
    "p_ExternalID p = pr_external_id r"
  using assms by (auto simp: scanPeer_def Let_def timeOf_def split: option.splits)

lemma row_status_peer_Status:
  assumes "scanPeer r = Inr p" and "0 \<le> pr_data_limit r" and "Total used = limitUsed month r s" and "status_Valid st"
  shows "row_status st month (unix now) s r \<longleftrightarrow> peer_Status p used now = st"
  using assms(2-4)
  by (auto simp: row_status_def row_live_def peer_Status_def Blocked_def scanPeer_columns[OF assms(1)] time_Unix_le
      not_less status_Valid_def status_defs split: option.splits)

text \<open>\<open>scan_all\<close> commutes with a filter the rows and the values agree on.\<close>

lemma scan_all_map: "scan_all f rs = Inr vs \<longleftrightarrow> map f rs = map Inr vs"
proof (induction rs arbitrary: vs)
  case Nil
  then show ?case by auto
next
  case (Cons r rs)
  show ?case
  proof (cases "f r")
    case (Inl e)
    then show ?thesis by (cases vs) auto
  next
    case (Inr v)
    then show ?thesis using Cons.IH by (cases vs; cases "scan_all f rs") auto
  qed
qed

lemma scan_all_filter:
  assumes "scan_all f rs = Inr vs" and "\<And>r v. r \<in> set rs \<Longrightarrow> f r = Inr v \<Longrightarrow> P r = Q v"
  shows "scan_all f (filter P rs) = Inr (filter Q vs)"
  using assms by (induction rs arbitrary: vs) (auto split: sum.splits)

lemma scan_all_take: "scan_all f rs = Inr vs \<Longrightarrow> scan_all f (take n rs) = Inr (take n vs)"
  by (metis scan_all_map take_map)

lemma scan_all_limit: "scan_all f rs = Inr vs \<Longrightarrow> scan_all f (sql_limit n rs) = Inr (sql_limit n vs)"
  by (simp add: sql_limit_def scan_all_take)

lemma scan_all_member: "scan_all f rs = Inr vs \<Longrightarrow> r \<in> set rs \<Longrightarrow> \<exists>v \<in> set vs. f r = Inr v"
proof -
  assume "scan_all f rs = Inr vs" and r: "r \<in> set rs"
  then have "map f rs = map Inr vs" by (simp add: scan_all_map)
  then have "set (map f rs) = set (map Inr vs)" by (rule arg_cong)
  then have "f r \<in> Inr ` set vs" using r by auto
  then show ?thesis by auto
qed

text \<open>What the map of limits says of a device is what counts toward its limit.\<close>

lemma usage_of_limitUsage:
  assumes "distinct (map pr_id (t_peers s))" and "r \<in> set (t_peers s)" and "P r" and "reset_ok s r"
    and "int64_range (limitUsed month r s)"
  shows "Total (usage_of (filter (\<lambda>(_, t). Total t > 0)
      (map (\<lambda>r. (pr_id r, limit_traffic month r s)) (filter P (t_peers s)))) (pr_id r)) = limitUsed month r s"
proof -
  let ?t = "limit_traffic month r s"
  let ?m = "map (\<lambda>r. (pr_id r, limit_traffic month r s)) (filter P (t_peers s))"
  have d: "distinct (map fst ?m)" using assms(1) by (simp add: comp_def distinct_map_filter)
  have mem: "(pr_id r, ?t) \<in> set ?m" using assms(2,3) by auto
  have sum: "limitUsed month r s = RxBytes ?t + TxBytes ?t" using assms(4) by (rule limitUsed_limit_traffic)
  then have total: "Total ?t = limitUsed month r s" using assms(5) by (simp add: Total_exact)
  have nonneg: "0 \<le> limitUsed month r s" by (simp add: limitUsed_def Let_def)
  show ?thesis
  proof (cases "Total ?t > 0")
    case True
    then have "(pr_id r, ?t) \<in> set (filter (\<lambda>(_, t). Total t > 0) ?m)" using mem by simp
    then have "map_of (filter (\<lambda>(_, t). Total t > 0) ?m) (pr_id r) = Some ?t"
      using d by (intro map_of_is_SomeI distinct_map_filter)
    then show ?thesis by (simp add: usage_of_def total)
  next
    case False
    then have none: "(pr_id r, x) \<notin> set (filter (\<lambda>(_, t). Total t > 0) ?m)" for x
      using eq_key_imp_eq_value[OF d mem, of x] by auto
    then have "map_of (filter (\<lambda>(_, t). Total t > 0) ?m) (pr_id r) = None"
      by (meson map_of_SomeD not_None_eq)
    then show ?thesis using False nonneg total by (simp add: usage_of_def no_traffic_def Total_def wrap64_def)
  qed
qed

end
