(* ===== verification/StoreEvents.thy ===== *)
theory StoreEvents
  imports StorePanel StoreDevices
begin

text \<open>
  internal/store/events.go: the activity log. Listing it is SQL with LIKE patterns on the kind; the
  facts at the end read the patterns and the paging.
\<close>

record Event =
  e_ID :: int
  e_CreatedAt :: gotime
  e_Kind :: string
  e_InstanceID :: int
  e_InstanceName :: string
  e_PeerID :: int
  e_PeerName :: string
  e_NodeName :: string
  e_IP :: string
  e_Country :: string
  e_Detail :: string
  e_Actor :: string

text \<open>Go's zero time: January 1, year 1, UTC.\<close>

definition zero_time :: gotime where "zero_time = - 62135596800 * second"

definition CategoryConnection :: string where "CategoryConnection = ''connection''"
definition CategoryAuth :: string where "CategoryAuth = ''auth''"
definition CategoryChange :: string where "CategoryChange = ''change''"

lemmas category_defs = CategoryConnection_def CategoryAuth_def CategoryChange_def

record EventFilter =
  ef_Before :: int
  ef_After :: int
  ef_Ascending :: bool
  ef_Limit :: int
  ef_InstanceID :: int
  ef_PeerID :: int
  ef_Category :: string
  ef_Kinds :: "string list"
  ef_Families :: "string list"

definition nullID :: "int \<Rightarrow> int option" where
  "nullID k = (if k > 0 then Some k else None)"

definition event_row_of :: "gotime \<Rightarrow> Event \<Rightarrow> event_row" where
  "event_row_of now e =
     \<lparr>ev_id = 0, ev_created_at = unix (if e_CreatedAt e = zero_time then now else e_CreatedAt e), ev_kind = e_Kind e,
      ev_instance_id = nullID (e_InstanceID e), ev_instance_name = e_InstanceName e, ev_peer_id = nullID (e_PeerID e),
      ev_peer_name = e_PeerName e, ev_node_name = e_NodeName e, ev_ip = e_IP e, ev_country = e_Country e,
      ev_detail = e_Detail e, ev_actor = e_Actor e\<rparr>"

definition AddEvent :: "gotime \<Rightarrow> Event \<Rightarrow> ('z, int) psql" where
  "AddEvent now e = mapErr (Errorf ''add event'') (stmt (\<lambda>s. let k = t_event_seq s + 1 in
     (Inr k, s\<lparr>t_events := t_events s @ [(event_row_of now e)\<lparr>ev_id := k\<rparr>], t_event_seq := k\<rparr>)))"

text \<open>
  SQLite's LIKE on code points: a percent sign is any text, an underscore any one character, and the
  ASCII letters match in either case.
\<close>

definition fold_rune :: "nat \<Rightarrow> nat" where
  "fold_rune r = (if 65 \<le> r \<and> r \<le> 90 then r + 32 else r)"

fun like :: "nat list \<Rightarrow> nat list \<Rightarrow> bool" where
  "like [] s = (s = [])"
| "like (p # ps) [] = (p = 37 \<and> like ps [])"
| "like (p # ps) (c # s) =
     (if p = 37 then like ps (c # s) \<or> like (p # ps) s
      else (p = 95 \<or> fold_rune p = fold_rune c) \<and> like ps s)"

definition sql_like :: "string \<Rightarrow> string \<Rightarrow> bool" where
  "sql_like s pat = like (runes pat) (runes s)"

definition connectionKinds :: "string \<Rightarrow> bool" where
  "connectionKinds kind \<longleftrightarrow> kind \<in> {''device.connected'', ''device.disconnected''}"

definition authKinds :: "string \<Rightarrow> bool" where
  "authKinds kind \<longleftrightarrow> sql_like kind ''auth.%''"

definition category_matches :: "string \<Rightarrow> string \<Rightarrow> bool" where
  "category_matches cat kind =
     (if cat = CategoryConnection then connectionKinds kind
      else if cat = CategoryAuth then authKinds kind
      else if cat = CategoryChange then \<not> connectionKinds kind \<and> \<not> authKinds kind
      else True)"

definition event_matches :: "EventFilter \<Rightarrow> event_row \<Rightarrow> bool" where
  "event_matches f r \<longleftrightarrow>
     (ef_Before f > 0 \<longrightarrow> ev_id r < ef_Before f) \<and> (ef_After f > 0 \<longrightarrow> ev_id r > ef_After f) \<and>
     (ef_Kinds f \<noteq> [] \<longrightarrow> ev_kind r \<in> set (ef_Kinds f)) \<and>
     (ef_Families f \<noteq> [] \<longrightarrow> (\<exists>fam \<in> set (ef_Families f). sql_like (ev_kind r) (fam @ ''.%''))) \<and>
     (ef_InstanceID f > 0 \<longrightarrow> ev_instance_id r = Some (ef_InstanceID f)) \<and>
     (ef_PeerID f > 0 \<longrightarrow> ev_peer_id r = Some (ef_PeerID f)) \<and>
     category_matches (ef_Category f) (ev_kind r)"

definition event_of_row :: "event_row \<Rightarrow> Event" where
  "event_of_row r =
     \<lparr>e_ID = ev_id r, e_CreatedAt = time_Unix (ev_created_at r), e_Kind = ev_kind r,
      e_InstanceID = (case ev_instance_id r of None \<Rightarrow> 0 | Some k \<Rightarrow> k), e_InstanceName = ev_instance_name r,
      e_PeerID = (case ev_peer_id r of None \<Rightarrow> 0 | Some k \<Rightarrow> k), e_PeerName = ev_peer_name r,
      e_NodeName = ev_node_name r, e_IP = ev_ip r, e_Country = ev_country r, e_Detail = ev_detail r,
      e_Actor = ev_actor r\<rparr>"

definition Events :: "EventFilter \<Rightarrow> ('z, Event list) psql" where
  "Events f = mapErr (Errorf ''list events'') (query (\<lambda>s.
     let rows = sort_key ev_id (filter (event_matches f) (t_events s)) in
     map event_of_row (sql_limit (ef_Limit f) (if ef_Ascending f then rows else rev rows))))"

definition DeleteEventsBefore :: "gotime \<Rightarrow> ('z, nat) psql" where
  "DeleteEventsBefore t = mapErr (Errorf ''delete old events'') (stmt (\<lambda>s.
     (Inr (length (filter (\<lambda>r. ev_created_at r < unix t) (t_events s))),
      s\<lparr>t_events := filter (\<lambda>r. \<not> ev_created_at r < unix t) (t_events s)\<rparr>)))"

section \<open>Facts\<close>

definition events_inv :: "'z panel_scheme \<Rightarrow> bool" where
  "events_inv s \<longleftrightarrow> sorted_wrt (<) (map ev_id (t_events s)) \<and> (\<forall>r \<in> set (t_events s). 0 < ev_id r \<and> ev_id r \<le> t_event_seq s) \<and>
     0 \<le> t_event_seq s"

lemma events_inv_faults [simp]: "events_inv (s\<lparr>t_faults := bs\<rparr>) = events_inv s"
  by (simp add: events_inv_def)

lemma keeps_AddEvent: "keeps events_inv (AddEvent now e)"
  unfolding AddEvent_def
  by (intro keeps_mapErr keeps_stmt) (auto simp: events_inv_def sorted_wrt_append Let_def)

lemma sorted_wrt_map_filter: "sorted_wrt R (map f xs) \<Longrightarrow> sorted_wrt R (map f (filter P xs))"
  by (induction xs) auto

lemma keeps_DeleteEventsBefore: "keeps events_inv (DeleteEventsBefore t)"
  unfolding DeleteEventsBefore_def
  by (intro keeps_mapErr keeps_stmt) (auto simp: events_inv_def sorted_wrt_map_filter)

text \<open>The log is in the order of its ids, so listing it oldest first is filtering it.\<close>

lemma sort_events: "events_inv s \<Longrightarrow> sort_key ev_id (filter P (t_events s)) = filter P (t_events s)"
proof -
  assume "events_inv s"
  then have "sorted_wrt (<) (map ev_id (filter P (t_events s)))" by (simp add: events_inv_def sorted_wrt_map_filter)
  then have "sorted (map ev_id (filter P (t_events s)))" by (rule strict_sorted_imp_sorted)
  then show ?thesis by (rule sort_key_id_if_sorted)
qed

text \<open>A pattern without wildcards and a final percent sign is a prefix, in any case of ASCII letters.\<close>

lemma like_any: "like [37] s"
  by (induction s) auto

lemma like_prefix:
  "37 \<notin> set ps \<Longrightarrow> 95 \<notin> set ps \<Longrightarrow>
   like (ps @ [37]) s \<longleftrightarrow> length ps \<le> length s \<and> map fold_rune (take (length ps) s) = map fold_rune ps"
proof (induction ps arbitrary: s)
  case Nil
  then show ?case by (simp add: like_any)
next
  case (Cons p ps)
  then have p: "p \<noteq> 37" "p \<noteq> 95" and IH: "\<And>s. like (ps @ [37]) s \<longleftrightarrow> length ps \<le> length s \<and> map fold_rune (take (length ps) s) = map fold_rune ps"
    by simp_all
  show ?case using p by (cases s) (auto simp: IH)
qed

text \<open>Every kind is in one of the three categories, and in one only.\<close>

lemma category_partition:
  "\<exists>!c. c \<in> {CategoryConnection, CategoryAuth, CategoryChange} \<and> category_matches c kind"
proof -
  have "runes ''auth.%'' = [97, 117, 116, 104, 46] @ [37]"
    "runes ''device.connected'' = [100] @ map byte ''evice.connected''" "runes ''device.disconnected'' = [100] @ map byte ''evice.disconnected''"
    by (simp_all add: runes_ascii)
  then have "\<not> authKinds ''device.connected''" "\<not> authKinds ''device.disconnected''"
    by (simp_all only: authKinds_def sql_like_def like_prefix) (simp_all add: fold_rune_def)
  then have disj: "\<not> (connectionKinds kind \<and> authKinds kind)" by (auto simp: connectionKinds_def)
  have "category_matches CategoryConnection kind = connectionKinds kind" "category_matches CategoryAuth kind = authKinds kind"
    "category_matches CategoryChange kind = (\<not> connectionKinds kind \<and> \<not> authKinds kind)"
    by (simp_all add: category_matches_def category_defs)
  then show ?thesis using disj by (cases "connectionKinds kind"; cases "authKinds kind") blast+
qed

text \<open>
  A poller: pages of at most \<open>n\<close> events, oldest first, each after the last id of the one before, until
  a page is empty; \<open>fuel\<close> bounds the pages.
\<close>

primrec poll :: "nat \<Rightarrow> EventFilter \<Rightarrow> int \<Rightarrow> ('z, Event list) psql" where
  "poll 0 f after = ret []"
| "poll (Suc fuel) f after =
     bnd (Events (f\<lparr>ef_After := after, ef_Ascending := True\<rparr>)) (\<lambda>page.
     if page = [] then ret []
     else bnd (poll fuel f (e_ID (last page))) (\<lambda>rest. ret (page @ rest)))"

definition pending :: "EventFilter \<Rightarrow> int \<Rightarrow> 'z panel_scheme \<Rightarrow> event_row list" where
  "pending f after s = filter (\<lambda>r. event_matches (f\<lparr>ef_After := 0\<rparr>) r \<and> ev_id r > after) (t_events s)"

lemma e_ID_row [simp]: "e_ID (event_of_row r) = ev_id r" by (simp add: event_of_row_def)

lemma Events_page:
  assumes "events_inv s" and "t_faults s = []" and "0 \<le> after" and "0 < ef_Limit f"
  shows "Events (f\<lparr>ef_After := after, ef_Ascending := True\<rparr>) s =
    (Inr (map event_of_row (take (nat (ef_Limit f)) (pending f after s))), s)"
proof -
  have "event_matches (f\<lparr>ef_After := after, ef_Ascending := True\<rparr>) r \<longleftrightarrow> event_matches (f\<lparr>ef_After := 0\<rparr>) r \<and> ev_id r > after"
    if "r \<in> set (t_events s)" for r
    using assms(1,3) that by (auto simp: event_matches_def events_inv_def)
  then have "filter (event_matches (f\<lparr>ef_After := after, ef_Ascending := True\<rparr>)) (t_events s) = pending f after s"
    unfolding pending_def by (rule filter_cong[OF refl])
  then show ?thesis
    using assms sort_events[OF assms(1), of "event_matches (f\<lparr>ef_After := after, ef_Ascending := True\<rparr>)"]
    by (simp add: Events_def mapErr_def sql_limit_def Let_def)
qed

lemma filter_after:
  assumes "sorted_wrt (<) (map g xs)" and "i < length xs"
  shows "filter (\<lambda>x. g x > (g (xs ! i) :: int)) xs = drop (Suc i) xs"
  using assms
proof (induction xs arbitrary: i)
  case Nil
  then show ?case by simp
next
  case (Cons x xs)
  show ?case
  proof (cases i)
    case 0
    then show ?thesis using Cons.prems by simp
  next
    case (Suc j)
    then have "xs ! j \<in> set xs" using Cons.prems by simp
    then have "\<not> g x > g (xs ! j)" using Cons.prems(1) by (auto dest: bspec[of _ _ "g (xs ! j)"])
    then show ?thesis using Cons Suc by simp
  qed
qed

lemma poll_complete:
  assumes inv: "events_inv s" and nf: "t_faults s = []" and n: "0 < ef_Limit f"
    and "0 \<le> after" and "length (pending f after s) \<le> fuel"
  shows "poll fuel f after s = (Inr (map event_of_row (pending f after s)), s)"
  using assms(4,5)
proof (induction fuel arbitrary: after)
  case 0
  then show ?case by simp
next
  case (Suc fuel)
  let ?n = "nat (ef_Limit f)" and ?rows = "pending f after s"
  note page = Events_page[OF inv nf Suc.prems(1) n]
  show ?case
  proof (cases "?rows = []")
    case True
    then show ?thesis using page by (simp add: bnd_def)
  next
    case False
    let ?k = "min ?n (length ?rows) - 1"
    have k: "?k < length ?rows" "Suc ?k = min ?n (length ?rows)" using False n by (auto simp: min_def)
    have last: "last (take ?n ?rows) = ?rows ! ?k" using False n by (simp add: last_conv_nth min_def nth_take)
    have mem: "?rows ! ?k \<in> set (t_events s)" "ev_id (?rows ! ?k) > after"
      using k(1) nth_mem[OF k(1)] by (auto simp: pending_def)
    then have pos: "0 \<le> ev_id (?rows ! ?k)" using Suc.prems(1) by linarith
    have "sorted_wrt (<) (map ev_id ?rows)" using inv by (simp add: events_inv_def pending_def sorted_wrt_map_filter)
    then have "filter (\<lambda>r. ev_id r > ev_id (?rows ! ?k)) ?rows = drop (Suc ?k) ?rows" using k(1) by (rule filter_after)
    moreover have "filter (\<lambda>r. ev_id r > ev_id (?rows ! ?k)) ?rows = pending f (ev_id (?rows ! ?k)) s"
      using mem(2) by (auto simp: pending_def intro: filter_cong)
    ultimately have rest: "pending f (ev_id (?rows ! ?k)) s = drop ?n ?rows" using k(2) by (simp add: min_def split: if_splits)
    have "length (pending f (ev_id (?rows ! ?k)) s) \<le> fuel" unfolding rest using Suc.prems(2) False n by simp
    then have IH: "poll fuel f (ev_id (?rows ! ?k)) s = (Inr (map event_of_row (drop ?n ?rows)), s)"
      using Suc.IH[OF pos] rest by simp
    have "e_ID (last (map event_of_row (take ?n ?rows))) = ev_id (?rows ! ?k)"
      using False n last by (simp add: last_map)
    then show ?thesis
      using page IH False n by (simp add: bnd_def flip: map_append)
  qed
qed

end
