(* ===== verification/EventText.thy ===== *)
theory EventText
  imports StoreTraffic StoreEvents
begin

text \<open>
  internal/event/text.go: what events say about sizes, speeds, limits and times. \<open>float64\<close> values are
  modelled exactly: an integer rounded to 53 bits, scaled by powers of two, and printed to a fixed
  number of decimals, half to even. \<open>off\<close> is the time zone, as in StoreTraffic.
\<close>

section \<open>Numbers\<close>

text \<open>\<open>a / b\<close> rounded to an integer, half to even, for \<open>0 \<le> a\<close> and \<open>0 < b\<close>.\<close>

definition round_even :: "int \<Rightarrow> int \<Rightarrow> int" where
  "round_even a b = (let q = a div b; r = a mod b in
     if 2 * r < b \<or> (2 * r = b \<and> even q) then q else q + 1)"

fun excess_bits :: "nat \<Rightarrow> nat" where
  "excess_bits n = (if n < 2 ^ 53 then 0 else Suc (excess_bits (n div 2)))"

declare excess_bits.simps [simp del]

text \<open>\<open>float64(n)\<close> of an integer that is not negative.\<close>

definition float_of :: "int \<Rightarrow> int" where
  "float_of n = (let p = 2 ^ excess_bits (nat n) in round_even n p * p)"

text \<open>The loop: the unit \<open>v\<close> stops at, \<open>i\<close> steps past KB and at most TB.\<close>

definition bytes_unit :: "int \<Rightarrow> nat" where
  "bytes_unit a = (if a < 1024 ^ 2 then 0 else if a < 1024 ^ 3 then 1 else if a < 1024 ^ 4 then 2 else 3)"

definition Bytes :: "int \<Rightarrow> string" where
  "Bytes n =
     (if n < 1024 then Itoa n @ '' B''
      else let a = float_of n; i = bytes_unit a; d = 1024 ^ (i + 1); u = [''KB'', ''MB'', ''GB'', ''TB''] ! i in
        if a < 10 * d \<and> a mod d \<noteq> 0
        then let t = round_even (10 * a) d in Itoa (t div 10) @ ''.'' @ Itoa (t mod 10) @ '' '' @ u
        else Itoa (round_even a d) @ '' '' @ u)"

text \<open>
  The shortest decimal that reads back as \<open>float64(kbit)/1000\<close>: the three decimals without trailing
  zeros, as long as \<open>kbit\<close> has at most 15 digits (a device's limit has at most 8).
\<close>

definition trim_zeros :: "string \<Rightarrow> string" where
  "trim_zeros s = rev (dropWhile (\<lambda>c. c = CHR ''0'') (rev s))"

definition Speed :: "int \<Rightarrow> string" where
  "Speed kbit =
     (if kbit < 1000 then Itoa kbit @ '' kbit/s''
      else let frac = trim_zeros (pad 3 (Itoa (kbit mod 1000)))
        in Itoa (kbit div 1000) @ (if frac = [] then [] else ''.'' @ frac) @ '' Mbit/s'')"

section \<open>Times\<close>

definition month_names :: "string list" where
  "month_names = [''Jan'', ''Feb'', ''Mar'', ''Apr'', ''May'', ''Jun'', ''Jul'', ''Aug'', ''Sep'', ''Oct'', ''Nov'', ''Dec'']"

text \<open>The layouts \<open>2 Jan 2006\<close> and \<open>15:04\<close>.\<close>

definition format_date :: "int \<times> int \<times> int \<Rightarrow> string" where
  "format_date ymd = (case ymd of (y, m, d) \<Rightarrow>
     Itoa d @ '' '' @ month_names ! nat (m - 1) @ '' '' @ (if y < 0 then ''-'' else []) @ pad 4 (Itoa \<bar>y\<bar>))"

definition day_secs :: "(int \<Rightarrow> int) \<Rightarrow> gotime \<Rightarrow> int" where
  "day_secs off t = local_secs off t mod 86400"

definition format_clock :: "(int \<Rightarrow> int) \<Rightarrow> gotime \<Rightarrow> string" where
  "format_clock off t = (let s = day_secs off t in pad 2 (Itoa (s div 3600)) @ '':'' @ pad 2 (Itoa (s mod 3600 div 60)))"

definition Period :: "(int \<Rightarrow> int) \<Rightarrow> Peer \<Rightarrow> gotime \<Rightarrow> string" where
  "Period off p now =
     (let monthly = p_LimitPeriod p \<noteq> PeriodTotal in
      case p_UsageResetAt p of
        Some r \<Rightarrow>
          if \<not> monthly \<or> \<not> r < MonthStart off now
          then ''since '' @ format_date (local_date off r) @ '' '' @ format_clock off r
          else ''this month''
      | None \<Rightarrow> if monthly then ''this month'' else ''in total'')"

definition Expiry :: "(int \<Rightarrow> int) \<Rightarrow> gotime \<Rightarrow> string" where
  "Expiry off t =
     (if day_secs off t = 0
      then ''the end of '' @ format_date (local_date off (AddDate off t 0 0 (- 1)))
      else format_date (local_date off t) @ '' '' @ format_clock off t)"

section \<open>Limits\<close>

definition HasLimits :: "Peer \<Rightarrow> bool" where
  "HasLimits p \<longleftrightarrow> p_DataLimit p > 0 \<or> p_ExpiresAt p \<noteq> None \<or> p_SpeedLimit p > 0"

definition Limits :: "(int \<Rightarrow> int) \<Rightarrow> Peer \<Rightarrow> string" where
  "Limits off p =
     (let parts =
        (if p_DataLimit p > 0
         then [Bytes (p_DataLimit p) @ (if p_LimitPeriod p = PeriodTotal then '' in total'' else '' a month'')] else []) @
        (if p_SpeedLimit p > 0 then [Speed (p_SpeedLimit p)] else []) @
        (case p_ExpiresAt p of None \<Rightarrow> [] | Some t \<Rightarrow> [''until '' @ Expiry off t])
      in if parts = [] then ''no limits'' else strings_Join '', '' parts)"

lemma Limits_none: "\<not> HasLimits p \<Longrightarrow> Limits off p = ''no limits''"
  by (auto simp: HasLimits_def Limits_def)

lemma digit_chars:
  "char_of (48::nat) = CHR ''0''" "char_of (49::nat) = CHR ''1''" "char_of (50::nat) = CHR ''2''" "char_of (51::nat) = CHR ''3''"
  "char_of (52::nat) = CHR ''4''" "char_of (53::nat) = CHR ''5''" "char_of (54::nat) = CHR ''6''" "char_of (55::nat) = CHR ''7''"
  "char_of (56::nat) = CHR ''8''" "char_of (57::nat) = CHR ''9''"
  by code_simp+

text \<open>The examples of text_test.go.\<close>

lemma Bytes_examples:
  "Bytes 1023 = ''1023 B''" "Bytes (5 * 1024 ^ 3) = ''5 GB''" "Bytes (1536 * 1024 ^ 2) = ''1.5 GB''"
  "Speed 2500 = ''2.5 Mbit/s''" "Speed 512 = ''512 kbit/s''" "Speed 3000 = ''3 Mbit/s''"
  by (simp_all add: Bytes_def float_of_def excess_bits.simps round_even_def bytes_unit_def Speed_def trim_zeros_def pad_def Itoa_def
      Let_def dec.simps digit_chars)

end
