(* ===== verification/Notify.thy ===== *)
theory Notify
  imports EventText
begin

text \<open>
  internal/notify (notify.go, settings.go): which events are emailed, the queue between the request
  and the mailer, the hourly cap, and the settings of email. Composing the HTML and talking SMTP are
  the parameter \<open>send\<close>: the error of sending a batch, if any.
\<close>

section \<open>Groups and settings\<close>

definition maxBatch :: nat where "maxBatch = 50"
definition maxPerHour :: nat where "maxPerHour = 30"
definition queueSize :: nat where "queueSize = 200"

definition Groups :: "(string \<times> string list) list" where
  "Groups = [
     (''servers'', [''server.created'', ''server.deploy_failed'', ''server.deleted'', ''server.down'', ''server.recovered'',
        ''node.added'', ''node.deleted'', ''node.offline'', ''node.online'']),
     (''devices'', [''device.created'', ''device.deleted'', ''device.moved'', ''device.enabled'', ''device.disabled'']),
     (''limits'', [''device.limit_reached'', ''device.expired'', ''device.unblocked'', ''device.usage_reset'']),
     (''failed_logins'', [''auth.login_failed'']),
     (''security'', [''auth.password_changed'', ''auth.totp_enabled'', ''auth.totp_disabled'',
        ''settings.domain_changed'', ''settings.notifications_changed'', ''settings.backups_changed'',
        ''backup.downloaded'', ''backup.restored'', ''apikey.created'', ''apikey.revoked'',
        ''webhook.created'', ''webhook.updated'', ''webhook.deleted'']),
     (''backups'', [''backup.failed'']),
     (''logins'', [''auth.login'']),
     (''connections'', [''device.connected'', ''device.disconnected''])]"

definition DefaultGroups :: "string list" where
  "DefaultGroups = [''servers'', ''devices'', ''limits'', ''failed_logins'', ''security'', ''backups'']"

definition ValidGroup :: "string \<Rightarrow> bool" where
  "ValidGroup g \<longleftrightarrow> g \<in> fst ` set Groups"

record Config =
  c_Host :: string
  c_Port :: int
  c_Security :: string
  c_Username :: string
  c_Password :: string
  c_From :: string
  c_To :: "string list"
  c_Groups :: "string list"
  c_PanelURL :: string

definition config_wants :: "Config \<Rightarrow> string \<Rightarrow> bool" where
  "config_wants c kind \<longleftrightarrow> list_ex (\<lambda>(g, kinds). kind \<in> set kinds \<and> g \<in> set (c_Groups c)) Groups"

record NotifySettings =
  ns_Enabled :: bool
  ns_Config :: Config

definition DefaultPort :: int where "DefaultPort = 587"
definition SecurityStartTLS :: string where "SecurityStartTLS = ''starttls''"

text \<open>\<open>strings.FieldsFunc\<close> at commas: the items that are not empty.\<close>

definition splitList :: "string \<Rightarrow> string list" where
  "splitList raw = filter (\<lambda>s. s \<noteq> []) (Split (CHR '','') raw)"

text \<open>The value of \<open>strconv.Atoi\<close> when its error is ignored: 0, or the nearest integer when out of range.\<close>

definition Atoi_value :: "string \<Rightarrow> int" where
  "Atoi_value s =
     (case ParseInt s of
        Some v \<Rightarrow> v
      | None \<Rightarrow>
        (let (neg, ds) = (case s of [] \<Rightarrow> (False, [])
             | c # cs \<Rightarrow> if c = CHR ''-'' then (True, cs) else if c = CHR ''+'' then (False, cs) else (False, s))
         in if ds = [] \<or> \<not> list_all is_digit ds then 0 else if neg then - (2 ^ 63) else 2 ^ 63 - 1))"

definition stored_of :: "(string \<times> string) list \<Rightarrow> string \<Rightarrow> string" where
  "stored_of stored k = (case map_of stored k of None \<Rightarrow> [] | Some v \<Rightarrow> v)"

definition LoadSettings :: "(string \<times> string) list \<Rightarrow> NotifySettings" where
  "LoadSettings stored =
     (let get = stored_of stored; port = Atoi_value (get ''smtp_port''); security = get ''smtp_security''
      in \<lparr>ns_Enabled = (get ''notify_enabled'' = ''true''),
          ns_Config = \<lparr>c_Host = get ''smtp_host'', c_Port = (if port = 0 then DefaultPort else port),
            c_Security = (if security = [] then SecurityStartTLS else security), c_Username = get ''smtp_username'',
            c_Password = get ''smtp_password'', c_From = get ''smtp_from'', c_To = splitList (get ''notify_to''),
            c_Groups = (case map_of stored ''notify_groups'' of None \<Rightarrow> DefaultGroups | Some raw \<Rightarrow> splitList raw),
            c_PanelURL = get ''notify_panel_url''\<rparr>\<rparr>)"

definition settings_Values :: "NotifySettings \<Rightarrow> (string \<times> string) list" where
  "settings_Values s = (let c = ns_Config s in
     [(''notify_enabled'', if ns_Enabled s then ''true'' else ''false''), (''smtp_host'', c_Host c),
      (''smtp_port'', Itoa (c_Port c)), (''smtp_security'', c_Security c), (''smtp_username'', c_Username c),
      (''smtp_password'', c_Password c), (''smtp_from'', c_From c), (''notify_to'', strings_Join '','' (c_To c)),
      (''notify_groups'', strings_Join '','' (c_Groups c)), (''notify_panel_url'', c_PanelURL c)])"

definition Active :: "NotifySettings \<Rightarrow> Config option" where
  "Active s = (if \<not> ns_Enabled s \<or> c_Host (ns_Config s) = [] \<or> c_To (ns_Config s) = [] then None else Some (ns_Config s))"

section \<open>The notifier\<close>

record notify_status =
  st_LastSentAt :: "gotime option"
  st_LastError :: string
  st_LastErrorAt :: "gotime option"

record notifier =
  nt_cfg :: "Config option"
  nt_status :: notify_status
  nt_sent :: "gotime list"
  nt_queue :: "Event list"

definition Configure :: "Config option \<Rightarrow> notifier \<Rightarrow> notifier" where
  "Configure cfg n = n\<lparr>nt_cfg := cfg\<rparr>"

definition notifier_Load :: "(string \<times> string) list \<Rightarrow> notifier \<Rightarrow> notifier" where
  "notifier_Load stored n = Configure (Active (LoadSettings stored)) n"

text \<open>A full queue drops the event.\<close>

definition Notify :: "Event \<Rightarrow> notifier \<Rightarrow> notifier" where
  "Notify e n =
     (case nt_cfg n of
        None \<Rightarrow> n
      | Some c \<Rightarrow>
        if \<not> config_wants c (e_Kind e) then n
        else if length (nt_queue n) < queueSize then n\<lparr>nt_queue := nt_queue n @ [e]\<rparr> else n)"

definition record_result :: "gotime \<Rightarrow> string option \<Rightarrow> notifier \<Rightarrow> notifier" where
  "record_result now err n = n\<lparr>nt_status :=
     (case err of
        Some e \<Rightarrow> (nt_status n)\<lparr>st_LastError := e, st_LastErrorAt := Some now\<rparr>
      | None \<Rightarrow> \<lparr>st_LastSentAt = Some now, st_LastError = [], st_LastErrorAt = None\<rparr>)\<rparr>"

definition hour :: gotime where "hour = 3600 * second"

text \<open>\<open>deliver\<close> at \<open>now\<close>, and \<open>later\<close> when the mail server has answered: whether it sent, and the notifier.\<close>

definition deliver :: "(Config \<Rightarrow> Event list \<Rightarrow> string option) \<Rightarrow> gotime \<Rightarrow> gotime \<Rightarrow> Event list \<Rightarrow> notifier \<Rightarrow> bool \<times> notifier" where
  "deliver send now later batch n =
     (let sent = filter (\<lambda>t. \<not> now - t > hour) (nt_sent n); capped = length sent \<ge> maxPerHour
      in case nt_cfg n of
           None \<Rightarrow> (False, n\<lparr>nt_sent := sent\<rparr>)
         | Some cfg \<Rightarrow>
             if capped then (False, n\<lparr>nt_sent := sent\<rparr>)
             else (True, record_result later (send cfg batch) (n\<lparr>nt_sent := sent @ [now]\<rparr>)))"

text \<open>
  One round of \<open>Run\<close>: the window takes \<open>k\<close> events off the queue (at least the first) and emails the
  first \<open>maxBatch\<close> of them.
\<close>

definition run_round :: "(Config \<Rightarrow> Event list \<Rightarrow> string option) \<Rightarrow> gotime \<Rightarrow> gotime \<Rightarrow> nat \<Rightarrow> notifier \<Rightarrow> bool \<times> notifier" where
  "run_round send now later k n =
     (if nt_queue n = [] then (False, n)
      else let k = max 1 k in
        deliver send now later (take maxBatch (take k (nt_queue n))) (n\<lparr>nt_queue := drop k (nt_queue n)\<rparr>))"

definition quote_name :: "string \<Rightarrow> string" where
  "quote_name name = (if name = [] then ''?'' else name)"

definition actorText :: "string \<Rightarrow> string" where
  "actorText actor = (if take 4 actor = ''api:'' then ''API key '' @ drop 4 actor else actor)"

text \<open>The line an event has in an email, by its kind.\<close>

definition Describe :: "Event \<Rightarrow> string" where
  "Describe e =
     (let device = quote_name (e_PeerName e); server = quote_name (e_InstanceName e); node = quote_name (e_NodeName e); kind = e_Kind e in
      if kind = ''device.connected'' then device @ '' connected to '' @ server else
      if kind = ''device.disconnected'' then device @ '' disconnected from '' @ server else
      if kind = ''device.created'' then device @ '' was added to '' @ server else
      if kind = ''device.deleted'' then device @ '' was removed from '' @ server else
      if kind = ''device.moved'' then device @ '' was moved to '' @ server else
      if kind = ''device.enabled'' then device @ '' was enabled on '' @ server else
      if kind = ''device.disabled'' then device @ '' was disabled on '' @ server else
      if kind = ''device.renamed'' then ''A device on '' @ server @ '' was renamed to '' @ device else
      if kind = ''device.limits_changed'' then ''Limits changed for '' @ device @ '' on '' @ server else
      if kind = ''device.limit_reached'' then device @ '' reached its data limit on '' @ server else
      if kind = ''device.expired'' then ''Access for '' @ device @ '' on '' @ server @ '' ended'' else
      if kind = ''device.unblocked'' then device @ '' can connect to '' @ server @ '' again'' else
      if kind = ''device.usage_reset'' then ''Data usage was reset for '' @ device @ '' on '' @ server else
      if kind = ''device.shared'' then ''A share link was made for '' @ device @ '' on '' @ server else
      if kind = ''device.unshared'' then ''The share link for '' @ device @ '' on '' @ server @ '' was removed'' else
      if kind = ''server.created'' then ''Server '' @ server @ '' was created'' else
      if kind = ''server.deploy_failed'' then ''Deploying server '' @ server @ '' failed'' else
      if kind = ''server.updated'' then ''Server '' @ server @ '' settings changed'' else
      if kind = ''server.deleted'' then ''Server '' @ server @ '' was deleted'' else
      if kind = ''server.started'' then ''Server '' @ server @ '' was started'' else
      if kind = ''server.stopped'' then ''Server '' @ server @ '' was stopped'' else
      if kind = ''server.restarted'' then ''Server '' @ server @ '' was restarted'' else
      if kind = ''server.down'' then ''Server '' @ server @ '' is down'' else
      if kind = ''server.recovered'' then ''Server '' @ server @ '' is running again'' else
      if kind = ''node.added'' then ''Node '' @ node @ '' was added'' else
      if kind = ''node.renamed'' then ''A node was renamed to '' @ node else
      if kind = ''node.deleted'' then ''Node '' @ node @ '' was removed'' else
      if kind = ''node.offline'' then ''Node '' @ node @ '' is offline'' else
      if kind = ''node.online'' then ''Node '' @ node @ '' is back online'' else
      if kind = ''settings.updated'' then ''Panel settings changed'' else
      if kind = ''settings.domain_changed'' then (if e_Detail e = [] then ''Panel domain removed'' else ''Panel domain set'') else
      if kind = ''settings.notifications_changed'' then ''Email notification settings changed'' else
      if kind = ''settings.backups_changed'' then (if e_Detail e = ''disconnected'' then ''Backup bucket disconnected'' else ''Backup settings changed'') else
      if kind = ''backup.created'' then ''Backup created'' else
      if kind = ''backup.failed'' then ''Scheduled backup failed'' else
      if kind = ''backup.downloaded'' then ''A backup was downloaded'' else
      if kind = ''backup.deleted'' then ''A backup was deleted'' else
      if kind = ''backup.restored'' then ''The panel was restored from a backup'' else
      if kind = ''auth.login'' then ''Someone signed in to the panel'' else
      if kind = ''auth.login_failed'' then ''Failed sign-in attempt on the panel'' else
      if kind = ''auth.password_changed'' then ''The admin password was changed'' else
      if kind = ''auth.totp_enabled'' then ''Two-factor authentication was turned on'' else
      if kind = ''auth.totp_disabled'' then ''Two-factor authentication was turned off'' else
      if kind = ''apikey.created'' then ''An API key was created'' else
      if kind = ''apikey.revoked'' then ''An API key was revoked'' else
      if kind = ''webhook.created'' then ''A webhook was added'' else
      if kind = ''webhook.updated'' then ''A webhook was changed'' else
      if kind = ''webhook.deleted'' then ''A webhook was removed'' else
      kind)"

section \<open>Facts\<close>

lemma Notify_queue: "length (nt_queue n) \<le> queueSize \<Longrightarrow> length (nt_queue (Notify e n)) \<le> queueSize"
  by (simp add: Notify_def split: option.split)

lemma splitList_Join:
  assumes "\<forall>x \<in> set xs. x \<noteq> [] \<and> CHR '','' \<notin> set x"
  shows "splitList (strings_Join '','' xs) = xs"
proof (cases "xs = []")
  case False
  then have "Split (CHR '','') (strings_Join '','' xs) = xs" using assms by (intro Split_Join) auto
  then show ?thesis using assms by (simp add: splitList_def filter_id_conv)
qed (simp add: splitList_def)

subsection \<open>The hourly cap\<close>

fun deliver_all :: "(Config \<Rightarrow> Event list \<Rightarrow> string option) \<Rightarrow> (gotime \<times> Event list) list \<Rightarrow> notifier \<Rightarrow> gotime list \<times> notifier" where
  "deliver_all send [] n = ([], n)"
| "deliver_all send ((now, batch) # rest) n =
     (case deliver send now now batch n of (ok, n1) \<Rightarrow>
       (case deliver_all send rest n1 of (ts, n2) \<Rightarrow> ((if ok then now # ts else ts), n2)))"

lemma deliver_all_times:
  "deliver_all send ds n = (ts, n') \<Longrightarrow> t \<in> set ts \<Longrightarrow> \<exists>d \<in> set ds. t = fst d"
  by (induction send ds n arbitrary: ts n' rule: deliver_all.induct) (fastforce split: prod.splits if_splits)+

text \<open>Mails sent since \<open>T\<close> that a later delivery still counts.\<close>

lemma deliver_all_cap:
  assumes "sorted (map fst ds)" and "\<forall>t \<in> set (nt_sent n). \<forall>d \<in> set ds. t \<le> fst d"
    and "deliver_all send ds n = (ts, n')"
    and "length (filter (\<lambda>t. T \<le> t) (nt_sent n)) \<le> maxPerHour"
  shows "length (filter (\<lambda>t. T \<le> t) (nt_sent n)) + length (filter (\<lambda>t. T \<le> t \<and> t \<le> T + hour) ts) \<le> maxPerHour"
  using assms
proof (induction ds arbitrary: n ts)
  case Nil
  then show ?case by simp
next
  case (Cons d ds)
  obtain now batch where d: "d = (now, batch)" by (cases d)
  obtain ok n1 where m: "deliver send now now batch n = (ok, n1)" by (cases "deliver send now now batch n")
  obtain ts1 where ts: "deliver_all send ds n1 = (ts1, n')" "ts = (if ok then now # ts1 else ts1)"
    using Cons.prems(3) m d by (auto split: prod.splits)
  let ?kept = "filter (\<lambda>t. \<not> now - t > hour) (nt_sent n)"
  have sent: "nt_sent n1 = (if ok then ?kept @ [now] else ?kept)" "ok \<Longrightarrow> length ?kept < maxPerHour"
    using m by (auto simp: deliver_def Let_def record_result_def split: option.splits if_splits)
  have later: "now \<le> fst x" if "x \<in> set ds" for x using Cons.prems(1) that d by auto
  have old: "t \<le> now" if "t \<in> set (nt_sent n)" for t using Cons.prems(2) that d by auto
  have order: "\<forall>t \<in> set (nt_sent n1). \<forall>d \<in> set ds. t \<le> fst d"
    using sent(1) later old by (fastforce split: if_splits)
  have tail: "filter (\<lambda>t. T \<le> t \<and> t \<le> T + hour) ts1 = []" if "now > T + hour"
  proof -
    have "\<not> t \<le> T + hour" if "t \<in> set ts1" for t
      using deliver_all_times[OF ts(1) that] later \<open>now > T + hour\<close> by force
    then show ?thesis by (auto simp: filter_empty_conv)
  qed
  show ?case
  proof (cases "now > T + hour")
    case True
    then show ?thesis using tail ts(2) Cons.prems(4) by simp
  next
    case False
    then have kept: "filter (\<lambda>t. T \<le> t) ?kept = filter (\<lambda>t. T \<le> t) (nt_sent n)"
      by (auto simp: intro!: filter_cong)
    have "length (filter (\<lambda>t. T \<le> t) (nt_sent n)) \<le> length ?kept"
      unfolding kept[symmetric] by (rule length_filter_le)
    then have le: "length (filter (\<lambda>t. T \<le> t) (nt_sent n1)) \<le> maxPerHour"
      using sent Cons.prems(4) kept by (cases ok) auto
    have IH: "length (filter (\<lambda>t. T \<le> t) (nt_sent n1)) + length (filter (\<lambda>t. T \<le> t \<and> t \<le> T + hour) ts1) \<le> maxPerHour"
      using Cons.IH[OF _ order ts(1) le] Cons.prems(1) d by simp
    then show ?thesis using sent(1) ts(2) kept False by (auto split: if_splits)
  qed
qed

end
