(* ===== verification/StoreWebhooks.thy ===== *)
theory StoreWebhooks
  imports StorePanel StoreDevices
begin

text \<open>
  internal/store/webhooks.go: webhooks and the deliveries queued for them. A delivery is pending until
  an attempt succeeds or no more are left; only the receiver's status and an error text are kept.
\<close>

definition DeliveryPending :: string where "DeliveryPending = ''pending''"
definition DeliverySucceeded :: string where "DeliverySucceeded = ''succeeded''"
definition DeliveryFailed :: string where "DeliveryFailed = ''failed''"
definition AllEvents :: string where "AllEvents = ''*''"

lemmas delivery_states = DeliveryPending_def DeliverySucceeded_def DeliveryFailed_def

record Webhook =
  w_ID :: int
  w_URL :: string
  w_Secret :: string
  w_Events :: "string list"
  w_Description :: string
  w_Enabled :: bool
  w_CreatedBy :: string
  w_CreatedAt :: gotime
  w_UpdatedAt :: gotime

record Delivery =
  d_ID :: int
  d_WebhookID :: int
  d_EventID :: int
  d_Kind :: string
  d_Payload :: string
  d_State :: string
  d_Attempts :: nat
  d_NextAttemptAt :: "gotime option"
  d_LastAttemptAt :: "gotime option"
  d_ResponseStatus :: int
  d_Error :: string
  d_DurationMS :: int
  d_CreatedAt :: gotime
  d_URL :: string
  d_Secret :: string

record Attempt =
  a_At :: gotime
  a_Status :: int
  a_Error :: string
  a_Duration :: gotime
  a_Succeeded :: bool
  a_NextAttempt :: "gotime option"

section \<open>Webhooks\<close>

definition webhook_row_of :: "gotime \<Rightarrow> Webhook \<Rightarrow> webhook_row" where
  "webhook_row_of now w =
     \<lparr>wr_id = 0, wr_url = w_URL w, wr_secret = w_Secret w, wr_events = strings_Join '','' (w_Events w),
      wr_description = w_Description w, wr_enabled = w_Enabled w, wr_created_by = w_CreatedBy w,
      wr_created_at = unix now, wr_updated_at = unix now\<rparr>"

definition CreateWebhook :: "gotime \<Rightarrow> Webhook \<Rightarrow> ('z, Webhook) psql" where
  "CreateWebhook now w =
     bnd (mapErr (store_writeError ''create webhook'') (stmt (\<lambda>s. let k = t_webhook_seq s + 1 in
       (Inr k, s\<lparr>t_webhooks := t_webhooks s @ [(webhook_row_of now w)\<lparr>wr_id := k\<rparr>], t_webhook_seq := k\<rparr>)))) (\<lambda>k.
     ret (w\<lparr>w_ID := k, w_CreatedAt := time_Unix (unix now), w_UpdatedAt := time_Unix (unix now)\<rparr>))"

definition scanWebhook :: "webhook_row option \<Rightarrow> err + Webhook" where
  "scanWebhook row = (case row of None \<Rightarrow> Inl ErrNotFound | Some r \<Rightarrow> Inr
     \<lparr>w_ID = wr_id r, w_URL = wr_url r, w_Secret = wr_secret r,
      w_Events = (if wr_events r \<noteq> [] then Split (CHR '','') (wr_events r) else []),
      w_Description = wr_description r, w_Enabled = wr_enabled r, w_CreatedBy = wr_created_by r,
      w_CreatedAt = time_Unix (wr_created_at r), w_UpdatedAt = time_Unix (wr_updated_at r)\<rparr>)"

definition Webhooks :: "('z, Webhook list) psql" where
  "Webhooks =
     bnd (mapErr (Errorf ''list webhooks'') (query (\<lambda>s. sort_key wr_id (t_webhooks s)))) (\<lambda>rows.
     liftE (scan_all (\<lambda>r. scanWebhook (Some r)) rows))"

definition webhook_by_id :: "int \<Rightarrow> 'z panel_scheme \<Rightarrow> webhook_row option" where
  "webhook_by_id k s = find (\<lambda>r. wr_id r = k) (t_webhooks s)"

definition WebhookByID :: "int \<Rightarrow> ('z, Webhook) psql" where
  "WebhookByID k = bnd (mapErr (Errorf ''scan webhook'') (query (webhook_by_id k))) (\<lambda>row. liftE (scanWebhook row))"

text \<open>What turning a webhook off does to what it still had to send.\<close>

definition cancel_deliveries :: "int \<Rightarrow> delivery_row list \<Rightarrow> delivery_row list" where
  "cancel_deliveries k ds = map (\<lambda>d. if dr_webhook_id d = k \<and> dr_state d = DeliveryPending
     then d\<lparr>dr_state := DeliveryFailed, dr_next_attempt_at := None, dr_error := ''the webhook was turned off''\<rparr> else d) ds"

definition UpdateWebhook :: "gotime \<Rightarrow> Webhook \<Rightarrow> ('z, Webhook) psql" where
  "UpdateWebhook now w =
     thn (transaction ''update webhook''
       (bnd (mapErr (store_writeError ''update webhook'') (stmt (\<lambda>s.
          (Inr (length (filter (\<lambda>r. wr_id r = w_ID w) (t_webhooks s))), s\<lparr>t_webhooks := map (\<lambda>r. if wr_id r = w_ID w
             then r\<lparr>wr_url := w_URL w, wr_events := strings_Join '','' (w_Events w), wr_description := w_Description w,
               wr_enabled := w_Enabled w, wr_updated_at := unix now\<rparr> else r) (t_webhooks s)\<rparr>)))) (\<lambda>n.
        thn (expectOneRow n)
         (if \<not> w_Enabled w
          then mapErr (Errorf ''cancel webhook deliveries'') (stmt (\<lambda>s.
            (Inr (), s\<lparr>t_deliveries := cancel_deliveries (w_ID w) (t_deliveries s)\<rparr>)))
          else ret ()))))
     (WebhookByID (w_ID w))"

definition DeleteWebhook :: "int \<Rightarrow> ('z, unit) psql" where
  "DeleteWebhook k =
     bnd (mapErr (Errorf ''delete webhook'') (stmt (\<lambda>s.
       (Inr (length (filter (\<lambda>r. wr_id r = k) (t_webhooks s))),
        s\<lparr>t_webhooks := filter (\<lambda>r. wr_id r \<noteq> k) (t_webhooks s),
          t_deliveries := filter (\<lambda>d. dr_webhook_id d \<noteq> k) (t_deliveries s)\<rparr>)))) expectOneRow"

section \<open>Deliveries\<close>

definition delivery_row_of :: "gotime \<Rightarrow> string \<Rightarrow> int \<Rightarrow> string \<Rightarrow> int \<Rightarrow> delivery_row" where
  "delivery_row_of now kind eventID payload hook =
     \<lparr>dr_id = 0, dr_webhook_id = hook, dr_event_id = eventID, dr_kind = kind, dr_payload = payload,
      dr_state = DeliveryPending, dr_attempts = 0, dr_next_attempt_at = Some (unix now), dr_last_attempt_at = None,
      dr_response_status = 0, dr_error = [], dr_duration_ms = 0, dr_created_at = unix now\<rparr>"

text \<open>\<open>instr(hay, needle) > 0\<close>, and the condition on the webhook's kinds.\<close>

definition instr :: "string \<Rightarrow> string \<Rightarrow> bool" where
  "instr hay needle \<longleftrightarrow> Index hay needle \<noteq> None"

definition wants :: "string \<Rightarrow> webhook_row \<Rightarrow> bool" where
  "wants kind r \<longleftrightarrow> wr_enabled r \<and>
     (wr_events r = AllEvents \<or> instr ('','' @ wr_events r @ '','') ('','' @ kind @ '',''))"

fun number :: "int \<Rightarrow> delivery_row list \<Rightarrow> delivery_row list" where
  "number k [] = []"
| "number k (d # ds) = d\<lparr>dr_id := k + 1\<rparr> # number (k + 1) ds"

definition QueueDeliveries :: "string \<Rightarrow> int \<Rightarrow> string \<Rightarrow> gotime \<Rightarrow> ('z, nat) psql" where
  "QueueDeliveries kind eventID payload now = mapErr (Errorf ''queue webhook deliveries'') (stmt (\<lambda>s.
     let hooks = filter (wants kind) (t_webhooks s);
         new = map (\<lambda>r. delivery_row_of now kind eventID payload (wr_id r)) hooks
     in (Inr (length hooks), s\<lparr>t_deliveries := t_deliveries s @ number (t_delivery_seq s) new,
           t_delivery_seq := t_delivery_seq s + int (length hooks)\<rparr>)))"

definition scanDelivery :: "(string \<times> string) option \<Rightarrow> delivery_row option \<Rightarrow> err + Delivery" where
  "scanDelivery target row = (case row of None \<Rightarrow> Inl ErrNotFound | Some r \<Rightarrow> Inr
     \<lparr>d_ID = dr_id r, d_WebhookID = dr_webhook_id r, d_EventID = dr_event_id r, d_Kind = dr_kind r,
      d_Payload = dr_payload r, d_State = dr_state r, d_Attempts = dr_attempts r,
      d_NextAttemptAt = timeOf (dr_next_attempt_at r), d_LastAttemptAt = timeOf (dr_last_attempt_at r),
      d_ResponseStatus = dr_response_status r, d_Error = dr_error r, d_DurationMS = dr_duration_ms r,
      d_CreatedAt = time_Unix (dr_created_at r),
      d_URL = (case target of None \<Rightarrow> [] | Some (u, _) \<Rightarrow> u),
      d_Secret = (case target of None \<Rightarrow> [] | Some (_, t) \<Rightarrow> t)\<rparr>)"

definition DeliveryByID :: "int \<Rightarrow> ('z, Delivery) psql" where
  "DeliveryByID k =
     bnd (mapErr (Errorf ''scan delivery'') (query (\<lambda>s. find (\<lambda>r. dr_id r = k) (t_deliveries s)))) (\<lambda>row.
     liftE (scanDelivery None row))"

definition QueueDelivery :: "int \<Rightarrow> string \<Rightarrow> string \<Rightarrow> gotime \<Rightarrow> ('z, Delivery) psql" where
  "QueueDelivery hook kind payload now =
     bnd (mapErr (Errorf ''queue webhook delivery'') (stmt (\<lambda>s.
       if webhook_by_id hook s = None then (Inl foreign_key_error, s)
       else let k = t_delivery_seq s + 1 in
         (Inr k, s\<lparr>t_deliveries := t_deliveries s @ [(delivery_row_of now kind 0 payload hook)\<lparr>dr_id := k\<rparr>],
           t_delivery_seq := k\<rparr>)))) DeliveryByID"

definition map_delivery :: "int \<Rightarrow> (delivery_row \<Rightarrow> delivery_row) \<Rightarrow> 'z panel_scheme \<Rightarrow> (err + nat) \<times> 'z panel_scheme" where
  "map_delivery k f s =
     (Inr (length (filter (\<lambda>r. dr_id r = k) (t_deliveries s))),
      s\<lparr>t_deliveries := map (\<lambda>r. if dr_id r = k then f r else r) (t_deliveries s)\<rparr>)"

definition RetryDelivery :: "int \<Rightarrow> gotime \<Rightarrow> ('z, Delivery) psql" where
  "RetryDelivery k now =
     bnd (mapErr (Errorf ''retry webhook delivery'') (stmt (map_delivery k (\<lambda>r.
       r\<lparr>dr_state := DeliveryPending, dr_next_attempt_at := Some (unix now)\<rparr>)))) (\<lambda>n.
     thn (expectOneRow n) (DeliveryByID k))"

definition due :: "int \<Rightarrow> delivery_row \<Rightarrow> bool" where
  "due at r \<longleftrightarrow> dr_state r = DeliveryPending \<and> (case dr_next_attempt_at r of None \<Rightarrow> False | Some t \<Rightarrow> t \<le> at)"

definition due_rows :: "int \<Rightarrow> 'z panel_scheme \<Rightarrow> (delivery_row \<times> webhook_row) list" where
  "due_rows at s =
     sort_key (\<lambda>(d, _). the (dr_next_attempt_at d)) (sort_key (\<lambda>(d, _). dr_id d)
       (List.map_filter (\<lambda>d. if due at d then
          (case webhook_by_id (dr_webhook_id d) s of
             None \<Rightarrow> None | Some w \<Rightarrow> if wr_enabled w then Some (d, w) else None) else None) (t_deliveries s)))"

definition DueDeliveries :: "gotime \<Rightarrow> int \<Rightarrow> ('z, Delivery list) psql" where
  "DueDeliveries now limit =
     bnd (mapErr (Errorf ''list due deliveries'') (query (\<lambda>s. sql_limit limit (due_rows (unix now) s)))) (\<lambda>rows.
     liftE (scan_all (\<lambda>(d, w). scanDelivery (Some (wr_url w, wr_secret w)) (Some d)) rows))"

definition finished_state :: "Attempt \<Rightarrow> string" where
  "finished_state a =
     (if a_Succeeded a then DeliverySucceeded else if a_NextAttempt a = None then DeliveryFailed else DeliveryPending)"

definition finished_row :: "Attempt \<Rightarrow> delivery_row \<Rightarrow> delivery_row" where
  "finished_row a r = r\<lparr>dr_state := finished_state a, dr_attempts := dr_attempts r + 1,
     dr_next_attempt_at := nullTime (a_NextAttempt a), dr_last_attempt_at := Some (unix (a_At a)),
     dr_response_status := a_Status a, dr_error := a_Error a, dr_duration_ms := quot (a_Duration a) 1000000\<rparr>"

definition FinishAttempt :: "int \<Rightarrow> Attempt \<Rightarrow> ('z, unit) psql" where
  "FinishAttempt k a =
     thn (mapErr (Errorf ''record webhook attempt'') (stmt (map_delivery k (finished_row a)))) (ret ())"

definition Deliveries :: "int \<Rightarrow> int \<Rightarrow> int \<Rightarrow> ('z, Delivery list) psql" where
  "Deliveries hook before limit =
     bnd (mapErr (Errorf ''list deliveries'') (query (\<lambda>s. sql_limit limit (rev (sort_key dr_id
       (filter (\<lambda>r. dr_webhook_id r = hook \<and> (before > 0 \<longrightarrow> dr_id r < before)) (t_deliveries s))))))) (\<lambda>rows.
     liftE (scan_all (\<lambda>d. scanDelivery None (Some d)) rows))"

definition DeleteDeliveriesBefore :: "gotime \<Rightarrow> ('z, nat) psql" where
  "DeleteDeliveriesBefore t = mapErr (Errorf ''delete old deliveries'') (stmt (\<lambda>s.
     let P = (\<lambda>d. dr_created_at d < unix t \<and> dr_state d \<noteq> DeliveryPending)
     in (Inr (length (filter P (t_deliveries s))), s\<lparr>t_deliveries := filter (\<lambda>d. \<not> P d) (t_deliveries s)\<rparr>)))"

section \<open>Facts\<close>

text \<open>The text search on the joined kinds finds exactly the kinds of the list.\<close>

lemma Index_iff: "Index s pat \<noteq> None \<longleftrightarrow> (\<exists>a b. s = a @ pat @ b)"
proof
  assume "Index s pat \<noteq> None"
  then obtain i where i: "Index s pat = Some i" by auto
  from Index_Some[OF i] have "s = take i s @ pat @ drop (length pat) (drop i s)"
    by (metis append_take_drop_id)
  then show "\<exists>a b. s = a @ pat @ b" by blast
next
  assume "\<exists>a b. s = a @ pat @ b"
  then obtain a b where "s = a @ pat @ b" by blast
  then show "Index s pat \<noteq> None" using Index_append[of a pat b] by auto
qed

lemma instr_joined:
  assumes "\<forall>e \<in> set es. CHR '','' \<notin> set e" and "kind \<noteq> []" and "CHR '','' \<notin> set kind"
  shows "instr ('','' @ strings_Join '','' es @ '','') ('','' @ kind @ '','') \<longleftrightarrow> kind \<in> set es"
proof
  assume "instr ('','' @ strings_Join '','' es @ '','') ('','' @ kind @ '','')"
  then obtain a b where eq: "'','' @ strings_Join '','' es @ '','' = a @ ('','' @ kind @ '','') @ b"
    unfolding instr_def Index_iff by blast
  let ?c = "CHR '',''"
  have "kind \<in> set (Split ?c (a @ ('','' @ kind @ '','') @ b))"
    using assms(3) by (simp add: Split_append Split_append_sep Split_no_sep)
  then have "kind \<in> set (Split ?c ('','' @ strings_Join '','' es @ ''''  @ '',''))" using eq by simp
  then have "kind \<in> set (Split ?c (strings_Join '','' es))"
    using assms(2) by (simp add: Split_append)
  moreover have "es \<noteq> [] \<Longrightarrow> Split ?c (strings_Join '','' es) = es"
    using assms(1) by (intro Split_Join) auto
  ultimately show "kind \<in> set es" using assms(2) by (cases "es = []") auto
next
  assume "kind \<in> set es"
  then obtain xs ys where es: "es = xs @ kind # ys" by (meson split_list)
  have join: "\<exists>a b. '','' @ strings_Join '','' (xs @ kind # ys) @ '','' = a @ ('','' @ kind @ '','') @ b"
  proof (induction xs)
    case Nil
    show ?case
      by (cases ys) (auto intro: exI[of _ "[]"])
  next
    case (Cons x xs)
    then obtain a b where ab: "'','' @ strings_Join '','' (xs @ kind # ys) @ '','' = a @ ('','' @ kind @ '','') @ b" by blast
    have "strings_Join '','' ((x # xs) @ kind # ys) = x @ '','' @ strings_Join '','' (xs @ kind # ys)"
      by (cases xs) auto
    then have "'','' @ strings_Join '','' ((x # xs) @ kind # ys) @ '','' = ('','' @ x @ a) @ ('','' @ kind @ '','') @ b"
      using ab by simp
    then show ?case by blast
  qed
  then show "instr ('','' @ strings_Join '','' es @ '','') ('','' @ kind @ '','')"
    unfolding instr_def Index_iff es by blast
qed

lemma wants_iff:
  assumes "kind \<noteq> []" and "CHR '','' \<notin> set kind"
  shows "wants kind r \<longleftrightarrow> wr_enabled r \<and> (wr_events r = AllEvents \<or> kind \<in> set (Split (CHR '','') (wr_events r)))"
  using instr_joined[of "Split (CHR '','') (wr_events r)" kind] assms
  by (auto simp: wants_def Join_Split dest: Split_parts)

lemma number_fields: "map dr_webhook_id (number k ds) = map dr_webhook_id ds" "length (number k ds) = length ds"
  by (induction ds arbitrary: k) auto

lemma number_ids: "map dr_id (number k ds) = map (\<lambda>i. k + 1 + int i) [0..<length ds]"
proof (induction ds arbitrary: k)
  case (Cons d ds)
  have "map (\<lambda>i. k + 1 + 1 + int i) [0..<length ds] = map (\<lambda>i. k + 1 + int i) [1..<Suc (length ds)]"
    by (simp add: map_Suc_upt[symmetric] comp_def del: upt_Suc)
  then show ?case using Cons by (simp add: upt_conv_Cons del: upt_Suc)
qed simp

end
