(* ===== verification/Webhook.thy ===== *)
theory Webhook
  imports StoreWebhooks
begin

text \<open>
  internal/webhook/webhook.go: the dispatcher that sends queued deliveries. The receivers are a
  parameter: \<open>post\<close> maps a request to a transport error or the answer's status code and text. So are
  HMAC-SHA-256 (\<open>hmac key message\<close>) and the clock. The goroutines of a batch work on different rows, so
  the model runs them in the order of the batch.
\<close>

definition timeout :: gotime where "timeout = 10 * second"
definition batchSize :: nat where "batchSize = 20"
definition maxErrorLen :: nat where "maxErrorLen = 300"

definition retryDelays :: "gotime list" where
  "retryDelays = map (\<lambda>m. m * 60 * second) [1, 5, 30, 120, 360, 720]"

definition hex_digit :: "nat \<Rightarrow> char" where
  "hex_digit n = (if n < 10 then char_of (48 + n) else char_of (87 + n))"

definition EncodeToString :: "string \<Rightarrow> string" where
  "EncodeToString s = concat (map (\<lambda>c. [hex_digit (byte c div 16), hex_digit (byte c mod 16)]) s)"

definition Sign :: "(string \<Rightarrow> string \<Rightarrow> string) \<Rightarrow> string \<Rightarrow> gotime \<Rightarrow> string \<Rightarrow> string" where
  "Sign hmac secret t body =
     (let ts = Itoa (unix t) in ''t='' @ ts @ '',v1='' @ EncodeToString (hmac secret (ts @ ''.'' @ body)))"

record request =
  rq_url :: string
  rq_headers :: "(string \<times> string) list"
  rq_body :: string

type_synonym receiver = "request \<Rightarrow> string + (int \<times> string)"

definition delivery_request :: "(string \<Rightarrow> string \<Rightarrow> string) \<Rightarrow> Delivery \<Rightarrow> gotime \<Rightarrow> request" where
  "delivery_request hmac dl at =
     \<lparr>rq_url = d_URL dl,
      rq_headers = [(''Content-Type'', ''application/json''), (''User-Agent'', ''Tunploy-Webhook''),
        (''X-Tunploy-Event'', d_Kind dl), (''X-Tunploy-Delivery'', Itoa (d_ID dl)),
        (''X-Tunploy-Signature'', Sign hmac (d_Secret dl) at (d_Payload dl))],
      rq_body = d_Payload dl\<rparr>"

text \<open>The status to record, and the error of a delivery that did not get through.\<close>

definition send :: "(string \<Rightarrow> string \<Rightarrow> string) \<Rightarrow> receiver \<Rightarrow> Delivery \<Rightarrow> gotime \<Rightarrow> int \<times> string option" where
  "send hmac post dl at =
     (case post (delivery_request hmac dl at) of
        Inl e \<Rightarrow> (0, Some e)
      | Inr (code, text) \<Rightarrow>
          (code, if code < 200 \<or> code > 299 then Some (''the receiver answered '' @ text) else None))"

text \<open>\<open>strings.ToValidUTF8(s, "")\<close> drops what decodes to an error of one byte.\<close>

definition ToValidUTF8 :: "string \<Rightarrow> string" where
  "ToValidUTF8 s = concat (map snd (filter (\<lambda>(r, b). \<not> (r = RuneError \<and> length b = 1)) (runes_of s)))"

definition truncate_text :: "string \<Rightarrow> nat \<Rightarrow> string" where
  "truncate_text s n =
     (if length s \<le> n then s else ToValidUTF8 (take n s) @ [char_of (0xE2::nat), char_of (0x80::nat), char_of (0xA6::nat)])"

text \<open>The world of one attempt: its two clock readings, the receiver, and whether the panel is stopping.\<close>

record outcome =
  o_start :: gotime
  o_stop :: gotime
  o_post :: receiver
  o_stopping :: bool

definition attempt_of :: "(string \<Rightarrow> string \<Rightarrow> string) \<Rightarrow> outcome \<Rightarrow> Delivery \<Rightarrow> Attempt" where
  "attempt_of hmac out dl =
     (case send hmac (o_post out) dl (o_start out) of (status, err) \<Rightarrow>
       \<lparr>a_At = o_start out, a_Status = status,
        a_Error = (case err of None \<Rightarrow> [] | Some e \<Rightarrow> truncate_text e maxErrorLen),
        a_Duration = o_stop out - o_start out, a_Succeeded = (err = None),
        a_NextAttempt = (if err \<noteq> None \<and> d_Attempts dl < length retryDelays
          then Some (o_start out + retryDelays ! d_Attempts dl) else None)\<rparr>)"

text \<open>An error of \<open>FinishAttempt\<close> is only logged.\<close>

definition attempt_delivery :: "(string \<Rightarrow> string \<Rightarrow> string) \<Rightarrow> outcome \<Rightarrow> Delivery \<Rightarrow> ('z, unit) psql" where
  "attempt_delivery hmac out dl =
     (if o_stopping out then ret ()
      else thn (attempt (FinishAttempt (d_ID dl) (attempt_of hmac out dl))) (ret ()))"

definition deliverDue :: "(string \<Rightarrow> string \<Rightarrow> string) \<Rightarrow> gotime \<Rightarrow> (Delivery \<Rightarrow> outcome) \<Rightarrow> 'z panel_scheme \<Rightarrow> nat \<times> 'z panel_scheme" where
  "deliverDue hmac now outs s =
     (case DueDeliveries now (int batchSize) s of
        (Inl _, s') \<Rightarrow> (0, s')
      | (Inr ds, s') \<Rightarrow> (length ds, snd (forEach ds (\<lambda>dl. attempt_delivery hmac (outs dl) dl) s')))"

text \<open>
  The inner loop of \<open>Run\<close>: batches until one is not full. \<open>rounds i\<close> is the clock and the outcomes of
  round \<open>i\<close>; the fuel bounds the rounds, None means it ran out.
\<close>

fun drain :: "(string \<Rightarrow> string \<Rightarrow> string) \<Rightarrow> (nat \<Rightarrow> gotime \<times> (Delivery \<Rightarrow> outcome)) \<Rightarrow> nat \<Rightarrow> nat \<Rightarrow> 'z panel_scheme \<Rightarrow> 'z panel_scheme option" where
  "drain hmac rounds 0 i s = None"
| "drain hmac rounds (Suc fuel) i s =
     (case rounds i of (now, outs) \<Rightarrow>
       (case deliverDue hmac now outs s of (n, s') \<Rightarrow>
         if n = batchSize then drain hmac rounds fuel (Suc i) s' else Some s'))"

section \<open>Facts\<close>

lemma ToValidUTF8_length: "length (ToValidUTF8 s) \<le> length s"
proof -
  have "length (concat (map snd (filter P xs))) \<le> length (concat (map snd xs))" for P and xs :: "(nat \<times> string) list"
    by (induction xs) auto
  from this[of _ "runes_of s"] show ?thesis by (simp add: ToValidUTF8_def concat_runes_of)
qed

lemma truncate_text_length: "length (truncate_text s n) \<le> n + 3"
  using ToValidUTF8_length[of "take n s"] by (auto simp: truncate_text_def)

subsection \<open>The loop ends\<close>

text \<open>
  The tries a delivery has left: the panel makes seven, and a delivery retried by hand one more. Each
  attempt that is recorded uses one, whatever the receiver and the clock do.
\<close>

definition tries_left :: "delivery_row \<Rightarrow> nat" where
  "tries_left d = (if dr_state d \<noteq> DeliveryPending then 0
     else if dr_attempts d \<le> length retryDelays then 7 - dr_attempts d else 1)"

definition all_tries :: "'z panel_scheme \<Rightarrow> nat" where
  "all_tries s = sum_list (map tries_left (t_deliveries s))"

lemma tries_left_pending: "dr_state d = DeliveryPending \<Longrightarrow> 0 < tries_left d"
  by (simp add: tries_left_def retryDelays_def)

lemma tries_left_finished:
  assumes "dr_state d = DeliveryPending" and "d_Attempts dl = dr_attempts d"
  shows "tries_left (finished_row (attempt_of hmac out dl) d) < tries_left d"
  using assms
  by (cases "send hmac (o_post out) dl (o_start out)")
    (auto simp: tries_left_def finished_row_def finished_state_def attempt_of_def delivery_states retryDelays_def)

lemma attempt_delivery_run:
  assumes "t_faults s = []" and "\<not> o_stopping out"
  shows "attempt_delivery hmac out dl s = (Inr (), s\<lparr>t_deliveries :=
    map (\<lambda>r. if dr_id r = d_ID dl then finished_row (attempt_of hmac out dl) r else r) (t_deliveries s)\<rparr>)"
  using assms by (simp add: attempt_delivery_def FinishAttempt_def thn_def bnd_def mapErr_def attempt_def map_delivery_def)

text \<open>A batch changes exactly its rows: what \<open>batch_row\<close> says.\<close>

definition batch_row :: "(string \<Rightarrow> string \<Rightarrow> string) \<Rightarrow> (Delivery \<Rightarrow> outcome) \<Rightarrow> Delivery list \<Rightarrow> delivery_row \<Rightarrow> delivery_row" where
  "batch_row hmac outs ds r =
     (case find (\<lambda>dl. d_ID dl = dr_id r) ds of None \<Rightarrow> r | Some dl \<Rightarrow> finished_row (attempt_of hmac (outs dl) dl) r)"

lemma finished_row_id [simp]: "dr_id (finished_row a r) = dr_id r"
  by (simp add: finished_row_def)

lemma batch_run:
  assumes "t_faults s = []" and "\<forall>dl \<in> set ds. \<not> o_stopping (outs dl)" and "distinct (map d_ID ds)"
  shows "forEach ds (\<lambda>dl. attempt_delivery hmac (outs dl) dl) s =
    (Inr (), s\<lparr>t_deliveries := map (batch_row hmac outs ds) (t_deliveries s)\<rparr>)"
  using assms
proof (induction ds arbitrary: s)
  case Nil
  have "map (batch_row hmac outs []) (t_deliveries s) = t_deliveries s" by (simp add: batch_row_def map_idI)
  then show ?case by simp
next
  case (Cons dl ds)
  let ?one = "\<lambda>r. if dr_id r = d_ID dl then finished_row (attempt_of hmac (outs dl) dl) r else r"
  let ?s1 = "s\<lparr>t_deliveries := map ?one (t_deliveries s)\<rparr>"
  have one: "attempt_delivery hmac (outs dl) dl s = (Inr (), ?s1)"
    using Cons.prems by (intro attempt_delivery_run) auto
  have "batch_row hmac outs ds (?one r) = batch_row hmac outs (dl # ds) r" for r
  proof (cases "dr_id r = d_ID dl")
    case True
    then have "find (\<lambda>dl. d_ID dl = dr_id r) ds = None" using Cons.prems(3) by (auto simp: find_None_iff image_iff)
    with True show ?thesis by (simp add: batch_row_def)
  qed (auto simp: batch_row_def)
  then have "map (batch_row hmac outs ds) (t_deliveries ?s1) = map (batch_row hmac outs (dl # ds)) (t_deliveries s)" by simp
  moreover have "forEach ds (\<lambda>dl. attempt_delivery hmac (outs dl) dl) ?s1 =
      (Inr (), ?s1\<lparr>t_deliveries := map (batch_row hmac outs ds) (t_deliveries ?s1)\<rparr>)"
    using Cons.prems by (intro Cons.IH) auto
  ultimately show ?case using one by (simp add: thn_def bnd_def)
qed

definition deliveries_inv :: "'z panel_scheme \<Rightarrow> bool" where
  "deliveries_inv s \<longleftrightarrow> distinct (map dr_id (t_deliveries s))"

text \<open>The batch: pending rows, each once, with the attempts its row has.\<close>

definition due_pair :: "int \<Rightarrow> 'z panel_scheme \<Rightarrow> delivery_row \<Rightarrow> (delivery_row \<times> webhook_row) option" where
  "due_pair at s d = (if due at d then
          (case webhook_by_id (dr_webhook_id d) s of
             None \<Rightarrow> None | Some w \<Rightarrow> if wr_enabled w then Some (d, w) else None) else None)"

lemma map_filter_fst:
  assumes "\<And>d p. f d = Some p \<Longrightarrow> fst p = d"
  shows "map fst (List.map_filter f ds) = filter (\<lambda>d. f d \<noteq> None) ds"
  by (induction ds) (auto simp: List.map_filter_simps assms split: option.splits)

lemma due_rows_facts:
  assumes "deliveries_inv s"
  shows "distinct (map (dr_id \<circ> fst) (due_rows at s))"
    and "(d, w) \<in> set (due_rows at s) \<Longrightarrow> d \<in> set (t_deliveries s) \<and> due at d \<and> webhook_by_id (dr_webhook_id d) s = Some w \<and> wr_enabled w"
proof -
  have rows: "due_rows at s = sort_key (\<lambda>(d, _). the (dr_next_attempt_at d)) (sort_key (\<lambda>(d, _). dr_id d) (List.map_filter (due_pair at s) (t_deliveries s)))"
    by (simp add: due_rows_def due_pair_def[abs_def])
  have "fst p = d" if "due_pair at s d = Some p" for d p
    using that by (auto simp: due_pair_def split: if_splits option.splits)
  then have fst_pairs: "map fst (List.map_filter (due_pair at s) (t_deliveries s)) = filter (\<lambda>d. due_pair at s d \<noteq> None) (t_deliveries s)"
    by (rule map_filter_fst)
  have "distinct (map dr_id (map fst (List.map_filter (due_pair at s) (t_deliveries s))))"
    unfolding fst_pairs using assms by (simp only: deliveries_inv_def distinct_map_filter)
  then show "distinct (map (dr_id \<circ> fst) (due_rows at s))"
    unfolding rows by (simp add: distinct_map)
  show "(d, w) \<in> set (due_rows at s) \<Longrightarrow> d \<in> set (t_deliveries s) \<and> due at d \<and> webhook_by_id (dr_webhook_id d) s = Some w \<and> wr_enabled w"
    by (auto simp: rows List.map_filter_def due_pair_def split: if_splits option.splits)
qed

lemma DueDeliveries_run:
  assumes "t_faults s = []" and "deliveries_inv s"
  obtains ds where "DueDeliveries now (int n) s = (Inr ds, s)" and "distinct (map d_ID ds)" and "length ds \<le> n"
    and "\<And>dl. dl \<in> set ds \<Longrightarrow> \<exists>d w. d \<in> set (t_deliveries s) \<and> due (unix now) d \<and> dr_id d = d_ID dl \<and> d_Attempts dl = dr_attempts d \<and>
        webhook_by_id (dr_webhook_id d) s = Some w \<and> wr_enabled w \<and> d_URL dl = wr_url w \<and> d_Secret dl = wr_secret w \<and>
        d_Payload dl = dr_payload d \<and> d_Kind dl = dr_kind d \<and> d_WebhookID dl = dr_webhook_id d"
proof -
  let ?rows = "take n (due_rows (unix now) s)"
  let ?scan = "\<lambda>(d, w). scanDelivery (Some (wr_url w, wr_secret w)) (Some d)"
  have "\<exists>x. ?scan p = Inr x \<and> d_ID x = dr_id (fst p)" for p :: "delivery_row \<times> webhook_row" by (cases p) (simp add: scanDelivery_def)
  then obtain f where scan: "\<And>p :: delivery_row \<times> webhook_row. ?scan p = Inr (f p)" and ids: "\<And>p. d_ID (f p) = dr_id (fst p)" by metis
  have all: "scan_all ?scan ?rows = Inr (map f ?rows)"
    unfolding scan_all_map using scan by simp
  have run: "DueDeliveries now (int n) s = (Inr (map f ?rows), s)"
    using assms(1) all by (simp add: DueDeliveries_def bnd_def mapErr_def sql_limit_def)
  have "map d_ID (map f ?rows) = take n (map (dr_id \<circ> fst) (due_rows (unix now) s))"
    using ids by (simp add: take_map comp_def)
  then have d: "distinct (map d_ID (map f ?rows))" using due_rows_facts(1)[OF assms(2)] by (simp only: distinct_take)
  show ?thesis
  proof (rule that[OF run d])
    show "length (map f ?rows) \<le> n" by simp
    fix dl assume "dl \<in> set (map f ?rows)"
    then obtain d w where "(d, w) \<in> set (due_rows (unix now) s)" and dl: "dl = f (d, w)"
      using set_take_subset by fastforce
    with due_rows_facts(2)[OF assms(2) this(1)] scan[of "(d, w)", symmetric]
    show "\<exists>d w. d \<in> set (t_deliveries s) \<and> due (unix now) d \<and> dr_id d = d_ID dl \<and> d_Attempts dl = dr_attempts d \<and>
        webhook_by_id (dr_webhook_id d) s = Some w \<and> wr_enabled w \<and> d_URL dl = wr_url w \<and> d_Secret dl = wr_secret w \<and>
        d_Payload dl = dr_payload d \<and> d_Kind dl = dr_kind d \<and> d_WebhookID dl = dr_webhook_id d"
      by (intro exI[of _ d] exI[of _ w]) (auto simp: scanDelivery_def)
  qed
qed

lemma sum_drop:
  fixes f g :: "'a \<Rightarrow> nat"
  shows "(\<And>x. x \<in> set xs \<Longrightarrow> g x + (if P x then 1 else 0) \<le> f x) \<Longrightarrow>
    sum_list (map g xs) + length (filter P xs) \<le> sum_list (map f xs)"
proof (induction xs)
  case (Cons x xs)
  have "g x + (if P x then 1 else 0) \<le> f x" using Cons.prems by simp
  moreover have "sum_list (map g xs) + length (filter P xs) \<le> sum_list (map f xs)" using Cons by simp
  ultimately show ?case by (auto split: if_splits)
qed simp

lemma count_ids:
  assumes "distinct (map f xs)" and "distinct ks" and "set ks \<subseteq> f ` set xs"
  shows "length (filter (\<lambda>x. f x \<in> set ks) xs) = length ks"
proof -
  have "distinct (map f (filter (\<lambda>x. f x \<in> set ks) xs))" using assms(1) by (rule distinct_map_filter)
  moreover have "set (map f (filter (\<lambda>x. f x \<in> set ks) xs)) = set ks" using assms(3) by auto
  ultimately have "card (set ks) = length (map f (filter (\<lambda>x. f x \<in> set ks) xs))" by (metis distinct_card)
  then show ?thesis using assms(2) by (simp add: distinct_card)
qed

lemma deliverDue_run:
  assumes nf: "t_faults s = []" and inv: "deliveries_inv s" and go: "\<And>dl. \<not> o_stopping (outs dl)"
  obtains n s' where "deliverDue hmac now outs s = (n, s')" and "n \<le> batchSize" and "all_tries s' + n \<le> all_tries s"
    and "t_faults s' = []" and "deliveries_inv s'"
proof -
  obtain ds where ds: "DueDeliveries now (int batchSize) s = (Inr ds, s)" "distinct (map d_ID ds)" "length ds \<le> batchSize"
    and dl: "\<And>dl. dl \<in> set ds \<Longrightarrow> \<exists>d w. d \<in> set (t_deliveries s) \<and> due (unix now) d \<and> dr_id d = d_ID dl \<and> d_Attempts dl = dr_attempts d \<and>
        webhook_by_id (dr_webhook_id d) s = Some w \<and> wr_enabled w \<and> d_URL dl = wr_url w \<and> d_Secret dl = wr_secret w \<and>
        d_Payload dl = dr_payload d \<and> d_Kind dl = dr_kind d \<and> d_WebhookID dl = dr_webhook_id d"
    using DueDeliveries_run[OF nf inv] by metis
  let ?s' = "s\<lparr>t_deliveries := map (batch_row hmac outs ds) (t_deliveries s)\<rparr>"
  have run: "deliverDue hmac now outs s = (length ds, ?s')"
    using ds(1) batch_run[OF nf _ ds(2), of outs hmac] go by (simp add: deliverDue_def)
  have one: "d = d'" if "d \<in> set (t_deliveries s)" "d' \<in> set (t_deliveries s)" "dr_id d = dr_id d'" for d d'
    using inv that unfolding deliveries_inv_def by (rule distinct_map_inj_on)
  have "tries_left (batch_row hmac outs ds r) + (if dr_id r \<in> set (map d_ID ds) then 1 else 0) \<le> tries_left r"
    if r: "r \<in> set (t_deliveries s)" for r
  proof (cases "find (\<lambda>dl. d_ID dl = dr_id r) ds")
    case None
    then have "dr_id r \<notin> set (map d_ID ds)" by (auto simp: find_None_iff)
    with None show ?thesis by (simp add: batch_row_def)
  next
    case (Some x)
    then have x: "x \<in> set ds" "d_ID x = dr_id r" by (auto simp: find_Some_iff)
    with dl[OF x(1)] one[OF _ r] have "due (unix now) r" "d_Attempts x = dr_attempts r" by auto
    then have "tries_left (finished_row (attempt_of hmac (outs x) x) r) < tries_left r"
      by (intro tries_left_finished) (simp_all add: due_def)
    then show ?thesis using Some by (simp add: batch_row_def)
  qed
  then have "sum_list (map (\<lambda>r. tries_left (batch_row hmac outs ds r)) (t_deliveries s)) +
      length (filter (\<lambda>r. dr_id r \<in> set (map d_ID ds)) (t_deliveries s)) \<le> sum_list (map tries_left (t_deliveries s))"
    by (rule sum_drop)
  moreover have "set (map d_ID ds) \<subseteq> dr_id ` set (t_deliveries s)"
  proof
    fix k assume "k \<in> set (map d_ID ds)"
    then obtain x where "x \<in> set ds" "k = d_ID x" by auto
    then show "k \<in> dr_id ` set (t_deliveries s)" using dl[of x] by (metis imageI)
  qed
  then have "length (filter (\<lambda>r. dr_id r \<in> set (map d_ID ds)) (t_deliveries s)) = length (map d_ID ds)"
    using inv ds(2) by (intro count_ids) (simp_all add: deliveries_inv_def)
  ultimately have "all_tries ?s' + length ds \<le> all_tries s" by (simp add: all_tries_def comp_def)
  moreover have "dr_id (batch_row hmac outs ds r) = dr_id r" for r by (simp add: batch_row_def split: option.split)
  then have "deliveries_inv ?s'" using inv by (simp add: deliveries_inv_def comp_def)
  ultimately show ?thesis using that[OF run ds(3)] nf by simp
qed

lemma drain_ends:
  assumes "t_faults s = []" and "deliveries_inv s" and "\<And>j dl. \<not> o_stopping (snd (rounds j) dl)"
    and "all_tries s < batchSize * fuel"
  shows "\<exists>s'. drain hmac rounds fuel i s = Some s'"
  using assms(1,2,4)
proof (induction fuel arbitrary: i s)
  case 0
  then show ?case by simp
next
  case (Suc fuel)
  obtain now outs where r: "rounds i = (now, outs)" by (cases "rounds i")
  have go: "\<not> o_stopping (outs dl)" for dl using assms(3)[of i dl] r by simp
  obtain n s' where d: "deliverDue hmac now outs s = (n, s')" "all_tries s' + n \<le> all_tries s" "t_faults s' = []" "deliveries_inv s'"
    by (rule deliverDue_run[OF Suc.prems(1,2) go, of hmac now]) (erule that)
  show ?case
  proof (cases "n = batchSize")
    case True
    then have "all_tries s' < batchSize * fuel" using d(2) Suc.prems(3) by simp
    then show ?thesis using Suc.IH[OF d(3,4)] r d(1) True by simp
  qed (use r d(1) in simp)
qed

end
