(* ===== verification/Journal.thy ===== *)
theory Journal
  imports Notify Webhook
begin

text \<open>
  internal/event (event.go, public.go) and the lookup of internal/geoip: recording an event. An event
  becomes a row of the activity log, perhaps an email, and the deliveries of the webhooks subscribed
  to it. The panel's state is the database with the notifier; \<open>env\<close> is what one request sees of the
  outside: the clock, which the request reads as one instant, the time zone, the GeoIP file and who acts.
\<close>

record site = panel +
  sv_notifier :: notifier

type_synonym ('z, 'a) sprog = "('z site_scheme, 'a) prog"

record env =
  env_now :: gotime
  env_off :: "int \<Rightarrow> int"
  env_geo :: "(Addr \<Rightarrow> string option) option"
  env_actor :: string

section \<open>Countries\<close>

fun Unmap :: "Addr \<Rightarrow> Addr" where
  "Unmap (V6 w z) = (if Is4In6 w then V4 (ucast w) else V6 w z)"
| "Unmap a = a"

fun IsPrivate :: "Addr \<Rightarrow> bool" where
  "IsPrivate (V4 w) = (octet w 0 = 10 \<or> octet w 0 = 172 \<and> octet w 1 div 16 = 1 \<or> octet w 0 = 192 \<and> octet w 1 = 168)"
| "IsPrivate (V6 w z) = (hextet w 0 div 512 = 126)"
| "IsPrivate NoAddr = False"

fun IsLoopback :: "Addr \<Rightarrow> bool" where
  "IsLoopback (V4 w) = (octet w 0 = 127)"
| "IsLoopback (V6 w z) = (w = 1)"
| "IsLoopback NoAddr = False"

text \<open>\<open>None\<close> is a database that is not loaded; the file's format is read by a library.\<close>

definition geo_Country :: "(Addr \<Rightarrow> string option) option \<Rightarrow> Addr \<Rightarrow> string" where
  "geo_Country geo a =
     (let a = Unmap a in
      if \<not> addr_IsValid a \<or> IsPrivate a \<or> IsLoopback a then []
      else case geo of None \<Rightarrow> [] | Some lookup \<Rightarrow> (case lookup a of None \<Rightarrow> [] | Some c \<Rightarrow> c))"

section \<open>Public events\<close>

record Public =
  pb_ID :: int
  pb_Kind :: string
  pb_CreatedAt :: gotime
  pb_ServerID :: int
  pb_ServerName :: string
  pb_DeviceID :: int
  pb_DeviceName :: string
  pb_NodeName :: string
  pb_IP :: string
  pb_Country :: string
  pb_Detail :: string
  pb_Actor :: string

definition ToPublic :: "Event \<Rightarrow> Public" where
  "ToPublic e =
     \<lparr>pb_ID = e_ID e, pb_Kind = e_Kind e, pb_CreatedAt = time_Unix (unix (e_CreatedAt e)),
      pb_ServerID = e_InstanceID e, pb_ServerName = e_InstanceName e, pb_DeviceID = e_PeerID e,
      pb_DeviceName = e_PeerName e, pb_NodeName = e_NodeName e, pb_IP = e_IP e, pb_Country = e_Country e,
      pb_Detail = e_Detail e, pb_Actor = e_Actor e\<rparr>"

definition PublicFamilies :: "string list" where
  "PublicFamilies = [''device'', ''server'', ''node'']"

definition PublicKinds :: "string list" where
  "PublicKinds = [
     ''device.created'', ''device.deleted'', ''device.renamed'', ''device.moved'', ''device.enabled'', ''device.disabled'',
     ''device.limits_changed'', ''device.limit_reached'', ''device.expired'', ''device.unblocked'', ''device.usage_reset'',
     ''device.shared'', ''device.unshared'', ''device.connected'', ''device.disconnected'',
     ''server.created'', ''server.deploy_failed'', ''server.updated'', ''server.deleted'', ''server.started'',
     ''server.stopped'', ''server.restarted'', ''server.down'', ''server.recovered'',
     ''node.added'', ''node.renamed'', ''node.deleted'', ''node.offline'', ''node.online'']"

definition IsPublic :: "string \<Rightarrow> bool" where
  "IsPublic kind = (case Cut (CHR ''.'') kind of (family, _, _) \<Rightarrow> family \<in> set PublicFamilies)"

section \<open>The JSON of an event\<close>

text \<open>
  \<open>json.Marshal\<close> of a string: quotes, backslashes, control characters and the characters special in
  HTML are escaped, and so are the two line separators; invalid UTF-8 becomes U+FFFD.
\<close>

definition hex4 :: "nat \<Rightarrow> string" where
  "hex4 n = map (\<lambda>k. Netip.hex_digit (n div 16 ^ k mod 16)) [3, 2, 1, 0]"

definition json_rune :: "nat \<times> string \<Rightarrow> string" where
  "json_rune rb = (case rb of (r, bs) \<Rightarrow>
     if r = 34 then [CHR 0x5C, CHR 0x22] else if r = 92 then [CHR 0x5C, CHR 0x5C]
     else if r = 8 then [CHR 0x5C, CHR ''b''] else if r = 12 then [CHR 0x5C, CHR ''f'']
     else if r = 10 then [CHR 0x5C, CHR ''n''] else if r = 13 then [CHR 0x5C, CHR ''r'']
     else if r = 9 then [CHR 0x5C, CHR ''t'']
     else if r < 32 \<or> r \<in> {60, 62, 38, 8232, 8233} \<or> (r = RuneError \<and> length bs = 1)
     then CHR 0x5C # CHR ''u'' # hex4 r
     else bs)"

definition json_quote :: "string \<Rightarrow> string" where
  "json_quote s = [CHR 0x22] @ concat (map json_rune (runes_of s)) @ [CHR 0x22]"

text \<open>A \<open>time.Time\<close> in UTC at a whole second; only years 0 to 9999 can be written.\<close>

definition json_time :: "gotime \<Rightarrow> string option" where
  "json_time t =
     (let d = local_date (\<lambda>_. 0) t; s = unix t mod 86400 in
      if 0 \<le> fst d \<and> fst d \<le> 9999
      then Some ([CHR 0x22] @ DateOnly d @ ''T'' @ pad 2 (Itoa (s div 3600)) @ '':'' @ pad 2 (Itoa (s mod 3600 div 60)) @
        '':'' @ pad 2 (Itoa (s mod 60)) @ ''Z'' @ [CHR 0x22])
      else None)"

text \<open>The members of the object, the empty ones of \<open>omitempty\<close> left out.\<close>

definition json_omit_string :: "string \<Rightarrow> string \<Rightarrow> (string \<times> string) list" where
  "json_omit_string k v = (if v = [] then [] else [(k, json_quote v)])"

definition json_omit_int :: "string \<Rightarrow> int \<Rightarrow> (string \<times> string) list" where
  "json_omit_int k v = (if v = 0 then [] else [(k, Itoa v)])"

definition json_object :: "(string \<times> string) list \<Rightarrow> string" where
  "json_object ms = ''{'' @ strings_Join '','' (map (\<lambda>(k, v). json_quote k @ '':'' @ v) ms) @ ''}''"

definition Marshal_Public :: "Public \<Rightarrow> string option" where
  "Marshal_Public p = map_option (\<lambda>at. json_object
     ([(''id'', Itoa (pb_ID p)), (''kind'', json_quote (pb_Kind p)), (''created_at'', at)] @
      json_omit_int ''server_id'' (pb_ServerID p) @ json_omit_string ''server_name'' (pb_ServerName p) @
      json_omit_int ''device_id'' (pb_DeviceID p) @ json_omit_string ''device_name'' (pb_DeviceName p) @
      json_omit_string ''node_name'' (pb_NodeName p) @ json_omit_string ''ip'' (pb_IP p) @
      json_omit_string ''country'' (pb_Country p) @ json_omit_string ''detail'' (pb_Detail p) @
      json_omit_string ''actor'' (pb_Actor p))) (json_time (pb_CreatedAt p))"

section \<open>Recording\<close>

definition dispatcher_Queue :: "gotime \<Rightarrow> string \<Rightarrow> int \<Rightarrow> string \<Rightarrow> ('z, unit) psql" where
  "dispatcher_Queue now kind eventID payload = thn (attempt (QueueDeliveries kind eventID payload now)) (ret ())"

text \<open>The event as it is saved: with its country, its actor and its time.\<close>

definition completed :: "env \<Rightarrow> Event \<Rightarrow> Event" where
  "completed v e =
     (let e = (if e_IP e \<noteq> [] \<and> e_Country e = []
               then (case ParseAddr (e_IP e) of Inl _ \<Rightarrow> e | Inr a \<Rightarrow> e\<lparr>e_Country := geo_Country (env_geo v) a\<rparr>) else e);
          e = (if e_Actor e = [] then e\<lparr>e_Actor := env_actor v\<rparr> else e)
      in if e_CreatedAt e = zero_time then e\<lparr>e_CreatedAt := env_now v\<rparr> else e)"

definition Record :: "env \<Rightarrow> Event \<Rightarrow> ('z, unit) sprog" where
  "Record v e0 =
     (let e = completed v e0 in
      bnd (attempt (AddEvent (env_now v) e)) (\<lambda>r.
      thn (modify (\<lambda>s. s\<lparr>sv_notifier := Notify e (sv_notifier s)\<rparr>))
        (case r of
           Inl _ \<Rightarrow> ret ()
         | Inr k \<Rightarrow>
           if IsPublic (e_Kind e)
           then (case Marshal_Public (ToPublic (e\<lparr>e_ID := k\<rparr>)) of
                   None \<Rightarrow> ret ()
                 | Some payload \<Rightarrow> dispatcher_Queue (env_now v) (e_Kind e) k payload)
           else ret ())))"

definition blank_event :: "string \<Rightarrow> Event" where
  "blank_event kind = \<lparr>e_ID = 0, e_CreatedAt = zero_time, e_Kind = kind, e_InstanceID = 0, e_InstanceName = [], e_PeerID = 0,
     e_PeerName = [], e_NodeName = [], e_IP = [], e_Country = [], e_Detail = [], e_Actor = []\<rparr>"

definition ForInstance :: "string \<Rightarrow> Instance \<Rightarrow> Event" where
  "ForInstance kind i = (blank_event kind)\<lparr>e_InstanceID := in_ID i, e_InstanceName := in_Name i\<rparr>"

definition ForPeer :: "string \<Rightarrow> Instance \<Rightarrow> Peer \<Rightarrow> Event" where
  "ForPeer kind i p = (ForInstance kind i)\<lparr>e_PeerID := p_ID p, e_PeerName := p_Name p\<rparr>"

section \<open>Facts\<close>

text \<open>
  \<open>silent m\<close>: \<open>m\<close> always returns and changes only what reports are made of: the activity log, the
  deliveries and the notifier (and uses up faults). \<open>core\<close> is all the rest.
\<close>

definition core :: "'z site_scheme \<Rightarrow> 'z site_scheme" where
  "core s = s\<lparr>t_faults := [], t_events := [], t_event_seq := 0, t_deliveries := [], t_delivery_seq := 0,
     sv_notifier := \<lparr>nt_cfg = None, nt_status = \<lparr>st_LastSentAt = None, st_LastError = [], st_LastErrorAt = None\<rparr>, nt_sent = [], nt_queue = []\<rparr>\<rparr>"

definition silent :: "('z, 'a) sprog \<Rightarrow> bool" where
  "silent m \<longleftrightarrow> (\<forall>s. (\<exists>x. fst (m s) = Inr x) \<and> core (snd (m s)) = core s)"

lemma silent_run: "silent m \<Longrightarrow> \<exists>x s'. m s = (Inr x, s') \<and> core s' = core s"
  by (auto simp: silent_def) (metis prod.collapse)

lemma silent_ret: "silent (ret x)"
  by (simp add: silent_def)

lemma silent_bnd: "silent m \<Longrightarrow> (\<And>x. silent (f x)) \<Longrightarrow> silent (bnd m f)"
  unfolding silent_def bnd_def by (auto split: prod.splits sum.splits) (metis fst_conv snd_conv Inr_not_Inl)+

lemma silent_thn: "silent m \<Longrightarrow> silent n \<Longrightarrow> silent (thn m n)"
  unfolding thn_def by (rule silent_bnd)

lemma silent_attempt: "(\<And>s. core (snd (m s)) = core s) \<Longrightarrow> silent (attempt m)"
  unfolding silent_def attempt_def by (auto split: prod.splits) (metis snd_conv)

lemma core_stmt:
  assumes "\<And>s. core (snd (f s)) = core s" shows "core (snd (stmt f s)) = core s"
proof -
  have "core (s\<lparr>t_faults := bs\<rparr>) = core s" for bs by (simp add: core_def)
  then show ?thesis using assms by (simp add: stmt_def Let_def split: list.split)
qed

lemma core_mapErr: "core (snd (m s)) = core s \<Longrightarrow> core (snd (mapErr h m s)) = core s"
  by (auto simp: mapErr_def split: prod.splits sum.splits)

lemma silent_Record: "silent (Record v e)"
proof -
  have add: "silent (attempt (AddEvent now e))" for now e
    unfolding AddEvent_def by (intro silent_attempt core_mapErr core_stmt) (simp add: core_def Let_def)
  have queue: "silent (dispatcher_Queue now kind k payload)" for now kind k payload
    unfolding dispatcher_Queue_def QueueDeliveries_def
    by (intro silent_thn silent_ret silent_attempt core_mapErr core_stmt) (simp add: core_def Let_def)
  have tell: "silent (modify (\<lambda>s. s\<lparr>sv_notifier := f (sv_notifier s)\<rparr>))" for f
    by (simp add: silent_def core_def)
  show ?thesis
    unfolding Record_def Let_def
    by (intro silent_bnd silent_thn add tell) (auto split: sum.split option.split intro: silent_ret queue)
qed

end
