(* ===== verification/Deploy.thy ===== *)
theory Deploy
  imports Journal
begin

text \<open>
  internal/deploy (deploy.go, limits.go, progress.go, status.go) over the interface internal/host
  declares: one container per server, its config files, and the devices the limits keep out. A machine
  is of any type \<open>'m\<close>; a \<open>Host\<close> is the record of its operations, as the Go interface is. The manager's
  per-node locks are what lets an operation be one step here.
\<close>

section \<open>The interface of a machine\<close>

record Container =
  ct_ID :: string
  ct_Name :: string
  ct_Image :: string
  ct_State :: string
  ct_ExitCode :: int
  ct_Labels :: "(string \<times> string) list"

definition Running :: "Container \<Rightarrow> bool" where
  "Running ct \<longleftrightarrow> ct_State ct = ''running''"

text \<open>A port is the machine's, the container's and the protocol; a mount the source, the target and whether it is read-only.\<close>

record ContainerSpec =
  cs_Name :: string
  cs_Image :: string
  cs_Cmd :: "string list"
  cs_Env :: "(string \<times> string) list"
  cs_Labels :: "(string \<times> string) list"
  cs_Ports :: "(16 word \<times> 16 word \<times> string) list"
  cs_Mounts :: "(string \<times> string \<times> bool) list"
  cs_CapAdd :: "string list"
  cs_Sysctls :: "(string \<times> string) list"

text \<open>How a container's output ended: on its own, at the boot timeout, with the caller gone, or broken off.\<close>

datatype stream_end = Ended | TimedOut | Cancelled err | Broken err

record 'm Host =
  h_Root :: string
  h_ImageExists :: "string \<Rightarrow> ('m, bool) prog"
  h_BuildImage :: "string \<Rightarrow> (string \<times> string) list \<Rightarrow> ('m, unit) prog"
  h_CreateContainer :: "ContainerSpec \<Rightarrow> ('m, string) prog"
  h_InspectContainer :: "string \<Rightarrow> ('m, Container) prog"
  h_ListContainers :: "('m, Container list) prog"
  h_StartContainer :: "string \<Rightarrow> ('m, unit) prog"
  h_StopContainer :: "string \<Rightarrow> gotime \<Rightarrow> ('m, unit) prog"
  h_RemoveContainer :: "string \<Rightarrow> ('m, unit) prog"
  h_Exec :: "string \<Rightarrow> string list \<Rightarrow> ('m, string) prog"
  h_Logs :: "string \<Rightarrow> int \<Rightarrow> bool \<Rightarrow> ('m, string list \<times> stream_end) prog"
  h_WriteFile :: "string \<Rightarrow> string \<Rightarrow> ('m, unit) prog"
  h_RemoveAll :: "string \<Rightarrow> ('m, unit) prog"
  h_ReadDir :: "string \<Rightarrow> ('m, string list) prog"

section \<open>The manager\<close>

text \<open>What the watcher remembers of a device (activity.go).\<close>

record sample =
  sm_rx :: int
  sm_since :: gotime
  sm_seen :: gotime
  sm_grew :: bool
  sm_online :: bool
  sm_onlineSince :: gotime

text \<open>
  The state: the panel's with every machine by node (0 is the panel's own) and what the manager keeps in
  memory. \<open>w_steps\<close> is what a caller who follows a deployment has been told.
\<close>

record 'm world = site +
  w_machine :: "int \<Rightarrow> 'm"
  w_blocked :: "int \<Rightarrow> (int \<times> Block) list option"
  w_down :: "int \<Rightarrow> bool option"
  w_rebuild :: "int \<Rightarrow> bool"
  w_activity :: "int \<Rightarrow> (Key \<times> sample) list"
  w_steps :: "string list"

type_synonym ('m, 'z, 'a) wprog = "(('m, 'z) world_scheme, 'a) prog"

record 'm manager =
  mg_local :: "'m Host"
  mg_nodes :: "int \<Rightarrow> err + 'm Host"
  mg_prefix :: string
  mg_image :: string
  mg_files :: "(string \<times> string) list"
  mg_env :: env

definition on_host :: "int \<Rightarrow> ('m, 'a) prog \<Rightarrow> ('m, 'z, 'a) wprog" where
  "on_host n op s = (case op (w_machine s n) of (r, m) \<Rightarrow> (r, s\<lparr>w_machine := (w_machine s)(n := m)\<rparr>))"

definition LabelInstance :: string where "LabelInstance = ''io.tunploy.instance''"
definition DefaultContainerPrefix :: string where "DefaultContainerPrefix = ''tunploy-wg-''"
definition stopTimeout :: gotime where "stopTimeout = 10 * second"

text \<open>A digest of the files names the image; \<open>sha256\<close> returns the 32 bytes.\<close>

definition imageTag :: "(string \<Rightarrow> string) \<Rightarrow> (string \<times> string) list \<Rightarrow> string" where
  "imageTag sha256 files =
     (let names = sort (map fst files);
          one = (\<lambda>name. let body = stored_of files name in name @ [CHR 0x00] @ dec (length body) @ [CHR 0x00] @ body)
      in ''tunploy/wireguard:'' @ take 12 (EncodeToString (sha256 (concat (map one names)))))"

definition new_manager :: "(string \<Rightarrow> string) \<Rightarrow> 'm Host \<Rightarrow> (int \<Rightarrow> err + 'm Host) \<Rightarrow> string \<Rightarrow> (string \<times> string) list \<Rightarrow> env \<Rightarrow> 'm manager" where
  "new_manager sha256 loc nodes prefix files v =
     \<lparr>mg_local = loc, mg_nodes = nodes, mg_prefix = prefix, mg_image = imageTag sha256 files, mg_files = files, mg_env = v\<rparr>"

definition hostFor :: "'m manager \<Rightarrow> int \<Rightarrow> err + 'm Host" where
  "hostFor m nodeID = (if nodeID = 0 then Inr (mg_local m) else mg_nodes m nodeID)"

definition acquire :: "'m manager \<Rightarrow> int \<Rightarrow> ('m, 'z, Instance \<times> 'm Host) wprog" where
  "acquire m instanceID =
     bnd (InstanceByID instanceID) (\<lambda>i.
     case hostFor m (in_NodeID i) of Inl e \<Rightarrow> throw e | Inr h \<Rightarrow> ret (i, h))"

definition ContainerName :: "'m manager \<Rightarrow> int \<Rightarrow> string" where
  "ContainerName m instanceID = mg_prefix m @ Itoa instanceID"

definition owns :: "'m manager \<Rightarrow> Container \<Rightarrow> bool" where
  "owns m ct = (case map_of (ct_Labels ct) LabelInstance of None \<Rightarrow> False | Some k \<Rightarrow> ct_Name ct = mg_prefix m @ k)"

text \<open>\<open>filepath.Join\<close> below a root that is already clean.\<close>

definition wireguard_dir :: "'m Host \<Rightarrow> string" where
  "wireguard_dir h = h_Root h @ ''/wireguard''"

definition configDir :: "'m Host \<Rightarrow> int \<Rightarrow> string" where
  "configDir h instanceID = wireguard_dir h @ ''/'' @ Itoa instanceID"

definition conf_path :: "'m Host \<Rightarrow> int \<Rightarrow> string" where "conf_path h k = configDir h k @ ''/wg0.conf''"
definition resolver_path :: "'m Host \<Rightarrow> int \<Rightarrow> string" where "resolver_path h k = configDir h k @ ''/dns-servers.conf''"
definition speeds_path :: "'m Host \<Rightarrow> int \<Rightarrow> string" where "speeds_path h k = configDir h k @ ''/speed-limits.conf''"

section \<open>Limits and the config files\<close>

definition blockedPeers :: "'m manager \<Rightarrow> int \<Rightarrow> ('m, 'z, Peer list \<times> (int \<times> Traffic) list \<times> (int \<times> Block) list) wprog" where
  "blockedPeers m instanceID =
     (let v = mg_env m in
      bnd (Peers instanceID) (\<lambda>peers.
      bnd (LimitUsage (env_off v) instanceID (env_now v)) (\<lambda>usage.
      ret (peers, usage, List.map_filter (\<lambda>p. let b = Blocked p (usage_of usage (p_ID p)) (env_now v) in
        if b = Unblocked then None else Some (p_ID p, b)) peers))))"

text \<open>A lookup in a map of reasons: a missing device is not blocked.\<close>

definition reason :: "(int \<times> Block) list \<Rightarrow> int \<Rightarrow> Block" where
  "reason bs k = (case map_of bs k of None \<Rightarrow> Unblocked | Some b \<Rightarrow> b)"

definition maps_Equal :: "('a \<times> 'b) list \<Rightarrow> ('a \<times> 'b) list \<Rightarrow> bool" where
  "maps_Equal a b = list_all (\<lambda>k. map_of a k = map_of b k) (map fst a @ map fst b)"

definition write_or_remove :: "'m Host \<Rightarrow> string \<Rightarrow> string option \<Rightarrow> ('m, unit) prog" where
  "write_or_remove h path body = (case body of Some b \<Rightarrow> h_WriteFile h path b | None \<Rightarrow> h_RemoveAll h path)"

definition writeConfig :: "'m manager \<Rightarrow> 'm Host \<Rightarrow> Instance \<Rightarrow> ('m, 'z, unit) wprog" where
  "writeConfig m h i =
     bnd (blockedPeers m (in_ID i)) (\<lambda>(peers, _, blocked).
     let allowed = filter (\<lambda>p. reason blocked (p_ID p) = Unblocked) peers; limits = SpeedLimitsConfig allowed; n = in_NodeID i in
     thn (on_host n (h_WriteFile h (conf_path h (in_ID i)) (ServerConfig i allowed)))
     (thn (on_host n (write_or_remove h (resolver_path h (in_ID i)) (if in_DNSOnServer i then Some (ResolverConfig i) else None)))
     (thn (on_host n (write_or_remove h (speeds_path h (in_ID i)) (if limits \<noteq> [] then Some limits else None)))
     (modify (\<lambda>s. s\<lparr>w_blocked := (w_blocked s)(in_ID i \<mapsto> blocked)\<rparr>)))))"

text \<open>\<open>container\<close>: none is no error.\<close>

definition find_container :: "'m manager \<Rightarrow> 'm Host \<Rightarrow> int \<Rightarrow> ('m, Container option) prog" where
  "find_container m h instanceID =
     bnd (attempt (h_InspectContainer h (ContainerName m instanceID))) (\<lambda>r.
     case r of
       Inr ct \<Rightarrow> ret (Some ct)
     | Inl e \<Rightarrow> if errors_Is e DockerNotFound then ret None else throw e)"

definition manager_apply :: "'m manager \<Rightarrow> 'm Host \<Rightarrow> Instance \<Rightarrow> ('m, 'z, unit) wprog" where
  "manager_apply m h i =
     thn (writeConfig m h i)
     (bnd (on_host (in_NodeID i) (find_container m h (in_ID i))) (\<lambda>ct.
      case ct of
        None \<Rightarrow> ret ()
      | Some ct \<Rightarrow>
        if \<not> Running ct then ret ()
        else bnd (on_host (in_NodeID i) (h_Exec h (ct_Name ct) [''tunploy-wg'', ''sync''])) (\<lambda>_. ret ())))"

text \<open>Only the error of reaching the node is forgiven: a change for an offline node waits in the database.\<close>

definition Apply :: "'m manager \<Rightarrow> int \<Rightarrow> ('m, 'z, unit) wprog" where
  "Apply m instanceID =
     bnd (attempt (acquire m instanceID)) (\<lambda>r.
     case r of
       Inl e \<Rightarrow> if errors_Is e ErrOffline then ret () else throw e
     | Inr (i, h) \<Rightarrow> manager_apply m h i)"

section \<open>Starting a container\<close>

definition stepMarker :: string where "stepMarker = ''tunploy:step ''"
definition readyMarker :: string where "readyMarker = ''tunploy:ready''"
definition bootLogLines :: nat where "bootLogLines = 50"

definition report :: "bool \<Rightarrow> string \<Rightarrow> ('m, 'z, unit) wprog" where
  "report progress step = (if progress then modify (\<lambda>s. s\<lparr>w_steps := w_steps s @ [step]\<rparr>) else ret ())"

text \<open>
  \<open>time.Parse\<close> with the layout \<open>RFC3339Nano\<close>, as a test: a date of the calendar, a clock whose hour may
  have one digit, any fraction, and Z or an offset.
\<close>

definition digits :: "nat \<Rightarrow> string \<Rightarrow> (int \<times> string) option" where
  "digits n s = (if n \<le> length s \<and> list_all is_digit (take n s) then Some (int (undec (take n s)), drop n s) else None)"

definition byte_at :: "char \<Rightarrow> string \<Rightarrow> string option" where
  "byte_at c s = (case s of [] \<Rightarrow> None | d # r \<Rightarrow> if d = c then Some r else None)"

definition skip_fraction :: "string \<Rightarrow> string" where
  "skip_fraction s = (case s of
     c # d # r \<Rightarrow> if (c = CHR ''.'' \<or> c = CHR '','') \<and> is_digit d then dropWhile is_digit r else s | _ \<Rightarrow> s)"

definition zone_ok :: "string \<Rightarrow> bool" where
  "zone_ok s \<longleftrightarrow> s = ''Z'' \<or>
     (s \<noteq> [] \<and> (hd s = CHR ''+'' \<or> hd s = CHR ''-'') \<and>
      (case Option.bind (digits 2 (tl s)) (\<lambda>(h, r). Option.bind (byte_at (CHR '':'') r) (\<lambda>r.
         Option.bind (digits 2 r) (\<lambda>(mi, r). Some (h \<le> 24 \<and> mi \<le> 60 \<and> r = [])))) of Some True \<Rightarrow> True | _ \<Rightarrow> False))"

definition is_timestamp :: "string \<Rightarrow> bool" where
  "is_timestamp s =
     (case Option.bind (digits 4 s) (\<lambda>(y, r). Option.bind (byte_at (CHR ''-'') r) (\<lambda>r.
        Option.bind (digits 2 r) (\<lambda>(mo, r). Option.bind (byte_at (CHR ''-'') r) (\<lambda>r.
        Option.bind (digits 2 r) (\<lambda>(d, r). Option.bind (byte_at (CHR ''T'') r) (\<lambda>r.
        Option.bind (case digits 2 r of None \<Rightarrow> digits 1 r | x \<Rightarrow> x) (\<lambda>(h, r). Option.bind (byte_at (CHR '':'') r) (\<lambda>r.
        Option.bind (digits 2 r) (\<lambda>(mi, r). Option.bind (byte_at (CHR '':'') r) (\<lambda>r.
        Option.bind (digits 2 r) (\<lambda>(se, r).
          Some (1 \<le> mo \<and> mo \<le> 12 \<and> 1 \<le> d \<and> civil (days_of y mo d) = (y, mo, d) \<and> h < 24 \<and> mi < 60 \<and> se < 60 \<and>
            zone_ok (skip_fraction r))))))))))))) of Some True \<Rightarrow> True | _ \<Rightarrow> False)"

definition stripTimestamp :: "string \<Rightarrow> string" where
  "stripTimestamp line = (case Cut (CHR '' '') line of (ts, rest, ok) \<Rightarrow> if ok \<and> is_timestamp ts then rest else line)"

text \<open>The output until the ready marker: whether it came, the steps reported, and the last other lines.\<close>

fun boot_scan :: "string list \<Rightarrow> string list \<Rightarrow> string list \<Rightarrow> bool \<times> string list \<times> string list" where
  "boot_scan [] steps tail = (False, steps, tail)"
| "boot_scan (l # ls) steps tail =
     (let line = stripTimestamp l in
      if line = readyMarker then (True, steps, tail)
      else if take (length stepMarker) line = stepMarker
      then boot_scan ls (steps @ [drop (length stepMarker) line]) tail
      else let tail = tail @ [line] in
        boot_scan ls steps (if bootLogLines < length tail then tl tail else tail))"

definition waitReady :: "'m Host \<Rightarrow> int \<Rightarrow> string \<Rightarrow> bool \<Rightarrow> ('m, 'z, unit) wprog" where
  "waitReady h n name progress =
     bnd (on_host n (h_Logs h name (int bootLogLines * 4) True)) (\<lambda>(lines, how).
     case boot_scan lines [] [] of (ready, steps, tail) \<Rightarrow>
       thn (forEach steps (report progress))
        (if ready then ret ()
         else case how of
           TimedOut \<Rightarrow> throw (BootError ''wireguard did not come up within 30s'' tail)
         | Cancelled e \<Rightarrow> throw e
         | Broken e \<Rightarrow> throw (Errorf ''read container output'' e)
         | Ended \<Rightarrow>
           bnd (attempt (on_host n (h_InspectContainer h name))) (\<lambda>r.
           throw (BootError (case r of
               Inr ct \<Rightarrow> if ct_ExitCode ct \<noteq> 0
                 then ''container exited with code '' @ Itoa (ct_ExitCode ct) @ '' before wireguard came up''
                 else ''container stopped before wireguard came up''
             | Inl _ \<Rightarrow> ''container stopped before wireguard came up'') tail))))"

definition ensureImage :: "'m manager \<Rightarrow> 'm Host \<Rightarrow> ('m, unit) prog" where
  "ensureImage m h =
     bnd (h_ImageExists h (mg_image m)) (\<lambda>ok. if ok then ret () else h_BuildImage h (mg_image m) (mg_files m))"

text \<open>Removing what may not be there.\<close>

definition remove_if_there :: "'m Host \<Rightarrow> string \<Rightarrow> ('m, unit) prog" where
  "remove_if_there h name =
     bnd (attempt (h_RemoveContainer h name)) (\<lambda>r.
     case r of Inr _ \<Rightarrow> ret () | Inl e \<Rightarrow> if errors_Is e DockerNotFound then ret () else throw e)"

definition container_spec :: "'m manager \<Rightarrow> 'm Host \<Rightarrow> Instance \<Rightarrow> ContainerSpec" where
  "container_spec m h i =
     (let port = word_of_int (in_ListenPort i) in
      \<lparr>cs_Name = ContainerName m (in_ID i), cs_Image = mg_image m, cs_Cmd = [], cs_Env = [],
       cs_Labels = [(LabelInstance, Itoa (in_ID i))], cs_Ports = [(port, port, ''udp'')],
       cs_Mounts = [(configDir h (in_ID i), ''/etc/wireguard'', True)], cs_CapAdd = [''NET_ADMIN''],
       cs_Sysctls = [(''net.ipv4.ip_forward'', ''1'')]\<rparr>)"

definition manager_deploy :: "'m manager \<Rightarrow> 'm Host \<Rightarrow> Instance \<Rightarrow> bool \<Rightarrow> bool \<Rightarrow> ('m, 'z, unit) wprog" where
  "manager_deploy m h i start progress =
     (let n = in_NodeID i; name = ContainerName m (in_ID i) in
      thn (writeConfig m h i)
      (thn (on_host n (ensureImage m h))
      (thn (report progress ''image'')
      (thn (on_host n (remove_if_there h name))
      (thn (on_host n (h_CreateContainer h (container_spec m h i)))
      (if \<not> start then ret ()
       else thn (on_host n (h_StartContainer h name))
         (thn (report progress ''container'') (waitReady h n name progress))))))))"

section \<open>Commands\<close>

definition Deploy :: "'m manager \<Rightarrow> int \<Rightarrow> bool \<Rightarrow> ('m, 'z, unit) wprog" where
  "Deploy m k start = bnd (acquire m k) (\<lambda>(i, h). manager_deploy m h i start False)"

definition Provision :: "'m manager \<Rightarrow> int \<Rightarrow> bool \<Rightarrow> ('m, 'z, unit) wprog" where
  "Provision m k progress = bnd (acquire m k) (\<lambda>(i, h). manager_deploy m h i True progress)"

definition Redeploy :: "'m manager \<Rightarrow> int \<Rightarrow> ('m, 'z, unit) wprog" where
  "Redeploy m k =
     bnd (acquire m k) (\<lambda>(i, h).
     bnd (on_host (in_NodeID i) (find_container m h k)) (\<lambda>ct.
     manager_deploy m h i (case ct of None \<Rightarrow> True | Some ct \<Rightarrow> Running ct) False))"

definition Start :: "'m manager \<Rightarrow> int \<Rightarrow> ('m, 'z, unit) wprog" where
  "Start m k =
     bnd (acquire m k) (\<lambda>(i, h).
     bnd (on_host (in_NodeID i) (find_container m h k)) (\<lambda>ct.
     case ct of
       None \<Rightarrow> manager_deploy m h i True False
     | Some ct \<Rightarrow>
       thn (writeConfig m h i)
        (if Running ct then ret () else on_host (in_NodeID i) (h_StartContainer h (ct_Name ct)))))"

definition Stop :: "'m manager \<Rightarrow> int \<Rightarrow> ('m, 'z, unit) wprog" where
  "Stop m k =
     bnd (acquire m k) (\<lambda>(i, h).
     bnd (on_host (in_NodeID i) (find_container m h k)) (\<lambda>ct.
     case ct of None \<Rightarrow> ret () | Some ct \<Rightarrow> on_host (in_NodeID i) (h_StopContainer h (ct_Name ct) stopTimeout)))"

definition Restart :: "'m manager \<Rightarrow> int \<Rightarrow> ('m, 'z, unit) wprog" where
  "Restart m k =
     bnd (acquire m k) (\<lambda>(i, h).
     bnd (on_host (in_NodeID i) (find_container m h k)) (\<lambda>ct.
     case ct of
       None \<Rightarrow> manager_deploy m h i True False
     | Some ct \<Rightarrow>
       thn (writeConfig m h i)
       (thn (on_host (in_NodeID i) (h_StopContainer h (ct_Name ct) stopTimeout))
         (on_host (in_NodeID i) (h_StartContainer h (ct_Name ct))))))"

definition forget :: "int \<Rightarrow> ('m, 'z) world_scheme \<Rightarrow> ('m, 'z) world_scheme" where
  "forget k s = s\<lparr>w_activity := (w_activity s)(k := []), w_blocked := (w_blocked s)(k := None), w_down := (w_down s)(k := None)\<rparr>"

definition Remove :: "'m manager \<Rightarrow> int \<Rightarrow> ('m, 'z, unit) wprog" where
  "Remove m k =
     bnd (acquire m k) (\<lambda>(i, h).
     thn (on_host (in_NodeID i) (remove_if_there h (ContainerName m k)))
     (thn (on_host (in_NodeID i) (h_RemoveAll h (configDir h k)))
     (modify (forget k))))"

definition Logs :: "'m manager \<Rightarrow> int \<Rightarrow> int \<Rightarrow> bool \<Rightarrow> ('m, 'z, string list \<times> stream_end) wprog" where
  "Logs m k tail follow =
     bnd (acquire m k) (\<lambda>(i, h).
     bnd (on_host (in_NodeID i) (find_container m h k)) (\<lambda>ct.
     case ct of None \<Rightarrow> throw ErrNotDeployed | Some ct \<Rightarrow> on_host (in_NodeID i) (h_Logs h (ct_Name ct) tail follow)))"

section \<open>Enforcing limits\<close>

definition blockEvent :: "env \<Rightarrow> Instance \<Rightarrow> Peer \<Rightarrow> Block \<Rightarrow> Traffic \<Rightarrow> Event" where
  "blockEvent v i p b used =
     (case b of
        BlockLimit \<Rightarrow> (ForPeer ''device.limit_reached'' i p)\<lparr>e_Detail := ''used '' @ Bytes (Total used) @ '' of '' @
          Bytes (p_DataLimit p) @ '' '' @ Period (env_off v) p (env_now v)\<rparr>
      | BlockExpired \<Rightarrow> ForPeer ''device.expired'' i p
      | Unblocked \<Rightarrow> ForPeer ''device.unblocked'' i p)"

definition enforceLimits :: "'m manager \<Rightarrow> 'm Host \<Rightarrow> Instance \<Rightarrow> ('m, 'z, unit) wprog" where
  "enforceLimits m h i =
     bnd (blockedPeers m (in_ID i)) (\<lambda>(peers, usage, new).
     bnd (gets (\<lambda>s. w_blocked s (in_ID i))) (\<lambda>prev.
     if (case prev of None \<Rightarrow> False | Some old \<Rightarrow> maps_Equal old new) then ret ()
     else thn (manager_apply m h i)
       (case prev of
          None \<Rightarrow> ret ()
        | Some old \<Rightarrow> forEach peers (\<lambda>p.
            if reason old (p_ID p) \<noteq> reason new (p_ID p)
            then Record (mg_env m) (blockEvent (mg_env m) i p (reason new (p_ID p)) (usage_of usage (p_ID p))) else ret ()))))"

section \<open>Statuses\<close>

definition StateRunning :: string where "StateRunning = ''running''"
definition StateRestarting :: string where "StateRestarting = ''restarting''"
definition StateStopped :: string where "StateStopped = ''stopped''"
definition StateNotDeployed :: string where "StateNotDeployed = ''not_deployed''"
definition StateUnknown :: string where "StateUnknown = ''unknown''"

lemmas state_defs = StateRunning_def StateRestarting_def StateStopped_def StateNotDeployed_def StateUnknown_def

record server_status =
  ss_State :: string
  ss_Error :: string

definition statusOf :: "Container \<Rightarrow> server_status" where
  "statusOf ct =
     (if ct_State ct = ''running'' then \<lparr>ss_State = StateRunning, ss_Error = []\<rparr>
      else if ct_State ct = ''restarting'' then \<lparr>ss_State = StateRestarting, ss_Error = ''the container keeps exiting; check its logs''\<rparr>
      else if ct_State ct = ''exited'' \<and> ct_ExitCode ct \<noteq> 0
      then \<lparr>ss_State = StateStopped, ss_Error = ''exited with code '' @ Itoa (ct_ExitCode ct)\<rparr>
      else \<lparr>ss_State = StateStopped, ss_Error = []\<rparr>)"

definition by_name :: "Container list \<Rightarrow> string \<Rightarrow> Container option" where
  "by_name cts = map_of (rev (map (\<lambda>ct. (ct_Name ct, ct)) cts))"

definition list_containers :: "'m manager \<Rightarrow> int \<Rightarrow> ('m, 'z, Container list) wprog" where
  "list_containers m nodeID =
     (case hostFor m nodeID of Inl e \<Rightarrow> throw e | Inr h \<Rightarrow> on_host nodeID (h_ListContainers h))"

definition byNode :: "Instance list \<Rightarrow> int \<Rightarrow> Instance list" where
  "byNode is nodeID = filter (\<lambda>i. in_NodeID i = nodeID) is"

definition group_statuses :: "'m manager \<Rightarrow> err + Container list \<Rightarrow> Instance list \<Rightarrow> (int \<times> server_status) list" where
  "group_statuses m r members = map (\<lambda>i. (in_ID i,
     case r of
       Inl e \<Rightarrow> \<lparr>ss_State = StateUnknown, ss_Error = err_Error e\<rparr>
     | Inr cts \<Rightarrow> (case by_name cts (ContainerName m (in_ID i)) of
         None \<Rightarrow> \<lparr>ss_State = StateNotDeployed, ss_Error = []\<rparr> | Some ct \<Rightarrow> statusOf ct))) members"

primrec node_statuses :: "'m manager \<Rightarrow> Instance list \<Rightarrow> int list \<Rightarrow> ('m, 'z, (int \<times> server_status) list) wprog" where
  "node_statuses m is [] = ret []"
| "node_statuses m is (n # ns) =
     bnd (attempt (list_containers m n)) (\<lambda>r.
     bnd (node_statuses m is ns) (\<lambda>rest. ret (group_statuses m r (byNode is n) @ rest)))"

definition Statuses :: "'m manager \<Rightarrow> Instance list \<Rightarrow> ('m, 'z, (int \<times> server_status) list) wprog" where
  "Statuses m is = node_statuses m is (remdups (map in_NodeID is))"

definition Status :: "'m manager \<Rightarrow> Instance \<Rightarrow> ('m, 'z, server_status) wprog" where
  "Status m i =
     (case hostFor m (in_NodeID i) of
        Inl e \<Rightarrow> ret \<lparr>ss_State = StateUnknown, ss_Error = err_Error e\<rparr>
      | Inr h \<Rightarrow>
        bnd (attempt (on_host (in_NodeID i) (find_container m h (in_ID i)))) (\<lambda>r.
        ret (case r of
           Inl e \<Rightarrow> \<lparr>ss_State = StateUnknown, ss_Error = err_Error e\<rparr>
         | Inr None \<Rightarrow> \<lparr>ss_State = StateNotDeployed, ss_Error = []\<rparr>
         | Inr (Some ct) \<Rightarrow> statusOf ct)))"

end
