(* ===== verification/StoreNodes.thy ===== *)
theory StoreNodes
  imports StoreOps
begin

text \<open>
  internal/store/nodes.go: the machines the panel reaches over SSH. \<open>now\<close> is the clock the code reads.
\<close>

record Node =
  n_ID :: int
  n_Name :: string
  n_Host :: string
  n_Port :: int
  n_Username :: string
  n_HostKey :: string
  n_LastSeenAt :: "gotime option"
  n_CreatedAt :: gotime
  n_UpdatedAt :: gotime

definition scanNode :: "node_row option \<Rightarrow> err + Node" where
  "scanNode row = (case row of None \<Rightarrow> Inl ErrNotFound | Some r \<Rightarrow> Inr
     \<lparr>n_ID = nr_id r, n_Name = nr_name r, n_Host = nr_host r, n_Port = nr_port r, n_Username = nr_username r,
      n_HostKey = nr_host_key r, n_LastSeenAt = timeOf (nr_last_seen_at r),
      n_CreatedAt = time_Unix (nr_created_at r), n_UpdatedAt = time_Unix (nr_updated_at r)\<rparr>)"

text \<open>The two unique indexes: the name, and the host with its port.\<close>

definition node_clash :: "node_row list \<Rightarrow> node_row \<Rightarrow> err option" where
  "node_clash others r =
     (if list_ex (\<lambda>q. nocase (nr_name q) = nocase (nr_name r)) others then Some (unique_error ''nodes'' [''name''])
      else if list_ex (\<lambda>q. nocase (nr_host q) = nocase (nr_host r) \<and> nr_port q = nr_port r) others
      then Some (unique_error ''nodes'' [''host'', ''port''])
      else None)"

definition node_by_id :: "int \<Rightarrow> 'z db_scheme \<Rightarrow> node_row option" where
  "node_by_id k s = find (\<lambda>r. nr_id r = k) (t_nodes s)"

definition NodeByID :: "int \<Rightarrow> ('z, Node) sql" where
  "NodeByID k = bnd (mapErr (Errorf ''scan node'') (query (node_by_id k))) (\<lambda>row. liftE (scanNode row))"

definition node_row_of :: "gotime \<Rightarrow> Node \<Rightarrow> node_row" where
  "node_row_of now n =
     \<lparr>nr_id = 0, nr_name = n_Name n, nr_host = n_Host n, nr_port = n_Port n, nr_username = n_Username n,
      nr_host_key = n_HostKey n, nr_last_seen_at = Some (unix now), nr_created_at = unix now, nr_updated_at = unix now\<rparr>"

definition insert_node :: "node_row \<Rightarrow> 'z db_scheme \<Rightarrow> (err + int) \<times> 'z db_scheme" where
  "insert_node r s =
     (let k = t_node_seq s + 1; r = r\<lparr>nr_id := k\<rparr> in
      case node_clash (t_nodes s) r of
        Some e \<Rightarrow> (Inl e, s) | None \<Rightarrow> (Inr k, s\<lparr>t_nodes := t_nodes s @ [r], t_node_seq := k\<rparr>))"

definition CreateNode :: "gotime \<Rightarrow> Node \<Rightarrow> ('z, Node) sql" where
  "CreateNode now n =
     bnd (mapErr (store_writeError ''create node'') (stmt (insert_node (node_row_of now n)))) NodeByID"

definition Nodes :: "('z, Node list) sql" where
  "Nodes =
     bnd (mapErr (Errorf ''list nodes'') (query (\<lambda>s. sort_key nr_id (t_nodes s)))) (\<lambda>rows.
     liftE (scan_all (\<lambda>r. scanNode (Some r)) rows))"

definition rename_node :: "gotime \<Rightarrow> int \<Rightarrow> string \<Rightarrow> 'z db_scheme \<Rightarrow> (err + nat) \<times> 'z db_scheme" where
  "rename_node now k name s =
     (case node_by_id k s of
        None \<Rightarrow> (Inr 0, s)
      | Some r \<Rightarrow>
        (let f = (\<lambda>r. r\<lparr>nr_name := name, nr_updated_at := unix now\<rparr>) in
         case node_clash (filter (\<lambda>q. nr_id q \<noteq> k) (t_nodes s)) (f r) of
           Some e \<Rightarrow> (Inl e, s)
         | None \<Rightarrow> (Inr 1, s\<lparr>t_nodes := map (\<lambda>q. if nr_id q = k then f q else q) (t_nodes s)\<rparr>)))"

definition RenameNode :: "gotime \<Rightarrow> int \<Rightarrow> string \<Rightarrow> ('z, Node) sql" where
  "RenameNode now k name =
     bnd (mapErr (store_writeError ''rename node'') (stmt (rename_node now k name))) (\<lambda>n.
     thn (expectOneRow n) (NodeByID k))"

definition TouchNode :: "int \<Rightarrow> gotime \<Rightarrow> ('z, unit) sql" where
  "TouchNode k seen = mapErr (Errorf ''touch node'') (stmt (\<lambda>s. (Inr (), s\<lparr>t_nodes :=
     map (\<lambda>q. if nr_id q = k then q\<lparr>nr_last_seen_at := Some (unix seen)\<rparr> else q) (t_nodes s)\<rparr>)))"

text \<open>Deleting servers by a condition, with the cascade to their devices.\<close>

definition drop_instances :: "(instance_row \<Rightarrow> bool) \<Rightarrow> 'z db_scheme \<Rightarrow> 'z db_scheme" where
  "drop_instances P s =
     (let gone = set (map ir_id (filter P (t_instances s))) in
      (drop_peers (\<lambda>r. pr_instance_id r \<in> gone) s)\<lparr>t_instances := filter (\<lambda>r. \<not> P r) (t_instances s)\<rparr>)"

definition DeleteNode :: "int \<Rightarrow> ('z, unit) sql" where
  "DeleteNode k = transact ''delete node'' ''delete node''
     (thn (mapErr (Errorf ''delete node servers'') (stmt (\<lambda>s. (Inr (), drop_instances (\<lambda>r. ir_node_id r = k) s))))
     (bnd (mapErr (Errorf ''delete node'') (stmt (\<lambda>s.
        (Inr (length (filter (\<lambda>r. nr_id r = k) (t_nodes s))), s\<lparr>t_nodes := filter (\<lambda>r. nr_id r \<noteq> k) (t_nodes s)\<rparr>)))) expectOneRow))"

section \<open>Facts\<close>

lemma drop_instances_fields:
  "t_instances (drop_instances P s) = filter (\<lambda>r. \<not> P r) (t_instances s)"
  "t_peers (drop_instances P s) = filter (\<lambda>r. pr_instance_id r \<notin> ir_id ` {i \<in> set (t_instances s). P i}) (t_peers s)"
  "t_nodes (drop_instances P s) = t_nodes s"
  by (simp_all add: drop_instances_def drop_peers_def Let_def)

lemma inv_drop_instances:
  assumes inv: "db_inv s" shows "db_inv (drop_instances P s)"
proof -
  let ?gone = "set (map ir_id (filter P (t_instances s)))"
  let ?d = "drop_peers (\<lambda>r. pr_instance_id r \<in> ?gone) s"
  let ?t = "drop_instances P s"
  have t: "?t = ?d\<lparr>t_instances := filter (\<lambda>r. \<not> P r) (t_instances s)\<rparr>" by (simp add: drop_instances_def Let_def)
  have d: "db_inv ?d" using inv by (rule inv_drop_peers)
  have same: "t_instances ?d = t_instances s" "t_instance_seq ?d = t_instance_seq s"
    by (simp_all add: drop_peers_def Let_def)
  have keep: "instance_by_id j ?t = Some i" if "j \<notin> ?gone" "instance_by_id j ?d = Some i" for j i
  proof -
    have "\<not> P x" if "x \<in> set (t_instances s)" "ir_id x = j" for x using that \<open>j \<notin> ?gone\<close> by auto
    then have "find (\<lambda>r. ir_id r = j) (filter (\<lambda>r. \<not> P r) xs) = find (\<lambda>r. ir_id r = j) xs"
      if "set xs \<subseteq> set (t_instances s)" for xs
      using that by (induction xs) auto
    from this[OF subset_refl] show ?thesis using that(2) same(1) by (simp add: instance_by_id_def t del: set_map set_filter)
  qed
  have "instances_inv ?t"
    using d same unfolding t by (auto simp: db_inv_def instances_inv_def distinct_map_filter)
  moreover have "peers_inv ?t"
  proof -
    have "\<forall>r \<in> set (t_peers ?d). pr_instance_id r \<notin> ?gone" by (simp add: drop_peers_def Let_def)
    then have "\<forall>r \<in> set (t_peers ?d). peer_row_ok ?d r \<longrightarrow> peer_row_ok ?t r"
      using keep by (auto simp: peer_row_ok_def)
    moreover have "t_peers ?t = t_peers ?d" "t_peer_seq ?t = t_peer_seq ?d" by (simp_all add: t)
    ultimately show ?thesis using d by (auto simp: db_inv_def peers_inv_def)
  qed
  ultimately show ?thesis using d by (simp add: db_inv_def usage_inv_def t)
qed

lemma surviving_peers:
  assumes "db_inv s"
  shows "t_peers (drop_instances P s) = filter (\<lambda>r. \<exists>i \<in> set (t_instances (drop_instances P s)). ir_id i = pr_instance_id r) (t_peers s)"
  unfolding drop_instances_fields
proof (rule filter_cong[OF refl])
  fix r assume r: "r \<in> set (t_peers s)"
  then have "peer_row_ok s r" using assms by (simp add: db_inv_def peers_inv_def)
  then obtain i where i: "i \<in> set (t_instances s)" "ir_id i = pr_instance_id r"
    unfolding peer_row_ok_def using instance_by_id_Some by blast
  have one: "q = i" if "q \<in> set (t_instances s)" "ir_id q = ir_id i" for q
    using assms that i(1) by (auto simp: db_inv_def instances_inv_def dest: distinct_map_inj_on)
  show "(pr_instance_id r \<notin> ir_id ` {i \<in> set (t_instances s). P i}) =
      (\<exists>i \<in> set (filter (\<lambda>r. \<not> P r) (t_instances s)). ir_id i = pr_instance_id r)"
    (is "?l = ?r")
  proof
    assume ?l
    then have "\<not> P i" using i by (auto simp: image_iff)
    then show ?r using i by auto
  next
    assume ?r
    then have "\<not> P i" using one i(2) by auto
    then show ?l using one i(2) by auto
  qed
qed

lemma db_inv_nodes [simp]: "db_inv (s\<lparr>t_nodes := ns\<rparr>) = db_inv s"
proof -
  have "peer_row_ok (s\<lparr>t_nodes := ns\<rparr>) r = peer_row_ok s r" for r
    by (simp add: peer_row_ok_def instance_by_id_def)
  then show ?thesis by (simp add: db_inv_def instances_inv_def peers_inv_def usage_inv_def)
qed

lemma drop_instances_faults: "drop_instances P (s\<lparr>t_faults := a\<rparr>) = (drop_instances P s)\<lparr>t_faults := a\<rparr>"
  by (simp add: drop_instances_def drop_peers_def Let_def)

lemma DeleteNode_Inr:
  assumes "DeleteNode k s = (Inr u, s')"
  shows "node_by_id k s \<noteq> None \<and>
    same_tables ((drop_instances (\<lambda>r. ir_node_id r = k) s)\<lparr>t_nodes := filter (\<lambda>r. nr_id r \<noteq> k) (t_nodes s)\<rparr>) s'"
proof -
  let ?body = "thn (mapErr (Errorf ''delete node servers'') (stmt (\<lambda>s. (Inr (), drop_instances (\<lambda>r. ir_node_id r = k) s))))
     (bnd (mapErr (Errorf ''delete node'') (stmt (\<lambda>s.
        (Inr (length (filter (\<lambda>r. nr_id r = k) (t_nodes s))), s\<lparr>t_nodes := filter (\<lambda>r. nr_id r \<noteq> k) (t_nodes s)\<rparr>)))) expectOneRow)"
  obtain s1 s2 where s1: "same_tables s s1" and body: "?body s1 = (Inr u, s2)" and s2: "same_tables s2 s'"
    using assms unfolding DeleteNode_def by (rule transact_Inr)
  obtain a where s1': "s1 = s\<lparr>t_faults := a\<rparr>" using s1 by (auto simp: same_tables_def)
  obtain v t where t: "stmt (\<lambda>s. (Inr (), drop_instances (\<lambda>r. ir_node_id r = k) s)) s1 = (Inr v, t)"
    and n: "bnd (mapErr (Errorf ''delete node'') (stmt (\<lambda>s.
        (Inr (length (filter (\<lambda>r. nr_id r = k) (t_nodes s))), s\<lparr>t_nodes := filter (\<lambda>r. nr_id r \<noteq> k) (t_nodes s)\<rparr>)))) expectOneRow t = (Inr u, s2)"
    using body by (auto elim!: thn_InrE dest!: mapErr_InrE)
  have t': "same_tables (drop_instances (\<lambda>r. ir_node_id r = k) s) t"
    using t by (cases rule: stmt_cases[of "\<lambda>s. (Inr (), drop_instances (\<lambda>r. ir_node_id r = k) s)" s1])
      (auto simp: s1' drop_instances_faults)
  let ?g = "\<lambda>s. (Inr (length (filter (\<lambda>r. nr_id r = k) (t_nodes s))), s\<lparr>t_nodes := filter (\<lambda>r. nr_id r \<noteq> k) (t_nodes s)\<rparr>) :: (err + nat) \<times> 'a db_scheme"
  have "\<exists>b. s2 = t\<lparr>t_faults := b, t_nodes := filter (\<lambda>r. nr_id r \<noteq> k) (t_nodes t)\<rparr> \<and> filter (\<lambda>r. nr_id r = k) (t_nodes t) \<noteq> []"
    using n by (cases rule: stmt_cases[of ?g t]) (auto simp: bnd_def mapErr_def expectOneRow_def split: if_splits)
  moreover obtain c where "t = (drop_instances (\<lambda>r. ir_node_id r = k) s)\<lparr>t_faults := c\<rparr>" using t' by (auto simp: same_tables_def)
  ultimately show ?thesis
    using s2 by (auto simp: same_tables_def drop_instances_fields node_by_id_def find_None_iff filter_empty_conv)
qed

end
