(* ===== verification/Reconcile.thy ===== *)
theory Reconcile
  imports Deploy StoreNodes
begin

text \<open>
  internal/deploy/reconcile.go: bringing a node in line with the database when it comes up, after a
  restore, and when it is let go.
\<close>

text \<open>Loops that go on after an error and join the errors, as \<open>errs = append(errs, \<dots>)\<close> does.\<close>

primrec collect :: "('s, err option) prog list \<Rightarrow> ('s, err option list) prog" where
  "collect [] = ret []"
| "collect (m # ms) = bnd m (\<lambda>e. bnd (collect ms) (\<lambda>es. ret (e # es)))"

definition error_of :: "(err \<Rightarrow> err) \<Rightarrow> ('s, unit) prog \<Rightarrow> ('s, err option) prog" where
  "error_of f m = bnd (attempt m) (\<lambda>r. ret (map_option f (left_of r)))"

definition removeStaleConfigs :: "'m Host \<Rightarrow> Instance list \<Rightarrow> ('m, unit) prog" where
  "removeStaleConfigs h is =
     bnd (h_ReadDir h (wireguard_dir h)) (\<lambda>names.
     forEach names (\<lambda>name. if name \<in> set (map (\<lambda>i. Itoa (in_ID i)) is) then ret ()
       else h_RemoveAll h (wireguard_dir h @ ''/'' @ name)))"

definition reconcile_one :: "'m manager \<Rightarrow> 'm Host \<Rightarrow> Container list \<Rightarrow> Instance \<Rightarrow> ('m, 'z, unit) wprog" where
  "reconcile_one m h cts i =
     (case by_name cts (ContainerName m (in_ID i)) of
        None \<Rightarrow> manager_deploy m h i True False
      | Some ct \<Rightarrow> if ct_Image ct \<noteq> mg_image m then manager_deploy m h i (Running ct) False else manager_apply m h i)"

definition orphans :: "'m manager \<Rightarrow> Container list \<Rightarrow> Instance list \<Rightarrow> Container list" where
  "orphans m cts is = filter (\<lambda>ct. owns m ct \<and> ct_Name ct \<notin> set (map (\<lambda>i. ContainerName m (in_ID i)) is)) cts"

definition reconcile :: "'m manager \<Rightarrow> int \<Rightarrow> 'm Host \<Rightarrow> Instance list \<Rightarrow> ('m, 'z, unit) wprog" where
  "reconcile m nodeID h is =
     bnd (on_host nodeID (h_ListContainers h)) (\<lambda>cts.
     bnd (collect (map (\<lambda>i. error_of (Errorf (''instance '' @ Itoa (in_ID i))) (reconcile_one m h cts i)) is)) (\<lambda>a.
     bnd (collect (map (\<lambda>ct. error_of (Errorf (''remove '' @ ct_Name ct)) (on_host nodeID (remove_if_there h (ct_Name ct))))
            (orphans m cts is))) (\<lambda>b.
     bnd (error_of id (on_host nodeID (removeStaleConfigs h is))) (\<lambda>c.
     failOn (errors_Join (a @ b @ [c]))))))"

definition takeRebuild :: "int \<Rightarrow> ('m, 'z, bool) wprog" where
  "takeRebuild nodeID = bnd (gets (\<lambda>s. w_rebuild s nodeID)) (\<lambda>pending.
     thn (modify (\<lambda>s. s\<lparr>w_rebuild := (w_rebuild s)(nodeID := False)\<rparr>)) (ret pending))"

definition remove_owned :: "'m manager \<Rightarrow> 'm Host \<Rightarrow> Container list \<Rightarrow> ('m, unit) prog" where
  "remove_owned m h cts = forEach (filter (owns m) cts) (\<lambda>ct. remove_if_there h (ct_Name ct))"

definition rebuildNode :: "'m manager \<Rightarrow> int \<Rightarrow> 'm Host \<Rightarrow> Instance list \<Rightarrow> ('m, 'z, unit) wprog" where
  "rebuildNode m nodeID h is =
     bnd (on_host nodeID (h_ListContainers h)) (\<lambda>cts.
     thn (on_host nodeID (remove_owned m h cts))
     (thn (on_host nodeID (removeStaleConfigs h is))
     (bnd (collect (map (\<lambda>i. error_of (Errorf (in_Name i)) (manager_deploy m h i True False)) is)) (\<lambda>errs.
      failOn (errors_Join errs)))))"

definition NodeUp :: "'m manager \<Rightarrow> int \<Rightarrow> ('m, 'z, unit) wprog" where
  "NodeUp m nodeID =
     (case hostFor m nodeID of
        Inl e \<Rightarrow> throw e
      | Inr h \<Rightarrow>
        bnd Instances (\<lambda>all.
        bnd (takeRebuild nodeID) (\<lambda>pending.
        if pending then rebuildNode m nodeID h (byNode all nodeID) else reconcile m nodeID h (byNode all nodeID))))"

definition Reconcile :: "'m manager \<Rightarrow> ('m, 'z, unit) wprog" where
  "Reconcile m = NodeUp m 0"

definition RemoveNode :: "'m manager \<Rightarrow> int \<Rightarrow> ('m, 'z, unit) wprog" where
  "RemoveNode m nodeID =
     (case hostFor m nodeID of
        Inl e \<Rightarrow> throw e
      | Inr h \<Rightarrow>
        bnd (on_host nodeID (h_ListContainers h)) (\<lambda>cts.
        thn (on_host nodeID (remove_owned m h cts))
        (bnd Instances (\<lambda>all. modify (fold (\<lambda>i. forget (in_ID i)) (byNode all nodeID))))))"

definition MarkRebuild :: "('m, 'z, unit) wprog" where
  "MarkRebuild = bnd Nodes (\<lambda>nodes. modify (\<lambda>s. s\<lparr>w_activity := (\<lambda>_. []), w_blocked := (\<lambda>_. None), w_down := (\<lambda>_. None),
     w_rebuild := (\<lambda>k. k \<in> insert 0 (set (map n_ID nodes)))\<rparr>))"

definition Rebuild :: "'m manager \<Rightarrow> ('m, 'z, unit) wprog" where
  "Rebuild m = thn MarkRebuild (NodeUp m 0)"

end
