(* ===== verification/PeerService.thy ===== *)
theory PeerService
  imports Journal
begin

text \<open>
  internal/peer (peer.go, group.go, share.go): the commands on devices. Each saves the change, records
  an event and updates the running tunnel through the interface \<open>Tunnels\<close>, here the argument \<open>apply\<close>.
  A command that saves and then fails to update the tunnel returns both the device and the error, so its
  value is a pair.
\<close>

text \<open>\<open>strconv.Quote\<close>; \<open>printable\<close> is \<open>unicode.IsPrint\<close> past ASCII.\<close>

definition hex8 :: "nat \<Rightarrow> string" where
  "hex8 n = map (\<lambda>k. Netip.hex_digit (n div 16 ^ k mod 16)) [7, 6, 5, 4, 3, 2, 1, 0]"

definition quote_rune :: "(nat \<Rightarrow> bool) \<Rightarrow> nat \<times> string \<Rightarrow> string" where
  "quote_rune printable rb = (case rb of (r, bs) \<Rightarrow>
     if r = RuneError \<and> length bs = 1 then CHR 0x5C # CHR ''x'' # concat (map (\<lambda>c. drop 2 (hex4 (byte c))) bs)
     else if r = 34 \<or> r = 92 then CHR 0x5C # bs
     else if (if r < 128 then 32 \<le> r \<and> r < 127 else printable r) then bs
     else if r = 7 then [CHR 0x5C, CHR ''a''] else if r = 8 then [CHR 0x5C, CHR ''b'']
     else if r = 12 then [CHR 0x5C, CHR ''f''] else if r = 10 then [CHR 0x5C, CHR ''n'']
     else if r = 13 then [CHR 0x5C, CHR ''r''] else if r = 9 then [CHR 0x5C, CHR ''t'']
     else if r = 11 then [CHR 0x5C, CHR ''v'']
     else if r < 32 \<or> r = 127 then CHR 0x5C # CHR ''x'' # drop 2 (hex4 r)
     else if r < 65536 then CHR 0x5C # CHR ''u'' # hex4 r else CHR 0x5C # CHR ''U'' # hex8 r)"

definition Quote :: "(nat \<Rightarrow> bool) \<Rightarrow> string \<Rightarrow> string" where
  "Quote printable s = [CHR 0x22] @ concat (map (quote_rune printable) (runes_of s)) @ [CHR 0x22]"

section \<open>Errors\<close>

text \<open>\<open>errors.As\<close> for a \<open>DuplicateError\<close>: its column.\<close>

fun as_duplicate :: "err \<Rightarrow> string option" where
  "as_duplicate (DuplicateError c) = Some c"
| "as_duplicate (Errorf m e) = as_duplicate e"
| "as_duplicate (Errorf2 m a b) = (case as_duplicate a of None \<Rightarrow> as_duplicate b | Some c \<Rightarrow> Some c)"
| "as_duplicate (AppError k c m fs (Some e)) = as_duplicate e"
| "as_duplicate (Join es) = (case filter (\<lambda>x. x \<noteq> None) (map as_duplicate es) of [] \<Rightarrow> None | x # _ \<Rightarrow> x)"
| "as_duplicate _ = None"

definition subnetFull :: "Instance \<Rightarrow> err \<Rightarrow> err" where
  "subnetFull i e = AppError Conflict ''subnet_full'' (''no free addresses left in '' @ prefix_String (Subnet i)) [] (Some e)"

definition peer_writeError :: "err \<Rightarrow> err" where
  "peer_writeError e =
     (case as_duplicate e of
        None \<Rightarrow> e
      | Some c \<Rightarrow>
        if c = ''name'' then apperr_Field ''name'' ''a peer with this name already exists''
        else if c = ''public_key'' then apperr_Field ''public_key'' ''another device already uses this public key''
        else e)"

definition applyError :: "err \<Rightarrow> err" where
  "applyError e = AppError Upstream ''apply_failed''
     (''saved, but the running tunnel could not be updated (restart it to apply): '' @ err_Error e) [] (Some e)"

section \<open>Commands on one device\<close>

text \<open>\<open>s.apply\<close>: the error to return with what was saved, if any.\<close>

definition peer_apply :: "(int \<Rightarrow> ('z, unit) sprog) \<Rightarrow> int \<Rightarrow> ('z, err option) sprog" where
  "peer_apply apply k = bnd (attempt (apply k)) (\<lambda>r. ret (map_option applyError (left_of r)))"

definition created_event :: "env \<Rightarrow> Instance \<Rightarrow> Peer \<Rightarrow> Event" where
  "created_event v i p =
     (let e = ForPeer ''device.created'' i p in if HasLimits p then e\<lparr>e_Detail := Limits (env_off v) p\<rparr> else e)"

definition create_error :: "Instance \<Rightarrow> err \<Rightarrow> err" where
  "create_error i e = (if errors_Is e ErrSubnetFull then subnetFull i e else peer_writeError e)"

definition peer_Create :: "env \<Rightarrow> (int \<Rightarrow> ('z, unit) sprog) \<Rightarrow> Instance \<Rightarrow> Peer \<Rightarrow> ('z, Peer \<times> err option) sprog" where
  "peer_Create v apply i p =
     thn (failOn (apperr_Fields [peer_Validate p]))
     (bnd (mapErr (create_error i) (CreatePeer (env_now v) p)) (\<lambda>created.
      thn (Record v (created_event v i created))
      (bnd (peer_apply apply (in_ID i)) (\<lambda>err. ret (created, err)))))"

definition save_events :: "env \<Rightarrow> Instance \<Rightarrow> Peer \<Rightarrow> Peer \<Rightarrow> Event list" where
  "save_events v i before updated =
     (if p_Name updated \<noteq> p_Name before
      then [(ForPeer ''device.renamed'' i updated)\<lparr>e_Detail := ''was '' @ p_Name before\<rparr>] else []) @
     (if p_Enabled updated \<noteq> p_Enabled before
      then [ForPeer (if p_Enabled updated then ''device.enabled'' else ''device.disabled'') i updated] else []) @
     (if Limits (env_off v) updated \<noteq> Limits (env_off v) before
      then [(ForPeer ''device.limits_changed'' i updated)\<lparr>e_Detail := Limits (env_off v) updated\<rparr>] else [])"

definition peer_save :: "env \<Rightarrow> Instance \<Rightarrow> Peer \<Rightarrow> Peer \<Rightarrow> ('z, Peer) sprog" where
  "peer_save v i before after =
     thn (failOn (apperr_Fields [peer_Validate after]))
     (bnd (mapErr peer_writeError (UpdatePeer (env_now v) after)) (\<lambda>updated.
      thn (forEach (save_events v i before updated) (Record v)) (ret updated)))"

definition peer_Update :: "env \<Rightarrow> (int \<Rightarrow> ('z, unit) sprog) \<Rightarrow> Instance \<Rightarrow> Peer \<Rightarrow> Peer \<Rightarrow> ('z, Peer \<times> err option) sprog" where
  "peer_Update v apply i before after =
     bnd (peer_save v i before after) (\<lambda>updated. bnd (peer_apply apply (in_ID i)) (\<lambda>err. ret (updated, err)))"

definition peer_resetUsage :: "env \<Rightarrow> Instance \<Rightarrow> Peer \<Rightarrow> ('z, Peer) sprog" where
  "peer_resetUsage v i p =
     bnd (PeersLimitUsage (env_off v) [p_ID p] (env_now v)) (\<lambda>used.
     bnd (ResetPeerUsage (env_off v) (p_ID p) (env_now v)) (\<lambda>reset.
     thn (Record v ((ForPeer ''device.usage_reset'' i reset)\<lparr>e_Detail :=
       Bytes (Total (usage_of used (p_ID p))) @ '' used '' @ Period (env_off v) p (env_now v)\<rparr>))
     (ret reset)))"

definition ResetUsage :: "env \<Rightarrow> (int \<Rightarrow> ('z, unit) sprog) \<Rightarrow> Instance \<Rightarrow> Peer \<Rightarrow> ('z, Peer \<times> err option) sprog" where
  "ResetUsage v apply i p =
     bnd (peer_resetUsage v i p) (\<lambda>reset. bnd (peer_apply apply (in_ID i)) (\<lambda>err. ret (reset, err)))"

definition move_error :: "(nat \<Rightarrow> bool) \<Rightarrow> Instance \<Rightarrow> Peer \<Rightarrow> err \<Rightarrow> err" where
  "move_error printable to p e =
     (if errors_Is e ErrSubnetFull then subnetFull to e
      else if as_duplicate e = Some ''name''
      then apperr_Field ''name'' (Quote printable (in_Name to) @ '' already has a device named '' @
        Quote printable (p_Name p) @ ''; rename one first'')
      else e)"

definition Move :: "env \<Rightarrow> (nat \<Rightarrow> bool) \<Rightarrow> (int \<Rightarrow> ('z, unit) sprog) \<Rightarrow> Instance \<Rightarrow> Instance \<Rightarrow> Peer \<Rightarrow> ('z, Peer \<times> err option) sprog" where
  "Move v printable apply from to p =
     bnd (mapErr (move_error printable to p) (MovePeer (env_now v) (p_ID p) (in_ID to))) (\<lambda>moved.
     thn (Record v ((ForPeer ''device.moved'' to moved)\<lparr>e_Detail := ''from '' @ in_Name from\<rparr>))
     (bnd (attempt (apply (in_ID from))) (\<lambda>a.
      bnd (attempt (apply (in_ID to))) (\<lambda>b.
      ret (moved, map_option applyError (errors_Join [left_of a, left_of b]))))))"

definition peer_remove :: "env \<Rightarrow> Instance \<Rightarrow> Peer \<Rightarrow> ('z, unit) sprog" where
  "peer_remove v i p = thn (DeletePeer (p_ID p)) (Record v (ForPeer ''device.deleted'' i p))"

definition peer_Delete :: "env \<Rightarrow> (int \<Rightarrow> ('z, unit) sprog) \<Rightarrow> Instance \<Rightarrow> Peer \<Rightarrow> ('z, unit) sprog" where
  "peer_Delete v apply i p = thn (peer_remove v i p) (bnd (peer_apply apply (in_ID i)) failOn)"

section \<open>Commands on a group\<close>

text \<open>
  The loop of \<open>each\<close>: what stopped it, the servers whose tunnels are to be updated, in the order they were
  met, and what was saved. \<open>known\<close> is the map of the servers loaded so far.
\<close>

type_synonym each_result = "err option \<times> int list \<times> Peer list"

primrec each_loop :: "(Instance \<Rightarrow> nat \<Rightarrow> ('z, Peer option) sprog) \<Rightarrow> (int \<times> Instance) list \<Rightarrow> nat \<Rightarrow> int list \<Rightarrow> Peer list \<Rightarrow> Peer list
    \<Rightarrow> ('z, each_result) sprog" where
  "each_loop save known n touched out [] = ret (None, touched, out)"
| "each_loop save known n touched out (p # ps) =
     bnd (case map_of known (p_InstanceID p) of Some i \<Rightarrow> ret (Inr i) | None \<Rightarrow> attempt (InstanceByID (p_InstanceID p))) (\<lambda>r.
     case r of
       Inl e \<Rightarrow> ret (Some e, touched, out)
     | Inr i \<Rightarrow>
       let new = map_of known (p_InstanceID p) = None; touched = (if new then touched @ [in_ID i] else touched);
           known = (if new then (p_InstanceID p, i) # known else known)
       in bnd (attempt (save i n)) (\<lambda>q.
          case q of
            Inl e \<Rightarrow> ret (Some e, touched, out)
          | Inr saved \<Rightarrow> each_loop save known (Suc n) touched (case saved of None \<Rightarrow> out | Some q \<Rightarrow> out @ [q]) ps))"

primrec apply_each :: "(int \<Rightarrow> ('z, unit) sprog) \<Rightarrow> int list \<Rightarrow> ('z, err option list) sprog" where
  "apply_each apply [] = ret []"
| "apply_each apply (k # ks) =
     bnd (attempt (apply k)) (\<lambda>r. bnd (apply_each apply ks) (\<lambda>es. ret (left_of r # es)))"

definition peer_each :: "(int \<Rightarrow> ('z, unit) sprog) \<Rightarrow> Peer list \<Rightarrow> (Instance \<Rightarrow> nat \<Rightarrow> ('z, Peer option) sprog) \<Rightarrow> ('z, Peer list) sprog" where
  "peer_each apply peers save =
     bnd (each_loop save [] 0 [] [] peers) (\<lambda>(err, touched, out).
     bnd (apply_each apply touched) (\<lambda>errs.
     case err of
       Some e \<Rightarrow> throw e
     | None \<Rightarrow> (case errors_Join errs of Some e \<Rightarrow> throw (applyError e) | None \<Rightarrow> ret out)))"

definition UpdateGroup :: "env \<Rightarrow> (int \<Rightarrow> ('z, unit) sprog) \<Rightarrow> Peer list \<Rightarrow> Peer list \<Rightarrow> ('z, Peer list) sprog" where
  "UpdateGroup v apply before after =
     thn (forEach after (\<lambda>p. failOn (apperr_Fields [peer_Validate p])))
       (peer_each apply before (\<lambda>i n. bnd (peer_save v i (before ! n) (after ! n)) (\<lambda>q. ret (Some q))))"

definition DeleteGroup :: "env \<Rightarrow> (int \<Rightarrow> ('z, unit) sprog) \<Rightarrow> Peer list \<Rightarrow> ('z, unit) sprog" where
  "DeleteGroup v apply peers =
     bnd (peer_each apply peers (\<lambda>i n. thn (peer_remove v i (peers ! n)) (ret None))) (\<lambda>_. ret ())"

definition ResetGroupUsage :: "env \<Rightarrow> (int \<Rightarrow> ('z, unit) sprog) \<Rightarrow> Peer list \<Rightarrow> ('z, Peer list) sprog" where
  "ResetGroupUsage v apply peers =
     peer_each apply peers (\<lambda>i n. bnd (peer_resetUsage v i (peers ! n)) (\<lambda>q. ret (Some q)))"

section \<open>Share links\<close>

text \<open>\<open>token\<close> is what \<open>rand.Text\<close> returns.\<close>

definition Share :: "env \<Rightarrow> string \<Rightarrow> Instance \<Rightarrow> Peer \<Rightarrow> gotime option \<Rightarrow> ('z, Peer) sprog" where
  "Share v token i p expires =
     (if (case expires of None \<Rightarrow> False | Some t \<Rightarrow> \<not> t > env_now v)
      then throw (apperr_Field ''expires_at'' ''expires_at must be in the future'')
      else bnd (SetPeerShare (p_ID p) token expires) (\<lambda>shared.
        let e = ForPeer ''device.shared'' i shared in
        thn (Record v (case expires of None \<Rightarrow> e | Some t \<Rightarrow> e\<lparr>e_Detail := ''until '' @ Expiry (env_off v) t\<rparr>))
        (ret shared)))"

definition Unshare :: "env \<Rightarrow> Instance \<Rightarrow> Peer \<Rightarrow> ('z, unit) sprog" where
  "Unshare v i p =
     (if p_ShareToken p = [] then ret ()
      else bnd (SetPeerShare (p_ID p) [] None) (\<lambda>_. Record v (ForPeer ''device.unshared'' i p)))"

definition link_gone :: err where
  "link_gone = apperr_New NotFound ''not_found'' ''this link has expired or was removed''"

definition Shared :: "gotime \<Rightarrow> string \<Rightarrow> ('z, Instance \<times> Peer) sprog" where
  "Shared now token =
     bnd (mapErr (\<lambda>e. if errors_Is e ErrNotFound then link_gone else e) (PeerByShareToken token)) (\<lambda>p.
     if (case p_ShareExpiresAt p of None \<Rightarrow> False | Some t \<Rightarrow> \<not> now < t) then throw link_gone
     else bnd (InstanceByID (p_InstanceID p)) (\<lambda>i. ret (i, p)))"

end
