(* ===== verification/PeerFacts.thy ===== *)
theory PeerFacts
  imports PeerService
begin

text \<open>
  Facts about the commands on devices. \<open>devices\<close> is what the database says of servers, devices and
  accounts; recording an event leaves it alone, and so must a tunnel update, which is the law of the
  interface \<open>Tunnels\<close> (the locale). So a command does to it what its store operation does.
\<close>

section \<open>What events and tunnels leave alone\<close>

definition devices :: "'z db_scheme \<Rightarrow> db" where
  "devices s = (db.truncate s)\<lparr>t_faults := []\<rparr>"

lemma devices_faults [simp]: "devices (s\<lparr>t_faults := bs\<rparr>) = devices s"
  by (simp add: devices_def db.defs)

lemma devices_fields:
  assumes "devices s' = devices s"
  shows "t_instances s' = t_instances s" "t_peers s' = t_peers s" "t_peer_seq s' = t_peer_seq s" "t_instance_seq s' = t_instance_seq s"
    "t_counters s' = t_counters s" "t_usage s' = t_usage s" "t_users s' = t_users s" "t_sessions s' = t_sessions s"
    "t_settings s' = t_settings s" "t_nodes s' = t_nodes s"
  using assms by (auto simp: devices_def db.defs)

lemma devices_db_inv:
  assumes "devices s' = devices s" shows "db_inv s' = db_inv s"
  using devices_fields[OF assms]
  by (simp add: db_inv_def instances_inv_def peers_inv_def usage_inv_def peer_row_ok_def instance_by_id_def)

lemma same_tables_devices: "same_tables s s' \<Longrightarrow> devices s' = devices s"
  by (auto simp: same_tables_def)

lemma devices_core: "core s' = core s \<Longrightarrow> devices s' = devices s"
proof -
  have "devices s = devices (core s)" for s :: "'a site_scheme" by (simp add: devices_def core_def db.defs)
  then show "core s' = core s \<Longrightarrow> devices s' = devices s" by metis
qed

lemma Record_run:
  obtains s' where "Record v e s = (Inr (), s')" and "core s' = core s" and "devices s' = devices s"
  using silent_run[OF silent_Record[of v e], of s] devices_core by auto

lemma keeps_core: "silent m \<Longrightarrow> keeps (\<lambda>s. core s = c) m"
  by (auto simp: keeps_def silent_def)

lemma keeps_devices_Record [prog_rules, intro]: "keeps (\<lambda>s. devices s = c) (Record v e)"
  unfolding keeps_def by (metis Record_run snd_conv)

lemma keeps_db_inv_Record [prog_rules, intro]: "keeps db_inv (Record v e)"
  unfolding keeps_def by (metis Record_run snd_conv devices_db_inv)

lemma keeps_devices_query [prog_rules, intro]: "keeps (\<lambda>s. devices s = c) (query f)"
  by (rule keeps_query) simp

lemma keeps_devices_InstanceByID [prog_rules, intro]: "keeps (\<lambda>s. devices s = c) (InstanceByID k)"
  unfolding InstanceByID_def by (intro prog_rules)

lemma keeps_devices_PeerByID [prog_rules, intro]: "keeps (\<lambda>s. devices s = c) (PeerByID k)"
  unfolding PeerByID_def by (intro prog_rules)

section \<open>The commands under the law of tunnels\<close>

lemma keeps_valid_CreatePeer: "peer_Validate p = [] \<Longrightarrow> keeps db_inv (CreatePeer now p)"
  by (rule keeps_CreatePeer) (auto simp: peer_Validate_Nil valid_peer_def period_Valid_def)

lemma keeps_valid_UpdatePeer: "peer_Validate p = [] \<Longrightarrow> keeps db_inv (UpdatePeer now p)"
  by (rule keeps_UpdatePeer) (auto simp: peer_Validate_Nil valid_peer_def period_Valid_def)

lemma apperr_Fields_one: "apperr_Fields [f] = None \<longleftrightarrow> f = []"
  by (simp add: apperr_Fields_None)

lemma keeps_checked: "(peer_Validate p = [] \<Longrightarrow> keeps I m) \<Longrightarrow> keeps I (thn (failOn (apperr_Fields [peer_Validate p])) m)"
  using apperr_Fields_one[of "peer_Validate p"]
  by (cases "apperr_Fields [peer_Validate p]") (auto simp: thn_def)

lemma keeps_peer_save: "keeps db_inv (peer_save v i before after)"
  unfolding peer_save_def by (intro keeps_checked keeps_valid_UpdatePeer prog_rules)

lemma keeps_peer_resetUsage: "keeps db_inv (peer_resetUsage v i p)"
  unfolding peer_resetUsage_def PeersLimitUsage_def limitUsage_def by (intro prog_rules keeps_ResetPeerUsage)

lemma keeps_peer_remove: "keeps db_inv (peer_remove v i p)"
  unfolding peer_remove_def by (intro prog_rules keeps_DeletePeer)

lemma keeps_each_loop:
  assumes save: "\<And>i n. keeps db_inv (save i n)"
  shows "keeps db_inv (each_loop save known n touched out ps)"
proof (induction ps arbitrary: known n touched out)
  case Nil
  show ?case unfolding each_loop.simps by (rule keeps_ret)
next
  case (Cons p ps)
  show ?case unfolding each_loop.simps by (intro prog_rules save Cons.IH)
qed

locale tunnels =
  fixes tunnel :: "int \<Rightarrow> ('z, unit) sprog"
  assumes apply_devices: "devices (snd (tunnel k s)) = devices s"
begin

lemma keeps_apply_devices: "keeps (\<lambda>s. devices s = c) (tunnel k)"
  by (simp add: keeps_def apply_devices)

lemma keeps_apply: "keeps db_inv (tunnel k)"
  unfolding keeps_def using apply_devices devices_db_inv by blast

lemma peer_apply_run:
  obtains err s' where "peer_apply tunnel k s = (Inr err, s')" and "devices s' = devices s"
proof -
  obtain r s' where run: "tunnel k s = (r, s')" by (cases "tunnel k s")
  then have "devices s' = devices s" using apply_devices[of k s] by simp
  then show ?thesis using run
    by (intro that[of "map_option applyError (left_of r)" s']) (simp_all add: peer_apply_def bnd_def attempt_def)
qed

lemma keeps_peer_apply: "keeps db_inv (peer_apply tunnel k)"
  unfolding peer_apply_def by (intro prog_rules keeps_apply)

lemma keeps_peer_each: "(\<And>i n. keeps db_inv (save i n)) \<Longrightarrow> keeps db_inv (peer_each tunnel peers save)"
proof -
  assume save: "\<And>i n. keeps db_inv (save i n)"
  have "keeps db_inv (apply_each tunnel ks)" for ks
  proof (induction ks)
    case (Cons k ks)
    show ?case unfolding apply_each.simps by (intro prog_rules keeps_apply Cons.IH)
  qed (simp only: apply_each.simps keeps_ret)
  then show ?thesis unfolding peer_each_def by (intro prog_rules keeps_each_loop save)
qed

lemma commands_keep:
  "keeps db_inv (peer_Create v tunnel i p)" "keeps db_inv (peer_Update v tunnel i before after)"
  "keeps db_inv (ResetUsage v tunnel i p)" "keeps db_inv (Move v printable tunnel from to p)"
  "keeps db_inv (peer_Delete v tunnel i p)" "keeps db_inv (UpdateGroup v tunnel befores afters)"
  "keeps db_inv (DeleteGroup v tunnel peers)" "keeps db_inv (ResetGroupUsage v tunnel peers)"
proof -
  show "keeps db_inv (peer_Create v tunnel i p)"
    unfolding peer_Create_def by (intro keeps_checked prog_rules keeps_valid_CreatePeer keeps_peer_apply)
  show "keeps db_inv (peer_Update v tunnel i before after)"
    unfolding peer_Update_def by (intro prog_rules keeps_peer_save keeps_peer_apply)
  show "keeps db_inv (ResetUsage v tunnel i p)"
    unfolding ResetUsage_def by (intro prog_rules keeps_peer_resetUsage keeps_peer_apply)
  show "keeps db_inv (Move v printable tunnel from to p)"
    unfolding Move_def by (intro prog_rules keeps_MovePeer keeps_apply)
  show "keeps db_inv (peer_Delete v tunnel i p)"
    unfolding peer_Delete_def by (intro prog_rules keeps_peer_remove keeps_peer_apply)
  show "keeps db_inv (UpdateGroup v tunnel befores afters)"
    unfolding UpdateGroup_def by (intro prog_rules keeps_peer_each keeps_peer_save)
  show "keeps db_inv (DeleteGroup v tunnel peers)"
    unfolding DeleteGroup_def by (intro prog_rules keeps_peer_each keeps_peer_remove)
  show "keeps db_inv (ResetGroupUsage v tunnel peers)"
    unfolding ResetGroupUsage_def by (intro prog_rules keeps_peer_each keeps_peer_resetUsage)
qed

text \<open>A command on one device does to the tables what its store operation does.\<close>

lemma Create_saves:
  "case peer_Create v tunnel i p s of
     (Inl e, s') \<Rightarrow> devices s' = devices s
   | (Inr (q, err), s') \<Rightarrow> \<exists>t. CreatePeer (env_now v) p s = (Inr q, t) \<and> devices s' = devices t"
proof (cases "apperr_Fields [peer_Validate p]")
  case (Some e)
  then show ?thesis by (simp add: peer_Create_def thn_def)
next
  case None
  obtain r t where run: "CreatePeer (env_now v) p s = (r, t)" by (cases "CreatePeer (env_now v) p s")
  show ?thesis
  proof (cases r)
    case (Inl e)
    have "same_tables s t"
      using run Inl unfolding CreatePeer_def transaction_def
      by (auto simp: bnd_def dest: transact_atomic split: prod.splits sum.splits)
    then show ?thesis using None run Inl by (simp add: peer_Create_def thn_def bnd_def mapErr_def same_tables_devices)
  next
    case (Inr q)
    obtain u where u: "Record v (created_event v i q) t = (Inr (), u)" "devices u = devices t" by (rule Record_run)
    obtain err s' where s': "peer_apply tunnel (in_ID i) u = (Inr err, s')" "devices s' = devices u" by (rule peer_apply_run)
    show ?thesis using None run Inr u s' by (simp add: peer_Create_def thn_def bnd_def mapErr_def)
  qed
qed

end

section \<open>Tunnels of a group\<close>

lemma InstanceByID_ID: "InstanceByID k s = (Inr i, s') \<Longrightarrow> in_ID i = k"
proof -
  assume "InstanceByID k s = (Inr i, s')"
  then obtain row s1 where q: "mapErr (Errorf ''scan instance'') (query (instance_by_id k)) s = (Inr row, s1)"
    and r: "(case row of None \<Rightarrow> throw ErrNotFound | Some r \<Rightarrow> liftE (scanInstance r)) s1 = (Inr i, s')"
    unfolding InstanceByID_def by (rule bnd_InrE)
  from r obtain r where row: "row = Some r" "scanInstance r = Inr i" by (auto split: option.splits)
  have "query (instance_by_id k) s = (Inr row, s1)" using q by (rule mapErr_InrE)
  then have "ir_id r = k" using row(1)
    by (cases rule: query_cases[of "instance_by_id k" s]) (auto simp: instance_by_id_def find_Some_iff)
  then show ?thesis using row(2) by (auto simp: scanInstance_def Let_def split: option.splits)
qed

lemma each_loop_total: "\<exists>err touched out t. each_loop save known n tch out0 ps s = (Inr (err, touched, out), t)"
proof (induction ps arbitrary: known n tch out0 s)
  case Nil
  then show ?case by simp
next
  case (Cons p ps)
  obtain r s1 where r: "(case map_of known (p_InstanceID p) of Some i \<Rightarrow> ret (Inr i) | None \<Rightarrow> attempt (InstanceByID (p_InstanceID p))) s = (Inr r, s1)"
    by (cases "map_of known (p_InstanceID p)"; cases "InstanceByID (p_InstanceID p) s") (auto simp: attempt_def)
  show ?case
  proof (cases r)
    case (Inl e)
    then show ?thesis using r by (simp add: bnd_def)
  next
    case (Inr i)
    obtain q s2 where q: "save i n s1 = (q, s2)" by (cases "save i n s1")
    show ?thesis using r Inr q Cons.IH by (cases q) (auto simp: bnd_def attempt_def Let_def)
  qed
qed

text \<open>
  After \<open>k\<close> devices were reached the tunnels to update are the servers of those devices, each once.
\<close>

lemma each_loop_touched:
  assumes "each_loop save known n tch out0 ps s = (Inr (err, touched, out), t)"
    and "distinct tch" and "set tch = fst ` set known" and "\<forall>(k, i) \<in> set known. in_ID i = k"
  shows "distinct touched \<and> (\<exists>k \<le> length ps. set touched = set tch \<union> p_InstanceID ` set (take k ps) \<and> (err = None \<longrightarrow> k = length ps))"
  using assms
proof (induction ps arbitrary: known n tch out0 s)
  case Nil
  then show ?case by simp
next
  case (Cons p ps)
  let ?k = "p_InstanceID p"
  let ?load = "case map_of known ?k of Some i \<Rightarrow> ret (Inr i) | None \<Rightarrow> attempt (InstanceByID ?k)"
  obtain r s1 where r: "?load s = (Inr r, s1)"
    by (cases "map_of known ?k"; cases "InstanceByID ?k s") (auto simp: attempt_def)
  show ?case
  proof (cases r)
    case (Inl e)
    then show ?thesis using Cons.prems(1,2) r by (auto simp: bnd_def intro!: exI[of _ 0])
  next
    case (Inr i)
    have i: "in_ID i = ?k"
      using r Inr Cons.prems(4) InstanceByID_ID[of ?k s i]
      by (cases "map_of known ?k") (auto simp: attempt_def dest: map_of_SomeD split: prod.splits)
    let ?new = "map_of known ?k = None"
    let ?tch = "if ?new then tch @ [in_ID i] else tch" and ?known = "if ?new then (?k, i) # known else known"
    have new: "?new \<longleftrightarrow> ?k \<notin> set tch" using Cons.prems(3) by (simp add: map_of_eq_None_iff)
    have inv: "distinct ?tch" "set ?tch = fst ` set ?known" "\<forall>(k, i) \<in> set ?known. in_ID i = k" and tch: "set ?tch = set tch \<union> {?k}"
      using Cons.prems(2-4) new i by auto
    obtain q s2 where q: "save i n s1 = (q, s2)" by (cases "save i n s1")
    show ?thesis
    proof (cases q)
      case (Inl e)
      then have "err = Some e" and t: "touched = ?tch"
        using Cons.prems(1) r \<open>r = Inr i\<close> q by (simp_all add: bnd_def attempt_def Let_def)
      moreover have "set ?tch = set tch \<union> p_InstanceID ` set (take (Suc 0) (p # ps))" using tch by simp
      ultimately show ?thesis unfolding t using inv(1) by (intro conjI exI[of _ "Suc 0"]) simp_all
    next
      case (Inr saved)
      then have "each_loop save ?known (Suc n) ?tch (case saved of None \<Rightarrow> out0 | Some q \<Rightarrow> out0 @ [q]) ps s2 = (Inr (err, touched, out), t)"
        using Cons.prems(1) r \<open>r = Inr i\<close> q by (simp add: bnd_def attempt_def Let_def)
      from Cons.IH[OF this inv] obtain k where "distinct touched" "k \<le> length ps"
        "set touched = set ?tch \<union> p_InstanceID ` set (take k ps)" "err = None \<longrightarrow> k = length ps" by blast
      moreover have "set touched = set tch \<union> p_InstanceID ` set (take (Suc k) (p # ps))"
        unfolding \<open>set touched = _\<close> tch by simp
      ultimately show ?thesis by (intro conjI exI[of _ "Suc k"]) simp_all
    qed
  qed
qed

end
