(* ===== verification/DeployFacts.thy ===== *)
theory DeployFacts
  imports Reconcile PeerFacts
begin

text \<open>
  Facts about the deployment manager. It only reads the database, whatever the machines do. What its
  steps leave on a machine rests on the laws of the interface \<open>Host\<close>, stated as the locale \<open>machine\<close>:
  what a call that succeeds has done, and that nothing else changes.
\<close>

section \<open>The manager only reads the database\<close>

lemma devices_machine [simp]:
  "devices (s\<lparr>w_machine := x\<rparr>) = devices s" "devices (s\<lparr>w_blocked := y\<rparr>) = devices s"
  "devices (s\<lparr>w_steps := z\<rparr>) = devices s" "devices (s\<lparr>w_activity := a\<rparr>) = devices s" "devices (s\<lparr>w_down := d\<rparr>) = devices s"
  "devices (s\<lparr>w_rebuild := r\<rparr>) = devices s"
  by (simp_all add: devices_def db.defs)

lemma keeps_on_host [prog_rules, intro]: "keeps (\<lambda>s. devices s = c) (on_host n op)"
  by (auto simp: keeps_def on_host_def split: prod.split)

lemma keeps_devices_blockedPeers [prog_rules, intro]: "keeps (\<lambda>s. devices s = c) (blockedPeers m k)"
  unfolding blockedPeers_def Let_def Peers_def LimitUsage_def limitUsage_def by (intro prog_rules)

lemma keeps_devices_writeConfig [prog_rules, intro]: "keeps (\<lambda>s. devices s = c) (writeConfig m h i)"
  unfolding writeConfig_def Let_def by (intro prog_rules keeps_modify) simp

lemma keeps_devices_manager_apply [prog_rules, intro]: "keeps (\<lambda>s. devices s = c) (manager_apply m h i)"
  unfolding manager_apply_def by (intro prog_rules)

lemma keeps_devices_report [prog_rules, intro]: "keeps (\<lambda>s. devices s = c) (report progress step)"
  unfolding report_def by (intro prog_rules keeps_modify) simp

lemma keeps_stream_end [prog_rules, intro]:
  "keeps I m \<Longrightarrow> keeps I n \<Longrightarrow> (\<And>e. keeps I (f e)) \<Longrightarrow> (\<And>e. keeps I (g e)) \<Longrightarrow>
   keeps I (case how of Ended \<Rightarrow> m | TimedOut \<Rightarrow> n | Cancelled e \<Rightarrow> f e | Broken e \<Rightarrow> g e)"
  by (cases how) auto

lemma keeps_devices_waitReady [prog_rules, intro]: "keeps (\<lambda>s. devices s = c) (waitReady h n name progress)"
  unfolding waitReady_def by (intro prog_rules)

lemma keeps_devices_manager_deploy [prog_rules, intro]: "keeps (\<lambda>s. devices s = c) (manager_deploy m h i start progress)"
  unfolding manager_deploy_def Let_def by (intro prog_rules)

lemma keeps_devices_acquire [prog_rules, intro]: "keeps (\<lambda>s. devices s = c) (acquire m k)"
  unfolding acquire_def by (intro prog_rules)

lemma keeps_devices_Apply: "keeps (\<lambda>s. devices s = c) (Apply m k)"
  unfolding Apply_def by (intro prog_rules)

text \<open>So the manager is a provider of the interface the commands on devices use.\<close>

interpretation manager_tunnels: tunnels "Apply m" for m :: "'m manager"
proof
  fix k and s :: "('m, 'b) world_scheme"
  show "devices (snd (Apply m k s)) = devices s"
    using keeps_devices_Apply[of "devices s" m k] unfolding keeps_def by blast
qed

section \<open>Who may connect\<close>

text \<open>
  The devices of a server that its limits let through, read off the tables: the specification of what
  \<open>writeConfig\<close> computes with two queries and a map.
\<close>

definition rows_of :: "int \<Rightarrow> 'z db_scheme \<Rightarrow> peer_row list" where
  "rows_of k s = sort_key pr_id (filter (\<lambda>r. pr_instance_id r = k) (t_peers s))"

definition admitted :: "env \<Rightarrow> 'z db_scheme \<Rightarrow> peer_row \<Rightarrow> bool" where
  "admitted v s r \<longleftrightarrow> (case scanPeer r of
     Inl _ \<Rightarrow> False
   | Inr p \<Rightarrow> Blocked p (limit_traffic (dayKey (env_off v) (MonthStart (env_off v) (env_now v))) r s) (env_now v) = Unblocked)"

definition admitted_peers :: "env \<Rightarrow> int \<Rightarrow> 'z db_scheme \<Rightarrow> Peer list" where
  "admitted_peers v k s = map (\<lambda>r. right_of (blank_peer 0 []) (scanPeer r)) (filter (admitted v s) (rows_of k s))"

lemma scanPeer_ID: "scanPeer r = Inr p \<Longrightarrow> p_ID p = pr_id r"
  by (auto simp: scanPeer_def Let_def split: option.splits)

lemma limit_traffic_faults [simp]: "limit_traffic d r (s\<lparr>t_faults := bs\<rparr>) = limit_traffic d r s"
  by (simp add: limit_traffic_def usage_from_def)

lemma Blocked_no_usage: "Total t \<le> 0 \<Longrightarrow> Blocked p t now = Blocked p no_traffic now"
proof -
  have "Total no_traffic = 0" by (simp add: Total_def no_traffic_def wrap64_def)
  then show "Total t \<le> 0 \<Longrightarrow> Blocked p t now = Blocked p no_traffic now" by (auto simp: Blocked_def)
qed

lemma map_of_rows:
  "distinct (map f xs) \<Longrightarrow> x \<in> set xs \<Longrightarrow> map_of (filter (\<lambda>(_, t). P t) (map (\<lambda>x. (f x, g x)) xs)) (f x) =
    (if P (g x) then Some (g x) else None)"
proof (induction xs)
  case (Cons y xs)
  show ?case
  proof (cases "x = y")
    case True
    have "map_of (filter (\<lambda>(_, t). P t) (map (\<lambda>x. (f x, g x)) xs)) (f y) = None"
      using Cons.prems(1) by (auto simp: map_of_eq_None_iff)
    then show ?thesis using True by simp
  next
    case False
    then have "x \<in> set xs" "f y \<noteq> f x" using Cons.prems by auto
    then show ?thesis using Cons by simp
  qed
qed simp

lemma reason_rows:
  assumes "distinct (map p_ID ps)" and "p \<in> set ps"
  shows "reason (List.map_filter (\<lambda>p. let b = B p in if b = Unblocked then None else Some (p_ID p, b)) ps) (p_ID p) = B p"
  using assms
proof (induction ps)
  case Nil
  then show ?case by simp
next
  case (Cons q ps)
  have other: "map_of (List.map_filter (\<lambda>p. let b = B p in if b = Unblocked then None else Some (p_ID p, b)) ps) k = None"
    if "k \<notin> p_ID ` set ps" for k
    using that by (induction ps) (auto simp: List.map_filter_simps Let_def)
  show ?case
  proof (cases "p = q")
    case True
    then show ?thesis using Cons.prems(1) other[of "p_ID q"] by (simp add: reason_def List.map_filter_simps Let_def)
  next
    case False
    then have p: "p \<in> set ps" using Cons.prems(2) by simp
    then have ne: "p_ID p \<noteq> p_ID q" using Cons.prems(1) by (metis distinct.simps(2) image_eqI list.set_map list.simps(9))
    have "distinct (map p_ID ps)" using Cons.prems(1) by simp
    from Cons.IH[OF this p] show ?thesis using ne by (simp add: reason_def List.map_filter_simps Let_def)
  qed
qed

lemma query_Inr: "query f s = (Inr x, s') \<Longrightarrow> \<exists>bs. x = f (s\<lparr>t_faults := bs\<rparr>) \<and> s' = s\<lparr>t_faults := bs\<rparr>"
  by (cases rule: query_cases[of f s]) auto

lemma Peers_Inr:
  assumes "Peers k s = (Inr ps, s')"
  shows "map scanPeer (rows_of k s) = map Inr ps \<and> (\<exists>bs. s' = s\<lparr>t_faults := bs\<rparr>)"
proof -
  obtain rows s1 where q: "mapErr (Errorf ''list peers'') (query (\<lambda>s. sort_key pr_id (filter (\<lambda>r. pr_instance_id r = k) (t_peers s)))) s = (Inr rows, s1)"
    and r: "liftE (scan_all scanPeer rows) s1 = (Inr ps, s')"
    using assms unfolding Peers_def by (rule bnd_InrE)
  from query_Inr[OF mapErr_InrE[OF q]] r show ?thesis by (auto simp: rows_of_def scan_all_map)
qed

lemma blockedPeers_Inr:
  assumes inv: "db_inv s" and run: "blockedPeers m k s = (Inr (peers, usage, blocked), s')"
  shows "filter (\<lambda>p. reason blocked (p_ID p) = Unblocked) peers = admitted_peers (mg_env m) k s \<and>
    (\<exists>bs. s' = s\<lparr>t_faults := bs\<rparr>)"
proof -
  let ?v = "mg_env m"
  let ?month = "dayKey (env_off ?v) (MonthStart (env_off ?v) (env_now ?v))"
  obtain s1 where p: "Peers k s = (Inr peers, s1)"
    and u: "LimitUsage (env_off ?v) k (env_now ?v) s1 = (Inr usage, s')"
    and b: "blocked = List.map_filter (\<lambda>p. let b = Blocked p (usage_of usage (p_ID p)) (env_now ?v) in
        if b = Unblocked then None else Some (p_ID p, b)) peers"
    using run unfolding blockedPeers_def Let_def by (auto elim!: bnd_InrE)
  from Peers_Inr[OF p] obtain a where scan: "map scanPeer (rows_of k s) = map Inr peers" and s1: "s1 = s\<lparr>t_faults := a\<rparr>" by blast
  from u have "query (\<lambda>s. filter (\<lambda>(_, t). Total t > 0) (map (\<lambda>r. (pr_id r, limit_traffic ?month r s))
      (filter (\<lambda>r. pr_instance_id r = k) (t_peers s)))) s1 = (Inr usage, s')"
    unfolding LimitUsage_def limitUsage_def Let_def by (rule mapErr_InrE)
  then obtain bs where usage: "usage = filter (\<lambda>(_, t). Total t > 0) (map (\<lambda>r. (pr_id r, limit_traffic ?month r s))
      (filter (\<lambda>r. pr_instance_id r = k) (t_peers s)))" and s': "s' = s\<lparr>t_faults := bs\<rparr>"
    using query_Inr s1 by force
  have ids: "distinct (map pr_id (filter (\<lambda>r. pr_instance_id r = k) (t_peers s)))"
    using inv by (simp add: db_inv_def peers_inv_def distinct_map_filter)
  then have "distinct (map pr_id (rows_of k s))" unfolding rows_of_def by (simp add: distinct_map)
  moreover have len: "length (rows_of k s) = length peers" using scan by (metis length_map)
  have nth: "scanPeer (rows_of k s ! j) = Inr (peers ! j)" if "j < length peers" for j
    using scan that len by (metis nth_map)
  have "map p_ID peers = map pr_id (rows_of k s)"
    using len nth scanPeer_ID by (intro nth_equalityI) auto
  ultimately have dist: "distinct (map p_ID peers)" by simp
  have one: "reason blocked (p_ID (peers ! j)) = Unblocked \<longleftrightarrow> admitted ?v s (rows_of k s ! j)" if j: "j < length peers" for j
  proof -
    let ?r = "rows_of k s ! j" and ?p = "peers ! j"
    have "?r \<in> set (rows_of k s)" using j len by simp
    then have mem: "?r \<in> set (filter (\<lambda>r. pr_instance_id r = k) (t_peers s))" by (simp add: rows_of_def)
    have "Blocked ?p (usage_of usage (p_ID ?p)) (env_now ?v) = Blocked ?p (limit_traffic ?month ?r s) (env_now ?v)"
      using map_of_rows[OF ids mem, of "\<lambda>t. Total t > 0" "\<lambda>r. limit_traffic ?month r s"] scanPeer_ID[OF nth[OF j]]
        Blocked_no_usage[of "limit_traffic ?month ?r s"]
      by (auto simp: usage_of_def usage)
    then show ?thesis
      using reason_rows[OF dist nth_mem[OF j], of "\<lambda>p. Blocked p (usage_of usage (p_ID p)) (env_now ?v)"] nth[OF j]
      by (simp add: b admitted_def)
  qed
  have peers: "peers = map (\<lambda>r. right_of (blank_peer 0 []) (scanPeer r)) (rows_of k s)"
    using len nth by (intro nth_equalityI) (simp_all add: right_of_def)
  have agree: "reason blocked (p_ID (right_of (blank_peer 0 []) (scanPeer r))) = Unblocked \<longleftrightarrow> admitted ?v s r"
    if "r \<in> set (rows_of k s)" for r
    using that one nth len by (auto simp: in_set_conv_nth right_of_def)
  have "filter (\<lambda>p. reason blocked (p_ID p) = Unblocked) peers = admitted_peers ?v k s"
    unfolding admitted_peers_def peers filter_map comp_def using agree by (simp cong: filter_cong)
  then show ?thesis using s' by blast
qed

end
