(* ===== verification/Machine.thy ===== *)
theory Machine
  imports DeployFacts
begin

text \<open>
  The laws of the interface \<open>Host\<close> as a locale, and what the manager's steps leave on a machine that
  obeys them. \<open>disk\<close> is what a path holds and \<open>ctr\<close> the container of a name, for the \<open>names\<close> the
  manager gives containers; \<open>cmds\<close> are the commands run in containers so far.
\<close>

definition below :: "string \<Rightarrow> string \<Rightarrow> bool" where
  "below p q \<longleftrightarrow> q = p \<or> take (length p + 1) q = p @ ''/''"

text \<open>A list of containers does not say with which code one exited.\<close>

definition strip :: "Container \<Rightarrow> Container" where
  "strip c = c\<lparr>ct_ExitCode := 0\<rparr>"

definition config_in_place :: "(string \<Rightarrow> string option) \<Rightarrow> 'm Host \<Rightarrow> Instance \<Rightarrow> Peer list \<Rightarrow> bool" where
  "config_in_place f h i allowed \<longleftrightarrow>
     f (conf_path h (in_ID i)) = Some (ServerConfig i allowed) \<and>
     f (resolver_path h (in_ID i)) = (if in_DNSOnServer i then Some (ResolverConfig i) else None) \<and>
     f (speeds_path h (in_ID i)) = (if SpeedLimitsConfig allowed = [] then None else Some (SpeedLimitsConfig allowed))"

lemma below_paths:
  "\<not> below (resolver_path h k) (conf_path h k)" "\<not> below (speeds_path h k) (conf_path h k)"
  "\<not> below (speeds_path h k) (resolver_path h k)" "\<not> below (resolver_path h k) (speeds_path h k)"
  by (auto simp: below_def resolver_path_def conf_path_def speeds_path_def)

lemma paths_differ: "conf_path h k \<noteq> resolver_path h k" "conf_path h k \<noteq> speeds_path h k" "resolver_path h k \<noteq> speeds_path h k"
  by (simp_all add: conf_path_def resolver_path_def speeds_path_def)

lemma below_append: "below p (p @ ''/'' @ q)"
  by (simp add: below_def)

lemma below_iff: "below p q \<longleftrightarrow> q = p \<or> (\<exists>r. q = p @ ''/'' @ r)"
  unfolding below_def by (metis append_eq_conv_conj append_take_drop_id append_assoc length_append_singleton Suc_eq_plus1)

lemma below_trans: "below a b \<Longrightarrow> below b c \<Longrightarrow> below a c"
  unfolding below_iff by (elim disjE exE) (auto simp: append_assoc)

text \<open>Servers keep their files in different directories.\<close>

lemma dirs_apart: "below (configDir h k) q \<Longrightarrow> below (configDir h l) q \<Longrightarrow> k = l"
proof -
  have slash: "CHR ''/'' \<notin> set (Itoa j)" for j using Itoa_chars[of "CHR ''/''" j] by (auto simp: is_digit_def)
  have cut: "takeWhile (\<lambda>c. c \<noteq> CHR ''/'') (drop (length (wireguard_dir h) + 1) q) = Itoa j" if "below (configDir h j) q" for j
  proof -
    have a: "takeWhile (\<lambda>c. c \<noteq> CHR ''/'') (Itoa j @ CHR ''/'' # r) = Itoa j" for r
    proof -
      have "takeWhile (\<lambda>c. c \<noteq> CHR ''/'') (Itoa j @ CHR ''/'' # r) = Itoa j @ takeWhile (\<lambda>c. c \<noteq> CHR ''/'') (CHR ''/'' # r)"
        using slash[of j] by (intro takeWhile_append2) auto
      then show ?thesis by simp
    qed
    have b: "takeWhile (\<lambda>c. c \<noteq> CHR ''/'') (Itoa j) = Itoa j"
      using slash[of j] by (auto simp: takeWhile_eq_all_conv)
    from that show ?thesis unfolding below_iff configDir_def by (elim disjE exE) (simp_all add: a b)
  qed
  show "below (configDir h k) q \<Longrightarrow> below (configDir h l) q \<Longrightarrow> k = l"
    using cut[of k] cut[of l] by (simp add: Itoa_inj)
qed

lemma paths_below:
  "below (configDir h k) (conf_path h k)" "below (configDir h k) (resolver_path h k)" "below (configDir h k) (speeds_path h k)"
  unfolding conf_path_def resolver_path_def speeds_path_def below_iff by auto

lemma config_in_place_cong:
  assumes "\<And>q. below (configDir h (in_ID i)) q \<Longrightarrow> g q = f q"
  shows "config_in_place g h i ps = config_in_place f h i ps"
  unfolding config_in_place_def using assms[OF paths_below(1)] assms[OF paths_below(2)] assms[OF paths_below(3)] by simp

lemma on_host_run:
  assumes "on_host n op s = (r, s')"
  shows "op (w_machine s n) = (r, w_machine s' n)" "devices s' = devices s" "w_blocked s' = w_blocked s"
  using assms by (auto simp: on_host_def split: prod.splits)

lemma admitted_devices:
  assumes "devices s' = devices s" shows "admitted_peers v k s' = admitted_peers v k s"
proof -
  have "limit_traffic d r s' = limit_traffic d r s" for d r
    using devices_fields[OF assms] by (simp add: limit_traffic_def usage_from_def)
  then have "admitted v s' = admitted v s" by (simp add: admitted_def fun_eq_iff cong: sum.case_cong)
  then show ?thesis using devices_fields[OF assms] by (simp add: admitted_peers_def rows_of_def)
qed

lemma leaves_devices: "(\<And>c. keeps (\<lambda>s. devices s = c) m) \<Longrightarrow> m s = (r, s') \<Longrightarrow> devices s' = devices s"
  unfolding keeps_def by (metis snd_conv)

lemma bnd_on_host_thn: "on_host n (thn a b) = thn (on_host n a) (on_host n b)"
  by (rule ext) (auto simp: on_host_def thn_def bnd_def split: prod.splits sum.splits)

locale machine =
  fixes h :: "'m Host" and inv :: "'m \<Rightarrow> bool" and disk :: "'m \<Rightarrow> string \<Rightarrow> string option"
    and ctr :: "'m \<Rightarrow> string \<Rightarrow> Container option" and cmds :: "'m \<Rightarrow> string list list" and names :: "string set"
  assumes write_law: "inv m \<Longrightarrow> h_WriteFile h p b m = (r, m') \<Longrightarrow>
      inv m' \<and> ctr m' = ctr m \<and> cmds m' = cmds m \<and> (r = Inr () \<longrightarrow> disk m' = (disk m)(p \<mapsto> b))"
    and remove_all_law: "inv m \<Longrightarrow> h_RemoveAll h p m = (r, m') \<Longrightarrow>
      inv m' \<and> ctr m' = ctr m \<and> cmds m' = cmds m \<and> (r = Inr () \<longrightarrow> disk m' = (\<lambda>q. if below p q then None else disk m q))"
    and read_dir_law: "inv m \<Longrightarrow> h_ReadDir h p m = (x, m') \<Longrightarrow> inv m' \<and> ctr m' = ctr m \<and> disk m' = disk m \<and>
      (\<forall>ns q. x = Inr ns \<longrightarrow> disk m q \<noteq> None \<longrightarrow> q \<noteq> p \<longrightarrow> below p q \<longrightarrow> (\<exists>n \<in> set ns. below (p @ ''/'' @ n) q)) \<and>
      (\<forall>ns. x = Inr ns \<longrightarrow> (\<forall>n \<in> set ns. CHR ''/'' \<notin> set n))"
    and inspect_law: "inv m \<Longrightarrow> n \<in> names \<Longrightarrow> h_InspectContainer h n m = (y, m') \<Longrightarrow>
      inv m' \<and> ctr m' = ctr m \<and> cmds m' = cmds m \<and> disk m' = disk m \<and> (\<forall>c. y = Inr c \<longrightarrow> ctr m n = Some c) \<and>
      (\<forall>e. y = Inl e \<longrightarrow> errors_Is e DockerNotFound \<longrightarrow> ctr m n = None)"
    and exec_law: "inv m \<Longrightarrow> h_Exec h n cmd m = (z, m') \<Longrightarrow>
      inv m' \<and> ctr m' = ctr m \<and> disk m' = disk m \<and> (\<forall>out. z = Inr out \<longrightarrow> cmds m' = cmds m @ [cmd])"
    and image_exists_law: "inv m \<Longrightarrow> h_ImageExists h t m = (u, m') \<Longrightarrow> inv m' \<and> ctr m' = ctr m \<and> disk m' = disk m"
    and build_law: "inv m \<Longrightarrow> h_BuildImage h t fs m = (r, m') \<Longrightarrow> inv m' \<and> ctr m' = ctr m \<and> disk m' = disk m"
    and logs_law: "inv m \<Longrightarrow> h_Logs h n tail follow m = (w, m') \<Longrightarrow> inv m' \<and> ctr m' = ctr m \<and> disk m' = disk m"
    and lists_law: "inv m \<Longrightarrow> h_ListContainers h m = (l, m') \<Longrightarrow> inv m' \<and> ctr m' = ctr m \<and> disk m' = disk m \<and>
      (\<forall>cts. l = Inr cts \<longrightarrow> (\<forall>n \<in> names. map_option strip (by_name cts n) = map_option strip (ctr m n)))"
    and create_law: "inv m \<Longrightarrow> cs_Name spec \<in> names \<Longrightarrow> h_CreateContainer h spec m = (v, m') \<Longrightarrow> inv m' \<and> disk m' = disk m \<and>
      (\<forall>k. v = Inr k \<longrightarrow> (\<exists>c. ctr m' = (ctr m)(cs_Name spec \<mapsto> c) \<and> ct_Name c = cs_Name spec \<and> ct_Image c = cs_Image spec))"
    and start_law: "inv m \<Longrightarrow> n \<in> names \<Longrightarrow> h_StartContainer h n m = (r, m') \<Longrightarrow> inv m' \<and> disk m' = disk m \<and>
      (r = Inr () \<longrightarrow> (\<exists>st code. ctr m' = (ctr m)(n := map_option (\<lambda>c. c\<lparr>ct_State := st, ct_ExitCode := code\<rparr>) (ctr m n))))"
    and remove_law: "inv m \<Longrightarrow> n \<in> names \<Longrightarrow> h_RemoveContainer h n m = (r, m') \<Longrightarrow> inv m' \<and> disk m' = disk m \<and>
      (r = Inr () \<longrightarrow> ctr m' = (ctr m)(n := None)) \<and>
      (\<forall>e. r = Inl e \<longrightarrow> errors_Is e DockerNotFound \<longrightarrow> ctr m n = None \<and> ctr m' = ctr m)"
begin

lemma write_or_remove_run:
  assumes "inv m" and "write_or_remove h p b m = (Inr (), m')"
  shows "inv m' \<and> ctr m' = ctr m \<and> cmds m' = cmds m \<and> disk m' p = b \<and> (\<forall>q. \<not> below p q \<longrightarrow> disk m' q = disk m q)"
proof (cases b)
  case None
  then show ?thesis using remove_all_law[OF assms(1)] assms(2) by (fastforce simp: write_or_remove_def below_def)
next
  case (Some body)
  then show ?thesis using write_law[OF assms(1)] assms(2) by (fastforce simp: write_or_remove_def below_def)
qed

text \<open>The files after \<open>writeConfig\<close>, and what it leaves alone.\<close>

lemma writeConfig_run:
  assumes db: "db_inv s" and m: "inv (w_machine s (in_NodeID i))" and run: "writeConfig mg h i s = (Inr (), s')"
  shows "devices s' = devices s \<and> inv (w_machine s' (in_NodeID i)) \<and> ctr (w_machine s' (in_NodeID i)) = ctr (w_machine s (in_NodeID i)) \<and>
    cmds (w_machine s' (in_NodeID i)) = cmds (w_machine s (in_NodeID i)) \<and>
    config_in_place (disk (w_machine s' (in_NodeID i))) h i (admitted_peers (mg_env mg) (in_ID i) s) \<and>
    (\<forall>q. \<not> below (configDir h (in_ID i)) q \<longrightarrow> disk (w_machine s' (in_NodeID i)) q = disk (w_machine s (in_NodeID i)) q)"
proof -
  let ?n = "in_NodeID i" and ?k = "in_ID i"
  obtain peers usage blocked s1 s2 s3 s4 where b: "blockedPeers mg ?k s = (Inr (peers, usage, blocked), s1)"
    and w: "on_host ?n (h_WriteFile h (conf_path h ?k) (ServerConfig i (filter (\<lambda>p. reason blocked (p_ID p) = Unblocked) peers))) s1 = (Inr (), s2)"
    and r: "on_host ?n (write_or_remove h (resolver_path h ?k) (if in_DNSOnServer i then Some (ResolverConfig i) else None)) s2 = (Inr (), s3)"
    and sp: "on_host ?n (write_or_remove h (speeds_path h ?k)
        (if SpeedLimitsConfig (filter (\<lambda>p. reason blocked (p_ID p) = Unblocked) peers) \<noteq> []
         then Some (SpeedLimitsConfig (filter (\<lambda>p. reason blocked (p_ID p) = Unblocked) peers)) else None)) s3 = (Inr (), s4)"
    and s': "s' = s4\<lparr>w_blocked := (w_blocked s4)(?k \<mapsto> blocked)\<rparr>"
    using run unfolding writeConfig_def Let_def by (auto elim!: bnd_InrE thn_InrE)
  let ?allowed = "admitted_peers (mg_env mg) ?k s"
  have allowed: "filter (\<lambda>p. reason blocked (p_ID p) = Unblocked) peers = ?allowed" and "\<exists>bs. s1 = s\<lparr>t_faults := bs\<rparr>"
    using blockedPeers_Inr[OF db b] by auto
  then have m1: "w_machine s1 ?n = w_machine s ?n" and d1: "devices s1 = devices s" by auto
  note W = on_host_run[OF w] and R = on_host_run[OF r] and S = on_host_run[OF sp]
  from write_law[OF _ W(1)] m m1 have W': "inv (w_machine s2 ?n)" "ctr (w_machine s2 ?n) = ctr (w_machine s ?n)"
    "cmds (w_machine s2 ?n) = cmds (w_machine s ?n)" "disk (w_machine s2 ?n) = (disk (w_machine s ?n))(conf_path h ?k \<mapsto> ServerConfig i ?allowed)"
    unfolding allowed by simp_all
  note R' = write_or_remove_run[OF W'(1) R(1)]
  note S' = write_or_remove_run[OF conjunct1[OF R'] S(1)]
  have "config_in_place (disk (w_machine s4 ?n)) h i ?allowed"
    using R' S' W'(4) below_paths[of h ?k] unfolding config_in_place_def allowed by simp
  moreover have "disk (w_machine s4 ?n) q = disk (w_machine s ?n) q" if "\<not> below (configDir h ?k) q" for q
  proof -
    have "\<not> below (resolver_path h ?k) q" "\<not> below (speeds_path h ?k) q" "q \<noteq> conf_path h ?k"
      using that below_trans[OF paths_below(2)[of h ?k], of q] below_trans[OF paths_below(3)[of h ?k], of q] paths_below(1)[of h ?k] by auto
    then show ?thesis using R' S' W'(4) by simp
  qed
  ultimately show ?thesis using R' S' W' d1 W(2) R(2) S(2) by (simp add: s')
qed

lemma find_container_run:
  assumes "inv m" and "ContainerName mg k \<in> names" and "find_container mg h k m = (Inr x, m')"
  shows "inv m' \<and> ctr m' = ctr m \<and> cmds m' = cmds m \<and> disk m' = disk m \<and> x = ctr m (ContainerName mg k)"
proof -
  obtain y m1 where y: "h_InspectContainer h (ContainerName mg k) m = (y, m1)" by (cases "h_InspectContainer h (ContainerName mg k) m")
  show ?thesis
    using inspect_law[OF assms(1,2) y] assms(3) y
    by (cases y) (auto simp: find_container_def bnd_def attempt_def split: if_splits)
qed

text \<open>
  A server that is brought up to date holds its config on disk; when its container runs, the command
  that loads the config into the tunnel was the last one.
\<close>

lemma manager_apply_run:
  assumes db: "db_inv s" and m: "inv (w_machine s (in_NodeID i))" and name: "ContainerName mg (in_ID i) \<in> names"
    and run: "manager_apply mg h i s = (Inr (), s')"
  shows "devices s' = devices s \<and> inv (w_machine s' (in_NodeID i)) \<and> ctr (w_machine s' (in_NodeID i)) = ctr (w_machine s (in_NodeID i)) \<and>
    config_in_place (disk (w_machine s' (in_NodeID i))) h i (admitted_peers (mg_env mg) (in_ID i) s) \<and>
    (\<forall>q. \<not> below (configDir h (in_ID i)) q \<longrightarrow> disk (w_machine s' (in_NodeID i)) q = disk (w_machine s (in_NodeID i)) q) \<and>
    cmds (w_machine s' (in_NodeID i)) = cmds (w_machine s (in_NodeID i)) @
      (case ctr (w_machine s (in_NodeID i)) (ContainerName mg (in_ID i)) of
         None \<Rightarrow> [] | Some ct \<Rightarrow> if Running ct then [[''tunploy-wg'', ''sync'']] else [])"
proof -
  let ?n = "in_NodeID i" and ?k = "in_ID i"
  obtain s1 ct s2 where w: "writeConfig mg h i s = (Inr (), s1)" and f: "on_host ?n (find_container mg h ?k) s1 = (Inr ct, s2)"
    and rest: "(case ct of None \<Rightarrow> ret () | Some ct \<Rightarrow> if \<not> Running ct then ret ()
        else bnd (on_host ?n (h_Exec h (ct_Name ct) [''tunploy-wg'', ''sync''])) (\<lambda>_. ret ())) s2 = (Inr (), s')"
    using run unfolding manager_apply_def by (auto elim!: bnd_InrE thn_InrE)
  note W = writeConfig_run[OF db m w]
  note F = find_container_run[OF _ name on_host_run(1)[OF f]]
  have F': "inv (w_machine s2 ?n)" "ctr (w_machine s2 ?n) = ctr (w_machine s ?n)" "cmds (w_machine s2 ?n) = cmds (w_machine s ?n)"
    "disk (w_machine s2 ?n) = disk (w_machine s1 ?n)" "ct = ctr (w_machine s ?n) (ContainerName mg ?k)"
    using F W by auto
  have d2: "devices s2 = devices s" using W on_host_run(2)[OF f] by simp
  show ?thesis
  proof (cases "\<exists>c. ct = Some c \<and> Running c")
    case True
    then obtain c where c: "ct = Some c" "Running c" by blast
    then obtain out s3 where e: "on_host ?n (h_Exec h (ct_Name c) [''tunploy-wg'', ''sync'']) s2 = (Inr out, s3)" "s' = s3"
      using rest by (auto elim!: bnd_InrE)
    note E = exec_law[OF F'(1) on_host_run(1)[OF e(1)]]
    have "ctr (w_machine s ?n) (ContainerName mg ?k) = Some c" using F'(5) c(1) by simp
    then show ?thesis using W F' E c(2) e(2) d2 on_host_run(2)[OF e(1)] by simp
  next
    case False
    then have "s' = s2" using rest by (cases ct) auto
    then show ?thesis using W F' False d2 by (auto split: option.splits)
  qed
qed

end

end
