(* ===== verification/ReconcileFacts.thy ===== *)
theory ReconcileFacts
  imports Machine
begin

text \<open>
  What bringing a node up leaves on a machine that obeys the laws: each server has its container on the
  current image and its files, and nothing of the panel's is left over.
\<close>

lemma collect_none:
  "collect (map (\<lambda>x. error_of (f x) (g x)) xs) s = (Inr es, s') \<Longrightarrow> \<forall>e \<in> set es. e = None \<Longrightarrow> forEach xs g s = (Inr (), s')"
proof (induction xs arbitrary: s es)
  case Nil
  then show ?case by simp
next
  case (Cons x xs)
  then obtain e s1 es' where e: "error_of (f x) (g x) s = (Inr e, s1)"
    and rest: "collect (map (\<lambda>x. error_of (f x) (g x)) xs) s1 = (Inr es', s')" and es: "es = e # es'"
    by (auto elim!: bnd_InrE)
  have "g x s = (Inr (), s1)"
    using e Cons.prems(2) es by (cases "g x s"; cases "fst (g x s)") (auto simp: error_of_def bnd_def attempt_def left_of_def)
  moreover have "forEach xs g s1 = (Inr (), s')" using Cons.IH[OF rest] Cons.prems(2) es by simp
  ultimately show ?case by (simp add: thn_def bnd_def)
qed

lemma error_of_none: "error_of f m s = (Inr None, s') \<Longrightarrow> m s = (Inr (), s')"
  by (cases "m s"; cases "fst (m s)") (auto simp: error_of_def bnd_def attempt_def left_of_def)

lemma w_machine_steps [simp]: "w_machine (s\<lparr>w_steps := x\<rparr>) = w_machine s"
  by simp

lemma report_run: "report b x s = (Inr (), s') \<Longrightarrow> w_machine s' = w_machine s \<and> devices s' = devices s"
  by (auto simp: report_def split: if_splits)

lemma reports_run: "forEach xs (report b) s = (Inr (), s') \<Longrightarrow> w_machine s' = w_machine s \<and> devices s' = devices s"
  by (induction xs arbitrary: s) (auto elim!: thn_InrE dest!: report_run)

text \<open>A server's container exists, is of the current image, and its files say what the database says.\<close>

definition up_to_date :: "'m manager \<Rightarrow> 'm Host \<Rightarrow> (string \<Rightarrow> Container option) \<Rightarrow> (string \<Rightarrow> string option) \<Rightarrow> Instance \<Rightarrow> Peer list \<Rightarrow> bool" where
  "up_to_date mg h cs fs i allowed \<longleftrightarrow>
     (\<exists>c. cs (ContainerName mg (in_ID i)) = Some c \<and> ct_Image c = mg_image mg) \<and> config_in_place fs h i allowed"

context machine
begin

lemma ensureImage_run:
  assumes "inv m" and "ensureImage mg h m = (Inr (), m')"
  shows "inv m' \<and> ctr m' = ctr m \<and> disk m' = disk m"
proof -
  obtain ok m1 where e: "h_ImageExists h (mg_image mg) m = (Inr ok, m1)"
    and b: "(if ok then ret () else h_BuildImage h (mg_image mg) (mg_files mg)) m1 = (Inr (), m')"
    using assms(2) unfolding ensureImage_def by (rule bnd_InrE)
  note I = image_exists_law[OF assms(1) e]
  show ?thesis
  proof (cases ok)
    case False
    then have "h_BuildImage h (mg_image mg) (mg_files mg) m1 = (Inr (), m')" using b by simp
    from build_law[OF _ this] I show ?thesis by simp
  qed (use I b in simp)
qed

lemma remove_if_there_run:
  assumes "inv m" and "n \<in> names" and "remove_if_there h n m = (Inr (), m')"
  shows "inv m' \<and> disk m' = disk m \<and> ctr m' = (ctr m)(n := None)"
proof -
  obtain r m1 where r: "h_RemoveContainer h n m = (r, m1)" by (cases "h_RemoveContainer h n m")
  show ?thesis
  proof (cases r)
    case (Inl e)
    then have "m' = m1" "errors_Is e DockerNotFound"
      using assms(3) r by (auto simp: remove_if_there_def bnd_def attempt_def split: if_splits)
    with remove_law[OF assms(1,2) r] Inl show ?thesis by auto
  next
    case (Inr u)
    then have "m' = m1" using assms(3) r by (simp add: remove_if_there_def bnd_def attempt_def)
    with remove_law[OF assms(1,2) r] Inr show ?thesis by simp
  qed
qed

lemma waitReady_run:
  assumes m: "inv (w_machine s n)" and run: "waitReady h n name progress s = (Inr (), s')"
  shows "inv (w_machine s' n) \<and> ctr (w_machine s' n) = ctr (w_machine s n) \<and> disk (w_machine s' n) = disk (w_machine s n)"
proof -
  obtain x s1 where l: "on_host n (h_Logs h name (int bootLogLines * 4) True) s = (Inr x, s1)"
    and rest: "(case x of (lines, how) \<Rightarrow> case boot_scan lines [] [] of (ready, steps, tail) \<Rightarrow>
       thn (forEach steps (report progress)) (if ready then ret () else case how of
           TimedOut \<Rightarrow> throw (BootError ''wireguard did not come up within 30s'' tail)
         | Cancelled e \<Rightarrow> throw e
         | Broken e \<Rightarrow> throw (Errorf ''read container output'' e)
         | Ended \<Rightarrow>
           bnd (attempt (on_host n (h_InspectContainer h name))) (\<lambda>r.
           throw (BootError (case r of
               Inr ct \<Rightarrow> if ct_ExitCode ct \<noteq> 0
                 then ''container exited with code '' @ Itoa (ct_ExitCode ct) @ '' before wireguard came up''
                 else ''container stopped before wireguard came up''
             | Inl _ \<Rightarrow> ''container stopped before wireguard came up'') tail)))) s1 = (Inr (), s')"
    using run unfolding waitReady_def by (rule bnd_InrE)
  note L = logs_law[OF m on_host_run(1)[OF l]]
  obtain lines how ready steps tail where x: "x = (lines, how)" "boot_scan lines [] [] = (ready, steps, tail)"
    by (metis prod.collapse)
  obtain s2 where s2: "forEach steps (report progress) s1 = (Inr (), s2)"
    using rest x by (auto elim!: thn_InrE)
  have "ready \<and> s' = s2"
    using rest x s2 by (cases ready; cases how) (auto simp: thn_def bnd_def attempt_def split: prod.splits)
  then show ?thesis using L reports_run[OF s2] by simp
qed

lemma manager_deploy_run:
  assumes db: "db_inv s" and m: "inv (w_machine s (in_NodeID i))" and name: "ContainerName mg (in_ID i) \<in> names"
    and run: "manager_deploy mg h i st pr s = (Inr (), s')"
  shows "inv (w_machine s' (in_NodeID i)) \<and> up_to_date mg h (ctr (w_machine s' (in_NodeID i))) (disk (w_machine s' (in_NodeID i))) i (admitted_peers (mg_env mg) (in_ID i) s) \<and>
    (\<forall>k. k \<noteq> ContainerName mg (in_ID i) \<longrightarrow> ctr (w_machine s' (in_NodeID i)) k = ctr (w_machine s (in_NodeID i)) k) \<and>
    (\<forall>q. \<not> below (configDir h (in_ID i)) q \<longrightarrow> disk (w_machine s' (in_NodeID i)) q = disk (w_machine s (in_NodeID i)) q)"
proof -
  let ?n = "in_NodeID i" and ?name = "ContainerName mg (in_ID i)"
  obtain s1 s2 s3 s4 id s5 where w: "writeConfig mg h i s = (Inr (), s1)" and im: "on_host ?n (ensureImage mg h) s1 = (Inr (), s2)"
    and r1: "report pr ''image'' s2 = (Inr (), s3)" and rm: "on_host ?n (remove_if_there h ?name) s3 = (Inr (), s4)"
    and cr: "on_host ?n (h_CreateContainer h (container_spec mg h i)) s4 = (Inr id, s5)"
    and rest: "(if \<not> st then ret () else thn (on_host ?n (h_StartContainer h ?name)) (thn (report pr ''container'') (waitReady h ?n ?name pr))) s5 = (Inr (), s')"
    using run unfolding manager_deploy_def Let_def by (auto elim!: bnd_InrE thn_InrE)
  note W = writeConfig_run[OF db m w]
  note I = ensureImage_run[OF _ on_host_run(1)[OF im]]
  have I': "inv (w_machine s2 ?n)" "ctr (w_machine s2 ?n) = ctr (w_machine s ?n)" "disk (w_machine s2 ?n) = disk (w_machine s1 ?n)"
    using I W by auto
  have s3: "w_machine s3 = w_machine s2" using report_run[OF r1] by simp
  note R = remove_if_there_run[OF _ name on_host_run(1)[OF rm]]
  have R': "inv (w_machine s4 ?n)" "ctr (w_machine s4 ?n) = (ctr (w_machine s ?n))(?name := None)" "disk (w_machine s4 ?n) = disk (w_machine s1 ?n)"
    using R I' s3 by auto
  have spec: "cs_Name (container_spec mg h i) = ?name" "cs_Image (container_spec mg h i) = mg_image mg"
    by (simp_all add: container_spec_def Let_def)
  from create_law[OF R'(1) _ on_host_run(1)[OF cr]] spec name obtain c where
    C: "inv (w_machine s5 ?n)" "disk (w_machine s5 ?n) = disk (w_machine s1 ?n)" "ctr (w_machine s5 ?n) = (ctr (w_machine s ?n))(?name \<mapsto> c)"
      "ct_Image c = mg_image mg"
    using R' by auto
  have fin: "inv (w_machine s' ?n) \<and> disk (w_machine s' ?n) = disk (w_machine s1 ?n) \<and>
    (\<exists>c. ctr (w_machine s' ?n) = (ctr (w_machine s ?n))(?name \<mapsto> c) \<and> ct_Image c = mg_image mg)"
  proof (cases st)
    case False
    then have "s' = s5" using rest by simp
    then show ?thesis using C by auto
  next
    case True
    then obtain s6 s7 where stt: "on_host ?n (h_StartContainer h ?name) s5 = (Inr (), s6)"
      and r2: "report pr ''container'' s6 = (Inr (), s7)" and wt: "waitReady h ?n ?name pr s7 = (Inr (), s')"
      using rest by (auto elim!: thn_InrE)
    from start_law[OF C(1) name on_host_run(1)[OF stt]] obtain state code where S: "inv (w_machine s6 ?n)"
      "disk (w_machine s6 ?n) = disk (w_machine s5 ?n)"
      "ctr (w_machine s6 ?n) = (ctr (w_machine s5 ?n))(?name := map_option (\<lambda>c. c\<lparr>ct_State := state, ct_ExitCode := code\<rparr>) (ctr (w_machine s5 ?n) ?name))"
      by auto
    have s7: "w_machine s7 = w_machine s6" using report_run[OF r2] by simp
    have "inv (w_machine s7 ?n)" using S(1) s7 by simp
    from waitReady_run[OF this wt] show ?thesis
      using S s7 C by (auto intro!: exI[of _ "c\<lparr>ct_State := state, ct_ExitCode := code\<rparr>"])
  qed
  then show ?thesis using W unfolding up_to_date_def by auto
qed

lemma up_to_date_apply:
  assumes "db_inv s" and "inv (w_machine s (in_NodeID i))" and "ContainerName mg (in_ID i) \<in> names"
    and "map_option strip (by_name cts (ContainerName mg (in_ID i))) = map_option strip (ctr (w_machine s (in_NodeID i)) (ContainerName mg (in_ID i)))"
    and run: "reconcile_one mg h cts i s = (Inr (), s')"
  shows "devices s' = devices s \<and> inv (w_machine s' (in_NodeID i)) \<and>
    up_to_date mg h (ctr (w_machine s' (in_NodeID i))) (disk (w_machine s' (in_NodeID i))) i (admitted_peers (mg_env mg) (in_ID i) s) \<and>
    (\<forall>k. k \<noteq> ContainerName mg (in_ID i) \<longrightarrow> ctr (w_machine s' (in_NodeID i)) k = ctr (w_machine s (in_NodeID i)) k) \<and>
    (\<forall>q. \<not> below (configDir h (in_ID i)) q \<longrightarrow> disk (w_machine s' (in_NodeID i)) q = disk (w_machine s (in_NodeID i)) q)"
proof (cases "\<exists>ct. by_name cts (ContainerName mg (in_ID i)) = Some ct \<and> ct_Image ct = mg_image mg")
  case True
  then obtain ct where ct: "by_name cts (ContainerName mg (in_ID i)) = Some ct" "ct_Image ct = mg_image mg" by blast
  then have run': "manager_apply mg h i s = (Inr (), s')" using run by (simp add: reconcile_one_def)
  obtain c where c: "ctr (w_machine s (in_NodeID i)) (ContainerName mg (in_ID i)) = Some c" "strip c = strip ct"
    using assms(4) ct(1) by (cases "ctr (w_machine s (in_NodeID i)) (ContainerName mg (in_ID i))") auto
  have "ct_Image c = ct_Image ct" using arg_cong[OF c(2), of ct_Image] by (simp add: strip_def)
  then show ?thesis using manager_apply_run[OF assms(1-3) run'] c(1) ct(2) by (simp add: up_to_date_def)
next
  case False
  then obtain st where run': "manager_deploy mg h i st False s = (Inr (), s')"
    using run by (auto simp: reconcile_one_def split: option.splits if_splits)
  have "devices s' = devices s" by (rule leaves_devices[OF keeps_devices_manager_deploy run'])
  then show ?thesis using manager_deploy_run[OF assms(1-3) run'] by simp
qed

lemma reconcile_all_run:
  assumes "db_inv s" and "inv (w_machine s n)" and "\<And>k. ContainerName mg k \<in> names"
    and "distinct (map in_ID is)" and "\<forall>i \<in> set is. in_NodeID i = n"
    and "\<forall>k \<in> names. map_option strip (by_name cts k) = map_option strip (c0 k)"
    and "\<forall>i \<in> set is. ctr (w_machine s n) (ContainerName mg (in_ID i)) = c0 (ContainerName mg (in_ID i))"
    and "forEach is (reconcile_one mg h cts) s = (Inr (), s')"
  shows "devices s' = devices s \<and> inv (w_machine s' n) \<and>
    (\<forall>i \<in> set is. up_to_date mg h (ctr (w_machine s' n)) (disk (w_machine s' n)) i (admitted_peers (mg_env mg) (in_ID i) s)) \<and>
    (\<forall>k. (\<forall>i \<in> set is. k \<noteq> ContainerName mg (in_ID i)) \<longrightarrow> ctr (w_machine s' n) k = ctr (w_machine s n) k) \<and>
    (\<forall>q. (\<forall>i \<in> set is. \<not> below (configDir h (in_ID i)) q) \<longrightarrow> disk (w_machine s' n) q = disk (w_machine s n) q)"
  using assms
proof (induction "is" arbitrary: s)
  case Nil
  then show ?case by simp
next
  case (Cons i "is")
  obtain s1 where one: "reconcile_one mg h cts i s = (Inr (), s1)" and rest: "forEach is (reconcile_one mg h cts) s1 = (Inr (), s')"
    using Cons.prems(8) by (auto elim!: thn_InrE)
  have n: "in_NodeID i = n" using Cons.prems(5) by simp
  have "map_option strip (by_name cts (ContainerName mg (in_ID i))) = map_option strip (ctr (w_machine s (in_NodeID i)) (ContainerName mg (in_ID i)))"
    using Cons.prems(3,6,7) n by simp
  from up_to_date_apply[OF Cons.prems(1) _ Cons.prems(3) this one] Cons.prems(2) n
  have A: "devices s1 = devices s" "inv (w_machine s1 n)" "up_to_date mg h (ctr (w_machine s1 n)) (disk (w_machine s1 n)) i (admitted_peers (mg_env mg) (in_ID i) s)"
    "\<And>k. k \<noteq> ContainerName mg (in_ID i) \<Longrightarrow> ctr (w_machine s1 n) k = ctr (w_machine s n) k"
    "\<And>q. \<not> below (configDir h (in_ID i)) q \<Longrightarrow> disk (w_machine s1 n) q = disk (w_machine s n) q"
    by auto
  have names: "ContainerName mg a = ContainerName mg b \<longleftrightarrow> a = b" for a b by (simp add: ContainerName_def Itoa_inj)
  have fresh: "in_ID j \<noteq> in_ID i" if "j \<in> set is" for j
  proof -
    have "in_ID i \<notin> in_ID ` set is" using Cons.prems(4) by simp
    then show ?thesis using imageI[OF that, of in_ID] by metis
  qed
  have db1: "db_inv s1" using Cons.prems(1) by (simp only: devices_db_inv[OF A(1)])
  have c1: "\<forall>j \<in> set is. ctr (w_machine s1 n) (ContainerName mg (in_ID j)) = c0 (ContainerName mg (in_ID j))"
  proof
    fix j assume j: "j \<in> set is"
    have "ContainerName mg (in_ID j) \<noteq> ContainerName mg (in_ID i)" using fresh[OF j] by (simp only: names not_False_eq_True)
    from A(4)[OF this] show "ctr (w_machine s1 n) (ContainerName mg (in_ID j)) = c0 (ContainerName mg (in_ID j))"
      using bspec[OF Cons.prems(7), of j] j by simp
  qed
  have d1: "distinct (map in_ID is)" "\<forall>i \<in> set is. in_NodeID i = n" using Cons.prems(4,5) by auto
  note B = Cons.IH[OF db1 A(2) Cons.prems(3) d1 Cons.prems(6) c1 rest]
  have "up_to_date mg h (ctr (w_machine s' n)) (disk (w_machine s' n)) i (admitted_peers (mg_env mg) (in_ID i) s)"
  proof -
    have "ctr (w_machine s' n) (ContainerName mg (in_ID i)) = ctr (w_machine s1 n) (ContainerName mg (in_ID i))"
    proof -
      have "\<forall>j \<in> set is. ContainerName mg (in_ID i) \<noteq> ContainerName mg (in_ID j)" using names fresh by fastforce
      then show ?thesis using B by blast
    qed
    moreover have "disk (w_machine s' n) q = disk (w_machine s1 n) q" if "below (configDir h (in_ID i)) q" for q
    proof -
      have "\<forall>j \<in> set is. \<not> below (configDir h (in_ID j)) q" using dirs_apart[OF that] fresh by fastforce
      then show ?thesis using B by blast
    qed
    then have "config_in_place (disk (w_machine s' n)) h i ps = config_in_place (disk (w_machine s1 n)) h i ps" for ps
      by (rule config_in_place_cong)
    ultimately show ?thesis using A(3) by (simp add: up_to_date_def)
  qed
  then show ?case using A B admitted_devices[OF A(1)] by simp
qed

lemma remove_orphans_run:
  assumes "inv (w_machine s n)" and "\<forall>ct \<in> set cts. ct_Name ct \<in> names"
    and "forEach cts (\<lambda>ct. on_host n (remove_if_there h (ct_Name ct))) s = (Inr (), s')"
  shows "devices s' = devices s \<and> inv (w_machine s' n) \<and> disk (w_machine s' n) = disk (w_machine s n) \<and>
    ctr (w_machine s' n) = (\<lambda>k. if k \<in> ct_Name ` set cts then None else ctr (w_machine s n) k)"
  using assms
proof (induction cts arbitrary: s)
  case Nil
  then show ?case by simp
next
  case (Cons ct cts)
  obtain s1 where one: "on_host n (remove_if_there h (ct_Name ct)) s = (Inr (), s1)"
    and rest: "forEach cts (\<lambda>ct. on_host n (remove_if_there h (ct_Name ct))) s1 = (Inr (), s')"
    using Cons.prems(3) by (auto elim!: thn_InrE)
  note A = remove_if_there_run[OF Cons.prems(1) _ on_host_run(1)[OF one]]
  have A': "inv (w_machine s1 n)" "disk (w_machine s1 n) = disk (w_machine s n)" "ctr (w_machine s1 n) = (ctr (w_machine s n))(ct_Name ct := None)"
    using A Cons.prems(2) by auto
  from Cons.IH[OF A'(1) _ rest] Cons.prems(2) have "devices s' = devices s1 \<and> inv (w_machine s' n) \<and> disk (w_machine s' n) = disk (w_machine s1 n) \<and>
    ctr (w_machine s' n) = (\<lambda>k. if k \<in> ct_Name ` set cts then None else ctr (w_machine s1 n) k)" by simp
  then show ?case using A' on_host_run(2)[OF one] by (auto simp: fun_eq_iff)
qed

lemma remove_stale_run:
  assumes "inv m" and "\<forall>n \<in> set ns. CHR ''/'' \<notin> set n"
    and "forEach ns (\<lambda>n. if n \<in> K then ret () else h_RemoveAll h (wireguard_dir h @ ''/'' @ n)) m = (Inr (), m')"
  shows "inv m' \<and> ctr m' = ctr m \<and>
    disk m' = (\<lambda>q. if \<exists>n \<in> set ns. n \<notin> K \<and> below (wireguard_dir h @ ''/'' @ n) q then None else disk m q)"
  using assms
proof (induction ns arbitrary: m)
  case Nil
  then show ?case by simp
next
  case (Cons n ns)
  obtain m1 where one: "(if n \<in> K then ret () else h_RemoveAll h (wireguard_dir h @ ''/'' @ n)) m = (Inr (), m1)"
    and rest: "forEach ns (\<lambda>n. if n \<in> K then ret () else h_RemoveAll h (wireguard_dir h @ ''/'' @ n)) m1 = (Inr (), m')"
    using Cons.prems(3) by (auto elim!: thn_InrE)
  have A: "inv m1" "ctr m1 = ctr m" "disk m1 = (\<lambda>q. if n \<notin> K \<and> below (wireguard_dir h @ ''/'' @ n) q then None else disk m q)"
    using one remove_all_law[OF Cons.prems(1), of "wireguard_dir h @ ''/'' @ n" "Inr ()" m1] Cons.prems(1) by (auto split: if_splits)
  from Cons.IH[OF A(1) _ rest] Cons.prems(2) A show ?case by (auto simp: fun_eq_iff)
qed

text \<open>Two entries of a directory whose names have no slash hold different files.\<close>

lemma entries_apart:
  assumes "CHR ''/'' \<notin> set a" and "CHR ''/'' \<notin> set b" and "below (p @ ''/'' @ a) q" and "below (p @ ''/'' @ b) q"
  shows "a = b"
proof -
  have cut: "takeWhile (\<lambda>c. c \<noteq> CHR ''/'') (drop (length p + 1) q) = n" if "CHR ''/'' \<notin> set n" "below (p @ ''/'' @ n) q" for n
  proof -
    have "takeWhile (\<lambda>c. c \<noteq> CHR ''/'') (n @ CHR ''/'' # r) = n @ takeWhile (\<lambda>c. c \<noteq> CHR ''/'') (CHR ''/'' # r)" for r
      using that(1) by (intro takeWhile_append2) auto
    moreover have "takeWhile (\<lambda>c. c \<noteq> CHR ''/'') n = n" using that(1) by (auto simp: takeWhile_eq_all_conv)
    ultimately show ?thesis using that(2) unfolding below_iff by (elim disjE exE) simp_all
  qed
  show ?thesis using cut[OF assms(1,3)] cut[OF assms(2,4)] by simp
qed

lemma removeStaleConfigs_run:
  assumes "inv m" and "removeStaleConfigs h is m = (Inr (), m')"
  shows "inv m' \<and> ctr m' = ctr m \<and> (\<forall>i \<in> set is. \<forall>q. below (configDir h (in_ID i)) q \<longrightarrow> disk m' q = disk m q) \<and>
    (\<forall>q. disk m' q \<noteq> None \<longrightarrow> q \<noteq> wireguard_dir h \<longrightarrow> below (wireguard_dir h) q \<longrightarrow> (\<exists>i \<in> set is. below (configDir h (in_ID i)) q))"
proof -
  let ?K = "set (map (\<lambda>i. Itoa (in_ID i)) is)" and ?r = "wireguard_dir h"
  obtain ns m1 where d: "h_ReadDir h ?r m = (Inr ns, m1)"
    and loop: "forEach ns (\<lambda>n. if n \<in> ?K then ret () else h_RemoveAll h (?r @ ''/'' @ n)) m1 = (Inr (), m')"
    using assms(2) unfolding removeStaleConfigs_def by (rule bnd_InrE)
  from read_dir_law[OF assms(1) d] have D: "inv m1" "ctr m1 = ctr m" "disk m1 = disk m" "\<forall>n \<in> set ns. CHR ''/'' \<notin> set n"
    and all: "\<And>q. disk m q \<noteq> None \<Longrightarrow> q \<noteq> ?r \<Longrightarrow> below ?r q \<Longrightarrow> \<exists>n \<in> set ns. below (?r @ ''/'' @ n) q"
    by auto
  note L = remove_stale_run[OF D(1) D(4) loop]
  have slash: "CHR ''/'' \<notin> set (Itoa j)" for j using Itoa_chars[of "CHR ''/''" j] by (auto simp: is_digit_def)
  have keep: "disk m' q = disk m q" if i: "i \<in> set is" and q: "below (configDir h (in_ID i)) q" for i q
  proof -
    have "n \<in> ?K" if "n \<in> set ns" "below (?r @ ''/'' @ n) q" for n
    proof -
      have "CHR ''/'' \<notin> set n" using that(1) D(4) by blast
      from entries_apart[OF this slash that(2) q[unfolded configDir_def]] i show ?thesis by auto
    qed
    then show ?thesis using L D(3) by auto
  qed
  have left: "\<exists>i \<in> set is. below (configDir h (in_ID i)) q" if nz: "disk m' q \<noteq> None" and ne: "q \<noteq> ?r" and bl: "below ?r q" for q
  proof -
    have "disk m' q = (if \<exists>n \<in> set ns. n \<notin> ?K \<and> below (?r @ ''/'' @ n) q then None else disk m q)"
      using fun_cong[OF conjunct2[OF conjunct2[OF L]], of q] by (simp only: D(3))
    with nz have "\<not> (\<exists>n \<in> set ns. n \<notin> ?K \<and> below (?r @ ''/'' @ n) q)" and "disk m q \<noteq> None"
      by (metis (no_types, lifting))+
    then obtain n where "n \<in> ?K" "below (?r @ ''/'' @ n) q" using all[OF _ ne bl] by blast
    then show ?thesis by (auto simp: configDir_def)
  qed
  show ?thesis using L D keep left by auto
qed

lemma reconcile_run:
  assumes db: "db_inv s" and m: "inv (w_machine s n)" and names: "\<And>k. mg_prefix mg @ k \<in> names"
    and dist: "distinct (map in_ID is)" and node: "\<forall>i \<in> set is. in_NodeID i = n"
    and run: "reconcile mg n h is s = (Inr (), s')"
  shows "(\<forall>i \<in> set is. up_to_date mg h (ctr (w_machine s' n)) (disk (w_machine s' n)) i (admitted_peers (mg_env mg) (in_ID i) s)) \<and>
    (\<forall>k c. k \<in> names \<longrightarrow> ctr (w_machine s' n) k = Some c \<longrightarrow> owns mg c \<longrightarrow> (\<exists>i \<in> set is. k = ContainerName mg (in_ID i))) \<and>
    (\<forall>q. disk (w_machine s' n) q \<noteq> None \<longrightarrow> q \<noteq> wireguard_dir h \<longrightarrow> below (wireguard_dir h) q \<longrightarrow>
       (\<exists>i \<in> set is. below (configDir h (in_ID i)) q)) \<and> devices s' = devices s"
proof -
  let ?one = "\<lambda>i. error_of (Errorf (''instance '' @ Itoa (in_ID i))) (reconcile_one mg h cts i)"
  obtain cts s1 as s2 bs s3 e s4 where l: "on_host n (h_ListContainers h) s = (Inr cts, s1)"
    and a: "collect (map (\<lambda>i. error_of (Errorf (''instance '' @ Itoa (in_ID i))) (reconcile_one mg h cts i)) is) s1 = (Inr as, s2)"
    and b: "collect (map (\<lambda>ct. error_of (Errorf (''remove '' @ ct_Name ct)) (on_host n (remove_if_there h (ct_Name ct)))) (orphans mg cts is)) s2 = (Inr bs, s3)"
    and c: "error_of id (on_host n (removeStaleConfigs h is)) s3 = (Inr e, s4)"
    and f: "failOn (errors_Join (as @ bs @ [e])) s4 = (Inr (), s')"
    using run unfolding reconcile_def by (auto elim!: bnd_InrE)
  have none: "errors_Join (as @ bs @ [e]) = None" and s': "s' = s4"
    using f by (cases "errors_Join (as @ bs @ [e])"; simp)+
  then have "\<forall>x \<in> set as. x = None" "\<forall>x \<in> set bs. x = None" "e = None" by (auto simp: errors_Join_None)
  then have A: "forEach is (reconcile_one mg h cts) s1 = (Inr (), s2)"
    and B: "forEach (orphans mg cts is) (\<lambda>ct. on_host n (remove_if_there h (ct_Name ct))) s2 = (Inr (), s3)"
    and C: "on_host n (removeStaleConfigs h is) s3 = (Inr (), s')"
    using collect_none[OF a] collect_none[OF b] error_of_none[of id] c s' by auto
  from lists_law[OF m on_host_run(1)[OF l]] have L: "inv (w_machine s1 n)" "ctr (w_machine s1 n) = ctr (w_machine s n)"
    "\<forall>k \<in> names. map_option strip (by_name cts k) = map_option strip (ctr (w_machine s1 n) k)" by auto
  have d1: "devices s1 = devices s" using on_host_run(2)[OF l] .
  have db1: "db_inv s1" using db by (simp only: devices_db_inv[OF d1])
  have cn: "ContainerName mg k \<in> names" for k by (simp add: ContainerName_def names)
  note R = reconcile_all_run[OF db1 L(1) cn dist node L(3) _ A]
  have R': "devices s2 = devices s1" "inv (w_machine s2 n)"
    "\<forall>i \<in> set is. up_to_date mg h (ctr (w_machine s2 n)) (disk (w_machine s2 n)) i (admitted_peers (mg_env mg) (in_ID i) s1)"
    "\<And>k. \<forall>i \<in> set is. k \<noteq> ContainerName mg (in_ID i) \<Longrightarrow> ctr (w_machine s2 n) k = ctr (w_machine s1 n) k"
    using R by auto
  have orph: "ct_Name ct \<in> names" if "ct \<in> set (orphans mg cts is)" for ct
    using that names by (auto simp: orphans_def owns_def split: option.splits)
  then have "\<forall>ct \<in> set (orphans mg cts is). ct_Name ct \<in> names" by blast
  note O = remove_orphans_run[OF R'(2) this B]
  note S = removeStaleConfigs_run[OF conjunct1[OF conjunct2[OF O]] on_host_run(1)[OF C]]
  have up: "up_to_date mg h (ctr (w_machine s' n)) (disk (w_machine s' n)) i (admitted_peers (mg_env mg) (in_ID i) s)" if i: "i \<in> set is" for i
  proof -
    have "ContainerName mg (in_ID i) \<notin> ct_Name ` set (orphans mg cts is)" proof
      assume "ContainerName mg (in_ID i) \<in> ct_Name ` set (orphans mg cts is)"
      then obtain x where x: "x \<in> set (orphans mg cts is)" "ct_Name x = ContainerName mg (in_ID i)" by auto
      then have "ct_Name x \<notin> set (map (\<lambda>i. ContainerName mg (in_ID i)) is)" by (simp add: orphans_def)
      then show False unfolding x(2) using i by simp
    qed
    then have "ctr (w_machine s' n) (ContainerName mg (in_ID i)) = ctr (w_machine s2 n) (ContainerName mg (in_ID i))" using S O by simp
    moreover have "disk (w_machine s' n) q = disk (w_machine s2 n) q" if "below (configDir h (in_ID i)) q" for q
      using S O i that by auto
    then have "config_in_place (disk (w_machine s' n)) h i ps = config_in_place (disk (w_machine s2 n)) h i ps" for ps
      by (rule config_in_place_cong)
    ultimately show ?thesis using bspec[OF R'(3) i] admitted_devices[OF d1] by (simp add: up_to_date_def)
  qed
  have own: "\<exists>i \<in> set is. k = ContainerName mg (in_ID i)" if k: "k \<in> names" and ck: "ctr (w_machine s' n) k = Some x" and x: "owns mg x" for k x
  proof (rule ccontr)
    assume "\<not> ?thesis"
    then have new: "\<forall>i \<in> set is. k \<noteq> ContainerName mg (in_ID i)" by blast
    have "ctr (w_machine s' n) k = (if k \<in> ct_Name ` set (orphans mg cts is) then None else ctr (w_machine s1 n) k)"
      using S O R'(4)[OF new] by auto
    then have "k \<notin> ct_Name ` set (orphans mg cts is)" "ctr (w_machine s1 n) k = Some x" using ck by (auto split: if_splits)
    then obtain ct where ct: "by_name cts k = Some ct" "strip ct = strip x" using bspec[OF L(3) k] by (cases "by_name cts k") auto
    then have "ct \<in> set cts" "ct_Name ct = k" by (auto simp: by_name_def dest!: map_of_SomeD)
    moreover have "owns mg ct" using x arg_cong[OF ct(2), of ct_Name] arg_cong[OF ct(2), of ct_Labels] by (auto simp: owns_def strip_def split: option.splits)
    ultimately have "ct \<in> set (orphans mg cts is)" using new by (auto simp: orphans_def)
    then show False using \<open>k \<notin> _\<close> \<open>ct_Name ct = k\<close> by blast
  qed
  have "devices s' = devices s" using on_host_run(2)[OF C] O R'(1) d1 by simp
  then show ?thesis using up own S by blast
qed

end

end
