(* ===== verification/Dockertest.thy ===== *)
theory Dockertest
  imports ReconcileFacts
begin

text \<open>
  internal/docker/dockertest (fake.go, host.go): the in-memory machine of the program's own tests, a
  Docker daemon with a file tree. It provides the interface \<open>Host\<close> and obeys its laws, so what is
  proved of the manager under them holds on it. Go's maps are association lists by name.
\<close>

record fake =
  fk_images :: "string list"
  fk_containers :: "(string \<times> Container) list"
  fk_specs :: "(string \<times> ContainerSpec) list"
  fk_nextID :: nat
  fk_Builds :: nat
  fk_Execs :: "string list list"
  fk_Unavailable :: bool
  fk_StartErr :: "err option"
  fk_ExecOutput :: "(string \<Rightarrow> string list \<Rightarrow> err + string) option"
  fk_LogOutput :: string
  fk_BootLog :: string
  fk_BootExitCode :: int
  fk_logs :: "(string \<times> string) list"
  fk_files :: "(string \<times> string) list"

definition newline :: string where "newline = [CHR 0x0A]"

definition ReadyLog :: string where
  "ReadyLog = concat (map (\<lambda>l. l @ newline) [''tunploy:step interface'', ''tunploy:step firewall'', ''tunploy:step nat'',
     ''wireguard wg0 is up'', ''tunploy:ready''])"

definition new_fake :: fake where
  "new_fake = \<lparr>fk_images = [], fk_containers = [], fk_specs = [], fk_nextID = 0, fk_Builds = 0, fk_Execs = [], fk_Unavailable = False,
     fk_StartErr = None, fk_ExecOutput = None, fk_LogOutput = [], fk_BootLog = ReadyLog, fk_BootExitCode = 0, fk_logs = [],
     fk_files = []\<rparr>"

definition fake_conflict :: err where "fake_conflict = NewError ''conflict''"

definition fake_check :: "(fake, unit) prog" where
  "fake_check m = (if fk_Unavailable m then (Inl (Errorf ''fake'' DockerUnavailable), m) else (Inr (), m))"

definition fake_find :: "string \<Rightarrow> (fake, Container) prog" where
  "fake_find k = thn fake_check (\<lambda>m.
     case map_of (fk_containers m) k of
       Some ct \<Rightarrow> (Inr ct, m)
     | None \<Rightarrow> (case find (\<lambda>ct. ct_ID ct = k) (map snd (fk_containers m)) of
         Some ct \<Rightarrow> (Inr ct, m)
       | None \<Rightarrow> (Inl (Errorf (''fake: container '' @ k) DockerNotFound), m)))"

definition fake_ImageExists :: "string \<Rightarrow> (fake, bool) prog" where
  "fake_ImageExists ref = thn fake_check (gets (\<lambda>m. ref \<in> set (fk_images m)))"

definition fake_BuildImage :: "string \<Rightarrow> (string \<times> string) list \<Rightarrow> (fake, unit) prog" where
  "fake_BuildImage t files = thn fake_check (modify (\<lambda>m. m\<lparr>fk_images := t # fk_images m, fk_Builds := fk_Builds m + 1\<rparr>))"

definition LabelManaged :: string where "LabelManaged = ''io.tunploy.managed''"

definition fake_CreateContainer :: "ContainerSpec \<Rightarrow> (fake, string) prog" where
  "fake_CreateContainer spec = thn fake_check (\<lambda>m.
     if map_of (fk_containers m) (cs_Name spec) \<noteq> None
     then (Inl (Errorf (''fake: name '' @ cs_Name spec @ '' in use'') fake_conflict), m)
     else let k = dec (fk_nextID m + 1);
              ct = \<lparr>ct_ID = k, ct_Name = cs_Name spec, ct_Image = cs_Image spec, ct_State = ''created'', ct_ExitCode = 0,
                    ct_Labels = AList.update LabelManaged ''true'' (cs_Labels spec)\<rparr>
       in (Inr k, m\<lparr>fk_nextID := fk_nextID m + 1, fk_containers := AList.update (cs_Name spec) ct (fk_containers m),
             fk_specs := AList.update (cs_Name spec) spec (fk_specs m)\<rparr>))"

definition fake_InspectContainer :: "string \<Rightarrow> (fake, Container) prog" where
  "fake_InspectContainer k = fake_find k"

definition fake_ListContainers :: "(fake, Container list) prog" where
  "fake_ListContainers = thn fake_check (gets (\<lambda>m. map snd (fk_containers m)))"

definition fake_StartContainer :: "string \<Rightarrow> (fake, unit) prog" where
  "fake_StartContainer k = bnd (fake_find k) (\<lambda>ct m.
     case fk_StartErr m of
       Some e \<Rightarrow> (Inl e, m)
     | None \<Rightarrow>
       let ct' = (if fk_BootExitCode m \<noteq> 0 then ct\<lparr>ct_State := ''exited'', ct_ExitCode := fk_BootExitCode m\<rparr>
                  else ct\<lparr>ct_State := ''running''\<rparr>)
       in (Inr (), m\<lparr>fk_containers := AList.update (ct_Name ct) ct' (fk_containers m),
             fk_logs := AList.update (ct_Name ct) (stored_of (fk_logs m) (ct_Name ct) @ fk_BootLog m) (fk_logs m)\<rparr>))"

definition fake_StopContainer :: "string \<Rightarrow> gotime \<Rightarrow> (fake, unit) prog" where
  "fake_StopContainer k after = bnd (fake_find k) (\<lambda>ct.
     modify (\<lambda>m. m\<lparr>fk_containers := AList.update (ct_Name ct) (ct\<lparr>ct_State := ''exited''\<rparr>) (fk_containers m)\<rparr>))"

definition fake_RemoveContainer :: "string \<Rightarrow> (fake, unit) prog" where
  "fake_RemoveContainer k = bnd (fake_find k) (\<lambda>ct.
     modify (\<lambda>m. m\<lparr>fk_containers := AList.delete (ct_Name ct) (fk_containers m), fk_specs := AList.delete (ct_Name ct) (fk_specs m),
       fk_logs := AList.delete (ct_Name ct) (fk_logs m)\<rparr>))"

definition fake_Exec :: "string \<Rightarrow> string list \<Rightarrow> (fake, string) prog" where
  "fake_Exec k cmd = bnd (fake_find k) (\<lambda>ct m.
     if ct_State ct \<noteq> ''running'' then (Inl (Errorf (''fake: container '' @ ct_Name ct @ '' is not running'') fake_conflict), m)
     else let m' = m\<lparr>fk_Execs := fk_Execs m @ [cmd]\<rparr> in
       (case fk_ExecOutput m of
          Some hook \<Rightarrow> hook (ct_Name ct) cmd
        | None \<Rightarrow> if cmd ! 0 = ''wg'' then Inr (''priv'' @ [CHR 0x09] @ ''pub'' @ [CHR 0x09] @ ''51820'' @ [CHR 0x09] @ ''off'' @ newline)
                  else Inr [], m'))"

text \<open>\<open>bufio.ScanLines\<close>: the lines without their ends, and no empty last one.\<close>

definition drop_cr :: "string \<Rightarrow> string" where
  "drop_cr l = (if l \<noteq> [] \<and> last l = CHR 0x0D then butlast l else l)"

definition scan_lines :: "string \<Rightarrow> string list" where
  "scan_lines s = (let ls = Split (CHR 0x0A) s in map drop_cr (if last ls = [] then butlast ls else ls))"

definition fake_Logs :: "string \<Rightarrow> int \<Rightarrow> bool \<Rightarrow> (fake, string list \<times> stream_end) prog" where
  "fake_Logs k tail follow = bnd (fake_find k) (\<lambda>ct.
     gets (\<lambda>m. (scan_lines (if fk_LogOutput m \<noteq> [] then fk_LogOutput m else stored_of (fk_logs m) (ct_Name ct)), Ended)))"

definition fake_WriteFile :: "string \<Rightarrow> string \<Rightarrow> (fake, unit) prog" where
  "fake_WriteFile p body = modify (\<lambda>m. m\<lparr>fk_files := AList.update p body (fk_files m)\<rparr>)"

definition fake_RemoveAll :: "string \<Rightarrow> (fake, unit) prog" where
  "fake_RemoveAll p = modify (\<lambda>m. m\<lparr>fk_files := filter (\<lambda>(q, _). \<not> below p q) (fk_files m)\<rparr>)"

definition first_part :: "string \<Rightarrow> string" where
  "first_part rest = (case Cut (CHR ''/'') rest of (first, _, _) \<Rightarrow> first)"

definition fake_ReadDir :: "string \<Rightarrow> (fake, string list) prog" where
  "fake_ReadDir p = gets (\<lambda>m. sort (remdups (List.map_filter (\<lambda>(q, _).
     if take (length p + 1) q = p @ ''/'' then Some (first_part (drop (length p + 1) q)) else None) (fk_files m))))"

definition fake_host :: "string \<Rightarrow> fake Host" where
  "fake_host root = \<lparr>h_Root = root, h_ImageExists = fake_ImageExists, h_BuildImage = fake_BuildImage,
     h_CreateContainer = fake_CreateContainer, h_InspectContainer = fake_InspectContainer, h_ListContainers = fake_ListContainers,
     h_StartContainer = fake_StartContainer, h_StopContainer = fake_StopContainer, h_RemoveContainer = fake_RemoveContainer,
     h_Exec = fake_Exec, h_Logs = fake_Logs, h_WriteFile = fake_WriteFile, h_RemoveAll = fake_RemoveAll, h_ReadDir = fake_ReadDir\<rparr>"

section \<open>The laws\<close>

definition dashed :: "string set" where "dashed = {n. CHR ''-'' \<in> set n}"

definition fake_inv :: "fake \<Rightarrow> bool" where
  "fake_inv m \<longleftrightarrow> distinct (map fst (fk_containers m)) \<and>
     (\<forall>n ct. map_of (fk_containers m) n = Some ct \<longrightarrow> ct_Name ct = n \<and> CHR ''-'' \<notin> set (ct_ID ct))"

definition fake_ctr :: "fake \<Rightarrow> string \<Rightarrow> Container option" where
  "fake_ctr m n = (if n \<in> dashed then map_of (fk_containers m) n else None)"

definition fake_disk :: "fake \<Rightarrow> string \<Rightarrow> string option" where
  "fake_disk m = map_of (fk_files m)"

lemma fake_find_run:
  "fake_find k m =
     (if fk_Unavailable m then Inl (Errorf ''fake'' DockerUnavailable)
      else case map_of (fk_containers m) k of
        Some ct \<Rightarrow> Inr ct
      | None \<Rightarrow> (case find (\<lambda>ct. ct_ID ct = k) (map snd (fk_containers m)) of
          Some ct \<Rightarrow> Inr ct | None \<Rightarrow> Inl (Errorf (''fake: container '' @ k) DockerNotFound)), m)"
  by (simp add: fake_find_def fake_check_def thn_def bnd_def split: option.split)

lemma fake_find_dashed:
  assumes "fake_inv m" and "k \<in> dashed"
  shows "fake_find k m =
     (if fk_Unavailable m then Inl (Errorf ''fake'' DockerUnavailable)
      else case fake_ctr m k of Some ct \<Rightarrow> Inr ct | None \<Rightarrow> Inl (Errorf (''fake: container '' @ k) DockerNotFound), m)"
proof -
  have "ct_ID ct \<noteq> k" if mem: "ct \<in> set (map snd (fk_containers m))" for ct
  proof -
    obtain x where x: "x \<in> set (fk_containers m)" "ct = snd x"
      using mem unfolding list.set_map by (rule imageE)
    then have "(fst x, ct) \<in> set (fk_containers m)" by simp
    then have "map_of (fk_containers m) (fst x) = Some ct" using assms(1) by (auto simp: fake_inv_def)
    then show ?thesis using assms by (auto simp: fake_inv_def dashed_def)
  qed
  then have "find (\<lambda>ct. ct_ID ct = k) (map snd (fk_containers m)) = None" by (simp add: find_None_iff)
  then show ?thesis using assms(2) by (simp add: fake_find_run fake_ctr_def split: option.split)
qed

lemma fake_ctr_name: "fake_inv m \<Longrightarrow> fake_ctr m n = Some ct \<Longrightarrow> ct_Name ct = n \<and> CHR ''-'' \<notin> set (ct_ID ct)"
  by (auto simp: fake_ctr_def fake_inv_def split: if_splits)

lemma fake_inv_update:
  "fake_inv m \<Longrightarrow> ct_Name ct = n \<Longrightarrow> CHR ''-'' \<notin> set (ct_ID ct) \<Longrightarrow> fk_containers m' = AList.update n ct (fk_containers m) \<Longrightarrow> fake_inv m'"
  unfolding fake_inv_def by (simp add: distinct_update update_conv')

lemma by_name_containers:
  assumes "fake_inv m" shows "by_name (map snd (fk_containers m)) n = map_of (fk_containers m) n"
proof -
  have name: "ct_Name ct = k" if "(k, ct) \<in> set (fk_containers m)" for k ct
    using assms that by (auto simp: fake_inv_def)
  have "map (\<lambda>ct. (ct_Name ct, ct)) (map snd (fk_containers m)) = fk_containers m"
    unfolding map_map comp_def by (rule map_idI) (auto simp: name)
  moreover have "map_of (rev (fk_containers m)) = map_of (fk_containers m)"
    using assms by (subst map_of_inject_set) (auto simp: fake_inv_def rev_map[symmetric])
  ultimately show ?thesis by (simp add: by_name_def)
qed

lemma map_of_filter_key: "map_of (filter (\<lambda>(q, _). P q) xs) = (\<lambda>q. if P q then map_of xs q else None)"
  by (induction xs) (auto simp: fun_eq_iff)

lemma dec_no_dash: "CHR ''-'' \<notin> set (dec n)"
  using dec_chars[of "CHR ''-''" n] by (auto simp: is_digit_def)

lemma below_first_part:
  assumes "take (length p + 1) q = p @ ''/''" 
  shows "below (p @ ''/'' @ first_part (drop (length p + 1) q)) q" and "CHR ''/'' \<notin> set (first_part (drop (length p + 1) q))"
proof -
  let ?r = "drop (length p + 1) q"
  have q: "q = p @ ''/'' @ ?r" using assms by (metis append_take_drop_id append_assoc)
  show "CHR ''/'' \<notin> set (first_part ?r)" by (auto simp: first_part_def Cut_def dest: set_takeWhileD)
  show "below (p @ ''/'' @ first_part ?r) q"
  proof (cases "CHR ''/'' \<in> set ?r")
    case True
    then obtain u t where ut: "?r = u @ CHR ''/'' # t" "CHR ''/'' \<notin> set u" by (meson split_list_first)
    then have "takeWhile (\<lambda>c. c \<noteq> CHR ''/'') ?r = u @ takeWhile (\<lambda>c. c \<noteq> CHR ''/'') (CHR ''/'' # t)"
      unfolding ut(1) by (intro takeWhile_append2) auto
    then have t: "?r = first_part ?r @ ''/'' @ t" using ut by (simp add: first_part_def Cut_def)
    have "q = (p @ ''/'' @ first_part ?r) @ ''/'' @ t" using q t by (metis append_assoc)
    then show ?thesis unfolding below_iff by blast
  next
    case False
    then show ?thesis using q by (simp add: first_part_def Cut_def below_iff)
  qed
qed

interpretation fake_machine: machine "fake_host root" fake_inv fake_disk fake_ctr fk_Execs dashed for root
proof (unfold_locales, goal_cases)
  case (1 m p b r m')
  then show ?case by (auto simp: fake_host_def fake_WriteFile_def fake_inv_def fake_ctr_def fake_disk_def update_conv' fun_eq_iff)
next
  case (2 m p r m')
  then show ?case by (auto simp: fake_host_def fake_RemoveAll_def fake_inv_def fake_ctr_def fake_disk_def fun_eq_iff map_of_filter_key)
next
  case (3 m p x m')
  then have m': "m' = m" and x: "x = Inr (sort (remdups (List.map_filter (\<lambda>(q, _).
     if take (length p + 1) q = p @ ''/'' then Some (first_part (drop (length p + 1) q)) else None) (fk_files m))))"
    by (auto simp: fake_host_def fake_ReadDir_def)
  have "\<exists>n \<in> set ns. below (p @ ''/'' @ n) q" if ns: "x = Inr ns" and q: "fake_disk m q \<noteq> None" "q \<noteq> p" "below p q" for ns q
  proof -
    have sl: "take (length p + 1) q = p @ ''/''" using q(2,3) by (simp add: below_def)
    obtain b where "(q, b) \<in> set (fk_files m)" using q(1) by (auto simp: fake_disk_def dest: map_of_SomeD)
    then have "first_part (drop (length p + 1) q) \<in> set ns"
      using ns x sl by (force simp: List.map_filter_def)
    then show ?thesis using below_first_part(1)[OF sl] by blast
  qed
  moreover have "CHR ''/'' \<notin> set n" if "x = Inr ns" "n \<in> set ns" for ns n
    using that x below_first_part(2) by (auto simp: List.map_filter_def split: if_splits)
  ultimately show ?case using 3(1) m' by blast
next
  case (4 m n y m')
  then show ?case by (auto simp: fake_host_def fake_InspectContainer_def fake_find_dashed split: if_splits option.splits)
next
  case (5 m n cmd z m')
  then show ?case
    by (auto simp: fake_host_def fake_Exec_def bnd_def fake_find_run fake_inv_def fake_ctr_def fake_disk_def Let_def split: if_splits option.splits)
next
  case (6 m t u m')
  then show ?case by (auto simp: fake_host_def fake_ImageExists_def thn_def bnd_def fake_check_def split: if_splits)
next
  case (7 m t fs r m')
  then show ?case
    by (auto simp: fake_host_def fake_BuildImage_def thn_def bnd_def fake_check_def fake_inv_def fake_ctr_def fake_disk_def split: if_splits)
next
  case (8 m n tail follow w m')
  then show ?case by (auto simp: fake_host_def fake_Logs_def bnd_def fake_find_run split: if_splits option.splits)
next
  case (9 m l m')
  then show ?case
    by (auto simp: fake_host_def fake_ListContainers_def thn_def bnd_def fake_check_def by_name_containers fake_ctr_def split: if_splits)
next
  case (10 m spec v m')
  then show ?case
    by (auto simp: fake_host_def fake_CreateContainer_def thn_def bnd_def fake_check_def Let_def fake_ctr_def fake_disk_def update_conv' fun_eq_iff
        dec_no_dash split: if_splits intro!: fake_inv_update[of m _ "cs_Name spec"])
next
  case (11 m n r m')
  show ?case
  proof (cases "fake_ctr m n")
    case None
    then show ?thesis using 11 by (auto simp: fake_host_def fake_StartContainer_def bnd_def fake_find_dashed split: if_splits)
  next
    case (Some ct)
    note name = fake_ctr_name[OF 11(1) Some]
    show ?thesis
    proof (cases "fk_Unavailable m \<or> fk_StartErr m \<noteq> None")
      case True
      then have "m' = m \<and> r \<noteq> Inr ()"
        using 11 Some by (auto simp: fake_host_def fake_StartContainer_def bnd_def fake_find_dashed split: if_splits)
      then show ?thesis using 11(1) by simp
    next
      case False
      define ct' where "ct' = (if fk_BootExitCode m \<noteq> 0 then ct\<lparr>ct_State := ''exited'', ct_ExitCode := fk_BootExitCode m\<rparr>
        else ct\<lparr>ct_State := ''running''\<rparr>)"
      have m': "fk_containers m' = AList.update n ct' (fk_containers m)" "fk_files m' = fk_files m"
        using 11 Some name False
        by (auto simp: fake_host_def fake_StartContainer_def bnd_def fake_find_dashed Let_def ct'_def split: if_splits)
      have ct': "ct' = ct\<lparr>ct_State := ct_State ct', ct_ExitCode := ct_ExitCode ct'\<rparr>" "ct_Name ct' = n" "CHR ''-'' \<notin> set (ct_ID ct')"
        using name by (simp_all add: ct'_def)
      have "fake_inv m'" by (rule fake_inv_update[OF 11(1) ct'(2,3) m'(1)])
      moreover have "fake_ctr m' = (fake_ctr m)(n := map_option (\<lambda>c. c\<lparr>ct_State := ct_State ct', ct_ExitCode := ct_ExitCode ct'\<rparr>) (fake_ctr m n))"
        using 11(2) Some ct'(1) by (auto simp: fake_ctr_def m'(1) update_conv' fun_eq_iff)
      ultimately show ?thesis using m'(2) by (auto simp: fake_disk_def)
    qed
  qed
next
  case (12 m n r m')
  show ?case
  proof (cases "fake_ctr m n")
    case None
    then show ?thesis using 12 by (auto simp: fake_host_def fake_RemoveContainer_def bnd_def fake_find_dashed split: if_splits)
  next
    case (Some ct)
    note name = fake_ctr_name[OF 12(1) Some]
    show ?thesis
      using 12 Some name
      by (auto simp: fake_host_def fake_RemoveContainer_def bnd_def fake_find_dashed fake_ctr_def fake_disk_def delete_conv' fun_eq_iff fake_inv_def
          distinct_delete split: if_splits)
  qed
qed

end
