(* ===== verification/NodeUpFacts.thy ===== *)
theory NodeUpFacts
  imports Dockertest
begin

text \<open>
  Bringing a node up succeeds on a machine in order: the machine of dockertest while its daemon answers
  and its containers boot, with a database that can be read. \<open>sure P m Q\<close> says that \<open>m\<close> returns from
  every state with \<open>P\<close>, with \<open>Q\<close> of its value and the state it leaves.
\<close>

section \<open>Programs that return\<close>

definition sure :: "('s \<Rightarrow> bool) \<Rightarrow> ('s, 'a) prog \<Rightarrow> ('a \<Rightarrow> 's \<Rightarrow> bool) \<Rightarrow> bool" where
  "sure P m Q \<longleftrightarrow> (\<forall>s. P s \<longrightarrow> (\<exists>x s'. m s = (Inr x, s') \<and> Q x s'))"

lemma sureI: "(\<And>s. P s \<Longrightarrow> \<exists>x s'. m s = (Inr x, s') \<and> Q x s') \<Longrightarrow> sure P m Q"
  by (simp add: sure_def)

lemma sureD: "sure P m Q \<Longrightarrow> P s \<Longrightarrow> \<exists>x s'. m s = (Inr x, s') \<and> Q x s'"
  by (simp add: sure_def)

named_theorems sure_rules \<open>programs that return\<close>

lemma sure_triple: "sure P m Q \<longleftrightarrow> triple P m Q (\<lambda>_ _. False)"
proof -
  have "(\<exists>x s'. m s = (Inr x, s') \<and> Q x s') \<longleftrightarrow> (case m s of (Inl e, s') \<Rightarrow> False | (Inr x, s') \<Rightarrow> Q x s')" for s
    by (cases "m s"; cases "fst (m s)") auto
  then show ?thesis by (simp add: sure_def triple_def)
qed

lemma sure_bnd: "sure P m R \<Longrightarrow> (\<And>x. sure (R x) (f x) Q) \<Longrightarrow> sure P (bnd m f) Q"
  unfolding sure_triple by (rule triple_bnd)

lemma sure_thn: "sure P m (\<lambda>_. R) \<Longrightarrow> sure R n Q \<Longrightarrow> sure P (thn m n) Q"
  unfolding thn_def by (rule sure_bnd)

lemma sure_weaken: "sure P m Q \<Longrightarrow> (\<And>s. P' s \<Longrightarrow> P s) \<Longrightarrow> (\<And>x s. Q x s \<Longrightarrow> Q' x s) \<Longrightarrow> sure P' m Q'"
  unfolding sure_def by blast

lemma sure_ret: "sure (P x) (ret x) P"
  by (simp add: sure_def)

lemma sure_stay [sure_rules]: "sure P (ret x) (\<lambda>_. P)"
  by (simp add: sure_def)

lemma sure_forEach: "(\<And>x. x \<in> set xs \<Longrightarrow> sure I (f x) (\<lambda>_. I)) \<Longrightarrow> sure I (forEach xs f) (\<lambda>_. I)"
  by (induction xs) (auto intro: sure_thn sure_stay)

lemma sure_collect:
  "(\<And>x. x \<in> set xs \<Longrightarrow> sure I (g x) (\<lambda>_. I)) \<Longrightarrow>
   sure I (collect (map (\<lambda>x. error_of (h x) (g x)) xs)) (\<lambda>es s. I s \<and> (\<forall>e \<in> set es. e = None))"
proof (induction xs)
  case Nil
  show ?case by (simp add: sure_def)
next
  case (Cons x xs)
  have one: "sure I (error_of (h x) (g x)) (\<lambda>e s. I s \<and> e = None)"
    using Cons.prems[of x] unfolding sure_def error_of_def bnd_def attempt_def by (fastforce simp: left_of_def)
  have rest: "sure I (collect (map (\<lambda>x. error_of (h x) (g x)) xs)) (\<lambda>es s. I s \<and> (\<forall>e \<in> set es. e = None))"
    using Cons by simp
  show ?case unfolding list.map collect.simps
  proof (rule sure_bnd[OF one])
    fix e
    show "sure (\<lambda>s. I s \<and> e = None) (bnd (collect (map (\<lambda>x. error_of (h x) (g x)) xs)) (\<lambda>es. ret (e # es)))
        (\<lambda>es s. I s \<and> (\<forall>e \<in> set es. e = None))"
      using rest unfolding sure_def bnd_def by fastforce
  qed
qed

section \<open>A machine in order\<close>

definition healthy :: "fake \<Rightarrow> bool" where
  "healthy m \<longleftrightarrow> fake_inv m \<and> \<not> fk_Unavailable m \<and> fk_StartErr m = None \<and> fk_ExecOutput m = None \<and> fk_LogOutput m = [] \<and>
     fk_BootLog m = ReadyLog \<and> fk_BootExitCode m = 0 \<and>
     (\<forall>n. map_of (fk_containers m) n = None \<longrightarrow> map_of (fk_logs m) n = None)"

lemma healthy_new: "healthy new_fake"
  by (simp add: healthy_def new_fake_def fake_inv_def)

lemma healthy_find:
  "healthy m \<Longrightarrow> k \<in> dashed \<Longrightarrow> fake_find k m =
     (case map_of (fk_containers m) k of Some ct \<Rightarrow> Inr ct | None \<Rightarrow> Inl (Errorf (''fake: container '' @ k) DockerNotFound), m)"
  by (simp add: fake_find_dashed healthy_def fake_ctr_def)

lemma healthy_name: "healthy m \<Longrightarrow> map_of (fk_containers m) n = Some ct \<Longrightarrow> ct_Name ct = n \<and> CHR ''-'' \<notin> set (ct_ID ct)"
  by (auto simp: healthy_def fake_inv_def)

lemma healthy_same:
  "healthy m \<Longrightarrow> fk_containers m' = fk_containers m \<Longrightarrow> fk_logs m' = fk_logs m \<Longrightarrow> fk_Unavailable m' = fk_Unavailable m \<Longrightarrow>
   fk_StartErr m' = fk_StartErr m \<Longrightarrow> fk_ExecOutput m' = fk_ExecOutput m \<Longrightarrow> fk_LogOutput m' = fk_LogOutput m \<Longrightarrow>
   fk_BootLog m' = fk_BootLog m \<Longrightarrow> fk_BootExitCode m' = fk_BootExitCode m \<Longrightarrow> healthy m'"
  by (simp add: healthy_def fake_inv_def)

abbreviation has :: "string \<Rightarrow> string option \<Rightarrow> fake \<Rightarrow> bool" where
  "has name log m \<equiv> healthy m \<and> (\<exists>ct. map_of (fk_containers m) name = Some ct) \<and> map_of (fk_logs m) name = log"

lemma sure_write: "sure healthy (h_WriteFile (fake_host root) p b) (\<lambda>_. healthy)"
  by (auto simp: sure_def fake_host_def fake_WriteFile_def intro: healthy_same)

lemma sure_write_or_remove: "sure healthy (write_or_remove (fake_host root) p b) (\<lambda>_. healthy)"
  by (cases b) (auto simp: sure_def write_or_remove_def fake_host_def fake_WriteFile_def fake_RemoveAll_def intro: healthy_same)

lemma sure_ensureImage: "sure healthy (ensureImage mg (fake_host root)) (\<lambda>_. healthy)"
  unfolding sure_def
proof (intro allI impI)
  fix m assume m: "healthy m"
  show "\<exists>x m'. ensureImage mg (fake_host root) m = (Inr x, m') \<and> healthy m'"
  proof (cases "mg_image mg \<in> set (fk_images m)")
    case True
    then show ?thesis using m
      by (simp add: ensureImage_def fake_host_def fake_ImageExists_def bnd_def thn_def fake_check_def healthy_def)
  next
    case False
    have "healthy (m\<lparr>fk_images := mg_image mg # fk_images m, fk_Builds := fk_Builds m + 1\<rparr>)" by (rule healthy_same[OF m]) simp_all
    then show ?thesis using m False
      by (simp add: ensureImage_def fake_host_def fake_ImageExists_def fake_BuildImage_def bnd_def thn_def fake_check_def) (simp add: healthy_def)
  qed
qed

lemma healthy_delete:
  assumes m: "healthy m" shows "healthy (m\<lparr>fk_containers := AList.delete n (fk_containers m), fk_specs := x, fk_logs := AList.delete n (fk_logs m)\<rparr>)"
  using m by (auto simp: healthy_def fake_inv_def delete_conv' distinct_delete split: if_splits)

lemma sure_remove:
  "n \<in> dashed \<Longrightarrow> sure healthy (remove_if_there (fake_host root) n) (\<lambda>_ m. healthy m \<and> map_of (fk_containers m) n = None)"
  unfolding sure_def
proof (intro allI impI)
  fix m assume n: "n \<in> dashed" and m: "healthy m"
  show "\<exists>x m'. remove_if_there (fake_host root) n m = (Inr x, m') \<and> healthy m' \<and> map_of (fk_containers m') n = None"
  proof (cases "map_of (fk_containers m) n")
    case None
    then show ?thesis using m n
      by (simp add: remove_if_there_def fake_host_def fake_RemoveContainer_def bnd_def attempt_def healthy_find)
  next
    case (Some ct)
    note name = healthy_name[OF m Some]
    show ?thesis using m n Some name healthy_delete[OF m, of n "AList.delete n (fk_specs m)"]
      by (simp add: remove_if_there_def fake_host_def fake_RemoveContainer_def bnd_def attempt_def healthy_find delete_conv')
  qed
qed

lemma sure_create:
  "cs_Name spec = n \<Longrightarrow> sure (\<lambda>m. healthy m \<and> map_of (fk_containers m) n = None) (h_CreateContainer (fake_host root) spec) (\<lambda>_. has n None)"
  by (auto simp: sure_def fake_host_def fake_CreateContainer_def thn_def bnd_def fake_check_def healthy_def Let_def fake_inv_def
      update_conv' distinct_update dec_no_dash)

lemma sure_start: "n \<in> dashed \<Longrightarrow> sure (has n None) (h_StartContainer (fake_host root) n) (\<lambda>_. has n (Some ReadyLog))"
proof -
  assume n: "n \<in> dashed"
  have "\<exists>m'. fake_StartContainer n m = (Inr (), m') \<and> has n (Some ReadyLog) m'" if m: "has n None m" for m
  proof -
    obtain ct where ct: "map_of (fk_containers m) n = Some ct" using m by blast
    have name: "ct_Name ct = n" "CHR ''-'' \<notin> set (ct_ID ct)" using healthy_name m ct by auto
    have run: "fake_StartContainer n m = (Inr (), m\<lparr>fk_containers := AList.update n (ct\<lparr>ct_State := ''running''\<rparr>) (fk_containers m),
        fk_logs := AList.update n ReadyLog (fk_logs m)\<rparr>)"
      using m n ct name by (simp add: fake_StartContainer_def bnd_def healthy_find) (simp add: healthy_def stored_of_def Let_def)
    show ?thesis unfolding run using m name by (auto simp: healthy_def fake_inv_def update_conv' distinct_update split: if_splits)
  qed
  then show ?thesis by (auto simp: sure_def fake_host_def)
qed

lemma boot_ready: "\<exists>steps tail. boot_scan (scan_lines ReadyLog) [] [] = (True, steps, tail)"
proof -
  have "fst (boot_scan (scan_lines ReadyLog) [] [])" by code_simp
  then show ?thesis by (cases "boot_scan (scan_lines ReadyLog) [] []") auto
qed

section \<open>A panel in order\<close>

definition readable :: "'z db_scheme \<Rightarrow> bool" where
  "readable s \<longleftrightarrow> t_faults s = [] \<and> (\<forall>r \<in> set (t_instances s). \<exists>i. scanInstance r = Inr i) \<and>
     (\<forall>r \<in> set (t_peers s). \<exists>p. scanPeer r = Inr p)"

abbreviation on :: "int \<Rightarrow> ('m \<Rightarrow> bool) \<Rightarrow> ('m, 'z) world_scheme \<Rightarrow> bool" where
  "on n A s \<equiv> readable s \<and> A (w_machine s n)"

lemma readable_world [simp]:
  "readable (s\<lparr>w_machine := x\<rparr>) = readable s" "readable (s\<lparr>w_blocked := y\<rparr>) = readable s"
  "readable (s\<lparr>w_steps := z\<rparr>) = readable s" "readable (s\<lparr>w_rebuild := r\<rparr>) = readable s"
  by (simp_all add: readable_def)

lemma sure_on_host: "sure A op B \<Longrightarrow> sure (on n A) (on_host n op) (\<lambda>x. on n (B x))"
  by (fastforce simp: sure_def on_host_def)

lemma sure_report: "sure (on n A) (report b x) (\<lambda>_. on n A)"
  by (auto simp: sure_def report_def)

lemma scan_all_Inr: "\<forall>r \<in> set rs. \<exists>v. f r = Inr v \<Longrightarrow> \<exists>vs. scan_all f rs = Inr vs"
  by (induction rs) auto

lemma readable_query: "readable s \<Longrightarrow> query f s = (Inr (f s), s)"
  by (simp add: query_def stmt_def readable_def)

lemma sure_blockedPeers: "sure (on n A) (blockedPeers mg k) (\<lambda>_. on n A)"
  unfolding sure_def
proof (intro allI impI)
  fix s :: "('a, 'b) world_scheme" assume s: "on n A s"
  have "\<forall>r \<in> set (sort_key pr_id (filter (\<lambda>r. pr_instance_id r = k) (t_peers s))). \<exists>p. scanPeer r = Inr p"
    using s by (simp add: readable_def)
  then obtain ps where "scan_all scanPeer (sort_key pr_id (filter (\<lambda>r. pr_instance_id r = k) (t_peers s))) = Inr ps"
    using scan_all_Inr by blast
  then show "\<exists>x s'. blockedPeers mg k s = (Inr x, s') \<and> on n A s'"
    using s by (auto simp: readable_query blockedPeers_def Peers_def LimitUsage_def limitUsage_def bnd_def mapErr_def Let_def)
qed

lemma sure_Instances: "sure (on n A) Instances (\<lambda>_. on n A)"
  unfolding sure_def
proof (intro allI impI)
  fix s :: "('a, 'b) world_scheme" assume s: "on n A s"
  have "\<forall>r \<in> set (sort_key ir_id (t_instances s)). \<exists>i. scanInstance r = Inr i" using s by (simp add: readable_def)
  then obtain all where "scan_all scanInstance (sort_key ir_id (t_instances s)) = Inr all" using scan_all_Inr by blast
  then show "\<exists>x s'. Instances s = (Inr x, s') \<and> on n A s'"
    using s by (auto simp: readable_query Instances_def bnd_def mapErr_def)
qed

lemma sure_writeConfig:
  "in_NodeID i = n \<Longrightarrow> sure (on n healthy) (writeConfig mg (fake_host root) i) (\<lambda>_. on n healthy)"
proof -
  assume n: "in_NodeID i = n"
  have tell: "sure (on n healthy) (modify (\<lambda>s. s\<lparr>w_blocked := (w_blocked s)(in_ID i \<mapsto> blocked)\<rparr>)) (\<lambda>_. on n healthy)" for blocked
    by (auto simp: sure_def)
  show ?thesis unfolding writeConfig_def Let_def
  proof (rule sure_bnd[OF sure_blockedPeers])
    fix x :: "Peer list \<times> (int \<times> Traffic) list \<times> (int \<times> Block) list"
    obtain peers usage blocked where x: "x = (peers, usage, blocked)" by (cases x)
    show "sure (on n healthy)
          (case x of (peers, uu, blocked) \<Rightarrow>
           thn (on_host (in_NodeID i) (h_WriteFile (fake_host root) (conf_path (fake_host root) (in_ID i))
                 (ServerConfig i (filter (\<lambda>p. reason blocked (p_ID p) = Unblocked) peers))))
           (thn (on_host (in_NodeID i) (write_or_remove (fake_host root) (resolver_path (fake_host root) (in_ID i))
                 (if in_DNSOnServer i then Some (ResolverConfig i) else None)))
           (thn (on_host (in_NodeID i) (write_or_remove (fake_host root) (speeds_path (fake_host root) (in_ID i))
                 (if SpeedLimitsConfig (filter (\<lambda>p. reason blocked (p_ID p) = Unblocked) peers) \<noteq> []
                  then Some (SpeedLimitsConfig (filter (\<lambda>p. reason blocked (p_ID p) = Unblocked) peers)) else None)))
           (modify (\<lambda>s. s\<lparr>w_blocked := (w_blocked s)(in_ID i \<mapsto> blocked)\<rparr>))))) (\<lambda>_. on n healthy)"
      unfolding x prod.case n
      by (intro sure_thn[OF sure_on_host[OF sure_write]] sure_thn[OF sure_on_host[OF sure_write_or_remove]] tell)
  qed
qed

lemma sure_waitReady:
  assumes name: "name \<in> dashed"
  shows "sure (on n (has name (Some ReadyLog))) (waitReady (fake_host root) n name b) (\<lambda>_. on n healthy)"
  unfolding sure_def
proof (intro allI impI)
  fix s :: "(fake, 'a) world_scheme" assume s: "on n (has name (Some ReadyLog)) s"
  let ?m = "w_machine s n"
  obtain ct where ct: "map_of (fk_containers ?m) name = Some ct" using s by blast
  have "ct_Name ct = name" using healthy_name s ct by auto
  then have logs: "h_Logs (fake_host root) name (int bootLogLines * 4) True ?m = (Inr (scan_lines ReadyLog, Ended), ?m)"
    using s ct name by (simp add: fake_host_def fake_Logs_def bnd_def healthy_find) (simp add: healthy_def stored_of_def)
  obtain steps tail where boot: "boot_scan (scan_lines ReadyLog) [] [] = (True, steps, tail)" using boot_ready by blast
  have same: "s\<lparr>w_machine := (w_machine s)(n := ?m)\<rparr> = s" by simp
  have loop: "sure (on n healthy) (forEach steps (report b)) (\<lambda>_. on n healthy)" by (intro sure_forEach sure_report)
  obtain s' where "forEach steps (report b) s = (Inr (), s')" "on n healthy s'"
    using sureD[OF loop, of s] s by auto
  then show "\<exists>x s'. waitReady (fake_host root) n name b s = (Inr x, s') \<and> on n healthy s'"
    using logs boot by (auto simp: waitReady_def bnd_def thn_def on_host_def)
qed

lemma sure_deploy:
  assumes n: "in_NodeID i = n" and name: "ContainerName mg (in_ID i) \<in> dashed"
  shows "sure (on n healthy) (manager_deploy mg (fake_host root) i st b) (\<lambda>_. on n healthy)"
proof -
  have spec: "cs_Name (container_spec mg (fake_host root) i) = ContainerName mg (in_ID i)"
    by (simp add: container_spec_def Let_def)
  have fin: "sure (on n (has (ContainerName mg (in_ID i)) None))
      (if \<not> st then ret () else thn (on_host n (h_StartContainer (fake_host root) (ContainerName mg (in_ID i))))
        (thn (report b ''container'') (waitReady (fake_host root) n (ContainerName mg (in_ID i)) b))) (\<lambda>_. on n healthy)"
  proof (cases st)
    case False
    then show ?thesis by (auto simp: sure_def)
  next
    case True
    then show ?thesis using sure_thn[OF sure_on_host[OF sure_start[OF name]] sure_thn[OF sure_report sure_waitReady[OF name]]] by simp
  qed
  have create: "sure (on n healthy)
      (thn (on_host n (remove_if_there (fake_host root) (ContainerName mg (in_ID i))))
        (thn (on_host n (h_CreateContainer (fake_host root) (container_spec mg (fake_host root) i)))
          (if \<not> st then ret () else thn (on_host n (h_StartContainer (fake_host root) (ContainerName mg (in_ID i))))
            (thn (report b ''container'') (waitReady (fake_host root) n (ContainerName mg (in_ID i)) b))))) (\<lambda>_. on n healthy)"
    by (rule sure_thn[OF sure_on_host[OF sure_remove[OF name]]], rule sure_thn[OF sure_on_host[OF sure_create[OF spec]]], rule fin)
  show ?thesis unfolding manager_deploy_def Let_def n
    by (intro sure_thn[OF sure_writeConfig[OF n]] sure_thn[OF sure_on_host[OF sure_ensureImage]] sure_thn[OF sure_report] create)
qed

lemma sure_apply:
  assumes n: "in_NodeID i = n" and name: "ContainerName mg (in_ID i) \<in> dashed"
  shows "sure (on n healthy) (manager_apply mg (fake_host root) i) (\<lambda>_. on n healthy)"
proof -
  let ?sync = "bnd (on_host n (find_container mg (fake_host root) (in_ID i))) (\<lambda>ct. case ct of None \<Rightarrow> ret ()
      | Some ct \<Rightarrow> if \<not> Running ct then ret ()
          else bnd (on_host n (h_Exec (fake_host root) (ct_Name ct) [''tunploy-wg'', ''sync''])) (\<lambda>_. ret ()))"
  have sync: "\<exists>x s'. ?sync s = (Inr x, s') \<and> on n healthy s'" if s: "on n healthy s" for s :: "(fake, 'z) world_scheme"
  proof -
    let ?m = "w_machine s n"
    have same: "s\<lparr>w_machine := (w_machine s)(n := ?m)\<rparr> = s" by simp
    have find: "on_host n (find_container mg (fake_host root) (in_ID i)) s = (Inr (map_of (fk_containers ?m) (ContainerName mg (in_ID i))), s)"
      using s name by (auto simp: on_host_def find_container_def fake_host_def fake_InspectContainer_def bnd_def attempt_def healthy_find split: option.split)
    show ?thesis
    proof (cases "map_of (fk_containers ?m) (ContainerName mg (in_ID i))")
      case None
      then show ?thesis using find s by (simp add: bnd_def)
    next
      case (Some ct)
      have ctn: "ct_Name ct = ContainerName mg (in_ID i)" using healthy_name s Some by auto
      show ?thesis
      proof (cases "Running ct")
        case False
        then show ?thesis using find s Some by (simp add: bnd_def)
      next
        case True
        have exec: "fake_Exec (ct_Name ct) [''tunploy-wg'', ''sync''] ?m = (Inr [], ?m\<lparr>fk_Execs := fk_Execs ?m @ [[''tunploy-wg'', ''sync'']]\<rparr>)"
          using s name Some ctn True by (simp add: fake_Exec_def bnd_def healthy_find Running_def) (simp add: healthy_def Let_def)
        moreover have "healthy (?m\<lparr>fk_Execs := fk_Execs ?m @ [[''tunploy-wg'', ''sync'']]\<rparr>)" using s by (auto intro: healthy_same)
        ultimately show ?thesis using find s Some True by (simp add: bnd_def on_host_def fake_host_def)
      qed
    qed
  qed
  show ?thesis unfolding manager_apply_def n by (rule sure_thn[OF sure_writeConfig[OF n] sureI[OF sync]])
qed

lemma sure_reconcile_one:
  assumes "in_NodeID i = n" and "ContainerName mg (in_ID i) \<in> dashed"
  shows "sure (on n healthy) (reconcile_one mg (fake_host root) cts i) (\<lambda>_. on n healthy)"
proof (cases "by_name cts (ContainerName mg (in_ID i))")
  case None
  then show ?thesis using sure_deploy[OF assms] by (simp add: reconcile_one_def)
next
  case (Some ct)
  then show ?thesis by (auto simp: reconcile_one_def intro: sure_deploy[OF assms] sure_apply[OF assms])
qed

lemma sure_lists: "sure healthy (h_ListContainers (fake_host root)) (\<lambda>_. healthy)"
  by (auto simp: sure_def fake_host_def fake_ListContainers_def thn_def bnd_def fake_check_def healthy_def)

lemma sure_read_dir: "sure healthy (h_ReadDir (fake_host root) p) (\<lambda>_. healthy)"
  by (simp add: sure_def fake_host_def fake_ReadDir_def)

lemma sure_remove_all: "sure healthy (h_RemoveAll (fake_host root) p) (\<lambda>_. healthy)"
  by (auto simp: sure_def fake_host_def fake_RemoveAll_def intro: healthy_same)

lemma sure_removeStaleConfigs: "sure healthy (removeStaleConfigs (fake_host root) is) (\<lambda>_. healthy)"
  unfolding removeStaleConfigs_def
  by (rule sure_bnd[OF sure_read_dir], rule sure_forEach) (simp add: sure_remove_all sure_stay)

lemma sure_error_of:
  "sure I m (\<lambda>_. I) \<Longrightarrow> sure I (error_of h m) (\<lambda>e s. I s \<and> e = None)"
  by (fastforce simp: sure_def error_of_def bnd_def attempt_def left_of_def)

lemma owned_dashed: "CHR ''-'' \<in> set (mg_prefix mg) \<Longrightarrow> owns mg ct \<Longrightarrow> ct_Name ct \<in> dashed"
  by (auto simp: owns_def dashed_def split: option.splits)

lemma sure_reconcile:
  assumes prefix: "CHR ''-'' \<in> set (mg_prefix mg)" and node: "\<forall>i \<in> set is. in_NodeID i = n"
  shows "sure (on n healthy) (reconcile mg n (fake_host root) is) (\<lambda>_. on n healthy)"
  unfolding reconcile_def
proof (rule sure_bnd[OF sure_on_host[OF sure_lists]])
  fix cts
  have name: "ContainerName mg k \<in> dashed" for k using prefix by (simp add: ContainerName_def dashed_def)
  have a: "sure (on n healthy) (reconcile_one mg (fake_host root) cts i) (\<lambda>_. on n healthy)" if "i \<in> set is" for i
    using node that name by (intro sure_reconcile_one) auto
  have b: "sure (on n healthy) (on_host n (remove_if_there (fake_host root) (ct_Name ct))) (\<lambda>_. on n healthy)"
    if "ct \<in> set (orphans mg cts is)" for ct
  proof -
    have "ct_Name ct \<in> dashed" using that owned_dashed[OF prefix] by (auto simp: orphans_def)
    from sure_on_host[OF sure_remove[OF this]] show ?thesis by (rule sure_weaken) auto
  qed
  have A: "sure (on n healthy) (collect (map (\<lambda>i. error_of (Errorf (''instance '' @ Itoa (in_ID i))) (reconcile_one mg (fake_host root) cts i)) is))
    (\<lambda>es s. on n healthy s \<and> (\<forall>e \<in> set es. e = None))" by (rule sure_collect) (rule a)
  have B: "sure (on n healthy) (collect (map (\<lambda>ct. error_of (Errorf (''remove '' @ ct_Name ct)) (on_host n (remove_if_there (fake_host root) (ct_Name ct))))
    (orphans mg cts is))) (\<lambda>es s. on n healthy s \<and> (\<forall>e \<in> set es. e = None))" by (rule sure_collect) (rule b)
  have C: "sure (on n healthy) (error_of id (on_host n (removeStaleConfigs (fake_host root) is))) (\<lambda>e s. on n healthy s \<and> e = None)"
    by (rule sure_error_of[OF sure_on_host[OF sure_removeStaleConfigs]])
  have fin: "errors_Join (as @ bs @ [c]) = None" if "\<forall>e \<in> set as. e = None" "\<forall>e \<in> set bs. e = None" "c = None" for as bs c
    using that errors_Join_None[of "as @ bs @ [c]"] by auto
  show "sure (on n healthy)
     (bnd (collect (map (\<lambda>i. error_of (Errorf (''instance '' @ Itoa (in_ID i))) (reconcile_one mg (fake_host root) cts i)) is)) (\<lambda>a.
      bnd (collect (map (\<lambda>ct. error_of (Errorf (''remove '' @ ct_Name ct)) (on_host n (remove_if_there (fake_host root) (ct_Name ct))))
            (orphans mg cts is))) (\<lambda>b.
      bnd (error_of id (on_host n (removeStaleConfigs (fake_host root) is))) (\<lambda>c.
      failOn (errors_Join (a @ b @ [c])))))) (\<lambda>_. on n healthy)"
  proof (rule sureI)
    fix s assume s: "on n healthy s"
    obtain as s1 where as: "collect (map (\<lambda>i. error_of (Errorf (''instance '' @ Itoa (in_ID i))) (reconcile_one mg (fake_host root) cts i)) is) s = (Inr as, s1)"
      "on n healthy s1" "\<forall>e \<in> set as. e = None" using sureD[OF A s] by auto
    obtain bs s2 where bs: "collect (map (\<lambda>ct. error_of (Errorf (''remove '' @ ct_Name ct)) (on_host n (remove_if_there (fake_host root) (ct_Name ct))))
            (orphans mg cts is)) s1 = (Inr bs, s2)" "on n healthy s2" "\<forall>e \<in> set bs. e = None"
      using sureD[OF B as(2)] by auto
    obtain c s3 where c: "error_of id (on_host n (removeStaleConfigs (fake_host root) is)) s2 = (Inr c, s3)" "on n healthy s3" "c = None"
      using sureD[OF C bs(2)] by auto
    show "\<exists>x s'. bnd (collect (map (\<lambda>i. error_of (Errorf (''instance '' @ Itoa (in_ID i))) (reconcile_one mg (fake_host root) cts i)) is)) (\<lambda>a.
      bnd (collect (map (\<lambda>ct. error_of (Errorf (''remove '' @ ct_Name ct)) (on_host n (remove_if_there (fake_host root) (ct_Name ct))))
            (orphans mg cts is))) (\<lambda>b.
      bnd (error_of id (on_host n (removeStaleConfigs (fake_host root) is))) (\<lambda>c.
      failOn (errors_Join (a @ b @ [c]))))) s = (Inr x, s') \<and> on n healthy s'"
      using as(1) bs(1) c(1,2) fin[OF as(3) bs(3) c(3)] by (simp add: bnd_def)
  qed
qed

lemma sure_NodeUp:
  assumes "CHR ''-'' \<in> set (mg_prefix mg)" and host: "hostFor mg n = Inr (fake_host root)"
    and s: "readable s" "healthy (w_machine s n)" "\<not> w_rebuild s n"
  shows "\<exists>s'. NodeUp mg n s = (Inr (), s') \<and> readable s' \<and> healthy (w_machine s' n)"
proof -
  obtain all s1 where all: "Instances s = (Inr all, s1)" "on n healthy s1" using sureD[OF sure_Instances[where A = healthy and n = n], of s] s by auto
  have s1: "s1 = s" using all(1) s(1) by (auto simp: Instances_def bnd_def mapErr_def readable_query)
  let ?t = "s\<lparr>w_rebuild := (w_rebuild s)(n := False)\<rparr>"
  have node: "\<forall>i \<in> set (byNode all n). in_NodeID i = n" by (simp add: byNode_def)
  have "on n healthy ?t" using s by simp
  from sureD[OF sure_reconcile[OF assms(1) node] this] obtain s' where
    "reconcile mg n (fake_host root) (byNode all n) ?t = (Inr (), s')" "on n healthy s'" by auto
  then show ?thesis using all s s1 by (simp add: NodeUp_def host takeRebuild_def bnd_def thn_def)
qed

end
