(* ===== verification/Watch.thy ===== *)
theory Watch
  imports Deploy StoreNodes
begin

text \<open>
  internal/deploy (activity.go, watch.go): what the watcher reads from the tunnels on each tick, who is
  online, what it reports, and the traffic it records.
\<close>

section \<open>Activity\<close>

definition handshakeWindow :: gotime where "handshakeWindow = 3 * 60 * second"

definition activity_window :: "int \<Rightarrow> gotime" where
  "activity_window keepalive = 2 * keepalive * second + 10 * second"

definition is_online :: "PeerStats \<Rightarrow> sample \<Rightarrow> int \<Rightarrow> gotime \<Rightarrow> gotime \<Rightarrow> bool" where
  "is_online st s keepalive window now =
     (let recent = (case st_LatestHandshake st of None \<Rightarrow> False | Some t \<Rightarrow> now - t < handshakeWindow) in
      if keepalive = 0 then recent
      else if now - sm_since s \<ge> window then False
      else if sm_grew s then True
      else recent)"

record PeerChange =
  pc_InstanceID :: int
  pc_Key :: Key
  pc_Online :: bool
  pc_Endpoint :: string
  pc_OnlineSince :: gotime

text \<open>What one device's reading makes of its sample, and whether it came or went.\<close>

definition zero_sample :: sample where
  "zero_sample = \<lparr>sm_rx = 0, sm_since = zero_time, sm_seen = zero_time, sm_grew = False, sm_online = False, sm_onlineSince = zero_time\<rparr>"

definition next_sample :: "sample option \<Rightarrow> PeerStats \<Rightarrow> int \<Rightarrow> gotime \<Rightarrow> sample" where
  "next_sample old st keepalive now =
     (let window = activity_window keepalive; o' = (case old of None \<Rightarrow> zero_sample | Some s \<Rightarrow> s);
          fresh = zero_sample\<lparr>sm_rx := st_RxBytes st, sm_since := now\<rparr>;
          s = (if old = None \<or> st_RxBytes st < sm_rx o' then fresh
               else if st_RxBytes st > sm_rx o' then fresh\<lparr>sm_grew := (now - sm_seen o' \<le> window)\<rparr>
               else o');
          s = s\<lparr>sm_seen := now\<rparr>;
          on = is_online st s keepalive window now
      in s\<lparr>sm_online := on,
           sm_onlineSince := (if on \<and> (old = None \<or> \<not> sm_online o') then now else sm_onlineSince o')\<rparr>)"

definition sample_change :: "int \<Rightarrow> Key \<Rightarrow> sample option \<Rightarrow> sample \<Rightarrow> PeerStats \<Rightarrow> PeerChange option" where
  "sample_change instanceID key old new st =
     (case old of
        None \<Rightarrow> None
      | Some s \<Rightarrow>
        if sm_online new \<noteq> sm_online s
        then Some \<lparr>pc_InstanceID = instanceID, pc_Key = key, pc_Online = sm_online new, pc_Endpoint = st_Endpoint st,
               pc_OnlineSince = sm_onlineSince new\<rparr>
        else None)"

text \<open>\<open>observe\<close>: the statistics with who is online, the samples to keep and the changes.\<close>

definition observe :: "(Key \<times> sample) list \<Rightarrow> int \<Rightarrow> stats_map \<Rightarrow> int \<Rightarrow> gotime \<Rightarrow> stats_map \<times> (Key \<times> sample) list \<times> PeerChange list" where
  "observe prev instanceID stats keepalive now =
     (let new = (\<lambda>(k, st). (k, next_sample (map_of prev k) st keepalive now)) in
      (map (\<lambda>(k, st). (k, st\<lparr>st_Online := sm_online (snd (new (k, st)))\<rparr>)) stats,
       map new stats,
       List.map_filter (\<lambda>(k, st). sample_change instanceID k (map_of prev k) (snd (new (k, st))) st) stats))"

section \<open>One tick\<close>

definition Duration_text :: "gotime \<Rightarrow> string" where
  "Duration_text d =
     (if d < 60 * second then ''less than a minute''
      else if d < 3600 * second then Itoa (d div (60 * second)) @ ''m''
      else Itoa (d div (3600 * second)) @ ''h '' @ Itoa (d div (60 * second) mod 60) @ ''m'')"

text \<open>
  \<open>netip.ParseAddrPort\<close>: an address, a colon and a port; an IPv6 address, and only one, is in brackets.
\<close>

definition parse_port :: "string \<Rightarrow> bool" where
  "parse_port p \<longleftrightarrow> p \<noteq> [] \<and> list_all is_digit p \<and> undec p < 65536"

definition last_colon :: "string \<Rightarrow> (string \<times> string) option" where
  "last_colon s = (if CHR '':'' \<in> set s
     then Some (rev (tl (dropWhile (\<lambda>c. c \<noteq> CHR '':'') (rev s))), rev (takeWhile (\<lambda>c. c \<noteq> CHR '':'') (rev s))) else None)"

definition ParseAddrPort :: "string \<Rightarrow> Addr option" where
  "ParseAddrPort s =
     (case last_colon s of
        None \<Rightarrow> None
      | Some (ip, port) \<Rightarrow>
        if ip = [] \<or> port = [] then None
        else let v6 = hd ip = CHR ''[''; host = (if v6 then butlast (tl ip) else ip) in
          if v6 \<and> (length ip < 2 \<or> last ip \<noteq> CHR '']'') then None
          else if \<not> parse_port port then None
          else case ParseAddr host of
            Inl _ \<Rightarrow> None
          | Inr a \<Rightarrow> if v6 = Is4 a then None else Some a)"

definition endpointHost :: "string \<Rightarrow> string" where
  "endpointHost endpoint = (case ParseAddrPort endpoint of None \<Rightarrow> [] | Some a \<Rightarrow> addr_String (Unmap a))"

definition change_event :: "env \<Rightarrow> Instance \<Rightarrow> Peer \<Rightarrow> PeerChange \<Rightarrow> Event" where
  "change_event v i p c =
     (ForPeer (if pc_Online c then ''device.connected'' else ''device.disconnected'') i p)
       \<lparr>e_IP := endpointHost (pc_Endpoint c),
        e_Detail := (if \<not> pc_Online c \<and> pc_OnlineSince c \<noteq> zero_time
          then ''online for '' @ Duration_text (env_now v - pc_OnlineSince c) else [])\<rparr>"

definition reportActivity :: "'m manager \<Rightarrow> Instance \<Rightarrow> PeerChange list \<Rightarrow> ('m, 'z, unit) wprog" where
  "reportActivity m i changes =
     (let v = (mg_env m)\<lparr>env_actor := []\<rparr> in
      bnd (attempt (Peers (in_ID i))) (\<lambda>r.
      case r of
        Inl _ \<Rightarrow> ret ()
      | Inr peers \<Rightarrow> forEach changes (\<lambda>c.
          case find (\<lambda>p. p_PublicKey p = pc_Key c) peers of None \<Rightarrow> ret () | Some p \<Rightarrow> Record v (change_event v i p c))))"

definition peerStats :: "'m manager \<Rightarrow> 'm Host \<Rightarrow> Instance \<Rightarrow> ('m, 'z, stats_map) wprog" where
  "peerStats m h i =
     bnd (on_host (in_NodeID i) (find_container m h (in_ID i))) (\<lambda>ct.
     if (case ct of None \<Rightarrow> True | Some ct \<Rightarrow> \<not> Running ct)
     then thn (modify (\<lambda>s. s\<lparr>w_activity := (w_activity s)(in_ID i := [])\<rparr>)) (ret [])
     else
       bnd (on_host (in_NodeID i) (h_Exec h (ct_Name (the ct)) [''wg'', ''show'', ''wg0'', ''dump''])) (\<lambda>out.
       bnd (liftE (ParseDump out)) (\<lambda>stats.
       bnd (gets (\<lambda>s. w_activity s (in_ID i))) (\<lambda>prev.
       case observe prev (in_ID i) stats (in_PersistentKeepalive i) (env_now (mg_env m)) of (stats, samples, changes) \<Rightarrow>
         thn (modify (\<lambda>s. s\<lparr>w_activity := (w_activity s)(in_ID i := samples)\<rparr>))
         (thn (if changes \<noteq> [] then reportActivity m i changes else ret ()) (ret stats))))))"

definition PeerStats_of :: "'m manager \<Rightarrow> Instance \<Rightarrow> ('m, 'z, stats_map) wprog" where
  "PeerStats_of m i = (case hostFor m (in_NodeID i) of Inl e \<Rightarrow> throw e | Inr h \<Rightarrow> peerStats m h i)"

text \<open>A server is down when its container keeps restarting or stopped with an error.\<close>

definition looks_down :: "Container option \<Rightarrow> bool" where
  "looks_down ct = (case ct of None \<Rightarrow> False | Some ct \<Rightarrow>
     let st = statusOf ct in ss_State st = StateRestarting \<or> ss_State st = StateStopped \<and> ss_Error st \<noteq> [])"

definition health_event :: "Instance \<Rightarrow> bool \<Rightarrow> Container option \<Rightarrow> string \<Rightarrow> Event" where
  "health_event i down ct node =
     (ForInstance (if down then ''server.down'' else ''server.recovered'') i)
       \<lparr>e_Detail := (case ct of None \<Rightarrow> [] | Some ct \<Rightarrow> ss_Error (statusOf ct)), e_NodeName := node\<rparr>"

definition checkHealth :: "'m manager \<Rightarrow> 'm Host \<Rightarrow> Instance \<Rightarrow> ('m, 'z, unit) wprog" where
  "checkHealth m h i =
     bnd (attempt (on_host (in_NodeID i) (find_container m h (in_ID i)))) (\<lambda>r.
     case r of
       Inl _ \<Rightarrow> ret ()
     | Inr ct \<Rightarrow>
       bnd (gets (\<lambda>s. w_down s (in_ID i))) (\<lambda>was.
       thn (modify (\<lambda>s. s\<lparr>w_down := (w_down s)(in_ID i \<mapsto> looks_down ct)\<rparr>))
        (if was = None \<or> was = Some (looks_down ct) then ret ()
         else bnd (if in_NodeID i \<noteq> 0 then attempt (NodeByID (in_NodeID i)) else ret (Inl ErrNotFound)) (\<lambda>n.
           Record (mg_env m) (health_event i (looks_down ct) ct (case n of Inl _ \<Rightarrow> [] | Inr n \<Rightarrow> n_Name n))))))"

definition watchInstance :: "'m manager \<Rightarrow> 'm Host \<Rightarrow> Instance \<Rightarrow> ('m, 'z, unit) wprog" where
  "watchInstance m h i =
     thn (checkHealth m h i)
     (bnd (peerStats m h i) (\<lambda>stats.
      thn (RecordTraffic (env_off (mg_env m)) (in_ID i) stats (env_now (mg_env m)))
       (enforceLimits m h i)))"

text \<open>One tick of \<open>Watch\<close>: errors are only logged. The nodes work side by side on different servers.\<close>

definition watch_tick :: "'m manager \<Rightarrow> ('m, 'z, unit) wprog" where
  "watch_tick m =
     bnd (attempt Instances) (\<lambda>r.
     case r of
       Inl _ \<Rightarrow> ret ()
     | Inr is \<Rightarrow> forEach is (\<lambda>i.
         case hostFor m (in_NodeID i) of Inl _ \<Rightarrow> ret () | Inr h \<Rightarrow> thn (attempt (watchInstance m h i)) (ret ())))"

definition Online :: "int \<Rightarrow> ('m, 'z, (Key \<times> bool) list) wprog" where
  "Online instanceID = gets (\<lambda>s. map (\<lambda>(k, sm). (k, sm_online sm)) (w_activity s instanceID))"

end
