(* ===== verification/InstanceService.thy ===== *)
theory InstanceService
  imports Deploy PeerService StoreNodes
begin

text \<open>
  internal/instance (instance.go, change.go, place.go, settings.go): the commands on servers. Each checks
  its input, saves it, records an event and brings the container in line; \<open>place.go\<close> chooses what a new
  server starts from and which server takes a new device.
\<close>

text \<open>
  What the service is made with, and the tables of Unicode it uses: \<open>sv_upper\<close> and \<open>sv_same_fold\<close> are
  \<open>unicode.ToUpper\<close> and simple folding past ASCII, \<open>sv_printable\<close> is \<open>unicode.IsPrint\<close>.
\<close>

record 'm service =
  sv_manager :: "'m manager"
  sv_publicHost :: string
  sv_lookupHost :: "string \<Rightarrow> string list option"
  sv_x25519 :: "Key \<Rightarrow> Key"
  sv_upper :: "nat \<Rightarrow> nat"
  sv_same_fold :: "nat \<Rightarrow> nat \<Rightarrow> bool"
  sv_printable :: "nat \<Rightarrow> bool"

abbreviation sv_env :: "'m service \<Rightarrow> env" where "sv_env sv \<equiv> mg_env (sv_manager sv)"

definition ToUpper :: "(nat \<Rightarrow> nat) \<Rightarrow> string \<Rightarrow> string" where
  "ToUpper upper s = strings_Map (\<lambda>r. if r < 128 then (if 97 \<le> r \<and> r \<le> 122 then r - 32 else r) else upper r) s"

definition EqualFold :: "(nat \<Rightarrow> nat \<Rightarrow> bool) \<Rightarrow> string \<Rightarrow> string \<Rightarrow> bool" where
  "EqualFold same s t = list_all2 (\<lambda>a b. a = b \<or> (if a < 128 \<and> b < 128 then fold_rune a = fold_rune b else same a b)) (runes s) (runes t)"

section \<open>Changes\<close>

record Change =
  ch_NodeID :: "int option"
  ch_Name :: "string option"
  ch_Address :: "string option"
  ch_ListenPort :: "int option"
  ch_Endpoint :: "string option"
  ch_DNS :: "string list option"
  ch_DNSOnServer :: "bool option"
  ch_MTU :: "int option"
  ch_PersistentKeepalive :: "int option"
  ch_ClientAllowedIPs :: "string list option"
  ch_Country :: "string option"
  ch_City :: "string option"
  ch_MaxDevices :: "int option"

definition parseEach :: "(string \<Rightarrow> err + 'a) \<Rightarrow> string list \<Rightarrow> err + 'a list" where
  "parseEach parse items = parse_all parse (map TrimSpace items)"

text \<open>The value an optional field gives: the old one when it is absent.\<close>

definition given :: "'a option \<Rightarrow> 'a \<Rightarrow> 'a" where
  "given x old = (case x of None \<Rightarrow> old | Some v \<Rightarrow> v)"

definition failed :: "(err + 'a) option \<Rightarrow> bool" where
  "failed r = (case r of Some (Inl _) \<Rightarrow> True | _ \<Rightarrow> False)"

text \<open>The fields that did not parse, and the server with the change; what did not parse is left empty.\<close>

definition change_apply :: "(nat \<Rightarrow> nat) \<Rightarrow> Change \<Rightarrow> Instance \<Rightarrow> fields \<times> Instance" where
  "change_apply upper c i =
     (let address = map_option (\<lambda>s. ParsePrefix (TrimSpace s)) (ch_Address c);
          dns = map_option (parseEach ParseAddr) (ch_DNS c);
          allowed = map_option (parseEach ParsePrefix) (ch_ClientAllowedIPs c)
      in (set_field (failed allowed) ''client_allowed_ips'' ''client allowed IPs must be a list of CIDR ranges''
           (set_field (failed dns) ''dns'' ''dns must be a list of IP addresses''
           (set_field (failed address) ''address'' ''address must look like 10.8.0.1/24'' [])),
          i\<lparr>in_Name := given (map_option TrimSpace (ch_Name c)) (in_Name i),
            in_Address := given (map_option (right_of NoPrefix) address) (in_Address i),
            in_ListenPort := given (ch_ListenPort c) (in_ListenPort i),
            in_Endpoint := given (map_option TrimSpace (ch_Endpoint c)) (in_Endpoint i),
            in_DNS := given (map_option (right_of []) dns) (in_DNS i),
            in_DNSOnServer := given (ch_DNSOnServer c) (in_DNSOnServer i),
            in_MTU := given (ch_MTU c) (in_MTU i),
            in_PersistentKeepalive := given (ch_PersistentKeepalive c) (in_PersistentKeepalive i),
            in_ClientAllowedIPs := given (map_option (right_of []) allowed) (in_ClientAllowedIPs i),
            in_Country := given (map_option (\<lambda>s. ToUpper upper (TrimSpace s)) (ch_Country c)) (in_Country i),
            in_City := given (map_option TrimSpace (ch_City c)) (in_City i)\<rparr>))"

section \<open>Settings\<close>

definition maxDNSServers :: nat where "maxDNSServers = 8"

record InstanceSettings =
  is_PublicHost :: string
  is_DefaultDNS :: "Addr list"

definition instance_Settings :: "('z, InstanceSettings) sql" where
  "instance_Settings =
     bnd get_settings (\<lambda>stored.
     case map_of stored ''default_dns'' of
       None \<Rightarrow> ret \<lparr>is_PublicHost = stored_of stored ''public_host'', is_DefaultDNS = DefaultDNS\<rparr>
     | Some raw \<Rightarrow>
       bnd (liftE (parseEach ParseAddr (splitList raw))) (\<lambda>dns.
       ret \<lparr>is_PublicHost = stored_of stored ''public_host'', is_DefaultDNS = dns\<rparr>))"

definition service_PublicHost :: "'m service \<Rightarrow> ('z, string) sql" where
  "service_PublicHost sv =
     bnd instance_Settings (\<lambda>st. ret (if is_PublicHost st \<noteq> [] then is_PublicHost st else sv_publicHost sv))"

record SettingsChange =
  sc_PublicHost :: "string option"
  sc_DefaultDNS :: "string list option"

definition settings_fields :: "SettingsChange \<Rightarrow> fields" where
  "settings_fields c =
     (let host = map_option TrimSpace (sc_PublicHost c); dns = map_option (parseEach ParseAddr) (sc_DefaultDNS c)
      in (case dns of
            Some (Inl _) \<Rightarrow> set_field True ''default_dns'' ''dns must be a list of IP addresses''
          | Some (Inr as) \<Rightarrow> set_field (length as > maxDNSServers) ''default_dns'' ''at most 8 dns servers are allowed''
          | None \<Rightarrow> id)
         (case host of
            Some h \<Rightarrow> set_field (h \<noteq> [] \<and> \<not> ValidHost h) ''public_host'' ''public host must be a hostname or IP address, without a port'' []
          | None \<Rightarrow> []))"

definition settings_values :: "SettingsChange \<Rightarrow> (string \<times> string) list" where
  "settings_values c =
     (case sc_PublicHost c of None \<Rightarrow> [] | Some h \<Rightarrow> [(''public_host'', TrimSpace h)]) @
     (case sc_DefaultDNS c of None \<Rightarrow> [] | Some d \<Rightarrow> [(''default_dns'', joinList addr_String (right_of [] (parseEach ParseAddr d)))])"

definition UpdateSettings :: "env \<Rightarrow> SettingsChange \<Rightarrow> ('z, InstanceSettings) sprog" where
  "UpdateSettings v c =
     thn (failOn (apperr_Fields [settings_fields c]))
     (thn (SaveSettings (settings_values c))
     (thn (Record v (blank_event ''settings.updated'')) instance_Settings))"

section \<open>Placing servers and devices\<close>

definition overlapping :: "Instance list \<Rightarrow> Prefix \<Rightarrow> Instance option" where
  "overlapping existing addr = (if \<not> IsValid addr then None else find (\<lambda>i. Overlaps (Subnet i) (Masked addr)) existing)"

definition candidate :: "int \<Rightarrow> nat \<Rightarrow> Prefix" where
  "candidate bits block = PrefixFrom (ip4 10 block 0 1) bits"

definition nextFreeSubnet :: "Instance list \<Rightarrow> int \<Rightarrow> Prefix" where
  "nextFreeSubnet existing bits =
     (case find (\<lambda>p. overlapping existing p = None) (map (candidate bits) [8..<256]) of
        Some p \<Rightarrow> p
      | None \<Rightarrow> PrefixFrom (prefix_Addr DefaultAddress) bits)"

text \<open>The loop counts the prefix down from that of the default address.\<close>

definition subnetBitsFor :: "int \<Rightarrow> (int \<times> bool)" where
  "subnetBitsFor n =
     (case find (\<lambda>bits. n \<le> Capacity bits) (rev [MinSubnetBits..prefix_Bits DefaultAddress]) of
        Some bits \<Rightarrow> (bits, n \<ge> 1)
      | None \<Rightarrow> (0, False))"

function free_port :: "int list \<Rightarrow> int \<Rightarrow> int" where
  "free_port used port = (if port \<in> set used \<and> port < 65535 then free_port used (port + 1) else port)"
  by pat_completeness auto
termination by (relation "measure (\<lambda>(_, port). nat (65535 - port))") auto

declare free_port.simps [simp del]

definition nextFreePort :: "Instance list \<Rightarrow> int \<Rightarrow> int" where
  "nextFreePort existing nodeID =
     free_port (map in_ListenPort (filter (\<lambda>i. in_NodeID i = nodeID) existing)) DefaultListenPort"

definition country_of :: "'m service \<Rightarrow> string \<Rightarrow> string" where
  "country_of sv host =
     (let geo = geo_Country (env_geo (sv_env sv)) in
      case ParseAddr host of
        Inr a \<Rightarrow> geo a
      | Inl _ \<Rightarrow>
        if \<not> ValidHost host then []
        else case sv_lookupHost sv host of
          None \<Rightarrow> []
        | Some addrs \<Rightarrow>
          (case filter (\<lambda>c. c \<noteq> []) (List.map_filter (\<lambda>a. case ParseAddr a of Inl _ \<Rightarrow> None | Inr a \<Rightarrow> Some (geo a)) addrs) of
             [] \<Rightarrow> [] | c # _ \<Rightarrow> c))"

definition service_defaults :: "'m service \<Rightarrow> bytes \<Rightarrow> Instance list \<Rightarrow> int \<Rightarrow> ('z, Instance) sql" where
  "service_defaults sv rnd existing nodeID =
     bnd instance_Settings (\<lambda>st.
     let endpoint = (if is_PublicHost st = [] then sv_publicHost sv else is_PublicHost st) in
     bnd (if nodeID \<noteq> 0 then bnd (NodeByID nodeID) (\<lambda>n. ret (n_Host n)) else ret endpoint) (\<lambda>endpoint.
     ret ((NewInstance (sv_x25519 sv) rnd [] endpoint)\<lparr>in_NodeID := nodeID,
       in_Address := nextFreeSubnet existing (prefix_Bits DefaultAddress), in_ListenPort := nextFreePort existing nodeID,
       in_DNS := is_DefaultDNS st\<rparr>)))"

definition Defaults :: "'m service \<Rightarrow> bytes \<Rightarrow> int \<Rightarrow> ('z, Instance) sql" where
  "Defaults sv rnd nodeID =
     bnd Instances (\<lambda>existing.
     bnd (mapErr (\<lambda>e. if errors_Is e ErrNotFound then apperr_New NotFound ''not_found'' ''node not found'' else e)
       (service_defaults sv rnd existing nodeID)) (\<lambda>i.
     ret (i\<lparr>in_Country := country_of sv (in_Endpoint i)\<rparr>)))"

text \<open>The loop over the candidates of \<open>Pick\<close>: the first of those with the fewest devices.\<close>

definition count_of :: "(int \<times> nat) list \<Rightarrow> int \<Rightarrow> nat" where
  "count_of counts k = (case map_of counts k of None \<Rightarrow> 0 | Some n \<Rightarrow> n)"

definition can_take :: "(int \<times> nat) list \<Rightarrow> (int \<times> server_status) list \<Rightarrow> Instance \<Rightarrow> bool" where
  "can_take counts statuses i \<longleftrightarrow>
     (case map_of statuses (in_ID i) of None \<Rightarrow> False | Some st \<Rightarrow> ss_State st = StateRunning) \<and>
     \<not> int (count_of counts (in_ID i)) \<ge> Capacity (prefix_Bits (in_Address i))"

fun pick_best :: "(int \<times> nat) list \<Rightarrow> Instance option \<Rightarrow> Instance list \<Rightarrow> Instance option" where
  "pick_best counts best [] = best"
| "pick_best counts best (i # is) =
     pick_best counts (if (case best of None \<Rightarrow> True | Some b \<Rightarrow> count_of counts (in_ID i) < count_of counts (in_ID b))
       then Some i else best) is"

definition Pick :: "'m service \<Rightarrow> string \<Rightarrow> string \<Rightarrow> int \<Rightarrow> ('m, 'z, Instance) wprog" where
  "Pick sv country0 city0 skip =
     (let country = TrimSpace country0; city = TrimSpace city0; same = EqualFold (sv_same_fold sv) in
      bnd Instances (\<lambda>all.
      let is = filter (\<lambda>i. \<not> (in_ID i = skip \<or> (country \<noteq> [] \<and> \<not> same (in_Country i) country) \<or>
        (city \<noteq> [] \<and> \<not> same (in_City i) city))) all in
      bnd PeerCounts (\<lambda>counts.
      bnd (Statuses (sv_manager sv) is) (\<lambda>statuses.
      case pick_best counts None (filter (can_take counts statuses) is) of
        Some best \<Rightarrow> ret best
      | None \<Rightarrow> throw (apperr_New Conflict ''no_server_available'' (''no running server'' @
          (if city \<noteq> [] then '' in '' @ city else if country \<noteq> [] then '' in '' @ ToUpper (sv_upper sv) country else []) @
          '' has free addresses''))))))"

section \<open>Errors\<close>

definition instance_writeError :: "err \<Rightarrow> err" where
  "instance_writeError e =
     (case as_duplicate e of
        None \<Rightarrow> e
      | Some c \<Rightarrow>
        if c = ''name'' then apperr_Field ''name'' ''an instance with this name already exists''
        else if c = ''listen_port'' then apperr_Field ''listen_port'' ''another server on this machine already uses this port''
        else e)"

definition deployError :: "err \<Rightarrow> err" where
  "deployError e =
     (if errors_Is e ErrNotFound then AppError NotFound ''not_found'' ''instance not found'' [] (Some e)
      else if errors_Is e ErrOffline then AppError Unavailable ''node_offline'' (err_Error e) [] (Some e)
      else if errors_Is e DockerUnavailable
      then AppError Unavailable ''docker_unavailable'' (''docker is not reachable: '' @ err_Error e) [] (Some e)
      else AppError Upstream ''deploy_failed'' (err_Error e) [] (Some e))"

section \<open>Commands\<close>

text \<open>
  \<open>Create\<close> up to the point where it saves: the server it will save. It reads the servers there are and
  checks the change against them.
\<close>

definition create_fields :: "'m service \<Rightarrow> Instance list \<Rightarrow> Change \<Rightarrow> fields \<Rightarrow> Instance \<Rightarrow> fields \<times> Instance" where
  "create_fields sv existing c f i =
     (let (f, i) = (case ch_MaxDevices c of
         None \<Rightarrow> (f, i)
       | Some n \<Rightarrow>
         (case subnetBitsFor n of (bits, ok) \<Rightarrow>
           if ch_Address c \<noteq> None then (set_field True ''max_devices'' ''send address or max_devices, not both'' f, i)
           else if \<not> ok then (set_field True ''max_devices'' (''max_devices must be between 1 and '' @ Itoa (Capacity MinSubnetBits)) f, i)
           else (f, i\<lparr>in_Address := nextFreeSubnet existing bits\<rparr>)))
      in (if ch_Address c = None then f
          else case overlapping existing (in_Address i) of
            None \<Rightarrow> f
          | Some other \<Rightarrow> set_field True ''address'' (''subnet overlaps with '' @ Quote (sv_printable sv) (in_Name other) @
              '' ('' @ prefix_String (Subnet other) @ '')'') f, i))"

definition create_plan :: "'m service \<Rightarrow> bytes \<Rightarrow> Change \<Rightarrow> ('z, Instance) sql" where
  "create_plan sv rnd c =
     bnd Instances (\<lambda>existing.
     bnd (mapErr (\<lambda>e. if errors_Is e ErrNotFound then apperr_Field ''node_id'' ''no such node'' else e)
       (service_defaults sv rnd existing (given (ch_NodeID c) 0))) (\<lambda>i.
     let (f, i) = change_apply (sv_upper sv) c i;
         i = (if ch_Country c = None then i\<lparr>in_Country := country_of sv (in_Endpoint i)\<rparr> else i);
         (f, i) = create_fields sv existing c f i
     in thn (failOn (apperr_Fields [instance_Validate i, f])) (ret i)))"

definition create_save :: "gotime \<Rightarrow> Instance \<Rightarrow> ('z, Instance) sql" where
  "create_save now i = mapErr instance_writeError (CreateInstance now i)"

definition instance_Create :: "'m service \<Rightarrow> bytes \<Rightarrow> Change \<Rightarrow> ('z, Instance) sql" where
  "instance_Create sv rnd c = bnd (create_plan sv rnd c) (create_save (env_now (sv_env sv)))"

definition instance_rollback :: "'m service \<Rightarrow> int \<Rightarrow> ('m, 'z, unit) wprog" where
  "instance_rollback sv k = thn (attempt (Remove (sv_manager sv) k)) (thn (attempt (DeleteInstance k)) (ret ()))"

definition instance_Provision :: "'m service \<Rightarrow> Instance \<Rightarrow> bool \<Rightarrow> ('m, 'z, unit) wprog" where
  "instance_Provision sv i progress =
     bnd (attempt (Provision (sv_manager sv) (in_ID i) progress)) (\<lambda>r.
     case r of
       Inl e \<Rightarrow>
         thn (instance_rollback sv (in_ID i))
         (thn (Record (sv_env sv) ((ForInstance ''server.deploy_failed'' i)\<lparr>e_Detail := err_Error e\<rparr>)) (throw (deployError e)))
     | Inr _ \<Rightarrow> Record (sv_env sv) (ForInstance ''server.created'' i))"

definition update_fields :: "Instance \<Rightarrow> Change \<Rightarrow> Instance \<Rightarrow> fields \<Rightarrow> fields" where
  "update_fields current c i f =
     set_field (ch_MaxDevices c \<noteq> None) ''max_devices'' ''max_devices only applies when creating a server''
     (set_field (in_Address i \<noteq> in_Address current) ''address'' ''address cannot be changed once peers may hold configs for it''
     (set_field (ch_NodeID c \<noteq> None \<and> ch_NodeID c \<noteq> Some (in_NodeID current)) ''node_id'' ''a server cannot move to another node'' f))"

definition instance_Update :: "'m service \<Rightarrow> Instance \<Rightarrow> Change \<Rightarrow> ('m, 'z, Instance) wprog" where
  "instance_Update sv current c =
     (let (f, i) = change_apply (sv_upper sv) c current; f = update_fields current c i f in
      thn (failOn (apperr_Fields [instance_Validate i, f]))
      (bnd (mapErr instance_writeError (UpdateInstance (env_now (sv_env sv)) i)) (\<lambda>updated.
       thn (Record (sv_env sv) (ForInstance ''server.updated'' updated))
       (thn (if in_ListenPort updated \<noteq> in_ListenPort current \<or> in_MTU updated \<noteq> in_MTU current
             then mapErr deployError (Redeploy (sv_manager sv) (in_ID updated))
             else if in_DNSOnServer updated \<noteq> in_DNSOnServer current \<or> in_DNS updated \<noteq> in_DNS current
             then mapErr applyError (Apply (sv_manager sv) (in_ID updated))
             else ret ())
         (ret updated)))))"

definition instance_Delete :: "'m service \<Rightarrow> Instance \<Rightarrow> ('m, 'z, unit) wprog" where
  "instance_Delete sv i =
     bnd (attempt (Remove (sv_manager sv) (in_ID i))) (\<lambda>r.
     case r of
       Inl e \<Rightarrow> if errors_Is e ErrOffline
         then thn (DeleteInstance (in_ID i)) (Record (sv_env sv) (ForInstance ''server.deleted'' i))
         else throw (deployError e)
     | Inr _ \<Rightarrow> thn (DeleteInstance (in_ID i)) (Record (sv_env sv) (ForInstance ''server.deleted'' i)))"

definition instance_act :: "'m service \<Rightarrow> Instance \<Rightarrow> string \<Rightarrow> (int \<Rightarrow> ('m, 'z, unit) wprog) \<Rightarrow> ('m, 'z, unit) wprog" where
  "instance_act sv i kind action =
     thn (mapErr deployError (action (in_ID i))) (Record (sv_env sv) (ForInstance kind i))"

definition instance_Start :: "'m service \<Rightarrow> Instance \<Rightarrow> ('m, 'z, unit) wprog" where
  "instance_Start sv i = instance_act sv i ''server.started'' (Start (sv_manager sv))"

definition instance_Stop :: "'m service \<Rightarrow> Instance \<Rightarrow> ('m, 'z, unit) wprog" where
  "instance_Stop sv i = instance_act sv i ''server.stopped'' (Stop (sv_manager sv))"

definition instance_Restart :: "'m service \<Rightarrow> Instance \<Rightarrow> ('m, 'z, unit) wprog" where
  "instance_Restart sv i = instance_act sv i ''server.restarted'' (Restart (sv_manager sv))"

definition instance_Logs :: "'m service \<Rightarrow> Instance \<Rightarrow> int \<Rightarrow> bool \<Rightarrow> ('m, 'z, string list \<times> stream_end) wprog" where
  "instance_Logs sv i tail follow =
     mapErr (\<lambda>e. if errors_Is e ErrNotDeployed
       then apperr_New Conflict ''conflict'' ''this server has no container yet; deploy it first'' else deployError e)
      (Logs (sv_manager sv) (in_ID i) tail follow)"

end
