(* ===== verification/InstanceFacts.thy ===== *)
theory InstanceFacts
  imports DeployFacts InstanceService
begin

text \<open>
  Facts about the commands on servers: they keep the invariant of the tables, a new server's subnet is
  apart from the others when the service can find one, and what choosing a server and a port return.
\<close>

section \<open>The invariant\<close>

lemma keeps_db_inv_devices: "(\<And>c. keeps (\<lambda>s. devices s = c) m) \<Longrightarrow> keeps db_inv m"
  unfolding keeps_def using devices_db_inv by blast

lemma keeps_forget [prog_rules, intro]: "keeps (\<lambda>s. devices s = c) (modify (forget k))"
  by (rule keeps_modify) (simp add: forget_def)

lemma keeps_manager_ops:
  "keeps db_inv (Provision mg k b)" "keeps db_inv (Redeploy mg k)" "keeps db_inv (Start mg k)" "keeps db_inv (Stop mg k)"
  "keeps db_inv (Restart mg k)" "keeps db_inv (Remove mg k)" "keeps db_inv (Apply mg k)"
  unfolding Provision_def Redeploy_def Start_def Stop_def Restart_def Remove_def
  by (intro keeps_db_inv_devices prog_rules keeps_devices_Apply)+

lemma keeps_bnd_post:
  "keeps I m \<Longrightarrow> (\<And>s x s'. m s = (Inr x, s') \<Longrightarrow> keeps I (f x)) \<Longrightarrow> keeps I (bnd m f)"
  unfolding keeps_def bnd_def by (fastforce split: prod.splits sum.splits)

lemma keeps_db_inv_get_settings [prog_rules, intro]: "keeps db_inv get_settings"
  unfolding get_settings_def by (intro prog_rules)

lemma keeps_create_plan: "keeps db_inv (create_plan sv rnd c)"
  unfolding create_plan_def Instances_def service_defaults_def instance_Settings_def NodeByID_def Let_def
  by (intro prog_rules)

lemma failOn_Inr: "failOn e s = (Inr u, s') \<Longrightarrow> e = None \<and> s' = s"
  by (cases e) auto

lemma create_plan_Inr:
  assumes "create_plan sv rnd c s = (Inr i, s')"
  obtains existing s1 d s2 f0 i0 i1 f where "Instances s = (Inr existing, s1)"
    and "service_defaults sv rnd existing (given (ch_NodeID c) 0) s1 = (Inr d, s2)"
    and "change_apply (sv_upper sv) c d = (f0, i0)"
    and "i1 = (if ch_Country c = None then i0\<lparr>in_Country := country_of sv (in_Endpoint i0)\<rparr> else i0)"
    and "create_fields sv existing c f0 i1 = (f, i)" and "instance_Validate i = []" and "f = []"
proof -
  obtain existing s1 d s2 where a: "Instances s = (Inr existing, s1)"
    and b: "mapErr (\<lambda>e. if errors_Is e ErrNotFound then apperr_Field ''node_id'' ''no such node'' else e)
       (service_defaults sv rnd existing (given (ch_NodeID c) 0)) s1 = (Inr d, s2)"
    and r: "(let (f, i) = change_apply (sv_upper sv) c d;
         i = (if ch_Country c = None then i\<lparr>in_Country := country_of sv (in_Endpoint i)\<rparr> else i);
         (f, i) = create_fields sv existing c f i
     in thn (failOn (apperr_Fields [instance_Validate i, f])) (ret i)) s2 = (Inr i, s')"
    using assms unfolding create_plan_def by (auto elim!: bnd_InrE)
  obtain f0 i0 where c0: "change_apply (sv_upper sv) c d = (f0, i0)" by (cases "change_apply (sv_upper sv) c d")
  define i1 where "i1 = (if ch_Country c = None then i0\<lparr>in_Country := country_of sv (in_Endpoint i0)\<rparr> else i0)"
  obtain f i2 where c1: "create_fields sv existing c f0 i1 = (f, i2)" by (cases "create_fields sv existing c f0 i1")
  have "thn (failOn (apperr_Fields [instance_Validate i2, f])) (ret i2) s2 = (Inr i, s')"
    using r unfolding c0 Let_def case_prod_conv i1_def[symmetric] c1 .
  then have "apperr_Fields [instance_Validate i2, f] = None" "i2 = i"
    by (auto elim!: thn_InrE dest!: failOn_Inr)
  then show ?thesis using c0 c1 i1_def by (intro that[OF a mapErr_InrE[OF b]]) (auto simp: apperr_Fields_None)
qed

lemma keeps_instance_Create: "keeps db_inv (instance_Create sv rnd c :: ('z, Instance) sql)"
  unfolding instance_Create_def
proof (rule keeps_bnd_post[OF keeps_create_plan])
  fix s :: "'z db_scheme" and i s'
  assume "create_plan sv rnd c s = (Inr i, s')"
  then have "instance_Validate i = []" by (rule create_plan_Inr) simp
  then show "keeps db_inv (create_save (env_now (sv_env sv)) i)"
    unfolding create_save_def by (intro prog_rules keeps_CreateInstance) (simp add: instance_Validate_Nil)
qed

lemma keeps_instance_ops:
  "keeps db_inv (instance_Provision sv i b)" "keeps db_inv (instance_Update sv i c)" "keeps db_inv (instance_Delete sv i)"
  "keeps db_inv (instance_Start sv i)" "keeps db_inv (instance_Stop sv i)" "keeps db_inv (instance_Restart sv i)"
  unfolding instance_Provision_def instance_Update_def instance_Delete_def instance_Start_def instance_Stop_def instance_Restart_def
    instance_act_def instance_rollback_def Let_def
  by (intro prog_rules keeps_manager_ops keeps_DeleteInstance keeps_UpdateInstance)+

section \<open>Subnets\<close>

lemma overlapping_None:
  "IsValid p \<Longrightarrow> overlapping existing p = None \<longleftrightarrow> (\<forall>j \<in> set existing. \<not> Overlaps (Subnet j) (Masked p))"
  by (auto simp: overlapping_def find_None_iff)

declare upt_rec_numeral [simp del]

lemma nextFreeSubnet_free:
  assumes "find (\<lambda>p. overlapping existing p = None) (map (candidate bits) [8..<256]) \<noteq> None"
  shows "overlapping existing (nextFreeSubnet existing bits) = None"
proof -
  obtain p where p: "find (\<lambda>p. overlapping existing p = None) (map (candidate bits) [8..<256]) = Some p" using assms by blast
  then have "overlapping existing p = None" by (auto simp: find_Some_iff)
  then show ?thesis using p by (simp add: nextFreeSubnet_def)
qed

text \<open>Some of the blocks is free of the other servers' subnets.\<close>

definition room_for_subnet :: "Instance list \<Rightarrow> int \<Rightarrow> bool" where
  "room_for_subnet existing bits = list_ex (\<lambda>b. overlapping existing (candidate bits b) = None) [8..<256]"

lemma room_find: "room_for_subnet existing bits \<longleftrightarrow> find (\<lambda>p. overlapping existing p = None) (map (candidate bits) [8..<256]) \<noteq> None"
  by (auto simp: room_for_subnet_def find_None_iff list_ex_iff)

lemma candidate_bits: "prefix_Bits (candidate bits b) = (if 0 \<le> bits \<and> bits \<le> 32 then bits else - 1)"
  by (simp add: candidate_def PrefixFrom_def ip4_def)

lemma nextFreeSubnet_bits: "prefix_Bits (nextFreeSubnet existing bits) = (if 0 \<le> bits \<and> bits \<le> 32 then bits else - 1)"
proof (cases "find (\<lambda>p. overlapping existing p = None) (map (candidate bits) [8..<256])")
  case None
  then show ?thesis by (simp add: nextFreeSubnet_def DefaultAddress_def PrefixFrom_def ip4_def)
next
  case (Some p)
  then obtain b where "p = candidate bits b" by (auto simp: find_Some_iff)
  then show ?thesis using Some candidate_bits by (simp add: nextFreeSubnet_def)
qed

lemma set_field_True [simp]: "set_field True k m f \<noteq> []"
  by (simp add: set_field_def)

lemma change_apply_address:
  "ch_Address c = None \<Longrightarrow> change_apply u c d = (f, i) \<Longrightarrow> in_Address i = in_Address d"
  by (auto simp: change_apply_def Let_def given_def)

lemma service_defaults_address:
  assumes "service_defaults sv rnd existing n s = (Inr d, s')"
  shows "in_Address d = nextFreeSubnet existing (prefix_Bits DefaultAddress) \<and> in_NodeID d = n \<and> in_ListenPort d = nextFreePort existing n"
  using assms unfolding service_defaults_def Let_def by (auto elim!: bnd_InrE)

lemma valid_bits: "instance_Validate i = [] \<Longrightarrow> IsValid (in_Address i)"
  by (auto simp: instance_Validate_Nil valid_instance_def IsValid_def)

lemma DefaultAddress_bits: "prefix_Bits DefaultAddress = 24"
  by (simp add: DefaultAddress_def PrefixFrom_def ip4_def)

lemma subnetBitsFor_range: "subnetBitsFor n = (bits, True) \<Longrightarrow> 16 \<le> bits \<and> bits \<le> 24"
proof -
  let ?all = "rev [MinSubnetBits..prefix_Bits DefaultAddress]"
  assume "subnetBitsFor n = (bits, True)"
  then have "find (\<lambda>bits. n \<le> Capacity bits) ?all = Some bits"
    by (cases "find (\<lambda>bits. n \<le> Capacity bits) ?all") (simp_all only: subnetBitsFor_def option.case prod.inject simp_thms)
  then have "bits \<in> set ?all" by (metis find_Some_iff nth_mem)
  then show ?thesis by (simp only: set_rev set_upto) (simp add: DefaultAddress_bits MinSubnetBits_def)
qed

lemma create_plan_apart:
  assumes run: "create_plan sv rnd c s = (Inr i, s')" and ex: "Instances s = (Inr existing, s1)"
    and room: "ch_Address c \<noteq> None \<or> room_for_subnet existing (prefix_Bits (in_Address i))"
  shows "IsValid (in_Address i) \<and> overlapping existing (in_Address i) = None"
proof -
  obtain existing' s1' d s2 f0 i0 i1 f where r: "Instances s = (Inr existing', s1')"
    "service_defaults sv rnd existing' (given (ch_NodeID c) 0) s1' = (Inr d, s2)" "change_apply (sv_upper sv) c d = (f0, i0)"
    "i1 = (if ch_Country c = None then i0\<lparr>in_Country := country_of sv (in_Endpoint i0)\<rparr> else i0)"
    "create_fields sv existing' c f0 i1 = (f, i)" "instance_Validate i = []" "f = []"
    by (rule create_plan_Inr[OF run])
  have e: "existing' = existing" using r(1) ex by simp
  have "overlapping existing (in_Address i) = None"
  proof (cases "ch_Address c = None")
    case False
    then show ?thesis using r(5,7) unfolding create_fields_def Let_def e
      by (auto split: option.splits prod.splits if_splits)
  next
    case True
    note rm = room[unfolded room_find]
    show ?thesis
    proof (cases "ch_MaxDevices c")
      case None
      then have "i = i1" using r(5) True by (simp add: create_fields_def)
      moreover have "in_Address i1 = nextFreeSubnet existing 24"
        using r(4) change_apply_address[OF True r(3)] service_defaults_address[OF r(2)] e DefaultAddress_bits by simp
      ultimately show ?thesis using rm True nextFreeSubnet_free nextFreeSubnet_bits[of existing 24] by simp
    next
      case (Some n)
      obtain bits ok where b: "subnetBitsFor n = (bits, ok)" by (cases "subnetBitsFor n")
      have ok: "ok" using r(5,7) Some True b by (auto simp: create_fields_def split: if_splits)
      then have "in_Address i = nextFreeSubnet existing bits"
        using r(5) Some True b e by (auto simp: create_fields_def)
      then show ?thesis using rm True nextFreeSubnet_free nextFreeSubnet_bits[of existing bits] subnetBitsFor_range[of n bits] b ok by simp
    qed
  qed
  then show ?thesis using valid_bits[OF r(6)] by simp
qed

section \<open>Ports and placement\<close>

lemma free_port_unused: "free_port used port \<notin> set used \<or> free_port used port \<ge> 65535"
proof (induction used port rule: free_port.induct)
  case (1 used port)
  show ?case
  proof (cases "port \<in> set used \<and> port < 65535")
    case True
    then have "free_port used port = free_port used (port + 1)" by (subst free_port.simps) simp
    then show ?thesis using 1 True by simp
  next
    case False
    then have "free_port used port = port" by (subst free_port.simps) auto
    then show ?thesis using False by auto
  qed
qed

lemma free_port_above: "port \<le> free_port used port"
proof (induction used port rule: free_port.induct)
  case (1 used port)
  then show ?case by (subst free_port.simps) auto
qed

lemma free_port_first: "port \<le> q \<Longrightarrow> q < free_port used port \<Longrightarrow> q \<in> set used"
proof (induction used port rule: free_port.induct)
  case (1 used port)
  show ?case
  proof (cases "port \<in> set used \<and> port < 65535")
    case True
    then have "free_port used port = free_port used (port + 1)" by (subst free_port.simps) simp
    then show ?thesis using 1 True by (cases "q = port") auto
  next
    case False
    then have "free_port used port = port" by (subst free_port.simps) auto
    then show ?thesis using 1(2,3) by simp
  qed
qed

lemma pick_best_None: "pick_best counts best is = None \<longleftrightarrow> best = None \<and> is = []"
  by (induction "is" arbitrary: best) (auto split: option.splits)

lemma pick_best_least:
  "pick_best counts best is = Some b \<Longrightarrow>
   (b \<in> set is \<or> best = Some b) \<and> (\<forall>i \<in> set is \<union> set_option best. count_of counts (in_ID b) \<le> count_of counts (in_ID i))"
proof (induction "is" arbitrary: best)
  case Nil
  then show ?case by simp
next
  case (Cons i "is")
  from Cons.IH[OF Cons.prems[unfolded pick_best.simps]] show ?case
    by (cases best) (auto split: if_splits)
qed

end
