(* ===== verification/WgProperties.thy ===== *)
theory WgProperties
  imports WgConfig WgStats
begin

text \<open>
  The properties of internal/wg: allocation of addresses, validation, the config files, key texts
  and the reading of a dump. \<open>office\<close> and \<open>alice\<close> are a server and a device the witnesses evaluate on.
\<close>

definition office :: Instance where
  "office =
     \<lparr>in_ID = 1, in_NodeID = 1, in_Name = ''office'', in_Address = Prefix (V4 0x0A080001) 24,
      in_ListenPort = 51820, in_PrivateKey = ZeroKey, in_PublicKey = ZeroKey, in_Endpoint = ''vpn.example.com'',
      in_DNS = [V4 0x01010101], in_DNSOnServer = False, in_MTU = 1420, in_PersistentKeepalive = 25,
      in_ClientAllowedIPs = [Prefix (V4 0) 0], in_Country = [], in_City = [], in_CreatedAt = 0, in_UpdatedAt = 0\<rparr>"

definition rogue :: Instance where
  "rogue = office\<lparr>in_Endpoint := ''::%'' @ [nl] @ ''PostUp = evil'' @ [nl]\<rparr>"

definition alice :: Peer where
  "alice = (blank_peer 1 ''alice'')\<lparr>p_Address := V4 0x0A080002\<rparr>"

lemma office_address: "\<exists>w b. in_Address office = Prefix (V4 w) b \<and> 16 \<le> b \<and> b \<le> 30 \<and> host_of (in_Address office) (V4 w)"
  by (simp add: office_def host_of_V4 net_base_def net_size_def)

lemma ClientConfig_endpoint:
  "\<exists>a b. ClientConfig i p = a @ config_field ''Endpoint'' (JoinHostPort (in_Endpoint i) (Itoa (in_ListenPort i))) @ b"
  unfolding ClientConfig_def append_assoc[symmetric] by (intro exI) (rule refl)

section \<open>Addresses\<close>

text \<open>
  \<open>NextAddress\<close> returns a host address of the subnet (never its network or broadcast address)
  that is not in use, and the least such address.
\<close>

theorem next_address_least:
  assumes "NextAddress (Prefix x b) used = Inr r"
  shows "host_of (Prefix x b) r \<and> r \<notin> set used \<and>
    (\<forall>m. host_of (Prefix x b) (V4 m) \<longrightarrow> V4 m \<notin> set used \<longrightarrow> (\<exists>n. r = V4 n \<and> n \<le> m))"
  using assms by (rule NextAddress_Inr) blast

theorem next_address_least_witness:
  "host_of (Prefix (V4 0x0A080001) 24) (V4 0x0A080003) \<and> V4 0x0A080003 \<notin> set [V4 0x0A080001, V4 0x0A080002]"
proof -
  have eq: "NextAddress (Prefix (V4 0x0A080001) 24) [V4 0x0A080001, V4 0x0A080002] = Inr (V4 0x0A080003)"
    by (simp add: NextAddress_def hostRange_def IsValid_def Masked_def keep_bits_def findFree.simps addrFrom_def)
  show ?thesis by (intro conjI next_address_least[OF eq, THEN conjunct1] next_address_least[OF eq, THEN conjunct2, THEN conjunct1])
qed

text \<open>
  \<open>NextAddress\<close> fails exactly when there is nothing to give: a subnet of 0 to 30 bits is refused
  only when every host address of it is in use, and the error is always \<open>ErrSubnetFull\<close>.
\<close>

theorem next_address_full_iff:
  "NextAddress (Prefix (V4 w) b) used = Inl e \<longleftrightarrow>
     e = ErrSubnetFull \<and> (b < 0 \<or> 30 < b \<or> {a. host_of (Prefix (V4 w) b) a} \<subseteq> set used)"
  unfolding NextAddress_Inl_iff by auto

text \<open>
  \<open>Capacity\<close> counts right: with fewer devices than it says, the server's own address aside,
  there is a free address; it is the number of host addresses less the server's.
\<close>

theorem capacity_is_room:
  assumes "0 \<le> b" and "b \<le> 30"
  shows "int (card {a. host_of (Prefix (V4 w) b) a}) - 1 = Capacity b \<and>
    (int (length used) < Capacity b \<longrightarrow> (\<exists>a. NextAddress (Prefix (V4 w) b) (used @ [V4 w]) = Inr a))"
proof -
  have "4 \<le> net_size b" unfolding net_size_def using assms power_increasing[of 2 "32 - nat b" "2::nat"] by simp
  moreover have "int (net_size b) = 2 ^ nat (32 - b)" using assms by (simp add: net_size_def nat_sub32)
  ultimately show ?thesis
    using assms card_hosts(2)[OF assms, of w] NextAddress_has_room[OF assms]
    by (simp add: Capacity_def of_nat_diff)
qed

theorem capacity_is_room_witness:
  "Capacity 30 = 1 \<and> (\<exists>a. NextAddress (Prefix (V4 0x0A080001) 30) [V4 0x0A080001] = Inr a)"
proof -
  have "Capacity 30 = 1" by (simp add: Capacity_def)
  then show ?thesis using capacity_is_room[of 30 "0x0A080001" "[]"] by simp
qed

section \<open>Configs\<close>

text \<open>
  C39. Whatever the names of the devices are, line breaks and control characters included, the lines
  of the server's config are the interface's five and six for each enabled device, in order; so a
  name never adds a line to a file that wg-quick runs as root, and disabling a device removes it.
\<close>

theorem server_config_exact_lines:
  assumes "Is4 (prefix_Addr (in_Address i))" and "\<forall>p \<in> set peers. Is4 (p_Address p)"
  shows "Split nl (ServerConfig i peers) = server_lines i peers @ [[]] \<and>
    count_list (Split nl (ServerConfig i peers)) ''[Peer]'' = length (filter p_Enabled peers) \<and>
    (\<forall>l \<in> set (Split nl (ServerConfig i peers)).
       l = [] \<or> take 1 l = ''#'' \<or> l \<in> {''[Interface]'', ''[Peer]''} \<or> key_line l)"
  using ServerConfig_lines[OF assms] count_peer_sections[OF assms] server_line_kinds[of _ i peers] by auto

theorem server_config_exact_lines_witness:
  "count_list (Split nl (ServerConfig office [alice\<lparr>p_Name := ''a'' @ [nl] @ ''PostUp = reboot''\<rparr>])) ''[Peer]'' = 1"
proof -
  let ?p = "alice\<lparr>p_Name := ''a'' @ [nl] @ ''PostUp = reboot''\<rparr>"
  have hyps: "Is4 (prefix_Addr (in_Address office))" "\<forall>p \<in> set [?p]. Is4 (p_Address p)"
    by (simp_all add: office_def alice_def blank_peer_def)
  have "length (filter p_Enabled [?p]) = 1" by (simp add: alice_def blank_peer_def)
  then show ?thesis using server_config_exact_lines[OF hyps, THEN conjunct2, THEN conjunct1] by (simp only:)
qed

text \<open>
  For a server whose clients send everything through it, the kill switch puts its two firewall
  lines after the interface's own lines and before the peer section, and changes nothing else.
\<close>

theorem kill_switch_lines:
  assumes "FullTunnel i" and "Is4 (p_Address p)" and "\<forall>a \<in> set (ClientDNS i). nl \<notin> set (addr_String a)"
  shows "KillSwitchConfig i p = Inr (lines_of (client_interface i p) @ kill_rules @ [nl] @ lines_of (client_peer i p)) \<and>
    ClientConfig i p = lines_of (client_interface i p) @ [nl] @ lines_of (client_peer i p)"
  using KillSwitch_lines[OF assms] ClientConfig_lines_of by simp

theorem kill_switch_lines_witness:
  "KillSwitchConfig office alice = Inr (lines_of (client_interface office alice) @ kill_rules @ [nl] @ lines_of (client_peer office alice))"
proof -
  have "FullTunnel office" "Is4 (p_Address alice)" by (simp_all add: office_def alice_def FullTunnel_def blank_peer_def)
  moreover have "\<forall>a \<in> set (ClientDNS office). nl \<notin> set (addr_String a)" by (simp add: office_def ClientDNS_def)
  ultimately show ?thesis using kill_switch_lines by blast
qed

text \<open>
  The files in the container list what the panel has: a speed limit for exactly the enabled
  devices that have one, in order.
\<close>

theorem speed_limits_exact:
  "SpeedLimitsConfig peers =
     lines_of (map (\<lambda>p. addr_String (p_Address p) @ '' '' @ Itoa (p_SpeedLimit p))
       (filter (\<lambda>p. p_Enabled p \<and> 0 < p_SpeedLimit p) peers)) \<and>
   SpeedLimitsConfig peers = SpeedLimitsConfig (filter p_Enabled peers)"
proof -
  have "filter (\<lambda>p. p_Enabled p \<and> 0 < p_SpeedLimit p) peers = filter (\<lambda>p. p_Enabled p \<and> 0 < p_SpeedLimit p) (filter p_Enabled peers)"
    by simp
  then show ?thesis by (simp only: SpeedLimits_lines)
qed

section \<open>Validation\<close>

text \<open>
  \<open>Instance.Validate\<close> accepts exactly the servers \<open>valid_instance\<close> describes: an address that is
  a host of a /16 to /30 IPv4 subnet, a port, MTU, name, endpoint and DNS within bounds, and, when
  the server resolves names itself, upstreams to ask and its own address in what clients route.
\<close>

theorem instance_validate_exact: "instance_Validate i = [] \<longleftrightarrow> valid_instance i"
  by (rule instance_Validate_Nil)

text \<open>\<open>Peer.Validate\<close> accepts exactly the devices \<open>valid_peer\<close> describes.\<close>

theorem peer_validate_exact: "peer_Validate p = [] \<longleftrightarrow> valid_peer p"
  by (rule peer_Validate_Nil)

text \<open>
  C40. Validation lets a line break into the endpoint: \<open>netip.ParseAddr\<close>, which \<open>ValidHost\<close> asks,
  takes any bytes after the percent sign of an IPv6 zone. So a server that passes \<open>Validate\<close> can make
  \<open>ClientConfig\<close> print a line of its own, here a hook wg-quick would run as root.
\<close>

theorem endpoint_zone_adds_line:
  "\<exists>i. instance_Validate i = [] \<and> ''PostUp = evil'' \<in> set (Split nl (ClientConfig i alice))"
proof (rule exI[of _ rogue], rule conjI)
  show "instance_Validate rogue = []"
    unfolding instance_Validate_Nil valid_instance_def
    using office_address
    by (simp add: rogue_def office_def valid_name_def TrimSpace_def RuneCountInString_def contains_rune_def runes_def
        runes_of_ascii IsSpace_def IsControl_def ValidHost_def ParseAddr_def parseIPv6_def Cut_def IsValid_def)
  show "''PostUp = evil'' \<in> set (Split nl (ClientConfig rogue alice))"
  proof -
    obtain a b where "ClientConfig rogue alice = a @ config_field ''Endpoint'' (JoinHostPort (in_Endpoint rogue) (Itoa (in_ListenPort rogue))) @ b"
      using ClientConfig_endpoint by blast
    then have "ClientConfig rogue alice = (a @ ''Endpoint = [::%'') @ nl # ''PostUp = evil'' @ nl # '']:'' @ Itoa (in_ListenPort rogue) @ nl # b"
      by (simp add: config_field_def JoinHostPort_def rogue_def)
    then show ?thesis
      using Split_append[of nl "a @ ''Endpoint = [::%''"] Split_append[of nl "''PostUp = evil''"]
      by (simp only:) simp
  qed
qed

section \<open>Keys and statistics\<close>

text \<open>
  A key survives its text: \<open>ParseKey\<close> reads back what \<open>String\<close> and \<open>MarshalText\<close> write, different
  keys have different texts, and nothing but 32 bytes is ever accepted.
\<close>

theorem key_text_round_trip:
  assumes "wf_key k"
  shows "ParseKey (key_String k) = Inr k \<and> key_UnmarshalText (key_MarshalText k) k0 = (None, k) \<and>
    (key_String k' = key_String k \<longrightarrow> k' = k) \<and> (ParseKey s = Inr k' \<longrightarrow> length k' = 32)"
  using assms ParseKey_String[OF assms] ParseKey_wf[of s k'] key_String_inj[of k' k]
  by (simp add: key_UnmarshalText_def key_MarshalText_def wf_key_def)

theorem key_text_round_trip_witness: "ParseKey (key_String ZeroKey) = Inr ZeroKey"
  using key_text_round_trip[OF wf_ZeroKey] by blast

text \<open>
  \<open>ParseDump\<close> reads back a dump as wg(8) writes it: for an interface line and any devices with
  well-formed fields, the statistics of each, by key.
\<close>

theorem parse_dump_round_trip:
  assumes "iface \<noteq> []" and "list_all (\<lambda>c. byte c < 128 \<and> c \<noteq> CHR 0x0A) iface" and "\<not> IsSpace (byte (hd iface))"
    and "ds \<noteq> []" and "\<forall>d \<in> set ds. wf_dump d"
  shows "ParseDump (dump_text iface ds) = Inr (fold (\<lambda>d. AList.update (d_key d) (dump_stats d)) ds [])"
  using assms by (rule ParseDump_dump)

definition dump_alice :: dump_peer where
  "dump_alice = \<lparr>d_key = ZeroKey, d_psk = ''(none)'', d_endpoint = ''198.51.100.7:4711'', d_allowed = ''10.8.0.2/32'',
     d_handshake = 1700000000, d_rx = 4096, d_tx = 512, d_keepalive = ''off''\<rparr>"

theorem parse_dump_round_trip_witness:
  "ParseDump (dump_text ''key'' [dump_alice]) = Inr [(ZeroKey, dump_stats dump_alice)]"
proof -
  have "wf_dump dump_alice"
    by (simp add: wf_dump_def dump_alice_def plain_text_def int64_range_def)
  then show ?thesis using parse_dump_round_trip[of "''key''" "[dump_alice]"] by (simp add: dump_alice_def IsSpace_def)
qed

end
