(* ===== verification/StoreProperties.thy ===== *)
theory StoreProperties
  imports StoreOps WgProperties
begin

text \<open>
  The properties of the server and device tables (internal/store/wireguard.go): what survives every
  operation and every failure, and what creating and moving a device does. \<open>office_db\<close> holds the one
  server \<open>office\<close>, for the witnesses.
\<close>

definition office_db :: db where
  "office_db = empty_db\<lparr>t_instances := [(instance_row_of 0 office)\<lparr>ir_id := 1\<rparr>], t_instance_seq := 1\<rparr>"

lemma office_valid: "valid_instance office"
  unfolding valid_instance_def
  using office_address
  by (simp add: office_def valid_name_def TrimSpace_def RuneCountInString_def contains_rune_def runes_def
      runes_of_ascii IsSpace_def IsControl_def ValidHost_def ParseAddr_def parseIPv4_def IsValid_def validLabel_def
      parse_octet_def label_rune_def is_digit_def list_all_iff)

lemma office_db_inv: "db_inv office_db"
proof -
  have "instance_row_ok (instance_row_of 0 office)" by (rule instance_row_of_ok[OF office_valid])
  then show ?thesis
    by (simp add: db_inv_def instances_inv_def peers_inv_def usage_inv_def office_db_def empty_db_def instance_row_ok_def)
qed

lemma office_row: "instance_by_id 1 office_db = Some ((instance_row_of 0 office)\<lparr>ir_id := 1\<rparr>)"
  "t_faults office_db = []" "t_peers office_db = []" "t_peer_seq office_db = 0"
  "ir_address ((instance_row_of 0 office)\<lparr>ir_id := 1\<rparr>) = prefix_String (Prefix (V4 0x0A080001) 24)"
  by (simp_all add: office_db_def empty_db_def instance_by_id_def instance_row_of_def office_def)

text \<open>
  C27. The tables' invariant survives every operation on servers and devices, whether it succeeds,
  is refused or is cut off by a failure at any of its statements: unique ids, no two servers of one
  name or of one port on a node, no two devices of a server with one name or one address, no key
  used twice, every device's address a host of its server's subnet other than the server's own, and
  no counters or usage of a device that is gone.
\<close>

theorem store_operations_keep_invariant:
  assumes "db_inv s" and "valid_instance i" and "p_LimitPeriod p \<in> {[], PeriodMonthly, PeriodTotal}"
  shows "db_inv (snd (CreateInstance now i s)) \<and> db_inv (snd (UpdateInstance now i s)) \<and>
    db_inv (snd (DeleteInstance k s)) \<and> db_inv (snd (CreatePeer now p s)) \<and> db_inv (snd (MovePeer now k m s)) \<and>
    db_inv (snd (UpdatePeer now p s)) \<and> db_inv (snd (SetPeerShare k token expires s)) \<and>
    db_inv (snd (DeletePeer k s)) \<and> db_inv (snd (setCounters k rx tx s))"
proof -
  have "period_Valid (p_LimitPeriod p) \<or> p_LimitPeriod p = []"
    using assms(3) by (auto simp: period_Valid_def)
  then show ?thesis
    using assms
    by (intro conjI keepsD[where I = db_inv] keeps_CreateInstance keeps_UpdateInstance keeps_DeleteInstance
        keeps_CreatePeer keeps_MovePeer keeps_UpdatePeer keeps_SetPeerShare keeps_DeletePeer keeps_setCounters)
qed

theorem store_operations_keep_invariant_witness:
  "db_inv (snd (CreatePeer 0 alice office_db)) \<and> db_inv (snd (DeleteInstance 1 office_db))"
proof -
  have "p_LimitPeriod alice \<in> {[], PeriodMonthly, PeriodTotal}" by (simp add: alice_def blank_peer_def)
  from store_operations_keep_invariant[OF office_db_inv office_valid this] show ?thesis by blast
qed

text \<open>
  \<open>CreatePeer\<close> adds one row and changes nothing else. The device it returns has an id never
  given before and an address that is a host of its server's subnet, not the server's, and not
  another device's of the server. If it fails, at whatever statement, every table is as before.
\<close>

theorem create_peer_effect:
  assumes "db_inv s" and "p_LimitPeriod p \<in> {[], PeriodMonthly, PeriodTotal}"
  shows "case CreatePeer now p s of
      (Inl e, s') \<Rightarrow> same_tables s s'
    | (Inr q, s') \<Rightarrow> \<exists>w b n i. instance_by_id (p_InstanceID p) s = Some i \<and>
        ir_address i = prefix_String (Prefix (V4 w) b) \<and> p_Address q = V4 n \<and> n \<noteq> w \<and>
        host_of (Prefix (V4 w) b) (V4 n) \<and> p_ID q = t_peer_seq s + 1 \<and>
        same_tables s (s'\<lparr>t_peers := t_peers s, t_peer_seq := t_peer_seq s\<rparr>) \<and>
        t_peers s' = t_peers s @ [(peer_row_of now p (V4 n))\<lparr>pr_id := p_ID q\<rparr>]"
proof (cases "CreatePeer now p s")
  case (Pair r s')
  show ?thesis
  proof (cases r)
    case (Inl e)
    then show ?thesis using Pair CreatePeer_Inl[of now p s e s'] by simp
  next
    case (Inr q)
    with Pair have run: "CreatePeer now p s = (Inr q, s')" by simp
    obtain s1 i w b n where
      r: "same_tables s s1" "instance_by_id (p_InstanceID p) s = Some i" "ir_address i = prefix_String (Prefix (V4 w) b)"
        "n \<noteq> w" "host_of (Prefix (V4 w) b) (V4 n)"
      and s': "s' = s1\<lparr>t_peers := t_peers s @ [(peer_row_of now p (V4 n))\<lparr>pr_id := t_peer_seq s + 1\<rparr>], t_peer_seq := t_peer_seq s + 1\<rparr>"
      and q: "q = p\<lparr>p_ID := t_peer_seq s + 1, p_Address := V4 n, p_LimitPeriod := OrDefault (p_LimitPeriod p),
           p_CreatedAt := time_Unix (unix now), p_UpdatedAt := time_Unix (unix now)\<rparr>"
      by (rule CreatePeer_Inr[OF run assms])
    have "same_tables s (s'\<lparr>t_peers := t_peers s, t_peer_seq := t_peer_seq s\<rparr>)"
      using r(1) unfolding s' same_tables_def by auto
    then show ?thesis using r q s' Pair Inr by auto
  qed
qed

theorem create_peer_effect_witness:
  "case CreatePeer 0 alice office_db of (Inl e, s') \<Rightarrow> same_tables office_db s'
     | (Inr q, s') \<Rightarrow> p_ID q = 1 \<and> (\<exists>n. p_Address q = V4 n)"
proof -
  have per: "p_LimitPeriod alice \<in> {[], PeriodMonthly, PeriodTotal}" by (simp add: alice_def blank_peer_def)
  show ?thesis
    using create_peer_effect[OF office_db_inv per, of 0] by (auto simp: office_row split: prod.splits sum.splits)
qed

text \<open>
  \<open>CreatePeer\<close> succeeds whenever it can: with no database failure, fewer devices on the server
  than \<open>Capacity\<close> says, a name no device of the server has and a key no device has, it returns the
  device; and loading the id it returned gives that device back, its times in whole seconds.
\<close>

theorem create_peer_succeeds:
  assumes "t_faults s = []" and "db_inv s" and "instance_by_id (p_InstanceID p) s = Some i"
    and "ir_address i = prefix_String (Prefix (V4 w) b)" and "0 \<le> b" and "b \<le> 30"
    and "int (length (filter (\<lambda>r. pr_instance_id r = p_InstanceID p) (t_peers s))) < Capacity b"
    and "\<forall>r \<in> set (t_peers s). pr_instance_id r = p_InstanceID p \<longrightarrow> nocase (pr_name r) \<noteq> nocase (p_Name p)"
    and "\<forall>r \<in> set (t_peers s). pr_public_key r \<noteq> key_String (p_PublicKey p)"
    and "p_LimitPeriod p \<in> {[], PeriodMonthly, PeriodTotal}"
    and "wf_key (p_PrivateKey p)" and "wf_key (p_PublicKey p)" and "wf_key (p_PresharedKey p)"
  shows "\<exists>q s'. CreatePeer now p s = (Inr q, s') \<and> PeerByID (p_ID q) s' = (Inr (as_saved now q), s')"
proof -
  obtain q s' where run: "CreatePeer now p s = (Inr q, s')" and nf: "t_faults s' = []"
    using CreatePeer_run[OF assms(1-9)] .
  obtain s1 n where s': "s' = s1\<lparr>t_peers := t_peers s @ [(peer_row_of now p (V4 n))\<lparr>pr_id := t_peer_seq s + 1\<rparr>], t_peer_seq := t_peer_seq s + 1\<rparr>"
    and q: "q = p\<lparr>p_ID := t_peer_seq s + 1, p_Address := V4 n, p_LimitPeriod := OrDefault (p_LimitPeriod p),
           p_CreatedAt := time_Unix (unix now), p_UpdatedAt := time_Unix (unix now)\<rparr>"
    by (rule CreatePeer_Inr[OF run assms(2,10)])
  have "peer_by_id (p_ID q) s' = Some ((peer_row_of now p (V4 n))\<lparr>pr_id := p_ID q\<rparr>)"
    unfolding s' q using peer_by_id_append[OF assms(2)] by simp
  from PeerByID_row[OF nf this] have "PeerByID (p_ID q) s' = (Inr (as_saved now (p\<lparr>p_ID := p_ID q, p_Address := V4 n\<rparr>)), s')"
    using scanPeer_row_of[OF assms(11-13)] by simp
  moreover have "as_saved now (p\<lparr>p_ID := p_ID q, p_Address := V4 n\<rparr>) = as_saved now q"
    by (simp add: q as_saved_def OrDefault_def)
  ultimately show ?thesis using run by auto
qed

theorem create_peer_succeeds_witness:
  "\<exists>q s'. CreatePeer 7 alice office_db = (Inr q, s') \<and> PeerByID (p_ID q) s' = (Inr (as_saved 7 q), s')"
proof (rule create_peer_succeeds[OF office_row(2) office_db_inv _ office_row(5)])
  show "instance_by_id (p_InstanceID alice) office_db = Some ((instance_row_of 0 office)\<lparr>ir_id := 1\<rparr>)"
    using office_row(1) by (simp add: alice_def blank_peer_def)
  show "p_LimitPeriod alice \<in> {[], PeriodMonthly, PeriodTotal}" by (simp add: alice_def blank_peer_def)
qed (simp_all add: office_row Capacity_def alice_def blank_peer_def)

text \<open>
  C28. Moving a device to another server either fails with every table as before or gives its row the
  new server and an address free there, forgets its last handshake, and zeroes the counters its
  growth is measured from, so that the first reading on the new server counts no past traffic twice.
  Its keys, limits, usage history and share link stay, and no other row changes.
\<close>

theorem move_peer_effect:
  assumes "db_inv s"
  shows "case move_tx now k m s of
      (Inl e, s') \<Rightarrow> same_tables s s'
    | (Inr _, s') \<Rightarrow> \<exists>w b n i. instance_by_id m s = Some i \<and> ir_address i = prefix_String (Prefix (V4 w) b) \<and>
        host_of (Prefix (V4 w) b) (V4 n) \<and> n \<noteq> w \<and>
        t_peers s' = map (\<lambda>r. if pr_id r = k then r\<lparr>pr_instance_id := m, pr_address := addr_String (V4 n),
          pr_last_handshake := None, pr_updated_at := unix now\<rparr> else r) (t_peers s) \<and>
        t_counters s' = put_counter k 0 0 (t_counters s) \<and>
        same_tables s (s'\<lparr>t_peers := t_peers s, t_counters := t_counters s\<rparr>) \<and>
        MovePeer now k m s = PeerByID k s'"
proof (cases "move_tx now k m s")
  case (Pair r s')
  show ?thesis
  proof (cases r)
    case (Inl e)
    then show ?thesis using Pair move_tx_Inl[of now k m s e s'] by simp
  next
    case (Inr u)
    with Pair have run: "move_tx now k m s = (Inr u, s')" by simp
    obtain s1 i w b n where
      r: "same_tables s s1" "instance_by_id m s = Some i" "ir_address i = prefix_String (Prefix (V4 w) b)"
        "n \<noteq> w" "host_of (Prefix (V4 w) b) (V4 n)"
      and s': "s' = s1\<lparr>t_peers := map (\<lambda>q. if pr_id q = k then moved_row now m (V4 n) q else q) (t_peers s),
           t_counters := put_counter k 0 0 (t_counters s)\<rparr>"
      by (rule move_tx_Inr[OF run assms])
    have same: "same_tables s (s'\<lparr>t_peers := t_peers s, t_counters := t_counters s\<rparr>)"
      using r(1) unfolding s' same_tables_def by auto
    have peers: "t_peers s' = map (\<lambda>r. if pr_id r = k then r\<lparr>pr_instance_id := m, pr_address := addr_String (V4 n),
          pr_last_handshake := None, pr_updated_at := unix now\<rparr> else r) (t_peers s)"
      by (simp add: s' moved_row_def cong: if_cong)
    have counters: "t_counters s' = put_counter k 0 0 (t_counters s)" by (simp add: s')
    have "MovePeer now k m s = PeerByID k s'"
      using run by (simp add: MovePeer_def thn_def bnd_def)
    with r same peers counters run show ?thesis by (simp only: case_prod_conv sum.case) blast
  qed
qed

theorem move_peer_effect_witness:
  "case move_tx 7 1 1 office_db of (Inl e, s') \<Rightarrow> same_tables office_db s' | (Inr _, s') \<Rightarrow> t_peers s' = []"
  using move_peer_effect[OF office_db_inv, where now = 7 and k = 1 and m = 1] by (auto simp: office_row split: prod.splits sum.splits)

text \<open>
  A violated index is reported by the column the user can change: \<open>store_writeError\<close> reads it
  off the driver's text for each index of the schema, and passes on any other failure.
\<close>

theorem duplicate_names_its_column:
  "store_writeError op (unique_error ''wg_instances'' [''name'']) = DuplicateError ''name'' \<and>
   store_writeError op (unique_error ''wg_instances'' [''node_id'', ''listen_port'']) = DuplicateError ''listen_port'' \<and>
   store_writeError op (unique_error ''wg_peers'' [''instance_id'', ''name'']) = DuplicateError ''name'' \<and>
   store_writeError op (unique_error ''wg_peers'' [''instance_id'', ''address'']) = DuplicateError ''address'' \<and>
   store_writeError op (unique_error ''wg_peers'' [''public_key'']) = DuplicateError ''public_key'' \<and>
   store_writeError op (unique_error ''wg_peers'' [''share_token'']) = DuplicateError ''share_token'' \<and>
   store_writeError op foreign_key_error = Errorf op foreign_key_error \<and>
   store_writeError op db_fault = Errorf op db_fault"
  by (simp add: store_writeError_def asDuplicate_columns asDuplicate_other)

end
