(* ===== verification/TrafficProperties.thy ===== *)
theory TrafficProperties
  imports TrafficSpec StoreProperties
begin

text \<open>
  The properties of internal/store/traffic.go. \<open>used_db\<close> is \<open>office_db\<close> with one device that has been
  read once, for the witnesses.
\<close>

definition alice_row :: peer_row where
  "alice_row = (peer_row_of 0 alice (V4 0x0A080002))\<lparr>pr_id := 1\<rparr>"

definition used_db :: db where
  "used_db = office_db\<lparr>t_peers := [alice_row], t_peer_seq := 1,
     t_counters := [\<lparr>cr_peer_id = 1, cr_rx_bytes = 100, cr_tx_bytes = 10\<rparr>]\<rparr>"

lemma used_db_inv: "db_inv used_db"
proof -
  have "peer_row_ok used_db alice_row"
    by (rule allocated_row_ok[of 1 _ "(instance_row_of 0 office)\<lparr>ir_id := 1\<rparr>" "0x0A080001" 24 "0x0A080002"])
      (simp_all add: used_db_def office_row alice_row_def peer_row_of_def alice_def blank_peer_def host_of_V4 net_base_def
        net_size_def OrDefault_def PeriodMonthly_def del: addr_String.simps)
  moreover have "instances_inv used_db"
    using office_db_inv by (simp add: db_inv_def instances_inv_def used_db_def)
  ultimately show ?thesis
    by (simp add: db_inv_def peers_inv_def usage_inv_def used_db_def office_db_def empty_db_def alice_row_def)
qed

definition utc :: "int \<Rightarrow> int" where "utc _ = 0"

definition dump1 :: stats_map where "dump1 = [(ZeroKey, reading (400, 40))]"
definition dump2 :: stats_map where "dump2 = [(ZeroKey, reading (70, 7))]"

lemma dumps_sane: "readings_sane used_db dump1" "readings_sane used_db dump2"
  by (simp_all add: readings_sane_def used_db_def office_db_def empty_db_def counters_of_def alice_row_def sane_counters_def
      dump1_def dump2_def reading_def sane_stats_def)

lemma used_row: "alice_row \<in> set (t_peers used_db)" "pr_id alice_row = 1" "pr_instance_id alice_row = 1"
  by (simp_all add: used_db_def alice_row_def peer_row_of_def alice_def blank_peer_def)

lemma used_facts:
  "counters_of 1 used_db = Some (100, 10)" "usage_where 1 Q used_db = no_traffic"
  "live_map dump1 (pr_public_key alice_row) = Some (reading (400, 40))"
  "live_map dump2 (pr_public_key alice_row) = Some (reading (70, 7))"
  by (simp_all add: counters_of_def usage_where_def used_db_def office_db_def empty_db_def live_map_def dump1_def dump2_def
      alice_row_def peer_row_of_def alice_def blank_peer_def)

text \<open>
  One reading of a server: for each of its devices the usage of the local day grows by what
  WireGuard's counters grew by (by the counters themselves when either dropped, and by nothing when
  there was no earlier reading), the usage of every other day and device stays, and the counters kept
  are those just read, or zero for a device that is off the interface. A failure changes nothing.
\<close>

theorem record_traffic_exact:
  assumes "db_inv s" and "readings_sane s stats" and "r \<in> set (t_peers s)"
  shows "case RecordTraffic off k stats now s of
      (Inl e, s') \<Rightarrow> same_tables s s'
    | (Inr _, s') \<Rightarrow>
        let cur = counters_of (pr_id r) s; live = live_map stats (pr_public_key r) in
        counters_of (pr_id r) s' = (if pr_instance_id r = k then next_counters cur live else cur) \<and>
        (\<forall>Q. usage_where (pr_id r) Q s' = (if pr_instance_id r = k \<and> Q (dayKey off now)
           then traffic_add (usage_where (pr_id r) Q s) (recorded cur live) else usage_where (pr_id r) Q s)) \<and>
        same_but_handshake s s'"
proof (cases "RecordTraffic off k stats now s")
  case (Pair res s')
  show ?thesis
  proof (cases res)
    case (Inl e)
    then have "same_tables s s'" using Pair unfolding RecordTraffic_def by (intro transaction_atomic) simp
    then show ?thesis using Pair Inl by simp
  next
    case (Inr u)
    then show ?thesis using Pair RecordTraffic_device[OF _ assms, of off k now u s'] by (simp add: Let_def)
  qed
qed

theorem record_traffic_exact_witness:
  "case RecordTraffic utc 1 dump1 0 used_db of (Inl e, s') \<Rightarrow> same_tables used_db s'
     | (Inr _, s') \<Rightarrow> usage_where 1 (\<lambda>_. True) s' = \<lparr>RxBytes = 300, TxBytes = 30\<rparr>"
  using record_traffic_exact[OF used_db_inv dumps_sane(1) used_row(1), where off = utc and k = 1 and now = 0]
  by (auto simp: Let_def used_row used_facts recorded_def growth_def reading_def split: prod.splits sum.splits)

text \<open>
  C30. A device in the tables refines the abstract device: any sequence of readings of its server,
  on days a predicate picks, takes its counters and its usage on those days to the fold of
  \<open>device_step\<close> over what the readings said of its key.
\<close>

theorem readings_refine_device:
  assumes "RecordAll off k readings s = (Inr u, s')" and "db_inv s"
    and "\<forall>(stats, now) \<in> set readings. readings_sane s stats \<and> Q (dayKey off now)"
    and "r \<in> set (t_peers s)" and "pr_instance_id r = k"
  shows "device_of Q (pr_id r) s' = fold device_step (lives (pr_public_key r) readings) (device_of Q (pr_id r) s)"
  using RecordAll_device_of[OF assms] by blast

lemmas run_simps = used_db_def office_db_def empty_db_def alice_row_def peer_row_of_def alice_def blank_peer_def
  peer_by_id_def counter_rows_def counters_of_def live_map_def dump1_def dump2_def reading_def recordPeer_def growth_def
  Total_def wrap64_id int64_range_def addUsage_def setCounters_def newer_def bnd_def thn_def mapErr_def

lemma used_run: "\<exists>s'. RecordAll utc 1 [(dump1, 0), (dump2, 0)] used_db = (Inr (), s')"
  by (simp add: RecordAll_def RecordTraffic_def transaction_def transact_def run_simps put_counter_def)

theorem readings_refine_device_witness:
  "\<exists>s'. RecordAll utc 1 [(dump1, 0), (dump2, 0)] used_db = (Inr (), s') \<and>
     device_of (\<lambda>_. True) 1 s' = (Some (70, 7), \<lparr>RxBytes = 370, TxBytes = 37\<rparr>)"
proof -
  obtain s' where run: "RecordAll utc 1 [(dump1, 0), (dump2, 0)] used_db = (Inr (), s')" using used_run by blast
  have sane: "\<forall>(stats, now) \<in> set [(dump1, 0), (dump2, 0)]. readings_sane used_db stats \<and> True"
    using dumps_sane by simp
  have "device_of (\<lambda>_. True) (pr_id alice_row) s' = fold device_step (lives (pr_public_key alice_row) [(dump1, 0), (dump2, 0)]) (device_of (\<lambda>_. True) (pr_id alice_row) used_db)"
    by (rule readings_refine_device[OF run used_db_inv _ used_row(1,3)]) (use dumps_sane in simp)
  then have "device_of (\<lambda>_. True) 1 s' = (Some (70, 7), \<lparr>RxBytes = 370, TxBytes = 37\<rparr>)"
    by (simp add: used_row used_facts device_of_def device_step_def next_counters_def recorded_def growth_def reading_def traffic_add_def)
  with run show ?thesis by blast
qed

text \<open>
  Readings that never go down count exactly what was used between the first and the last of them.
\<close>

theorem growing_readings_telescope:
  assumes "sorted (map st_RxBytes (st0 # sts))" and "sorted (map st_TxBytes (st0 # sts))"
  shows "fold device_step (map Some sts) (Some (st_RxBytes st0, st_TxBytes st0), used) =
    (let l = last (st0 # sts) in (Some (st_RxBytes l, st_TxBytes l),
     traffic_add used \<lparr>RxBytes = st_RxBytes l - st_RxBytes st0, TxBytes = st_TxBytes l - st_TxBytes st0\<rparr>))"
  unfolding Let_def by (rule device_telescope[OF assms])

theorem growing_readings_telescope_witness:
  "fold device_step (map Some [reading (5, 5), reading (9, 6)]) (Some (2, 3), no_traffic) =
    (Some (9, 6), \<lparr>RxBytes = 7, TxBytes = 3\<rparr>)"
  using growing_readings_telescope[of "reading (2, 3)" "[reading (5, 5), reading (9, 6)]" no_traffic]
  by (simp add: reading_def traffic_add_def)

text \<open>
  C29. Whatever happens between readings (traffic, restarts of the interface the panel does not see,
  the device leaving the interface), the usage recorded never exceeds the traffic there was: a byte
  is never counted twice, so no customer is cut off for traffic they did not have.
\<close>

theorem usage_never_exceeds_traffic:
  assumes "world_run \<lparr>w_counters = (0, 0), w_true = no_traffic, w_device = (None, no_traffic)\<rparr> es w"
  shows "RxBytes (snd (w_device w)) \<le> RxBytes (w_true w) \<and> TxBytes (snd (w_device w)) \<le> TxBytes (w_true w)"
proof -
  have "world_inv \<lparr>w_counters = (0, 0), w_true = no_traffic, w_device = (None, no_traffic)\<rparr>"
    by (simp add: world_inv_def)
  then show ?thesis using world_inv_run[OF assms] world_inv_bound by blast
qed

theorem usage_never_exceeds_traffic_witness:
  "\<exists>w. world_run \<lparr>w_counters = (0, 0), w_true = no_traffic, w_device = (None, no_traffic)\<rparr>
        [Flow 3 1, Read, Flow 4 1, Restart, Flow 2 1, Read] w \<and>
     RxBytes (snd (w_device w)) = 2 \<and> RxBytes (w_true w) = 9 \<and> RxBytes (snd (w_device w)) \<le> RxBytes (w_true w)"
proof -
  let ?w0 = "\<lparr>w_counters = (0, 0), w_true = no_traffic, w_device = (None, no_traffic)\<rparr>"
  have run: "world_run ?w0 [Flow 3 1, Read, Flow 4 1, Restart, Flow 2 1, Read]
      \<lparr>w_counters = (2, 1), w_true = \<lparr>RxBytes = 9, TxBytes = 3\<rparr>, w_device = (Some (2, 1), \<lparr>RxBytes = 2, TxBytes = 1\<rparr>)\<rparr>"
    by (rule world_run.cons, simp)+
      (simp add: world_run.simps[of _ "[]"] device_step_def next_counters_def recorded_def growth_def reading_def
        traffic_add_def no_traffic_def)
  from usage_never_exceeds_traffic[OF run] run show ?thesis by fastforce
qed

text \<open>
  After a reset, what counts toward a limit is exactly what was recorded since: on any state with
  no usage dated after the reset, after \<open>ResetPeerUsage\<close> and any readings of the server on that day or
  later in the same period, the limit's usage is the sum of what the readings recorded, while the
  history keeps every byte.
\<close>

theorem limit_counts_since_reset:
  assumes "db_inv s" and "r \<in> set (t_peers s)" and "pr_instance_id r = m"
    and "ResetPeerUsage off (pr_id r) now s = (Inr p, s1)" and "RecordAll off m readings s1 = (Inr u, s2)"
    and "\<forall>(stats, t) \<in> set readings. readings_sane s1 stats \<and> day_le (dayKey off now) (dayKey off t)"
    and "\<forall>u \<in> set (t_usage s). ur_peer_id u = pr_id r \<and> day_le (dayKey off now) (ur_day u) \<longrightarrow> ur_day u = dayKey off now"
    and "r2 \<in> set (t_peers s2)" and "pr_id r2 = pr_id r" and "limitStart month r2 = dayKey off now"
    and "sane_counters (counters_of (pr_id r) s)"
  shows "limit_traffic month r2 s2 =
    snd (fold device_step (lives (pr_public_key r) readings) (counters_of (pr_id r) s, no_traffic))"
  using assms by (rule limit_since_reset)

definition reset_db :: db where
  "reset_db = map_peer 1 (reset_row utc 0 no_traffic) used_db"

lemma reset_run: "\<exists>p. ResetPeerUsage utc 1 0 used_db = (Inr p, reset_db)"
proof -
  have on: "usage_on 1 (dayKey utc 0) used_db = no_traffic" by (simp add: usage_on_def used_db_def office_db_def empty_db_def)
  have row: "peer_by_id 1 reset_db = Some (reset_row utc 0 no_traffic alice_row)"
    by (simp add: reset_db_def map_peer_def peer_by_id_def used_db_def reset_row_def alice_row_def)
  have "scanPeer alice_row = Inr (as_saved 0 (alice\<lparr>p_ID := 1, p_Address := V4 0x0A080002\<rparr>))"
    unfolding alice_row_def by (rule scanPeer_row_of) (simp_all add: alice_def blank_peer_def)
  then have "\<exists>p. scanPeer (reset_row utc 0 no_traffic alice_row) = Inr p"
    by (cases "pr_private_key alice_row = []") (auto simp: scanPeer_def reset_row_def Let_def split: option.splits)
  then obtain p where p: "scanPeer (reset_row utc 0 no_traffic alice_row) = Inr p" by blast
  have nf: "t_faults used_db = []" "t_faults reset_db = []"
    by (simp_all add: used_db_def office_db_def empty_db_def reset_db_def map_peer_def)
  have len: "length (filter (\<lambda>r. pr_id r = 1) (t_peers used_db)) = 1" using used_row by (simp add: used_db_def)
  have "ResetPeerUsage utc 1 0 used_db = (Inr p, reset_db)"
    unfolding ResetPeerUsage_def Let_def reset_row_def[symmetric] on
    using nf len PeerByID_row[OF nf(2) row] p
    by (simp add: bnd_def thn_def mapErr_def expectOneRow_def reset_db_def[symmetric] on)
  then show ?thesis by blast
qed

theorem limit_counts_since_reset_witness:
  "\<exists>s2. RecordAll utc 1 [(dump1, 0)] reset_db = (Inr (), s2) \<and>
     (\<forall>r2 \<in> set (t_peers s2). pr_id r2 = 1 \<longrightarrow> limitStart (dayKey utc 0) r2 = dayKey utc 0 \<longrightarrow>
        limit_traffic (dayKey utc 0) r2 s2 = \<lparr>RxBytes = 300, TxBytes = 30\<rparr>)"
proof -
  obtain p where reset: "ResetPeerUsage utc (pr_id alice_row) 0 used_db = (Inr p, reset_db)"
    using reset_run used_row(2) by auto
  have "\<exists>s2. RecordAll utc 1 [(dump1, 0)] reset_db = (Inr (), s2)"
    by (simp add: RecordAll_def RecordTraffic_def transaction_def transact_def run_simps put_counter_def reset_db_def map_peer_def reset_row_def)
  then obtain s2 where run: "RecordAll utc 1 [(dump1, 0)] reset_db = (Inr (), s2)" by blast
  have sane: "\<forall>(stats, t) \<in> set [(dump1, 0)]. readings_sane reset_db stats \<and> day_le (dayKey utc 0) (dayKey utc t)"
    by (simp add: readings_sane_def reset_db_def map_peer_def used_db_def office_db_def empty_db_def counters_of_def alice_row_def
        reset_row_def sane_counters_def dump1_def reading_def sane_stats_def)
  have none: "\<forall>u \<in> set (t_usage used_db). ur_peer_id u = pr_id alice_row \<and> day_le (dayKey utc 0) (ur_day u) \<longrightarrow> ur_day u = dayKey utc 0"
    by (simp add: used_db_def office_db_def empty_db_def)
  have cur: "sane_counters (counters_of (pr_id alice_row) used_db)" by (simp add: used_row used_facts sane_counters_def)
  have "limit_traffic (dayKey utc 0) r2 s2 = \<lparr>RxBytes = 300, TxBytes = 30\<rparr>"
    if "r2 \<in> set (t_peers s2)" "pr_id r2 = 1" "limitStart (dayKey utc 0) r2 = dayKey utc 0" for r2
    using limit_counts_since_reset[OF used_db_inv used_row(1,3) reset run sane none that(1) _ that(3) cur] that(2)
    by (simp add: used_row used_facts device_step_def recorded_def growth_def reading_def)
  with run show ?thesis by blast
qed

text \<open>
  The filter on data limits in SQL (\<open>limitUsed\<close>) and the usage the panel shows (\<open>LimitUsage\<close>) are the
  same number for a device whose usage on its reset day has not shrunk.
\<close>

theorem sql_limit_matches:
  assumes "reset_ok s r"
  shows "limitUsed month r s = RxBytes (limit_traffic month r s) + TxBytes (limit_traffic month r s)"
  using assms by (rule limitUsed_limit_traffic)

theorem sql_limit_matches_witness: "limitUsed ''1970-01-01'' alice_row used_db = 0"
proof -
  have "reset_ok used_db alice_row"
    by (simp add: reset_ok_def used_row used_facts) (simp add: alice_row_def peer_row_of_def)
  from sql_limit_matches[OF this] show ?thesis
    by (simp add: limit_traffic_def Let_def traffic_sum_usage_from used_row used_facts) (simp add: alice_row_def peer_row_of_def)
qed

end
