(* ===== verification/StoreKeys.thy ===== *)
theory StoreKeys
  imports StorePanel
begin

text \<open>
  internal/store/apikeys.go: API keys, and the replies that make a retried POST answer like the first
  one instead of running twice.
\<close>

section \<open>Keys\<close>

record APIKey =
  k_ID :: int
  k_Name :: string
  k_Prefix :: string
  k_TokenHash :: string
  k_Scopes :: "string list"
  k_ExpiresAt :: "gotime option"
  k_LastUsedAt :: "gotime option"
  k_LastUsedIP :: string
  k_CreatedAt :: gotime

definition Expired :: "APIKey \<Rightarrow> gotime \<Rightarrow> bool" where
  "Expired k now \<longleftrightarrow> (case k_ExpiresAt k of None \<Rightarrow> False | Some e \<Rightarrow> \<not> now < e)"

definition api_key_clash :: "api_key_row list \<Rightarrow> api_key_row \<Rightarrow> err option" where
  "api_key_clash others r =
     (if list_ex (\<lambda>q. nocase (ak_name q) = nocase (ak_name r)) others then Some (unique_error ''api_keys'' [''name''])
      else if list_ex (\<lambda>q. ak_token_hash q = ak_token_hash r) others then Some (unique_error ''api_keys'' [''token_hash''])
      else None)"

definition insert_api_key :: "api_key_row \<Rightarrow> 'z panel_scheme \<Rightarrow> (err + int) \<times> 'z panel_scheme" where
  "insert_api_key r s =
     (let k = t_api_key_seq s + 1; r = r\<lparr>ak_id := k\<rparr> in
      case api_key_clash (t_api_keys s) r of
        Some e \<Rightarrow> (Inl e, s) | None \<Rightarrow> (Inr k, s\<lparr>t_api_keys := t_api_keys s @ [r], t_api_key_seq := k\<rparr>))"

definition api_key_row_of :: "gotime \<Rightarrow> APIKey \<Rightarrow> api_key_row" where
  "api_key_row_of now k =
     \<lparr>ak_id = 0, ak_name = k_Name k, ak_prefix = k_Prefix k, ak_token_hash = k_TokenHash k,
      ak_scopes = strings_Join '','' (k_Scopes k), ak_expires_at = nullTime (k_ExpiresAt k), ak_last_used_at = None,
      ak_last_used_ip = [], ak_created_at = unix now\<rparr>"

definition CreateAPIKey :: "gotime \<Rightarrow> APIKey \<Rightarrow> ('z, APIKey) psql" where
  "CreateAPIKey now k =
     bnd (mapErr (store_writeError ''create api key'') (stmt (insert_api_key (api_key_row_of now k)))) (\<lambda>n.
     ret (k\<lparr>k_ID := n, k_CreatedAt := time_Unix (unix now)\<rparr>))"

definition scanAPIKey :: "api_key_row option \<Rightarrow> err + APIKey" where
  "scanAPIKey row = (case row of None \<Rightarrow> Inl ErrNotFound | Some r \<Rightarrow> Inr
     \<lparr>k_ID = ak_id r, k_Name = ak_name r, k_Prefix = ak_prefix r, k_TokenHash = ak_token_hash r,
      k_Scopes = (if ak_scopes r \<noteq> [] then Split (CHR '','') (ak_scopes r) else []),
      k_ExpiresAt = timeOf (ak_expires_at r), k_LastUsedAt = timeOf (ak_last_used_at r),
      k_LastUsedIP = ak_last_used_ip r, k_CreatedAt = time_Unix (ak_created_at r)\<rparr>)"

definition APIKeys :: "('z, APIKey list) psql" where
  "APIKeys =
     bnd (mapErr (Errorf ''list api keys'') (query (\<lambda>s. sort_key ak_id (t_api_keys s)))) (\<lambda>rows.
     liftE (scan_all (\<lambda>r. scanAPIKey (Some r)) rows))"

definition APIKeyByID :: "int \<Rightarrow> ('z, APIKey) psql" where
  "APIKeyByID k =
     bnd (mapErr (Errorf ''scan api key'') (query (\<lambda>s. find (\<lambda>r. ak_id r = k) (t_api_keys s)))) (\<lambda>row.
     liftE (scanAPIKey row))"

definition APIKeyByToken :: "string \<Rightarrow> ('z, APIKey) psql" where
  "APIKeyByToken tokenHash =
     bnd (mapErr (Errorf ''scan api key'') (query (\<lambda>s. find (\<lambda>r. ak_token_hash r = tokenHash) (t_api_keys s)))) (\<lambda>row.
     liftE (scanAPIKey row))"

definition TouchAPIKey :: "int \<Rightarrow> string \<Rightarrow> gotime \<Rightarrow> ('z, unit) psql" where
  "TouchAPIKey k ip at = mapErr (Errorf ''touch api key'') (stmt (\<lambda>s. (Inr (), s\<lparr>t_api_keys :=
     map (\<lambda>r. if ak_id r = k then r\<lparr>ak_last_used_at := Some (unix at), ak_last_used_ip := ip\<rparr> else r) (t_api_keys s)\<rparr>)))"

text \<open>Deleting a key cascades to the replies kept for it.\<close>

definition DeleteAPIKey :: "int \<Rightarrow> ('z, unit) psql" where
  "DeleteAPIKey k =
     bnd (mapErr (Errorf ''delete api key'') (stmt (\<lambda>s. (Inr (length (filter (\<lambda>r. ak_id r = k) (t_api_keys s))),
       s\<lparr>t_api_keys := filter (\<lambda>r. ak_id r \<noteq> k) (t_api_keys s),
         t_idem := filter (\<lambda>r. ik_api_key_id r \<noteq> k) (t_idem s)\<rparr>)))) expectOneRow"

section \<open>Idempotency\<close>

record StoredResponse =
  sr_Status :: int
  sr_ContentType :: string
  sr_Body :: string

definition ErrIdempotencyMismatch :: err where
  "ErrIdempotencyMismatch = NewError ''store: idempotency key was used for a different request''"
definition ErrIdempotencyBusy :: err where
  "ErrIdempotencyBusy = NewError ''store: a request with this idempotency key is still running''"

definition IdempotencyTTL :: gotime where "IdempotencyTTL = 24 * 3600 * second"
definition idempotencyStale :: gotime where "idempotencyStale = 5 * 60 * second"

definition idem_of :: "int \<Rightarrow> string \<Rightarrow> 'z panel_scheme \<Rightarrow> idem_row option" where
  "idem_of k key s = find (\<lambda>r. ik_api_key_id r = k \<and> ik_key r = key) (t_idem s)"

text \<open>The DELETE's condition, and the DELETE.\<close>

definition outdated :: "gotime \<Rightarrow> idem_row \<Rightarrow> bool" where
  "outdated now r \<longleftrightarrow> ik_created_at r < unix (now - IdempotencyTTL) \<or>
     (ik_status r = 0 \<and> ik_created_at r < unix (now - idempotencyStale))"

definition drop_idem :: "(idem_row \<Rightarrow> bool) \<Rightarrow> ('z, nat) psql" where
  "drop_idem P = stmt (\<lambda>s. (Inr (length (filter P (t_idem s))), s\<lparr>t_idem := filter (\<lambda>r. \<not> P r) (t_idem s)\<rparr>))"

definition insert_idem :: "idem_row \<Rightarrow> ('z, unit) psql" where
  "insert_idem r = stmt (\<lambda>s.
     if idem_of (ik_api_key_id r) (ik_key r) s \<noteq> None then (Inl (primary_key_error ''api_idempotency'' ''key''), s)
     else if find (\<lambda>a. ak_id a = ik_api_key_id r) (t_api_keys s) = None then (Inl foreign_key_error, s)
     else (Inr (), s\<lparr>t_idem := t_idem s @ [r]\<rparr>))"

definition running :: "int \<Rightarrow> string \<Rightarrow> string \<Rightarrow> gotime \<Rightarrow> idem_row" where
  "running k key hash now =
     \<lparr>ik_api_key_id = k, ik_key = key, ik_request_hash = hash, ik_status = 0, ik_content_type = [], ik_body = [],
      ik_created_at = unix now\<rparr>"

definition stored :: "idem_row \<Rightarrow> StoredResponse" where
  "stored r = \<lparr>sr_Status = ik_status r, sr_ContentType = ik_content_type r, sr_Body = ik_body r\<rparr>"

text \<open>
  What runs between \<open>BeginTx\<close> and \<open>Commit\<close>; only a claim commits, a replay returns through the deferred
  \<open>Rollback\<close> like the errors do.
\<close>

definition claim_body :: "int \<Rightarrow> string \<Rightarrow> string \<Rightarrow> gotime \<Rightarrow> ('z, StoredResponse option) psql" where
  "claim_body k key hash now =
     thn (mapErr (Errorf ''expire idempotency key'') (drop_idem (\<lambda>r. ik_api_key_id r = k \<and> ik_key r = key \<and> outdated now r)))
    (bnd (mapErr (Errorf ''load idempotency key'') (query (idem_of k key))) (\<lambda>row.
     case row of
       None \<Rightarrow> thn (mapErr (Errorf ''claim idempotency key'') (insert_idem (running k key hash now))) (ret None)
     | Some r \<Rightarrow>
         if ik_request_hash r \<noteq> hash then throw ErrIdempotencyMismatch
         else if ik_status r = 0 then throw ErrIdempotencyBusy
         else ret (Some (stored r))))"

definition ClaimIdempotencyKey :: "int \<Rightarrow> string \<Rightarrow> string \<Rightarrow> gotime \<Rightarrow> ('z, StoredResponse option) psql" where
  "ClaimIdempotencyKey k key hash now = (\<lambda>s.
     case query (\<lambda>_. ()) s of
       (Inl e, s') \<Rightarrow> (Inl (Errorf ''begin idempotency'' e), s')
     | (Inr _, s1) \<Rightarrow>
       (case claim_body k key hash now s1 of
          (Inl e, s2) \<Rightarrow> (Inl e, rollback s1 s2)
        | (Inr (Some out), s2) \<Rightarrow> (Inr (Some out), rollback s1 s2)
        | (Inr None, s2) \<Rightarrow>
          (case query (\<lambda>_. ()) s2 of
             (Inl e, s3) \<Rightarrow> (Inl (Errorf ''claim idempotency key'' e), rollback s1 s3)
           | (Inr _, s3) \<Rightarrow> (Inr None, s3))))"

definition FinishIdempotencyKey :: "int \<Rightarrow> string \<Rightarrow> StoredResponse \<Rightarrow> ('z, unit) psql" where
  "FinishIdempotencyKey k key r = mapErr (Errorf ''store idempotent reply'') (stmt (\<lambda>s. (Inr (), s\<lparr>t_idem :=
     map (\<lambda>q. if ik_api_key_id q = k \<and> ik_key q = key
       then q\<lparr>ik_status := sr_Status r, ik_content_type := sr_ContentType r, ik_body := sr_Body r\<rparr> else q) (t_idem s)\<rparr>)))"

definition ReleaseIdempotencyKey :: "int \<Rightarrow> string \<Rightarrow> ('z, unit) psql" where
  "ReleaseIdempotencyKey k key =
     thn (mapErr (Errorf ''release idempotency key'') (drop_idem (\<lambda>r. ik_api_key_id r = k \<and> ik_key r = key))) (ret ())"

definition DeleteIdempotencyKeysBefore :: "gotime \<Rightarrow> ('z, nat) psql" where
  "DeleteIdempotencyKeysBefore t = mapErr (Errorf ''delete old idempotency keys'') (drop_idem (\<lambda>r. ik_created_at r < unix t))"

section \<open>Facts\<close>

definition keys_inv :: "'z panel_scheme \<Rightarrow> bool" where
  "keys_inv s \<longleftrightarrow>
     distinct (map ak_id (t_api_keys s)) \<and> (\<forall>r \<in> set (t_api_keys s). ak_id r \<le> t_api_key_seq s) \<and>
     distinct (map (\<lambda>r. nocase (ak_name r)) (t_api_keys s)) \<and> distinct (map ak_token_hash (t_api_keys s)) \<and>
     distinct (map (\<lambda>r. (ik_api_key_id r, ik_key r)) (t_idem s)) \<and>
     ik_api_key_id ` set (t_idem s) \<subseteq> ak_id ` set (t_api_keys s)"

lemma keys_inv_faults [simp]: "keys_inv (s\<lparr>t_faults := bs\<rparr>) = keys_inv s"
  by (simp add: keys_inv_def)

text \<open>A claim, when nothing fails: by the live entry of the key, if any.\<close>

lemma find_filter_key:
  assumes "distinct (map f xs)"
  shows "find (\<lambda>r. f r = k) (filter (\<lambda>r. \<not> (f r = k \<and> P r)) xs) =
    (case find (\<lambda>r. f r = k) xs of None \<Rightarrow> None | Some r \<Rightarrow> if P r then None else Some r)"
  using assms
proof (induction xs)
  case Nil
  then show ?case by simp
next
  case (Cons x xs)
  show ?case
  proof (cases "f x = k")
    case True
    then have "\<forall>y \<in> set xs. f y \<noteq> k" using Cons.prems by (auto simp: image_iff)
    then have "find (\<lambda>r. f r = k) (filter (\<lambda>r. \<not> (f r = k \<and> P r)) xs) = None"
      by (auto simp: find_None_iff)
    with True show ?thesis by simp
  qed (use Cons in simp)
qed

lemma idem_of_pair: "idem_of k key s = find (\<lambda>r. (ik_api_key_id r, ik_key r) = (k, key)) (t_idem s)"
  by (simp add: idem_of_def)

definition without :: "int \<Rightarrow> string \<Rightarrow> idem_row list \<Rightarrow> idem_row list" where
  "without k key rs = filter (\<lambda>r. \<not> (ik_api_key_id r = k \<and> ik_key r = key)) rs"

lemma drop_one:
  assumes "distinct (map (\<lambda>r. (ik_api_key_id r, ik_key r)) rs)" and "find (\<lambda>r. (ik_api_key_id r, ik_key r) = (k, key)) rs = Some r" and "P r"
  shows "filter (\<lambda>r. \<not> (ik_api_key_id r = k \<and> ik_key r = key \<and> P r)) rs = without k key rs"
  unfolding without_def
proof (rule filter_cong[OF refl])
  fix q assume q: "q \<in> set rs"
  have r: "r \<in> set rs" "(ik_api_key_id r, ik_key r) = (k, key)" using assms(2) by (auto simp: find_Some_iff)
  have "q = r" if "ik_api_key_id q = k" "ik_key q = key"
    using distinct_map_inj_on[OF assms(1) q r(1)] that r(2) by simp
  then show "(\<not> (ik_api_key_id q = k \<and> ik_key q = key \<and> P q)) = (\<not> (ik_api_key_id q = k \<and> ik_key q = key))"
    using assms(3) by auto
qed

lemma drop_none:
  assumes "case find (\<lambda>r. (ik_api_key_id r, ik_key r) = (k, key)) rs of None \<Rightarrow> True | Some r \<Rightarrow> \<not> P r"
    and "distinct (map (\<lambda>r. (ik_api_key_id r, ik_key r)) rs)"
  shows "filter (\<lambda>r. \<not> (ik_api_key_id r = k \<and> ik_key r = key \<and> P r)) rs = rs"
proof (rule filter_True, rule ballI)
  fix q assume q: "q \<in> set rs"
  show "\<not> (ik_api_key_id q = k \<and> ik_key q = key \<and> P q)"
  proof
    assume a: "ik_api_key_id q = k \<and> ik_key q = key \<and> P q"
    then have "find (\<lambda>r. (ik_api_key_id r, ik_key r) = (k, key)) rs \<noteq> None" using q by (auto simp: find_None_iff)
    then obtain r where r: "find (\<lambda>r. (ik_api_key_id r, ik_key r) = (k, key)) rs = Some r" by auto
    then have "r \<in> set rs" "(ik_api_key_id r, ik_key r) = (k, key)" by (auto simp: find_Some_iff)
    then have "q = r" using distinct_map_inj_on[OF assms(2) q] a by simp
    then show False using assms(1) r a by simp
  qed
qed

text \<open>
  The result of a claim by the entry of the key: none or an outdated one is replaced by a running
  one, else the claim is turned away, told to wait, or answered.
\<close>

definition claim_result :: "int \<Rightarrow> string \<Rightarrow> string \<Rightarrow> gotime \<Rightarrow> 'z panel_scheme \<Rightarrow> (err + StoredResponse option) \<times> 'z panel_scheme" where
  "claim_result k key hash now s =
     (case idem_of k key s of
        Some r \<Rightarrow>
          if outdated now r then (Inr None, s\<lparr>t_idem := without k key (t_idem s) @ [running k key hash now]\<rparr>)
          else if ik_request_hash r \<noteq> hash then (Inl ErrIdempotencyMismatch, s)
          else if ik_status r = 0 then (Inl ErrIdempotencyBusy, s)
          else (Inr (Some (stored r)), s)
      | None \<Rightarrow> (Inr None, s\<lparr>t_idem := t_idem s @ [running k key hash now]\<rparr>))"

lemma claim_result_granted:
  assumes "claim_result k key hash now s = (Inr None, s1)"
  obtains rs where "s1 = s\<lparr>t_idem := rs @ [running k key hash now]\<rparr>" and "\<forall>q \<in> set rs. (ik_api_key_id q, ik_key q) \<noteq> (k, key)"
proof (cases "idem_of k key s")
  case None
  then have "\<forall>q \<in> set (t_idem s). (ik_api_key_id q, ik_key q) \<noteq> (k, key)" by (auto simp: idem_of_def find_None_iff)
  then show ?thesis using that assms None by (auto simp: claim_result_def)
next
  case (Some r)
  then have "s1 = s\<lparr>t_idem := without k key (t_idem s) @ [running k key hash now]\<rparr>"
    using assms by (auto simp: claim_result_def split: if_splits)
  moreover have "\<forall>q \<in> set (without k key (t_idem s)). (ik_api_key_id q, ik_key q) \<noteq> (k, key)" by (auto simp: without_def)
  ultimately show ?thesis by (rule that)
qed

lemma claim_body_run:
  assumes s1_def: "s1 = s\<lparr>t_idem := filter (\<lambda>r. \<not> (ik_api_key_id r = k \<and> ik_key r = key \<and> outdated now r)) (t_idem s)\<rparr>"
    and nf: "t_faults s = []" and ak: "find (\<lambda>a. ak_id a = k) (t_api_keys s) \<noteq> None"
  shows "claim_body k key hash now s =
    (case idem_of k key s1 of
       None \<Rightarrow> (Inr None, s1\<lparr>t_idem := t_idem s1 @ [running k key hash now]\<rparr>)
     | Some r \<Rightarrow> (if ik_request_hash r \<noteq> hash then (Inl ErrIdempotencyMismatch, s1)
         else if ik_status r = 0 then (Inl ErrIdempotencyBusy, s1) else (Inr (Some (stored r)), s1)))"
proof -
  have drop: "drop_idem P s = (Inr (length (filter P (t_idem s))), s\<lparr>t_idem := filter (\<lambda>r. \<not> P r) (t_idem s)\<rparr>)" for P
    using nf by (simp add: drop_idem_def)
  have nf1: "t_faults s1 = []" and ak1: "find (\<lambda>a. ak_id a = k) (t_api_keys s1) \<noteq> None"
    using nf ak by (simp_all add: s1_def)
  have run: "claim_body k key hash now s = bnd (mapErr (Errorf ''load idempotency key'') (query (idem_of k key))) (\<lambda>row.
     case row of
       None \<Rightarrow> thn (mapErr (Errorf ''claim idempotency key'') (insert_idem (running k key hash now))) (ret None)
     | Some r \<Rightarrow>
         if ik_request_hash r \<noteq> hash then throw ErrIdempotencyMismatch
         else if ik_status r = 0 then throw ErrIdempotencyBusy
         else ret (Some (stored r))) s1"
    unfolding claim_body_def by (subst thn_def, rule bnd_run_Inr) (simp add: mapErr_def drop s1_def)
  have ins: "insert_idem (running k key hash now) s1 = (Inr (), s1\<lparr>t_idem := t_idem s1 @ [running k key hash now]\<rparr>)"
    if "idem_of k key s1 = None"
    using nf1 ak1 that by (simp add: insert_idem_def running_def)
  show ?thesis
    unfolding run using nf1 ins
    by (cases "idem_of k key s1") (simp_all add: bnd_def thn_def mapErr_def)
qed

lemma ClaimIdempotencyKey_result:
  assumes nf: "t_faults s = []" and d: "distinct (map (\<lambda>r. (ik_api_key_id r, ik_key r)) (t_idem s))"
    and key: "\<exists>a \<in> set (t_api_keys s). ak_id a = k"
  shows "ClaimIdempotencyKey k key hash now s = claim_result k key hash now s"
proof -
  let ?rest = "filter (\<lambda>r. \<not> (ik_api_key_id r = k \<and> ik_key r = key \<and> outdated now r)) (t_idem s)"
  define s1 where "s1 = s\<lparr>t_idem := ?rest\<rparr>"
  have ak: "find (\<lambda>a. ak_id a = k) (t_api_keys s) \<noteq> None" using key by (auto simp: find_None_iff)
  have look: "idem_of k key s1 = (case idem_of k key s of None \<Rightarrow> None | Some r \<Rightarrow> if outdated now r then None else Some r)"
    using find_filter_key[OF d, of "(k, key)" "outdated now"] by (simp add: idem_of_pair s1_def)
  note body = claim_body_run[OF s1_def nf ak]
  have started: "query (\<lambda>_. ()) s = (Inr (), s)" using nf by simp
  have undone: "rollback s t = s" if "t_faults t = []" for t
    using nf that by (simp add: rollback_def faults_id)
  have nf1: "t_faults s1 = []" "t_faults (s1\<lparr>t_idem := x\<rparr>) = []" for x using nf by (simp_all add: s1_def)
  show ?thesis
  proof (cases "idem_of k key s")
    case None
    then have "?rest = t_idem s" using d by (intro drop_none) (simp_all add: idem_of_pair)
    then have "s1 = s" by (simp add: s1_def)
    then show ?thesis
      using None look nf1 by (simp add: ClaimIdempotencyKey_def body started claim_result_def)
  next
    case (Some r)
    show ?thesis
    proof (cases "outdated now r")
      case True
      have "?rest = without k key (t_idem s)" using d Some True by (intro drop_one) (simp_all add: idem_of_pair)
      then have "s1\<lparr>t_idem := t_idem s1 @ x\<rparr> = s\<lparr>t_idem := without k key (t_idem s) @ x\<rparr>" for x by (simp add: s1_def)
      then show ?thesis
        using Some True look nf nf1 by (simp add: ClaimIdempotencyKey_def body started claim_result_def)
    next
      case False
      then show ?thesis
        using Some look nf1 undone[OF nf1(1)] by (simp add: ClaimIdempotencyKey_def body started claim_result_def)
    qed
  qed
qed

lemma keeps_keys_stmt: "(\<And>s. keys_inv s \<Longrightarrow> keys_inv (snd (f s))) \<Longrightarrow> keeps keys_inv (stmt f)"
  by (rule keeps_stmt) simp_all

lemma keeps_keys_query [prog_rules, intro]: "keeps keys_inv (query f)"
  by (rule keeps_query) simp

lemma inv_insert_api_key:
  assumes "keys_inv s" shows "keys_inv (snd (insert_api_key r s))"
proof (cases "api_key_clash (t_api_keys s) (r\<lparr>ak_id := t_api_key_seq s + 1\<rparr>)")
  case (Some e)
  then show ?thesis using assms by (simp add: insert_api_key_def Let_def)
next
  case None
  then have "\<forall>q \<in> set (t_api_keys s). nocase (ak_name q) \<noteq> nocase (ak_name r) \<and> ak_token_hash q \<noteq> ak_token_hash r"
    by (auto simp: api_key_clash_def list_ex_iff split: if_splits)
  moreover have "ak_id q \<noteq> t_api_key_seq s + 1" if "q \<in> set (t_api_keys s)" for q
    using assms that by (force simp: keys_inv_def)
  ultimately show ?thesis
    using assms None by (fastforce simp: insert_api_key_def Let_def keys_inv_def image_iff)
qed

lemma inv_drop_idem: "keys_inv s \<Longrightarrow> keys_inv (s\<lparr>t_idem := filter P (t_idem s)\<rparr>)"
  by (auto simp: keys_inv_def distinct_map_filter)

lemma keeps_drop_idem [prog_rules, intro]: "keeps keys_inv (drop_idem P)"
  unfolding drop_idem_def by (rule keeps_keys_stmt) (simp add: inv_drop_idem)

lemma keeps_insert_idem: "keeps keys_inv (insert_idem r)"
  unfolding insert_idem_def
  by (rule keeps_keys_stmt) (auto simp: keys_inv_def idem_of_def find_None_iff find_Some_iff intro: rev_image_eqI)

lemma keeps_claim_body: "keeps keys_inv (claim_body k key hash now)"
  unfolding claim_body_def
  by (intro keeps_thn keeps_bnd keeps_mapErr keeps_drop_idem keeps_keys_query keeps_case_option keeps_insert_idem keeps_ret
      keeps_if keeps_throw)

lemma keys_inv_rollback: "keys_inv s \<Longrightarrow> keys_inv (rollback s t)"
  by (simp add: rollback_def)

lemma keeps_ClaimIdempotencyKey: "keeps keys_inv (ClaimIdempotencyKey k key hash now)"
proof (rule keepsI)
  fix s :: "'b panel_scheme" assume s: "keys_inv s"
  show "keys_inv (snd (ClaimIdempotencyKey k key hash now s))"
  proof (cases rule: query_cases[of "\<lambda>_. ()" s])
    case (fault bs)
    then show ?thesis using s by (simp add: ClaimIdempotencyKey_def)
  next
    case (ok bs)
    let ?s1 = "s\<lparr>t_faults := bs\<rparr>"
    have s1: "keys_inv ?s1" using s by simp
    obtain r s2 where m: "claim_body k key hash now ?s1 = (r, s2)" by (cases "claim_body k key hash now ?s1")
    have s2: "keys_inv s2" using keeps_run[OF keeps_claim_body s1 m] .
    show ?thesis
      using ok m s2 keys_inv_rollback[OF s1]
      by (cases rule: query_cases[of "\<lambda>_. ()" s2]) (auto simp: ClaimIdempotencyKey_def split: sum.splits option.splits)
  qed
qed

lemma keys_inv_map_idem:
  assumes "\<And>r. ik_api_key_id (f r) = ik_api_key_id r" and "\<And>r. ik_key (f r) = ik_key r" and "keys_inv s"
  shows "keys_inv (s\<lparr>t_idem := map f (t_idem s)\<rparr>)"
proof -
  have "map (\<lambda>r. (ik_api_key_id r, ik_key r)) (map f (t_idem s)) = map (\<lambda>r. (ik_api_key_id r, ik_key r)) (t_idem s)"
    "ik_api_key_id ` set (map f (t_idem s)) = ik_api_key_id ` set (t_idem s)"
    using assms(1,2) by (simp_all add: image_image)
  then show ?thesis using assms(3) unfolding keys_inv_def by (simp del: map_map set_map)
qed

lemma keys_inv_map_keys:
  assumes "\<And>r. ak_id (f r) = ak_id r" and "\<And>r. ak_name (f r) = ak_name r" and "\<And>r. ak_token_hash (f r) = ak_token_hash r" and "keys_inv s"
  shows "keys_inv (s\<lparr>t_api_keys := map f (t_api_keys s)\<rparr>)"
proof -
  have "map ak_id (map f (t_api_keys s)) = map ak_id (t_api_keys s)"
    "map ak_token_hash (map f (t_api_keys s)) = map ak_token_hash (t_api_keys s)"
    "map (\<lambda>r. nocase (ak_name r)) (map f (t_api_keys s)) = map (\<lambda>r. nocase (ak_name r)) (t_api_keys s)"
    "ak_id ` set (map f (t_api_keys s)) = ak_id ` set (t_api_keys s)"
    using assms(1-3) by (simp_all add: image_image)
  moreover have "\<forall>r \<in> set (map f (t_api_keys s)). ak_id r \<le> t_api_key_seq s" using assms(1,4) by (auto simp: keys_inv_def)
  ultimately show ?thesis using assms(4) unfolding keys_inv_def by (simp del: map_map set_map)
qed

lemma keeps_FinishIdempotencyKey: "keeps keys_inv (FinishIdempotencyKey k key r)"
  unfolding FinishIdempotencyKey_def
  by (intro keeps_mapErr keeps_keys_stmt) (simp, intro keys_inv_map_idem, simp_all)

lemma keeps_ReleaseIdempotencyKey: "keeps keys_inv (ReleaseIdempotencyKey k key)"
  unfolding ReleaseIdempotencyKey_def by (intro keeps_thn keeps_mapErr keeps_drop_idem keeps_ret)

lemma keeps_DeleteIdempotencyKeysBefore: "keeps keys_inv (DeleteIdempotencyKeysBefore t)"
  unfolding DeleteIdempotencyKeysBefore_def by (intro keeps_mapErr keeps_drop_idem)

lemma keeps_CreateAPIKey: "keeps keys_inv (CreateAPIKey now k)"
  unfolding CreateAPIKey_def by (intro keeps_bnd keeps_mapErr keeps_keys_stmt inv_insert_api_key keeps_ret)

lemma keeps_TouchAPIKey: "keeps keys_inv (TouchAPIKey k ip at)"
  unfolding TouchAPIKey_def
  by (intro keeps_mapErr keeps_keys_stmt) (simp, intro keys_inv_map_keys, simp_all)

lemma keeps_DeleteAPIKey: "keeps keys_inv (DeleteAPIKey k)"
proof -
  have "keys_inv (s\<lparr>t_api_keys := filter (\<lambda>r. ak_id r \<noteq> k) (t_api_keys s), t_idem := filter (\<lambda>r. ik_api_key_id r \<noteq> k) (t_idem s)\<rparr>)"
    if "keys_inv s" for s :: "'b panel_scheme"
    using that by (auto simp: keys_inv_def distinct_map_filter)
  then have "keeps keys_inv (stmt (\<lambda>s :: 'b panel_scheme. (Inr (length (filter (\<lambda>r. ak_id r = k) (t_api_keys s))),
       s\<lparr>t_api_keys := filter (\<lambda>r. ak_id r \<noteq> k) (t_api_keys s),
         t_idem := filter (\<lambda>r. ik_api_key_id r \<noteq> k) (t_idem s)\<rparr>)))"
    by (intro keeps_keys_stmt) simp
  then show ?thesis
    unfolding DeleteAPIKey_def by (intro keeps_bnd keeps_mapErr keeps_expectOneRow)
qed

end
