(* ===== verification/PanelProperties.thy ===== *)
theory PanelProperties
  imports TrafficProperties StoreDevices StoreAccounts StoreNodes StoreKeys StoreEvents
begin

text \<open>
  The properties of the tables beside servers and devices: the device list of the API, accounts and
  sessions, API keys and idempotency, events, nodes and webhooks.
\<close>

section \<open>The device list\<close>

text \<open>
  C31. The status filter of the device list, which is SQL, is \<open>wg.Peer.Status\<close>: asking for the
  devices with a status is asking for all of them, loading what counts toward their limits, and
  keeping those whose status it is.
\<close>

theorem devices_filter_is_status:
  assumes "db_inv s" and "t_faults s = []" and "status_Valid (df_Status f)"
    and "\<forall>r \<in> set (t_peers s). reset_ok s r \<and> 0 \<le> pr_data_limit r \<and>
      int64_range (limitUsed (dayKey off (MonthStart off now)) r s)"
    and "Devices off (f\<lparr>df_Status := [], df_Limit := -1\<rparr>) now s = (Inr all, s)"
    and "PeersLimitUsage off (map p_ID all) now s = (Inr used, s)"
  shows "Devices off f now s =
    (Inr (sql_limit (df_Limit f) (filter (\<lambda>p. peer_Status p (usage_of used (p_ID p)) now = df_Status f) all)), s)"
proof -
  let ?m = "dayKey off (MonthStart off now)"
  let ?rows = "sort_key pr_id (filter (row_columns f) (t_peers s))"
  let ?P = "row_status (df_Status f) ?m (unix now) s"
  have st: "row_status [] m at s r" for m at r by (simp add: row_status_def status_defs)
  have cols: "row_columns (f\<lparr>df_Status := [], df_Limit := -1\<rparr>) = row_columns f" by (rule ext) (simp add: row_columns_def)
  have all: "scan_all scanPeer ?rows = Inr all"
    using assms(2,5) by (simp add: Devices_def Let_def bnd_def mapErr_def sql_limit_def st cols)
  have "?P r \<longleftrightarrow> peer_Status p (usage_of used (p_ID p)) now = df_Status f"
    if r: "r \<in> set ?rows" and p: "scanPeer r = Inr p" for r p
  proof -
    have id: "pr_id r \<in> set (map p_ID all)"
      using scan_all_member[OF all r] p scanPeer_columns(1)[OF p] by (metis Inr_inject image_eqI image_set)
    then have "used = filter (\<lambda>(_, t). WgModel.Total t > 0)
        (map (\<lambda>r. (pr_id r, limit_traffic ?m r s)) (filter (\<lambda>r. pr_id r \<in> set (map p_ID all)) (t_peers s)))"
      using assms(2,6) by (cases "all = []") (simp_all add: PeersLimitUsage_def limitUsage_def Let_def mapErr_def)
    moreover have "distinct (map pr_id (t_peers s))" using assms(1) by (simp add: db_inv_def peers_inv_def)
    ultimately have "WgModel.Total (usage_of used (pr_id r)) = limitUsed ?m r s"
      using usage_of_limitUsage[of s r "\<lambda>r. pr_id r \<in> set (map p_ID all)" ?m] id r assms(4) by auto
    then show ?thesis
      using row_status_peer_Status[OF p _ _ assms(3), of "usage_of used (pr_id r)" ?m s now] r assms(4)
      by (simp add: scanPeer_columns(1)[OF p])
  qed
  then have "scan_all scanPeer (filter ?P ?rows) = Inr (filter (\<lambda>p. peer_Status p (usage_of used (p_ID p)) now = df_Status f) all)"
    by (intro scan_all_filter[OF all]) auto
  moreover have "sort_key pr_id (filter (\<lambda>r. row_columns f r \<and> ?P r) (t_peers s)) = filter ?P ?rows"
    by (simp add: filter_sort conj_commute)
  ultimately show ?thesis
    using assms(2) by (simp add: Devices_def Let_def bnd_def mapErr_def scan_all_limit)
qed

definition any_device :: DeviceFilter where
  "any_device = \<lparr>df_InstanceID = 1, df_ExternalID = [], df_Status = StatusActive, df_After = 0, df_Limit = 10\<rparr>"

lemma alice_loads: "scanPeer alice_row = Inr (as_saved 0 (alice\<lparr>p_ID := 1, p_Address := V4 0x0A080002\<rparr>))"
  unfolding alice_row_def by (rule scanPeer_row_of) (simp_all add: alice_def blank_peer_def)

theorem devices_filter_is_status_witness:
  "Devices utc any_device 0 used_db = (Inr [as_saved 0 (alice\<lparr>p_ID := 1, p_Address := V4 0x0A080002\<rparr>)], used_db)"
proof -
  let ?a = "as_saved 0 (alice\<lparr>p_ID := 1, p_Address := V4 0x0A080002\<rparr>)"
  have nf: "t_faults used_db = []" by (simp add: used_db_def office_db_def empty_db_def)
  have peers: "t_peers used_db = [alice_row]" by (simp add: used_db_def)
  have row: "row_columns any_device alice_row" "pr_data_limit alice_row = 0" "p_ID ?a = 1"
    by (simp_all add: row_columns_def any_device_def used_row scanPeer_columns[OF alice_loads])
      (simp add: alice_row_def peer_row_of_def alice_def blank_peer_def)
  have sane: "\<forall>r \<in> set (t_peers used_db). reset_ok used_db r \<and> 0 \<le> pr_data_limit r \<and>
      int64_range (limitUsed (dayKey utc (MonthStart utc 0)) r used_db)"
  proof -
    have ok: "reset_ok used_db alice_row"
      by (simp add: reset_ok_def used_row used_facts) (simp add: alice_row_def peer_row_of_def)
    then have "limitUsed (dayKey utc (MonthStart utc 0)) alice_row used_db = 0"
      by (simp add: limitUsed_limit_traffic limit_traffic_def Let_def traffic_sum_usage_from used_row used_facts)
        (simp add: alice_row_def peer_row_of_def)
    with ok show ?thesis by (simp add: peers row int64_range_def)
  qed
  have cols: "row_columns (any_device\<lparr>df_Status := [], df_Limit := -1\<rparr>) alice_row" using row(1) by (simp add: row_columns_def)
  have st: "row_status [] m at s r" for m at r and s :: db by (simp add: row_status_def status_defs)
  have all: "Devices utc (any_device\<lparr>df_Status := [], df_Limit := -1\<rparr>) 0 used_db = (Inr [?a], used_db)"
    using nf cols by (simp add: Devices_def Let_def bnd_def mapErr_def sql_limit_def st peers alice_loads)
  obtain used where used: "PeersLimitUsage utc (map p_ID [?a]) 0 used_db = (Inr used, used_db)"
    using nf by (simp add: PeersLimitUsage_def limitUsage_def mapErr_def)
  have act: "peer_Status ?a u 0 = StatusActive" for u
    by (simp add: peer_Status_active_iff Blocked_def as_saved_def alice_def blank_peer_def)
  show ?thesis
    using devices_filter_is_status[OF used_db_inv nf _ sane all used]
    by (simp add: act status_Valid_def any_device_def sql_limit_def)
qed

section \<open>Accounts and sessions\<close>


text \<open>
  However many requests try to set the panel up, and whatever fails, at most one creates the
  first user.
\<close>

theorem first_user_once:
  assumes "run_all (map (\<lambda>(now, n, e, h). CreateFirstUser lower now n e h) requests) s = (results, s')"
  shows "length (filter (\<lambda>r. \<not> isl r) results) \<le> 1"
  using assms by (rule first_users_once)

definition admin_row :: user_row where
  "admin_row = (user_row_of 0 ''Ada'' ''ada@example.com'' ''hash'')\<lparr>us_id := 1\<rparr>"

definition admin_db :: db where
  "admin_db = empty_db\<lparr>t_users := [admin_row], t_user_seq := 1\<rparr>"

lemma admin_inv: "accounts_inv admin_db"
  by (simp add: accounts_inv_def admin_db_def admin_row_def empty_db_def user_row_of_def)

theorem first_user_once_witness:
  "\<exists>results s'. run_all (map (\<lambda>(now, n, e, h). CreateFirstUser (\<lambda>r. r) now n e h)
       [(0, ''Ada'', [], ''h''), (5, ''Eve'', [], ''x'')]) empty_db = (results, s') \<and>
     map isl results = [False, True] \<and> length (filter (\<lambda>r. \<not> isl r) results) \<le> 1"
proof -
  let ?run = "run_all (map (\<lambda>(now, n, e, h). CreateFirstUser (\<lambda>r. r) now n e h)
       [(0, ''Ada'', [], ''h''), (5, ''Eve'', [], ''x'')]) empty_db"
  have "map isl (fst ?run) = [False, True]"
    by (simp add: CreateFirstUser_def add_first_user_def add_user_def Let_def bnd_def mapErr_def empty_db_def throw_def)
  then show ?thesis using first_user_once[of "\<lambda>r. r" "[(0, ''Ada'', [], ''h''), (5, ''Eve'', [], ''x'')]" empty_db "fst ?run" "snd ?run"]
    by (metis prod.collapse)
qed

text \<open>
  C36. A one-time code is accepted once: in any run of claims by any users, with any failures, the
  steps granted to one user strictly increase, and all are later than the last step used before.
\<close>

theorem totp_steps_increase:
  assumes "accounts_inv s" and "run_all (map (\<lambda>(k, step). ClaimTOTPStep k step) claims) s = (results, s')"
  shows "sorted_wrt (<) (granted k claims results) \<and>
    (\<forall>step \<in> set (granted k claims results). \<forall>l. last_step k s = Some l \<longrightarrow> l < step)"
proof -
  have "distinct (map us_id (t_users s))" using assms(1) by (simp add: accounts_inv_def)
  from claims_increase[OF this assms(2)] show ?thesis .
qed

theorem totp_steps_increase_witness:
  "\<exists>results s'. run_all (map (\<lambda>(k, step). ClaimTOTPStep k step) [(1, 7), (1, 7), (1, 6), (1, 9)]) admin_db = (results, s') \<and>
     results = [Inr True, Inr False, Inr False, Inr True] \<and> sorted_wrt (<) (granted 1 [(1, 7), (1, 7), (1, 6), (1, 9)] results)"
proof -
  let ?cs = "[(1, 7), (1, 7), (1, 6), (1, 9)] :: (int \<times> int) list"
  let ?run = "run_all (map (\<lambda>(k, step). ClaimTOTPStep k step) ?cs) admin_db"
  have "fst ?run = [Inr True, Inr False, Inr False, Inr True]"
    by (simp add: ClaimTOTPStep_def map_users_def bnd_def mapErr_def admin_db_def admin_row_def empty_db_def user_row_of_def)
  moreover have "sorted_wrt (<) (granted 1 ?cs (fst ?run))"
    using totp_steps_increase[OF admin_inv, of ?cs "fst ?run" "snd ?run" 1] by simp
  ultimately show ?thesis by (metis prod.collapse)
qed

text \<open>
  A session signs its user in until it expires or is deleted: right after \<open>CreateSession\<close> the
  token finds that user before the expiry's second and nobody from then on, and after
  \<open>DeleteSession\<close>, or \<open>DeleteUserSessions\<close> of that user, it finds nobody at any time.
\<close>

theorem session_lifecycle:
  assumes "CreateSession now token k agent expires s = (Inr (), s1)" and "t_faults s1 = []"
  shows "(\<exists>u. UserByID k s1 = (Inr u, s1) \<and> u_ID u = k \<and>
      UserBySessionToken t token s1 = (if unix t < unix expires then Inr u else Inl ErrNotFound, s1)) \<and>
    (\<exists>s2. DeleteSession token s1 = (Inr (), s2) \<and> UserBySessionToken t token s2 = (Inl ErrNotFound, s2)) \<and>
    (\<exists>s2. DeleteUserSessions k s1 = (Inr (), s2) \<and> UserBySessionToken t token s2 = (Inl ErrNotFound, s2))"
proof -
  obtain bs where s1: "s1 = s\<lparr>t_faults := bs, t_sessions := t_sessions s @ [session_row_of now token k agent expires]\<rparr>"
    and new: "\<forall>r \<in> set (t_sessions s). se_token_hash r \<noteq> token" and user: "user_by_id k s \<noteq> None"
    using assms(1) by (rule CreateSession_Inr)
  obtain r where r: "user_by_id k s1 = Some r" "us_id r = k"
    using user s1 by (auto simp: user_by_id_def find_Some_iff)
  have find1: "find (\<lambda>r. se_token_hash r = token \<and> se_expires_at r > unix t) (t_sessions s1) =
      (if unix t < unix expires then Some (session_row_of now token k agent expires) else None)"
    using new by (simp add: s1 find_append_new session_row_of_def)
  have none: "find (\<lambda>r. se_token_hash r = token \<and> se_expires_at r > unix t) (filter (\<lambda>r. \<not> P r) (t_sessions s1)) = None"
    if "P (session_row_of now token k agent expires)" for P
    using new that by (auto simp: s1 find_None_iff session_row_of_def)
  show ?thesis
    using assms(2) r find1 none[of "\<lambda>r. se_token_hash r = token"] none[of "\<lambda>r. se_user_id r = k"]
    by (auto simp: UserByID_def UserBySessionToken_def DeleteSession_def DeleteUserSessions_def drop_sessions_def bnd_def
        thn_def mapErr_def scanUser_def session_row_of_def)
qed

theorem session_lifecycle_witness:
  "\<exists>s1 u. CreateSession 0 ''token'' 1 ''browser'' (60 * second) admin_db = (Inr (), s1) \<and>
     UserBySessionToken (59 * second) ''token'' s1 = (Inr u, s1) \<and> u_ID u = 1 \<and>
     fst (UserBySessionToken (60 * second) ''token'' s1) = Inl ErrNotFound"
proof -
  obtain s1 where s1: "CreateSession 0 ''token'' 1 ''browser'' (60 * second) admin_db = (Inr (), s1)" "t_faults s1 = []"
    by (simp add: CreateSession_def mapErr_def admin_db_def admin_row_def empty_db_def user_row_of_def user_by_id_def)
  have u: "unix (59 * second) = 59" "unix (60 * second) = 60" by (simp_all add: unix_def)
  show ?thesis
    using session_lifecycle[OF s1, of "59 * second"] session_lifecycle[OF s1, of "60 * second"] s1(1) u by auto
qed

section \<open>Nodes\<close>

text \<open>
  Deleting a node takes its servers and their devices with it and nothing else, in one
  transaction: the devices that stay are exactly those whose server stays, the tables stay consistent,
  and a failure, or a node that does not exist, changes nothing.
\<close>

theorem delete_node_cascades:
  assumes "db_inv s"
  shows "case DeleteNode k s of
      (Inl e, s') \<Rightarrow> same_tables s s'
    | (Inr _, s') \<Rightarrow> node_by_id k s \<noteq> None \<and> db_inv s' \<and>
        t_nodes s' = filter (\<lambda>r. nr_id r \<noteq> k) (t_nodes s) \<and>
        t_instances s' = filter (\<lambda>r. ir_node_id r \<noteq> k) (t_instances s) \<and>
        t_peers s' = filter (\<lambda>r. \<exists>i \<in> set (t_instances s'). ir_id i = pr_instance_id r) (t_peers s)"
proof (cases "DeleteNode k s")
  case (Pair res s')
  show ?thesis
  proof (cases res)
    case (Inl e)
    then show ?thesis using Pair unfolding DeleteNode_def by (auto dest: transact_atomic)
  next
    case (Inr u)
    let ?d = "drop_instances (\<lambda>r. ir_node_id r = k) s"
    have del: "node_by_id k s \<noteq> None" "same_tables (?d\<lparr>t_nodes := filter (\<lambda>r. nr_id r \<noteq> k) (t_nodes s)\<rparr>) s'"
      using DeleteNode_Inr[of k s u s'] Pair Inr by auto
    then obtain bs where s': "s' = ?d\<lparr>t_nodes := filter (\<lambda>r. nr_id r \<noteq> k) (t_nodes s), t_faults := bs\<rparr>"
      by (auto simp: same_tables_def)
    have "db_inv s'" using inv_drop_instances[OF assms, of "\<lambda>r. ir_node_id r = k"] by (simp add: s')
    moreover have "t_peers s' = filter (\<lambda>r. \<exists>i \<in> set (t_instances s'). ir_id i = pr_instance_id r) (t_peers s)"
      using surviving_peers[OF assms, of "\<lambda>r. ir_node_id r = k"] by (simp add: s')
    moreover have "t_instances s' = filter (\<lambda>r. ir_node_id r \<noteq> k) (t_instances s)"
      by (simp add: s' drop_instances_fields)
    ultimately show ?thesis using Pair Inr del(1) by (simp add: s')
  qed
qed

theorem delete_node_cascades_witness:
  "case DeleteNode 3 used_db of (Inl e, s') \<Rightarrow> same_tables used_db s' | (Inr _, s') \<Rightarrow> db_inv s'"
  using delete_node_cascades[OF used_db_inv, of 3] by (auto split: prod.splits sum.splits)

section \<open>Idempotency keys\<close>

text \<open>
  A claimed idempotency key makes retries wait, then answers them. Once \<open>ClaimIdempotencyKey\<close> let
  a request run: claims within the next five minutes, before it has finished, are told to wait (or,
  for another request, turned away); once it has finished, claims within a day get its reply, byte
  for byte, and run nothing; once it was released, the next claim runs. Nothing else is written.
\<close>

theorem idempotent_claims:
  assumes "keys_inv s" and "t_faults s = []" and "\<exists>a \<in> set (t_api_keys s). ak_id a = k"
    and "ClaimIdempotencyKey k key hash t0 s = (Inr None, s1)"
  shows "(\<forall>t h. unix (t - idempotencyStale) \<le> unix t0 \<longrightarrow>
        ClaimIdempotencyKey k key h t s1 = (Inl (if h = hash then ErrIdempotencyBusy else ErrIdempotencyMismatch), s1)) \<and>
    (sr_Status r \<noteq> 0 \<longrightarrow> (\<exists>s2. FinishIdempotencyKey k key r s1 = (Inr (), s2) \<and>
        (\<forall>t h. unix (t - IdempotencyTTL) \<le> unix t0 \<longrightarrow>
          ClaimIdempotencyKey k key h t s2 = (if h = hash then Inr (Some r) else Inl ErrIdempotencyMismatch, s2)))) \<and>
    (\<exists>s2. ReleaseIdempotencyKey k key s1 = (Inr (), s2) \<and>
        (\<forall>t h. \<exists>s3. ClaimIdempotencyKey k key h t s2 = (Inr None, s3)))"
proof -
  have d: "distinct (map (\<lambda>r. (ik_api_key_id r, ik_key r)) (t_idem s))" using assms(1) by (simp add: keys_inv_def)
  obtain rs where s1: "s1 = s\<lparr>t_idem := rs @ [running k key hash t0]\<rparr>" and rs: "\<forall>q \<in> set rs. (ik_api_key_id q, ik_key q) \<noteq> (k, key)"
    using assms(4) unfolding ClaimIdempotencyKey_result[OF assms(2) d assms(3)] by (rule claim_result_granted)
  have inv1: "keys_inv s1" using keeps_run[OF keeps_ClaimIdempotencyKey assms(1,4)] .
  then have d1: "distinct (map (\<lambda>r. (ik_api_key_id r, ik_key r)) (t_idem s1))" by (simp add: keys_inv_def)
  have nf1: "t_faults s1 = []" and ak1: "\<exists>a \<in> set (t_api_keys s1). ak_id a = k" using assms(2,3) by (simp_all add: s1)
  have none: "find (\<lambda>r. ik_api_key_id r = k \<and> ik_key r = key) rs = None" using rs by (auto simp: find_None_iff)
  have look: "idem_of k key s1 = Some (running k key hash t0)"
    by (simp add: s1 idem_of_def find_append_new rs[simplified] running_def)
  have day: "unix (t - IdempotencyTTL) \<le> unix (t - idempotencyStale)" for t
    by (rule unix_mono) (simp add: IdempotencyTTL_def idempotencyStale_def)
  have 1: "\<forall>t h. unix (t - idempotencyStale) \<le> unix t0 \<longrightarrow>
        ClaimIdempotencyKey k key h t s1 = (Inl (if h = hash then ErrIdempotencyBusy else ErrIdempotencyMismatch), s1)"
  proof (intro allI impI)
    fix t h assume t: "unix (t - idempotencyStale) \<le> unix t0"
    then have "\<not> outdated t (running k key hash t0)" using day[of t] by (simp add: outdated_def running_def)
    then show "ClaimIdempotencyKey k key h t s1 = (Inl (if h = hash then ErrIdempotencyBusy else ErrIdempotencyMismatch), s1)"
      unfolding ClaimIdempotencyKey_result[OF nf1 d1 ak1] by (simp add: claim_result_def look) (simp add: running_def)
  qed
  let ?fin = "\<lambda>q. if ik_api_key_id q = k \<and> ik_key q = key
       then q\<lparr>ik_status := sr_Status r, ik_content_type := sr_ContentType r, ik_body := sr_Body r\<rparr> else q"
  let ?s2 = "s1\<lparr>t_idem := map ?fin (t_idem s1)\<rparr>"
  have 2: "sr_Status r \<noteq> 0 \<longrightarrow> (\<exists>s2. FinishIdempotencyKey k key r s1 = (Inr (), s2) \<and>
        (\<forall>t h. unix (t - IdempotencyTTL) \<le> unix t0 \<longrightarrow>
          ClaimIdempotencyKey k key h t s2 = (if h = hash then Inr (Some r) else Inl ErrIdempotencyMismatch, s2)))"
  proof
    assume st: "sr_Status r \<noteq> 0"
    have fin: "FinishIdempotencyKey k key r s1 = (Inr (), ?s2)" using nf1 by (simp add: FinishIdempotencyKey_def mapErr_def)
    have inv2: "keys_inv ?s2" using keeps_run[OF keeps_FinishIdempotencyKey inv1 fin] .
    then have d2: "distinct (map (\<lambda>r. (ik_api_key_id r, ik_key r)) (t_idem ?s2))" by (simp add: keys_inv_def)
    have look2: "idem_of k key ?s2 = Some (?fin (running k key hash t0))"
      using look find_map_same[of "\<lambda>r. ik_api_key_id r = k \<and> ik_key r = key" ?fin "t_idem s1"] by (simp add: idem_of_def)
    have "ClaimIdempotencyKey k key h t ?s2 = (if h = hash then Inr (Some r) else Inl ErrIdempotencyMismatch, ?s2)"
      if t: "unix (t - IdempotencyTTL) \<le> unix t0" for t h
    proof -
      have "\<not> outdated t (?fin (running k key hash t0))" using t st by (simp add: outdated_def running_def)
      moreover have "ik_request_hash (?fin (running k key hash t0)) = hash" "ik_status (?fin (running k key hash t0)) \<noteq> 0"
        "stored (?fin (running k key hash t0)) = r" using st by (simp_all add: running_def stored_def)
      moreover have nf2: "t_faults ?s2 = []" and ak2: "\<exists>a \<in> set (t_api_keys ?s2). ak_id a = k" using nf1 ak1 by simp_all
      ultimately show ?thesis
        unfolding ClaimIdempotencyKey_result[OF nf2 d2 ak2] claim_result_def look2 option.case by (simp only: if_False if_True) auto
    qed
    then show "\<exists>s2. FinishIdempotencyKey k key r s1 = (Inr (), s2) \<and>
        (\<forall>t h. unix (t - IdempotencyTTL) \<le> unix t0 \<longrightarrow>
          ClaimIdempotencyKey k key h t s2 = (if h = hash then Inr (Some r) else Inl ErrIdempotencyMismatch, s2))"
      using fin by blast
  qed
  let ?s3 = "s1\<lparr>t_idem := without k key (t_idem s1)\<rparr>"
  have rel: "ReleaseIdempotencyKey k key s1 = (Inr (), ?s3)"
    using nf1 by (simp add: ReleaseIdempotencyKey_def thn_def bnd_def mapErr_def drop_idem_def without_def)
  have inv3: "keys_inv ?s3" using keeps_run[OF keeps_ReleaseIdempotencyKey inv1 rel] .
  then have d3: "distinct (map (\<lambda>r. (ik_api_key_id r, ik_key r)) (t_idem ?s3))" by (simp add: keys_inv_def)
  have nf3: "t_faults ?s3 = []" and ak3: "\<exists>a \<in> set (t_api_keys ?s3). ak_id a = k" using nf1 ak1 by simp_all
  have "idem_of k key ?s3 = None" by (auto simp: idem_of_def without_def find_None_iff)
  then have "\<exists>s4. ClaimIdempotencyKey k key h t ?s3 = (Inr None, s4)" for t h
    unfolding ClaimIdempotencyKey_result[OF nf3 d3 ak3] by (simp add: claim_result_def)
  with 1 2 rel show ?thesis by blast
qed

definition shop_key :: api_key_row where
  "shop_key = (api_key_row_of 0 \<lparr>k_ID = 0, k_Name = ''shop'', k_Prefix = ''tp_abc'', k_TokenHash = ''h'',
     k_Scopes = [''devices:write''], k_ExpiresAt = None, k_LastUsedAt = None, k_LastUsedIP = [], k_CreatedAt = 0\<rparr>)\<lparr>ak_id := 1\<rparr>"

definition shop_panel :: panel where
  "shop_panel = empty_panel\<lparr>t_api_keys := [shop_key], t_api_key_seq := 1\<rparr>"

lemma shop_facts: "keys_inv shop_panel" "t_faults shop_panel = []" "\<exists>a \<in> set (t_api_keys shop_panel). ak_id a = 1"
  by (simp_all add: keys_inv_def shop_panel_def shop_key_def api_key_row_of_def empty_panel_def db.defs empty_db_def)

lemma shop_claim: "\<exists>s1. ClaimIdempotencyKey 1 ''order-7'' hash t shop_panel = (Inr None, s1)"
proof -
  have "idem_of 1 ''order-7'' shop_panel = None" by (simp add: idem_of_def shop_panel_def empty_panel_def db.defs)
  moreover have "distinct (map (\<lambda>r. (ik_api_key_id r, ik_key r)) (t_idem shop_panel))"
    using shop_facts(1) by (simp add: keys_inv_def)
  ultimately show ?thesis
    using ClaimIdempotencyKey_result[OF shop_facts(2) _ shop_facts(3)] by (simp add: claim_result_def)
qed

theorem idempotent_claims_witness:
  "\<exists>s1 s2. ClaimIdempotencyKey 1 ''order-7'' ''A'' 0 shop_panel = (Inr None, s1) \<and>
     fst (ClaimIdempotencyKey 1 ''order-7'' ''A'' second s1) = Inl ErrIdempotencyBusy \<and>
     FinishIdempotencyKey 1 ''order-7'' \<lparr>sr_Status = 201, sr_ContentType = [], sr_Body = ''{}''\<rparr> s1 = (Inr (), s2) \<and>
     fst (ClaimIdempotencyKey 1 ''order-7'' ''A'' (3600 * second) s2) = Inr (Some \<lparr>sr_Status = 201, sr_ContentType = [], sr_Body = ''{}''\<rparr>)"
proof -
  obtain s1 where s1: "ClaimIdempotencyKey 1 ''order-7'' ''A'' 0 shop_panel = (Inr None, s1)" using shop_claim by blast
  have t: "unix (second - idempotencyStale) \<le> unix 0" "unix (3600 * second - IdempotencyTTL) \<le> unix 0"
    by (simp_all add: unix_def idempotencyStale_def IdempotencyTTL_def)
  show ?thesis
    using idempotent_claims[OF shop_facts s1, of "\<lparr>sr_Status = 201, sr_ContentType = [], sr_Body = ''{}''\<rparr>"] s1 t
    by fastforce
qed

section \<open>The activity log\<close>

text \<open>
  The three categories the log is filtered by partition it: every event is listed under exactly
  one of connection, auth and change.
\<close>

theorem event_categories_partition:
  "\<exists>!c. c \<in> {CategoryConnection, CategoryAuth, CategoryChange} \<and> category_matches c kind"
  by (rule category_partition)

text \<open>
  A client that polls the log in pages, oldest first, each after the last id it saw, gets every
  event that matches its filter once and in order, and stops: as many pages as there are events are
  enough, whatever the page size.
\<close>

theorem event_polling_complete:
  assumes "events_inv s" and "t_faults s = []" and "0 < ef_Limit f" and "0 \<le> after"
    and "length (t_events s) \<le> fuel"
  shows "poll fuel f after s = (Inr (map event_of_row
    (filter (\<lambda>r. event_matches (f\<lparr>ef_After := 0\<rparr>) r \<and> ev_id r > after) (t_events s))), s)"
proof -
  have "length (pending f after s) \<le> fuel" using assms(5) by (simp add: pending_def le_trans[OF length_filter_le])
  from poll_complete[OF assms(1-4) this] show ?thesis by (simp add: pending_def)
qed

definition one_event :: panel where
  "one_event = empty_panel\<lparr>t_events := [\<lparr>ev_id = 1, ev_created_at = 0, ev_kind = ''server.down'', ev_instance_id = Some 1,
     ev_instance_name = ''office'', ev_peer_id = None, ev_peer_name = [], ev_node_name = [], ev_ip = [], ev_country = [],
     ev_detail = [], ev_actor = []\<rparr>], t_event_seq := 1\<rparr>"

definition all_events :: EventFilter where
  "all_events = \<lparr>ef_Before = 0, ef_After = 0, ef_Ascending = True, ef_Limit = 1, ef_InstanceID = 0, ef_PeerID = 0,
     ef_Category = [], ef_Kinds = [], ef_Families = []\<rparr>"

theorem event_polling_complete_witness:
  "\<exists>es. poll 1 all_events 0 one_event = (Inr es, one_event) \<and> map e_Kind es = [''server.down'']"
proof -
  have tables: "t_faults one_event = []" "events_inv one_event" "length (t_events one_event) \<le> 1"
    by (simp_all add: one_event_def events_inv_def empty_panel_def db.defs empty_db_def)
  have m: "event_matches (all_events\<lparr>ef_After := 0\<rparr>) r" for r
    by (simp add: event_matches_def all_events_def category_matches_def category_defs)
  have "0 < ef_Limit all_events" by (simp add: all_events_def)
  from event_polling_complete[OF tables(2,1) this, of 0 1] tables(3) show ?thesis
    by (simp add: m) (simp add: one_event_def event_of_row_def)
qed

end
