(* ===== verification/CommandProperties.thy ===== *)
theory CommandProperties
  imports NodeUpFacts Watch InstanceFacts PanelProperties
begin

text \<open>
  Properties of the commands of the panel, from the API's services down to the database and the
  machines: the commands on devices (internal/peer), on servers (internal/instance) and the deployment
  manager (internal/deploy), with the machine of internal/docker/dockertest where a machine is needed.
  \<open>office_world\<close> is the panel with the one server of StoreProperties and that machine, for the witnesses.
\<close>

definition idle_notifier :: notifier where
  "idle_notifier = \<lparr>nt_cfg = None, nt_status = \<lparr>st_LastSentAt = None, st_LastError = [], st_LastErrorAt = None\<rparr>, nt_sent = [], nt_queue = []\<rparr>"

definition world_of :: "db \<Rightarrow> fake \<Rightarrow> fake world" where
  "world_of d m = db.extend d \<lparr>t_api_keys = [], t_api_key_seq = 0, t_idem = [], t_events = [], t_event_seq = 0,
     t_webhooks = [], t_webhook_seq = 0, t_deliveries = [], t_delivery_seq = 0, sv_notifier = idle_notifier,
     w_machine = (\<lambda>_. m), w_blocked = (\<lambda>_. None), w_down = (\<lambda>_. None), w_rebuild = (\<lambda>_. False), w_activity = (\<lambda>_. []),
     w_steps = []\<rparr>"

lemma world_of_fields [simp]:
  "devices (world_of d m) = devices d" "t_faults (world_of d m) = t_faults d" "w_machine (world_of d m) = (\<lambda>_. m)"
  "w_rebuild (world_of d m) n = False" "t_peers (world_of d m) = t_peers d" "t_instances (world_of d m) = t_instances d"
  "t_peer_seq (world_of d m) = t_peer_seq d"
  by (simp_all add: world_of_def devices_def db.defs)

definition office_world :: "fake world" where "office_world = world_of office_db new_fake"

definition utc_env :: "gotime \<Rightarrow> env" where
  "utc_env now = \<lparr>env_now = now, env_off = (\<lambda>_. 0), env_geo = None, env_actor = []\<rparr>"

definition office_manager :: "fake manager" where
  "office_manager = \<lparr>mg_local = fake_host ''/data'', mg_nodes = (\<lambda>n. if n = 1 then Inr (fake_host ''/srv'') else Inl ErrOffline), mg_prefix = DefaultContainerPrefix,
     mg_image = ''tunploy/wireguard:abc'', mg_files = [], mg_env = utc_env 0\<rparr>"

lemma office_world_inv: "db_inv office_world"
proof -
  have "devices office_world = devices office_db" by (simp add: office_world_def)
  then have "db_inv office_world = db_inv office_db"
    using devices_db_inv devices_fields by (simp add: db_inv_def instances_inv_def peers_inv_def usage_inv_def peer_row_ok_def instance_by_id_def devices_def db.defs)
  then show ?thesis using office_db_inv by simp
qed

section \<open>Machines\<close>

lemma Instances_Inr:
  assumes "Instances s = (Inr all, s')"
  shows "map scanInstance (sort_key ir_id (t_instances s)) = map Inr all \<and> (\<exists>bs. s' = s\<lparr>t_faults := bs\<rparr>)"
proof -
  obtain rows s1 where q: "mapErr (Errorf ''list instances'') (query (\<lambda>s. sort_key ir_id (t_instances s))) s = (Inr rows, s1)"
    and r: "liftE (scan_all scanInstance rows) s1 = (Inr all, s')"
    using assms unfolding Instances_def by (rule bnd_InrE)
  from query_Inr[OF mapErr_InrE[OF q]] r show ?thesis by (auto simp: scan_all_map)
qed

lemma InstanceByID_reads:
  assumes "InstanceByID k s = (Inr i, s')" shows "\<exists>bs. s' = s\<lparr>t_faults := bs\<rparr>"
proof -
  obtain row u where q: "mapErr (Errorf ''scan instance'') (query (instance_by_id k)) s = (Inr row, u)"
    and r: "(case row of None \<Rightarrow> throw ErrNotFound | Some r \<Rightarrow> liftE (scanInstance r)) u = (Inr i, s')"
    using assms unfolding InstanceByID_def by (rule bnd_InrE)
  have "s' = u" using r by (auto split: option.splits)
  then show ?thesis using query_Inr[OF mapErr_InrE[OF q]] by blast
qed

lemma scanInstance_fields: "scanInstance r = Inr i \<Longrightarrow> in_ID i = ir_id r \<and> in_NodeID i = ir_node_id r"
  by (auto simp: scanInstance_def Let_def split: option.splits)

lemma Instances_rows:
  assumes "Instances s = (Inr all, s')"
  shows "r \<in> set (t_instances s) \<longleftrightarrow> r \<in> set (t_instances s) \<and> (\<exists>i \<in> set all. scanInstance r = Inr i)"
    and "i \<in> set all \<longleftrightarrow> (\<exists>r \<in> set (t_instances s). scanInstance r = Inr i)"
proof -
  have "scanInstance ` set (t_instances s) = Inr ` set all"
    using arg_cong[OF conjunct1[OF Instances_Inr[OF assms]], of set] by simp
  then show "r \<in> set (t_instances s) \<longleftrightarrow> r \<in> set (t_instances s) \<and> (\<exists>i \<in> set all. scanInstance r = Inr i)"
    and "i \<in> set all \<longleftrightarrow> (\<exists>r \<in> set (t_instances s). scanInstance r = Inr i)"
    by (blast, metis (no_types, lifting) imageE image_eqI sum.inject(2))
qed

lemma Instances_ids:
  assumes "Instances s = (Inr all, s')" and "db_inv s"
  shows "distinct (map in_ID all)"
proof -
  let ?rows = "sort_key ir_id (t_instances s)"
  have eq: "map scanInstance ?rows = map Inr all" using Instances_Inr[OF assms(1)] by blast
  then have len: "length ?rows = length all" by (metis length_map)
  have "scanInstance (?rows ! j) = Inr (all ! j)" if "j < length all" for j
    using eq that len by (metis nth_map)
  then have "map in_ID all = map ir_id ?rows" using len scanInstance_fields by (intro nth_equalityI) auto
  moreover have "distinct (map ir_id (t_instances s))" using assms(2) by (simp add: db_inv_def instances_inv_def)
  then have "distinct (map ir_id ?rows)" by (simp add: distinct_map)
  ultimately show ?thesis by simp
qed

text \<open>
  C15. When a node comes up and bringing it in line succeeds, the machine holds exactly what the
  database says: every server of the node has its container on the panel's current image and its config
  files with exactly the devices its limits admit, no other container of this panel is left, and no file
  is left below the config directory that is not a server's. The tables are as before.
\<close>

theorem node_up_in_line:
  fixes s :: "(fake, 'z) world_scheme"
  assumes inv: "db_inv s" and host: "hostFor mg n = Inr (fake_host root)" and m: "fake_inv (w_machine s n)"
    and prefix: "CHR ''-'' \<in> set (mg_prefix mg)" and pending: "\<not> w_rebuild s n" and run: "NodeUp mg n s = (Inr (), s')"
  shows "(\<forall>r \<in> set (t_instances s). ir_node_id r = n \<longrightarrow> (\<exists>i. scanInstance r = Inr i \<and>
      up_to_date mg (fake_host root) (fake_ctr (w_machine s' n)) (fake_disk (w_machine s' n)) i (admitted_peers (mg_env mg) (ir_id r) s))) \<and>
    (\<forall>k c. k \<in> dashed \<longrightarrow> fake_ctr (w_machine s' n) k = Some c \<longrightarrow> owns mg c \<longrightarrow>
      (\<exists>r \<in> set (t_instances s). ir_node_id r = n \<and> k = ContainerName mg (ir_id r))) \<and>
    (\<forall>q. fake_disk (w_machine s' n) q \<noteq> None \<longrightarrow> q \<noteq> wireguard_dir (fake_host root) \<longrightarrow> below (wireguard_dir (fake_host root)) q \<longrightarrow>
      (\<exists>r \<in> set (t_instances s). ir_node_id r = n \<and> below (configDir (fake_host root) (ir_id r)) q)) \<and>
    devices s' = devices s"
proof -
  obtain all s1 where all: "Instances s = (Inr all, s1)" and rest: "bnd (takeRebuild n) (\<lambda>pending.
      if pending then rebuildNode mg n (fake_host root) (byNode all n) else reconcile mg n (fake_host root) (byNode all n)) s1 = (Inr (), s')"
    using run unfolding NodeUp_def host sum.case by (rule bnd_InrE)
  obtain bs where s1: "s1 = s\<lparr>t_faults := bs\<rparr>" using Instances_Inr[OF all] by blast
  define s2 where "s2 = s1\<lparr>w_rebuild := (w_rebuild s1)(n := False)\<rparr>"
  have go: "reconcile mg n (fake_host root) (byNode all n) s2 = (Inr (), s')"
    using rest pending by (simp add: takeRebuild_def thn_def bnd_def s1 s2_def)
  have d2: "devices s2 = devices s" by (simp add: s2_def s1)
  have db2: "db_inv s2" using inv by (simp only: devices_db_inv[OF d2])
  have m2: "fake_inv (w_machine s2 n)" using m by (simp add: s2_def s1)
  have names: "mg_prefix mg @ k \<in> dashed" for k using prefix by (simp add: dashed_def)
  have dist: "distinct (map in_ID (byNode all n))"
    using Instances_ids[OF all inv] by (simp add: byNode_def distinct_map_filter)
  have node: "\<forall>i \<in> set (byNode all n). in_NodeID i = n" by (simp add: byNode_def)
  note R = fake_machine.reconcile_run[OF db2 m2 names dist node go]
  have mem: "i \<in> set (byNode all n) \<longleftrightarrow> (\<exists>r \<in> set (t_instances s). scanInstance r = Inr i \<and> ir_node_id r = n)" for i
    using Instances_rows(2)[OF all, of i] scanInstance_fields by (fastforce simp: byNode_def)
  have loaded: "\<exists>i \<in> set (byNode all n). scanInstance r = Inr i" if "r \<in> set (t_instances s)" "ir_node_id r = n" for r
    using Instances_rows(1)[OF all, of r] that mem by blast
  have up: "\<exists>i. scanInstance r = Inr i \<and>
      up_to_date mg (fake_host root) (fake_ctr (w_machine s' n)) (fake_disk (w_machine s' n)) i (admitted_peers (mg_env mg) (ir_id r) s)"
    if r: "r \<in> set (t_instances s)" "ir_node_id r = n" for r
  proof -
    obtain i where i: "i \<in> set (byNode all n)" "scanInstance r = Inr i" using loaded[OF r] by blast
    then show ?thesis using bspec[OF conjunct1[OF R] i(1)] scanInstance_fields[OF i(2)] admitted_devices[OF d2] by simp
  qed
  have only: "\<exists>r \<in> set (t_instances s). ir_node_id r = n \<and> P (ir_id r)" if "\<exists>i \<in> set (byNode all n). P (in_ID i)" for P
    using that mem scanInstance_fields by metis
  show ?thesis
  proof (intro conjI allI ballI impI)
    fix k c assume "k \<in> dashed" "fake_ctr (w_machine s' n) k = Some c" "owns mg c"
    then show "\<exists>r \<in> set (t_instances s). ir_node_id r = n \<and> k = ContainerName mg (ir_id r)" using R by (intro only) blast
  next
    fix q assume "fake_disk (w_machine s' n) q \<noteq> None" "q \<noteq> wireguard_dir (fake_host root)" "below (wireguard_dir (fake_host root)) q"
    then show "\<exists>r \<in> set (t_instances s). ir_node_id r = n \<and> below (configDir (fake_host root) (ir_id r)) q" using R by (intro only) blast
  next
    show "devices s' = devices s" using R d2 by simp
  qed (rule up)
qed

lemma office_saved: "scanInstance ((instance_row_of 0 office)\<lparr>ir_id := 1\<rparr>) =
    Inr (office\<lparr>in_CreatedAt := time_Unix (unix 0), in_UpdatedAt := time_Unix (unix 0)\<rparr>)"
  by (subst scanInstance_row_of) (simp_all add: office_def prefix4_def wf_key_def ZeroKey_def)

lemma office_world_ready:
  "readable office_world" "healthy (w_machine office_world n)" "fake_inv (w_machine office_world n)" "\<not> w_rebuild office_world n"
  "CHR ''-'' \<in> set (mg_prefix office_manager)" "hostFor office_manager 1 = Inr (fake_host ''/srv'')"
  using healthy_new office_saved
  by (simp_all add: office_world_def readable_def office_row office_db_def empty_db_def healthy_def office_manager_def
      DefaultContainerPrefix_def hostFor_def)

theorem node_up_in_line_witness:
  "\<exists>s'. NodeUp office_manager 1 office_world = (Inr (), s') \<and> devices s' = devices office_world \<and>
    (\<exists>i. scanInstance ((instance_row_of 0 office)\<lparr>ir_id := 1\<rparr>) = Inr i \<and>
      up_to_date office_manager (fake_host ''/srv'') (fake_ctr (w_machine s' 1)) (fake_disk (w_machine s' 1)) i (admitted_peers (mg_env office_manager) 1 office_world))"
proof -
  note R = office_world_ready
  obtain s' where up: "NodeUp office_manager 1 office_world = (Inr (), s')"
    using sure_NodeUp[OF R(5,6) R(1,2,4)] by blast
  have row: "(instance_row_of 0 office)\<lparr>ir_id := 1\<rparr> \<in> set (t_instances office_world)" "ir_node_id ((instance_row_of 0 office)\<lparr>ir_id := 1\<rparr>) = 1"
    by (simp_all add: office_world_def office_db_def instance_row_of_def office_def)
  show ?thesis using node_up_in_line[OF office_world_inv R(6,3,5,4) up] up row by fastforce
qed

text \<open>
  C16. Bringing a node up succeeds when the database can be read and the machine is in order: its
  daemon answers and its containers boot. The database stays readable and the machine in order, so
  it can be brought up again.
\<close>

theorem node_up_succeeds:
  fixes s :: "(fake, 'z) world_scheme"
  assumes prefix: "CHR ''-'' \<in> set (mg_prefix mg)" and host: "hostFor mg n = Inr (fake_host root)"
    and s: "readable s" "healthy (w_machine s n)" "\<not> w_rebuild s n"
  shows "\<exists>s'. NodeUp mg n s = (Inr (), s') \<and> readable s' \<and> healthy (w_machine s' n)"
  by (rule sure_NodeUp[OF assms])

theorem node_up_succeeds_witness: "\<exists>s'. NodeUp office_manager 1 office_world = (Inr (), s') \<and> readable s'"
  using node_up_succeeds[OF office_world_ready(5,6,1,2,4)] by blast

text \<open>
  When bringing a server up to date succeeds, its config files hold exactly the devices the limits
  admit, and if its container runs the config has been loaded into the tunnel: the command was run
  once. The tables, the containers and the files of other servers are as they were.
\<close>

theorem apply_writes_and_loads:
  fixes s :: "(fake, 'z) world_scheme"
  assumes inv: "db_inv s" and load: "InstanceByID k s = (Inr i, s1)" and host: "hostFor mg (in_NodeID i) = Inr (fake_host root)"
    and m: "fake_inv (w_machine s (in_NodeID i))" and prefix: "CHR ''-'' \<in> set (mg_prefix mg)" and run: "Apply mg k s = (Inr (), s')"
  shows "devices s' = devices s \<and> fake_ctr (w_machine s' (in_NodeID i)) = fake_ctr (w_machine s (in_NodeID i)) \<and>
    config_in_place (fake_disk (w_machine s' (in_NodeID i))) (fake_host root) i (admitted_peers (mg_env mg) k s) \<and>
    (\<forall>q. \<not> below (configDir (fake_host root) k) q \<longrightarrow> fake_disk (w_machine s' (in_NodeID i)) q = fake_disk (w_machine s (in_NodeID i)) q) \<and>
    fk_Execs (w_machine s' (in_NodeID i)) = fk_Execs (w_machine s (in_NodeID i)) @
      (case fake_ctr (w_machine s (in_NodeID i)) (ContainerName mg k) of
         None \<Rightarrow> [] | Some ct \<Rightarrow> if Running ct then [[''tunploy-wg'', ''sync'']] else [])"
proof -
  have k: "in_ID i = k" by (rule InstanceByID_ID[OF load])
  have acq: "acquire mg k s = (Inr (i, fake_host root), s1)" using load host by (simp add: acquire_def bnd_def)
  have go: "manager_apply mg (fake_host root) i s1 = (Inr (), s')" using run acq by (simp add: Apply_def bnd_def attempt_def)
  obtain bs where s1: "s1 = s\<lparr>t_faults := bs\<rparr>" using InstanceByID_reads[OF load] by blast
  have d1: "devices s1 = devices s" by (simp add: s1)
  have db1: "db_inv s1" using inv by (simp only: devices_db_inv[OF d1])
  have m1: "fake_inv (w_machine s1 (in_NodeID i))" using m by (simp add: s1)
  have name: "ContainerName mg (in_ID i) \<in> dashed" using prefix by (simp add: ContainerName_def dashed_def)
  show ?thesis using fake_machine.manager_apply_run[OF db1 m1 name go] admitted_devices[OF d1] d1 by (simp add: k s1)
qed

theorem apply_writes_and_loads_witness:
  "\<exists>s' i. Apply office_manager 1 office_world = (Inr (), s') \<and>
    config_in_place (fake_disk (w_machine s' 1)) (fake_host ''/srv'') i (admitted_peers (mg_env office_manager) 1 office_world)"
proof -
  let ?i = "office\<lparr>in_CreatedAt := time_Unix (unix 0), in_UpdatedAt := time_Unix (unix 0)\<rparr>"
  note R = office_world_ready
  have row: "instance_by_id 1 office_world = Some ((instance_row_of 0 office)\<lparr>ir_id := 1\<rparr>)"
    using office_row(1) by (simp add: instance_by_id_def office_world_def)
  have load: "InstanceByID 1 office_world = (Inr ?i, office_world)"
    using readable_query[OF R(1), of "instance_by_id 1"] row office_saved by (simp add: InstanceByID_def bnd_def mapErr_def)
  have n: "in_NodeID ?i = 1" "in_ID ?i = 1" by (simp_all add: office_def)
  have host: "hostFor office_manager (in_NodeID ?i) = Inr (fake_host ''/srv'')" using R(6) n by simp
  have name: "ContainerName office_manager (in_ID ?i) \<in> dashed" using R(5) by (simp add: ContainerName_def dashed_def)
  obtain s' where "manager_apply office_manager (fake_host ''/srv'') ?i office_world = (Inr (), s')"
    using sureD[OF sure_apply[OF n(1) name], of office_world] R(1,2) by auto
  then have run: "Apply office_manager 1 office_world = (Inr (), s')"
    using load host by (simp add: Apply_def acquire_def bnd_def attempt_def)
  show ?thesis using apply_writes_and_loads[OF office_world_inv load host R(3) R(5) run] run n by auto
qed

end
