(* ===== verification/WebhookProperties.thy ===== *)
theory WebhookProperties
  imports Webhook
begin

text \<open>
  The properties of the webhook dispatcher and its queue: who gets an event, how often a delivery is
  tried, that sending a backlog ends, and two ways in which it goes wrong.
\<close>

text \<open>
  Queueing an event adds one pending delivery, due at once, for exactly the webhooks that are on
  and subscribed to its kind or to all kinds, in their order, and touches no other delivery; a
  failure adds none.
\<close>

theorem queue_reaches_subscribers:
  assumes "kind \<noteq> []" and "CHR '','' \<notin> set kind"
  shows "case QueueDeliveries kind ev payload now s of
      (Inl e, s') \<Rightarrow> same_tables s s'
    | (Inr n, s') \<Rightarrow> \<exists>new. t_deliveries s' = t_deliveries s @ new \<and> n = length new \<and>
        map dr_webhook_id new = map wr_id (filter (\<lambda>r. wr_enabled r \<and>
          (wr_events r = AllEvents \<or> kind \<in> set (Split (CHR '','') (wr_events r)))) (t_webhooks s)) \<and>
        (\<forall>d \<in> set new. due (unix now) d \<and> dr_kind d = kind \<and> dr_payload d = payload \<and> dr_attempts d = 0)"
proof -
  let ?hooks = "filter (wants kind) (t_webhooks s)"
  let ?rows = "map (\<lambda>r. delivery_row_of now kind ev payload (wr_id r)) ?hooks"
  let ?g = "\<lambda>s. let hooks = filter (wants kind) (t_webhooks s);
         new = map (\<lambda>r. delivery_row_of now kind ev payload (wr_id r)) hooks
     in (Inr (length hooks), s\<lparr>t_deliveries := t_deliveries s @ number (t_delivery_seq s) new,
           t_delivery_seq := t_delivery_seq s + int (length hooks)\<rparr>) :: (err + nat) \<times> 'a panel_scheme"
  have fields: "due (unix now) d \<and> dr_kind d = kind \<and> dr_payload d = payload \<and> dr_attempts d = 0"
    if "d \<in> set (number k (map (\<lambda>r. delivery_row_of now kind ev payload (wr_id r)) hooks))" for d k and hooks :: "webhook_row list"
    using that by (induction hooks arbitrary: k) (auto simp: delivery_row_of_def due_def)
  have hooks: "map dr_webhook_id (number k ?rows) = map wr_id ?hooks" for k
    by (simp add: number_fields delivery_row_of_def)
  have run: "QueueDeliveries kind ev payload now s = mapErr (Errorf ''queue webhook deliveries'') (stmt ?g) s"
    by (simp add: QueueDeliveries_def)
  show ?thesis
  proof (cases rule: stmt_cases[of ?g s])
    case (fault bs)
    then show ?thesis by (auto simp: run mapErr_def)
  next
    case (run bs)
    moreover have "wants kind = (\<lambda>r. wr_enabled r \<and> (wr_events r = AllEvents \<or> kind \<in> set (Split (CHR '','') (wr_events r))))"
      using wants_iff[OF assms] by blast
    ultimately show ?thesis
      using hooks fields[of _ "t_delivery_seq s" ?hooks]
      by (simp add: \<open>QueueDeliveries kind ev payload now s = _\<close> mapErr_def Let_def number_fields)
  qed
qed

definition hook_row :: webhook_row where
  "hook_row = (webhook_row_of 0 \<lparr>w_ID = 0, w_URL = ''https://example.com/hook'', w_Secret = ''s'',
     w_Events = [''device.created'', ''server.down''], w_Description = [], w_Enabled = True, w_CreatedBy = [], w_CreatedAt = 0,
     w_UpdatedAt = 0\<rparr>)\<lparr>wr_id := 1\<rparr>"

definition hook_panel :: panel where
  "hook_panel = empty_panel\<lparr>t_webhooks := [hook_row], t_webhook_seq := 1\<rparr>"

theorem queue_reaches_subscribers_witness:
  "case QueueDeliveries ''server.down'' 7 ''{}'' 0 hook_panel of
      (Inl e, s') \<Rightarrow> same_tables hook_panel s' | (Inr n, s') \<Rightarrow> map dr_webhook_id (t_deliveries s') = [1]"
proof -
  have tables: "t_webhooks hook_panel = [hook_row]" "t_deliveries hook_panel = []"
    by (simp_all add: hook_panel_def empty_panel_def db.defs)
  have row: "wr_enabled hook_row" "''server.down'' \<in> set (Split (CHR '','') (wr_events hook_row))" "wr_id hook_row = 1"
    by (simp_all add: hook_row_def webhook_row_of_def)
  show ?thesis
    using queue_reaches_subscribers[where kind = "''server.down''" and ev = 7 and payload = "''{}''" and now = 0 and s = hook_panel]
    by (auto simp: tables row split: prod.splits sum.splits)
qed

definition try_row :: "(string \<Rightarrow> string \<Rightarrow> string) \<Rightarrow> string \<times> string \<Rightarrow> outcome \<Rightarrow> delivery_row \<Rightarrow> delivery_row" where
  "try_row hmac target out r =
     (case scanDelivery (Some target) (Some r) of Inl _ \<Rightarrow> r | Inr dl \<Rightarrow> finished_row (attempt_of hmac out dl) r)"

definition refuses :: "receiver \<Rightarrow> bool" where
  "refuses post \<longleftrightarrow> (\<forall>rq. case post rq of Inl _ \<Rightarrow> True | Inr (code, _) \<Rightarrow> code < 200 \<or> code > 299)"

lemma try_row_fails:
  assumes "refuses (o_post out)" and "dr_state r = DeliveryPending"
  shows "dr_attempts (try_row hmac target out r) = dr_attempts r + 1"
    "dr_state (try_row hmac target out r) = (if dr_attempts r < 6 then DeliveryPending else DeliveryFailed)"
    "dr_next_attempt_at (try_row hmac target out r) =
      (if dr_attempts r < 6 then Some (unix (o_start out + retryDelays ! dr_attempts r)) else None)"
proof -
  obtain dl where dl: "scanDelivery (Some target) (Some r) = Inr dl" "d_Attempts dl = dr_attempts r"
    by (simp add: scanDelivery_def)
  obtain code e where send: "send hmac (o_post out) dl (o_start out) = (code, Some e)"
    using assms(1) unfolding refuses_def send_def
    by (cases "o_post out (delivery_request hmac dl (o_start out))")
      (auto split: prod.splits sum.splits dest!: spec[of _ "delivery_request hmac dl (o_start out)"])
  show "dr_attempts (try_row hmac target out r) = dr_attempts r + 1"
    "dr_state (try_row hmac target out r) = (if dr_attempts r < 6 then DeliveryPending else DeliveryFailed)"
    "dr_next_attempt_at (try_row hmac target out r) =
      (if dr_attempts r < 6 then Some (unix (o_start out + retryDelays ! dr_attempts r)) else None)"
    by (simp_all add: try_row_def dl finished_row_def finished_state_def attempt_of_def send nullTime_def retryDelays_def)
qed

lemma tries_fail:
  assumes "\<And>i. refuses (o_post (outs i))" and "dr_state r = DeliveryPending" and "dr_attempts r = 0" and "n \<le> 7" and "0 < n"
  shows "let q = fold (\<lambda>i. try_row hmac target (outs i)) [0..<n] r in dr_attempts q = n \<and>
    dr_state q = (if n \<le> 6 then DeliveryPending else DeliveryFailed) \<and>
    dr_next_attempt_at q = (if n \<le> 6 then Some (unix (o_start (outs (n - 1)) + retryDelays ! (n - 1))) else None)"
  using assms(4,5)
proof (induction n)
  case (Suc n)
  let ?q = "fold (\<lambda>i. try_row hmac target (outs i)) [0..<n] r"
  have q: "dr_attempts ?q = n" "dr_state ?q = DeliveryPending"
    using Suc assms(2,3) by (cases "n = 0"; simp add: Let_def)+
  show ?case using try_row_fails[OF assms(1) q(2), of hmac target n] Suc.prems by (simp add: q Let_def)
qed simp

text \<open>
  A delivery nobody accepts is tried seven times: after each of the first six failures it waits
  1, 5, 30, 120, 360 and 720 minutes from the start of the try, and after the seventh it is given up.
\<close>

theorem delivery_tried_seven_times:
  assumes "\<And>i. refuses (o_post (outs i))" and "dr_state r = DeliveryPending" and "dr_attempts r = 0"
  shows "(\<forall>i < 6. let q = fold (\<lambda>i. try_row hmac target (outs i)) [0..<Suc i] r in dr_state q = DeliveryPending \<and>
      dr_next_attempt_at q = Some (unix (o_start (outs i) + [1, 5, 30, 120, 360, 720] ! i * 60 * second))) \<and>
    (let q = fold (\<lambda>i. try_row hmac target (outs i)) [0..<7] r in
      dr_state q = DeliveryFailed \<and> dr_attempts q = 7 \<and> dr_next_attempt_at q = None)"
proof -
  have "retryDelays ! i = [1, 5, 30, 120, 360, 720] ! i * 60 * second" if "i < 6" for i
  proof -
    have "i = 0 \<or> i = 1 \<or> i = 2 \<or> i = 3 \<or> i = 4 \<or> i = 5" using that by arith
    then show ?thesis by (elim disjE) (simp_all add: retryDelays_def)
  qed
  moreover have "let q = fold (\<lambda>i. try_row hmac target (outs i)) [0..<Suc i] r in dr_state q = DeliveryPending \<and>
      dr_next_attempt_at q = Some (unix (o_start (outs i) + retryDelays ! i))" if "i < 6" for i
    using tries_fail[OF assms, of "Suc i" hmac target] that by (simp add: Let_def del: upt_Suc)
  moreover have "let q = fold (\<lambda>i. try_row hmac target (outs i)) [0..<7] r in
      dr_state q = DeliveryFailed \<and> dr_attempts q = 7 \<and> dr_next_attempt_at q = None"
    using tries_fail[OF assms, of 7 hmac target] by (simp add: Let_def del: upt_Suc)
  ultimately show ?thesis by (simp add: Let_def del: upt_Suc)
qed

definition down :: outcome where
  "down = \<lparr>o_start = 0, o_stop = second, o_post = (\<lambda>_. Inr (503, ''503 Service Unavailable'')), o_stopping = False\<rparr>"

definition fresh_row :: delivery_row where
  "fresh_row = (delivery_row_of 0 ''server.down'' 7 ''{}'' 1)\<lparr>dr_id := 1\<rparr>"

theorem delivery_tried_seven_times_witness:
  "let q = fold (\<lambda>i. try_row (\<lambda>k m. m) (''u'', ''s'') down) [0..<7] fresh_row in
     dr_state q = DeliveryFailed \<and> dr_attempts q = 7 \<and> dr_next_attempt_at q = None"
  using delivery_tried_seven_times[of "\<lambda>_. down" fresh_row "\<lambda>k m. m" "(''u'', ''s'')"]
  by (simp add: refuses_def down_def fresh_row_def delivery_row_of_def del: upt_Suc)

text \<open>
  C32. Sending a backlog ends, whatever the receivers answer and however the clock runs: as long as
  attempts are recorded, the inner loop of \<open>Run\<close> stops within as many rounds as the tries left of all
  pending deliveries fill batches.
\<close>

theorem drain_terminates:
  assumes "t_faults s = []" and "deliveries_inv s" and "\<And>j dl. \<not> o_stopping (snd (rounds j) dl)"
    and "all_tries s < batchSize * fuel"
  shows "\<exists>s'. drain hmac rounds fuel 0 s = Some s'"
  using assms by (rule drain_ends)

definition due_panel :: panel where
  "due_panel = hook_panel\<lparr>t_deliveries := [fresh_row], t_delivery_seq := 1\<rparr>"

lemma due_panel_tables:
  "t_faults due_panel = []" "t_deliveries due_panel = [fresh_row]" "t_webhooks due_panel = [hook_row]"
  by (simp_all add: due_panel_def hook_panel_def empty_panel_def db.defs empty_db_def)

theorem drain_terminates_witness:
  "\<exists>s'. drain (\<lambda>k m. m) (\<lambda>_. (0, \<lambda>_. down)) 1 0 due_panel = Some s'"
proof -
  have "deliveries_inv due_panel" by (simp add: deliveries_inv_def due_panel_tables)
  moreover have "all_tries due_panel < batchSize * 1"
    by (simp add: all_tries_def due_panel_tables tries_left_def fresh_row_def delivery_row_of_def batchSize_def delivery_states)
  ultimately show ?thesis
    using drain_terminates[OF due_panel_tables(1), of "\<lambda>_. (0, \<lambda>_. down)" 1 "\<lambda>k m. m"] by (simp add: down_def)
qed

text \<open>
  The error text stored with an attempt is bounded, however long the answer of the receiver is:
  at most 300 bytes and the three of the ellipsis.
\<close>

theorem stored_error_bounded: "length (a_Error (attempt_of hmac out dl)) \<le> maxErrorLen + 3"
  by (cases "send hmac (o_post out) dl (o_start out)")
    (simp add: attempt_of_def truncate_text_length split: option.split)

lemma attempt_delivery_fault:
  assumes "t_faults s = True # bs"
  shows "attempt_delivery hmac out dl s = (Inr (), if o_stopping out then s else s\<lparr>t_faults := bs\<rparr>)"
  using assms by (simp add: attempt_delivery_def FinishAttempt_def thn_def bnd_def mapErr_def attempt_def stmt_def Let_def)

lemma batch_faults:
  assumes "t_faults s = replicate (length ds) True @ bs" and "\<And>dl. \<not> o_stopping (outs dl)"
  shows "forEach ds (\<lambda>dl. attempt_delivery hmac (outs dl) dl) s = (Inr (), s\<lparr>t_faults := bs\<rparr>)"
  using assms(1)
proof (induction ds arbitrary: s)
  case Nil
  then show ?case by simp
next
  case (Cons dl ds)
  let ?s1 = "s\<lparr>t_faults := replicate (length ds) True @ bs\<rparr>"
  have "attempt_delivery hmac (outs dl) dl s = (Inr (), ?s1)"
    using attempt_delivery_fault[of s "replicate (length ds) True @ bs" hmac "outs dl" dl] Cons.prems assms(2) by simp
  moreover have "forEach ds (\<lambda>dl. attempt_delivery hmac (outs dl) dl) ?s1 = (Inr (), ?s1\<lparr>t_faults := bs\<rparr>)"
    by (rule Cons.IH) simp
  ultimately show ?case by (simp add: thn_def bnd_def)
qed

lemma due_rows_faults [simp]: "due_rows at (s\<lparr>t_faults := bs\<rparr>) = due_rows at s"
proof -
  have "webhook_by_id k (s\<lparr>t_faults := bs\<rparr>) = webhook_by_id k s" for k by (simp add: webhook_by_id_def)
  then show ?thesis by (simp add: due_rows_def cong: if_cong)
qed

lemma deliverDue_faults:
  assumes "t_faults s = False # replicate batchSize True @ bs" and "batchSize \<le> length (due_rows (unix now) s)"
    and "\<And>dl. \<not> o_stopping (outs dl)"
  shows "deliverDue hmac now outs s = (batchSize, s\<lparr>t_faults := bs\<rparr>)"
proof -
  let ?s1 = "s\<lparr>t_faults := replicate batchSize True @ bs\<rparr>"
  let ?scan = "\<lambda>(d, w). scanDelivery (Some (wr_url w, wr_secret w)) (Some d)"
  let ?rows = "take batchSize (due_rows (unix now) s)"
  have "\<exists>x. ?scan p = Inr x" for p :: "delivery_row \<times> webhook_row" by (cases p) (simp add: scanDelivery_def)
  then obtain f where f: "\<And>p :: delivery_row \<times> webhook_row. ?scan p = Inr (f p)" by metis
  have all: "scan_all ?scan ?rows = Inr (map f ?rows)" unfolding scan_all_map using f by simp
  have len: "length (map f ?rows) = batchSize" using assms(2) by simp
  have "DueDeliveries now (int batchSize) s = (Inr (map f ?rows), ?s1)"
    using assms(1) all by (simp add: DueDeliveries_def bnd_def mapErr_def sql_limit_def query_def stmt_def Let_def)
  moreover have "forEach (map f ?rows) (\<lambda>dl. attempt_delivery hmac (outs dl) dl) ?s1 = (Inr (), ?s1\<lparr>t_faults := bs\<rparr>)"
    using len assms(3) by (intro batch_faults) simp_all
  ultimately show ?thesis using len by (simp add: deliverDue_def)
qed

text \<open>
  C38. When reads work and writes fail, the inner loop never ends: twenty due deliveries are sent
  again and again without a pause, because a failed \<open>FinishAttempt\<close> is only logged and leaves them due.
\<close>

theorem drain_spins_when_writes_fail:
  assumes "t_faults s = concat (replicate fuel (False # replicate batchSize True))"
    and "\<And>i. batchSize \<le> length (due_rows (unix (fst (rounds i))) s)" and "\<And>i dl. \<not> o_stopping (snd (rounds i) dl)"
  shows "drain hmac rounds fuel i s = None"
  using assms(1,2)
proof (induction fuel arbitrary: i s)
  case 0
  then show ?case by simp
next
  case (Suc fuel)
  let ?bs = "concat (replicate fuel (False # replicate batchSize True))"
  obtain now outs where r: "rounds i = (now, outs)" by (cases "rounds i")
  have d: "deliverDue hmac now outs s = (batchSize, s\<lparr>t_faults := ?bs\<rparr>)"
    using Suc.prems(1) Suc.prems(2)[of i] assms(3)[of i] r by (intro deliverDue_faults) simp_all
  have "drain hmac rounds fuel (Suc i) (s\<lparr>t_faults := ?bs\<rparr>) = None"
    using Suc.prems(2) by (intro Suc.IH) simp_all
  then show ?case using r d by simp
qed

definition twenty :: panel where
  "twenty = hook_panel\<lparr>t_deliveries := map (\<lambda>i. fresh_row\<lparr>dr_id := i\<rparr>) [1..20],
     t_faults := concat (replicate 3 (False # replicate batchSize True))\<rparr>"

theorem drain_spins_when_writes_fail_witness: "drain (\<lambda>k m. m) (\<lambda>_. (0, \<lambda>_. down)) 3 0 twenty = None"
proof (rule drain_spins_when_writes_fail)
  show "t_faults twenty = concat (replicate 3 (False # replicate batchSize True))" by (simp add: twenty_def)
  have "due 0 (fresh_row\<lparr>dr_id := i\<rparr>)" "webhook_by_id (dr_webhook_id (fresh_row\<lparr>dr_id := i\<rparr>)) twenty = Some hook_row" "wr_enabled hook_row" for i
    by (simp_all add: due_def unix_def fresh_row_def delivery_row_of_def webhook_by_id_def twenty_def hook_panel_def hook_row_def webhook_row_of_def)
  then have "length (List.map_filter (\<lambda>d. if due 0 d then
          (case webhook_by_id (dr_webhook_id d) twenty of
             None \<Rightarrow> None | Some w \<Rightarrow> if wr_enabled w then Some (d, w) else None) else None)
        (map (\<lambda>i. fresh_row\<lparr>dr_id := i\<rparr>) ids)) = length ids" for ids
    by (induction ids) (simp_all add: List.map_filter_simps)
  then show "batchSize \<le> length (due_rows (unix (fst (0, \<lambda>_. down))) twenty)"
  proof -
    have "t_deliveries twenty = map (\<lambda>i. fresh_row\<lparr>dr_id := i\<rparr>) [1..20]" by (simp add: twenty_def)
    then show ?thesis
      using \<open>\<And>ids. length (List.map_filter _ (map _ ids)) = length ids\<close> by (simp add: due_rows_def batchSize_def unix_def)
  qed
qed (simp add: down_def)

definition hook_on :: Webhook where
  "hook_on = \<lparr>w_ID = 1, w_URL = ''https://example.com/hook'', w_Secret = ''s'', w_Events = [''server.down''],
     w_Description = [], w_Enabled = True, w_CreatedBy = [], w_CreatedAt = 0, w_UpdatedAt = 0\<rparr>"

text \<open>
  Turning a webhook off does not always give up on what it had to send: an attempt that was under
  way when it was turned off puts its delivery back, and turning the webhook on again sends it.
\<close>

theorem late_failure_outlives_off:
  "\<exists>dl w1 w2 s1 s2 s3.
     DueDeliveries 0 20 due_panel = (Inr [dl], due_panel) \<and>
     UpdateWebhook 0 (hook_on\<lparr>w_Enabled := False\<rparr>) due_panel = (Inr w1, s1) \<and>
     map dr_state (t_deliveries s1) = [DeliveryFailed] \<and>
     attempt_delivery (\<lambda>k m. m) down dl s1 = (Inr (), s2) \<and>
     UpdateWebhook 0 hook_on s2 = (Inr w2, s3) \<and>
     (\<exists>dl'. DueDeliveries (60 * second) 20 s3 = (Inr [dl'], s3) \<and> d_ID dl' = d_ID dl)"
proof -
  note defs = due_panel_tables DueDeliveries_def bnd_def thn_def mapErr_def sql_limit_def due_rows_def due_def fresh_row_def
    delivery_row_of_def webhook_by_id_def hook_row_def webhook_row_of_def scanDelivery_def List.map_filter_simps unix_def
    UpdateWebhook_def transaction_def transact_def expectOneRow_def cancel_deliveries_def WebhookByID_def scanWebhook_def hook_on_def
    delivery_states
  obtain dl where dl: "DueDeliveries 0 20 due_panel = (Inr [dl], due_panel)" "d_ID dl = 1" "d_Attempts dl = 0"
    by (simp add: defs)
  obtain w1 s1 where s1: "UpdateWebhook 0 (hook_on\<lparr>w_Enabled := False\<rparr>) due_panel = (Inr w1, s1)" "t_faults s1 = []"
      "t_deliveries s1 = [fresh_row\<lparr>dr_state := DeliveryFailed, dr_next_attempt_at := None, dr_error := ''the webhook was turned off''\<rparr>]"
      "map wr_id (t_webhooks s1) = [1]"
    by (simp add: defs)
  let ?d = "finished_row (attempt_of (\<lambda>k m. m) down dl) (hd (t_deliveries s1))"
  have s2: "attempt_delivery (\<lambda>k m. m) down dl s1 = (Inr (), s1\<lparr>t_deliveries := [?d]\<rparr>)"
    using attempt_delivery_run[OF s1(2), of down "\<lambda>k m. m" dl] dl(2) s1(3)
    by (simp add: down_def fresh_row_def delivery_row_of_def)
  have d: "dr_id ?d = 1" "dr_webhook_id ?d = 1" "dr_state ?d = DeliveryPending" "dr_next_attempt_at ?d = Some 60"
    using dl(3) s1(3)
    by (simp_all add: finished_row_def finished_state_def attempt_of_def send_def down_def retryDelays_def nullTime_def unix_def
        fresh_row_def delivery_row_of_def)
  let ?s2 = "s1\<lparr>t_deliveries := [?d]\<rparr>"
  obtain w where w: "t_webhooks s1 = [w]" "wr_id w = 1" using s1(4) by auto
  obtain w2 s3 where s3: "UpdateWebhook 0 hook_on ?s2 = (Inr w2, s3)" "t_faults s3 = []" "t_deliveries s3 = [?d]"
      "\<exists>w. t_webhooks s3 = [w] \<and> wr_id w = 1 \<and> wr_enabled w"
    using s1(2) w by (simp add: UpdateWebhook_def transaction_def transact_def bnd_def thn_def mapErr_def expectOneRow_def
        WebhookByID_def webhook_by_id_def scanWebhook_def hook_on_def)
  then obtain w' where w': "t_webhooks s3 = [w']" "wr_id w' = 1" "wr_enabled w'" by blast
  have "\<exists>dl'. DueDeliveries (60 * second) 20 s3 = (Inr [dl'], s3) \<and> d_ID dl' = 1"
    using s3(2,3) w' d
    by (simp add: DueDeliveries_def bnd_def mapErr_def sql_limit_def due_rows_def due_def webhook_by_id_def scanDelivery_def
        List.map_filter_simps unix_def)
  moreover have "map dr_state (t_deliveries s1) = [DeliveryFailed]" using s1(3) by simp
  ultimately show ?thesis using dl(1,2) s1(1) s2 s3(1) by metis
qed

end
