(* ===== verification/Http.thy ===== *)
theory Http
  imports Complex_Main InstanceService Watch
begin

text \<open>
  internal/httpx (httpx.go): the reply a handler writes and the errors a client sees. A request is what
  net/http and the router hand over; the reply under way is part of the state, so a header set before an
  error stays. Decoding a body is encoding/json's: a handler gets its outcome.
\<close>

section \<open>JSON\<close>

text \<open>
  The values the views are made of. \<open>JRaw\<close> is a \<open>json.RawMessage\<close> that is compact already. Encoding
  fails only at a time out of the years RFC 3339 can write.
\<close>

datatype json = JNull | JBool bool | JInt int | JStr string | JTime gotime | JRaw string | JList "json list" | JObj "(string \<times> json) list"

text \<open>The encoder escapes the characters special in HTML in raw values too.\<close>

definition json_raw_rune :: "nat \<times> string \<Rightarrow> string" where
  "json_raw_rune rb = (case rb of (r, bs) \<Rightarrow> if r \<in> {60, 62, 38, 8232, 8233} then CHR 0x5C # CHR ''u'' # hex4 r else bs)"

definition json_raw :: "string \<Rightarrow> string" where
  "json_raw s = concat (map json_raw_rune (runes_of s))"

fun json_text :: "json \<Rightarrow> string option" where
  "json_text JNull = Some ''null''"
| "json_text (JBool b) = Some (if b then ''true'' else ''false'')"
| "json_text (JInt n) = Some (Itoa n)"
| "json_text (JStr s) = Some (json_quote s)"
| "json_text (JTime t) = json_time t"
| "json_text (JRaw t) = Some (json_raw t)"
| "json_text (JList vs) = map_option (\<lambda>ts. ''['' @ strings_Join '','' ts @ '']'') (those (map json_text vs))"
| "json_text (JObj ms) = map_option json_object (those (map (\<lambda>(k, v). map_option (Pair k) (json_text v)) ms))"

definition json_opt :: "('a \<Rightarrow> json) \<Rightarrow> 'a option \<Rightarrow> json" where
  "json_opt f v = (case v of None \<Rightarrow> JNull | Some x \<Rightarrow> f x)"

text \<open>A member with \<open>omitempty\<close>.\<close>

definition omit_empty :: "string \<Rightarrow> string \<Rightarrow> (string \<times> json) list" where
  "omit_empty k v = (if v = [] then [] else [(k, JStr v)])"

section \<open>Requests and replies\<close>

text \<open>
  \<open>rq_PathValue\<close> are the wildcards of the matched pattern, \<open>rq_Query\<close> the parsed query, \<open>rq_Header\<close> every
  header by its canonical name.
\<close>

record hreq =
  rq_Method :: string
  rq_RequestURI :: string
  rq_Path :: string
  rq_RemoteAddr :: string
  rq_Host :: string
  rq_TLS :: bool
  rq_Header :: "(string \<times> string list) list"
  rq_Query :: "(string \<times> string list) list"
  rq_PathValue :: "(string \<times> string) list"
  rq_Cookies :: "(string \<times> string) list"
  rq_Body :: string
  rq_ContentLength :: int

definition first_value :: "(string \<times> string list) list \<Rightarrow> string \<Rightarrow> string" where
  "first_value h k = (case map_of h k of Some (v # _) \<Rightarrow> v | _ \<Rightarrow> [])"

definition Header_Get :: "hreq \<Rightarrow> string \<Rightarrow> string" where
  "Header_Get r k = first_value (rq_Header r) k"

definition Query_Get :: "hreq \<Rightarrow> string \<Rightarrow> string" where
  "Query_Get r k = first_value (rq_Query r) k"

definition PathValue :: "hreq \<Rightarrow> string \<Rightarrow> string" where
  "PathValue r k = (case map_of (rq_PathValue r) k of None \<Rightarrow> [] | Some v \<Rightarrow> v)"

record throttleEntry =
  te_failures :: nat
  te_resetAt :: gotime

record bucket =
  bk_tokens :: rat
  bk_at :: gotime

text \<open>The panel's state with what the API server keeps in memory and the reply under way.\<close>

record 'm api = "'m world" +
  ap_throttle :: "(string \<times> throttleEntry) list"
  ap_buckets :: "(int \<times> bucket) list"
  rw_header :: "(string \<times> string) list"
  rw_status :: "int option"
  rw_last :: "int option"
  rw_body :: string

type_synonym ('m, 'z, 'a) aprog = "(('m, 'z) api_scheme, 'a) prog"

definition set_header :: "string \<Rightarrow> string \<Rightarrow> ('m, 'z, unit) aprog" where
  "set_header k v = modify (\<lambda>s. s\<lparr>rw_header := AList.update k v (rw_header s)\<rparr>)"

text \<open>The first status counts; \<open>rw_last\<close> is what a wrapper around the writer has seen.\<close>

definition WriteHeader :: "int \<Rightarrow> ('m, 'z, unit) aprog" where
  "WriteHeader status = modify (\<lambda>s. s\<lparr>rw_status := (case rw_status s of None \<Rightarrow> Some status | x \<Rightarrow> x), rw_last := Some status\<rparr>)"

definition w_Write :: "string \<Rightarrow> ('m, 'z, unit) aprog" where
  "w_Write b = modify (\<lambda>s. s\<lparr>rw_status := (case rw_status s of None \<Rightarrow> Some 200 | x \<Rightarrow> x), rw_body := rw_body s @ b\<rparr>)"

text \<open>\<open>JSON\<close> of a value that is not nil; one that cannot be encoded leaves the body empty.\<close>

definition JSON :: "int \<Rightarrow> json \<Rightarrow> ('m, 'z, unit) aprog" where
  "JSON status v =
     thn (set_header ''Content-Type'' ''application/json; charset=utf-8'')
     (thn (WriteHeader status)
     (case json_text v of None \<Rightarrow> ret () | Some t \<Rightarrow> w_Write (t @ [CHR 0x0A])))"

definition NoContent :: "('m, 'z, unit) aprog" where
  "NoContent = WriteHeader 204"

section \<open>Errors\<close>

definition http_Errorf :: "int \<Rightarrow> string \<Rightarrow> string \<Rightarrow> err" where
  "http_Errorf status code message = HttpError status code message []"

definition BadRequest :: "string \<Rightarrow> err" where "BadRequest m = http_Errorf 400 ''invalid_request'' m"
definition Unauthorized :: "string \<Rightarrow> err" where "Unauthorized m = http_Errorf 401 ''unauthorized'' m"
definition Forbidden :: "string \<Rightarrow> err" where "Forbidden m = http_Errorf 403 ''forbidden'' m"
definition http_NotFound :: "string \<Rightarrow> err" where "http_NotFound m = http_Errorf 404 ''not_found'' m"
definition http_Conflict :: "string \<Rightarrow> err" where "http_Conflict m = http_Errorf 409 ''conflict'' m"

definition http_Invalid :: "fields \<Rightarrow> err" where
  "http_Invalid fs = HttpError 422 ''validation_failed'' ''some fields are invalid'' fs"

text \<open>\<open>errors.As\<close>: the first error of the type, from the outside in.\<close>

fun as_http :: "err \<Rightarrow> (int \<times> string \<times> string \<times> fields) option" where
  "as_http (HttpError st c m fs) = Some (st, c, m, fs)"
| "as_http (Errorf m e) = as_http e"
| "as_http (Errorf2 m a b) = (case as_http a of None \<Rightarrow> as_http b | Some x \<Rightarrow> Some x)"
| "as_http (AppError k c m fs (Some e)) = as_http e"
| "as_http (Join es) = (case filter (\<lambda>x. x \<noteq> None) (map as_http es) of [] \<Rightarrow> None | x # _ \<Rightarrow> x)"
| "as_http _ = None"

fun as_app :: "err \<Rightarrow> (Kind \<times> string \<times> string \<times> fields) option" where
  "as_app (AppError k c m fs e) = Some (k, c, m, fs)"
| "as_app (Errorf m e) = as_app e"
| "as_app (Errorf2 m a b) = (case as_app a of None \<Rightarrow> as_app b | Some x \<Rightarrow> Some x)"
| "as_app (Join es) = (case filter (\<lambda>x. x \<noteq> None) (map as_app es) of [] \<Rightarrow> None | x # _ \<Rightarrow> x)"
| "as_app _ = None"

fun statusOf_kind :: "Kind \<Rightarrow> int" where
  "statusOf_kind Invalid = 422"
| "statusOf_kind NotFound = 404"
| "statusOf_kind Conflict = 409"
| "statusOf_kind Unavailable = 503"
| "statusOf_kind Upstream = 502"

definition ErrorFor :: "err \<Rightarrow> int \<times> string \<times> string \<times> fields" where
  "ErrorFor e =
     (case as_http e of
        Some h \<Rightarrow> h
      | None \<Rightarrow>
        (case as_app e of
           Some (k, c, m, fs) \<Rightarrow> (statusOf_kind k, c, m, fs)
         | None \<Rightarrow> (500, ''internal_error'', ''something went wrong'', [])))"

text \<open>A map is written in the order of its keys.\<close>

definition error_json :: "string \<Rightarrow> string \<Rightarrow> fields \<Rightarrow> json" where
  "error_json code message fs = JObj ([(''code'', JStr code), (''message'', JStr message)] @
     (if fs = [] then [] else [(''fields'', JObj (map (\<lambda>(k, v). (k, JStr v)) (sort_key fst fs)))]))"

definition WriteError :: "err \<Rightarrow> ('m, 'z, unit) aprog" where
  "WriteError e = (case ErrorFor e of (status, code, message, fs) \<Rightarrow> JSON status (JObj [(''error'', error_json code message fs)]))"

text \<open>\<open>Handler.ServeHTTP\<close>.\<close>

definition serve :: "('m, 'z, unit) aprog \<Rightarrow> ('m, 'z, unit) aprog" where
  "serve h = bnd (attempt h) (\<lambda>r. case r of Inl e \<Rightarrow> WriteError e | Inr _ \<Rightarrow> ret ())"

section \<open>Decoding\<close>

datatype 'a decoded = Decoded 'a | EmptyBody | BodyTooLarge | NotJSON string

definition Decode :: "'a decoded \<Rightarrow> err + 'a" where
  "Decode d =
     (case d of
        Decoded x \<Rightarrow> Inr x
      | EmptyBody \<Rightarrow> Inl (BadRequest ''request body is empty'')
      | BodyTooLarge \<Rightarrow> Inl (BadRequest ''request body is too large'')
      | NotJSON why \<Rightarrow> Inl (BadRequest (''request body is not valid JSON: '' @ why)))"

end
