(* ===== verification/Auth.thy ===== *)
theory Auth
  imports Http
begin

text \<open>
  internal/auth (throttle.go, totp.go, password.go, token.go, account.go): failed attempts and when they
  lock a key out, one-time codes, password hashes, session tokens, and what an account must look like.
  SHA-1, SHA-256 and Argon2 are parameters, and so are the random bytes.
\<close>

section \<open>Throttle\<close>

record Throttle =
  th_max :: nat
  th_window :: gotime

type_synonym throttle_entries = "(string \<times> throttleEntry) list"

definition Allowed :: "Throttle \<Rightarrow> gotime \<Rightarrow> string \<Rightarrow> throttle_entries \<Rightarrow> (bool \<times> gotime) \<times> throttle_entries" where
  "Allowed t now key es =
     (case map_of es key of
        None \<Rightarrow> ((True, 0), es)
      | Some e \<Rightarrow>
        if now > te_resetAt e then ((True, 0), AList.delete key es)
        else if te_failures e \<ge> th_max t then ((False, te_resetAt e - now), es)
        else ((True, 0), es))"

definition prune :: "gotime \<Rightarrow> throttle_entries \<Rightarrow> throttle_entries" where
  "prune now es = filter (\<lambda>(_, e). \<not> now > te_resetAt e) es"

definition Fail :: "Throttle \<Rightarrow> gotime \<Rightarrow> string \<Rightarrow> throttle_entries \<Rightarrow> throttle_entries" where
  "Fail t now key es0 =
     (let es = prune now es0 in
      case map_of es key of
        None \<Rightarrow> AList.update key \<lparr>te_failures = 1, te_resetAt = now + th_window t\<rparr> es
      | Some e \<Rightarrow>
        if now > te_resetAt e then AList.update key \<lparr>te_failures = 1, te_resetAt = now + th_window t\<rparr> es
        else AList.update key \<lparr>te_failures = te_failures e + 1, te_resetAt = now + th_window t\<rparr> es)"

definition throttle_Reset :: "string \<Rightarrow> throttle_entries \<Rightarrow> throttle_entries" where
  "throttle_Reset key es = AList.delete key es"

section \<open>One-time codes\<close>

definition totpPeriod :: int where "totpPeriod = 30"
definition totpDigits :: nat where "totpDigits = 6"
definition totpSecretBytes :: nat where "totpSecretBytes = 20"
definition totpSkew :: int where "totpSkew = 1"

text \<open>\<open>base32.StdEncoding\<close> without padding: eight characters for five bytes.\<close>

definition b32char :: "nat \<Rightarrow> char" where
  "b32char n = (if n < 26 then char_of (65 + n) else char_of (24 + n))"

definition b32val :: "char \<Rightarrow> nat option" where
  "b32val c = (let b = byte c in if 65 \<le> b \<and> b \<le> 90 then Some (b - 65) else if 50 \<le> b \<and> b \<le> 55 then Some (b - 24) else None)"

text \<open>The number a group of bytes, or of 5-bit digits, is; and its digits.\<close>

definition group_number :: "nat \<Rightarrow> nat list \<Rightarrow> nat" where
  "group_number b ds = foldl (\<lambda>n d. n * b + d) 0 ds"

definition group_digits :: "nat \<Rightarrow> nat \<Rightarrow> nat \<Rightarrow> nat list" where
  "group_digits b n v = rev (map (\<lambda>i. v div b ^ i mod b) [0..<n])"

text \<open>Only the characters that carry bits of the bytes there are.\<close>

function b32_encode :: "bytes \<Rightarrow> string" where
  "b32_encode bs =
     (if bs = [] then []
      else let g = take 5 bs; k = length g; v = group_number 256 (map unat g @ replicate (5 - k) 0)
        in map b32char (take ((8 * k + 4) div 5) (group_digits 32 8 v)) @ b32_encode (drop 5 bs))"
  by pat_completeness auto
termination by (relation "measure length") auto

text \<open>
  Decoding skips line breaks. The last group gives as many bytes as its characters fill, and a last
  group of 1, 3 or 6 characters, which no encoder writes, gives none.
\<close>

definition b32_group :: "string \<Rightarrow> bytes option" where
  "b32_group g =
     map_option (\<lambda>ds. let k = length ds; n = (if k \<in> {1, 3, 6} then 0 else 5 * k div 8);
         v = group_number 32 (ds @ replicate (8 - k) 0)
       in map (word_of_nat :: nat \<Rightarrow> 8 word) (take n (group_digits 256 5 v))) (those (map b32val g))"

function b32_groups :: "string \<Rightarrow> bytes option" where
  "b32_groups s =
     (if s = [] then Some []
      else case b32_group (take 8 s) of
        None \<Rightarrow> None
      | Some g \<Rightarrow> map_option (append g) (b32_groups (drop 8 s)))"
  by pat_completeness auto
termination by (relation "measure length") auto

declare b32_encode.simps [simp del] b32_groups.simps [simp del]

definition b32_decode :: "string \<Rightarrow> bytes option" where
  "b32_decode s = b32_groups (filter (\<lambda>c. byte c \<noteq> 10 \<and> byte c \<noteq> 13) s)"

definition NewTOTPSecret :: "bytes \<Rightarrow> string" where
  "NewTOTPSecret rnd = b32_encode rnd"

definition ValidTOTPSecret :: "(nat \<Rightarrow> nat) \<Rightarrow> string \<Rightarrow> bool" where
  "ValidTOTPSecret upper secret =
     (case b32_decode (ToUpper upper secret) of None \<Rightarrow> False | Some key \<Rightarrow> length key \<ge> 16)"

text \<open>\<open>url.PathEscape\<close> and \<open>url.QueryEscape\<close>.\<close>

definition unreserved :: "char \<Rightarrow> bool" where
  "unreserved c = (let b = byte c in 65 \<le> b \<and> b \<le> 90 \<or> 97 \<le> b \<and> b \<le> 122 \<or> 48 \<le> b \<and> b \<le> 57 \<or> c \<in> set ''-_.~'')"

definition url_escape :: "string \<Rightarrow> bool \<Rightarrow> string \<Rightarrow> string" where
  "url_escape keep spaces s = concat (map (\<lambda>c.
     if unreserved c \<or> c \<in> set keep then [c]
     else if spaces \<and> c = CHR '' '' then ''+''
     else let hexa = (\<lambda>n. if n < 10 then char_of (48 + n) else char_of (55 + n)) in
       [CHR ''%'', hexa (byte c div 16), hexa (byte c mod 16)]) s)"

definition PathEscape :: "string \<Rightarrow> string" where "PathEscape s = url_escape ''$&+=:@'' False s"
definition QueryEscape :: "string \<Rightarrow> string" where "QueryEscape s = url_escape [] True s"

text \<open>\<open>Values.Encode\<close> writes the keys in order.\<close>

definition TOTPURI :: "string \<Rightarrow> string \<Rightarrow> string \<Rightarrow> string" where
  "TOTPURI issuer account secret =
     ''otpauth://totp/'' @ PathEscape issuer @ '':'' @ PathEscape account @ ''?algorithm=SHA1&digits='' @ dec totpDigits @
     ''&issuer='' @ QueryEscape issuer @ ''&period='' @ Itoa totpPeriod @ ''&secret='' @ QueryEscape secret"

definition big_endian :: "nat \<Rightarrow> int \<Rightarrow> bytes" where
  "big_endian n v = map (\<lambda>k. word_of_int (v div 2 ^ (8 * k))) (rev [0..<n])"

definition totpCode :: "(bytes \<Rightarrow> bytes \<Rightarrow> bytes) \<Rightarrow> bytes \<Rightarrow> int \<Rightarrow> string" where
  "totpCode hmac_sha1 key step =
     (let sum = hmac_sha1 key (big_endian 8 step);
          off = unat (last sum AND 0x0F);
          bin = group_number 256 (map unat (take 4 (drop off sum))) mod 2 ^ 31
      in pad totpDigits (dec (bin mod 1000000)))"

definition VerifyTOTP :: "(bytes \<Rightarrow> bytes \<Rightarrow> bytes) \<Rightarrow> (nat \<Rightarrow> nat) \<Rightarrow> string \<Rightarrow> string \<Rightarrow> gotime \<Rightarrow> int \<Rightarrow> int option" where
  "VerifyTOTP hmac_sha1 upper secret code now last_used =
     (case b32_decode (ToUpper upper secret) of
        None \<Rightarrow> None
      | Some key \<Rightarrow>
        if key = [] then None
        else let code = concat (map snd (filter (\<lambda>(r, _). \<not> IsSpace r) (runes_of code))); current = quot (unix now) totpPeriod in
          if length code \<noteq> totpDigits then None
          else find (\<lambda>step. \<not> step \<le> last_used \<and> totpCode hmac_sha1 key step = code) [current - totpSkew..current + totpSkew])"

section \<open>Passwords\<close>

definition argonVersion :: int where "argonVersion = 19"
definition argonMemory :: int where "argonMemory = 19456"
definition argonTime :: int where "argonTime = 2"
definition argonThreads :: int where "argonThreads = 1"
definition argonKeyLen :: nat where "argonKeyLen = 32"

text \<open>The password, the salt, then the time, memory, threads and length of the key.\<close>

type_synonym argon = "string \<Rightarrow> bytes \<Rightarrow> int \<Rightarrow> int \<Rightarrow> int \<Rightarrow> nat \<Rightarrow> bytes"

text \<open>\<open>base64.RawStdEncoding\<close>: no padding.\<close>

definition RawEncode :: "bytes \<Rightarrow> string" where
  "RawEncode bs = filter (\<lambda>c. c \<noteq> CHR ''='') (WgKey.EncodeToString bs)"

definition RawDecode :: "string \<Rightarrow> bytes option" where
  "RawDecode s =
     (let t = filter (\<lambda>c. byte c \<noteq> 10 \<and> byte c \<noteq> 13) s in
      if CHR ''='' \<in> set t \<or> length t mod 4 = 1 then None
      else decode_quanta (t @ (if length t mod 4 = 2 then ''=='' else if length t mod 4 = 3 then ''='' else [])))"

definition HashPassword :: "argon \<Rightarrow> bytes \<Rightarrow> string \<Rightarrow> string" where
  "HashPassword argon2 salt password =
     ''$argon2id$v='' @ Itoa argonVersion @ ''$m='' @ Itoa argonMemory @ '',t='' @ Itoa argonTime @ '',p='' @ Itoa argonThreads @
     ''$'' @ RawEncode salt @ ''$'' @ RawEncode (argon2 password salt argonTime argonMemory argonThreads argonKeyLen)"

text \<open>
  \<open>fmt.Sscanf\<close> with the two formats used: literals, and \<open>%d\<close>, which skips spaces and reads digits, after a
  sign when the variable is signed, within the bounds. What follows is not read.
\<close>

definition scan_literal :: "string \<Rightarrow> string \<Rightarrow> string option" where
  "scan_literal lit s = (if take (length lit) s = lit then Some (drop (length lit) s) else None)"

definition scan_number :: "bool \<Rightarrow> int \<Rightarrow> string \<Rightarrow> (int \<times> string) option" where
  "scan_number signs bound s0 =
     (let s = dropWhile (\<lambda>c. byte c \<in> {9, 11, 12, 13, 32}) s0;
          neg = (signs \<and> s \<noteq> [] \<and> hd s = CHR ''-'');
          s = (if signs \<and> s \<noteq> [] \<and> hd s \<in> set ''+-'' then tl s else s);
          ds = takeWhile is_digit s; v = (if neg then - int (undec ds) else int (undec ds))
      in if ds = [] \<or> v \<ge> bound \<or> v < - bound then None else Some (v, dropWhile is_digit s))"

definition scan_version :: "string \<Rightarrow> int option" where
  "scan_version s = Option.bind (scan_literal ''v='' s) (\<lambda>s. map_option fst (scan_number True (2 ^ 63) s))"

definition scan_params :: "string \<Rightarrow> (int \<times> int \<times> int) option" where
  "scan_params s =
     Option.bind (scan_literal ''m='' s) (\<lambda>s. Option.bind (scan_number False (2 ^ 32) s) (\<lambda>(m, s).
     Option.bind (scan_literal '',t='' s) (\<lambda>s. Option.bind (scan_number False (2 ^ 32) s) (\<lambda>(t, s).
     Option.bind (scan_literal '',p='' s) (\<lambda>s. map_option (\<lambda>(p, _). (m, t, p)) (scan_number False 256 s))))))"

definition ErrPasswordMismatch :: err where
  "ErrPasswordMismatch = NewError ''auth: password does not match''"

text \<open>Argon2 panics when it is asked for no pass or no thread, which no hash of this panel does.\<close>

definition VerifyPassword :: "argon \<Rightarrow> string \<Rightarrow> string \<Rightarrow> err option" where
  "VerifyPassword argon2 encoded password =
     (case Split (CHR ''$'') encoded of
        [p0, p1, p2, p3, p4, p5] \<Rightarrow>
          if p0 \<noteq> [] \<or> p1 \<noteq> ''argon2id'' then Some (NewError ''auth: malformed password hash'')
          else (case scan_version p2 of
            None \<Rightarrow> Some (NewError ''auth: unreadable hash version'')
          | Some v \<Rightarrow>
            if v \<noteq> argonVersion then Some (NewError (''auth: unsupported argon2 version '' @ Itoa v))
            else (case scan_params p3 of
              None \<Rightarrow> Some (NewError ''auth: unreadable hash parameters'')
            | Some (m, t, p) \<Rightarrow>
              (case RawDecode p4 of
                None \<Rightarrow> Some (NewError ''auth: unreadable hash salt'')
              | Some salt \<Rightarrow>
                (case RawDecode p5 of
                  None \<Rightarrow> Some (NewError ''auth: unreadable hash key'')
                | Some want \<Rightarrow>
                  if t < 1 \<or> p < 1 then Some (NewError ''argon2: panic'')
                  else if argon2 password salt t m p (length want) \<noteq> want then Some ErrPasswordMismatch else None))))
      | _ \<Rightarrow> Some (NewError ''auth: malformed password hash''))"

section \<open>Tokens and accounts\<close>

definition tokenBytes :: nat where "tokenBytes = 32"

definition HashToken :: "(string \<Rightarrow> string) \<Rightarrow> string \<Rightarrow> string" where
  "HashToken sha256 token = Webhook.EncodeToString (sha256 token)"

text \<open>\<open>base64.RawURLEncoding\<close> has - and _ where the standard alphabet has + and /.\<close>

definition RawURLEncode :: "bytes \<Rightarrow> string" where
  "RawURLEncode bs = map (\<lambda>c. if c = CHR ''+'' then CHR ''-'' else if c = CHR ''/'' then CHR ''_'' else c) (RawEncode bs)"

definition NewSessionToken :: "(string \<Rightarrow> string) \<Rightarrow> bytes \<Rightarrow> string \<times> string" where
  "NewSessionToken sha256 rnd = (let token = RawURLEncode rnd in (token, HashToken sha256 token))"

definition MinPasswordLength :: nat where "MinPasswordLength = 8"
definition maxPasswordLength :: nat where "maxPasswordLength = 256"
definition maxAccountName :: nat where "maxAccountName = 80"

definition CheckPassword :: "string \<Rightarrow> string" where
  "CheckPassword p =
     (if p = [] then ''password is required''
      else if length p < MinPasswordLength then ''password must be at least 8 characters''
      else if length p > maxPasswordLength then ''password must be at most 256 characters''
      else [])"

text \<open>\<open>parse\<close> is the address \<open>mail.ParseAddress\<close> finds.\<close>

definition validEmail :: "(string \<Rightarrow> string option) \<Rightarrow> string \<Rightarrow> bool" where
  "validEmail parse email \<longleftrightarrow> parse email = Some email"

definition ValidateAccount :: "(string \<Rightarrow> string option) \<Rightarrow> string \<Rightarrow> string \<Rightarrow> string \<Rightarrow> fields" where
  "ValidateAccount parse name0 email0 password =
     (let name = TrimSpace name0; email = TrimSpace email0; msg = CheckPassword password
      in set_field (msg \<noteq> []) ''password'' msg
         ((if email = [] then set_field True ''email'' ''email is required'' else
          set_field (\<not> validEmail parse email) ''email'' ''email is not a valid address'')
         (if name = [] then set_field True ''name'' ''name is required'' []
          else set_field (RuneCountInString name > maxAccountName) ''name'' ''name must be at most 80 characters'' [])))"

record Identity =
  id_UserID :: int
  id_Email :: string
  id_TokenHash :: string

end
