(* ===== verification/ApiClient.thy ===== *)
theory ApiClient
  imports Auth
begin

text \<open>
  internal/api (client.go, middleware.go): who a request comes from, through which proxies, and what the
  log may show of its path. \<open>server\<close> is what the handlers are made with.
\<close>

text \<open>
  The services and the configuration, the tables of Unicode past ASCII and the functions of crypto; the
  environment of the request is that of the instance service's manager. \<open>srv_domain\<close> is the panel's domain
  once it has a certificate, \<open>srv_qr\<close> draws the picture of a QR code, \<open>srv_node_state\<close> says how the
  connection to a machine is doing (0 is the Docker daemon of the panel's own), and \<open>srv_url\<close> is the scheme
  and host \<open>url.Parse\<close> finds in an address, and whether it names a user.
\<close>

record 'm server =
  srv_instances :: "'m service"
  srv_sha256 :: "string \<Rightarrow> string"
  srv_hmac_sha1 :: "bytes \<Rightarrow> bytes \<Rightarrow> bytes"
  srv_argon2 :: argon
  srv_lower :: "nat \<Rightarrow> nat"
  srv_DummyHash :: string
  srv_TrustedProxies :: "Prefix list"
  srv_SessionTTL :: gotime
  srv_SecureCookies :: bool
  srv_ContainerName :: string
  srv_domain :: "string option"
  srv_qr :: "string \<Rightarrow> err + string"
  srv_node_state :: "int \<Rightarrow> string"
  srv_url :: "string \<Rightarrow> (string \<times> string \<times> bool) option"

abbreviation srv_env :: "'m server \<Rightarrow> env" where "srv_env sv \<equiv> sv_env (srv_instances sv)"
abbreviation srv_now :: "'m server \<Rightarrow> gotime" where "srv_now sv \<equiv> env_now (srv_env sv)"
abbreviation srv_manager :: "'m server \<Rightarrow> 'm manager" where "srv_manager sv \<equiv> sv_manager (srv_instances sv)"

text \<open>\<open>event.WithActor\<close> on the request's context, and the next request's clock.\<close>

definition map_env :: "(env \<Rightarrow> env) \<Rightarrow> 'm server \<Rightarrow> 'm server" where
  "map_env f sv = sv\<lparr>srv_instances := (srv_instances sv)\<lparr>sv_manager := (srv_manager sv)\<lparr>mg_env := f (srv_env sv)\<rparr>\<rparr>\<rparr>"

definition WithActor :: "string \<Rightarrow> 'm server \<Rightarrow> 'm server" where
  "WithActor name sv = map_env (\<lambda>v. v\<lparr>env_actor := name\<rparr>) sv"

definition at_time :: "gotime \<Rightarrow> 'm server \<Rightarrow> 'm server" where
  "at_time now sv = map_env (\<lambda>v. v\<lparr>env_now := now\<rparr>) sv"

section \<open>The client\<close>

record client =
  cl_ip :: string
  cl_https :: bool

text \<open>\<open>net.SplitHostPort\<close>, the host.\<close>

definition SplitHostPort :: "string \<Rightarrow> string option" where
  "SplitHostPort s =
     (case last_colon s of
        None \<Rightarrow> None
      | Some (front, port) \<Rightarrow>
        if s \<noteq> [] \<and> hd s = CHR ''['' then
          (case Cut (CHR '']'') (tl s) of (host, rest, ok) \<Rightarrow>
             if \<not> ok \<or> rest \<noteq> CHR '':'' # port \<or> CHR ''['' \<in> set (host @ port) \<or> CHR '']'' \<in> set port then None else Some host)
        else if CHR '':'' \<in> set front \<or> CHR ''['' \<in> set s \<or> CHR '']'' \<in> set s then None
        else Some front)"

definition remoteHost :: "hreq \<Rightarrow> string" where
  "remoteHost r = (case SplitHostPort (rq_RemoteAddr r) of None \<Rightarrow> rq_RemoteAddr r | Some host \<Rightarrow> host)"

definition parseHop :: "string \<Rightarrow> Addr option" where
  "parseHop s =
     (case ParseAddr s of
        Inr a \<Rightarrow> Some (Unmap a)
      | Inl _ \<Rightarrow> (case ParseAddrPort s of Some a \<Rightarrow> Some (Unmap a) | None \<Rightarrow> None))"

definition isTrusted :: "Addr \<Rightarrow> Prefix list \<Rightarrow> bool" where
  "isTrusted a trusted = list_ex (\<lambda>p. prefix_Contains p (Unmap a)) trusted"

text \<open>The loop over the hops, nearest first: the address it ends at.\<close>

fun walk_hops :: "Prefix list \<Rightarrow> Addr \<Rightarrow> string list \<Rightarrow> Addr" where
  "walk_hops trusted ip [] = ip"
| "walk_hops trusted ip (hop # hops) =
     (case parseHop (TrimSpace hop) of
        None \<Rightarrow> ip
      | Some a \<Rightarrow> if \<not> isTrusted a trusted then a else walk_hops trusted a hops)"

definition header_hops :: "hreq \<Rightarrow> string list" where
  "header_hops r = concat (map (Split (CHR '','')) (case map_of (rq_Header r) ''X-Forwarded-For'' of None \<Rightarrow> [] | Some vs \<Rightarrow> vs))"

definition resolveClient :: "(nat \<Rightarrow> nat \<Rightarrow> bool) \<Rightarrow> Prefix list \<Rightarrow> hreq \<Rightarrow> client" where
  "resolveClient same trusted r =
     (let host = remoteHost r; direct = \<lparr>cl_ip = host, cl_https = rq_TLS r\<rparr> in
      case ParseAddr host of
        Inl _ \<Rightarrow> direct
      | Inr peer \<Rightarrow>
        if \<not> isTrusted peer trusted then direct
        else (case Cut (CHR '','') (Header_Get r ''X-Forwarded-Proto'') of (proto, _, _) \<Rightarrow>
          \<lparr>cl_ip = addr_String (walk_hops trusted (Unmap peer) (rev (header_hops r))),
           cl_https = (rq_TLS r \<or> EqualFold same (TrimSpace proto) ''https'')\<rparr>))"

text \<open>Every request passes \<open>identifyClient\<close> first.\<close>

definition clientOf :: "'m server \<Rightarrow> hreq \<Rightarrow> client" where
  "clientOf sv r = resolveClient (sv_same_fold (srv_instances sv)) (srv_TrustedProxies sv) r"

definition clientIP :: "'m server \<Rightarrow> hreq \<Rightarrow> string" where
  "clientIP sv r = cl_ip (clientOf sv r)"

definition secureCookies :: "'m server \<Rightarrow> hreq \<Rightarrow> bool" where
  "secureCookies sv r \<longleftrightarrow> srv_SecureCookies sv \<or> cl_https (clientOf sv r)"

definition securityHeaders :: "hreq \<Rightarrow> ('m, 'z, unit) aprog \<Rightarrow> ('m, 'z, unit) aprog" where
  "securityHeaders r next_handler =
     thn (set_header ''X-Content-Type-Options'' ''nosniff'')
     (thn (set_header ''X-Frame-Options'' ''DENY'')
     (thn (set_header ''Referrer-Policy'' ''same-origin'')
     (thn (if rq_TLS r then set_header ''Strict-Transport-Security'' ''max-age=15552000'' else ret ()) next_handler)))"

section \<open>The log\<close>

text \<open>The ellipsis is one character of three bytes.\<close>

definition ellipsis :: string where "ellipsis = [CHR 0xE2, CHR 0x80, CHR 0xA6]"

fun log_path_prefixes :: "string list \<Rightarrow> string \<Rightarrow> string" where
  "log_path_prefixes [] path = path"
| "log_path_prefixes (p # ps) path =
     (if take (length p) path = p \<and> drop (length p) path \<noteq> []
      then (case Cut (CHR ''/'') (drop (length p) path) of (_, tail, _) \<Rightarrow>
        p @ ellipsis @ (if tail \<noteq> [] then ''/'' @ tail else []))
      else log_path_prefixes ps path)"

definition logPath :: "string \<Rightarrow> string" where
  "logPath path = log_path_prefixes [''/share/'', ''/api/share/''] path"

end
