(* ===== verification/ApiAuth.thy ===== *)
theory ApiAuth
  imports ApiClient
begin

text \<open>
  internal/api (auth.go, totp.go): signing in and out, the session a request belongs to, the password and
  the second factor. Decoded bodies, the identity of the session and random bytes are arguments.
\<close>

section \<open>The throttle of sign-ins\<close>

definition loginMaxAttempts :: nat where "loginMaxAttempts = 10"
definition loginWindow :: gotime where "loginWindow = 15 * 60 * second"

definition loginThrottle :: Throttle where
  "loginThrottle = \<lparr>th_max = loginMaxAttempts, th_window = loginWindow\<rparr>"

text \<open>\<open>Duration.Round(time.Second)\<close>, half away from zero, and its text.\<close>

definition round_seconds :: "gotime \<Rightarrow> int" where
  "round_seconds d = (if d < 0 then - ((- d + second div 2) div second) else (d + second div 2) div second)"

definition seconds_text :: "int \<Rightarrow> string" where
  "seconds_text s =
     (let a = \<bar>s\<bar>; h = a div 3600; m = a mod 3600 div 60 in
      (if s < 0 then ''-'' else []) @ (if h > 0 then Itoa h @ ''h'' else []) @ (if a \<ge> 60 then Itoa m @ ''m'' else []) @
      Itoa (a mod 60) @ ''s'')"

definition retryAfterSeconds :: "gotime \<Rightarrow> string" where
  "retryAfterSeconds d = Itoa (max 1 (quot d second))"

definition checkThrottle :: "gotime \<Rightarrow> string \<Rightarrow> ('m, 'z, unit) aprog" where
  "checkThrottle now key =
     bnd (\<lambda>s. case Allowed loginThrottle now key (ap_throttle s) of (r, es) \<Rightarrow> (Inr r, s\<lparr>ap_throttle := es\<rparr>)) (\<lambda>(ok, retryIn).
     if ok then ret ()
     else thn (set_header ''Retry-After'' (retryAfterSeconds retryIn))
       (throw (http_Errorf 429 ''too_many_attempts'' (''too many failed attempts, try again in '' @ seconds_text (round_seconds retryIn)))))"

definition login_Fail :: "gotime \<Rightarrow> string \<Rightarrow> ('m, 'z, unit) aprog" where
  "login_Fail now key = modify (\<lambda>s. s\<lparr>ap_throttle := Fail loginThrottle now key (ap_throttle s)\<rparr>)"

definition login_Reset :: "string \<Rightarrow> ('m, 'z, unit) aprog" where
  "login_Reset key = modify (\<lambda>s. s\<lparr>ap_throttle := throttle_Reset key (ap_throttle s)\<rparr>)"

section \<open>Sessions\<close>

definition sessionCookie :: string where "sessionCookie = ''tunploy_session''"

definition userResponse :: "User \<Rightarrow> json" where
  "userResponse u = JObj [(''id'', JInt (u_ID u)), (''name'', JStr (u_Name u)), (''email'', JStr (u_Email u)),
     (''totp_enabled'', JBool (u_TOTPSecret u \<noteq> [])), (''created_at'', JTime (u_CreatedAt u))]"

text \<open>\<open>http.SetCookie\<close>: the layout of the date is \<open>http.TimeFormat\<close>.\<close>

definition http_date :: "gotime \<Rightarrow> string" where
  "http_date t =
     (let (y, mo, d) = local_date (\<lambda>_. 0) t; s = unix t mod 86400; day = unix t div 86400 in
      [''Thu'', ''Fri'', ''Sat'', ''Sun'', ''Mon'', ''Tue'', ''Wed''] ! nat (day mod 7) @ '', '' @ pad 2 (Itoa d) @ '' '' @
      take 3 (month_names ! nat (mo - 1)) @ '' '' @ pad 4 (Itoa y) @ '' '' @
      pad 2 (Itoa (s div 3600)) @ '':'' @ pad 2 (Itoa (s mod 3600 div 60)) @ '':'' @ pad 2 (Itoa (s mod 60)) @ '' GMT'')"

definition cookie_text :: "string \<Rightarrow> gotime option \<Rightarrow> int \<Rightarrow> bool \<Rightarrow> string" where
  "cookie_text val expires max_age secure =
     sessionCookie @ ''='' @ val @ ''; Path=/'' @ (case expires of None \<Rightarrow> [] | Some t \<Rightarrow> ''; Expires='' @ http_date t) @
     (if max_age > 0 then ''; Max-Age='' @ Itoa max_age else if max_age < 0 then ''; Max-Age=0'' else []) @
     ''; HttpOnly'' @ (if secure then ''; Secure'' else []) @ ''; SameSite=Lax''"

definition SetCookie :: "string \<Rightarrow> ('m, 'z, unit) aprog" where
  "SetCookie text = modify (\<lambda>s. s\<lparr>rw_header := rw_header s @ [(''Set-Cookie'', text)]\<rparr>)"

definition truncate_to :: "string \<Rightarrow> nat \<Rightarrow> string" where
  "truncate_to s n = (if length s \<le> n then s else take n s)"

definition startSession :: "'m server \<Rightarrow> bytes \<Rightarrow> hreq \<Rightarrow> User \<Rightarrow> ('m, 'z, unit) aprog" where
  "startSession sv rnd r user =
     (let (token, hash) = NewSessionToken (srv_sha256 sv) rnd; expiresAt = srv_now sv + srv_SessionTTL sv in
      thn (CreateSession (srv_now sv) hash (u_ID user) (truncate_to (Header_Get r ''User-Agent'') 255) expiresAt)
       (SetCookie (cookie_text token (Some expiresAt) (quot (srv_SessionTTL sv) second) (secureCookies sv r))))"

definition restartSessions :: "'m server \<Rightarrow> bytes \<Rightarrow> hreq \<Rightarrow> User \<Rightarrow> ('m, 'z, unit) aprog" where
  "restartSessions sv rnd r user = thn (DeleteUserSessions (u_ID user)) (startSession sv rnd r user)"

definition clearSessionCookie :: "'m server \<Rightarrow> hreq \<Rightarrow> ('m, 'z, unit) aprog" where
  "clearSessionCookie sv r = SetCookie (cookie_text [] None (-1) (secureCookies sv r))"

text \<open>The middleware: the next handler runs with the identity of the session, or not at all.\<close>

definition requireAuth :: "'m server \<Rightarrow> (Identity \<Rightarrow> ('m, 'z, unit) aprog) \<Rightarrow> hreq \<Rightarrow> ('m, 'z, unit) aprog" where
  "requireAuth sv next_handler r =
     (case map_of (rq_Cookies r) sessionCookie of
        None \<Rightarrow> WriteError (Unauthorized ''not signed in'')
      | Some val \<Rightarrow>
        if val = [] then WriteError (Unauthorized ''not signed in'')
        else let hash = HashToken (srv_sha256 sv) val in
          bnd (attempt (UserBySessionToken (srv_now sv) hash)) (\<lambda>u.
          case u of
            Inl e \<Rightarrow>
              if errors_Is e ErrNotFound
              then thn (clearSessionCookie sv r) (WriteError (Unauthorized ''session is no longer valid''))
              else WriteError e
          | Inr user \<Rightarrow> next_handler \<lparr>id_UserID = u_ID user, id_Email = u_Email user, id_TokenHash = hash\<rparr>))"

section \<open>Signing in\<close>

record credentials =
  cr_Email :: string
  cr_Password :: string
  cr_Code :: string

definition handleSetupStatus :: "'m server \<Rightarrow> ('m, 'z, unit) aprog" where
  "handleSetupStatus sv =
     bnd CountUsers (\<lambda>n.
     JSON 200 (JObj ([(''setup_required'', JBool (n = 0))] @
       (if n = 0 then omit_empty ''container'' (srv_ContainerName sv) else []))))"

text \<open>An event of the panel itself, from the address of the client.\<close>

definition panel_event :: "'m server \<Rightarrow> hreq \<Rightarrow> string \<Rightarrow> string \<Rightarrow> Event" where
  "panel_event sv r kind detail = (blank_event kind)\<lparr>e_IP := clientIP sv r, e_Detail := detail\<rparr>"

definition login_key :: "'m server \<Rightarrow> hreq \<Rightarrow> string \<Rightarrow> string" where
  "login_key sv r email = email @ ''|'' @ clientIP sv r"

definition login_failed :: "'m server \<Rightarrow> hreq \<Rightarrow> string \<Rightarrow> string \<Rightarrow> ('m, 'z, unit) aprog" where
  "login_failed sv r key detail =
     thn (login_Fail (srv_now sv) key) (Record (srv_env sv) (panel_event sv r ''auth.login_failed'' detail))"

definition badPassword :: err where
  "badPassword = Unauthorized ''email or password is incorrect''"

definition checkTOTP :: "'m server \<Rightarrow> User \<Rightarrow> string \<Rightarrow> ('m, 'z, bool) aprog" where
  "checkTOTP sv user code =
     (case VerifyTOTP (srv_hmac_sha1 sv) (sv_upper (srv_instances sv)) (u_TOTPSecret user) code (srv_now sv) (u_TOTPLastStep user) of
        None \<Rightarrow> ret False
      | Some step \<Rightarrow> ClaimTOTPStep (u_ID user) step)"

text \<open>The part of \<open>handleLogin\<close> behind the password: the code, then the session.\<close>

definition login_code :: "'m server \<Rightarrow> hreq \<Rightarrow> string \<Rightarrow> string \<Rightarrow> User \<Rightarrow> string \<Rightarrow> ('m, 'z, unit) aprog" where
  "login_code sv r key email user code =
     (if u_TOTPSecret user = [] then ret ()
      else if TrimSpace code = [] then throw (http_Errorf 401 ''totp_required'' ''enter the code from your authenticator app'')
      else bnd (checkTOTP sv user code) (\<lambda>ok.
        if ok then ret ()
        else thn (login_failed sv r key (email @ '', wrong authentication code''))
          (throw (http_Errorf 401 ''totp_invalid'' ''the authentication code is incorrect''))))"

definition login_accept :: "'m server \<Rightarrow> bytes \<Rightarrow> hreq \<Rightarrow> string \<Rightarrow> User \<Rightarrow> ('m, 'z, unit) aprog" where
  "login_accept sv rnd r key user =
     thn (login_Reset key)
     (thn (startSession sv rnd r user)
     (thn (Record (srv_env sv) (panel_event sv r ''auth.login'' []))
     (JSON 200 (userResponse user))))"

definition handleLogin :: "'m server \<Rightarrow> bytes \<Rightarrow> hreq \<Rightarrow> credentials decoded \<Rightarrow> ('m, 'z, unit) aprog" where
  "handleLogin sv rnd r body =
     bnd (liftE (Decode body)) (\<lambda>req.
     let email = NormalizeEmail (srv_lower sv) (cr_Email req); key = login_key sv r email in
     thn (checkThrottle (srv_now sv) key)
     (bnd (attempt (UserByEmail (srv_lower sv) email)) (\<lambda>u.
      case u of
        Inl e \<Rightarrow> if errors_Is e ErrNotFound then thn (login_failed sv r key email) (throw badPassword) else throw e
      | Inr user \<Rightarrow>
        (case VerifyPassword (srv_argon2 sv) (u_PasswordHash user) (cr_Password req) of
           Some e \<Rightarrow> if errors_Is e ErrPasswordMismatch then thn (login_failed sv r key email) (throw badPassword) else throw e
         | None \<Rightarrow> thn (login_code sv r key email user (cr_Code req)) (login_accept sv rnd r key user)))))"

section \<open>Signed in\<close>

definition reauthenticate :: "'m server \<Rightarrow> Identity \<Rightarrow> hreq \<Rightarrow> string \<Rightarrow> string \<Rightarrow> ('m, 'z, User \<times> string) aprog" where
  "reauthenticate sv ident r field password =
     (let key = login_key sv r (id_Email ident) in
      thn (checkThrottle (srv_now sv) key)
      (bnd (UserByID (id_UserID ident)) (\<lambda>user.
       case VerifyPassword (srv_argon2 sv) (u_PasswordHash user) password of
         Some e \<Rightarrow>
           if errors_Is e ErrPasswordMismatch
           then thn (login_Fail (srv_now sv) key) (throw (http_Invalid [(field, ''current password is incorrect'')]))
           else throw e
       | None \<Rightarrow> ret (user, key))))"

definition handleLogout :: "'m server \<Rightarrow> Identity \<Rightarrow> hreq \<Rightarrow> ('m, 'z, unit) aprog" where
  "handleLogout sv ident r = thn (DeleteSession (id_TokenHash ident)) (thn (clearSessionCookie sv r) NoContent)"

definition handleMe :: "Identity \<Rightarrow> ('m, 'z, unit) aprog" where
  "handleMe ident = bnd (UserByID (id_UserID ident)) (\<lambda>user. JSON 200 (userResponse user))"

record passwordChange =
  pw_Current :: string
  pw_New :: string

definition handleChangePassword :: "'m server \<Rightarrow> bytes \<Rightarrow> bytes \<Rightarrow> Identity \<Rightarrow> hreq \<Rightarrow> passwordChange decoded \<Rightarrow> ('m, 'z, unit) aprog" where
  "handleChangePassword sv salt rnd ident r body =
     bnd (liftE (Decode body)) (\<lambda>req.
     let msg = CheckPassword (pw_New req) in
     if msg \<noteq> [] then throw (http_Invalid [(''new_password'', msg)])
     else bnd (reauthenticate sv ident r ''current_password'' (pw_Current req)) (\<lambda>(user, key).
       thn (login_Reset key)
       (thn (UpdateUserPassword (srv_now sv) (u_ID user) (HashPassword (srv_argon2 sv) salt (pw_New req)))
       (thn (restartSessions sv rnd r user)
       (thn (Record (srv_env sv) (panel_event sv r ''auth.password_changed'' [])) NoContent)))))"

section \<open>The second factor\<close>

definition totpIssuer :: string where "totpIssuer = ''Tunploy''"

definition handleTOTPSetup :: "bytes \<Rightarrow> Identity \<Rightarrow> ('m, 'z, unit) aprog" where
  "handleTOTPSetup rnd ident =
     (let secret = NewTOTPSecret rnd in
      JSON 200 (JObj [(''secret'', JStr secret), (''uri'', JStr (TOTPURI totpIssuer (id_Email ident) secret))]))"

record totpEnableRequest =
  te_Secret :: string
  te_Code :: string
  te_Password :: string

definition handleTOTPEnable :: "'m server \<Rightarrow> bytes \<Rightarrow> Identity \<Rightarrow> hreq \<Rightarrow> totpEnableRequest decoded \<Rightarrow> ('m, 'z, unit) aprog" where
  "handleTOTPEnable sv rnd ident r body =
     bnd (liftE (Decode body)) (\<lambda>req.
     bnd (reauthenticate sv ident r ''password'' (te_Password req)) (\<lambda>(user, key).
     if u_TOTPSecret user \<noteq> [] then throw (http_Conflict ''two-factor authentication is already on'')
     else if \<not> ValidTOTPSecret (sv_upper (srv_instances sv)) (te_Secret req)
     then throw (BadRequest ''secret is not one this panel generated'')
     else case VerifyTOTP (srv_hmac_sha1 sv) (sv_upper (srv_instances sv)) (te_Secret req) (te_Code req) (srv_now sv) 0 of
       None \<Rightarrow> thn (login_Fail (srv_now sv) key)
         (throw (http_Invalid [(''code'', ''code is incorrect; check that your phone's clock is right'')]))
     | Some step \<Rightarrow>
       thn (login_Reset key)
       (thn (EnableTOTP (srv_now sv) (u_ID user) (te_Secret req) step)
       (let user = user\<lparr>u_TOTPSecret := te_Secret req, u_TOTPLastStep := step\<rparr> in
        thn (restartSessions sv rnd r user)
        (thn (Record (srv_env sv) (panel_event sv r ''auth.totp_enabled'' []))
        (JSON 200 (userResponse user)))))))"

record totpDisableRequest =
  td_Code :: string
  td_Password :: string

definition handleTOTPDisable :: "'m server \<Rightarrow> Identity \<Rightarrow> hreq \<Rightarrow> totpDisableRequest decoded \<Rightarrow> ('m, 'z, unit) aprog" where
  "handleTOTPDisable sv ident r body =
     bnd (liftE (Decode body)) (\<lambda>req.
     bnd (reauthenticate sv ident r ''password'' (td_Password req)) (\<lambda>(user, key).
     if u_TOTPSecret user = [] then throw (http_Conflict ''two-factor authentication is already off'')
     else bnd (checkTOTP sv user (td_Code req)) (\<lambda>ok.
       if \<not> ok then thn (login_Fail (srv_now sv) key) (throw (http_Invalid [(''code'', ''code is incorrect'')]))
       else thn (login_Reset key)
         (thn (DisableTOTP (srv_now sv) (u_ID user))
         (let user = user\<lparr>u_TOTPSecret := [], u_TOTPLastStep := 0\<rparr> in
          thn (Record (srv_env sv) (panel_event sv r ''auth.totp_disabled'' []))
          (JSON 200 (userResponse user)))))))"

end
