(* ===== verification/ApiKeys.thy ===== *)
theory ApiKeys
  imports ApiAuth StoreKeys "HOL-Library.Log_Nat"
begin

text \<open>
  internal/api/apikeys.go: the API keys of other programs. What a request with a key passes before its
  handler runs: the key, its rate limit, its scope, and the reply stored for a repeated POST.
\<close>

definition scopeDevicesRead :: string where "scopeDevicesRead = ''devices:read''"
definition scopeDevicesWrite :: string where "scopeDevicesWrite = ''devices:write''"
definition scopeServersRead :: string where "scopeServersRead = ''servers:read''"
definition scopeServersWrite :: string where "scopeServersWrite = ''servers:write''"
definition scopeEventsRead :: string where "scopeEventsRead = ''events:read''"
definition scopeWebhooksWrite :: string where "scopeWebhooksWrite = ''webhooks:write''"

definition apiScopes :: "string list" where
  "apiScopes = [scopeDevicesRead, scopeDevicesWrite, scopeServersRead, scopeServersWrite, scopeEventsRead, scopeWebhooksWrite]"

definition apiKeyPrefix :: string where "apiKeyPrefix = ''tp_''"
definition maxAPIKeys :: nat where "maxAPIKeys = 50"
definition maxAPIKeyName :: nat where "maxAPIKeyName = 64"
definition maxIdemKeyLen :: nat where "maxIdemKeyLen = 255"
definition apiRatePerSec :: rat where "apiRatePerSec = 10"
definition apiRateBurst :: rat where "apiRateBurst = 60"
definition touchEvery :: gotime where "touchEvery = 60 * second"
definition maxAPIBodySize :: nat where "maxAPIBodySize = 1048576"

section \<open>The rate limiter\<close>

text \<open>
  A bucket counts in \<open>float64\<close>: every operation rounds to 53 bits, half to even. The values here stay far
  from the ends of the exponent's range.
\<close>

definition pow2 :: "int \<Rightarrow> rat" where
  "pow2 k = (if 0 \<le> k then 2 ^ nat k else 1 / 2 ^ nat (- k))"

text \<open>The power of two at or below a positive number.\<close>

definition exponent :: "rat \<Rightarrow> int" where
  "exponent x = (case quotient_of x of (n, d) \<Rightarrow> let k = bitlen n - bitlen d in if pow2 k \<le> x then k else k - 1)"

definition fl :: "rat \<Rightarrow> rat" where
  "fl x =
     (if x = 0 then 0
      else let ulp = pow2 (exponent \<bar>x\<bar> - 52); (n, d) = quotient_of (\<bar>x\<bar> / ulp); m = of_int (round_even n d) * ulp in
        if x < 0 then - m else m)"

text \<open>\<open>Duration.Seconds\<close>: the whole seconds and the rest, both truncated toward zero.\<close>

definition Seconds :: "gotime \<Rightarrow> rat" where
  "Seconds d = (let sec = quot d second; nsec = d - sec * second in fl (fl (of_int sec) + fl (of_int nsec / 1000000000)))"

definition refilled :: "gotime \<Rightarrow> bucket \<Rightarrow> rat" where
  "refilled now b = min apiRateBurst (fl (bk_tokens b + fl (Seconds (now - bk_at b) * apiRatePerSec)))"

definition allow :: "int \<Rightarrow> gotime \<Rightarrow> (int \<times> bucket) list \<Rightarrow> (bool \<times> gotime) \<times> (int \<times> bucket) list" where
  "allow k now bs =
     (let b = (case map_of bs k of None \<Rightarrow> \<lparr>bk_tokens = apiRateBurst, bk_at = now\<rparr> | Some b \<Rightarrow> b);
          tokens = refilled now b in
      if tokens < 1
      then ((False, \<lfloor>fl (fl (fl (1 - tokens) / apiRatePerSec) * 1000000000)\<rfloor>), AList.update k \<lparr>bk_tokens = tokens, bk_at = now\<rparr> bs)
      else ((True, 0), AList.update k \<lparr>bk_tokens = fl (tokens - 1), bk_at = now\<rparr> bs))"

definition limiter_allow :: "int \<Rightarrow> gotime \<Rightarrow> ('m, 'z, bool \<times> gotime) aprog" where
  "limiter_allow k now = (\<lambda>s. case allow k now (ap_buckets s) of (r, bs) \<Rightarrow> (Inr r, s\<lparr>ap_buckets := bs\<rparr>))"

definition limiter_forget :: "int \<Rightarrow> ('m, 'z, unit) aprog" where
  "limiter_forget k = modify (\<lambda>s. s\<lparr>ap_buckets := AList.delete k (ap_buckets s)\<rparr>)"

section \<open>Managing the keys\<close>

definition omit_time :: "string \<Rightarrow> gotime option \<Rightarrow> (string \<times> json) list" where
  "omit_time k t = (case t of None \<Rightarrow> [] | Some t \<Rightarrow> [(k, JTime t)])"

text \<open>A list read from an empty column is nil. \<open>expires\<close> is the member \<open>expires_at\<close>.\<close>

definition apiKey_members :: "(string \<times> json) list \<Rightarrow> APIKey \<Rightarrow> (string \<times> json) list" where
  "apiKey_members expires k =
     [(''id'', JInt (k_ID k)), (''name'', JStr (k_Name k)), (''prefix'', JStr (k_Prefix k)),
      (''scopes'', if k_Scopes k = [] then JNull else JList (map JStr (k_Scopes k)))] @ expires @
     omit_time ''last_used_at'' (k_LastUsedAt k) @ omit_empty ''last_used_ip'' (k_LastUsedIP k) @
     [(''created_at'', JTime (k_CreatedAt k))]"

definition handleListAPIKeys :: "('m, 'z, unit) aprog" where
  "handleListAPIKeys =
     bnd APIKeys (\<lambda>keys. JSON 200 (JList (map (\<lambda>k. JObj (apiKey_members (omit_time ''expires_at'' (k_ExpiresAt k)) k)) keys)))"

text \<open>A time of a request is sent back as it was written.\<close>

record apiKeyRequest =
  kr_Name :: string
  kr_Scopes :: "string list"
  kr_ExpiresAt :: "(gotime \<times> string) option"

definition request_scopes :: "apiKeyRequest \<Rightarrow> string list" where
  "request_scopes req = filter (\<lambda>sc. sc \<in> set (kr_Scopes req)) apiScopes"

definition key_fields :: "(nat \<Rightarrow> bool) \<Rightarrow> gotime \<Rightarrow> apiKeyRequest \<Rightarrow> string \<Rightarrow> fields" where
  "key_fields printable now req name =
     (let bad = filter (\<lambda>sc. sc \<notin> set apiScopes) (kr_Scopes req) in
      set_field (case kr_ExpiresAt req of None \<Rightarrow> False | Some (t, _) \<Rightarrow> \<not> t > now) ''expires_at'' ''expiry must be in the future''
      (set_field (request_scopes req = [] \<and> bad = []) ''scopes'' ''choose at least one scope''
      (set_field (bad \<noteq> []) ''scopes'' (''unknown scope '' @ Quote printable (last bad))
      (if name = [] then [(''name'', ''name is required'')]
       else if RuneCountInString name > maxAPIKeyName then [(''name'', ''name must be at most 64 characters'')]
       else if contains_rune IsControl name then [(''name'', ''name must not contain control characters'')]
       else []))))"

definition apiKeyDetail :: "(int \<Rightarrow> int) \<Rightarrow> APIKey \<Rightarrow> string" where
  "apiKeyDetail off k =
     k_Name k @ '' ('' @ strings_Join '', '' (k_Scopes k) @ '')'' @
     (case k_ExpiresAt k of None \<Rightarrow> [] | Some t \<Rightarrow> '', until '' @ format_date (local_date off t))"

definition handleCreateAPIKey :: "'m server \<Rightarrow> bytes \<Rightarrow> hreq \<Rightarrow> apiKeyRequest decoded \<Rightarrow> ('m, 'z, unit) aprog" where
  "handleCreateAPIKey sv rnd r body =
     bnd (liftE (Decode body)) (\<lambda>req.
     let name = TrimSpace (kr_Name req);
         fs = key_fields (sv_printable (srv_instances sv)) (srv_now sv) req name in
     if fs \<noteq> [] then throw (http_Invalid fs)
     else bnd APIKeys (\<lambda>existing.
       if length existing \<ge> maxAPIKeys then throw (http_Conflict ''the panel holds at most 50 API keys; revoke one first'')
       else let token = apiKeyPrefix @ fst (NewSessionToken (srv_sha256 sv) rnd);
           k = \<lparr>k_ID = 0, k_Name = name, k_Prefix = take (length apiKeyPrefix + 6) token, k_TokenHash = HashToken (srv_sha256 sv) token,
             k_Scopes = request_scopes req, k_ExpiresAt = map_option fst (kr_ExpiresAt req), k_LastUsedAt = None,
             k_LastUsedIP = [], k_CreatedAt = zero_time\<rparr> in
         bnd (mapErr (\<lambda>e. if as_duplicate e = Some ''name''
             then http_Invalid [(''name'', ''an API key with this name already exists'')] else e) (CreateAPIKey (srv_now sv) k)) (\<lambda>k.
         thn (Record (srv_env sv) (panel_event sv r ''apikey.created'' (apiKeyDetail (env_off (srv_env sv)) k)))
         (JSON 201 (JObj (apiKey_members (case kr_ExpiresAt req of None \<Rightarrow> [] | Some (_, text) \<Rightarrow> [(''expires_at'', JRaw text)]) k @
           [(''token'', JStr token)]))))))"

definition handleDeleteAPIKey :: "'m server \<Rightarrow> hreq \<Rightarrow> ('m, 'z, unit) aprog" where
  "handleDeleteAPIKey sv r =
     (let gone = http_NotFound ''API key not found'' in
      case ParseInt (PathValue r ''id'') of
        None \<Rightarrow> throw gone
      | Some n \<Rightarrow>
        bnd (mapErr (\<lambda>e. if errors_Is e ErrNotFound then gone else e) (APIKeyByID n)) (\<lambda>k.
        thn (DeleteAPIKey n)
        (thn (limiter_forget n)
        (thn (Record (srv_env sv) (panel_event sv r ''apikey.revoked'' (k_Name k))) NoContent))))"

section \<open>Requests with a key\<close>

definition invalid_token :: err where
  "invalid_token = Unauthorized ''API key is unknown, revoked or expired''"

definition quoted :: "string \<Rightarrow> string" where "quoted s = [CHR 0x22] @ s @ [CHR 0x22]"

text \<open>Whether the use of the key is written down.\<close>

definition use_is_news :: "APIKey \<Rightarrow> string \<Rightarrow> gotime \<Rightarrow> bool" where
  "use_is_news k ip now \<longleftrightarrow>
     (case k_LastUsedAt k of None \<Rightarrow> True | Some t \<Rightarrow> now - t \<ge> touchEvery) \<or> k_LastUsedIP k \<noteq> ip"

text \<open>The middleware: the next handler runs as the key's program, or not at all.\<close>

definition requireAPIKey :: "'m server \<Rightarrow> ('m server \<Rightarrow> APIKey \<Rightarrow> ('m, 'z, unit) aprog) \<Rightarrow> hreq \<Rightarrow> ('m, 'z, unit) aprog" where
  "requireAPIKey sv next_handler r =
     (case Cut (CHR '' '') (Header_Get r ''Authorization'') of (scheme, raw, _) \<Rightarrow>
      let token = TrimSpace raw; now = srv_now sv; ip = clientIP sv r in
      if \<not> EqualFold (sv_same_fold (srv_instances sv)) scheme ''Bearer'' \<or> take (length apiKeyPrefix) token \<noteq> apiKeyPrefix
      then thn (set_header ''WWW-Authenticate'' (''Bearer realm='' @ quoted ''tunploy''))
        (WriteError (Unauthorized ''send an API key as Authorization: Bearer tp_...''))
      else bnd (attempt (APIKeyByToken (HashToken (srv_sha256 sv) token))) (\<lambda>k.
        if (case k of Inl e \<Rightarrow> errors_Is e ErrNotFound | Inr k \<Rightarrow> Expired k now)
        then thn (set_header ''WWW-Authenticate'' (''Bearer realm='' @ quoted ''tunploy'' @ '', error='' @ quoted ''invalid_token''))
          (WriteError invalid_token)
        else case k of
          Inl e \<Rightarrow> WriteError e
        | Inr k \<Rightarrow>
          bnd (limiter_allow (k_ID k) now) (\<lambda>(ok, wait).
          if \<not> ok
          then thn (set_header ''Retry-After'' (retryAfterSeconds wait))
            (WriteError (http_Errorf 429 ''rate_limited'' ''too many requests for this API key, slow down to 10 a second''))
          else thn (if use_is_news k ip now then bnd (attempt (TouchAPIKey (k_ID k) ip now)) (\<lambda>_. ret ()) else ret ())
            (next_handler (WithActor (''api:'' @ k_Name k) sv) k))))"

definition requireScope :: "string \<Rightarrow> APIKey \<Rightarrow> ('m, 'z, unit) aprog \<Rightarrow> ('m, 'z, unit) aprog" where
  "requireScope scope k h = serve
     (if scope \<notin> set (k_Scopes k) then throw (http_Errorf 403 ''missing_scope'' (''this API key lacks the '' @ scope @ '' scope'')) else h)"

section \<open>Repeated requests\<close>

definition request_hash :: "'m server \<Rightarrow> hreq \<Rightarrow> string" where
  "request_hash sv r = Webhook.EncodeToString (srv_sha256 sv (rq_Method r @ '' '' @ rq_RequestURI r @ [CHR 0x0A] @ rq_Body r))"

definition header_text :: "('m, 'z) api_scheme \<Rightarrow> string \<Rightarrow> string" where
  "header_text s k = (case map_of (rw_header s) k of None \<Rightarrow> [] | Some v \<Rightarrow> v)"

text \<open>\<open>capture\<close> around a handler: the last status it wrote, and its body.\<close>

definition captured :: "('m, 'z, unit) aprog \<Rightarrow> ('m, 'z, int \<times> string) aprog" where
  "captured h =
     bnd (gets (\<lambda>s. length (rw_body s))) (\<lambda>n.
     thn (modify (\<lambda>s. s\<lparr>rw_last := None\<rparr>))
     (thn h
     (gets (\<lambda>s. (case rw_last s of None \<Rightarrow> 200 | Some c \<Rightarrow> c, drop n (rw_body s))))))"

definition replay :: "StoredResponse \<Rightarrow> ('m, 'z, unit) aprog" where
  "replay st =
     thn (set_header ''Content-Type'' (sr_ContentType st))
     (thn (set_header ''Idempotent-Replayed'' ''true'') (thn (WriteHeader (sr_Status st)) (w_Write (sr_Body st))))"

text \<open>What runs once the key is claimed; errors of the store are logged.\<close>

definition claimed :: "int \<Rightarrow> string \<Rightarrow> ('m, 'z, unit) aprog \<Rightarrow> ('m, 'z, unit) aprog" where
  "claimed k key h =
     bnd (captured h) (\<lambda>(status, body).
     if status = 500 \<or> status = 429 then bnd (attempt (ReleaseIdempotencyKey k key)) (\<lambda>_. ret ())
     else bnd (gets (\<lambda>s. header_text s ''Content-Type'')) (\<lambda>ctype.
       bnd (attempt (FinishIdempotencyKey k key \<lparr>sr_Status = status, sr_ContentType = ctype, sr_Body = body\<rparr>)) (\<lambda>_. ret ())))"

definition idempotent :: "'m server \<Rightarrow> APIKey \<Rightarrow> hreq \<Rightarrow> ('m, 'z, unit) aprog \<Rightarrow> ('m, 'z, unit) aprog" where
  "idempotent sv k r h =
     (let key = Header_Get r ''Idempotency-Key'' in
      if key = [] then h
      else if length key > maxIdemKeyLen then WriteError (BadRequest ''Idempotency-Key must be at most 255 bytes'')
      else if length (rq_Body r) > maxAPIBodySize then WriteError (BadRequest ''request body is too large'')
      else bnd (attempt (ClaimIdempotencyKey (k_ID k) key (request_hash sv r) (srv_now sv))) (\<lambda>c.
        case c of
          Inl e \<Rightarrow>
            if errors_Is e ErrIdempotencyMismatch
            then WriteError (http_Errorf 422 ''idempotency_key_reused'' ''this Idempotency-Key was already used for a different request'')
            else if errors_Is e ErrIdempotencyBusy
            then WriteError (http_Errorf 409 ''idempotency_key_in_use'' ''a request with this Idempotency-Key is still running'')
            else WriteError e
        | Inr (Some st) \<Rightarrow> replay st
        | Inr None \<Rightarrow> claimed (k_ID k) key h))"

end
