(* ===== verification/ApiDevices.thy ===== *)
theory ApiDevices
  imports ApiKeys
begin

text \<open>
  internal/api (v1.go, v1_devices.go, v1_groups.go, share.go, peers.go): devices over HTTP, for other
  programs under /api/v1 and for the panel, and the pages of share links. Decoded bodies and random bytes
  are arguments. A handler ends in a reply or in the error that \<open>serve\<close> writes.
\<close>

section \<open>Shared by the handlers\<close>

definition defaultPageSize :: int where "defaultPageSize = 50"
definition maxPageSize :: int where "maxPageSize = 200"
definition usageDays :: nat where "usageDays = 30"
definition usageMonths :: nat where "usageMonths = 12"

definition queryID :: "string \<Rightarrow> string \<Rightarrow> err + int" where
  "queryID raw name =
     (if raw = [] then Inr 0
      else case ParseInt raw of
        None \<Rightarrow> Inl (BadRequest (name @ '' must be a positive number''))
      | Some v \<Rightarrow> if v < 1 then Inl (BadRequest (name @ '' must be a positive number'')) else Inr v)"

definition pageSize :: "string \<Rightarrow> err + int" where
  "pageSize raw =
     (if raw = [] then Inr defaultPageSize
      else case ParseInt raw of
        None \<Rightarrow> Inl (BadRequest ''limit must be between 1 and 200'')
      | Some n \<Rightarrow> if n < 1 \<or> n > maxPageSize then Inl (BadRequest ''limit must be between 1 and 200'') else Inr n)"

definition page_json :: "json list \<Rightarrow> bool \<Rightarrow> json" where
  "page_json xs has_more = JObj [(''data'', JList xs), (''has_more'', JBool has_more)]"

text \<open>A page of what was read with one row more than its limit.\<close>

definition cut_page :: "int \<Rightarrow> 'a list \<Rightarrow> 'a list \<times> bool" where
  "cut_page limit xs = (let has_more = int (length xs) > limit in (if has_more then take (nat limit) xs else xs, has_more))"

text \<open>\<open>MarshalText\<close> of netip: the zero value is empty.\<close>

definition addr_json :: "Addr \<Rightarrow> json" where
  "addr_json a = JStr (if a = NoAddr then [] else addr_String a)"

definition prefix_json :: "Prefix \<Rightarrow> json" where
  "prefix_json p = JStr (if p = NoPrefix then [] else prefix_String p)"

definition key_json :: "Key \<Rightarrow> json" where
  "key_json k = JStr (key_String k)"

record trafficView =
  tv_RxBytes :: int
  tv_TxBytes :: int
  tv_TotalBytes :: int

definition newTrafficView :: "Traffic \<Rightarrow> trafficView" where
  "newTrafficView t = \<lparr>tv_RxBytes = RxBytes t, tv_TxBytes = TxBytes t, tv_TotalBytes = Total t\<rparr>"

definition trafficView_json :: "trafficView \<Rightarrow> json" where
  "trafficView_json v = JObj [(''rx_bytes'', JInt (tv_RxBytes v)), (''tx_bytes'', JInt (tv_TxBytes v)), (''total_bytes'', JInt (tv_TotalBytes v))]"

definition traffic_json :: "Traffic \<Rightarrow> json" where
  "traffic_json t = JObj [(''rx_bytes'', JInt (RxBytes t)), (''tx_bytes'', JInt (TxBytes t))]"

definition usagePoint_json :: "UsagePoint \<Rightarrow> json" where
  "usagePoint_json u = JObj [(''start'', JStr (up_Start u)), (''rx_bytes'', JInt (RxBytes (up_Traffic u))), (''tx_bytes'', JInt (TxBytes (up_Traffic u)))]"

text \<open>A command that saved something and then failed is an error to its caller.\<close>

definition all_of :: "('m, 'z, 'a \<times> err option) aprog \<Rightarrow> ('m, 'z, 'a) aprog" where
  "all_of m = bnd m (\<lambda>(x, e). case e of None \<Rightarrow> ret x | Some e \<Rightarrow> throw e)"

definition is_online_now :: "(Key \<times> bool) list \<Rightarrow> Key \<Rightarrow> bool" where
  "is_online_now online k = (map_of online k = Some True)"

section \<open>Changes of a device\<close>

text \<open>\<open>optional\<close>: the field may be missing, null, or a value.\<close>

type_synonym 'a optional = "'a option option"

text \<open>\<open>json.Compact\<close> of a text that is JSON: the space between tokens goes.\<close>

fun json_compact :: "bool \<Rightarrow> string \<Rightarrow> string" where
  "json_compact str [] = []"
| "json_compact False (c # s) =
     (if byte c \<in> {32, 9, 10, 13} then json_compact False s else c # json_compact (c = CHR 0x22) s)"
| "json_compact True (c # s) =
     (if c = CHR 0x5C then (case s of [] \<Rightarrow> [c] | d # s \<Rightarrow> c # d # json_compact True s)
      else c # json_compact (c \<noteq> CHR 0x22) s)"

datatype serverRef = ServerID int | ServerAuto

text \<open>A time in a request comes with its text, which the reply repeats.\<close>

record v1DeviceRequest =
  vq_ServerID :: "serverRef option"
  vq_Country :: "string option"
  vq_City :: "string option"
  vq_Name :: "string option"
  vq_PublicKey :: "string option"
  vq_ExternalID :: "string option"
  vq_Metadata :: "string optional"
  vq_Enabled :: "bool option"
  vq_DataLimit :: "int option"
  vq_LimitPeriod :: "string option"
  vq_ExpiresAt :: "(gotime \<times> string) optional"
  vq_SpeedLimit :: "int option"

definition request_metadata :: "string option \<Rightarrow> string" where
  "request_metadata v = (case v of None \<Rightarrow> [] | Some raw \<Rightarrow> let b = json_compact False raw in if b = ''{}'' then [] else b)"

definition v1_apply :: "v1DeviceRequest \<Rightarrow> Peer \<Rightarrow> fields \<times> Peer" where
  "v1_apply req p =
     (set_field (vq_LimitPeriod req = Some []) ''limit_period'' ''limit_period must be monthly or total'' [],
      p\<lparr>p_Name := given (map_option TrimSpace (vq_Name req)) (p_Name p),
        p_ExternalID := given (map_option TrimSpace (vq_ExternalID req)) (p_ExternalID p),
        p_Metadata := given (map_option request_metadata (vq_Metadata req)) (p_Metadata p),
        p_Enabled := given (vq_Enabled req) (p_Enabled p),
        p_DataLimit := given (vq_DataLimit req) (p_DataLimit p),
        p_LimitPeriod := given (vq_LimitPeriod req) (p_LimitPeriod p),
        p_ExpiresAt := given (map_option (map_option fst) (vq_ExpiresAt req)) (p_ExpiresAt p),
        p_SpeedLimit := given (vq_SpeedLimit req) (p_SpeedLimit p)\<rparr>)"

section \<open>Views\<close>

record v1Device =
  vd_ID :: int
  vd_ServerID :: int
  vd_Name :: string
  vd_ExternalID :: string
  vd_Metadata :: string
  vd_Address :: Addr
  vd_PublicKey :: Key
  vd_ClientKey :: bool
  vd_Enabled :: bool
  vd_Status :: string
  vd_Online :: bool
  vd_LastHandshake :: "gotime option"
  vd_DataLimit :: int
  vd_LimitPeriod :: string
  vd_PeriodUsage :: trafficView
  vd_UsageResetAt :: "gotime option"
  vd_ExpiresAt :: json
  vd_SpeedLimit :: int
  vd_MonthUsage :: trafficView
  vd_CreatedAt :: gotime
  vd_UpdatedAt :: gotime
  vd_Config :: string

definition v1Device_json :: "v1Device \<Rightarrow> json" where
  "v1Device_json d = JObj ([(''id'', JInt (vd_ID d)), (''server_id'', JInt (vd_ServerID d)), (''name'', JStr (vd_Name d)),
     (''external_id'', JStr (vd_ExternalID d)), (''metadata'', JRaw (vd_Metadata d)), (''address'', addr_json (vd_Address d)),
     (''public_key'', key_json (vd_PublicKey d)), (''client_key'', JBool (vd_ClientKey d)), (''enabled'', JBool (vd_Enabled d)),
     (''status'', JStr (vd_Status d)), (''online'', JBool (vd_Online d)), (''last_handshake'', json_opt JTime (vd_LastHandshake d)),
     (''data_limit'', JInt (vd_DataLimit d)), (''limit_period'', JStr (vd_LimitPeriod d)),
     (''period_usage'', trafficView_json (vd_PeriodUsage d)), (''usage_reset_at'', json_opt JTime (vd_UsageResetAt d)),
     (''expires_at'', vd_ExpiresAt d), (''speed_limit'', JInt (vd_SpeedLimit d)), (''month_usage'', trafficView_json (vd_MonthUsage d)),
     (''created_at'', JTime (vd_CreatedAt d)), (''updated_at'', JTime (vd_UpdatedAt d))] @ omit_empty ''config'' (vd_Config d))"

definition v1_view :: "gotime \<Rightarrow> (int \<times> Traffic) list \<Rightarrow> (int \<times> Traffic) list \<Rightarrow> (Key \<times> bool) list \<Rightarrow> Peer \<Rightarrow> v1Device" where
  "v1_view now usage used online p =
     (let u = usage_of used (p_ID p) in
      \<lparr>vd_ID = p_ID p, vd_ServerID = p_InstanceID p, vd_Name = p_Name p, vd_ExternalID = p_ExternalID p,
       vd_Metadata = (if p_Metadata p = [] then ''{}'' else p_Metadata p), vd_Address = p_Address p, vd_PublicKey = p_PublicKey p,
       vd_ClientKey = KeyOnClient p, vd_Enabled = p_Enabled p, vd_Status = peer_Status p u now,
       vd_Online = is_online_now online (p_PublicKey p), vd_LastHandshake = p_LastHandshake p, vd_DataLimit = p_DataLimit p,
       vd_LimitPeriod = p_LimitPeriod p, vd_PeriodUsage = newTrafficView u, vd_UsageResetAt = p_UsageResetAt p,
       vd_ExpiresAt = json_opt JTime (p_ExpiresAt p), vd_SpeedLimit = p_SpeedLimit p,
       vd_MonthUsage = newTrafficView (usage_of usage (p_ID p)), vd_CreatedAt = p_CreatedAt p, vd_UpdatedAt = p_UpdatedAt p,
       vd_Config = []\<rparr>)"

primrec v1_views :: "gotime \<Rightarrow> (int \<times> Traffic) list \<Rightarrow> (int \<times> Traffic) list \<Rightarrow> Peer list \<Rightarrow> ('m, 'z, v1Device list) aprog" where
  "v1_views now usage used [] = ret []"
| "v1_views now usage used (p # ps) =
     bnd (Online (p_InstanceID p)) (\<lambda>online. bnd (v1_views now usage used ps) (\<lambda>vs. ret (v1_view now usage used online p # vs)))"

definition v1Devices :: "'m server \<Rightarrow> Peer list \<Rightarrow> ('m, 'z, v1Device list) aprog" where
  "v1Devices sv peers =
     (let now = srv_now sv; off = env_off (srv_env sv); ids = map p_ID peers in
      bnd (PeersMonthUsage off ids now) (\<lambda>usage.
      bnd (PeersLimitUsage off ids now) (\<lambda>used.
      v1_views now usage used peers)))"

definition v1Device_of :: "'m server \<Rightarrow> Peer \<Rightarrow> ('m, 'z, v1Device) aprog" where
  "v1Device_of sv p = bnd (v1Devices sv [p]) (\<lambda>vs. ret (hd vs))"

definition write_v1Device :: "'m server \<Rightarrow> Peer \<Rightarrow> ('m, 'z, unit) aprog" where
  "write_v1Device sv p = bnd (v1Device_of sv p) (\<lambda>view. JSON 200 (v1Device_json view))"

section \<open>Reading devices\<close>

definition deviceFromPath :: "hreq \<Rightarrow> ('m, 'z, Instance \<times> Peer) aprog" where
  "deviceFromPath r =
     (case ParseInt (PathValue r ''id'') of
        None \<Rightarrow> throw (http_NotFound ''device not found'')
      | Some n \<Rightarrow>
        bnd (mapErr (\<lambda>e. if errors_Is e ErrNotFound then http_NotFound ''device not found'' else e) (PeerByID n)) (\<lambda>p.
        bnd (InstanceByID (p_InstanceID p)) (\<lambda>i. ret (i, p))))"

definition v1ListDevices :: "'m server \<Rightarrow> hreq \<Rightarrow> ('m, 'z, unit) aprog" where
  "v1ListDevices sv r =
     bnd (liftE (queryID (Query_Get r ''server_id'') ''server_id'')) (\<lambda>server.
     bnd (liftE (queryID (Query_Get r ''after'') ''after'')) (\<lambda>after.
     bnd (liftE (pageSize (Query_Get r ''limit''))) (\<lambda>limit.
     let st = Query_Get r ''status'' in
     if st \<noteq> [] \<and> \<not> status_Valid st then throw (BadRequest ''status must be active, disabled, expired or limit_reached'')
     else bnd (Devices (env_off (srv_env sv)) \<lparr>df_InstanceID = server, df_ExternalID = Query_Get r ''external_id'', df_Status = st,
         df_After = after, df_Limit = limit + 1\<rparr> (srv_now sv)) (\<lambda>found.
       case cut_page limit found of (peers, has_more) \<Rightarrow>
       bnd (v1Devices sv peers) (\<lambda>views. JSON 200 (page_json (map v1Device_json views) has_more))))))"

definition v1GetDevice :: "'m server \<Rightarrow> hreq \<Rightarrow> ('m, 'z, unit) aprog" where
  "v1GetDevice sv r = bnd (deviceFromPath r) (\<lambda>(_, p). write_v1Device sv p)"

definition v1Usage_json :: "Peer \<Rightarrow> UsagePoint list \<Rightarrow> UsagePoint list \<Rightarrow> Traffic \<Rightarrow> json" where
  "v1Usage_json p daily monthly used = JObj [(''month_usage'', trafficView_json (newTrafficView (up_Traffic (last monthly)))),
     (''period_usage'', trafficView_json (newTrafficView used)), (''data_limit'', JInt (p_DataLimit p)),
     (''limit_period'', JStr (p_LimitPeriod p)), (''usage_reset_at'', json_opt JTime (p_UsageResetAt p)),
     (''daily'', JList (map usagePoint_json daily)), (''monthly'', JList (map usagePoint_json monthly))]"

definition v1DeviceUsage :: "'m server \<Rightarrow> hreq \<Rightarrow> ('m, 'z, unit) aprog" where
  "v1DeviceUsage sv r =
     bnd (deviceFromPath r) (\<lambda>(_, p).
     bnd (PeerUsage (env_off (srv_env sv)) (p_ID p) (srv_now sv) usageDays usageMonths) (\<lambda>(daily, monthly).
     bnd (PeersLimitUsage (env_off (srv_env sv)) [p_ID p] (srv_now sv)) (\<lambda>used.
     JSON 200 (v1Usage_json p daily monthly (usage_of used (p_ID p))))))"

section \<open>Config files\<close>

definition clientConfig :: "hreq \<Rightarrow> Instance \<Rightarrow> Peer \<Rightarrow> err + string" where
  "clientConfig r i p =
     (let ks = Query_Get r ''kill_switch'' in
      if ks = [] \<or> ks = ''false'' then Inr (ClientConfig i p)
      else if ks = ''true''
      then (case KillSwitchConfig i p of
          Inl e \<Rightarrow> Inl (if errors_Is e ErrSplitTunnel then http_Errorf 409 ''split_tunnel''
            ''a kill switch needs a server whose clients send all traffic through it (client allowed IPs 0.0.0.0/0)'' else e)
        | Inr conf \<Rightarrow> Inr conf)
      else Inl (BadRequest ''kill_switch must be true or false''))"

definition tunnel_rune :: "nat \<Rightarrow> char" where
  "tunnel_rune r = (if 97 \<le> r \<and> r \<le> 122 \<or> 65 \<le> r \<and> r \<le> 90 \<or> 48 \<le> r \<and> r \<le> 57 \<or> r \<in> byte ` set ''_=+.-'' then char_of r else CHR ''-'')"

definition tunnelName :: "string \<Rightarrow> string" where
  "tunnelName name = (let b = map tunnel_rune (take 15 (runes name)) in if b = [] then ''wg'' else b)"

definition api_writeConfig :: "Peer \<Rightarrow> string \<Rightarrow> ('m, 'z, unit) aprog" where
  "api_writeConfig p conf =
     thn (set_header ''Content-Type'' ''text/plain; charset=utf-8'')
     (thn (set_header ''Content-Disposition'' (''attachment; filename='' @ quoted (tunnelName (p_Name p) @ ''.conf'')))
     (thn (set_header ''Cache-Control'' ''no-store'') (thn (WriteHeader 200) (w_Write conf))))"

definition v1DeviceConfig :: "'m server \<Rightarrow> hreq \<Rightarrow> ('m, 'z, unit) aprog" where
  "v1DeviceConfig sv r =
     bnd (deviceFromPath r) (\<lambda>(i, p).
     bnd (liftE (clientConfig r i p)) (\<lambda>conf.
     thn (set_header ''Cache-Control'' ''no-store'')
     (let format = Query_Get r ''format'' in
      if format = [] \<or> format = ''conf'' then api_writeConfig p conf
      else if format = ''qr''
      then (if Query_Get r ''kill_switch'' = ''true''
            then throw (BadRequest ''the kill switch config is for Linux; phone apps refuse its PostUp lines, so there is no QR code for it'')
            else if KeyOnClient p
            then throw (http_Errorf 409 ''client_key''
              ''the client holds this device's private key, so there is no complete config to put in a QR code'')
            else bnd (mapErr (Errorf ''encode qr'') (liftE (srv_qr sv conf))) (\<lambda>png.
              thn (set_header ''Content-Type'' ''image/png'') (thn (WriteHeader 200) (w_Write png))))
      else throw (BadRequest ''format must be conf or qr''))))"

section \<open>Changing devices\<close>

text \<open>The server of a new device, or of one that leaves \<open>skip\<close>.\<close>

record placement =
  pl_Server :: "serverRef option"
  pl_Country :: "string option"
  pl_City :: "string option"

definition targetServer :: "'m server \<Rightarrow> placement \<Rightarrow> int \<Rightarrow> ('m, 'z, Instance) aprog" where
  "targetServer sv pl skip =
     (case pl_Server pl of
        None \<Rightarrow> throw (http_Invalid [(''server_id'', ''server_id is required: a server's ID or '' @ quoted ''auto'')])
      | Some (ServerID n) \<Rightarrow>
        if pl_Country pl \<noteq> None \<or> pl_City pl \<noteq> None
        then throw (http_Invalid [(''country'', ''country and city only go with server_id '' @ quoted ''auto'')])
        else mapErr (\<lambda>e. if errors_Is e ErrNotFound then http_Invalid [(''server_id'', ''no such server'')] else e) (InstanceByID n)
      | Some ServerAuto \<Rightarrow> Pick (srv_instances sv) (given (pl_Country pl) []) (given (pl_City pl) []) skip)"

definition generatedName :: "string \<Rightarrow> string \<Rightarrow> string" where
  "generatedName rnd externalID =
     (let base = (if externalID = [] then ''device''
        else let r = runes externalID in if length r > 50 then concat (map EncodeRune (take 50 r)) else externalID)
      in base @ ''-'' @ Webhook.EncodeToString rnd)"

definition srv_apply :: "'m server \<Rightarrow> int \<Rightarrow> ('m, 'z, unit) aprog" where
  "srv_apply sv k = Apply (srv_manager sv) k"

definition server_full :: "'m server \<Rightarrow> Instance \<Rightarrow> err \<Rightarrow> err" where
  "server_full sv i e =
     (if errors_Is e ErrSubnetFull
      then http_Errorf 409 ''server_full'' (''server '' @ Quote (sv_printable (srv_instances sv)) (in_Name i) @ '' has no free addresses left'')
      else e)"

definition bad_public_key :: err where
  "bad_public_key = http_Invalid [(''public_key'', ''public_key must be a WireGuard public key (44 characters of base64)'')]"

text \<open>The new device's keys: from the panel, or the public one from the client.\<close>

definition v1_new_peer :: "'m server \<Rightarrow> bytes \<Rightarrow> bytes \<Rightarrow> int \<Rightarrow> string option \<Rightarrow> err + Peer" where
  "v1_new_peer sv rnd rnd' server pk =
     (case pk of
        None \<Rightarrow> Inr (NewPeer (sv_x25519 (srv_instances sv)) rnd rnd' server [])
      | Some text \<Rightarrow>
        (case ParseKey (TrimSpace text) of
           Inl _ \<Rightarrow> Inl bad_public_key
         | Inr key \<Rightarrow> if IsZero key then Inl bad_public_key else Inr (NewClientPeer rnd' server [] key)))"

definition v1CreateDevice :: "'m server \<Rightarrow> bytes \<Rightarrow> bytes \<Rightarrow> string \<Rightarrow> v1DeviceRequest decoded \<Rightarrow> ('m, 'z, unit) aprog" where
  "v1CreateDevice sv rnd rnd' rnd_name body =
     bnd (liftE (Decode body)) (\<lambda>req.
     bnd (targetServer sv \<lparr>pl_Server = vq_ServerID req, pl_Country = vq_Country req, pl_City = vq_City req\<rparr> 0) (\<lambda>i.
     bnd (liftE (v1_new_peer sv rnd rnd' (in_ID i) (vq_PublicKey req))) (\<lambda>p.
     case v1_apply req p of (fs, p) \<Rightarrow>
     let p = (if vq_Name req = None then p\<lparr>p_Name := generatedName rnd_name (p_ExternalID p)\<rparr> else p) in
     if fs \<noteq> [] then failOn (apperr_Fields [peer_Validate p, fs])
     else bnd (mapErr (server_full sv i) (all_of (peer_Create (srv_env sv) (srv_apply sv) i p))) (\<lambda>created.
       bnd (v1Device_of sv created) (\<lambda>view.
       JSON 201 (v1Device_json (view\<lparr>vd_ExpiresAt := json_opt (JRaw \<circ> snd) (given (vq_ExpiresAt req) None),
         vd_Config := ClientConfig i created\<rparr>)))))))"

definition update_only :: "v1DeviceRequest \<Rightarrow> Peer \<Rightarrow> fields \<Rightarrow> fields" where
  "update_only req p fs =
     set_field (vq_PublicKey req \<noteq> None) ''public_key'' ''public_key cannot be changed; delete the device and create a new one''
     (set_field (vq_Country req \<noteq> None \<or> vq_City req \<noteq> None) ''country'' ''country and city only choose a server on create or move''
     (set_field (vq_ServerID req \<noteq> None \<and> vq_ServerID req \<noteq> Some (ServerID (p_InstanceID p))) ''server_id''
       ''use POST /api/v1/devices/{id}/move to put a device on another server'' fs))"

definition v1UpdateDevice :: "'m server \<Rightarrow> hreq \<Rightarrow> v1DeviceRequest decoded \<Rightarrow> ('m, 'z, unit) aprog" where
  "v1UpdateDevice sv r body =
     bnd (deviceFromPath r) (\<lambda>(i, p).
     bnd (liftE (Decode body)) (\<lambda>req.
     case v1_apply req p of (fs, q) \<Rightarrow>
     let fs = update_only req p fs in
     if fs \<noteq> [] then failOn (apperr_Fields [peer_Validate q, fs])
     else bnd (all_of (peer_Update (srv_env sv) (srv_apply sv) i p q)) (write_v1Device sv)))"

definition v1DeleteDevice :: "'m server \<Rightarrow> hreq \<Rightarrow> ('m, 'z, unit) aprog" where
  "v1DeleteDevice sv r = bnd (deviceFromPath r) (\<lambda>(i, p). thn (peer_Delete (srv_env sv) (srv_apply sv) i p) NoContent)"

definition v1ResetDeviceUsage :: "'m server \<Rightarrow> hreq \<Rightarrow> ('m, 'z, unit) aprog" where
  "v1ResetDeviceUsage sv r =
     bnd (deviceFromPath r) (\<lambda>(i, p). bnd (all_of (ResetUsage (srv_env sv) (srv_apply sv) i p)) (write_v1Device sv))"

definition v1MoveDevice :: "'m server \<Rightarrow> hreq \<Rightarrow> placement decoded \<Rightarrow> ('m, 'z, unit) aprog" where
  "v1MoveDevice sv r body =
     bnd (deviceFromPath r) (\<lambda>(from_server, p).
     bnd (liftE (Decode body)) (\<lambda>req.
     bnd (targetServer sv req (p_InstanceID p)) (\<lambda>to_server.
     if in_ID to_server = in_ID from_server then throw (http_Invalid [(''server_id'', ''the device is already on this server'')])
     else bnd (mapErr (server_full sv to_server)
         (all_of (Move (srv_env sv) (sv_printable (srv_instances sv)) (srv_apply sv) from_server to_server p))) (\<lambda>moved.
       bnd (v1Device_of sv moved) (\<lambda>view. JSON 200 (v1Device_json (view\<lparr>vd_Config := ClientConfig to_server moved\<rparr>)))))))"

end
