(* ===== verification/ApiGroups.thy ===== *)
theory ApiGroups
  imports ApiDevices
begin

text \<open>
  internal/api (v1_groups.go, share.go, peers.go): all the devices of one external id together, share
  links and what their pages show, and the panel's own handlers for devices.
\<close>

section \<open>Groups\<close>

record v1GroupRequest =
  gq_Enabled :: "bool option"
  gq_DataLimit :: "int option"
  gq_LimitPeriod :: "string option"
  gq_ExpiresAt :: "(gotime \<times> string) optional"
  gq_SpeedLimit :: "int option"
  gq_Metadata :: "string optional"

definition group_change :: "v1GroupRequest \<Rightarrow> v1DeviceRequest" where
  "group_change req =
     \<lparr>vq_ServerID = None, vq_Country = None, vq_City = None, vq_Name = None, vq_PublicKey = None, vq_ExternalID = None,
      vq_Metadata = gq_Metadata req, vq_Enabled = gq_Enabled req, vq_DataLimit = gq_DataLimit req,
      vq_LimitPeriod = gq_LimitPeriod req, vq_ExpiresAt = gq_ExpiresAt req, vq_SpeedLimit = gq_SpeedLimit req\<rparr>"

definition groupFromPath :: "'m server \<Rightarrow> hreq \<Rightarrow> ('m, 'z, string \<times> Peer list) aprog" where
  "groupFromPath sv r =
     (let n = PathValue r ''external_id'' in
      bnd (Devices (env_off (srv_env sv)) \<lparr>df_InstanceID = 0, df_ExternalID = n, df_Status = [], df_After = 0, df_Limit = - 1\<rparr> (srv_now sv)) (\<lambda>peers.
      if n = [] \<or> peers = []
      then throw (http_NotFound (''no devices have external_id '' @ Quote (sv_printable (srv_instances sv)) n))
      else ret (n, peers)))"

definition add_view :: "trafficView \<Rightarrow> trafficView \<Rightarrow> trafficView" where
  "add_view a b = \<lparr>tv_RxBytes = wrap64 (tv_RxBytes a + tv_RxBytes b), tv_TxBytes = wrap64 (tv_TxBytes a + tv_TxBytes b),
     tv_TotalBytes = wrap64 (tv_TotalBytes a + tv_TotalBytes b)\<rparr>"

definition group_month :: "v1Device list \<Rightarrow> trafficView" where
  "group_month views = foldl add_view \<lparr>tv_RxBytes = 0, tv_TxBytes = 0, tv_TotalBytes = 0\<rparr> (map vd_MonthUsage views)"

definition writeGroup :: "'m server \<Rightarrow> string \<Rightarrow> Peer list \<Rightarrow> ('m, 'z, unit) aprog" where
  "writeGroup sv n peers =
     bnd (v1Devices sv peers) (\<lambda>views.
     JSON 200 (JObj [(''external_id'', JStr n), (''device_count'', JInt (int (length views))),
       (''month_usage'', trafficView_json (group_month views)), (''devices'', JList (map v1Device_json views))]))"

definition v1GetGroup :: "'m server \<Rightarrow> hreq \<Rightarrow> ('m, 'z, unit) aprog" where
  "v1GetGroup sv r = bnd (groupFromPath sv r) (\<lambda>(n, peers). writeGroup sv n peers)"

text \<open>The first device whose change is bad ends the loop.\<close>

definition v1UpdateGroup :: "'m server \<Rightarrow> hreq \<Rightarrow> v1GroupRequest decoded \<Rightarrow> ('m, 'z, unit) aprog" where
  "v1UpdateGroup sv r body =
     bnd (groupFromPath sv r) (\<lambda>(n, peers).
     bnd (liftE (Decode body)) (\<lambda>req.
     let changed = map (v1_apply (group_change req)) peers in
     case find (\<lambda>(fs, _). fs \<noteq> []) changed of
       Some (fs, p) \<Rightarrow> failOn (apperr_Fields [peer_Validate p, fs])
     | None \<Rightarrow> bnd (UpdateGroup (srv_env sv) (srv_apply sv) peers (map snd changed)) (writeGroup sv n)))"

definition v1DeleteGroup :: "'m server \<Rightarrow> hreq \<Rightarrow> ('m, 'z, unit) aprog" where
  "v1DeleteGroup sv r =
     bnd (groupFromPath sv r) (\<lambda>(_, peers). thn (DeleteGroup (srv_env sv) (srv_apply sv) peers) NoContent)"

definition v1ResetGroupUsage :: "'m server \<Rightarrow> hreq \<Rightarrow> ('m, 'z, unit) aprog" where
  "v1ResetGroupUsage sv r =
     bnd (groupFromPath sv r) (\<lambda>(n, peers). bnd (ResetGroupUsage (srv_env sv) (srv_apply sv) peers) (writeGroup sv n))"

section \<open>The panel's paths\<close>

definition instanceFromPath :: "hreq \<Rightarrow> ('m, 'z, Instance) aprog" where
  "instanceFromPath r =
     (let gone = http_NotFound ''instance not found'' in
      case ParseInt (PathValue r ''id'') of
        None \<Rightarrow> throw gone
      | Some n \<Rightarrow> mapErr (\<lambda>e. if errors_Is e ErrNotFound then gone else e) (InstanceByID n))"

definition peerFromPath :: "hreq \<Rightarrow> ('m, 'z, Instance \<times> Peer) aprog" where
  "peerFromPath r =
     (let gone = http_NotFound ''peer not found'' in
      bnd (instanceFromPath r) (\<lambda>i.
      case ParseInt (PathValue r ''peerID'') of
        None \<Rightarrow> throw gone
      | Some n \<Rightarrow>
        bnd (mapErr (\<lambda>e. if errors_Is e ErrNotFound then gone else e) (PeerByID n)) (\<lambda>p.
        if p_InstanceID p \<noteq> in_ID i then throw gone else ret (i, p))))"

section \<open>Share links\<close>

definition panelURL :: "'m server \<Rightarrow> hreq \<Rightarrow> string" where
  "panelURL sv r =
     (case srv_domain sv of
        Some domain \<Rightarrow> ''https://'' @ domain
      | None \<Rightarrow> (if cl_https (clientOf sv r) then ''https'' else ''http'') @ ''://'' @ rq_Host r)"

definition shareLinkOf :: "'m server \<Rightarrow> hreq \<Rightarrow> Peer \<Rightarrow> json" where
  "shareLinkOf sv r p =
     JObj [(''url'', JStr (panelURL sv r @ ''/share/'' @ p_ShareToken p)), (''expires_at'', json_opt JTime (p_ShareExpiresAt p))]"

definition writeShare :: "'m server \<Rightarrow> hreq \<Rightarrow> int \<Rightarrow> Peer \<Rightarrow> ('m, 'z, unit) aprog" where
  "writeShare sv r status p =
     (if p_ShareToken p = [] then throw (http_NotFound ''this device has no share link'')
      else thn (set_header ''Cache-Control'' ''no-store'') (JSON status (shareLinkOf sv r p)))"

text \<open>The body is read only when there is one; \<open>token\<close> is what \<open>rand.Text\<close> gives.\<close>

definition createShare :: "'m server \<Rightarrow> string \<Rightarrow> hreq \<Rightarrow> gotime option decoded \<Rightarrow> Instance \<Rightarrow> Peer \<Rightarrow> ('m, 'z, unit) aprog" where
  "createShare sv token r body i p =
     bnd (if rq_ContentLength r > 0 then liftE (Decode body) else ret None) (\<lambda>expires.
     bnd (Share (srv_env sv) token i p expires) (writeShare sv r 201))"

definition deleteShare :: "'m server \<Rightarrow> Instance \<Rightarrow> Peer \<Rightarrow> ('m, 'z, unit) aprog" where
  "deleteShare sv i p = thn (Unshare (srv_env sv) i p) NoContent"

definition handleGetShare :: "'m server \<Rightarrow> hreq \<Rightarrow> ('m, 'z, unit) aprog" where
  "handleGetShare sv r = bnd (peerFromPath r) (\<lambda>(_, p). writeShare sv r 200 p)"

definition handleCreateShare :: "'m server \<Rightarrow> string \<Rightarrow> hreq \<Rightarrow> gotime option decoded \<Rightarrow> ('m, 'z, unit) aprog" where
  "handleCreateShare sv token r body = bnd (peerFromPath r) (\<lambda>(i, p). createShare sv token r body i p)"

definition handleDeleteShare :: "'m server \<Rightarrow> hreq \<Rightarrow> ('m, 'z, unit) aprog" where
  "handleDeleteShare sv r = bnd (peerFromPath r) (\<lambda>(i, p). deleteShare sv i p)"

definition v1GetShare :: "'m server \<Rightarrow> hreq \<Rightarrow> ('m, 'z, unit) aprog" where
  "v1GetShare sv r = bnd (deviceFromPath r) (\<lambda>(_, p). writeShare sv r 200 p)"

definition v1CreateShare :: "'m server \<Rightarrow> string \<Rightarrow> hreq \<Rightarrow> gotime option decoded \<Rightarrow> ('m, 'z, unit) aprog" where
  "v1CreateShare sv token r body = bnd (deviceFromPath r) (\<lambda>(i, p). createShare sv token r body i p)"

definition v1DeleteShare :: "'m server \<Rightarrow> hreq \<Rightarrow> ('m, 'z, unit) aprog" where
  "v1DeleteShare sv r = bnd (deviceFromPath r) (\<lambda>(i, p). deleteShare sv i p)"

definition sharedDevice_json :: "gotime \<Rightarrow> Instance \<Rightarrow> Peer \<Rightarrow> Traffic \<Rightarrow> Traffic \<Rightarrow> bool \<Rightarrow> json" where
  "sharedDevice_json now i p month used online = JObj ([(''name'', JStr (p_Name p)), (''country'', JStr (in_Country i)),
     (''city'', JStr (in_City i)), (''status'', JStr (peer_Status p used now)), (''online'', JBool online),
     (''last_handshake'', json_opt JTime (p_LastHandshake p)), (''data_limit'', JInt (p_DataLimit p)),
     (''limit_period'', JStr (p_LimitPeriod p)), (''period_usage'', trafficView_json (newTrafficView used)),
     (''usage_reset_at'', json_opt JTime (p_UsageResetAt p)), (''month_usage'', trafficView_json (newTrafficView month)),
     (''expires_at'', json_opt JTime (p_ExpiresAt p)), (''speed_limit'', JInt (p_SpeedLimit p))] @
     omit_empty ''config'' (if KeyOnClient p then [] else ClientConfig i p) @
     [(''full_tunnel'', JBool (FullTunnel i)), (''link_expires_at'', json_opt JTime (p_ShareExpiresAt p))])"

definition handleSharedDevice :: "'m server \<Rightarrow> hreq \<Rightarrow> ('m, 'z, unit) aprog" where
  "handleSharedDevice sv r =
     (let now = srv_now sv; off = env_off (srv_env sv) in
      bnd (Shared now (PathValue r ''token'')) (\<lambda>(i, p).
      bnd (PeersMonthUsage off [p_ID p] now) (\<lambda>month.
      bnd (PeersLimitUsage off [p_ID p] now) (\<lambda>used.
      bnd (Online (in_ID i)) (\<lambda>online.
      thn (set_header ''Cache-Control'' ''no-store'')
       (JSON 200 (sharedDevice_json now i p (usage_of month (p_ID p)) (usage_of used (p_ID p)) (is_online_now online (p_PublicKey p)))))))))"

definition handleSharedConfig :: "'m server \<Rightarrow> hreq \<Rightarrow> ('m, 'z, unit) aprog" where
  "handleSharedConfig sv r =
     bnd (Shared (srv_now sv) (PathValue r ''token'')) (\<lambda>(i, p).
     bnd (liftE (clientConfig r i p)) (\<lambda>conf. api_writeConfig p conf))"

definition noIndex :: "('m, 'z, unit) aprog \<Rightarrow> ('m, 'z, unit) aprog" where
  "noIndex next_handler = thn (set_header ''X-Robots-Tag'' ''noindex, nofollow'') next_handler"

section \<open>Devices in the panel\<close>

text \<open>What the panel adds to a device; its \<open>expires_at\<close> is written as the request had it after a create.\<close>

record peerView =
  pv_Peer :: Peer
  pv_ExpiresAt :: "json option"
  pv_Stats :: "PeerStats option"
  pv_Country :: string
  pv_MonthUsage :: Traffic
  pv_PeriodUsage :: Traffic
  pv_Blocked :: Block

fun block_text :: "Block \<Rightarrow> string" where
  "block_text Unblocked = []"
| "block_text BlockExpired = ''expired''"
| "block_text BlockLimit = ''limit''"

definition stats_json :: "PeerStats \<Rightarrow> json" where
  "stats_json st = JObj (omit_empty ''endpoint'' (st_Endpoint st) @ omit_time ''latest_handshake'' (st_LatestHandshake st) @
     [(''rx_bytes'', JInt (st_RxBytes st)), (''tx_bytes'', JInt (st_TxBytes st)), (''online'', JBool (st_Online st))])"

definition omit_json :: "string \<Rightarrow> json option \<Rightarrow> (string \<times> json) list" where
  "omit_json k v = (case v of None \<Rightarrow> [] | Some j \<Rightarrow> [(k, j)])"

definition peerView_json :: "peerView \<Rightarrow> json" where
  "peerView_json v = (let p = pv_Peer v in JObj ([(''id'', JInt (p_ID p)), (''instance_id'', JInt (p_InstanceID p)),
     (''name'', JStr (p_Name p)), (''address'', addr_json (p_Address p)), (''public_key'', key_json (p_PublicKey p)),
     (''enabled'', JBool (p_Enabled p))] @ omit_empty ''external_id'' (p_ExternalID p) @
     (if p_Metadata p = [] then [] else [(''metadata'', JRaw (p_Metadata p))]) @
     [(''data_limit'', JInt (p_DataLimit p)), (''limit_period'', JStr (p_LimitPeriod p))] @
     omit_time ''usage_reset_at'' (p_UsageResetAt p) @ omit_json ''expires_at'' (pv_ExpiresAt v) @
     [(''speed_limit'', JInt (p_SpeedLimit p))] @ omit_time ''last_handshake'' (p_LastHandshake p) @
     [(''created_at'', JTime (p_CreatedAt p)), (''updated_at'', JTime (p_UpdatedAt p))] @
     (if KeyOnClient p then [(''key_on_client'', JBool True)] else []) @
     omit_json ''stats'' (map_option stats_json (pv_Stats v)) @ omit_empty ''country'' (pv_Country v) @
     [(''month_usage'', traffic_json (pv_MonthUsage v)), (''period_usage'', traffic_json (pv_PeriodUsage v))] @
     omit_empty ''blocked'' (block_text (pv_Blocked v))))"

definition peerViews :: "'m server \<Rightarrow> int \<Rightarrow> Peer list \<Rightarrow> ('m, 'z, peerView list) aprog" where
  "peerViews sv instanceID peers =
     (let now = srv_now sv; off = env_off (srv_env sv) in
      bnd (MonthUsage off instanceID now) (\<lambda>month.
      bnd (LimitUsage off instanceID now) (\<lambda>used.
      ret (map (\<lambda>p. \<lparr>pv_Peer = p, pv_ExpiresAt = map_option JTime (p_ExpiresAt p), pv_Stats = None, pv_Country = [],
        pv_MonthUsage = usage_of month (p_ID p), pv_PeriodUsage = usage_of used (p_ID p),
        pv_Blocked = Blocked p (usage_of used (p_ID p)) now\<rparr>) peers))))"

definition writePeer_as :: "'m server \<Rightarrow> (peerView \<Rightarrow> peerView) \<Rightarrow> int \<Rightarrow> Peer \<Rightarrow> ('m, 'z, unit) aprog" where
  "writePeer_as sv f status p = bnd (peerViews sv (p_InstanceID p) [p]) (\<lambda>views. JSON status (peerView_json (f (hd views))))"

definition writePeer :: "'m server \<Rightarrow> int \<Rightarrow> Peer \<Rightarrow> ('m, 'z, unit) aprog" where
  "writePeer sv status p = writePeer_as sv id status p"

definition endpointCountry :: "'m server \<Rightarrow> string \<Rightarrow> string" where
  "endpointCountry sv endpoint =
     (case ParseAddrPort endpoint of None \<Rightarrow> [] | Some a \<Rightarrow> geo_Country (env_geo (srv_env sv)) a)"

definition with_stats :: "'m server \<Rightarrow> stats_map \<Rightarrow> peerView \<Rightarrow> peerView" where
  "with_stats sv stats v =
     (case map_of stats (p_PublicKey (pv_Peer v)) of
        None \<Rightarrow> v
      | Some st \<Rightarrow> v\<lparr>pv_Stats := Some st, pv_Country := endpointCountry sv (st_Endpoint st)\<rparr>)"

text \<open>The list loads without statistics while Docker is away.\<close>

definition handleListPeers :: "'m server \<Rightarrow> hreq \<Rightarrow> ('m, 'z, unit) aprog" where
  "handleListPeers sv r =
     bnd (instanceFromPath r) (\<lambda>i.
     bnd (Peers (in_ID i)) (\<lambda>peers.
     bnd (attempt (PeerStats_of (srv_manager sv) i)) (\<lambda>stats.
     bnd (peerViews sv (in_ID i) peers) (\<lambda>views.
     JSON 200 (JList (map (peerView_json \<circ> with_stats sv (right_of [] stats)) views))))))"

definition handlePeerUsage :: "'m server \<Rightarrow> hreq \<Rightarrow> ('m, 'z, unit) aprog" where
  "handlePeerUsage sv r =
     bnd (peerFromPath r) (\<lambda>(_, p).
     bnd (PeerUsage (env_off (srv_env sv)) (p_ID p) (srv_now sv) usageDays usageMonths) (\<lambda>(daily, monthly).
     JSON 200 (JObj [(''daily'', JList (map usagePoint_json daily)), (''monthly'', JList (map usagePoint_json monthly))])))"

definition handleResetPeerUsage :: "'m server \<Rightarrow> hreq \<Rightarrow> ('m, 'z, unit) aprog" where
  "handleResetPeerUsage sv r =
     bnd (peerFromPath r) (\<lambda>(i, p). bnd (all_of (ResetUsage (srv_env sv) (srv_apply sv) i p)) (writePeer sv 200))"

definition handleMovePeer :: "'m server \<Rightarrow> hreq \<Rightarrow> int decoded \<Rightarrow> ('m, 'z, unit) aprog" where
  "handleMovePeer sv r body =
     bnd (peerFromPath r) (\<lambda>(from_server, p).
     bnd (liftE (Decode body)) (\<lambda>n.
     if n = in_ID from_server then throw (http_Invalid [(''instance_id'', ''the peer is already on this server'')])
     else bnd (mapErr (\<lambda>e. if errors_Is e ErrNotFound then http_Invalid [(''instance_id'', ''no such server'')] else e) (InstanceByID n)) (\<lambda>to_server.
       bnd (all_of (Move (srv_env sv) (sv_printable (srv_instances sv)) (srv_apply sv) from_server to_server p)) (writePeer sv 200))))"

record peerRequest =
  pq_Name :: "string option"
  pq_Enabled :: "bool option"
  pq_DataLimit :: "int option"
  pq_LimitPeriod :: "string option"
  pq_ExpiresAt :: "(gotime \<times> string) optional"
  pq_SpeedLimit :: "int option"

definition peerRequest_apply :: "peerRequest \<Rightarrow> Peer \<Rightarrow> Peer" where
  "peerRequest_apply req p =
     p\<lparr>p_Name := given (map_option TrimSpace (pq_Name req)) (p_Name p), p_Enabled := given (pq_Enabled req) (p_Enabled p),
       p_DataLimit := given (pq_DataLimit req) (p_DataLimit p), p_LimitPeriod := given (pq_LimitPeriod req) (p_LimitPeriod p),
       p_ExpiresAt := given (map_option (map_option fst) (pq_ExpiresAt req)) (p_ExpiresAt p),
       p_SpeedLimit := given (pq_SpeedLimit req) (p_SpeedLimit p)\<rparr>"

definition handleCreatePeer :: "'m server \<Rightarrow> bytes \<Rightarrow> bytes \<Rightarrow> hreq \<Rightarrow> peerRequest decoded \<Rightarrow> ('m, 'z, unit) aprog" where
  "handleCreatePeer sv rnd rnd' r body =
     bnd (instanceFromPath r) (\<lambda>i.
     bnd (liftE (Decode body)) (\<lambda>req.
     bnd (all_of (peer_Create (srv_env sv) (srv_apply sv) i
       (peerRequest_apply req (NewPeer (sv_x25519 (srv_instances sv)) rnd rnd' (in_ID i) [])))) (\<lambda>created.
     writePeer_as sv (\<lambda>v. v\<lparr>pv_ExpiresAt := map_option (JRaw \<circ> snd) (given (pq_ExpiresAt req) None)\<rparr>) 201 created)))"

definition handleUpdatePeer :: "'m server \<Rightarrow> hreq \<Rightarrow> peerRequest decoded \<Rightarrow> ('m, 'z, unit) aprog" where
  "handleUpdatePeer sv r body =
     bnd (peerFromPath r) (\<lambda>(i, p).
     bnd (liftE (Decode body)) (\<lambda>req.
     bnd (all_of (peer_Update (srv_env sv) (srv_apply sv) i p (peerRequest_apply req p))) (writePeer sv 200)))"

definition handleDeletePeer :: "'m server \<Rightarrow> hreq \<Rightarrow> ('m, 'z, unit) aprog" where
  "handleDeletePeer sv r = bnd (peerFromPath r) (\<lambda>(i, p). thn (peer_Delete (srv_env sv) (srv_apply sv) i p) NoContent)"

definition handlePeerConfig :: "hreq \<Rightarrow> ('m, 'z, unit) aprog" where
  "handlePeerConfig r =
     bnd (peerFromPath r) (\<lambda>(i, p). bnd (liftE (clientConfig r i p)) (\<lambda>conf. api_writeConfig p conf))"

end
