(* ===== verification/ApiServers.thy ===== *)
theory ApiServers
  imports ApiGroups StoreNodes
begin

text \<open>
  internal/api (v1_servers.go, instances.go, stream.go, settings.go, events.go and the events of v1.go):
  servers over HTTP, the settings new ones start from, and the activity log.
\<close>

section \<open>Servers for other programs\<close>

definition serverFromPath :: "hreq \<Rightarrow> ('m, 'z, Instance) aprog" where
  "serverFromPath r =
     (let gone = http_NotFound ''server not found'' in
      case ParseInt (PathValue r ''id'') of
        None \<Rightarrow> throw gone
      | Some n \<Rightarrow> mapErr (\<lambda>e. if errors_Is e ErrNotFound then gone else e) (InstanceByID n))"

definition state_of :: "(int \<times> server_status) list \<Rightarrow> int \<Rightarrow> server_status" where
  "state_of statuses k = (case map_of statuses k of None \<Rightarrow> \<lparr>ss_State = [], ss_Error = []\<rparr> | Some st \<Rightarrow> st)"

definition node_name :: "Node list \<Rightarrow> int \<Rightarrow> string" where
  "node_name nodes k =
     (case find (\<lambda>n. n_ID n = k) (rev nodes) of Some n \<Rightarrow> n_Name n | None \<Rightarrow> if k = 0 then ''This server'' else [])"

definition v1Server_json :: "(int \<times> nat) list \<Rightarrow> Node list \<Rightarrow> (int \<times> server_status) list \<Rightarrow> Instance \<Rightarrow> json" where
  "v1Server_json counts nodes statuses i = JObj [(''id'', JInt (in_ID i)), (''name'', JStr (in_Name i)),
     (''node'', JObj [(''id'', JInt (in_NodeID i)), (''name'', JStr (node_name nodes (in_NodeID i)))]),
     (''country'', JStr (in_Country i)), (''city'', JStr (in_City i)), (''status'', JStr (ss_State (state_of statuses (in_ID i)))),
     (''endpoint'', JStr (in_Endpoint i)), (''listen_port'', JInt (in_ListenPort i)), (''public_key'', key_json (in_PublicKey i)),
     (''address'', prefix_json (in_Address i)), (''subnet'', prefix_json (Subnet i)), (''dns'', JList (map addr_json (in_DNS i))),
     (''dns_on_server'', JBool (in_DNSOnServer i)), (''mtu'', JInt (in_MTU i)),
     (''persistent_keepalive'', JInt (in_PersistentKeepalive i)), (''client_allowed_ips'', JList (map prefix_json (in_ClientAllowedIPs i))),
     (''device_count'', JInt (int (count_of counts (in_ID i)))), (''capacity'', JInt (Capacity (prefix_Bits (in_Address i)))),
     (''created_at'', JTime (in_CreatedAt i))]"

definition v1Servers :: "'m server \<Rightarrow> Instance list \<Rightarrow> ('m, 'z, json list) aprog" where
  "v1Servers sv instances =
     bnd PeerCounts (\<lambda>counts.
     bnd Nodes (\<lambda>nodes.
     bnd (Statuses (srv_manager sv) instances) (\<lambda>statuses.
     ret (map (v1Server_json counts nodes statuses) instances))))"

definition v1ListServers :: "'m server \<Rightarrow> hreq \<Rightarrow> ('m, 'z, unit) aprog" where
  "v1ListServers sv r =
     bnd Instances (\<lambda>all.
     let country = Query_Get r ''country'';
         instances = (if country = [] then all
           else filter (\<lambda>i. EqualFold (sv_same_fold (srv_instances sv)) (in_Country i) country) all) in
     bnd (v1Servers sv instances) (\<lambda>views. JSON 200 (page_json views False)))"

definition writeV1Server :: "'m server \<Rightarrow> int \<Rightarrow> Instance \<Rightarrow> ('m, 'z, unit) aprog" where
  "writeV1Server sv status i = bnd (v1Servers sv [i]) (\<lambda>views. JSON status (hd views))"

definition v1GetServer :: "'m server \<Rightarrow> hreq \<Rightarrow> ('m, 'z, unit) aprog" where
  "v1GetServer sv r = bnd (serverFromPath r) (writeV1Server sv 200)"

definition v1CreateServer :: "'m server \<Rightarrow> bytes \<Rightarrow> Change decoded \<Rightarrow> ('m, 'z, unit) aprog" where
  "v1CreateServer sv rnd body =
     bnd (liftE (Decode body)) (\<lambda>req.
     bnd (instance_Create (srv_instances sv) rnd req) (\<lambda>created.
     thn (instance_Provision (srv_instances sv) created False) (writeV1Server sv 201 created)))"

definition v1UpdateServer :: "'m server \<Rightarrow> hreq \<Rightarrow> Change decoded \<Rightarrow> ('m, 'z, unit) aprog" where
  "v1UpdateServer sv r body =
     bnd (serverFromPath r) (\<lambda>current.
     bnd (liftE (Decode body)) (\<lambda>req.
     bnd (instance_Update (srv_instances sv) current req) (writeV1Server sv 200)))"

definition not_empty :: "'m server \<Rightarrow> Instance \<Rightarrow> nat \<Rightarrow> err" where
  "not_empty sv i n = http_Errorf 409 ''server_not_empty''
     (''server '' @ Quote (sv_printable (srv_instances sv)) (in_Name i) @ '' has '' @ dec n @ '' '' @ (if n = 1 then ''device'' else ''devices'') @
      ''; move them away first, or send ?force=true to delete them with it'')"

definition v1DeleteServer :: "'m server \<Rightarrow> hreq \<Rightarrow> ('m, 'z, unit) aprog" where
  "v1DeleteServer sv r =
     bnd (serverFromPath r) (\<lambda>i.
     let force = Query_Get r ''force''; deletion = thn (instance_Delete (srv_instances sv) i) NoContent in
     if force \<notin> {[], ''true'', ''false''} then throw (BadRequest ''force must be true or false'')
     else if force = ''true'' then deletion
     else bnd PeerCounts (\<lambda>counts.
       let n = count_of counts (in_ID i) in if n > 0 then throw (not_empty sv i n) else deletion))"

definition serverCounts :: "Instance list \<Rightarrow> int \<Rightarrow> nat" where
  "serverCounts all k = length (filter (\<lambda>i. in_NodeID i = k) all)"

definition v1Node_json :: "'m server \<Rightarrow> Instance list \<Rightarrow> int \<Rightarrow> string \<Rightarrow> string \<Rightarrow> json" where
  "v1Node_json sv all k name host = JObj [(''id'', JInt k), (''name'', JStr name), (''host'', JStr host),
     (''status'', JStr (srv_node_state sv k)), (''server_count'', JInt (int (serverCounts all k)))]"

definition v1ListNodes :: "'m server \<Rightarrow> ('m, 'z, unit) aprog" where
  "v1ListNodes sv =
     bnd Nodes (\<lambda>nodes.
     bnd Instances (\<lambda>all.
     bnd (service_PublicHost (srv_instances sv)) (\<lambda>host.
     JSON 200 (page_json (v1Node_json sv all 0 ''This server'' host # map (\<lambda>n. v1Node_json sv all (n_ID n) (n_Name n) (n_Host n)) nodes) False))))"

section \<open>Servers in the panel\<close>

definition status_json :: "server_status \<Rightarrow> json" where
  "status_json st = JObj ([(''state'', JStr (ss_State st))] @ omit_empty ''error'' (ss_Error st))"

definition instanceView_json :: "Instance \<Rightarrow> server_status \<Rightarrow> nat \<Rightarrow> json" where
  "instanceView_json i st n = JObj [(''id'', JInt (in_ID i)), (''node_id'', JInt (in_NodeID i)), (''name'', JStr (in_Name i)),
     (''address'', prefix_json (in_Address i)), (''listen_port'', JInt (in_ListenPort i)), (''public_key'', key_json (in_PublicKey i)),
     (''endpoint'', JStr (in_Endpoint i)), (''dns'', JList (map addr_json (in_DNS i))), (''dns_on_server'', JBool (in_DNSOnServer i)),
     (''mtu'', JInt (in_MTU i)), (''persistent_keepalive'', JInt (in_PersistentKeepalive i)),
     (''client_allowed_ips'', JList (map prefix_json (in_ClientAllowedIPs i))), (''country'', JStr (in_Country i)),
     (''city'', JStr (in_City i)), (''created_at'', JTime (in_CreatedAt i)), (''updated_at'', JTime (in_UpdatedAt i)),
     (''status'', status_json st), (''peer_count'', JInt (int n))]"

definition handleListInstances :: "'m server \<Rightarrow> ('m, 'z, unit) aprog" where
  "handleListInstances sv =
     bnd Instances (\<lambda>all.
     bnd PeerCounts (\<lambda>counts.
     bnd (Statuses (srv_manager sv) all) (\<lambda>statuses.
     JSON 200 (JList (map (\<lambda>i. instanceView_json i (state_of statuses (in_ID i)) (count_of counts (in_ID i))) all)))))"

definition instanceView :: "'m server \<Rightarrow> Instance \<Rightarrow> ('m, 'z, json) aprog" where
  "instanceView sv i =
     bnd (Peers (in_ID i)) (\<lambda>peers.
     bnd (Status (srv_manager sv) i) (\<lambda>st. ret (instanceView_json i st (length peers))))"

definition writeInstance :: "'m server \<Rightarrow> int \<Rightarrow> Instance \<Rightarrow> ('m, 'z, unit) aprog" where
  "writeInstance sv status i = bnd (instanceView sv i) (JSON status)"

definition handleGetInstance :: "'m server \<Rightarrow> hreq \<Rightarrow> ('m, 'z, unit) aprog" where
  "handleGetInstance sv r = bnd (instanceFromPath r) (writeInstance sv 200)"

definition ndjson :: string where "ndjson = ''application/x-ndjson''"

definition streamNDJSON :: "('m, 'z, unit) aprog" where
  "streamNDJSON =
     thn (set_header ''Content-Type'' ndjson)
     (thn (set_header ''Cache-Control'' ''no-store'') (thn (set_header ''X-Accel-Buffering'' ''no'') (WriteHeader 200)))"

definition send_line :: "json \<Rightarrow> ('m, 'z, unit) aprog" where
  "send_line v = (case json_text v of None \<Rightarrow> ret () | Some t \<Rightarrow> w_Write (t @ [CHR 0x0A]))"

fun as_boot :: "err \<Rightarrow> string list option" where
  "as_boot (BootError why ls) = Some ls"
| "as_boot (Errorf m e) = as_boot e"
| "as_boot (Errorf2 m a b) = (case as_boot a of None \<Rightarrow> as_boot b | Some x \<Rightarrow> Some x)"
| "as_boot (AppError k c m fs (Some e)) = as_boot e"
| "as_boot (Join es) = (case filter (\<lambda>x. x \<noteq> None) (map as_boot es) of [] \<Rightarrow> None | x # _ \<Rightarrow> x)"
| "as_boot _ = None"

definition error_event :: "err \<Rightarrow> string list \<Rightarrow> json" where
  "error_event e ls = (case ErrorFor e of (_, code, message, fs) \<Rightarrow>
     JObj ([(''error'', error_json code message fs)] @ (if ls = [] then [] else [(''log'', JList (map JStr ls))])))"

text \<open>The steps reported while a server is deployed are lines of the reply, and so is the outcome.\<close>

definition streamProvision :: "'m server \<Rightarrow> Instance \<Rightarrow> ('m, 'z, unit) aprog" where
  "streamProvision sv i =
     thn streamNDJSON
     (bnd (gets (\<lambda>s. length (w_steps s))) (\<lambda>n.
      bnd (attempt (instance_Provision (srv_instances sv) i True)) (\<lambda>r.
      bnd (gets (\<lambda>s. drop n (w_steps s))) (\<lambda>steps.
      thn (forEach steps (\<lambda>step. send_line (JObj (omit_empty ''step'' step))))
      (case r of
         Inl e \<Rightarrow> send_line (error_event e (case as_boot e of None \<Rightarrow> [] | Some ls \<Rightarrow> ls))
       | Inr _ \<Rightarrow> bnd (attempt (instanceView sv i)) (\<lambda>view.
           case view of
             Inl e \<Rightarrow> send_line (error_event (Errorf (''load created instance '' @ Itoa (in_ID i)) e) [])
           | Inr v \<Rightarrow> send_line (JObj [(''instance'', v)])))))))"

definition handleCreateInstance :: "'m server \<Rightarrow> bytes \<Rightarrow> hreq \<Rightarrow> Change decoded \<Rightarrow> ('m, 'z, unit) aprog" where
  "handleCreateInstance sv rnd r body =
     bnd (liftE (Decode body)) (\<lambda>req.
     bnd (instance_Create (srv_instances sv) rnd req) (\<lambda>created.
     if Index (Header_Get r ''Accept'') ndjson \<noteq> None then streamProvision sv created
     else thn (instance_Provision (srv_instances sv) created False) (writeInstance sv 201 created)))"

definition handleInstanceDefaults :: "'m server \<Rightarrow> bytes \<Rightarrow> hreq \<Rightarrow> ('m, 'z, unit) aprog" where
  "handleInstanceDefaults sv rnd r =
     (let raw = Query_Get r ''node_id''; bad = BadRequest ''node_id must be a node's ID'' in
      bnd (if raw = [] then ret 0 else case ParseInt raw of None \<Rightarrow> throw bad | Some n \<Rightarrow> if n < 0 then throw bad else ret n) (\<lambda>n.
      bnd (Defaults (srv_instances sv) rnd n) (\<lambda>i.
      JSON 200 (JObj [(''address'', prefix_json (in_Address i)), (''listen_port'', JInt (in_ListenPort i)),
        (''endpoint'', JStr (in_Endpoint i)), (''dns'', JList (map addr_json (in_DNS i))), (''mtu'', JInt (in_MTU i)),
        (''persistent_keepalive'', JInt (in_PersistentKeepalive i)), (''client_allowed_ips'', JList (map prefix_json (in_ClientAllowedIPs i))),
        (''country'', JStr (in_Country i))]))))"

definition handleUpdateInstance :: "'m server \<Rightarrow> hreq \<Rightarrow> Change decoded \<Rightarrow> ('m, 'z, unit) aprog" where
  "handleUpdateInstance sv r body =
     bnd (instanceFromPath r) (\<lambda>current.
     bnd (liftE (Decode body)) (\<lambda>req.
     bnd (instance_Update (srv_instances sv) current req) (writeInstance sv 200)))"

definition handleDeleteInstance :: "'m server \<Rightarrow> hreq \<Rightarrow> ('m, 'z, unit) aprog" where
  "handleDeleteInstance sv r = bnd (instanceFromPath r) (\<lambda>i. thn (instance_Delete (srv_instances sv) i) NoContent)"

text \<open>\<open>action\<close> is one of starting, stopping and restarting.\<close>

definition handleInstanceAction :: "'m server \<Rightarrow> ('m service \<Rightarrow> Instance \<Rightarrow> ('m, 'z, unit) aprog) \<Rightarrow> hreq \<Rightarrow> ('m, 'z, unit) aprog" where
  "handleInstanceAction sv action r = bnd (instanceFromPath r) (\<lambda>i. thn (action (srv_instances sv) i) (writeInstance sv 200 i))"

section \<open>Settings\<close>

definition writeSettings :: "'m server \<Rightarrow> InstanceSettings \<Rightarrow> ('m, 'z, unit) aprog" where
  "writeSettings sv cur = JSON 200 (JObj [(''public_host'', JStr (is_PublicHost cur)),
     (''default_dns'', JList (map addr_json (is_DefaultDNS cur))), (''public_host_env'', JStr (sv_publicHost (srv_instances sv)))])"

definition handleGetSettings :: "'m server \<Rightarrow> ('m, 'z, unit) aprog" where
  "handleGetSettings sv = bnd instance_Settings (writeSettings sv)"

definition handleUpdateSettings :: "'m server \<Rightarrow> SettingsChange decoded \<Rightarrow> ('m, 'z, unit) aprog" where
  "handleUpdateSettings sv body =
     bnd (liftE (Decode body)) (\<lambda>req. bnd (UpdateSettings (srv_env sv) req) (writeSettings sv))"

section \<open>The activity log\<close>

definition defaultEventLimit :: int where "defaultEventLimit = 50"
definition maxEventLimit :: int where "maxEventLimit = 500"

definition omit_int :: "string \<Rightarrow> int \<Rightarrow> (string \<times> json) list" where
  "omit_int k v = (if v = 0 then [] else [(k, JInt v)])"

definition event_json :: "Event \<Rightarrow> json" where
  "event_json e = JObj ([(''id'', JInt (e_ID e)), (''created_at'', JTime (e_CreatedAt e)), (''kind'', JStr (e_Kind e))] @
     omit_int ''instance_id'' (e_InstanceID e) @ omit_empty ''instance_name'' (e_InstanceName e) @
     omit_int ''peer_id'' (e_PeerID e) @ omit_empty ''peer_name'' (e_PeerName e) @ omit_empty ''node_name'' (e_NodeName e) @
     omit_empty ''ip'' (e_IP e) @ omit_empty ''country'' (e_Country e) @ omit_empty ''detail'' (e_Detail e) @ omit_empty ''actor'' (e_Actor e))"

definition public_json :: "Public \<Rightarrow> json" where
  "public_json p = JObj ([(''id'', JInt (pb_ID p)), (''kind'', JStr (pb_Kind p)), (''created_at'', JTime (pb_CreatedAt p))] @
     omit_int ''server_id'' (pb_ServerID p) @ omit_empty ''server_name'' (pb_ServerName p) @
     omit_int ''device_id'' (pb_DeviceID p) @ omit_empty ''device_name'' (pb_DeviceName p) @ omit_empty ''node_name'' (pb_NodeName p) @
     omit_empty ''ip'' (pb_IP p) @ omit_empty ''country'' (pb_Country p) @ omit_empty ''detail'' (pb_Detail p) @ omit_empty ''actor'' (pb_Actor p))"

text \<open>The map of the numbers is walked in an order Go leaves open: \<open>order\<close>.\<close>

definition set_number :: "string \<Rightarrow> int \<Rightarrow> EventFilter \<Rightarrow> EventFilter" where
  "set_number name v f =
     (if name = ''before'' then f\<lparr>ef_Before := v\<rparr> else if name = ''instance_id'' then f\<lparr>ef_InstanceID := v\<rparr>
      else if name = ''peer_id'' then f\<lparr>ef_PeerID := v\<rparr> else f)"

fun read_numbers :: "hreq \<Rightarrow> string list \<Rightarrow> EventFilter \<Rightarrow> err + EventFilter" where
  "read_numbers r [] f = Inr f"
| "read_numbers r (name # names) f =
     (if Query_Get r name = [] then read_numbers r names f
      else case queryID (Query_Get r name) name of Inl e \<Rightarrow> Inl e | Inr v \<Rightarrow> read_numbers r names (set_number name v f))"

definition no_filter :: EventFilter where
  "no_filter = \<lparr>ef_Before = 0, ef_After = 0, ef_Ascending = False, ef_Limit = 0, ef_InstanceID = 0, ef_PeerID = 0, ef_Category = [],
     ef_Kinds = [], ef_Families = []\<rparr>"

definition event_limit :: "string \<Rightarrow> err + int" where
  "event_limit raw =
     (if raw = [] then Inr defaultEventLimit
      else case ParseInt raw of
        None \<Rightarrow> Inl (BadRequest ''limit must be between 1 and 500'')
      | Some n \<Rightarrow> if n < 1 \<or> n > maxEventLimit then Inl (BadRequest ''limit must be between 1 and 500'') else Inr n)"

definition handleListEvents :: "'m server \<Rightarrow> string list \<Rightarrow> hreq \<Rightarrow> ('m, 'z, unit) aprog" where
  "handleListEvents sv order r =
     bnd (liftE (read_numbers r order (no_filter\<lparr>ef_Category := Query_Get r ''category''\<rparr>))) (\<lambda>f.
     bnd (liftE (event_limit (Query_Get r ''limit''))) (\<lambda>limit.
     if ef_Category f \<notin> {[], CategoryConnection, CategoryAuth, CategoryChange}
     then throw (BadRequest (''unknown category '' @ Quote (sv_printable (srv_instances sv)) (ef_Category f)))
     else bnd (Events (f\<lparr>ef_Limit := limit\<rparr>)) (\<lambda>events. JSON 200 (JList (map event_json events)))))"

definition v1ListEvents :: "hreq \<Rightarrow> ('m, 'z, unit) aprog" where
  "v1ListEvents r =
     bnd (liftE (queryID (Query_Get r ''after'') ''after'')) (\<lambda>after.
     bnd (liftE (queryID (Query_Get r ''server_id'') ''server_id'')) (\<lambda>server.
     bnd (liftE (queryID (Query_Get r ''device_id'') ''device_id'')) (\<lambda>device.
     bnd (liftE (pageSize (Query_Get r ''limit''))) (\<lambda>limit.
     let raw = Query_Get r ''kind'' in
     bnd (Events (no_filter\<lparr>ef_Families := PublicFamilies, ef_Ascending := True, ef_After := after, ef_InstanceID := server,
       ef_PeerID := device, ef_Limit := limit + 1, ef_Kinds := (if raw = [] then [] else Split (CHR '','') raw)\<rparr>)) (\<lambda>found.
     case cut_page limit found of (events, has_more) \<Rightarrow> JSON 200 (page_json (map (public_json \<circ> ToPublic) events) has_more))))))"

text \<open>The event of a webhook's delivery and that of the list are the same text.\<close>

lemma those_append: "those (xs @ ys) = (case those xs of None \<Rightarrow> None | Some as \<Rightarrow> map_option (append as) (those ys))"
  by (induction xs) (auto split: option.splits simp: option.map_comp comp_def map_option_case)

lemma public_json_text: "json_text (public_json p) = Marshal_Public p"
proof -
  let ?m = "\<lambda>(k, v). map_option (Pair k) (json_text v)"
  have [simp]: "those (map ?m (omit_empty k v)) = Some (json_omit_string k v)"
    "those (map ?m (omit_int k w)) = Some (json_omit_int k w)" for k v w
    by (simp_all add: omit_empty_def json_omit_string_def omit_int_def json_omit_int_def)
  show ?thesis
    unfolding public_json_def Marshal_Public_def json_text.simps map_append those_append
    by (cases "json_time (pb_CreatedAt p)") simp_all
qed

end
