(* ===== verification/ApiRoutes.thy ===== *)
theory ApiRoutes
  imports ApiServers StoreWebhooks
begin

text \<open>
  internal/api (webhooks.go, v1.go, server.go): webhooks over HTTP and the table of /api/v1 with what a
  request passes on its way to a handler. Which pattern of the table a path matches is net/http's to say;
  the pattern is an argument.
\<close>

section \<open>Webhooks\<close>

definition maxWebhooks :: nat where "maxWebhooks = 20"
definition maxWebhookURL :: nat where "maxWebhookURL = 2048"
definition maxWebhookDesc :: nat where "maxWebhookDesc = 200"
definition webhookSecretPre :: string where "webhookSecretPre = ''whsec_''"
definition pingKind :: string where "pingKind = ''ping''"

record webhookRequest =
  wq_URL :: "string option"
  wq_Events :: "string list option"
  wq_Description :: "string option"
  wq_Enabled :: "bool option"

definition checkWebhookURL :: "'m server \<Rightarrow> string \<Rightarrow> string" where
  "checkWebhookURL sv raw =
     (if raw = [] then ''url is required''
      else if length raw > maxWebhookURL then ''url must be at most 2048 characters''
      else case srv_url sv raw of
        None \<Rightarrow> ''url must be an http or https address such as https://example.com/hooks/tunploy''
      | Some (scheme, host, user) \<Rightarrow>
        if scheme \<noteq> ''https'' \<and> scheme \<noteq> ''http'' \<or> host = []
        then ''url must be an http or https address such as https://example.com/hooks/tunploy''
        else if user then ''url must not hold a user name or password; check the signature instead''
        else [])"

definition normalizeEvents :: "(nat \<Rightarrow> bool) \<Rightarrow> string list \<Rightarrow> string list \<times> string" where
  "normalizeEvents printable wanted =
     (if AllEvents \<in> set wanted then ([AllEvents], [])
      else case find (\<lambda>k. k \<notin> set PublicKinds) wanted of
        Some k \<Rightarrow> ([], ''unknown event '' @ Quote printable k)
      | None \<Rightarrow>
        let out = filter (\<lambda>k. k \<in> set wanted) PublicKinds in
        if out = [] then ([], ''choose at least one event, or '' @ quoted ''*'' @ '' for all of them'') else (out, []))"

definition webhook_apply :: "'m server \<Rightarrow> webhookRequest \<Rightarrow> Webhook \<Rightarrow> fields \<times> Webhook" where
  "webhook_apply sv req w =
     (let url = map_option TrimSpace (wq_URL req); url_msg = (case url of None \<Rightarrow> [] | Some u \<Rightarrow> checkWebhookURL sv u);
          events = map_option (normalizeEvents (sv_printable (srv_instances sv))) (wq_Events req);
          events_msg = (case events of None \<Rightarrow> [] | Some (_, m) \<Rightarrow> m);
          desc = map_option TrimSpace (wq_Description req);
          desc_msg = (case desc of None \<Rightarrow> []
            | Some d \<Rightarrow> if RuneCountInString d > maxWebhookDesc then ''description must be at most 200 characters''
                else if contains_rune IsControl d then ''description must not contain control characters'' else [])
      in (set_field (desc_msg \<noteq> []) ''description'' desc_msg
           (set_field (events_msg \<noteq> []) ''events'' events_msg (set_field (url_msg \<noteq> []) ''url'' url_msg [])),
          w\<lparr>w_URL := given url (w_URL w), w_Events := given (map_option fst events) (w_Events w),
            w_Description := given desc (w_Description w), w_Enabled := given (wq_Enabled req) (w_Enabled w)\<rparr>))"

definition newWebhookSecret :: "bytes \<Rightarrow> string" where
  "newWebhookSecret rnd = webhookSecretPre @ RawURLEncode rnd"

definition webhook_members :: "Webhook \<Rightarrow> (string \<times> json) list" where
  "webhook_members w =
     [(''id'', JInt (w_ID w)), (''url'', JStr (w_URL w)), (''events'', if w_Events w = [] then JNull else JList (map JStr (w_Events w))),
      (''description'', JStr (w_Description w)), (''enabled'', JBool (w_Enabled w))] @ omit_empty ''created_by'' (w_CreatedBy w) @
     [(''created_at'', JTime (w_CreatedAt w)), (''updated_at'', JTime (w_UpdatedAt w))]"

definition delivery_json :: "Delivery \<Rightarrow> json" where
  "delivery_json d = JObj ([(''id'', JInt (d_ID d)), (''webhook_id'', JInt (d_WebhookID d))] @ omit_int ''event_id'' (d_EventID d) @
     [(''kind'', JStr (d_Kind d)), (''payload'', JRaw (d_Payload d)), (''state'', JStr (d_State d)), (''attempts'', JInt (int (d_Attempts d)))] @
     omit_time ''next_attempt_at'' (d_NextAttemptAt d) @ omit_time ''last_attempt_at'' (d_LastAttemptAt d) @
     omit_int ''response_status'' (d_ResponseStatus d) @ omit_empty ''error'' (d_Error d) @ omit_int ''duration_ms'' (d_DurationMS d) @
     [(''created_at'', JTime (d_CreatedAt d))])"

text \<open>The host alone goes into the log: a path can carry a token. Saved kinds are never none.\<close>

definition webhookDetail :: "'m server \<Rightarrow> Webhook \<Rightarrow> string" where
  "webhookDetail sv w =
     (case srv_url sv (w_URL w) of None \<Rightarrow> w_URL w | Some (_, host, _) \<Rightarrow> host) @ '' ('' @
     (if hd (w_Events w) \<noteq> AllEvents then strings_Join '', '' (w_Events w) else ''all events'') @ '')''"

definition webhookFromPath :: "hreq \<Rightarrow> ('m, 'z, Webhook) aprog" where
  "webhookFromPath r =
     (let gone = http_NotFound ''webhook not found'' in
      case ParseInt (PathValue r ''id'') of
        None \<Rightarrow> throw gone
      | Some n \<Rightarrow> mapErr (\<lambda>e. if errors_Is e ErrNotFound then gone else e) (WebhookByID n))"

definition handleListWebhooks :: "('m, 'z, unit) aprog" where
  "handleListWebhooks = bnd Webhooks (\<lambda>hooks. JSON 200 (JList (map (JObj \<circ> webhook_members) hooks)))"

definition v1ListWebhooks :: "('m, 'z, unit) aprog" where
  "v1ListWebhooks = bnd Webhooks (\<lambda>hooks. JSON 200 (page_json (map (JObj \<circ> webhook_members) hooks) False))"

definition new_webhook :: Webhook where
  "new_webhook = \<lparr>w_ID = 0, w_URL = [], w_Secret = [], w_Events = [AllEvents], w_Description = [], w_Enabled = True, w_CreatedBy = [],
     w_CreatedAt = zero_time, w_UpdatedAt = zero_time\<rparr>"

definition handleCreateWebhook :: "'m server \<Rightarrow> bytes \<Rightarrow> hreq \<Rightarrow> webhookRequest decoded \<Rightarrow> ('m, 'z, unit) aprog" where
  "handleCreateWebhook sv rnd r body =
     bnd (liftE (Decode body)) (\<lambda>req.
     case webhook_apply sv req new_webhook of (fs, hook) \<Rightarrow>
     let fs = set_field (wq_URL req = None) ''url'' ''url is required'' fs in
     if fs \<noteq> [] then throw (http_Invalid fs)
     else bnd Webhooks (\<lambda>existing.
       if length existing \<ge> maxWebhooks then throw (http_Conflict ''the panel holds at most 20 webhooks; delete one first'')
       else bnd (CreateWebhook (srv_now sv) (hook\<lparr>w_Secret := newWebhookSecret rnd, w_CreatedBy := env_actor (srv_env sv)\<rparr>)) (\<lambda>created.
         thn (Record (srv_env sv) (panel_event sv r ''webhook.created'' (webhookDetail sv created)))
         (JSON 201 (JObj (webhook_members created @ [(''secret'', JStr (w_Secret created))]))))))"

definition handleGetWebhook :: "hreq \<Rightarrow> ('m, 'z, unit) aprog" where
  "handleGetWebhook r = bnd (webhookFromPath r) (\<lambda>hook. JSON 200 (JObj (webhook_members hook)))"

definition handleUpdateWebhook :: "'m server \<Rightarrow> hreq \<Rightarrow> webhookRequest decoded \<Rightarrow> ('m, 'z, unit) aprog" where
  "handleUpdateWebhook sv r body =
     bnd (webhookFromPath r) (\<lambda>hook.
     bnd (liftE (Decode body)) (\<lambda>req.
     case webhook_apply sv req hook of (fs, new) \<Rightarrow>
     if fs \<noteq> [] then throw (http_Invalid fs)
     else bnd (UpdateWebhook (srv_now sv) new) (\<lambda>updated.
       thn (if webhookDetail sv updated \<noteq> webhookDetail sv hook \<or> w_Enabled updated \<noteq> w_Enabled hook
            then Record (srv_env sv) (panel_event sv r ''webhook.updated''
              (webhookDetail sv updated @ (if w_Enabled updated then [] else '', turned off'')))
            else ret ())
       (JSON 200 (JObj (webhook_members updated))))))"

definition handleDeleteWebhook :: "'m server \<Rightarrow> hreq \<Rightarrow> ('m, 'z, unit) aprog" where
  "handleDeleteWebhook sv r =
     bnd (webhookFromPath r) (\<lambda>hook.
     thn (DeleteWebhook (w_ID hook))
     (thn (Record (srv_env sv) (panel_event sv r ''webhook.deleted'' (webhookDetail sv hook))) NoContent))"

definition webhook_off :: err where "webhook_off = http_Conflict ''the webhook is turned off''"

definition ping_event :: "'m server \<Rightarrow> Public" where
  "ping_event sv = ToPublic ((blank_event pingKind)\<lparr>e_CreatedAt := srv_now sv, e_Detail := ''a test delivery from the Tunploy panel'',
     e_Actor := env_actor (srv_env sv)\<rparr>)"

definition handlePingWebhook :: "'m server \<Rightarrow> hreq \<Rightarrow> ('m, 'z, unit) aprog" where
  "handlePingWebhook sv r =
     bnd (webhookFromPath r) (\<lambda>hook.
     if \<not> w_Enabled hook then throw webhook_off
     else case Marshal_Public (ping_event sv) of
       None \<Rightarrow> throw (NewError ''json: error calling MarshalJSON for type time.Time: Time.MarshalJSON: year outside of range [0,9999]'')
     | Some payload \<Rightarrow>
       bnd (QueueDelivery (w_ID hook) pingKind payload (srv_now sv)) (\<lambda>d. JSON 202 (delivery_json d)))"

definition handleListDeliveries :: "hreq \<Rightarrow> ('m, 'z, unit) aprog" where
  "handleListDeliveries r =
     bnd (webhookFromPath r) (\<lambda>hook.
     bnd (liftE (queryID (Query_Get r ''before'') ''before'')) (\<lambda>before.
     bnd (liftE (pageSize (Query_Get r ''limit''))) (\<lambda>limit.
     bnd (Deliveries (w_ID hook) before (limit + 1)) (\<lambda>found.
     case cut_page limit found of (out, has_more) \<Rightarrow> JSON 200 (page_json (map delivery_json out) has_more)))))"

definition handleRetryDelivery :: "'m server \<Rightarrow> hreq \<Rightarrow> ('m, 'z, unit) aprog" where
  "handleRetryDelivery sv r =
     (let gone = http_NotFound ''delivery not found'' in
      bnd (webhookFromPath r) (\<lambda>hook.
      if \<not> w_Enabled hook then throw webhook_off
      else case ParseInt (PathValue r ''deliveryID'') of
        None \<Rightarrow> throw gone
      | Some n \<Rightarrow>
        bnd (mapErr (\<lambda>e. if errors_Is e ErrNotFound then gone else e) (DeliveryByID n)) (\<lambda>d.
        if d_WebhookID d \<noteq> w_ID hook then throw gone
        else bnd (RetryDelivery (d_ID d) (srv_now sv)) (\<lambda>d. JSON 202 (delivery_json d)))))"

section \<open>The table of /api/v1\<close>

text \<open>What a request brings to its handler: the body, decoded as the handler does it, and random bytes.\<close>

record v1_input =
  vi_device :: "v1DeviceRequest decoded"
  vi_move :: "placement decoded"
  vi_share :: "gotime option decoded"
  vi_group :: "v1GroupRequest decoded"
  vi_server :: "Change decoded"
  vi_webhook :: "webhookRequest decoded"
  vi_rnd :: bytes
  vi_rnd' :: bytes
  vi_name :: string
  vi_token :: string

record ('m, 'z) v1Endpoint =
  ep_pattern :: string
  ep_scope :: string
  ep_h :: "('m, 'z, unit) aprog"
  ep_idempotent :: bool

definition endpoint :: "string \<Rightarrow> string \<Rightarrow> ('m, 'z, unit) aprog \<Rightarrow> bool \<Rightarrow> ('m, 'z) v1Endpoint" where
  "endpoint pattern scope h idem = \<lparr>ep_pattern = pattern, ep_scope = scope, ep_h = h, ep_idempotent = idem\<rparr>"

definition device_endpoints :: "'m server \<Rightarrow> hreq \<Rightarrow> v1_input \<Rightarrow> ('m, 'z) v1Endpoint list" where
  "device_endpoints sv r x =
     [endpoint ''GET /api/v1/devices'' scopeDevicesRead (v1ListDevices sv r) False,
      endpoint ''POST /api/v1/devices'' scopeDevicesWrite (v1CreateDevice sv (vi_rnd x) (vi_rnd' x) (vi_name x) (vi_device x)) True,
      endpoint ''GET /api/v1/devices/{id}'' scopeDevicesRead (v1GetDevice sv r) False,
      endpoint ''PATCH /api/v1/devices/{id}'' scopeDevicesWrite (v1UpdateDevice sv r (vi_device x)) False,
      endpoint ''DELETE /api/v1/devices/{id}'' scopeDevicesWrite (v1DeleteDevice sv r) False,
      endpoint ''GET /api/v1/devices/{id}/config'' scopeDevicesRead (v1DeviceConfig sv r) False,
      endpoint ''GET /api/v1/devices/{id}/usage'' scopeDevicesRead (v1DeviceUsage sv r) False,
      endpoint ''POST /api/v1/devices/{id}/usage/reset'' scopeDevicesWrite (v1ResetDeviceUsage sv r) True,
      endpoint ''POST /api/v1/devices/{id}/move'' scopeDevicesWrite (v1MoveDevice sv r (vi_move x)) True,
      endpoint ''GET /api/v1/devices/{id}/share'' scopeDevicesRead (v1GetShare sv r) False,
      endpoint ''POST /api/v1/devices/{id}/share'' scopeDevicesWrite (v1CreateShare sv (vi_token x) r (vi_share x)) True,
      endpoint ''DELETE /api/v1/devices/{id}/share'' scopeDevicesWrite (v1DeleteShare sv r) False]"

definition group_endpoints :: "'m server \<Rightarrow> hreq \<Rightarrow> v1_input \<Rightarrow> ('m, 'z) v1Endpoint list" where
  "group_endpoints sv r x =
     [endpoint ''GET /api/v1/groups/{external_id}'' scopeDevicesRead (v1GetGroup sv r) False,
      endpoint ''PATCH /api/v1/groups/{external_id}'' scopeDevicesWrite (v1UpdateGroup sv r (vi_group x)) False,
      endpoint ''DELETE /api/v1/groups/{external_id}'' scopeDevicesWrite (v1DeleteGroup sv r) False,
      endpoint ''POST /api/v1/groups/{external_id}/usage/reset'' scopeDevicesWrite (v1ResetGroupUsage sv r) True]"

definition server_endpoints :: "'m server \<Rightarrow> hreq \<Rightarrow> v1_input \<Rightarrow> ('m, 'z) v1Endpoint list" where
  "server_endpoints sv r x =
     [endpoint ''GET /api/v1/servers'' scopeServersRead (v1ListServers sv r) False,
      endpoint ''GET /api/v1/servers/{id}'' scopeServersRead (v1GetServer sv r) False,
      endpoint ''POST /api/v1/servers'' scopeServersWrite (v1CreateServer sv (vi_rnd x) (vi_server x)) True,
      endpoint ''PATCH /api/v1/servers/{id}'' scopeServersWrite (v1UpdateServer sv r (vi_server x)) False,
      endpoint ''DELETE /api/v1/servers/{id}'' scopeServersWrite (v1DeleteServer sv r) False,
      endpoint ''GET /api/v1/nodes'' scopeServersRead (v1ListNodes sv) False,
      endpoint ''GET /api/v1/events'' scopeEventsRead (v1ListEvents r) False]"

definition webhook_endpoints :: "'m server \<Rightarrow> hreq \<Rightarrow> v1_input \<Rightarrow> ('m, 'z) v1Endpoint list" where
  "webhook_endpoints sv r x =
     [endpoint ''GET /api/v1/webhooks'' scopeWebhooksWrite v1ListWebhooks False,
      endpoint ''POST /api/v1/webhooks'' scopeWebhooksWrite (handleCreateWebhook sv (vi_rnd x) r (vi_webhook x)) True,
      endpoint ''GET /api/v1/webhooks/{id}'' scopeWebhooksWrite (handleGetWebhook r) False,
      endpoint ''PATCH /api/v1/webhooks/{id}'' scopeWebhooksWrite (handleUpdateWebhook sv r (vi_webhook x)) False,
      endpoint ''DELETE /api/v1/webhooks/{id}'' scopeWebhooksWrite (handleDeleteWebhook sv r) False,
      endpoint ''POST /api/v1/webhooks/{id}/ping'' scopeWebhooksWrite (handlePingWebhook sv r) False,
      endpoint ''GET /api/v1/webhooks/{id}/deliveries'' scopeWebhooksWrite (handleListDeliveries r) False,
      endpoint ''POST /api/v1/webhooks/{id}/deliveries/{deliveryID}/retry'' scopeWebhooksWrite (handleRetryDelivery sv r) False]"

definition v1Endpoints :: "'m server \<Rightarrow> hreq \<Rightarrow> v1_input \<Rightarrow> ('m, 'z) v1Endpoint list" where
  "v1Endpoints sv r x = device_endpoints sv r x @ group_endpoints sv r x @ server_endpoints sv r x @ webhook_endpoints sv r x"

definition run_endpoint :: "'m server \<Rightarrow> APIKey \<Rightarrow> hreq \<Rightarrow> ('m, 'z) v1Endpoint \<Rightarrow> ('m, 'z, unit) aprog" where
  "run_endpoint sv k r e =
     (let h = requireScope (ep_scope e) k (ep_h e) in if ep_idempotent e then idempotent sv k r h else h)"

definition v1Routes :: "'m server \<Rightarrow> v1_input \<Rightarrow> string \<Rightarrow> hreq \<Rightarrow> ('m, 'z, unit) aprog" where
  "v1Routes sv x pattern r =
     requireAPIKey sv (\<lambda>sv k.
       case find (\<lambda>e. ep_pattern e = pattern) (v1Endpoints sv r x) of
         None \<Rightarrow> serve (throw (http_NotFound (''no such endpoint: '' @ rq_Method r @ '' '' @ rq_Path r)))
       | Some e \<Rightarrow> run_endpoint sv k r e) r"

definition handleHealth :: "('m, 'z, unit) aprog" where
  "handleHealth = JSON 200 (JObj [(''status'', JStr ''ok'')])"

end
