(* ===== verification/ApiLimits.thy ===== *)
theory ApiLimits
  imports ApiRoutes PeerFacts
begin

text \<open>
  What the limits of internal/api and internal/auth amount to: how many requests a key gets in any stretch
  of time, rounding included, and how many guesses at a password.
\<close>

section \<open>Rounding\<close>

lemma pow2_pos: "0 < pow2 k"
  by (simp add: pow2_def)

lemma pow2_diff: "pow2 (int a - int b) = 2 ^ a / 2 ^ b"
proof (cases "b \<le> a")
  case True
  then have "(2::rat) ^ a = 2 ^ (a - b) * 2 ^ b" by (simp flip: power_add)
  then show ?thesis using True by (simp add: pow2_def nat_diff_distrib')
next
  case False
  then have "(2::rat) ^ b = 2 ^ (b - a) * 2 ^ a" by (simp flip: power_add)
  then show ?thesis using False by (simp add: pow2_def nat_diff_distrib')
qed

lemma pow2_minus: "pow2 (k - int n) = pow2 k / 2 ^ n"
proof (cases "0 \<le> k")
  case True
  then obtain a where "k = int a" using nonneg_int_cases by blast
  then show ?thesis using pow2_diff[of a n] by (simp add: pow2_def)
next
  case False
  then obtain b where b: "k = - int b" by (meson int_cases3 less_le not_le neg_int_cases)
  then have "pow2 (k - int n) = pow2 (int 0 - int (b + n))" by (simp add: algebra_simps)
  also have "\<dots> = 1 / 2 ^ (b + n)" by (subst pow2_diff) simp
  finally show ?thesis using b pow2_diff[of 0 b] by (simp add: power_add)
qed

lemma exponent_le:
  assumes "0 < x"
  shows "pow2 (exponent x) \<le> x"
proof -
  obtain n d where q: "quotient_of x = (n, d)" by fastforce
  then have x: "x = of_int n / of_int d" and d: "0 < d" by (auto simp: quotient_of_div quotient_of_denom_pos)
  then have n: "0 < n" using assms by (simp add: zero_less_divide_iff)
  obtain a b where a: "bitlen n = int (Suc a)" and b: "bitlen d = int b"
  proof -
    have "0 < bitlen n" "0 \<le> bitlen d" using n bitlen_nonneg[of n] bitlen_nonneg[of d] bitlen_eq_zero_iff[of n] by linarith+
    then have "bitlen n = int (Suc (nat (bitlen n - 1)))" "bitlen d = int (nat (bitlen d))" by simp_all
    then show thesis by (rule that)
  qed
  have "2 ^ a \<le> n" "d < 2 ^ b" using bitlen_bounds[OF n] bitlen_bounds[OF d] a b by simp_all
  then have "(2::rat) ^ a \<le> of_int n" "of_int d < (2::rat) ^ b"
    by (metis of_int_le_iff of_int_numeral of_int_power) (metis \<open>d < 2 ^ b\<close> of_int_less_iff of_int_numeral of_int_power)
  then have "(2::rat) ^ a * of_int d \<le> of_int n * 2 ^ b" using n d by (intro mult_mono) auto
  then have "(2::rat) ^ a / 2 ^ b \<le> x" using d by (simp add: x field_simps)
  then have "pow2 (int a - int b) \<le> x" by (simp add: pow2_diff)
  then show ?thesis by (simp add: exponent_def q a b Let_def algebra_simps)
qed

lemma round_even_close:
  assumes "0 < b"
  shows "2 * \<bar>round_even a b * b - a\<bar> \<le> b"
proof -
  define q r where "q = a div b" and "r = a mod b"
  have m: "0 \<le> r" "r < b" "a = q * b + r" using assms by (simp_all add: q_def r_def)
  have "round_even a b = q \<and> 2 * r \<le> b \<or> round_even a b = q + 1 \<and> b \<le> 2 * r"
    unfolding round_even_def Let_def q_def[symmetric] r_def[symmetric] by auto
  then show ?thesis
  proof
    assume "round_even a b = q \<and> 2 * r \<le> b"
    then show ?thesis using m by simp
  next
    assume "round_even a b = q + 1 \<and> b \<le> 2 * r"
    moreover have "(q + 1) * b - a = b - r" using m(3) by (simp add: algebra_simps)
    ultimately show ?thesis using m(1,2) by simp
  qed
qed

lemma fl_0 [simp]: "fl 0 = 0" by (simp add: fl_def)

text \<open>Rounding a number that is not negative: the relative error is at most one part in \<open>2 ^ 53\<close>.\<close>

lemma fl_bounds:
  assumes "0 \<le> x"
  shows "0 \<le> fl x" and "fl x \<le> x + x / 2 ^ 53"
proof -
  have "0 \<le> fl x \<and> fl x \<le> x + x / 2 ^ 53"
  proof (cases "x = 0")
    case False
    then have x: "0 < x" using assms by simp
    define ulp where "ulp = pow2 (exponent x - 52)"
    have ulp: "0 < ulp" "ulp \<le> x / 2 ^ 52"
      using pow2_pos pow2_minus[of "exponent x" 52] exponent_le[OF x] by (simp_all add: ulp_def divide_right_mono)
    obtain n d where q: "quotient_of (x / ulp) = (n, d)" by fastforce
    then have y: "x / ulp = of_int n / of_int d" and d: "0 < d" by (auto simp: quotient_of_div quotient_of_denom_pos)
    then have n: "0 < n" using x ulp(1) by (metis divide_pos_pos of_int_0_less_iff zero_less_divide_iff less_asym)
    let ?m = "round_even n d"
    have fl: "fl x = of_int ?m * ulp" using False x q[unfolded ulp_def] by (simp add: fl_def ulp_def Let_def)
    have "2 * \<bar>?m * d - n\<bar> \<le> d" using d by (rule round_even_close)
    then have "2 * (?m * d) \<le> 2 * n + d" using abs_ge_self[of "?m * d - n"] unfolding right_diff_distrib by simp
    then have "2 * (of_int ?m * of_int d) \<le> 2 * of_int n + (of_int d :: rat)"
      by (metis (mono_tags) of_int_add of_int_le_iff of_int_mult of_int_numeral)
    then have "2 * of_int ?m \<le> 2 * (of_int n / of_int d) + (1::rat)" using d by (simp add: field_simps)
    then have "of_int ?m \<le> x / ulp + 1 / 2" unfolding y by simp
    then have "of_int ?m * ulp \<le> (x / ulp + 1 / 2) * ulp" using ulp(1) by (intro mult_right_mono) simp_all
    also have "\<dots> = x + ulp / 2" using ulp(1) by (simp add: field_simps)
    finally have "fl x \<le> x + x / 2 ^ 53" using ulp(2) fl by simp
    moreover have "0 \<le> ?m" using n d by (auto simp: round_even_def Let_def pos_imp_zdiv_nonneg_iff)
    ultimately show ?thesis using fl ulp(1) by simp
  qed simp
  then show "0 \<le> fl x" and "fl x \<le> x + x / 2 ^ 53" by simp_all
qed

section \<open>Requests of a key\<close>

text \<open>How many of a key's requests, at the given times, are let through.\<close>

fun allowed_count :: "int \<Rightarrow> (int \<times> bucket) list \<Rightarrow> gotime list \<Rightarrow> nat" where
  "allowed_count k bs [] = 0"
| "allowed_count k bs (t # ts) =
     (case allow k t bs of ((ok, _), bs) \<Rightarrow> (if ok then 1 else 0) + allowed_count k bs ts)"

definition seconds_between :: "gotime \<Rightarrow> gotime \<Rightarrow> rat" where
  "seconds_between a b = of_int (b - a) / 1000000000"

lemma Seconds_bounds:
  assumes "a \<le> b"
  shows "0 \<le> Seconds (b - a)"
    and "Seconds (b - a) \<le> seconds_between a b * (1 + 1 / 2 ^ 53) ^ 2"
proof -
  define sec nsec where "sec = quot (b - a) second" and "nsec = b - a - sec * second"
  have split: "sec * 1000000000 + nsec = b - a" by (simp add: nsec_def)
  have nn: "0 \<le> sec" "0 \<le> nsec"
    using assms by (simp_all add: sec_def nsec_def minus_mod_eq_mult_div[symmetric])
  let ?x = "fl (of_int sec)" let ?y = "fl (of_int nsec / 1000000000)" let ?c = "1 + 1 / 2 ^ 53 :: rat"
  have fl: "fl z \<le> z * ?c" if "0 \<le> z" for z using fl_bounds(2)[OF that] by (simp add: algebra_simps)
  have x: "0 \<le> ?x" "?x \<le> of_int sec * ?c" and y: "0 \<le> ?y" "?y \<le> of_int nsec / 1000000000 * ?c"
    using nn by (intro fl_bounds fl; simp)+
  have "of_int (sec * 1000000000 + nsec) / 1000000000 = of_int sec + of_int nsec / (1000000000 :: rat)"
    by (simp add: add_divide_distrib)
  then have "of_int sec + of_int nsec / 1000000000 = seconds_between a b" by (simp add: split seconds_between_def)
  then have whole: "of_int sec * ?c + of_int nsec / 1000000000 * ?c = seconds_between a b * ?c"
    by (simp only: distrib_right[symmetric])
  have sum: "?x + ?y \<le> seconds_between a b * ?c" unfolding whole[symmetric] by (rule add_mono[OF x(2) y(2)])
  have S: "Seconds (b - a) = fl (?x + ?y)" by (simp add: Seconds_def Let_def sec_def nsec_def)
  show "0 \<le> Seconds (b - a)" unfolding S using x(1) y(1) by (intro fl_bounds) simp
  have "Seconds (b - a) \<le> (?x + ?y) * ?c" unfolding S using x(1) y(1) by (intro fl) simp
  also have "\<dots> \<le> seconds_between a b * ?c * ?c" using sum by (intro mult_right_mono) simp_all
  finally show "Seconds (b - a) \<le> seconds_between a b * ?c ^ 2" by (simp add: power2_eq_square mult.assoc)
qed

lemma refilled_bounds:
  assumes "0 \<le> bk_tokens b" and "bk_tokens b \<le> 60" and "bk_at b \<le> t"
  shows "0 \<le> refilled t b" and "refilled t b \<le> 60"
    and "refilled t b \<le> bk_tokens b + 10 * seconds_between (bk_at b) t + 1 / 2 ^ 44"
proof -
  let ?c = "1 + 1 / 2 ^ 53 :: rat" let ?D = "10 * seconds_between (bk_at b) t" let ?S = "Seconds (t - bk_at b)"
  have fl: "fl z \<le> z * ?c" if "0 \<le> z" for z using fl_bounds(2)[OF that] by (simp add: algebra_simps)
  have D: "0 \<le> ?D" using assms(3) by (simp add: seconds_between_def)
  note S = Seconds_bounds[OF assms(3)]
  have "0 \<le> fl (?S * 10)" "fl (?S * 10) \<le> ?S * 10 * ?c" using S(1) by (intro fl_bounds fl; simp)+
  moreover have "?S * 10 * ?c \<le> ?D * ?c ^ 3" using S(2) by (simp add: power3_eq_cube power2_eq_square)
  ultimately have T: "0 \<le> bk_tokens b + fl (?S * 10)" "bk_tokens b + fl (?S * 10) \<le> bk_tokens b + ?D * ?c ^ 3"
    using assms(1) by simp_all
  have r: "refilled t b = min 60 (fl (bk_tokens b + fl (?S * 10)))"
    by (simp add: refilled_def apiRateBurst_def apiRatePerSec_def)
  show "0 \<le> refilled t b" "refilled t b \<le> 60" unfolding r using fl_bounds(1)[OF T(1)] by simp_all
  show "refilled t b \<le> bk_tokens b + ?D + 1 / 2 ^ 44"
  proof (cases "60 \<le> ?D")
    case True
    then have "60 \<le> bk_tokens b + ?D + 1 / 2 ^ 44" using assms(1) by simp
    moreover have "refilled t b \<le> 60" unfolding r by simp
    ultimately show ?thesis by linarith
  next
    case False
    have "fl (bk_tokens b + fl (?S * 10)) \<le> (bk_tokens b + ?D * ?c ^ 3) * ?c"
      using fl[OF T(1)] T(2) by (meson mult_right_mono order_trans zero_le_divide_1_iff zero_le_numeral zero_le_power add_nonneg_nonneg zero_le_one)
    also have "\<dots> = bk_tokens b + ?D + (bk_tokens b * (1 / 2 ^ 53) + ?D * (?c ^ 4 - 1))"
      by (simp add: algebra_simps power4_eq_xxxx power3_eq_cube)
    also have "\<dots> \<le> bk_tokens b + ?D + (60 * (1 / 2 ^ 53) + 60 * (?c ^ 4 - 1))"
      using False assms(2) D by (intro add_mono mult_right_mono) simp_all
    also have "\<dots> \<le> bk_tokens b + ?D + 1 / 2 ^ 44" by (simp add: power_divide field_simps)
    finally show ?thesis unfolding r by simp
  qed
qed

lemma taken_bound:
  assumes "1 \<le> t" and "t \<le> 60"
  shows "0 \<le> fl (t - 1)" and "fl (t - 1) \<le> t - 1 + 1 / 2 ^ 45" and "fl (t - 1) \<le> 60"
proof -
  have "fl (t - 1) \<le> t - 1 + (t - 1) / 2 ^ 53" using assms(1) by (intro fl_bounds) simp
  also have "(t - 1) / 2 ^ 53 \<le> (60 :: rat) / 2 ^ 53" using assms(2) by (intro divide_right_mono) simp_all
  finally have le: "fl (t - 1) \<le> t - 1 + 60 / 2 ^ 53" by simp
  show "0 \<le> fl (t - 1)" using assms(1) by (intro fl_bounds) simp
  show "fl (t - 1) \<le> t - 1 + 1 / 2 ^ 45" using le by simp
  show "fl (t - 1) \<le> 60" using le assms(2) by simp
qed

text \<open>The bucket a request finds, and what every bucket of the limiter is like.\<close>

definition bucket_of :: "int \<Rightarrow> gotime \<Rightarrow> (int \<times> bucket) list \<Rightarrow> bucket" where
  "bucket_of k t bs = (case map_of bs k of None \<Rightarrow> \<lparr>bk_tokens = apiRateBurst, bk_at = t\<rparr> | Some b \<Rightarrow> b)"

definition bucket_ok :: "gotime \<Rightarrow> bucket \<Rightarrow> bool" where
  "bucket_ok now b \<longleftrightarrow> 0 \<le> bk_tokens b \<and> bk_tokens b \<le> 60 \<and> bk_at b \<le> now"

definition buckets_ok :: "gotime \<Rightarrow> (int \<times> bucket) list \<Rightarrow> bool" where
  "buckets_ok now bs \<longleftrightarrow> (\<forall>k b. map_of bs k = Some b \<longrightarrow> bucket_ok now b)"

lemma bucket_of_ok: "buckets_ok t bs \<Longrightarrow> bucket_ok t (bucket_of k t bs)"
  by (auto simp: buckets_ok_def bucket_of_def bucket_ok_def apiRateBurst_def split: option.split)

lemma allow_step:
  assumes "bucket_ok t (bucket_of k t bs)"
  obtains ok wait b' where "allow k t bs = ((ok, wait), AList.update k b' bs)" and "bk_at b' = t" and "bucket_ok t b'"
    and "bk_tokens b' + (if ok then 1 else 0)
      \<le> bk_tokens (bucket_of k t bs) + 10 * seconds_between (bk_at (bucket_of k t bs)) t + 1 / 2 ^ 43"
    and "bk_tokens b' + (if ok then 1 else 0) \<le> 60 + 1 / 2 ^ 43"
proof -
  define b where "b = bucket_of k t bs"
  have ok: "0 \<le> bk_tokens b" "bk_tokens b \<le> 60" "bk_at b \<le> t" using assms by (simp_all add: b_def bucket_ok_def)
  note r = refilled_bounds[OF ok]
  show thesis
  proof (cases "refilled t b < 1")
    case True
    let ?b = "\<lparr>bk_tokens = refilled t b, bk_at = t\<rparr>"
    obtain wait where "allow k t bs = ((False, wait), AList.update k ?b bs)"
      using True by (simp add: allow_def Let_def b_def bucket_of_def)
    then show thesis
      by (rule that[of False _ ?b]) (use r in \<open>simp_all add: bucket_ok_def b_def[symmetric]\<close>)
  next
    case False
    let ?b = "\<lparr>bk_tokens = fl (refilled t b - 1), bk_at = t\<rparr>"
    have "allow k t bs = ((True, 0), AList.update k ?b bs)"
      using False by (simp add: allow_def Let_def b_def bucket_of_def)
    then show thesis
      by (rule that[of True _ ?b]) (use False r taken_bound[of "refilled t b"] in \<open>simp_all add: bucket_ok_def b_def[symmetric]\<close>)
  qed
qed

lemma buckets_ok_allow:
  assumes "buckets_ok t bs"
  shows "buckets_ok t (snd (allow k t bs))"
proof -
  obtain ok wait b' where "allow k t bs = ((ok, wait), AList.update k b' bs)" "bucket_ok t b'"
    using bucket_of_ok[OF assms] by (rule allow_step)
  then show ?thesis using assms by (auto simp: buckets_ok_def update_conv split: if_splits)
qed

lemma buckets_ok_later: "buckets_ok t bs \<Longrightarrow> t \<le> t' \<Longrightarrow> buckets_ok t' bs"
  unfolding buckets_ok_def bucket_ok_def by (meson order_trans)

lemma buckets_ok_forget: "buckets_ok t bs \<Longrightarrow> buckets_ok t (AList.delete k bs)"
  by (auto simp: buckets_ok_def delete_conv' split: if_splits)

lemma allowed_count_bound:
  assumes "bucket_ok t (bucket_of k t bs)" and "sorted (t # ts)"
  shows "of_nat (allowed_count k bs (t # ts)) \<le> bk_tokens (bucket_of k t bs)
    + 10 * seconds_between (bk_at (bucket_of k t bs)) (last (t # ts)) + of_nat (length (t # ts)) / 2 ^ 43"
  using assms
proof (induction ts arbitrary: bs t)
  case Nil
  obtain ok wait b' where "allow k t bs = ((ok, wait), AList.update k b' bs)" "bucket_ok t b'"
    "bk_tokens b' + (if ok then 1 else 0) \<le> bk_tokens (bucket_of k t bs) + 10 * seconds_between (bk_at (bucket_of k t bs)) t + 1 / 2 ^ 43"
    using allow_step[OF Nil(1)] by blast
  then show ?case by (auto simp: bucket_ok_def)
next
  case (Cons t' ts)
  obtain ok wait b' where run: "allow k t bs = ((ok, wait), AList.update k b' bs)" and b': "bk_at b' = t" "bucket_ok t b'"
    and le: "bk_tokens b' + (if ok then 1 else 0)
      \<le> bk_tokens (bucket_of k t bs) + 10 * seconds_between (bk_at (bucket_of k t bs)) t + 1 / 2 ^ 43"
    using Cons.prems(1) by (rule allow_step)
  let ?bs = "AList.update k b' bs"
  have found: "bucket_of k t' ?bs = b'" by (simp add: bucket_of_def update_conv)
  have "bucket_ok t' (bucket_of k t' ?bs)" using b' Cons.prems(2) by (auto simp: found bucket_ok_def)
  then have IH: "of_nat (allowed_count k ?bs (t' # ts)) \<le> bk_tokens b' + 10 * seconds_between t (last (t' # ts)) + of_nat (length (t' # ts)) / 2 ^ 43"
    using Cons.IH[of t' ?bs] Cons.prems(2) b'(1) found by simp
  let ?a = "bk_at (bucket_of k t bs)" let ?l = "last (t' # ts)"
  define n where "n = (of_nat (length (t' # ts)) / 2 ^ 43 :: rat)"
  have "seconds_between ?a t + seconds_between t ?l = seconds_between ?a ?l"
    by (simp add: seconds_between_def flip: add_divide_distrib of_int_add)
  moreover have "of_nat (length (t # t' # ts)) / 2 ^ 43 = n + 1 / 2 ^ 43" by (simp add: n_def add_divide_distrib)
  moreover have "of_nat (allowed_count k bs (t # t' # ts)) = (if ok then 1 else 0) + (of_nat (allowed_count k ?bs (t' # ts)) :: rat)" by (simp add: run)
  moreover have "last (t # t' # ts) = ?l" by simp
  ultimately show ?case using IH[folded n_def] le by (simp only:)
qed

lemma allowed_count_run:
  assumes "buckets_ok t bs" and "sorted (t # ts)"
  shows "of_nat (allowed_count k bs (t # ts)) \<le> 60 + 10 * seconds_between t (last (t # ts)) + of_nat (length (t # ts)) / 2 ^ 43"
proof -
  obtain ok wait b' where run: "allow k t bs = ((ok, wait), AList.update k b' bs)" and b': "bk_at b' = t" "bucket_ok t b'"
    and le: "bk_tokens b' + (if ok then 1 else 0) \<le> 60 + 1 / 2 ^ 43"
    using bucket_of_ok[OF assms(1)] by (rule allow_step)
  let ?bs = "AList.update k b' bs"
  show ?thesis
  proof (cases ts)
    case Nil
    have "of_nat (allowed_count k bs [t]) \<le> (1 :: rat)" by (simp add: run)
    then show ?thesis by (simp add: Nil seconds_between_def)
  next
    case (Cons t' us)
    have found: "bucket_of k t' ?bs = b'" by (simp add: bucket_of_def update_conv)
    have "bucket_ok t' b'" using b' assms(2) Cons by (auto simp: bucket_ok_def)
    then have "of_nat (allowed_count k ?bs ts) \<le> bk_tokens b' + 10 * seconds_between t (last ts) + of_nat (length ts) / 2 ^ 43"
      using allowed_count_bound[of t' k ?bs us] assms(2) by (simp add: found b'(1) Cons)
    moreover have "of_nat (allowed_count k bs (t # ts)) = (if ok then 1 else 0) + (of_nat (allowed_count k ?bs ts) :: rat)" by (simp add: run)
    moreover have "of_nat (length (t # ts)) / 2 ^ 43 = of_nat (length ts) / 2 ^ 43 + (1 / 2 ^ 43 :: rat)" by (simp add: add_divide_distrib)
    moreover have "last (t # ts) = last ts" using Cons by simp
    ultimately show ?thesis using le by (simp only:)
  qed
qed

section \<open>Guesses\<close>

text \<open>\<open>n\<close> guesses have failed, and what counts them does not expire before \<open>until\<close>.\<close>

definition counted :: "nat \<Rightarrow> gotime \<Rightarrow> string \<Rightarrow> throttle_entries \<Rightarrow> bool" where
  "counted n until key es \<longleftrightarrow> n = 0 \<or> (\<exists>e. map_of es key = Some e \<and> n \<le> te_failures e \<and> until \<le> te_resetAt e)"

lemma counted_Allowed:
  assumes "counted n until key es" and "now \<le> until"
  shows "counted n until key (snd (Allowed t now key es))" and "fst (fst (Allowed t now key es)) \<Longrightarrow> n < th_max t \<or> n = 0"
  using assms by (auto simp: counted_def Allowed_def split: option.splits if_splits)

lemma map_of_prune:
  assumes "distinct (map fst es)"
  shows "map_of (prune now es) key = (case map_of es key of None \<Rightarrow> None | Some e \<Rightarrow> if now > te_resetAt e then None else Some e)"
proof -
  have "map_of (filter (\<lambda>(_, e). P e) es) key = (case map_of es key of None \<Rightarrow> None | Some e \<Rightarrow> if P e then Some e else None)" for P
    using assms by (induction es) (auto split: option.splits simp: map_of_eq_None_iff)
  from this[of "\<lambda>e. \<not> now > te_resetAt e"] show ?thesis unfolding prune_def by (simp split: option.split)
qed

lemma counted_Fail:
  assumes "distinct (map fst es)" and "counted n until key es" and "now \<le> until" and "until \<le> now + th_window t"
  shows "counted (Suc n) until key (Fail t now key es)"
proof (cases "\<exists>e. map_of (prune now es) key = Some e \<and> n \<le> te_failures e")
  case True
  then obtain e where e: "map_of (prune now es) key = Some e" "n \<le> te_failures e" by blast
  then have "\<not> now > te_resetAt e" using map_of_prune[OF assms(1)] by (auto split: option.splits if_splits)
  then show ?thesis using e assms(4) by (auto simp: counted_def Fail_def Let_def update_conv)
next
  case False
  then have "n = 0" using assms(2,3) map_of_prune[OF assms(1), of now key] by (fastforce simp: counted_def split: option.splits if_splits)
  then show ?thesis using assms(4) by (auto simp: counted_def Fail_def Let_def update_conv split: option.split)
qed

lemma throttle_distinct:
  assumes "distinct (map fst es)"
  shows "distinct (map fst (snd (Allowed t now key es)))" and "distinct (map fst (Fail t now key es))"
proof -
  have "distinct (map fst (prune now es))" unfolding prune_def using assms by (rule distinct_map_filter)
  then show "distinct (map fst (Fail t now key es))" by (auto simp: Fail_def Let_def distinct_update split: option.split)
  show "distinct (map fst (snd (Allowed t now key es)))" using assms by (auto simp: Allowed_def distinct_delete split: option.split)
qed

definition signing :: "('m, 'z) api_scheme \<Rightarrow> throttle_entries \<times> user_row list" where
  "signing s = (ap_throttle s, t_users s)"

lemma signing_core: "signing (core s) = signing s"
  by (simp add: signing_def core_def)

lemma login_failed_run:
  obtains s' where "login_failed sv r key detail s = (Inr (), s')"
    and "signing s' = (Fail loginThrottle (srv_now sv) key (ap_throttle s), t_users s)"
proof -
  let ?s = "s\<lparr>ap_throttle := Fail loginThrottle (srv_now sv) key (ap_throttle s)\<rparr>"
  let ?m = "Record (srv_env sv) (panel_event sv r ''auth.login_failed'' detail)"
  obtain s' where run: "?m ?s = (Inr (), s')" and "core s' = core ?s" by (rule Record_run)
  then have "signing s' = signing ?s" by (metis signing_core)
  then show thesis using run that by (simp add: login_failed_def login_Fail_def thn_def bnd_def signing_def)
qed

text \<open>The store's own errors are none of the replies.\<close>

definition plain_error :: "err \<Rightarrow> bool" where
  "plain_error e \<longleftrightarrow> (case e of HttpError _ _ _ _ \<Rightarrow> False | _ \<Rightarrow> True)"

lemma VerifyPassword_plain: "VerifyPassword a h p = Some e \<Longrightarrow> plain_error e"
  unfolding VerifyPassword_def
  by (simp split: list.splits option.splits if_splits prod.splits) (auto simp: plain_error_def ErrPasswordMismatch_def)

lemma UserByEmail_cases:
  fixes s :: "('m, 'z) api_scheme"
  obtains (failed) e s' where "UserByEmail lower email s = (Inl e, s')" and "plain_error e" and "signing s' = signing s"
  | (found) u s' where "UserByEmail lower email s = (Inr u, s')" and "\<exists>row \<in> set (t_users s). u_PasswordHash u = us_password_hash row"
      and "signing s' = signing s"
proof -
  define f where "f = (\<lambda>s :: ('m, 'z) api_scheme. find (\<lambda>r. us_email r = NormalizeEmail lower email) (t_users s))"
  let ?row = "f s"
  have f: "f (s\<lparr>t_faults := b\<rparr>) = f s" for b by (simp add: f_def)
  have q: "query f s = (Inl db_fault, s\<lparr>t_faults := tl (t_faults s)\<rparr>) \<or> query f s = (Inr (f s), s\<lparr>t_faults := tl (t_faults s)\<rparr>) \<or> query f s = (Inr (f s), s)"
    by (auto simp: query_def stmt_def Let_def f split: list.split)
  have unf: "UserByEmail lower email = bnd (mapErr (Errorf ''scan user'') (query f)) (\<lambda>row. liftE (scanUser row))"
    by (simp add: UserByEmail_def f_def)
  have same: "signing (s\<lparr>t_faults := b\<rparr>) = signing s" for b by (simp add: signing_def)
  show thesis
  proof (cases "query f s")
    case (Pair x s')
    then have x: "x = Inl db_fault \<or> x = Inr ?row" and s': "signing s' = signing s" using q same by auto
    show thesis
    proof (cases "x = Inl db_fault")
      case True
      then show thesis using Pair s' failed[of "Errorf ''scan user'' db_fault" s'] by (simp add: unf bnd_def mapErr_def plain_error_def)
    next
      case False
      then have x: "x = Inr ?row" using x by simp
      show thesis
      proof (cases ?row)
        case None
        then show thesis using Pair x s' failed[of ErrNotFound s']
          by (simp add: unf bnd_def mapErr_def scanUser_def plain_error_def)
      next
        case (Some row)
        then have "row \<in> set (t_users s)" by (auto simp: f_def find_Some_iff)
        then show thesis using Pair x s' Some found by (auto simp: unf bnd_def mapErr_def scanUser_def)
      qed
    qed
  qed
qed

text \<open>A sign-in with a password that is not the account's: turned away unread, or one more failed guess.\<close>

definition guess_key :: "'m server \<Rightarrow> hreq \<Rightarrow> credentials \<Rightarrow> string" where
  "guess_key sv r cr = login_key sv r (NormalizeEmail (srv_lower sv) (cr_Email cr))"

definition wrong_for :: "user_row list \<Rightarrow> 'm server \<Rightarrow> credentials \<Rightarrow> bool" where
  "wrong_for users sv cr \<longleftrightarrow> (\<forall>row \<in> set users. VerifyPassword (srv_argon2 sv) (us_password_hash row) (cr_Password cr) \<noteq> None)"

lemma handleLogin_wrong:
  fixes s :: "('m, 'z) api_scheme"
  assumes "wrong_for (t_users s) sv cr"
  obtains (throttled) x s' where "handleLogin sv rnd r (Decoded cr) s = (x, s')" and "x \<noteq> Inl badPassword"
      and "t_users s' = t_users s" and "ap_throttle s' = snd (Allowed loginThrottle (srv_now sv) (guess_key sv r cr) (ap_throttle s))"
  | (guessed) s' where "handleLogin sv rnd r (Decoded cr) s = (Inl badPassword, s')" and "t_users s' = t_users s"
      and "fst (fst (Allowed loginThrottle (srv_now sv) (guess_key sv r cr) (ap_throttle s)))"
      and "ap_throttle s' = Fail loginThrottle (srv_now sv) (guess_key sv r cr)
        (snd (Allowed loginThrottle (srv_now sv) (guess_key sv r cr) (ap_throttle s)))"
proof -
  let ?email = "NormalizeEmail (srv_lower sv) (cr_Email cr)" let ?key = "guess_key sv r cr"
  obtain ok wait es where al: "Allowed loginThrottle (srv_now sv) ?key (ap_throttle s) = ((ok, wait), es)" by (metis surj_pair)
  let ?s = "s\<lparr>ap_throttle := es\<rparr>"
  have plain: "plain_error e \<Longrightarrow> e \<noteq> badPassword" for e by (auto simp: plain_error_def badPassword_def Unauthorized_def http_Errorf_def)
  show thesis
  proof (cases ok)
    case False
    then have "handleLogin sv rnd r (Decoded cr) s = (Inl (http_Errorf 429 ''too_many_attempts'' (''too many failed attempts, try again in '' @ seconds_text (round_seconds wait))),
        ?s\<lparr>rw_header := AList.update ''Retry-After'' (retryAfterSeconds wait) (rw_header s)\<rparr>)"
      using al by (simp add: handleLogin_def Decode_def checkThrottle_def set_header_def thn_def bnd_def Let_def guess_key_def)
    then show thesis by (rule throttled) (simp_all add: al badPassword_def Unauthorized_def http_Errorf_def)
  next
    case True
    have go: "handleLogin sv rnd r (Decoded cr) s = bnd (attempt (UserByEmail (srv_lower sv) ?email)) (\<lambda>u.
      case u of
        Inl e \<Rightarrow> if errors_Is e ErrNotFound then thn (login_failed sv r ?key ?email) (throw badPassword) else throw e
      | Inr user \<Rightarrow>
        (case VerifyPassword (srv_argon2 sv) (u_PasswordHash user) (cr_Password cr) of
           Some e \<Rightarrow> if errors_Is e ErrPasswordMismatch then thn (login_failed sv r ?key ?email) (throw badPassword) else throw e
         | None \<Rightarrow> thn (login_code sv r ?key ?email user (cr_Code cr)) (login_accept sv rnd r ?key user))) ?s"
    proof -
      have chk: "checkThrottle (srv_now sv) ?key s = (Inr (), ?s)"
        using True al by (simp add: checkThrottle_def bnd_def)
      have ok: "liftE (Decode (Decoded cr)) = ret cr" by (rule ext) (simp add: Decode_def)
      show ?thesis
        unfolding handleLogin_def ok bnd_ret Let_def guess_key_def[symmetric] thn_def[of "checkThrottle _ _"]
        by (subst bnd_def) (simp only: chk prod.case sum.case)
    qed
    have failed: "\<exists>s'. thn (login_failed sv r ?key ?email) (throw badPassword) t = (Inl badPassword :: err + unit, s') \<and>
        signing s' = (Fail loginThrottle (srv_now sv) ?key (ap_throttle t), t_users t)" for t :: "('m, 'z) api_scheme"
    proof -
      obtain s' where run: "login_failed sv r ?key ?email t = (Inr (), s')"
        and eff: "signing s' = (Fail loginThrottle (srv_now sv) ?key (ap_throttle t), t_users t)" by (rule login_failed_run)
      have "thn (login_failed sv r ?key ?email) (throw badPassword) t = (Inl badPassword :: err + unit, s')"
        by (simp add: thn_def bnd_def run)
      then show ?thesis using eff by blast
    qed
    have guess: thesis if run: "handleLogin sv rnd r (Decoded cr) s = thn (login_failed sv r ?key ?email) (throw badPassword) t" and "signing t = signing ?s" for t
    proof -
      obtain s' where "handleLogin sv rnd r (Decoded cr) s = (Inl badPassword, s')"
        "signing s' = (Fail loginThrottle (srv_now sv) ?key (ap_throttle t), t_users t)"
        using failed[of t] unfolding run[symmetric] by blast
      then show thesis using that(2) True by (intro guessed[of s']) (simp_all add: al signing_def)
    qed
    have stop: thesis if "handleLogin sv rnd r (Decoded cr) s = throw e t" and "plain_error e" and "signing t = signing ?s" for e t
      using that plain[OF that(2)] by (intro throttled[of "Inl e" t]) (simp_all add: al signing_def)
    show thesis
    proof (cases rule: UserByEmail_cases[of "srv_lower sv" ?email ?s])
      case (failed e t)
      have "handleLogin sv rnd r (Decoded cr) s = (if errors_Is e ErrNotFound then thn (login_failed sv r ?key ?email) (throw badPassword) else throw e) t"
        unfolding go bnd_def attempt_def using failed(1) by simp
      then show thesis using guess[of t] stop[of e t] failed(2,3) by (auto split: if_splits)
    next
      case (found u t)
      then obtain e where e: "VerifyPassword (srv_argon2 sv) (u_PasswordHash u) (cr_Password cr) = Some e"
        using assms by (auto simp: wrong_for_def)
      have "handleLogin sv rnd r (Decoded cr) s = (if errors_Is e ErrPasswordMismatch then thn (login_failed sv r ?key ?email) (throw badPassword) else throw e) t"
        unfolding go bnd_def attempt_def using found(1) e by simp
      then show thesis using guess[of t] stop[OF _ VerifyPassword_plain[OF e], of t] found(3) by (auto split: if_splits)
    qed
  qed
qed

text \<open>Sign-ins one after the other: what each brings.\<close>

type_synonym 'm sign_in = "'m server \<times> bytes \<times> hreq \<times> credentials"

definition sign_in :: "'m sign_in \<Rightarrow> ('m, 'z, unit) aprog" where
  "sign_in a = (case a of (sv, rnd, r, cr) \<Rightarrow> handleLogin sv rnd r (Decoded cr))"

definition guesses :: "(err + unit) list \<Rightarrow> nat" where
  "guesses rs = length (filter (\<lambda>x. x = Inl badPassword) rs)"

definition guess_at :: "string \<Rightarrow> gotime \<Rightarrow> user_row list \<Rightarrow> 'm sign_in \<Rightarrow> bool" where
  "guess_at key start users a = (case a of (sv, rnd, r, cr) \<Rightarrow>
     guess_key sv r cr = key \<and> start \<le> srv_now sv \<and> srv_now sv \<le> start + loginWindow \<and> wrong_for users sv cr)"

lemma run_all_Cons: "fst (run_all (m # ms) s) = fst (m s) # fst (run_all ms (snd (m s)))"
  by (simp split: prod.split)

lemma guesses_bounded:
  assumes "distinct (map fst (ap_throttle s))" and "counted n (start + loginWindow) key (ap_throttle s)" and "n \<le> 10"
    and "list_all (guess_at key start (t_users s)) as"
  shows "guesses (fst (run_all (map sign_in as) s)) + n \<le> 10"
  using assms
proof (induction as arbitrary: s n)
  case Nil
  then show ?case by (simp add: guesses_def)
next
  case (Cons a as)
  obtain sv rnd r cr where a: "a = (sv, rnd, r, cr)" by (metis prod_cases4)
  have g: "guess_key sv r cr = key" "start \<le> srv_now sv" "srv_now sv \<le> start + loginWindow" and w: "wrong_for (t_users s) sv cr"
    using Cons.prems(4) by (auto simp: a guess_at_def)
  let ?al = "Allowed loginThrottle (srv_now sv) key (ap_throttle s)"
  note al = counted_Allowed[OF Cons.prems(2) g(3), of loginThrottle] and d = throttle_distinct(1)[OF Cons.prems(1)]
  show ?case
    using w
  proof (cases rule: handleLogin_wrong[where rnd = rnd and r = r])
    case (throttled x s')
    have "guesses (fst (run_all (map sign_in as) s')) + n \<le> 10"
      using al(1) d Cons.prems(3,4) throttled(3,4) g(1) by (intro Cons.IH) (simp_all add: throttled(4))
    then show ?thesis using throttled(1,2) by (simp add: a run_all_Cons sign_in_def[of "(sv, rnd, r, cr)"] guesses_def del: run_all.simps)
  next
    case (guessed s')
    have n: "n < 10" using al(2) guessed(3) g(1) by (auto simp: loginThrottle_def loginMaxAttempts_def)
    have "counted (Suc n) (start + loginWindow) key (ap_throttle s')"
      unfolding guessed(4) g(1) using d al(1) g(2,3) by (intro counted_Fail) (simp_all add: loginThrottle_def)
    then have "guesses (fst (run_all (map sign_in as) s')) + Suc n \<le> 10"
      using d n Cons.prems(4) guessed(2) g(1) by (intro Cons.IH) (simp_all add: guessed(4) throttle_distinct)
    then show ?thesis using guessed(1) by (simp add: a run_all_Cons sign_in_def[of "(sv, rnd, r, cr)"] guesses_def del: run_all.simps)
  qed
qed

section \<open>Password hashes\<close>

lemma RawEncode_pad:
  "length (RawEncode bs) mod 4 \<noteq> 1 \<and> RawEncode bs @ (if length (RawEncode bs) mod 4 = 2 then ''==''
     else if length (RawEncode bs) mod 4 = 3 then ''='' else []) = WgKey.EncodeToString bs"
proof (induction bs rule: WgKey.EncodeToString.induct)
  case (4 a b c rest)
  have "RawEncode (a # b # c # rest) = [b64char (unat a div 4), b64char (unat a mod 4 * 16 + unat b div 16),
      b64char (unat b mod 16 * 4 + unat c div 64), b64char (unat c mod 64)] @ RawEncode rest"
    by (simp add: RawEncode_def)
  then show ?case using 4 by (simp split: if_splits)
qed (simp_all add: RawEncode_def)

lemma RawEncode_chars:
  assumes "c \<in> set (RawEncode bs)"
  shows "byte c \<in> {43, 47} \<union> {48..57} \<union> {65..90} \<union> {97..122}"
proof -
  have "c \<in> set (WgKey.EncodeToString bs)" "c \<noteq> CHR ''=''" using assms by (auto simp: RawEncode_def)
  moreover from this(2) have "byte c \<noteq> byte (CHR ''='')" by (simp only: of_char_eq_iff not_False_eq_True)
  ultimately show ?thesis using bspec[OF Encode_chars] by fastforce
qed

lemma RawDecode_Encode: "RawDecode (RawEncode bs) = Some bs"
proof -
  have "filter (\<lambda>c. byte c \<noteq> 10 \<and> byte c \<noteq> 13) (RawEncode bs) = RawEncode bs"
    using RawEncode_chars[of _ bs] by (intro filter_True) fastforce
  moreover have "CHR ''='' \<notin> set (RawEncode bs)" by (simp add: RawEncode_def)
  ultimately show ?thesis using RawEncode_pad[of bs] by (simp add: RawDecode_def Let_def decode_quanta_Encode)
qed

lemma hash_parts:
  "Split (CHR ''$'') (HashPassword argon2 salt password) =
     [[], ''argon2id'', ''v=19'', ''m=19456,t=2,p=1'', RawEncode salt, RawEncode (argon2 password salt argonTime argonMemory argonThreads argonKeyLen)]"
proof -
  have no: "CHR ''$'' \<notin> set (RawEncode bs)" for bs using RawEncode_chars[of "CHR ''$''" bs] by fastforce
  have body: "HashPassword argon2 salt password = [] @ CHR ''$'' # ''argon2id'' @ CHR ''$'' # ''v=19'' @ CHR ''$'' # ''m=19456,t=2,p=1'' @ CHR ''$'' #
      RawEncode salt @ CHR ''$'' # RawEncode (argon2 password salt argonTime argonMemory argonThreads argonKeyLen)"
    by (simp add: HashPassword_def argonVersion_def argonMemory_def argonTime_def argonThreads_def Itoa_def dec.simps digit_chars)
  show ?thesis unfolding body by (subst Split_append_sep, simp add: no)+ (simp add: Split_no_sep no)
qed

lemma VerifyPassword_Hash:
  "VerifyPassword argon2 (HashPassword argon2 salt password) tried =
     (if argon2 tried salt argonTime argonMemory argonThreads (length (argon2 password salt argonTime argonMemory argonThreads argonKeyLen)) =
         argon2 password salt argonTime argonMemory argonThreads argonKeyLen then None else Some ErrPasswordMismatch)"
proof -
  have "scan_version ''v=19'' = Some argonVersion" "scan_params ''m=19456,t=2,p=1'' = Some (argonMemory, argonTime, argonThreads)"
    by code_simp+
  moreover have "\<not> argonTime < 1" "\<not> argonThreads < 1" by (simp_all add: argonTime_def argonThreads_def)
  ultimately show ?thesis by (simp add: VerifyPassword_def hash_parts RawDecode_Encode)
qed

end
