(* ===== verification/ApiFacts.thy ===== *)
theory ApiFacts
  imports ApiLimits
begin

text \<open>
  What surrounds a handler of /api/v1: a request without a key that may do it changes nothing but what the
  surroundings keep for themselves, and a repeated POST gets the first reply again.
\<close>

section \<open>Without a key\<close>

text \<open>Everything but the keys, the claims, the buckets and the reply under way.\<close>

definition besides :: "('m, 'z) api_scheme \<Rightarrow> ('m, 'z) api_scheme" where
  "besides s = s\<lparr>t_faults := [], t_api_keys := [], t_idem := [], ap_buckets := [], rw_header := [], rw_status := None, rw_last := None,
     rw_body := []\<rparr>"

lemma besides_simps [simp]:
  "besides (s\<lparr>t_faults := a\<rparr>) = besides s" "besides (s\<lparr>t_api_keys := b\<rparr>) = besides s" "besides (s\<lparr>t_idem := c\<rparr>) = besides s"
  "besides (s\<lparr>ap_buckets := d\<rparr>) = besides s" "besides (s\<lparr>rw_header := e\<rparr>) = besides s" "besides (s\<lparr>rw_status := f\<rparr>) = besides s"
  "besides (s\<lparr>rw_last := g\<rparr>) = besides s" "besides (s\<lparr>rw_body := h\<rparr>) = besides s"
  by (simp_all add: besides_def)

abbreviation quiet :: "(('m, 'z) api_scheme, 'a) prog \<Rightarrow> bool" where
  "quiet m \<equiv> \<forall>c. keeps (\<lambda>s. besides s = c) m"

lemma quiet_stmt: "(\<And>s. besides (snd (f s)) = besides s) \<Longrightarrow> keeps (\<lambda>s. besides s = c) (stmt f)"
  by (rule keeps_stmt) simp_all

lemma quiet_query: "keeps (\<lambda>s. besides s = c) (query f)"
  by (rule keeps_query) simp

lemma quiet_header: "keeps (\<lambda>s. besides s = c) (set_header k v)"
  unfolding set_header_def by (rule keeps_modify) simp

lemma quiet_WriteHeader: "keeps (\<lambda>s. besides s = c) (WriteHeader st)"
  unfolding WriteHeader_def by (rule keeps_modify) simp

lemma quiet_Write: "keeps (\<lambda>s. besides s = c) (w_Write b)"
  unfolding w_Write_def by (rule keeps_modify) simp

lemmas quiet_writers = quiet_header quiet_WriteHeader quiet_Write

lemma quiet_JSON: "keeps (\<lambda>s. besides s = c) (JSON st v)"
  unfolding JSON_def by (intro keeps_thn quiet_writers keeps_case_option keeps_ret)

lemma quiet_WriteError: "keeps (\<lambda>s. besides s = c) (WriteError e)"
  unfolding WriteError_def by (intro keeps_case_prod quiet_JSON)

lemma quiet_serve_throw: "keeps (\<lambda>s. besides s = c) (serve (throw e))"
  unfolding serve_def by (intro keeps_bnd keeps_attempt keeps_throw keeps_case_sum quiet_WriteError keeps_ret)

lemma quiet_drop_idem: "keeps (\<lambda>s. besides s = c) (drop_idem P)"
  unfolding drop_idem_def by (rule quiet_stmt) simp

lemma quiet_claim_body: "keeps (\<lambda>s. besides s = c) (claim_body k key hash now)"
proof -
  have "keeps (\<lambda>s. besides s = c) (insert_idem r)" for r
    unfolding insert_idem_def by (rule quiet_stmt) simp
  then show ?thesis
    unfolding claim_body_def
    by (intro keeps_thn keeps_bnd keeps_mapErr quiet_drop_idem quiet_query keeps_case_option keeps_ret keeps_if keeps_throw)
qed

lemma quiet_Claim:
  fixes c :: "('m, 'z) api_scheme"
  shows "keeps (\<lambda>s. besides s = c) (ClaimIdempotencyKey k key hash now)"
proof (rule keepsI)
  fix s :: "('m, 'z) api_scheme" assume s: "besides s = c"
  show "besides (snd (ClaimIdempotencyKey k key hash now s)) = c"
  proof (cases rule: query_cases[of "\<lambda>_. ()" s])
    case (fault bs)
    then show ?thesis using s by (simp add: ClaimIdempotencyKey_def)
  next
    case (ok bs)
    obtain r s2 where m: "claim_body k key hash now (s\<lparr>t_faults := bs\<rparr>) = (r, s2)" by fastforce
    have s2: "besides s2 = c" using keeps_run[OF quiet_claim_body _ m] s by simp
    show ?thesis
      using ok m s2 s
      by (cases rule: query_cases[of "\<lambda>_. ()" s2]) (auto simp: ClaimIdempotencyKey_def rollback_def split: sum.splits option.splits)
  qed
qed

lemma quiet_Finish: "keeps (\<lambda>s. besides s = c) (FinishIdempotencyKey k key r)"
  unfolding FinishIdempotencyKey_def by (intro keeps_mapErr quiet_stmt) simp

lemma quiet_Release: "keeps (\<lambda>s. besides s = c) (ReleaseIdempotencyKey k key)"
  unfolding ReleaseIdempotencyKey_def by (intro keeps_thn keeps_mapErr quiet_drop_idem keeps_ret)

lemma quiet_idempotent:
  assumes "keeps (\<lambda>s. besides s = c) h"
  shows "keeps (\<lambda>s. besides s = c) (idempotent sv k r h)"
proof -
  have "keeps (\<lambda>s. besides s = c) (captured h)"
    unfolding captured_def using assms by (intro keeps_bnd keeps_thn keeps_gets keeps_modify) simp_all
  then show ?thesis
    unfolding idempotent_def claimed_def replay_def Let_def using assms
    by (intro keeps_if keeps_bnd keeps_attempt keeps_case_sum keeps_case_option keeps_case_prod keeps_thn keeps_gets keeps_ret
        quiet_Claim quiet_Finish quiet_Release quiet_WriteError quiet_writers)
qed

lemma quiet_missing_scope:
  assumes "ep_scope e \<notin> set (k_Scopes k)"
  shows "keeps (\<lambda>s. besides s = c) (run_endpoint sv k r e)"
  unfolding run_endpoint_def requireScope_def Let_def using assms
  by (simp add: quiet_serve_throw quiet_idempotent)

text \<open>The scopes of the table, whatever the handlers are.\<close>

definition v1_scopes :: "(string \<times> string) list" where
  "v1_scopes = (let d = ''/api/v1/devices''; g = ''/api/v1/groups/{external_id}''; v = ''/api/v1/servers''; w = ''/api/v1/webhooks'' in
    [(''GET '' @ d, scopeDevicesRead), (''POST '' @ d, scopeDevicesWrite), (''GET '' @ d @ ''/{id}'', scopeDevicesRead),
     (''PATCH '' @ d @ ''/{id}'', scopeDevicesWrite), (''DELETE '' @ d @ ''/{id}'', scopeDevicesWrite),
     (''GET '' @ d @ ''/{id}/config'', scopeDevicesRead), (''GET '' @ d @ ''/{id}/usage'', scopeDevicesRead),
     (''POST '' @ d @ ''/{id}/usage/reset'', scopeDevicesWrite), (''POST '' @ d @ ''/{id}/move'', scopeDevicesWrite),
     (''GET '' @ d @ ''/{id}/share'', scopeDevicesRead), (''POST '' @ d @ ''/{id}/share'', scopeDevicesWrite),
     (''DELETE '' @ d @ ''/{id}/share'', scopeDevicesWrite), (''GET '' @ g, scopeDevicesRead), (''PATCH '' @ g, scopeDevicesWrite),
     (''DELETE '' @ g, scopeDevicesWrite), (''POST '' @ g @ ''/usage/reset'', scopeDevicesWrite), (''GET '' @ v, scopeServersRead),
     (''GET '' @ v @ ''/{id}'', scopeServersRead), (''POST '' @ v, scopeServersWrite), (''PATCH '' @ v @ ''/{id}'', scopeServersWrite),
     (''DELETE '' @ v @ ''/{id}'', scopeServersWrite), (''GET /api/v1/nodes'', scopeServersRead), (''GET /api/v1/events'', scopeEventsRead),
     (''GET '' @ w, scopeWebhooksWrite), (''POST '' @ w, scopeWebhooksWrite), (''GET '' @ w @ ''/{id}'', scopeWebhooksWrite),
     (''PATCH '' @ w @ ''/{id}'', scopeWebhooksWrite), (''DELETE '' @ w @ ''/{id}'', scopeWebhooksWrite),
     (''POST '' @ w @ ''/{id}/ping'', scopeWebhooksWrite), (''GET '' @ w @ ''/{id}/deliveries'', scopeWebhooksWrite),
     (''POST '' @ w @ ''/{id}/deliveries/{deliveryID}/retry'', scopeWebhooksWrite)])"

lemma v1_scopes_table: "map (\<lambda>e. (ep_pattern e, ep_scope e)) (v1Endpoints sv r x) = v1_scopes"
  by (simp add: v1Endpoints_def device_endpoints_def group_endpoints_def server_endpoints_def webhook_endpoints_def endpoint_def v1_scopes_def Let_def)

lemma map_of_find: "map_of (map (\<lambda>e. (f e, g e)) es) k = map_option g (find (\<lambda>e. f e = k) es)"
  by (induction es) auto

lemma v1_scope_of:
  fixes e :: "('m, 'z) v1Endpoint"
  assumes "find (\<lambda>e. ep_pattern e = pat) (v1Endpoints sv r x) = Some e"
  shows "map_of v1_scopes pat = Some (ep_scope e)"
  using map_of_find[of ep_pattern ep_scope "v1Endpoints sv r x :: ('m, 'z) v1Endpoint list" pat] assms
  unfolding v1_scopes_table by simp

text \<open>The token a request carries, and whether the database has a live key for it with the scope.\<close>

definition bearer :: "hreq \<Rightarrow> string" where
  "bearer r = (case Cut (CHR '' '') (Header_Get r ''Authorization'') of (_, raw, _) \<Rightarrow> TrimSpace raw)"

definition may_use :: "'m server \<Rightarrow> hreq \<Rightarrow> string \<Rightarrow> api_key_row list \<Rightarrow> bool" where
  "may_use sv r scope keys \<longleftrightarrow>
     (\<exists>row \<in> set keys. \<exists>k. scanAPIKey (Some row) = Inr k \<and> ak_token_hash row = HashToken (srv_sha256 sv) (bearer r) \<and>
        \<not> Expired k (srv_now sv) \<and> scope \<in> set (k_Scopes k))"

lemma APIKeyByToken_Inr:
  assumes "APIKeyByToken h s = (Inr k, s')"
  shows "\<exists>row \<in> set (t_api_keys s). scanAPIKey (Some row) = Inr k \<and> ak_token_hash row = h"
proof -
  define f where "f = (\<lambda>s :: 'a panel_scheme. find (\<lambda>r. ak_token_hash r = h) (t_api_keys s))"
  have f: "f (s\<lparr>t_faults := b\<rparr>) = f s" for b by (simp add: f_def)
  have q: "\<exists>t. query f s = (Inl db_fault, t) \<or> query f s = (Inr (f s), t)"
    by (auto simp: query_def stmt_def Let_def f split: list.split)
  have "APIKeyByToken h = bnd (mapErr (Errorf ''scan api key'') (query f)) (\<lambda>row. liftE (scanAPIKey row))"
    by (simp add: APIKeyByToken_def f_def)
  then have "scanAPIKey (f s) = Inr k" using assms q by (auto simp: bnd_def mapErr_def)
  moreover from this obtain row where row: "f s = Some row" by (cases "f s") (auto simp: scanAPIKey_def)
  moreover have "row \<in> set (t_api_keys s)" "ak_token_hash row = h" using row by (auto simp: f_def find_Some_iff)
  ultimately show ?thesis by auto
qed

lemma requireAPIKey_quiet:
  assumes "\<And>k sv'. (\<exists>row \<in> set (t_api_keys s). scanAPIKey (Some row) = Inr k \<and> ak_token_hash row = HashToken (srv_sha256 sv) (bearer r)) \<Longrightarrow>
      \<not> Expired k (srv_now sv) \<Longrightarrow> keeps (\<lambda>t. besides t = besides s) (h sv' k)"
  shows "besides (snd (requireAPIKey sv h r s)) = besides s"
proof -
  obtain scheme raw b where cut: "Cut (CHR '' '') (Header_Get r ''Authorization'') = (scheme, raw, b)" by (metis prod_cases3)
  let ?I = "\<lambda>t. besides t = besides s" let ?m = "APIKeyByToken (HashToken (srv_sha256 sv) (bearer r))"
  have load: "keeps ?I ?m" unfolding APIKeyByToken_def by (intro keeps_bnd keeps_mapErr quiet_query keeps_liftE)
  have allow: "keeps ?I (limiter_allow k now)" for k now
    by (rule keepsI) (auto simp: limiter_allow_def split: prod.split)
  have touch: "keeps ?I (TouchAPIKey k ip t)" for k ip t
    unfolding TouchAPIKey_def by (intro keeps_mapErr quiet_stmt) simp
  obtain x s1 where run: "?m s = (x, s1)" by fastforce
  have s1: "?I s1" using keeps_run[OF load _ run] by simp
  have bear: "bearer r = TrimSpace raw" by (simp add: bearer_def cut)
  show ?thesis
  proof (cases "\<not> EqualFold (sv_same_fold (srv_instances sv)) scheme ''Bearer'' \<or> take (length apiKeyPrefix) (TrimSpace raw) \<noteq> apiKeyPrefix")
    case True
    then have eq: "requireAPIKey sv h r = thn (set_header ''WWW-Authenticate'' (''Bearer realm='' @ quoted ''tunploy''))
        (WriteError (Unauthorized ''send an API key as Authorization: Bearer tp_...''))"
      by (simp add: requireAPIKey_def cut Let_def)
    have "keeps ?I (requireAPIKey sv h r)" unfolding eq by (intro keeps_thn quiet_writers quiet_WriteError)
    then show ?thesis by (simp add: keeps_def)
  next
    case False
    define n where "n = (\<lambda>k. if (case k of Inl e \<Rightarrow> errors_Is e ErrNotFound | Inr k \<Rightarrow> Expired k (srv_now sv))
        then thn (set_header ''WWW-Authenticate'' (''Bearer realm='' @ quoted ''tunploy'' @ '', error='' @ quoted ''invalid_token''))
          (WriteError invalid_token)
        else case k of
          Inl e \<Rightarrow> WriteError e
        | Inr k \<Rightarrow>
          bnd (limiter_allow (k_ID k) (srv_now sv)) (\<lambda>(ok, wait).
          if \<not> ok
          then thn (set_header ''Retry-After'' (retryAfterSeconds wait))
            (WriteError (http_Errorf 429 ''rate_limited'' ''too many requests for this API key, slow down to 10 a second''))
          else thn (if use_is_news k (clientIP sv r) (srv_now sv) then bnd (attempt (TouchAPIKey (k_ID k) (clientIP sv r) (srv_now sv))) (\<lambda>_. ret ()) else ret ())
            (h (WithActor (''api:'' @ k_Name k) sv) k)))"
    have "requireAPIKey sv h r = bnd (attempt ?m) n"
      using False by (simp add: requireAPIKey_def cut Let_def n_def bear)
    then have "requireAPIKey sv h r s = n x s1" by (simp add: bnd_def attempt_def run)
    moreover have "keeps ?I (n x)"
    proof -
      have "keeps ?I (h sv' k)" if "x = Inr k" "\<not> Expired k (srv_now sv)" for sv' k
        using assms that(2) APIKeyByToken_Inr run that(1) by blast
      then show ?thesis
        unfolding n_def
        by (intro keeps_if keeps_thn keeps_case_sum keeps_bnd keeps_case_prod keeps_attempt keeps_ret quiet_writers quiet_WriteError allow touch) auto
    qed
    ultimately show ?thesis using s1 by (simp add: keeps_def)
  qed
qed

lemma v1Routes_quiet:
  assumes "\<And>scope. map_of v1_scopes pat = Some scope \<Longrightarrow> \<not> may_use sv r scope (t_api_keys s)"
  shows "besides (snd (v1Routes sv x pat r s)) = besides s"
  unfolding v1Routes_def
proof (rule requireAPIKey_quiet)
  fix k and sv' :: "'a server"
  assume row: "\<exists>row \<in> set (t_api_keys s). scanAPIKey (Some row) = Inr k \<and> ak_token_hash row = HashToken (srv_sha256 sv) (bearer r)"
    and live: "\<not> Expired k (srv_now sv)"
  have "keeps (\<lambda>t. besides t = besides s) (run_endpoint sv' k r e)"
    if "find (\<lambda>e. ep_pattern e = pat) (v1Endpoints sv' r x) = Some e" for e
    using assms[OF v1_scope_of[OF that]] row live by (intro quiet_missing_scope) (auto simp: may_use_def)
  then show "keeps (\<lambda>t. besides t = besides s) (case find (\<lambda>e. ep_pattern e = pat) (v1Endpoints sv' r x) of
       None \<Rightarrow> serve (throw (http_NotFound (''no such endpoint: '' @ rq_Method r @ '' '' @ rq_Path r)))
     | Some e \<Rightarrow> run_endpoint sv' k r e)"
    by (intro keeps_case_option quiet_serve_throw)
qed

section \<open>Repeated requests\<close>

definition fresh_reply :: "('m, 'z) api_scheme \<Rightarrow> ('m, 'z) api_scheme" where
  "fresh_reply s = s\<lparr>rw_header := [], rw_status := None, rw_last := None, rw_body := []\<rparr>"

lemma fresh_reply_simps [simp]:
  "t_idem (fresh_reply s) = t_idem s" "t_api_keys (fresh_reply s) = t_api_keys s" "t_faults (fresh_reply s) = t_faults s"
  "rw_body (fresh_reply s) = []" "rw_header (fresh_reply s) = []" "rw_status (fresh_reply s) = None"
  by (simp_all add: fresh_reply_def)

text \<open>The state a claim leaves when the key was not in use.\<close>

definition claimed_state :: "'m server \<Rightarrow> APIKey \<Rightarrow> hreq \<Rightarrow> ('m, 'z) api_scheme \<Rightarrow> ('m, 'z) api_scheme" where
  "claimed_state sv k r s =
     s\<lparr>t_idem := t_idem s @ [running (k_ID k) (Header_Get r ''Idempotency-Key'') (request_hash sv r) (srv_now sv)]\<rparr>"

text \<open>A handler that replies, with a status worth keeping, and leaves the claims and the keys alone.\<close>

definition answers :: "('m, 'z, unit) aprog \<Rightarrow> ('m, 'z) api_scheme \<Rightarrow> int \<Rightarrow> ('m, 'z) api_scheme \<Rightarrow> bool" where
  "answers h s st s' \<longleftrightarrow> h (s\<lparr>rw_last := None\<rparr>) = (Inr (), s') \<and> t_idem s' = t_idem s \<and> t_api_keys s' = t_api_keys s \<and>
     t_faults s' = [] \<and> rw_last s' = Some st \<and> 100 \<le> st \<and> st \<notin> {429, 500}"

definition first_use :: "APIKey \<Rightarrow> hreq \<Rightarrow> ('m, 'z) api_scheme \<Rightarrow> bool" where
  "first_use k r s \<longleftrightarrow> t_faults s = [] \<and> distinct (map (\<lambda>q. (ik_api_key_id q, ik_key q)) (t_idem s)) \<and>
     (\<exists>a \<in> set (t_api_keys s). ak_id a = k_ID k) \<and> idem_of (k_ID k) (Header_Get r ''Idempotency-Key'') s = None"

definition good_key :: "hreq \<Rightarrow> bool" where
  "good_key r \<longleftrightarrow> Header_Get r ''Idempotency-Key'' \<noteq> [] \<and> length (Header_Get r ''Idempotency-Key'') \<le> maxIdemKeyLen \<and>
     length (rq_Body r) \<le> maxAPIBodySize"

definition kept_reply :: "APIKey \<Rightarrow> hreq \<Rightarrow> int \<Rightarrow> ('m, 'z) api_scheme \<Rightarrow> idem_row \<Rightarrow> idem_row" where
  "kept_reply k r st s q =
     (if ik_api_key_id q = k_ID k \<and> ik_key q = Header_Get r ''Idempotency-Key''
      then q\<lparr>ik_status := st, ik_content_type := header_text s ''Content-Type'', ik_body := rw_body s\<rparr> else q)"

lemma first_run:
  assumes "good_key r" and "first_use k r s" and "rw_body s = []" and "answers h (claimed_state sv k r s) st s2"
  shows "idempotent sv k r h s = (Inr (), s2\<lparr>t_idem := map (kept_reply k r st s2) (t_idem s2)\<rparr>)"
proof -
  let ?key = "Header_Get r ''Idempotency-Key''" and ?s1 = "claimed_state sv k r s"
  have claim: "ClaimIdempotencyKey (k_ID k) ?key (request_hash sv r) (srv_now sv) s = (Inr None, ?s1)"
    using assms(2) by (subst ClaimIdempotencyKey_result) (simp_all add: first_use_def claim_result_def claimed_state_def)
  have h: "h (?s1\<lparr>rw_last := None\<rparr>) = (Inr (), s2)" "rw_last s2 = Some st" "t_faults s2 = []" "st \<noteq> 500" "st \<noteq> 429"
    using assms(4) by (auto simp: answers_def)
  have cap: "captured h ?s1 = (Inr (st, rw_body s2), s2)"
    using h(1,2) assms(3) by (simp add: captured_def thn_def bnd_def claimed_state_def)
  have fin: "FinishIdempotencyKey (k_ID k) ?key \<lparr>sr_Status = st, sr_ContentType = header_text s2 ''Content-Type'', sr_Body = rw_body s2\<rparr> s2 =
      (Inr (), s2\<lparr>t_idem := map (kept_reply k r st s2) (t_idem s2)\<rparr>)"
    using h(3) by (simp add: FinishIdempotencyKey_def mapErr_def kept_reply_def)
  have "claimed (k_ID k) ?key h ?s1 = (Inr (), s2\<lparr>t_idem := map (kept_reply k r st s2) (t_idem s2)\<rparr>)"
    using cap fin h(4,5) by (simp add: claimed_def bnd_def attempt_def)
  then show ?thesis using assms(1) claim by (simp add: idempotent_def good_key_def Let_def bnd_def attempt_def)
qed

lemma kept_reply_keys [simp]: "ik_api_key_id (kept_reply k r st s q) = ik_api_key_id q" "ik_key (kept_reply k r st s q) = ik_key q"
  by (simp_all add: kept_reply_def)

lemma second_run:
  assumes "good_key r" and "first_use k r s" and "answers h (claimed_state sv k r s) st s2"
    and "srv_sha256 sv' = srv_sha256 sv" and "srv_now sv' \<le> srv_now sv + IdempotencyTTL"
    and s3: "s3 = s2\<lparr>t_idem := map (kept_reply k r st s2) (t_idem s2)\<rparr>"
  shows "idempotent sv' k r h' (fresh_reply s3) =
    replay \<lparr>sr_Status = st, sr_ContentType = header_text s2 ''Content-Type'', sr_Body = rw_body s2\<rparr> (fresh_reply s3)"
proof -
  let ?key = "Header_Get r ''Idempotency-Key''" and ?n = "running (k_ID k) (Header_Get r ''Idempotency-Key'') (request_hash sv r) (srv_now sv)"
  have idem: "t_idem s2 = t_idem s @ [?n]" and keys: "t_api_keys s2 = t_api_keys s" and nf: "t_faults s2 = []" and st: "100 \<le> st"
    using assms(3) by (auto simp: answers_def claimed_state_def)
  have none: "\<forall>q \<in> set (t_idem s). \<not> (ik_api_key_id q = k_ID k \<and> ik_key q = ?key)"
    using assms(2) by (auto simp: first_use_def idem_of_def find_None_iff)
  let ?row = "kept_reply k r st s2 ?n"
  have "find P (map (kept_reply k r st s2) (xs @ [?n])) = Some ?row" if "\<forall>q \<in> set xs. \<not> P (kept_reply k r st s2 q)" "P ?row" for P xs
    using that by (induction xs) auto
  then have row: "idem_of (k_ID k) ?key (fresh_reply s3) = Some ?row"
    using none by (simp add: idem_of_def s3 idem running_def)
  have hash: "request_hash sv' r = request_hash sv r" using assms(4) by (simp add: request_hash_def)
  have "unix (srv_now sv' - IdempotencyTTL) \<le> unix (srv_now sv)" using assms(5) by (simp add: unix_def zdiv_mono1)
  then have live: "\<not> outdated (srv_now sv') ?row" using st by (simp add: outdated_def kept_reply_def running_def)
  have "distinct (map (\<lambda>q. (ik_api_key_id q, ik_key q)) (t_idem s3))"
    using assms(2) none by (auto simp: s3 idem comp_def first_use_def running_def image_iff)
  then have "ClaimIdempotencyKey (k_ID k) ?key (request_hash sv' r) (srv_now sv') (fresh_reply s3) =
      claim_result (k_ID k) ?key (request_hash sv' r) (srv_now sv') (fresh_reply s3)"
    using assms(2) keys nf by (intro ClaimIdempotencyKey_result) (simp_all add: s3 first_use_def)
  also have "\<dots> = (Inr (Some (stored ?row)), fresh_reply s3)"
    using row live st by (simp add: claim_result_def hash) (simp add: kept_reply_def running_def)
  finally show ?thesis
    using assms(1) by (simp add: idempotent_def good_key_def Let_def bnd_def attempt_def stored_def kept_reply_def running_def)
qed

lemma replay_run:
  "replay st (fresh_reply s) = (Inr (), s\<lparr>rw_header := [(''Content-Type'', sr_ContentType st), (''Idempotent-Replayed'', ''true'')],
     rw_status := Some (sr_Status st), rw_last := Some (sr_Status st), rw_body := sr_Body st\<rparr>)"
  by (simp add: replay_def set_header_def WriteHeader_def w_Write_def thn_def bnd_def fresh_reply_def)

section \<open>Sessions\<close>

lemma query_reads:
  assumes "query f s = (Inr y, t)" and "\<And>b. f (s\<lparr>t_faults := b\<rparr>) = f s"
  shows "y = f s \<and> (\<exists>b. t = s\<lparr>t_faults := b\<rparr>)"
  using assms by (cases rule: query_cases[of f s]) auto

lemma mapErr_Inr: "mapErr h m s = (Inr y, t) \<longleftrightarrow> m s = (Inr y, t)"
  by (auto simp: mapErr_def split: prod.splits sum.splits)

definition accounts :: "('m, 'z) api_scheme \<Rightarrow> user_row list \<times> session_row list" where
  "accounts s = (t_users s, t_sessions s)"

lemma accounts_simps [simp]:
  "accounts (s\<lparr>t_faults := a\<rparr>) = accounts s" "accounts (s\<lparr>ap_throttle := b\<rparr>) = accounts s" "accounts (s\<lparr>rw_header := e\<rparr>) = accounts s"
  "accounts (s\<lparr>rw_status := f\<rparr>) = accounts s" "accounts (s\<lparr>rw_last := f\<rparr>) = accounts s" "accounts (core s) = accounts s"
  by (simp_all add: accounts_def core_def)

lemma accounts_query: "keeps (\<lambda>s. accounts s = c) (query f)"
  by (rule keeps_query) simp

lemma accounts_Record: "keeps (\<lambda>s. accounts s = c) (Record v e)"
  unfolding keeps_def by (metis Record_run snd_conv accounts_simps(6))

lemma accounts_checkThrottle: "keeps (\<lambda>s. accounts s = c) (checkThrottle now key)"
proof -
  have "keeps (\<lambda>s. accounts s = c) (\<lambda>s. case Allowed loginThrottle now key (ap_throttle s) of (r, es) \<Rightarrow> (Inr r, s\<lparr>ap_throttle := es\<rparr>))"
    by (rule keepsI) (simp split: prod.split)
  then show ?thesis
    unfolding checkThrottle_def set_header_def
    by (intro keeps_bnd keeps_case_prod keeps_if keeps_ret keeps_thn keeps_modify keeps_throw) simp_all
qed

lemma accounts_login: "keeps (\<lambda>s. accounts s = c) (login_Fail now key)" "keeps (\<lambda>s. accounts s = c) (login_Reset key)"
  "keeps (\<lambda>s. accounts s = c) (SetCookie t)" "keeps (\<lambda>s. accounts s = c) (WriteHeader st)"
  unfolding login_Fail_def login_Reset_def SetCookie_def WriteHeader_def by (rule keeps_modify; simp)+

lemma accounts_reauthenticate: "keeps (\<lambda>s. accounts s = c) (reauthenticate sv ident r field pw)"
  unfolding reauthenticate_def UserByID_def Let_def
  by (intro keeps_thn keeps_bnd accounts_checkThrottle keeps_mapErr accounts_query keeps_liftE keeps_case_option keeps_if
      accounts_login keeps_throw keeps_ret)

lemma reauthenticate_user:
  assumes "reauthenticate sv ident r field pw s = (Inr (u, key), t)"
  shows "u_ID u = id_UserID ident"
proof -
  obtain s1 where "bnd (UserByID (id_UserID ident)) (\<lambda>user.
       case VerifyPassword (srv_argon2 sv) (u_PasswordHash user) pw of
         Some e \<Rightarrow>
           if errors_Is e ErrPasswordMismatch
           then thn (login_Fail (srv_now sv) (login_key sv r (id_Email ident))) (throw (http_Invalid [(field, ''current password is incorrect'')]))
           else throw e
       | None \<Rightarrow> ret (user, login_key sv r (id_Email ident))) s1 = (Inr (u, key), t)"
    using assms unfolding reauthenticate_def Let_def by (auto elim: thn_InrE)
  then obtain s2 where user: "UserByID (id_UserID ident) s1 = (Inr u, s2)"
    by (elim bnd_InrE) (auto simp: thn_def bnd_def split: option.splits if_splits prod.splits sum.splits)
  then obtain row s3 where q: "query (user_by_id (id_UserID ident)) s1 = (Inr row, s3)" and "scanUser row = Inr u"
    unfolding UserByID_def by (elim bnd_InrE) (auto simp: mapErr_Inr)
  moreover have "row = user_by_id (id_UserID ident) s1" using query_reads[OF q] by (simp add: user_by_id_def)
  ultimately show ?thesis by (auto simp: scanUser_def user_by_id_def find_Some_iff split: option.splits)
qed

lemma stmt_Inr:
  assumes "stmt f s = (Inr x, t)"
  obtains b where "f (s\<lparr>t_faults := b\<rparr>) = (Inr x, t)"
  using assms by (cases rule: stmt_cases[of f s]) auto

lemma UpdateUserPassword_Inr:
  fixes s :: "('m, 'z) api_scheme"
  assumes "UpdateUserPassword now k hash s = (Inr (), t)"
  shows "accounts t = (map (\<lambda>r. if us_id r = k then r\<lparr>us_password_hash := hash, us_updated_at := unix now\<rparr> else r) (t_users s), t_sessions s)"
proof -
  define f where "f = (\<lambda>s :: ('m, 'z) api_scheme. (Inr (length (filter (\<lambda>r. us_id r = k) (t_users s))) :: err + nat,
    s\<lparr>t_users := map (\<lambda>r. if us_id r = k then r\<lparr>us_password_hash := hash, us_updated_at := unix now\<rparr> else r) (t_users s)\<rparr>))"
  have "UpdateUserPassword now k hash = bnd (mapErr (Errorf ''update password'') (stmt f)) (\<lambda>n. if n = 0 then throw ErrNotFound else ret ())"
    by (simp add: UpdateUserPassword_def updateUser_def map_users_def f_def)
  then obtain n where "stmt f s = (Inr n, t)" using assms by (auto elim!: bnd_InrE simp: mapErr_Inr split: if_splits)
  then obtain b where "f (s\<lparr>t_faults := b\<rparr>) = (Inr n, t)" by (rule stmt_Inr)
  then show ?thesis by (auto simp: f_def accounts_def)
qed

lemma restartSessions_Inr:
  fixes s :: "('m, 'z) api_scheme"
  assumes "restartSessions sv rnd r u s = (Inr (), t)"
  shows "accounts t = (t_users s, filter (\<lambda>x. se_user_id x \<noteq> u_ID u) (t_sessions s) @
    [session_row_of (srv_now sv) (snd (NewSessionToken (srv_sha256 sv) rnd)) (u_ID u) (truncate_to (Header_Get r ''User-Agent'') 255)
      (srv_now sv + srv_SessionTTL sv)])"
proof -
  obtain tok hash where tok: "NewSessionToken (srv_sha256 sv) rnd = (tok, hash)" by fastforce
  let ?row = "session_row_of (srv_now sv) hash (u_ID u) (truncate_to (Header_Get r ''User-Agent'') 255) (srv_now sv + srv_SessionTTL sv)"
  obtain s1 where del: "DeleteUserSessions (u_ID u) s = (Inr (), s1)" and "startSession sv rnd r u s1 = (Inr (), t)"
    using assms unfolding restartSessions_def by (auto elim: thn_InrE)
  then obtain s2 where new: "CreateSession (srv_now sv) hash (u_ID u) (truncate_to (Header_Get r ''User-Agent'') 255)
      (srv_now sv + srv_SessionTTL sv) s1 = (Inr (), s2)" and t: "accounts t = accounts s2"
    unfolding startSession_def tok Let_def by (auto elim!: thn_InrE simp: SetCookie_def accounts_def)
  have "accounts s1 = (t_users s, filter (\<lambda>x. se_user_id x \<noteq> u_ID u) (t_sessions s))"
    using del unfolding DeleteUserSessions_def drop_sessions_def
    by (auto elim!: thn_InrE stmt_Inr simp: mapErr_Inr accounts_def)
  moreover have "accounts s2 = (t_users s1, t_sessions s1 @ [?row])"
    using new unfolding CreateSession_def by (auto elim!: stmt_Inr simp: mapErr_Inr accounts_def split: if_splits)
  ultimately show ?thesis using t by (simp add: accounts_def tok)
qed

lemma change_password_run:
  fixes s :: "('m, 'z) api_scheme"
  assumes "handleChangePassword sv salt rnd ident r (Decoded req) s = (Inr (), s')"
  shows "accounts s' = (map (\<lambda>x. if us_id x = id_UserID ident
        then x\<lparr>us_password_hash := HashPassword (srv_argon2 sv) salt (pw_New req), us_updated_at := unix (srv_now sv)\<rparr> else x) (t_users s),
      filter (\<lambda>x. se_user_id x \<noteq> id_UserID ident) (t_sessions s) @
      [session_row_of (srv_now sv) (snd (NewSessionToken (srv_sha256 sv) rnd)) (id_UserID ident) (truncate_to (Header_Get r ''User-Agent'') 255)
        (srv_now sv + srv_SessionTTL sv)])"
proof -
  have ok: "liftE (Decode (Decoded req)) = ret req" by (rule ext) (simp add: Decode_def)
  obtain u key s1 where re: "reauthenticate sv ident r ''current_password'' (pw_Current req) s = (Inr (u, key), s1)"
    and rest: "thn (login_Reset key)
       (thn (UpdateUserPassword (srv_now sv) (u_ID u) (HashPassword (srv_argon2 sv) salt (pw_New req)))
       (thn (restartSessions sv rnd r u)
       (thn (Record (srv_env sv) (panel_event sv r ''auth.password_changed'' [])) NoContent))) s1 = (Inr (), s')"
    using assms unfolding handleChangePassword_def ok bnd_ret Let_def by (auto elim!: bnd_InrE split: if_splits)
  have u: "u_ID u = id_UserID ident" using re by (rule reauthenticate_user)
  have s1: "accounts s1 = accounts s" using keeps_run[OF accounts_reauthenticate _ re] by simp
  obtain s2 s3 s4 s5 where run: "login_Reset key s1 = (Inr (), s2)"
    "UpdateUserPassword (srv_now sv) (u_ID u) (HashPassword (srv_argon2 sv) salt (pw_New req)) s2 = (Inr (), s3)"
    "restartSessions sv rnd r u s3 = (Inr (), s4)" "Record (srv_env sv) (panel_event sv r ''auth.password_changed'' []) s4 = (Inr (), s5)"
    "NoContent s5 = (Inr (), s')"
    using rest by (auto elim!: thn_InrE)
  have "accounts s2 = accounts s1" using keeps_run[OF accounts_login(2) _ run(1)] by simp
  moreover have "accounts s' = accounts s4"
    using keeps_run[OF accounts_Record _ run(4)] keeps_run[OF accounts_login(4) _ run(5)[unfolded NoContent_def]] by simp
  ultimately show ?thesis
    using s1 UpdateUserPassword_Inr[OF run(2)] restartSessions_Inr[OF run(3)] by (simp add: accounts_def u)
qed

end
