(* ===== verification/ApiProperties.thy ===== *)
theory ApiProperties
  imports ApiFacts CommandProperties
begin

text \<open>
  Properties of the HTTP API: who gets in, how often, and what a request that is let in leaves behind.
  \<open>desk\<close> is a server on the machine of CommandProperties and \<open>desk_state\<close> its state with one API key
  and one account, for the witnesses.
\<close>

definition toy_argon :: argon where
  "toy_argon p salt t m k n = take n (map (\<lambda>c. word_of_nat (byte c)) p @ replicate n 0)"

lemma toy_argon_length: "length (toy_argon p salt t m k n) = n"
  by (simp add: toy_argon_def)

definition desk :: "fake server" where
  "desk = \<lparr>srv_instances = \<lparr>sv_manager = office_manager, sv_publicHost = ''vpn.example.com'', sv_lookupHost = (\<lambda>_. None), sv_x25519 = id,
       sv_upper = id, sv_same_fold = (=), sv_printable = (\<lambda>_. True)\<rparr>,
     srv_sha256 = id, srv_hmac_sha1 = (\<lambda>k m. k @ m), srv_argon2 = toy_argon, srv_lower = id, srv_DummyHash = [],
     srv_TrustedProxies = [PrefixFrom (V4 0x0A000000) 8], srv_SessionTTL = 86400 * second, srv_SecureCookies = False,
     srv_ContainerName = [], srv_domain = None, srv_qr = Inr, srv_node_state = (\<lambda>_. ''online''), srv_url = (\<lambda>_. None)\<rparr>"

definition desk_key :: api_key_row where
  "desk_key = \<lparr>ak_id = 1, ak_name = ''shop'', ak_prefix = ''tp_abc'', ak_token_hash = HashToken id ''tp_abc'', ak_scopes = ''devices:read'',
     ak_expires_at = None, ak_last_used_at = None, ak_last_used_ip = [], ak_created_at = 0\<rparr>"

definition desk_user :: user_row where
  "desk_user = \<lparr>us_id = 1, us_name = ''Ada'', us_email = ''ada@example.com'', us_password_hash = HashPassword toy_argon [] ''correct horse'',
     us_totp_secret = [], us_totp_last_step = 0, us_created_at = 0, us_updated_at = 0\<rparr>"

definition desk_state :: "fake api" where
  "desk_state = world.extend (office_world\<lparr>t_api_keys := [desk_key], t_users := [desk_user]\<rparr>)
     \<lparr>ap_throttle = [], ap_buckets = [], rw_header = [], rw_status = None, rw_last = None, rw_body = []\<rparr>"

definition desk_request :: "string \<Rightarrow> (string \<times> string list) list \<Rightarrow> hreq" where
  "desk_request addr headers = \<lparr>rq_Method = ''POST'', rq_RequestURI = ''/api/v1/devices'', rq_Path = ''/api/v1/devices'', rq_RemoteAddr = addr, rq_Host = [],
     rq_TLS = False, rq_Header = headers, rq_Query = [], rq_PathValue = [], rq_Cookies = [], rq_Body = ''{}'', rq_ContentLength = 2\<rparr>"

definition desk_input :: v1_input where
  "desk_input = \<lparr>vi_device = EmptyBody, vi_move = EmptyBody, vi_share = EmptyBody, vi_group = EmptyBody, vi_server = EmptyBody, vi_webhook = EmptyBody,
     vi_rnd = [], vi_rnd' = [], vi_name = [], vi_token = []\<rparr>"

lemma desk_fields [simp]:
  "srv_sha256 desk = id" "srv_argon2 desk = toy_argon" "srv_lower desk = id" "srv_TrustedProxies desk = [PrefixFrom (V4 0x0A000000) 8]"
  "srv_now desk = 0" "sv_same_fold (srv_instances desk) = (=)"
  by (simp_all add: desk_def office_manager_def utc_env_def)

lemma desk_state_fields [simp]:
  "t_api_keys desk_state = [desk_key]" "t_users desk_state = [desk_user]" "ap_throttle desk_state = []" "ap_buckets desk_state = []"
  "t_idem desk_state = []" "rw_body desk_state = []" "t_faults desk_state = []"
  by (simp_all add: desk_state_def office_world_def world_of_def office_db_def empty_db_def world.defs db.defs)

section \<open>Keys of other programs\<close>



text \<open>
  C3. A POST that is repeated with its Idempotency-Key within a day does not run its handler again, whatever
  that handler would do: the caller gets the status and the body of the first reply, marked as a replay, and
  no table changes.
\<close>

theorem idempotent_post_replays:
  assumes "good_key r" and "first_use k r s" and "rw_body s = []" and "answers h (claimed_state sv k r s) st s2"
    and "srv_sha256 sv' = srv_sha256 sv" and "srv_now sv' \<le> srv_now sv + IdempotencyTTL"
  shows "\<exists>s3. idempotent sv k r h s = (Inr (), s3) \<and> rw_status s3 = rw_status s2 \<and> rw_body s3 = rw_body s2 \<and>
    idempotent sv' k r h' (fresh_reply s3) = (Inr (), s3\<lparr>
      rw_header := [(''Content-Type'', header_text s2 ''Content-Type''), (''Idempotent-Replayed'', ''true'')],
      rw_status := Some st, rw_last := Some st, rw_body := rw_body s2\<rparr>)"
proof (intro exI conjI)
  show "idempotent sv k r h s = (Inr (), s2\<lparr>t_idem := map (kept_reply k r st s2) (t_idem s2)\<rparr>)"
    using assms(1-4) by (rule first_run)
qed (simp_all add: second_run[OF assms(1,2,4,5,6) refl] replay_run)

definition desk_post :: hreq where
  "desk_post = desk_request ''192.0.2.1:1000'' [(''Idempotency-Key'', [''order-17''])]"

definition desk_api_key :: APIKey where
  "desk_api_key = \<lparr>k_ID = 1, k_Name = ''shop'', k_Prefix = ''tp_abc'', k_TokenHash = [], k_Scopes = [scopeDevicesWrite], k_ExpiresAt = None,
     k_LastUsedAt = None, k_LastUsedIP = [], k_CreatedAt = 0\<rparr>"

lemma idempotent_post_replays_witness:
  "\<exists>s3. idempotent desk desk_api_key desk_post (requireScope scopeDevicesWrite desk_api_key (JSON 201 (JInt 7))) desk_state = (Inr (), s3) \<and>
    rw_body s3 = ''7'' @ [CHR 0x0A] \<and>
    idempotent (at_time 3600 desk) desk_api_key desk_post (throw ErrNotFound) (fresh_reply s3) = (Inr (), s3\<lparr>
      rw_header := [(''Content-Type'', ''application/json; charset=utf-8''), (''Idempotent-Replayed'', ''true'')],
      rw_status := Some 201, rw_last := Some 201, rw_body := ''7'' @ [CHR 0x0A]\<rparr>)"
proof -
  let ?h = "requireScope scopeDevicesWrite desk_api_key (JSON 201 (JInt 7))"
  let ?s2 = "(claimed_state desk desk_api_key desk_post desk_state)\<lparr>rw_header := [(''Content-Type'', ''application/json; charset=utf-8'')],
    rw_status := Some 201, rw_last := Some 201, rw_body := ''7'' @ [CHR 0x0A]\<rparr>"
  have key: "Header_Get desk_post ''Idempotency-Key'' = ''order-17''" by (simp add: Header_Get_def first_value_def desk_post_def desk_request_def)
  have body: "rq_Body desk_post = ''{}''" by (simp add: desk_post_def desk_request_def)
  have seven: "Itoa 7 = ''7''" by code_simp
  have empty: "rw_header desk_state = []" "rw_status desk_state = None" by (simp_all add: desk_state_def world.defs)
  have 1: "good_key desk_post" by (simp add: good_key_def key maxIdemKeyLen_def maxAPIBodySize_def body)
  have 2: "first_use desk_api_key desk_post desk_state" by (simp add: first_use_def idem_of_def desk_key_def desk_api_key_def)
  have 3: "answers ?h (claimed_state desk desk_api_key desk_post desk_state) 201 ?s2"
    by (simp add: answers_def requireScope_def serve_def desk_api_key_def scopeDevicesWrite_def JSON_def set_header_def WriteHeader_def w_Write_def
        thn_def bnd_def attempt_def seven claimed_state_def empty)
  have 4: "srv_sha256 (at_time 3600 desk) = srv_sha256 desk" "srv_now (at_time 3600 desk) \<le> srv_now desk + IdempotencyTTL"
    by (simp_all add: at_time_def map_env_def IdempotencyTTL_def hour_def)
  have 5: "header_text ?s2 ''Content-Type'' = ''application/json; charset=utf-8''" by (simp add: header_text_def)
  show ?thesis
    using idempotent_post_replays[OF 1 2 desk_state_fields(6) 3 4, of "throw ErrNotFound"] unfolding 5 by auto
qed

text \<open>
  C6. A key gets at most its burst of 60 requests and 10 for every second that passes, however its requests
  are spread and whatever floating point does to the count: its roundings add less than one request in
  eight million million.
\<close>

theorem rate_limit_bound:
  assumes "buckets_ok t bs" and "sorted (t # ts)"
  shows "of_nat (allowed_count k bs (t # ts)) \<le> 60 + 10 * seconds_between t (last (t # ts)) + of_nat (length (t # ts)) / (2 ^ 43 :: rat)"
  using assms by (rule allowed_count_run)

lemma rate_limit_bound_witness:
  "buckets_ok 0 [] \<and> of_nat (allowed_count 1 [] [0, 5, 1000000000]) \<le> 70 + 3 / (2 ^ 43 :: rat)"
proof -
  have ok: "buckets_ok 0 []" by (simp add: buckets_ok_def)
  show ?thesis using ok rate_limit_bound[OF ok, of "[5, 1000000000]" 1] by (simp add: seconds_between_def)
qed



section \<open>Where a request comes from\<close>

lemma walk_hops_trusted:
  assumes "list_all (\<lambda>h. \<exists>a. parseHop (TrimSpace h) = Some a \<and> isTrusted a trusted) proxies"
    and "parseHop (TrimSpace h) = Some a" and "\<not> isTrusted a trusted"
  shows "walk_hops trusted ip (proxies @ h # rest) = a"
  using assms by (induction proxies arbitrary: ip) auto

text \<open>
  C7. Nobody can pretend to another address than his own. A request that does not arrive from a trusted
  proxy is taken at the address it arrives from, over the connection it arrives on, whatever its headers say;
  one that arrives through trusted proxies is taken at the address the first of them saw, whatever was in the
  header before.
\<close>

theorem client_ip_unforgeable:
  assumes peer: "ParseAddr (remoteHost r) = Inr peer"
  shows "(\<not> isTrusted peer trusted \<longrightarrow> resolveClient same trusted r = \<lparr>cl_ip = remoteHost r, cl_https = rq_TLS r\<rparr>) \<and>
    (isTrusted peer trusted \<and> header_hops r = forged @ hop # proxies \<and>
      list_all (\<lambda>h. \<exists>a. parseHop (TrimSpace h) = Some a \<and> isTrusted a trusted) proxies \<and>
      parseHop (TrimSpace hop) = Some a \<and> \<not> isTrusted a trusted \<longrightarrow>
      cl_ip (resolveClient same trusted r) = addr_String a)"
proof (intro conjI impI)
  assume "\<not> isTrusted peer trusted"
  then show "resolveClient same trusted r = \<lparr>cl_ip = remoteHost r, cl_https = rq_TLS r\<rparr>"
    using peer by (simp add: resolveClient_def Let_def)
next
  assume h: "isTrusted peer trusted \<and> header_hops r = forged @ hop # proxies \<and>
      list_all (\<lambda>h. \<exists>a. parseHop (TrimSpace h) = Some a \<and> isTrusted a trusted) proxies \<and>
      parseHop (TrimSpace hop) = Some a \<and> \<not> isTrusted a trusted"
  then have "rev (header_hops r) = rev proxies @ hop # rev forged" by simp
  moreover have "walk_hops trusted (Unmap peer) (rev proxies @ hop # rev forged) = a"
    using h by (intro walk_hops_trusted) (auto simp: list_all_iff)
  ultimately show "cl_ip (resolveClient same trusted r) = addr_String a"
    using peer h by (simp add: resolveClient_def Let_def split: prod.split)
qed

lemma text_addresses:
  "ParseAddr ''10.0.0.5'' = Inr (V4 0x0A000005)" "ParseAddr ''10.0.0.8'' = Inr (V4 0x0A000008)"
  "ParseAddr ''203.0.113.9'' = Inr (V4 0xCB007109)"
  by (simp_all add: ParseAddr_def parseIPv4_def parse_octet_def undec_def is_digit_def word4_def)

lemma text_hops: "SplitHostPort ''10.0.0.5:443'' = Some ''10.0.0.5''"
  "Split (CHR '','') ''198.51.100.7, 203.0.113.9'' = [''198.51.100.7'', '' 203.0.113.9'']" "Split (CHR '','') ''10.0.0.8'' = [''10.0.0.8'']"
  by code_simp+

lemma text_trim: "TrimSpace '' 203.0.113.9'' = ''203.0.113.9''" "TrimSpace ''10.0.0.8'' = ''10.0.0.8''"
  by (simp_all add: TrimSpace_def runes_of_ascii IsSpace_def)

lemma text_address: "addr_String (V4 0xCB007109) = ''203.0.113.9''"
  by (simp add: string4_def octet_def dec.simps digit_chars)

lemma text_trusted:
  "isTrusted (V4 0x0A000005) [PrefixFrom (V4 0x0A000000) 8]" "isTrusted (V4 0x0A000008) [PrefixFrom (V4 0x0A000000) 8]"
  "\<not> isTrusted (V4 0xCB007109) [PrefixFrom (V4 0x0A000000) 8]"
  by code_simp+

lemma client_ip_unforgeable_witness:
  "cl_ip (resolveClient (=) [PrefixFrom (V4 0x0A000000) 8]
     (desk_request ''10.0.0.5:443'' [(''X-Forwarded-For'', [''198.51.100.7, 203.0.113.9'', ''10.0.0.8''])])) = ''203.0.113.9''"
proof -
  let ?r = "desk_request ''10.0.0.5:443'' [(''X-Forwarded-For'', [''198.51.100.7, 203.0.113.9'', ''10.0.0.8''])]"
  have 1: "ParseAddr (remoteHost ?r) = Inr (V4 0x0A000005)" by (simp add: remoteHost_def desk_request_def text_hops text_addresses)
  have 2: "header_hops ?r = [''198.51.100.7''] @ '' 203.0.113.9'' # [''10.0.0.8'']" by (simp add: header_hops_def desk_request_def text_hops)
  have 3: "parseHop (TrimSpace ''10.0.0.8'') = Some (V4 0x0A000008)" "parseHop (TrimSpace '' 203.0.113.9'') = Some (V4 0xCB007109)"
    unfolding parseHop_def text_trim text_addresses by simp_all
  show ?thesis
    using client_ip_unforgeable[OF 1, of "[PrefixFrom (V4 0x0A000000) 8]" "(=)" "[''198.51.100.7'']" "'' 203.0.113.9''" "[''10.0.0.8'']" "V4 0xCB007109"]
      2 3 text_trusted text_address by simp
qed

section \<open>Accounts\<close>

text \<open>The account a request is signed in to, by its cookie.\<close>

definition signed_in :: "'m server \<Rightarrow> hreq \<Rightarrow> ('m, 'z) api_scheme \<Rightarrow> (user_row \<times> string) option" where
  "signed_in sv r s =
     (case map_of (rq_Cookies r) sessionCookie of
        None \<Rightarrow> None
      | Some val \<Rightarrow> if val = [] then None else let hash = HashToken (srv_sha256 sv) val in
        (case find (\<lambda>x. se_token_hash x = hash \<and> se_expires_at x > unix (srv_now sv)) (t_sessions s) of
           None \<Rightarrow> None
         | Some x \<Rightarrow> map_option (\<lambda>u. (u, hash)) (user_by_id (se_user_id x) s)))"

lemma UserBySessionToken_cases:
  assumes "y = (case find (\<lambda>x. se_token_hash x = hash \<and> se_expires_at x > unix now) (t_sessions s) of None \<Rightarrow> None | Some x \<Rightarrow> user_by_id (se_user_id x) s)"
  obtains bs where "UserBySessionToken now hash s = (Inl (Errorf ''scan user'' db_fault), s\<lparr>t_faults := bs\<rparr>)" and "t_faults s \<noteq> []"
  | bs where "UserBySessionToken now hash s = (scanUser y, s\<lparr>t_faults := bs\<rparr>)" and "t_faults s = [] \<Longrightarrow> s\<lparr>t_faults := bs\<rparr> = s"
proof -
  define f where "f = (\<lambda>s :: 'a db_scheme. case find (\<lambda>x. se_token_hash x = hash \<and> se_expires_at x > unix now) (t_sessions s) of
    None \<Rightarrow> None | Some x \<Rightarrow> user_by_id (se_user_id x) s)"
  have f: "f (s\<lparr>t_faults := b\<rparr>) = f s" for b by (simp add: f_def user_by_id_def split: option.split)
  have unf: "UserBySessionToken now hash = bnd (mapErr (Errorf ''scan user'') (query f)) (\<lambda>row. liftE (scanUser row))"
    by (simp add: UserBySessionToken_def f_def)
  have y: "f s = y" using assms by (simp add: f_def)
  show thesis
  proof (cases "t_faults s")
    case Nil
    then have "UserBySessionToken now hash s = (scanUser y, s\<lparr>t_faults := []\<rparr>)" "s\<lparr>t_faults := []\<rparr> = s"
      using y by (cases "scanUser y"; simp add: unf query_def stmt_def bnd_def mapErr_def Let_def)+
    then show thesis by (rule that(2))
  next
    case (Cons b bs)
    show thesis
    proof (cases b)
      case True
      have "UserBySessionToken now hash s = (Inl (Errorf ''scan user'' db_fault), s\<lparr>t_faults := bs\<rparr>)"
        using Cons True by (simp add: unf query_def stmt_def bnd_def mapErr_def Let_def)
      then show thesis using Cons that(1) by simp
    next
      case False
      have "UserBySessionToken now hash s = (scanUser y, s\<lparr>t_faults := bs\<rparr>)"
        using Cons False y f by (cases "scanUser y") (simp_all add: unf query_def stmt_def bnd_def mapErr_def Let_def)
      then show thesis using Cons that(2) by simp
    qed
  qed
qed

text \<open>
  A handler behind \<open>requireAuth\<close> runs exactly for a request whose cookie is that of a session that
  has not expired, as the user of that session; without one, what the handler would do makes no difference.
\<close>

theorem session_gate:
  fixes s :: "('m, 'z) api_scheme"
  shows "case signed_in sv r s of
      None \<Rightarrow> requireAuth sv h r s = requireAuth sv h' r s
    | Some (u, hash) \<Rightarrow> if t_faults s = []
        then requireAuth sv h r s = h \<lparr>id_UserID = us_id u, id_Email = us_email u, id_TokenHash = hash\<rparr> s
        else True"
proof (cases "map_of (rq_Cookies r) sessionCookie")
  case None
  then show ?thesis by (simp add: signed_in_def requireAuth_def)
next
  case (Some val)
  let ?hash = "HashToken (srv_sha256 sv) val"
  define y where "y = (case find (\<lambda>x. se_token_hash x = ?hash \<and> se_expires_at x > unix (srv_now sv)) (t_sessions s) of
    None \<Rightarrow> None | Some x \<Rightarrow> user_by_id (se_user_id x) s)"
  have sig: "signed_in sv r s = (if val = [] then None else map_option (\<lambda>u. (u, ?hash)) y)"
    using Some by (auto simp: signed_in_def y_def Let_def split: option.split)
  show ?thesis
  proof (rule UserBySessionToken_cases[OF y_def])
    fix bs assume "UserBySessionToken (srv_now sv) ?hash s = (Inl (Errorf ''scan user'' db_fault), s\<lparr>t_faults := bs\<rparr>)" "t_faults s \<noteq> []"
    then show ?thesis using Some sig by (simp add: requireAuth_def Let_def bnd_def attempt_def split: option.split)
  next
    fix bs assume run: "UserBySessionToken (srv_now sv) ?hash s = (scanUser y, s\<lparr>t_faults := bs\<rparr>)"
      and same: "t_faults s = [] \<Longrightarrow> s\<lparr>t_faults := bs\<rparr> = s"
    show ?thesis
    proof (cases y)
      case None
      then show ?thesis using Some sig run by (simp add: requireAuth_def Let_def bnd_def attempt_def scanUser_def)
    next
      case (Some u)
      have "UserBySessionToken (srv_now sv) ?hash s = (scanUser y, s)" if "t_faults s = []"
        using run same[OF that] by simp
      then show ?thesis
        using \<open>map_of _ _ = Some val\<close> Some sig run by (simp add: requireAuth_def Let_def bnd_def attempt_def scanUser_def)
    qed
  qed
qed

text \<open>What \<open>handleLogin\<close> does before it accepts leaves the accounts alone, but for the time step of the code.\<close>

lemma sessions_Record: "Record v e s = (Inr (), t) \<Longrightarrow> accounts t = accounts (s :: ('m, 'z) api_scheme)"
  using keeps_run[OF accounts_Record] by blast

lemma checkTOTP_Inr:
  fixes s :: "('m, 'z) api_scheme"
  assumes "checkTOTP sv u code s = (Inr True, t)"
  obtains step where "VerifyTOTP (srv_hmac_sha1 sv) (sv_upper (srv_instances sv)) (u_TOTPSecret u) code (srv_now sv) (u_TOTPLastStep u) = Some step"
    and "accounts t = (map (\<lambda>x. if us_id x = u_ID u \<and> us_totp_last_step x < step then x\<lparr>us_totp_last_step := step\<rparr> else x) (t_users s), t_sessions s)"
proof -
  obtain step where v: "VerifyTOTP (srv_hmac_sha1 sv) (sv_upper (srv_instances sv)) (u_TOTPSecret u) code (srv_now sv) (u_TOTPLastStep u) = Some step"
    and run: "ClaimTOTPStep (u_ID u) step s = (Inr True, t)"
    using assms by (auto simp: checkTOTP_def split: option.splits)
  obtain n where "map_users (\<lambda>x. us_id x = u_ID u \<and> us_totp_last_step x < step) (\<lambda>x. x\<lparr>us_totp_last_step := step\<rparr>) s = (Inr n, t)"
    using run unfolding ClaimTOTPStep_def by (auto elim!: bnd_InrE simp: mapErr_Inr)
  then have "accounts t = (map (\<lambda>x. if us_id x = u_ID u \<and> us_totp_last_step x < step then x\<lparr>us_totp_last_step := step\<rparr> else x) (t_users s), t_sessions s)"
    unfolding map_users_def by (elim stmt_Inr) (auto simp: accounts_def)
  then show thesis using v that by blast
qed

lemma startSession_Inr:
  fixes s :: "('m, 'z) api_scheme"
  assumes "startSession sv rnd r u s = (Inr (), t)"
  shows "accounts t = (t_users s, t_sessions s @ [session_row_of (srv_now sv) (snd (NewSessionToken (srv_sha256 sv) rnd)) (u_ID u)
    (truncate_to (Header_Get r ''User-Agent'') 255) (srv_now sv + srv_SessionTTL sv)])"
proof -
  obtain tok hash where tok: "NewSessionToken (srv_sha256 sv) rnd = (tok, hash)" by fastforce
  obtain s2 where new: "CreateSession (srv_now sv) hash (u_ID u) (truncate_to (Header_Get r ''User-Agent'') 255)
      (srv_now sv + srv_SessionTTL sv) s = (Inr (), s2)" and t: "accounts t = accounts s2"
    using assms unfolding startSession_def tok Let_def by (auto elim!: thn_InrE simp: SetCookie_def accounts_def)
  then show ?thesis
    using new unfolding CreateSession_def by (auto elim!: stmt_Inr simp: mapErr_Inr accounts_def tok split: if_splits)
qed

lemma accept_Inr:
  fixes s :: "('m, 'z) api_scheme"
  assumes "login_accept sv rnd r key u s = (Inr (), t)"
  shows "accounts t = (t_users s, t_sessions s @ [session_row_of (srv_now sv) (snd (NewSessionToken (srv_sha256 sv) rnd)) (u_ID u)
    (truncate_to (Header_Get r ''User-Agent'') 255) (srv_now sv + srv_SessionTTL sv)])"
proof -
  obtain s1 s2 s3 where run: "login_Reset key s = (Inr (), s1)" "startSession sv rnd r u s1 = (Inr (), s2)"
    "Record (srv_env sv) (panel_event sv r ''auth.login'' []) s2 = (Inr (), s3)" "JSON 200 (userResponse u) s3 = (Inr (), t)"
    using assms unfolding login_accept_def by (auto elim!: thn_InrE)
  have "accounts s1 = accounts s" using keeps_run[OF accounts_login(2) _ run(1)] by simp
  moreover have "keeps (\<lambda>s. accounts s = c) (JSON 200 (userResponse u) :: ('m, 'z, unit) aprog)" for c
    unfolding JSON_def set_header_def w_Write_def
    by (intro keeps_thn accounts_login keeps_case_option keeps_ret keeps_modify) (simp_all add: accounts_def)
  from keeps_run[OF this _ run(4)] have "accounts t = accounts s3" by simp
  ultimately show ?thesis using startSession_Inr[OF run(2)] sessions_Record[OF run(3)] by (simp add: accounts_def)
qed

text \<open>
  C4. A sign-in that succeeds had the right password of an account and, when the account has a second
  factor, a code of a time step later than the last one used, which it uses up; the address was not locked
  out; and it leaves exactly one session more, that account's, and no other change to the accounts.
\<close>

theorem login_sound:
  fixes s :: "('m, 'z) api_scheme"
  assumes "handleLogin sv rnd r (Decoded cr) s = (Inr (), s')"
  shows "\<exists>row \<in> set (t_users s). us_email row = NormalizeEmail (srv_lower sv) (NormalizeEmail (srv_lower sv) (cr_Email cr)) \<and>
    VerifyPassword (srv_argon2 sv) (us_password_hash row) (cr_Password cr) = None \<and>
    fst (fst (Allowed loginThrottle (srv_now sv) (guess_key sv r cr) (ap_throttle s))) \<and>
    t_sessions s' = t_sessions s @ [session_row_of (srv_now sv) (snd (NewSessionToken (srv_sha256 sv) rnd)) (us_id row)
      (truncate_to (Header_Get r ''User-Agent'') 255) (srv_now sv + srv_SessionTTL sv)] \<and>
    (if us_totp_secret row = [] then t_users s' = t_users s
     else \<exists>step. VerifyTOTP (srv_hmac_sha1 sv) (sv_upper (srv_instances sv)) (us_totp_secret row) (cr_Code cr) (srv_now sv) (us_totp_last_step row) = Some step \<and>
       t_users s' = map (\<lambda>x. if us_id x = us_id row \<and> us_totp_last_step x < step then x\<lparr>us_totp_last_step := step\<rparr> else x) (t_users s))"
proof -
  let ?email = "NormalizeEmail (srv_lower sv) (cr_Email cr)" let ?key = "guess_key sv r cr"
  have ok: "liftE (Decode (Decoded cr)) = ret cr" by (rule ext) (simp add: Decode_def)
  obtain s1 where chk: "checkThrottle (srv_now sv) ?key s = (Inr (), s1)"
    and rest: "bnd (attempt (UserByEmail (srv_lower sv) ?email)) (\<lambda>u.
      case u of
        Inl e \<Rightarrow> if errors_Is e ErrNotFound then thn (login_failed sv r ?key ?email) (throw badPassword) else throw e
      | Inr user \<Rightarrow>
        (case VerifyPassword (srv_argon2 sv) (u_PasswordHash user) (cr_Password cr) of
           Some e \<Rightarrow> if errors_Is e ErrPasswordMismatch then thn (login_failed sv r ?key ?email) (throw badPassword) else throw e
         | None \<Rightarrow> thn (login_code sv r ?key ?email user (cr_Code cr)) (login_accept sv rnd r ?key user))) s1 = (Inr (), s')"
    using assms unfolding handleLogin_def ok bnd_ret Let_def guess_key_def[symmetric] by (auto elim: thn_InrE)
  have allowed: "fst (fst (Allowed loginThrottle (srv_now sv) ?key (ap_throttle s)))"
    using chk by (auto simp: checkThrottle_def bnd_def thn_def set_header_def split: prod.splits if_splits)
  have s1: "accounts s1 = accounts s" using keeps_run[OF accounts_checkThrottle _ chk] by simp
  obtain u s2 where user: "UserByEmail (srv_lower sv) ?email s1 = (Inr u, s2)"
    and pw: "VerifyPassword (srv_argon2 sv) (u_PasswordHash u) (cr_Password cr) = None"
    and go: "thn (login_code sv r ?key ?email u (cr_Code cr)) (login_accept sv rnd r ?key u) s2 = (Inr (), s')"
    using rest by (elim bnd_InrE) (auto simp: attempt_def thn_def bnd_def split: prod.splits sum.splits option.splits if_splits)
  define f where "f = (\<lambda>s :: ('m, 'z) api_scheme. find (\<lambda>x. us_email x = NormalizeEmail (srv_lower sv) ?email) (t_users s))"
  obtain row bs where row: "f s1 = Some row" "scanUser (Some row) = Inr u" and s2: "s2 = s1\<lparr>t_faults := bs\<rparr>"
  proof -
    have "UserByEmail (srv_lower sv) ?email = bnd (mapErr (Errorf ''scan user'') (query f)) (\<lambda>row. liftE (scanUser row))"
      by (simp add: UserByEmail_def f_def)
    then obtain y t where q: "query f s1 = (Inr y, t)" and y: "scanUser y = Inr u" "s2 = t"
      using user by (auto elim!: bnd_InrE simp: mapErr_Inr)
    have y': "y = f s1" "\<exists>b. t = s1\<lparr>t_faults := b\<rparr>" using query_reads[OF q] by (simp_all add: f_def)
    then obtain row where "f s1 = Some row" using y(1) by (cases "f s1") (auto simp: scanUser_def)
    then show thesis using y y' that by metis
  qed
  have mem: "row \<in> set (t_users s)" "us_email row = NormalizeEmail (srv_lower sv) ?email"
    using row(1) s1 by (auto simp: f_def find_Some_iff accounts_def)
  have u: "u_ID u = us_id row" "u_PasswordHash u = us_password_hash row" "u_TOTPSecret u = us_totp_secret row" "u_TOTPLastStep u = us_totp_last_step row"
    using row(2) by (auto simp: scanUser_def)
  obtain s3 where code: "login_code sv r ?key ?email u (cr_Code cr) s2 = (Inr (), s3)" and acc: "login_accept sv rnd r ?key u s3 = (Inr (), s')"
    using go by (auto elim: thn_InrE)
  have A: "t_users s' = t_users s3 \<and> t_sessions s' = t_sessions s3 @ [session_row_of (srv_now sv) (snd (NewSessionToken (srv_sha256 sv) rnd)) (us_id row)
      (truncate_to (Header_Get r ''User-Agent'') 255) (srv_now sv + srv_SessionTTL sv)]"
    using accept_Inr[OF acc] by (simp add: accounts_def u)
  have s2': "t_users s2 = t_users s" "t_sessions s2 = t_sessions s" using s1 by (simp_all add: s2 accounts_def)
  have B: "if us_totp_secret row = [] then accounts s3 = accounts s
     else \<exists>step. VerifyTOTP (srv_hmac_sha1 sv) (sv_upper (srv_instances sv)) (us_totp_secret row) (cr_Code cr) (srv_now sv) (us_totp_last_step row) = Some step \<and>
       accounts s3 = (map (\<lambda>x. if us_id x = us_id row \<and> us_totp_last_step x < step then x\<lparr>us_totp_last_step := step\<rparr> else x) (t_users s), t_sessions s)"
  proof (cases "us_totp_secret row = []")
    case True
    then show ?thesis using code s1 by (auto simp: login_code_def u s2)
  next
    case False
    then have "checkTOTP sv u (cr_Code cr) s2 = (Inr True, s3)"
      using code by (auto simp: login_code_def u thn_def bnd_def split: if_splits prod.splits sum.splits)
    then show ?thesis using False by (elim checkTOTP_Inr) (auto simp: u s2')
  qed
  show ?thesis
    using mem pw[unfolded u] allowed A B by (intro bexI[of _ row]) (auto simp: accounts_def split: if_splits)
qed

lemma JSON_run: "\<exists>t. JSON st v s = (Inr (), t)"
  by (simp add: JSON_def set_header_def WriteHeader_def w_Write_def thn_def bnd_def split: option.split)

lemma desk_sign_in:
  "\<exists>s'. handleLogin desk [1, 2, 3] desk_post (Decoded \<lparr>cr_Email = ''ada@example.com'', cr_Password = ''correct horse'', cr_Code = []\<rparr>) desk_state = (Inr (), s')"
proof -
  let ?cr = "\<lparr>cr_Email = ''ada@example.com'', cr_Password = ''correct horse'', cr_Code = []\<rparr>"
  let ?u = "\<lparr>u_ID = 1, u_Name = ''Ada'', u_Email = ''ada@example.com'', u_PasswordHash = HashPassword toy_argon [] ''correct horse'', u_TOTPSecret = [],
    u_TOTPLastStep = 0, u_CreatedAt = 0, u_UpdatedAt = 0\<rparr>"
  have mail: "NormalizeEmail id ''ada@example.com'' = ''ada@example.com''"
    by (simp add: NormalizeEmail_def ToLower_def TrimSpace_def strings_Map_def runes_def runes_of_ascii IsSpace_def rune_lower_def EncodeRune_def) code_simp
  have pw: "VerifyPassword toy_argon (HashPassword toy_argon [] ''correct horse'') ''correct horse'' = None"
    by (simp add: VerifyPassword_Hash toy_argon_length)
  have find: "UserByEmail id ''ada@example.com'' desk_state = (Inr ?u, desk_state)"
    by (simp add: UserByEmail_def mail bnd_def mapErr_def desk_user_def scanUser_def time_Unix_def)
  have chk: "checkThrottle 0 key desk_state = (Inr (), desk_state)" for key
    by (simp add: checkThrottle_def Allowed_def bnd_def)
  have sess: "t_sessions desk_state = []"
    by (simp add: desk_state_def office_world_def world_of_def office_db_def empty_db_def world.defs db.defs)
  obtain tok hash where tok: "NewSessionToken id [1, 2, 3] = (tok, hash)" by fastforce
  obtain t where start: "startSession desk [1, 2, 3] desk_post ?u desk_state = (Inr (), t)"
    by (simp add: startSession_def Let_def CreateSession_def sess user_by_id_def desk_user_def mapErr_def SetCookie_def thn_def bnd_def tok)
  obtain t' where rec: "Record (srv_env desk) (panel_event desk desk_post ''auth.login'' []) t = (Inr (), t')" by (rule Record_run)
  obtain t'' where json: "JSON 200 (userResponse ?u) t' = (Inr (), t'')" using JSON_run by blast
  have reset: "login_Reset key desk_state = (Inr (), desk_state)" for key by (simp add: login_Reset_def throttle_Reset_def)
  have "handleLogin desk [1, 2, 3] desk_post (Decoded ?cr) desk_state = (Inr (), t'')"
    by (simp add: handleLogin_def Decode_def mail chk find pw login_code_def login_accept_def start rec json thn_def bnd_def attempt_def reset Let_def)
  then show ?thesis by blast
qed

lemma login_sound_witness:
  "\<exists>s'. handleLogin desk [1, 2, 3] desk_post (Decoded \<lparr>cr_Email = ''ada@example.com'', cr_Password = ''correct horse'', cr_Code = []\<rparr>) desk_state = (Inr (), s') \<and>
     length (t_sessions s') = Suc (length (t_sessions desk_state))"
proof -
  obtain s' where "handleLogin desk [1, 2, 3] desk_post (Decoded \<lparr>cr_Email = ''ada@example.com'', cr_Password = ''correct horse'', cr_Code = []\<rparr>) desk_state = (Inr (), s')"
    using desk_sign_in by blast
  then show ?thesis using login_sound[of desk] by fastforce
qed

text \<open>
  Changing the password signs out every session of the account, the one it was changed from
  included, and starts a single new one; the account has the new password, and other accounts and their
  sessions stay as they were.
\<close>

theorem change_password_ends_sessions:
  fixes s :: "('m, 'z) api_scheme"
  assumes "handleChangePassword sv salt rnd ident r (Decoded req) s = (Inr (), s')"
  shows "t_users s' = map (\<lambda>x. if us_id x = id_UserID ident
        then x\<lparr>us_password_hash := HashPassword (srv_argon2 sv) salt (pw_New req), us_updated_at := unix (srv_now sv)\<rparr> else x) (t_users s) \<and>
    t_sessions s' = filter (\<lambda>x. se_user_id x \<noteq> id_UserID ident) (t_sessions s) @
      [session_row_of (srv_now sv) (snd (NewSessionToken (srv_sha256 sv) rnd)) (id_UserID ident) (truncate_to (Header_Get r ''User-Agent'') 255)
        (srv_now sv + srv_SessionTTL sv)]"
  using change_password_run[OF assms] by (simp add: accounts_def)

lemma change_password_ends_sessions_witness:
  "\<exists>s'. handleChangePassword desk [7] [1, 2, 3] \<lparr>id_UserID = 1, id_Email = ''ada@example.com'', id_TokenHash = []\<rparr> desk_post
       (Decoded \<lparr>pw_Current = ''correct horse'', pw_New = ''battery staple''\<rparr>) desk_state = (Inr (), s') \<and>
     map us_password_hash (t_users s') = [HashPassword toy_argon [7] ''battery staple''] \<and> map se_user_id (t_sessions s') = [1]"
proof -
  let ?ident = "\<lparr>id_UserID = 1, id_Email = ''ada@example.com'', id_TokenHash = []\<rparr>"
  let ?req = "\<lparr>pw_Current = ''correct horse'', pw_New = ''battery staple''\<rparr>"
  let ?u = "\<lparr>u_ID = 1, u_Name = ''Ada'', u_Email = ''ada@example.com'', u_PasswordHash = HashPassword toy_argon [] ''correct horse'', u_TOTPSecret = [],
    u_TOTPLastStep = 0, u_CreatedAt = 0, u_UpdatedAt = 0\<rparr>"
  let ?s = "desk_state\<lparr>t_users := [desk_user\<lparr>us_password_hash := HashPassword toy_argon [7] ''battery staple''\<rparr>]\<rparr>"
  have pw: "VerifyPassword toy_argon (HashPassword toy_argon [] ''correct horse'') ''correct horse'' = None"
    by (simp add: VerifyPassword_Hash toy_argon_length)
  have re: "reauthenticate desk ?ident desk_post ''current_password'' ''correct horse'' desk_state = (Inr (?u, login_key desk desk_post ''ada@example.com''), desk_state)"
    by (simp add: reauthenticate_def checkThrottle_def Allowed_def UserByID_def mapErr_def user_by_id_def desk_user_def scanUser_def time_Unix_def pw
        thn_def bnd_def Let_def)
  have reset: "login_Reset key desk_state = (Inr (), desk_state)" for key by (simp add: login_Reset_def throttle_Reset_def)
  have upd: "UpdateUserPassword 0 1 (HashPassword toy_argon [7] ''battery staple'') desk_state = (Inr (), ?s)"
    by (simp add: UpdateUserPassword_def updateUser_def map_users_def mapErr_def bnd_def desk_user_def unix_def)
  have sess: "t_sessions desk_state = []"
    by (simp add: desk_state_def office_world_def world_of_def office_db_def empty_db_def world.defs db.defs)
  obtain tok hash where tok: "NewSessionToken id [1, 2, 3] = (tok, hash)" by fastforce
  obtain t where start: "restartSessions desk [1, 2, 3] desk_post ?u ?s = (Inr (), t)"
    by (simp add: restartSessions_def DeleteUserSessions_def drop_sessions_def startSession_def Let_def CreateSession_def sess user_by_id_def desk_user_def
        mapErr_def SetCookie_def thn_def bnd_def tok)
  obtain t' where rec: "Record (srv_env desk) (panel_event desk desk_post ''auth.password_changed'' []) t = (Inr (), t')" by (rule Record_run)
  have run: "handleChangePassword desk [7] [1, 2, 3] ?ident desk_post (Decoded ?req) desk_state
      = (Inr (), t'\<lparr>rw_status := (case rw_status t' of None \<Rightarrow> Some 204 | x \<Rightarrow> x), rw_last := Some 204\<rparr>)"
    by (simp add: handleChangePassword_def Decode_def CheckPassword_def MinPasswordLength_def maxPasswordLength_def re upd start rec reset NoContent_def
        WriteHeader_def thn_def bnd_def Let_def)
  then show ?thesis using change_password_ends_sessions[OF run] by (auto simp: desk_user_def sess session_row_of_def)
qed

text \<open>
  A stored hash verifies the password it was made from and says "does not match", no other error,
  for any password Argon2 does not map to the same key.
\<close>

theorem password_hash_round_trip:
  assumes "\<And>p s t m k n. length (argon2 p s t m k n) = n"
  shows "VerifyPassword argon2 (HashPassword argon2 salt password) tried =
    (if argon2 tried salt argonTime argonMemory argonThreads argonKeyLen = argon2 password salt argonTime argonMemory argonThreads argonKeyLen
     then None else Some ErrPasswordMismatch)"
  by (simp add: VerifyPassword_Hash assms)

lemma password_hash_round_trip_witness:
  "VerifyPassword toy_argon (HashPassword toy_argon [] ''correct horse'') ''wrong'' = Some ErrPasswordMismatch"
proof -
  have "toy_argon ''wrong'' [] argonTime argonMemory argonThreads argonKeyLen \<noteq> toy_argon ''correct horse'' [] argonTime argonMemory argonThreads argonKeyLen"
    by (simp add: toy_argon_def argonKeyLen_def)
  then show ?thesis using password_hash_round_trip[OF toy_argon_length] by simp
qed

section \<open>The log\<close>

lemma Cut_token:
  assumes "CHR ''/'' \<notin> set t" and "rest = [] \<or> hd rest = CHR ''/''"
  shows "fst (snd (Cut (CHR ''/'') (t @ rest))) = tl rest"
proof -
  have "takeWhile (\<lambda>c. c \<noteq> CHR ''/'') t = t" "dropWhile (\<lambda>c. c \<noteq> CHR ''/'') t = []"
    using assms(1) by (auto simp: takeWhile_eq_all_conv)
  then show ?thesis using assms by (cases rest) (auto simp: Cut_def dropWhile_append)
qed

text \<open>
  The request log tells nothing of the token of a share link: with any other token the line is the same.
\<close>

theorem log_hides_share_tokens:
  assumes "p \<in> {''/share/'', ''/api/share/''}" and "t \<noteq> []" and "u \<noteq> []"
    and "CHR ''/'' \<notin> set t" and "CHR ''/'' \<notin> set u" and "rest = [] \<or> hd rest = CHR ''/''"
  shows "logPath (p @ t @ rest) = logPath (p @ u @ rest)"
proof -
  have "logPath (p @ v @ rest) = p @ ellipsis @ (if tl rest \<noteq> [] then ''/'' @ tl rest else [])"
    if v: "v \<noteq> []" "CHR ''/'' \<notin> set v" for v
  proof -
    obtain h b where cut: "Cut (CHR ''/'') (v @ rest) = (h, tl rest, b)" using Cut_token[OF v(2) assms(6)] by (metis prod.collapse)
    have share: "logPath (''/share/'' @ x) = (if x = [] then ''/share/'' else case Cut (CHR ''/'') x of (_, tail, _) \<Rightarrow>
        ''/share/'' @ ellipsis @ (if tail \<noteq> [] then ''/'' @ tail else []))" for x
      by (simp add: logPath_def)
    have api: "logPath (''/api/share/'' @ x) = (if x = [] then ''/api/share/'' else case Cut (CHR ''/'') x of (_, tail, _) \<Rightarrow>
        ''/api/share/'' @ ellipsis @ (if tail \<noteq> [] then ''/'' @ tail else []))" for x
      by (simp add: logPath_def)
    show ?thesis using assms(1) v(1) unfolding insert_iff empty_iff by (elim disjE FalseE) (simp_all only: share api cut append_is_Nil_conv prod.case simp_thms if_False)
  qed
  then show ?thesis using assms by metis
qed

lemma log_hides_share_tokens_witness:
  "logPath ''/api/share/SECRET/config'' = logPath ''/api/share/x/config''"
  using log_hides_share_tokens[of "''/api/share/''" "''SECRET''" "''x''" "''/config''"] by simp

end
