(* ===== verification/DeviceProperties.thy ===== *)
theory DeviceProperties
  imports ApiProperties
begin

text \<open>
  Properties of the API's commands on devices and servers: share links, groups, devices whose tunnel
  cannot be updated, and servers that still have devices.
\<close>

section \<open>Share links\<close>

definition shared_row :: "string \<Rightarrow> gotime option \<Rightarrow> peer_row \<Rightarrow> peer_row" where
  "shared_row token expires r = r\<lparr>pr_share_token := (if token \<noteq> [] then Some token else None), pr_share_expires_at := nullTime expires\<rparr>"

lemma shared_row_fields [simp]:
  "pr_id (shared_row token expires r) = pr_id r" "pr_instance_id (shared_row token expires r) = pr_instance_id r"
  "pr_share_token (shared_row token expires r) = (if token \<noteq> [] then Some token else None)"
  "pr_share_expires_at (shared_row token expires r) = nullTime expires"
  "pr_address (shared_row token expires r) = pr_address r" "pr_private_key (shared_row token expires r) = pr_private_key r"
  "pr_public_key (shared_row token expires r) = pr_public_key r" "pr_preshared_key (shared_row token expires r) = pr_preshared_key r"
  "pr_name (shared_row token expires r) = pr_name r" "pr_enabled (shared_row token expires r) = pr_enabled r"
  "pr_external_id (shared_row token expires r) = pr_external_id r" "pr_metadata (shared_row token expires r) = pr_metadata r"
  "pr_data_limit (shared_row token expires r) = pr_data_limit r" "pr_limit_period (shared_row token expires r) = pr_limit_period r"
  "pr_usage_reset_at (shared_row token expires r) = pr_usage_reset_at r" "pr_expires_at (shared_row token expires r) = pr_expires_at r"
  "pr_speed_limit (shared_row token expires r) = pr_speed_limit r" "pr_last_handshake (shared_row token expires r) = pr_last_handshake r"
  "pr_created_at (shared_row token expires r) = pr_created_at r" "pr_updated_at (shared_row token expires r) = pr_updated_at r"
  by (simp_all add: shared_row_def)

lemma scanPeer_fields:
  assumes "scanPeer r = Inr p"
  shows "p_ID p = pr_id r" "p_InstanceID p = pr_instance_id r" "p_ShareToken p = (case pr_share_token r of None \<Rightarrow> [] | Some t \<Rightarrow> t)"
    "p_ShareExpiresAt p = timeOf (pr_share_expires_at r)"
  using assms by (auto simp: scanPeer_def Let_def split: option.splits)

lemma scanPeer_shared:
  assumes "scanPeer r = Inr p"
  shows "scanPeer (shared_row token expires r) = Inr (p\<lparr>p_ShareToken := token, p_ShareExpiresAt := timeOf (nullTime expires)\<rparr>)"
proof -
  let ?errs = "[left_of (ParseAddr (pr_address r)), left_of (if pr_private_key r \<noteq> [] then ParseKey (pr_private_key r) else Inr ZeroKey),
    left_of (ParseKey (pr_public_key r)), left_of (ParseKey (pr_preshared_key r))]"
  have ok: "errors_Join ?errs = None"
    using assms by (cases "errors_Join ?errs") (simp_all only: scanPeer_def Let_def option.case sum.distinct)
  show ?thesis using assms unfolding scanPeer_def Let_def shared_row_fields ok option.case by auto
qed

lemma SetPeerShare_Inr:
  assumes "SetPeerShare k token expires s = (Inr q, s')"
  obtains r where "peer_by_id k s = Some r" and "scanPeer (shared_row token expires r) = Inr q"
    and "t_peers s' = map (\<lambda>x. if pr_id x = k then shared_row token expires x else x) (t_peers s)"
    and "\<forall>x \<in> set (t_peers s). pr_id x \<noteq> k \<longrightarrow> token \<noteq> [] \<longrightarrow> pr_share_token x \<noteq> Some token"
proof -
  obtain n s1 where u: "update_peer k (shared_row token expires) s = (Inr n, s1)" and rest: "thn (expectOneRow n) (PeerByID k) s1 = (Inr q, s')"
    using assms unfolding SetPeerShare_def shared_row_def[symmetric] by (auto elim!: bnd_InrE dest: mapErr_InrE)
  have "n \<noteq> 0" using rest by (auto simp: thn_def bnd_def expectOneRow_def split: if_splits)
  from u this obtain s2 r where r: "same_tables s s2" "peer_by_id k s = Some r"
    "peer_clash (filter (\<lambda>q. pr_id q \<noteq> k) (t_peers s)) (shared_row token expires r) = None"
    and s1: "s1 = s2\<lparr>t_peers := map (\<lambda>q. if pr_id q = k then shared_row token expires q else q) (t_peers s)\<rparr>"
    by (rule update_peer_Inr)
  have load: "PeerByID k s1 = (Inr q, s')" using rest \<open>n \<noteq> 0\<close> by (simp add: thn_def expectOneRow_def)
  then obtain y where q: "query (peer_by_id k) s1 = (Inr y, s')" and y: "(case y of None \<Rightarrow> Inl ErrNotFound | Some r \<Rightarrow> scanPeer r) = Inr q"
    unfolding PeerByID_def by (auto elim!: bnd_InrE dest!: mapErr_InrE split: option.splits)
  have eq: "y = peer_by_id k s1" "t_peers s' = t_peers s1" using query_reads[OF q] by auto
  have "find (\<lambda>x. pr_id x = k) (map (\<lambda>x. if pr_id x = k then shared_row token expires x else x) ps)
      = map_option (shared_row token expires) (find (\<lambda>x. pr_id x = k) ps)" for ps
    by (induction ps) auto
  then have "peer_by_id k s1 = Some (shared_row token expires r)" using r(2) by (simp add: s1 peer_by_id_def)
  then have scan: "scanPeer (shared_row token expires r) = Inr q" using y eq by simp
  have "\<forall>x \<in> set (t_peers s). pr_id x \<noteq> k \<longrightarrow> token \<noteq> [] \<longrightarrow> pr_share_token x \<noteq> Some token"
    using r(3) by (auto simp: peer_clash_None peers_apart_def)
  then show thesis using that r(2) scan eq(2) s1 by simp
qed

text \<open>What a token opens depends on the first row that has it.\<close>

lemma Shared_row:
  assumes "t_faults s = []" and "token \<noteq> []" and "find (\<lambda>r. pr_share_token r = Some token) (t_peers s) = Some r" and "scanPeer r = Inr q"
  shows "Shared t token s = (if (case p_ShareExpiresAt q of None \<Rightarrow> False | Some e \<Rightarrow> \<not> t < e) then (Inl link_gone, s)
    else bnd (InstanceByID (p_InstanceID q)) (\<lambda>j. ret (j, q)) s)"
  using assms by (simp add: Shared_def PeerByShareToken_def bnd_def mapErr_def)

lemma Shared_device:
  assumes "Shared t token s = (Inr (j, q), s')"
  obtains r where "r \<in> set (t_peers s)" and "pr_share_token r = Some token" and "pr_id r = p_ID q"
proof -
  obtain s1 where p: "PeerByShareToken token s = (Inr q, s1)"
    using assms unfolding Shared_def by (auto elim!: bnd_InrE dest!: mapErr_InrE split: if_splits)
  define f where "f = (\<lambda>s :: 'a site_scheme. find (\<lambda>r. pr_share_token r = Some token) (t_peers s))"
  obtain y where q: "query f s = (Inr y, s1)" and y: "(case y of None \<Rightarrow> Inl ErrNotFound | Some r \<Rightarrow> scanPeer r) = Inr q"
    using p unfolding PeerByShareToken_def f_def by (auto elim!: bnd_InrE dest!: mapErr_InrE split: option.splits if_splits)
  have "y = f s" using query_reads[OF q] by (simp add: f_def)
  then obtain r where r: "f s = Some r" "scanPeer r = Inr q" using y by (cases "f s") auto
  then have "r \<in> set (t_peers s)" "pr_share_token r = Some token" by (auto simp: f_def find_Some_iff)
  then show thesis using that scanPeer_fields(1)[OF r(2)] by simp
qed

lemma Shared_none:
  assumes "t_faults s = []" and "\<forall>r \<in> set (t_peers s). pr_share_token r \<noteq> Some token"
  shows "Shared t token s = (Inl link_gone, s)"
proof -
  have "find (\<lambda>r. pr_share_token r = Some token) (t_peers s) = None" using assms(2) by (simp add: find_None_iff)
  then show ?thesis
    using assms(1) by (simp add: Shared_def PeerByShareToken_def bnd_def mapErr_def)
qed

lemma Share_Inr:
  assumes "Share v token i p expires s = (Inr q, s1)"
  obtains s0 where "SetPeerShare (p_ID p) token expires s = (Inr q, s0)" and "t_peers s1 = t_peers s0"
proof -
  obtain s0 e where set: "SetPeerShare (p_ID p) token expires s = (Inr q, s0)" and "Record v e s0 = (Inr (), s1)"
    using assms unfolding Share_def Let_def thn_def by (auto elim!: bnd_InrE split: if_splits)
  from keeps_run[OF keeps_devices_Record _ this(2)] have "devices s1 = devices s0" by simp
  then show thesis using set that devices_fields(2) by blast
qed

text \<open>
  C24. A share link opens exactly the device it was made for, until its expiry; making a new one closes
  every earlier link of the device, and \<open>Unshare\<close> closes it.
\<close>

theorem share_link_opens_its_device:
  fixes s :: "'z site_scheme"
  assumes inv: "db_inv s" and run: "Share v token i p expires s = (Inr q, s1)" and nf: "t_faults s1 = []" and token: "token \<noteq> []"
  shows "p_ID q = p_ID p \<and> p_ShareToken q = token \<and> p_ShareExpiresAt q = timeOf (nullTime expires) \<and>
    Shared t token s1 = (if (case p_ShareExpiresAt q of None \<Rightarrow> False | Some e \<Rightarrow> \<not> t < e) then (Inl link_gone, s1)
      else bnd (InstanceByID (p_InstanceID q)) (\<lambda>j. ret (j, q)) s1) \<and>
    (\<forall>old j q' s2. old \<noteq> token \<longrightarrow> Shared t old s1 = (Inr (j, q'), s2) \<longrightarrow> p_ID q' \<noteq> p_ID p) \<and>
    (\<forall>s2. Unshare v i q s1 = (Inr (), s2) \<longrightarrow> t_faults s2 = [] \<longrightarrow> Shared t token s2 = (Inl link_gone, s2))"
proof -
  obtain s0 where set: "SetPeerShare (p_ID p) token expires s = (Inr q, s0)" and s1: "t_peers s1 = t_peers s0"
    using run by (rule Share_Inr)
  obtain r where r: "peer_by_id (p_ID p) s = Some r" and scan: "scanPeer (shared_row token expires r) = Inr q"
    and ps: "t_peers s0 = map (\<lambda>x. if pr_id x = p_ID p then shared_row token expires x else x) (t_peers s)"
    and others: "\<forall>x \<in> set (t_peers s). pr_id x \<noteq> p_ID p \<longrightarrow> token \<noteq> [] \<longrightarrow> pr_share_token x \<noteq> Some token"
    using set by (rule SetPeerShare_Inr)
  have rid: "r \<in> set (t_peers s)" "pr_id r = p_ID p" using peer_by_id_Some[OF r] by simp_all
  have q: "p_ID q = p_ID p" "p_ShareToken q = token" "p_ShareExpiresAt q = timeOf (nullTime expires)"
    using scanPeer_fields[OF scan] rid token by (simp_all add: shared_row_def)
  have dist: "distinct (map pr_id (t_peers s))" using inv by (simp add: db_inv_def peers_inv_def)
  have same: "x = r" if "x \<in> set (t_peers s)" "pr_id x = p_ID p" for x
    using dist that rid by (metis distinct_map inj_onD)
  have found: "find (\<lambda>x. pr_share_token x = Some token) (t_peers s1) = Some (shared_row token expires r)"
  proof -
    have "shared_row token expires r \<in> set (t_peers s1)" unfolding s1 ps set_map using rid by (intro image_eqI[of _ _ r]) simp_all
    then have "\<exists>x \<in> set (t_peers s1). pr_share_token x = Some token" using token by (intro bexI[of _ "shared_row token expires r"]) simp_all
    then obtain x where x: "find (\<lambda>x. pr_share_token x = Some token) (t_peers s1) = Some x"
      by (cases "find (\<lambda>x. pr_share_token x = Some token) (t_peers s1)") (auto simp: find_None_iff)
    then have "x \<in> set (t_peers s1)" "pr_share_token x = Some token" by (auto simp: find_Some_iff)
    then have "x = shared_row token expires r" using others same token by (auto simp: s1 ps split: if_splits)
    then show ?thesis using x by simp
  qed
  have old: "p_ID q' \<noteq> p_ID p" if o: "old \<noteq> token" "Shared t old s1 = (Inr (j, q'), s2)" for old j q' s2
  proof -
    obtain x where "x \<in> set (t_peers s1)" "pr_share_token x = Some old" "pr_id x = p_ID q'" using o(2) by (rule Shared_device)
    then show ?thesis using o(1) token by (auto simp: s1 ps split: if_splits)
  qed
  have gone: "Shared t token s2 = (Inl link_gone, s2)" if un: "Unshare v i q s1 = (Inr (), s2)" and nf: "t_faults s2 = []" for s2
  proof -
    obtain q' u where set': "SetPeerShare (p_ID p) [] None s1 = (Inr q', u)" and rec: "Record v (ForPeer ''device.unshared'' i q) u = (Inr (), s2)"
      using un q token unfolding Unshare_def by (auto elim!: bnd_InrE)
    from keeps_run[OF keeps_devices_Record _ rec] have "t_peers s2 = t_peers u" using devices_fields(2) by blast
    moreover obtain r' where "t_peers u = map (\<lambda>x. if pr_id x = p_ID p then shared_row [] None x else x) (t_peers s1)"
      using set' by (rule SetPeerShare_Inr)
    ultimately show ?thesis using others token nf by (intro Shared_none) (auto simp: s1 ps)
  qed
  show ?thesis
    using q Shared_row[OF nf token found scan, of t] old gone by (intro conjI allI impI) blast+
qed

lemma faults_stmt: "(\<And>s. t_faults (snd (f s)) = t_faults s) \<Longrightarrow> keeps (\<lambda>s. t_faults s = []) (stmt f)"
  by (simp add: keeps_def stmt_def)

lemma faults_Record: "keeps (\<lambda>s. t_faults s = []) (Record v e)"
proof -
  have tell: "keeps (\<lambda>s. t_faults s = []) (modify (\<lambda>s. s\<lparr>sv_notifier := f (sv_notifier s)\<rparr>))" for f :: "notifier \<Rightarrow> notifier"
    by (rule keeps_modify) simp
  show ?thesis
    unfolding Record_def AddEvent_def dispatcher_Queue_def QueueDeliveries_def
    by (intro prog_rules tell faults_stmt) (simp_all add: Let_def)
qed

definition desk_world :: "fake world" where
  "desk_world = world_of used_db new_fake"

lemma desk_world_fields: "t_peers desk_world = [alice_row]" "t_faults desk_world = []" "db_inv desk_world"
  "instance_by_id 1 desk_world = Some ((instance_row_of 0 office)\<lparr>ir_id := 1\<rparr>)"
proof -
  show "t_peers desk_world = [alice_row]" "t_faults desk_world = []"
    by (simp_all add: desk_world_def used_db_def office_db_def empty_db_def)
  have "devices desk_world = devices used_db" by (simp add: desk_world_def)
  then show "db_inv desk_world"
    using devices_db_inv used_db_inv devices_fields
    by (simp add: db_inv_def instances_inv_def peers_inv_def usage_inv_def peer_row_ok_def instance_by_id_def devices_def db.defs)
  show "instance_by_id 1 desk_world = Some ((instance_row_of 0 office)\<lparr>ir_id := 1\<rparr>)"
    by (simp add: desk_world_def used_db_def office_db_def instance_by_id_def)
qed

lemma share_link_opens_its_device_witness:
  "\<exists>q s1. Share (utc_env 0) ''tok'' office (alice\<lparr>p_ID := 1\<rparr>) None desk_world = (Inr q, s1) \<and> p_ID q = 1 \<and>
     Shared 5 ''tok'' s1 = bnd (InstanceByID (p_InstanceID q)) (\<lambda>j. ret (j, q)) s1"
proof -
  have "pr_id alice_row = 1" "pr_instance_id alice_row = 1" by (simp_all add: alice_row_def peer_row_of_def alice_def blank_peer_def)
  moreover obtain q where scan: "scanPeer (shared_row ''tok'' None alice_row) = Inr q"
    using scanPeer_shared[OF scanPeer_row_of[where p = alice and now = 0 and n = "0x0A080002" and k = 1]] unfolding alice_row_def by (simp add: alice_def blank_peer_def)
  ultimately obtain s0 where set: "SetPeerShare 1 ''tok'' None desk_world = (Inr q, s0)" and nf: "t_faults s0 = []"
    by (simp add: SetPeerShare_def shared_row_def update_peer_def peer_by_id_def desk_world_fields peer_clash_def mapErr_def bnd_def thn_def
        expectOneRow_def PeerByID_def)
  obtain s1 where rec: "Record (utc_env 0) (ForPeer ''device.shared'' office q) s0 = (Inr (), s1)" by (rule Record_run)
  have nf1: "t_faults s1 = []" using keeps_run[OF faults_Record nf rec] .
  have run: "Share (utc_env 0) ''tok'' office (alice\<lparr>p_ID := 1\<rparr>) None desk_world = (Inr q, s1)"
    by (simp add: Share_def set rec bnd_def thn_def Let_def)
  show ?thesis
    using share_link_opens_its_device[OF desk_world_fields(3) run nf1, of 5] run by (simp add: nullTime_def timeOf_def)
qed

section \<open>Commands that reach a machine\<close>

text \<open>
  C26. Creating a device saves it or leaves the database as it was, whatever becomes of the tunnel: a
  command that fails changed nothing, and one that returns the device, with or without an error of the
  tunnel, did to the tables exactly what \<open>CreatePeer\<close> does.
\<close>

theorem create_device_saved_or_nothing:
  "case peer_Create v (Apply mg) i p s of
     (Inl e, s') \<Rightarrow> devices s' = devices s
   | (Inr (q, err), s') \<Rightarrow> \<exists>t. CreatePeer (env_now v) p s = (Inr q, t) \<and> devices s' = devices t"
  by (rule manager_tunnels.Create_saves)

text \<open>
  A command on a group updates the tunnel of every server it reached once, however many of the
  devices are on it and also when it stopped at an error half way; without an error it reached them all.
\<close>

theorem group_tunnels_once:
  shows "\<exists>err touched out t k. each_loop save [] 0 [] [] ps s = (Inr (err, touched, out), t) \<and>
    distinct touched \<and> set touched = p_InstanceID ` set (take k ps) \<and> (if err = None then k = length ps else k \<le> length ps) \<and>
    peer_each tunnel ps save s = bnd (apply_each tunnel touched) (\<lambda>errs.
      case err of Some e \<Rightarrow> throw e
      | None \<Rightarrow> (case errors_Join errs of Some e \<Rightarrow> throw (applyError e) | None \<Rightarrow> ret out)) t"
proof -
  obtain err :: "err option" and touched out t where run: "each_loop save [] 0 [] [] ps s = (Inr (err, touched, out), t)"
    using each_loop_total by blast
  obtain k where "distinct touched" "k \<le> length ps" "set touched = p_InstanceID ` set (take k ps)" "err = None \<longrightarrow> k = length ps"
    using each_loop_touched[OF run] by auto
  then show ?thesis using run by (intro exI[of _ err] exI[of _ touched] exI[of _ out] exI[of _ t] exI[of _ k]) (auto simp: peer_each_def bnd_def)
qed

section \<open>Deleting a server\<close>

lemma peers_DeleteInstance:
  assumes "filter (\<lambda>r. pr_instance_id r = k) ps = []"
  shows "keeps (\<lambda>s. t_peers s = ps) (DeleteInstance k)"
proof -
  have "filter (\<lambda>r. pr_instance_id r \<noteq> k) ps = ps" using assms by (auto simp: filter_empty_conv intro: filter_True)
  then have "keeps (\<lambda>s. t_peers s = ps) (delete_instance k)"
    unfolding delete_instance_def drop_peers_def by (intro keeps_stmt) auto
  then show ?thesis unfolding DeleteInstance_def expectOneRow_def by (intro keeps_bnd keeps_mapErr keeps_if keeps_throw keeps_ret)
qed

lemma keeps_peers_devices: "(\<And>c. keeps (\<lambda>s. devices s = c) m) \<Longrightarrow> keeps (\<lambda>s. t_peers s = ps) m"
  unfolding keeps_def using devices_fields(2) by blast

lemma count_of_rows:
  "count_of (map (\<lambda>k. (k, length (filter (\<lambda>r. pr_instance_id r = k) ps))) (remdups (map pr_instance_id ps))) k
     = length (filter (\<lambda>r. pr_instance_id r = k) ps)"
proof -
  have "map_of (map (\<lambda>k. (k, f k)) ks) k = (if k \<in> set ks then Some (f k) else None)" for f :: "int \<Rightarrow> nat" and ks
    by (induction ks) auto
  then show ?thesis by (auto simp: count_of_def filter_empty_conv)
qed

text \<open>
  C25. Without force=true the API never deletes a device together with its server, whatever fails on
  the way: a server that has devices is not deleted, and one that has none takes no device with it.
\<close>

theorem delete_without_force_keeps_devices:
  fixes s :: "('m, 'z) api_scheme"
  assumes "Query_Get r ''force'' \<noteq> ''true''"
  shows "t_peers (snd (v1DeleteServer sv r s)) = t_peers s"
proof -
  let ?I = "\<lambda>x. t_peers x = t_peers s"
  have del: "keeps ?I (thn (instance_Delete (srv_instances sv) i) NoContent :: ('m, 'z, unit) aprog)"
    if "filter (\<lambda>r. pr_instance_id r = in_ID i) (t_peers s) = []" for i
  proof -
    have "keeps ?I (NoContent :: ('m, 'z, unit) aprog)"
      unfolding NoContent_def WriteHeader_def by (rule keeps_modify) simp
    moreover have "keeps ?I (Remove mg k :: ('m, 'z, unit) aprog)" for mg k
      unfolding Remove_def by (intro keeps_peers_devices prog_rules)
    moreover have "keeps ?I (Record v e)" for v e by (intro keeps_peers_devices prog_rules)
    ultimately show ?thesis
      unfolding instance_Delete_def using peers_DeleteInstance[OF that] by (intro prog_rules)
  qed
  have load: "keeps ?I (serverFromPath r :: ('m, 'z, Instance) aprog)"
    unfolding serverFromPath_def Let_def by (intro keeps_peers_devices prog_rules)
  obtain x s1 where run: "serverFromPath r s = (x, s1)" by fastforce
  have s1: "?I s1" using keeps_run[OF load _ run] by simp
  show ?thesis
  proof (cases x)
    case (Inl e)
    then show ?thesis using run s1 by (simp add: v1DeleteServer_def bnd_def)
  next
    case (Inr i)
    obtain y s2 where counts: "PeerCounts s1 = (y, s2)" by fastforce
    have "keeps ?I (PeerCounts :: ('m, 'z, (int \<times> nat) list) aprog)"
      unfolding PeerCounts_def by (intro keeps_peers_devices prog_rules)
    from keeps_run[OF this _ counts] have s2: "?I s2" using s1 by simp
    have empty: "filter (\<lambda>r. pr_instance_id r = in_ID i) (t_peers s) = []" if y: "y = Inr cs" "\<not> count_of cs (in_ID i) > 0" for cs
    proof -
      define f where "f = (\<lambda>s :: ('m, 'z) api_scheme. map (\<lambda>k. (k, length (filter (\<lambda>r. pr_instance_id r = k) (t_peers s)))) (remdups (map pr_instance_id (t_peers s))))"
      have q: "query f s1 = (Inr cs, s2)" using counts y(1) unfolding PeerCounts_def f_def by (auto dest: mapErr_InrE)
      have "cs = f s1" using query_reads[OF q] by (simp add: f_def)
      then show ?thesis using y(2) s1 count_of_rows[of "t_peers s" "in_ID i"] by (simp add: f_def)
    qed
    have "?I (snd ((let n = count_of cs (in_ID i) in if n > 0 then throw (not_empty sv i n) else thn (instance_Delete (srv_instances sv) i) NoContent) s2))"
      if "y = Inr cs" for cs
      using empty[OF that] keepsD[OF del _] s2 by (auto simp: Let_def)
    then show ?thesis
      using run counts s1 s2 assms Inr by (cases y) (auto simp: v1DeleteServer_def bnd_def Let_def)
  qed
qed

definition desk_deletion :: hreq where
  "desk_deletion = (desk_request ''192.0.2.1:1000'' [])\<lparr>rq_PathValue := [(''id'', ''1'')]\<rparr>"

lemma delete_without_force_keeps_devices_witness:
  "t_peers (snd (v1DeleteServer desk desk_deletion (desk_state\<lparr>t_peers := [alice_row]\<rparr>))) = [alice_row]"
  using delete_without_force_keeps_devices[of desk_deletion desk "desk_state\<lparr>t_peers := [alice_row]\<rparr>"]
  by (simp add: desk_deletion_def desk_request_def Query_Get_def first_value_def)

section \<open>What others read\<close>

text \<open>
  A program that polls /api/v1/events reads of an event, byte for byte, what a webhook is sent.
\<close>

theorem polled_events_match_deliveries:
  "json_text (public_json p) = Marshal_Public p"
  by (rule public_json_text)

end
