(* ===== verification/ApiInvariant.thy ===== *)
theory ApiInvariant
  imports DeviceProperties
begin

text \<open>
  Every route of /api/v1 keeps the database consistent: the invariant of the store goes through the
  handlers, from the middleware down to the statements.
\<close>

section \<open>What keeps the invariant\<close>

lemma inv_reply [prog_rules]:
  "keeps db_inv (set_header k v :: ('m, 'z, unit) aprog)" "keeps db_inv (WriteHeader st :: ('m, 'z, unit) aprog)"
  "keeps db_inv (w_Write b :: ('m, 'z, unit) aprog)"
proof -
  have "keeps db_inv (modify f)" if "\<And>s. devices (f s) = devices s" for f :: "('m, 'z) api_scheme \<Rightarrow> ('m, 'z) api_scheme"
    by (rule keeps_modify) (simp add: devices_db_inv[OF that])
  then show "keeps db_inv (set_header k v :: ('m, 'z, unit) aprog)" "keeps db_inv (WriteHeader st :: ('m, 'z, unit) aprog)"
    "keeps db_inv (w_Write b :: ('m, 'z, unit) aprog)"
    unfolding set_header_def WriteHeader_def w_Write_def by (auto simp: devices_def db.defs)
qed

lemma inv_JSON [prog_rules]: "keeps db_inv (JSON st v :: ('m, 'z, unit) aprog)" "keeps db_inv (NoContent :: ('m, 'z, unit) aprog)"
  unfolding JSON_def NoContent_def by (intro prog_rules)+

lemma inv_WriteError [prog_rules]: "keeps db_inv (WriteError e :: ('m, 'z, unit) aprog)"
  unfolding WriteError_def by (intro prog_rules)

lemma inv_serve: "keeps db_inv h \<Longrightarrow> keeps db_inv (serve h)"
  unfolding serve_def by (intro prog_rules)

lemma inv_stmt: "(\<And>s. db_inv (snd (f s)) = db_inv s) \<Longrightarrow> keeps db_inv (stmt f)"
  by (rule keeps_stmt) simp_all

lemma inv_all_of [prog_rules]: "keeps db_inv m \<Longrightarrow> keeps db_inv (all_of m)"
  unfolding all_of_def by (intro prog_rules)

lemma inv_commands:
  "keeps db_inv (peer_Create v (srv_apply sv) i p)" "keeps db_inv (peer_Update v (srv_apply sv) i before after)"
  "keeps db_inv (ResetUsage v (srv_apply sv) i p)" "keeps db_inv (Move v printable (srv_apply sv) from to p)"
  "keeps db_inv (peer_Delete v (srv_apply sv) i p)" "keeps db_inv (UpdateGroup v (srv_apply sv) befores afters)"
  "keeps db_inv (DeleteGroup v (srv_apply sv) peers)" "keeps db_inv (ResetGroupUsage v (srv_apply sv) peers)"
  unfolding srv_apply_def by (intro manager_tunnels.commands_keep)+

section \<open>Reading\<close>

lemma inv_queries [prog_rules]:
  "keeps db_inv (PeersMonthUsage off ks now)" "keeps db_inv (PeersLimitUsage off ks now)" "keeps db_inv (Devices off f now)"
  "keeps db_inv (PeerUsage off k now days months)" "keeps db_inv Instances" "keeps db_inv PeerCounts" "keeps db_inv Nodes"
  "keeps db_inv (Events g :: ('z, Event list) psql)"
  unfolding PeersMonthUsage_def PeersLimitUsage_def Devices_def PeerUsage_def Instances_def PeerCounts_def Nodes_def Events_def limitUsage_def Let_def
  by (intro prog_rules)+

lemma keeps_Pair [prog_rules]: "keeps I (Pair x)"
  by (simp add: keeps_def)

lemma inv_on_host [prog_rules]: "keeps db_inv (on_host n op)"
  by (intro keeps_db_inv_devices prog_rules)

lemma inv_Statuses [prog_rules]: "keeps db_inv (Statuses mg is)"
proof -
  have "keeps db_inv (node_statuses mg is ks)" for ks
    by (induction ks) (auto simp: list_containers_def intro!: prog_rules split: sum.split)
  then show ?thesis unfolding Statuses_def .
qed

lemma inv_Online [prog_rules]: "keeps db_inv (Online k)"
  unfolding Online_def by (intro prog_rules)

lemma inv_views [prog_rules]:
  "keeps db_inv (v1Devices sv peers :: ('m, 'z, v1Device list) aprog)" "keeps db_inv (v1Device_of sv p :: ('m, 'z, v1Device) aprog)"
  "keeps db_inv (write_v1Device sv p :: ('m, 'z, unit) aprog)" "keeps db_inv (writeGroup sv n peers :: ('m, 'z, unit) aprog)"
  "keeps db_inv (v1Servers sv instances :: ('m, 'z, json list) aprog)" "keeps db_inv (writeV1Server sv st i :: ('m, 'z, unit) aprog)"
  "keeps db_inv (writeShare sv r st p :: ('m, 'z, unit) aprog)"
proof -
  have views: "keeps db_inv (v1_views now usage used ps :: ('m, 'z, v1Device list) aprog)" for now usage used ps
    by (induction ps) (auto intro!: prog_rules)
  show devices: "keeps db_inv (v1Devices sv peers :: ('m, 'z, v1Device list) aprog)" for peers
    unfolding v1Devices_def Let_def by (intro prog_rules views)
  show one: "keeps db_inv (v1Device_of sv p :: ('m, 'z, v1Device) aprog)"
    unfolding v1Device_of_def by (intro prog_rules devices)
  show "keeps db_inv (write_v1Device sv p :: ('m, 'z, unit) aprog)"
    unfolding write_v1Device_def by (intro prog_rules one)
  show "keeps db_inv (writeGroup sv n peers :: ('m, 'z, unit) aprog)"
    unfolding writeGroup_def by (intro prog_rules devices)
  show servers: "keeps db_inv (v1Servers sv instances :: ('m, 'z, json list) aprog)" for instances
    unfolding v1Servers_def by (intro prog_rules)
  show "keeps db_inv (writeV1Server sv st i :: ('m, 'z, unit) aprog)"
    unfolding writeV1Server_def by (intro prog_rules servers)
  show "keeps db_inv (writeShare sv r st p :: ('m, 'z, unit) aprog)"
    unfolding writeShare_def by (intro prog_rules)
qed

lemma inv_paths [prog_rules]:
  "keeps db_inv (deviceFromPath r :: ('m, 'z, Instance \<times> Peer) aprog)" "keeps db_inv (groupFromPath sv r :: ('m, 'z, string \<times> Peer list) aprog)"
  "keeps db_inv (serverFromPath r :: ('m, 'z, Instance) aprog)" "keeps db_inv (webhookFromPath r :: ('m, 'z, Webhook) aprog)"
  "keeps db_inv (targetServer sv pl skip :: ('m, 'z, Instance) aprog)"
  unfolding deviceFromPath_def groupFromPath_def serverFromPath_def webhookFromPath_def WebhookByID_def Let_def
  by (intro prog_rules)+ (auto simp: targetServer_def Pick_def Let_def split: option.split serverRef.split intro!: prog_rules)

section \<open>Writing\<close>

lemma inv_SetPeerShare [prog_rules]: "keeps db_inv (SetPeerShare k token expires)"
  by (rule keeps_SetPeerShare)

lemma inv_sharing [prog_rules]: "keeps db_inv (Share v token i p expires)" "keeps db_inv (Unshare v i p)"
  unfolding Share_def Unshare_def Let_def by (intro prog_rules)+

lemma db_inv_panel [simp]:
  "db_inv (s\<lparr>t_webhooks := a\<rparr>) = db_inv s" "db_inv (s\<lparr>t_webhook_seq := b\<rparr>) = db_inv s" "db_inv (s\<lparr>t_deliveries := c\<rparr>) = db_inv s"
  "db_inv (s\<lparr>t_delivery_seq := d\<rparr>) = db_inv s" "db_inv (s\<lparr>t_api_keys := e\<rparr>) = db_inv s" "db_inv (s\<lparr>t_idem := f\<rparr>) = db_inv s"
  by (simp_all add: db_inv_def instances_inv_def peers_inv_def usage_inv_def peer_row_ok_def instance_by_id_def)

lemma inv_webhooks [prog_rules]:
  "keeps db_inv (CreateWebhook now w)" "keeps db_inv (UpdateWebhook now w)" "keeps db_inv (DeleteWebhook k)" "keeps db_inv (Webhooks)"
  "keeps db_inv (QueueDelivery hook kind payload now)" "keeps db_inv (RetryDelivery k now)" "keeps db_inv (DeliveryByID k)"
  "keeps db_inv (Deliveries hook before limit)"
  unfolding CreateWebhook_def UpdateWebhook_def DeleteWebhook_def Webhooks_def QueueDelivery_def RetryDelivery_def DeliveryByID_def Deliveries_def
    WebhookByID_def map_delivery_def
  by (intro prog_rules keeps_db_inv_transaction inv_stmt; simp add: Let_def)+

section \<open>Handlers\<close>

lemma inv_device_handlers:
  "keeps db_inv (v1ListDevices sv r :: ('m, 'z, unit) aprog)" "keeps db_inv (v1CreateDevice sv rnd rnd' n d :: ('m, 'z, unit) aprog)"
  "keeps db_inv (v1GetDevice sv r :: ('m, 'z, unit) aprog)" "keeps db_inv (v1UpdateDevice sv r d :: ('m, 'z, unit) aprog)"
  "keeps db_inv (v1DeleteDevice sv r :: ('m, 'z, unit) aprog)" "keeps db_inv (v1DeviceConfig sv r :: ('m, 'z, unit) aprog)"
  "keeps db_inv (v1DeviceUsage sv r :: ('m, 'z, unit) aprog)" "keeps db_inv (v1ResetDeviceUsage sv r :: ('m, 'z, unit) aprog)"
  "keeps db_inv (v1MoveDevice sv r pl :: ('m, 'z, unit) aprog)"
  unfolding v1ListDevices_def v1CreateDevice_def v1GetDevice_def v1UpdateDevice_def v1DeleteDevice_def v1DeviceConfig_def v1DeviceUsage_def
    v1ResetDeviceUsage_def v1MoveDevice_def api_writeConfig_def
  by (intro prog_rules inv_commands)+

lemma inv_share_handlers:
  "keeps db_inv (v1GetShare sv r :: ('m, 'z, unit) aprog)" "keeps db_inv (v1CreateShare sv token r e :: ('m, 'z, unit) aprog)"
  "keeps db_inv (v1DeleteShare sv r :: ('m, 'z, unit) aprog)"
  unfolding v1GetShare_def v1CreateShare_def v1DeleteShare_def createShare_def deleteShare_def
  by (intro prog_rules)+

lemma inv_group_handlers:
  "keeps db_inv (v1GetGroup sv r :: ('m, 'z, unit) aprog)" "keeps db_inv (v1UpdateGroup sv r g :: ('m, 'z, unit) aprog)"
  "keeps db_inv (v1DeleteGroup sv r :: ('m, 'z, unit) aprog)" "keeps db_inv (v1ResetGroupUsage sv r :: ('m, 'z, unit) aprog)"
  unfolding v1GetGroup_def v1UpdateGroup_def v1DeleteGroup_def v1ResetGroupUsage_def
  by (intro prog_rules inv_commands)+

lemma inv_server_handlers:
  "keeps db_inv (v1ListServers sv r :: ('m, 'z, unit) aprog)" "keeps db_inv (v1GetServer sv r :: ('m, 'z, unit) aprog)"
  "keeps db_inv (v1CreateServer sv rnd c :: ('m, 'z, unit) aprog)" "keeps db_inv (v1UpdateServer sv r c :: ('m, 'z, unit) aprog)"
  "keeps db_inv (v1DeleteServer sv r :: ('m, 'z, unit) aprog)" "keeps db_inv (v1ListNodes sv :: ('m, 'z, unit) aprog)"
  "keeps db_inv (v1ListEvents r :: ('m, 'z, unit) aprog)"
  unfolding v1ListServers_def v1GetServer_def v1CreateServer_def v1UpdateServer_def v1DeleteServer_def v1ListNodes_def v1ListEvents_def
    service_PublicHost_def instance_Settings_def Let_def
  by (intro prog_rules keeps_instance_Create keeps_instance_ops)+

lemma inv_webhook_handlers:
  "keeps db_inv (v1ListWebhooks :: ('m, 'z, unit) aprog)" "keeps db_inv (handleCreateWebhook sv rnd r w :: ('m, 'z, unit) aprog)"
  "keeps db_inv (handleGetWebhook r :: ('m, 'z, unit) aprog)" "keeps db_inv (handleUpdateWebhook sv r w :: ('m, 'z, unit) aprog)"
  "keeps db_inv (handleDeleteWebhook sv r :: ('m, 'z, unit) aprog)" "keeps db_inv (handlePingWebhook sv r :: ('m, 'z, unit) aprog)"
  "keeps db_inv (handleListDeliveries r :: ('m, 'z, unit) aprog)" "keeps db_inv (handleRetryDelivery sv r :: ('m, 'z, unit) aprog)"
  unfolding v1ListWebhooks_def handleCreateWebhook_def handleGetWebhook_def handleUpdateWebhook_def handleDeleteWebhook_def handlePingWebhook_def
    handleListDeliveries_def handleRetryDelivery_def
  by (intro prog_rules)+

lemma inv_endpoints:
  assumes "e \<in> set (v1Endpoints sv r x :: ('m, 'z) v1Endpoint list)"
  shows "keeps db_inv (ep_h e)"
proof -
  have "list_all (\<lambda>e. keeps db_inv (ep_h e)) (device_endpoints sv r x :: ('m, 'z) v1Endpoint list)"
    by (simp add: device_endpoints_def endpoint_def inv_device_handlers inv_share_handlers)
  moreover have "list_all (\<lambda>e. keeps db_inv (ep_h e)) (group_endpoints sv r x :: ('m, 'z) v1Endpoint list)"
    by (simp add: group_endpoints_def endpoint_def inv_group_handlers)
  moreover have "list_all (\<lambda>e. keeps db_inv (ep_h e)) (server_endpoints sv r x :: ('m, 'z) v1Endpoint list)"
    by (simp add: server_endpoints_def endpoint_def inv_server_handlers)
  moreover have "list_all (\<lambda>e. keeps db_inv (ep_h e)) (webhook_endpoints sv r x :: ('m, 'z) v1Endpoint list)"
    by (simp add: webhook_endpoints_def endpoint_def inv_webhook_handlers)
  ultimately show ?thesis using assms by (auto simp: v1Endpoints_def list_all_iff)
qed

section \<open>The middleware\<close>

lemma inv_idempotency [prog_rules]:
  "keeps db_inv (ClaimIdempotencyKey k key hash now :: ('z, StoredResponse option) psql)" "keeps db_inv (FinishIdempotencyKey k key st)" "keeps db_inv (ReleaseIdempotencyKey k key)"
proof -
  have drop: "keeps db_inv (drop_idem P)" for P unfolding drop_idem_def by (rule inv_stmt) simp
  have new: "keeps db_inv (insert_idem q)" for q unfolding insert_idem_def by (rule inv_stmt) simp
  have body: "keeps db_inv (claim_body k key hash now)" unfolding claim_body_def by (intro prog_rules drop new)
  show "keeps db_inv (ClaimIdempotencyKey k key hash now :: ('z, StoredResponse option) psql)"
  proof (rule keepsI)
    fix s :: "'z panel_scheme" assume s: "db_inv s"
    show "db_inv (snd (ClaimIdempotencyKey k key hash now s))"
    proof (cases rule: query_cases[of "\<lambda>_. ()" s])
      case (fault bs)
      then show ?thesis using s by (simp add: ClaimIdempotencyKey_def)
    next
      case (ok bs)
      obtain r s2 where m: "claim_body k key hash now (s\<lparr>t_faults := bs\<rparr>) = (r, s2)" by fastforce
      have s2: "db_inv s2" using keeps_run[OF body _ m] s by simp
      show ?thesis
        using ok m s2 s
        by (cases rule: query_cases[of "\<lambda>_. ()" s2]) (auto simp: ClaimIdempotencyKey_def rollback_def split: sum.splits option.splits)
    qed
  qed
  show "keeps db_inv (FinishIdempotencyKey k key st)" "keeps db_inv (ReleaseIdempotencyKey k key)"
    unfolding FinishIdempotencyKey_def ReleaseIdempotencyKey_def by (intro prog_rules drop inv_stmt; simp)+
qed

lemma inv_idempotent:
  assumes "keeps db_inv h"
  shows "keeps db_inv (idempotent sv k r h :: ('m, 'z, unit) aprog)"
proof -
  have last: "keeps db_inv (modify (\<lambda>s. s\<lparr>rw_last := None\<rparr>) :: ('m, 'z, unit) aprog)"
    by (rule keeps_modify) (simp add: db_inv_def instances_inv_def peers_inv_def usage_inv_def peer_row_ok_def instance_by_id_def)
  show ?thesis
    unfolding idempotent_def claimed_def captured_def replay_def using assms by (intro prog_rules last)
qed

text \<open>
  C1. Whatever is sent to /api/v1, by whom and with what faults of the database and the machines on the
  way, the database stays consistent.
\<close>

theorem v1_keeps_database_consistent:
  fixes s :: "('m, 'z) api_scheme"
  assumes "db_inv s"
  shows "db_inv (snd (v1Routes sv x pat r s))"
proof -
  have allow: "keeps db_inv (limiter_allow k now :: ('m, 'z, bool \<times> gotime) aprog)" for k now
    by (rule keepsI) (auto simp: limiter_allow_def db_inv_def instances_inv_def peers_inv_def usage_inv_def peer_row_ok_def instance_by_id_def
        split: prod.split)
  have keys: "keeps db_inv (TouchAPIKey k ip now)" "keeps db_inv (APIKeyByToken h)" for k ip now h
    unfolding TouchAPIKey_def APIKeyByToken_def by (intro prog_rules inv_stmt; simp)+
  have "keeps db_inv (run_endpoint sv' k r e :: ('m, 'z, unit) aprog)"
    if "find (\<lambda>e. ep_pattern e = pat) (v1Endpoints sv' r x) = Some e" for sv' k e
  proof -
    have h: "keeps db_inv (ep_h e)" using that by (intro inv_endpoints[of e sv' r x]) (auto simp: find_Some_iff)
    show ?thesis unfolding run_endpoint_def requireScope_def Let_def by (intro prog_rules inv_idempotent inv_serve h)
  qed
  then have "keeps db_inv (v1Routes sv x pat r :: ('m, 'z, unit) aprog)"
    unfolding v1Routes_def requireAPIKey_def by (intro prog_rules inv_serve allow keys) blast
  then show ?thesis using assms by (simp add: keeps_def)
qed

lemma desk_state_inv: "db_inv desk_state"
proof -
  have "devices desk_state = (devices office_world)\<lparr>t_users := [desk_user]\<rparr>"
    by (simp add: desk_state_def devices_def world.defs db.defs)
  then show ?thesis
    using office_world_inv
    by (simp add: db_inv_def instances_inv_def peers_inv_def usage_inv_def peer_row_ok_def instance_by_id_def desk_state_def world.defs)
qed

lemma v1_keeps_database_consistent_witness:
  "db_inv (snd (v1Routes desk desk_input ''DELETE /api/v1/servers/{id}'' desk_deletion desk_state))"
  using desk_state_inv by (rule v1_keeps_database_consistent)

end
