(* ===== verification/BackupCrypt.thy ===== *)
theory BackupCrypt
  imports Auth
begin

text \<open>
  internal/backup/crypt.go: the encrypted form of a backup, a header and chunks sealed with an AEAD. The
  cipher (AES-256-GCM) and Argon2 are parameters; the destination is any \<open>io.Writer\<close>, a program on a state
  of type \<open>'w\<close>, and the source is what a reader of it still has to give and how it ends.
\<close>

section \<open>Errors\<close>

text \<open>
  The sentinels of internal/backup. \<open>ErrInvalidArchive d\<close> is
  \<open>fmt.Errorf("%w: d", ErrInvalidArchive)\<close>, without the colon when \<open>d\<close> is empty; \<open>Other\<close> is any other error, as those of the store.
\<close>

datatype backup_err =
    ErrPassphraseRequired
  | ErrWrongPassphrase
  | ErrInvalidArchive string
  | ErrNewerArchive
  | ErrBusy
  | ErrNotConfigured
  | ErrObjectNotFound
  | EOF
  | Other err

fun backup_Error :: "backup_err \<Rightarrow> string" where
  "backup_Error ErrPassphraseRequired = ''this backup is encrypted; enter its passphrase''"
| "backup_Error ErrWrongPassphrase = ''the passphrase is wrong, or the backup is damaged''"
| "backup_Error (ErrInvalidArchive d) = ''this file is not a Tunploy backup'' @ (if d = [] then [] else '': '' @ d)"
| "backup_Error ErrNewerArchive = ''this backup was made by a newer version of Tunploy; update the panel first''"
| "backup_Error ErrBusy = ''another backup or restore is running''"
| "backup_Error ErrNotConfigured = ''no S3 bucket is connected''"
| "backup_Error ErrObjectNotFound = ''backup not found in the bucket''"
| "backup_Error EOF = ''EOF''"
| "backup_Error (Other e) = err_Error e"

section \<open>Header, nonces and keys\<close>

definition bytes_of :: "string \<Rightarrow> bytes" where
  "bytes_of s = map (\<lambda>c. word_of_nat (byte c)) s"

definition cryptMagic :: bytes where "cryptMagic = bytes_of ''TPBKENC''"
definition cryptVersion :: "8 word" where "cryptVersion = 1"
definition chunkSize :: nat where "chunkSize = 65536"
definition tagSize :: nat where "tagSize = 16"
definition saltSize :: nat where "saltSize = 16"
definition nonceSize :: nat where "nonceSize = 12"
definition headerSize :: nat where "headerSize = length cryptMagic + 1 + 4 + 4 + 1 + saltSize + nonceSize"
definition kdfThreads :: "8 word" where "kdfThreads = 1"
definition maxKDFMemory :: int where "maxKDFMemory = 1048576"
definition maxKDFTime :: int where "maxKDFTime = 10"
definition kdfTime :: int where "kdfTime = 3"
definition kdfMemory :: int where "kdfMemory = 65536"
definition MinPassphraseLen :: nat where "MinPassphraseLen = 12"

text \<open>\<open>cipher.AEAD\<close>: nonce, text and additional data.\<close>

record aead =
  ae_Seal :: "bytes \<Rightarrow> bytes \<Rightarrow> bytes \<Rightarrow> bytes"
  ae_Open :: "bytes \<Rightarrow> bytes \<Rightarrow> bytes \<Rightarrow> bytes option"

definition uint_of :: "bytes \<Rightarrow> int" where
  "uint_of bs = int (group_number 256 (map unat bs))"

definition slice :: "nat \<Rightarrow> nat \<Rightarrow> 'a list \<Rightarrow> 'a list" where
  "slice i n xs = take n (drop i xs)"

definition newAEAD :: "argon \<Rightarrow> (bytes \<Rightarrow> aead) \<Rightarrow> string \<Rightarrow> bytes \<Rightarrow> backup_err + aead" where
  "newAEAD argon2 gcm passphrase header =
     (let start = length cryptMagic + 1;
          time = uint_of (slice start 4 header);
          memory = uint_of (slice (start + 4) 4 header);
          threads = uint (header ! (start + 8));
          salt = slice (start + 9) saltSize header
      in if time = 0 \<or> time > maxKDFTime \<or> memory = 0 \<or> memory > maxKDFMemory \<or> threads = 0
         then Inl (ErrInvalidArchive ''unusual key settings'')
         else Inr (gcm (argon2 passphrase salt time memory threads 32)))"

definition chunkNonce :: "bytes \<Rightarrow> 64 word \<Rightarrow> bytes" where
  "chunkNonce base n =
     take (nonceSize - 8) base @ map2 xor (drop (nonceSize - 8) base) (big_endian 8 (uint n))"

definition chunkAAD :: "bytes \<Rightarrow> bool \<Rightarrow> bytes" where
  "chunkAAD header final = header @ [if final then 1 else 0]"

section \<open>Writing\<close>

text \<open>A writer either takes all the bytes or fails.\<close>

type_synonym 'w io_writer = "bytes \<Rightarrow> ('w, unit) prog"

record 'w encryptWriter =
  ew_w :: 'w
  ew_aead :: aead
  ew_header :: bytes
  ew_nonce :: bytes
  ew_count :: "64 word"
  ew_buf :: bytes

definition newEncryptWriter ::
  "argon \<Rightarrow> (bytes \<Rightarrow> aead) \<Rightarrow> err + bytes \<Rightarrow> 'w io_writer \<Rightarrow> 'w \<Rightarrow> string \<Rightarrow> (backup_err + 'w encryptWriter) \<times> 'w" where
  "newEncryptWriter argon2 gcm rnd wr w passphrase =
     (case rnd of
        Inl e \<Rightarrow> (Inl (Other e), w)
      | Inr random \<Rightarrow>
        let header = cryptMagic @ [cryptVersion] @ big_endian 4 kdfTime @ big_endian 4 kdfMemory @ [kdfThreads] @ random in
        (case newAEAD argon2 gcm passphrase header of
           Inl e \<Rightarrow> (Inl e, w)
         | Inr a \<Rightarrow>
           (case wr header w of
              (Inl e, w') \<Rightarrow> (Inl (Other e), w')
            | (Inr _, w') \<Rightarrow>
              (Inr \<lparr>ew_w = w', ew_aead = a, ew_header = header, ew_nonce = slice (headerSize - nonceSize) nonceSize header,
                 ew_count = 0, ew_buf = []\<rparr>, w'))))"

definition seal :: "'w io_writer \<Rightarrow> bool \<Rightarrow> ('w encryptWriter, unit) prog" where
  "seal wr final e =
     (let out = ae_Seal (ew_aead e) (chunkNonce (ew_nonce e) (ew_count e)) (ew_buf e) (chunkAAD (ew_header e) final);
          (r, w') = wr out (ew_w e)
      in (r, e\<lparr>ew_w := w', ew_count := ew_count e + 1, ew_buf := []\<rparr>))"

lemma seal_buf [simp]: "ew_buf (snd (seal wr final e)) = []"
  by (simp add: seal_def Let_def split: prod.split)

text \<open>
  The loop of \<open>Write\<close>. The buffer never holds more than a chunk; if it did, Go would panic on the bounds of
  the slice it takes.
\<close>

definition slice_bounds :: err where "slice_bounds = NewError ''runtime error: slice bounds out of range''"

function write_loop :: "'w io_writer \<Rightarrow> bytes \<Rightarrow> 'w encryptWriter \<Rightarrow> (err + unit) \<times> 'w encryptWriter" where
  "write_loop wr p e =
     (if p = [] then (Inr (), e)
      else case (if length (ew_buf e) = chunkSize then seal wr False e else (Inr (), e)) of
        (Inl x, e') \<Rightarrow> (Inl x, e')
      | (Inr _, e') \<Rightarrow>
        if chunkSize < length (ew_buf e') then (Inl slice_bounds, e')
        else let n = min (chunkSize - length (ew_buf e')) (length p) in
             write_loop wr (drop n p) (e'\<lparr>ew_buf := ew_buf e' @ take n p\<rparr>))"
  by pat_completeness auto
termination
proof (relation "measure (\<lambda>(wr, p, e). length p)", goal_cases)
  case (2 wr p e res e' x n)
  have "length (ew_buf e') \<noteq> chunkSize"
  proof (cases "length (ew_buf e) = chunkSize")
    case True
    then have "seal wr False e = (res, e')" using 2 by simp
    then have "ew_buf e' = []" by (metis seal_buf snd_conv)
    then show ?thesis by (simp add: chunkSize_def)
  next
    case False
    then show ?thesis using 2 by auto
  qed
  then show ?case using 2 by auto
qed simp

declare write_loop.simps [simp del]

definition encrypt_Write :: "'w io_writer \<Rightarrow> bytes \<Rightarrow> ('w encryptWriter, int) prog" where
  "encrypt_Write wr p = thn (write_loop wr p) (ret (int (length p)))"

definition encrypt_Close :: "'w io_writer \<Rightarrow> ('w encryptWriter, unit) prog" where
  "encrypt_Close wr = seal wr True"

section \<open>Reading\<close>

text \<open>What a \<open>bufio.Reader\<close> still has, and the error it ends with; \<open>None\<close> is the end of the file.\<close>

record source =
  sr_data :: bytes
  sr_end :: "err option"

text \<open>How \<open>io.ReadFull\<close> ends: with all the bytes, with fewer at the end of the file, or with an error.\<close>

datatype read_end = Full | AtEnd | Failed err

definition io_ReadFull :: "nat \<Rightarrow> source \<Rightarrow> bytes \<times> read_end \<times> source" where
  "io_ReadFull n r =
     (let got = take n (sr_data r); r' = r\<lparr>sr_data := drop n (sr_data r)\<rparr> in
      if length got = n then (got, Full, r')
      else case sr_end r of None \<Rightarrow> (got, AtEnd, r') | Some e \<Rightarrow> (got, Failed e, r'))"

definition peek_is_EOF :: "source \<Rightarrow> bool" where
  "peek_is_EOF r = (sr_data r = [] \<and> sr_end r = None)"

definition isEncrypted :: "source \<Rightarrow> bool" where
  "isEncrypted r = (take (length cryptMagic) (sr_data r) = cryptMagic)"

record decryptReader =
  dr_r :: source
  dr_aead :: aead
  dr_header :: bytes
  dr_nonce :: bytes
  dr_count :: "64 word"
  dr_plain :: bytes
  dr_done :: bool

definition newDecryptReader ::
  "argon \<Rightarrow> (bytes \<Rightarrow> aead) \<Rightarrow> source \<Rightarrow> string \<Rightarrow> backup_err + decryptReader" where
  "newDecryptReader argon2 gcm r passphrase =
     (if passphrase = [] then Inl ErrPassphraseRequired
      else case io_ReadFull headerSize r of
        (got, AtEnd, _) \<Rightarrow> Inl (ErrInvalidArchive (if got = [] then ''EOF'' else ''unexpected EOF''))
      | (got, Failed e, _) \<Rightarrow> Inl (ErrInvalidArchive (err_Error e))
      | (header, Full, r') \<Rightarrow>
        if header ! length cryptMagic \<noteq> cryptVersion then Inl ErrNewerArchive
        else case newAEAD argon2 gcm passphrase header of
            Inl e \<Rightarrow> Inl e
          | Inr a \<Rightarrow> Inr \<lparr>dr_r = r', dr_aead = a, dr_header = header,
              dr_nonce = slice (headerSize - nonceSize) nonceSize header, dr_count = 0, dr_plain = [], dr_done = False\<rparr>)"

definition ErrUnexpectedEOF :: err where "ErrUnexpectedEOF = NewError ''unexpected EOF''"

definition failure :: "read_end \<Rightarrow> err option" where
  "failure how = (case how of Failed e \<Rightarrow> if errors_Is e ErrUnexpectedEOF then None else Some e | _ \<Rightarrow> None)"

definition open_chunk :: "decryptReader \<Rightarrow> backup_err option \<times> decryptReader" where
  "open_chunk d =
     (case io_ReadFull (chunkSize + tagSize) (dr_r d) of (got, how, r') \<Rightarrow>
        (case failure how of
           Some e \<Rightarrow> (Some (Other e), d\<lparr>dr_r := r'\<rparr>)
         | None \<Rightarrow>
           let d' = d\<lparr>dr_r := r', dr_done := dr_done d \<or> how \<noteq> Full \<or> peek_is_EOF r'\<rparr> in
           case ae_Open (dr_aead d') (chunkNonce (dr_nonce d') (dr_count d')) got (chunkAAD (dr_header d') (dr_done d')) of
             None \<Rightarrow> (Some ErrWrongPassphrase, d')
           | Some plain \<Rightarrow> (None, d'\<lparr>dr_count := dr_count d' + 1, dr_plain := plain\<rparr>)))"

text \<open>What is left to do: every chunk that opens consumes bytes or is the last.\<close>

definition dr_left :: "decryptReader \<Rightarrow> nat" where
  "dr_left d = length (sr_data (dr_r d)) + (if dr_done d then 0 else 1)"

lemma open_chunk_left:
  assumes "open_chunk d = (None, d')" and "\<not> dr_done d"
  shows "dr_left d' < dr_left d"
  using assms
  by (auto simp: open_chunk_def io_ReadFull_def failure_def dr_left_def Let_def chunkSize_def tagSize_def
      split: option.splits read_end.splits prod.splits if_splits)

text \<open>The loop of \<open>Read\<close> until there is something to give, or the error it returns.\<close>

function fill :: "decryptReader \<Rightarrow> backup_err option \<times> decryptReader" where
  "fill d =
     (if dr_plain d \<noteq> [] then (None, d)
      else if dr_done d then (Some EOF, d)
      else case open_chunk d of (Some e, d') \<Rightarrow> (Some e, d') | (None, d') \<Rightarrow> fill d')"
  by pat_completeness auto
termination
  by (relation "measure dr_left") (simp_all add: open_chunk_left)

declare fill.simps [simp del]

definition decrypt_Read :: "nat \<Rightarrow> decryptReader \<Rightarrow> (backup_err + bytes) \<times> decryptReader" where
  "decrypt_Read n d =
     (case fill d of
        (Some e, d') \<Rightarrow> (Inl e, d')
      | (None, d') \<Rightarrow> (Inr (take n (dr_plain d')), d'\<lparr>dr_plain := drop n (dr_plain d')\<rparr>))"

text \<open>A client that reads to the end with a buffer of \<open>Suc k\<close> bytes: what it got and how it ended.\<close>

lemma fill_cases:
  "fill d = (if dr_plain d \<noteq> [] then (None, d)
      else if dr_done d then (Some EOF, d)
      else case open_chunk d of (Some e, d') \<Rightarrow> (Some e, d') | (None, d') \<Rightarrow> fill d')"
  by (rule fill.simps)

lemma fill_None:
  assumes "fill d = (None, d')"
  shows "dr_plain d' \<noteq> [] \<and> (d' = d \<or> dr_left d' < dr_left d)"
  using assms
proof (induction d rule: fill.induct)
  case (1 d)
  show ?case
  proof (cases "dr_plain d \<noteq> []")
    case True
    then show ?thesis using 1(2) by (simp add: fill_cases)
  next
    case False
    then have nd: "\<not> dr_done d" using 1(2) by (auto simp: fill_cases split: if_splits)
    then obtain d1 where d1: "open_chunk d = (None, d1)" "fill d1 = (None, d')"
      using 1(2) False by (subst (asm) fill_cases) (auto split: prod.splits option.splits)
    then have "dr_left d1 < dr_left d" using open_chunk_left nd by blast
    then show ?thesis using 1(1)[OF _ nd d1(1)[symmetric] refl d1(2)] False by auto
  qed
qed

function read_all :: "nat \<Rightarrow> decryptReader \<Rightarrow> bytes \<times> backup_err" where
  "read_all k d =
     (case decrypt_Read (Suc k) d of
        (Inl e, d') \<Rightarrow> ([], e)
      | (Inr b, d') \<Rightarrow> (case read_all k d' of (rest, e) \<Rightarrow> (b @ rest, e)))"
  by pat_completeness auto
termination
proof (relation "measures [\<lambda>(k, d). dr_left d, \<lambda>(k, d). length (dr_plain d)]", simp, goal_cases)
  case (1 k d res d' b)
  then obtain d1 where "fill d = (None, d1)" "d' = d1\<lparr>dr_plain := drop (Suc k) (dr_plain d1)\<rparr>"
    by (auto simp: decrypt_Read_def split: prod.splits option.splits)
  then show ?case using fill_None[of d d1] by (auto simp: dr_left_def)
qed

declare read_all.simps [simp del]

end
