(* ===== verification/CryptProperties.thy ===== *)
theory CryptProperties
  imports BackupCrypt "HOL-Library.Sublist"
begin

unbundle bit_operations_syntax

text \<open>
  Properties of encrypted backups (internal/backup/crypt.go). \<open>chunks\<close> is the specification of how text is
  cut, \<open>sealed_items\<close> what the writer gives the cipher. What is written is read back, and a reader of any
  other bytes gives at most a part from the start and never the end of the file.
\<close>

section \<open>The text in chunks\<close>

function chunks :: "'a list \<Rightarrow> 'a list list" where
  "chunks data = (if length data \<le> chunkSize then [data] else take chunkSize data # chunks (drop chunkSize data))"
  by pat_completeness auto
termination
  by (relation "measure length") (auto simp: chunkSize_def)

declare chunks.simps [simp del]

lemma chunks_not_Nil [simp]: "chunks data \<noteq> []"
  by (subst chunks.simps) simp

lemma concat_chunks [simp]: "concat (chunks data) = data"
proof (induction data rule: chunks.induct)
  case (1 data)
  then show ?case by (subst chunks.simps) simp
qed

lemma chunks_size: "c \<in> set (chunks data) \<Longrightarrow> length c \<le> chunkSize"
proof (induction data rule: chunks.induct)
  case (1 data)
  then show ?case by (subst (asm) (2) chunks.simps) (auto split: if_splits)
qed

text \<open>All chunks but the last are full.\<close>

lemma chunks_full:
  assumes "chunks data = c # cs" and "cs \<noteq> []"
  shows "length c = chunkSize"
  using assms by (subst (asm) chunks.simps) (auto split: if_splits)

text \<open>The chunks sealed, counting from \<open>i\<close>; the last one is marked.\<close>

fun seal_chunks :: "aead \<Rightarrow> bytes \<Rightarrow> bytes \<Rightarrow> 64 word \<Rightarrow> bytes list \<Rightarrow> bytes" where
  "seal_chunks a h n i [] = []"
| "seal_chunks a h n i [c] = ae_Seal a (chunkNonce n i) c (chunkAAD h True)"
| "seal_chunks a h n i (c # c' # cs) = ae_Seal a (chunkNonce n i) c (chunkAAD h False) @ seal_chunks a h n (i + 1) (c' # cs)"

section \<open>The writer\<close>

text \<open>A destination that takes everything.\<close>

definition into :: "bytes io_writer" where
  "into bs out = (Inr (), out @ bs)"

text \<open>What the writer leaves when \<open>rest\<close> is all that comes before the end.\<close>

definition finished :: "bytes encryptWriter \<Rightarrow> bytes \<Rightarrow> bytes" where
  "finished e rest = ew_w e @ seal_chunks (ew_aead e) (ew_header e) (ew_nonce e) (ew_count e) (chunks (ew_buf e @ rest))"

definition same_stream :: "bytes encryptWriter \<Rightarrow> bytes encryptWriter \<Rightarrow> bytes \<Rightarrow> bool" where
  "same_stream e e' p \<longleftrightarrow> length (ew_buf e') \<le> chunkSize \<and> (\<forall>rest. finished e' rest = finished e (p @ rest))"

lemma seal_into:
  "seal into final e = (Inr (), e\<lparr>ew_w := ew_w e @ ae_Seal (ew_aead e) (chunkNonce (ew_nonce e) (ew_count e)) (ew_buf e) (chunkAAD (ew_header e) final),
     ew_count := ew_count e + 1, ew_buf := []\<rparr>)"
  by (simp add: seal_def into_def)

lemma chunks_split:
  assumes "length b = chunkSize" and "q \<noteq> []"
  shows "chunks (b @ q) = b # chunks q"
  using assms by (subst chunks.simps) simp

lemma seal_chunks_Cons:
  "cs \<noteq> [] \<Longrightarrow> seal_chunks a h n i (c # cs) = ae_Seal a (chunkNonce n i) c (chunkAAD h False) @ seal_chunks a h n (i + 1) cs"
  by (cases cs) auto

lemma seal_full:
  assumes "length (ew_buf e) = chunkSize" and "seal into False e = (r, e')" and "rest \<noteq> []"
  shows "finished e' rest = finished e rest"
  using assms by (auto simp: seal_into finished_def chunks_split seal_chunks_Cons)

lemma write_loop_into:
  assumes "length (ew_buf e) \<le> chunkSize"
  shows "\<exists>e'. write_loop into p e = (Inr (), e') \<and> same_stream e e' p"
  using assms
proof (induction "length p" arbitrary: p e rule: less_induct)
  case less
  show ?case
  proof (cases "p = []")
    case True
    then show ?thesis using less.prems by (simp add: write_loop.simps same_stream_def)
  next
    case False
    obtain e1 where e1: "(if length (ew_buf e) = chunkSize then seal into False e else (Inr (), e)) = (Inr (), e1)"
      and room: "length (ew_buf e1) < chunkSize" and same: "\<And>rest. rest \<noteq> [] \<Longrightarrow> finished e1 rest = finished e rest"
    proof (cases "length (ew_buf e) = chunkSize")
      case True
      obtain r e1 where s: "seal into False e = (r, e1)" by fastforce
      have "r = Inr ()" and "ew_buf e1 = []" using s by (auto simp: seal_into)
      then show thesis using that[of e1] True s seal_full[OF True s] by (simp add: chunkSize_def)
    next
      case False
      then show thesis using that[of e] less.prems by simp
    qed
    let ?n = "min (chunkSize - length (ew_buf e1)) (length p)"
    let ?e2 = "e1\<lparr>ew_buf := ew_buf e1 @ take ?n p\<rparr>"
    have w: "write_loop into p e = write_loop into (drop ?n p) ?e2"
      using False room by (subst write_loop.simps) (simp add: e1 Let_def)
    have "length (drop ?n p) < length p" using False room by simp
    moreover have "length (ew_buf ?e2) \<le> chunkSize" using room by simp
    ultimately obtain e' where e': "write_loop into (drop ?n p) ?e2 = (Inr (), e')" "same_stream ?e2 e' (drop ?n p)"
      using less.hyps[of "drop ?n p" ?e2] by auto
    have "finished ?e2 (drop ?n p @ rest) = finished e1 (p @ rest)" for rest
      unfolding finished_def by (simp flip: append_assoc[of "take ?n p"])
    then have "same_stream e e' p" using e'(2) False same by (simp add: same_stream_def)
    then show ?thesis using w e'(1) by simp
  qed
qed

text \<open>Any number of writes and the end.\<close>

definition write_all :: "'w io_writer \<Rightarrow> bytes \<Rightarrow> ('w encryptWriter, unit) prog" where
  "write_all wr p = bnd (encrypt_Write wr p) (\<lambda>_. ret ())"

lemma write_all_loop [simp]: "write_all = write_loop"
  by (intro ext) (auto simp: write_all_def encrypt_Write_def thn_def bnd_def ret_def split: prod.split sum.split)

definition write_stream :: "'w io_writer \<Rightarrow> bytes list \<Rightarrow> ('w encryptWriter, unit) prog" where
  "write_stream wr ps = thn (forEach ps (write_all wr)) (encrypt_Close wr)"

lemma writes_into:
  assumes "length (ew_buf e) \<le> chunkSize"
  shows "\<exists>e'. forEach ps (write_all into) e = (Inr (), e') \<and> same_stream e e' (concat ps)"
  using assms
proof (induction ps arbitrary: e)
  case Nil
  then show ?case by (simp add: ret_def same_stream_def)
next
  case (Cons p ps)
  obtain e1 where e1: "write_loop into p e = (Inr (), e1)" "same_stream e e1 p" using write_loop_into[OF Cons.prems] by blast
  then obtain e' where "forEach ps (write_all into) e1 = (Inr (), e')" "same_stream e1 e' (concat ps)"
    using Cons.IH[of e1] by (auto simp: same_stream_def)
  then show ?case using e1 by (auto simp: thn_def bnd_def same_stream_def)
qed

lemma close_into:
  assumes "length (ew_buf e) \<le> chunkSize" and "encrypt_Close into e = (r, e')"
  shows "r = Inr () \<and> ew_w e' = finished e []"
proof -
  have "chunks (ew_buf e) = [ew_buf e]" using assms(1) by (simp add: chunks.simps)
  then show ?thesis using assms(2) by (auto simp: encrypt_Close_def seal_into finished_def)
qed

lemma stream_into:
  assumes "ew_buf e = []"
  shows "\<exists>e'. write_stream into ps e = (Inr (), e') \<and> ew_w e' = finished e (concat ps)"
proof -
  obtain e1 where e1: "forEach ps (write_all into) e = (Inr (), e1)" "same_stream e e1 (concat ps)"
    using writes_into[of e ps] assms by auto
  obtain r e' where c: "encrypt_Close into e1 = (r, e')" by fastforce
  have "r = Inr () \<and> ew_w e' = finished e1 []" using close_into[OF _ c] e1(2) by (simp add: same_stream_def)
  moreover have "finished e1 [] = finished e (concat ps)" using e1(2) by (simp add: same_stream_def)
  ultimately show ?thesis using e1(1) c by (auto simp: write_stream_def thn_def bnd_def)
qed

section \<open>The reader\<close>

lemma read_all_plain: "read_all k d = (dr_plain d @ fst (read_all k (d\<lparr>dr_plain := []\<rparr>)), snd (read_all k (d\<lparr>dr_plain := []\<rparr>)))"
proof (induction "length (dr_plain d)" arbitrary: d rule: less_induct)
  case less
  show ?case
  proof (cases "dr_plain d = []")
    case True
    then have d: "d\<lparr>dr_plain := []\<rparr> = d" by simp
    show ?thesis unfolding d using True by simp
  next
    case False
    let ?d = "d\<lparr>dr_plain := drop (Suc k) (dr_plain d)\<rparr>"
    have r: "read_all k d = (case read_all k ?d of (rest, e) \<Rightarrow> (take (Suc k) (dr_plain d) @ rest, e))"
      using False by (subst read_all.simps) (simp add: decrypt_Read_def fill_cases[of d])
    have "read_all k ?d = (dr_plain ?d @ fst (read_all k (?d\<lparr>dr_plain := []\<rparr>)), snd (read_all k (?d\<lparr>dr_plain := []\<rparr>)))"
      by (rule less.hyps) (use False in simp)
    then show ?thesis unfolding r by (simp flip: append_assoc)
  qed
qed

lemma read_all_done:
  assumes "dr_plain d = []" and "dr_done d"
  shows "read_all k d = ([], EOF)"
  using assms by (subst read_all.simps) (simp add: decrypt_Read_def fill_cases)

lemma read_all_open:
  assumes "dr_plain d = []" and "\<not> dr_done d"
  shows "read_all k d = (case open_chunk d of (Some e, d') \<Rightarrow> ([], e) | (None, d') \<Rightarrow> read_all k d')"
  using assms
  by (subst (1 2) read_all.simps) (auto simp: decrypt_Read_def fill_cases[of d] split: prod.splits option.splits)

lemma read_all_chunk:
  assumes "dr_plain d = []" and "\<not> dr_done d" and "open_chunk d = (None, d')"
  shows "read_all k d = (dr_plain d' @ fst (read_all k (d'\<lparr>dr_plain := []\<rparr>)), snd (read_all k (d'\<lparr>dr_plain := []\<rparr>)))"
  unfolding read_all_open[OF assms(1,2)] assms(3) by (simp add: read_all_plain[of k d'])

lemma sealed_not_Nil:
  assumes "\<And>n p x. length (ae_Seal a n p x) = length p + tagSize" and "cs \<noteq> []"
  shows "seal_chunks a h n i cs \<noteq> []"
proof -
  have "ae_Seal a m p x \<noteq> []" for m p x using assms(1)[of m p x] by (metis add_is_0 length_0_conv tagSize_def zero_neq_numeral)
  then show ?thesis using assms(2) by (cases "(a, h, n, i, cs)" rule: seal_chunks.cases) auto
qed

text \<open>One sealed chunk, the last or not.\<close>

lemma open_sealed:
  assumes len: "\<And>n p x. length (ae_Seal (dr_aead d) n p x) = length p + tagSize"
    and opens: "\<And>n p x. ae_Open (dr_aead d) n (ae_Seal (dr_aead d) n p x) x = Some p"
    and d: "\<not> dr_done d" "sr_end (dr_r d) = None"
      "sr_data (dr_r d) = ae_Seal (dr_aead d) (chunkNonce (dr_nonce d) (dr_count d)) c (chunkAAD (dr_header d) (rest = [])) @ rest"
    and c: "length c \<le> chunkSize" "rest \<noteq> [] \<Longrightarrow> length c = chunkSize"
  shows "open_chunk d = (None, d\<lparr>dr_r := dr_r d\<lparr>sr_data := rest\<rparr>, dr_done := (rest = []), dr_count := dr_count d + 1, dr_plain := c\<rparr>)"
proof (cases "rest = []")
  case True
  then show ?thesis
    using c d(1,2) by (auto simp: open_chunk_def io_ReadFull_def failure_def peek_is_EOF_def Let_def len opens d(3) take_all)
next
  case False
  then show ?thesis
    using c d(1,2) by (simp add: open_chunk_def io_ReadFull_def failure_def peek_is_EOF_def Let_def len opens d(3))
qed

lemma read_sealed:
  assumes len: "\<And>n p x. length (ae_Seal (dr_aead d) n p x) = length p + tagSize"
    and opens: "\<And>n p x. ae_Open (dr_aead d) n (ae_Seal (dr_aead d) n p x) x = Some p"
    and "\<not> dr_done d" "dr_plain d = []" "sr_end (dr_r d) = None"
    and "sr_data (dr_r d) = seal_chunks (dr_aead d) (dr_header d) (dr_nonce d) (dr_count d) cs" "cs = chunks data"
  shows "read_all k d = (data, EOF)"
  using assms
proof (induction data arbitrary: d cs rule: chunks.induct)
  case (1 data)
  show ?case
  proof (cases "length data \<le> chunkSize")
    case True
    then have "cs = [data]" using 1(8) by (simp add: chunks.simps)
    then have "open_chunk d = (None, d\<lparr>dr_r := dr_r d\<lparr>sr_data := []\<rparr>, dr_done := True, dr_count := dr_count d + 1, dr_plain := data\<rparr>)"
      using open_sealed[of d data "[]"] 1(2-7) True by simp
    then show ?thesis using 1(4,5) by (simp add: read_all_chunk read_all_done)
  next
    case False
    let ?c = "take chunkSize data" and ?cs = "chunks (drop chunkSize data)"
    have cs: "cs = ?c # ?cs" using False 1(8) by (simp add: chunks.simps[of data])
    let ?rest = "seal_chunks (dr_aead d) (dr_header d) (dr_nonce d) (dr_count d + 1) ?cs"
    have "?rest \<noteq> []" using sealed_not_Nil[OF 1(2)] by simp
    let ?d = "d\<lparr>dr_r := dr_r d\<lparr>sr_data := ?rest\<rparr>, dr_done := False, dr_count := dr_count d + 1, dr_plain := ?c\<rparr>"
    have "open_chunk d = (None, ?d)"
      using open_sealed[of d ?c ?rest] 1(2-7) False \<open>?rest \<noteq> []\<close> by (simp add: cs seal_chunks_Cons)
    then have "read_all k d = (?c @ fst (read_all k (?d\<lparr>dr_plain := []\<rparr>)), snd (read_all k (?d\<lparr>dr_plain := []\<rparr>)))"
      using read_all_chunk[OF 1(5,4)] by simp
    moreover have "read_all k (?d\<lparr>dr_plain := []\<rparr>) = (drop chunkSize data, EOF)"
      by (rule 1(1)[OF False]) (use 1(2,3,6) in simp_all)
    ultimately show ?thesis by simp
  qed
qed

section \<open>Nonces\<close>

lemma map2_xor_inj:
  assumes "length xs = length ys" and "length ys = length zs" and "map2 xor xs ys = map2 xor xs (zs :: 8 word list)"
  shows "ys = zs"
proof -
  have eq: "y = z" if "x XOR y = x XOR z" for x y z :: "8 word"
    using arg_cong[OF that, of "\<lambda>w. x XOR w"] by (simp flip: xor.assoc)
  show ?thesis using assms by (induction xs ys zs rule: list_induct3) (auto dest: eq)
qed

lemma big_endian_inj:
  fixes i j :: "64 word"
  assumes "big_endian 8 (uint i) = big_endian 8 (uint j)"
  shows "i = j"
proof (rule bit_word_eqI)
  fix m assume "m < LENGTH(64)"
  then have m: "m div 8 < 8" and "m mod 8 < 8" by simp_all
  have digit: "(word_of_int (uint i div 2 ^ (8 * (m div 8))) :: 8 word) = word_of_int (uint j div 2 ^ (8 * (m div 8)))"
    using assms m by (auto simp: big_endian_def)
  have "bit w m \<longleftrightarrow> bit (word_of_int (uint w div 2 ^ (8 * (m div 8))) :: 8 word) (m mod 8)" for w :: "64 word"
    by (simp add: bit_word_of_int_iff bit_drop_bit_eq bit_uint_iff \<open>m mod 8 < 8\<close> \<open>m < LENGTH(64)\<close>[simplified] flip: drop_bit_eq_div)
  then show "bit i m \<longleftrightarrow> bit j m" using digit by simp
qed

lemma chunkNonce_inj:
  assumes "chunkNonce base i = chunkNonce base j" and "length base = nonceSize"
  shows "i = j"
proof -
  have "length (drop (nonceSize - 8) base) = length (big_endian 8 (uint i))" "length (big_endian 8 (uint i)) = length (big_endian 8 (uint j))"
    using assms(2) by (simp_all add: big_endian_def nonceSize_def)
  then show ?thesis using assms(1) map2_xor_inj big_endian_inj unfolding chunkNonce_def by blast
qed

section \<open>What was written is read back\<close>

text \<open>What the writer gives the cipher: nonce, text and additional data of each chunk.\<close>

definition sealed_items :: "bytes \<Rightarrow> bytes \<Rightarrow> bytes \<Rightarrow> (bytes \<times> bytes \<times> bytes) list" where
  "sealed_items h n data =
     (let cs = chunks data in map (\<lambda>j. (chunkNonce n (word_of_nat j), cs ! j, chunkAAD h (Suc j = length cs))) [0..<length cs])"

definition sealed_bytes :: "aead \<Rightarrow> (bytes \<times> bytes \<times> bytes) list \<Rightarrow> bytes" where
  "sealed_bytes a items = concat (map (\<lambda>(n, p, x). ae_Seal a n p x) items)"

lemma seal_chunks_items:
  "cs \<noteq> [] \<Longrightarrow> seal_chunks a h n (word_of_nat i) cs =
     sealed_bytes a (map (\<lambda>j. (chunkNonce n (word_of_nat (i + j)), cs ! j, chunkAAD h (Suc j = length cs))) [0..<length cs])"
proof (induction cs arbitrary: i)
  case Nil
  then show ?case by simp
next
  case (Cons c cs)
  show ?case
  proof (cases "cs = []")
    case True
    then show ?thesis by (simp add: sealed_bytes_def)
  next
    case False
    have "[0..<length (c # cs)] = 0 # map Suc [0..<length cs]" by (simp add: upt_conv_Cons map_Suc_upt del: upt_Suc)
    moreover have "seal_chunks a h n (word_of_nat i) (c # cs) =
      ae_Seal a (chunkNonce n (word_of_nat i)) c (chunkAAD h False) @ seal_chunks a h n (word_of_nat (Suc i)) cs"
      using False by (simp add: seal_chunks_Cons add.commute)
    ultimately show ?thesis using Cons.IH[of "Suc i"] False by (simp add: sealed_bytes_def comp_def add_ac del: upt_Suc)
  qed
qed

lemma header_size: "length random = saltSize + nonceSize \<Longrightarrow>
  length (cryptMagic @ [cryptVersion] @ big_endian 4 kdfTime @ big_endian 4 kdfMemory @ [kdfThreads] @ random) = headerSize"
  by (simp add: headerSize_def big_endian_def cryptMagic_def bytes_of_def)

lemma newEncryptWriter_shape:
  assumes "newEncryptWriter argon2 gcm (Inr random) into [] passphrase = (Inr e, w)" and "length random = saltSize + nonceSize"
  shows "ew_w e = ew_header e" "ew_buf e = []" "ew_count e = 0" "length (ew_header e) = headerSize"
    "ew_nonce e = slice (headerSize - nonceSize) nonceSize (ew_header e)"
    "take (length cryptMagic) (ew_header e) = cryptMagic" "ew_header e ! length cryptMagic = cryptVersion"
    "newAEAD argon2 gcm passphrase (ew_header e) = Inr (ew_aead e)" "\<exists>key. ew_aead e = gcm key"
  using assms header_size[OF assms(2)]
  by (auto simp: newEncryptWriter_def into_def newAEAD_def Let_def split: sum.splits if_splits)

lemma newEncryptWriter_ok:
  "\<exists>e w. newEncryptWriter argon2 gcm (Inr random) into [] passphrase = (Inr e, w)"
proof -
  let ?h = "cryptMagic @ [cryptVersion] @ big_endian 4 kdfTime @ big_endian 4 kdfMemory @ [kdfThreads] @ random"
  have l: "length cryptMagic + 1 = length (cryptMagic @ [cryptVersion])" "length (big_endian 4 v) = 4" for v by (simp_all add: big_endian_def)
  have t: "slice (length cryptMagic + 1) 4 ?h = big_endian 4 kdfTime" by (simp add: slice_def l(2))
  have m: "slice (length cryptMagic + 1 + 4) 4 ?h = big_endian 4 kdfMemory" by (simp add: slice_def l(2))
  have p: "?h ! (length cryptMagic + 1 + 8) = kdfThreads" by (simp add: nth_append l(2))
  have "uint_of (big_endian 4 kdfTime) = 3" "uint_of (big_endian 4 kdfMemory) = 65536"
    by (simp_all add: uint_of_def big_endian_def group_number_def kdfTime_def kdfMemory_def upt_rec)
  then show ?thesis
    unfolding newEncryptWriter_def newAEAD_def Let_def sum.case t m p
    by (simp add: maxKDFTime_def maxKDFMemory_def kdfThreads_def into_def)
qed

lemma stream_bytes:
  assumes "newEncryptWriter argon2 gcm (Inr random) into [] passphrase = (Inr e, w)" and "length random = saltSize + nonceSize"
  shows "\<exists>e'. write_stream into ps e = (Inr (), e') \<and>
    ew_w e' = ew_header e @ seal_chunks (ew_aead e) (ew_header e) (ew_nonce e) 0 (chunks (concat ps))"
  using stream_into[of e ps] newEncryptWriter_shape[OF assms] by (auto simp: finished_def)

text \<open>
  C9. A backup encrypted with a passphrase, in whatever pieces it was written, is recognised as
  encrypted and reads back with that passphrase, in reads of any size, as exactly what was written. The
  bytes are the header and one sealed chunk for each entry of \<open>sealed_items\<close>. The cipher opens what it
  sealed and adds a tag of 16 bytes, as AES-GCM does.
\<close>

theorem encrypted_backup_round_trip:
  assumes "length random = saltSize + nonceSize" and "passphrase \<noteq> []"
    and opens: "\<forall>key n p x. ae_Open (gcm key) n (ae_Seal (gcm key) n p x) x = Some p"
    and len: "\<forall>key n p x. length (ae_Seal (gcm key) n p x) = length p + tagSize"
  shows "\<exists>e w e' d. newEncryptWriter argon2 gcm (Inr random) into [] passphrase = (Inr e, w)
    \<and> write_stream into ps e = (Inr (), e')
    \<and> ew_w e' = ew_header e @ sealed_bytes (ew_aead e) (sealed_items (ew_header e) (ew_nonce e) (concat ps))
    \<and> isEncrypted \<lparr>sr_data = ew_w e', sr_end = None\<rparr>
    \<and> newDecryptReader argon2 gcm \<lparr>sr_data = ew_w e', sr_end = None\<rparr> passphrase = Inr d
    \<and> read_all k d = (concat ps, EOF)"
proof -
  obtain e w where e: "newEncryptWriter argon2 gcm (Inr random) into [] passphrase = (Inr e, w)" using newEncryptWriter_ok by blast
  note sh = newEncryptWriter_shape[OF e assms(1)]
  obtain key where key: "ew_aead e = gcm key" using sh(9) by blast
  obtain e' where e': "write_stream into ps e = (Inr (), e')"
    and out: "ew_w e' = ew_header e @ seal_chunks (ew_aead e) (ew_header e) (ew_nonce e) 0 (chunks (concat ps))"
    using stream_bytes[OF e assms(1)] by blast
  let ?src = "\<lparr>sr_data = ew_w e', sr_end = None\<rparr>"
  let ?rest = "seal_chunks (ew_aead e) (ew_header e) (ew_nonce e) 0 (chunks (concat ps))"
  let ?d = "\<lparr>dr_r = \<lparr>sr_data = ?rest, sr_end = None\<rparr>, dr_aead = ew_aead e, dr_header = ew_header e, dr_nonce = ew_nonce e,
    dr_count = 0, dr_plain = [], dr_done = False\<rparr>"
  have "newDecryptReader argon2 gcm ?src passphrase = Inr ?d"
    using assms(2) sh by (simp add: newDecryptReader_def io_ReadFull_def Let_def out)
  moreover have "read_all k ?d = (concat ps, EOF)"
    by (rule read_sealed) (simp_all add: key opens len)
  moreover have "isEncrypted ?src"
    using sh(4,6) by (simp add: isEncrypted_def out headerSize_def)
  moreover have "?rest = sealed_bytes (ew_aead e) (sealed_items (ew_header e) (ew_nonce e) (concat ps))"
    using seal_chunks_items[of "chunks (concat ps)" "ew_aead e" "ew_header e" "ew_nonce e" 0] by (simp add: sealed_items_def Let_def)
  ultimately show ?thesis using e e' out by auto
qed

text \<open>A cipher that hides nothing, for the witnesses: the text and 16 zero bytes.\<close>

definition plain_aead :: aead where
  "plain_aead = \<lparr>ae_Seal = (\<lambda>n p x. p @ replicate 16 0),
     ae_Open = (\<lambda>n c x. if drop (length c - 16) c = replicate 16 0 then Some (take (length c - 16) c) else None)\<rparr>"

theorem encrypted_backup_round_trip_witness:
  "\<exists>e w e' d. newEncryptWriter (\<lambda>_ _ _ _ _ _. []) (\<lambda>_. plain_aead) (Inr (replicate 28 7)) into [] ''horse battery'' = (Inr e, w)
    \<and> write_stream into [[1, 2], [3]] e = (Inr (), e')
    \<and> newDecryptReader (\<lambda>_ _ _ _ _ _. []) (\<lambda>_. plain_aead) \<lparr>sr_data = ew_w e', sr_end = None\<rparr> ''horse battery'' = Inr d
    \<and> read_all 0 d = ([1, 2, 3], EOF)"
proof -
  have "length (replicate 28 (7 :: 8 word)) = saltSize + nonceSize" by (simp add: saltSize_def nonceSize_def)
  from encrypted_backup_round_trip[OF this, of "''horse battery''" "\<lambda>_. plain_aead" "\<lambda>_ _ _ _ _ _. []" "[[1, 2], [3]]" 0]
  show ?thesis by (auto simp: plain_aead_def tagSize_def)
qed

section \<open>What was tampered with is not\<close>

text \<open>The reader before chunk \<open>i\<close> of the text.\<close>

definition at_chunk :: "nat \<Rightarrow> bytes \<Rightarrow> bytes \<Rightarrow> decryptReader \<Rightarrow> bool" where
  "at_chunk i h n d \<longleftrightarrow> dr_count d = word_of_nat i \<and> dr_header d = h \<and> dr_nonce d = n \<and> dr_plain d = [] \<and> \<not> dr_done d"

lemma open_chunk_genuine:
  assumes "open_chunk d = (None, d')"
  shows "\<exists>c. ae_Open (dr_aead d) (chunkNonce (dr_nonce d) (dr_count d)) c (chunkAAD (dr_header d) (dr_done d')) = Some (dr_plain d')
    \<and> dr_count d' = dr_count d + 1 \<and> dr_header d' = dr_header d \<and> dr_nonce d' = dr_nonce d \<and> dr_aead d' = dr_aead d"
  using assms by (auto simp: open_chunk_def Let_def split: prod.splits option.splits)

lemma open_chunk_error: "open_chunk d = (Some e, d') \<Longrightarrow> e \<noteq> EOF"
  by (auto simp: open_chunk_def Let_def split: prod.splits option.splits)

lemma chunkAAD_inj: "chunkAAD h f = chunkAAD h' f' \<longleftrightarrow> h = h' \<and> f = f'"
  by (simp add: chunkAAD_def)

lemma read_tampered:
  assumes "at_chunk i h n d" and "i < length cs" and "length cs \<le> 2 ^ 64" and "length n = nonceSize"
    and genuine: "\<And>m c x p. ae_Open (dr_aead d) m c x = Some p \<Longrightarrow>
      \<exists>j < length cs. (m, p, x) = (chunkNonce n (word_of_nat j), cs ! j, chunkAAD h (Suc j = length cs))"
    and "read_all k d = (out, err)"
  shows "prefix out (concat (drop i cs)) \<and> (err = EOF \<longrightarrow> out = concat (drop i cs))"
  using assms(1,2,5,6)
proof (induction "length cs - i" arbitrary: i d out err)
  case 0
  then show ?case by simp
next
  case (Suc m)
  note at_i = \<open>at_chunk i h n d\<close>[unfolded at_chunk_def]
  have rest: "concat (drop i cs) = cs ! i @ concat (drop (Suc i) cs)" using Suc.prems(2) by (simp flip: Cons_nth_drop_Suc)
  show ?case
  proof (cases "open_chunk d")
    case (Pair r d')
    show ?thesis
    proof (cases r)
      case (Some e)
      then have "out = [] \<and> err = e" using Suc.prems(4) at_i Pair by (simp add: read_all_open)
      then show ?thesis using open_chunk_error Pair Some by auto
    next
      case None
      then obtain c where c: "ae_Open (dr_aead d) (chunkNonce n (word_of_nat i)) c (chunkAAD h (dr_done d')) = Some (dr_plain d')"
        and d': "dr_count d' = word_of_nat i + 1" "dr_header d' = h" "dr_nonce d' = n" "dr_aead d' = dr_aead d"
        using open_chunk_genuine[of d d'] Pair at_i by auto
      obtain j where j: "j < length cs" "chunkNonce n (word_of_nat i) = chunkNonce n (word_of_nat j)"
        "dr_plain d' = cs ! j" "chunkAAD h (dr_done d') = chunkAAD h (Suc j = length cs)"
        using Suc.prems(3)[OF c] by auto
      have "word_of_nat i = (word_of_nat j :: 64 word)" using chunkNonce_inj[OF j(2) assms(4)] .
      then have ij: "i = j" using Suc.prems(2) j(1) assms(3) by (simp add: word_of_nat_eq_iff take_bit_nat_eq_self)
      have fin: "dr_done d' = (Suc i = length cs)" using j(4) ij by (simp add: chunkAAD_inj)
      let ?d = "d'\<lparr>dr_plain := []\<rparr>"
      have r: "out = cs ! i @ fst (read_all k ?d)" "err = snd (read_all k ?d)"
        using read_all_chunk[of d d' k] at_i Pair None Suc.prems(4) j(3) ij by auto
      show ?thesis
      proof (cases "Suc i = length cs")
        case True
        then show ?thesis using r fin rest by (simp add: read_all_done)
      next
        case False
        have "at_chunk (Suc i) h n ?d" using d' fin False by (simp add: at_chunk_def add.commute)
        moreover have "m = length cs - Suc i" "Suc i < length cs" using Suc.hyps(2) Suc.prems(2) False by simp_all
        moreover have "\<exists>j < length cs. (m, p, x) = (chunkNonce n (word_of_nat j), cs ! j, chunkAAD h (Suc j = length cs))"
          if v: "ae_Open (dr_aead ?d) m c x = Some p" for m c x p using Suc.prems(3) v d'(4) by simp
        ultimately have "prefix (fst (read_all k ?d)) (concat (drop (Suc i) cs)) \<and>
          (snd (read_all k ?d) = EOF \<longrightarrow> fst (read_all k ?d) = concat (drop (Suc i) cs))"
          using Suc.hyps(1)[of "Suc i" ?d "fst (read_all k ?d)" "snd (read_all k ?d)"] by simp
        then show ?thesis using r rest by simp
      qed
    qed
  qed
qed

lemma newDecryptReader_shape:
  assumes "newDecryptReader argon2 gcm src passphrase = Inr d"
  shows "length (dr_header d) = headerSize" "dr_nonce d = slice (headerSize - nonceSize) nonceSize (dr_header d)"
    "dr_count d = 0" "dr_plain d = []" "\<not> dr_done d" "\<exists>key. dr_aead d = gcm key"
  using assms
  by (auto simp: newDecryptReader_def newAEAD_def io_ReadFull_def Let_def split: prod.splits read_end.splits sum.splits if_splits option.splits)

text \<open>
  C8. Nobody without the passphrase can make the panel restore something else: as long as the only
  chunks the cipher opens are those the writer sealed, whatever bytes a reader gets (chunks reordered,
  dropped, cut off, repeated or made up, another header) and whatever passphrase, it gives a part of the
  original from its start, and reaches the end of the file only after all of it.
\<close>

theorem tampered_backup_detected:
  assumes "newEncryptWriter argon2 gcm (Inr random) into [] passphrase = (Inr e, w)" and "length random = saltSize + nonceSize"
    and "length (chunks data) \<le> 2 ^ 64"
    and genuine: "\<forall>key n c x p. ae_Open (gcm key) n c x = Some p \<longrightarrow>
      (n, p, x) \<in> set (sealed_items (ew_header e) (ew_nonce e) data)"
    and d: "newDecryptReader argon2 gcm src passphrase' = Inr d" and r: "read_all k d = (out, err)"
  shows "prefix out data \<and> (err = EOF \<longrightarrow> out = data)"
proof -
  note shd = newDecryptReader_shape[OF d] and she = newEncryptWriter_shape[OF assms(1,2)]
  obtain key where key: "dr_aead d = gcm key" using shd(6) by blast
  have opened: "\<exists>j < length (chunks data). (m, p, x) = (chunkNonce (ew_nonce e) (word_of_nat j), chunks data ! j, chunkAAD (ew_header e) (Suc j = length (chunks data)))"
    if v: "ae_Open (dr_aead d) m c x = Some p" for m c x p
    using genuine v unfolding key sealed_items_def Let_def by fastforce
  show ?thesis
  proof (cases "dr_header d = ew_header e")
    case True
    then have n: "dr_nonce d = ew_nonce e" using shd(2) she(5) by simp
    have "length (ew_nonce e) = nonceSize" using she(4,5) by (simp add: slice_def headerSize_def nonceSize_def)
    moreover have "at_chunk 0 (ew_header e) (ew_nonce e) d" using True n shd(3-5) by (simp add: at_chunk_def)
    moreover have "0 < length (chunks data)" by simp
    ultimately show ?thesis
      using read_tampered[OF _ _ assms(3) _ _ r, of 0 "ew_header e" "ew_nonce e"] opened by simp
  next
    case False
    have "open_chunk d \<noteq> (None, d')" for d'
    proof
      assume "open_chunk d = (None, d')"
      then obtain c where "ae_Open (dr_aead d) (chunkNonce (dr_nonce d) (dr_count d)) c (chunkAAD (dr_header d) (dr_done d')) = Some (dr_plain d')"
        using open_chunk_genuine by blast
      then show False using opened False by (fastforce simp: chunkAAD_inj)
    qed
    moreover obtain y d' where "open_chunk d = (y, d')" by fastforce
    ultimately obtain x where "open_chunk d = (Some x, d')" by (cases y) auto
    then show ?thesis using r shd(4,5) open_chunk_error[of d x d'] by (simp add: read_all_open)
  qed
qed

text \<open>A cipher that opens nothing but the given items.\<close>

definition only_aead :: "(bytes \<times> bytes \<times> bytes) list \<Rightarrow> aead" where
  "only_aead items = \<lparr>ae_Seal = (\<lambda>n p x. p @ replicate 16 0),
     ae_Open = (\<lambda>n c x. if c = take (length c - 16) c @ replicate 16 0 \<and> (n, take (length c - 16) c, x) \<in> set items
       then Some (take (length c - 16) c) else None)\<rparr>"

lemma newEncryptWriter_header:
  "newEncryptWriter argon2 gcm (Inr random) into [] passphrase = (Inr e, w) \<Longrightarrow>
   ew_header e = cryptMagic @ [cryptVersion] @ big_endian 4 kdfTime @ big_endian 4 kdfMemory @ [kdfThreads] @ random"
  by (auto simp: newEncryptWriter_def into_def Let_def split: sum.splits)

definition sample_header :: bytes where
  "sample_header = cryptMagic @ [cryptVersion] @ big_endian 4 kdfTime @ big_endian 4 kdfMemory @ [kdfThreads] @ replicate 28 7"

definition sample_items :: "(bytes \<times> bytes \<times> bytes) list" where
  "sample_items = sealed_items sample_header (slice (headerSize - nonceSize) nonceSize sample_header) [1, 2, 3]"

text \<open>Three bytes, written and cut off after two of them.\<close>

theorem tampered_backup_detected_witness:
  "\<exists>e w d. newEncryptWriter (\<lambda>_ _ _ _ _ _. []) (\<lambda>_. only_aead sample_items) (Inr (replicate 28 7)) into [] ''horse battery'' = (Inr e, w)
    \<and> newDecryptReader (\<lambda>_ _ _ _ _ _. []) (\<lambda>_. only_aead sample_items) \<lparr>sr_data = ew_header e @ [1, 2], sr_end = None\<rparr> ''horse battery'' = Inr d
    \<and> prefix (fst (read_all 0 d)) [1, 2, 3]"
proof -
  let ?gcm = "\<lambda>_. only_aead sample_items" and ?argon = "(\<lambda>_ _ _ _ _ _. []) :: argon"
  obtain e w where e: "newEncryptWriter ?argon ?gcm (Inr (replicate 28 7)) into [] ''horse battery'' = (Inr e, w)"
    using newEncryptWriter_ok by blast
  have l: "length (replicate 28 (7 :: 8 word)) = saltSize + nonceSize" by (simp add: saltSize_def nonceSize_def)
  note sh = newEncryptWriter_shape[OF e l]
  have h: "ew_header e = sample_header" using newEncryptWriter_header[OF e] by (simp add: sample_header_def)
  let ?src = "\<lparr>sr_data = ew_header e @ [1, 2], sr_end = None\<rparr>"
  obtain d where d: "newDecryptReader ?argon ?gcm ?src ''horse battery'' = Inr d"
    using sh by (simp add: newDecryptReader_def io_ReadFull_def Let_def)
  obtain out err where r: "read_all 0 d = (out, err)" by fastforce
  have "sealed_items (ew_header e) (ew_nonce e) [1, 2, 3] = sample_items" using sh(5) by (simp add: h sample_items_def)
  then have g: "\<forall>key n c x p. ae_Open (?gcm (key :: bytes)) n c x = Some p \<longrightarrow> (n, p, x) \<in> set (sealed_items (ew_header e) (ew_nonce e) [1, 2, 3])"
    by (auto simp: only_aead_def split: if_splits)
  have "length (chunks [1, 2, 3 :: 8 word]) \<le> 2 ^ 64" by (simp add: chunks.simps chunkSize_def)
  from tampered_backup_detected[OF e l this g d r] show ?thesis using e d r by auto
qed

end
