(* ===== verification/Texts.thy ===== *)
theory Texts
  imports Strings
begin

text \<open>
  More of Go's standard library on texts: the rest of package strings the program uses, and the lexical
  half of package path.
\<close>

section \<open>Package strings\<close>

definition HasPrefix :: "string \<Rightarrow> string \<Rightarrow> bool" where
  "HasPrefix s p = (take (length p) s = p)"

definition HasSuffix :: "string \<Rightarrow> string \<Rightarrow> bool" where
  "HasSuffix s p = (length p \<le> length s \<and> drop (length s - length p) s = p)"

definition TrimPrefix :: "string \<Rightarrow> string \<Rightarrow> string" where
  "TrimPrefix s p = (if HasPrefix s p then drop (length p) s else s)"

definition TrimSuffix :: "string \<Rightarrow> string \<Rightarrow> string" where
  "TrimSuffix s p = (if HasSuffix s p then take (length s - length p) s else s)"

definition strings_Contains :: "string \<Rightarrow> string \<Rightarrow> bool" where
  "strings_Contains s t = (Index s t \<noteq> None)"

text \<open>\<open>strings.Fields\<close>: the runs of runes that are not space.\<close>

fun fields_of :: "(nat \<times> string) list \<Rightarrow> string \<Rightarrow> string list" where
  "fields_of [] cur = (if cur = [] then [] else [cur])"
| "fields_of ((r, b) # rs) cur =
     (if \<not> IsSpace r then fields_of rs (cur @ b) else if cur = [] then fields_of rs [] else cur # fields_of rs [])"

definition strings_Fields :: "string \<Rightarrow> string list" where
  "strings_Fields s = fields_of (runes_of s) []"

text \<open>\<open>strings.ReplaceAll\<close> of a text that is not empty.\<close>

function ReplaceAll :: "string \<Rightarrow> string \<Rightarrow> string \<Rightarrow> string" where
  "ReplaceAll s old new =
     (case Index s old of
        None \<Rightarrow> s
      | Some i \<Rightarrow> if old = [] then s else take i s @ new @ ReplaceAll (drop (i + length old) s) old new)"
  by pat_completeness auto
termination
proof (relation "measure (\<lambda>(s, _). length s)")
  fix s old new i
  assume i: "Index s old = Some i" "old \<noteq> []"
  have "s \<noteq> []" using i by auto
  then show "((drop (i + length old) s, old, new), s, old, new) \<in> measure (\<lambda>(s, _). length s)" using i by simp
qed simp

declare ReplaceAll.simps [simp del]

text \<open>The last place of a byte; \<open>- 1\<close> when there is none.\<close>

definition LastIndex :: "string \<Rightarrow> char \<Rightarrow> int" where
  "LastIndex s c = int (length s) - int (length (takeWhile (\<lambda>x. x \<noteq> c) (rev s))) - 1"

section \<open>Package path\<close>

text \<open>\<open>path.Clean\<close>, element by element; \<open>out\<close> holds what is kept, last first.\<close>

fun clean_parts :: "bool \<Rightarrow> string list \<Rightarrow> string list \<Rightarrow> string list" where
  "clean_parts rooted [] out = out"
| "clean_parts rooted (x # xs) out =
     clean_parts rooted xs
       (if x = [] \<or> x = ''.'' then out
        else if x = ''..''
        then (case out of [] \<Rightarrow> if rooted then [] else [x] | y # ys \<Rightarrow> if y = ''..'' then x # out else ys)
        else x # out)"

definition path_Clean :: "string \<Rightarrow> string" where
  "path_Clean p =
     (let rooted = HasPrefix p ''/''; kept = strings_Join ''/'' (rev (clean_parts rooted (Split (CHR ''/'') p) []))
      in if rooted then ''/'' @ kept else if kept = [] then ''.'' else kept)"

text \<open>\<open>path.Split\<close>: up to the last slash, and after it.\<close>

definition path_Split :: "string \<Rightarrow> string \<times> string" where
  "path_Split p = (let base = rev (takeWhile (\<lambda>c. c \<noteq> CHR ''/'') (rev p)) in (take (length p - length base) p, base))"

definition path_Dir :: "string \<Rightarrow> string" where
  "path_Dir p = path_Clean (fst (path_Split p))"

definition path_Base :: "string \<Rightarrow> string" where
  "path_Base p =
     (if p = [] then ''.''
      else let q = rev (dropWhile (\<lambda>c. c = CHR ''/'') (rev p)) in if q = [] then ''/'' else snd (path_Split q))"

definition path_Join :: "string list \<Rightarrow> string" where
  "path_Join es = (let ne = filter (\<lambda>e. e \<noteq> []) es in if ne = [] then [] else path_Clean (strings_Join ''/'' ne))"

section \<open>Facts\<close>

text \<open>A clean rooted path has no empty element, no dot and no two dots.\<close>

definition plain_part :: "string \<Rightarrow> bool" where
  "plain_part x \<longleftrightarrow> x \<noteq> [] \<and> x \<noteq> ''.'' \<and> x \<noteq> ''..''"

lemma clean_parts_plain: "list_all plain_part out \<Longrightarrow> list_all plain_part (clean_parts True xs out)"
proof (induction xs arbitrary: out)
  case (Cons x xs)
  show ?case unfolding clean_parts.simps
    by (rule Cons.IH) (use Cons.prems in \<open>auto simp: plain_part_def split: list.split\<close>)
qed simp

lemma clean_parts_from: "set (clean_parts rooted xs out) \<subseteq> set xs \<union> set out"
proof (induction xs arbitrary: out)
  case (Cons x xs)
  define out' where "out' = (if x = [] \<or> x = ''.'' then out
        else if x = ''..''
        then (case out of [] \<Rightarrow> if rooted then [] else [x] | y # ys \<Rightarrow> if y = ''..'' then x # out else ys)
        else x # out)"
  have "set out' \<subseteq> insert x (set out)" by (auto simp: out'_def split: list.splits if_splits)
  moreover have "clean_parts rooted (x # xs) out = clean_parts rooted xs out'" by (simp add: out'_def)
  ultimately show ?case using Cons.IH [of out'] by auto
qed simp

end
