(* ===== verification/BackupS3.thy ===== *)
theory BackupS3
  imports BackupCrypt Texts
begin

text \<open>
  internal/backup/s3.go: the client of an S3 bucket, and the names of backup files (archive.go). The
  service behind the network is a state of type \<open>'b\<close> with the round trip of one signed request,
  \<open>http.Client.Do\<close>; decoding the XML of an answer is encoding/xml's, so a response holds its outcome.
  \<open>url.Parse\<close>, SHA-256 and HMAC are parameters.
\<close>

section \<open>Names of backups\<close>

definition filePrefix :: string where "filePrefix = ''tunploy-backup-''"
definition fileExt :: string where "fileExt = ''.tar.gz''"
definition encryptedExt :: string where "encryptedExt = ''.enc''"

text \<open>The date and the time of day in UTC, for a layout.\<close>

definition utc_date :: "gotime \<Rightarrow> string" where
  "utc_date t = (case local_date (\<lambda>_. 0) t of (y, m, d) \<Rightarrow>
     (if y < 0 then ''-'' else []) @ pad 4 (Itoa \<bar>y\<bar>) @ pad 2 (Itoa m) @ pad 2 (Itoa d))"

definition utc_clock :: "gotime \<Rightarrow> string" where
  "utc_clock t = (let s = unix t mod 86400 in
     pad 2 (Itoa (s div 3600)) @ pad 2 (Itoa (s mod 3600 div 60)) @ pad 2 (Itoa (s mod 60)))"

definition FileName :: "gotime \<Rightarrow> bool \<Rightarrow> string" where
  "FileName t encrypted = filePrefix @ utc_date t @ ''-'' @ utc_clock t @ fileExt @ (if encrypted then encryptedExt else [])"

definition IsFileName :: "string \<Rightarrow> bool" where
  "IsFileName name =
     (let rest = drop (length filePrefix) name in
      HasPrefix name filePrefix \<and> list_all is_digit (take 8 rest) \<and> take 1 (drop 8 rest) = ''-''
      \<and> length (take 6 (drop 9 rest)) = 6 \<and> list_all is_digit (take 6 (drop 9 rest))
      \<and> drop 15 rest \<in> {fileExt, fileExt @ encryptedExt})"

definition IsEncryptedName :: "string \<Rightarrow> bool" where
  "IsEncryptedName name = HasSuffix name encryptedExt"

section \<open>The client\<close>

record S3Config =
  s3_Endpoint :: string
  s3_Region :: string
  s3_Bucket :: string
  s3_Prefix :: string
  s3_AccessKey :: string
  s3_SecretKey :: string
  s3_PathStyle :: bool

record Object =
  ob_Key :: string
  ob_Name :: string
  ob_Size :: int
  ob_Modified :: gotime
  ob_Encrypted :: bool

definition defaultRegion :: string where "defaultRegion = ''us-east-1''"
definition emptySHA256 :: string where
  "emptySHA256 = ''e3b0c44298fc1c149afbf4c8996fb92427ae41e4649b934ca495991b7852b855''"

definition NewS3 :: "S3Config \<Rightarrow> S3Config" where
  "NewS3 cfg = (if s3_Region cfg = [] then cfg\<lparr>s3_Region := defaultRegion\<rparr> else cfg)"

definition S3_Key :: "S3Config \<Rightarrow> string \<Rightarrow> string" where
  "S3_Key cfg name = s3_Prefix cfg @ name"

text \<open>A \<open>url.URL\<close>.\<close>

record s3_url =
  ul_Scheme :: string
  ul_Host :: string
  ul_Path :: string
  ul_RawPath :: string
  ul_RawQuery :: string

definition uriEncode :: "string \<Rightarrow> bool \<Rightarrow> string" where
  "uriEncode s encodeSlash = concat (map (\<lambda>c.
     if unreserved c \<or> c = CHR ''/'' \<and> \<not> encodeSlash then [c]
     else let hexa = (\<lambda>n. if n < 10 then char_of (48 + n) else char_of (55 + n)) in
       [CHR ''%'', hexa (byte c div 16), hexa (byte c mod 16)]) s)"

text \<open>A \<open>url.Values\<close> is the list of its keys with their values.\<close>

definition canonicalQuery :: "(string \<times> string list) list \<Rightarrow> string" where
  "canonicalQuery q = strings_Join ''&'' (concat (map (\<lambda>(k, vs). map (\<lambda>v. uriEncode k True @ ''='' @ uriEncode v True) vs) (sort_key fst q)))"

definition S3_endpoint :: "S3Config \<Rightarrow> string" where
  "S3_endpoint cfg =
     (let e = (if s3_Endpoint cfg = [] then ''s3.'' @ s3_Region cfg @ ''.amazonaws.com'' else s3_Endpoint cfg)
      in if strings_Contains e ''://'' then e else ''https://'' @ e)"

definition bad_endpoint :: "(nat \<Rightarrow> bool) \<Rightarrow> S3Config \<Rightarrow> err" where
  "bad_endpoint printable cfg = NewError (''endpoint '' @ Quote printable (s3_Endpoint cfg) @ '' is not a valid URL'')"

definition S3_url :: "(nat \<Rightarrow> bool) \<Rightarrow> (string \<Rightarrow> s3_url option) \<Rightarrow> S3Config \<Rightarrow> string \<Rightarrow> err + s3_url" where
  "S3_url printable parse cfg key =
     (case parse (S3_endpoint cfg) of
        None \<Rightarrow> Inl (bad_endpoint printable cfg)
      | Some u \<Rightarrow>
        if ul_Host u = [] then Inl (bad_endpoint printable cfg)
        else let p = ''/'' @ key;
                 (host, p) = (if s3_PathStyle cfg then (ul_Host u, ''/'' @ s3_Bucket cfg @ p)
                   else (s3_Bucket cfg @ ''.'' @ ul_Host u, p));
                 path = TrimSuffix (ul_Path u) ''/'' @ p
             in Inr (u\<lparr>ul_Host := host, ul_Path := path, ul_RawPath := uriEncode path False\<rparr>))"

record s3_request =
  sq_Method :: string
  sq_URL :: s3_url
  sq_Header :: "(string \<times> string) list"
  sq_Body :: string

record s3_page =
  pg_Contents :: "(string \<times> int \<times> gotime) list"
  pg_IsTruncated :: bool
  pg_NextToken :: string

text \<open>An answer: its status, its body as it is, as the XML of an error and as the XML of a listing.\<close>

record s3_response =
  sp_Status :: int
  sp_Body :: source
  sp_Length :: int
  sp_Error :: "string \<times> string"
  sp_Page :: "err + s3_page"

definition S3_request :: "(nat \<Rightarrow> bool) \<Rightarrow> (string \<Rightarrow> s3_url option) \<Rightarrow> S3Config \<Rightarrow> string \<Rightarrow> string \<Rightarrow> (string \<times> string list) list \<Rightarrow> string \<Rightarrow> err + s3_request" where
  "S3_request printable parse cfg meth key params body =
     (case S3_url printable parse cfg key of
        Inl e \<Rightarrow> Inl e
      | Inr u \<Rightarrow> Inr \<lparr>sq_Method = meth, sq_URL = u\<lparr>ul_RawQuery := canonicalQuery params\<rparr>, sq_Header = [], sq_Body = body\<rparr>)"

text \<open>The functions of the outside: the round trip, the parser of URLs, SHA-256, HMAC, the clock and two tables of Unicode.\<close>

record 'b s3_env =
  s3_Do :: "s3_request \<Rightarrow> ('b, s3_response) prog"
  s3_parse :: "string \<Rightarrow> s3_url option"
  s3_sha256 :: "string \<Rightarrow> string"
  s3_hmac :: "string \<Rightarrow> string \<Rightarrow> string"
  s3_now :: gotime
  s3_lower :: "nat \<Rightarrow> nat"
  s3_printable :: "nat \<Rightarrow> bool"

definition hexSHA256 :: "'b s3_env \<Rightarrow> string \<Rightarrow> string" where
  "hexSHA256 v s = Webhook.EncodeToString (s3_sha256 v s)"

text \<open>The header AWS Signature Version 4 adds.\<close>

definition amzDate :: "gotime \<Rightarrow> string" where
  "amzDate t = utc_date t @ ''T'' @ utc_clock t @ ''Z''"

definition canonical_headers :: "(string \<Rightarrow> string) \<Rightarrow> s3_request \<Rightarrow> (string \<times> string) list" where
  "canonical_headers lower req =
     sort_key fst ((''host'', ul_Host (sq_URL req)) #
       List.map_filter (\<lambda>(name, v). let l = lower name in
         if l = ''range'' \<or> HasPrefix l ''x-amz-'' then Some (l, TrimSpace v) else None) (sq_Header req))"

definition sign :: "'b s3_env \<Rightarrow> S3Config \<Rightarrow> string \<Rightarrow> s3_request \<Rightarrow> s3_request" where
  "sign v cfg payloadHash req =
     (let date = amzDate (s3_now v); day = take 8 date;
          req = req\<lparr>sq_Header := AList.update ''X-Amz-Content-Sha256'' payloadHash (AList.update ''X-Amz-Date'' date (sq_Header req))\<rparr>;
          headers = canonical_headers (ToLower (s3_lower v)) req;
          signed = strings_Join '';'' (map fst headers);
          canonical = strings_Join [CHR 0x0A] [sq_Method req, ul_RawPath (sq_URL req), ul_RawQuery (sq_URL req),
            concat (map (\<lambda>(n, x). n @ '':'' @ x @ [CHR 0x0A]) headers), signed, payloadHash];
          scope = day @ ''/'' @ s3_Region cfg @ ''/s3/aws4_request'';
          toSign = ''AWS4-HMAC-SHA256'' @ [CHR 0x0A] @ date @ [CHR 0x0A] @ scope @ [CHR 0x0A] @ hexSHA256 v canonical;
          key = fold (\<lambda>part key. s3_hmac v key part) [day, s3_Region cfg, ''s3'', ''aws4_request''] (''AWS4'' @ s3_SecretKey cfg);
          signature = Webhook.EncodeToString (s3_hmac v key toSign)
      in req\<lparr>sq_Header := AList.update ''Authorization''
           (''AWS4-HMAC-SHA256 Credential='' @ s3_AccessKey cfg @ ''/'' @ scope @ '', SignedHeaders='' @ signed @ '', Signature='' @ signature)
           (sq_Header req)\<rparr>)"

text \<open>\<open>http.StatusText\<close> from 300 on, and the text of an \<open>S3Error\<close>.\<close>

definition statusTexts :: "(int \<times> string) list" where
  "statusTexts =
    [(300, ''Multiple Choices''), (301, ''Moved Permanently''), (302, ''Found''), (303, ''See Other''),
     (304, ''Not Modified''), (305, ''Use Proxy''), (307, ''Temporary Redirect''), (308, ''Permanent Redirect''),
     (400, ''Bad Request''), (401, ''Unauthorized''), (402, ''Payment Required''), (403, ''Forbidden''),
     (404, ''Not Found''), (405, ''Method Not Allowed''), (406, ''Not Acceptable''),
     (407, ''Proxy Authentication Required''), (408, ''Request Timeout''), (409, ''Conflict''), (410, ''Gone''),
     (411, ''Length Required''), (412, ''Precondition Failed''), (413, ''Request Entity Too Large''),
     (414, ''Request URI Too Long''), (415, ''Unsupported Media Type''), (416, ''Requested Range Not Satisfiable''),
     (417, ''Expectation Failed''), (418, ''I'm a teapot''), (421, ''Misdirected Request''),
     (422, ''Unprocessable Entity''), (423, ''Locked''), (424, ''Failed Dependency''), (425, ''Too Early''),
     (426, ''Upgrade Required''), (428, ''Precondition Required''), (429, ''Too Many Requests''),
     (431, ''Request Header Fields Too Large''), (451, ''Unavailable For Legal Reasons''),
     (500, ''Internal Server Error''), (501, ''Not Implemented''), (502, ''Bad Gateway''),
     (503, ''Service Unavailable''), (504, ''Gateway Timeout''), (505, ''HTTP Version Not Supported''),
     (506, ''Variant Also Negotiates''), (507, ''Insufficient Storage''), (508, ''Loop Detected''),
     (510, ''Not Extended''), (511, ''Network Authentication Required'')]"

definition S3Error_Error :: "int \<Rightarrow> string \<Rightarrow> string \<Rightarrow> string" where
  "S3Error_Error status code message =
     (if code \<noteq> [] \<and> message \<noteq> [] then code @ '': '' @ message @ '' (HTTP '' @ Itoa status @ '')''
      else if code \<noteq> [] then code @ '' (HTTP '' @ Itoa status @ '')''
      else ''HTTP '' @ Itoa status @ '' '' @ (case map_of statusTexts status of None \<Rightarrow> [] | Some t \<Rightarrow> t))"

section \<open>Operations\<close>

text \<open>An operation ends in an error of the bucket or any other.\<close>

definition S3_do :: "'b s3_env \<Rightarrow> S3Config \<Rightarrow> s3_request \<Rightarrow> string \<Rightarrow> 'b \<Rightarrow> (backup_err + s3_response) \<times> 'b" where
  "S3_do v cfg req payloadHash b =
     (case s3_Do v (sign v cfg payloadHash req) b of
        (Inl e, b') \<Rightarrow> (Inl (Other e), b')
      | (Inr resp, b') \<Rightarrow>
        (if sp_Status resp < 300 then Inr resp
         else if sp_Status resp = 404 \<and> fst (sp_Error resp) = ''NoSuchKey'' then Inl ErrObjectNotFound
         else Inl (Other (NewError (S3Error_Error (sp_Status resp) (fst (sp_Error resp)) (snd (sp_Error resp))))), b'))"

text \<open>A request that can be built is sent.\<close>

definition S3_send ::
  "'b s3_env \<Rightarrow> S3Config \<Rightarrow> err + s3_request \<Rightarrow> string \<Rightarrow> 'b \<Rightarrow> (backup_err + s3_response) \<times> 'b" where
  "S3_send v cfg req payloadHash b =
     (case req of Inl e \<Rightarrow> (Inl (Other e), b) | Inr q \<Rightarrow> S3_do v cfg q payloadHash b)"

definition S3_Put :: "'b s3_env \<Rightarrow> S3Config \<Rightarrow> string \<Rightarrow> string \<Rightarrow> string \<Rightarrow> 'b \<Rightarrow> backup_err option \<times> 'b" where
  "S3_Put v cfg key body sha b =
     (case S3_send v cfg (map_sum id (\<lambda>q. q\<lparr>sq_Header := [(''Content-Type'', ''application/gzip'')]\<rparr>)
        (S3_request (s3_printable v) (s3_parse v) cfg ''PUT'' key [] body)) sha b of
        (Inl e, b') \<Rightarrow> (Some e, b') | (Inr _, b') \<Rightarrow> (None, b'))"

definition S3_Get :: "'b s3_env \<Rightarrow> S3Config \<Rightarrow> string \<Rightarrow> 'b \<Rightarrow> (backup_err + source \<times> int) \<times> 'b" where
  "S3_Get v cfg key b =
     (case S3_send v cfg (S3_request (s3_printable v) (s3_parse v) cfg ''GET'' key [] []) emptySHA256 b of
        (Inl e, b') \<Rightarrow> (Inl e, b') | (Inr resp, b') \<Rightarrow> (Inr (sp_Body resp, sp_Length resp), b'))"

definition S3_Delete :: "'b s3_env \<Rightarrow> S3Config \<Rightarrow> string \<Rightarrow> 'b \<Rightarrow> backup_err option \<times> 'b" where
  "S3_Delete v cfg key b =
     (case S3_send v cfg (S3_request (s3_printable v) (s3_parse v) cfg ''DELETE'' key [] []) emptySHA256 b of
        (Inl e, b') \<Rightarrow> (Some e, b') | (Inr _, b') \<Rightarrow> (None, b'))"

definition page_objects :: "S3Config \<Rightarrow> s3_page \<Rightarrow> Object list" where
  "page_objects cfg page = List.map_filter (\<lambda>(key, size, modified).
     let name = TrimPrefix key (s3_Prefix cfg) in
     if IsFileName name
     then Some \<lparr>ob_Key = key, ob_Name = name, ob_Size = size, ob_Modified = modified, ob_Encrypted = IsEncryptedName name\<rparr>
     else None) (pg_Contents page)"

definition list_query :: "S3Config \<Rightarrow> string \<Rightarrow> (string \<times> string list) list" where
  "list_query cfg token =
     [(''list-type'', [''2'']), (''prefix'', [s3_Prefix cfg @ filePrefix])] @
     (if token = [] then [] else [(''continuation-token'', [token])])"

text \<open>One page after the other, for as long as the service says there is more.\<close>

partial_function (option) list_pages ::
  "'b s3_env \<Rightarrow> S3Config \<Rightarrow> string \<Rightarrow> Object list \<Rightarrow> 'b \<Rightarrow> ((backup_err + Object list) \<times> 'b) option" where
  "list_pages v cfg token out b =
     (case S3_send v cfg (S3_request (s3_printable v) (s3_parse v) cfg ''GET'' [] (list_query cfg token) []) emptySHA256 b of
        (Inl e, b') \<Rightarrow> Some (Inl e, b')
      | (Inr resp, b') \<Rightarrow>
        (case sp_Page resp of
           Inl e \<Rightarrow> Some (Inl (Other (Errorf ''read bucket listing'' e)), b')
         | Inr page \<Rightarrow>
           if \<not> pg_IsTruncated page \<or> pg_NextToken page = [] then Some (Inr (out @ page_objects cfg page), b')
           else list_pages v cfg (pg_NextToken page) (out @ page_objects cfg page) b'))"

text \<open>Names hold a UTC timestamp, so they sort by age: newest first.\<close>

definition newest_first :: "Object list \<Rightarrow> Object list" where
  "newest_first os = rev (sort_key ob_Name (rev os))"

definition S3_List :: "'b s3_env \<Rightarrow> S3Config \<Rightarrow> 'b \<Rightarrow> ((backup_err + Object list) \<times> 'b) option" where
  "S3_List v cfg b = map_option (map_prod (map_sum id newest_first) id) (list_pages v cfg [] [] b)"

text \<open>A small file written, listed and deleted, before the first real backup.\<close>

definition wrap_backup :: "string \<Rightarrow> backup_err \<Rightarrow> backup_err" where
  "wrap_backup msg e = Other (NewError (msg @ '': '' @ backup_Error e))"

definition S3_Check :: "'b s3_env \<Rightarrow> S3Config \<Rightarrow> 'b \<Rightarrow> (backup_err option \<times> 'b) option" where
  "S3_Check v cfg b =
     (let key = s3_Prefix cfg @ ''.tunploy-check''; body = ''tunploy connection check'' @ [CHR 0x0A] in
      case S3_Put v cfg key body (hexSHA256 v body) b of
        (Some e, b1) \<Rightarrow> Some (Some (wrap_backup ''could not upload a test file'' e), b1)
      | (None, b1) \<Rightarrow>
        (case S3_List v cfg b1 of
           None \<Rightarrow> None
         | Some (Inl e, b2) \<Rightarrow> Some (Some (wrap_backup ''could not list files'' e), b2)
         | Some (Inr _, b2) \<Rightarrow>
           (case S3_Delete v cfg key b2 of
              (Some e, b3) \<Rightarrow> Some (Some (wrap_backup ''could not delete the test file'' e), b3)
            | (None, b3) \<Rightarrow> Some (None, b3))))"

end
