(* ===== verification/StoreBackup.thy ===== *)
theory StoreBackup
  imports StoreKeys StoreEvents StoreNodes StoreWebhooks
begin

text \<open>
  internal/store/backup.go: the copy of the database a backup holds, and putting one in place of the
  panel's data. What SQLite finds when it opens the file of a backup, checks it and brings its schema up
  to date is an argument: an error, or the tables in it.
\<close>

definition ErrNewerBackup :: err where "ErrNewerBackup = NewError ''store: backup was made by a newer version of tunploy''"
definition ErrInvalidBackup :: err where "ErrInvalidBackup = NewError ''store: backup is not a tunploy database''"

section \<open>Snapshot\<close>

text \<open>\<open>VACUUM INTO\<close>, then three tables of the copy are emptied; \<open>file\<close> is how that ends.\<close>

definition Snapshot :: "err option \<Rightarrow> ('z, panel) psql" where
  "Snapshot file =
     bnd (mapErr (Errorf ''snapshot database'') (query panel.truncate)) (\<lambda>copy.
     thn (failOn file)
     (ret (copy\<lparr>t_faults := [], t_sessions := [], t_idem := [], t_deliveries := []\<rparr>)))"

section \<open>Tables\<close>

datatype table = ApiIdempotency | ApiKeysTable | EventsTable | NodesTable | SessionsTable | SettingsTable | UsersTable
  | WebhookDeliveries | WebhooksTable | WgInstances | WgPeerCounters | WgPeerUsage | WgPeers

fun table_name :: "table \<Rightarrow> string" where
  "table_name ApiIdempotency = ''api_idempotency''"
| "table_name ApiKeysTable = ''api_keys''"
| "table_name EventsTable = ''events''"
| "table_name NodesTable = ''nodes''"
| "table_name SessionsTable = ''sessions''"
| "table_name SettingsTable = ''settings''"
| "table_name UsersTable = ''users''"
| "table_name WebhookDeliveries = ''webhook_deliveries''"
| "table_name WebhooksTable = ''webhooks''"
| "table_name WgInstances = ''wg_instances''"
| "table_name WgPeerCounters = ''wg_peer_counters''"
| "table_name WgPeerUsage = ''wg_peer_usage''"
| "table_name WgPeers = ''wg_peers''"

text \<open>The tables of the schema, by name.\<close>

definition tableNames :: "table list" where
  "tableNames = [ApiIdempotency, ApiKeysTable, EventsTable, NodesTable, SessionsTable, SettingsTable, UsersTable,
     WebhookDeliveries, WebhooksTable, WgInstances, WgPeerCounters, WgPeerUsage, WgPeers]"

definition notRestored :: "table list" where
  "notRestored = [SessionsTable, WgPeerCounters, ApiIdempotency, WebhookDeliveries]"

text \<open>\<open>DELETE FROM\<close> a table; the rows a cascade takes are in tables that are emptied as well.\<close>

fun clear_table :: "table \<Rightarrow> 'z panel_scheme \<Rightarrow> 'z panel_scheme" where
  "clear_table ApiIdempotency s = s\<lparr>t_idem := []\<rparr>"
| "clear_table ApiKeysTable s = s\<lparr>t_api_keys := []\<rparr>"
| "clear_table EventsTable s = s\<lparr>t_events := []\<rparr>"
| "clear_table NodesTable s = s\<lparr>t_nodes := []\<rparr>"
| "clear_table SessionsTable s = s\<lparr>t_sessions := []\<rparr>"
| "clear_table SettingsTable s = s\<lparr>t_settings := []\<rparr>"
| "clear_table UsersTable s = s\<lparr>t_users := []\<rparr>"
| "clear_table WebhookDeliveries s = s\<lparr>t_deliveries := []\<rparr>"
| "clear_table WebhooksTable s = s\<lparr>t_webhooks := []\<rparr>"
| "clear_table WgInstances s = s\<lparr>t_instances := []\<rparr>"
| "clear_table WgPeerCounters s = s\<lparr>t_counters := []\<rparr>"
| "clear_table WgPeerUsage s = s\<lparr>t_usage := []\<rparr>"
| "clear_table WgPeers s = s\<lparr>t_peers := []\<rparr>"

text \<open>
  The first row that breaks a unique index of the table, given the rows before it; and the counter of
  AUTOINCREMENT, which follows the largest id ever inserted.
\<close>

fun first_clash :: "('r list \<Rightarrow> 'r \<Rightarrow> err option) \<Rightarrow> 'r list \<Rightarrow> 'r list \<Rightarrow> err option" where
  "first_clash clash seen [] = None"
| "first_clash clash seen (r # rs) = (case clash seen r of Some e \<Rightarrow> Some e | None \<Rightarrow> first_clash clash (seen @ [r]) rs)"

definition bump :: "int \<Rightarrow> int list \<Rightarrow> int" where
  "bump = foldl max"

definition key_clash :: "string \<Rightarrow> string list \<Rightarrow> ('r \<Rightarrow> 'k) \<Rightarrow> 'r list \<Rightarrow> 'r \<Rightarrow> err option" where
  "key_clash table cols key seen r = (if key r \<in> key ` set seen then Some (unique_error table cols) else None)"

definition both_clash :: "('r list \<Rightarrow> 'r \<Rightarrow> err option) \<Rightarrow> ('r list \<Rightarrow> 'r \<Rightarrow> err option) \<Rightarrow> 'r list \<Rightarrow> 'r \<Rightarrow> err option" where
  "both_clash c d seen r = (case c seen r of Some e \<Rightarrow> Some e | None \<Rightarrow> d seen r)"

text \<open>\<open>INSERT INTO main.t \<dots> SELECT \<dots> FROM backup.t\<close>\<close>

fun table_clash :: "table \<Rightarrow> panel \<Rightarrow> err option" where
  "table_clash ApiIdempotency bk = first_clash (key_clash ''api_idempotency'' [''api_key_id'', ''key''] (\<lambda>i. (ik_api_key_id i, ik_key i))) [] (t_idem bk)"
| "table_clash ApiKeysTable bk = first_clash (both_clash (key_clash ''api_keys'' [''id''] ak_id) api_key_clash) [] (t_api_keys bk)"
| "table_clash EventsTable bk = first_clash (key_clash ''events'' [''id''] ev_id) [] (t_events bk)"
| "table_clash NodesTable bk = first_clash (both_clash (key_clash ''nodes'' [''id''] nr_id) node_clash) [] (t_nodes bk)"
| "table_clash SessionsTable bk = first_clash (key_clash ''sessions'' [''token_hash''] se_token_hash) [] (t_sessions bk)"
| "table_clash SettingsTable bk = first_clash (key_clash ''settings'' [''key''] fst) [] (t_settings bk)"
| "table_clash UsersTable bk =
     first_clash (both_clash (key_clash ''users'' [''id''] us_id) (key_clash ''users'' [''email''] us_email)) [] (t_users bk)"
| "table_clash WebhookDeliveries bk = first_clash (key_clash ''webhook_deliveries'' [''id''] dr_id) [] (t_deliveries bk)"
| "table_clash WebhooksTable bk = first_clash (key_clash ''webhooks'' [''id''] wr_id) [] (t_webhooks bk)"
| "table_clash WgInstances bk = first_clash (both_clash (key_clash ''wg_instances'' [''id''] ir_id) instance_clash) [] (t_instances bk)"
| "table_clash WgPeerCounters bk = first_clash (key_clash ''wg_peer_counters'' [''peer_id''] cr_peer_id) [] (t_counters bk)"
| "table_clash WgPeerUsage bk =
     first_clash (key_clash ''wg_peer_usage'' [''peer_id'', ''day''] (\<lambda>u. (ur_peer_id u, ur_day u))) [] (t_usage bk)"
| "table_clash WgPeers bk = first_clash (both_clash (key_clash ''wg_peers'' [''id''] pr_id) peer_clash) [] (t_peers bk)"

fun copy_table :: "panel \<Rightarrow> table \<Rightarrow> 'z panel_scheme \<Rightarrow> 'z panel_scheme" where
  "copy_table bk ApiIdempotency s = s\<lparr>t_idem := t_idem bk\<rparr>"
| "copy_table bk ApiKeysTable s = s\<lparr>t_api_keys := t_api_keys bk, t_api_key_seq := bump (t_api_key_seq s) (map ak_id (t_api_keys bk))\<rparr>"
| "copy_table bk EventsTable s = s\<lparr>t_events := t_events bk, t_event_seq := bump (t_event_seq s) (map ev_id (t_events bk))\<rparr>"
| "copy_table bk NodesTable s = s\<lparr>t_nodes := t_nodes bk, t_node_seq := bump (t_node_seq s) (map nr_id (t_nodes bk))\<rparr>"
| "copy_table bk SessionsTable s = s\<lparr>t_sessions := t_sessions bk\<rparr>"
| "copy_table bk SettingsTable s = s\<lparr>t_settings := t_settings bk\<rparr>"
| "copy_table bk UsersTable s = s\<lparr>t_users := t_users bk, t_user_seq := bump (t_user_seq s) (map us_id (t_users bk))\<rparr>"
| "copy_table bk WebhookDeliveries s = s\<lparr>t_deliveries := t_deliveries bk, t_delivery_seq := bump (t_delivery_seq s) (map dr_id (t_deliveries bk))\<rparr>"
| "copy_table bk WebhooksTable s = s\<lparr>t_webhooks := t_webhooks bk, t_webhook_seq := bump (t_webhook_seq s) (map wr_id (t_webhooks bk))\<rparr>"
| "copy_table bk WgInstances s = s\<lparr>t_instances := t_instances bk, t_instance_seq := bump (t_instance_seq s) (map ir_id (t_instances bk))\<rparr>"
| "copy_table bk WgPeerCounters s = s\<lparr>t_counters := t_counters bk\<rparr>"
| "copy_table bk WgPeerUsage s = s\<lparr>t_usage := t_usage bk\<rparr>"
| "copy_table bk WgPeers s = s\<lparr>t_peers := t_peers bk, t_peer_seq := bump (t_peer_seq s) (map pr_id (t_peers bk))\<rparr>"

text \<open>What the deferred foreign keys check at the commit.\<close>

definition refs_ok :: "'z panel_scheme \<Rightarrow> bool" where
  "refs_ok s =
     (list_all (\<lambda>r. pr_instance_id r \<in> ir_id ` set (t_instances s)) (t_peers s) \<and>
      list_all (\<lambda>u. ur_peer_id u \<in> pr_id ` set (t_peers s)) (t_usage s))"

section \<open>Restore\<close>

definition keptSettings :: "(string \<Rightarrow> bool) \<Rightarrow> ('z, (string \<times> string) list) psql" where
  "keptSettings keep = mapErr (Errorf ''read settings'') (query (\<lambda>s. filter (\<lambda>(k, v). keep k) (t_settings s)))"

definition replace_tables :: "panel \<Rightarrow> table list \<Rightarrow> (string \<times> string) list \<Rightarrow> ('z, unit) psql" where
  "replace_tables bk tables kept =
     thn (mapErr (Errorf ''restore'') (query (\<lambda>_. ())))
     (thn (forEach tables (\<lambda>t. mapErr (Errorf (''clear '' @ table_name t)) (stmt (\<lambda>s. (Inr (), clear_table t s)))))
     (thn (forEach (filter (\<lambda>t. t \<notin> set notRestored) tables) (\<lambda>t.
        thn (mapErr (Errorf (''columns of '' @ table_name t)) (query (\<lambda>_. ())))
        (mapErr (Errorf (''restore '' @ table_name t)) (stmt (\<lambda>s.
           case table_clash t bk of Some e \<Rightarrow> (Inl e, s) | None \<Rightarrow> (Inr (), copy_table bk t s))))))
     (forEach kept (\<lambda>(k, v).
        mapErr (Errorf (''keep setting '' @ k)) (stmt (\<lambda>s. (Inr (), s\<lparr>t_settings := AList.update k v (t_settings s)\<rparr>)))))))"

definition restore_tables :: "(string \<Rightarrow> bool) \<Rightarrow> panel \<Rightarrow> ('z, unit) psql" where
  "restore_tables keep bk =
     bnd (keptSettings keep) (\<lambda>kept.
     bnd (mapErr (Errorf ''list tables'') (query (\<lambda>_. tableNames))) (\<lambda>tables.
     thn (replace_tables bk tables kept)
     (bnd (gets refs_ok) (\<lambda>ok. if ok then ret () else throw (Errorf ''restore'' foreign_key_error)))))"

text \<open>\<open>DETACH\<close> is deferred, and its outcome is nobody's.\<close>

definition store_Restore :: "(string \<Rightarrow> bool) \<Rightarrow> err + panel \<Rightarrow> ('z, unit) psql" where
  "store_Restore keep backup =
     bnd (liftE backup) (\<lambda>bk.
     thn (mapErr (Errorf ''restore'') (query (\<lambda>_. ())))
     (thn (mapErr (Errorf ''attach backup'') (query (\<lambda>_. ())))
     (bnd (attempt (transact ''restore'' ''restore'' (restore_tables keep bk))) (\<lambda>r.
     thn (attempt (query (\<lambda>_. ()))) (liftE r)))))"

section \<open>Facts\<close>

text \<open>What a run that succeeds does to the tables, the faults it used up apart.\<close>

definition effect :: "('s db_scheme \<Rightarrow> 's db_scheme) \<Rightarrow> ('s, unit) sql \<Rightarrow> bool" where
  "effect g m \<longleftrightarrow> (\<forall>s bs. g (s\<lparr>t_faults := bs\<rparr>) = (g s)\<lparr>t_faults := bs\<rparr>) \<and>
     (\<forall>s s'. m s = (Inr (), s') \<longrightarrow> same_tables (g s) s')"

lemma effect_same: "effect g m \<Longrightarrow> same_tables s t \<Longrightarrow> same_tables (g s) (g t)"
  by (auto simp: effect_def same_tables_def)

lemma effect_run: "effect g m \<Longrightarrow> m s = (Inr (), s') \<Longrightarrow> same_tables (g s) s'"
  by (simp add: effect_def)

lemma effect_thn:
  assumes g: "effect g m" and h: "effect h n"
  shows "effect (h \<circ> g) (thn m n)"
proof -
  have "same_tables (h (g s)) s'" if r: "thn m n s = (Inr (), s')" for s s'
  proof -
    obtain t where m: "m s = (Inr (), t)" and n: "n t = (Inr (), s')" using r by (auto simp: thn_def bnd_def split: prod.splits sum.splits)
    show ?thesis using effect_same[OF h effect_run[OF g m]] effect_run[OF h n] by (rule same_tables_trans)
  qed
  then show ?thesis using g h by (simp add: effect_def)
qed

lemma effect_forEach:
  assumes "\<And>x. x \<in> set xs \<Longrightarrow> effect (g x) (m x)"
  shows "effect (fold g xs) (forEach xs m)"
  using assms
proof (induction xs)
  case Nil
  then show ?case by (simp add: effect_def ret_def)
next
  case (Cons x xs)
  then show ?case using effect_thn[of "g x" "m x" "fold g xs" "forEach xs m"] by (simp add: comp_def)
qed

lemma effect_stmt:
  assumes "\<And>s s'. f s = (Inr (), s') \<Longrightarrow> s' = g s" and "\<And>s bs. g (s\<lparr>t_faults := bs\<rparr>) = (g s)\<lparr>t_faults := bs\<rparr>"
  shows "effect g (mapErr h (stmt f))"
  unfolding effect_def
proof (intro conjI allI impI)
  fix s s' assume r: "mapErr h (stmt f) s = (Inr (), s')"
  then obtain bs where "f (s\<lparr>t_faults := bs\<rparr>) = (Inr (), s')"
    by (cases rule: stmt_cases[of f s]) (auto simp: mapErr_def split: sum.splits prod.splits)
  then show "same_tables (g s) s'" using assms by (metis same_tablesI)
qed (rule assms(2))

lemma effect_query: "effect id (mapErr h (query (\<lambda>_. ())))"
  unfolding query_def by (rule effect_stmt) auto

lemma effect_id_thn: "effect id m \<Longrightarrow> effect g n \<Longrightarrow> effect g (thn m n)"
  using effect_thn[of id m g n] by simp

lemma effect_clear: "effect (clear_table t) (mapErr h (stmt (\<lambda>s. (Inr (), clear_table t s))))"
  by (rule effect_stmt) (auto, cases t, auto)

lemma effect_copy:
  "effect (copy_table bk t) (mapErr h (stmt (\<lambda>s. case table_clash t bk of Some e \<Rightarrow> (Inl e, s) | None \<Rightarrow> (Inr (), copy_table bk t s))))"
proof (rule effect_stmt)
  show "copy_table bk t (s\<lparr>t_faults := bs\<rparr>) = (copy_table bk t s)\<lparr>t_faults := bs\<rparr>" for s bs by (cases t) simp_all
qed (auto split: option.splits)

definition keep_setting :: "string \<times> string \<Rightarrow> 'z panel_scheme \<Rightarrow> 'z panel_scheme" where
  "keep_setting kv s = s\<lparr>t_settings := AList.update (fst kv) (snd kv) (t_settings s)\<rparr>"

lemma effect_keep:
  "effect (keep_setting kv) ((\<lambda>(k, v). mapErr (h k) (stmt (\<lambda>s. (Inr (), s\<lparr>t_settings := AList.update k v (t_settings s)\<rparr>)))) kv)"
  unfolding split_beta by (rule effect_stmt) (simp_all add: keep_setting_def)

text \<open>What a restore leaves of the database \<open>s\<close>.\<close>

definition restored :: "(string \<Rightarrow> bool) \<Rightarrow> panel \<Rightarrow> 'z panel_scheme \<Rightarrow> 'z panel_scheme" where
  "restored keep bk s =
     fold keep_setting (filter (\<lambda>(k, v). keep k) (t_settings s))
       (fold (copy_table bk) (filter (\<lambda>t. t \<notin> set notRestored) tableNames) (fold clear_table tableNames s))"

lemma query_run:
  assumes "mapErr h (query f) s = (Inr x, s')" and "\<And>bs. f (s\<lparr>t_faults := bs\<rparr>) = f s"
  shows "x = f s \<and> same_tables s s'"
  using assms by (cases rule: query_cases[of f s]) (auto simp: mapErr_def)

lemma replace_tables_effect:
  "effect (fold keep_setting kept \<circ> fold (copy_table bk) (filter (\<lambda>t. t \<notin> set notRestored) ts) \<circ> fold clear_table ts) (replace_tables bk ts kept)"
proof -
  have kept: "effect (fold keep_setting kept) (forEach kept (\<lambda>(k, v). mapErr (Errorf (''keep setting '' @ k)) (stmt (\<lambda>s. (Inr (), s\<lparr>t_settings := AList.update k v (t_settings s)\<rparr>)))))"
    by (rule effect_forEach) (rule effect_keep)
  have copy: "effect (fold (copy_table bk) us) (forEach us (\<lambda>t. thn (mapErr (Errorf (''columns of '' @ table_name t)) (query (\<lambda>_. ())))
        (mapErr (Errorf (''restore '' @ table_name t)) (stmt (\<lambda>s. case table_clash t bk of Some e \<Rightarrow> (Inl e, s) | None \<Rightarrow> (Inr (), copy_table bk t s))))))" for us
    by (rule effect_forEach) (rule effect_id_thn[OF effect_query effect_copy])
  have clear: "effect (fold clear_table ts) (forEach ts (\<lambda>t. mapErr (Errorf (''clear '' @ table_name t)) (stmt (\<lambda>s. (Inr (), clear_table t s)))))"
    by (rule effect_forEach) (rule effect_clear)
  show ?thesis
    using effect_id_thn[OF effect_query effect_thn[OF clear effect_thn[OF copy kept]]] by (simp add: replace_tables_def comp_assoc)
qed

lemma refs_ok_same: "same_tables s t \<Longrightarrow> refs_ok s = refs_ok t"
  by (auto simp: same_tables_def refs_ok_def)

lemma restore_tables_run:
  assumes "restore_tables keep bk s = (Inr (), s')"
  shows "same_tables (restored keep bk s) s' \<and> refs_ok s'"
proof -
  let ?kept = "filter (\<lambda>(k, v). keep k) (t_settings s)"
  obtain kept s1 where 1: "keptSettings keep s = (Inr kept, s1)"
    and r1: "bnd (mapErr (Errorf ''list tables'') (query (\<lambda>_. tableNames))) (\<lambda>tables. thn (replace_tables bk tables kept)
       (bnd (gets refs_ok) (\<lambda>ok. if ok then ret () else throw (Errorf ''restore'' foreign_key_error)))) s1 = (Inr (), s')"
    using assms unfolding restore_tables_def by (auto elim: bnd_InrE)
  have k: "kept = ?kept" "same_tables s s1" using query_run[OF 1[unfolded keptSettings_def]] by simp_all
  obtain ts s2 where 2: "mapErr (Errorf ''list tables'') (query (\<lambda>_. tableNames)) s1 = (Inr ts, s2)"
    and r2: "thn (replace_tables bk ts kept) (bnd (gets refs_ok) (\<lambda>ok. if ok then ret () else throw (Errorf ''restore'' foreign_key_error))) s2 = (Inr (), s')"
    using r1 by (auto elim: bnd_InrE)
  have t: "ts = tableNames" "same_tables s1 s2" using query_run[OF 2] by simp_all
  obtain s3 where 3: "replace_tables bk tableNames ?kept s2 = (Inr (), s3)"
    and r3: "bnd (gets refs_ok) (\<lambda>ok. if ok then ret () else throw (Errorf ''restore'' foreign_key_error)) s3 = (Inr (), s')"
    using r2 unfolding t k by (auto elim: thn_InrE)
  have "refs_ok s3 \<and> s' = s3" using r3 by (simp add: bnd_def gets_def ret_def throw_def split: if_splits)
  moreover have "same_tables (restored keep bk s) s3"
    using same_tables_trans[OF effect_same[OF replace_tables_effect same_tables_trans[OF k(2) t(2)]] effect_run[OF replace_tables_effect 3]]
    by (simp add: restored_def)
  ultimately show ?thesis by simp
qed

lemma restored_same: "same_tables s t \<Longrightarrow> same_tables (restored keep bk s) (restored keep bk t)"
  using effect_same[OF replace_tables_effect, of s t] by (auto simp: restored_def same_tables_def)

lemma same_tables_sym: "same_tables s t \<Longrightarrow> same_tables t s"
  by (auto simp: same_tables_def intro!: exI[of _ "t_faults s"])

lemma query_same: "same_tables s (snd (mapErr h (query f) s))" "same_tables s (snd (attempt (query f) s))"
  by (cases rule: query_cases[of f s]; auto simp: mapErr_def attempt_def)+

lemma store_Restore_run:
  assumes "store_Restore keep backup s = (r, s')"
  shows "case r of Inl e \<Rightarrow> same_tables s s'
    | Inr _ \<Rightarrow> \<exists>bk. backup = Inr bk \<and> same_tables (restored keep bk s) s' \<and> refs_ok s'"
proof (cases backup)
  case (Inl e)
  then show ?thesis using assms by (auto simp: store_Restore_def bnd_def)
next
  case (Inr bk)
  obtain r1 s1 where 1: "mapErr (Errorf ''restore'') (query (\<lambda>_. ())) s = (r1, s1)" "same_tables s s1"
    using query_same(1)[of s "Errorf ''restore''" "\<lambda>_. ()"] by (metis prod.collapse)
  obtain r2 s2 where 2: "mapErr (Errorf ''attach backup'') (query (\<lambda>_. ())) s1 = (r2, s2)" "same_tables s1 s2"
    using query_same(1)[of s1 "Errorf ''attach backup''" "\<lambda>_. ()"] by (metis prod.collapse)
  obtain r3 s3 where 3: "transact ''restore'' ''restore'' (restore_tables keep bk) s2 = (r3, s3)" by fastforce
  obtain s4 where 4: "attempt (query (\<lambda>_. ())) s3 = (Inr (fst (query (\<lambda>_. ()) s3)), s4)" "same_tables s3 s4"
    using query_same(2)[of s3 "\<lambda>_. ()"] by (auto simp: attempt_def split: prod.splits)
  note s2 = same_tables_trans[OF 1(2) 2(2)]
  consider (early) e where "r = Inl e" "same_tables s s'" | (late) "r = r3" "s' = s4"
    using assms Inr 1 2 3 4(1) s2 by (cases r1; cases r2) (auto simp: store_Restore_def bnd_def thn_def attempt_def)
  then show ?thesis
  proof cases
    case early
    then show ?thesis by simp
  next
    case late
    show ?thesis
    proof (cases r3)
      case (Inl e)
      have "same_tables s s4" using same_tables_trans[OF same_tables_trans[OF s2 transact_atomic[OF 3[unfolded Inl]]] 4(2)] .
      then show ?thesis using late Inl by simp
    next
      case (Inr x)
      then obtain a b where a: "same_tables s2 a" "restore_tables keep bk a = (Inr (), b)" "same_tables b s3"
        using 3 unfolding Inr by (auto elim: transact_Inr)
      note run = restore_tables_run[OF a(2)] and rest = same_tables_trans[OF a(3) 4(2)]
      have "same_tables (restored keep bk s) s4"
        using same_tables_trans[OF same_tables_trans[OF restored_same[OF same_tables_trans[OF s2 a(1)]] conjunct1[OF run]] rest] .
      moreover have "refs_ok s4" using refs_ok_same[OF rest] run by simp
      ultimately show ?thesis using late Inr \<open>backup = Inr bk\<close> by simp
    qed
  qed
qed

text \<open>The tables after a restore.\<close>

lemma map_of_keep:
  "map_of (t_settings (fold keep_setting kept s)) k = (case map_of (rev kept) k of None \<Rightarrow> map_of (t_settings s) k | Some v \<Rightarrow> Some v)"
  by (induction kept arbitrary: s) (auto simp: keep_setting_def update_conv' map_add_def split: option.splits)

lemma fold_keep: "fold keep_setting kept s = s\<lparr>t_settings := t_settings (fold keep_setting kept s)\<rparr>"
proof (induction kept arbitrary: s)
  case (Cons kv kept)
  show ?case using Cons[of "keep_setting kv s"] by (simp add: keep_setting_def)
qed simp

lemma cleared_copied:
  "fold (copy_table bk) (filter (\<lambda>t. t \<notin> set notRestored) tableNames) (fold clear_table tableNames s) =
   s\<lparr>t_api_keys := t_api_keys bk, t_api_key_seq := bump (t_api_key_seq s) (map ak_id (t_api_keys bk)),
     t_events := t_events bk, t_event_seq := bump (t_event_seq s) (map ev_id (t_events bk)),
     t_nodes := t_nodes bk, t_node_seq := bump (t_node_seq s) (map nr_id (t_nodes bk)),
     t_settings := t_settings bk,
     t_users := t_users bk, t_user_seq := bump (t_user_seq s) (map us_id (t_users bk)),
     t_webhooks := t_webhooks bk, t_webhook_seq := bump (t_webhook_seq s) (map wr_id (t_webhooks bk)),
     t_instances := t_instances bk, t_instance_seq := bump (t_instance_seq s) (map ir_id (t_instances bk)),
     t_usage := t_usage bk, t_peers := t_peers bk, t_peer_seq := bump (t_peer_seq s) (map pr_id (t_peers bk)),
     t_idem := [], t_sessions := [], t_deliveries := [], t_counters := []\<rparr>"
  by (simp add: tableNames_def notRestored_def)

lemma distinct_keep: "distinct (map fst (t_settings s)) \<Longrightarrow> distinct (map fst (t_settings (fold keep_setting kept s)))"
  by (induction kept arbitrary: s) (auto simp: keep_setting_def distinct_update)

end
