(* ===== verification/BackupService.thy ===== *)
theory BackupService
  imports BackupS3 StoreBackup
begin

text \<open>
  internal/backup (service.go, archive.go): the settings of backups, when one is due, making and uploading
  one, dropping old ones. Packing the files of an archive is a parameter, and so is the bucket. A
  program here may also never return (\<open>None\<close>), as when a bucket's listing has no end.
\<close>

section \<open>Programs\<close>

type_synonym ('s, 'e, 'a) gprog = "'s \<Rightarrow> (('e + 'a) \<times> 's) option"
type_synonym ('s, 'a) bprog = "('s, backup_err, 'a) gprog"

definition bret :: "'a \<Rightarrow> ('s, 'e, 'a) gprog" where "bret x s = Some (Inr x, s)"
definition bthrow :: "'e \<Rightarrow> ('s, 'e, 'a) gprog" where "bthrow e s = Some (Inl e, s)"

definition bbnd :: "('s, 'e, 'a) gprog \<Rightarrow> ('a \<Rightarrow> ('s, 'e, 'b) gprog) \<Rightarrow> ('s, 'e, 'b) gprog" where
  "bbnd m f s = (case m s of None \<Rightarrow> None | Some (Inl e, s') \<Rightarrow> Some (Inl e, s') | Some (Inr x, s') \<Rightarrow> f x s')"

definition bthn :: "('s, 'e, unit) gprog \<Rightarrow> ('s, 'e, 'b) gprog \<Rightarrow> ('s, 'e, 'b) gprog" where
  "bthn m n = bbnd m (\<lambda>_. n)"

definition battempt :: "('s, 'e, 'a) gprog \<Rightarrow> ('s, 'f, 'e + 'a) gprog" where
  "battempt m s = (case m s of None \<Rightarrow> None | Some (r, s') \<Rightarrow> Some (Inr r, s'))"

definition bgets :: "('s \<Rightarrow> 'a) \<Rightarrow> ('s, 'e, 'a) gprog" where "bgets f s = Some (Inr (f s), s)"
definition bmodify :: "('s \<Rightarrow> 's) \<Rightarrow> ('s, 'e, unit) gprog" where "bmodify f s = Some (Inr (), f s)"
definition bliftE :: "'e + 'a \<Rightarrow> ('s, 'e, 'a) gprog" where "bliftE r s = Some (r, s)"
definition bfrom :: "('s, 'a) prog \<Rightarrow> ('s, 'a) bprog" where "bfrom m s = Some (map_prod (map_sum Other id) id (m s))"
definition total :: "('s, 'a) prog \<Rightarrow> ('s, err, 'a) gprog" where "total m s = Some (m s)"

lemmas bprog_defs = bret_def bthrow_def bbnd_def bthn_def battempt_def bgets_def bmodify_def bliftE_def bfrom_def total_def

section \<open>Settings\<close>

definition ScheduleOff :: string where "ScheduleOff = ''off''"
definition ScheduleDaily :: string where "ScheduleDaily = ''daily''"
definition ScheduleWeekly :: string where "ScheduleWeekly = ''weekly''"
definition DefaultKeep :: int where "DefaultKeep = 7"
definition weeklyDay :: int where "weeklyDay = 0"
definition retryAfter :: gotime where "retryAfter = 30 * 60 * second"

text \<open>The settings of backups survive a restore.\<close>

definition KeepSetting :: "string \<Rightarrow> bool" where
  "KeepSetting key = HasPrefix key ''backup_''"

record BackupConfig =
  bc_S3 :: S3Config
  bc_Schedule :: string
  bc_Hour :: int
  bc_Keep :: int

definition LoadConfig :: "(string \<times> string) list \<Rightarrow> BackupConfig option" where
  "LoadConfig saved =
     (let get = stored_of saved in
      if get ''backup_s3_bucket'' = [] then None
      else Some
        \<lparr>bc_S3 = \<lparr>s3_Endpoint = get ''backup_s3_endpoint'', s3_Region = get ''backup_s3_region'', s3_Bucket = get ''backup_s3_bucket'',
           s3_Prefix = get ''backup_s3_prefix'', s3_AccessKey = get ''backup_s3_access_key'', s3_SecretKey = get ''backup_s3_secret_key'',
           s3_PathStyle = (get ''backup_s3_path_style'' = ''true'')\<rparr>,
         bc_Schedule = (if get ''backup_schedule'' = [] then ScheduleOff else get ''backup_schedule''),
         bc_Hour = Atoi_value (get ''backup_hour''),
         bc_Keep = (case map_of saved ''backup_keep'' of None \<Rightarrow> DefaultKeep | Some raw \<Rightarrow> Atoi_value raw)\<rparr>)"

definition no_config :: BackupConfig where
  "no_config = \<lparr>bc_S3 = \<lparr>s3_Endpoint = [], s3_Region = [], s3_Bucket = [], s3_Prefix = [], s3_AccessKey = [], s3_SecretKey = [],
     s3_PathStyle = False\<rparr>, bc_Schedule = ScheduleOff, bc_Hour = 0, bc_Keep = DefaultKeep\<rparr>"

definition backup_Settings :: "BackupConfig option \<Rightarrow> (string \<times> string) list" where
  "backup_Settings cfg = (let c = (case cfg of None \<Rightarrow> no_config | Some c \<Rightarrow> c); s3 = bc_S3 c in
     [(''backup_s3_endpoint'', s3_Endpoint s3), (''backup_s3_region'', s3_Region s3), (''backup_s3_bucket'', s3_Bucket s3),
      (''backup_s3_prefix'', s3_Prefix s3), (''backup_s3_access_key'', s3_AccessKey s3), (''backup_s3_secret_key'', s3_SecretKey s3),
      (''backup_s3_path_style'', if s3_PathStyle s3 then ''true'' else ''false''), (''backup_schedule'', bc_Schedule c),
      (''backup_hour'', Itoa (bc_Hour c)), (''backup_keep'', Itoa (bc_Keep c))])"

definition LoadPassphrase :: "(string \<times> string) list \<Rightarrow> string" where
  "LoadPassphrase saved = stored_of saved ''backup_passphrase''"

definition PassphraseSetting :: "string \<Rightarrow> (string \<times> string) list" where
  "PassphraseSetting p = [(''backup_passphrase'', p)]"

section \<open>The schedule\<close>

definition Weekday :: "(int \<Rightarrow> int) \<Rightarrow> gotime \<Rightarrow> int" where
  "Weekday off t = (local_secs off t div 86400 + 4) mod 7"

text \<open>Back a day at a time to the day of weekly backups.\<close>

partial_function (option) to_weeklyDay :: "(int \<Rightarrow> int) \<Rightarrow> gotime \<Rightarrow> gotime option" where
  "to_weeklyDay off slot = (if Weekday off slot = weeklyDay then Some slot else to_weeklyDay off (AddDate off slot 0 0 (- 1)))"

text \<open>The latest scheduled run at or before \<open>t\<close>; the zero time when there is none. \<open>None\<close>: the loop does not end.\<close>

definition schedule_previous :: "(int \<Rightarrow> int) \<Rightarrow> BackupConfig \<Rightarrow> gotime \<Rightarrow> gotime option" where
  "schedule_previous off c t =
     (if bc_Schedule c \<noteq> ScheduleDaily \<and> bc_Schedule c \<noteq> ScheduleWeekly then Some zero_time
      else case local_date off t of (y, m, d) \<Rightarrow>
        let slot = time_Date off y m d (bc_Hour c * 3600);
            slot = (if t < slot then AddDate off slot 0 0 (- 1) else slot)
        in if bc_Schedule c = ScheduleWeekly then to_weeklyDay off slot else Some slot)"

definition schedule_Next :: "(int \<Rightarrow> int) \<Rightarrow> BackupConfig \<Rightarrow> gotime \<Rightarrow> gotime option" where
  "schedule_Next off c t = map_option (\<lambda>prev.
     if prev = zero_time then zero_time
     else if bc_Schedule c = ScheduleWeekly then AddDate off prev 0 0 7 else AddDate off prev 0 0 1) (schedule_previous off c t)"

section \<open>The service\<close>

record BackupStatus =
  bs_Running :: bool
  bs_LastBackupAt :: "gotime option"
  bs_LastBackupName :: string
  bs_LastBackupSize :: int
  bs_LastError :: string
  bs_LastErrorAt :: "gotime option"
  bs_NextRunAt :: "gotime option"

text \<open>The panel with what the service keeps in memory, and the bucket.\<close>

record ('m, 'b) vault = "'m api" +
  vt_cfg :: "BackupConfig option"
  vt_passphrase :: string
  vt_status :: BackupStatus
  vt_failures :: nat
  vt_retryAt :: gotime
  vt_busy :: bool
  vt_bucket :: 'b

text \<open>
  What the service is made with: the journal's environment, with the clock, the bucket's, and the packing
  of an archive: from the copy of the database, the time and the passphrase the bytes and their SHA-256.
\<close>

record 'b backup_env =
  be_env :: env
  be_s3 :: "'b s3_env"
  be_file :: "err option"
  be_pack :: "panel \<Rightarrow> gotime \<Rightarrow> string \<Rightarrow> backup_err + (string \<times> string)"

record File =
  fl_Name :: string
  fl_Body :: string
  fl_SHA256 :: string

abbreviation be_now :: "'b backup_env \<Rightarrow> gotime" where "be_now v \<equiv> env_now (be_env v)"
abbreviation be_off :: "'b backup_env \<Rightarrow> int \<Rightarrow> int" where "be_off v \<equiv> env_off (be_env v)"

definition service_Load :: "(string \<times> string) list \<Rightarrow> ('m, 'b, 'z) vault_scheme \<Rightarrow> ('m, 'b, 'z) vault_scheme" where
  "service_Load saved s =
     (let st = (vt_status s)\<lparr>bs_LastBackupAt := None, bs_LastBackupName := [], bs_LastBackupSize := 0\<rparr>;
          st = (case ParseInt (stored_of saved ''backup_last_at'') of
             Some n \<Rightarrow> if n > 0 then st\<lparr>bs_LastBackupAt := Some (time_Unix n), bs_LastBackupName := stored_of saved ''backup_last_name'',
                bs_LastBackupSize := Atoi_value (stored_of saved ''backup_last_size'')\<rparr> else st
           | None \<Rightarrow> st)
      in s\<lparr>vt_cfg := LoadConfig saved, vt_passphrase := LoadPassphrase saved, vt_failures := 0, vt_retryAt := zero_time,
           vt_status := st\<rparr>)"

definition service_Status :: "'b backup_env \<Rightarrow> ('m, 'b, 'z) vault_scheme \<Rightarrow> BackupStatus option" where
  "service_Status v s =
     (case vt_cfg s of
        None \<Rightarrow> Some (vt_status s)
      | Some c \<Rightarrow> map_option (\<lambda>n.
          if n = zero_time then vt_status s
          else (vt_status s)\<lparr>bs_NextRunAt := Some (if vt_retryAt s \<noteq> zero_time \<and> vt_retryAt s < n then vt_retryAt s else n)\<rparr>)
          (schedule_Next (be_off v) c (be_now v)))"

definition Remote :: "('m, 'b, 'z) vault_scheme \<Rightarrow> backup_err + S3Config" where
  "Remote s = (case vt_cfg s of None \<Rightarrow> Inl ErrNotConfigured | Some c \<Rightarrow> Inr (NewS3 (bc_S3 c)))"

text \<open>The lock is tried, never waited on.\<close>

definition Exclusive :: "(('m, 'b, 'z) vault_scheme, 'a) bprog \<Rightarrow> (('m, 'b, 'z) vault_scheme, 'a) bprog" where
  "Exclusive m s =
     (if vt_busy s then Some (Inl ErrBusy, s)
      else map_option (map_prod id (\<lambda>s'. s'\<lparr>vt_busy := False\<rparr>)) (m (s\<lparr>vt_busy := True\<rparr>)))"

definition backup_Create :: "'b backup_env \<Rightarrow> gotime \<Rightarrow> string \<Rightarrow> (('m, 'b, 'z) vault_scheme, File) bprog" where
  "backup_Create v now passphrase =
     bbnd (bfrom (Snapshot (be_file v))) (\<lambda>copy.
     bbnd (bliftE (be_pack v copy now passphrase)) (\<lambda>(body, sha).
     bret \<lparr>fl_Name = FileName now (passphrase \<noteq> []), fl_Body = body, fl_SHA256 = sha\<rparr>))"

definition Export :: "'b backup_env \<Rightarrow> (('m, 'b, 'z) vault_scheme, File) bprog" where
  "Export v = Exclusive (bbnd (bgets vt_passphrase) (backup_Create v (be_now v)))"

definition on_bucket :: "('b \<Rightarrow> (backup_err option \<times> 'b) option) \<Rightarrow> (('m, 'b, 'z) vault_scheme, backup_err option) bprog" where
  "on_bucket m s = map_option (\<lambda>(e, b). (Inr e, s\<lparr>vt_bucket := b\<rparr>)) (m (vt_bucket s))"

text \<open>The deletions go on after an error; the errors are only logged.\<close>

primrec delete_all :: "'b s3_env \<Rightarrow> S3Config \<Rightarrow> Object list \<Rightarrow> 'b \<Rightarrow> backup_err list \<times> 'b" where
  "delete_all v cfg [] b = ([], b)"
| "delete_all v cfg (ob # obs) b =
     (case S3_Delete v cfg (ob_Key ob) b of (e, b1) \<Rightarrow>
       (case delete_all v cfg obs b1 of (es, b2) \<Rightarrow> ((case e of None \<Rightarrow> es | Some x \<Rightarrow> x # es), b2)))"

definition prune_bucket :: "'b s3_env \<Rightarrow> S3Config \<Rightarrow> int \<Rightarrow> 'b \<Rightarrow> (backup_err list \<times> 'b) option" where
  "prune_bucket v cfg keep b =
     (case S3_List v cfg b of
        None \<Rightarrow> None
      | Some (Inl e, b1) \<Rightarrow> Some ([e], b1)
      | Some (Inr objects, b1) \<Rightarrow> Some (delete_all v cfg (drop (nat keep) objects) b1))"

definition upload :: "'b backup_env \<Rightarrow> (('m, 'b, 'z) vault_scheme, Object) bprog" where
  "upload v =
     bbnd (bgets vt_cfg) (\<lambda>cfg.
     case cfg of
       None \<Rightarrow> bthrow ErrNotConfigured
     | Some c \<Rightarrow>
       let remote = NewS3 (bc_S3 c) in
       bbnd (bgets vt_passphrase) (\<lambda>passphrase.
       bbnd (backup_Create v (be_now v) passphrase) (\<lambda>f.
       let ob = \<lparr>ob_Key = S3_Key remote (fl_Name f), ob_Name = fl_Name f, ob_Size = int (length (fl_Body f)), ob_Modified = be_now v,
                 ob_Encrypted = IsEncryptedName (fl_Name f)\<rparr> in
       bbnd (on_bucket (\<lambda>b. Some (S3_Put (be_s3 v) remote (ob_Key ob) (fl_Body f) (fl_SHA256 f) b))) (\<lambda>r.
       case r of
         Some e \<Rightarrow> bthrow (wrap_backup (''upload to '' @ s3_Bucket (bc_S3 c)) e)
       | None \<Rightarrow>
         bthn (if bc_Keep c > 0
               then bbnd (on_bucket (\<lambda>b. map_option (\<lambda>(es, b'). (None, b')) (prune_bucket (be_s3 v) remote (bc_Keep c) b))) (\<lambda>_. bret ())
               else bret ())
         (bret ob)))))"

text \<open>\<open>FormatSize\<close>: one decimal of a quotient of \<open>float64\<close>; \<open>size_exp\<close> is its loop.\<close>

fun size_exp :: "nat \<Rightarrow> nat" where
  "size_exp m = (if m < 1024 then 0 else Suc (size_exp (m div 1024)))"

declare size_exp.simps [simp del]

definition FormatSize :: "int \<Rightarrow> string" where
  "FormatSize n =
     (if n < 1024 then Itoa n @ '' B''
      else let e = size_exp (nat n div 1024); t = round_even (10 * float_of n) (1024 ^ (e + 1)) in
        Itoa (t div 10) @ ''.'' @ Itoa (t mod 10) @ '' '' @ [''KMGTPE'' ! e] @ ''B'')"

text \<open>
  What became of a backup: the status, the time of the next try, and the report. A failure of a scheduled
  one is reported the first time only.
\<close>

definition failed_status :: "'b backup_env \<Rightarrow> bool \<Rightarrow> backup_err \<Rightarrow> ('m, 'b, 'z) vault_scheme \<Rightarrow> ('m, 'b, 'z) vault_scheme" where
  "failed_status v scheduled e s =
     (let s = s\<lparr>vt_status := (vt_status s)\<lparr>bs_LastError := backup_Error e, bs_LastErrorAt := Some (be_now v)\<rparr>\<rparr> in
      if scheduled then s\<lparr>vt_failures := vt_failures s + 1, vt_retryAt := be_now v + retryAfter\<rparr> else s)"

definition done_status :: "'b backup_env \<Rightarrow> Object \<Rightarrow> ('m, 'b, 'z) vault_scheme \<Rightarrow> ('m, 'b, 'z) vault_scheme" where
  "done_status v ob s =
     s\<lparr>vt_status := (vt_status s)\<lparr>bs_LastError := [], bs_LastErrorAt := None, bs_LastBackupAt := Some (be_now v),
         bs_LastBackupName := ob_Name ob, bs_LastBackupSize := ob_Size ob\<rparr>, vt_failures := 0, vt_retryAt := zero_time\<rparr>"

definition finish :: "'b backup_env \<Rightarrow> bool \<Rightarrow> backup_err + Object \<Rightarrow> (('m, 'b, 'z) vault_scheme, unit) prog" where
  "finish v scheduled r =
     (case r of
        Inl e \<Rightarrow>
          thn (modify (failed_status v scheduled e))
          (bnd (gets vt_failures) (\<lambda>n.
           if scheduled \<and> n = 1 then Record (be_env v) ((blank_event ''backup.failed'')\<lparr>e_Detail := backup_Error e\<rparr>) else ret ()))
      | Inr ob \<Rightarrow>
          thn (modify (done_status v ob))
          (thn (attempt (SaveSettings [(''backup_last_at'', Itoa (unix (be_now v))), (''backup_last_name'', ob_Name ob),
             (''backup_last_size'', Itoa (ob_Size ob))]))
          (Record (be_env v) ((blank_event ''backup.created'')\<lparr>e_Detail := ob_Name ob @ '' ('' @ FormatSize (ob_Size ob) @ '')''\<rparr>))))"

definition setRunning :: "bool \<Rightarrow> ('m, 'b, 'z) vault_scheme \<Rightarrow> ('m, 'b, 'z) vault_scheme" where
  "setRunning on s = s\<lparr>vt_status := (vt_status s)\<lparr>bs_Running := on\<rparr>\<rparr>"

definition Upload :: "'b backup_env \<Rightarrow> bool \<Rightarrow> (('m, 'b, 'z) vault_scheme, Object) bprog" where
  "Upload v scheduled =
     Exclusive
       (bthn (bmodify (setRunning True))
       (bbnd (battempt (upload v)) (\<lambda>r.
        bthn (bfrom (finish v scheduled r))
        (bthn (bmodify (setRunning False)) (bliftE r)))))"

definition backup_due :: "'b backup_env \<Rightarrow> ('m, 'b, 'z) vault_scheme \<Rightarrow> bool option" where
  "backup_due v s =
     (case vt_cfg s of
        None \<Rightarrow> Some False
      | Some c \<Rightarrow> map_option (\<lambda>slot.
          if slot = zero_time \<or> be_now v < vt_retryAt s then False
          else case bs_LastBackupAt (vt_status s) of None \<Rightarrow> True | Some last_at \<Rightarrow> last_at < slot)
          (schedule_previous (be_off v) c (be_now v)))"

text \<open>One tick of \<open>Run\<close>; its error is only logged.\<close>

definition run_tick :: "'b backup_env \<Rightarrow> (('m, 'b, 'z) vault_scheme, unit) bprog" where
  "run_tick v s =
     (case backup_due v s of
        None \<Rightarrow> None
      | Some d \<Rightarrow> (if d then bbnd (battempt (Upload v True)) (\<lambda>_. bret ()) else bret ()) s)"

end
