(* ===== verification/RestoreProperties.thy ===== *)
theory RestoreProperties
  imports BackupService StoreProperties
begin

text \<open>
  Properties of snapshots and restores (internal/store/backup.go): a restore replaces the data or changes
  nothing, leaves the tables consistent, and puts back what a snapshot took.
\<close>

lemma restored_eq:
  "restored keep bk s =
   s\<lparr>t_api_keys := t_api_keys bk, t_api_key_seq := bump (t_api_key_seq s) (map ak_id (t_api_keys bk)),
     t_events := t_events bk, t_event_seq := bump (t_event_seq s) (map ev_id (t_events bk)),
     t_nodes := t_nodes bk, t_node_seq := bump (t_node_seq s) (map nr_id (t_nodes bk)),
     t_settings := t_settings (restored keep bk s),
     t_users := t_users bk, t_user_seq := bump (t_user_seq s) (map us_id (t_users bk)),
     t_webhooks := t_webhooks bk, t_webhook_seq := bump (t_webhook_seq s) (map wr_id (t_webhooks bk)),
     t_instances := t_instances bk, t_instance_seq := bump (t_instance_seq s) (map ir_id (t_instances bk)),
     t_usage := t_usage bk, t_peers := t_peers bk, t_peer_seq := bump (t_peer_seq s) (map pr_id (t_peers bk)),
     t_idem := [], t_sessions := [], t_deliveries := [], t_counters := []\<rparr>"
  unfolding restored_def cleared_copied by (subst fold_keep) simp

lemma restored_tables:
  "t_instances (restored keep bk s) = t_instances bk" "t_peers (restored keep bk s) = t_peers bk"
  "t_usage (restored keep bk s) = t_usage bk" "t_counters (restored keep bk s) = []"
  "t_users (restored keep bk s) = t_users bk" "t_sessions (restored keep bk s) = []" "t_nodes (restored keep bk s) = t_nodes bk"
  "t_api_keys (restored keep bk s) = t_api_keys bk" "t_idem (restored keep bk s) = []"
  "t_events (restored keep bk s) = t_events bk" "t_webhooks (restored keep bk s) = t_webhooks bk" "t_deliveries (restored keep bk s) = []"
  by (subst restored_eq, simp)+

lemma restored_seqs:
  "t_instance_seq (restored keep bk s) = bump (t_instance_seq s) (map ir_id (t_instances bk))"
  "t_peer_seq (restored keep bk s) = bump (t_peer_seq s) (map pr_id (t_peers bk))"
  "t_user_seq (restored keep bk s) = bump (t_user_seq s) (map us_id (t_users bk))"
  "t_api_key_seq (restored keep bk s) = bump (t_api_key_seq s) (map ak_id (t_api_keys bk))"
  "t_event_seq (restored keep bk s) = bump (t_event_seq s) (map ev_id (t_events bk))"
  by (subst restored_eq, simp)+

lemma map_of_rev_distinct: "distinct (map fst xs) \<Longrightarrow> map_of (rev xs) = map_of xs"
proof (induction xs)
  case (Cons kv xs)
  then have "map_of (rev xs) (fst kv) = None" by (simp add: map_of_eq_None_iff)
  then show ?case using Cons by (cases kv) (auto simp: map_add_def fun_eq_iff split: option.splits)
qed simp

lemma map_of_filter_keys: "map_of (filter (\<lambda>(k, v). P k) xs) k = (if P k then map_of xs k else None)"
  by (induction xs) auto

lemma restored_settings:
  assumes "distinct (map fst (t_settings s))"
  shows "map_of (t_settings (restored keep bk s)) k =
    (if keep k \<and> map_of (t_settings s) k \<noteq> None then map_of (t_settings s) k else map_of (t_settings bk) k)"
proof -
  let ?kept = "filter (\<lambda>(k, v). keep k) (t_settings s)"
  have "distinct (map fst ?kept)" using assms by (simp add: distinct_map_filter)
  then have "map_of (rev ?kept) k = (if keep k then map_of (t_settings s) k else None)"
    by (simp add: map_of_rev_distinct map_of_filter_keys)
  then show ?thesis by (auto simp: restored_def map_of_keep cleared_copied split: option.splits)
qed

text \<open>
  C10. A restore that fails, at any statement, leaves every table as it was. One that succeeds leaves the
  servers, devices, usage, users, nodes, API keys, events and webhooks of the backup, nobody signed in, no
  counters, stored replies or deliveries, and the settings of the backup except those to keep, which stay
  as they are here.
\<close>

theorem restore_replaces_data:
  fixes s :: "'z panel_scheme"
  assumes "accounts_inv s" and "store_Restore keep backup s = (r, s')"
  shows "case r of Inl e \<Rightarrow> same_tables s s'
    | Inr _ \<Rightarrow> \<exists>bk. backup = Inr bk
        \<and> t_instances s' = t_instances bk \<and> t_peers s' = t_peers bk \<and> t_usage s' = t_usage bk \<and> t_users s' = t_users bk
        \<and> t_nodes s' = t_nodes bk \<and> t_api_keys s' = t_api_keys bk \<and> t_events s' = t_events bk \<and> t_webhooks s' = t_webhooks bk
        \<and> t_sessions s' = [] \<and> t_counters s' = [] \<and> t_idem s' = [] \<and> t_deliveries s' = []
        \<and> (\<forall>k. map_of (t_settings s') k =
              (if keep k \<and> map_of (t_settings s) k \<noteq> None then map_of (t_settings s) k else map_of (t_settings bk) k))"
proof (cases r)
  case (Inl e)
  then show ?thesis using store_Restore_run[OF assms(2)] by simp
next
  case (Inr x)
  then obtain bk bs where bk: "backup = Inr bk" and s': "s' = (restored keep bk s)\<lparr>t_faults := bs\<rparr>"
    using store_Restore_run[OF assms(2)] by (auto simp: same_tables_def)
  have "distinct (map fst (t_settings s))" using assms(1) by (simp add: accounts_inv_def)
  then show ?thesis using Inr bk restored_settings[of s keep bk] by (simp add: s' restored_tables)
qed

text \<open>The office of StoreProperties with two settings, and a panel that still has one of its own.\<close>

definition office_panel :: panel where
  "office_panel = empty_panel\<lparr>t_instances := t_instances office_db, t_instance_seq := t_instance_seq office_db,
     t_settings := [(''backup_hour'', ''3''), (''site'', ''office'')]\<rparr>"

definition fresh_panel :: panel where
  "fresh_panel = empty_panel\<lparr>t_settings := [(''backup_hour'', ''5'')]\<rparr>"

lemma accounts_fresh: "accounts_inv fresh_panel"
  by (simp add: accounts_inv_def fresh_panel_def empty_panel_def db.defs empty_db_def)

lemma KeepSetting_site: "KeepSetting ''backup_hour''" "\<not> KeepSetting ''site''"
  by (simp_all add: KeepSetting_def HasPrefix_def eval_nat_numeral)

theorem restore_replaces_data_witness:
  "\<exists>r s'. store_Restore KeepSetting (Inr office_panel) fresh_panel = (r, s') \<and>
     (case r of Inl e \<Rightarrow> same_tables fresh_panel s'
      | Inr _ \<Rightarrow> t_instances s' = t_instances office_panel \<and> map_of (t_settings s') ''backup_hour'' = Some ''5''
          \<and> map_of (t_settings s') ''site'' = Some ''office'')"
proof -
  obtain r s' where r: "store_Restore KeepSetting (Inr office_panel) fresh_panel = (r, s')" by fastforce
  show ?thesis
    using restore_replaces_data[OF accounts_fresh r] r KeepSetting_site
    by (auto simp: fresh_panel_def office_panel_def split: sum.splits)
qed

section \<open>Consistency\<close>

definition panel_inv :: "'z panel_scheme \<Rightarrow> bool" where
  "panel_inv s \<longleftrightarrow> db_inv s \<and> accounts_inv s \<and> keys_inv s \<and> events_inv s"

lemma panel_inv_same: "same_tables s s' \<Longrightarrow> panel_inv s \<Longrightarrow> panel_inv s'"
  by (auto simp: same_tables_def panel_inv_def)

lemma bump_ge: "n \<le> bump n ks \<and> (\<forall>k \<in> set ks. k \<le> bump n ks)"
proof (induction ks arbitrary: n)
  case (Cons k ks)
  have "max n k \<le> bump (max n k) ks \<and> (\<forall>j \<in> set ks. j \<le> bump (max n k) ks)" by (rule Cons.IH)
  then show ?case by (auto simp: bump_def)
qed (simp add: bump_def)

lemma bump_ids: "r \<in> set rows \<Longrightarrow> f r \<le> bump n (map f rows)"
  using bump_ge[of n "map f rows"] by auto

lemma restored_inv:
  fixes s :: "'z panel_scheme"
  assumes "panel_inv bk" and "panel_inv s"
  shows "panel_inv (restored keep bk s)"
proof -
  let ?t = "restored keep bk s"
  note tabs = restored_tables[of keep bk s] restored_seqs[of keep bk s]
  have "distinct (map fst (t_settings bk))" using assms(1) by (simp add: panel_inv_def accounts_inv_def)
  then have settings: "distinct (map fst (t_settings ?t))" by (simp add: restored_def distinct_keep cleared_copied)
  have rows: "peer_row_ok ?t r = peer_row_ok bk r" for r by (simp add: peer_row_ok_def instance_by_id_def tabs)
  have "db_inv ?t"
    using assms(1) by (auto simp: panel_inv_def db_inv_def instances_inv_def peers_inv_def usage_inv_def tabs rows intro: bump_ids)
  moreover have "accounts_inv ?t"
    using assms(1) settings by (auto simp: panel_inv_def accounts_inv_def tabs intro: bump_ids)
  moreover have "keys_inv ?t" using assms(1) by (auto simp: panel_inv_def keys_inv_def tabs intro: bump_ids)
  moreover have "events_inv ?t"
    using assms bump_ge[of "t_event_seq s" "map ev_id (t_events bk)"] by (auto simp: panel_inv_def events_inv_def tabs intro: bump_ids)
  ultimately show ?thesis by (simp add: panel_inv_def)
qed


lemma panel_inv_fresh: "panel_inv fresh_panel"
  by (simp add: panel_inv_def db_inv_def instances_inv_def peers_inv_def usage_inv_def accounts_inv_def keys_inv_def events_inv_def
      fresh_panel_def empty_panel_def db.defs empty_db_def)

lemma panel_inv_office: "panel_inv office_panel"
proof -
  have "db_inv office_db" by (rule office_db_inv)
  moreover have "t_peers office_db = []" "t_usage office_db = []" by (simp_all add: office_db_def empty_db_def)
  ultimately show ?thesis
    by (simp add: panel_inv_def db_inv_def instances_inv_def peers_inv_def usage_inv_def accounts_inv_def keys_inv_def events_inv_def
        office_panel_def empty_panel_def db.defs empty_db_def)
qed


section \<open>What a snapshot took comes back\<close>

lemma first_clash_None:
  assumes "distinct (map key (seen @ rs))"
    and apart: "\<And>q r. q \<in> set (seen @ rs) \<Longrightarrow> r \<in> set (seen @ rs) \<Longrightarrow> key q \<noteq> key r \<Longrightarrow> P q r"
    and clash: "\<And>seen r. \<forall>q \<in> set seen. P q r \<Longrightarrow> clash seen r = None"
  shows "first_clash (both_clash (key_clash t c key) clash) seen rs = None"
  using assms(1,2)
proof (induction rs arbitrary: seen)
  case (Cons r rs)
  have new: "key r \<notin> key ` set seen" using Cons.prems(1) by auto
  have "P q r" if v: "q \<in> set seen" for q using Cons.prems(2)[of q r] v new by (metis Un_iff image_eqI list.set_intros(1) set_append)
  then have "both_clash (key_clash t c key) clash seen r = None" using new clash[of seen r] by (simp add: both_clash_def key_clash_def)
  moreover have "first_clash (both_clash (key_clash t c key) clash) (seen @ [r]) rs = None"
    by (rule Cons.IH) (use Cons.prems in auto)
  ultimately show ?case by simp
qed simp

lemma key_clash_None: "distinct (map key (seen @ rs)) \<Longrightarrow> first_clash (key_clash t c key) seen rs = None"
  by (induction rs arbitrary: seen) (auto simp: key_clash_def)

definition nodes_inv :: "'z panel_scheme \<Rightarrow> bool" where
  "nodes_inv s \<longleftrightarrow> distinct (map nr_id (t_nodes s)) \<and> distinct (map wr_id (t_webhooks s)) \<and>
     (\<forall>q \<in> set (t_nodes s). \<forall>r \<in> set (t_nodes s). nr_id q \<noteq> nr_id r \<longrightarrow>
        nocase (nr_name q) \<noteq> nocase (nr_name r) \<and> \<not> (nocase (nr_host q) = nocase (nr_host r) \<and> nr_port q = nr_port r))"

lemma distinct_apart: "distinct (map f xs) \<Longrightarrow> q \<in> set xs \<Longrightarrow> r \<in> set xs \<Longrightarrow> f q = f r \<Longrightarrow> q = r"
  by (auto simp: distinct_map dest: inj_onD)

lemma no_clash:
  assumes "panel_inv bk" and "nodes_inv bk" and "t \<notin> set notRestored"
  shows "table_clash t bk = None"
proof (cases t)
  case ApiKeysTable
  have "first_clash (both_clash (key_clash ''api_keys'' [''id''] ak_id) api_key_clash) [] (t_api_keys bk) = None"
    by (rule first_clash_None[where P = "\<lambda>q r. nocase (ak_name q) \<noteq> nocase (ak_name r) \<and> ak_token_hash q \<noteq> ak_token_hash r"])
      (use assms(1) in \<open>auto simp: panel_inv_def keys_inv_def api_key_clash_def list_ex_iff dest: distinct_apart\<close>)
  then show ?thesis using ApiKeysTable by simp
next
  case NodesTable
  have "first_clash (both_clash (key_clash ''nodes'' [''id''] nr_id) node_clash) [] (t_nodes bk) = None"
    by (rule first_clash_None[where P = "\<lambda>q r. nocase (nr_name q) \<noteq> nocase (nr_name r) \<and> \<not> (nocase (nr_host q) = nocase (nr_host r) \<and> nr_port q = nr_port r)"])
      (use assms(2) in \<open>auto simp: nodes_inv_def node_clash_def list_ex_iff\<close>)
  then show ?thesis using NodesTable by simp
next
  case UsersTable
  have "first_clash (both_clash (key_clash ''users'' [''id''] us_id) (key_clash ''users'' [''email''] us_email)) [] (t_users bk) = None"
    by (rule first_clash_None[where P = "\<lambda>q r. us_email q \<noteq> us_email r"])
      (use assms(1) in \<open>auto simp: panel_inv_def accounts_inv_def key_clash_def dest: distinct_apart\<close>)
  then show ?thesis using UsersTable by simp
next
  case WgInstances
  have "first_clash (both_clash (key_clash ''wg_instances'' [''id''] ir_id) instance_clash) [] (t_instances bk) = None"
    by (rule first_clash_None[where P = instances_apart])
      (use assms(1) in \<open>auto simp: panel_inv_def db_inv_def instances_inv_def instances_apart_def instance_clash_def list_ex_iff\<close>)
  then show ?thesis using WgInstances by simp
next
  case WgPeers
  have "first_clash (both_clash (key_clash ''wg_peers'' [''id''] pr_id) peer_clash) [] (t_peers bk) = None"
    by (rule first_clash_None[where P = peers_apart])
      (use assms(1) in \<open>auto simp: panel_inv_def db_inv_def peers_inv_def peers_apart_def peer_clash_def list_ex_iff\<close>)
  then show ?thesis using WgPeers by simp
next
  case EventsTable
  have "distinct (map ev_id (t_events bk))"
    using assms(1) by (auto simp: panel_inv_def events_inv_def strict_sorted_iff)
  then show ?thesis using EventsTable key_clash_None[of ev_id "[]" "t_events bk"] by simp
qed (use assms in \<open>auto simp: notRestored_def panel_inv_def accounts_inv_def db_inv_def usage_inv_def nodes_inv_def key_clash_None\<close>)

lemma no_faults_forEach:
  assumes "t_faults s = []" and "\<And>x s. x \<in> set xs \<Longrightarrow> t_faults s = [] \<Longrightarrow> m x s = (Inr (), g x s) \<and> t_faults (g x s) = []"
  shows "forEach xs m s = (Inr (), fold g xs s) \<and> t_faults (fold g xs s) = []"
  using assms by (induction xs arbitrary: s) (auto simp: thn_def bnd_def)

lemma store_Restore_succeeds:
  assumes "t_faults s = []" and "panel_inv bk" and "nodes_inv bk"
  shows "store_Restore keep (Inr bk) s = (Inr (), restored keep bk s)"
proof -
  let ?kept = "filter (\<lambda>(k, v). keep k) (t_settings s)"
  have clear: "t_faults s = [] \<Longrightarrow> t_faults (clear_table t s) = []" for t and s :: "'a panel_scheme" by (cases t) simp_all
  have copy: "t_faults s = [] \<Longrightarrow> t_faults (copy_table bk t s) = []" for t and s :: "'a panel_scheme" by (cases t) simp_all
  let ?s1 = "fold clear_table tableNames s"
  let ?s2 = "fold (copy_table bk) (filter (\<lambda>t. t \<notin> set notRestored) tableNames) ?s1"
  have 1: "forEach tableNames (\<lambda>t. mapErr (Errorf (''clear '' @ table_name t)) (stmt (\<lambda>s. (Inr (), clear_table t s)))) s = (Inr (), ?s1)
      \<and> t_faults ?s1 = []"
    by (rule no_faults_forEach) (use assms(1) clear in \<open>simp_all add: mapErr_def\<close>)
  have 2: "forEach (filter (\<lambda>t. t \<notin> set notRestored) tableNames) (\<lambda>t.
        thn (mapErr (Errorf (''columns of '' @ table_name t)) (query (\<lambda>_. ())))
        (mapErr (Errorf (''restore '' @ table_name t)) (stmt (\<lambda>s.
           case table_clash t bk of Some e \<Rightarrow> (Inl e, s) | None \<Rightarrow> (Inr (), copy_table bk t s))))) ?s1 = (Inr (), ?s2)
      \<and> t_faults ?s2 = []"
    by (rule no_faults_forEach) (use 1 copy no_clash[OF assms(2,3)] in \<open>simp_all add: mapErr_def thn_def bnd_def\<close>)
  have 3: "forEach ?kept (\<lambda>(k, v).
        mapErr (Errorf (''keep setting '' @ k)) (stmt (\<lambda>s. (Inr (), s\<lparr>t_settings := AList.update k v (t_settings s)\<rparr>)))) ?s2
      = (Inr (), restored keep bk s) \<and> t_faults (restored keep bk s) = []"
    unfolding restored_def by (rule no_faults_forEach) (use 2 in \<open>auto simp: mapErr_def keep_setting_def\<close>)
  have 4: "replace_tables bk tableNames ?kept s = (Inr (), restored keep bk s)"
    unfolding replace_tables_def using 1 2 3 assms(1) by (simp add: thn_def bnd_def mapErr_def)
  have "pr_instance_id r \<in> ir_id ` set (t_instances bk)" if v: "r \<in> set (t_peers bk)" for r
  proof -
    obtain i where "instance_by_id (pr_instance_id r) bk = Some i"
      using assms(2) v by (auto simp: panel_inv_def db_inv_def peers_inv_def peer_row_ok_def)
    then show ?thesis using instance_by_id_Some by force
  qed
  then have "refs_ok (restored keep bk s)"
    using assms(2) by (auto simp: refs_ok_def restored_tables panel_inv_def db_inv_def usage_inv_def list_all_iff)
  then have "restore_tables keep bk s = (Inr (), restored keep bk s)"
    using 4 assms(1) by (simp add: restore_tables_def keptSettings_def bnd_def thn_def mapErr_def)
  then have "transact ''restore'' ''restore'' (restore_tables keep bk) s = (Inr (), restored keep bk s)"
    using 3 assms(1) by (simp add: transact_no_faults)
  then show ?thesis
    using 3 assms(1) by (simp add: store_Restore_def bnd_def thn_def mapErr_def attempt_def)
qed

text \<open>
  What a snapshot took comes back: restoring it later, into whatever the panel holds then, succeeds
  and puts back the servers, devices, usage, users, nodes, API keys, events and webhooks, and every setting
  that is not one of the backups'.
\<close>

theorem snapshot_restore_round_trip:
  assumes "panel_inv s" and "nodes_inv s" and "Snapshot None s = (Inr bk, t)"
    and "accounts_inv u" and "t_faults u = []"
  shows "\<exists>u'. store_Restore KeepSetting (Inr bk) u = (Inr (), u')
    \<and> t_instances u' = t_instances s \<and> t_peers u' = t_peers s \<and> t_usage u' = t_usage s \<and> t_users u' = t_users s
    \<and> t_nodes u' = t_nodes s \<and> t_api_keys u' = t_api_keys s \<and> t_events u' = t_events s \<and> t_webhooks u' = t_webhooks s
    \<and> (\<forall>k. \<not> KeepSetting k \<longrightarrow> map_of (t_settings u') k = map_of (t_settings s) k)"
proof -
  obtain bs where bk: "bk = (panel.truncate (s\<lparr>t_faults := bs\<rparr>))\<lparr>t_faults := [], t_sessions := [], t_idem := [], t_deliveries := []\<rparr>"
    using assms(3) by (cases rule: query_cases[of panel.truncate s]) (auto simp: Snapshot_def bnd_def thn_def mapErr_def ret_def panel.truncate_def)
  have "panel_inv bk"
    using assms(1) by (auto simp: bk panel.truncate_def panel_inv_def db_inv_def instances_inv_def peers_inv_def usage_inv_def
        accounts_inv_def keys_inv_def events_inv_def peer_row_ok_def instance_by_id_def)
  moreover have "nodes_inv bk" using assms(2) by (simp add: bk panel.truncate_def nodes_inv_def)
  ultimately have r: "store_Restore KeepSetting (Inr bk) u = (Inr (), restored KeepSetting bk u)"
    using assms(5) by (rule store_Restore_succeeds[rotated])
  have "distinct (map fst (t_settings u))" using assms(4) by (simp add: accounts_inv_def)
  then show ?thesis
    using r by (intro exI[of _ "restored KeepSetting bk u"]) (simp add: restored_tables restored_settings bk panel.truncate_def)
qed

theorem snapshot_restore_round_trip_witness:
  "\<exists>bk u'. Snapshot None office_panel = (Inr bk, office_panel) \<and> store_Restore KeepSetting (Inr bk) fresh_panel = (Inr (), u')
    \<and> t_instances u' = t_instances office_panel \<and> map_of (t_settings u') ''site'' = Some ''office''"
proof -
  obtain bk where bk: "Snapshot None office_panel = (Inr bk, office_panel)"
    by (simp add: Snapshot_def office_panel_def empty_panel_def db.defs empty_db_def bnd_def thn_def mapErr_def)
  have n: "nodes_inv office_panel" by (simp add: nodes_inv_def office_panel_def empty_panel_def db.defs empty_db_def)
  have f: "t_faults fresh_panel = []" by (simp add: fresh_panel_def empty_panel_def db.defs empty_db_def)
  from snapshot_restore_round_trip[OF panel_inv_office n bk accounts_fresh f] bk KeepSetting_site(2)
  show ?thesis by (auto simp: office_panel_def)
qed

end
