(* ===== verification/BackupRestore.thy ===== *)
theory BackupRestore
  imports BackupService Reconcile
begin

text \<open>
  internal/backup (restore.go and the reading half of archive.go): unpacking an archive, putting it in
  place of the panel's data, and what the live parts of the panel catch up on. Reading gzip and tar, JSON
  and the files of a database are libraries': their outcomes come in as parameters.
\<close>

section \<open>Unpacking\<close>

definition formatVersion :: int where "formatVersion = 1"
definition manifestName :: string where "manifestName = ''manifest.json''"
definition databaseName :: string where "databaseName = ''tunploy.db''"
definition certsDir :: string where "certsDir = ''certs''"

record Manifest =
  mf_Format :: int
  mf_Version :: string
  mf_CreatedAt :: gotime

definition no_manifest :: Manifest where
  "no_manifest = \<lparr>mf_Format = 0, mf_Version = [], mf_CreatedAt = zero_time\<rparr>"

text \<open>An entry of the archive; reading its body can fail.\<close>

record tar_entry =
  ta_Name :: string
  ta_Regular :: bool
  ta_Body :: "backup_err + bytes"

record Extracted =
  ex_Manifest :: Manifest
  ex_Database :: "bytes option"
  ex_Certs :: "(string \<times> bytes) list"

definition unreadable :: "backup_err \<Rightarrow> backup_err" where
  "unreadable e = (if e = ErrWrongPassphrase then ErrWrongPassphrase else ErrInvalidArchive (backup_Error e))"

definition validCertName :: "string \<Rightarrow> bool" where
  "validCertName name = (name \<noteq> [] \<and> name \<noteq> ''.'' \<and> name \<noteq> ''..'' \<and> CHR ''/'' \<notin> set name \<and> CHR 0x5C \<notin> set name)"

definition extract_entry :: "(bytes \<Rightarrow> Manifest option) \<Rightarrow> tar_entry \<Rightarrow> bool \<times> Extracted \<Rightarrow> backup_err + bool \<times> Extracted" where
  "extract_entry json t acc =
     (case acc of (saw, ex) \<Rightarrow>
      if \<not> ta_Regular t then Inr (saw, ex)
      else if ta_Name t = manifestName
      then (case ta_Body t of
              Inl e \<Rightarrow> Inl (unreadable e)
            | Inr b \<Rightarrow> (case json (take 65536 b) of
                None \<Rightarrow> Inl (ErrInvalidArchive ''unreadable manifest'') | Some m \<Rightarrow> Inr (True, ex\<lparr>ex_Manifest := m\<rparr>)))
      else if ta_Name t = databaseName
      then (case ta_Body t of Inl e \<Rightarrow> Inl (unreadable e) | Inr b \<Rightarrow> Inr (saw, ex\<lparr>ex_Database := Some b\<rparr>))
      else case path_Split (ta_Name t) of (dirName, base) \<Rightarrow>
        if dirName = certsDir @ ''/'' \<and> validCertName base
        then (case ta_Body t of Inl e \<Rightarrow> Inl (unreadable e)
              | Inr b \<Rightarrow> Inr (saw, ex\<lparr>ex_Certs := AList.update base b (ex_Certs ex)\<rparr>))
        else Inr (saw, ex))"

fun extract_entries :: "(bytes \<Rightarrow> Manifest option) \<Rightarrow> tar_entry list \<Rightarrow> backup_err option \<Rightarrow> bool \<times> Extracted \<Rightarrow> backup_err + bool \<times> Extracted" where
  "extract_entries json [] err acc = (case err of None \<Rightarrow> Inr acc | Some e \<Rightarrow> Inl (unreadable e))"
| "extract_entries json (t # ts) err acc =
     (case extract_entry json t acc of Inl e \<Rightarrow> Inl e | Inr acc' \<Rightarrow> extract_entries json ts err acc')"

text \<open>
  The libraries: gzip and tar on the bytes of a stream and the error it ends with give the entries and
  how they end; JSON reads the manifest; Argon2 and AES-GCM.
\<close>

record unpack_env =
  up_argon2 :: argon
  up_gcm :: "bytes \<Rightarrow> aead"
  up_untar :: "bytes \<Rightarrow> backup_err \<Rightarrow> tar_entry list \<times> backup_err option"
  up_json :: "bytes \<Rightarrow> Manifest option"

definition io_end :: "source \<Rightarrow> backup_err" where
  "io_end r = (case sr_end r of None \<Rightarrow> EOF | Some e \<Rightarrow> Other e)"

definition Extract :: "unpack_env \<Rightarrow> source \<Rightarrow> string \<Rightarrow> backup_err + Extracted" where
  "Extract u r passphrase =
     (case (if isEncrypted r
            then (case newDecryptReader (up_argon2 u) (up_gcm u) r passphrase of Inl e \<Rightarrow> Inl e | Inr d \<Rightarrow> Inr (read_all 511 d))
            else Inr (sr_data r, io_end r)) of
        Inl e \<Rightarrow> Inl e
      | Inr (bs, e) \<Rightarrow>
        (case up_untar u bs e of (entries, err) \<Rightarrow>
          (case extract_entries (up_json u) entries err (False, \<lparr>ex_Manifest = no_manifest, ex_Database = None, ex_Certs = []\<rparr>) of
             Inl e \<Rightarrow> Inl e
           | Inr (saw, ex) \<Rightarrow>
             if \<not> saw \<or> ex_Database ex = None then Inl (ErrInvalidArchive [])
             else if mf_Format (ex_Manifest ex) > formatVersion then Inl ErrNewerArchive
             else if mf_Format (ex_Manifest ex) < 1 then Inl (ErrInvalidArchive ''unknown format'')
             else Inr ex)))"

section \<open>Putting it in place\<close>

text \<open>
  Opening the unpacked database, checking it and bringing it up to date, and replacing the files of the
  certificates.
\<close>

record restore_env =
  re_unpack :: unpack_env
  re_open :: "bytes \<Rightarrow> err + panel"
  re_certs :: "(string \<times> bytes) list \<Rightarrow> err option"

definition certs_warning :: string where
  "certs_warning = ''HTTPS certificates could not be restored; they will be requested again''"

definition backup_Restore :: "restore_env \<Rightarrow> source \<Rightarrow> string \<Rightarrow> ('z panel_scheme, Manifest \<times> string list) bprog" where
  "backup_Restore w r passphrase =
     bbnd (bliftE (Extract (re_unpack w) r passphrase)) (\<lambda>ex.
     bthn (bfrom (store_Restore KeepSetting (case ex_Database ex of None \<Rightarrow> Inl ErrInvalidBackup | Some db \<Rightarrow> re_open w db)))
     (bret (ex_Manifest ex, case re_certs w (ex_Certs ex) of None \<Rightarrow> [] | Some _ \<Rightarrow> [certs_warning])))"

record RestoreRequest =
  rr_Name :: string
  rr_Passphrase :: string
  rr_IP :: string

record Result =
  rs_Name :: string
  rs_CreatedAt :: gotime
  rs_Version :: string
  rs_Warnings :: "string list"

text \<open>
  The live parts catch up: email reads its settings again, every server is rebuilt, the nodes reconnect.
  Reconnecting them is a parameter.
\<close>

definition catchUp ::
  "'m manager \<Rightarrow> (('m, 'b, 'z) vault_scheme, unit) prog \<Rightarrow> (('m, 'b, 'z) vault_scheme, string list) prog" where
  "catchUp mg reload =
     bnd get_settings (\<lambda>saved.
     thn (modify (\<lambda>s. s\<lparr>sv_notifier := notifier_Load saved (sv_notifier s)\<rparr>))
     (thn MarkRebuild
     (bnd (attempt reload) (\<lambda>r1.
     bnd (attempt (Reconcile mg)) (\<lambda>r2.
     ret ((case r1 of Inl e \<Rightarrow> [''could not reconnect the nodes: '' @ err_Error e] | Inr _ \<Rightarrow> []) @
          (case r2 of Inl e \<Rightarrow> [''some VPN servers could not start: '' @ err_Error e] | Inr _ \<Rightarrow> [])))))))"

text \<open>The layout \<open>2006-01-02 15:04\<close>, in the panel's zone.\<close>

definition format_minute :: "(int \<Rightarrow> int) \<Rightarrow> gotime \<Rightarrow> string" where
  "format_minute off t = (let d = local_secs off t mod 86400 in
     DateOnly (local_date off t) @ '' '' @ pad 2 (Itoa (d div 3600)) @ '':'' @ pad 2 (Itoa (d mod 3600 div 60)))"

definition service_restore ::
  "'b backup_env \<Rightarrow> restore_env \<Rightarrow> 'm manager \<Rightarrow> (('m, 'b, 'z) vault_scheme, unit) prog \<Rightarrow> source \<Rightarrow> RestoreRequest \<Rightarrow>
   (('m, 'b, 'z) vault_scheme, Result) bprog" where
  "service_restore v w mg reload src req =
     bbnd (bgets (\<lambda>s. if rr_Passphrase req = [] then vt_passphrase s else rr_Passphrase req)) (\<lambda>passphrase.
     bbnd (backup_Restore w src passphrase) (\<lambda>(m, warnings).
     bbnd (bfrom (catchUp mg reload)) (\<lambda>others.
     bthn (bfrom (Record (be_env v) ((blank_event ''backup.restored'')\<lparr>e_IP := rr_IP req,
       e_Detail := rr_Name req @ '' (made '' @ format_minute (be_off v) (mf_CreatedAt m) @ '')''\<rparr>)))
     (bret \<lparr>rs_Name = rr_Name req, rs_CreatedAt = mf_CreatedAt m, rs_Version = mf_Version m, rs_Warnings = warnings @ others\<rparr>))))"

section \<open>The errors a caller sees\<close>

definition restoreError :: "backup_err \<Rightarrow> err" where
  "restoreError e =
     (let fail = (\<lambda>kind code msg. AppError kind code msg [] (Some (NewError (backup_Error e)))) in
      case e of
        Other x \<Rightarrow>
          if as_app x \<noteq> None then x
          else if errors_Is x ErrInvalidBackup then fail Invalid ''invalid_backup'' (backup_Error e)
          else if errors_Is x ErrNewerBackup
          then fail Conflict ''newer_backup'' ''this backup was made by a newer version of Tunploy; update the panel first''
          else x
      | ErrBusy \<Rightarrow> fail Conflict ''conflict'' (backup_Error e)
      | ErrNotConfigured \<Rightarrow> fail Conflict ''conflict'' ''connect an S3 bucket first''
      | ErrPassphraseRequired \<Rightarrow> fail Invalid ''passphrase_required'' (backup_Error ErrPassphraseRequired)
      | ErrWrongPassphrase \<Rightarrow> fail Invalid ''wrong_passphrase'' (backup_Error ErrWrongPassphrase)
      | ErrInvalidArchive d \<Rightarrow> fail Invalid ''invalid_backup'' (backup_Error e)
      | ErrNewerArchive \<Rightarrow> fail Conflict ''newer_backup'' ''this backup was made by a newer version of Tunploy; update the panel first''
      | _ \<Rightarrow> NewError (backup_Error e))"

definition remoteError :: "backup_err \<Rightarrow> backup_err" where
  "remoteError e =
     (let x = Some (NewError (backup_Error e)) in
      Other (if e = ErrObjectNotFound then AppError NotFound ''not_found'' (backup_Error e) [] x
             else AppError Upstream ''s3_failed'' (backup_Error e) [] x))"

text \<open>\<open>Service.Restore\<close> and \<open>Service.RestoreRemote\<close>, without what they log.\<close>

definition service_Restore ::
  "'b backup_env \<Rightarrow> restore_env \<Rightarrow> 'm manager \<Rightarrow> (('m, 'b, 'z) vault_scheme, unit) prog \<Rightarrow> source \<Rightarrow> RestoreRequest \<Rightarrow>
   ('m, 'b, 'z) vault_scheme \<Rightarrow> ((err + Result) \<times> ('m, 'b, 'z) vault_scheme) option" where
  "service_Restore v w mg reload src req s =
     map_option (map_prod (map_sum restoreError id) id) (Exclusive (service_restore v w mg reload src req) s)"

definition RestoreRemote ::
  "'b backup_env \<Rightarrow> restore_env \<Rightarrow> 'm manager \<Rightarrow> (('m, 'b, 'z) vault_scheme, unit) prog \<Rightarrow> RestoreRequest \<Rightarrow>
   ('m, 'b, 'z) vault_scheme \<Rightarrow> ((err + Result) \<times> ('m, 'b, 'z) vault_scheme) option" where
  "RestoreRemote v w mg reload req s =
     map_option (map_prod (map_sum restoreError id) id) (Exclusive
       (bbnd (bgets Remote) (\<lambda>remote.
        bbnd (bliftE remote) (\<lambda>cfg.
        bbnd (\<lambda>s. case S3_Get (be_s3 v) cfg (S3_Key cfg (rr_Name req)) (vt_bucket s) of
            (Inl e, b) \<Rightarrow> Some (Inl (remoteError e), s\<lparr>vt_bucket := b\<rparr>)
          | (Inr (body, _), b) \<Rightarrow> Some (Inr body, s\<lparr>vt_bucket := b\<rparr>)) (\<lambda>body.
        service_restore v w mg reload body req)))) s)"

text \<open>\<open>rebuild-pending\<close> in the data directory, a tree of files.\<close>

definition rebuildMarker :: string where "rebuildMarker = ''rebuild-pending''"

definition backup_MarkRebuild :: "(string \<Rightarrow> string option) \<Rightarrow> string \<Rightarrow> (string \<Rightarrow> string option)" where
  "backup_MarkRebuild fs dataDir = fs(dataDir @ ''/'' @ rebuildMarker \<mapsto> [])"

definition RebuildPending :: "(string \<Rightarrow> string option) \<Rightarrow> string \<Rightarrow> bool" where
  "RebuildPending fs dataDir = (fs (dataDir @ ''/'' @ rebuildMarker) \<noteq> None)"

definition ClearRebuild :: "(string \<Rightarrow> string option) \<Rightarrow> string \<Rightarrow> (string \<Rightarrow> string option)" where
  "ClearRebuild fs dataDir = fs(dataDir @ ''/'' @ rebuildMarker := None)"

end
