(* ===== verification/ApiBackups.thy ===== *)
theory ApiBackups
  imports BackupRestore ApiServers
begin

text \<open>
  internal/api/backups.go: backups over HTTP. \<open>srv_env\<close> of the server and \<open>be_env\<close> of the service are the
  same environment of the request. Decoded bodies and parsed URLs are arguments.
\<close>

type_synonym ('m, 'b, 'z, 'a) hprog = "(('m, 'b, 'z) vault_scheme, err, 'a) gprog"

section \<open>Settings\<close>

definition maxKeep :: int where "maxKeep = 1000"

record backupRequest =
  br_Endpoint :: string
  br_Region :: string
  br_Bucket :: string
  br_Prefix :: string
  br_AccessKey :: string
  br_SecretKey :: "string option"
  br_PathStyle :: bool
  br_Schedule :: string
  br_Hour :: int
  br_Keep :: "int option"

definition is_alnum :: "char \<Rightarrow> bool" where
  "is_alnum c = (let b = byte c in 65 \<le> b \<and> b \<le> 90 \<or> 97 \<le> b \<and> b \<le> 122 \<or> 48 \<le> b \<and> b \<le> 57)"

text \<open>The three regular expressions.\<close>

definition bucketPattern :: "string \<Rightarrow> bool" where
  "bucketPattern s = (case s of [] \<Rightarrow> False
     | c # cs \<Rightarrow> is_alnum c \<and> 1 \<le> length cs \<and> length cs \<le> 254 \<and> list_all (\<lambda>c. is_alnum c \<or> c \<in> set ''._-'') cs)"

definition regionPattern :: "string \<Rightarrow> bool" where
  "regionPattern s = (1 \<le> length s \<and> length s \<le> 40 \<and> list_all (\<lambda>c. is_digit c \<or> 97 \<le> byte c \<and> byte c \<le> 122 \<or> c = CHR ''-'') s)"

definition prefixPattern :: "string \<Rightarrow> bool" where
  "prefixPattern s = list_all (\<lambda>c. is_alnum c \<or> c \<in> set ''!_.*()/-'' \<or> c = CHR 0x27) s"

definition trim_slashes :: "string \<Rightarrow> string" where
  "trim_slashes s = rev (dropWhile (\<lambda>c. c = CHR ''/'') (rev (dropWhile (\<lambda>c. c = CHR ''/'') s)))"

text \<open>\<open>parse\<close> is \<open>url.Parse\<close>; its query is in \<open>ul_RawQuery\<close>.\<close>

definition endpoint_ok :: "(string \<Rightarrow> s3_url option) \<Rightarrow> string \<Rightarrow> bool" where
  "endpoint_ok parse e =
     (case parse (if strings_Contains e ''://'' then e else ''https://'' @ e) of
        None \<Rightarrow> False
      | Some u \<Rightarrow> ul_Host u \<noteq> [] \<and> ul_Scheme u \<in> {''https'', ''http''} \<and> ul_RawQuery u = [])"

definition request_config :: "BackupConfig option \<Rightarrow> backupRequest \<Rightarrow> BackupConfig" where
  "request_config cur req =
     (let prefix = trim_slashes (TrimSpace (br_Prefix req)) in
      \<lparr>bc_S3 = \<lparr>s3_Endpoint = TrimSuffix (TrimSpace (br_Endpoint req)) ''/'', s3_Region = TrimSpace (br_Region req),
         s3_Bucket = TrimSpace (br_Bucket req), s3_Prefix = prefix,
         s3_AccessKey = TrimSpace (br_AccessKey req),
         s3_SecretKey = (case br_SecretKey req of Some k \<Rightarrow> TrimSpace k
           | None \<Rightarrow> (case cur of Some c \<Rightarrow> s3_SecretKey (bc_S3 c) | None \<Rightarrow> [])),
         s3_PathStyle = br_PathStyle req\<rparr>,
       bc_Schedule = (if br_Schedule req = [] then ScheduleOff else br_Schedule req), bc_Hour = br_Hour req,
       bc_Keep = (case br_Keep req of None \<Rightarrow> DefaultKeep | Some k \<Rightarrow> k)\<rparr>)"

definition bad_prefix :: "string \<Rightarrow> bool" where
  "bad_prefix p = (\<not> prefixPattern p \<or> strings_Contains p ''//'' \<or> ''..'' \<in> set (Split (CHR ''/'') p))"

text \<open>\<open>put\<close> adds a field's message when a condition holds.\<close>

definition put_field :: "bool \<Rightarrow> string \<Rightarrow> string \<Rightarrow> fields" where
  "put_field b name msg = (if b then [(name, msg)] else [])"

definition config_fields :: "(string \<Rightarrow> s3_url option) \<Rightarrow> BackupConfig \<Rightarrow> fields" where
  "config_fields parse cfg = (let s3 = bc_S3 cfg in
     put_field (s3_Endpoint s3 \<noteq> [] \<and> \<not> endpoint_ok parse (s3_Endpoint s3)) ''endpoint''
       ''enter the S3 address, such as https://s3.eu-central-1.amazonaws.com'' @
     put_field (s3_Region s3 \<noteq> [] \<and> \<not> regionPattern (s3_Region s3)) ''region'' ''region looks like eu-central-1, or auto for Cloudflare R2'' @
     (if s3_Bucket s3 = [] then [(''bucket'', ''bucket is required'')]
      else put_field (\<not> bucketPattern (s3_Bucket s3)) ''bucket'' ''bucket names use letters, numbers, dots and hyphens'') @
     put_field (bad_prefix (s3_Prefix s3)) ''prefix'' ''folder may use letters, numbers, /, -, _ and .'' @
     put_field (s3_AccessKey s3 = []) ''access_key'' ''access key is required'' @
     put_field (s3_SecretKey s3 = []) ''secret_key'' ''secret key is required'' @
     put_field (bc_Schedule cfg \<notin> {ScheduleOff, ScheduleDaily, ScheduleWeekly}) ''schedule'' ''schedule must be off, daily or weekly'' @
     put_field (bc_Hour cfg < 0 \<or> bc_Hour cfg > 23) ''hour'' ''hour must be between 0 and 23'' @
     put_field (bc_Keep cfg < 0 \<or> bc_Keep cfg > maxKeep) ''keep'' ''keep between 1 and 1000 backups, or 0 to keep all'')"

text \<open>The folder gets its slash once it is known to be good.\<close>

definition backupRequest_config :: "(string \<Rightarrow> s3_url option) \<Rightarrow> BackupConfig option \<Rightarrow> backupRequest \<Rightarrow> BackupConfig \<times> fields" where
  "backupRequest_config parse cur req =
     (let cfg = request_config cur req; p = s3_Prefix (bc_S3 cfg) in
      (if \<not> bad_prefix p \<and> p \<noteq> [] then cfg\<lparr>bc_S3 := (bc_S3 cfg)\<lparr>s3_Prefix := p @ ''/''\<rparr>\<rparr> else cfg, config_fields parse cfg))"

definition backupStatus_json :: "BackupStatus \<Rightarrow> json" where
  "backupStatus_json st = JObj ([(''running'', JBool (bs_Running st))] @ omit_time ''last_backup_at'' (bs_LastBackupAt st) @
     omit_empty ''last_backup_name'' (bs_LastBackupName st) @ omit_int ''last_backup_size'' (bs_LastBackupSize st) @
     omit_empty ''last_error'' (bs_LastError st) @ omit_time ''last_error_at'' (bs_LastErrorAt st) @ omit_time ''next_run_at'' (bs_NextRunAt st))"

text \<open>\<open>tz\<close> is the name of the panel's zone or its offset.\<close>

definition handleGetBackupSettings :: "'b backup_env \<Rightarrow> string \<Rightarrow> ('m, 'b, 'z, unit) hprog" where
  "handleGetBackupSettings v tz =
     bbnd (bgets (\<lambda>s. (vt_cfg s, vt_passphrase s, service_Status v s))) (\<lambda>(cfg, passphrase, st).
     case st of
       None \<Rightarrow> (\<lambda>_. None)
     | Some st \<Rightarrow>
       let c = (case cfg of None \<Rightarrow> no_config | Some c \<Rightarrow> c); s3 = bc_S3 c in
       total (JSON 200 (JObj
         [(''connected'', JBool (cfg \<noteq> None)), (''endpoint'', JStr (s3_Endpoint s3)), (''region'', JStr (s3_Region s3)),
          (''bucket'', JStr (s3_Bucket s3)), (''prefix'', JStr (s3_Prefix s3)), (''access_key'', JStr (s3_AccessKey s3)),
          (''secret_key_set'', JBool (s3_SecretKey s3 \<noteq> [])), (''path_style'', JBool (s3_PathStyle s3)),
          (''schedule'', JStr (bc_Schedule c)), (''hour'', JInt (bc_Hour c)), (''keep'', JInt (bc_Keep c)),
          (''encrypted'', JBool (passphrase \<noteq> [])), (''timezone'', JStr tz), (''status'', backupStatus_json st)])))"

definition checkBucket :: "'b backup_env \<Rightarrow> S3Config \<Rightarrow> ('m, 'b, 'z, unit) hprog" where
  "checkBucket v cfg s =
     (case S3_Check (be_s3 v) (NewS3 cfg) (vt_bucket s) of
        None \<Rightarrow> None
      | Some (Some e, b) \<Rightarrow> Some (Inl (http_Errorf 502 ''s3_failed'' (backup_Error e)), s\<lparr>vt_bucket := b\<rparr>)
      | Some (None, b) \<Rightarrow> Some (Inr (), s\<lparr>vt_bucket := b\<rparr>))"

definition reload_settings :: "(string \<times> string) list \<Rightarrow> (('m, 'b, 'z) vault_scheme, unit) prog" where
  "reload_settings values =
     thn (SaveSettings values)
     (bnd get_settings (\<lambda>saved. modify (service_Load saved)))"

definition saveBackupSettings :: "BackupConfig option \<Rightarrow> (('m, 'b, 'z) vault_scheme, unit) prog" where
  "saveBackupSettings cfg = reload_settings (backup_Settings cfg)"

definition backups_changed :: "'b backup_env \<Rightarrow> string \<Rightarrow> string \<Rightarrow> (('m, 'b, 'z) vault_scheme, unit) prog" where
  "backups_changed v ip detail = Record (be_env v) ((blank_event ''settings.backups_changed'')\<lparr>e_IP := ip, e_Detail := detail\<rparr>)"

definition handleSetBackupSettings :: "'b backup_env \<Rightarrow> string \<Rightarrow> string \<Rightarrow> backupRequest decoded \<Rightarrow> ('m, 'b, 'z, unit) hprog" where
  "handleSetBackupSettings v tz ip body =
     bbnd (bliftE (Decode body)) (\<lambda>req.
     bbnd (bgets vt_cfg) (\<lambda>cur.
     case backupRequest_config (s3_parse (be_s3 v)) cur req of (cfg, fs) \<Rightarrow>
       if fs \<noteq> [] then bthrow (http_Invalid fs)
       else bthn (if cur = None \<or> map_option bc_S3 cur \<noteq> Some (bc_S3 cfg) then checkBucket v (bc_S3 cfg) else bret ())
         (bthn (total (saveBackupSettings (Some cfg)))
         (bthn (total (backups_changed v ip (''bucket '' @ s3_Bucket (bc_S3 cfg))))
         (handleGetBackupSettings v tz)))))"

definition handleDeleteBackupSettings :: "'b backup_env \<Rightarrow> string \<Rightarrow> string \<Rightarrow> ('m, 'b, 'z, unit) hprog" where
  "handleDeleteBackupSettings v tz ip =
     bthn (total (saveBackupSettings None))
     (bthn (total (backups_changed v ip ''disconnected''))
     (handleGetBackupSettings v tz))"

definition handleSetBackupEncryption :: "'b backup_env \<Rightarrow> string \<Rightarrow> string \<Rightarrow> string decoded \<Rightarrow> ('m, 'b, 'z, unit) hprog" where
  "handleSetBackupEncryption v tz ip body =
     bbnd (bliftE (Decode body)) (\<lambda>passphrase.
     if passphrase \<noteq> [] \<and> RuneCountInString passphrase < MinPassphraseLen
     then bthrow (http_Invalid [(''passphrase'', ''use at least '' @ Itoa (int MinPassphraseLen) @ '' characters'')])
     else bthn (total (reload_settings (PassphraseSetting passphrase)))
       (bthn (total (backups_changed v ip (if passphrase \<noteq> [] then ''encryption on'' else ''encryption off'')))
       (handleGetBackupSettings v tz)))"

definition handleTestBackupSettings :: "'b backup_env \<Rightarrow> backupRequest decoded \<Rightarrow> ('m, 'b, 'z, unit) hprog" where
  "handleTestBackupSettings v body =
     bbnd (bliftE (Decode body)) (\<lambda>req.
     bbnd (bgets vt_cfg) (\<lambda>cur.
     case backupRequest_config (s3_parse (be_s3 v)) cur req of (cfg, fs) \<Rightarrow>
       if fs \<noteq> [] then bthrow (http_Invalid fs)
       else bthn (checkBucket v (bc_S3 cfg)) (total NoContent)))"

section \<open>Backups\<close>

definition object_json :: "Object \<Rightarrow> json" where
  "object_json ob = JObj [(''key'', JStr (ob_Key ob)), (''name'', JStr (ob_Name ob)), (''size'', JInt (ob_Size ob)),
     (''modified'', JTime (ob_Modified ob)), (''encrypted'', JBool (ob_Encrypted ob))]"

definition api_remote :: "('m, 'b, 'z, S3Config) hprog" where
  "api_remote s = Some (case Remote s of Inl _ \<Rightarrow> Inl (http_Conflict ''connect an S3 bucket first'') | Inr cfg \<Rightarrow> Inr cfg, s)"

definition handleListBackups :: "'b backup_env \<Rightarrow> ('m, 'b, 'z, unit) hprog" where
  "handleListBackups v =
     bbnd api_remote (\<lambda>cfg.
     bbnd (\<lambda>s. map_option (map_prod (map_sum (\<lambda>e. http_Errorf 502 ''s3_failed'' (''could not list backups: '' @ backup_Error e)) id)
        (\<lambda>b. s\<lparr>vt_bucket := b\<rparr>)) (S3_List (be_s3 v) cfg (vt_bucket s))) (\<lambda>objects.
     total (JSON 200 (JList (map object_json objects)))))"

definition handleCreateBackup :: "'b backup_env \<Rightarrow> ('m, 'b, 'z, unit) hprog" where
  "handleCreateBackup v =
     bbnd (battempt (Upload v False)) (\<lambda>r.
     case r of
       Inr ob \<Rightarrow> total (JSON 201 (object_json ob))
     | Inl ErrBusy \<Rightarrow> bthrow (http_Conflict (backup_Error ErrBusy))
     | Inl ErrNotConfigured \<Rightarrow> bthrow (http_Conflict ''connect an S3 bucket first'')
     | Inl e \<Rightarrow> bthrow (http_Errorf 502 ''backup_failed'' (''backup failed: '' @ backup_Error e)))"

text \<open>The archive and its headers; a failure while sending is only logged.\<close>

definition serveArchive :: "string \<Rightarrow> int \<Rightarrow> string \<Rightarrow> ('m, 'z, unit) aprog" where
  "serveArchive name len body =
     thn (set_header ''Content-Type'' ''application/gzip'')
     (thn (set_header ''Content-Disposition'' (''attachment; filename='' @ [CHR 0x22] @ name @ [CHR 0x22]))
     (thn (if len > 0 then set_header ''Content-Length'' (Itoa len) else ret ())
     (w_Write body)))"

definition handleExportBackup :: "'b backup_env \<Rightarrow> string \<Rightarrow> ('m, 'b, 'z, unit) hprog" where
  "handleExportBackup v ip =
     bbnd (battempt (Export v)) (\<lambda>r.
     case r of
       Inl ErrBusy \<Rightarrow> bthrow (http_Conflict (backup_Error ErrBusy))
     | Inl (Other e) \<Rightarrow> bthrow e
     | Inl e \<Rightarrow> bthrow (NewError (backup_Error e))
     | Inr f \<Rightarrow>
         bthn (total (Record (be_env v) ((blank_event ''backup.downloaded'')\<lparr>e_IP := ip, e_Detail := fl_Name f\<rparr>)))
         (total (serveArchive (fl_Name f) (int (length (fl_Body f))) (fl_Body f))))"

definition no_backup :: "(nat \<Rightarrow> bool) \<Rightarrow> string \<Rightarrow> err" where
  "no_backup printable name = http_NotFound (''no backup named '' @ Quote printable name)"

definition remoteBackup :: "'b backup_env \<Rightarrow> string \<Rightarrow> ('m, 'b, 'z, S3Config) hprog" where
  "remoteBackup v name = (if \<not> IsFileName name then bthrow (no_backup (s3_printable (be_s3 v)) name) else api_remote)"

definition s3Failure :: "backup_err \<Rightarrow> err" where
  "s3Failure e = (if e = ErrObjectNotFound then http_NotFound (backup_Error e) else http_Errorf 502 ''s3_failed'' (backup_Error e))"

definition handleDownloadBackup :: "'b backup_env \<Rightarrow> string \<Rightarrow> string \<Rightarrow> ('m, 'b, 'z, unit) hprog" where
  "handleDownloadBackup v ip name =
     bbnd (remoteBackup v name) (\<lambda>cfg.
     bbnd (\<lambda>s. case S3_Get (be_s3 v) cfg (S3_Key cfg name) (vt_bucket s) of
         (Inl e, b) \<Rightarrow> Some (Inl (s3Failure e), s\<lparr>vt_bucket := b\<rparr>) | (Inr x, b) \<Rightarrow> Some (Inr x, s\<lparr>vt_bucket := b\<rparr>)) (\<lambda>(body, len).
     bthn (total (Record (be_env v) ((blank_event ''backup.downloaded'')\<lparr>e_IP := ip, e_Detail := name\<rparr>)))
     (total (serveArchive name len (map (\<lambda>w. char_of (unat w)) (sr_data body))))))"

definition handleDeleteBackup :: "'b backup_env \<Rightarrow> string \<Rightarrow> string \<Rightarrow> ('m, 'b, 'z, unit) hprog" where
  "handleDeleteBackup v ip name =
     bbnd (remoteBackup v name) (\<lambda>cfg.
     bthn (\<lambda>s. case S3_Delete (be_s3 v) cfg (S3_Key cfg name) (vt_bucket s) of
         (Some e, b) \<Rightarrow> Some (Inl (s3Failure e), s\<lparr>vt_bucket := b\<rparr>) | (None, b) \<Rightarrow> Some (Inr (), s\<lparr>vt_bucket := b\<rparr>))
     (bthn (total (Record (be_env v) ((blank_event ''backup.deleted'')\<lparr>e_IP := ip, e_Detail := name\<rparr>)))
     (total NoContent)))"

definition result_json :: "Result \<Rightarrow> json" where
  "result_json r = JObj [(''name'', JStr (rs_Name r)), (''created_at'', JTime (rs_CreatedAt r)), (''version'', JStr (rs_Version r)),
     (''warnings'', JList (map JStr (rs_Warnings r)))]"

text \<open>Without a body there is no passphrase.\<close>

definition handleRestoreRemote ::
  "'b backup_env \<Rightarrow> restore_env \<Rightarrow> 'm manager \<Rightarrow> (('m, 'b, 'z) vault_scheme, unit) prog \<Rightarrow> string \<Rightarrow> string \<Rightarrow> string decoded option \<Rightarrow>
   ('m, 'b, 'z, unit) hprog" where
  "handleRestoreRemote v w mg reload ip name body =
     (if \<not> IsFileName name then bthrow (no_backup (s3_printable (be_s3 v)) name)
      else bbnd (bliftE (case body of None \<Rightarrow> Inr [] | Some b \<Rightarrow> Decode b)) (\<lambda>passphrase.
        bbnd (RestoreRemote v w mg reload \<lparr>rr_Name = name, rr_Passphrase = passphrase, rr_IP = ip\<rparr>) (\<lambda>res.
        total (JSON 200 (result_json res)))))"

text \<open>\<open>too_large\<close>: the upload went past its limit, which the reader of the body says; the passphrase is unescaped already.\<close>

definition handleImportBackup ::
  "'b backup_env \<Rightarrow> restore_env \<Rightarrow> 'm manager \<Rightarrow> (('m, 'b, 'z) vault_scheme, unit) prog \<Rightarrow> string \<Rightarrow> string \<Rightarrow> string option \<Rightarrow>
   source \<Rightarrow> bool \<Rightarrow> ('m, 'b, 'z, unit) hprog" where
  "handleImportBackup v w mg reload ip name passphrase body too_large =
     (case passphrase of
        None \<Rightarrow> bthrow (BadRequest ''X-Backup-Passphrase must be percent-encoded'')
      | Some p \<Rightarrow>
        bbnd (battempt (service_Restore v w mg reload body
          \<lparr>rr_Name = (if name = [] then ''uploaded file'' else name), rr_Passphrase = p, rr_IP = ip\<rparr>)) (\<lambda>r.
        case r of
          Inl e \<Rightarrow> bthrow (if too_large then BadRequest ''the file is larger than 1 GB'' else e)
        | Inr res \<Rightarrow> total (JSON 200 (result_json res))))"

end
