(* ===== verification/BackupProperties.thy ===== *)
theory BackupProperties
  imports ApiBackups CommandProperties
begin

text \<open>
  What the backup service keeps to over time: its settings come back as saved, a failing schedule reports
  once and waits between tries, and the bucket keeps its newest backups.
\<close>

section \<open>What the service holds\<close>

definition held :: "('m, 'b, 'z) vault_scheme \<Rightarrow> BackupConfig option \<times> string \<times> BackupStatus \<times> nat \<times> gotime \<times> bool" where
  "held s = (vt_cfg s, vt_passphrase s, vt_status s, vt_failures s, vt_retryAt s, vt_busy s)"

lemma held_core: "core s' = core s \<Longrightarrow> held s' = held (s :: ('m, 'b, 'z) vault_scheme)"
proof -
  have "held (core s) = held s" for s :: "('m, 'b, 'z) vault_scheme" by (simp add: held_def core_def)
  then show "core s' = core s \<Longrightarrow> held s' = held s" by metis
qed

lemma held_simps [simp]: "held (s\<lparr>t_faults := bs\<rparr>) = held s" "held (s\<lparr>t_settings := ss\<rparr>) = held s" "held (s\<lparr>vt_bucket := b\<rparr>) = held s"
  by (simp_all add: held_def)

lemma held_fields:
  "held s' = held s \<Longrightarrow> vt_cfg s' = vt_cfg s" "held s' = held s \<Longrightarrow> vt_status s' = vt_status s"
  "held s' = held s \<Longrightarrow> vt_failures s' = vt_failures s" "held s' = held s \<Longrightarrow> vt_retryAt s' = vt_retryAt s"
  "held s' = held s \<Longrightarrow> vt_busy s' = vt_busy s" "held s' = held s \<Longrightarrow> vt_passphrase s' = vt_passphrase s"
  by (simp_all add: held_def)

text \<open>The journal's kinds, and the statements to come that fail: none, below.\<close>

definition kinds :: "'z panel_scheme \<Rightarrow> string list" where
  "kinds s = map ev_kind (t_events s)"

abbreviation sound :: "'z db_scheme \<Rightarrow> bool" where "sound s \<equiv> t_faults s = []"

lemma Record_sound:
  fixes s :: "('m, 'b, 'z) vault_scheme"
  assumes "sound s"
  obtains s' where "Record v e s = (Inr (), s')" "held s' = held s" "sound s'" "kinds s' = kinds s @ [e_Kind e]"
proof -
  have kind: "e_Kind (completed v e) = e_Kind e" by (simp add: completed_def Let_def split: sum.splits)
  obtain s' where r: "Record v e s = (Inr (), s')" "core s' = core s" by (rule Record_run)
  have "sound s' \<and> kinds s' = kinds s @ [e_Kind e]"
    using r(1) assms kind
    by (auto simp: Record_def AddEvent_def dispatcher_Queue_def QueueDeliveries_def Let_def bnd_def thn_def attempt_def modify_def mapErr_def
        stmt_def ret_def kinds_def event_row_of_def split: if_splits option.splits)
  then show ?thesis using that r held_core [OF r(2)] by blast
qed

lemma forEach_settings_sound:
  fixes s :: "('m, 'b, 'z) vault_scheme"
  assumes "sound s"
  shows "\<exists>s'. forEach kvs (\<lambda>(k, v). mapErr (Errorf (''save setting '' @ k)) (stmt (\<lambda>s. (Inr (), s\<lparr>t_settings := AList.update k v (t_settings s)\<rparr>)))) s
     = (Inr (), s') \<and> s' = s\<lparr>t_settings := fold (\<lambda>(k, v). AList.update k v) kvs (t_settings s)\<rparr>"
  using assms
proof (induction "kvs" arbitrary: s)
  case Nil
  then show ?case by simp
next
  case (Cons kv kvs)
  obtain k v where kv: "kv = (k, v)" by (cases kv)
  let ?s = "s\<lparr>t_settings := AList.update k v (t_settings s)\<rparr>"
  have "sound ?s" using Cons.prems by simp
  from Cons.IH [OF this] show ?case using Cons.prems by (auto simp: kv thn_def bnd_def mapErr_def stmt_def)
qed

lemma SaveSettings_sound:
  fixes s :: "('m, 'b, 'z) vault_scheme"
  assumes "sound s"
  shows "SaveSettings kvs s = (Inr (), s\<lparr>t_settings := fold (\<lambda>(k, v). AList.update k v) kvs (t_settings s)\<rparr>)"
  unfolding SaveSettings_def using forEach_settings_sound [OF assms, of "kvs"] assms by (intro transact_no_faults) auto

lemma get_settings_sound: "sound s \<Longrightarrow> get_settings s = (Inr (t_settings s), s)"
  by (simp add: get_settings_def mapErr_def query_def stmt_def)

section \<open>Settings\<close>

text \<open>The backup settings come back as saved: once the panel has stored a connection with a bucket, a schedule and
  numbers a 64-bit integer holds, both the running service and a panel started again from the database work
  with exactly that configuration; storing none disconnects the bucket; and the passphrase new backups are
  encrypted with is still the database's.\<close>

theorem backup_settings_round_trip:
  fixes s :: "('m, 'b, 'z) vault_scheme"
  assumes "sound s"
    and "\<And>c. cfg = Some c \<Longrightarrow> s3_Bucket (bc_S3 c) \<noteq> [] \<and> bc_Schedule c \<noteq> [] \<and> int64_range (bc_Hour c) \<and> int64_range (bc_Keep c)"
  shows "\<exists>s'. saveBackupSettings cfg s = (Inr (), s') \<and> vt_cfg s' = cfg \<and> LoadConfig (t_settings s') = cfg
    \<and> vt_passphrase s' = LoadPassphrase (t_settings s)"
proof -
  let ?kvs = "backup_Settings cfg"
  define t where "t = fold (\<lambda>(k, v). AList.update k v) ?kvs (t_settings s)"
  let ?s = "s\<lparr>t_settings := t\<rparr>"
  have run: "saveBackupSettings cfg s = (Inr (), service_Load t ?s)"
    using SaveSettings_sound [OF assms(1), of ?kvs] get_settings_sound [of ?s] assms(1)
    by (simp add: saveBackupSettings_def reload_settings_def thn_def bnd_def modify_def t_def [symmetric])
  have atoi: "int64_range i \<Longrightarrow> Atoi_value (Itoa i) = i" for i by (simp add: Atoi_value_def ParseInt_Itoa)
  have "map_of t = map_of (t_settings s) ++ map_of ?kvs"
    by (rule ext) (simp add: t_def backup_Settings_def Let_def update_conv' map_add_def)
  then have get: "stored_of t k = (case map_of ?kvs k of Some v \<Rightarrow> v | None \<Rightarrow> stored_of (t_settings s) k)"
      "map_of t k = (case map_of ?kvs k of Some v \<Rightarrow> Some v | None \<Rightarrow> map_of (t_settings s) k)" for k
    by (simp_all add: stored_of_def map_add_def split: option.splits)
  have load: "LoadConfig t = cfg"
  proof (cases cfg)
    case None
    then show ?thesis by (simp add: LoadConfig_def Let_def get backup_Settings_def no_config_def)
  next
    case (Some c)
    then show ?thesis using assms(2) [OF Some] atoi by (simp add: LoadConfig_def Let_def get backup_Settings_def)
  qed
  have "LoadPassphrase t = LoadPassphrase (t_settings s)"
    by (simp add: LoadPassphrase_def get backup_Settings_def Let_def)
  then show ?thesis using run load by (simp add: service_Load_def Let_def)
qed

section \<open>A tick\<close>

lemma Snapshot_sound: "sound s \<Longrightarrow> \<exists>r. Snapshot f s = (r, s)"
  by (cases f) (auto simp: Snapshot_def bnd_def thn_def mapErr_def query_def stmt_def failOn_def ret_def throw_def)

lemma backup_Create_sound: "sound s \<Longrightarrow> \<exists>r. backup_Create v now passphrase s = Some (r, s)"
  using Snapshot_sound [of s "be_file v"]
  by (auto simp: backup_Create_def bprog_defs split: sum.splits prod.splits)

text \<open>An upload leaves all but the bucket alone.\<close>

lemma upload_leaves:
  assumes "upload v s = Some (r, s')" "sound s"
  shows "\<exists>b. s' = s\<lparr>vt_bucket := b\<rparr>"
proof -
  obtain f where f: "backup_Create v (be_now v) (vt_passphrase s) s = Some (f, s)" using backup_Create_sound [OF assms(2)] by blast
  show ?thesis
  proof (cases "vt_cfg s")
    case None
    then show ?thesis using assms by (auto simp: upload_def bprog_defs intro: exI [of _ "vt_bucket s"])
  next
    case (Some c)
    show ?thesis
    proof (cases f)
      case (Inl e)
      then show ?thesis using assms Some f by (auto simp: upload_def bprog_defs Let_def intro: exI [of _ "vt_bucket s"])
    next
      case (Inr x)
      then show ?thesis using assms Some f
        by (auto simp: upload_def bprog_defs Let_def on_bucket_def split: prod.splits option.splits sum.splits if_splits)
    qed
  qed
qed

text \<open>What a tick can do to the service.\<close>

definition failed_by :: "'b backup_env \<Rightarrow> ('m, 'b, 'z) vault_scheme \<Rightarrow> ('m, 'b, 'z) vault_scheme \<Rightarrow> bool" where
  "failed_by v s s' \<longleftrightarrow> vt_failures s' = vt_failures s + 1 \<and> vt_retryAt s' = be_now v + retryAfter
     \<and> bs_LastBackupAt (vt_status s') = bs_LastBackupAt (vt_status s)
     \<and> kinds s' = kinds s @ (if vt_failures s = 0 then [''backup.failed''] else [])"

definition done_by :: "'b backup_env \<Rightarrow> ('m, 'b, 'z) vault_scheme \<Rightarrow> ('m, 'b, 'z) vault_scheme \<Rightarrow> bool" where
  "done_by v s s' \<longleftrightarrow> vt_failures s' = 0 \<and> vt_retryAt s' = zero_time \<and> bs_LastBackupAt (vt_status s') = Some (be_now v)
     \<and> kinds s' = kinds s @ [''backup.created'']"

lemma kinds_simps [simp]: "kinds (s\<lparr>t_faults := bs\<rparr>) = kinds s" "kinds (s\<lparr>t_settings := ss\<rparr>) = kinds s"
  "kinds (t\<lparr>vt_bucket := b\<rparr>) = kinds t" "kinds (t\<lparr>vt_status := st\<rparr>) = kinds t" "kinds (t\<lparr>vt_busy := f\<rparr>) = kinds t"
  "kinds (t\<lparr>vt_failures := n\<rparr>) = kinds t" "kinds (t\<lparr>vt_retryAt := x\<rparr>) = kinds t"
  for t :: "('m, 'b, 'z) vault_scheme"
  by (simp_all add: kinds_def)

lemma finish_failed:
  fixes s :: "('m, 'b, 'z) vault_scheme"
  assumes "sound s"
  obtains s' where "finish v True (Inl e) s = (Inr (), s')" "failed_by v s s'" "vt_cfg s' = vt_cfg s" "sound s'" "vt_busy s' = vt_busy s"
proof -
  let ?s = "failed_status v True e s"
  have s0: "sound ?s" "kinds ?s = kinds s" using assms by (simp_all add: failed_status_def Let_def)
  have f: "vt_failures ?s = vt_failures s + 1" "vt_retryAt ?s = be_now v + retryAfter" "vt_cfg ?s = vt_cfg s" "vt_busy ?s = vt_busy s"
    "bs_LastBackupAt (vt_status ?s) = bs_LastBackupAt (vt_status s)" by (simp_all add: failed_status_def Let_def)
  show thesis
  proof (cases "vt_failures s = 0")
    case True
    obtain s' where r: "Record (be_env v) ((blank_event ''backup.failed'')\<lparr>e_Detail := backup_Error e\<rparr>) ?s = (Inr (), s')"
      "held s' = held ?s" "sound s'" "kinds s' = kinds ?s @ [''backup.failed'']"
      by (rule Record_sound [OF s0(1), of "be_env v" "(blank_event ''backup.failed'')\<lparr>e_Detail := backup_Error e\<rparr>"]) (simp add: blank_event_def)
    show thesis
      by (rule that [of s']) (use r f s0 True held_fields [OF r(2)] in \<open>simp_all add: finish_def thn_def bnd_def modify_def gets_def failed_by_def\<close>)
  next
    case False
    show thesis
      by (rule that [of ?s]) (use f s0 False in \<open>simp_all add: finish_def thn_def bnd_def modify_def gets_def failed_by_def ret_def\<close>)
  qed
qed

lemma finish_done:
  fixes s :: "('m, 'b, 'z) vault_scheme"
  assumes "sound s"
  obtains s' where "finish v scheduled (Inr ob) s = (Inr (), s')" "done_by v s s'" "vt_cfg s' = vt_cfg s" "sound s'" "vt_busy s' = vt_busy s"
proof -
  let ?s = "done_status v ob s"
  let ?kvs = "[(''backup_last_at'', Itoa (unix (be_now v))), (''backup_last_name'', ob_Name ob), (''backup_last_size'', Itoa (ob_Size ob))]"
  let ?e = "(blank_event ''backup.created'')\<lparr>e_Detail := ob_Name ob @ '' ('' @ FormatSize (ob_Size ob) @ '')''\<rparr>"
  have s0: "sound ?s" "kinds ?s = kinds s" using assms by (simp_all add: done_status_def)
  obtain s1 where save: "SaveSettings ?kvs ?s = (Inr (), s1)" "held s1 = held ?s" "sound s1" "kinds s1 = kinds ?s"
    using SaveSettings_sound [OF s0(1), of ?kvs] s0(1) by simp
  obtain s' where r: "Record (be_env v) ?e s1 = (Inr (), s')" "held s' = held s1" "sound s'" "kinds s' = kinds s1 @ [''backup.created'']"
    by (rule Record_sound [OF save(3), of "be_env v" ?e]) (simp add: blank_event_def)
  have h: "held s' = held ?s" using r(2) save(2) by simp
  have f: "vt_failures ?s = 0" "vt_retryAt ?s = zero_time" "vt_cfg ?s = vt_cfg s" "vt_busy ?s = vt_busy s"
    "bs_LastBackupAt (vt_status ?s) = Some (be_now v)" by (simp_all add: done_status_def)
  show thesis
    by (rule that [of s']) (use r save s0 f held_fields [OF h] in \<open>simp_all add: finish_def thn_def bnd_def modify_def attempt_def done_by_def\<close>)
qed

text \<open>A tick does nothing, or it tried and failed, or it made a backup.\<close>

lemma run_tick_cases:
  fixes s :: "('m, 'b, 'z) vault_scheme"
  assumes run: "run_tick v s = Some (r, s')" and sound: "sound s"
  obtains (idle) "s' = s" "backup_due v s = Some False \<or> vt_busy s"
    | (failed) "failed_by v s s'" "vt_cfg s' = vt_cfg s" "sound s'" "\<not> vt_busy s'" "backup_due v s = Some True"
    | (made) "done_by v s s'" "vt_cfg s' = vt_cfg s" "sound s'" "\<not> vt_busy s'" "backup_due v s = Some True"
proof -
  obtain d where d: "backup_due v s = Some d" using run by (auto simp: run_tick_def split: option.splits)
  show thesis
  proof (cases "d \<and> \<not> vt_busy s")
    case False
    then have "s' = s" using run d by (cases d) (auto simp: run_tick_def bprog_defs Upload_def Exclusive_def)
    then show thesis using idle d False by auto
  next
    case True
    let ?s = "setRunning True (s\<lparr>vt_busy := True\<rparr>)"
    have s0: "sound ?s" using sound by (simp add: setRunning_def)
    obtain x b where up: "upload v ?s = Some (x, ?s\<lparr>vt_bucket := b\<rparr>)"
      using run d True upload_leaves [of v ?s, OF _ s0]
      by (cases "upload v ?s") (fastforce simp: run_tick_def Upload_def Exclusive_def bprog_defs)+
    let ?t = "?s\<lparr>vt_bucket := b\<rparr>"
    have t: "sound ?t" "vt_failures ?t = vt_failures s" "kinds ?t = kinds s" "vt_cfg ?t = vt_cfg s"
      "bs_LastBackupAt (vt_status ?t) = bs_LastBackupAt (vt_status s)" using sound by (simp_all add: setRunning_def)
    obtain u where u: "finish v True x ?t = (Inr (), u)" "vt_cfg u = vt_cfg s" "sound u"
      "(\<exists>e. x = Inl e) \<and> failed_by v s u \<or> (\<exists>ob. x = Inr ob) \<and> done_by v s u"
    proof (cases x)
      case (Inl e)
      show thesis by (rule finish_failed [OF t(1), of v e]) (rule that, use Inl t in \<open>auto simp: failed_by_def\<close>)
    next
      case (Inr ob)
      show thesis by (rule finish_done [OF t(1), of v True ob]) (rule that, use Inr t in \<open>auto simp: done_by_def\<close>)
    qed
    have s': "s' = (setRunning False u)\<lparr>vt_busy := False\<rparr>"
      using run d True up u(1) by (auto simp: run_tick_def Upload_def Exclusive_def bprog_defs split: option.splits)
    have "backup_due v s = Some True" using d True by simp
    then show thesis using u(2-4) failed made unfolding s' by (auto simp: failed_by_def done_by_def setRunning_def)
  qed
qed

section \<open>Reports\<close>

text \<open>\<open>Run\<close>: one tick after the other.\<close>

primrec run_ticks :: "'b backup_env list \<Rightarrow> (('m, 'b, 'z) vault_scheme, unit) bprog" where
  "run_ticks [] = bret ()"
| "run_ticks (v # vs) = bthn (run_tick v) (run_ticks vs)"

definition both_failed :: "string \<Rightarrow> string \<Rightarrow> bool" where
  "both_failed a b \<longleftrightarrow> a = ''backup.failed'' \<and> b = ''backup.failed''"

text \<open>The kinds reported so far: never twice in a row a failure, and a failure last exactly while tries fail.\<close>

definition reports :: "string list \<Rightarrow> nat \<Rightarrow> bool" where
  "reports ks n \<longleftrightarrow> set ks \<subseteq> {''backup.failed'', ''backup.created''} \<and> successively (\<lambda>a b. \<not> both_failed a b) ks
     \<and> (n > 0 \<longleftrightarrow> ks \<noteq> [] \<and> last ks = ''backup.failed'')"

lemma reports_snoc:
  "reports ks 0 \<Longrightarrow> reports (ks @ [''backup.failed'']) (Suc n)" "reports ks n \<Longrightarrow> reports (ks @ [''backup.created'']) 0"
  "reports ks (Suc n) \<Longrightarrow> reports ks (Suc (Suc n))"
  by (auto simp: reports_def successively_append_iff both_failed_def)

lemma run_ticks_reports:
  fixes s :: "('m, 'b, 'z) vault_scheme"
  assumes "run_ticks vs s = Some (r, s')" "sound s" "reports ks (vt_failures s)" "kinds s = ks0 @ ks"
  shows "\<exists>ks'. kinds s' = ks0 @ ks' \<and> reports ks' (vt_failures s')"
  using assms
proof (induction vs arbitrary: s ks)
  case Nil
  then show ?case by (auto simp: bret_def)
next
  case (Cons v vs)
  obtain r1 s1 where tick: "run_tick v s = Some (r1, s1)"
    using Cons.prems(1) by (auto simp: bprog_defs split: option.splits)
  have r1: "r1 = Inr ()" using tick by (auto simp: run_tick_def bprog_defs split: option.splits if_splits)
  have more_ticks: "run_ticks vs s1 = Some (r, s')" using Cons.prems(1) tick r1 by (simp add: bprog_defs)
  show ?case
  proof (cases rule: run_tick_cases [OF tick Cons.prems(2)])
    case 1
    then show ?thesis using Cons.IH [OF more_ticks] Cons.prems by blast
  next
    case 2
    then have "\<exists>ks1. kinds s1 = ks0 @ ks1 \<and> reports ks1 (vt_failures s1)"
      using Cons.prems(3,4) reports_snoc(1) [of ks] reports_snoc(3) [of ks] by (cases "vt_failures s") (auto simp: failed_by_def)
    then show ?thesis using Cons.IH [OF more_ticks 2(3)] by blast
  next
    case 3
    then have "kinds s1 = ks0 @ ks @ [''backup.created''] \<and> reports (ks @ [''backup.created'']) (vt_failures s1)"
      using Cons.prems(3,4) reports_snoc(2) [of ks] by (auto simp: done_by_def)
    then show ?thesis using Cons.IH [OF more_ticks 3(3)] by blast
  qed
qed

text \<open>C33. A bucket that stays unreachable is reported once: over any number of ticks of the schedule, at any times and
  whatever the bucket answers, the activity log gains only failures and successes of backups, no two
  failures in a row, so between two reports of a failure there was a backup that worked; and the last
  report is a failure exactly while the tries are failing.\<close>

theorem failed_backup_reported_once:
  fixes s :: "('m, 'b, 'z) vault_scheme"
  assumes "run_ticks vs s = Some (r, s')" "sound s" "vt_failures s = 0"
  shows "\<exists>ks. kinds s' = kinds s @ ks \<and> set ks \<subseteq> {''backup.failed'', ''backup.created''}
     \<and> successively (\<lambda>a b. \<not> (a = ''backup.failed'' \<and> b = ''backup.failed'')) ks
     \<and> (0 < vt_failures s') = (ks \<noteq> [] \<and> last ks = ''backup.failed'')"
  using run_ticks_reports [OF assms(1,2), of "[]" "kinds s"] assms(3) by (auto simp: reports_def both_failed_def)

text \<open>Scheduled backups keep their distance: after a tick that tried, the service either failed and then tries
  again no sooner than half an hour later, or made a backup and then makes the next one only once a time of
  the schedule has come after it.\<close>

theorem scheduled_backups_spaced:
  fixes s :: "('m, 'b, 'z) vault_scheme"
  assumes tick: "run_tick v s = Some (r, s')" "sound s" "backup_due v s = Some True" "\<not> vt_busy s" "vt_cfg s = Some c"
    and again: "backup_due w s' = Some True"
  shows "if 0 < vt_failures s' then be_now v + 30 * 60 * second \<le> be_now w
    else \<exists>slot. schedule_previous (be_off w) c (be_now w) = Some slot \<and> be_now v < slot"
proof (cases rule: run_tick_cases [OF tick(1,2)])
  case 1
  then show ?thesis using tick(3,4) by simp
next
  case 2
  then show ?thesis using again tick(5) by (auto simp: failed_by_def backup_due_def retryAfter_def split: if_splits)
next
  case 3
  then show ?thesis using again tick(5) by (auto simp: done_by_def backup_due_def split: if_splits)
qed

section \<open>Secrets\<close>

definition with_secrets :: "string \<Rightarrow> string \<Rightarrow> ('m, 'b, 'z) vault_scheme \<Rightarrow> ('m, 'b, 'z) vault_scheme" where
  "with_secrets key passphrase s =
     s\<lparr>vt_cfg := map_option (\<lambda>c. c\<lparr>bc_S3 := (bc_S3 c)\<lparr>s3_SecretKey := key\<rparr>\<rparr>) (vt_cfg s), vt_passphrase := passphrase\<rparr>"

lemma with_secrets_fields:
  "vt_cfg (with_secrets k p s) = map_option (\<lambda>c. c\<lparr>bc_S3 := (bc_S3 c)\<lparr>s3_SecretKey := k\<rparr>\<rparr>) (vt_cfg s)"
  "vt_passphrase (with_secrets k p s) = p" "vt_status (with_secrets k p s) = vt_status s" "vt_retryAt (with_secrets k p s) = vt_retryAt s"
  by (simp_all add: with_secrets_def)

lemma service_Status_with_secrets: "service_Status v (with_secrets k p s) = service_Status v s"
proof -
  have "schedule_previous off (c\<lparr>bc_S3 := x\<rparr>) t = schedule_previous off c t" for off c x t
    by (simp add: schedule_previous_def)
  then have "schedule_Next off (c\<lparr>bc_S3 := x\<rparr>) t = schedule_Next off c t" for off c x t
    by (simp add: schedule_Next_def cong del: if_weak_cong)
  then show ?thesis by (cases "vt_cfg s") (simp_all add: service_Status_def with_secrets_fields cong del: if_weak_cong)
qed

text \<open>The reply a handler leaves behind.\<close>

definition reply_of :: "((err + unit) \<times> ('m, 'b, 'z) vault_scheme) option \<Rightarrow> ((err + unit) \<times> int option \<times> string) option" where
  "reply_of = map_option (\<lambda>(r, s). (r, rw_status s, rw_body s))"

lemma reply_JSON:
  "reply_of (total (JSON st j) (with_secrets k p s)) = reply_of (total (JSON st j) (with_secrets k' p' s))"
  by (simp add: reply_of_def total_def JSON_def set_header_def WriteHeader_def w_Write_def thn_def bnd_def modify_def ret_def with_secrets_def
      split: option.split)


section \<open>Unpacking\<close>

definition safe_name :: "string \<Rightarrow> bool" where
  "safe_name n \<longleftrightarrow> n \<noteq> [] \<and> n \<noteq> ''.'' \<and> n \<noteq> ''..'' \<and> CHR ''/'' \<notin> set n \<and> CHR 0x5C \<notin> set n"

definition safe_certs :: "Extracted \<Rightarrow> bool" where
  "safe_certs ex \<longleftrightarrow> fst ` set (ex_Certs ex) \<subseteq> {n. safe_name n}"

lemma extract_entry_safe:
  assumes "extract_entry json t (saw, ex) = Inr (saw', ex')" "safe_certs ex"
  shows "safe_certs ex'"
proof -
  have "ex_Certs ex' = ex_Certs ex \<or> (\<exists>n b. validCertName n \<and> ex_Certs ex' = AList.update n b (ex_Certs ex))"
    using assms(1) by (auto simp: extract_entry_def split: if_splits sum.splits option.splits prod.splits) blast+
  then show ?thesis using assms(2) unfolding safe_certs_def
    by (elim disjE exE conjE) (simp_all only: dom_update Un_subset_iff, simp_all add: validCertName_def safe_name_def)
qed

lemma extract_entries_safe:
  "extract_entries json ts err (saw, ex) = Inr (saw', ex') \<Longrightarrow> safe_certs ex \<Longrightarrow> safe_certs ex'"
proof (induction ts arbitrary: saw ex)
  case Nil
  then show ?case by (simp split: option.splits)
next
  case (Cons t ts)
  then show ?case by (cases "extract_entry json t (saw, ex)") (auto dest: extract_entry_safe)
qed

text \<open>C35. Unpacking a backup cannot write outside its own directory: whatever the archive holds, every certificate file
  it is unpacked to has a name of its own, not empty, not a dot or two, without a slash or a backslash; and
  an archive is accepted only with a database and with a manifest of this format.\<close>

theorem unpacking_is_confined:
  assumes "Extract u r passphrase = Inr ex"
  shows "fst ` set (ex_Certs ex) \<subseteq> {n. n \<noteq> [] \<and> n \<noteq> ''.'' \<and> n \<noteq> ''..'' \<and> CHR ''/'' \<notin> set n \<and> CHR 0x5C \<notin> set n}
    \<and> ex_Database ex \<noteq> None \<and> mf_Format (ex_Manifest ex) = 1"
proof -
  obtain ts err saw where e: "extract_entries (up_json u) ts err (False, \<lparr>ex_Manifest = no_manifest, ex_Database = None, ex_Certs = []\<rparr>) = Inr (saw, ex)"
      "ex_Database ex \<noteq> None" "\<not> formatVersion < mf_Format (ex_Manifest ex)" "\<not> mf_Format (ex_Manifest ex) < 1"
    using assms by (auto simp: Extract_def split: sum.splits prod.splits if_splits)
  have "safe_certs ex" by (rule extract_entries_safe [OF e(1)]) (simp add: safe_certs_def)
  then show ?thesis using e(2-4) by (auto simp: safe_certs_def safe_name_def formatVersion_def)
qed

section \<open>Witnesses\<close>

text \<open>A daily backup at three in the morning, on a panel that cannot copy its database.\<close>

definition demo_config :: BackupConfig where
  "demo_config = \<lparr>bc_S3 = \<lparr>s3_Endpoint = [], s3_Region = [], s3_Bucket = ''b'', s3_Prefix = [], s3_AccessKey = ''k'', s3_SecretKey = ''s'',
     s3_PathStyle = False\<rparr>, bc_Schedule = ScheduleDaily, bc_Hour = 3, bc_Keep = 7\<rparr>"

definition demo_s3 :: "unit s3_env" where
  "demo_s3 = \<lparr>s3_Do = (\<lambda>_ b. (Inl (NewError ''no route''), b)), s3_parse = (\<lambda>_. None), s3_sha256 = id, s3_hmac = (\<lambda>_. id), s3_now = 0,
     s3_lower = id, s3_printable = (\<lambda>_. True)\<rparr>"

definition demo_backup_env :: "gotime \<Rightarrow> unit backup_env" where
  "demo_backup_env now = \<lparr>be_env = utc_env now, be_s3 = demo_s3, be_file = Some (NewError ''disk full''),
     be_pack = (\<lambda>_ _ _. Inr (''archive'', ''00''))\<rparr>"

definition demo_vault :: "(fake, unit) vault" where
  "demo_vault = api.extend (world.extend office_world
       \<lparr>ap_throttle = [], ap_buckets = [], rw_header = [], rw_status = None, rw_last = None, rw_body = []\<rparr>)
     \<lparr>vt_cfg = Some demo_config, vt_passphrase = [],
      vt_status = \<lparr>bs_Running = False, bs_LastBackupAt = None, bs_LastBackupName = [], bs_LastBackupSize = 0, bs_LastError = [],
        bs_LastErrorAt = None, bs_NextRunAt = None\<rparr>,
      vt_failures = 0, vt_retryAt = zero_time, vt_busy = False, vt_bucket = ()\<rparr>"

lemma demo_vault_fields:
  "sound demo_vault" "vt_cfg demo_vault = Some demo_config" "vt_failures demo_vault = 0" "\<not> vt_busy demo_vault"
  "vt_retryAt demo_vault = zero_time" "bs_LastBackupAt (vt_status demo_vault) = None" "t_settings demo_vault = []"
  by (simp_all add: demo_vault_def office_world_def world_of_def office_db_def empty_db_def api.defs world.defs db.defs)

lemma demo_slots:
  "schedule_previous (\<lambda>_. 0) demo_config (43200 * second) = Some (10800 * second)"
  "schedule_previous (\<lambda>_. 0) demo_config (45060 * second) = Some (10800 * second)"
  by code_simp+

lemma demo_env_fields: "be_now (demo_backup_env t) = t" "be_off (demo_backup_env t) = (\<lambda>_. 0)"
  by (simp_all add: demo_backup_env_def utc_env_def)

lemma demo_tick:
  fixes s :: "(fake, unit) vault"
  assumes "sound s" "vt_cfg s = Some demo_config" "\<not> vt_busy s" "backup_due (demo_backup_env t) s = Some True"
  obtains s' where "run_tick (demo_backup_env t) s = Some (Inr (), s')" "failed_by (demo_backup_env t) s s'" "vt_cfg s' = Some demo_config"
    "sound s'" "\<not> vt_busy s'"
proof -
  let ?v = "demo_backup_env t"
  let ?s = "setRunning True (s\<lparr>vt_busy := True\<rparr>)"
  have s0: "sound ?s" "vt_cfg ?s = Some demo_config" "vt_failures ?s = vt_failures s" "kinds ?s = kinds s"
    "bs_LastBackupAt (vt_status ?s) = bs_LastBackupAt (vt_status s)" using assms by (simp_all add: setRunning_def)
  have "\<exists>e. backup_Create ?v n p ?s = Some (Inl e, ?s)" for n p using s0(1)
    by (simp add: backup_Create_def bprog_defs demo_backup_env_def Snapshot_def bnd_def thn_def mapErr_def query_def stmt_def failOn_def throw_def)
  then obtain e where "backup_Create ?v (be_now ?v) (vt_passphrase ?s) ?s = Some (Inl e, ?s)" by blast
  then have up: "upload ?v ?s = Some (Inl e, ?s)" using s0(2) by (simp add: upload_def bprog_defs Let_def)
  obtain u where u: "finish ?v True (Inl e) ?s = (Inr (), u)" "failed_by ?v ?s u" "vt_cfg u = vt_cfg ?s" "sound u"
    by (rule finish_failed [OF s0(1), of ?v e])
  let ?s' = "(setRunning False u)\<lparr>vt_busy := False\<rparr>"
  have "run_tick ?v s = Some (Inr (), ?s')"
    using assms(3,4) up u(1) by (simp add: run_tick_def Upload_def Exclusive_def bprog_defs)
  moreover have "failed_by ?v s ?s'" using u(2) s0 by (simp add: failed_by_def setRunning_def)
  ultimately show thesis using that [of ?s'] u(3,4) s0(2) by (simp add: setRunning_def)
qed

lemma demo_first: "backup_due (demo_backup_env (43200 * second)) demo_vault = Some True"
  using demo_slots by (simp add: backup_due_def demo_vault_fields demo_env_fields zero_time_def)

lemma demo_again:
  assumes "failed_by (demo_backup_env (43200 * second)) demo_vault s" "vt_cfg s = Some demo_config"
  shows "backup_due (demo_backup_env (45060 * second)) s = Some True"
  using assms demo_slots by (simp add: backup_due_def failed_by_def demo_vault_fields demo_env_fields zero_time_def retryAfter_def)

lemma demo_ticks:
  obtains s s' where "run_tick (demo_backup_env (43200 * second)) demo_vault = Some (Inr (), s)"
    "run_ticks [demo_backup_env (43200 * second), demo_backup_env (45060 * second)] demo_vault = Some (Inr (), s')"
    "vt_failures s = 1" "vt_failures s' = 2" "backup_due (demo_backup_env (45060 * second)) s = Some True"
proof -
  obtain s where s: "run_tick (demo_backup_env (43200 * second)) demo_vault = Some (Inr (), s)"
      "failed_by (demo_backup_env (43200 * second)) demo_vault s" "vt_cfg s = Some demo_config" "sound s" "\<not> vt_busy s"
    by (rule demo_tick [OF demo_vault_fields(1,2,4) demo_first])
  obtain s' where s': "run_tick (demo_backup_env (45060 * second)) s = Some (Inr (), s')" "failed_by (demo_backup_env (45060 * second)) s s'"
    by (rule demo_tick [OF s(4,3,5) demo_again [OF s(2,3)]])
  show thesis
    by (rule that [of s s']) (use s s' demo_again [OF s(2,3)] demo_vault_fields in \<open>simp_all add: bprog_defs failed_by_def numeral_2_eq_2\<close>)
qed

theorem backup_settings_round_trip_witness:
  "\<exists>s'. saveBackupSettings (Some demo_config) demo_vault = (Inr (), s') \<and> LoadConfig (t_settings s') = Some demo_config"
  using backup_settings_round_trip [of demo_vault "Some demo_config"] demo_vault_fields(1)
  by (simp add: demo_config_def ScheduleDaily_def int64_range_def) blast

theorem failed_backup_reported_once_witness:
  "\<exists>s' ks. run_ticks [demo_backup_env (43200 * second), demo_backup_env (45060 * second)] demo_vault = Some (Inr (), s')
     \<and> kinds s' = kinds demo_vault @ ks \<and> last ks = ''backup.failed'' \<and> vt_failures s' = 2"
proof -
  obtain s s' where r: "run_ticks [demo_backup_env (43200 * second), demo_backup_env (45060 * second)] demo_vault = Some (Inr (), s')"
    "vt_failures s' = 2" by (rule demo_ticks)
  show ?thesis using failed_backup_reported_once [OF r(1)] r demo_vault_fields by auto
qed

theorem scheduled_backups_spaced_witness:
  "\<exists>s'. run_tick (demo_backup_env (43200 * second)) demo_vault = Some (Inr (), s') \<and> 0 < vt_failures s'
     \<and> be_now (demo_backup_env (43200 * second)) + 30 * 60 * second \<le> be_now (demo_backup_env (45060 * second))"
proof -
  obtain s where r: "run_tick (demo_backup_env (43200 * second)) demo_vault = Some (Inr (), s)"
    "vt_failures s = 1" "backup_due (demo_backup_env (45060 * second)) s = Some True" by (rule demo_ticks)
  show ?thesis
    using scheduled_backups_spaced [OF r(1) demo_vault_fields(1) demo_first demo_vault_fields(4,2) r(3)] r by auto
qed

text \<open>An archive that tries to leave its directory.\<close>

definition demo_manifest :: Manifest where
  "demo_manifest = \<lparr>mf_Format = 1, mf_Version = ''1.0'', mf_CreatedAt = 0\<rparr>"

definition demo_unpack :: unpack_env where
  "demo_unpack = \<lparr>up_argon2 = (\<lambda>_ _ _ _ _ _. []), up_gcm = (\<lambda>_. \<lparr>ae_Seal = (\<lambda>_ p _. p), ae_Open = (\<lambda>_ c _. Some c)\<rparr>),
     up_untar = (\<lambda>_ _. ([\<lparr>ta_Name = ''manifest.json'', ta_Regular = True, ta_Body = Inr []\<rparr>,
       \<lparr>ta_Name = ''tunploy.db'', ta_Regular = True, ta_Body = Inr [1]\<rparr>, \<lparr>ta_Name = ''certs/../evil'', ta_Regular = True, ta_Body = Inr [2]\<rparr>,
       \<lparr>ta_Name = ''certs/..'', ta_Regular = True, ta_Body = Inr [2]\<rparr>, \<lparr>ta_Name = ''certs/a.crt'', ta_Regular = True, ta_Body = Inr [3]\<rparr>], None)),
     up_json = (\<lambda>_. Some demo_manifest)\<rparr>"

theorem unpacking_is_confined_witness:
  "\<exists>ex. Extract demo_unpack \<lparr>sr_data = [], sr_end = None\<rparr> [] = Inr ex \<and> ex_Certs ex = [(''a.crt'', [3])] \<and> mf_Format (ex_Manifest ex) = 1"
proof -
  let ?ex = "\<lparr>ex_Manifest = demo_manifest, ex_Database = Some [1], ex_Certs = [(''a.crt'', [3])]\<rparr>"
  have "Extract demo_unpack \<lparr>sr_data = [], sr_end = None\<rparr> [] = Inr ?ex"
    by (simp add: Extract_def isEncrypted_def cryptMagic_def bytes_of_def demo_unpack_def extract_entry_def manifestName_def databaseName_def certsDir_def path_Split_def
        validCertName_def formatVersion_def demo_manifest_def Let_def)
  from this unpacking_is_confined [OF this] show ?thesis by auto
qed


end
