(* ===== verification/DockerClient.thy ===== *)
theory DockerClient
  imports Texts Deploy
begin

text \<open>
  internal/docker (docker.go, container.go, exec.go, logs.go, image.go, self.go): the client the panel runs
  its containers through, the container the panel itself runs in, and swapping a container for a copy on
  another image. The Docker Engine API of github.com/moby/moby is a library: \<open>moby\<close> is the record of the
  calls the code makes, on a daemon of type \<open>'m\<close>. \<open>host\<close> is what the system says its name is.
\<close>

section \<open>The library\<close>

text \<open>What the library says about an error.\<close>

datatype moby_err = ConnectionFailed err | NotFoundErr err | ConflictErr err | OtherErr err

record moby_config =
  mc_Image :: string
  mc_Hostname :: string
  mc_Cmd :: "string list"
  mc_Env :: "string list"
  mc_Labels :: "(string \<times> string) list"
  mc_Entrypoint :: "string list"
  mc_WorkingDir :: string
  mc_User :: string
  mc_ExposedPorts :: "(16 word \<times> string) list"

record moby_host_config =
  mh_PortBindings :: "((16 word \<times> string) \<times> string list) list"
  mh_Binds :: "string list"
  mh_Mounts :: "(string \<times> string \<times> bool) list"
  mh_CapAdd :: "string list"
  mh_Sysctls :: "(string \<times> string) list"
  mh_RestartPolicy :: string
  mh_AutoRemove :: bool

record moby_endpoint =
  me_IPAMConfig :: string
  me_Links :: "string list"
  me_Aliases :: "string list"
  me_DriverOpts :: "(string \<times> string) list"
  me_GwPriority :: int

record moby_state =
  ms_Status :: string
  ms_Running :: bool
  ms_Restarting :: bool
  ms_ExitCode :: int

record moby_container =
  mi_ID :: string
  mi_Name :: string
  mi_Image :: string
  mi_Config :: "moby_config option"
  mi_State :: "moby_state option"
  mi_HostConfig :: "moby_host_config option"
  mi_Networks :: "(string \<times> moby_endpoint option) list"

record moby_create =
  mo_Name :: string
  mo_Config :: moby_config
  mo_HostConfig :: moby_host_config
  mo_Networks :: "(string \<times> moby_endpoint) list option"

type_synonym ('m, 'a) mcall = "'m \<Rightarrow> (moby_err + 'a) \<times> 'm"

text \<open>
  A list item is its ID, names, image, state and labels. An attached process ends with what it wrote on its
  two outputs or with a broken stream. A build answers with messages, some of them errors, until its stream
  ends or breaks.
\<close>

record 'm moby =
  mb_ContainerInspect :: "string \<Rightarrow> ('m, moby_container) mcall"
  mb_ContainerList :: "string \<Rightarrow> ('m, (string \<times> string list \<times> string \<times> string \<times> (string \<times> string) list) list) mcall"
  mb_ContainerCreate :: "moby_create \<Rightarrow> ('m, string) mcall"
  mb_ContainerStart :: "string \<Rightarrow> ('m, unit) mcall"
  mb_ContainerStop :: "string \<Rightarrow> int \<Rightarrow> ('m, unit) mcall"
  mb_ContainerRemove :: "string \<Rightarrow> ('m, unit) mcall"
  mb_ContainerRename :: "string \<Rightarrow> string \<Rightarrow> ('m, unit) mcall"
  mb_ContainerWait :: "string \<Rightarrow> ('m, int) mcall"
  mb_ContainerLogs :: "string \<Rightarrow> int \<Rightarrow> bool \<Rightarrow> ('m, string list \<times> stream_end) mcall"
  mb_ExecCreate :: "string \<Rightarrow> string list \<Rightarrow> ('m, string) mcall"
  mb_ExecAttach :: "string \<Rightarrow> ('m, err + string \<times> string) mcall"
  mb_ExecInspect :: "string \<Rightarrow> ('m, int) mcall"
  mb_ImageInspect :: "string \<Rightarrow> ('m, moby_config option) mcall"
  mb_ImageBuild :: "(string \<times> int \<times> string) list \<Rightarrow> string \<Rightarrow> (string \<times> string) list \<Rightarrow> ('m, string option list \<times> err option) mcall"
  mb_ImagePull :: "string \<Rightarrow> ('m, moby_err option) mcall"
  mb_Ping :: "('m, unit) mcall"
  mb_ServerVersion :: "('m, string \<times> string \<times> string) mcall"
  mb_ClientVersion :: string
  mb_Info :: "('m, string \<times> string \<times> string \<times> string \<times> string \<times> int \<times> int) mcall"
  mb_PortFrom :: "16 word \<Rightarrow> string \<Rightarrow> bool"

section \<open>Errors\<close>

definition DockerConflict :: err where "DockerConflict = NewError ''conflict''"
definition ErrNotManaged :: err where "ErrNotManaged = NewError ''container is not managed by tunploy''"

definition docker_wrap :: "string \<Rightarrow> moby_err \<Rightarrow> err" where
  "docker_wrap op me =
     (case me of
        ConnectionFailed e \<Rightarrow> Errorf2 (''docker '' @ op) DockerUnavailable e
      | NotFoundErr e \<Rightarrow> Errorf2 (''docker '' @ op) DockerNotFound e
      | ConflictErr e \<Rightarrow> Errorf2 (''docker '' @ op) DockerConflict e
      | OtherErr e \<Rightarrow> Errorf (''docker '' @ op) e)"

definition api_call :: "string \<Rightarrow> ('m, 'a) mcall \<Rightarrow> ('m, 'a) prog" where
  "api_call op m s = (case m s of (Inl e, s') \<Rightarrow> (Inl (docker_wrap op e), s') | (Inr x, s') \<Rightarrow> (Inr x, s'))"

section \<open>The daemon\<close>

record docker_info =
  di_Version :: string
  di_APIVersion :: string
  di_OS :: string
  di_Arch :: string

definition docker_Ping :: "'m moby \<Rightarrow> ('m, docker_info) prog" where
  "docker_Ping mb =
     bnd (api_call ''ping'' (mb_Ping mb)) (\<lambda>_.
     bnd (api_call ''server version'' (mb_ServerVersion mb)) (\<lambda>(version, os, arch).
     ret \<lparr>di_Version = version, di_APIVersion = mb_ClientVersion mb, di_OS = os, di_Arch = arch\<rparr>))"

text \<open>What Docker says of the machine it runs on.\<close>

record Daemon =
  dm_ID :: string
  dm_Version :: string
  dm_OS :: string
  dm_Arch :: string
  dm_KernelVersion :: string
  dm_CPUs :: int
  dm_Memory :: int

definition docker_Daemon :: "'m moby \<Rightarrow> ('m, Daemon) prog" where
  "docker_Daemon mb =
     bnd (api_call ''info'' (mb_Info mb)) (\<lambda>(k, version, os, arch, kernel, cpus, mem).
     ret \<lparr>dm_ID = k, dm_Version = version, dm_OS = os, dm_Arch = arch, dm_KernelVersion = kernel, dm_CPUs = cpus, dm_Memory = mem\<rparr>)"

section \<open>Containers\<close>

definition docker_LabelManaged :: string where "docker_LabelManaged = ''io.tunploy.managed''"

text \<open>The ports: the first that the library refuses, else what is exposed and bound.\<close>

definition bind_ports :: "'m moby \<Rightarrow> (16 word \<times> 16 word \<times> string) list \<Rightarrow> err + ((16 word \<times> string) \<times> string list) list" where
  "bind_ports mb ports =
     (case find (\<lambda>(_, inner, proto). \<not> mb_PortFrom mb inner proto) ports of
        Some (_, inner, proto) \<Rightarrow> Inl (NewError (''docker create container: invalid port '' @ dec (unat inner) @ ''/'' @ proto))
      | None \<Rightarrow> Inr (fold (\<lambda>(outer, inner, proto). AList.map_default (inner, proto) [] (\<lambda>bs. bs @ [dec (unat outer)])) ports []))"

definition blank_config :: moby_config where
  "blank_config = \<lparr>mc_Image = [], mc_Hostname = [], mc_Cmd = [], mc_Env = [], mc_Labels = [], mc_Entrypoint = [], mc_WorkingDir = [],
     mc_User = [], mc_ExposedPorts = []\<rparr>"

definition blank_host_config :: moby_host_config where
  "blank_host_config = \<lparr>mh_PortBindings = [], mh_Binds = [], mh_Mounts = [], mh_CapAdd = [], mh_Sysctls = [], mh_RestartPolicy = [],
     mh_AutoRemove = False\<rparr>"

definition create_options :: "ContainerSpec \<Rightarrow> ((16 word \<times> string) \<times> string list) list \<Rightarrow> moby_create" where
  "create_options spec bindings =
     \<lparr>mo_Name = cs_Name spec,
      mo_Config = blank_config\<lparr>mc_Image := cs_Image spec, mc_Cmd := cs_Cmd spec, mc_Env := map (\<lambda>(k, v). k @ ''='' @ v) (cs_Env spec),
        mc_Labels := AList.update docker_LabelManaged ''true'' (cs_Labels spec), mc_ExposedPorts := map fst bindings\<rparr>,
      mo_HostConfig = blank_host_config\<lparr>mh_PortBindings := bindings, mh_Mounts := cs_Mounts spec, mh_CapAdd := cs_CapAdd spec,
        mh_Sysctls := cs_Sysctls spec, mh_RestartPolicy := ''unless-stopped''\<rparr>,
      mo_Networks = None\<rparr>"

definition CreateContainer :: "'m moby \<Rightarrow> ContainerSpec \<Rightarrow> ('m, string) prog" where
  "CreateContainer mb spec =
     bnd (liftE (bind_ports mb (cs_Ports spec))) (\<lambda>bindings.
     api_call ''create container'' (mb_ContainerCreate mb (create_options spec bindings)))"

definition InspectContainer :: "'m moby \<Rightarrow> string \<Rightarrow> ('m, Container) prog" where
  "InspectContainer mb k =
     bnd (api_call ''inspect container'' (mb_ContainerInspect mb k)) (\<lambda>ct.
     ret \<lparr>ct_ID = mi_ID ct, ct_Name = TrimPrefix (mi_Name ct) ''/'',
          ct_Image = (case mi_Config ct of None \<Rightarrow> [] | Some c \<Rightarrow> mc_Image c),
          ct_State = (case mi_State ct of None \<Rightarrow> [] | Some st \<Rightarrow> ms_Status st),
          ct_ExitCode = (case mi_State ct of None \<Rightarrow> 0 | Some st \<Rightarrow> ms_ExitCode st),
          ct_Labels = (case mi_Config ct of None \<Rightarrow> [] | Some c \<Rightarrow> mc_Labels c)\<rparr>)"

definition ListContainers :: "'m moby \<Rightarrow> ('m, Container list) prog" where
  "ListContainers mb =
     bnd (api_call ''list containers'' (mb_ContainerList mb (docker_LabelManaged @ ''=true''))) (\<lambda>items.
     ret (map (\<lambda>(k, names, image, state, labels).
       \<lparr>ct_ID = k, ct_Name = (case names of [] \<Rightarrow> [] | n # _ \<Rightarrow> TrimPrefix n ''/''), ct_Image = image, ct_State = state, ct_ExitCode = 0,
        ct_Labels = labels\<rparr>) items))"

definition ensureManaged :: "'m moby \<Rightarrow> string \<Rightarrow> ('m, unit) prog" where
  "ensureManaged mb k =
     bnd (InspectContainer mb k) (\<lambda>ct.
     if map_of (ct_Labels ct) docker_LabelManaged \<noteq> Some ''true''
     then throw (NewError (''docker: '' @ err_Error ErrNotManaged @ '': '' @ ct_Name ct))
     else ret ())"

definition StartContainer :: "'m moby \<Rightarrow> string \<Rightarrow> ('m, unit) prog" where
  "StartContainer mb k = thn (ensureManaged mb k) (api_call ''start container'' (mb_ContainerStart mb k))"

definition StopContainer :: "'m moby \<Rightarrow> string \<Rightarrow> gotime \<Rightarrow> ('m, unit) prog" where
  "StopContainer mb k t = thn (ensureManaged mb k) (api_call ''stop container'' (mb_ContainerStop mb k (quot t second)))"

definition RemoveContainer :: "'m moby \<Rightarrow> string \<Rightarrow> ('m, unit) prog" where
  "RemoveContainer mb k = thn (ensureManaged mb k) (api_call ''remove container'' (mb_ContainerRemove mb k))"

section \<open>Processes and logs\<close>

definition docker_exec :: "'m moby \<Rightarrow> string \<Rightarrow> string list \<Rightarrow> ('m, string) prog" where
  "docker_exec mb k cmd =
     bnd (api_call ''exec create'' (mb_ExecCreate mb k cmd)) (\<lambda>created.
     bnd (api_call ''exec attach'' (mb_ExecAttach mb created)) (\<lambda>output.
     bnd (mapErr (Errorf ''docker exec read output'') (liftE output)) (\<lambda>(out, serr).
     bnd (api_call ''exec inspect'' (mb_ExecInspect mb created)) (\<lambda>code.
     if code \<noteq> 0 then throw (NewError (''docker exec '' @ hd cmd @ '': exit code '' @ Itoa code @ '': '' @ TrimSpace serr))
     else ret out))))"

definition Exec :: "'m moby \<Rightarrow> string \<Rightarrow> string list \<Rightarrow> ('m, string) prog" where
  "Exec mb k cmd = thn (ensureManaged mb k) (docker_exec mb k cmd)"

definition docker_logs :: "'m moby \<Rightarrow> string \<Rightarrow> int \<Rightarrow> bool \<Rightarrow> ('m, string list \<times> stream_end) prog" where
  "docker_logs mb k tail follow = api_call ''container logs'' (mb_ContainerLogs mb k tail follow)"

definition docker_Logs :: "'m moby \<Rightarrow> string \<Rightarrow> int \<Rightarrow> bool \<Rightarrow> ('m, string list \<times> stream_end) prog" where
  "docker_Logs mb k tail follow = thn (ensureManaged mb k) (docker_logs mb k tail follow)"

section \<open>Images\<close>

definition ImageExists :: "'m moby \<Rightarrow> string \<Rightarrow> ('m, bool) prog" where
  "ImageExists mb ref =
     bnd (attempt (api_call ''inspect image'' (mb_ImageInspect mb ref))) (\<lambda>r.
     case r of Inr _ \<Rightarrow> ret True | Inl e \<Rightarrow> if errors_Is e DockerNotFound then ret False else throw e)"

text \<open>The files of the build, scripts executable; a step that failed is a message in the answer.\<close>

definition build_context :: "(string \<times> string) list \<Rightarrow> (string \<times> int \<times> string) list" where
  "build_context files = map (\<lambda>(name, body). (name, if HasSuffix name ''.sh'' then 493 else 420, body)) files"

definition first_error :: "string option list \<Rightarrow> string option" where
  "first_error msgs = (case find (\<lambda>x. x \<noteq> None) msgs of None \<Rightarrow> None | Some x \<Rightarrow> x)"

definition BuildImage :: "'m moby \<Rightarrow> string \<Rightarrow> (string \<times> string) list \<Rightarrow> ('m, unit) prog" where
  "BuildImage mb tag files =
     bnd (api_call ''build image'' (mb_ImageBuild mb (build_context files) tag [(docker_LabelManaged, ''true'')])) (\<lambda>(msgs, broken).
     case first_error msgs of
       Some msg \<Rightarrow> throw (NewError (''docker build image '' @ tag @ '': '' @ msg))
     | None \<Rightarrow> (case broken of None \<Rightarrow> ret () | Some e \<Rightarrow> throw (Errorf (''docker build image '' @ tag @ '': read output'') e)))"

definition PullImage :: "'m moby \<Rightarrow> string \<Rightarrow> ('m, unit) prog" where
  "PullImage mb ref =
     bnd (api_call ''pull image'' (mb_ImagePull mb ref)) (\<lambda>r.
     case r of None \<Rightarrow> ret () | Some e \<Rightarrow> throw (docker_wrap (''pull image '' @ ref) e))"

definition EnsureImage :: "'m moby \<Rightarrow> string \<Rightarrow> ('m, unit) prog" where
  "EnsureImage mb ref = bnd (ImageExists mb ref) (\<lambda>there. if there then ret () else PullImage mb ref)"

section \<open>The client as the deploy manager's machine\<close>

definition docker_Host :: "'m moby \<Rightarrow> string \<Rightarrow> (string \<Rightarrow> string \<Rightarrow> ('m, unit) prog) \<Rightarrow> (string \<Rightarrow> ('m, unit) prog) \<Rightarrow>
    (string \<Rightarrow> ('m, string list) prog) \<Rightarrow> 'm Host" where
  "docker_Host mb root write_file remove_all read_dir =
     \<lparr>h_Root = root, h_ImageExists = ImageExists mb, h_BuildImage = BuildImage mb, h_CreateContainer = CreateContainer mb,
      h_InspectContainer = InspectContainer mb, h_ListContainers = ListContainers mb, h_StartContainer = StartContainer mb,
      h_StopContainer = StopContainer mb, h_RemoveContainer = RemoveContainer mb, h_Exec = Exec mb, h_Logs = docker_Logs mb,
      h_WriteFile = write_file, h_RemoveAll = remove_all, h_ReadDir = read_dir\<rparr>"

section \<open>The panel's own container\<close>

definition UpdaterName :: string where "UpdaterName = ''tunploy-updater''"
definition labelComposeProject :: string where "labelComposeProject = ''com.docker.compose.project''"
definition labelSource :: string where "labelSource = ''org.opencontainers.image.source''"

record Self =
  sf_ID :: string
  sf_Name :: string
  sf_Image :: string
  sf_Compose :: string
  sf_Source :: string

definition label_of :: "(string \<times> string) list \<Rightarrow> string \<Rightarrow> string" where
  "label_of labels k = (case map_of labels k of None \<Rightarrow> [] | Some v \<Rightarrow> v)"

definition image_source :: "'m moby \<Rightarrow> string \<Rightarrow> ('m, string) prog" where
  "image_source mb img =
     bnd (attempt (api_call ''inspect image'' (mb_ImageInspect mb img))) (\<lambda>r.
     ret (case r of Inr (Some c) \<Rightarrow> label_of (mc_Labels c) labelSource | _ \<Rightarrow> []))"

primrec find_self :: "'m moby \<Rightarrow> string \<Rightarrow> string list \<Rightarrow> ('m, Self) prog" where
  "find_self mb host [] = throw (Errorf2 ''docker'' DockerNotFound (NewError (''no container with hostname '' @ host)))"
| "find_self mb host (ref # refs) =
     bnd (attempt (api_call ''inspect container'' (mb_ContainerInspect mb ref))) (\<lambda>r.
     case r of
       Inl e \<Rightarrow> if errors_Is e DockerNotFound then find_self mb host refs else throw e
     | Inr ct \<Rightarrow>
       (case mi_Config ct of
          None \<Rightarrow> find_self mb host refs
        | Some c \<Rightarrow>
          if mc_Hostname c \<noteq> host then find_self mb host refs
          else bnd (image_source mb (mi_Image ct)) (\<lambda>source.
            ret \<lparr>sf_ID = mi_ID ct, sf_Name = TrimPrefix (mi_Name ct) ''/'', sf_Image = mc_Image c,
                 sf_Compose = label_of (mc_Labels c) labelComposeProject, sf_Source = source\<rparr>)))"

definition FindSelf :: "'m moby \<Rightarrow> err + string \<Rightarrow> ('m, Self) prog" where
  "FindSelf mb hostname =
     bnd (mapErr (Errorf ''hostname'') (liftE hostname)) (\<lambda>host. find_self mb host [host, ''tunploy''])"

section \<open>The updater\<close>

text \<open>An updater left over from before goes; one that runs stops the new one.\<close>

definition clear_updater :: "'m moby \<Rightarrow> ('m, unit) prog" where
  "clear_updater mb =
     bnd (attempt (api_call ''inspect container'' (mb_ContainerInspect mb UpdaterName))) (\<lambda>r.
     case r of
       Inl _ \<Rightarrow> ret ()
     | Inr old \<Rightarrow>
       if (case mi_State old of None \<Rightarrow> False | Some st \<Rightarrow> ms_Running st)
       then throw (Errorf2 ''docker'' DockerConflict (NewError ''an update is already running''))
       else api_call ''remove container'' (mb_ContainerRemove mb UpdaterName))"

text \<open>A created container that does not start is removed again.\<close>

definition start_or_remove :: "'m moby \<Rightarrow> string \<Rightarrow> ('m, unit) prog" where
  "start_or_remove mb k =
     bnd (attempt (api_call ''start container'' (mb_ContainerStart mb k))) (\<lambda>r.
     case r of
       Inr _ \<Rightarrow> ret ()
     | Inl e \<Rightarrow> bnd (attempt (api_call ''remove container'' (mb_ContainerRemove mb k))) (\<lambda>_. throw e))"

definition updater_options :: "moby_container \<Rightarrow> string \<Rightarrow> string list \<Rightarrow> moby_create" where
  "updater_options ct img cmd =
     (let host = (case mi_HostConfig ct of None \<Rightarrow> blank_host_config | Some h \<Rightarrow> h) in
      \<lparr>mo_Name = UpdaterName,
       mo_Config = blank_config\<lparr>mc_Image := img, mc_Cmd := cmd, mc_Env := (case mi_Config ct of None \<Rightarrow> [] | Some c \<Rightarrow> mc_Env c)\<rparr>,
       mo_HostConfig = blank_host_config\<lparr>mh_Binds := mh_Binds host, mh_Mounts := mh_Mounts host, mh_AutoRemove := True\<rparr>,
       mo_Networks = None\<rparr>)"

definition StartUpdater :: "'m moby \<Rightarrow> Self \<Rightarrow> string \<Rightarrow> string list \<Rightarrow> ('m, unit) prog" where
  "StartUpdater mb self img cmd =
     bnd (api_call ''inspect container'' (mb_ContainerInspect mb (sf_ID self))) (\<lambda>ct.
     thn (clear_updater mb)
     (bnd (api_call ''create container'' (mb_ContainerCreate mb (updater_options ct img cmd))) (start_or_remove mb)))"

section \<open>A copy on another image\<close>

definition isShortID :: "string \<Rightarrow> string \<Rightarrow> bool" where
  "isShortID k s = (length s \<ge> 12 \<and> HasPrefix k s)"

text \<open>What the old image set would shadow the new image's own, so only what the operator added is kept.\<close>

definition without_image :: "moby_config \<Rightarrow> moby_config \<Rightarrow> moby_config" where
  "without_image ic cfg =
     cfg\<lparr>mc_Env := filter (\<lambda>e. e \<notin> set (mc_Env ic)) (mc_Env cfg),
         mc_Labels := filter (\<lambda>(k, v). map_of (mc_Labels ic) k \<noteq> Some v) (mc_Labels cfg),
         mc_Cmd := (if mc_Cmd cfg = mc_Cmd ic then [] else mc_Cmd cfg),
         mc_Entrypoint := (if mc_Entrypoint cfg = mc_Entrypoint ic then [] else mc_Entrypoint cfg),
         mc_WorkingDir := (if mc_WorkingDir cfg = mc_WorkingDir ic then [] else mc_WorkingDir cfg),
         mc_User := (if mc_User cfg = mc_User ic then [] else mc_User cfg)\<rparr>"

definition clone_networks :: "moby_container \<Rightarrow> (string \<times> moby_endpoint) list option" where
  "clone_networks old =
     (if mi_Networks old = [] then None
      else Some (List.map_filter (\<lambda>(name, ep). map_option (\<lambda>e. (name, e\<lparr>me_Aliases := filter (\<lambda>a. \<not> isShortID (mi_ID old) a) (me_Aliases e)\<rparr>)) ep)
        (mi_Networks old)))"

definition cloneConfig :: "'m moby \<Rightarrow> moby_container \<Rightarrow> string \<Rightarrow> ('m, moby_config \<times> moby_host_config \<times> (string \<times> moby_endpoint) list option) prog" where
  "cloneConfig mb old img =
     (case (mi_Config old, mi_HostConfig old) of
        (Some c, Some host) \<Rightarrow>
          let cfg = c\<lparr>mc_Image := img, mc_Hostname := (if isShortID (mi_ID old) (mc_Hostname c) then [] else mc_Hostname c)\<rparr> in
          bnd (api_call ''inspect image'' (mb_ImageInspect mb (mi_Image old))) (\<lambda>ic.
          ret (case ic of None \<Rightarrow> cfg | Some ic \<Rightarrow> without_image ic cfg, host, clone_networks old))
      | _ \<Rightarrow> throw (NewError (''docker: container '' @ mi_ID old @ '' has no config'')))"

record Replacement =
  rp_old :: moby_container
  rp_name :: string
  rp_cfg :: moby_config
  rp_host :: moby_host_config
  rp_net :: "(string \<times> moby_endpoint) list option"
  rp_newID :: string
  rp_renamed :: bool
  rp_stopped :: bool

text \<open>Once the old container is renamed there is a replacement to undo, also after an error.\<close>

definition Replace :: "'m moby \<Rightarrow> string \<Rightarrow> string \<Rightarrow> gotime \<Rightarrow> ('m, Replacement \<times> err option) prog" where
  "Replace mb k img stop =
     bnd (api_call ''inspect container'' (mb_ContainerInspect mb k)) (\<lambda>old.
     bnd (cloneConfig mb old img) (\<lambda>(cfg, host, net).
     let name = TrimPrefix (mi_Name old) ''/'';
         r = \<lparr>rp_old = old, rp_name = name, rp_cfg = cfg, rp_host = host, rp_net = net, rp_newID = [], rp_renamed = True, rp_stopped = False\<rparr> in
     bnd (api_call ''rename container'' (mb_ContainerRename mb k (name @ ''-previous''))) (\<lambda>_.
     bnd (attempt (api_call ''stop container'' (mb_ContainerStop mb k (quot stop second)))) (\<lambda>st.
     ret (case st of Inl e \<Rightarrow> (r, Some e) | Inr _ \<Rightarrow> (r\<lparr>rp_stopped := True\<rparr>, None))))))"

definition replacement_Start :: "'m moby \<Rightarrow> Replacement \<Rightarrow> ('m, Replacement \<times> err option) prog" where
  "replacement_Start mb r =
     bnd (attempt (api_call ''create container'' (mb_ContainerCreate mb
       \<lparr>mo_Name = rp_name r, mo_Config = rp_cfg r, mo_HostConfig = rp_host r, mo_Networks = rp_net r\<rparr>))) (\<lambda>c.
     case c of
       Inl e \<Rightarrow> ret (r, Some e)
     | Inr k \<Rightarrow>
       bnd (attempt (api_call ''start container'' (mb_ContainerStart mb k))) (\<lambda>st.
       ret (r\<lparr>rp_newID := k\<rparr>, case st of Inl e \<Rightarrow> Some e | Inr _ \<Rightarrow> None)))"

definition replacement_Commit :: "'m moby \<Rightarrow> Replacement \<Rightarrow> ('m, unit) prog" where
  "replacement_Commit mb r = api_call ''remove container'' (mb_ContainerRemove mb (mi_ID (rp_old r)))"

definition replacement_Discard :: "'m moby \<Rightarrow> Replacement \<Rightarrow> ('m, Replacement) prog" where
  "replacement_Discard mb r =
     (if rp_newID r = [] then ret r
      else bnd (api_call ''remove container'' (mb_ContainerRemove mb (rp_newID r))) (\<lambda>_. ret (r\<lparr>rp_newID := []\<rparr>)))"

definition replacement_Restore :: "'m moby \<Rightarrow> Replacement \<Rightarrow> ('m, unit) prog" where
  "replacement_Restore mb r =
     bnd (if rp_renamed r then api_call ''rename container'' (mb_ContainerRename mb (mi_ID (rp_old r)) (rp_name r)) else ret ()) (\<lambda>_.
     if rp_stopped r then api_call ''start container'' (mb_ContainerStart mb (mi_ID (rp_old r))) else ret ())"

section \<open>Containers the panel did not create\<close>

definition docker_Running :: "'m moby \<Rightarrow> string \<Rightarrow> ('m, bool \<times> int) prog" where
  "docker_Running mb k =
     bnd (api_call ''inspect container'' (mb_ContainerInspect mb k)) (\<lambda>ct.
     ret (case mi_State ct of None \<Rightarrow> (False, 0) | Some st \<Rightarrow> (ms_Running st \<and> \<not> ms_Restarting st, ms_ExitCode st)))"

definition ExecUnmanaged :: "'m moby \<Rightarrow> string \<Rightarrow> string list \<Rightarrow> ('m, string) prog" where
  "ExecUnmanaged = docker_exec"

definition without_stamp :: "string \<Rightarrow> string" where
  "without_stamp line = (case Cut (CHR '' '') line of (_, rest, ok) \<Rightarrow> if ok then rest else line)"

text \<open>The lines of the output as it was read, without their timestamps.\<close>

definition TailUnmanaged :: "'m moby \<Rightarrow> string \<Rightarrow> int \<Rightarrow> ('m, string) prog" where
  "TailUnmanaged mb k n =
     bnd (docker_logs mb k n False) (\<lambda>(ls, how).
     case how of
       Broken e \<Rightarrow> throw (Errorf ''docker container logs'' e)
     | Cancelled e \<Rightarrow> throw (Errorf ''docker container logs'' e)
     | _ \<Rightarrow> ret (strings_Join [CHR 0x0A] (map without_stamp (Split (CHR 0x0A) (TrimSpace (strings_Join [CHR 0x0A] ls))))))"

text \<open>A helper container runs to its end and goes, whatever became of it.\<close>

definition run_helper :: "'m moby \<Rightarrow> string \<Rightarrow> string \<Rightarrow> ('m, unit) prog" where
  "run_helper mb name k =
     bnd (api_call ''start container'' (mb_ContainerStart mb k)) (\<lambda>_.
     bnd (api_call ''wait for container'' (mb_ContainerWait mb k)) (\<lambda>code.
     if code = 0 then ret ()
     else bnd (attempt (TailUnmanaged mb k 5)) (\<lambda>out.
       throw (NewError (''docker: '' @ name @ '' exited with '' @ Itoa code @ '': '' @ TrimSpace (case out of Inl _ \<Rightarrow> [] | Inr t \<Rightarrow> t))))))"

definition RunHelper :: "'m moby \<Rightarrow> string \<Rightarrow> string \<Rightarrow> string list \<Rightarrow> string list \<Rightarrow> ('m, unit) prog" where
  "RunHelper mb name img cmd binds =
     bnd (attempt (api_call ''remove container'' (mb_ContainerRemove mb name))) (\<lambda>_.
     bnd (api_call ''create container'' (mb_ContainerCreate mb \<lparr>mo_Name = name, mo_Config = blank_config\<lparr>mc_Image := img, mc_Cmd := cmd\<rparr>,
       mo_HostConfig = blank_host_config\<lparr>mh_Binds := binds\<rparr>, mo_Networks = None\<rparr>)) (\<lambda>k.
     bnd (attempt (run_helper mb name k)) (\<lambda>r.
     bnd (attempt (api_call ''remove container'' (mb_ContainerRemove mb k))) (\<lambda>_.
     liftE r))))"

end
