(* ===== verification/NodeSSH.thy ===== *)
theory NodeSSH
  imports DockerClient
begin

text \<open>
  internal/node (ssh.go, host.go): logging in to a machine, running commands on it, and a node as the
  deploy manager sees it. golang.org/x/crypto/ssh is a library: \<open>ssh_net\<close> is the network it reaches, on a
  state of type \<open>'m\<close>, and \<open>ssh_client\<close> a connection. A signer is the PEM text of its key.
\<close>

section \<open>Logging in\<close>

definition Root :: string where "Root = ''/var/lib/tunploy''"

record Target =
  tg_Host :: string
  tg_Port :: int
  tg_Username :: string

definition target_addr :: "Target \<Rightarrow> string" where
  "target_addr t = JoinHostPort (tg_Host t) (Itoa (tg_Port t))"

datatype auth = PublicKeys string | Password string | KeyboardInteractive "string list \<Rightarrow> string list"

text \<open>
  A connection: opening a session, running a command line with its input (its output, what it wrote to
  stderr, and its error), running one whose output comes in pieces, and the error of the context, once it
  is over.
\<close>

record 'm ssh_client =
  cl_NewSession :: "('m, unit) prog"
  cl_Run :: "string \<Rightarrow> string option \<Rightarrow> 'm \<Rightarrow> (string \<times> string \<times> err option) \<times> 'm"
  cl_Stream :: "string \<Rightarrow> 'm \<Rightarrow> (string list \<times> err option) \<times> 'm"
  cl_ctx :: "'m \<Rightarrow> err option"

datatype 'm handshake = Connected "'m ssh_client" | HandshakeTimedOut | Refused err

text \<open>
  The network: the parser of authorized_keys lines (the key's type and the key), TCP, the handshake with
  the key the server showed, and the text of a public key. \<open>check\<close> is the host key callback.
\<close>

record 'm ssh_net =
  sn_ParseAuthorizedKey :: "string \<Rightarrow> err + string \<times> string"
  sn_FingerprintSHA256 :: "string \<Rightarrow> string"
  sn_Dial :: "string \<Rightarrow> ('m, unit) prog"
  sn_NewClientConn :: "string \<Rightarrow> string \<Rightarrow> auth list \<Rightarrow> (string \<Rightarrow> err option) \<Rightarrow> string list \<Rightarrow> 'm \<Rightarrow> ('m handshake \<times> string option) \<times> 'm"
  sn_MarshalAuthorizedKey :: "string \<Rightarrow> string"
  sn_PublicKey :: "string \<Rightarrow> string"

definition AuthorizedKey :: "'m ssh_net \<Rightarrow> string \<Rightarrow> string" where
  "AuthorizedKey net signer = TrimSpace (sn_MarshalAuthorizedKey net (sn_PublicKey net signer)) @ '' tunploy''"

definition Fingerprint :: "'m ssh_net \<Rightarrow> string \<Rightarrow> string" where
  "Fingerprint net authorizedKey =
     (case sn_ParseAuthorizedKey net authorizedKey of Inl _ \<Rightarrow> [] | Inr (_, key) \<Rightarrow> sn_FingerprintSHA256 net key)"

definition hostKeyAlgorithms :: "string \<Rightarrow> string list" where
  "hostKeyAlgorithms keyType = (if keyType = ''ssh-rsa'' then [''rsa-sha2-512'', ''rsa-sha2-256'', ''ssh-rsa''] else [keyType])"

definition ErrHostKeyMismatch :: err where "ErrHostKeyMismatch = NewError ''the server's host key changed''"

definition sshError :: "err \<Rightarrow> err" where
  "sshError e =
     (let msg = err_Error e in
      if strings_Contains msg ''unable to authenticate'' \<or> strings_Contains msg ''unexpected message type 51''
      then NewError ''ssh login failed: the server refused the credentials''
      else if strings_Contains msg ''host key mismatch'' \<or> errors_Is e ErrHostKeyMismatch
      then NewError (''ssh: '' @ err_Error ErrHostKeyMismatch @ ''; if the server was reinstalled, remove the node and add it again'')
      else if HasSuffix msg ''EOF'' then NewError ''ssh: the server closed the connection during the handshake''
      else if HasPrefix msg ''ssh: '' then e
      else Errorf ''ssh'' e)"

text \<open>Also the key the server showed.\<close>

definition dialWith ::
  "'m ssh_net \<Rightarrow> Target \<Rightarrow> auth list \<Rightarrow> (string \<Rightarrow> err option) \<Rightarrow> string list \<Rightarrow> 'm \<Rightarrow> ((err + 'm ssh_client) \<times> string option) \<times> 'm" where
  "dialWith net t auths check algos m =
     (case sn_Dial net (target_addr t) m of
        (Inl e, m1) \<Rightarrow> ((Inl (Errorf (''connect to '' @ target_addr t) e), None), m1)
      | (Inr _, m1) \<Rightarrow>
        (case sn_NewClientConn net (target_addr t) (tg_Username t) auths check algos m1 of
           ((Connected c, k), m2) \<Rightarrow> ((Inr c, k), m2)
         | ((HandshakeTimedOut, k), m2) \<Rightarrow> ((Inl (NewError (''connect to '' @ target_addr t @ '': timed out'')), k), m2)
         | ((Refused e, k), m2) \<Rightarrow> ((Inl (sshError e), k), m2)))"

text \<open>\<open>ssh.FixedHostKey\<close>.\<close>

definition FixedHostKey :: "string \<Rightarrow> string \<Rightarrow> err option" where
  "FixedHostKey want key = (if key = want then None else Some (NewError ''ssh: host key mismatch''))"

definition dial :: "'m ssh_net \<Rightarrow> Target \<Rightarrow> auth list \<Rightarrow> string \<Rightarrow> ('m, 'm ssh_client) prog" where
  "dial net t auths hostKey m =
     (case sn_ParseAuthorizedKey net hostKey of
        Inl e \<Rightarrow> (Inl (Errorf ''stored host key is corrupt'' e), m)
      | Inr (keyType, want) \<Rightarrow>
        (case dialWith net t auths (FixedHostKey want) (hostKeyAlgorithms keyType) m of ((r, _), m') \<Rightarrow> (r, m')))"

definition scan_algos :: "string list" where
  "scan_algos = [''ssh-ed25519'', ''ecdsa-sha2-nistp256'', ''ecdsa-sha2-nistp384'', ''ecdsa-sha2-nistp521'', ''rsa-sha2-512'', ''rsa-sha2-256'']"

text \<open>Without logging in: the callback stops the handshake once it has the key.\<close>

definition ScanHostKey :: "'m ssh_net \<Rightarrow> Target \<Rightarrow> ('m, string) prog" where
  "ScanHostKey net t m =
     (case dialWith net t [] (\<lambda>_. Some (NewError ''host key read'')) scan_algos m of
        ((_, Some key), m') \<Rightarrow> (Inr (TrimSpace (sn_MarshalAuthorizedKey net key)), m')
      | ((Inl e, None), m') \<Rightarrow> (Inl e, m')
      | ((Inr _, None), m') \<Rightarrow> (Inl (NewError ''the server sent no host key''), m'))"

section \<open>Running commands\<close>

record 'm shell =
  sh_client :: "'m ssh_client"
  sh_sudo :: bool

definition asUser :: "'m shell \<Rightarrow> 'm shell" where
  "asUser sh = \<lparr>sh_client = sh_client sh, sh_sudo = False\<rparr>"

definition shell_quote :: "string \<Rightarrow> string" where
  "shell_quote s = [CHR 0x27] @ ReplaceAll s [CHR 0x27] [CHR 0x27, CHR 0x5C, CHR 0x27, CHR 0x27] @ [CHR 0x27]"

definition shell_command :: "'m shell \<Rightarrow> string \<Rightarrow> string" where
  "shell_command sh script = (if sh_sudo sh then ''sudo -n sh -c '' else ''sh -c '') @ shell_quote script"

definition lastLine :: "string \<Rightarrow> string" where
  "lastLine s = TrimSpace (last (Split (CHR 0x0A) (TrimSpace s)))"

definition shell_run :: "'m shell \<Rightarrow> string \<Rightarrow> string option \<Rightarrow> ('m, string) prog" where
  "shell_run sh script stdin =
     bnd (mapErr (Errorf ''ssh session'') (cl_NewSession (sh_client sh))) (\<lambda>_ m.
     case cl_Run (sh_client sh) (shell_command sh script) stdin m of
       ((out, _, None), m') \<Rightarrow> (Inr out, m')
     | ((_, stderr, Some e), m') \<Rightarrow>
       (Inl (case cl_ctx (sh_client sh) m' of
          Some c \<Rightarrow> c
        | None \<Rightarrow> (let msg = TrimSpace stderr in if msg \<noteq> [] then NewError (lastLine msg) else Errorf ''remote command'' e)), m'))"

text \<open>The output comes in pieces; a line ends at a carriage return or a line feed, and what is left waits for more.\<close>

fun cut_lines :: "string \<Rightarrow> string \<Rightarrow> string list \<times> string" where
  "cut_lines cur [] = ([], cur)"
| "cut_lines cur (c # cs) =
     (if c = CHR 0x0A \<or> c = CHR 0x0D then (case cut_lines [] cs of (ls, rest) \<Rightarrow> (cur # ls, rest)) else cut_lines (cur @ [c]) cs)"

definition shown :: "string list \<Rightarrow> string list" where
  "shown ls = filter (\<lambda>l. l \<noteq> []) (map TrimSpace ls)"

primrec stream_lines :: "string \<Rightarrow> string list \<Rightarrow> string list" where
  "stream_lines buf [] = []"
| "stream_lines buf (chunk # chunks) =
     (case cut_lines [] (buf @ chunk) of (ls, rest) \<Rightarrow> shown ls @ stream_lines rest chunks)"

definition shell_stream :: "'m shell \<Rightarrow> string \<Rightarrow> 'm \<Rightarrow> (string list \<times> err option) \<times> 'm" where
  "shell_stream sh script m =
     (case cl_NewSession (sh_client sh) m of
        (Inl e, m1) \<Rightarrow> (([], Some (Errorf ''ssh session'' e)), m1)
      | (Inr _, m1) \<Rightarrow>
        (case cl_Stream (sh_client sh) (shell_command sh script) m1 of
           ((chunks, r), m2) \<Rightarrow>
             let ls = stream_lines [] chunks in
             ((ls, case r of None \<Rightarrow> None
                | Some e \<Rightarrow> Some (case cl_ctx (sh_client sh) m2 of
                    Some c \<Rightarrow> c
                  | None \<Rightarrow> if ls \<noteq> [] then NewError (last ls) else Errorf ''remote command'' e)), m2)))"

section \<open>A node as a host\<close>

definition inRoot :: "string \<Rightarrow> err option" where
  "inRoot p = (if path_Clean p \<noteq> p \<or> \<not> HasPrefix p (Root @ ''/'')
     then Some (NewError (''refusing to touch '' @ p @ '' outside '' @ Root)) else None)"

definition in_root :: "string \<Rightarrow> ('m, 'a) prog \<Rightarrow> ('m, 'a) prog" where
  "in_root p m = (case inRoot p of Some e \<Rightarrow> throw e | None \<Rightarrow> m)"

definition write_script :: "string \<Rightarrow> string" where
  "write_script p =
     (let dir = path_Dir p; tmp = path_Join [path_Dir p, ''.'' @ path_Base p @ ''.tmp''] in
      ''umask 077 && mkdir -p '' @ shell_quote dir @ '' && cat > '' @ shell_quote tmp @ '' && mv -f '' @ shell_quote tmp @ '' '' @ shell_quote p)"

definition node_WriteFile :: "'m shell \<Rightarrow> string \<Rightarrow> string \<Rightarrow> ('m, unit) prog" where
  "node_WriteFile sh p body =
     in_root p (bnd (mapErr (Errorf (''write '' @ p)) (shell_run sh (write_script p) (Some body))) (\<lambda>_. ret ()))"

definition node_RemoveAll :: "'m shell \<Rightarrow> string \<Rightarrow> ('m, unit) prog" where
  "node_RemoveAll sh p =
     in_root p (bnd (mapErr (Errorf (''remove '' @ p)) (shell_run sh (''rm -rf -- '' @ shell_quote p) None)) (\<lambda>_. ret ()))"

definition node_ReadDir :: "'m shell \<Rightarrow> string \<Rightarrow> ('m, string list) prog" where
  "node_ReadDir sh p =
     in_root p (bnd (mapErr (Errorf (''list '' @ p))
       (shell_run sh (''if [ -d '' @ shell_quote p @ '' ]; then ls -1A -- '' @ shell_quote p @ ''; fi'') None)) (\<lambda>out. ret (strings_Fields out)))"

text \<open>The libraries: SSH, and a Docker client over a shell.\<close>

record 'm node_lib =
  nl_net :: "'m ssh_net"
  nl_docker :: "'m shell \<Rightarrow> err + 'm moby"

record 'm node_host =
  nh_Host :: "'m Host"
  nh_docker :: "'m moby"
  nh_sh :: "'m shell"

definition newHost :: "'m node_lib \<Rightarrow> 'm shell \<Rightarrow> ('m, 'm node_host) prog" where
  "newHost lib sh =
     bnd (mapErr (Errorf ''docker client'') (liftE (nl_docker lib sh))) (\<lambda>mb.
     ret \<lparr>nh_Host = docker_Host mb Root (node_WriteFile sh) (node_RemoveAll sh) (node_ReadDir sh), nh_docker = mb, nh_sh = sh\<rparr>)"

end
