(* ===== verification/NodePool.thy ===== *)
theory NodePool
  imports NodeSSH Http Reconcile
begin

text \<open>
  internal/node/pool.go: one SSH connection per node, kept up on its own. The goroutine of a connection is
  a state machine: what happens on the network (the session came up, failed, dropped, the pause is over, it
  is told to stop) is the label of a step. For the steps alone a host is of any type \<open>'h\<close> and Docker's
  answer of type \<open>'d\<close>. The panel's key is a PEM text; making and reading keys are parameters.
\<close>

section \<open>One connection\<close>

definition keepaliveEvery :: gotime where "keepaliveEvery = 10 * second"
definition keepaliveWait :: gotime where "keepaliveWait = 15 * second"
definition pool_touchEvery :: gotime where "pool_touchEvery = 60 * second"
definition retryMin :: gotime where "retryMin = 5 * second"
definition retryMax :: gotime where "retryMax = 60 * second"
definition settingKey :: string where "settingKey = ''ssh_private_key''"

datatype node_state = StateConnecting | StateOnline | StateOffline

record 'd node_status =
  ns_State :: node_state
  ns_Error :: string
  ns_Since :: gotime
  ns_Daemon :: "'d option"

text \<open>Where \<open>run\<close> is: in \<open>session\<close> before it is up, with the connection up, in the pause, or done.\<close>

datatype phase = Dialing | Up | Pausing | Ended

record ('h, 'd) conn =
  cn_node :: Node
  cn_signer :: string
  cn_host :: "'h option"
  cn_status :: "'d node_status"
  cn_reportedDown :: bool
  cn_phase :: phase
  cn_retry :: gotime

definition clearHost :: "('h, 'd) conn \<Rightarrow> ('h, 'd) conn" where
  "clearHost c = c\<lparr>cn_host := None\<rparr>"

text \<open>The connection after \<open>setOnline\<close> and \<open>setOffline\<close>, and the events they record.\<close>

definition setOnline :: "gotime \<Rightarrow> 'h \<Rightarrow> 'd \<Rightarrow> ('h, 'd) conn \<Rightarrow> ('h, 'd) conn \<times> Event list" where
  "setOnline now h daemon c =
     (let was = ns_State (cn_status c); back = cn_reportedDown c;
          st = (if was \<noteq> StateOnline then \<lparr>ns_State = StateOnline, ns_Error = [], ns_Since = now, ns_Daemon = None\<rparr> else cn_status c)
      in ((clearHost c)\<lparr>cn_host := Some h, cn_status := st\<lparr>ns_Daemon := Some daemon, ns_Error := []\<rparr>, cn_reportedDown := False\<rparr>,
          if back then [(blank_event ''node.online'')\<lparr>e_NodeName := n_Name (cn_node c)\<rparr>] else []))"

definition setOffline :: "gotime \<Rightarrow> string \<Rightarrow> ('h, 'd) conn \<Rightarrow> ('h, 'd) conn \<times> Event list" where
  "setOffline now e c =
     (let was = ns_State (cn_status c);
          st = (if was \<noteq> StateOffline
                then \<lparr>ns_State = StateOffline, ns_Error = [], ns_Since = now, ns_Daemon = ns_Daemon (cn_status c)\<rparr> else cn_status c)
      in ((clearHost c)\<lparr>cn_status := st\<lparr>ns_Error := e\<rparr>, cn_reportedDown := (cn_reportedDown c \<or> was = StateOnline)\<rparr>,
          if was = StateOnline then [(blank_event ''node.offline'')\<lparr>e_NodeName := n_Name (cn_node c), e_Detail := e\<rparr>] else []))"

datatype ('h, 'd) signal = CameUp gotime 'h 'd | FailedUp gotime string | Dropped | PauseOver | Stop | RenamedTo string

text \<open>
  The steps of \<open>run\<close> and \<open>session\<close>, and \<open>Rename\<close>, which may come at any time. A session that never got up
  is followed by a pause that doubles; one that dropped after working is tried again straight away.
\<close>

inductive conn_step :: "('h, 'd) conn \<Rightarrow> ('h, 'd) signal \<Rightarrow> Event list \<Rightarrow> ('h, 'd) conn \<Rightarrow> bool" where
  up: "cn_phase c = Dialing \<Longrightarrow> setOnline now h d c = (c', evs) \<Longrightarrow> conn_step c (CameUp now h d) evs (c'\<lparr>cn_phase := Up\<rparr>)"
| failed: "cn_phase c = Dialing \<Longrightarrow> setOffline now e c = (c', evs) \<Longrightarrow> conn_step c (FailedUp now e) evs (c'\<lparr>cn_phase := Pausing\<rparr>)"
| dropped: "cn_phase c = Up \<Longrightarrow> conn_step c Dropped [] ((clearHost c)\<lparr>cn_phase := Dialing, cn_retry := retryMin\<rparr>)"
| pause_over: "cn_phase c = Pausing \<Longrightarrow> conn_step c PauseOver [] (c\<lparr>cn_phase := Dialing, cn_retry := min (cn_retry c * 2) retryMax\<rparr>)"
| stop: "cn_phase c \<noteq> Ended \<Longrightarrow> conn_step c Stop [] ((clearHost c)\<lparr>cn_phase := Ended\<rparr>)"
| renamed: "conn_step c (RenamedTo name) [] (c\<lparr>cn_node := (cn_node c)\<lparr>n_Name := name\<rparr>\<rparr>)"

inductive_cases conn_stepE: "conn_step c x evs c'"

text \<open>The same as a function: \<open>None\<close> when the signal cannot come.\<close>

definition conn_next :: "('h, 'd) conn \<Rightarrow> ('h, 'd) signal \<Rightarrow> (Event list \<times> ('h, 'd) conn) option" where
  "conn_next c x =
     (case (x, cn_phase c) of
        (CameUp now h d, Dialing) \<Rightarrow> (case setOnline now h d c of (c', evs) \<Rightarrow> Some (evs, c'\<lparr>cn_phase := Up\<rparr>))
      | (FailedUp now e, Dialing) \<Rightarrow> (case setOffline now e c of (c', evs) \<Rightarrow> Some (evs, c'\<lparr>cn_phase := Pausing\<rparr>))
      | (Dropped, Up) \<Rightarrow> Some ([], (clearHost c)\<lparr>cn_phase := Dialing, cn_retry := retryMin\<rparr>)
      | (PauseOver, Pausing) \<Rightarrow> Some ([], c\<lparr>cn_phase := Dialing, cn_retry := min (cn_retry c * 2) retryMax\<rparr>)
      | (Stop, ph) \<Rightarrow> if ph = Ended then None else Some ([], (clearHost c)\<lparr>cn_phase := Ended\<rparr>)
      | (RenamedTo name, _) \<Rightarrow> Some ([], c\<lparr>cn_node := (cn_node c)\<lparr>n_Name := name\<rparr>\<rparr>)
      | _ \<Rightarrow> None)"

lemma conn_next_step: "conn_next c x = Some (evs, c') \<longleftrightarrow> conn_step c x evs c'"
proof
  assume "conn_next c x = Some (evs, c')"
  then show "conn_step c x evs c'"
    by (cases x; cases "cn_phase c") (auto simp: conn_next_def intro: conn_step.intros split: prod.splits)
next
  assume "conn_step c x evs c'"
  then show "conn_next c x = Some (evs, c')"
    by (induction) (auto simp: conn_next_def split: phase.splits)
qed

text \<open>A run: the signals, and all the events recorded on the way.\<close>

inductive conn_run :: "('h, 'd) conn \<Rightarrow> ('h, 'd) signal list \<Rightarrow> Event list \<Rightarrow> ('h, 'd) conn \<Rightarrow> bool" where
  run_none: "conn_run c [] [] c"
| run_step: "conn_run c xs evs c' \<Longrightarrow> conn_step c' x evs' c'' \<Longrightarrow> conn_run c (xs @ [x]) (evs @ evs') c''"

text \<open>\<open>Add\<close> makes one.\<close>

definition new_conn :: "gotime \<Rightarrow> string \<Rightarrow> Node \<Rightarrow> ('h, 'd) conn" where
  "new_conn now signer n =
     \<lparr>cn_node = n, cn_signer = signer, cn_host = None,
      cn_status = \<lparr>ns_State = StateConnecting, ns_Error = [], ns_Since = now, ns_Daemon = None\<rparr>,
      cn_reportedDown = False, cn_phase = Dialing, cn_retry = retryMin\<rparr>"

text \<open>
  \<open>keepalive\<close>: a tick and what became of its request: the error of the connection or of the request, or
  a reply. It returns its error and when it touched the node.
\<close>

fun keepalive :: "(gotime \<times> err option) list \<Rightarrow> gotime \<Rightarrow> err option \<times> gotime list" where
  "keepalive [] lastTouch = (None, [])"
| "keepalive ((now, Some e) # ticks) lastTouch = (Some e, [])"
| "keepalive ((now, None) # ticks) lastTouch =
     (if now - lastTouch \<ge> pool_touchEvery
      then (case keepalive ticks now of (e, ts) \<Rightarrow> (e, now # ts)) else keepalive ticks lastTouch)"

section \<open>The pool\<close>

text \<open>
  The panel with the pool: whether it was started, its key and its connections, and the machines that are
  no nodes, by the address of their SSH server.
\<close>

record 'm fleet = "'m api" +
  po_started :: bool
  po_signer :: string
  po_conns :: "int \<Rightarrow> ('m node_host, Daemon) conn option"
  po_machines :: "string \<Rightarrow> 'm"

text \<open>Making a key, and whether a PEM text is one.\<close>

record key_env =
  ke_generate :: "err + string"
  ke_parse :: "string \<Rightarrow> err option"

definition LoadKey :: "key_env \<Rightarrow> ('z, string) sql" where
  "LoadKey ke =
     bnd get_settings (\<lambda>saved.
     let old = stored_of saved settingKey in
     bnd (if old = [] then bnd (liftE (ke_generate ke)) (\<lambda>made. thn (SaveSettings [(settingKey, made)]) (ret made)) else ret old) (\<lambda>pem.
     case ke_parse ke pem of None \<Rightarrow> ret pem | Some e \<Rightarrow> throw (Errorf ''panel ssh key is corrupt'' e)))"

definition pool_Add :: "gotime \<Rightarrow> Node \<Rightarrow> ('m, 'z) fleet_scheme \<Rightarrow> ('m, 'z) fleet_scheme" where
  "pool_Add now n s = (if \<not> po_started s then s else s\<lparr>po_conns := (po_conns s)(n_ID n \<mapsto> new_conn now (po_signer s) n)\<rparr>)"

definition pool_Remove :: "int \<Rightarrow> ('m, 'z) fleet_scheme \<Rightarrow> ('m, 'z) fleet_scheme" where
  "pool_Remove k s = s\<lparr>po_conns := (po_conns s)(k := None)\<rparr>"

definition pool_Rename :: "Node \<Rightarrow> ('m, 'z) fleet_scheme \<Rightarrow> ('m, 'z) fleet_scheme" where
  "pool_Rename n s =
     (case po_conns s (n_ID n) of
        None \<Rightarrow> s
      | Some c \<Rightarrow> s\<lparr>po_conns := (po_conns s)(n_ID n \<mapsto> c\<lparr>cn_node := (cn_node c)\<lparr>n_Name := n_Name n\<rparr>\<rparr>)\<rparr>)"

definition pool_Host :: "int \<Rightarrow> ('m, 'z) fleet_scheme \<Rightarrow> err + 'm node_host" where
  "pool_Host k s =
     (case po_conns s k of
        None \<Rightarrow> Inl ErrOffline
      | Some c \<Rightarrow> (case cn_host c of None \<Rightarrow> Inl ErrOffline | Some h \<Rightarrow> Inr h))"

text \<open>The deploy manager finds its hosts through the pool.\<close>

definition pooled :: "'m manager \<Rightarrow> ('m, 'z) fleet_scheme \<Rightarrow> 'm manager" where
  "pooled mg s = mg\<lparr>mg_nodes := (\<lambda>k. map_sum id nh_Host (pool_Host k s))\<rparr>"

definition pool_Status :: "int \<Rightarrow> ('m, 'z) fleet_scheme \<Rightarrow> Daemon node_status" where
  "pool_Status k s =
     (case po_conns s k of
        None \<Rightarrow> \<lparr>ns_State = StateOffline, ns_Error = ''not connected'', ns_Since = zero_time, ns_Daemon = None\<rparr>
      | Some c \<Rightarrow> cn_status c)"

definition pool_Reload :: "key_env \<Rightarrow> gotime \<Rightarrow> (('m, 'z) fleet_scheme, unit) prog" where
  "pool_Reload ke now =
     bnd (LoadKey ke) (\<lambda>signer.
     bnd Nodes (\<lambda>nodes.
     thn (modify (\<lambda>s. s\<lparr>po_conns := (\<lambda>_. None), po_signer := signer\<rparr>))
     (forEach nodes (\<lambda>n. modify (pool_Add now n)))))"

definition pool_Start :: "key_env \<Rightarrow> gotime \<Rightarrow> (('m, 'z) fleet_scheme, unit) prog" where
  "pool_Start ke now = thn (modify (\<lambda>s. s\<lparr>po_started := True\<rparr>)) (pool_Reload ke now)"

definition touch :: "gotime \<Rightarrow> int \<Rightarrow> ('z, unit) sql" where
  "touch now k = bnd (attempt (TouchNode k now)) (\<lambda>_. ret ())"

text \<open>
  A signal on the connection of a node: its state, the node's last-seen time, the events, and bringing the
  node in line when it came up, whose error is only logged.
\<close>

definition pool_signal ::
  "env \<Rightarrow> 'm manager \<Rightarrow> int \<Rightarrow> ('m node_host, Daemon) signal \<Rightarrow> (('m, 'z) fleet_scheme, unit) prog" where
  "pool_signal v mg k x =
     bnd (gets (\<lambda>s. case po_conns s k of None \<Rightarrow> None | Some c \<Rightarrow> conn_next c x)) (\<lambda>r.
     case r of
       None \<Rightarrow> ret ()
     | Some (evs, c') \<Rightarrow>
         thn (modify (\<lambda>s. s\<lparr>po_conns := (po_conns s)(k \<mapsto> c')\<rparr>))
         (thn (case x of CameUp _ _ _ \<Rightarrow> touch (env_now v) k | Dropped \<Rightarrow> touch (env_now v) k | _ \<Rightarrow> ret ())
         (thn (forEach evs (Record v))
         (case x of CameUp _ _ _ \<Rightarrow> bnd (gets (pooled mg)) (\<lambda>mg. bnd (attempt (NodeUp mg k)) (\<lambda>_. ret ())) | _ \<Rightarrow> ret ()))))"

text \<open>The first half of \<open>session\<close>, on the node's machine: log in with the panel's key and reach its Docker.\<close>

definition connect :: "'m node_lib \<Rightarrow> ('h, 'd) conn \<Rightarrow> ('m, 'm node_host \<times> Daemon) prog" where
  "connect lib c =
     (let n = cn_node c in
      bnd (dial (nl_net lib) \<lparr>tg_Host = n_Host n, tg_Port = n_Port n, tg_Username = n_Username n\<rparr> [PublicKeys (cn_signer c)] (n_HostKey n)) (\<lambda>client.
      let sh = \<lparr>sh_client = client, sh_sudo = (n_Username n \<noteq> ''root'')\<rparr> in
      bnd (newHost lib sh) (\<lambda>h.
      bnd (mapErr (Errorf ''docker on the node'') (docker_Daemon (nh_docker h))) (\<lambda>d.
      ret (h, d)))))"

definition try_connect :: "env \<Rightarrow> 'm node_lib \<Rightarrow> 'm manager \<Rightarrow> int \<Rightarrow> (('m, 'z) fleet_scheme, unit) prog" where
  "try_connect v lib mg k =
     bnd (gets (\<lambda>s. po_conns s k)) (\<lambda>c.
     case c of
       None \<Rightarrow> ret ()
     | Some c \<Rightarrow>
       if cn_phase c \<noteq> Dialing then ret ()
       else bnd (attempt (on_host k (connect lib c))) (\<lambda>r.
       pool_signal v mg k (case r of Inr (h, d) \<Rightarrow> CameUp (env_now v) h d | Inl e \<Rightarrow> FailedUp (env_now v) (err_Error e))))"

end
