(* ===== verification/NodeService.thy ===== *)
theory NodeService
  imports NodePool InstanceService
begin

text \<open>
  internal/node (setup.go, service.go): making a machine a node (the panel's key, Docker, a kernel with
  WireGuard, the image) and letting it go; adding, renaming and removing nodes. A setup happens on the
  machine, a state of type \<open>'m\<close>; a machine that is set up becomes the node's once it is saved.
\<close>

section \<open>Outcomes\<close>

definition setupLogLines :: nat where "setupLogLines = 30"
definition StepConnect :: string where "StepConnect = ''connect''"
definition StepAuthorize :: string where "StepAuthorize = ''authorize''"
definition StepDocker :: string where "StepDocker = ''docker''"
definition StepWireGuard :: string where "StepWireGuard = ''wireguard''"
definition StepImage :: string where "StepImage = ''image''"

record SetupRequest =
  su_Target :: Target
  su_HostKey :: string
  su_Password :: string
  su_PrivateKey :: string
  su_Passphrase :: string

record SetupError =
  se_Step :: string
  se_Reason :: string
  se_Log :: "string list"

text \<open>
  A step of \<open>Run\<close> works on the machine and ends in an error with its log, or goes on. A whole setup ends
  with the steps it has reported and its outcome.
\<close>

type_synonym ('m, 'a) step_prog = "'m \<Rightarrow> (err \<times> string list + 'a) \<times> 'm"
type_synonym 'm setup_prog = "'m \<Rightarrow> (string list \<times> (SetupError + Daemon)) \<times> 'm"

definition stage :: "string \<Rightarrow> ('m, 'a) step_prog \<Rightarrow> ('a \<Rightarrow> 'm setup_prog) \<Rightarrow> 'm setup_prog" where
  "stage st p k m =
     (case p m of
        (Inl (e, ls), m') \<Rightarrow> (([], Inl \<lparr>se_Step = st, se_Reason = err_Error e, se_Log = ls\<rparr>), m')
      | (Inr x, m') \<Rightarrow> (case k x m' of ((steps, r), m'') \<Rightarrow> ((st # steps, r), m'')))"

definition plain_step :: "('m, 'a) prog \<Rightarrow> ('m, 'a) step_prog" where
  "plain_step p m = (case p m of (Inl e, m') \<Rightarrow> (Inl (e, []), m') | (Inr x, m') \<Rightarrow> (Inr x, m'))"

section \<open>The steps\<close>

text \<open>Reading a private key, with its passphrase.\<close>

datatype parsed_key = ParsedKey string | PassphraseMissing | BadKey err

definition setup_auth :: "(string \<Rightarrow> string option \<Rightarrow> parsed_key) \<Rightarrow> string \<Rightarrow> SetupRequest \<Rightarrow> err + auth list" where
  "setup_auth parse signer req =
     (if su_PrivateKey req \<noteq> []
      then (case parse (su_PrivateKey req) (if su_Passphrase req \<noteq> [] then Some (su_Passphrase req) else None) of
              PassphraseMissing \<Rightarrow> Inl (NewError ''the private key is protected; enter its passphrase'')
            | BadKey e \<Rightarrow> Inl (Errorf ''private key'' e)
            | ParsedKey k \<Rightarrow> Inr [PublicKeys k])
      else if su_Password req \<noteq> []
      then Inr [Password (su_Password req), KeyboardInteractive (map (\<lambda>_. su_Password req))]
      else Inr [PublicKeys signer])"

definition connect_step :: "'m node_lib \<Rightarrow> (string \<Rightarrow> string option \<Rightarrow> parsed_key) \<Rightarrow> string \<Rightarrow> SetupRequest \<Rightarrow> ('m, 'm shell) prog" where
  "connect_step lib parse signer req =
     bnd (liftE (setup_auth parse signer req)) (\<lambda>auths.
     bnd (dial (nl_net lib) (su_Target req) auths (su_HostKey req)) (\<lambda>client.
     let user = tg_Username (su_Target req); sh = \<lparr>sh_client = client, sh_sudo = (user \<noteq> ''root'')\<rparr> in
     if sh_sudo sh
     then bnd (attempt (shell_run sh ''true'' None)) (\<lambda>r.
       case r of
         Inl e \<Rightarrow> throw (NewError (user @ '' needs to run sudo without a password; log in as root or allow it in sudoers ('' @ err_Error e @ '')''))
       | Inr _ \<Rightarrow> ret sh)
     else ret sh))"

definition keyBlob :: "string \<Rightarrow> string" where
  "keyBlob line = (let fs = strings_Fields line in if length fs < 2 then line else fs ! 1)"

definition script_lines :: "string list \<Rightarrow> string" where
  "script_lines ls = strings_Join [CHR 0x0A] ls"

definition authorize_script :: "string \<Rightarrow> string" where
  "authorize_script line = script_lines
     [''umask 077'',
      ''mkdir -p ~/.ssh && touch ~/.ssh/authorized_keys'',
      ''grep -qF '' @ shell_quote (keyBlob line) @ '' ~/.ssh/authorized_keys && exit 0'',
      ''[ -z '' @ [CHR 0x22] @ ''$(tail -c1 ~/.ssh/authorized_keys)'' @ [CHR 0x22] @ '' ] || echo >> ~/.ssh/authorized_keys'',
      ''echo '' @ shell_quote line @ '' >> ~/.ssh/authorized_keys'']"

text \<open>The key goes to the login user; a second connection proves it works.\<close>

definition authorize :: "'m node_lib \<Rightarrow> string \<Rightarrow> 'm shell \<Rightarrow> SetupRequest \<Rightarrow> ('m, unit) prog" where
  "authorize lib signer sh req =
     bnd (mapErr (Errorf ''add the panel's key'') (shell_run (asUser sh) (authorize_script (AuthorizedKey (nl_net lib) signer)) None)) (\<lambda>_.
     bnd (mapErr (\<lambda>e. NewError (''the panel's key was added but the server refuses it; check that sshd allows public keys ('' @ err_Error e @ '')''))
       (dial (nl_net lib) (su_Target req) [PublicKeys signer] (su_HostKey req))) (\<lambda>_.
     ret ()))"

definition install_script :: string where
  "install_script = script_lines
     [''set -e'',
      ''if command -v curl >/dev/null; then curl -fsSL https://get.docker.com -o /tmp/get-docker.sh'',
      ''elif command -v wget >/dev/null; then wget -qO /tmp/get-docker.sh https://get.docker.com'',
      ''else echo '' @ [CHR 0x22] @ ''neither curl nor wget is installed'' @ [CHR 0x22] @ '' >&2; exit 1; fi'',
      ''sh /tmp/get-docker.sh'',
      ''rm -f /tmp/get-docker.sh'',
      ''command -v systemctl >/dev/null && systemctl enable --now docker || true'',
      ''docker version >/dev/null'']"

definition DeadlineExceeded :: err where "DeadlineExceeded = NewError ''context deadline exceeded''"

text \<open>Only the last lines of the log are kept.\<close>

definition keep_log :: "string list \<Rightarrow> string list" where
  "keep_log ls = drop (length ls - setupLogLines) ls"

definition installDocker :: "'m shell \<Rightarrow> ('m, unit) step_prog" where
  "installDocker sh m =
     (case shell_run sh ''command -v docker >/dev/null'' None m of
        (Inr _, m1) \<Rightarrow>
          plain_step (bnd (mapErr (Errorf ''docker is installed but not running'')
            (shell_run sh ''docker version >/dev/null 2>&1 || systemctl start docker'' None)) (\<lambda>_. ret ())) m1
      | (Inl _, m1) \<Rightarrow>
        (case shell_stream sh install_script m1 of
           ((ls, None), m2) \<Rightarrow> (Inr (), m2)
         | ((ls, Some e), m2) \<Rightarrow>
           (Inl (Errorf ''install docker''
              (if cl_ctx (sh_client sh) m2 = Some DeadlineExceeded then NewError ''installing docker took longer than 10m0s'' else e),
             keep_log ls), m2)))"

definition docker_step :: "'m node_lib \<Rightarrow> string \<Rightarrow> 'm shell \<Rightarrow> ('m, 'm node_host \<times> Daemon) step_prog" where
  "docker_step lib local_id sh m =
     (case installDocker sh m of
        (Inl e, m1) \<Rightarrow> (Inl e, m1)
      | (Inr _, m1) \<Rightarrow>
        plain_step (bnd (newHost lib sh) (\<lambda>h.
          bnd (docker_Daemon (nh_docker h)) (\<lambda>d.
          if local_id \<noteq> [] \<and> dm_ID d = local_id
          then throw (NewError ''this is the machine the panel runs on; its servers need no node'')
          else ret (h, d)))) m1)"

definition wireguard_step :: "'m shell \<Rightarrow> Daemon \<Rightarrow> ('m, unit) prog" where
  "wireguard_step sh d =
     bnd (mapErr (\<lambda>_. NewError (''kernel '' @ dm_KernelVersion d @ '' has no WireGuard support; it is built in from Linux 5.6''))
       (shell_run sh ''modprobe wireguard 2>/dev/null; [ -d /sys/module/wireguard ]'' None)) (\<lambda>_. ret ())"

section \<open>A whole setup\<close>

definition setup_Run ::
  "'m node_lib \<Rightarrow> (string \<Rightarrow> string option \<Rightarrow> parsed_key) \<Rightarrow> ('m Host \<Rightarrow> ('m, unit) prog) \<Rightarrow> string \<Rightarrow> string \<Rightarrow> SetupRequest \<Rightarrow> 'm setup_prog" where
  "setup_Run lib parse prepare signer local_id req =
     stage StepConnect (plain_step (connect_step lib parse signer req)) (\<lambda>sh.
     stage StepAuthorize (plain_step (authorize lib signer sh req)) (\<lambda>_.
     stage StepDocker (docker_step lib local_id sh) (\<lambda>(h, d).
     stage StepWireGuard (plain_step (wireguard_step sh d)) (\<lambda>_.
     stage StepImage (plain_step (prepare (nh_Host h))) (\<lambda>_ m.
     (([], Inr d), m))))))"

section \<open>Letting a node go\<close>

definition deauthorize_script :: "string \<Rightarrow> string" where
  "deauthorize_script blob = script_lines
     [''f=~/.ssh/authorized_keys'',
      ''[ -f '' @ [CHR 0x22] @ ''$f'' @ [CHR 0x22] @ '' ] || exit 0'',
      ''grep -vF '' @ shell_quote blob @ '' '' @ [CHR 0x22] @ ''$f'' @ [CHR 0x22] @ '' > '' @ [CHR 0x22] @ ''$f.tunploy'' @ [CHR 0x22] @ '' || true'',
      ''cat '' @ [CHR 0x22] @ ''$f.tunploy'' @ [CHR 0x22] @ '' > '' @ [CHR 0x22] @ ''$f'' @ [CHR 0x22] @ '' && rm -f '' @ [CHR 0x22] @ ''$f.tunploy'' @ [CHR 0x22]]"

definition Deauthorize :: "'m ssh_net \<Rightarrow> 'm node_host \<Rightarrow> string \<Rightarrow> ('m, unit) prog" where
  "Deauthorize net h signer =
     bnd (shell_run (asUser (nh_sh h)) (deauthorize_script (keyBlob (AuthorizedKey net signer))) None) (\<lambda>_. ret ())"

definition RemoveData :: "'m node_host \<Rightarrow> ('m, unit) prog" where
  "RemoveData h = bnd (shell_run (nh_sh h) (''rm -rf -- '' @ shell_quote Root) None) (\<lambda>_. ret ())"

section \<open>The service\<close>

definition maxNameLen :: nat where "maxNameLen = 64"

record 'm node_service =
  nv_env :: env
  nv_lib :: "'m node_lib"
  nv_keys :: key_env
  nv_parse :: "string \<Rightarrow> string option \<Rightarrow> parsed_key"
  nv_manager :: "'m manager"
  nv_local :: "'m moby"
  nv_same_fold :: "nat \<Rightarrow> nat \<Rightarrow> bool"

record AddRequest =
  ad_Name :: string
  ad_Host :: string
  ad_Port :: int
  ad_Username :: string
  ad_HostKey :: string
  ad_Password :: string
  ad_PrivateKey :: string
  ad_Passphrase :: string

definition is_letter :: "char \<Rightarrow> bool" where
  "is_letter c = (let b = byte c in 65 \<le> b \<and> b \<le> 90 \<or> 97 \<le> b \<and> b \<le> 122)"

text \<open>The two regular expressions.\<close>

definition usernamePattern :: "string \<Rightarrow> bool" where
  "usernamePattern s = (case s of [] \<Rightarrow> False
     | c # cs \<Rightarrow> (is_letter c \<or> c = CHR ''_'') \<and> length cs \<le> 31 \<and> list_all (\<lambda>c. is_letter c \<or> is_digit c \<or> c \<in> set ''_.-'') cs)"

definition hostPattern :: "string \<Rightarrow> bool" where
  "hostPattern s = (s \<noteq> [] \<and> list_all (\<lambda>c. is_letter c \<or> is_digit c \<or> c \<in> set ''.:-[]'') s)"

definition node_checkName :: "string \<Rightarrow> fields \<Rightarrow> fields" where
  "node_checkName name f =
     (if name = [] then set_field True ''name'' ''name is required'' f
      else set_field (length name > maxNameLen) ''name'' (''name must be at most '' @ Itoa (int maxNameLen) @ '' characters'') f)"

definition checkTarget :: "Target \<Rightarrow> fields \<Rightarrow> fields" where
  "checkTarget t f =
     set_field (tg_Port t < 1 \<or> tg_Port t > 65535) ''port'' ''port must be between 1 and 65535''
     (set_field (tg_Host t = [] \<or> length (tg_Host t) > 253 \<or> \<not> hostPattern (tg_Host t)) ''host''
        ''enter the server's IP address or host name'' f)"

definition node_writeError :: "err \<Rightarrow> err" where
  "node_writeError e =
     (case as_duplicate e of
        Some c \<Rightarrow>
          if c = ''name'' then apperr_Field ''name'' ''a node with this name already exists''
          else if c = ''port'' \<or> c = ''host'' then apperr_Field ''host'' ''this server is already a node''
          else e
      | None \<Rightarrow> e)"

definition requested_node :: "AddRequest \<Rightarrow> Node" where
  "requested_node req =
     \<lparr>n_ID = 0, n_Name = TrimSpace (ad_Name req), n_Host = TrimSpace (ad_Host req),
      n_Port = (if ad_Port req = 0 then 22 else ad_Port req),
      n_Username = (let u = TrimSpace (ad_Username req) in if u = [] then ''root'' else u),
      n_HostKey = TrimSpace (ad_HostKey req), n_LastSeenAt = None, n_CreatedAt = zero_time, n_UpdatedAt = zero_time\<rparr>"

text \<open>A node already there with the name or the address.\<close>

definition taken_by :: "(nat \<Rightarrow> nat \<Rightarrow> bool) \<Rightarrow> Node \<Rightarrow> Node \<Rightarrow> fields \<Rightarrow> fields" where
  "taken_by same n other f =
     set_field (EqualFold same (n_Host other) (n_Host n) \<and> n_Port other = n_Port n) ''host'' (''this server is already a node: '' @ n_Name other)
     (set_field (EqualFold same (n_Name other) (n_Name n)) ''name'' ''a node with this name already exists'' f)"

definition request_target :: "Node \<Rightarrow> Target" where
  "request_target n = \<lparr>tg_Host = n_Host n, tg_Port = n_Port n, tg_Username = n_Username n\<rparr>"

definition service_check :: "'m node_service \<Rightarrow> AddRequest \<Rightarrow> (('m, 'z) fleet_scheme, Node) prog" where
  "service_check nv req =
     (let n = requested_node req;
          f = set_field (case sn_ParseAuthorizedKey (nl_net (nv_lib nv)) (n_HostKey n) of Inl _ \<Rightarrow> True | Inr _ \<Rightarrow> False)
                ''host_key'' ''scan the server's host key first''
              (set_field (\<not> usernamePattern (n_Username n)) ''username'' ''enter a Linux user name such as root or ubuntu''
              (checkTarget (request_target n) (node_checkName (n_Name n) [])))
      in bnd Nodes (\<lambda>nodes.
         thn (failOn (apperr_Fields [fold (taken_by (nv_same_fold nv) n) nodes f])) (ret n)))"

section \<open>Adding a node\<close>

definition setup_failed :: "SetupError \<Rightarrow> err" where
  "setup_failed se =
     AppError Upstream ''node_setup_failed'' (se_Reason se) [(''step'', se_Step se)] (Some (NewError (se_Reason se)))"

text \<open>What is known before the setup starts: the node, the panel's key and the ID of its own daemon.\<close>

definition prepare_add :: "'m node_service \<Rightarrow> AddRequest \<Rightarrow> (('m, 'z) fleet_scheme, Node \<times> string \<times> string) prog" where
  "prepare_add nv req =
     bnd (service_check nv req) (\<lambda>n.
     bnd (LoadKey (nv_keys nv)) (\<lambda>signer.
     bnd (attempt (on_host 0 (docker_Daemon (nv_local nv)))) (\<lambda>d.
     ret (n, signer, case d of Inr x \<Rightarrow> dm_ID x | Inl _ \<Rightarrow> []))))"

definition run_setup ::
  "'m node_service \<Rightarrow> AddRequest \<Rightarrow> Node \<Rightarrow> string \<Rightarrow> string \<Rightarrow> (('m, 'z) fleet_scheme, string list \<times> (SetupError + Daemon)) prog" where
  "run_setup nv req n signer local_id s =
     (let addr = target_addr (request_target n) in
      case setup_Run (nv_lib nv) (nv_parse nv) (ensureImage (nv_manager nv)) signer local_id
        \<lparr>su_Target = request_target n, su_HostKey = n_HostKey n, su_Password = ad_Password req, su_PrivateKey = ad_PrivateKey req,
         su_Passphrase = ad_Passphrase req\<rparr> (po_machines s addr) of
        (res, m) \<Rightarrow> (Inr res, s\<lparr>po_machines := (po_machines s)(addr := m)\<rparr>))"

definition save_node :: "'m node_service \<Rightarrow> Node \<Rightarrow> (('m, 'z) fleet_scheme, Node) prog" where
  "save_node nv n =
     bnd (mapErr node_writeError (CreateNode (env_now (nv_env nv)) n)) (\<lambda>created.
     thn (modify (\<lambda>s. s\<lparr>w_machine := (w_machine s)(n_ID created := po_machines s (target_addr (request_target n)))\<rparr>))
     (thn (modify (pool_Add (env_now (nv_env nv)) created))
     (thn (Record (nv_env nv) ((blank_event ''node.added'')\<lparr>e_NodeName := n_Name created, e_Detail := n_Host created\<rparr>))
     (ret created))))"

text \<open>The steps reported, and the node or the error with the log of the setup.\<close>

definition node_Add :: "'m node_service \<Rightarrow> AddRequest \<Rightarrow> (('m, 'z) fleet_scheme, string list \<times> (err \<times> string list + Node)) prog" where
  "node_Add nv req =
     bnd (attempt (prepare_add nv req)) (\<lambda>p.
     case p of
       Inl e \<Rightarrow> ret ([], Inl (e, []))
     | Inr (n, signer, local_id) \<Rightarrow>
       bnd (run_setup nv req n signer local_id) (\<lambda>(steps, r).
       case r of
         Inl se \<Rightarrow> ret (steps, Inl (setup_failed se, se_Log se))
       | Inr _ \<Rightarrow>
         bnd (attempt (save_node nv n)) (\<lambda>c.
         ret (steps, case c of Inl e \<Rightarrow> Inl (e, []) | Inr created \<Rightarrow> Inr created))))"

section \<open>Renaming and removing\<close>

definition node_Rename :: "'m node_service \<Rightarrow> Node \<Rightarrow> string \<Rightarrow> (('m, 'z) fleet_scheme, Node) prog" where
  "node_Rename nv n name0 =
     (let name = TrimSpace name0 in
      thn (failOn (apperr_Fields [node_checkName name []]))
      (bnd (mapErr node_writeError (RenameNode (env_now (nv_env nv)) (n_ID n) name)) (\<lambda>renamed.
       thn (modify (pool_Rename renamed))
       (thn (if n_Name renamed \<noteq> n_Name n
             then Record (nv_env nv) ((blank_event ''node.renamed'')\<lparr>e_NodeName := n_Name renamed, e_Detail := ''was '' @ n_Name n\<rparr>)
             else ret ())
       (ret renamed)))))"

definition cleanup_failed :: "string \<Rightarrow> err \<Rightarrow> err" where
  "cleanup_failed what e = apperr_New Upstream ''node_cleanup_failed'' (''remove '' @ what @ '': '' @ err_Error e)"

text \<open>No VPN containers, no data directory and no panel key; a key that stays is only logged.\<close>

definition node_clear :: "'m node_service \<Rightarrow> Node \<Rightarrow> 'm node_host \<Rightarrow> (('m, 'z) fleet_scheme, unit) prog" where
  "node_clear nv n h =
     bnd (gets (pooled (nv_manager nv))) (\<lambda>mg.
     thn (mapErr (cleanup_failed ''the VPN containers'') (RemoveNode mg (n_ID n)))
     (thn (mapErr (cleanup_failed Root) (on_host (n_ID n) (RemoveData h)))
     (bnd (LoadKey (nv_keys nv)) (\<lambda>signer.
     bnd (attempt (on_host (n_ID n) (Deauthorize (nl_net (nv_lib nv)) h signer))) (\<lambda>_. ret ())))))"

definition node_offline :: err where
  "node_offline = apperr_New Conflict ''node_offline''
     ''the node is offline, so its VPN containers cannot be removed; delete it anyway to forget it''"

definition node_Remove :: "'m node_service \<Rightarrow> Node \<Rightarrow> bool \<Rightarrow> (('m, 'z) fleet_scheme, unit) prog" where
  "node_Remove nv n force =
     bnd (gets (pool_Host (n_ID n))) (\<lambda>r.
     thn (case r of
            Inr h \<Rightarrow> node_clear nv n h
          | Inl e \<Rightarrow> if errors_Is e ErrOffline then (if force then ret () else throw node_offline) else throw e)
     (thn (modify (pool_Remove (n_ID n)))
     (thn (DeleteNode (n_ID n))
     (Record (nv_env nv) ((blank_event ''node.deleted'')\<lparr>e_NodeName := n_Name n, e_Detail := n_Host n\<rparr>)))))"

definition node_Scan :: "'m node_service \<Rightarrow> Target \<Rightarrow> (('m, 'z) fleet_scheme, string) prog" where
  "node_Scan nv t0 =
     (let t = t0\<lparr>tg_Host := TrimSpace (tg_Host t0), tg_Port := (if tg_Port t0 = 0 then 22 else tg_Port t0)\<rparr>; addr = target_addr t in
      thn (failOn (apperr_Fields [checkTarget t []]))
      (\<lambda>s. case ScanHostKey (nl_net (nv_lib nv)) t (po_machines s addr) of
         (Inl e, m) \<Rightarrow> (Inl (apperr_New Upstream ''ssh_unreachable'' (err_Error e)), s\<lparr>po_machines := (po_machines s)(addr := m)\<rparr>)
       | (Inr key, m) \<Rightarrow> (Inr key, s\<lparr>po_machines := (po_machines s)(addr := m)\<rparr>)))"

end
