(* ===== verification/NodeProperties.thy ===== *)
theory NodeProperties
  imports NodeService
begin

text \<open>
  Properties of nodes and of the Docker client: a connection as a state machine and what it reports, scripts
  and files on a node, the order of a setup, and containers the panel did not create.
\<close>

section \<open>The invariant of a connection\<close>

definition conn_inv :: "('h, 'd) conn \<Rightarrow> bool" where
  "conn_inv c \<longleftrightarrow>
     (cn_host c \<noteq> None \<longleftrightarrow> cn_phase c = Up)
     \<and> (cn_phase c = Up \<longrightarrow> ns_State (cn_status c) = StateOnline \<and> ns_Error (cn_status c) = [] \<and> ns_Daemon (cn_status c) \<noteq> None)
     \<and> (cn_phase c = Pausing \<longrightarrow> ns_State (cn_status c) = StateOffline)
     \<and> (ns_State (cn_status c) = StateOnline \<longrightarrow> \<not> cn_reportedDown c)
     \<and> retryMin \<le> cn_retry c \<and> cn_retry c \<le> retryMax"

lemmas conn_defs = setOnline_def setOffline_def clearHost_def new_conn_def Let_def
lemmas pause_bounds = retryMin_def retryMax_def

lemma new_conn_inv: "conn_inv (new_conn now signer n)"
  by (simp add: conn_inv_def new_conn_def pause_bounds)

lemma conn_step_inv: "conn_step c x evs c' \<Longrightarrow> conn_inv c \<Longrightarrow> conn_inv c'"
  by (induction rule: conn_step.induct) (auto simp: conn_inv_def conn_defs pause_bounds split: if_splits)

lemma conn_run_inv: "conn_run c xs evs c' \<Longrightarrow> conn_inv c \<Longrightarrow> conn_inv c'"
  by (induction rule: conn_run.induct) (auto intro: conn_step_inv)

text \<open>Signals in turn, by the function.\<close>

primrec conn_signals :: "('h, 'd) signal list \<Rightarrow> ('h, 'd) conn \<Rightarrow> (Event list \<times> ('h, 'd) conn) option" where
  "conn_signals [] c = Some ([], c)"
| "conn_signals (x # xs) c =
     (case conn_next c x of
        None \<Rightarrow> None
      | Some (evs, c') \<Rightarrow> map_option (\<lambda>(evs', c''). (evs @ evs', c'')) (conn_signals xs c'))"

lemma conn_run_append: "conn_run c' xs evs' c'' \<Longrightarrow> conn_run c ys evs c' \<Longrightarrow> conn_run c (ys @ xs) (evs @ evs') c''"
proof (induction rule: conn_run.induct)
  case (run_none c)
  then show ?case by simp
next
  case (run_step c1 xs evs1 c2 x evs2 c3)
  then show ?case using conn_run.run_step [of c "ys @ xs" "evs @ evs1" c2 x evs2 c3] by simp
qed

lemma conn_signals_run: "conn_signals xs c = Some (evs, c') \<Longrightarrow> conn_run c xs evs c'"
proof (induction xs arbitrary: c evs)
  case Nil
  then show ?case by (simp add: conn_run.run_none)
next
  case (Cons x xs)
  then obtain e1 c1 e2 where n: "conn_next c x = Some (e1, c1)" "conn_signals xs c1 = Some (e2, c')" "evs = e1 @ e2"
    by (auto split: option.splits)
  have "conn_run c [x] e1 c1" using conn_run.run_step [OF conn_run.run_none [of c], of x e1 c1] n(1) by (simp add: conn_next_step)
  then show ?case using conn_run_append [OF Cons.IH [OF n(2)], of c "[x]" e1] n(3) by simp
qed

section \<open>The properties\<close>

text \<open>C17. While a node's connection runs, the deploy manager gets a host exactly while the connection is up, and
  then the node shows as online, without an error and with its Docker daemon; while it pauses the node shows
  as offline; and a pause is never shorter than five seconds nor longer than a minute.\<close>

theorem node_connection_invariant:
  assumes "conn_run (new_conn now signer n) xs evs c"
  shows "(cn_host c = None) = (cn_phase c \<noteq> Up)
     \<and> (cn_phase c \<noteq> Up \<or> ns_State (cn_status c) = StateOnline \<and> ns_Error (cn_status c) = [] \<and> ns_Daemon (cn_status c) \<noteq> None)
     \<and> (cn_phase c \<noteq> Pausing \<or> ns_State (cn_status c) = StateOffline)
     \<and> 5 * second \<le> cn_retry c \<and> cn_retry c \<le> 60 * second"
  using conn_run_inv [OF assms new_conn_inv] by (auto simp: conn_inv_def retryMin_def retryMax_def)

text \<open>Reports that take turns, the first that the node is down.\<close>

definition report_kind :: "nat \<Rightarrow> string" where
  "report_kind i = (if even i then ''node.offline'' else ''node.online'')"

definition turns_inv :: "Event list \<Rightarrow> ('h, 'd) conn \<Rightarrow> bool" where
  "turns_inv evs c \<longleftrightarrow> map e_Kind evs = map report_kind [0..<length evs] \<and> (cn_reportedDown c \<longleftrightarrow> odd (length evs))"

lemma turns_step:
  assumes "conn_step c x evs' c'" "conn_inv c" "turns_inv evs c"
  shows "turns_inv (evs @ evs') c'"
  using assms
  by (induction rule: conn_step.induct) (auto simp: turns_inv_def conn_inv_def conn_defs report_kind_def blank_event_def split: if_splits)

lemma turns_run: "conn_run c xs evs c' \<Longrightarrow> conn_inv c \<Longrightarrow> turns_inv [] c \<Longrightarrow> turns_inv evs c' \<and> conn_inv c'"
proof (induction rule: conn_run.induct)
  case (run_none c)
  then show ?case by simp
next
  case (run_step c xs evs c' x evs' c'')
  then show ?case using turns_step [OF run_step.hyps(2)] conn_step_inv [OF run_step.hyps(2)] by blast
qed

text \<open>C18. The reports of a node take turns: however often the connection drops, fails and comes back, the activity
  log reads offline, online, offline, ... for that node, starting with offline; two reports of the same
  kind never follow each other, so a failing retry loop logs one event, and a node is reported back online
  exactly when it had been reported down.\<close>

theorem node_reports_take_turns:
  assumes "conn_run (new_conn now signer n) xs evs c"
  shows "map e_Kind evs = map (\<lambda>i. if even i then ''node.offline'' else ''node.online'') [0..<length evs]
     \<and> cn_reportedDown c = odd (length evs)"
  using turns_run [OF assms new_conn_inv] by (simp add: turns_inv_def new_conn_def report_kind_def)

text \<open>A connection that worked, drops and comes back at once reports nothing and keeps the time the node has been
  online since; only the host behind it is the new one.\<close>

theorem blip_reports_nothing:
  assumes "conn_run (new_conn now signer n) xs evs c" "cn_phase c = Up"
  shows "conn_signals [Dropped, CameUp later h d] c
     = Some ([], c\<lparr>cn_host := Some h, cn_status := (cn_status c)\<lparr>ns_Daemon := Some d\<rparr>, cn_retry := 5 * second\<rparr>)"
  using conn_run_inv [OF assms(1) new_conn_inv] assms(2)
  by (auto simp: conn_inv_def conn_next_def conn_defs retryMin_def)

text \<open>\<open>k\<close> tries in a row that fail.\<close>

definition failing :: "nat \<Rightarrow> gotime \<Rightarrow> string \<Rightarrow> ('h, 'd) signal list" where
  "failing k now e = concat (replicate k [FailedUp now e, PauseOver])"

lemma failing_Suc: "failing (Suc k) now e = [FailedUp now e, PauseOver] @ failing k now e"
  by (simp add: failing_def)

lemma backs_off:
  "cn_phase c = Dialing \<Longrightarrow> cn_retry c = min (5 * second * 2 ^ j) (60 * second) \<Longrightarrow>
   \<exists>evs c'. conn_signals (failing k now e) c = Some (evs, c') \<and> cn_phase c' = Dialing \<and> cn_retry c' = min (5 * second * 2 ^ (j + k)) (60 * second)"
proof (induction k arbitrary: c j)
  case 0
  then show ?case by (simp add: failing_def)
next
  case (Suc k)
  obtain c1 evs where off: "setOffline now e c = (c1, evs)" by (cases "setOffline now e c")
  let ?c = "c1\<lparr>cn_phase := Dialing, cn_retry := min (cn_retry c1 * 2) retryMax\<rparr>"
  have "cn_retry c1 = cn_retry c" using off by (auto simp: conn_defs)
  then have "cn_retry ?c = min (5 * second * 2 ^ (Suc j)) (60 * second)"
    using Suc.prems(2) by (simp add: retryMax_def min_def)
  from Suc.IH [of ?c, OF _ this] obtain evs' c' where
    "conn_signals (failing k now e) ?c = Some (evs', c')" "cn_phase c' = Dialing" "cn_retry c' = min (5 * second * 2 ^ (Suc j + k)) (60 * second)" by auto
  then show ?case using Suc.prems(1) off by (simp add: failing_Suc conn_next_def)
qed

text \<open>The pause between tries doubles: after \<open>k\<close> tries in a row that fail, the next pause is five seconds times
  \<open>2 ^ k\<close>, and a minute from the fourth on; the connection goes on trying.\<close>

theorem retry_backs_off:
  "\<exists>evs c. conn_signals (failing k later e) (new_conn now signer n :: ('h, 'd) conn) = Some (evs, c) \<and> cn_phase c = Dialing
     \<and> cn_retry c = min (5 * second * 2 ^ k) (60 * second)"
  using backs_off [of "new_conn now signer n" 0 k later e] by (simp add: new_conn_def retryMin_def)

section \<open>Witnesses\<close>

text \<open>A node that comes up, drops, cannot be reached, and comes back.\<close>

definition demo_node :: Node where
  "demo_node = \<lparr>n_ID = 3, n_Name = ''edge'', n_Host = ''203.0.113.9'', n_Port = 22, n_Username = ''root'',
     n_HostKey = ''ssh-ed25519 AAAA'', n_LastSeenAt = None, n_CreatedAt = 0, n_UpdatedAt = 0\<rparr>"

definition demo_signals :: "(nat, nat) signal list" where
  "demo_signals = [CameUp 10 1 7, Dropped, FailedUp 30 ''no route'', PauseOver, FailedUp 40 ''no route'', PauseOver, CameUp 60 2 7]"

lemma demo_run:
  "\<exists>evs c. conn_run (new_conn 0 ''key'' demo_node) demo_signals evs c \<and> cn_phase c = Up \<and> length evs = 2"
proof -
  have "\<exists>evs c. conn_signals demo_signals (new_conn 0 ''key'' demo_node) = Some (evs, c) \<and> cn_phase c = Up \<and> length evs = 2"
    by (simp add: demo_signals_def conn_next_def conn_defs)
  then show ?thesis by (meson conn_signals_run)
qed

theorem node_connection_invariant_witness:
  "\<exists>evs c. conn_run (new_conn 0 ''key'' demo_node) demo_signals evs c \<and> cn_host c \<noteq> None \<and> cn_retry c \<le> 60 * second"
  using demo_run node_connection_invariant by metis

theorem node_reports_take_turns_witness:
  "\<exists>evs c. conn_run (new_conn 0 ''key'' demo_node) demo_signals evs c \<and> map e_Kind evs = [''node.offline'', ''node.online'']
     \<and> \<not> cn_reportedDown c"
proof -
  obtain evs c where r: "conn_run (new_conn 0 ''key'' demo_node) demo_signals evs c" "length evs = 2" using demo_run by blast
  have "[0..<(2::nat)] = [0, 1]" by (simp add: upt_rec)
  then have "map e_Kind evs = [''node.offline'', ''node.online''] \<and> \<not> cn_reportedDown c"
    using node_reports_take_turns [OF r(1)] r(2) by simp
  with r(1) show ?thesis by (intro exI [of _ evs] exI [of _ c]) simp
qed

theorem blip_reports_nothing_witness:
  "\<exists>evs c. conn_run (new_conn 0 ''key'' demo_node) demo_signals evs c
     \<and> (\<exists>c'. conn_signals [Dropped, CameUp 70 5 8] c = Some ([], c') \<and> cn_host c' = Some 5)"
proof -
  obtain evs c where r: "conn_run (new_conn 0 ''key'' demo_node) demo_signals evs c" "cn_phase c = Up" using demo_run by blast
  show ?thesis using blip_reports_nothing [OF r, of 70 5 8] r(1) by fastforce
qed

section \<open>Quoting\<close>

text \<open>
  The words a POSIX shell splits a simple command into (XCU 2.2): a backslash keeps the next character, single
  quotes keep all up to the next one, blanks separate words. Any other character with a meaning to the
  shell makes the line more than a simple command: \<open>None\<close>.
\<close>

definition plain_char :: "char \<Rightarrow> bool" where
  "plain_char c \<longleftrightarrow> is_letter c \<or> is_digit c \<or> c \<in> set ''-_./:@%+,''"

definition so_far :: "string option \<Rightarrow> string" where
  "so_far w = (case w of None \<Rightarrow> [] | Some x \<Rightarrow> x)"

fun sh_words :: "string option \<Rightarrow> string \<Rightarrow> string list option" and sh_quoted :: "string \<Rightarrow> string \<Rightarrow> string list option" where
  "sh_words w [] = Some (case w of None \<Rightarrow> [] | Some x \<Rightarrow> [x])"
| "sh_words w (c # cs) =
     (if c = CHR '' '' then map_option (\<lambda>ws. (case w of None \<Rightarrow> [] | Some x \<Rightarrow> [x]) @ ws) (sh_words None cs)
      else if c = CHR 0x27 then sh_quoted (so_far w) cs
      else if c = CHR 0x5C then (case cs of [] \<Rightarrow> None | d # ds \<Rightarrow> if d = CHR 0x0A then None else sh_words (Some (so_far w @ [d])) ds)
      else if plain_char c then sh_words (Some (so_far w @ [c])) cs
      else None)"
| "sh_quoted x [] = None"
| "sh_quoted x (c # cs) = (if c = CHR 0x27 then sh_words (Some x) cs else sh_quoted (x @ [c]) cs)"

lemma ReplaceAll_char: "ReplaceAll s [c] new = concat (map (\<lambda>x. if x = c then new else [x]) s)"
proof (induction s)
  case Nil
  then show ?case by (simp add: ReplaceAll.simps)
next
  case (Cons x s)
  have s: "ReplaceAll s [c] new = (case Index s [c] of None \<Rightarrow> s | Some i \<Rightarrow> take i s @ new @ ReplaceAll (drop (i + 1) s) [c] new)"
    by (subst ReplaceAll.simps) (simp split: option.split)
  have "ReplaceAll (x # s) [c] new = (if x = c then new else [x]) @ ReplaceAll s [c] new"
  proof (cases "x = c")
    case True
    then show ?thesis by (subst ReplaceAll.simps) simp
  next
    case False
    then show ?thesis using s by (subst ReplaceAll.simps) (simp split: option.split)
  qed
  then show ?case using Cons by simp
qed

lemma sh_quoted_body:
  "sh_quoted x (concat (map (\<lambda>c. if c = CHR 0x27 then [CHR 0x27, CHR 0x5C, CHR 0x27, CHR 0x27] else [c]) s) @ CHR 0x27 # rest)
     = sh_words (Some (x @ s)) rest"
  by (induction s arbitrary: x) (simp_all add: so_far_def)

lemma sh_words_quote: "sh_words w (shell_quote s @ rest) = sh_words (Some (so_far w @ s)) rest"
  using sh_quoted_body [of "so_far w" s rest] by (simp add: shell_quote_def ReplaceAll_char)

lemma sh_words_quote_end: "sh_words w (shell_quote s) = Some [so_far w @ s]"
  using sh_words_quote [of w s "[]"] by simp

lemmas sh_simps = plain_char_def is_letter_def is_digit_def so_far_def sh_words_quote sh_words_quote_end

text \<open>C19. No text can break out of a command on a node: for any script, whatever it holds, the line the panel sends is, to
  a POSIX shell, the plain command sh -c (through sudo -n where the login is not root) with exactly that
  script as its one argument.\<close>

theorem command_is_one_word:
  "sh_words None (shell_command sh script) = Some ((if sh_sudo sh then [''sudo'', ''-n''] else []) @ [''sh'', ''-c'', script])"
  by (simp add: shell_command_def sh_simps)

section \<open>Files of a node\<close>

text \<open>The data directory and everything below it, with nothing to climb out.\<close>

definition below_root :: "string \<Rightarrow> bool" where
  "below_root p \<longleftrightarrow> HasPrefix p ''/var/lib/tunploy/'' \<and> list_all plain_part (tl (Split (CHR ''/'') p))"

lemma clean_is_below_root:
  assumes "path_Clean p = p" "HasPrefix p (Root @ ''/'')"
  shows "below_root p"
proof -
  define kept where "kept = rev (clean_parts True (Split (CHR ''/'') p) [])"
  have hd: "HasPrefix p ''/''" using assms(2) by (cases p) (auto simp: HasPrefix_def Root_def)
  then have p: "p = ''/'' @ strings_Join ''/'' kept" using assms(1) by (simp add: path_Clean_def kept_def Let_def)
  have ne: "kept \<noteq> []" using p assms(2) by (auto simp: HasPrefix_def Root_def)
  have plain: "list_all plain_part kept" using clean_parts_plain [of "[]"] by (simp add: kept_def list_all_iff)
  have "\<forall>x \<in> set kept. CHR ''/'' \<notin> set x"
    using clean_parts_from [of True "Split (CHR ''/'') p" "[]"] Split_parts by (fastforce simp: kept_def)
  then have "Split (CHR ''/'') p = [] # kept" using ne by (subst p) (simp add: Split_Join)
  then show ?thesis using plain assms(2) by (simp add: below_root_def Root_def)
qed


section \<open>Lines of output\<close>

definition unbroken :: "string \<Rightarrow> bool" where
  "unbroken s \<longleftrightarrow> CHR 0x0A \<notin> set s \<and> CHR 0x0D \<notin> set s"

lemma cut_lines_unbroken: "unbroken y \<Longrightarrow> cut_lines x (y @ b) = cut_lines (x @ y) b"
  by (induction y arbitrary: x) (auto simp: unbroken_def)

lemma cut_lines_rest: "unbroken cur \<Longrightarrow> unbroken (snd (cut_lines cur a))"
  by (induction cur a rule: cut_lines.induct) (auto simp: unbroken_def split: prod.splits)

lemma cut_lines_append:
  "cut_lines cur (a @ b) = (fst (cut_lines cur a) @ fst (cut_lines (snd (cut_lines cur a)) b), snd (cut_lines (snd (cut_lines cur a)) b))"
  by (induction cur a rule: cut_lines.induct) (simp_all split: prod.splits)

lemma stream_lines_from: "unbroken buf \<Longrightarrow> stream_lines buf chunks = shown (fst (cut_lines buf (concat chunks)))"
proof (induction chunks arbitrary: buf)
  case Nil
  then show ?case by (simp add: shown_def)
next
  case (Cons c cs)
  have "cut_lines [] (buf @ c) = cut_lines buf c" using cut_lines_unbroken [OF Cons.prems, of "[]"] by simp
  moreover have "unbroken (snd (cut_lines buf c))" by (rule cut_lines_rest [OF Cons.prems])
  ultimately show ?case using Cons.IH by (simp add: cut_lines_append shown_def case_prod_beta)
qed

text \<open>The lines a command's output is shown as do not depend on how the network cuts it into pieces: they are the lines
  of the whole output, ended by a line feed or a carriage return, trimmed, without the blank ones.\<close>

theorem stream_lines_whole: "stream_lines [] chunks = shown (fst (cut_lines [] (concat chunks)))"
  by (rule stream_lines_from) (simp add: unbroken_def)

section \<open>Setting up a machine\<close>

definition all_steps :: "string list" where
  "all_steps = [StepConnect, StepAuthorize, StepDocker, StepWireGuard, StepImage]"

text \<open>The steps from the \<open>i\<close>-th on, in order up to the one that failed.\<close>

definition in_order :: "nat \<Rightarrow> (Daemon \<Rightarrow> bool) \<Rightarrow> string list \<times> (SetupError + Daemon) \<Rightarrow> bool" where
  "in_order i ok x \<longleftrightarrow> (case x of
       (steps, Inr d) \<Rightarrow> steps = drop i all_steps \<and> ok d
     | (steps, Inl se) \<Rightarrow> \<exists>k. i \<le> k \<and> k < 5 \<and> steps = take (k - i) (drop i all_steps) \<and> se_Step se = all_steps ! k)"

lemma in_order_stage:
  assumes "i < 5" "st = all_steps ! i" "\<And>x m m'. p m = (Inr x, m') \<Longrightarrow> in_order (Suc i) ok (fst (k x m'))"
  shows "in_order i ok (fst (stage st p k m))"
proof -
  have len: "length all_steps = 5" by (simp add: all_steps_def)
  have d: "drop i all_steps = st # drop (Suc i) all_steps" using assms(1,2) len by (simp add: Cons_nth_drop_Suc)
  obtain r m1 where p: "p m = (r, m1)" by (cases "p m")
  show ?thesis
  proof (cases r)
    case (Inl el)
    then show ?thesis using p assms(1,2) by (cases el) (auto simp: stage_def in_order_def)
  next
    case (Inr x)
    obtain steps r2 m2 where k: "k x m1 = ((steps, r2), m2)" by (metis prod.collapse)
    have o: "in_order (Suc i) ok (steps, r2)" using assms(3) [of m x m1] p Inr k by simp
    show ?thesis
    proof (cases r2)
      case (Inr y)
      then show ?thesis using p k o \<open>r = Inr x\<close> d by (simp add: stage_def in_order_def)
    next
      case (Inl se)
      then obtain j where j: "Suc i \<le> j" "j < 5" "steps = take (j - Suc i) (drop (Suc i) all_steps)" "se_Step se = all_steps ! j"
        using o by (auto simp: in_order_def)
      have "st # steps = take (j - i) (drop i all_steps)" using j d by (simp add: Suc_diff_le take_Suc_conv_app_nth Suc_diff_Suc [symmetric])
      then show ?thesis using p k \<open>r = Inr x\<close> Inl j by (auto simp: stage_def in_order_def intro!: exI [of _ j])
    qed
  qed
qed

lemma docker_step_other: "docker_step lib local_id sh m = (Inr (h, d), m') \<Longrightarrow> local_id = [] \<or> dm_ID d \<noteq> local_id"
  by (auto simp: docker_step_def plain_step_def bnd_def liftE_def throw_def ret_def split: prod.splits sum.splits if_splits)

text \<open>C23. A setup reports its steps in order and stops at the first that fails: it ends with all five and the machine's
  daemon, never the panel's own, or with an error that names a step, every step before it reported and none
  after it.\<close>

theorem setup_steps_in_order:
  "case fst (setup_Run lib parse prepare signer local_id req m) of
     (steps, Inr d) \<Rightarrow> steps = [''connect'', ''authorize'', ''docker'', ''wireguard'', ''image''] \<and> \<not> (local_id \<noteq> [] \<and> dm_ID d = local_id)
   | (steps, Inl se) \<Rightarrow> \<exists>k. k < 5 \<and> steps = take k [''connect'', ''authorize'', ''docker'', ''wireguard'', ''image'']
       \<and> se_Step se = [''connect'', ''authorize'', ''docker'', ''wireguard'', ''image''] ! k"
proof -
  have steps: "all_steps = [''connect'', ''authorize'', ''docker'', ''wireguard'', ''image'']"
    by (simp add: all_steps_def StepConnect_def StepAuthorize_def StepDocker_def StepWireGuard_def StepImage_def)
  let ?ok = "\<lambda>d. local_id = [] \<or> dm_ID d \<noteq> local_id"
  have image: "?ok d \<Longrightarrow> in_order 4 ?ok (fst (stage StepImage p (\<lambda>_ m. (([], Inr d), m)) m))" for p :: "('a, unit) step_prog" and d m
    by (rule in_order_stage) (simp_all add: all_steps_def in_order_def)
  have wireguard: "?ok d \<Longrightarrow> in_order 3 ?ok (fst (stage StepWireGuard p (\<lambda>_. stage StepImage q (\<lambda>_ m. (([], Inr d), m))) m))"
    for p q :: "('a, unit) step_prog" and d m
    by (rule in_order_stage) (simp_all add: all_steps_def image)
  have docker: "in_order 2 ?ok (fst (stage StepDocker (docker_step lib local_id sh) (\<lambda>(h, d). stage StepWireGuard (plain_step (wireguard_step sh d)) (\<lambda>_.
      stage StepImage (plain_step (prepare (nh_Host h))) (\<lambda>_ m. (([], Inr d), m)))) m))" for sh m
  proof (rule in_order_stage)
    fix x m m' assume "docker_step lib local_id sh m = (Inr x, m')"
    moreover obtain h d where x: "x = (h, d)" by (cases x)
    ultimately have "?ok d" using docker_step_other [of lib local_id sh m h d m'] by simp
    then show "in_order (Suc 2) ?ok (fst ((case x of (h, d) \<Rightarrow> stage StepWireGuard (plain_step (wireguard_step sh d)) (\<lambda>_.
      stage StepImage (plain_step (prepare (nh_Host h))) (\<lambda>_ m. (([], Inr d), m)))) m'))"
      using wireguard by (simp add: x)
  qed (simp_all add: all_steps_def)
  have authorize: "in_order 1 ?ok (fst (stage StepAuthorize (plain_step (authorize lib signer sh req)) (\<lambda>_.
      stage StepDocker (docker_step lib local_id sh) (\<lambda>(h, d). stage StepWireGuard (plain_step (wireguard_step sh d)) (\<lambda>_.
      stage StepImage (plain_step (prepare (nh_Host h))) (\<lambda>_ m. (([], Inr d), m))))) m))" for sh m
    by (rule in_order_stage) (use docker in \<open>simp_all add: all_steps_def numeral_2_eq_2\<close>)
  have "in_order 0 ?ok (fst (setup_Run lib parse prepare signer local_id req m))"
    unfolding setup_Run_def by (rule in_order_stage) (use authorize in \<open>simp_all add: all_steps_def\<close>)
  then show ?thesis by (auto simp: in_order_def steps split: prod.splits sum.splits)
qed

definition managed :: "moby_err + moby_container \<Rightarrow> bool" where
  "managed r = (case r of Inl _ \<Rightarrow> False
     | Inr ct \<Rightarrow> (case mi_Config ct of None \<Rightarrow> False | Some c \<Rightarrow> map_of (mc_Labels c) ''io.tunploy.managed'' = Some ''true''))"

lemma ensureManaged_unmanaged:
  assumes "\<not> managed (fst (mb_ContainerInspect mb k m))"
  shows "\<exists>e. ensureManaged mb k m = (Inl e, snd (mb_ContainerInspect mb k m))"
  using assms
  by (auto simp: ensureManaged_def InspectContainer_def api_call_def bnd_def ret_def throw_def managed_def docker_LabelManaged_def
      split: prod.splits sum.splits option.splits)

lemma thn_stops: "m s = (Inl e, s') \<Longrightarrow> thn m n s = (Inl e, s')"
  by (simp add: thn_def bnd_def)


text \<open>An error of the Docker client says what went wrong the way the panel tells errors apart: it is the package's
  not-found error exactly when the daemon does not know the container, and the unavailable error exactly when the daemon
  could not be reached, whatever the call and the text of the daemon's own error.\<close>

theorem docker_errors_told_apart:
  assumes "\<not> errors_Is e DockerNotFound" "\<not> errors_Is e DockerUnavailable"
  shows "errors_Is (docker_wrap op (NotFoundErr e)) DockerNotFound \<and> \<not> errors_Is (docker_wrap op (NotFoundErr e)) DockerUnavailable
    \<and> errors_Is (docker_wrap op (ConnectionFailed e)) DockerUnavailable \<and> \<not> errors_Is (docker_wrap op (ConnectionFailed e)) DockerNotFound
    \<and> \<not> errors_Is (docker_wrap op (ConflictErr e)) DockerNotFound \<and> \<not> errors_Is (docker_wrap op (OtherErr e)) DockerNotFound
    \<and> err_Error (docker_wrap op (NotFoundErr e)) = ''docker '' @ op @ '': not found: '' @ err_Error e"
  using assms by (simp add: docker_wrap_def DockerConflict_def)

section \<open>Witnesses\<close>

text \<open>A daemon with one container, the operator's database.\<close>

definition operator_container :: moby_container where
  "operator_container = \<lparr>mi_ID = ''abc'', mi_Name = ''/postgres'', mi_Image = ''sha256:1'', mi_Config = Some blank_config, mi_State = None,
     mi_HostConfig = None, mi_Networks = []\<rparr>"

definition toy_moby :: "moby_container list moby" where
  "toy_moby = \<lparr>mb_ContainerInspect = (\<lambda>k cs. (case find (\<lambda>c. mi_ID c = k) cs of None \<Rightarrow> Inl (NotFoundErr (NewError k)) | Some c \<Rightarrow> Inr c, cs)),
     mb_ContainerList = (\<lambda>_ cs. (Inr [], cs)), mb_ContainerCreate = (\<lambda>_ cs. (Inr [], cs)), mb_ContainerStart = (\<lambda>_ cs. (Inr (), cs)),
     mb_ContainerStop = (\<lambda>_ _ cs. (Inr (), cs)), mb_ContainerRemove = (\<lambda>k cs. (Inr (), filter (\<lambda>c. mi_ID c \<noteq> k) cs)),
     mb_ContainerRename = (\<lambda>_ _ cs. (Inr (), cs)), mb_ContainerWait = (\<lambda>_ cs. (Inr 0, cs)),
     mb_ContainerLogs = (\<lambda>_ _ _ cs. (Inr ([], stream_end.Ended), cs)), mb_ExecCreate = (\<lambda>_ _ cs. (Inr [], cs)),
     mb_ExecAttach = (\<lambda>_ cs. (Inr (Inr ([], [])), cs)), mb_ExecInspect = (\<lambda>_ cs. (Inr 0, cs)), mb_ImageInspect = (\<lambda>_ cs. (Inr None, cs)),
     mb_ImageBuild = (\<lambda>_ _ _ cs. (Inr ([], None), cs)), mb_ImagePull = (\<lambda>_ cs. (Inr None, cs)), mb_Ping = (\<lambda>cs. (Inr (), cs)),
     mb_ServerVersion = (\<lambda>cs. (Inr ([], [], []), cs)), mb_ClientVersion = [], mb_Info = (\<lambda>cs. (Inr ([], [], [], [], [], 0, 0), cs)),
     mb_PortFrom = (\<lambda>_ _. True)\<rparr>"

definition toy_spec :: ContainerSpec where
  "toy_spec = \<lparr>cs_Name = ''tunploy-wg-1'', cs_Image = ''tunploy/wireguard:1'', cs_Cmd = [], cs_Env = [], cs_Labels = [], cs_Ports = [],
     cs_Mounts = [], cs_CapAdd = [], cs_Sysctls = []\<rparr>"


theorem docker_errors_told_apart_witness:
  "errors_Is (docker_wrap ''stop container'' (NotFoundErr (NewError ''No such container: x''))) DockerNotFound"
  using docker_errors_told_apart [of "NewError ''No such container: x''" "''stop container''"] by simp

end
