(* ===== verification/ApiNodes.thy ===== *)
theory ApiNodes
  imports NodeService ApiServers
begin

text \<open>
  internal/api/nodes.go: nodes over HTTP. The environment of the server and of the service is the same.
\<close>

section \<open>Views\<close>

definition state_text :: "node_state \<Rightarrow> string" where
  "state_text st = (case st of StateConnecting \<Rightarrow> ''connecting'' | StateOnline \<Rightarrow> ''online'' | StateOffline \<Rightarrow> ''offline'')"

definition daemon_json :: "Daemon \<Rightarrow> json" where
  "daemon_json d = JObj [(''version'', JStr (dm_Version d)), (''os'', JStr (dm_OS d)), (''arch'', JStr (dm_Arch d)),
     (''kernel_version'', JStr (dm_KernelVersion d)), (''cpus'', JInt (dm_CPUs d)), (''memory'', JInt (dm_Memory d))]"

definition omit_zero_time :: "string \<Rightarrow> gotime \<Rightarrow> (string \<times> json) list" where
  "omit_zero_time k t = (if t = zero_time then [] else [(k, JTime t)])"

definition node_status_json :: "Daemon node_status \<Rightarrow> json" where
  "node_status_json st = JObj ([(''state'', JStr (state_text (ns_State st)))] @ omit_empty ''error'' (ns_Error st) @
     omit_zero_time ''since'' (ns_Since st) @ (case ns_Daemon st of None \<Rightarrow> [] | Some d \<Rightarrow> [(''daemon'', daemon_json d)]))"

definition nodeView_json :: "Node \<Rightarrow> bool \<Rightarrow> Daemon node_status \<Rightarrow> nat \<Rightarrow> string \<Rightarrow> json" where
  "nodeView_json n is_local st servers fingerprint = JObj
     ([(''id'', JInt (n_ID n)), (''name'', JStr (n_Name n)), (''host'', JStr (n_Host n)), (''port'', JInt (n_Port n)),
       (''username'', JStr (n_Username n)), (''host_key'', JStr (n_HostKey n))] @ omit_time ''last_seen_at'' (n_LastSeenAt n) @
      omit_zero_time ''created_at'' (n_CreatedAt n) @ omit_zero_time ''updated_at'' (n_UpdatedAt n) @
      [(''local'', JBool is_local), (''status'', node_status_json st), (''server_count'', JInt (int servers))] @
      omit_empty ''host_key_fingerprint'' fingerprint)"

definition nodeView :: "'m node_service \<Rightarrow> ('m, 'z) fleet_scheme \<Rightarrow> Node \<Rightarrow> nat \<Rightarrow> json" where
  "nodeView nv s n servers = nodeView_json n False (pool_Status (n_ID n) s) servers (Fingerprint (nl_net (nv_lib nv)) (n_HostKey n))"

text \<open>The panel's own machine, with ID 0.\<close>

definition localNode :: "'m server \<Rightarrow> 'm node_service \<Rightarrow> nat \<Rightarrow> (('m, 'z) fleet_scheme, json) prog" where
  "localNode sv nv servers =
     bnd (service_PublicHost (srv_instances sv)) (\<lambda>host.
     bnd (attempt (on_host 0 (docker_Daemon (nv_local nv)))) (\<lambda>r.
     ret (nodeView_json \<lparr>n_ID = 0, n_Name = ''This server'', n_Host = host, n_Port = 0, n_Username = [], n_HostKey = [], n_LastSeenAt = None,
         n_CreatedAt = zero_time, n_UpdatedAt = zero_time\<rparr> True
       (case r of
          Inl e \<Rightarrow> \<lparr>ns_State = StateOffline, ns_Error = err_Error e, ns_Since = zero_time, ns_Daemon = None\<rparr>
        | Inr d \<Rightarrow> \<lparr>ns_State = StateOnline, ns_Error = [], ns_Since = zero_time, ns_Daemon = Some d\<rparr>) servers [])))"

section \<open>Handlers\<close>

definition handleListNodes :: "'m server \<Rightarrow> 'm node_service \<Rightarrow> (('m, 'z) fleet_scheme, unit) prog" where
  "handleListNodes sv nv =
     bnd Nodes (\<lambda>nodes.
     bnd Instances (\<lambda>all.
     bnd (localNode sv nv (serverCounts all 0)) (\<lambda>here.
     bnd (gets (\<lambda>s. map (\<lambda>n. nodeView nv s n (serverCounts all (n_ID n))) nodes)) (\<lambda>views.
     JSON 200 (JList (here # views))))))"

definition handlePanelKey :: "'m node_service \<Rightarrow> (('m, 'z) fleet_scheme, unit) prog" where
  "handlePanelKey nv =
     (let net = nl_net (nv_lib nv) in
      bnd (LoadKey (nv_keys nv)) (\<lambda>signer.
      JSON 200 (JObj [(''public_key'', JStr (AuthorizedKey net signer)),
        (''fingerprint'', JStr (sn_FingerprintSHA256 net (sn_PublicKey net signer)))])))"

definition handleScanNode :: "'m node_service \<Rightarrow> (string \<times> int) decoded \<Rightarrow> (('m, 'z) fleet_scheme, unit) prog" where
  "handleScanNode nv body =
     bnd (liftE (Decode body)) (\<lambda>(host, port).
     bnd (node_Scan nv \<lparr>tg_Host = host, tg_Port = port, tg_Username = []\<rparr>) (\<lambda>key.
     JSON 200 (JObj [(''host_key'', JStr key), (''fingerprint'', JStr (Fingerprint (nl_net (nv_lib nv)) key)),
       (''algorithm'', JStr (fst (Cut (CHR '' '') key)))])))"

text \<open>Validation fails as a normal answer; after that the steps are lines of the reply, and so is the outcome.\<close>

definition handleCreateNode :: "'m node_service \<Rightarrow> AddRequest decoded \<Rightarrow> (('m, 'z) fleet_scheme, unit) prog" where
  "handleCreateNode nv body =
     bnd (liftE (Decode body)) (\<lambda>req.
     bnd (service_check nv req) (\<lambda>_.
     thn streamNDJSON
     (bnd (node_Add nv req) (\<lambda>(steps, r).
     thn (forEach steps (\<lambda>st. send_line (JObj (omit_empty ''step'' st))))
     (case r of
        Inl (e, ls) \<Rightarrow> send_line (error_event e ls)
      | Inr created \<Rightarrow> bnd (gets (\<lambda>s. nodeView nv s created 0)) (\<lambda>view. send_line (JObj [(''node'', view)])))))))"

definition nodeFromPath :: "hreq \<Rightarrow> (('m, 'z) fleet_scheme, Node) prog" where
  "nodeFromPath r =
     (let gone = http_NotFound ''node not found'' in
      case ParseInt (PathValue r ''id'') of
        None \<Rightarrow> throw gone
      | Some k \<Rightarrow>
        if k < 1 then throw gone
        else mapErr (\<lambda>e. if errors_Is e ErrNotFound then gone else e) (NodeByID k))"

definition handleUpdateNode :: "'m node_service \<Rightarrow> hreq \<Rightarrow> string decoded \<Rightarrow> (('m, 'z) fleet_scheme, unit) prog" where
  "handleUpdateNode nv r body =
     bnd (nodeFromPath r) (\<lambda>n.
     bnd (liftE (Decode body)) (\<lambda>name.
     bnd (node_Rename nv n name) (\<lambda>renamed.
     bnd Instances (\<lambda>all.
     bnd (gets (\<lambda>s. nodeView nv s renamed (serverCounts all (n_ID n)))) (\<lambda>view.
     JSON 200 view)))))"

definition handleDeleteNode :: "'m node_service \<Rightarrow> hreq \<Rightarrow> (('m, 'z) fleet_scheme, unit) prog" where
  "handleDeleteNode nv r =
     bnd (nodeFromPath r) (\<lambda>n.
     thn (node_Remove nv n (Query_Get r ''force'' = ''true'')) NoContent)"

end
