(* ===== verification/UpdateApply.thy ===== *)
theory UpdateApply
  imports DockerClient Http
begin

text \<open>
  internal/update/apply.go: the updater swaps the panel's container for one on the new image, and puts the
  old one and its database back when the new one does not come up. The files of the data directory go by
  their names. Docker works on the same state, as a container that runs writes them too. Each operation on
  a file consumes a failure still to come, if there is one: its error and how many bytes were written.
\<close>

section \<open>Files\<close>

datatype fault = Fault err nat

record 'm datadir =
  dd_files :: "string \<Rightarrow> string option"
  dd_faults :: "fault option list"
  dd_machine :: 'm

definition ErrNotExist :: err where "ErrNotExist = NewError ''no such file or directory''"

definition not_there :: "string \<Rightarrow> string \<Rightarrow> err" where
  "not_there op name = Errorf (op @ '' '' @ name) ErrNotExist"

definition put_file :: "string \<Rightarrow> string option \<Rightarrow> 'm datadir \<Rightarrow> 'm datadir" where
  "put_file name body s = s\<lparr>dd_files := (dd_files s)(name := body)\<rparr>"

definition fs_step :: "(nat \<Rightarrow> 'm datadir \<Rightarrow> 'm datadir) \<Rightarrow> ('m datadir, 'a) prog \<Rightarrow> ('m datadir, 'a) prog" where
  "fs_step broken op s =
     (case dd_faults s of
        [] \<Rightarrow> op s
      | None # fs \<Rightarrow> op (s\<lparr>dd_faults := fs\<rparr>)
      | Some (Fault e n) # fs \<Rightarrow> (Inl e, broken n (s\<lparr>dd_faults := fs\<rparr>)))"

definition os_ReadFile :: "string \<Rightarrow> ('m datadir, string) prog" where
  "os_ReadFile name = fs_step (\<lambda>_ s. s) (\<lambda>s. (case dd_files s name of None \<Rightarrow> Inl (not_there ''open'' name) | Some b \<Rightarrow> Inr b, s))"

text \<open>Opening for writing empties the file.\<close>

definition os_Create :: "string \<Rightarrow> ('m datadir, unit) prog" where
  "os_Create name = fs_step (\<lambda>_ s. s) (\<lambda>s. (Inr (), put_file name (Some []) s))"

definition os_Write :: "string \<Rightarrow> string \<Rightarrow> ('m datadir, unit) prog" where
  "os_Write name body = fs_step (\<lambda>n. put_file name (Some (take n body))) (\<lambda>s. (Inr (), put_file name (Some body) s))"

definition os_Sync :: "('m datadir, unit) prog" where
  "os_Sync = fs_step (\<lambda>_ s. s) (\<lambda>s. (Inr (), s))"

definition os_Close :: "('m datadir, unit) prog" where
  "os_Close = fs_step (\<lambda>_ s. s) (\<lambda>s. (Inr (), s))"

definition os_Rename :: "string \<Rightarrow> string \<Rightarrow> ('m datadir, unit) prog" where
  "os_Rename src dst = fs_step (\<lambda>_ s. s) (\<lambda>s.
     case dd_files s src of
       None \<Rightarrow> (Inl (not_there ''rename'' src), s)
     | Some b \<Rightarrow> (Inr (), put_file dst (Some b) (put_file src None s)))"

definition os_Remove :: "string \<Rightarrow> ('m datadir, unit) prog" where
  "os_Remove name = fs_step (\<lambda>_ s. s) (\<lambda>s.
     case dd_files s name of None \<Rightarrow> (Inl (not_there ''remove'' name), s) | Some _ \<Rightarrow> (Inr (), put_file name None s))"

definition os_WriteFile :: "string \<Rightarrow> string \<Rightarrow> ('m datadir, unit) prog" where
  "os_WriteFile name body = thn (os_Create name) (thn (os_Write name body) os_Close)"

text \<open>A copy reaches the disk before it counts; after an error the file is closed all the same.\<close>

definition copyFile :: "string \<Rightarrow> string \<Rightarrow> ('m datadir, unit) prog" where
  "copyFile src dst =
     bnd (os_ReadFile src) (\<lambda>body.
     thn (os_Create dst)
     (bnd (attempt (thn (os_Write dst body) os_Sync)) (\<lambda>r.
      case r of Inl e \<Rightarrow> thn (attempt os_Close) (throw e) | Inr _ \<Rightarrow> os_Close)))"

definition remove_if_there :: "string \<Rightarrow> ('m datadir, unit) prog" where
  "remove_if_there name =
     bnd (attempt (os_Remove name)) (\<lambda>r.
     case r of Inl e \<Rightarrow> if errors_Is e ErrNotExist then ret () else throw e | Inr _ \<Rightarrow> ret ())"

section \<open>The database\<close>

definition resultName :: string where "resultName = ''update.json''"
definition snapshotSuffix :: string where "snapshotSuffix = ''.pre-update''"

text \<open>The database with its write-ahead log.\<close>

definition dbFiles :: "string list" where "dbFiles = [''tunploy.db'', ''tunploy.db-wal'', ''tunploy.db-shm'']"

definition snapshot_file :: "string \<Rightarrow> ('m datadir, unit) prog" where
  "snapshot_file name =
     bnd (attempt (copyFile name (name @ snapshotSuffix))) (\<lambda>r.
     case r of
       Inl e \<Rightarrow> if errors_Is e ErrNotExist then remove_if_there (name @ snapshotSuffix) else throw e
     | Inr _ \<Rightarrow> ret ())"

definition snapshotDB :: "('m datadir, unit) prog" where
  "snapshotDB = forEach dbFiles snapshot_file"

text \<open>A log missing from the snapshot did not exist then, so it goes too.\<close>

definition restore_file :: "nat \<Rightarrow> string \<Rightarrow> ('m datadir, unit) prog" where
  "restore_file i name =
     bnd (attempt (os_Rename (name @ snapshotSuffix) name)) (\<lambda>r.
     case r of
       Inl e \<Rightarrow> if errors_Is e ErrNotExist \<and> i > 0 then remove_if_there name else throw e
     | Inr _ \<Rightarrow> ret ())"

definition restoreDB :: "('m datadir, unit) prog" where
  "restoreDB = forEach (enumerate 0 dbFiles) (\<lambda>(i, name). restore_file i name)"

definition drop_file :: "string \<Rightarrow> ('m datadir, unit) prog" where
  "drop_file name = bnd (attempt (os_Remove (name @ snapshotSuffix))) (\<lambda>_. ret ())"

definition dropSnapshot :: "('m datadir, unit) prog" where
  "dropSnapshot = forEach dbFiles drop_file"

section \<open>The result\<close>

record update_result =
  ur_From :: string
  ur_To :: string
  ur_Error :: string

definition result_text :: "update_result \<Rightarrow> string option" where
  "result_text r = json_text (JObj ([(''from'', JStr (ur_From r)), (''to'', JStr (ur_To r))] @ omit_empty ''error'' (ur_Error r)))"

definition WriteResult :: "update_result \<Rightarrow> ('m datadir, unit) prog" where
  "WriteResult r =
     (case result_text r of
        None \<Rightarrow> throw (NewError ''json: unsupported value'')
      | Some body \<Rightarrow>
        thn (mapErr (Errorf ''write update result'') (os_WriteFile (resultName @ ''.tmp'') body))
        (os_Rename (resultName @ ''.tmp'') resultName))"

definition removeResult :: "('m datadir, unit) prog" where
  "removeResult = bnd (attempt (os_Remove resultName)) (\<lambda>_. ret ())"

text \<open>What was read, if there was a result. \<open>parse\<close> is the JSON parser; a result it refuses goes.\<close>

definition readResult :: "(string \<Rightarrow> err + update_result) \<Rightarrow> ('m datadir, update_result option) prog" where
  "readResult parse =
     bnd (attempt (os_ReadFile resultName)) (\<lambda>r.
     case r of
       Inl e \<Rightarrow> if errors_Is e ErrNotExist then ret None else throw e
     | Inr body \<Rightarrow>
       (case parse body of
          Inl e \<Rightarrow> thn removeResult (throw (Errorf ''update result'' e))
        | Inr res \<Rightarrow> ret (Some res)))"

section \<open>The swap\<close>

record ApplyOptions =
  ao_Container :: string
  ao_Image :: string
  ao_From :: string
  ao_To :: string
  ao_StopTimeout :: gotime
  ao_HealthTimeout :: gotime

text \<open>\<open>time.Duration.String\<close>.\<close>

definition trim_zeros :: "string \<Rightarrow> string" where
  "trim_zeros s = rev (dropWhile (\<lambda>c. c = CHR ''0'') (rev s))"

definition fraction :: "nat \<Rightarrow> int \<Rightarrow> string" where
  "fraction width n =
     (let s = trim_zeros (replicate (width - length (Itoa n)) (CHR ''0'') @ Itoa n) in if s = [] then [] else CHR ''.'' # s)"

definition duration_String :: "gotime \<Rightarrow> string" where
  "duration_String d =
     (let u = \<bar>d\<bar>; micro = [CHR 0xC2, CHR 0xB5] @ ''s'';
          secs = u div 10 ^ 9; mins = secs div 60; hours = mins div 60;
          t = (if u = 0 then ''0s''
               else if u < 10 ^ 3 then Itoa u @ ''ns''
               else if u < 10 ^ 6 then Itoa (u div 10 ^ 3) @ fraction 3 (u mod 10 ^ 3) @ micro
               else if u < 10 ^ 9 then Itoa (u div 10 ^ 6) @ fraction 6 (u mod 10 ^ 6) @ ''ms''
               else (if hours > 0 then Itoa hours @ ''h'' else []) @ (if mins > 0 then Itoa (mins mod 60) @ ''m'' else []) @
                    Itoa (secs mod 60) @ fraction 9 (u mod 10 ^ 9) @ ''s'')
      in if d < 0 then CHR ''-'' # t else t)"

definition Report :: "ApplyOptions \<Rightarrow> err option \<Rightarrow> ('m datadir, unit) prog" where
  "Report opts e =
     bnd (attempt (WriteResult \<lparr>ur_From = ao_From opts, ur_To = ao_To opts, ur_Error = (case e of None \<Rightarrow> [] | Some x \<Rightarrow> err_Error x)\<rparr>))
       (\<lambda>_. ret ())"

text \<open>
  The new panel's last log line. \<open>line\<close> reads the members msg and error of a JSON line.
\<close>

definition lastWords :: "(string \<Rightarrow> (string \<times> string) option) \<Rightarrow> 'd moby \<Rightarrow> string \<Rightarrow> ('d, string) prog" where
  "lastWords line mb k =
     bnd (attempt (TailUnmanaged mb k 1)) (\<lambda>r.
     ret (case r of
       Inl _ \<Rightarrow> []
     | Inr out \<Rightarrow>
       if TrimSpace out = [] then []
       else (case line out of
               Some (msg, e) \<Rightarrow> if msg = [] then '': '' @ TrimSpace out else if e = [] then '': '' @ msg else '': '' @ msg @ '': '' @ e
             | None \<Rightarrow> '': '' @ TrimSpace out)))"

text \<open>One look at the new panel: what keeps it from being healthy, if anything.\<close>

definition health_try :: "(string \<Rightarrow> (string \<times> string) option) \<Rightarrow> 'd moby \<Rightarrow> string \<Rightarrow> ('d, err option) prog" where
  "health_try line mb k =
     bnd (attempt (docker_Running mb k)) (\<lambda>r.
     case r of
       Inl e \<Rightarrow> ret (Some e)
     | Inr (running, code) \<Rightarrow>
       if \<not> running
       then bnd (lastWords line mb k) (\<lambda>w. throw (NewError (''the new version stopped (exit code '' @ Itoa code @ '')'' @ w)))
       else bnd (attempt (ExecUnmanaged mb k [''/usr/local/bin/tunploy'', ''health''])) (\<lambda>h.
         ret (case h of Inl e \<Rightarrow> Some e | Inr _ \<Rightarrow> None)))"

text \<open>
  The ticks before the deadline, each with what happened on the machine since the look before.
\<close>

primrec waitHealthy ::
  "(string \<Rightarrow> (string \<times> string) option) \<Rightarrow> 'd moby \<Rightarrow> string \<Rightarrow> gotime \<Rightarrow> ('d \<Rightarrow> 'd) list \<Rightarrow> ('d, unit) prog" where
  "waitHealthy line mb k limit [] =
     bnd (health_try line mb k) (\<lambda>r.
     case r of
       None \<Rightarrow> ret ()
     | Some e \<Rightarrow> bnd (lastWords line mb k) (\<lambda>w.
         throw (NewError (''the new version did not answer within '' @ duration_String limit @ '': '' @ err_Error e @ w))))"
| "waitHealthy line mb k limit (move # moves) =
     bnd (health_try line mb k) (\<lambda>r.
     case r of None \<Rightarrow> ret () | Some _ \<Rightarrow> thn (modify move) (waitHealthy line mb k limit moves))"

text \<open>
  Undoing: the result is written before the old panel starts again. \<open>go_back\<close> follows once no copy holds the
  database.
\<close>

definition tell_and_restore :: "'m datadir moby \<Rightarrow> ApplyOptions \<Rightarrow> Replacement option \<Rightarrow> err \<Rightarrow> ('m datadir, err) prog" where
  "tell_and_restore mb opts r e =
     thn (Report opts (Some e))
     (case r of
        None \<Rightarrow> ret e
      | Some rp \<Rightarrow> bnd (attempt (replacement_Restore mb rp)) (\<lambda>x.
          case x of
            Inl d \<Rightarrow> let e' = Join [e, Errorf ''roll back'' d] in thn (Report opts (Some e')) (ret e')
          | Inr _ \<Rightarrow> ret e))"

definition go_back :: "'m datadir moby \<Rightarrow> ApplyOptions \<Rightarrow> Replacement option \<Rightarrow> err \<Rightarrow> bool \<Rightarrow> ('m datadir, err) prog" where
  "go_back mb opts r cause db =
     bnd (if db
          then bnd (attempt restoreDB) (\<lambda>x. ret (case x of Inl d \<Rightarrow> Join [cause, Errorf ''roll back the database'' d] | Inr _ \<Rightarrow> cause))
          else thn dropSnapshot (ret cause)) (tell_and_restore mb opts r)"

definition rollBack :: "'m datadir moby \<Rightarrow> ApplyOptions \<Rightarrow> Replacement option \<Rightarrow> err \<Rightarrow> bool \<Rightarrow> ('m datadir, err) prog" where
  "rollBack mb opts r cause db =
     (case r of
        None \<Rightarrow> go_back mb opts None cause db
      | Some rp \<Rightarrow> bnd (attempt (replacement_Discard mb rp)) (\<lambda>x.
          case x of
            Inl d \<Rightarrow> let e = Join [cause, Errorf ''roll back'' d] in thn (Report opts (Some e)) (ret e)
          | Inr rp' \<Rightarrow> go_back mb opts (Some rp') cause db))"

definition start_new ::
  "(string \<Rightarrow> (string \<times> string) option) \<Rightarrow> 'm datadir moby \<Rightarrow> ('m datadir \<Rightarrow> 'm datadir) list \<Rightarrow> ApplyOptions \<Rightarrow> Replacement \<Rightarrow> ('m datadir, unit) prog" where
  "start_new line mb moves opts r =
     bnd (replacement_Start mb r) (\<lambda>(r1, started).
     bnd (case started of Some e \<Rightarrow> ret (Inl e) | None \<Rightarrow> attempt (waitHealthy line mb (rp_newID r1) (ao_HealthTimeout opts) moves)) (\<lambda>h.
     case h of
       Inl e \<Rightarrow> bnd (rollBack mb opts (Some r1) e True) throw
     | Inr _ \<Rightarrow> bnd (attempt (replacement_Commit mb r1)) (\<lambda>_. thn dropSnapshot (Report opts None))))"

definition update_Apply ::
  "(string \<Rightarrow> (string \<times> string) option) \<Rightarrow> 'm datadir moby \<Rightarrow> ('m datadir \<Rightarrow> 'm datadir) list \<Rightarrow> ApplyOptions \<Rightarrow> ('m datadir, unit) prog" where
  "update_Apply line mb moves opts =
     bnd (attempt (Replace mb (ao_Container opts) (ao_Image opts) (ao_StopTimeout opts))) (\<lambda>x.
     case x of
       Inl e \<Rightarrow> bnd (rollBack mb opts None e False) throw
     | Inr (r, Some e) \<Rightarrow> bnd (rollBack mb opts (Some r) e False) throw
     | Inr (r, None) \<Rightarrow>
       bnd (attempt snapshotDB) (\<lambda>sn.
       case sn of
         Inl e \<Rightarrow> bnd (rollBack mb opts (Some r) (Errorf ''back up the database'' e) False) throw
       | Inr _ \<Rightarrow> start_new line mb moves opts r))"

end
