(* ===== verification/Update.thy ===== *)
theory Update
  imports UpdateApply ApiServers
begin

text \<open>
  internal/update (version.go, update.go) and internal/api/update.go, system.go: finding new releases,
  starting an update and reporting how the last one went. \<open>up_dir\<close> is the data directory with the panel's
  Docker behind it.
\<close>

section \<open>Versions\<close>

record version =
  vs_core :: "int list"
  vs_pre :: string

text \<open>1.2.3 and v1.2.3, with an optional -prerelease; a +build is dropped.\<close>

definition parseVersion :: "string \<Rightarrow> version option" where
  "parseVersion s0 =
     (let s1 = fst (Cut (CHR ''+'') (TrimPrefix s0 ''v''));
          (s, pre, _) = Cut (CHR ''-'') s1;
          parts = Split (CHR ''.'') s
      in if length parts \<noteq> 3 then None
         else (case those (map ParseInt parts) of
                 None \<Rightarrow> None
               | Some ns \<Rightarrow> if list_ex (\<lambda>n. n < 0) ns then None else Some \<lparr>vs_core = ns, vs_pre = pre\<rparr>))"

definition cmp_Compare :: "int \<Rightarrow> int \<Rightarrow> int" where
  "cmp_Compare a b = (if a < b then - 1 else if a > b then 1 else 0)"

fun strings_Compare :: "string \<Rightarrow> string \<Rightarrow> int" where
  "strings_Compare [] [] = 0"
| "strings_Compare [] (d # ds) = - 1"
| "strings_Compare (c # cs) [] = 1"
| "strings_Compare (c # cs) (d # ds) = (if c = d then strings_Compare cs ds else if byte c < byte d then - 1 else 1)"

text \<open>1.2.0-rc.1 comes before 1.2.0.\<close>

definition version_compare :: "version \<Rightarrow> version \<Rightarrow> int" where
  "version_compare v w =
     (case find (\<lambda>c. c \<noteq> 0) (map2 cmp_Compare (vs_core v) (vs_core w)) of
        Some c \<Rightarrow> c
      | None \<Rightarrow>
        if vs_pre v = vs_pre w then 0
        else if vs_pre v = [] then 1
        else if vs_pre w = [] then - 1
        else strings_Compare (vs_pre v) (vs_pre w))"

definition version_newer :: "string \<Rightarrow> string \<Rightarrow> bool" where
  "version_newer latest current =
     (case parseVersion latest of
        None \<Rightarrow> False
      | Some l \<Rightarrow> (case parseVersion current of None \<Rightarrow> False | Some c \<Rightarrow> version_compare l c > 0))"

definition IsRelease :: "string \<Rightarrow> bool" where
  "IsRelease v = (parseVersion v \<noteq> None)"

section \<open>The service\<close>

definition DefaultRepo :: string where "DefaultRepo = ''kwa0x2/tunploy''"
definition installName :: string where "installName = ''tunploy''"

datatype start_error = UpdateBusy | NoUpdate | Unsupported string

definition start_Error :: "start_error \<Rightarrow> string" where
  "start_Error e =
     (case e of
        UpdateBusy \<Rightarrow> ''an update is already running''
      | NoUpdate \<Rightarrow> ''no newer version is available''
      | Unsupported why \<Rightarrow> ''this panel can't update itself: '' @ why)"

record Release =
  rl_Version :: string
  rl_URL :: string
  rl_PublishedAt :: gotime

record PanelStatus =
  pu_Current :: string
  pu_Latest :: "Release option"
  pu_Available :: bool
  pu_CheckedAt :: "gotime option"
  pu_CheckError :: string
  pu_Unsupported :: string
  pu_Updating :: string
  pu_Error :: string

record 'm updates = "'m api" +
  up_self :: "Self option"
  up_selfErr :: "err option"
  up_latest :: "Release option"
  up_checkedAt :: gotime
  up_checkErr :: string
  up_updating :: string
  up_lastErr :: string
  up_dir :: "'m datadir"

text \<open>
  What the service is made with, and what the network and the JSON parser answer: building a request, the
  status and body of a GET with its User-Agent, the message of an error, a release (its tag, page and time),
  and the updater's result.
\<close>

record 'm update_env =
  ue_env :: env
  ue_current :: string
  ue_docker :: "'m datadir moby"
  ue_hostname :: "err + string"
  ue_API :: string
  ue_request :: "string \<Rightarrow> err option"
  ue_get :: "string \<Rightarrow> string \<Rightarrow> err + int \<times> string"
  ue_message :: "string \<Rightarrow> string option"
  ue_release :: "string \<Rightarrow> err + string \<times> string \<times> gotime"
  ue_result :: "string \<Rightarrow> err + update_result"
  ue_printable :: "nat \<Rightarrow> bool"

type_synonym ('m, 'z, 'a) uprog = "(('m, 'z) updates_scheme, 'a) prog"

definition on_dir :: "('m datadir, 'a) prog \<Rightarrow> ('m, 'z, 'a) uprog" where
  "on_dir p s = (case p (up_dir s) of (r, d) \<Rightarrow> (r, s\<lparr>up_dir := d\<rparr>))"

text \<open>The container never changes while the process lives, so a hit is kept.\<close>

definition update_findSelf :: "'m update_env \<Rightarrow> ('m, 'z, Self) uprog" where
  "update_findSelf v =
     bnd (gets up_self) (\<lambda>known.
     case known of
       Some self \<Rightarrow> ret self
     | None \<Rightarrow>
       bnd (attempt (on_dir (FindSelf (ue_docker v) (ue_hostname v)))) (\<lambda>r.
       thn (modify (\<lambda>s. case r of Inr self \<Rightarrow> s\<lparr>up_self := Some self, up_selfErr := None\<rparr> | Inl e \<Rightarrow> s\<lparr>up_selfErr := Some e\<rparr>))
       (liftE r)))"

definition unsupported :: "string \<Rightarrow> err + Self \<Rightarrow> string" where
  "unsupported current self =
     (if \<not> IsRelease current then ''This is a '' @ current @ '' build, not a release. Install a release to update from the panel.''
      else (case self of
              Inl _ \<Rightarrow> ''The panel isn't running in the container the install script creates. Run the install command again to update.''
            | Inr x \<Rightarrow>
              if sf_Compose x \<noteq> []
              then ''Docker Compose manages this panel (project '' @ sf_Compose x @ ''). Update it with docker compose pull and docker compose up -d.''
              else []))"

definition Repository :: "string \<Rightarrow> string" where
  "Repository ref0 =
     (let ref = fst (Cut (CHR ''@'') ref0); i = LastIndex ref (CHR '':'') in
      if i > LastIndex ref (CHR ''/'') then take (nat i) ref else ref)"

definition repoOf :: "string \<Rightarrow> string" where
  "repoOf source =
     (let site = ''https://github.com/'' in
      if \<not> HasPrefix source site then DefaultRepo
      else let parts = Split (CHR ''/'') (TrimSuffix (drop (length site) source) ''.git'') in
        if length parts < 2 \<or> parts ! 0 = [] \<or> parts ! 1 = [] then DefaultRepo else parts ! 0 @ ''/'' @ parts ! 1)"

text \<open>No release yet is not an error.\<close>

definition fetchLatest :: "'m update_env \<Rightarrow> string \<Rightarrow> err + Release option" where
  "fetchLatest v repo =
     (let url = ue_API v @ ''/repos/'' @ repo @ ''/releases/latest'' in
      case ue_request v url of
        Some e \<Rightarrow> Inl e
      | None \<Rightarrow>
        (case ue_get v url (''tunploy/'' @ ue_current v) of
           Inl e \<Rightarrow> Inl (Errorf ''could not reach GitHub'' e)
         | Inr (status, body) \<Rightarrow>
           if status = 404 then Inr None
           else if status \<noteq> 200
           then Inl (NewError (''GitHub answered '' @ Itoa status @
             (case ue_message v (take 512 body) of Some m \<Rightarrow> if m = [] then [] else '': '' @ m | None \<Rightarrow> [])))
           else (case ue_release v (take (2 ^ 20) body) of
             Inl e \<Rightarrow> Inl (Errorf ''read GitHub's answer'' e)
           | Inr (tag, page, published) \<Rightarrow>
             if \<not> IsRelease tag then Inl (NewError (''the latest release '' @ Quote (ue_printable v) tag @ '' is not a version number''))
             else Inr (Some \<lparr>rl_Version = TrimPrefix tag ''v'', rl_URL = page, rl_PublishedAt = published\<rparr>))))"

definition update_available :: "string \<Rightarrow> Release option \<Rightarrow> bool" where
  "update_available current latest = (case latest of None \<Rightarrow> False | Some r \<Rightarrow> version_newer (rl_Version r) current)"

definition update_Status :: "'m update_env \<Rightarrow> ('m, 'z, PanelStatus) uprog" where
  "update_Status v =
     bnd (attempt (update_findSelf v)) (\<lambda>self.
     gets (\<lambda>s. \<lparr>pu_Current = ue_current v, pu_Latest = up_latest s, pu_Available = update_available (ue_current v) (up_latest s),
       pu_CheckedAt = (if up_checkedAt s = zero_time then None else Some (up_checkedAt s)), pu_CheckError = up_checkErr s,
       pu_Unsupported = unsupported (ue_current v) self, pu_Updating = up_updating s, pu_Error = up_lastErr s\<rparr>))"

text \<open>A failure is kept in the status too.\<close>

definition update_Check :: "'m update_env \<Rightarrow> ('m, 'z, PanelStatus \<times> err option) uprog" where
  "update_Check v =
     bnd (attempt (update_findSelf v)) (\<lambda>self.
     let found = fetchLatest v (repoOf (case self of Inl _ \<Rightarrow> [] | Inr x \<Rightarrow> sf_Source x)) in
     thn (modify (\<lambda>s. (case found of
         Inl e \<Rightarrow> s\<lparr>up_checkErr := err_Error e\<rparr>
       | Inr rel \<Rightarrow> s\<lparr>up_checkErr := [], up_latest := rel\<rparr>)\<lparr>up_checkedAt := env_now (ue_env v)\<rparr>))
     (bnd (update_Status v) (\<lambda>st. ret (st, case found of Inl e \<Rightarrow> Some e | Inr _ \<Rightarrow> None))))"

text \<open>What was decided, and the container to update: \<open>update_apply\<close> goes on from there on its own.\<close>

definition update_Start :: "'m update_env \<Rightarrow> ('m, 'z, start_error + Self \<times> string) uprog" where
  "update_Start v =
     bnd (attempt (update_findSelf v)) (\<lambda>self.
     bnd (gets (\<lambda>s. (up_updating s, up_latest s))) (\<lambda>(updating, latest).
     let why = unsupported (ue_current v) self in
     if updating \<noteq> [] then ret (Inl UpdateBusy)
     else if why \<noteq> [] then ret (Inl (Unsupported why))
     else case (self, latest) of
       (Inr x, Some rel) \<Rightarrow>
         if \<not> version_newer (rl_Version rel) (ue_current v) then ret (Inl NoUpdate)
         else thn (modify (\<lambda>s. s\<lparr>up_updating := rl_Version rel, up_lastErr := []\<rparr>)) (ret (Inr (x, rl_Version rel)))
     | _ \<Rightarrow> ret (Inl NoUpdate)))"

definition update_fail :: "'m update_env \<Rightarrow> string \<Rightarrow> err \<Rightarrow> ('m, 'z, unit) uprog" where
  "update_fail v target e =
     thn (modify (\<lambda>s. s\<lparr>up_updating := [], up_lastErr := err_Error e\<rparr>))
     (Record (ue_env v) ((blank_event ''panel.update_failed'')\<lparr>e_Detail := target\<rparr>))"

text \<open>What the updater wrote is reported once.\<close>

definition consumeResult :: "'m update_env \<Rightarrow> ('m, 'z, bool) uprog" where
  "consumeResult v =
     bnd (attempt (on_dir (readResult (ue_result v)))) (\<lambda>r.
     case r of
       Inr (Some res) \<Rightarrow>
         thn (on_dir removeResult)
         (thn (if ur_Error res \<noteq> [] then update_fail v (ur_To res) (NewError (ur_Error res))
               else if ur_To res = ue_current v
               then Record (ue_env v) ((blank_event ''panel.updated'')\<lparr>e_Detail := ur_To res\<rparr>)
               else ret ())
         (ret True))
     | _ \<Rightarrow> ret False)"

definition updaterGone :: "'m update_env \<Rightarrow> ('m, 'z, bool) uprog" where
  "updaterGone v =
     bnd (attempt (on_dir (docker_Running (ue_docker v) UpdaterName))) (\<lambda>r.
     ret (case r of Inl e \<Rightarrow> errors_Is e DockerNotFound | Inr _ \<Rightarrow> False))"

text \<open>A tick: whether the wait is over.\<close>

definition apply_tick :: "'m update_env \<Rightarrow> string \<Rightarrow> ('m, 'z, bool) uprog" where
  "apply_tick v target =
     bnd (consumeResult v) (\<lambda>reported.
     if reported then ret True
     else bnd (updaterGone v) (\<lambda>gone.
       if \<not> gone then ret False
       else bnd (consumeResult v) (\<lambda>late.
         if late then ret False
         else thn (update_fail v target (NewError ''the updater stopped before it replaced the panel'')) (ret True))))"

text \<open>The ticks before the time is up, each with what happened on the machine since the one before.\<close>

primrec apply_wait :: "'m update_env \<Rightarrow> string \<Rightarrow> ('m datadir \<Rightarrow> 'm datadir) list \<Rightarrow> ('m, 'z, unit) uprog" where
  "apply_wait v target [] = update_fail v target (NewError ''the update did not finish in time'')"
| "apply_wait v target (move # moves) =
     thn (on_dir (modify move))
     (bnd (apply_tick v target) (\<lambda>over. if over then ret () else apply_wait v target moves))"

definition update_apply :: "'m update_env \<Rightarrow> Self \<Rightarrow> string \<Rightarrow> ('m datadir \<Rightarrow> 'm datadir) list \<Rightarrow> ('m, 'z, unit) uprog" where
  "update_apply v self target moves =
     (let img = Repository (sf_Image self) @ '':'' @ target in
      thn (on_dir removeResult)
      (bnd (attempt (on_dir (PullImage (ue_docker v) img))) (\<lambda>pulled.
       case pulled of
         Inl e \<Rightarrow> update_fail v target (Errorf (''download '' @ img) e)
       | Inr _ \<Rightarrow>
         bnd (attempt (on_dir (StartUpdater (ue_docker v) self img
           [''self-update'', ''--container'', sf_ID self, ''--image'', img, ''--from'', ue_current v, ''--to'', target]))) (\<lambda>started.
         case started of
           Inl e \<Rightarrow> update_fail v target e
         | Inr _ \<Rightarrow> apply_wait v target moves))))"

text \<open>A panel that just replaced the old one hears about it here.\<close>

primrec awaitResult :: "'m update_env \<Rightarrow> ('m datadir \<Rightarrow> 'm datadir) list \<Rightarrow> ('m, 'z, unit) uprog" where
  "awaitResult v [] = ret ()"
| "awaitResult v (move # moves) =
     thn (on_dir (modify move)) (bnd (consumeResult v) (\<lambda>reported. if reported then ret () else awaitResult v moves))"

definition ReportLast :: "'m update_env \<Rightarrow> ('m, 'z, unit) uprog" where
  "ReportLast v = bnd (consumeResult v) (\<lambda>_. ret ())"

text \<open>The tunploy command, on a server the install script made; a failure is only logged.\<close>

definition EnsureHostCLI :: "'m update_env \<Rightarrow> ('m, 'z, unit) uprog" where
  "EnsureHostCLI v =
     bnd (attempt (update_findSelf v)) (\<lambda>r.
     case r of
       Inl _ \<Rightarrow> ret ()
     | Inr self \<Rightarrow>
       if sf_Compose self \<noteq> [] \<or> sf_Name self \<noteq> installName then ret ()
       else bnd (attempt (on_dir (RunHelper (ue_docker v) ''tunploy-host-cli'' (sf_Image self)
           [''host-cli'', ''/host/tunploy'', Repository (sf_Image self)] [''/usr/local/bin:/host'']))) (\<lambda>_. ret ()))"

definition ContainerName :: "'m update_env \<Rightarrow> ('m, 'z, string) uprog" where
  "ContainerName v = bnd (attempt (update_findSelf v)) (\<lambda>r. ret (case r of Inl _ \<Rightarrow> [] | Inr self \<Rightarrow> sf_Name self))"

section \<open>Over HTTP\<close>

definition release_json :: "Release \<Rightarrow> json" where
  "release_json r = JObj [(''version'', JStr (rl_Version r)), (''url'', JStr (rl_URL r)), (''published_at'', JTime (rl_PublishedAt r))]"

definition panelStatus_json :: "PanelStatus \<Rightarrow> json" where
  "panelStatus_json st = JObj ([(''current'', JStr (pu_Current st))] @
     (case pu_Latest st of None \<Rightarrow> [] | Some r \<Rightarrow> [(''latest'', release_json r)]) @ [(''available'', JBool (pu_Available st))] @
     (case pu_CheckedAt st of None \<Rightarrow> [] | Some t \<Rightarrow> [(''checked_at'', JTime t)]) @ omit_empty ''check_error'' (pu_CheckError st) @
     omit_empty ''unsupported'' (pu_Unsupported st) @ omit_empty ''updating'' (pu_Updating st) @ omit_empty ''error'' (pu_Error st))"

definition handleUpdateStatus :: "'m update_env \<Rightarrow> ('m, 'z, unit) uprog" where
  "handleUpdateStatus v = bnd (update_Status v) (\<lambda>st. JSON 200 (panelStatus_json st))"

definition handleCheckUpdate :: "'m update_env \<Rightarrow> ('m, 'z, unit) uprog" where
  "handleCheckUpdate v = bnd (update_Check v) (\<lambda>(st, _). JSON 200 (panelStatus_json st))"

definition handleStartUpdate :: "'m update_env \<Rightarrow> ('m, 'z, unit) uprog" where
  "handleStartUpdate v =
     bnd (update_Start v) (\<lambda>r.
     case r of
       Inl e \<Rightarrow> throw (http_Conflict (start_Error e))
     | Inr _ \<Rightarrow> bnd (update_Status v) (\<lambda>st. JSON 202 (panelStatus_json st)))"

definition info_json :: "docker_info \<Rightarrow> json" where
  "info_json i = JObj [(''version'', JStr (di_Version i)), (''api_version'', JStr (di_APIVersion i)), (''os'', JStr (di_OS i)), (''arch'', JStr (di_Arch i))]"

text \<open>A daemon that is down is a state to show.\<close>

definition handleDockerStatus :: "'m update_env \<Rightarrow> ('m, 'z, unit) uprog" where
  "handleDockerStatus v =
     bnd (attempt (on_dir (docker_Ping (ue_docker v)))) (\<lambda>r.
     case r of
       Inl e \<Rightarrow> JSON 200 (JObj ([(''available'', JBool False)] @ omit_empty ''error'' (err_Error e)))
     | Inr i \<Rightarrow> bnd (ContainerName v) (\<lambda>name.
         JSON 200 (JObj ([(''available'', JBool True), (''info'', info_json i)] @ omit_empty ''container'' name))))"

end
