(* ===== verification/UpdateProperties.thy ===== *)
theory UpdateProperties
  imports Update CommandProperties
begin

text \<open>
  Properties of updates (internal/update): an update that fails leaves the old panel with the database it
  stopped with, and says why; one that succeeds has seen the new panel answer; newer is an order, one update
  runs at a time, and a reason that comes late is lost.
\<close>

section \<open>Files that work\<close>

text \<open>The files only the updater writes, and the state where they are as \<open>F\<close> says and no file operation fails any more.\<close>

definition own_files :: "string list" where
  "own_files = [''update.json'', ''update.json.tmp'', ''tunploy.db.pre-update'', ''tunploy.db-wal.pre-update'', ''tunploy.db-shm.pre-update'']"

definition kept :: "(string \<Rightarrow> string option) \<Rightarrow> 'm datadir \<Rightarrow> bool" where
  "kept F s \<longleftrightarrow> dd_faults s = [] \<and> map (dd_files s) own_files = map F own_files"

definition same_db :: "(string \<Rightarrow> string option) \<Rightarrow> 'm datadir \<Rightarrow> bool" where
  "same_db D s \<longleftrightarrow> map (dd_files s) dbFiles = map D dbFiles"

lemmas file_names = own_files_def dbFiles_def resultName_def snapshotSuffix_def
lemmas file_ops = os_ReadFile_def os_Create_def os_Write_def os_Sync_def os_Close_def os_Rename_def os_Remove_def fs_step_def put_file_def
  not_there_def ErrNotExist_def

definition with_files :: "(string \<Rightarrow> string option) \<Rightarrow> 'm datadir \<Rightarrow> 'm datadir" where
  "with_files f s = s\<lparr>dd_files := f\<rparr>"

definition snap :: "(string \<Rightarrow> string option) \<Rightarrow> string \<Rightarrow> string option" where
  "snap f = f(''tunploy.db.pre-update'' := f ''tunploy.db'', ''tunploy.db-wal.pre-update'' := f ''tunploy.db-wal'',
     ''tunploy.db-shm.pre-update'' := f ''tunploy.db-shm'')"

definition dropped :: "(string \<Rightarrow> string option) \<Rightarrow> string \<Rightarrow> string option" where
  "dropped f = f(''tunploy.db.pre-update'' := None, ''tunploy.db-wal.pre-update'' := None, ''tunploy.db-shm.pre-update'' := None)"

definition unsnap :: "(string \<Rightarrow> string option) \<Rightarrow> string \<Rightarrow> string option" where
  "unsnap f = (dropped f)(''tunploy.db'' := f ''tunploy.db.pre-update'', ''tunploy.db-wal'' := f ''tunploy.db-wal.pre-update'',
     ''tunploy.db-shm'' := f ''tunploy.db-shm.pre-update'')"

lemma copyFile_run:
  assumes "dd_faults s = []" "src \<noteq> dst"
  shows "attempt (copyFile src dst) s = (case dd_files s src of
      None \<Rightarrow> (Inr (Inl (not_there ''open'' src)), s)
    | Some b \<Rightarrow> (Inr (Inr ()), with_files ((dd_files s)(dst := Some b)) s))"
  using assms by (simp add: copyFile_def file_ops bnd_def thn_def attempt_def with_files_def split: option.split)

lemma remove_run:
  assumes "dd_faults s = []"
  shows "remove_if_there name s = (Inr (), with_files ((dd_files s)(name := None)) s)"
  using assms by (cases "dd_files s name")
    (simp_all add: remove_if_there_def file_ops bnd_def attempt_def ret_def with_files_def fun_upd_idem)

lemma not_there_Is [simp]: "errors_Is (not_there op name) ErrNotExist"
  by (simp add: not_there_def ErrNotExist_def)

lemma with_files_simps [simp]:
  "dd_faults (with_files f s) = dd_faults s" "dd_files (with_files f s) = f" "with_files f (with_files g s) = with_files f s"
  by (simp_all add: with_files_def)

lemma suffixed [simp]: "snapshotSuffix \<noteq> []" by (simp add: snapshotSuffix_def)

lemma snapshot_file_run:
  assumes "dd_faults s = []"
  shows "snapshot_file name s = (Inr (), with_files ((dd_files s)(name @ snapshotSuffix := dd_files s name)) s)"
  using assms by (simp add: snapshot_file_def bnd_def copyFile_run remove_run ret_def split: option.split)

lemma snapshotDB_run: "dd_faults s = [] \<Longrightarrow> snapshotDB s = (Inr (), with_files (snap (dd_files s)) s)"
  by (simp add: snapshotDB_def dbFiles_def thn_def bnd_run_Inr snapshot_file_run snapshotSuffix_def snap_def ret_def)

lemma restore_file_run:
  assumes "dd_faults s = []" "i > 0 \<or> dd_files s (name @ snapshotSuffix) \<noteq> None"
  shows "restore_file i name s = (Inr (), with_files ((dd_files s)(name @ snapshotSuffix := None, name := dd_files s (name @ snapshotSuffix))) s)"
proof (cases "dd_files s (name @ snapshotSuffix)")
  case None
  then show ?thesis using assms
    by (simp add: restore_file_def bnd_def attempt_def os_Rename_def fs_step_def remove_run fun_upd_idem)
next
  case (Some b)
  then show ?thesis using assms
    by (simp add: restore_file_def bnd_def attempt_def os_Rename_def fs_step_def put_file_def with_files_def ret_def)
qed

lemma restoreDB_run:
  assumes "dd_faults s = []" "dd_files s ''tunploy.db.pre-update'' \<noteq> None"
  shows "restoreDB s = (Inr (), with_files (unsnap (dd_files s)) s)"
proof -
  have 0: "restore_file 0 ''tunploy.db'' s = (Inr (), with_files ((dd_files s)(''tunploy.db.pre-update'' := None,
      ''tunploy.db'' := dd_files s ''tunploy.db.pre-update'')) s)"
    using restore_file_run [OF assms(1), of 0 "''tunploy.db''"] assms(2) by (simp add: snapshotSuffix_def)
  have later: "dd_faults u = [] \<Longrightarrow> i > 0 \<Longrightarrow>
      restore_file i n u = (Inr (), with_files ((dd_files u)(n @ snapshotSuffix := None, n := dd_files u (n @ snapshotSuffix))) u)" for u :: "'a datadir" and i n
    by (rule restore_file_run) auto
  show ?thesis using assms(1)
    by (simp add: restoreDB_def dbFiles_def thn_def bnd_run_Inr 0 later ret_def unsnap_def dropped_def snapshotSuffix_def fun_upd_twist)
qed

lemma drop_file_run: "dd_faults s = [] \<Longrightarrow> drop_file n s = (Inr (), with_files ((dd_files s)(n @ snapshotSuffix := None)) s)"
  by (cases "dd_files s (n @ snapshotSuffix)") (simp_all add: drop_file_def file_ops bnd_def attempt_def ret_def with_files_def fun_upd_idem)

lemma dropSnapshot_run: "dd_faults s = [] \<Longrightarrow> dropSnapshot s = (Inr (), with_files (dropped (dd_files s)) s)"
  by (simp add: dropSnapshot_def dbFiles_def thn_def bnd_run_Inr drop_file_run snapshotSuffix_def dropped_def ret_def)

definition outcome_of :: "ApplyOptions \<Rightarrow> err option \<Rightarrow> string option" where
  "outcome_of opts e = result_text \<lparr>ur_From = ao_From opts, ur_To = ao_To opts, ur_Error = (case e of None \<Rightarrow> [] | Some x \<Rightarrow> err_Error x)\<rparr>"

lemma result_text_Some: "\<exists>b. result_text r = Some b"
  by (simp add: result_text_def omit_empty_def)

lemma Report_run:
  assumes "dd_faults s = []"
  shows "Report opts e s = (Inr (), with_files ((dd_files s)(''update.json.tmp'' := None, ''update.json'' := outcome_of opts e)) s)"
proof -
  obtain b where b: "outcome_of opts e = Some b" using result_text_Some unfolding outcome_of_def by blast
  then show ?thesis using assms
    by (simp add: Report_def WriteResult_def outcome_of_def os_WriteFile_def resultName_def bnd_def thn_def attempt_def mapErr_def file_ops
        ret_def with_files_def)
qed

section \<open>What Docker leaves alone\<close>

definition call_keeps :: "('d \<Rightarrow> bool) \<Rightarrow> ('d, 'a) mcall \<Rightarrow> bool" where
  "call_keeps I m \<longleftrightarrow> (\<forall>s. I s \<longrightarrow> I (snd (m s)))"

definition moby_keeps :: "('d \<Rightarrow> bool) \<Rightarrow> 'd moby \<Rightarrow> bool" where
  "moby_keeps I mb \<longleftrightarrow>
     (\<forall>k. call_keeps I (mb_ContainerInspect mb k) \<and> call_keeps I (mb_ContainerStart mb k) \<and> call_keeps I (mb_ContainerRemove mb k)
        \<and> call_keeps I (mb_ExecAttach mb k) \<and> call_keeps I (mb_ExecInspect mb k) \<and> call_keeps I (mb_ImageInspect mb k)) \<and>
     (\<forall>c. call_keeps I (mb_ContainerCreate mb c)) \<and> (\<forall>k n. call_keeps I (mb_ContainerStop mb k n)) \<and>
     (\<forall>k n. call_keeps I (mb_ContainerRename mb k n)) \<and> (\<forall>k n follow. call_keeps I (mb_ContainerLogs mb k n follow)) \<and>
     (\<forall>k cmd. call_keeps I (mb_ExecCreate mb k cmd))"

lemma keeps_api_call: "call_keeps I m \<Longrightarrow> keeps I (api_call op m)"
  unfolding keeps_def call_keeps_def api_call_def by (fastforce split: prod.splits sum.splits)

lemma moby_keeps_calls:
  assumes "moby_keeps I mb"
  shows "keeps I (api_call op (mb_ContainerInspect mb k))" "keeps I (api_call op (mb_ContainerStart mb k))"
    "keeps I (api_call op (mb_ContainerRemove mb k))" "keeps I (api_call op (mb_ExecAttach mb k))" "keeps I (api_call op (mb_ExecInspect mb k))"
    "keeps I (api_call op (mb_ImageInspect mb k))" "keeps I (api_call op (mb_ContainerCreate mb c))"
    "keeps I (api_call op (mb_ContainerStop mb k n))" "keeps I (api_call op (mb_ContainerRename mb k name))"
    "keeps I (api_call op (mb_ContainerLogs mb k n follow))" "keeps I (api_call op (mb_ExecCreate mb k cmd))"
  using assms by (simp_all add: moby_keeps_def keeps_api_call)

lemma keeps_cloneConfig: "moby_keeps I mb \<Longrightarrow> keeps I (cloneConfig mb old img)"
  unfolding cloneConfig_def Let_def
  by (intro keeps_case_prod keeps_case_option keeps_bnd moby_keeps_calls keeps_ret keeps_throw)

lemma keeps_Replace: "moby_keeps I mb \<Longrightarrow> keeps I (Replace mb k img stop)"
  unfolding Replace_def Let_def
  by (intro keeps_bnd keeps_case_prod keeps_attempt moby_keeps_calls keeps_cloneConfig keeps_ret)

lemma keeps_replacement_Start: "moby_keeps I mb \<Longrightarrow> keeps I (replacement_Start mb r)"
  unfolding replacement_Start_def by (intro keeps_bnd keeps_attempt keeps_case_sum moby_keeps_calls keeps_ret)

lemma keeps_replacement_Discard: "moby_keeps I mb \<Longrightarrow> keeps I (replacement_Discard mb r)"
  unfolding replacement_Discard_def by (intro keeps_if keeps_bnd moby_keeps_calls keeps_ret)

lemma keeps_replacement_Commit: "moby_keeps I mb \<Longrightarrow> keeps I (replacement_Commit mb r)"
  unfolding replacement_Commit_def by (intro moby_keeps_calls)

lemma keeps_replacement_Restore: "moby_keeps I mb \<Longrightarrow> keeps I (replacement_Restore mb r)"
  unfolding replacement_Restore_def by (intro keeps_bnd keeps_if moby_keeps_calls keeps_ret)

lemma keeps_TailUnmanaged: "moby_keeps I mb \<Longrightarrow> keeps I (TailUnmanaged mb k n)"
  unfolding TailUnmanaged_def docker_logs_def
  by (intro keeps_bnd keeps_case_prod moby_keeps_calls) (auto split: stream_end.split)

lemma keeps_ExecUnmanaged: "moby_keeps I mb \<Longrightarrow> keeps I (ExecUnmanaged mb k cmd)"
  unfolding ExecUnmanaged_def docker_exec_def
  by (intro keeps_bnd keeps_case_prod keeps_if keeps_mapErr moby_keeps_calls keeps_liftE keeps_throw keeps_ret)

lemma keeps_docker_Running: "moby_keeps I mb \<Longrightarrow> keeps I (docker_Running mb k)"
  unfolding docker_Running_def by (intro keeps_bnd moby_keeps_calls keeps_ret)

lemma keeps_health_try: "moby_keeps I mb \<Longrightarrow> keeps I (health_try line mb k)"
  unfolding health_try_def lastWords_def
  by (intro keeps_bnd keeps_attempt keeps_case_sum keeps_case_prod keeps_if keeps_docker_Running keeps_ExecUnmanaged keeps_TailUnmanaged
      keeps_ret keeps_throw)

lemma keeps_waitHealthy:
  assumes "moby_keeps I mb" "\<forall>f \<in> set moves. \<forall>s. I s \<longrightarrow> I (f s)"
  shows "keeps I (waitHealthy line mb k limit moves)"
  using assms(2)
proof (induction moves)
  case Nil
  show ?case unfolding waitHealthy.simps lastWords_def
    by (intro keeps_bnd keeps_case_option keeps_attempt keeps_health_try keeps_TailUnmanaged assms(1) keeps_ret keeps_throw)
next
  case (Cons f fs)
  then show ?case unfolding waitHealthy.simps
    by (intro keeps_bnd keeps_case_option keeps_thn keeps_health_try assms(1) keeps_ret keeps_modify) auto
qed

text \<open>
  What an update counts on: nothing but the updater writes the updater's own files and Docker's calls do
  not make the disk fail; what starting or renaming the old container does to the database comes after the
  call; a container can be removed; and \<open>k\<close> is the container's full ID.
\<close>

definition tame :: "'m datadir moby \<Rightarrow> ('m datadir \<Rightarrow> 'm datadir) list \<Rightarrow> string \<Rightarrow> bool" where
  "tame mb moves k \<longleftrightarrow>
     (\<forall>F. moby_keeps (kept F) mb \<and> (\<forall>f \<in> set moves. \<forall>s. kept F s \<longrightarrow> kept F (f s))) \<and>
     (\<forall>D n. call_keeps (same_db D) (mb_ContainerRename mb k n)) \<and> (\<forall>D. call_keeps (same_db D) (mb_ContainerStart mb k)) \<and>
     (\<forall>c s. \<exists>s'. mb_ContainerRemove mb c s = (Inr (), s')) \<and>
     (\<forall>s ct s'. mb_ContainerInspect mb k s = (Inr ct, s') \<longrightarrow> mi_ID ct = k)"

lemma tameD:
  assumes "tame mb moves k"
  shows "moby_keeps (kept F) mb" "\<forall>f \<in> set moves. \<forall>s. kept F s \<longrightarrow> kept F (f s)"
    "keeps (same_db D) (api_call op (mb_ContainerRename mb k n))" "keeps (same_db D) (api_call op (mb_ContainerStart mb k))"
    "\<exists>s'. mb_ContainerRemove mb c s = (Inr (), s')"
  using assms by (auto simp: tame_def intro!: keeps_api_call)

lemma tame_ID: "tame mb moves k \<Longrightarrow> mb_ContainerInspect mb k s = (Inr ct, s') \<Longrightarrow> mi_ID ct = k"
  unfolding tame_def by blast

lemma kept_self: "dd_faults s = [] \<Longrightarrow> kept (dd_files s) s"
  by (simp add: kept_def)

lemma Replace_shape:
  assumes "tame mb moves k" "Replace mb k img stop s = (Inr (r, oe), t)"
  shows "mi_ID (rp_old r) = k" "rp_newID r = []"
  using assms(2) tame_ID[OF assms(1)]
  by (auto simp: Replace_def bnd_def api_call_def attempt_def ret_def Let_def split: prod.splits sum.splits)

lemma Start_old: "replacement_Start mb r s = (x, t) \<Longrightarrow> \<exists>r1 oe. x = Inr (r1, oe) \<and> rp_old r1 = rp_old r"
  by (auto simp: replacement_Start_def bnd_def attempt_def ret_def split: prod.splits sum.splits)

lemma Discard_works:
  assumes "tame mb moves k"
  shows "\<exists>r' t. replacement_Discard mb r s = (Inr r', t) \<and> rp_old r' = rp_old r"
  using tameD(5)[OF assms, of "rp_newID r" s]
  by (auto simp: replacement_Discard_def bnd_def api_call_def ret_def split: prod.splits sum.splits)

section \<open>Going back\<close>

definition pre_files :: "string list" where
  "pre_files = [''tunploy.db.pre-update'', ''tunploy.db-wal.pre-update'', ''tunploy.db-shm.pre-update'']"

text \<open>Where an update that failed ends: the database \<open>D\<close>, no snapshot, and the reason.\<close>

definition told :: "ApplyOptions \<Rightarrow> string option list \<Rightarrow> err + err \<Rightarrow> 'm datadir \<Rightarrow> bool" where
  "told opts D x s \<longleftrightarrow> map (dd_files s) dbFiles = D \<and> map (dd_files s) pre_files = [None, None, None] \<and>
     (\<exists>e. x = Inr e \<and> dd_files s ''update.json'' = outcome_of opts (Some e))"

lemma told_err: "told opts D y s \<Longrightarrow> y = Inr e \<or> y = Inl e \<Longrightarrow> told opts D (Inr e) s"
  by (auto simp: told_def)

lemma tell_told:
  assumes t: "tame mb moves k" and r: "\<forall>rp. r = Some rp \<longrightarrow> mi_ID (rp_old rp) = k"
    and v: "dd_faults v = []" "map (dd_files v) pre_files = [None, None, None]"
    and run: "tell_and_restore mb opts r e v = (x, s')"
  shows "told opts (map (dd_files v) dbFiles) x s'"
proof -
  define v1 where "v1 = with_files ((dd_files v)(''update.json.tmp'' := None, ''update.json'' := outcome_of opts (Some e))) v"
  have v1: "Report opts (Some e) v = (Inr (), v1)" "dd_faults v1 = []" using Report_run[OF v(1)] v(1) by (simp_all add: v1_def)
  have v1_told: "told opts (map (dd_files v) dbFiles) (Inr e) v1" using v(2) by (simp add: told_def v1_def pre_files_def dbFiles_def)
  show ?thesis
  proof (cases r)
    case None
    then show ?thesis using run v1(1) v1_told by (auto simp: tell_and_restore_def thn_def bnd_run_Inr ret_def)
  next
    case (Some rp)
    obtain y w where w: "replacement_Restore mb rp v1 = (y, w)" by fastforce
    have old: "mi_ID (rp_old rp) = k" using r Some by simp
    have same: "keeps (same_db (dd_files v1)) (replacement_Restore mb rp)"
      unfolding replacement_Restore_def old by (intro keeps_bnd keeps_if tameD[OF t] keeps_ret)
    have db: "same_db (dd_files v1) w" using keepsD[OF same, of v1] w by (simp add: same_db_def)
    have own: "kept (dd_files v1) w"
      by (rule keeps_run[where I = "kept (dd_files v1)", OF keeps_replacement_Restore[OF tameD(1)[OF t]] kept_self[OF v1(2)] w])
    have w_told: "told opts (map (dd_files v) dbFiles) (Inr e) w"
      using v1_told db own by (auto simp: told_def same_db_def kept_def own_files_def pre_files_def)
    show ?thesis
    proof (cases y)
      case (Inl d)
      let ?e = "Join [e, Errorf ''roll back'' d]"
      have "dd_faults w = []" using own by (simp add: kept_def)
      then have "x = Inr ?e" "s' = with_files ((dd_files w)(''update.json.tmp'' := None, ''update.json'' := outcome_of opts (Some ?e))) w"
        using run Some v1(1) w Inl by (auto simp: tell_and_restore_def thn_def bnd_def attempt_def Report_run ret_def Let_def)
      then show ?thesis using w_told by (simp add: told_def pre_files_def dbFiles_def)
    next
      case (Inr u)
      then show ?thesis using run Some v1(1) w w_told by (auto simp: tell_and_restore_def thn_def bnd_def attempt_def ret_def)
    qed
  qed
qed

lemma go_back_keeping:
  assumes t: "tame mb moves k" and r: "\<forall>rp. r = Some rp \<longrightarrow> mi_ID (rp_old rp) = k"
    and u: "dd_faults u = []" and run: "go_back mb opts r cause False u = (x, s')"
  shows "told opts (map (dd_files u) dbFiles) x s'"
proof -
  let ?v = "with_files (dropped (dd_files u)) u"
  have "tell_and_restore mb opts r cause ?v = (x, s')"
    using run u by (simp add: go_back_def thn_def bnd_def dropSnapshot_run ret_def)
  from tell_told[OF t r _ _ this] show ?thesis using u by (simp add: dropped_def pre_files_def dbFiles_def)
qed

lemma go_back_restoring:
  assumes t: "tame mb moves k" and r: "\<forall>rp. r = Some rp \<longrightarrow> mi_ID (rp_old rp) = k"
    and u: "dd_faults u = []" "dd_files u ''tunploy.db.pre-update'' \<noteq> None" and run: "go_back mb opts r cause True u = (x, s')"
  shows "told opts (map (dd_files u) pre_files) x s'"
proof -
  let ?v = "with_files (unsnap (dd_files u)) u"
  have "tell_and_restore mb opts r cause ?v = (x, s')"
    using run restoreDB_run[OF u] by (simp add: go_back_def bnd_def attempt_def ret_def)
  from tell_told[OF t r _ _ this] show ?thesis using u by (simp add: unsnap_def dropped_def pre_files_def dbFiles_def)
qed

lemma rollBack_keeping:
  assumes t: "tame mb moves k" and r: "mi_ID (rp_old r) = k" "rp_newID r = []" and u: "dd_faults u = []"
    and run: "rollBack mb opts (Some r) cause False u = (x, s')"
  shows "told opts (map (dd_files u) dbFiles) x s'"
proof (rule go_back_keeping[OF t _ u])
  show "go_back mb opts (Some r) cause False u = (x, s')"
    using run r(2) by (simp add: rollBack_def replacement_Discard_def bnd_def attempt_def ret_def)
qed (use r(1) in simp)

lemma rollBack_restoring:
  assumes t: "tame mb moves k" and r: "mi_ID (rp_old r) = k" and u: "kept F u" "F ''tunploy.db.pre-update'' \<noteq> None"
    and run: "rollBack mb opts (Some r) cause True u = (x, s')"
  shows "told opts (map F pre_files) x s'"
proof -
  obtain r' w where w: "replacement_Discard mb r u = (Inr r', w)" "rp_old r' = rp_old r" using Discard_works[OF t] by blast
  have F: "kept F w" by (rule keeps_run[where I = "kept F", OF keeps_replacement_Discard[OF tameD(1)[OF t]] u(1) w(1)])
  then have pre: "map (dd_files w) pre_files = map F pre_files" "dd_faults w = []" by (auto simp: kept_def own_files_def pre_files_def)
  then have main: "dd_files w ''tunploy.db.pre-update'' \<noteq> None" using u(2) by (simp add: pre_files_def)
  have "go_back mb opts (Some r') cause True w = (x, s')" using run w(1) by (simp add: rollBack_def bnd_def attempt_def)
  from go_back_restoring[OF t _ pre(2) main this] show ?thesis using pre(1) w(2) r by simp
qed

lemma snap_pre: "map (snap f) pre_files = map f dbFiles"
  by (simp add: snap_def pre_files_def dbFiles_def)

text \<open>A new panel that did not come up, or came up.\<close>

lemma start_new_failed:
  assumes t: "tame mb moves k" and r: "mi_ID (rp_old r) = k" and u: "kept F u" "F ''tunploy.db.pre-update'' \<noteq> None"
    and run: "start_new line mb moves opts r u = (Inl e, s')"
  shows "told opts (map F pre_files) (Inr e) s'"
proof -
  obtain r1 oe u1 where u1: "replacement_Start mb r u = (Inr (r1, oe), u1)" "rp_old r1 = rp_old r"
    using Start_old by (metis surj_pair)
  have k1: "kept F u1" by (rule keeps_run[where I = "kept F", OF keeps_replacement_Start[OF tameD(1)[OF t]] u(1) u1(1)])
  have old: "mi_ID (rp_old r1) = k" using u1(2) r by simp
  show ?thesis
  proof (cases oe)
    case (Some c)
    then obtain x where x: "rollBack mb opts (Some r1) c True u1 = (x, s')" "x = Inr e \<or> x = Inl e"
      using run u1(1) by (auto simp: start_new_def bnd_def ret_def throw_def split: prod.splits sum.splits)
    show ?thesis by (rule told_err[OF rollBack_restoring[OF t old k1 u(2) x(1)] x(2)])
  next
    case None
    obtain h u2 where u2: "waitHealthy line mb (rp_newID r1) (ao_HealthTimeout opts) moves u1 = (h, u2)" by fastforce
    have k2: "kept F u2" by (rule keeps_run[where I = "kept F", OF keeps_waitHealthy[OF tameD(1,2)[OF t]] k1 u2])
    show ?thesis
    proof (cases h)
      case (Inl c)
      then obtain x where x: "rollBack mb opts (Some r1) c True u2 = (x, s')" "x = Inr e \<or> x = Inl e"
        using run u1(1) u2 None by (auto simp: start_new_def bnd_def attempt_def throw_def split: prod.splits sum.splits)
      show ?thesis by (rule told_err[OF rollBack_restoring[OF t old k2 u(2) x(1)] x(2)])
    next
      case (Inr y)
      obtain c u3 where u3: "replacement_Commit mb r1 u2 = (c, u3)" by fastforce
      have "kept F u3" by (rule keeps_run[where I = "kept F", OF keeps_replacement_Commit[OF tameD(1)[OF t]] k2 u3])
      then have "dd_faults u3 = []" by (simp add: kept_def)
      then show ?thesis using run u1(1) u2 u3 None Inr
        by (simp add: start_new_def bnd_def attempt_def thn_def dropSnapshot_run Report_run)
    qed
  qed
qed

section \<open>A failed update\<close>


section \<open>An update that takes over\<close>

definition answered :: "'d moby \<Rightarrow> string \<Rightarrow> bool" where
  "answered mb k \<longleftrightarrow> (\<exists>s s1 s2 code out. docker_Running mb k s = (Inr (True, code), s1) \<and>
     ExecUnmanaged mb k [''/usr/local/bin/tunploy'', ''health''] s1 = (Inr out, s2))"

lemma health_try_answered: "health_try line mb k s = (Inr None, s') \<Longrightarrow> answered mb k"
  unfolding answered_def by (auto simp: health_try_def bnd_def attempt_def ret_def throw_def split: prod.splits sum.splits if_splits)

lemma waitHealthy_answered: "waitHealthy line mb k limit moves s = (Inr u, s') \<Longrightarrow> answered mb k"
proof (induction moves arbitrary: s)
  case Nil
  then show ?case by (auto simp: bnd_def throw_def split: prod.splits sum.splits option.splits intro: health_try_answered)
next
  case (Cons f fs)
  then show ?case by (auto simp: bnd_def thn_def split: prod.splits sum.splits option.splits intro: health_try_answered)
qed

text \<open>The end of an update that succeeds.\<close>

lemma update_Apply_Inr:
  assumes t: "tame mb moves (ao_Container opts)" and s: "dd_faults s = []"
    and run: "update_Apply line mb moves opts s = (Inr x, s')"
  shows "\<exists>k u. answered mb k \<and> dd_faults u = [] \<and> thn dropSnapshot (Report opts None) u = (Inr x, s')"
proof -
  obtain r u where r: "Replace mb (ao_Container opts) (ao_Image opts) (ao_StopTimeout opts) s = (Inr (r, None), u)"
    using run by (auto simp: update_Apply_def bnd_def attempt_def throw_def split: prod.splits sum.splits option.splits)
  have "kept (dd_files s) u" by (rule keeps_run[where I = "kept (dd_files s)", OF keeps_Replace[OF tameD(1)[OF t]] kept_self[OF s] r])
  then have u: "dd_faults u = []" by (simp add: kept_def)
  define u0 where "u0 = with_files (snap (dd_files u)) u"
  have k0: "kept (dd_files u0) u0" using u by (simp add: u0_def kept_def)
  have "start_new line mb moves opts r u0 = (Inr x, s')" using run r u by (simp add: u0_def update_Apply_def bnd_def attempt_def snapshotDB_run)
  then obtain r1 u1 y u2 c u3 where steps: "replacement_Start mb r u0 = (Inr (r1, None), u1)"
      "waitHealthy line mb (rp_newID r1) (ao_HealthTimeout opts) moves u1 = (Inr y, u2)" "replacement_Commit mb r1 u2 = (c, u3)"
      "thn dropSnapshot (Report opts None) u3 = (Inr x, s')"
    by (auto simp: start_new_def bnd_def attempt_def ret_def throw_def split: prod.splits sum.splits option.splits)
  have "kept (dd_files u0) u1" by (rule keeps_run[where I = "kept (dd_files u0)", OF keeps_replacement_Start[OF tameD(1)[OF t]] k0 steps(1)])
  then have "kept (dd_files u0) u2" by (rule keeps_run[where I = "kept (dd_files u0)", OF keeps_waitHealthy[OF tameD(1,2)[OF t]] _ steps(2)])
  then have "kept (dd_files u0) u3" by (rule keeps_run[where I = "kept (dd_files u0)", OF keeps_replacement_Commit[OF tameD(1)[OF t]] _ steps(3)])
  then have u3: "dd_faults u3 = []" by (simp add: kept_def)
  have "answered mb (rp_newID r1)" by (rule waitHealthy_answered[OF steps(2)])
  then show ?thesis using steps(4) u3 by blast
qed


section \<open>Witnesses\<close>

text \<open>Docker with any container: the new one, once started, migrates the database; its health check answers or not.\<close>

definition panel_container :: "string \<Rightarrow> moby_container" where
  "panel_container k = \<lparr>mi_ID = k, mi_Name = ''/tunploy'', mi_Image = ''sha256:1'', mi_Config = Some blank_config,
     mi_State = Some \<lparr>ms_Status = ''running'', ms_Running = True, ms_Restarting = False, ms_ExitCode = 0\<rparr>,
     mi_HostConfig = Some blank_host_config, mi_Networks = []\<rparr>"

definition swap_moby :: "bool \<Rightarrow> 'm datadir moby" where
  "swap_moby ok =
     \<lparr>mb_ContainerInspect = (\<lambda>k s. (Inr (panel_container k), s)), mb_ContainerList = (\<lambda>_ s. (Inr [], s)),
      mb_ContainerCreate = (\<lambda>_ s. (Inr ''new'', s)),
      mb_ContainerStart = (\<lambda>k s. (Inr (), if k = ''new'' then put_file ''tunploy.db'' (Some ''v2'') s else s)),
      mb_ContainerStop = (\<lambda>_ _ s. (Inr (), s)), mb_ContainerRemove = (\<lambda>_ s. (Inr (), s)), mb_ContainerRename = (\<lambda>_ _ s. (Inr (), s)),
      mb_ContainerWait = (\<lambda>_ s. (Inr 0, s)), mb_ContainerLogs = (\<lambda>_ _ _ s. (Inr ([], Ended), s)),
      mb_ExecCreate = (\<lambda>_ _ s. (if ok then Inr ''e'' else Inl (OtherErr (NewError ''refused'')), s)),
      mb_ExecAttach = (\<lambda>_ s. (Inr (Inr ([], [])), s)), mb_ExecInspect = (\<lambda>_ s. (Inr 0, s)),
      mb_ImageInspect = (\<lambda>_ s. (Inr None, s)), mb_ImageBuild = (\<lambda>_ _ _ s. (Inr ([], None), s)), mb_ImagePull = (\<lambda>_ s. (Inr None, s)),
      mb_Ping = (\<lambda>s. (Inr (), s)), mb_ServerVersion = (\<lambda>s. (Inr ([], [], []), s)), mb_ClientVersion = [],
      mb_Info = (\<lambda>s. (Inr ([], [], [], [], [], 0, 0), s)), mb_PortFrom = (\<lambda>_ _. True)\<rparr>"

definition swap_opts :: ApplyOptions where
  "swap_opts = \<lparr>ao_Container = ''old'', ao_Image = ''tunploy:2'', ao_From = ''1'', ao_To = ''2'', ao_StopTimeout = 30 * second, ao_HealthTimeout = 90 * second\<rparr>"

definition swap_dir :: "unit datadir" where
  "swap_dir = \<lparr>dd_files = [''tunploy.db'' \<mapsto> ''v1''], dd_faults = [], dd_machine = ()\<rparr>"

lemma swap_tame: "tame (swap_moby b) [] ''old''"
  by (auto simp: tame_def moby_keeps_def call_keeps_def kept_def same_db_def own_files_def swap_moby_def put_file_def panel_container_def)

lemma swap_refused: "ExecUnmanaged (swap_moby False) k cmd s \<noteq> (Inr out, s')"
  by (simp add: ExecUnmanaged_def docker_exec_def api_call_def bnd_def swap_moby_def)

lemma swap_fails: "\<exists>e s'. update_Apply (\<lambda>_. None) (swap_moby False) [] swap_opts swap_dir = (Inl e, s')"
proof (rule ccontr)
  assume "\<not> ?thesis"
  then obtain x s' where run: "update_Apply (\<lambda>_. None) (swap_moby False) [] swap_opts swap_dir = (Inr x, s')"
    by (metis sum.exhaust surj_pair)
  have "tame (swap_moby False :: unit datadir moby) [] (ao_Container swap_opts)" "dd_faults swap_dir = []" using swap_tame by (simp_all add: swap_opts_def swap_dir_def)
  then obtain k where "answered (swap_moby False :: unit datadir moby) k" using update_Apply_Inr[OF _ _ run] by blast
  then show False by (auto simp: answered_def swap_refused)
qed

lemmas swap_defs = update_Apply_def Replace_def cloneConfig_def start_new_def replacement_Start_def replacement_Commit_def health_try_def
  docker_Running_def ExecUnmanaged_def docker_exec_def api_call_def bnd_def attempt_def ret_def liftE_def mapErr_def throw_def
  swap_moby_def panel_container_def

lemma swap_stops: "Replace (swap_moby b) ''old'' img t s = (Inr (r, oe), u) \<Longrightarrow> u = s"
  by (auto simp: swap_defs Let_def split: prod.splits sum.splits)

lemma swap_works: "\<exists>s'. update_Apply (\<lambda>_. None) (swap_moby True) [] swap_opts swap_dir = (Inr (), s')"
  by (simp add: swap_defs swap_opts_def swap_dir_def Let_def snapshotDB_run thn_def dropSnapshot_run Report_run put_file_def)



section \<open>Newer releases\<close>

lemma strings_Compare_sym: "strings_Compare a b = - strings_Compare b a"
  by (induction a b rule: strings_Compare.induct) auto

lemma strings_Compare_eq: "strings_Compare a b = 0 \<longleftrightarrow> a = b"
  by (induction a b rule: strings_Compare.induct) auto

lemma strings_Compare_trans: "strings_Compare a b > 0 \<Longrightarrow> strings_Compare b c > 0 \<Longrightarrow> strings_Compare a c > 0"
proof (induction a b arbitrary: c rule: strings_Compare.induct)
  case (4 x xs y ys)
  then show ?case by (cases c) (auto split: if_splits)
next
  case (3 x xs)
  then show ?case by (cases c) auto
qed auto

text \<open>What follows the dash: no pre-release is the latest.\<close>

definition pre_compare :: "string \<Rightarrow> string \<Rightarrow> int" where
  "pre_compare p q = (if p = q then 0 else if p = [] then 1 else if q = [] then - 1 else strings_Compare p q)"

lemma pre_compare_sym: "pre_compare p q = - pre_compare q p"
  using strings_Compare_sym [of p q] by (auto simp: pre_compare_def)

lemma pre_compare_eq: "pre_compare p q = 0 \<longleftrightarrow> p = q"
  by (auto simp: pre_compare_def strings_Compare_eq)

lemma pre_compare_trans: "pre_compare p q > 0 \<Longrightarrow> pre_compare q r > 0 \<Longrightarrow> pre_compare p r > 0"
  using strings_Compare_trans [of p q r] strings_Compare_sym [of p q] by (auto simp: pre_compare_def split: if_splits)

lemma parseVersion_core: "parseVersion s = Some v \<Longrightarrow> \<exists>x y z. vs_core v = [x, y, z]"
proof -
  have three: "length xs = 3 \<Longrightarrow> \<exists>x y z. xs = [x, y, z]" for xs :: "int list"
    by (auto simp: numeral_3_eq_3 length_Suc_conv)
  have "those ys = Some xs \<Longrightarrow> length xs = length ys" for ys :: "int option list" and xs
    by (induction ys arbitrary: xs) (auto split: option.splits)
  then show "parseVersion s = Some v \<Longrightarrow> ?thesis" 
    by (fastforce simp: parseVersion_def Let_def split: prod.splits option.splits if_splits intro!: three)
qed

lemma version_compare_core:
  assumes "vs_core v = [a, b, c]" "vs_core w = [x, y, z]"
  shows "version_compare v w = (if a \<noteq> x then cmp_Compare a x else if b \<noteq> y then cmp_Compare b y else if c \<noteq> z then cmp_Compare c z
    else pre_compare (vs_pre v) (vs_pre w))"
  using assms by (auto simp: version_compare_def cmp_Compare_def pre_compare_def)

text \<open>C21. Newer is an order on releases: of two releases one is newer or they are the same version, never each newer than
  the other, and what is newer than a newer one is newer. So a panel is never offered its own version and never
  goes round in a circle of updates.\<close>

theorem releases_ordered:
  assumes "IsRelease a" "IsRelease b" "IsRelease c"
  shows "(version_newer a b \<or> version_newer b a \<or> parseVersion a = parseVersion b)
    \<and> \<not> (version_newer a b \<and> version_newer b a) \<and> \<not> version_newer a a
    \<and> (version_newer a b \<longrightarrow> version_newer b c \<longrightarrow> version_newer a c)"
proof -
  obtain u v w where p: "parseVersion a = Some u" "parseVersion b = Some v" "parseVersion c = Some w"
    using assms by (auto simp: IsRelease_def)
  obtain u1 u2 u3 v1 v2 v3 w1 w2 w3 where cores: "vs_core u = [u1, u2, u3]" "vs_core v = [v1, v2, v3]" "vs_core w = [w1, w2, w3]"
    using p parseVersion_core by metis
  have eq: "u = v" if "vs_core u = vs_core v" "vs_pre u = vs_pre v" using that by simp
  note c = version_compare_core [OF cores(1,2)] version_compare_core [OF cores(2,1)] version_compare_core [OF cores(2,3)]
    version_compare_core [OF cores(1,3)] version_compare_core [OF cores(1,1)]
  have total: "version_compare u v > 0 \<or> version_compare v u > 0 \<or> u = v"
    unfolding c using pre_compare_sym [of "vs_pre u" "vs_pre v"] pre_compare_eq [of "vs_pre u" "vs_pre v"] eq cores
    by (auto simp: cmp_Compare_def)
  have anti: "\<not> (version_compare u v > 0 \<and> version_compare v u > 0)"
    unfolding c using pre_compare_sym [of "vs_pre u" "vs_pre v"] by (auto simp: cmp_Compare_def)
  have irr: "\<not> version_compare u u > 0" unfolding c by (simp add: pre_compare_def)
  have trans: "version_compare u v > 0 \<Longrightarrow> version_compare v w > 0 \<Longrightarrow> version_compare u w > 0"
    unfolding c using pre_compare_trans [of "vs_pre u" "vs_pre v" "vs_pre w"] by (auto simp: cmp_Compare_def split: if_splits)
  show ?thesis using total anti irr trans by (auto simp: version_newer_def p)
qed

theorem releases_ordered_witness:
  "version_newer ''v1.10.0'' ''1.9.3'' \<and> version_newer ''1.9.3'' ''1.9.3-rc.1'' \<and> version_newer ''v1.10.0'' ''1.9.3-rc.1''"
proof -
  have "IsRelease ''v1.10.0''" "IsRelease ''1.9.3''" "IsRelease ''1.9.3-rc.1''" by code_simp+
  moreover have "version_newer ''v1.10.0'' ''1.9.3''" "version_newer ''1.9.3'' ''1.9.3-rc.1''" by code_simp+
  ultimately show ?thesis using releases_ordered by blast
qed

section \<open>Starting an update\<close>

lemma not_newer_empty: "\<not> version_newer [] current"
  by (simp add: version_newer_def parseVersion_def TrimPrefix_def HasPrefix_def Cut_def)

text \<open>An update only starts on a released panel that can replace itself, for a version newer than its own, and while no
  other runs; from then on another start is refused until this one has ended.\<close>

theorem update_starts_once:
  assumes "update_Start v s = (Inr (Inr (self, target)), s')"
  shows "IsRelease (ue_current v) \<and> version_newer target (ue_current v) \<and> sf_Compose self = [] \<and> up_updating s' = target
    \<and> fst (update_Start v s') = Inr (Inl UpdateBusy)"
proof -
  obtain r t rel where t: "update_findSelf v s = (r, t)" "r = Inr self" "unsupported (ue_current v) r = []"
      "up_latest t = Some rel" "target = rl_Version rel" "version_newer target (ue_current v)" "s' = t\<lparr>up_updating := target, up_lastErr := []\<rparr>"
    using assms by (cases "update_findSelf v s")
      (auto simp: update_Start_def bnd_def attempt_def thn_def ret_def Let_def split: if_splits sum.splits option.splits)
  have "target \<noteq> []" using t(6) not_newer_empty by auto
  moreover obtain r' t' where t': "update_findSelf v s' = (r', t')" by fastforce
  moreover have "up_updating t' = up_updating s'"
    using t' by (auto simp: update_findSelf_def bnd_def attempt_def thn_def ret_def on_dir_def liftE_def modify_def gets_def throw_def
        split: option.splits sum.splits prod.splits)
  ultimately have "fst (update_Start v s') = Inr (Inl UpdateBusy)"
    using t(7) by (simp add: update_Start_def bnd_def attempt_def ret_def Let_def)
  then show ?thesis using t by (auto simp: unsupported_def split: if_splits)
qed

section \<open>A result that comes late\<close>

lemma Record_run_up:
  fixes s :: "('m, 'z) updates_scheme"
  shows "\<exists>s'. Record v e s = (Inr (), s') \<and> up_dir s' = up_dir s \<and> up_lastErr s' = up_lastErr s"
proof -
  obtain x s' where r: "Record v e s = (Inr x, s')" "core s' = core s" using silent_run [OF silent_Record] by blast
  have "up_dir (core s) = up_dir s" "up_lastErr (core s) = up_lastErr s" for s :: "('m, 'z) updates_scheme" by (simp_all add: core_def)
  then show ?thesis using r by (metis (full_types) old.unit.exhaust)
qed

lemma update_fail_run: "\<exists>s'. update_fail v target e s = (Inr (), s') \<and> up_dir s' = up_dir s \<and> up_lastErr s' = err_Error e"
  using Record_run_up [of "ue_env v" "(blank_event ''panel.update_failed'')\<lparr>e_Detail := target\<rparr>" "s\<lparr>up_updating := [], up_lastErr := err_Error e\<rparr>"]
  by (auto simp: update_fail_def thn_def bnd_run_Inr)

lemma no_result:
  assumes "dd_faults (up_dir s) = []" "dd_files (up_dir s) ''update.json'' = None"
  shows "consumeResult v s = (Inr False, s)"
  using assms by (simp add: consumeResult_def bnd_def attempt_def on_dir_def readResult_def os_ReadFile_def fs_step_def resultName_def ret_def)

lemma failed_result:
  assumes d: "dd_faults (up_dir s) = []" "dd_files (up_dir s) ''update.json'' = Some body"
    and res: "ue_result v body = Inr res" "ur_Error res \<noteq> []"
  shows "\<exists>s'. consumeResult v s = (Inr True, s') \<and> up_dir s' = put_file ''update.json'' None (up_dir s) \<and> up_lastErr s' = ur_Error res"
proof -
  let ?t = "s\<lparr>up_dir := put_file ''update.json'' None (up_dir s)\<rparr>"
  obtain s' where s': "update_fail v (ur_To res) (NewError (ur_Error res)) ?t = (Inr (), s')" "up_dir s' = up_dir ?t"
      "up_lastErr s' = ur_Error res"
    using update_fail_run [of v "ur_To res" "NewError (ur_Error res)" ?t] by auto
  have "on_dir (readResult (ue_result v)) s = (Inr (Some res), s)"
    using d res by (simp add: on_dir_def readResult_def bnd_def attempt_def os_ReadFile_def fs_step_def resultName_def ret_def)
  moreover have "on_dir removeResult s = (Inr (), ?t)"
    using d by (simp add: on_dir_def removeResult_def bnd_def attempt_def os_Remove_def fs_step_def resultName_def ret_def)
  ultimately show ?thesis using s' res(2) by (simp add: consumeResult_def bnd_def attempt_def thn_def ret_def)
qed

text \<open>
  An updater that ends while the panel looks whether it is still there: it leaves its result, drops its
  snapshot and is gone.
\<close>

definition late_moby :: "string \<Rightarrow> 'm datadir moby" where
  "late_moby body = (swap_moby True)\<lparr>mb_ContainerInspect := (\<lambda>k s.
     if k \<noteq> UpdaterName then (Inr (panel_container k), s)
     else (Inl (NotFoundErr (NewError ''no such container'')),
       if dd_files s ''tunploy.db.pre-update'' = None then s
       else put_file ''update.json'' (Some body) (put_file ''tunploy.db.pre-update'' None s)))\<rparr>"

lemma late_gone:
  assumes "ue_docker v = late_moby body"
  shows "updaterGone v s = (Inr True, s\<lparr>up_dir :=
    (if dd_files (up_dir s) ''tunploy.db.pre-update'' = None then up_dir s
     else put_file ''update.json'' (Some body) (put_file ''tunploy.db.pre-update'' None (up_dir s)))\<rparr>)"
  using assms
  by (simp add: updaterGone_def bnd_def attempt_def on_dir_def docker_Running_def api_call_def late_moby_def docker_wrap_def ret_def)

text \<open>C22. A failure the updater reports between two looks of the panel is reported twice, and its reason is lost: the tick
  that finds the result keeps its reason but waits on, and the next tick, with nothing left to read and the
  updater gone, says that the updater stopped before it replaced the panel.\<close>

theorem late_result_overwritten:
  fixes s :: "('m, 'z) updates_scheme"
  assumes v: "ue_docker v = late_moby body" "ue_result v body = Inr res" "ur_Error res \<noteq> []"
    and s: "dd_faults (up_dir s) = []" "dd_files (up_dir s) ''update.json'' = None" "dd_files (up_dir s) ''tunploy.db.pre-update'' \<noteq> None"
  shows "(\<exists>s1. apply_tick v target s = (Inr False, s1) \<and> up_lastErr s1 = ur_Error res)
    \<and> (\<exists>s'. apply_wait v target [id, id] s = (Inr (), s') \<and> up_lastErr s' = ''the updater stopped before it replaced the panel'')"
proof -
  let ?d = "put_file ''update.json'' (Some body) (put_file ''tunploy.db.pre-update'' None (up_dir s))"
  obtain s1 where s1: "consumeResult v (s\<lparr>up_dir := ?d\<rparr>) = (Inr True, s1)" "up_dir s1 = put_file ''update.json'' None ?d" "up_lastErr s1 = ur_Error res"
    using failed_result [of "s\<lparr>up_dir := ?d\<rparr>" body v res] s v by (auto simp: put_file_def)
  have t1: "apply_tick v target s = (Inr False, s1)"
    using no_result [OF s(1,2)] late_gone [OF v(1), of s] s(3) s1(1) by (simp add: apply_tick_def bnd_def ret_def)
  have d1: "dd_faults (up_dir s1) = []" "dd_files (up_dir s1) ''update.json'' = None" "dd_files (up_dir s1) ''tunploy.db.pre-update'' = None"
    using s(1) by (simp_all add: s1(2) put_file_def)
  obtain s' where s': "update_fail v target (NewError ''the updater stopped before it replaced the panel'') s1 = (Inr (), s')"
      "up_lastErr s' = ''the updater stopped before it replaced the panel''"
    using update_fail_run [of v target "NewError ''the updater stopped before it replaced the panel''" s1] by auto
  have t2: "apply_tick v target s1 = (Inr True, s')"
    using no_result [OF d1(1,2)] late_gone [OF v(1), of s1] d1(3) s'(1) by (simp add: apply_tick_def bnd_def thn_def ret_def)
  have "on_dir (modify id) u = (Inr (), u)" for u :: "('m, 'z) updates_scheme" by (simp add: on_dir_def modify_def)
  then have "apply_wait v target [id, id] s = (Inr (), s')" using t1 t2 by (simp add: thn_def bnd_def ret_def)
  then show ?thesis using t1 s1(3) s'(2) by blast
qed

section \<open>Witnesses\<close>

text \<open>A panel of version 1.0.0 that knows of 1.1.0, with an update's snapshot on the disk.\<close>

definition demo_updates :: "fake updates" where
  "demo_updates = api.extend (world.extend office_world
       \<lparr>ap_throttle = [], ap_buckets = [], rw_header = [], rw_status = None, rw_last = None, rw_body = []\<rparr>)
     \<lparr>up_self = Some \<lparr>sf_ID = ''old'', sf_Name = ''tunploy'', sf_Image = ''tunploy:1.0.0'', sf_Compose = [], sf_Source = []\<rparr>,
      up_selfErr = None, up_latest = Some \<lparr>rl_Version = ''1.1.0'', rl_URL = [], rl_PublishedAt = 0\<rparr>, up_checkedAt = zero_time,
      up_checkErr = [], up_updating = [], up_lastErr = [],
      up_dir = \<lparr>dd_files = [''tunploy.db'' \<mapsto> ''v1'', ''tunploy.db.pre-update'' \<mapsto> ''v1''], dd_faults = [], dd_machine = new_fake\<rparr>\<rparr>"

definition demo_update_env :: "fake update_env" where
  "demo_update_env =
     \<lparr>ue_env = utc_env 0, ue_current = ''1.0.0'', ue_docker = late_moby ''{}'', ue_hostname = Inr ''old'', ue_API = [],
      ue_request = (\<lambda>_. None), ue_get = (\<lambda>_ _. Inr (404, [])), ue_message = (\<lambda>_. None), ue_release = (\<lambda>_. Inl (NewError ''EOF'')),
      ue_result = (\<lambda>_. Inr \<lparr>ur_From = ''1.0.0'', ur_To = ''1.1.0'', ur_Error = ''port taken''\<rparr>), ue_printable = (\<lambda>_. True)\<rparr>"

lemma demo_updates_fields:
  "up_self demo_updates = Some \<lparr>sf_ID = ''old'', sf_Name = ''tunploy'', sf_Image = ''tunploy:1.0.0'', sf_Compose = [], sf_Source = []\<rparr>"
  "up_latest demo_updates = Some \<lparr>rl_Version = ''1.1.0'', rl_URL = [], rl_PublishedAt = 0\<rparr>" "up_updating demo_updates = []"
  "up_dir demo_updates = \<lparr>dd_files = [''tunploy.db'' \<mapsto> ''v1'', ''tunploy.db.pre-update'' \<mapsto> ''v1''], dd_faults = [], dd_machine = new_fake\<rparr>"
  by (simp_all add: demo_updates_def api.defs)

theorem update_starts_once_witness:
  "\<exists>self s'. update_Start demo_update_env demo_updates = (Inr (Inr (self, ''1.1.0'')), s') \<and> fst (update_Start demo_update_env s') = Inr (Inl UpdateBusy)"
proof -
  have rel: "IsRelease ''1.0.0''" "version_newer ''1.1.0'' ''1.0.0''" by code_simp+
  have "\<exists>self s'. update_Start demo_update_env demo_updates = (Inr (Inr (self, ''1.1.0'')), s')"
    using rel by (simp add: update_Start_def update_findSelf_def bnd_def attempt_def thn_def ret_def Let_def demo_updates_fields
        demo_update_env_def unsupported_def)
  then show ?thesis using update_starts_once by blast
qed

theorem late_result_overwritten_witness:
  "\<exists>s'. apply_wait demo_update_env ''1.1.0'' [id, id] demo_updates = (Inr (), s') \<and> up_lastErr s' = ''the updater stopped before it replaced the panel''"
  using late_result_overwritten [of demo_update_env "''{}''" _ demo_updates "''1.1.0''"]
  by (simp add: demo_update_env_def demo_updates_fields)

end
