(* ===== verification/Spec2Isabelle.thy ===== *)
theory Spec2Isabelle
  imports CommandProperties WebhookProperties ApiInvariant DeviceProperties CryptProperties RestoreProperties BackupProperties
    NodeProperties ApiNodes UpdateProperties
begin

text \<open>
  Tunploy is a self-hosted control panel for WireGuard servers, written in Go. An administrator signs in
  over HTTP, creates servers (instances) and devices (peers), and the panel keeps them in SQLite, runs one
  container per server on this machine or on nodes reached over SSH, watches the tunnels, records traffic,
  enforces limits and tells other programs through webhooks, email and an API. This library models the
  parts of it that decide something, as HOL functions translated from the source, and proves what makes
  them correct.

  \<^bold>\<open>How the parts interact.\<close> A request goes through the middleware of internal/api to a handler, which calls
  a service (internal/peer, internal/instance). A service checks its input (internal/wg), saves it
  (internal/store), records an event (internal/event), and brings the container in line
  (internal/deploy), which renders the config files (internal/wg) and works on a machine through the
  interface of internal/host. The watcher of internal/deploy reads the tunnels back, records usage in the
  store and reports who came and went. The dispatcher of internal/webhook and the mailer of
  internal/notify send what the journal queued.

  \<^bold>\<open>Conventions.\<close> A Go struct is a \<open>record\<close>, an error a value of the datatype \<open>err\<close> with one constructor
  per sentinel or wrapper, a function that may fail returns \<open>err + 'a\<close>, and code that works on state is a
  \<open>('s, 'a) prog\<close> of Prelude: a function from the state to an outcome and the state left behind, so every
  error path says what it leaves. A string is its list of bytes; \<open>Strings\<close> holds Go's UTF-8 decoder and the
  functions of package strings. Addresses are words of 32 and 128 bits, \<open>int64\<close> values are \<open>int\<close> with
  \<open>wrap64\<close> where they can overflow, \<open>float64\<close> values are rationals rounded to 53 bits, and times are
  nanoseconds since 1970 as \<open>int\<close>. Operations keep their names; one that clashes has its receiver's or
  package's name in front (\<open>peer_Create\<close>, \<open>instance_Create\<close>).

  \<^bold>\<open>Prelude and text.\<close> Prelude: errors (internal/apperr), programs, the triple logic (\<open>triple\<close>, \<open>keeps\<close>) the
  component proofs run on, and 64-bit arithmetic. Strings, Netip: the parts of Go's strings, strconv,
  unicode/utf8 and net/netip the program uses.

  \<^bold>\<open>internal/wg.\<close> WgKey (key.go), WgModel (model.go, limits.go), WgAddress (address.go), WgValidate
  (validate.go), WgConfig (config.go), WgStats (stats.go). WgProperties: the address allocator finds the
  least free host address, validation accepts exactly the valid servers and devices, no device name adds a
  line to a config, an endpoint's zone does, and what wg prints is read back.

  \<^bold>\<open>internal/store.\<close> StoreDb is the database: tables as lists of rows, unique indexes, foreign keys,
  transactions. \<open>t_faults\<close> is a list of failures still to come: each statement consumes one, so a theorem
  for all states covers a failure at any statement; when the list is empty nothing fails any more. The
  operations are in StoreWireguard (wireguard.go), StoreTraffic (traffic.go), StoreDevices (devices.go),
  StoreAccounts (users.go, sessions.go, settings.go), StoreNodes (nodes.go), StorePanel (the other tables),
  StoreKeys (apikeys.go), StoreEvents (events.go), StoreWebhooks (webhooks.go). StoreInv and StoreOps prove
  the invariant \<open>db_inv\<close> of the tables and what each operation returns and leaves alone; StoreProperties,
  TrafficFacts, TrafficSpec, TrafficProperties and PanelProperties hold the properties.
  \<open>TrafficSpec.device\<close> is the abstract view of a device that the readings refine.

  \<^bold>\<open>Events, mail, webhooks.\<close> Journal (internal/event event.go, public.go), EventText (text.go), Notify
  (internal/notify: settings, queue, batches, hourly cap), Webhook (internal/webhook: signing, sending,
  retries, the loop that drains the backlog, as a recursion that provably ends) with WebhookProperties.

  \<^bold>\<open>Commands.\<close> PeerService (internal/peer), InstanceService (internal/instance), Deploy (internal/deploy:
  deploy.go, limits.go, progress.go, status.go), Reconcile (reconcile.go), Watch (watch.go, activity.go).
  A machine is a value of any type with a record \<open>Host\<close> of its operations. Machine states the laws such a
  machine obeys as a locale; Dockertest is the fake machine of the program's own tests and an
  interpretation of that locale, and DeployFacts interprets the manager as the interface \<open>tunnels\<close> the
  device commands are proved against. PeerFacts, InstanceFacts, ReconcileFacts and NodeUpFacts hold the
  lemmas, CommandProperties the properties: after a node comes up its containers and files are exactly
  what the database says, and on a machine in order bringing it up succeeds.

  \<^bold>\<open>HTTP.\<close> Http (internal/httpx), Auth (internal/auth), ApiClient (client.go, middleware.go), ApiAuth
  (auth.go, totp.go), ApiKeys (apikeys.go), ApiDevices, ApiGroups (v1_devices.go, v1_groups.go, peers.go,
  share.go), ApiServers (v1_servers.go, instances.go, settings.go, events.go), ApiRoutes (webhooks.go and
  the table of /api/v1). ApiFacts and ApiLimits hold the lemmas; ApiProperties says who gets in, how often
  and what a let-in request leaves behind; DeviceProperties follows device and server commands down to the
  tables; ApiInvariant shows that no request to /api/v1 breaks the database.

  \<^bold>\<open>Backups.\<close> BackupCrypt (internal/backup/crypt.go): the encryption of an archive, chunk by chunk, as a writer
  and a reader over parameters for Argon2 and AES-GCM; CryptProperties shows that what was written comes
  back and that nothing else does. StoreBackup (internal/store/backup.go): a snapshot and the restore that
  replaces every table in one transaction; RestoreProperties shows it replaces the data or changes nothing.
  BackupS3 (s3.go): signing, requests and paging of a bucket. BackupService (archive.go, service.go):
  unpacking, settings, schedule, upload and pruning; BackupRestore (restore.go): restoring and what catches
  up after it; ApiBackups (internal/api/backups.go): the handlers. BackupProperties holds their properties.

  \<^bold>\<open>Docker and nodes.\<close> Texts: the functions of strings and path these parts use. DockerClient
  (internal/docker): the client on a record \<open>moby\<close> of the Engine's calls, and the container the panel itself
  runs in. NodeSSH (internal/node/ssh.go, host.go): logging in, quoting, running commands, files. NodePool
  (pool.go): a connection as a state machine whose labels are what happens on the network, and the pool in
  the panel's state. NodeService (setup.go, service.go), ApiNodes (internal/api/nodes.go).
  NodeProperties holds the properties: a container the panel did not
  create is left alone, a node's reports alternate, a script is one word to the shell.

  \<^bold>\<open>Updates.\<close> Update (internal/update/version.go, update.go; internal/api/update.go, system.go): which
  release is newer, asking for it, starting and what became of it. UpdateApply (apply.go): the updater, on
  the files of the data directory and a Docker that works on the same state. UpdateProperties shows that a
  failed update puts the database back, and that newer is an order, that one update runs at a
  time, and how a late result is lost.
  \<^bold>\<open>Bounds and fuel.\<close> Most loops are recursions over data or \<open>function\<close>s with a termination proof. The paging
  of a bucket's list (\<open>list_pages\<close>) ends only when the bucket says so and is a partial function, None when it
  never does; \<open>to_weeklyDay\<close> is one as well. Two run on fuel: \<open>drain\<close>, the dispatcher's loop over the backlog, and \<open>poll\<close>, a client that pages through
  the log; \<open>drain_terminates\<close> and \<open>poll_complete\<close> say which fuel is enough, and that it always exists. One handler reads the clock once: all instants of a request are the one of its environment.

  \<^bold>\<open>Parameters.\<close> What is not in the repository is an argument of the definitions that use it: Curve25519,
  SHA-1, SHA-256, HMAC, Argon2, AES-GCM and the random bytes; the Unicode tables past ASCII
  (\<open>unicode.ToLower\<close>, \<open>IsPrint\<close>); \<open>url.Parse\<close> and \<open>mail.ParseAddress\<close>; QR codes; the offsets of a time zone;
  DNS; the receivers of webhooks and the mail server; the operations of a machine; gzip and tar; the bucket's
  server; the Docker Engine; the SSH library. Laws about them are
  hypotheses of a theorem, named in it, and every such theorem has a witness with a concrete function.
  The parsing of a request body is encoding/json's, so a handler gets its outcome (\<open>decoded\<close>).

  \<^bold>\<open>Concurrency.\<close> The panel serializes what matters: one database connection, one lock per node in the
  manager, one mutex per table in memory. An operation under its lock is one function here, and properties
  over several operations quantify over sequences of them. Interleavings inside an operation that holds no
  lock (two servers created at once planning the same subnet, two guesses at a password in the window
  between check and count) are not modelled.

  \<^bold>\<open>Not modelled.\<close> The bytes that carry Docker over SSH, SMTP and the HTML of mails, certificates, GeoIP files,
  the process's start-up and command line, migrations and the web interface are wire formats and glue
  around libraries and decide little of their own. Log lines, tickers and wake-up channels are left out of
  the operations that are modelled.
\<close>

end
